(* ===== verification/Prelude.thy ===== *)
theory Prelude
  imports Main
begin

text \<open>
  Shared ground of the development: the type of JavaScript strings, results of
  operations that may throw, the collections of rewrite rules the component
  theories extend, and the list lemmas more than one of them needs.
\<close>

section \<open>Rule collections\<close>

named_theorems js_simps \<open>unfolding rules for the JavaScript string and object helpers\<close>
named_theorems guard_simps \<open>unfolding rules for configuration and permission guards\<close>
named_theorems io_simps \<open>unfolding rules for operations on the outside world\<close>

section \<open>Strings\<close>

text \<open>
  A JavaScript string is a sequence of 16-bit code units. All text in the program
  lies in the basic multilingual plane except a few emoji, which the code also
  sees as two units, so \<open>length\<close>, \<open>slice\<close> and comparison agree with
  the source. A literal is written \<open>lit ''...''\<close> when it is ASCII and as a list of
  hexadecimal code units when it is Thai.
\<close>

type_synonym jstr = "nat list"

definition lit :: "string \<Rightarrow> jstr" where
  "lit s = map of_char s"

lemma lit_Nil [simp]: "lit [] = []"
  by (simp add: lit_def)

lemma lit_append: "lit (s @ t) = lit s @ lit t"
  by (simp add: lit_def)

lemma lit_eq_Nil_iff [simp]: "lit s = [] \<longleftrightarrow> s = []"
  by (simp add: lit_def)

lemma length_lit [simp]: "length (lit s) = length s"
  by (simp add: lit_def)

lemma lit_eq_iff [simp]: "lit s = lit t \<longleftrightarrow> s = t"
proof -
  have "inj (of_char :: char \<Rightarrow> nat)" by (rule injI) simp
  then show ?thesis by (simp add: lit_def inj_map_eq_map)
qed

section \<open>Results and errors\<close>

text \<open>
  What a \<open>throw\<close> in the source carries: a plain \<open>Error\<close> with its message, a
  \<open>TypeError\<close> raised by the runtime, the \<open>HttpError\<close> of
  \<open>shared/_core/errors.ts\<close>, a \<open>TRPCError\<close> with its code, or a thrown value that is
  not an \<open>Error\<close> at all.
\<close>

datatype trpc_code = UNAUTHORIZED | FORBIDDEN | BAD_REQUEST | NOT_FOUND | INTERNAL_SERVER_ERROR

datatype js_error =
    JsError jstr
  | JsTypeError jstr
  | JsHttpError nat jstr
  | JsTrpcError trpc_code jstr
  | JsThrown jstr

text \<open>\<open>error instanceof Error ? error.message : ...\<close>: \<open>None\<close> when it is no \<open>Error\<close>.\<close>

fun error_message :: "js_error \<Rightarrow> jstr option" where
  "error_message (JsError m) = Some m"
| "error_message (JsTypeError m) = Some m"
| "error_message (JsHttpError _ m) = Some m"
| "error_message (JsTrpcError _ m) = Some m"
| "error_message (JsThrown _) = None"

type_synonym 'a result = "js_error + 'a"

fun result_bind :: "'a result \<Rightarrow> ('a \<Rightarrow> 'b result) \<Rightarrow> 'b result" where
  "result_bind (Inl e) f = Inl e"
| "result_bind (Inr x) f = f x"

lemma result_bind_Inr_iff:
  "result_bind r f = Inr y \<longleftrightarrow> (\<exists>x. r = Inr x \<and> f x = Inr y)"
  by (cases r) auto

lemma result_bind_assoc:
  "result_bind (result_bind r f) g = result_bind r (\<lambda>x. result_bind (f x) g)"
  by (cases r) auto

section \<open>Operations on the outside world\<close>

text \<open>
  An asynchronous function of the source takes the state of the world it acts on and
  returns its result or the error it throws, with the world as it leaves it. Effects
  made before a throw stay.
\<close>

type_synonym ('w, 'a) io = "'w \<Rightarrow> 'a result \<times> 'w"

definition io_return :: "'a \<Rightarrow> ('w, 'a) io" where
  "io_return x = (\<lambda>w. (Inr x, w))"

definition io_throw :: "js_error \<Rightarrow> ('w, 'a) io" where
  "io_throw e = (\<lambda>w. (Inl e, w))"

definition io_result :: "'a result \<Rightarrow> ('w, 'a) io" where
  "io_result r = (\<lambda>w. (r, w))"

definition io_bind :: "('w, 'a) io \<Rightarrow> ('a \<Rightarrow> ('w, 'b) io) \<Rightarrow> ('w, 'b) io" where
  "io_bind m f = (\<lambda>w. case m w of (Inl e, w') \<Rightarrow> (Inl e, w') | (Inr x, w') \<Rightarrow> f x w')"

text \<open>\<open>try { m } catch (e) { h(e) }\<close>.\<close>

definition io_catch :: "('w, 'a) io \<Rightarrow> (js_error \<Rightarrow> ('w, 'a) io) \<Rightarrow> ('w, 'a) io" where
  "io_catch m h = (\<lambda>w. case m w of (Inl e, w') \<Rightarrow> h e w' | (Inr x, w') \<Rightarrow> (Inr x, w'))"

text \<open>Running an operation on one part of a larger world.\<close>

definition io_zoom :: "('w \<Rightarrow> 'v) \<Rightarrow> ('v \<Rightarrow> 'w \<Rightarrow> 'w) \<Rightarrow> ('v, 'a) io \<Rightarrow> ('w, 'a) io" where
  "io_zoom get put m = (\<lambda>w. case m (get w) of (r, v) \<Rightarrow> (r, put v w))"

lemmas io_defs = io_return_def io_throw_def io_result_def io_bind_def io_catch_def

lemma io_bind_return [simp]: "io_bind (io_return x) f = f x"
  by (simp add: io_defs)

lemma io_bind_throw [simp]: "io_bind (io_throw e) f = io_throw e"
  by (simp add: io_defs)

lemma io_bind_Inr:
  "io_bind m f w = (Inr y, w'') \<longleftrightarrow> (\<exists>x w'. m w = (Inr x, w') \<and> f x w' = (Inr y, w''))"
  by (auto simp: io_bind_def split: prod.splits sum.splits)

lemma io_bind_assoc: "io_bind (io_bind m f) g = io_bind m (\<lambda>x. io_bind (f x) g)"
  by (rule ext) (auto simp: io_bind_def split: prod.splits sum.splits)

text \<open>
  \<open>keeps f m\<close>: whatever \<open>m\<close> returns or throws, it leaves the part \<open>f\<close> of the world as it
  was. The rules follow the shape of an operation.
\<close>

named_theorems keeps_rules \<open>introduction rules for keeps\<close>

definition keeps :: "('w \<Rightarrow> 'x) \<Rightarrow> ('w, 'a) io \<Rightarrow> bool" where
  "keeps f m \<longleftrightarrow> (\<forall>w. f (snd (m w)) = f w)"

lemma keepsD: "keeps f m \<Longrightarrow> m w = (r, w') \<Longrightarrow> f w' = f w"
  unfolding keeps_def by (metis snd_conv)

lemma keeps_return [keeps_rules]: "keeps f (io_return x)"
  by (simp add: keeps_def io_return_def)

lemma keeps_throw [keeps_rules]: "keeps f (io_throw e)"
  by (simp add: keeps_def io_throw_def)

lemma keeps_result [keeps_rules]: "keeps f (io_result r)"
  by (simp add: keeps_def io_result_def)

lemma keeps_bind [keeps_rules]: "keeps f m \<Longrightarrow> (\<And>x. keeps f (g x)) \<Longrightarrow> keeps f (io_bind m g)"
  by (auto simp: keeps_def io_bind_def split: prod.splits sum.splits) (metis snd_conv)+

lemma keeps_catch [keeps_rules]: "keeps f m \<Longrightarrow> (\<And>e. keeps f (h e)) \<Longrightarrow> keeps f (io_catch m h)"
  by (auto simp: keeps_def io_catch_def split: prod.splits sum.splits) (metis snd_conv)+

lemma keeps_if [keeps_rules]: "keeps f m \<Longrightarrow> keeps f n \<Longrightarrow> keeps f (if b then m else n)"
  by simp

lemma keeps_zoom: "(\<And>v w. f (put v w) = f w) \<Longrightarrow> keeps f (io_zoom get put m)"
  by (simp add: keeps_def io_zoom_def split: prod.splits)

section \<open>JavaScript's \<open>undefined\<close>, \<open>null\<close> and values of optional fields\<close>

text \<open>
  An optional nullable property of a TypeScript object distinguishes an absent
  (or \<open>undefined\<close>) value from an explicit \<open>null\<close>.
\<close>

datatype 'a field = Undef | Null | Val 'a

fun field_truthy :: "jstr field \<Rightarrow> bool" where
  "field_truthy (Val s) = (s \<noteq> [])"
| "field_truthy _ = False"

text \<open>\<open>x ?? y\<close> and \<open>x || y\<close> on string-valued optional properties.\<close>

fun nullish :: "'a field \<Rightarrow> 'a field \<Rightarrow> 'a field" where
  "nullish (Val x) y = Val x"
| "nullish _ y = y"

definition field_or :: "jstr field \<Rightarrow> jstr field \<Rightarrow> jstr field" where
  "field_or x y = (if field_truthy x then x else y)"

lemma nullish_not_Undef: "y \<noteq> Undef \<Longrightarrow> nullish x y \<noteq> Undef"
  by (cases x) auto

section \<open>List lemmas\<close>

lemma filter_takeWhile_all: "list_all P xs \<Longrightarrow> takeWhile P xs = xs"
  by (induction xs) auto

lemma sum_list_map_filter_le:
  fixes f :: "'a \<Rightarrow> nat"
  shows "sum_list (map f (filter P xs)) \<le> sum_list (map f xs)"
  by (induction xs) auto

lemma distinct_set_length_eq:
  assumes "distinct xs" and "distinct ys" and "set xs = set ys"
  shows "length xs = length ys"
  using assms by (metis distinct_card)

lemma sorted_wrt_take: "sorted_wrt R xs \<Longrightarrow> sorted_wrt R (take n xs)"
  by (metis append_take_drop_id sorted_wrt_append)

lemma find_Some_in_set: "List.find P xs = Some x \<Longrightarrow> x \<in> set xs \<and> P x"
  by (metis find_Some_iff nth_mem)

lemma find_None_all: "List.find P xs = None \<longleftrightarrow> (\<forall>x \<in> set xs. \<not> P x)"
  by (auto simp: find_None_iff)

lemma set_concat_map: "set (concat (map f xs)) = (\<Union>x \<in> set xs. set (f x))"
  by simp

text \<open>The position of the first element with a property, as \<open>findIndex\<close> returns it.\<close>

fun find_index :: "('a \<Rightarrow> bool) \<Rightarrow> 'a list \<Rightarrow> nat option" where
  "find_index P [] = None"
| "find_index P (x # xs) =
     (if P x then Some 0 else map_option Suc (find_index P xs))"

lemma find_index_Some:
  "find_index P xs = Some i \<Longrightarrow>
     i < length xs \<and> P (xs ! i) \<and> (\<forall>j < i. \<not> P (xs ! j))"
proof (induction xs arbitrary: i)
  case Nil
  then show ?case by simp
next
  case (Cons x xs)
  show ?case
  proof (cases "P x")
    case True
    with Cons.prems show ?thesis by simp
  next
    case False
    with Cons.prems obtain k where k: "find_index P xs = Some k" and i: "i = Suc k"
      by auto
    from Cons.IH [OF k] False i show ?thesis
      by (auto simp: less_Suc_eq_0_disj)
  qed
qed

lemma find_index_None: "find_index P xs = None \<longleftrightarrow> (\<forall>x \<in> set xs. \<not> P x)"
  by (induction xs) auto

end
