(* ===== verification/JsNumber.thy ===== *)
theory JsNumber
  imports Complex_Main Prelude
begin

text \<open>
  JavaScript numbers with their special values. Arithmetic on finite values is exact
  rational arithmetic: the rounding of a double's last bit is not modelled, and neither
  is the sign of zero, but division by zero, infinities, \<open>NaN\<close>, comparisons with
  \<open>NaN\<close> (always false) and \<open>Math.round\<close>, \<open>Math.ceil\<close>, \<open>Math.min\<close> and \<open>Math.max\<close>
  are. The type is an instance of the arithmetic and order classes, so that the
  calculator's formulas read as in the source.
\<close>

datatype jsnum = NaN | PInf | NInf | Fin rat

section \<open>Arithmetic\<close>

fun jadd :: "jsnum \<Rightarrow> jsnum \<Rightarrow> jsnum" where
  "jadd NaN _ = NaN"
| "jadd _ NaN = NaN"
| "jadd PInf NInf = NaN"
| "jadd NInf PInf = NaN"
| "jadd PInf _ = PInf"
| "jadd _ PInf = PInf"
| "jadd NInf _ = NInf"
| "jadd _ NInf = NInf"
| "jadd (Fin a) (Fin b) = Fin (a + b)"

fun jneg :: "jsnum \<Rightarrow> jsnum" where
  "jneg NaN = NaN"
| "jneg PInf = NInf"
| "jneg NInf = PInf"
| "jneg (Fin a) = Fin (- a)"

definition inf_of_sign :: "rat \<Rightarrow> jsnum" where
  "inf_of_sign s = (if s = 0 then NaN else if 0 < s then PInf else NInf)"

fun jmul :: "jsnum \<Rightarrow> jsnum \<Rightarrow> jsnum" where
  "jmul NaN _ = NaN"
| "jmul _ NaN = NaN"
| "jmul PInf PInf = PInf"
| "jmul PInf NInf = NInf"
| "jmul NInf PInf = NInf"
| "jmul NInf NInf = PInf"
| "jmul PInf (Fin b) = inf_of_sign b"
| "jmul (Fin a) PInf = inf_of_sign a"
| "jmul NInf (Fin b) = inf_of_sign (- b)"
| "jmul (Fin a) NInf = inf_of_sign (- a)"
| "jmul (Fin a) (Fin b) = Fin (a * b)"

fun jdiv :: "jsnum \<Rightarrow> jsnum \<Rightarrow> jsnum" where
  "jdiv NaN _ = NaN"
| "jdiv _ NaN = NaN"
| "jdiv (Fin a) (Fin b) = (if b = 0 then inf_of_sign a else Fin (a / b))"
| "jdiv (Fin a) _ = Fin 0"
| "jdiv PInf (Fin b) = (if b < 0 then NInf else PInf)"
| "jdiv NInf (Fin b) = (if b < 0 then PInf else NInf)"
| "jdiv _ _ = NaN"

instantiation jsnum :: "{zero, one, plus, uminus, minus, times, inverse, ord}"
begin

definition zero_jsnum :: jsnum where "zero_jsnum = Fin 0"

definition one_jsnum :: jsnum where "one_jsnum = Fin 1"

definition plus_jsnum :: "jsnum \<Rightarrow> jsnum \<Rightarrow> jsnum" where "plus_jsnum = jadd"

definition uminus_jsnum :: "jsnum \<Rightarrow> jsnum" where "uminus_jsnum = jneg"

definition minus_jsnum :: "jsnum \<Rightarrow> jsnum \<Rightarrow> jsnum" where "minus_jsnum a b = jadd a (jneg b)"

definition times_jsnum :: "jsnum \<Rightarrow> jsnum \<Rightarrow> jsnum" where "times_jsnum = jmul"

definition divide_jsnum :: "jsnum \<Rightarrow> jsnum \<Rightarrow> jsnum" where "divide_jsnum = jdiv"

definition inverse_jsnum :: "jsnum \<Rightarrow> jsnum" where "inverse_jsnum = jdiv (Fin 1)"

fun less_eq_jsnum :: "jsnum \<Rightarrow> jsnum \<Rightarrow> bool" where
  "less_eq_jsnum NaN _ = False"
| "less_eq_jsnum _ NaN = False"
| "less_eq_jsnum NInf _ = True"
| "less_eq_jsnum _ PInf = True"
| "less_eq_jsnum (Fin a) (Fin b) = (a \<le> b)"
| "less_eq_jsnum _ _ = False"

fun less_jsnum :: "jsnum \<Rightarrow> jsnum \<Rightarrow> bool" where
  "less_jsnum NaN _ = False"
| "less_jsnum _ NaN = False"
| "less_jsnum (Fin a) (Fin b) = (a < b)"
| "less_jsnum NInf b = (b \<noteq> NInf)"
| "less_jsnum a PInf = (a \<noteq> PInf)"
| "less_jsnum _ _ = False"

instance ..

end

lemma jadd_assoc: "jadd (jadd a b) c = jadd a (jadd b c)"
  by (cases a; cases b; cases c) auto

lemma jadd_comm: "jadd a b = jadd b a"
  by (cases a; cases b) auto

instance jsnum :: ab_semigroup_add
  by standard (auto simp: plus_jsnum_def jadd_assoc intro: jadd_comm)

instance jsnum :: power ..

instance jsnum :: numeral ..

lemma numeral_jsnum [simp]: "(numeral n :: jsnum) = Fin (numeral n)"
proof (induction n)
  case One
  show ?case by (simp only: numeral_One one_jsnum_def)
next
  case (Bit0 n)
  then show ?case by (simp only: numeral_Bit0 plus_jsnum_def jadd.simps)
next
  case (Bit1 n)
  then show ?case by (simp only: numeral_Bit1 plus_jsnum_def one_jsnum_def jadd.simps)
qed

lemma zero_Fin [simp]: "(0 :: jsnum) = Fin 0"
  by (simp add: zero_jsnum_def)

lemma one_Fin [simp]: "(1 :: jsnum) = Fin 1"
  by (simp add: one_jsnum_def)

lemma Fin_arith [simp]:
  "Fin a + Fin b = Fin (a + b)"
  "Fin a - Fin b = Fin (a - b)"
  "- Fin a = Fin (- a)"
  "Fin a * Fin b = Fin (a * b)"
  by (simp_all add: plus_jsnum_def minus_jsnum_def uminus_jsnum_def times_jsnum_def)

lemma Fin_divide: "Fin a / Fin b = (if b = 0 then inf_of_sign a else Fin (a / b))"
  by (simp add: divide_jsnum_def)

lemma Fin_divide_nz [simp]: "b \<noteq> 0 \<Longrightarrow> Fin a / Fin b = Fin (a / b)"
  by (simp add: Fin_divide)

lemma NaN_arith [simp]:
  "NaN + x = NaN" "x + NaN = NaN" "NaN - x = NaN" "x - NaN = NaN"
  "NaN * x = NaN" "x * NaN = NaN" "NaN / x = NaN" "x / NaN = NaN" "- NaN = NaN"
  by (cases x; simp add: plus_jsnum_def minus_jsnum_def times_jsnum_def divide_jsnum_def
      uminus_jsnum_def)+

lemma NaN_ord [simp]:
  "\<not> NaN \<le> x" "\<not> x \<le> NaN" "\<not> NaN < x" "\<not> x < NaN"
  by (cases x; simp)+

lemma Fin_power [simp]: "Fin a ^ n = Fin (a ^ n)"
  by (induction n) (simp_all add: power.simps)

lemma less_imp_le_jsnum: "(a :: jsnum) < b \<Longrightarrow> a \<le> b"
  by (cases a; cases b) auto

lemma le_trans_jsnum: "(a :: jsnum) \<le> b \<Longrightarrow> b \<le> c \<Longrightarrow> a \<le> c"
  by (cases a; cases b; cases c) auto

definition is_finite :: "jsnum \<Rightarrow> bool" where
  "is_finite x \<longleftrightarrow> (case x of Fin _ \<Rightarrow> True | _ \<Rightarrow> False)"

lemma is_finite_Fin [simp]: "is_finite (Fin a)"
  by (simp add: is_finite_def)

lemma is_finite_iff: "is_finite x \<longleftrightarrow> (\<exists>a. x = Fin a)"
  by (cases x) (auto simp: is_finite_def)

section \<open>The \<open>Math\<close> functions\<close>

fun math_map :: "(rat \<Rightarrow> rat) \<Rightarrow> jsnum \<Rightarrow> jsnum" where
  "math_map f (Fin a) = Fin (f a)"
| "math_map f x = x"

definition math_round :: "jsnum \<Rightarrow> jsnum" where
  "math_round = math_map (\<lambda>a. of_int \<lfloor>a + 1 / 2\<rfloor>)"

definition math_ceil :: "jsnum \<Rightarrow> jsnum" where
  "math_ceil = math_map (\<lambda>a. of_int \<lceil>a\<rceil>)"

definition math_floor :: "jsnum \<Rightarrow> jsnum" where
  "math_floor = math_map (\<lambda>a. of_int \<lfloor>a\<rfloor>)"

definition math_abs :: "jsnum \<Rightarrow> jsnum" where
  "math_abs x = (if x < 0 then - x else x)"

definition math_min :: "jsnum \<Rightarrow> jsnum \<Rightarrow> jsnum" where
  "math_min a b = (if a = NaN \<or> b = NaN then NaN else if a \<le> b then a else b)"

definition math_max :: "jsnum \<Rightarrow> jsnum \<Rightarrow> jsnum" where
  "math_max a b = (if a = NaN \<or> b = NaN then NaN else if a \<le> b then b else a)"

lemma math_round_Fin [simp]: "math_round (Fin a) = Fin (of_int \<lfloor>a + 1 / 2\<rfloor>)"
  by (simp add: math_round_def)

lemma math_ceil_Fin [simp]: "math_ceil (Fin a) = Fin (of_int \<lceil>a\<rceil>)"
  by (simp add: math_ceil_def)

lemma math_floor_Fin [simp]: "math_floor (Fin a) = Fin (of_int \<lfloor>a\<rfloor>)"
  by (simp add: math_floor_def)

lemma math_min_Fin [simp]: "math_min (Fin a) (Fin b) = Fin (min a b)"
  by (simp add: math_min_def min_def)

lemma math_max_Fin [simp]: "math_max (Fin a) (Fin b) = Fin (max a b)"
  by (simp add: math_max_def max_def)

lemma math_round_mono: "(a :: rat) \<le> b \<Longrightarrow> math_round (Fin a) \<le> math_round (Fin b)"
  by (simp add: floor_mono)

lemma math_round_nonneg: "0 \<le> a \<Longrightarrow> Fin 0 \<le> math_round (Fin a)"
  by simp

lemma round_half_bound:
  fixes a :: rat
  shows "of_int \<lfloor>a + 1 / 2\<rfloor> \<le> a + 1 / 2" and "a - 1 / 2 < of_int \<lfloor>a + 1 / 2\<rfloor>"
  by linarith+

lemma math_min_le:
  "a \<noteq> NaN \<Longrightarrow> b \<noteq> NaN \<Longrightarrow> math_min a b \<le> a \<and> math_min a b \<le> b"
  by (cases a; cases b) (auto simp: math_min_def)

text \<open>JavaScript truthiness of a number: \<open>0\<close> and \<open>NaN\<close> are falsy.\<close>

definition num_truthy :: "jsnum \<Rightarrow> bool" where
  "num_truthy x \<longleftrightarrow> x \<noteq> NaN \<and> x \<noteq> Fin 0"

text \<open>Summation with \<open>reduce((a, b) => a + b, 0)\<close>, left to right.\<close>

definition jsum :: "jsnum list \<Rightarrow> jsnum" where
  "jsum xs = foldl (+) 0 xs"

lemma foldl_Fin: "foldl (+) (Fin a) (map Fin xs) = Fin (a + sum_list xs)"
  by (induction xs arbitrary: a) (auto simp: add.assoc)

lemma jsum_Fin: "jsum (map Fin xs) = Fin (sum_list xs)"
  using foldl_Fin [of 0 xs] by (simp add: jsum_def)

end
