(* ===== verification/JsString.thy ===== *)
theory JsString
  imports Prelude
begin

text \<open>
  The string operations of the JavaScript standard library that the program uses,
  on lists of code units, with the algebra the component proofs need: searching,
  slicing, trimming, splitting, joining, replacing and case folding.
\<close>

section \<open>Searching\<close>

definition starts_with :: "jstr \<Rightarrow> jstr \<Rightarrow> bool" where
  "starts_with p s \<longleftrightarrow> take (length p) s = p"

definition ends_with :: "jstr \<Rightarrow> jstr \<Rightarrow> bool" where
  "ends_with p s \<longleftrightarrow> length p \<le> length s \<and> drop (length s - length p) s = p"

fun contains :: "jstr \<Rightarrow> jstr \<Rightarrow> bool" where
  "contains [] sub = (sub = [])"
| "contains (c # cs) sub = (starts_with sub (c # cs) \<or> contains cs sub)"

lemma starts_with_iff: "starts_with p s \<longleftrightarrow> (\<exists>t. s = p @ t)"
  unfolding starts_with_def by (metis append_eq_conv_conj append_take_drop_id)

lemma starts_with_Nil [simp]: "starts_with [] s"
  by (simp add: starts_with_def)

lemma starts_with_append [simp]: "starts_with p (p @ t)"
  by (simp add: starts_with_def)

lemma starts_with_unit_simps:
  "starts_with (p # ps) [] = False"
  "starts_with (p # ps) (c # cs) = (c = p \<and> starts_with ps cs)"
  by (auto simp: starts_with_def)

lemma starts_with_drop: "starts_with p s \<Longrightarrow> s = p @ drop (length p) s"
  unfolding starts_with_def by (metis append_take_drop_id)

lemma contains_iff: "contains s sub \<longleftrightarrow> (\<exists>a b. s = a @ sub @ b)"
proof (induction s)
  case Nil
  show ?case by simp
next
  case (Cons c cs)
  show ?case
  proof
    assume "contains (c # cs) sub"
    then consider "starts_with sub (c # cs)" | "contains cs sub" by auto
    then show "\<exists>a b. c # cs = a @ sub @ b"
    proof cases
      case 1
      then obtain t where "c # cs = [] @ sub @ t" by (auto simp: starts_with_iff)
      then show ?thesis by blast
    next
      case 2
      then obtain a b where "cs = a @ sub @ b" using Cons.IH by blast
      then have "c # cs = (c # a) @ sub @ b" by simp
      then show ?thesis by blast
    qed
  next
    assume "\<exists>a b. c # cs = a @ sub @ b"
    then obtain a b where e: "c # cs = a @ sub @ b" by blast
    show "contains (c # cs) sub"
    proof (cases a)
      case Nil
      with e have "starts_with sub (c # cs)" by (auto simp: starts_with_iff)
      then show ?thesis by simp
    next
      case (Cons d a')
      with e have "cs = a' @ sub @ b" by simp
      with Cons.IH show ?thesis by auto
    qed
  qed
qed

lemma contains_Nil [simp]: "contains s []"
  by (cases s) auto

lemma contains_append_left: "contains s sub \<Longrightarrow> contains (a @ s) sub"
  by (auto simp: contains_iff) (metis append.assoc)

lemma contains_append_right: "contains s sub \<Longrightarrow> contains (s @ b) sub"
  by (auto simp: contains_iff) metis

lemma contains_set: "contains s sub \<Longrightarrow> set sub \<subseteq> set s"
  by (auto simp: contains_iff)

text \<open>
  A pattern without the separator that occurs in a separated text occurs on one side
  of it. This is what keeps a forbidden phrase from being formed across two lines.
\<close>

lemma contains_separated:
  assumes "c \<notin> set sub"
  shows "contains (s @ c # t) sub \<longleftrightarrow> contains s sub \<or> contains t sub"
proof
  assume "contains (s @ c # t) sub"
  then obtain a b where e: "s @ c # t = a @ sub @ b" by (auto simp: contains_iff)
  show "contains s sub \<or> contains t sub"
  proof (cases "length (a @ sub) \<le> length s")
    case True
    from e have "take (length (a @ sub)) (s @ c # t) = a @ sub"
      by (simp del: append_assoc add: append_assoc [symmetric])
    with True have "take (length (a @ sub)) s = a @ sub" by simp
    then have "s = a @ sub @ drop (length (a @ sub)) s"
      by (metis append.assoc append_take_drop_id)
    then show ?thesis by (auto simp: contains_iff)
  next
    case False
    show ?thesis
    proof (cases "length a \<le> length s")
      case True
      with False have idx: "length s - length a < length sub" by simp
      have "(a @ sub @ b) ! length s = c"
        by (metis e nth_append_length)
      moreover have "(a @ sub @ b) ! length s = sub ! (length s - length a)"
        using True idx by (simp add: nth_append)
      ultimately have "c \<in> set sub" using idx by (metis nth_mem)
      with assms show ?thesis by simp
    next
      case False
      then have "drop (Suc (length s)) (a @ sub @ b) =
          drop (Suc (length s)) a @ sub @ b" by simp
      moreover have "drop (Suc (length s)) (s @ c # t) = t" by simp
      ultimately have "t = drop (Suc (length s)) a @ sub @ b" using e by simp
      then show ?thesis by (auto simp: contains_iff)
    qed
  qed
next
  assume "contains s sub \<or> contains t sub"
  then show "contains (s @ c # t) sub"
  proof
    assume "contains s sub"
    then show ?thesis by (rule contains_append_right)
  next
    assume "contains t sub"
    then have "contains ((s @ [c]) @ t) sub" by (rule contains_append_left)
    then show ?thesis by simp
  qed
qed

definition contains_any :: "jstr \<Rightarrow> jstr list \<Rightarrow> bool" where
  "contains_any s ks \<longleftrightarrow> list_ex (contains s) ks"

lemma contains_any_iff: "contains_any s ks \<longleftrightarrow> (\<exists>k \<in> set ks. contains s k)"
  by (simp add: contains_any_def list_ex_iff)

section \<open>Slicing and trimming\<close>

text \<open>\<open>s.slice(0, n)\<close> keeps at most \<open>n\<close> code units.\<close>

definition slice0 :: "nat \<Rightarrow> jstr \<Rightarrow> jstr" where
  "slice0 n s = take n s"

lemma length_slice0: "length (slice0 n s) \<le> n"
  by (simp add: slice0_def)

lemma slice0_idem [simp]: "slice0 n (slice0 n s) = slice0 n s"
  by (simp add: slice0_def)

text \<open>\<open>WhiteSpace\<close> and \<open>LineTerminator\<close> of the ECMAScript grammar.\<close>

definition is_space :: "nat \<Rightarrow> bool" where
  "is_space c \<longleftrightarrow>
     (9 \<le> c \<and> c \<le> 13) \<or> c = 32 \<or> c = 0xA0 \<or> c = 0x1680 \<or>
     (0x2000 \<le> c \<and> c \<le> 0x200A) \<or> c = 0x2028 \<or> c = 0x2029 \<or>
     c = 0x202F \<or> c = 0x205F \<or> c = 0x3000 \<or> c = 0xFEFF"

definition trim_start :: "jstr \<Rightarrow> jstr" where
  "trim_start s = dropWhile is_space s"

definition trim_end :: "jstr \<Rightarrow> jstr" where
  "trim_end s = rev (dropWhile is_space (rev s))"

definition trim :: "jstr \<Rightarrow> jstr" where
  "trim s = trim_end (trim_start s)"

lemma length_trim: "length (trim s) \<le> length s"
proof -
  have "length (dropWhile is_space (rev (dropWhile is_space s))) \<le> length (dropWhile is_space s)"
    using length_dropWhile_le [of is_space "rev (dropWhile is_space s)"] by simp
  also have "\<dots> \<le> length s" by (rule length_dropWhile_le)
  finally show ?thesis by (simp add: trim_def trim_end_def trim_start_def)
qed

lemma set_trim: "set (trim s) \<subseteq> set s"
  by (auto simp: trim_def trim_end_def trim_start_def dest!: set_dropWhileD)

lemma dropWhile_is_space_hd:
  "dropWhile is_space s = [] \<or> \<not> is_space (hd (dropWhile is_space s))"
  using hd_dropWhile by blast

lemma trim_eq_Nil_iff: "trim s = [] \<longleftrightarrow> (\<forall>c \<in> set s. is_space c)"
proof -
  have "trim s = [] \<longleftrightarrow> (\<forall>c \<in> set (dropWhile is_space s). is_space c)"
    by (simp add: trim_def trim_end_def trim_start_def)
  also have "\<dots> \<longleftrightarrow> (\<forall>c \<in> set s. is_space c)"
  proof
    assume a: "\<forall>c \<in> set (dropWhile is_space s). is_space c"
    then have "dropWhile is_space s = []"
      using dropWhile_is_space_hd [of s] by (metis hd_in_set)
    then show "\<forall>c \<in> set s. is_space c" by (simp add: dropWhile_eq_Nil_conv)
  next
    assume "\<forall>c \<in> set s. is_space c"
    then show "\<forall>c \<in> set (dropWhile is_space s). is_space c"
      by (auto dest: set_dropWhileD)
  qed
  finally show ?thesis .
qed

lemma trim_idem [simp]: "trim (trim s) = trim s"
proof (cases "trim s = []")
  case True
  have "trim [] = []" by (simp add: trim_def trim_end_def trim_start_def)
  with True show ?thesis by simp
next
  case False
  let ?a = "dropWhile is_space s"
  let ?b = "rev (dropWhile is_space (rev ?a))"
  have t: "trim s = ?b" by (simp add: trim_def trim_end_def trim_start_def)
  have "\<exists>zs. ?a = ?b @ zs"
    by (metis rev_append rev_rev_ident takeWhile_dropWhile_id)
  then obtain zs where a: "?a = ?b @ zs" by blast
  from False t have b: "?b \<noteq> []" by simp
  with a have "hd ?b = hd ?a" by (metis hd_append2)
  moreover have "\<not> is_space (hd ?a)"
    using dropWhile_is_space_hd [of s] a b by (metis append_is_Nil_conv)
  ultimately have hb: "\<not> is_space (hd ?b)" by simp
  then have start: "dropWhile is_space ?b = ?b" using b by (cases ?b) auto
  have "dropWhile is_space (rev ?b) = rev ?b"
    by simp
  then have "trim ?b = ?b"
    unfolding trim_def trim_end_def trim_start_def start by simp
  then show ?thesis using t by simp
qed

section \<open>Splitting and joining\<close>

text \<open>\<open>s.split(c)\<close> on a one-unit separator.\<close>

fun split_on :: "nat \<Rightarrow> jstr \<Rightarrow> jstr list" where
  "split_on c [] = [[]]"
| "split_on c (x # xs) =
     (if x = c then [] # split_on c xs
      else (case split_on c xs of [] \<Rightarrow> [[x]] | p # ps \<Rightarrow> (x # p) # ps))"

fun join :: "jstr \<Rightarrow> jstr list \<Rightarrow> jstr" where
  "join sep [] = []"
| "join sep [s] = s"
| "join sep (s # t # ss) = s @ sep @ join sep (t # ss)"

lemma split_on_not_Nil [simp]: "split_on c s \<noteq> []"
  by (induction s) (auto split: list.splits)

lemma hd_split_on: "hd (split_on c s) = takeWhile (\<lambda>x. x \<noteq> c) s"
  by (induction s) (auto split: list.splits)

lemma split_on_no_sep: "p \<in> set (split_on c s) \<Longrightarrow> c \<notin> set p"
proof (induction s arbitrary: p)
  case Nil
  then show ?case by simp
next
  case (Cons x xs)
  then show ?case
    by (cases "split_on c xs") (auto split: if_splits)
qed

lemma join_split_on: "join [c] (split_on c s) = s"
proof (induction s)
  case Nil
  show ?case by simp
next
  case (Cons x xs)
  obtain p ps where p: "split_on c xs = p # ps"
    using split_on_not_Nil [of c xs] by (cases "split_on c xs") auto
  show ?case
  proof (cases ps)
    case Nil
    with Cons p show ?thesis by auto
  next
    case (Cons q qs)
    with \<open>join [c] (split_on c xs) = xs\<close> p show ?thesis by auto
  qed
qed

lemma join_Cons: "ss \<noteq> [] \<Longrightarrow> join sep (s # ss) = s @ sep @ join sep ss"
  by (cases ss) auto

lemma set_join: "set (join sep ss) \<subseteq> set sep \<union> (\<Union>s \<in> set ss. set s)"
  by (induction sep ss rule: join.induct) auto

section \<open>Replacing\<close>

text \<open>\<open>s.replace(/[...]/g, f)\<close> where every matched unit is replaced on its own.\<close>

definition replace_units :: "(nat \<Rightarrow> jstr) \<Rightarrow> jstr \<Rightarrow> jstr" where
  "replace_units f s = concat (map f s)"

text \<open>\<open>s.replace(/c/g, r)\<close> for one unit \<open>c\<close> and a replacement without \<open>$\<close>.\<close>

definition replace_unit :: "nat \<Rightarrow> jstr \<Rightarrow> jstr \<Rightarrow> jstr" where
  "replace_unit c r s = replace_units (\<lambda>x. if x = c then r else [x]) s"

lemma replace_units_Nil [simp]: "replace_units f [] = []"
  by (simp add: replace_units_def)

lemma replace_units_Cons: "replace_units f (x # xs) = f x @ replace_units f xs"
  by (simp add: replace_units_def)

lemma replace_units_append: "replace_units f (s @ t) = replace_units f s @ replace_units f t"
  by (simp add: replace_units_def)

lemma replace_unit_append: "replace_unit c r (s @ t) = replace_unit c r s @ replace_unit c r t"
  by (simp add: replace_unit_def replace_units_append)

lemma set_replace_units: "set (replace_units f s) = (\<Union>x \<in> set s. set (f x))"
  by (simp add: replace_units_def)

text \<open>\<open>s.replace(/\/$/, "")\<close>: one trailing slash; \<open>s.replace(/\/+$/, "")\<close>: all of them.\<close>

definition strip_slash :: "jstr \<Rightarrow> jstr" where
  "strip_slash s = (if s \<noteq> [] \<and> last s = 0x2F then butlast s else s)"

definition strip_slashes :: "jstr \<Rightarrow> jstr" where
  "strip_slashes s = rev (dropWhile (\<lambda>c. c = 0x2F) (rev s))"

text \<open>\<open>s.replace(/^\/+/, "")\<close>.\<close>

definition strip_leading_slashes :: "jstr \<Rightarrow> jstr" where
  "strip_leading_slashes s = dropWhile (\<lambda>c. c = 0x2F) s"

lemma strip_slashes_no_trailing:
  "strip_slashes s = [] \<or> last (strip_slashes s) \<noteq> 0x2F"
proof (cases "dropWhile (\<lambda>c. c = 0x2F) (rev s) = []")
  case True
  then show ?thesis by (simp add: strip_slashes_def)
next
  case False
  then have "hd (dropWhile (\<lambda>c. c = 0x2F) (rev s)) \<noteq> 0x2F"
    using hd_dropWhile [of "\<lambda>c. c = 0x2F" "rev s"] by simp
  with False show ?thesis by (simp add: strip_slashes_def last_rev)
qed

lemma strip_leading_slashes_no_leading:
  "strip_leading_slashes s = [] \<or> hd (strip_leading_slashes s) \<noteq> 0x2F"
  unfolding strip_leading_slashes_def using hd_dropWhile [of "\<lambda>c. c = 0x2F" s] by blast

lemma strip_leading_slashes_idem [simp]:
  "strip_leading_slashes (strip_leading_slashes s) = strip_leading_slashes s"
  by (simp add: strip_leading_slashes_def)

text \<open>
  \<open>html.replace(pat, rep)\<close> with string arguments replaces the first occurrence, and
  \<open>rep\<close> is a substitution template: \<open>$$\<close>, \<open>$&\<close>, \<open>$`\<close> and \<open>$'\<close> stand for a dollar
  sign, the match, the text before it and the text after it.
\<close>

fun expand_template :: "jstr \<Rightarrow> jstr \<Rightarrow> jstr \<Rightarrow> jstr \<Rightarrow> jstr" where
  "expand_template pre m post [] = []"
| "expand_template pre m post [c] = [c]"
| "expand_template pre m post (c # d # r) =
     (if c = 0x24 \<and> d = 0x24 then 0x24 # expand_template pre m post r
      else if c = 0x24 \<and> d = 0x26 then m @ expand_template pre m post r
      else if c = 0x24 \<and> d = 0x60 then pre @ expand_template pre m post r
      else if c = 0x24 \<and> d = 0x27 then post @ expand_template pre m post r
      else c # expand_template pre m post (d # r))"

lemma expand_template_no_dollar:
  "0x24 \<notin> set r \<Longrightarrow> expand_template pre m post r = r"
  by (induction pre m post r rule: expand_template.induct) auto

fun split_first :: "jstr \<Rightarrow> jstr \<Rightarrow> (jstr \<times> jstr) option" where
  "split_first pat [] = (if pat = [] then Some ([], []) else None)"
| "split_first pat (c # cs) =
     (if starts_with pat (c # cs) then Some ([], drop (length pat) (c # cs))
      else map_option (\<lambda>(a, b). (c # a, b)) (split_first pat cs))"

definition replace_first :: "jstr \<Rightarrow> jstr \<Rightarrow> jstr \<Rightarrow> jstr" where
  "replace_first pat rep s =
     (case split_first pat s of
        None \<Rightarrow> s
      | Some (a, b) \<Rightarrow> a @ expand_template a pat b rep @ b)"

lemma split_first_Some: "split_first pat s = Some (a, b) \<Longrightarrow> s = a @ pat @ b"
proof (induction s arbitrary: a)
  case Nil
  then show ?case by (auto split: if_splits)
next
  case (Cons c cs)
  show ?case
  proof (cases "starts_with pat (c # cs)")
    case True
    with Cons.prems have "a = []" and "b = drop (length pat) (c # cs)" by auto
    with starts_with_drop [OF True] show ?thesis by simp
  next
    case False
    with Cons.prems obtain a' where "split_first pat cs = Some (a', b)" and "a = c # a'"
      by auto
    with Cons.IH show ?thesis by simp
  qed
qed

lemma split_first_None_iff: "split_first pat s = None \<longleftrightarrow> \<not> contains s pat"
  by (induction s) auto

lemma replace_first_absent: "\<not> contains s pat \<Longrightarrow> replace_first pat rep s = s"
  by (simp add: replace_first_def split_first_None_iff [symmetric])

text \<open>\<open>s.split(sep)\<close> on a non-empty separator text.\<close>

function split_text :: "jstr \<Rightarrow> jstr \<Rightarrow> jstr list" where
  "split_text sep s =
     (if sep = [] then [s]
      else case split_first sep s of None \<Rightarrow> [s] | Some (a, b) \<Rightarrow> a # split_text sep b)"
  by pat_completeness auto
termination
  by (relation "measure (\<lambda>(sep, s). length s)") (auto dest!: split_first_Some)

declare split_text.simps [simp del]

text \<open>\<open>s.replace(pat, "")\<close>.\<close>

definition remove_first :: "jstr \<Rightarrow> jstr \<Rightarrow> jstr" where
  "remove_first pat s = replace_first pat [] s"

lemma remove_first_prefix [simp]: "p \<noteq> [] \<Longrightarrow> remove_first p (p @ s) = s"
proof (cases "p @ s")
  case (Cons c cs)
  then have "starts_with p (c # cs)" and "drop (length p) (c # cs) = s"
    using starts_with_append [of p s] by (metis, metis append_eq_conv_conj)
  with Cons show ?thesis by (simp add: remove_first_def replace_first_def)
qed simp

section \<open>Case folding\<close>

text \<open>
  \<open>toLowerCase\<close> on the letters whose folding can matter to the program: ASCII,
  Latin-1, Greek and Cyrillic capitals, full-width letters, and the two compatibility
  letters that fold into ASCII (the Kelvin sign and the dotted capital I). Thai has no
  case. Other units are left alone: none of them folds into an ASCII or Thai unit, and
  every keyword and pattern the program matches consists of those.
\<close>

definition lower_unit :: "nat \<Rightarrow> jstr" where
  "lower_unit c =
     (if 0x41 \<le> c \<and> c \<le> 0x5A then [c + 32]
      else if 0xC0 \<le> c \<and> c \<le> 0xDE \<and> c \<noteq> 0xD7 then [c + 32]
      else if 0x391 \<le> c \<and> c \<le> 0x3A9 \<and> c \<noteq> 0x3A2 then [c + 32]
      else if 0x410 \<le> c \<and> c \<le> 0x42F then [c + 32]
      else if 0x400 \<le> c \<and> c \<le> 0x40F then [c + 80]
      else if 0xFF21 \<le> c \<and> c \<le> 0xFF3A then [c + 32]
      else if c = 0x212A then [0x6B]
      else if c = 0x212B then [0xE5]
      else if c = 0x130 then [0x69, 0x307]
      else [c])"

definition to_lower :: "jstr \<Rightarrow> jstr" where
  "to_lower s = concat (map lower_unit s)"

lemma to_lower_Nil [simp]: "to_lower [] = []"
  by (simp add: to_lower_def)

lemma to_lower_append: "to_lower (s @ t) = to_lower s @ to_lower t"
  by (simp add: to_lower_def)

lemma lower_unit_idem: "d \<in> set (lower_unit c) \<Longrightarrow> lower_unit d = [d]"
  by (auto simp: lower_unit_def split: if_splits)

lemma to_lower_idem: "to_lower (to_lower s) = to_lower s"
proof -
  have fixed: "to_lower t = t" if "\<forall>c \<in> set t. lower_unit c = [c]" for t
    using that by (induction t) (auto simp: to_lower_def)
  show ?thesis
    by (rule fixed) (auto simp: to_lower_def dest: lower_unit_idem)
qed

text \<open>A case-insensitive search for an ASCII phrase, as \<open>/phrase/i.test(s)\<close>.\<close>

definition contains_ci :: "jstr \<Rightarrow> jstr \<Rightarrow> bool" where
  "contains_ci s sub \<longleftrightarrow> contains (map (\<lambda>c. if 0x41 \<le> c \<and> c \<le> 0x5A then c + 32 else c) s) sub"

section \<open>Decimal numerals\<close>

function decimal :: "nat \<Rightarrow> jstr" where
  "decimal n = (if n < 10 then [0x30 + n] else decimal (n div 10) @ [0x30 + n mod 10])"
  by pat_completeness auto
termination by (relation "measure id") auto

declare decimal.simps [simp del]

lemma decimal_small: "n < 10 \<Longrightarrow> decimal n = [0x30 + n]"
  by (subst decimal.simps) simp

definition is_digit :: "nat \<Rightarrow> bool" where
  "is_digit c \<longleftrightarrow> 0x30 \<le> c \<and> c \<le> 0x39"

lemma decimal_digits: "\<forall>c \<in> set (decimal n). is_digit c"
proof (induction n rule: decimal.induct)
  case (1 n)
  then show ?case
    by (subst decimal.simps) (auto simp: is_digit_def)
qed

lemma decimal_not_Nil [simp]: "decimal n \<noteq> []"
  by (subst decimal.simps) simp

fun decimal_value :: "nat \<Rightarrow> jstr \<Rightarrow> nat" where
  "decimal_value acc [] = acc"
| "decimal_value acc (c # cs) = decimal_value (10 * acc + (c - 0x30)) cs"

lemma decimal_value_append:
  "decimal_value acc (s @ t) = decimal_value (decimal_value acc s) t"
  by (induction s arbitrary: acc) auto

lemma decimal_value_decimal: "decimal_value 0 (decimal n) = n"
proof (induction n rule: decimal.induct)
  case (1 n)
  then show ?case
    by (subst decimal.simps) (simp add: decimal_value_append)
qed

lemma decimal_inject: "decimal m = decimal n \<longleftrightarrow> m = n"
  by (metis decimal_value_decimal)

end
