(* ===== verification/JsMap.thy ===== *)
theory JsMap
  imports JsString "HOL-Library.Multiset"
begin

text \<open>
  Insertion-ordered maps: a JavaScript \<open>Map\<close>, \<open>Set\<close> or object used as a dictionary is
  an association list in which a key keeps the position of its first insertion. The
  second half states the contract of the counting loops of the analytics queries as a
  locale, which every loop of \<open>server/db.ts\<close> interprets.
\<close>

section \<open>Dictionaries in insertion order\<close>

type_synonym ('k, 'v) dict = "('k \<times> 'v) list"

fun dict_set :: "'k \<Rightarrow> 'v \<Rightarrow> ('k, 'v) dict \<Rightarrow> ('k, 'v) dict" where
  "dict_set k v [] = [(k, v)]"
| "dict_set k v ((k', v') # m) =
     (if k = k' then (k, v) # m else (k', v') # dict_set k v m)"

definition dict_get :: "('k, 'v) dict \<Rightarrow> 'k \<Rightarrow> 'v option" where
  "dict_get m k = map_of m k"

definition dict_keys :: "('k, 'v) dict \<Rightarrow> 'k list" where
  "dict_keys m = map fst m"

text \<open>\<open>{ ...a, ...b }\<close>: the entries of \<open>b\<close> win, in place.\<close>

definition dict_spread :: "('k, 'v) dict \<Rightarrow> ('k, 'v) dict \<Rightarrow> ('k, 'v) dict" where
  "dict_spread a b = fold (\<lambda>(k, v) m. dict_set k v m) b a"

text \<open>\<open>const { k, ...rest } = o\<close>.\<close>

definition dict_without :: "'k \<Rightarrow> ('k, 'v) dict \<Rightarrow> ('k, 'v) dict" where
  "dict_without k m = filter (\<lambda>(k', _). k' \<noteq> k) m"

lemma dict_get_Nil [simp]: "dict_get [] k = None"
  by (simp add: dict_get_def)

lemma dict_get_Cons [simp]:
  "dict_get ((k, v) # m) k' = (if k' = k then Some v else dict_get m k')"
  by (simp add: dict_get_def)

lemma dict_get_set: "dict_get (dict_set k v m) k' = (if k' = k then Some v else dict_get m k')"
  by (induction k v m rule: dict_set.induct) auto

lemma dict_get_set_same [simp]: "dict_get (dict_set k v m) k = Some v"
  by (simp add: dict_get_set)

lemma dict_get_set_other [simp]: "k' \<noteq> k \<Longrightarrow> dict_get (dict_set k v m) k' = dict_get m k'"
  by (simp add: dict_get_set)

lemma dict_get_None_iff: "dict_get m k = None \<longleftrightarrow> k \<notin> set (dict_keys m)"
  by (simp add: dict_get_def dict_keys_def map_of_eq_None_iff)

lemma dict_get_without [simp]:
  "dict_get (dict_without k m) k' = (if k' = k then None else dict_get m k')"
  by (induction m) (auto simp: dict_without_def)

lemma set_dict_keys_set [simp]: "set (dict_keys (dict_set k v m)) = insert k (set (dict_keys m))"
  by (induction k v m rule: dict_set.induct) (auto simp: dict_keys_def)

lemma dict_keys_set:
  "dict_keys (dict_set k v m) = (if k \<in> set (dict_keys m) then dict_keys m else dict_keys m @ [k])"
  by (induction k v m rule: dict_set.induct) (auto simp: dict_keys_def)

lemma distinct_dict_keys_set: "distinct (dict_keys m) \<Longrightarrow> distinct (dict_keys (dict_set k v m))"
  by (simp add: dict_keys_set)

lemma dict_set_not_Nil [simp]: "dict_set k v m \<noteq> []"
  by (cases m) (auto split: if_splits)

lemma dict_spread_Nil [simp]: "dict_spread a [] = a"
  by (simp add: dict_spread_def)

lemma dict_spread_Cons: "dict_spread a ((k, v) # b) = dict_spread (dict_set k v a) b"
  by (simp add: dict_spread_def)

lemma dict_get_spread_notin: "k \<notin> set (dict_keys b) \<Longrightarrow> dict_get (dict_spread a b) k = dict_get a k"
proof (induction b arbitrary: a)
  case Nil
  show ?case by simp
next
  case (Cons p b)
  obtain k' v' where p: "p = (k', v')" by force
  with Cons.prems have "k \<noteq> k'" and "k \<notin> set (dict_keys b)" by (auto simp: dict_keys_def)
  with Cons.IH [of "dict_set k' v' a"] p show ?case by (simp add: dict_spread_Cons)
qed

lemma dict_get_spread:
  "distinct (dict_keys b) \<Longrightarrow>
     dict_get (dict_spread a b) k = (case dict_get b k of Some v \<Rightarrow> Some v | None \<Rightarrow> dict_get a k)"
proof (induction b arbitrary: a)
  case Nil
  show ?case by simp
next
  case (Cons p b)
  obtain k' v' where p: "p = (k', v')" by force
  from Cons.prems p have nin: "k' \<notin> set (dict_keys b)" and d: "distinct (dict_keys b)"
    by (simp_all add: dict_keys_def)
  show ?case
  proof (cases "k = k'")
    case True
    with nin p show ?thesis by (simp add: dict_spread_Cons dict_get_spread_notin)
  next
    case False
    with Cons.IH [OF d, of "dict_set k' v' a"] p show ?thesis
      by (auto simp: dict_spread_Cons dict_get_set split: option.splits)
  qed
qed

lemma set_dict_set: "set (dict_set k v m) \<subseteq> insert (k, v) (set m)"
  by (induction k v m rule: dict_set.induct) auto

section \<open>Sets in insertion order\<close>

definition set_add :: "'a \<Rightarrow> 'a list \<Rightarrow> 'a list" where
  "set_add x s = (if x \<in> set s then s else s @ [x])"

lemma set_set_add [simp]: "set (set_add x s) = insert x (set s)"
  by (auto simp: set_add_def)

lemma distinct_set_add: "distinct s \<Longrightarrow> distinct (set_add x s)"
  by (simp add: set_add_def)

text \<open>\<open>Array.from(new Set(xs))\<close>: first occurrences, in order.\<close>

definition unique :: "'a list \<Rightarrow> 'a list" where
  "unique xs = fold set_add xs []"

lemma fold_set_add:
  "distinct s \<Longrightarrow> distinct (fold set_add xs s) \<and> set (fold set_add xs s) = set s \<union> set xs"
  by (induction xs arbitrary: s) (auto simp: distinct_set_add)

lemma distinct_unique [simp]: "distinct (unique xs)"
  using fold_set_add [of "[]" xs] by (simp add: unique_def)

lemma set_unique [simp]: "set (unique xs) = set xs"
  using fold_set_add [of "[]" xs] by (simp add: unique_def)

lemma length_unique: "length (unique xs) = card (set xs)"
  using distinct_card [OF distinct_unique, of xs] by simp

section \<open>Counting\<close>

text \<open>\<open>m.set(k, (m.get(k) || 0) + 1)\<close>.\<close>

definition bump :: "'k \<Rightarrow> ('k, nat) dict \<Rightarrow> ('k, nat) dict" where
  "bump k m = dict_set k ((case dict_get m k of None \<Rightarrow> 0 | Some n \<Rightarrow> n) + 1) m"

definition count_of :: "('k, nat) dict \<Rightarrow> 'k \<Rightarrow> nat" where
  "count_of m k = (case dict_get m k of None \<Rightarrow> 0 | Some n \<Rightarrow> n)"

definition total :: "('k, nat) dict \<Rightarrow> nat" where
  "total m = sum_list (map snd m)"

lemma count_of_Nil [simp]: "count_of [] k = 0"
  by (simp add: count_of_def)

lemma count_of_bump: "count_of (bump k m) k' = count_of m k' + (if k' = k then 1 else 0)"
  by (auto simp: count_of_def bump_def split: option.splits)

lemma total_dict_set:
  "total (dict_set k v m) + (case dict_get m k of None \<Rightarrow> 0 | Some n \<Rightarrow> n) = total m + v"
  by (induction k v m rule: dict_set.induct) (auto simp: total_def)

lemma total_bump [simp]: "total (bump k m) = total m + 1"
proof -
  have "total (bump k m) + count_of m k = total m + (count_of m k + 1)"
    using total_dict_set [of k "count_of m k + 1" m] by (simp add: bump_def count_of_def)
  then show ?thesis by simp
qed

lemma distinct_bump: "distinct (dict_keys m) \<Longrightarrow> distinct (dict_keys (bump k m))"
  by (simp add: bump_def distinct_dict_keys_set)

lemma set_keys_bump: "set (dict_keys (bump k m)) = insert k (set (dict_keys m))"
  by (simp add: bump_def)

lemma positive_bump:
  "(\<forall>(k, n) \<in> set m. 0 < n) \<Longrightarrow> (\<forall>(k, n) \<in> set (bump k' m). 0 < n)"
  using set_dict_set unfolding bump_def by fastforce

text \<open>
  The contract of a counting loop: each row is dropped or counted under one key. The
  client lemmas say what the finished map holds: the exact number of rows per key, each
  key once, and a total equal to the number of rows counted.
\<close>

locale tally =
  fixes step :: "('k, nat) dict \<Rightarrow> 'row \<Rightarrow> ('k, nat) dict"
    and key :: "'row \<Rightarrow> 'k option"
  assumes step_skip: "key r = None \<Longrightarrow> step m r = m"
    and step_count: "key r = Some k \<Longrightarrow> step m r = bump k m"
begin

lemma foldl_counts:
  "count_of (foldl step m rs) k = count_of m k + length (filter (\<lambda>r. key r = Some k) rs)"
proof (induction rs arbitrary: m)
  case Nil
  show ?case by simp
next
  case (Cons r rs)
  show ?case
  proof (cases "key r")
    case None
    with Cons show ?thesis by (simp add: step_skip)
  next
    case (Some k')
    with Cons show ?thesis by (simp add: step_count count_of_bump)
  qed
qed

lemma foldl_total: "total (foldl step m rs) = total m + length (filter (\<lambda>r. key r \<noteq> None) rs)"
proof (induction rs arbitrary: m)
  case Nil
  show ?case by simp
next
  case (Cons r rs)
  then show ?case by (cases "key r") (simp_all add: step_skip step_count)
qed

lemma foldl_distinct: "distinct (dict_keys m) \<Longrightarrow> distinct (dict_keys (foldl step m rs))"
proof (induction rs arbitrary: m)
  case Nil
  then show ?case by simp
next
  case (Cons r rs)
  then show ?case by (cases "key r") (simp_all add: step_skip step_count distinct_bump)
qed

lemma foldl_positive:
  "(\<forall>(k, n) \<in> set m. 0 < n) \<Longrightarrow> (\<forall>(k, n) \<in> set (foldl step m rs). 0 < n)"
proof (induction rs arbitrary: m)
  case Nil
  then show ?case by simp
next
  case (Cons r rs)
  have "\<forall>(k, n) \<in> set (step m r). 0 < n"
    using Cons.prems positive_bump [of m] by (cases "key r") (simp_all add: step_skip step_count)
  with Cons.IH [of "step m r"] show ?case by simp
qed

lemma run_counts: "count_of (foldl step [] rs) k = length (filter (\<lambda>r. key r = Some k) rs)"
  by (simp add: foldl_counts)

lemma run_total: "total (foldl step [] rs) = length (filter (\<lambda>r. key r \<noteq> None) rs)"
  using foldl_total [of "[]" rs] by (simp add: total_def)

lemma run_distinct: "distinct (dict_keys (foldl step [] rs))"
  using foldl_distinct [of "[]" rs] by (simp add: dict_keys_def)

lemma run_entry: "(k, n) \<in> set (foldl step [] rs) \<longleftrightarrow> n = length (filter (\<lambda>r. key r = Some k) rs) \<and> 0 < n"
proof
  assume a: "(k, n) \<in> set (foldl step [] rs)"
  have "dict_get (foldl step [] rs) k = Some n"
    using a run_distinct [of rs] by (simp add: dict_get_def dict_keys_def)
  then have "n = length (filter (\<lambda>r. key r = Some k) rs)"
    using run_counts [of rs k] by (simp add: count_of_def)
  moreover have "0 < n" using a foldl_positive [of "[]" rs] by auto
  ultimately show "n = length (filter (\<lambda>r. key r = Some k) rs) \<and> 0 < n" by simp
next
  assume a: "n = length (filter (\<lambda>r. key r = Some k) rs) \<and> 0 < n"
  then have "count_of (foldl step [] rs) k = n" by (simp add: run_counts)
  with a have "dict_get (foldl step [] rs) k = Some n"
    by (auto simp: count_of_def split: option.splits)
  then show "(k, n) \<in> set (foldl step [] rs)" by (simp add: dict_get_def map_of_SomeD)
qed

end

section \<open>Sorting by a numeric key, descending\<close>

text \<open>
  \<open>xs.sort((a, b) => b.n - a.n)\<close>: \<open>Array.prototype.sort\<close> is stable, and so is
  \<open>sort_key\<close>.
\<close>

definition sort_desc :: "('a \<Rightarrow> nat) \<Rightarrow> 'a list \<Rightarrow> 'a list" where
  "sort_desc f xs = sort_key (\<lambda>x. - int (f x)) xs"

lemma set_sort_desc [simp]: "set (sort_desc f xs) = set xs"
  by (simp add: sort_desc_def)

lemma length_sort_desc [simp]: "length (sort_desc f xs) = length xs"
  by (simp add: sort_desc_def)

lemma mset_sort_desc [simp]: "mset (sort_desc f xs) = mset xs"
  by (simp add: sort_desc_def)

lemma distinct_sort_desc [simp]: "distinct (sort_desc f xs) = distinct xs"
  by (simp add: sort_desc_def)

lemma sorted_sort_desc: "sorted_wrt (\<lambda>x y. f y \<le> f x) (sort_desc f xs)"
proof -
  have "sorted (map (\<lambda>x. - int (f x)) (sort_desc f xs))" by (simp add: sort_desc_def)
  then show ?thesis by (simp add: sorted_map)
qed

lemma sum_list_map_mset:
  fixes f :: "'a \<Rightarrow> nat"
  shows "mset xs = mset ys \<Longrightarrow> sum_list (map f xs) = sum_list (map f ys)"
  by (metis mset_map sum_mset_sum_list)

lemma sum_list_sort_desc [simp]:
  fixes g :: "'a \<Rightarrow> nat"
  shows "sum_list (map g (sort_desc f xs)) = sum_list (map g xs)"
  by (metis mset_map mset_sort_desc sum_mset_sum_list)

end
