(* ===== verification/JsDate.thy ===== *)
theory JsDate
  imports JsString
begin

text \<open>
  Dates as milliseconds since the epoch, and \<open>toISOString\<close>, from which the analytics
  queries cut their day keys. The calendar is the proleptic Gregorian one.
\<close>

type_synonym time = int

definition ms_per_day :: int where
  "ms_per_day = 86400000"

text \<open>Year, month and day of a day number counted from 1970-01-01.\<close>

definition civil_of_days :: "int \<Rightarrow> int \<times> int \<times> int" where
  "civil_of_days n =
     (let z = n + 719468;
          era = z div 146097;
          doe = z mod 146097;
          yoe = (doe - doe div 1460 + doe div 36524 - doe div 146096) div 365;
          doy = doe - (365 * yoe + yoe div 4 - yoe div 100);
          mp = (5 * doy + 2) div 153;
          d = doy - (153 * mp + 2) div 5 + 1;
          m = (if mp < 10 then mp + 3 else mp - 9)
      in (yoe + era * 400 + (if m \<le> 2 then 1 else 0), m, d))"

text \<open>Decimal digits, padded with zeros on the left.\<close>

definition padded :: "nat \<Rightarrow> int \<Rightarrow> jstr" where
  "padded w n = (let s = decimal (nat n) in replicate (w - length s) 0x30 @ s)"

definition iso_year :: "int \<Rightarrow> jstr" where
  "iso_year y =
     (if 0 \<le> y \<and> y \<le> 9999 then padded 4 y
      else if 0 < y then lit ''+'' @ padded 6 y
      else lit ''-'' @ padded 6 (- y))"

definition iso_date :: "time \<Rightarrow> jstr" where
  "iso_date t =
     (case civil_of_days (t div ms_per_day) of
        (y, m, d) \<Rightarrow> iso_year y @ lit ''-'' @ padded 2 m @ lit ''-'' @ padded 2 d)"

definition to_iso :: "time \<Rightarrow> jstr" where
  "to_iso t =
     (let s = t mod ms_per_day
      in iso_date t @ lit ''T'' @ padded 2 (s div 3600000) @ lit '':''
           @ padded 2 (s div 60000 mod 60) @ lit '':''
           @ padded 2 (s div 1000 mod 60) @ lit ''.'' @ padded 3 (s mod 1000) @ lit ''Z'')"

lemma padded_units: "set (padded w n) \<subseteq> {0x30..0x39}"
  using decimal_digits [of "nat n"] by (auto simp: padded_def Let_def is_digit_def)

lemma iso_date_units: "set (iso_date t) \<subseteq> {0x2B, 0x2D} \<union> {0x30..0x39}"
proof -
  have y: "set (iso_year y) \<subseteq> {0x2B, 0x2D} \<union> {0x30..0x39}" for y
    using padded_units [of 4 y] padded_units [of 6 y] padded_units [of 6 "- y"]
    by (auto simp: iso_year_def lit_def)
  obtain y m d where c: "civil_of_days (t div ms_per_day) = (y, m, d)"
    by (cases "civil_of_days (t div ms_per_day)") auto
  show ?thesis
    using y [of y] padded_units [of 2 m] padded_units [of 2 d]
    by (auto simp: iso_date_def c lit_def)
qed

text \<open>\<open>d.toISOString().split("T")[0]\<close>: the date part, for every date.\<close>

lemma iso_date_key: "hd (split_on 0x54 (to_iso t)) = iso_date t"
proof -
  have "0x54 \<notin> set (iso_date t)" using iso_date_units [of t] by auto
  then have "\<forall>x \<in> set (iso_date t). x \<noteq> 0x54" by metis
  moreover have "\<exists>r. to_iso t = iso_date t @ 0x54 # r"
    by (simp add: to_iso_def Let_def lit_def)
  then obtain r where "to_iso t = iso_date t @ 0x54 # r" by blast
  ultimately show ?thesis
    by (simp add: hd_split_on takeWhile_append2)
qed

lemma iso_date_same_day: "t div ms_per_day = u div ms_per_day \<Longrightarrow> iso_date t = iso_date u"
  by (simp add: iso_date_def)

end
