(* ===== verification/JsValue.thy ===== *)
theory JsValue
  imports JsNumber JsMap JsDate
begin

text \<open>
  Dynamic JavaScript values, for the parts of the program that pass objects of unknown
  shape around: request inputs, database rows, JSON documents. Property reads on an
  object used as a dictionary go through its prototype, which matters where the key
  comes from a URL.
\<close>

section \<open>Values\<close>

datatype jsval =
    JUndef
  | JNull
  | JBool bool
  | JNum jsnum
  | JStr jstr
  | JDate time
  | JArr "jsval list"
  | JObj "(jstr \<times> jsval) list"

type_synonym jsobj = "(jstr, jsval) dict"

fun truthy :: "jsval \<Rightarrow> bool" where
  "truthy JUndef = False"
| "truthy JNull = False"
| "truthy (JBool b) = b"
| "truthy (JNum x) = num_truthy x"
| "truthy (JStr s) = (s \<noteq> [])"
| "truthy _ = True"

definition js_or :: "jsval \<Rightarrow> jsval \<Rightarrow> jsval" where
  "js_or x y = (if truthy x then x else y)"

definition js_nullish :: "jsval \<Rightarrow> jsval \<Rightarrow> jsval" where
  "js_nullish x y = (if x = JUndef \<or> x = JNull then y else x)"

text \<open>\<open>o.k\<close> for an own property, \<open>undefined\<close> when there is none.\<close>

definition getp :: "jsobj \<Rightarrow> jstr \<Rightarrow> jsval" where
  "getp o1 k = (case dict_get o1 k of None \<Rightarrow> JUndef | Some v \<Rightarrow> v)"

lemma getp_Nil [simp]: "getp [] k = JUndef"
  by (simp add: getp_def)

lemma getp_Cons [simp]: "getp ((k, v) # m) k' = (if k' = k then v else getp m k')"
  by (simp add: getp_def)

lemma getp_set: "getp (dict_set k v m) k' = (if k' = k then v else getp m k')"
  by (simp add: getp_def dict_get_set)

lemma getp_without: "getp (dict_without k m) k' = (if k' = k then JUndef else getp m k')"
  by (simp add: getp_def)

fun str_of :: "jsval \<Rightarrow> jstr option" where
  "str_of (JStr s) = Some s"
| "str_of _ = None"

definition is_nonempty_str :: "jsval \<Rightarrow> bool" where
  "is_nonempty_str v \<longleftrightarrow> (case v of JStr s \<Rightarrow> s \<noteq> [] | _ \<Rightarrow> False)"

lemma is_nonempty_str_iff: "is_nonempty_str v \<longleftrightarrow> (\<exists>s. v = JStr s \<and> s \<noteq> [])"
  by (cases v) (auto simp: is_nonempty_str_def)

fun field_val :: "jstr field \<Rightarrow> jsval" where
  "field_val Undef = JUndef"
| "field_val Null = JNull"
| "field_val (Val s) = JStr s"

section \<open>Reading an object literal by a computed key\<close>

text \<open>
  \<open>table[key]\<close> on an object literal finds own properties first and then the
  properties of \<open>Object.prototype\<close>, every one of which is truthy.
\<close>

datatype 'a lookup = Own 'a | Inherited jstr | Missing

definition object_prototype_keys :: "jstr list" where
  "object_prototype_keys =
     map lit [''constructor'', ''__defineGetter__'', ''__defineSetter__'', ''hasOwnProperty'',
       ''__lookupGetter__'', ''__lookupSetter__'', ''isPrototypeOf'', ''propertyIsEnumerable'',
       ''toString'', ''valueOf'', ''__proto__'', ''toLocaleString'']"

definition js_index :: "(jstr, 'a) dict \<Rightarrow> jstr \<Rightarrow> 'a lookup" where
  "js_index m k =
     (case dict_get m k of
        Some v \<Rightarrow> Own v
      | None \<Rightarrow> if k \<in> set object_prototype_keys then Inherited k else Missing)"

lemma js_index_Own_iff: "js_index m k = Own v \<longleftrightarrow> dict_get m k = Some v"
  by (auto simp: js_index_def split: option.splits)

lemma js_index_Missing_iff:
  "js_index m k = Missing \<longleftrightarrow> dict_get m k = None \<and> k \<notin> set object_prototype_keys"
  by (auto simp: js_index_def split: option.splits)

text \<open>An inherited member used as text: the source text of a native function.\<close>

definition native_text :: "jstr \<Rightarrow> jstr" where
  "native_text k =
     (if k = lit ''__proto__'' then lit ''[object Object]''
      else lit ''function '' @ (if k = lit ''constructor'' then lit ''Object'' else k)
             @ lit ''() { [native code] }'')"

text \<open>\<open>table[key] || key'\<close> where the table holds non-empty strings.\<close>

definition index_text_or :: "(jstr, jstr) dict \<Rightarrow> jstr \<Rightarrow> jstr \<Rightarrow> jstr" where
  "index_text_or m k d =
     (case js_index m k of
        Own v \<Rightarrow> (if v = [] then d else v)
      | Inherited f \<Rightarrow> native_text f
      | Missing \<Rightarrow> d)"

section \<open>JSON.stringify\<close>

definition is_high :: "nat \<Rightarrow> bool" where
  "is_high c \<longleftrightarrow> 0xD800 \<le> c \<and> c \<le> 0xDBFF"

definition is_low :: "nat \<Rightarrow> bool" where
  "is_low c \<longleftrightarrow> 0xDC00 \<le> c \<and> c \<le> 0xDFFF"

definition hex_digit :: "nat \<Rightarrow> nat" where
  "hex_digit n = (if n < 10 then 0x30 + n else 0x57 + n)"

definition u_escape :: "nat \<Rightarrow> jstr" where
  "u_escape c =
     [0x5C, 0x75, hex_digit (c div 4096 mod 16), hex_digit (c div 256 mod 16),
      hex_digit (c div 16 mod 16), hex_digit (c mod 16)]"

definition json_unit :: "nat \<Rightarrow> jstr" where
  "json_unit c =
     (if c = 0x22 then [0x5C, 0x22]
      else if c = 0x5C then [0x5C, 0x5C]
      else if c = 8 then [0x5C, 0x62]
      else if c = 9 then [0x5C, 0x74]
      else if c = 10 then [0x5C, 0x6E]
      else if c = 12 then [0x5C, 0x66]
      else if c = 13 then [0x5C, 0x72]
      else if c < 0x20 \<or> is_high c \<or> is_low c then u_escape c
      else [c])"

fun json_units :: "jstr \<Rightarrow> jstr" where
  "json_units [] = []"
| "json_units [c] = json_unit c"
| "json_units (c # d # r) =
     (if is_high c \<and> is_low d then c # d # json_units r
      else json_unit c @ json_units (d # r))"

definition json_quote :: "jstr \<Rightarrow> jstr" where
  "json_quote s = [0x22] @ json_units s @ [0x22]"

text \<open>
  \<open>String(x)\<close> of a finite number: decimal digits for an integer below \<open>10 ^ 21\<close>; how a
  fraction or a huge number is printed is left to \<open>fmt\<close>.
\<close>

definition num_text :: "(rat \<Rightarrow> jstr) \<Rightarrow> rat \<Rightarrow> jstr" where
  "num_text fmt a =
     (if snd (quotient_of a) = 1 \<and> \<bar>a\<bar> < 10 ^ 21
      then (if a < 0 then lit ''-'' else []) @ decimal (nat \<bar>fst (quotient_of a)\<bar>)
      else fmt a)"

text \<open>
  \<open>fmt\<close> renders a finite number. An \<open>undefined\<close> property is left out, an
  \<open>undefined\<close> array element becomes \<open>null\<close>, and an \<open>undefined\<close> document is no string.
\<close>

fun json :: "(rat \<Rightarrow> jstr) \<Rightarrow> jsval \<Rightarrow> jstr option"
  and json_list :: "(rat \<Rightarrow> jstr) \<Rightarrow> jsval list \<Rightarrow> jstr list"
  and json_fields :: "(rat \<Rightarrow> jstr) \<Rightarrow> (jstr \<times> jsval) list \<Rightarrow> jstr list"
where
  "json fmt JUndef = None"
| "json fmt JNull = Some (lit ''null'')"
| "json fmt (JBool b) = Some (if b then lit ''true'' else lit ''false'')"
| "json fmt (JNum x) = Some (case x of Fin a \<Rightarrow> num_text fmt a | _ \<Rightarrow> lit ''null'')"
| "json fmt (JStr s) = Some (json_quote s)"
| "json fmt (JDate t) = Some (json_quote (to_iso t))"
| "json fmt (JArr vs) = Some (lit ''['' @ join (lit '','') (json_list fmt vs) @ lit '']'')"
| "json fmt (JObj fs) = Some (lit ''{'' @ join (lit '','') (json_fields fmt fs) @ lit ''}'')"
| "json_list fmt [] = []"
| "json_list fmt (v # vs) =
     (case json fmt v of None \<Rightarrow> lit ''null'' | Some s \<Rightarrow> s) # json_list fmt vs"
| "json_fields fmt [] = []"
| "json_fields fmt ((k, v) # fs) =
     (case json fmt v of
        None \<Rightarrow> json_fields fmt fs
      | Some s \<Rightarrow> (json_quote k @ lit '':'' @ s) # json_fields fmt fs)"

lemma json_Some: "v \<noteq> JUndef \<Longrightarrow> \<exists>s. json fmt v = Some s"
  by (cases v) auto

text \<open>\<open>String(v)\<close>; \<open>dfmt\<close> renders a date in the server's locale.\<close>

fun js_string :: "(rat \<Rightarrow> jstr) \<Rightarrow> (time \<Rightarrow> jstr) \<Rightarrow> jsval \<Rightarrow> jstr"
  and js_strings :: "(rat \<Rightarrow> jstr) \<Rightarrow> (time \<Rightarrow> jstr) \<Rightarrow> jsval list \<Rightarrow> jstr list"
where
  "js_string fmt dfmt JUndef = lit ''undefined''"
| "js_string fmt dfmt JNull = lit ''null''"
| "js_string fmt dfmt (JBool b) = (if b then lit ''true'' else lit ''false'')"
| "js_string fmt dfmt (JNum x) =
     (case x of NaN \<Rightarrow> lit ''NaN'' | PInf \<Rightarrow> lit ''Infinity'' | NInf \<Rightarrow> lit ''-Infinity''
      | Fin a \<Rightarrow> num_text fmt a)"
| "js_string fmt dfmt (JStr s) = s"
| "js_string fmt dfmt (JDate t) = dfmt t"
| "js_string fmt dfmt (JArr vs) = join (lit '','') (js_strings fmt dfmt vs)"
| "js_string fmt dfmt (JObj fs) = lit ''[object Object]''"
| "js_strings fmt dfmt [] = []"
| "js_strings fmt dfmt (v # vs) =
     (if v = JUndef \<or> v = JNull then [] else js_string fmt dfmt v) # js_strings fmt dfmt vs"

text \<open>\<open>v.k\<close> on any value: reading from \<open>undefined\<close> or \<open>null\<close> raises.\<close>

definition member :: "jsval \<Rightarrow> jstr \<Rightarrow> jsval result" where
  "member v k =
     (case v of
        JUndef \<Rightarrow> Inl (JsTypeError (lit ''Cannot read properties of undefined''))
      | JNull \<Rightarrow> Inl (JsTypeError (lit ''Cannot read properties of null''))
      | JObj fs \<Rightarrow> Inr (getp fs k)
      | _ \<Rightarrow> Inr JUndef)"

text \<open>A JSON string contains no raw control character and no raw quote inside.\<close>

lemma hex_digit_ge: "0x30 \<le> hex_digit n"
  by (simp add: hex_digit_def)

lemma u_escape_no_control: "c \<in> set (u_escape d) \<Longrightarrow> 0x20 \<le> c"
  using hex_digit_ge by (auto simp: u_escape_def intro: order_trans [OF _ hex_digit_ge])

lemma json_unit_no_control:
  assumes "c \<in> set (json_unit d)"
  shows "0x20 \<le> c"
proof (cases "d < 0x20")
  case True
  with assms show ?thesis
    by (simp add: json_unit_def split: if_splits) (auto dest: u_escape_no_control)
next
  case False
  with assms show ?thesis
    by (simp add: json_unit_def split: if_splits) (auto dest: u_escape_no_control)
qed

lemma json_units_no_control: "c \<in> set (json_units s) \<Longrightarrow> 0x20 \<le> c"
proof (induction s rule: json_units.induct)
  case 1
  then show ?case by simp
next
  case (2 c')
  then show ?case by (auto dest: json_unit_no_control)
next
  case (3 c' d r)
  then show ?case
    by (auto dest: json_unit_no_control simp: is_high_def is_low_def split: if_splits)
qed

section \<open>JSON texts are single lines\<close>

definition printable :: "jstr \<Rightarrow> bool" where
  "printable s \<longleftrightarrow> (\<forall>c \<in> set s. 0x20 \<le> c)"

lemma printable_append [simp]: "printable (s @ t) \<longleftrightarrow> printable s \<and> printable t"
  by (auto simp: printable_def)

lemma printable_Nil [simp]: "printable []"
  by (simp add: printable_def)

lemma printable_Cons [simp]: "printable (c # s) \<longleftrightarrow> 0x20 \<le> c \<and> printable s"
  by (auto simp: printable_def)

lemma printable_join: "printable sep \<Longrightarrow> (\<forall>s \<in> set ss. printable s) \<Longrightarrow> printable (join sep ss)"
  by (induction sep ss rule: join.induct) auto

lemma printable_decimal [simp]: "printable (decimal n)"
  using decimal_digits [of n] by (auto simp: printable_def is_digit_def)

lemma printable_padded [simp]: "printable (padded w n)"
  using padded_units [of w n] by (auto simp: printable_def)

lemma printable_iso_date [simp]: "printable (iso_date t)"
  using iso_date_units [of t] by (auto simp: printable_def)

lemma printable_to_iso [simp]: "printable (to_iso t)"
  by (simp add: to_iso_def Let_def lit_def)

lemma printable_json_quote [simp]: "printable (json_quote s)"
  by (auto simp: json_quote_def printable_def json_units_no_control)

lemma printable_num_text: "(\<forall>a. printable (fmt a)) \<Longrightarrow> printable (num_text fmt a)"
  by (simp add: num_text_def lit_def)

lemma json_printable:
  "(\<forall>a. printable (fmt a)) \<Longrightarrow> json fmt v = Some s \<Longrightarrow> printable s"
  "(\<forall>a. printable (fmt a)) \<Longrightarrow> \<forall>t \<in> set (json_list fmt vs). printable t"
  "(\<forall>a. printable (fmt a)) \<Longrightarrow> \<forall>t \<in> set (json_fields fmt fs). printable t"
proof (induction fmt v and fmt vs and fmt fs arbitrary: s rule: json_json_list_json_fields.induct)
  case (4 fmt x)
  then show ?case by (cases x) (auto simp: printable_num_text lit_def)
next
  case (7 fmt vs)
  then show ?case by (auto simp: lit_def intro!: printable_join)
next
  case (8 fmt fs)
  then show ?case by (auto simp: lit_def intro!: printable_join)
next
  case (10 fmt v vs)
  then show ?case by (cases "json fmt v") (auto simp: lit_def)
next
  case (12 fmt k v fs)
  then show ?case by (cases "json fmt v") (auto simp: lit_def)
qed (auto simp: lit_def)

end
