(* ===== verification/Env.thy ===== *)
theory Env
  imports JsValue
begin

text \<open>
  The server's configuration (\<open>server/_core/env.ts\<close>), the shared constants and error
  constructors (\<open>shared/const.ts\<close>, \<open>shared/_core/errors.ts\<close>), and the network as the
  server's clients use it: a request, what the runtime's \<open>fetch\<close> answers, and the log of
  requests issued, oldest first.
\<close>

section \<open>Configuration\<close>

record env =
  appId :: jstr
  cookieSecret :: jstr
  databaseUrl :: jstr
  oAuthServerUrl :: jstr
  ownerOpenId :: jstr
  isProduction :: bool
  forgeApiUrl :: jstr
  forgeApiKey :: jstr

type_synonym process_env = "(jstr, jstr) dict"

definition env_or_empty :: "process_env \<Rightarrow> string \<Rightarrow> jstr" where
  "env_or_empty pe k = (case dict_get pe (lit k) of None \<Rightarrow> [] | Some v \<Rightarrow> v)"

definition ENV :: "process_env \<Rightarrow> env" where
  "ENV pe =
     \<lparr>appId = env_or_empty pe ''VITE_APP_ID'',
      cookieSecret = env_or_empty pe ''JWT_SECRET'',
      databaseUrl = env_or_empty pe ''DATABASE_URL'',
      oAuthServerUrl = env_or_empty pe ''OAUTH_SERVER_URL'',
      ownerOpenId = env_or_empty pe ''OWNER_OPEN_ID'',
      isProduction = (dict_get pe (lit ''NODE_ENV'') = Some (lit ''production'')),
      forgeApiUrl = env_or_empty pe ''BUILT_IN_FORGE_API_URL'',
      forgeApiKey = env_or_empty pe ''BUILT_IN_FORGE_API_KEY''\<rparr>"

section \<open>Constants and errors\<close>

definition COOKIE_NAME :: jstr where
  "COOKIE_NAME = lit ''app_session_id''"

definition ONE_YEAR_MS :: int where
  "ONE_YEAR_MS = 1000 * 60 * 60 * 24 * 365"

definition AXIOS_TIMEOUT_MS :: int where
  "AXIOS_TIMEOUT_MS = 30000"

definition UNAUTHED_ERR_MSG :: jstr where
  "UNAUTHED_ERR_MSG = lit ''Please login (10001)''"

definition NOT_ADMIN_ERR_MSG :: jstr where
  "NOT_ADMIN_ERR_MSG = lit ''You do not have required permission (10002)''"

definition HttpError :: "nat \<Rightarrow> jstr \<Rightarrow> js_error" where
  "HttpError code msg = JsHttpError code msg"

definition BadRequestError :: "jstr \<Rightarrow> js_error" where
  "BadRequestError msg = HttpError 400 msg"

definition UnauthorizedError :: "jstr \<Rightarrow> js_error" where
  "UnauthorizedError msg = HttpError 401 msg"

definition ForbiddenError :: "jstr \<Rightarrow> js_error" where
  "ForbiddenError msg = HttpError 403 msg"

definition NotFoundError :: "jstr \<Rightarrow> js_error" where
  "NotFoundError msg = HttpError 404 msg"

section \<open>The network\<close>

text \<open>
  \<open>JsonBody v\<close> is the body \<open>JSON.stringify(v)\<close>; \<open>FormBody\<close> a multipart form, each entry
  with its name, its content and, for a file, its type and file name.
\<close>

datatype body =
    NoBody
  | JsonBody jsval
  | FormBody "(jstr \<times> jsval \<times> (jstr \<times> jstr) option) list"

record http_request =
  rq_url :: jstr
  rq_query :: "(jstr \<times> jstr) list"
  rq_method :: jstr
  rq_headers :: "(jstr \<times> jstr) list"
  rq_body :: body

record http_response =
  rs_ok :: bool
  rs_status :: nat
  rs_statusText :: jstr
  rs_contentType :: "jstr option"
  rs_text :: "jstr result"
  rs_json :: "jsval result"
  rs_bytes :: "nat list result"

text \<open>
  The runtime the server relies on: \<open>fetch\<close> (which may reject, and may answer two equal
  requests differently, so it sees the requests before it), the URL constructor and the
  host name it yields, JSON
  parsing, base64 decoding and the printing of fractions and dates.
\<close>

record net =
  n_fetch :: "http_request list \<Rightarrow> http_request \<Rightarrow> http_response result"
  n_url :: "jstr \<Rightarrow> jstr option \<Rightarrow> jstr result"
  n_hostname :: "jstr \<Rightarrow> jstr result"
  n_parse :: "jsval \<Rightarrow> jsval result"
  n_b64 :: "jsval \<Rightarrow> nat list result"
  n_fmt :: "rat \<Rightarrow> jstr"
  n_date :: "time \<Rightarrow> jstr"

type_synonym 'a netop = "(http_request list, 'a) io"

definition fetch :: "net \<Rightarrow> http_request \<Rightarrow> http_response netop" where
  "fetch n rq = (\<lambda>sent. (n_fetch n sent rq, sent @ [rq]))"

definition get_request :: "jstr \<Rightarrow> http_request" where
  "get_request u =
     \<lparr>rq_url = u, rq_query = [], rq_method = lit ''GET'', rq_headers = [], rq_body = NoBody\<rparr>"

definition bearer :: "jstr \<Rightarrow> jstr" where
  "bearer key = lit ''Bearer '' @ key"

text \<open>The headers of the Connect-protocol services.\<close>

definition connect_headers :: "jstr \<Rightarrow> (jstr \<times> jstr) list" where
  "connect_headers key =
     [(lit ''accept'', lit ''application/json''),
      (lit ''content-type'', lit ''application/json''),
      (lit ''connect-protocol-version'', lit ''1''),
      (lit ''authorization'', bearer key)]"

text \<open>\<open>`${status} ${statusText}`\<close> and \<open>response.text().catch(() => "")\<close>.\<close>

definition status_line :: "http_response \<Rightarrow> jstr" where
  "status_line r = decimal (rs_status r) @ lit '' '' @ rs_statusText r"

definition text_or_empty :: "http_response \<Rightarrow> jstr" where
  "text_or_empty r = (case rs_text r of Inl _ \<Rightarrow> [] | Inr t \<Rightarrow> t)"

definition with_detail :: "jstr \<Rightarrow> jstr" where
  "with_detail d = (if d = [] then [] else lit '': '' @ d)"

text \<open>\<open>value.endsWith("/") ? value : `${value}/`\<close>.\<close>

definition ensureTrailingSlash :: "jstr \<Rightarrow> jstr" where
  "ensureTrailingSlash v = (if ends_with (lit ''/'') v then v else v @ lit ''/'')"

lemma fetch_log: "snd (fetch n rq sent) = sent @ [rq]"
  by (simp add: fetch_def)

lemma ends_with_ensureTrailingSlash: "ends_with (lit ''/'') (ensureTrailingSlash v)"
  by (auto simp: ensureTrailingSlash_def ends_with_def lit_def)

lemma ensureTrailingSlash_idem:
  "ensureTrailingSlash (ensureTrailingSlash v) = ensureTrailingSlash v"
  using ends_with_ensureTrailingSlash [of v] by (subst ensureTrailingSlash_def) simp

section \<open>Services that need credentials\<close>

text \<open>
  The contract every client of the Forge services keeps: unless the service is
  configured, a call fails with a fixed error before any request is issued. The
  clients of \<open>Forge\<close> and \<open>Llm\<close> interpret it.
\<close>

locale guarded_service =
  fixes ready :: "env \<Rightarrow> bool"
    and refuse :: "env \<Rightarrow> 'a \<Rightarrow> js_error"
    and call :: "env \<Rightarrow> 'a \<Rightarrow> 'b netop"
  assumes unready: "\<not> ready e \<Longrightarrow> call e x sent = (Inl (refuse e x), sent)"
begin

lemma unready_silent: "\<not> ready e \<Longrightarrow> snd (call e x sent) = sent"
  by (simp add: unready)

lemma sent_ready: "snd (call e x sent) \<noteq> sent \<Longrightarrow> ready e"
  using unready_silent by blast

lemma success_ready: "call e x sent = (Inr y, sent') \<Longrightarrow> ready e"
  using unready [of e x sent] by (cases "ready e") auto

text \<open>A whole run of calls against an unconfigured service leaves the network untouched.\<close>

lemma unready_run: "\<not> ready e \<Longrightarrow> fold (\<lambda>x s. snd (call e x s)) xs sent = sent"
  by (induction xs arbitrary: sent) (auto simp: unready_silent)

end

definition forge_ready :: "env \<Rightarrow> bool" where
  "forge_ready e \<longleftrightarrow> forgeApiUrl e \<noteq> [] \<and> forgeApiKey e \<noteq> []"

section \<open>A network for concrete runs\<close>

text \<open>
  The properties hold for every network; this one answers each request with the same
  document and lets the witnesses evaluate the operations.
\<close>

definition answer_with :: "jsobj \<Rightarrow> nat list \<Rightarrow> http_response" where
  "answer_with fs bytes =
     \<lparr>rs_ok = True, rs_status = 200, rs_statusText = lit ''OK'', rs_contentType = None,
      rs_text = Inr [], rs_json = Inr (JObj fs), rs_bytes = Inr bytes\<rparr>"

definition fixed_net :: "http_response \<Rightarrow> net" where
  "fixed_net r =
     \<lparr>n_fetch = \<lambda>_ _. Inr r,
      n_url = \<lambda>u b. Inr ((case b of None \<Rightarrow> [] | Some x \<Rightarrow> x) @ u),
      n_hostname = \<lambda>u. Inr u, n_parse = \<lambda>v. Inr v, n_b64 = \<lambda>_. Inr [],
      n_fmt = \<lambda>_. lit ''0.5'', n_date = \<lambda>_. lit ''date''\<rparr>"

definition sample_process_env :: process_env where
  "sample_process_env =
     [(lit ''VITE_APP_ID'', lit ''app''), (lit ''JWT_SECRET'', lit ''secret''),
      (lit ''DATABASE_URL'', lit ''mysql://db''), (lit ''OAUTH_SERVER_URL'', lit ''https://oauth''),
      (lit ''OWNER_OPEN_ID'', lit ''owner''), (lit ''BUILT_IN_FORGE_API_URL'', lit ''https://forge''),
      (lit ''BUILT_IN_FORGE_API_KEY'', lit ''key'')]"

definition sample_env :: env where
  "sample_env = ENV sample_process_env"

lemmas sample_simps = sample_env_def sample_process_env_def ENV_def env_or_empty_def

lemma sample_ready: "forge_ready sample_env"
  by (simp add: forge_ready_def sample_simps)

end
