(* ===== verification/Schema.thy ===== *)
theory Schema
  imports Env
begin

text \<open>
  The tables of \<open>drizzle/schema.ts\<close> as data: every column with its type, whether it is
  nullable, and its default. \<open>fits\<close> is what a column of the declared type can hold.
\<close>

section \<open>Columns\<close>

datatype col_type =
  TInt | TVarchar nat | TText | TEnum "jstr list" | TTimestamp | TBoolean

datatype col_default = NoDefault | DefaultValue jsval | DefaultNow | AutoIncrement

record column =
  col_name :: jstr
  col_type :: col_type
  col_notNull :: bool
  col_unique :: bool
  col_default :: col_default
  col_onUpdateNow :: bool

definition col :: "string \<Rightarrow> col_type \<Rightarrow> column" where
  "col nm t = \<lparr>col_name = lit nm, col_type = t, col_notNull = False, col_unique = False,
              col_default = NoDefault, col_onUpdateNow = False\<rparr>"

definition notNull :: "column \<Rightarrow> column" where
  "notNull c = c\<lparr>col_notNull := True\<rparr>"

definition unique_col :: "column \<Rightarrow> column" where
  "unique_col c = c\<lparr>col_unique := True\<rparr>"

definition default_to :: "jsval \<Rightarrow> column \<Rightarrow> column" where
  "default_to v c = c\<lparr>col_default := DefaultValue v\<rparr>"

definition defaultNow :: "column \<Rightarrow> column" where
  "defaultNow c = c\<lparr>col_default := DefaultNow\<rparr>"

definition onUpdateNow :: "column \<Rightarrow> column" where
  "onUpdateNow c = c\<lparr>col_onUpdateNow := True\<rparr>"

definition primary_id :: column where
  "primary_id = \<lparr>col_name = lit ''id'', col_type = TInt, col_notNull = True, col_unique = True,
                 col_default = AutoIncrement, col_onUpdateNow = False\<rparr>"

definition varchar :: "string \<Rightarrow> nat \<Rightarrow> column" where
  "varchar nm n = col nm (TVarchar n)"

definition text_col :: "string \<Rightarrow> column" where
  "text_col nm = col nm TText"

definition created_at :: "string \<Rightarrow> column" where
  "created_at nm = notNull (defaultNow (col nm TTimestamp))"

section \<open>Tables\<close>

definition users :: "column list" where
  "users =
     [primary_id,
      unique_col (notNull (varchar ''openId'' 64)),
      text_col ''name'',
      varchar ''email'' 320,
      varchar ''loginMethod'' 64,
      notNull (default_to (JStr (lit ''user'')) (col ''role'' (TEnum [lit ''user'', lit ''admin'']))),
      created_at ''createdAt'',
      onUpdateNow (created_at ''updatedAt''),
      created_at ''lastSignedIn'']"

definition leads :: "column list" where
  "leads =
     [primary_id,
      default_to (JStr (lit ''contact'')) (notNull (varchar ''source'' 32)),
      notNull (default_to (JStr (lit ''new''))
        (col ''status'' (TEnum (map lit [''new'', ''contacted'', ''qualified'', ''proposal'', ''won'', ''lost''])))),
      notNull (varchar ''name'' 255),
      varchar ''company'' 255,
      varchar ''email'' 320,
      varchar ''phone'' 32,
      varchar ''industry'' 100,
      varchar ''interest'' 255,
      varchar ''budget'' 100,
      varchar ''timeline'' 100,
      varchar ''systemSize'' 50,
      varchar ''systemType'' 100,
      varchar ''monthlyBill'' 50,
      varchar ''bessInterest'' 10,
      text_col ''message'',
      text_col ''adminNotes'',
      varchar ''lineUserId'' 64,
      created_at ''createdAt'',
      onUpdateNow (created_at ''updatedAt'')]"

definition blogPosts :: "column list" where
  "blogPosts =
     [primary_id,
      unique_col (notNull (varchar ''slug'' 255)),
      notNull (varchar ''title'' 500),
      text_col ''excerpt'',
      text_col ''content'',
      text_col ''coverImage'',
      varchar ''category'' 100,
      text_col ''tags'',
      default_to (JStr (lit ''SIRINX Team'')) (varchar ''author'' 255),
      notNull (default_to (JBool False) (col ''published'' TBoolean)),
      default_to (JNum 5) (col ''readTime'' TInt),
      varchar ''metaTitle'' 255,
      text_col ''metaDescription'',
      col ''authorId'' TInt,
      col ''publishedAt'' TTimestamp,
      created_at ''createdAt'',
      onUpdateNow (created_at ''updatedAt'')]"

definition projects :: "column list" where
  "projects =
     [primary_id,
      notNull (varchar ''title'' 500),
      varchar ''location'' 255,
      varchar ''type'' 100,
      varchar ''capacity'' 100,
      varchar ''saving'' 255,
      varchar ''year'' 10,
      text_col ''description'',
      text_col ''image'',
      text_col ''galleryImages'',
      varchar ''tag'' 50,
      default_to (JNum 0) (col ''sortOrder'' TInt),
      notNull (default_to (JBool True) (col ''published'' TBoolean)),
      created_at ''createdAt'',
      onUpdateNow (created_at ''updatedAt'')]"

definition contactSubmissions :: "column list" where
  "contactSubmissions =
     [primary_id,
      col ''leadId'' TInt,
      notNull (text_col ''formData''),
      default_to (JStr (lit ''contact'')) (varchar ''sourcePage'' 100),
      varchar ''ipAddress'' 45,
      created_at ''createdAt'']"

definition pageViews :: "column list" where
  "pageViews =
     [primary_id,
      notNull (varchar ''path'' 500),
      text_col ''referrer'',
      varchar ''utmSource'' 255,
      varchar ''utmMedium'' 255,
      varchar ''utmCampaign'' 255,
      varchar ''visitorId'' 64,
      varchar ''sessionId'' 64,
      text_col ''userAgent'',
      varchar ''deviceType'' 20,
      varchar ''country'' 10,
      created_at ''createdAt'']"

definition events :: "column list" where
  "events =
     [primary_id,
      notNull (varchar ''category'' 50),
      notNull (varchar ''action'' 100),
      varchar ''label'' 255,
      col ''value'' TInt,
      varchar ''pagePath'' 500,
      varchar ''visitorId'' 64,
      varchar ''sessionId'' 64,
      text_col ''metadata'',
      created_at ''createdAt'']"

text \<open>The tables by the names the statements use (the names of the exported constants).\<close>

definition tables :: "(jstr, column list) dict" where
  "tables =
     [(lit ''users'', users), (lit ''leads'', leads), (lit ''blogPosts'', blogPosts),
      (lit ''projects'', projects), (lit ''contactSubmissions'', contactSubmissions),
      (lit ''pageViews'', pageViews), (lit ''events'', events)]"

section \<open>What a column holds\<close>

text \<open>
  A \<open>varchar(n)\<close> holds at most \<open>n\<close> characters, a \<open>text\<close> at most 65535 bytes, an
  \<open>int\<close> the 32-bit range. Bytes are those of the UTF-8 encoding, where a code unit takes
  one, two or three bytes and a surrogate pair four.
\<close>

fun utf8_length :: "jstr \<Rightarrow> nat" where
  "utf8_length [] = 0"
| "utf8_length (c # cs) =
     (if c < 0x80 then 1 else if c < 0x800 then 2
      else if is_high c \<or> is_low c then 2 else 3) + utf8_length cs"

definition type_holds :: "col_type \<Rightarrow> jsval \<Rightarrow> bool" where
  "type_holds t v =
     (case t of
        TInt \<Rightarrow> (case v of JNum (Fin a) \<Rightarrow> - 2147483648 \<le> a \<and> a \<le> 2147483647 | _ \<Rightarrow> False)
      | TVarchar n \<Rightarrow> (case v of JStr s \<Rightarrow> length s \<le> n | _ \<Rightarrow> False)
      | TText \<Rightarrow> (case v of JStr s \<Rightarrow> utf8_length s \<le> 65535 | _ \<Rightarrow> False)
      | TEnum es \<Rightarrow> (case v of JStr s \<Rightarrow> s \<in> set es | _ \<Rightarrow> False)
      | TTimestamp \<Rightarrow> (case v of JDate _ \<Rightarrow> True | _ \<Rightarrow> False)
      | TBoolean \<Rightarrow> (case v of JBool _ \<Rightarrow> True | _ \<Rightarrow> False))"

definition fits :: "column \<Rightarrow> jsval \<Rightarrow> bool" where
  "fits c v \<longleftrightarrow>
     (if v = JUndef then col_notNull c \<longrightarrow> col_default c \<noteq> NoDefault
      else if v = JNull then \<not> col_notNull c
      else type_holds (col_type c) v)"

definition row_fits :: "column list \<Rightarrow> jsobj \<Rightarrow> bool" where
  "row_fits cols row \<longleftrightarrow> list_all (\<lambda>c. fits c (getp row (col_name c))) cols"

lemma utf8_length_le: "utf8_length s \<le> 3 * length s"
  by (induction s) auto

lemma utf8_length_ge: "length s \<le> utf8_length s"
  by (induction s) auto

lemma type_holds_varchar [simp]: "type_holds (TVarchar n) (JStr s) \<longleftrightarrow> length s \<le> n"
  by (simp add: type_holds_def)

lemma type_holds_text_short: "length s \<le> 21845 \<Longrightarrow> type_holds TText (JStr s)"
  using utf8_length_le [of s] by (simp add: type_holds_def)

lemma columns_distinct:
  "list_all (\<lambda>(_, cols). distinct (map col_name cols)) tables"
  by (simp add: tables_def users_def leads_def blogPosts_def projects_def contactSubmissions_def
      pageViews_def events_def primary_id_def col_def varchar_def text_col_def created_at_def
      notNull_def unique_col_def default_to_def defaultNow_def onUpdateNow_def lit_def)

lemma col_names [simp]:
  "col_name (varchar c n) = lit c" "col_name (text_col c) = lit c"
  "col_name (notNull k) = col_name k" "col_name (unique_col k) = col_name k"
  "col_name (default_to d k) = col_name k" "col_name (col c t) = lit c"
  "col_name (created_at c) = lit c" "col_name (onUpdateNow k) = col_name k"
  "col_name primary_id = lit ''id''"
  by (simp_all add: varchar_def text_col_def notNull_def unique_col_def default_to_def col_def
      created_at_def defaultNow_def onUpdateNow_def primary_id_def)

text \<open>Columns a row may leave to the database.\<close>

lemma fits_undefined [simp]:
  "fits primary_id JUndef" "fits (varchar c n) JUndef" "fits (text_col c) JUndef"
  "fits (notNull (default_to d k)) JUndef" "fits (default_to d k) JUndef"
  "fits (created_at c) JUndef" "fits (onUpdateNow k) JUndef = fits k JUndef"
  by (simp_all add: fits_def primary_id_def varchar_def text_col_def col_def notNull_def
      default_to_def created_at_def defaultNow_def onUpdateNow_def)

lemma fits_string:
  "fits (varchar c n) (JStr s) \<longleftrightarrow> length s \<le> n"
  "fits (notNull k) (JStr s) \<longleftrightarrow> fits k (JStr s)"
  "fits (default_to d k) (JStr s) \<longleftrightarrow> fits k (JStr s)"
  "fits (text_col c) (JStr s) \<longleftrightarrow> utf8_length s \<le> 65535"
  by (simp_all add: fits_def varchar_def text_col_def col_def notNull_def default_to_def type_holds_def)

end
