(* ===== verification/World.thy ===== *)
theory World
  imports Schema
begin

text \<open>
  The runtime the server is started in and the state it acts on. The database engine, the
  validation library, the token library, the HTTP client and the clock are fields of the
  runtime: functions the development never fixes. The world is what an operation can
  change: the database, the connection kept by \<open>server/db.ts\<close>, the log of requests sent,
  the files of the local queue and the cookies set on the response.
\<close>

section \<open>Statements\<close>

text \<open>
  The statements the query builder assembles. An empty condition list is no \<open>where\<close>
  clause; \<open>limit\<close> and \<open>offset\<close> are the values the code passes.
\<close>

datatype cond = Eq jstr jsval | Gte jstr jsval

datatype stmt =
    SSelect jstr "cond list" "jstr option" "jsval option" "jsval option"
  | SInsert jstr jsobj
  | SUpsert jstr jsobj jsobj
  | SUpdate jstr jsobj "cond list"
  | SDelete jstr "cond list"
  | SCount jstr "cond list"
  | SGroupCount jstr jstr "cond list"

datatype reply =
    Rows "jsobj list"
  | InsertId int
  | Counted "nat option"
  | Groups "(jsval \<times> nat) list"
  | Done

section \<open>Input schemas\<close>

text \<open>The schemas the program declares, as the builder calls write them.\<close>

datatype zcheck = ZTrim | ZMin nat | ZMax nat | ZEmail | ZSlug | ZNoUrl

datatype ztype =
    ZString "zcheck list"
  | ZEnum "jstr list"
  | ZNumber "int option" "int option"
  | ZBoolean
  | ZLiteral jstr
  | ZTrue
  | ZArray ztype
  | ZArrayMax nat ztype
  | ZObject "(jstr \<times> ztype) list"
  | ZOptional ztype
  | ZDefault ztype jsval
  | ZOr ztype ztype

section \<open>Runtime and world\<close>

record 'd driver =
  dr_connect :: "jstr \<Rightarrow> bool"
  dr_exec :: "stmt \<Rightarrow> 'd \<Rightarrow> reply result \<times> 'd"

text \<open>
  \<open>jw_sign\<close> takes the secret, the claims and the expiry in seconds; \<open>jw_verify\<close> the
  secret, the token and the current time in milliseconds, and returns the claims.
\<close>

record jwt =
  jw_sign :: "jstr \<Rightarrow> jsobj \<Rightarrow> int \<Rightarrow> jstr result"
  jw_verify :: "jstr \<Rightarrow> jstr \<Rightarrow> time \<Rightarrow> jsobj result"

record 'd runtime =
  rt_env :: process_env
  rt_net :: net
  rt_driver :: "'d driver"
  rt_zod :: "ztype \<Rightarrow> jsval \<Rightarrow> jsval result"
  rt_jwt :: jwt
  rt_post :: "http_request list \<Rightarrow> jstr \<Rightarrow> jsval \<Rightarrow> jsval result"
  rt_atob :: "jstr \<Rightarrow> jstr result"
  rt_cookies :: "jstr \<Rightarrow> (jstr, jstr) dict"
  rt_cwd :: jstr
  rt_append :: "jstr \<Rightarrow> unit result"
  rt_uuid :: jstr
  rt_now :: time

datatype cookie_op = SetCookie jstr jstr jsobj | ClearCookie jstr jsobj

record 'd world =
  w_db :: 'd
  w_conn :: bool
  w_sent :: "http_request list"
  w_files :: "(jstr, jstr) dict"
  w_cookies :: "cookie_op list"

type_synonym ('d, 'a) op = "('d world, 'a) io"

abbreviation rt_ENV :: "'d runtime \<Rightarrow> env" where
  "rt_ENV rt \<equiv> ENV (rt_env rt)"

abbreviation rt_fmt :: "'d runtime \<Rightarrow> rat \<Rightarrow> jstr" where
  "rt_fmt rt \<equiv> n_fmt (rt_net rt)"

text \<open>An operation of the network clients, run on the request log of the world.\<close>

definition on_net :: "'a netop \<Rightarrow> ('d, 'a) op" where
  "on_net m = io_zoom w_sent (\<lambda>s w. w\<lparr>w_sent := s\<rparr>) m"

definition run_stmt :: "'d driver \<Rightarrow> stmt \<Rightarrow> ('d, reply) op" where
  "run_stmt dr s = io_zoom w_db (\<lambda>d w. w\<lparr>w_db := d\<rparr>) (dr_exec dr s)"

lemma on_net_keeps [keeps_rules]:
  "keeps w_db (on_net m)" "keeps w_conn (on_net m)" "keeps w_files (on_net m)"
  "keeps w_cookies (on_net m)"
  by (simp_all add: on_net_def keeps_zoom)

lemma run_stmt_keeps [keeps_rules]:
  "keeps w_sent (run_stmt dr s)" "keeps w_conn (run_stmt dr s)" "keeps w_files (run_stmt dr s)"
  "keeps w_cookies (run_stmt dr s)"
  by (simp_all add: run_stmt_def keeps_zoom)

section \<open>What the validated input of a schema looks like\<close>

text \<open>
  \<open>conforms t v\<close>: \<open>v\<close> is a possible output of the schema \<open>t\<close>. Objects carry declared
  keys only. \<open>zod_ok\<close> is the documented behaviour of the validation library the
  properties rely on: what it lets through conforms, and what it rejects is reported
  with code \<open>BAD_REQUEST\<close>.
\<close>

fun check_holds :: "jstr \<Rightarrow> zcheck \<Rightarrow> bool" where
  "check_holds s ZTrim = (trim s = s)"
| "check_holds s (ZMin n) = (n \<le> length s)"
| "check_holds s (ZMax n) = (length s \<le> n)"
| "check_holds s ZEmail = (s \<noteq> [])"
| "check_holds s ZNoUrl =
     (\<not> starts_with (lit ''http://'') (to_lower s) \<and> \<not> starts_with (lit ''https://'') (to_lower s))"
| "check_holds s ZSlug =
     (s \<noteq> [] \<and> list_all (\<lambda>c. is_digit c \<or> (0x61 \<le> c \<and> c \<le> 0x7A) \<or> c = 0x2D) s)"

fun conforms :: "ztype \<Rightarrow> jsval \<Rightarrow> bool" where
  "conforms (ZString cs) v = (case v of JStr s \<Rightarrow> list_all (check_holds s) cs | _ \<Rightarrow> False)"
| "conforms (ZEnum es) v = (case v of JStr s \<Rightarrow> s \<in> set es | _ \<Rightarrow> False)"
| "conforms (ZNumber lo hi) v =
     (case v of
        JNum x \<Rightarrow> x \<noteq> NaN \<and>
          (case lo of None \<Rightarrow> True | Some a \<Rightarrow> Fin (of_int a) \<le> x) \<and>
          (case hi of None \<Rightarrow> True | Some b \<Rightarrow> x \<le> Fin (of_int b))
      | _ \<Rightarrow> False)"
| "conforms ZBoolean v = (case v of JBool _ \<Rightarrow> True | _ \<Rightarrow> False)"
| "conforms (ZLiteral s) v = (v = JStr s)"
| "conforms ZTrue v = (v = JBool True)"
| "conforms (ZArrayMax n t) v =
     (case v of JArr vs \<Rightarrow> length vs \<le> n \<and> list_all (conforms t) vs | _ \<Rightarrow> False)"
| "conforms (ZArray t) v = (case v of JArr vs \<Rightarrow> list_all (conforms t) vs | _ \<Rightarrow> False)"
| "conforms (ZObject fs) v =
     (case v of
        JObj os \<Rightarrow>
          distinct (dict_keys os) \<and> set (dict_keys os) \<subseteq> set (map fst fs) \<and>
          list_all (\<lambda>(k, t). conforms t (getp os k)) fs
      | _ \<Rightarrow> False)"
| "conforms (ZOptional t) v = (v = JUndef \<or> conforms t v)"
| "conforms (ZDefault t d) v = (v = d \<or> conforms t v)"
| "conforms (ZOr a b) v = (conforms a v \<or> conforms b v)"

definition zod_ok :: "(ztype \<Rightarrow> jsval \<Rightarrow> jsval result) \<Rightarrow> bool" where
  "zod_ok zod \<longleftrightarrow>
     (\<forall>t x. case zod t x of
              Inl e \<Rightarrow> \<exists>m. e = JsTrpcError BAD_REQUEST m
            | Inr v \<Rightarrow> conforms t v)"

lemma zod_ok_Inr: "zod_ok zod \<Longrightarrow> zod t x = Inr v \<Longrightarrow> conforms t v"
  by (auto simp: zod_ok_def split: sum.splits)

lemma conforms_object:
  "conforms (ZObject fs) v \<Longrightarrow> \<exists>os. v = JObj os \<and> distinct (dict_keys os) \<and>
     set (dict_keys os) \<subseteq> set (map fst fs) \<and> (\<forall>(k, t) \<in> set fs. conforms t (getp os k))"
  by (cases v) (auto simp: list_all_iff)

text \<open>A validator that accepts exactly the conforming inputs and changes nothing.\<close>

definition strict_zod :: "ztype \<Rightarrow> jsval \<Rightarrow> jsval result" where
  "strict_zod t v =
     (if conforms t v then Inr v else Inl (JsTrpcError BAD_REQUEST (lit ''Invalid input'')))"

lemma zod_ok_strict: "zod_ok strict_zod"
  by (auto simp: zod_ok_def strict_zod_def)

section \<open>A runtime for concrete runs\<close>

text \<open>
  An in-memory database with the statements the code sends, and a runtime around it. They
  serve the witnesses; no property depends on them.
\<close>

type_synonym memory = "(jstr, jsobj list) dict"

definition rows_of :: "memory \<Rightarrow> jstr \<Rightarrow> jsobj list" where
  "rows_of m t = (case dict_get m t of None \<Rightarrow> [] | Some rs \<Rightarrow> rs)"

fun cond_holds :: "jsobj \<Rightarrow> cond \<Rightarrow> bool" where
  "cond_holds r (Eq c v) = (getp r c = v)"
| "cond_holds r (Gte c v) =
     (case (getp r c, v) of (JDate a, JDate b) \<Rightarrow> b \<le> a | _ \<Rightarrow> False)"

definition matching :: "memory \<Rightarrow> jstr \<Rightarrow> cond list \<Rightarrow> jsobj list" where
  "matching m t cs = filter (\<lambda>r. list_all (cond_holds r) cs) (rows_of m t)"

fun memory_exec :: "stmt \<Rightarrow> memory \<Rightarrow> reply result \<times> memory" where
  "memory_exec (SSelect t cs ord limit offset) m = (Inr (Rows (matching m t cs)), m)"
| "memory_exec (SInsert t row) m =
     (let n = length (rows_of m t) + 1 in
      (Inr (InsertId (int n)),
       dict_set t (rows_of m t @ [dict_spread [(lit ''id'', JNum (Fin (of_nat n)))] row]) m))"
| "memory_exec (SUpsert t values assignments) m =
     (Inr Done, dict_set t (rows_of m t @ [values]) m)"
| "memory_exec (SUpdate t assignments cs) m =
     (Inr Done, dict_set t (map (\<lambda>r. if list_all (cond_holds r) cs then dict_spread r assignments else r)
        (rows_of m t)) m)"
| "memory_exec (SDelete t cs) m =
     (Inr Done, dict_set t (filter (\<lambda>r. \<not> list_all (cond_holds r) cs) (rows_of m t)) m)"
| "memory_exec (SCount t cs) m = (Inr (Counted (Some (length (matching m t cs)))), m)"
| "memory_exec (SGroupCount t c cs) m = (Inr (Groups []), m)"

definition memory_driver :: "memory driver" where
  "memory_driver = \<lparr>dr_connect = \<lambda>_. True, dr_exec = memory_exec\<rparr>"

definition no_jwt :: jwt where
  "no_jwt = \<lparr>jw_sign = \<lambda>_ _ _. Inl (JsError (lit ''no key'')),
             jw_verify = \<lambda>_ _ _. Inl (JsError (lit ''no key''))\<rparr>"

definition sample_runtime :: "process_env \<Rightarrow> jwt \<Rightarrow> memory runtime" where
  "sample_runtime pe j =
     \<lparr>rt_env = pe, rt_net = fixed_net (answer_with [] []), rt_driver = memory_driver,
      rt_zod = strict_zod, rt_jwt = j, rt_post = \<lambda>_ _ _. Inl (JsError (lit ''offline'')),
      rt_atob = \<lambda>s. Inr s, rt_cookies = \<lambda>h. [(COOKIE_NAME, h)], rt_cwd = lit ''/srv'',
      rt_append = \<lambda>_. Inr (), rt_uuid = lit ''uuid'', rt_now = 1700000000000\<rparr>"

definition sample_world :: "memory world" where
  "sample_world = \<lparr>w_db = [], w_conn = False, w_sent = [], w_files = [], w_cookies = []\<rparr>"

end
