(* ===== verification/Db.thy ===== *)
theory Db
  imports World
begin

text \<open>
  The data access of \<open>server/db.ts\<close> except its analytics: the lazily made connection and
  one operation per exported function, each with the statement it sends to the driver.
\<close>

section \<open>The connection\<close>

text \<open>
  \<open>getDb\<close>: the first call with a \<open>DATABASE_URL\<close> tries to connect; a failed attempt is
  forgotten, so the next call tries again.
\<close>

definition getDb :: "'d runtime \<Rightarrow> ('d, bool) op" where
  "getDb rt = (\<lambda>w.
     let url = env_or_empty (rt_env rt) ''DATABASE_URL'' in
     if \<not> w_conn w \<and> url \<noteq> []
     then (let ok = dr_connect (rt_driver rt) url in (Inr ok, w\<lparr>w_conn := ok\<rparr>))
     else (Inr (w_conn w), w))"

definition DB_UNAVAILABLE :: js_error where
  "DB_UNAVAILABLE = JsError (lit ''Database not available'')"

text \<open>\<open>const db = await getDb(); if (!db) throw new Error("Database not available");\<close>\<close>

definition with_db :: "'d runtime \<Rightarrow> ('d, 'a) op \<Rightarrow> ('d, 'a) op" where
  "with_db rt k = io_bind (getDb rt) (\<lambda>ok. if ok then k else io_throw DB_UNAVAILABLE)"

definition query :: "'d runtime \<Rightarrow> stmt \<Rightarrow> ('d, jsobj list) op" where
  "query rt s = io_bind (run_stmt (rt_driver rt) s)
     (\<lambda>r. io_return (case r of Rows rows \<Rightarrow> rows | _ \<Rightarrow> []))"

definition insert_id :: "'d runtime \<Rightarrow> stmt \<Rightarrow> ('d, jsval) op" where
  "insert_id rt s = io_bind (run_stmt (rt_driver rt) s)
     (\<lambda>r. io_return (JObj [(lit ''id'', case r of InsertId i \<Rightarrow> JNum (Fin (of_int i)) | _ \<Rightarrow> JUndef)]))"

definition execute :: "'d runtime \<Rightarrow> stmt \<Rightarrow> ('d, jsval) op" where
  "execute rt s = io_bind (run_stmt (rt_driver rt) s)
     (\<lambda>_. io_return (JObj [(lit ''success'', JBool True)]))"

text \<open>\<open>result[0] ?? null\<close>.\<close>

definition first_or_null :: "jsobj list \<Rightarrow> jsval" where
  "first_or_null rows = (case rows of [] \<Rightarrow> JNull | r # _ \<Rightarrow> JObj r)"

section \<open>Users\<close>

record insert_user =
  iu_openId :: jstr
  iu_name :: "jstr field"
  iu_email :: "jstr field"
  iu_loginMethod :: "jstr field"
  iu_lastSignedIn :: "time option"
  iu_role :: "jstr option"

text \<open>
  The values to insert and the set to update on a duplicate key. A text field that is
  \<open>undefined\<close> is left out of both; the clock is read once per call.
\<close>

definition assign_nullable :: "string \<Rightarrow> jstr field \<Rightarrow> jsobj \<Rightarrow> jsobj" where
  "assign_nullable k f m = (if f = Undef then m else dict_set (lit k) (field_val f) m)"

definition user_assignments :: "jstr \<Rightarrow> insert_user \<Rightarrow> jsobj \<Rightarrow> jsobj" where
  "user_assignments ownerId u m =
     (let m = assign_nullable ''name'' (iu_name u) m;
          m = assign_nullable ''email'' (iu_email u) m;
          m = assign_nullable ''loginMethod'' (iu_loginMethod u) m;
          m = (case iu_lastSignedIn u of None \<Rightarrow> m | Some t \<Rightarrow> dict_set (lit ''lastSignedIn'') (JDate t) m)
      in case iu_role u of
           Some r \<Rightarrow> dict_set (lit ''role'') (JStr r) m
         | None \<Rightarrow> if iu_openId u = ownerId then dict_set (lit ''role'') (JStr (lit ''admin'')) m else m)"

definition upsert_values :: "jstr \<Rightarrow> time \<Rightarrow> insert_user \<Rightarrow> jsobj" where
  "upsert_values ownerId now u =
     (let values = user_assignments ownerId u [(lit ''openId'', JStr (iu_openId u))]
      in if truthy (getp values (lit ''lastSignedIn'')) then values
         else dict_set (lit ''lastSignedIn'') (JDate now) values)"

definition upsert_set :: "jstr \<Rightarrow> time \<Rightarrow> insert_user \<Rightarrow> jsobj" where
  "upsert_set ownerId now u =
     (let updateSet = user_assignments ownerId u []
      in if updateSet = [] then [(lit ''lastSignedIn'', JDate now)] else updateSet)"

definition upsertUser :: "'d runtime \<Rightarrow> insert_user \<Rightarrow> ('d, unit) op" where
  "upsertUser rt u =
     (if iu_openId u = [] then io_throw (JsError (lit ''User openId is required for upsert''))
      else io_bind (getDb rt) (\<lambda>ok.
        if \<not> ok then io_return ()
        else io_bind (run_stmt (rt_driver rt)
               (SUpsert (lit ''users'')
                  (upsert_values (ownerOpenId (rt_ENV rt)) (rt_now rt) u)
                  (upsert_set (ownerOpenId (rt_ENV rt)) (rt_now rt) u)))
             (\<lambda>_. io_return ())))"

definition getUserByOpenId :: "'d runtime \<Rightarrow> jstr \<Rightarrow> ('d, jsobj option) op" where
  "getUserByOpenId rt openId =
     io_bind (getDb rt) (\<lambda>ok.
       if \<not> ok then io_return None
       else io_bind (query rt (SSelect (lit ''users'') [Eq (lit ''openId'') (JStr openId)] None
                       (Some (JNum 1)) None))
            (\<lambda>rows. io_return (case rows of [] \<Rightarrow> None | r # _ \<Rightarrow> Some r)))"

section \<open>Leads\<close>

definition createLead :: "'d runtime \<Rightarrow> jsobj \<Rightarrow> ('d, jsval) op" where
  "createLead rt data = with_db rt (insert_id rt (SInsert (lit ''leads'') data))"

text \<open>A condition on a column when the option is truthy, or when it is not \<open>undefined\<close>.\<close>

definition when_truthy :: "string \<Rightarrow> jsval \<Rightarrow> cond list" where
  "when_truthy c v = (if truthy v then [Eq (lit c) v] else [])"

definition when_defined :: "string \<Rightarrow> jsval \<Rightarrow> cond list" where
  "when_defined c v = (if v \<noteq> JUndef then [Eq (lit c) v] else [])"

definition getLeads :: "'d runtime \<Rightarrow> jsval \<Rightarrow> ('d, jsobj list) op" where
  "getLeads rt opts =
     (let opt = (\<lambda>k. case opts of JObj fs \<Rightarrow> getp fs (lit k) | _ \<Rightarrow> JUndef) in
      with_db rt (query rt (SSelect (lit ''leads'')
        (when_truthy ''status'' (opt ''status'') @ when_truthy ''source'' (opt ''source''))
        (Some (lit ''createdAt''))
        (Some (js_nullish (opt ''limit'') (JNum 50)))
        (Some (js_nullish (opt ''offset'') (JNum 0))))))"

definition select_by :: "'d runtime \<Rightarrow> jstr \<Rightarrow> jstr \<Rightarrow> jsval \<Rightarrow> ('d, jsval) op" where
  "select_by rt t c v =
     with_db rt (io_bind (query rt (SSelect t [Eq c v] None (Some (JNum 1)) None))
       (\<lambda>rows. io_return (first_or_null rows)))"

definition getLeadById :: "'d runtime \<Rightarrow> jsval \<Rightarrow> ('d, jsval) op" where
  "getLeadById rt i = select_by rt (lit ''leads'') (lit ''id'') i"

definition updateLead :: "'d runtime \<Rightarrow> jsval \<Rightarrow> jsobj \<Rightarrow> ('d, jsval) op" where
  "updateLead rt i data = with_db rt (execute rt (SUpdate (lit ''leads'') data [Eq (lit ''id'') i]))"

text \<open>\<open>byStatus[row.status] = row.count\<close> for every row: the object as a dictionary.\<close>

definition group_counts :: "'d runtime \<Rightarrow> jstr \<Rightarrow> jstr \<Rightarrow> ('d, (jstr, nat) dict) op" where
  "group_counts rt t c =
     io_bind (run_stmt (rt_driver rt) (SGroupCount t c []))
       (\<lambda>r. io_return (case r of
          Groups gs \<Rightarrow> fold (\<lambda>(k, n) m. dict_set (case k of JStr s \<Rightarrow> s | _ \<Rightarrow> lit ''null'') n m) gs []
        | _ \<Rightarrow> []))"

definition count_rows :: "'d runtime \<Rightarrow> jstr \<Rightarrow> cond list \<Rightarrow> ('d, nat) op" where
  "count_rows rt t cs =
     io_bind (run_stmt (rt_driver rt) (SCount t cs))
       (\<lambda>r. io_return (case r of Counted (Some n) \<Rightarrow> n | _ \<Rightarrow> 0))"

record lead_stats =
  ls_total :: nat
  ls_byStatus :: "(jstr, nat) dict"
  ls_bySource :: "(jstr, nat) dict"

definition getLeadStats :: "'d runtime \<Rightarrow> ('d, lead_stats) op" where
  "getLeadStats rt =
     with_db rt
       (io_bind (count_rows rt (lit ''leads'') []) (\<lambda>n.
        io_bind (group_counts rt (lit ''leads'') (lit ''status'')) (\<lambda>byStatus.
        io_bind (group_counts rt (lit ''leads'') (lit ''source'')) (\<lambda>bySource.
        io_return \<lparr>ls_total = n, ls_byStatus = byStatus, ls_bySource = bySource\<rparr>))))"

section \<open>Blog posts\<close>

definition createBlogPost :: "'d runtime \<Rightarrow> jsobj \<Rightarrow> ('d, jsval) op" where
  "createBlogPost rt data = with_db rt (insert_id rt (SInsert (lit ''blogPosts'') data))"

definition getBlogPosts :: "'d runtime \<Rightarrow> jsval \<Rightarrow> ('d, jsobj list) op" where
  "getBlogPosts rt opts =
     (let opt = (\<lambda>k. case opts of JObj fs \<Rightarrow> getp fs (lit k) | _ \<Rightarrow> JUndef) in
      with_db rt (query rt (SSelect (lit ''blogPosts'')
        (when_defined ''published'' (opt ''published'') @ when_truthy ''category'' (opt ''category''))
        (Some (lit ''createdAt''))
        (Some (js_nullish (opt ''limit'') (JNum 50)))
        (Some (js_nullish (opt ''offset'') (JNum 0))))))"

definition getBlogPostBySlug :: "'d runtime \<Rightarrow> jsval \<Rightarrow> ('d, jsval) op" where
  "getBlogPostBySlug rt slug = select_by rt (lit ''blogPosts'') (lit ''slug'') slug"

definition getBlogPostById :: "'d runtime \<Rightarrow> jsval \<Rightarrow> ('d, jsval) op" where
  "getBlogPostById rt i = select_by rt (lit ''blogPosts'') (lit ''id'') i"

definition updateBlogPost :: "'d runtime \<Rightarrow> jsval \<Rightarrow> jsobj \<Rightarrow> ('d, jsval) op" where
  "updateBlogPost rt i data =
     with_db rt (execute rt (SUpdate (lit ''blogPosts'') data [Eq (lit ''id'') i]))"

definition deleteBlogPost :: "'d runtime \<Rightarrow> jsval \<Rightarrow> ('d, jsval) op" where
  "deleteBlogPost rt i = with_db rt (execute rt (SDelete (lit ''blogPosts'') [Eq (lit ''id'') i]))"

section \<open>Projects\<close>

definition createProject :: "'d runtime \<Rightarrow> jsobj \<Rightarrow> ('d, jsval) op" where
  "createProject rt data = with_db rt (insert_id rt (SInsert (lit ''projects'') data))"

definition getProjects :: "'d runtime \<Rightarrow> jsval \<Rightarrow> ('d, jsobj list) op" where
  "getProjects rt opts =
     (let opt = (\<lambda>k. case opts of JObj fs \<Rightarrow> getp fs (lit k) | _ \<Rightarrow> JUndef) in
      with_db rt (query rt (SSelect (lit ''projects'')
        (when_defined ''published'' (opt ''published'') @ when_truthy ''tag'' (opt ''tag''))
        (Some (lit ''sortOrder''))
        (Some (js_nullish (opt ''limit'') (JNum 100)))
        None)))"

definition updateProject :: "'d runtime \<Rightarrow> jsval \<Rightarrow> jsobj \<Rightarrow> ('d, jsval) op" where
  "updateProject rt i data =
     with_db rt (execute rt (SUpdate (lit ''projects'') data [Eq (lit ''id'') i]))"

definition deleteProject :: "'d runtime \<Rightarrow> jsval \<Rightarrow> ('d, jsval) op" where
  "deleteProject rt i = with_db rt (execute rt (SDelete (lit ''projects'') [Eq (lit ''id'') i]))"

section \<open>Contact submissions, page views and events\<close>

definition createContactSubmission :: "'d runtime \<Rightarrow> jsobj \<Rightarrow> ('d, jsval) op" where
  "createContactSubmission rt data =
     with_db rt (insert_id rt (SInsert (lit ''contactSubmissions'') data))"

definition getContactSubmissions :: "'d runtime \<Rightarrow> jsval \<Rightarrow> ('d, jsobj list) op" where
  "getContactSubmissions rt opts =
     (let opt = (\<lambda>k. case opts of JObj fs \<Rightarrow> getp fs (lit k) | _ \<Rightarrow> JUndef) in
      with_db rt (query rt (SSelect (lit ''contactSubmissions'') [] (Some (lit ''createdAt''))
        (Some (js_nullish (opt ''limit'') (JNum 50)))
        (Some (js_nullish (opt ''offset'') (JNum 0))))))"

definition recordPageView :: "'d runtime \<Rightarrow> jsobj \<Rightarrow> ('d, jsval) op" where
  "recordPageView rt data = with_db rt (execute rt (SInsert (lit ''pageViews'') data))"

definition recordEvent :: "'d runtime \<Rightarrow> jsobj \<Rightarrow> ('d, jsval) op" where
  "recordEvent rt data = with_db rt (execute rt (SInsert (lit ''events'') data))"

section \<open>Operations that need the database\<close>

text \<open>Without a connection and without a \<open>DATABASE_URL\<close> no connection is made.\<close>

definition db_down :: "'d runtime \<Rightarrow> 'd world \<Rightarrow> bool" where
  "db_down rt w \<longleftrightarrow> env_or_empty (rt_env rt) ''DATABASE_URL'' = [] \<and> \<not> w_conn w"

lemma getDb_down: "db_down rt w \<Longrightarrow> getDb rt w = (Inr False, w)"
  by (simp add: db_down_def getDb_def Let_def)

lemma with_db_down: "db_down rt w \<Longrightarrow> with_db rt k w = (Inl DB_UNAVAILABLE, w)"
  by (simp add: with_db_def io_bind_def getDb_down io_throw_def)

lemma getDb_keeps [keeps_rules]:
  "keeps w_db (getDb rt)" "keeps w_sent (getDb rt)" "keeps w_files (getDb rt)"
  "keeps w_cookies (getDb rt)"
  by (simp_all add: keeps_def getDb_def Let_def)

lemma getDb_returns: "\<exists>ok w'. getDb rt w = (Inr ok, w')"
  by (simp add: getDb_def Let_def)

lemma with_db_keeps [keeps_rules]:
  "keeps w_sent k \<Longrightarrow> keeps w_sent (with_db rt k)"
  "keeps w_files k \<Longrightarrow> keeps w_files (with_db rt k)"
  "keeps w_cookies k \<Longrightarrow> keeps w_cookies (with_db rt k)"
  unfolding with_db_def by (intro keeps_rules; simp)+

lemma statements_keep [keeps_rules]:
  "keeps w_sent (query rt s)" "keeps w_files (query rt s)" "keeps w_cookies (query rt s)"
  "keeps w_sent (insert_id rt s)" "keeps w_files (insert_id rt s)" "keeps w_cookies (insert_id rt s)"
  "keeps w_sent (execute rt s)" "keeps w_files (execute rt s)" "keeps w_cookies (execute rt s)"
  unfolding query_def insert_id_def execute_def by (intro keeps_rules)+

text \<open>An operation of the database layer either finds no connection or runs from one.\<close>

lemma with_db_cases:
  assumes "with_db rt k w = (r, w')"
  obtains "r = Inl DB_UNAVAILABLE" and "w_db w' = w_db w"
  | w1 where "k w1 = (r, w')" and "w_db w1 = w_db w" and "w_sent w1 = w_sent w"
proof -
  obtain ok w1 where g: "getDb rt w = (Inr ok, w1)" using getDb_returns by blast
  have k: "w_db w1 = w_db w" "w_sent w1 = w_sent w"
    using keepsD [OF getDb_keeps(1) g] keepsD [OF getDb_keeps(2) g] by simp_all
  show thesis
  proof (cases ok)
    case True
    with assms g have "k w1 = (r, w')" by (simp add: with_db_def io_bind_def)
    then show thesis using k by (rule that(2))
  next
    case False
    with assms g have "r = Inl DB_UNAVAILABLE" "w' = w1"
      by (simp_all add: with_db_def io_bind_def io_throw_def)
    then show thesis using k that(1) by simp
  qed
qed

lemma with_db_Inr: "with_db rt k w = (Inr x, w') \<Longrightarrow> \<exists>w1. k w1 = (Inr x, w')"
  by (auto simp: with_db_def io_bind_Inr io_throw_def split: if_splits)

lemma getDb_retries:
  assumes "fst (getDb rt w) = Inr False"
  shows "\<not> w_conn (snd (getDb rt w))"
  using assms by (auto simp: getDb_def Let_def split: if_splits)

text \<open>
  The contract the routers rely on: with the database down, every operation fails with
  the same error before it changes anything.
\<close>

locale database_backed =
  fixes rt :: "'d runtime"
    and oper :: "'x \<Rightarrow> ('d, 'a) op"
  assumes down: "db_down rt w \<Longrightarrow> oper x w = (Inl DB_UNAVAILABLE, w)"
begin

lemma down_unchanged: "db_down rt w \<Longrightarrow> snd (oper x w) = w"
  by (simp add: down)

lemma success_up: "oper x w = (Inr y, w') \<Longrightarrow> \<not> db_down rt w"
  by (auto simp: down)

text \<open>The handler of a \<open>catch\<close> around the operation sees that error and the old world.\<close>

lemma down_catch: "db_down rt w \<Longrightarrow> io_catch (io_bind (oper x) f) h w = h DB_UNAVAILABLE w"
  by (simp add: io_catch_def io_bind_def down)

end

interpretation create_lead: database_backed rt "createLead rt" for rt
  by unfold_locales (simp add: createLead_def with_db_down)

interpretation create_submission: database_backed rt "createContactSubmission rt" for rt
  by unfold_locales (simp add: createContactSubmission_def with_db_down)

interpretation record_view: database_backed rt "recordPageView rt" for rt
  by unfold_locales (simp add: recordPageView_def with_db_down)

interpretation record_event: database_backed rt "recordEvent rt" for rt
  by unfold_locales (simp add: recordEvent_def with_db_down)

interpretation get_posts: database_backed rt "getBlogPosts rt" for rt
  by unfold_locales (simp add: getBlogPosts_def Let_def with_db_down)

interpretation get_post: database_backed rt "getBlogPostBySlug rt" for rt
  by unfold_locales (simp add: getBlogPostBySlug_def select_by_def with_db_down)

interpretation get_projects: database_backed rt "getProjects rt" for rt
  by unfold_locales (simp add: getProjects_def Let_def with_db_down)

section \<open>What an upsert writes\<close>

lemma getp_assign_nullable:
  "getp (assign_nullable k f m) k' = (if k' = lit k \<and> f \<noteq> Undef then field_val f else getp m k')"
  by (auto simp: assign_nullable_def getp_set)

lemma getp_user_assignments:
  "getp (user_assignments o1 u m) k =
     (if k = lit ''role'' then
        (case iu_role u of Some r \<Rightarrow> JStr r
         | None \<Rightarrow> if iu_openId u = o1 then JStr (lit ''admin'') else getp m k)
      else if k = lit ''lastSignedIn'' then
        (case iu_lastSignedIn u of Some t \<Rightarrow> JDate t | None \<Rightarrow> getp m k)
      else if k = lit ''loginMethod'' \<and> iu_loginMethod u \<noteq> Undef then field_val (iu_loginMethod u)
      else if k = lit ''email'' \<and> iu_email u \<noteq> Undef then field_val (iu_email u)
      else if k = lit ''name'' \<and> iu_name u \<noteq> Undef then field_val (iu_name u)
      else getp m k)"
  by (cases "iu_role u"; cases "iu_lastSignedIn u")
     (simp_all add: user_assignments_def Let_def getp_set getp_assign_nullable)

lemma upsert_set_not_Nil: "upsert_set o1 now u \<noteq> []"
  by (simp add: upsert_set_def Let_def)

lemma upsert_values_lastSignedIn:
  "getp (upsert_values o1 now u) (lit ''lastSignedIn'') =
     JDate (case iu_lastSignedIn u of Some t \<Rightarrow> t | None \<Rightarrow> now)"
  by (cases "iu_lastSignedIn u")
     (simp_all add: upsert_values_def Let_def getp_user_assignments getp_set)

lemma upsert_values_other:
  "k \<noteq> lit ''lastSignedIn'' \<Longrightarrow> getp (upsert_values o1 now u) k =
     getp (user_assignments o1 u [(lit ''openId'', JStr (iu_openId u))]) k"
  by (simp add: upsert_values_def Let_def getp_set)

section \<open>Properties\<close>

text \<open>
  An upsert of a user with an open id sends one statement to the database. Its update
  set is never empty; it touches \<open>name\<close>, \<open>email\<close> and \<open>loginMethod\<close> only if the caller gave
  them (\<open>null\<close> included); an explicit role wins, and otherwise the owner becomes an
  administrator and nobody else's role is touched; the inserted row always carries the open
  id and a sign-in date.
\<close>

theorem upsertUser_statement:
  assumes "iu_openId u \<noteq> []" and "w_conn w"
  shows "\<exists>values updateSet.
    upsertUser rt u w =
      io_bind (run_stmt (rt_driver rt) (SUpsert (lit ''users'') values updateSet)) (\<lambda>_. io_return ()) w \<and>
    updateSet \<noteq> [] \<and>
    (\<forall>(k, f) \<in> {(''name'', iu_name u), (''email'', iu_email u), (''loginMethod'', iu_loginMethod u)}.
       getp updateSet (lit k) = field_val f \<and> getp values (lit k) = field_val f) \<and>
    getp updateSet (lit ''role'') =
      (case iu_role u of Some r \<Rightarrow> JStr r
       | None \<Rightarrow> if iu_openId u = ownerOpenId (rt_ENV rt) then JStr (lit ''admin'') else JUndef) \<and>
    getp values (lit ''openId'') = JStr (iu_openId u) \<and>
    getp values (lit ''lastSignedIn'') =
      JDate (case iu_lastSignedIn u of Some t \<Rightarrow> t | None \<Rightarrow> rt_now rt)"
proof -
  have set_get: "getp (upsert_set o1 now u) k =
      (if user_assignments o1 u [] = [] then getp [(lit ''lastSignedIn'', JDate now)] k
       else getp (user_assignments o1 u []) k)" for o1 now k
    by (simp add: upsert_set_def Let_def)
  have empty: "user_assignments o1 u [] = [] \<Longrightarrow> getp (user_assignments o1 u []) k = JUndef" for o1 k
    by simp
  have field: "getp (upsert_set o1 now u) (lit k) = getp (user_assignments o1 u []) (lit k)"
    if "k \<noteq> ''lastSignedIn''" for o1 now k
    using that empty [of o1 "lit k"] by (simp add: set_get)
  have undef: "f \<noteq> Undef \<or> field_val f = JUndef" for f by (cases f) auto
  have run: "upsertUser rt u w =
      io_bind (run_stmt (rt_driver rt) (SUpsert (lit ''users'')
        (upsert_values (ownerOpenId (rt_ENV rt)) (rt_now rt) u)
        (upsert_set (ownerOpenId (rt_ENV rt)) (rt_now rt) u))) (\<lambda>_. io_return ()) w"
    using assms by (simp add: upsertUser_def getDb_def Let_def io_bind_def)
  show ?thesis
    by (intro exI conjI, rule run)
       (use undef in \<open>auto simp: upsert_set_not_Nil field getp_user_assignments upsert_values_other
         upsert_values_lastSignedIn split: option.splits\<close>)
qed

theorem upsertUser_statement_witness:
  "\<exists>values updateSet.
    upsertUser (sample_runtime sample_process_env no_jwt)
      \<lparr>iu_openId = lit ''owner'', iu_name = Null, iu_email = Undef, iu_loginMethod = Undef,
       iu_lastSignedIn = None, iu_role = None\<rparr> (sample_world\<lparr>w_conn := True\<rparr>) =
    io_bind (run_stmt memory_driver (SUpsert (lit ''users'') values updateSet)) (\<lambda>_. io_return ())
      (sample_world\<lparr>w_conn := True\<rparr>) \<and>
    getp updateSet (lit ''role'') = JStr (lit ''admin'') \<and> getp updateSet (lit ''email'') = JUndef"
  using upsertUser_statement [of "\<lparr>iu_openId = lit ''owner'', iu_name = Null, iu_email = Undef,
      iu_loginMethod = Undef, iu_lastSignedIn = None, iu_role = None\<rparr>" "sample_world\<lparr>w_conn := True\<rparr>"
      "sample_runtime sample_process_env no_jwt"]
  by (auto simp: sample_runtime_def sample_simps)

end
