(* ===== verification/LeadQueue.thy ===== *)
theory LeadQueue
  imports Db
begin

text \<open>
  The local recovery queue (\<open>server/_core/localLeadQueue.ts\<close>): where a lead goes when the
  database is not available. The queue is a file of JSON lines.
\<close>

section \<open>Paths\<close>

text \<open>
  The parts of Node's \<open>path\<close> module the queue uses, on POSIX paths: resolution against a
  directory, and the relative path between two absolute ones.
\<close>

fun normal_segments :: "jstr list \<Rightarrow> jstr list \<Rightarrow> jstr list" where
  "normal_segments acc [] = rev acc"
| "normal_segments acc (p # ps) =
     (if p = [] \<or> p = lit ''.'' then normal_segments acc ps
      else if p = lit ''..'' then normal_segments (tl acc) ps
      else normal_segments (p # acc) ps)"

definition segments :: "jstr \<Rightarrow> jstr list" where
  "segments p = normal_segments [] (split_on 0x2F p)"

definition absolute :: "jstr list \<Rightarrow> jstr" where
  "absolute ps = 0x2F # join [0x2F] ps"

definition path_resolve :: "jstr \<Rightarrow> jstr list \<Rightarrow> jstr" where
  "path_resolve cwd ps =
     absolute (segments
       (foldl (\<lambda>acc p. if starts_with [0x2F] p then p else acc @ [0x2F] @ p) cwd ps))"

fun relative_segments :: "jstr list \<Rightarrow> jstr list \<Rightarrow> jstr list" where
  "relative_segments (a # as) (b # bs) =
     (if a = b then relative_segments as bs else map (\<lambda>_. lit ''..'') (a # as) @ b # bs)"
| "relative_segments as bs = map (\<lambda>_. lit ''..'') as @ bs"

definition path_relative :: "jstr \<Rightarrow> jstr \<Rightarrow> jstr" where
  "path_relative base target = join [0x2F] (relative_segments (segments base) (segments target))"

section \<open>The queue\<close>

definition MAX_STRING_LENGTH :: nat where
  "MAX_STRING_LENGTH = 2000"

definition getQueueFile :: "process_env \<Rightarrow> jstr \<Rightarrow> jstr" where
  "getQueueFile pe cwd =
     (let dir = env_or_empty pe ''SIRINX_LOCAL_QUEUE_DIR'';
          queueDir = (if dir \<noteq> [] then path_resolve cwd [dir]
                      else path_resolve cwd [lit ''runtime-output'', lit ''local-recovery-inbox''])
      in absolute (segments (queueDir @ [0x2F] @ lit ''leads.jsonl'')))"

text \<open>A date has no enumerable properties, so it becomes an empty object.\<close>

fun normalizeValue :: "jsval \<Rightarrow> jsval" where
  "normalizeValue (JStr s) = JStr (slice0 MAX_STRING_LENGTH s)"
| "normalizeValue (JArr vs) = JArr (map normalizeValue vs)"
| "normalizeValue (JObj fs) = JObj (map (\<lambda>(k, v). (k, normalizeValue v)) fs)"
| "normalizeValue (JDate t) = JObj []"
| "normalizeValue v = v"

definition isDatabaseUnavailableError :: "js_error \<Rightarrow> bool" where
  "isDatabaseUnavailableError e =
     (case error_message e of None \<Rightarrow> False | Some m \<Rightarrow> contains_ci m (lit ''database not available''))"

definition queue_record :: "jstr \<Rightarrow> time \<Rightarrow> jsobj \<Rightarrow> jsobj \<Rightarrow> jsval" where
  "queue_record i now data context =
     JObj [(lit ''id'', JStr i),
           (lit ''queuedAt'', JStr (to_iso now)),
           (lit ''reason'', JStr (lit ''DATABASE_URL not configured or database unavailable'')),
           (lit ''data'', normalizeValue (JObj data)),
           (lit ''context'', normalizeValue (JObj context))]"

text \<open>
  \<open>fs.appendFile\<close>. \<open>rt_append\<close> says whether the file system accepts the directory and the
  write; a refused write leaves the file as it was.
\<close>

definition appendFile :: "'d runtime \<Rightarrow> jstr \<Rightarrow> jstr \<Rightarrow> ('d, unit) op" where
  "appendFile rt path text = (\<lambda>w.
     case rt_append rt path of
       Inl e \<Rightarrow> (Inl e, w)
     | Inr _ \<Rightarrow>
         (Inr (), w\<lparr>w_files := dict_set path
            ((case dict_get (w_files w) path of None \<Rightarrow> [] | Some t \<Rightarrow> t) @ text) (w_files w)\<rparr>))"

record queue_result =
  qr_id :: jstr
  qr_path :: jstr

definition queueLocalLeadSubmission :: "'d runtime \<Rightarrow> jsobj \<Rightarrow> jsobj \<Rightarrow> ('d, queue_result) op" where
  "queueLocalLeadSubmission rt data context =
     (let queueFile = getQueueFile (rt_env rt) (rt_cwd rt);
          line = (case json (rt_fmt rt) (queue_record (rt_uuid rt) (rt_now rt) data context) of
                    None \<Rightarrow> [] | Some s \<Rightarrow> s) @ [10]
      in io_bind (appendFile rt queueFile line)
           (\<lambda>_. io_return \<lparr>qr_id = rt_uuid rt,
              qr_path = replace_unit 0x5C [0x2F] (path_relative (rt_cwd rt) queueFile)\<rparr>))"

section \<open>What is queued\<close>

text \<open>Every string of a value, at any depth.\<close>

fun strings_of :: "jsval \<Rightarrow> jstr list" where
  "strings_of (JStr s) = [s]"
| "strings_of (JArr vs) = concat (map strings_of vs)"
| "strings_of (JObj fs) = concat (map (\<lambda>(k, v). strings_of v) fs)"
| "strings_of v = []"

lemma normalizeValue_short: "s \<in> set (strings_of (normalizeValue v)) \<Longrightarrow> length s \<le> 2000"
proof (induction v)
  case (JStr t)
  then show ?case using length_slice0 [of 2000 t] by (simp add: MAX_STRING_LENGTH_def)
next
  case (JArr vs)
  then show ?case by auto
next
  case (JObj fs)
  then show ?case by fastforce
qed auto

lemma normalizeValue_idem: "normalizeValue (normalizeValue v) = normalizeValue v"
proof (induction v)
  case (JObj fs)
  then show ?case by fastforce
qed auto

text \<open>A value without dates whose strings are short is queued as it is.\<close>

fun dateless :: "jsval \<Rightarrow> bool" where
  "dateless (JDate t) = False"
| "dateless (JArr vs) = list_all dateless vs"
| "dateless (JObj fs) = list_all (\<lambda>(k, v). dateless v) fs"
| "dateless v = True"

lemma normalizeValue_exact:
  assumes "dateless v" and "\<forall>s \<in> set (strings_of v). length s \<le> 2000"
  shows "normalizeValue v = v"
  using assms
proof (induction v)
  case (JStr t)
  then show ?case by (simp add: slice0_def MAX_STRING_LENGTH_def)
next
  case (JArr vs)
  then show ?case by (auto simp: list_all_iff intro!: map_idI)
next
  case (JObj fs)
  have "(\<lambda>(k, v). (k, normalizeValue v)) e = e" if "e \<in> set fs" for e
  proof -
    obtain k v where e: "e = (k, v)" by force
    have "dateless v" and "\<forall>s \<in> set (strings_of v). length s \<le> 2000"
      using JObj.prems that e by (auto simp: list_all_iff)
    moreover have "v \<in> Basic_BNFs.snds e" by (simp add: e snds.simps)
    ultimately have "normalizeValue v = v" using JObj.IH [OF that] by simp
    then show ?thesis by (simp add: e)
  qed
  then show ?case by (auto intro!: map_idI)
qed auto

lemma isDatabaseUnavailable_DB: "isDatabaseUnavailableError DB_UNAVAILABLE"
  by (simp add: isDatabaseUnavailableError_def DB_UNAVAILABLE_def contains_ci_def lit_def starts_with_def)

section \<open>Properties\<close>

text \<open>
  What is queued has no string longer than 2000 characters at any depth, queueing it
  again changes nothing, and a value without dates whose strings are short enough is queued
  unchanged.
\<close>

theorem normalizeValue_bounds:
  "(\<forall>s \<in> set (strings_of (normalizeValue v)). length s \<le> 2000) \<and>
   normalizeValue (normalizeValue v) = normalizeValue v \<and>
   (dateless v \<and> (\<forall>s \<in> set (strings_of v). length s \<le> 2000) \<longrightarrow> normalizeValue v = v)"
  using normalizeValue_short normalizeValue_idem normalizeValue_exact by blast+

theorem normalizeValue_bounds_witness:
  "normalizeValue (JObj [(lit ''a'', JArr [JStr (lit ''x''), JNull])]) =
     JObj [(lit ''a'', JArr [JStr (lit ''x''), JNull])]"
  using normalizeValue_bounds [of "JObj [(lit ''a'', JArr [JStr (lit ''x''), JNull])]"] by simp

text \<open>
  A queued lead is one line: the text appended to the queue file ends in a line feed and
  has no other control character, whatever the client sent, so a lead cannot forge a second
  record.
\<close>

theorem queue_appends_line:
  assumes "\<forall>a. printable (rt_fmt rt a)"
    and "queueLocalLeadSubmission rt data context w = (Inr q, w')"
  shows "\<exists>s. printable s \<and> s \<noteq> [] \<and> qr_id q = rt_uuid rt \<and>
    w' = w\<lparr>w_files := dict_set (getQueueFile (rt_env rt) (rt_cwd rt))
      ((case dict_get (w_files w) (getQueueFile (rt_env rt) (rt_cwd rt)) of None \<Rightarrow> [] | Some t \<Rightarrow> t)
         @ s @ [10]) (w_files w)\<rparr>"
proof -
  obtain s where s: "json (rt_fmt rt) (queue_record (rt_uuid rt) (rt_now rt) data context) = Some s"
    using json_Some [of "queue_record (rt_uuid rt) (rt_now rt) data context"] by (auto simp: queue_record_def)
  have "printable s" by (rule json_printable(1) [OF assms(1) s])
  moreover have "s \<noteq> []" using s by (auto simp: queue_record_def lit_def)
  ultimately show ?thesis
    using assms(2) s
    by (auto simp: queueLocalLeadSubmission_def Let_def io_bind_Inr io_return_def appendFile_def
        split: sum.splits)
qed

theorem queue_appends_line_witness:
  "\<exists>q w'. queueLocalLeadSubmission (sample_runtime [] no_jwt) [(lit ''name'', JStr [10, 65])] [] sample_world
     = (Inr q, w') \<and> (\<exists>s. printable s \<and> s \<noteq> [] \<and>
         dict_get (w_files w') (getQueueFile [] (lit ''/srv'')) = Some (s @ [10]))"
proof -
  let ?rt = "sample_runtime [] no_jwt"
  have f: "\<forall>a. printable (rt_fmt ?rt a)" by (simp add: sample_runtime_def fixed_net_def lit_def)
  obtain q w' where q: "queueLocalLeadSubmission ?rt [(lit ''name'', JStr [10, 65])] [] sample_world = (Inr q, w')"
    by (simp add: queueLocalLeadSubmission_def Let_def io_bind_def io_return_def appendFile_def
        sample_runtime_def)
  from queue_appends_line [OF f q] q show ?thesis
    by (auto simp: sample_runtime_def sample_world_def)
qed

end
