(* ===== verification/Auth.thy ===== *)
theory Auth
  imports LeadQueue
begin

text \<open>
  Sessions and permissions: the cookie options (\<open>server/_core/cookies.ts\<close>), the OAuth
  client and session tokens (\<open>server/_core/sdk.ts\<close>), the login callback
  (\<open>server/_core/oauth.ts\<close>), the request context (\<open>server/_core/context.ts\<close>) and the
  permission middlewares (\<open>server/_core/trpc.ts\<close>). Tokens are made and checked by the
  functions of the runtime.
\<close>

section \<open>Requests and cookie options\<close>

datatype header = HStr jstr | HList "jstr list"

record request =
  rq_protocol :: jstr
  rq_ip :: jstr
  rq_hdrs :: "(jstr, header) dict"
  rq_params :: jsobj

fun header_text :: "header \<Rightarrow> jstr" where
  "header_text (HStr s) = s"
| "header_text (HList ss) = join (lit '','') ss"

definition isSecureRequest :: "request \<Rightarrow> bool" where
  "isSecureRequest req =
     (if rq_protocol req = lit ''https'' then True
      else case dict_get (rq_hdrs req) (lit ''x-forwarded-proto'') of
             None \<Rightarrow> False
           | Some (HStr s) \<Rightarrow>
               s \<noteq> [] \<and> list_ex (\<lambda>p. to_lower (trim p) = lit ''https'') (split_on 0x2C s)
           | Some (HList ps) \<Rightarrow> list_ex (\<lambda>p. to_lower (trim p) = lit ''https'') ps)"

definition getSessionCookieOptions :: "request \<Rightarrow> jsobj" where
  "getSessionCookieOptions req =
     [(lit ''httpOnly'', JBool True), (lit ''path'', JStr (lit ''/'')),
      (lit ''sameSite'', JStr (lit ''none'')), (lit ''secure'', JBool (isSecureRequest req))]"

section \<open>The OAuth client\<close>

definition EXCHANGE_TOKEN_PATH :: jstr where
  "EXCHANGE_TOKEN_PATH = lit ''/webdev.v1.WebDevAuthPublicService/ExchangeToken''"

definition GET_USER_INFO_PATH :: jstr where
  "GET_USER_INFO_PATH = lit ''/webdev.v1.WebDevAuthPublicService/GetUserInfo''"

definition GET_USER_INFO_WITH_JWT_PATH :: jstr where
  "GET_USER_INFO_WITH_JWT_PATH = lit ''/webdev.v1.WebDevAuthPublicService/GetUserInfoWithJwt''"

definition ensureOAuthConfigured :: "env \<Rightarrow> unit result" where
  "ensureOAuthConfigured e =
     (if oAuthServerUrl e = [] then Inl (JsError (lit ''OAUTH_SERVER_URL is not configured''))
      else Inr ())"

text \<open>\<open>client.post(path, payload)\<close>; the request joins the log of the network.\<close>

definition post_request :: "env \<Rightarrow> jstr \<Rightarrow> jsval \<Rightarrow> http_request" where
  "post_request e path payload =
     \<lparr>rq_url = oAuthServerUrl e @ path, rq_query = [], rq_method = lit ''POST'',
      rq_headers = [], rq_body = JsonBody payload\<rparr>"

definition client_post :: "'d runtime \<Rightarrow> jstr \<Rightarrow> jsval \<Rightarrow> ('d, jsval) op" where
  "client_post rt path payload =
     on_net (\<lambda>sent. (rt_post rt sent path payload, sent @ [post_request (rt_ENV rt) path payload]))"

definition getTokenByCode :: "'d runtime \<Rightarrow> jstr \<Rightarrow> jstr \<Rightarrow> ('d, jsval) op" where
  "getTokenByCode rt code state =
     io_bind (io_result (ensureOAuthConfigured (rt_ENV rt))) (\<lambda>_.
     io_bind (io_result (rt_atob rt state)) (\<lambda>redirectUri.
     client_post rt EXCHANGE_TOKEN_PATH
       (JObj [(lit ''clientId'', JStr (appId (rt_ENV rt))),
              (lit ''grantType'', JStr (lit ''authorization_code'')),
              (lit ''code'', JStr code), (lit ''redirectUri'', JStr redirectUri)])))"

definition getUserInfoByToken :: "'d runtime \<Rightarrow> jsval \<Rightarrow> ('d, jsval) op" where
  "getUserInfoByToken rt accessToken =
     io_bind (io_result (ensureOAuthConfigured (rt_ENV rt))) (\<lambda>_.
     client_post rt GET_USER_INFO_PATH (JObj [(lit ''accessToken'', accessToken)]))"

text \<open>\<open>v && v.length > 0\<close>.\<close>

definition has_length :: "jsval \<Rightarrow> bool" where
  "has_length v =
     (case v of
        JStr s \<Rightarrow> s \<noteq> []
      | JArr vs \<Rightarrow> vs \<noteq> []
      | JObj fs \<Rightarrow> (case getp fs (lit ''length'') of JNum x \<Rightarrow> 0 < x | _ \<Rightarrow> False)
      | _ \<Rightarrow> False)"

text \<open>\<open>new Set(platforms.filter(...))\<close>: the string platforms, first occurrences in order.\<close>

definition deriveLoginMethod :: "jsval \<Rightarrow> jsval \<Rightarrow> jsval" where
  "deriveLoginMethod platforms fallback =
     (if has_length fallback then fallback
      else case platforms of
        JArr vs \<Rightarrow>
          (if vs = [] then JNull
           else let ps = unique (List.map_filter str_of vs);
                    has = (\<lambda>p. lit p \<in> set ps) in
                if has ''REGISTERED_PLATFORM_EMAIL'' then JStr (lit ''email'')
                else if has ''REGISTERED_PLATFORM_GOOGLE'' then JStr (lit ''google'')
                else if has ''REGISTERED_PLATFORM_APPLE'' then JStr (lit ''apple'')
                else if has ''REGISTERED_PLATFORM_MICROSOFT'' \<or> has ''REGISTERED_PLATFORM_AZURE''
                then JStr (lit ''microsoft'')
                else if has ''REGISTERED_PLATFORM_GITHUB'' then JStr (lit ''github'')
                else (case ps of
                        [] \<Rightarrow> JNull
                      | p # _ \<Rightarrow> if p = [] then JNull else JStr (to_lower p)))
      | _ \<Rightarrow> JNull)"

definition exchangeCodeForToken :: "'d runtime \<Rightarrow> jstr \<Rightarrow> jstr \<Rightarrow> ('d, jsval) op" where
  "exchangeCodeForToken rt code state = getTokenByCode rt code state"

text \<open>
  \<open>{ ...data, platform: loginMethod, loginMethod }\<close>; spreading a value that is no object
  adds nothing. \<open>data?.platform ?? data.platform\<close> raises when \<open>data\<close> is null.
\<close>

definition with_login_method :: "jsval \<Rightarrow> jsobj result" where
  "with_login_method data =
     result_bind (member data (lit ''platform'')) (\<lambda>platform.
     result_bind (member data (lit ''platforms'')) (\<lambda>platforms.
       let loginMethod = deriveLoginMethod platforms (js_nullish platform JNull);
           base = (case data of JObj fs \<Rightarrow> fs | _ \<Rightarrow> [])
       in Inr (dict_set (lit ''loginMethod'') loginMethod
                (dict_set (lit ''platform'') loginMethod base))))"

definition getUserInfo :: "'d runtime \<Rightarrow> jsval \<Rightarrow> ('d, jsobj) op" where
  "getUserInfo rt accessToken =
     io_bind (getUserInfoByToken rt accessToken) (\<lambda>data. io_result (with_login_method data))"

definition getUserInfoWithJwt :: "'d runtime \<Rightarrow> jstr \<Rightarrow> ('d, jsobj) op" where
  "getUserInfoWithJwt rt jwtToken =
     io_bind (io_result (ensureOAuthConfigured (rt_ENV rt))) (\<lambda>_.
     io_bind (client_post rt GET_USER_INFO_WITH_JWT_PATH
               (JObj [(lit ''jwtToken'', JStr jwtToken),
                      (lit ''projectId'', JStr (appId (rt_ENV rt)))])) (\<lambda>data.
     io_result (with_login_method data)))"

section \<open>Session tokens\<close>

record session =
  se_openId :: jstr
  se_appId :: jstr
  se_name :: jstr

definition session_claims :: "session \<Rightarrow> jsobj" where
  "session_claims s =
     [(lit ''openId'', JStr (se_openId s)), (lit ''appId'', JStr (se_appId s)),
      (lit ''name'', JStr (se_name s))]"

definition signSession :: "'d runtime \<Rightarrow> session \<Rightarrow> int option \<Rightarrow> jstr result" where
  "signSession rt payload expiresInMs =
     (let ttl = (case expiresInMs of None \<Rightarrow> ONE_YEAR_MS | Some x \<Rightarrow> x);
          expirationSeconds = (rt_now rt + ttl) div 1000
      in jw_sign (rt_jwt rt) (cookieSecret (rt_ENV rt)) (session_claims payload) expirationSeconds)"

definition createSessionToken :: "'d runtime \<Rightarrow> jstr \<Rightarrow> int option \<Rightarrow> jstr \<Rightarrow> jstr result" where
  "createSessionToken rt openId expiresInMs name =
     signSession rt \<lparr>se_openId = openId, se_appId = appId (rt_ENV rt), se_name = name\<rparr> expiresInMs"

definition verifySession :: "'d runtime \<Rightarrow> jstr option \<Rightarrow> session option" where
  "verifySession rt cookieValue =
     (case cookieValue of
        None \<Rightarrow> None
      | Some c \<Rightarrow>
          if c = [] then None
          else case jw_verify (rt_jwt rt) (cookieSecret (rt_ENV rt)) c (rt_now rt) of
                 Inl _ \<Rightarrow> None
               | Inr p \<Rightarrow>
                   (case (getp p (lit ''openId''), getp p (lit ''appId''), getp p (lit ''name'')) of
                      (JStr openId, JStr appid, JStr name) \<Rightarrow>
                        if openId = [] \<or> appid = [] \<or> name = [] then None
                        else Some \<lparr>se_openId = openId, se_appId = appid, se_name = name\<rparr>
                    | _ \<Rightarrow> None))"

section \<open>Authentication of a request\<close>

definition parseCookies :: "'d runtime \<Rightarrow> jstr option \<Rightarrow> (jstr, jstr) dict" where
  "parseCookies rt cookieHeader =
     (case cookieHeader of
        None \<Rightarrow> []
      | Some h \<Rightarrow> if h = [] then [] else rt_cookies rt h)"

definition session_cookie :: "'d runtime \<Rightarrow> request \<Rightarrow> jstr option" where
  "session_cookie rt req =
     dict_get (parseCookies rt (map_option header_text (dict_get (rq_hdrs req) (lit ''cookie''))))
       COOKIE_NAME"

text \<open>
  The user to store for what the OAuth server reports. \<open>x || null\<close> and \<open>x ?? null\<close> of a
  text member; a member that is no string is passed on by the source and is read as
  absent here, since the server's protocol types them as strings.
\<close>

definition text_or_null :: "jsval \<Rightarrow> jstr field" where
  "text_or_null v = (case v of JStr s \<Rightarrow> Val s | _ \<Rightarrow> Null)"

definition user_of_info :: "jsobj \<Rightarrow> time \<Rightarrow> insert_user" where
  "user_of_info info now =
     \<lparr>iu_openId = (case getp info (lit ''openId'') of JStr s \<Rightarrow> s | _ \<Rightarrow> []),
      iu_name = text_or_null (js_or (getp info (lit ''name'')) JNull),
      iu_email = text_or_null (getp info (lit ''email'')),
      iu_loginMethod = text_or_null (js_nullish (getp info (lit ''loginMethod''))
                         (js_nullish (getp info (lit ''platform'')) JNull)),
      iu_lastSignedIn = Some now, iu_role = None\<rparr>"

definition touch_user :: "jstr \<Rightarrow> time \<Rightarrow> insert_user" where
  "touch_user openId now =
     \<lparr>iu_openId = openId, iu_name = Undef, iu_email = Undef, iu_loginMethod = Undef,
      iu_lastSignedIn = Some now, iu_role = None\<rparr>"

definition open_id_of :: "jsobj \<Rightarrow> jstr" where
  "open_id_of user = (case getp user (lit ''openId'') of JStr s \<Rightarrow> s | _ \<Rightarrow> [])"

definition authenticateRequest :: "'d runtime \<Rightarrow> request \<Rightarrow> ('d, jsobj) op" where
  "authenticateRequest rt req =
     (let sessionCookie = session_cookie rt req in
      case verifySession rt sessionCookie of
        None \<Rightarrow> io_throw (ForbiddenError (lit ''Invalid session cookie''))
      | Some s \<Rightarrow>
          io_bind (getUserByOpenId rt (se_openId s)) (\<lambda>found.
          io_bind
            (case found of
               Some u \<Rightarrow> io_return (Some u)
             | None \<Rightarrow>
                 io_catch
                   (io_bind (getUserInfoWithJwt rt (case sessionCookie of None \<Rightarrow> [] | Some c \<Rightarrow> c)) (\<lambda>info.
                    io_bind (upsertUser rt (user_of_info info (rt_now rt))) (\<lambda>_.
                    getUserByOpenId rt (open_id_of info))))
                   (\<lambda>_. io_throw (ForbiddenError (lit ''Failed to sync user info''))))
            (\<lambda>user.
              case user of
                None \<Rightarrow> io_throw (ForbiddenError (lit ''User not found''))
              | Some u \<Rightarrow>
                  io_bind (upsertUser rt (touch_user (open_id_of u) (rt_now rt)))
                    (\<lambda>_. io_return u))))"

section \<open>The login callback\<close>

datatype http_answer = JsonAnswer nat jsval | Redirect nat jstr

definition getQueryParam :: "request \<Rightarrow> string \<Rightarrow> jstr option" where
  "getQueryParam req key = str_of (getp (rq_params req) (lit key))"

definition error_answer :: "nat \<Rightarrow> string \<Rightarrow> http_answer" where
  "error_answer code msg = JsonAnswer code (JObj [(lit ''error'', JStr (lit msg))])"

definition set_cookie :: "jstr \<Rightarrow> jstr \<Rightarrow> jsobj \<Rightarrow> ('d, unit) op" where
  "set_cookie nm v opts = (\<lambda>w. (Inr (), w\<lparr>w_cookies := w_cookies w @ [SetCookie nm v opts]\<rparr>))"

definition session_cookie_options :: "request \<Rightarrow> jsobj" where
  "session_cookie_options req =
     dict_spread (getSessionCookieOptions req) [(lit ''maxAge'', JNum (Fin (of_int ONE_YEAR_MS)))]"

definition oauth_login :: "'d runtime \<Rightarrow> request \<Rightarrow> jstr \<Rightarrow> jstr \<Rightarrow> ('d, http_answer) op" where
  "oauth_login rt req code state =
     io_bind (exchangeCodeForToken rt code state) (\<lambda>tokenResponse.
     io_bind (io_result (member tokenResponse (lit ''accessToken''))) (\<lambda>accessToken.
     io_bind (getUserInfo rt accessToken) (\<lambda>info.
     if \<not> truthy (getp info (lit ''openId''))
     then io_return (error_answer 400 ''openId missing from user info'')
     else
       io_bind (upsertUser rt (user_of_info info (rt_now rt))) (\<lambda>_.
       io_bind (io_result (createSessionToken rt (open_id_of info) (Some ONE_YEAR_MS)
                  (case getp info (lit ''name'') of JStr s \<Rightarrow> s | _ \<Rightarrow> []))) (\<lambda>sessionToken.
       io_bind (set_cookie COOKIE_NAME sessionToken (session_cookie_options req)) (\<lambda>_.
       io_return (Redirect 302 (lit ''/''))))))))"

definition oauth_callback :: "'d runtime \<Rightarrow> request \<Rightarrow> ('d, http_answer) op" where
  "oauth_callback rt req =
     (case (getQueryParam req ''code'', getQueryParam req ''state'') of
        (Some code, Some state) \<Rightarrow>
          if code = [] \<or> state = [] then io_return (error_answer 400 ''code and state are required'')
          else io_catch (oauth_login rt req code state)
                 (\<lambda>_. io_return (error_answer 500 ''OAuth callback failed''))
      | _ \<Rightarrow> io_return (error_answer 400 ''code and state are required''))"

section \<open>Context and middlewares\<close>

record tcontext =
  tc_req :: request
  tc_user :: "jsobj option"

definition createContext :: "'d runtime \<Rightarrow> request \<Rightarrow> ('d, tcontext) op" where
  "createContext rt req =
     io_bind (io_catch (io_bind (authenticateRequest rt req) (\<lambda>u. io_return (Some u)))
                (\<lambda>_. io_return None))
       (\<lambda>user. io_return \<lparr>tc_req = req, tc_user = user\<rparr>)"

type_synonym ('d, 'a) handler = "tcontext \<Rightarrow> ('d, 'a) op"

definition requireUser :: "('d, 'a) handler \<Rightarrow> ('d, 'a) handler" where
  "requireUser next ctx =
     (case tc_user ctx of
        None \<Rightarrow> io_throw (JsTrpcError UNAUTHORIZED UNAUTHED_ERR_MSG)
      | Some _ \<Rightarrow> next ctx)"

definition requireAdmin :: "('d, 'a) handler \<Rightarrow> ('d, 'a) handler" where
  "requireAdmin next ctx =
     (case tc_user ctx of
        None \<Rightarrow> io_throw (JsTrpcError FORBIDDEN NOT_ADMIN_ERR_MSG)
      | Some u \<Rightarrow>
          if getp u (lit ''role'') \<noteq> JStr (lit ''admin'')
          then io_throw (JsTrpcError FORBIDDEN NOT_ADMIN_ERR_MSG)
          else next ctx)"

section \<open>What the middlewares guarantee\<close>

text \<open>
  The contract of a permission middleware: a request that is not allowed is refused with
  a fixed error before the handler runs, any other goes to the handler unchanged.
\<close>

locale procedure_guard =
  fixes allowed :: "tcontext \<Rightarrow> bool"
    and refusal :: js_error
    and guard :: "('d, 'a) handler \<Rightarrow> ('d, 'a) handler"
  assumes refuse: "\<not> allowed ctx \<Longrightarrow> guard h ctx w = (Inl refusal, w)"
    and pass: "allowed ctx \<Longrightarrow> guard h ctx w = h ctx w"
begin

lemma refused_unchanged: "\<not> allowed ctx \<Longrightarrow> snd (guard h ctx w) = w"
  by (simp add: refuse)

lemma success_allowed: "guard h ctx w = (Inr y, w') \<Longrightarrow> allowed ctx \<and> h ctx w = (Inr y, w')"
  using refuse [of ctx h w] pass [of ctx h w] by (cases "allowed ctx") auto

lemma change_allowed: "snd (guard h ctx w) \<noteq> w \<Longrightarrow> allowed ctx"
  using refused_unchanged by blast

lemma guard_twice: "guard (guard h) ctx w = guard h ctx w"
  by (cases "allowed ctx") (simp_all add: refuse pass)

end

definition is_admin :: "tcontext \<Rightarrow> bool" where
  "is_admin ctx \<longleftrightarrow>
     (case tc_user ctx of None \<Rightarrow> False | Some u \<Rightarrow> getp u (lit ''role'') = JStr (lit ''admin''))"

interpretation user_guard: procedure_guard "\<lambda>ctx. tc_user ctx \<noteq> None"
    "JsTrpcError UNAUTHORIZED UNAUTHED_ERR_MSG" requireUser
  by unfold_locales (auto simp: requireUser_def io_throw_def split: option.splits)

interpretation admin_guard: procedure_guard is_admin
    "JsTrpcError FORBIDDEN NOT_ADMIN_ERR_MSG" requireAdmin
  by unfold_locales (auto simp: requireAdmin_def is_admin_def io_throw_def split: option.splits)

section \<open>Sessions\<close>

text \<open>
  What the sessions rely on of the token library: a token it signs verifies, under the
  same secret, to the claims signed (and possibly more) until its expiry second is
  reached, and not afterwards; and it is not the empty string.
\<close>

definition jwt_ok :: "jwt \<Rightarrow> bool" where
  "jwt_ok j \<longleftrightarrow>
     (\<forall>secret claims expiry tok now. jw_sign j secret claims expiry = Inr tok \<longrightarrow>
        tok \<noteq> [] \<and>
        (case jw_verify j secret tok now of
           Inr p \<Rightarrow> now div 1000 < expiry \<and> (\<forall>k \<in> set (dict_keys claims). getp p k = getp claims k)
         | Inl _ \<Rightarrow> expiry \<le> now div 1000))"

lemma jwt_ok_verify:
  assumes "jwt_ok j" and "jw_sign j secret claims expiry = Inr tok"
  shows "tok \<noteq> []"
    and "now div 1000 < expiry \<Longrightarrow> \<exists>p. jw_verify j secret tok now = Inr p \<and>
           (\<forall>k \<in> set (dict_keys claims). getp p k = getp claims k)"
    and "\<not> now div 1000 < expiry \<Longrightarrow> \<exists>e. jw_verify j secret tok now = Inl e"
proof -
  from assms have *: "tok \<noteq> []"
    "case jw_verify j secret tok now of
       Inr p \<Rightarrow> now div 1000 < expiry \<and> (\<forall>k \<in> set (dict_keys claims). getp p k = getp claims k)
     | Inl _ \<Rightarrow> expiry \<le> now div 1000"
    unfolding jwt_ok_def by blast+
  show "tok \<noteq> []" by (rule *(1))
  show "now div 1000 < expiry \<Longrightarrow> \<exists>p. jw_verify j secret tok now = Inr p \<and>
           (\<forall>k \<in> set (dict_keys claims). getp p k = getp claims k)"
    using *(2) by (cases "jw_verify j secret tok now") auto
  show "\<not> now div 1000 < expiry \<Longrightarrow> \<exists>e. jw_verify j secret tok now = Inl e"
    using *(2) by (cases "jw_verify j secret tok now") auto
qed

definition session_complete :: "session \<Rightarrow> bool" where
  "session_complete s \<longleftrightarrow> se_openId s \<noteq> [] \<and> se_appId s \<noteq> [] \<and> se_name s \<noteq> []"

lemma session_claims_get:
  "set (dict_keys (session_claims s)) = {lit ''openId'', lit ''appId'', lit ''name''}"
  "getp (session_claims s) (lit ''openId'') = JStr (se_openId s)"
  "getp (session_claims s) (lit ''appId'') = JStr (se_appId s)"
  "getp (session_claims s) (lit ''name'') = JStr (se_name s)"
  by (auto simp: session_claims_def dict_keys_def)

lemma verifySession_complete: "verifySession rt c = Some s \<Longrightarrow> session_complete s"
  by (auto simp: verifySession_def session_complete_def
      split: option.splits sum.splits if_splits jsval.splits)

text \<open>No session, no user: authentication needs a token that verifies.\<close>

lemma authenticateRequest_no_session:
  "verifySession rt (session_cookie rt req) = None \<Longrightarrow>
     authenticateRequest rt req w = (Inl (ForbiddenError (lit ''Invalid session cookie'')), w)"
  by (simp add: authenticateRequest_def io_throw_def)

lemma createContext_returns: "\<exists>c w'. createContext rt req w = (Inr c, w') \<and> tc_req c = req"
  by (auto simp: createContext_def io_defs split: prod.splits sum.splits)

lemma isSecureRequest_https: "rq_protocol req = lit ''https'' \<Longrightarrow> isSecureRequest req"
  by (simp add: isSecureRequest_def)

section \<open>The login callback and the cookies\<close>

lemma upsertUser_keeps [keeps_rules]:
  "keeps w_cookies (upsertUser rt u)" "keeps w_files (upsertUser rt u)" "keeps w_sent (upsertUser rt u)"
  unfolding upsertUser_def by (intro keeps_rules)+

lemma client_post_keeps [keeps_rules]: "keeps w_cookies (client_post rt p v)"
  unfolding client_post_def by (intro keeps_rules)

lemma oauth_client_keeps [keeps_rules]:
  "keeps w_cookies (exchangeCodeForToken rt code state)" "keeps w_cookies (getUserInfo rt tok)"
  unfolding exchangeCodeForToken_def getTokenByCode_def getUserInfo_def getUserInfoByToken_def
  by (intro keeps_rules)+

text \<open>An operation that sets the session cookie only together with the redirect home.\<close>

definition cookie_on_redirect :: "request \<Rightarrow> ('d, http_answer) op \<Rightarrow> bool" where
  "cookie_on_redirect req m \<longleftrightarrow>
     (\<forall>w r w'. m w = (r, w') \<longrightarrow>
        w_cookies w' = w_cookies w \<or>
        r = Inr (Redirect 302 (lit ''/'')) \<and>
        (\<exists>tok. w_cookies w' = w_cookies w @ [SetCookie COOKIE_NAME tok (session_cookie_options req)]))"

lemma cookie_on_redirect_bind:
  assumes "keeps w_cookies m" and "\<And>x. cookie_on_redirect req (g x)"
  shows "cookie_on_redirect req (io_bind m g)"
  unfolding cookie_on_redirect_def
proof (intro allI impI)
  fix w r w'
  assume b: "io_bind m g w = (r, w')"
  obtain y w1 where 1: "m w = (y, w1)" by fastforce
  note c = keepsD [OF assms(1) 1]
  show "w_cookies w' = w_cookies w \<or>
        r = Inr (Redirect 302 (lit ''/'')) \<and>
        (\<exists>tok. w_cookies w' = w_cookies w @ [SetCookie COOKIE_NAME tok (session_cookie_options req)])"
  proof (cases y)
    case (Inl e)
    with b 1 c show ?thesis by (simp add: io_bind_def)
  next
    case (Inr x)
    with b 1 have "g x w1 = (r, w')" by (simp add: io_bind_def)
    with assms(2) [of x] c show ?thesis unfolding cookie_on_redirect_def by metis
  qed
qed

lemma cookie_on_redirect_return: "cookie_on_redirect req (io_return a)"
  by (simp add: cookie_on_redirect_def io_return_def)

lemma cookie_on_redirect_set:
  "cookie_on_redirect req (io_bind (set_cookie COOKIE_NAME tok (session_cookie_options req))
     (\<lambda>_. io_return (Redirect 302 (lit ''/''))))"
  by (simp add: cookie_on_redirect_def set_cookie_def io_bind_def io_return_def)

lemma oauth_login_redirect: "cookie_on_redirect req (oauth_login rt req code state)"
proof -
  have branch: "cookie_on_redirect req m \<Longrightarrow> cookie_on_redirect req n \<Longrightarrow>
      cookie_on_redirect req (if b then m else n)" for b m n
    by simp
  show ?thesis
    unfolding oauth_login_def
    by (intro cookie_on_redirect_bind branch cookie_on_redirect_return cookie_on_redirect_set keeps_rules)
qed

lemma oauth_login_cookies:
  "oauth_login rt req code state w = (r, w') \<Longrightarrow>
     w_cookies w' = w_cookies w \<or>
     r = Inr (Redirect 302 (lit ''/'')) \<and>
     (\<exists>tok. w_cookies w' = w_cookies w @ [SetCookie COOKIE_NAME tok (session_cookie_options req)])"
  using oauth_login_redirect unfolding cookie_on_redirect_def by blast

section \<open>Properties\<close>

text \<open>
  C6. A session token verifies, until its expiry second, to exactly the session it was signed
  for, provided that session has an open id, an application id and a name; otherwise, and
  after the expiry, it does not verify at all.
\<close>

theorem session_roundtrip:
  assumes "jwt_ok (rt_jwt rt)" and "signSession rt s ttl = Inr tok"
  shows "verifySession (rt\<lparr>rt_now := t\<rparr>) (Some tok) =
    (if session_complete s \<and>
        t div 1000 < (rt_now rt + (case ttl of None \<Rightarrow> ONE_YEAR_MS | Some x \<Rightarrow> x)) div 1000
     then Some s else None)"
proof -
  let ?exp = "(rt_now rt + (case ttl of None \<Rightarrow> ONE_YEAR_MS | Some x \<Rightarrow> x)) div 1000"
  have sig: "jw_sign (rt_jwt rt) (cookieSecret (rt_ENV rt)) (session_claims s) ?exp = Inr tok"
    using assms(2) by (simp add: signSession_def Let_def)
  note ok = jwt_ok_verify(1) [OF assms(1) sig] jwt_ok_verify(2) [OF assms(1) sig, of t]
    jwt_ok_verify(3) [OF assms(1) sig, of t]
  show ?thesis
  proof (cases "t div 1000 < ?exp")
    case True
    then obtain p where p: "jw_verify (rt_jwt rt) (cookieSecret (rt_ENV rt)) tok t = Inr p"
      and g: "\<forall>k \<in> set (dict_keys (session_claims s)). getp p k = getp (session_claims s) k"
      using ok(2) by blast
    then show ?thesis
      using True ok(1) by (auto simp: verifySession_def session_claims_get session_complete_def)
  next
    case False
    with ok(3) obtain e where "jw_verify (rt_jwt rt) (cookieSecret (rt_ENV rt)) tok t = Inl e" by blast
    with False ok(1) show ?thesis by (simp add: verifySession_def)
  qed
qed

text \<open>
  A token library for concrete runs: it signs the claims of a session by writing them, with
  the secret and the expiry, one length-prefixed field after the other.
\<close>

definition put_field :: "jstr \<Rightarrow> jstr" where
  "put_field s = length s # s"

fun take_field :: "jstr \<Rightarrow> jstr \<times> jstr" where
  "take_field [] = ([], [])"
| "take_field (n # r) = (take n r, drop n r)"

lemma take_put_field [simp]: "take_field (put_field s @ r) = (s, r)"
  by (simp add: put_field_def)

definition plain_sign :: "jstr \<Rightarrow> jsobj \<Rightarrow> int \<Rightarrow> jstr result" where
  "plain_sign secret claims expiry =
     (case claims of
        [(k1, JStr a), (k2, JStr b), (k3, JStr c)] \<Rightarrow>
          if k1 = lit ''openId'' \<and> k2 = lit ''appId'' \<and> k3 = lit ''name''
          then Inr (nat expiry # put_field secret @ put_field a @ put_field b @ put_field c)
          else Inl (JsError (lit ''claims''))
      | _ \<Rightarrow> Inl (JsError (lit ''claims'')))"

definition plain_verify :: "jstr \<Rightarrow> jstr \<Rightarrow> time \<Rightarrow> jsobj result" where
  "plain_verify secret tok now =
     (case tok of
        [] \<Rightarrow> Inl (JsError (lit ''empty''))
      | e # r \<Rightarrow>
          (case take_field r of (s, r) \<Rightarrow>
           case take_field r of (a, r) \<Rightarrow>
           case take_field r of (b, r) \<Rightarrow>
           case take_field r of (c, r) \<Rightarrow>
             if s = secret \<and> now div 1000 < int e
             then Inr [(lit ''openId'', JStr a), (lit ''appId'', JStr b), (lit ''name'', JStr c)]
             else Inl (JsError (lit ''expired''))))"

definition plain_jwt :: jwt where
  "plain_jwt = \<lparr>jw_sign = \<lambda>s c e. if 0 \<le> e then plain_sign s c e else Inl (JsError (lit ''expiry'')),
                jw_verify = plain_verify\<rparr>"

lemma plain_sign_Inr:
  "plain_sign secret claims expiry = Inr tok \<Longrightarrow> \<exists>a b c.
     claims = [(lit ''openId'', JStr a), (lit ''appId'', JStr b), (lit ''name'', JStr c)] \<and>
     tok = nat expiry # put_field secret @ put_field a @ put_field b @ put_field c"
  by (auto simp: plain_sign_def split: list.splits prod.splits jsval.splits if_splits)

lemma take_put_field_end [simp]: "take_field (put_field s) = (s, [])"
  using take_put_field [of s "[]"] by simp

lemma jwt_ok_plain: "jwt_ok plain_jwt"
  unfolding jwt_ok_def plain_jwt_def
  by (auto split: if_splits dest!: plain_sign_Inr simp: plain_verify_def dict_keys_def)

theorem session_roundtrip_witness:
  "\<exists>tok. signSession (sample_runtime sample_process_env plain_jwt)
      \<lparr>se_openId = lit ''o'', se_appId = lit ''app'', se_name = lit ''n''\<rparr> None = Inr tok \<and>
    verifySession (sample_runtime sample_process_env plain_jwt\<lparr>rt_now := 1700000001000\<rparr>) (Some tok) =
      Some \<lparr>se_openId = lit ''o'', se_appId = lit ''app'', se_name = lit ''n''\<rparr>"
proof -
  let ?rt = "sample_runtime sample_process_env plain_jwt"
  let ?s = "\<lparr>se_openId = lit ''o'', se_appId = lit ''app'', se_name = lit ''n''\<rparr>"
  have j: "jwt_ok (rt_jwt ?rt)" by (simp add: sample_runtime_def jwt_ok_plain)
  obtain tok where t: "signSession ?rt ?s None = Inr tok"
    by (simp add: signSession_def Let_def sample_runtime_def plain_jwt_def plain_sign_def
        session_claims_def ONE_YEAR_MS_def)
  from session_roundtrip [OF j t, of 1700000001000] t show ?thesis
    by (simp add: session_complete_def sample_runtime_def ONE_YEAR_MS_def)
qed

text \<open>
  The session issued to a user without a name never authenticates: the callback signs
  the name as an empty string, which verification rejects.
\<close>

theorem nameless_session_rejected:
  assumes "jwt_ok (rt_jwt rt)" and "createSessionToken rt openId ttl [] = Inr tok"
  shows "verifySession (rt\<lparr>rt_now := t\<rparr>) (Some tok) = None"
proof -
  let ?s = "\<lparr>se_openId = openId, se_appId = appId (rt_ENV rt), se_name = []\<rparr>"
  let ?exp = "(rt_now rt + (case ttl of None \<Rightarrow> ONE_YEAR_MS | Some x \<Rightarrow> x)) div 1000"
  have sig: "jw_sign (rt_jwt rt) (cookieSecret (rt_ENV rt)) (session_claims ?s) ?exp = Inr tok"
    using assms(2) by (simp add: createSessionToken_def signSession_def Let_def)
  note ok = jwt_ok_verify(1) [OF assms(1) sig] jwt_ok_verify(2) [OF assms(1) sig, of t]
    jwt_ok_verify(3) [OF assms(1) sig, of t]
  show ?thesis
  proof (cases "t div 1000 < ?exp")
    case True
    with ok(2) show ?thesis
      using ok(1) by (auto simp: verifySession_def session_claims_get split: jsval.splits)
  next
    case False
    with ok(3) ok(1) show ?thesis by (auto simp: verifySession_def)
  qed
qed

theorem nameless_session_rejected_witness:
  "\<exists>tok. createSessionToken (sample_runtime sample_process_env plain_jwt) (lit ''o'') None [] = Inr tok \<and>
    verifySession (sample_runtime sample_process_env plain_jwt\<lparr>rt_now := 1700000001000\<rparr>) (Some tok) = None"
proof -
  let ?rt = "sample_runtime sample_process_env plain_jwt"
  have j: "jwt_ok (rt_jwt ?rt)" by (simp add: sample_runtime_def jwt_ok_plain)
  obtain tok where t: "createSessionToken ?rt (lit ''o'') None [] = Inr tok"
    by (simp add: createSessionToken_def signSession_def Let_def sample_runtime_def plain_jwt_def
        plain_sign_def session_claims_def ONE_YEAR_MS_def)
  from nameless_session_rejected [OF j t] t show ?thesis by blast
qed

text \<open>
  A request is authenticated only with a cookie that verifies to a complete session;
  without one, authentication fails with status 403 before any statement or request, and the
  request is served with no user. Either way a context is made.
\<close>

theorem authenticateRequest_session:
  "(case verifySession rt (session_cookie rt req) of
      None \<Rightarrow> authenticateRequest rt req w = (Inl (JsHttpError 403 (lit ''Invalid session cookie'')), w) \<and>
                createContext rt req w = (Inr \<lparr>tc_req = req, tc_user = None\<rparr>, w)
    | Some s \<Rightarrow> session_complete s \<and>
                (\<exists>u w'. createContext rt req w = (Inr \<lparr>tc_req = req, tc_user = u\<rparr>, w')))"
proof (cases "verifySession rt (session_cookie rt req)")
  case None
  then show ?thesis
    using authenticateRequest_no_session [OF None, of w]
    by (simp add: createContext_def io_defs ForbiddenError_def HttpError_def)
next
  case (Some s)
  then show ?thesis
    using createContext_returns [of rt req w] verifySession_complete [OF Some]
    by auto (metis tcontext.surjective old.unit.exhaust)
qed

text \<open>
  The login callback always answers. It changes the response's cookies only when it
  redirects home, and then by one session cookie; a request without a code or a state is
  answered with status 400 and has no effect.
\<close>

theorem oauth_callback_answers:
  "\<exists>a w'. oauth_callback rt req w = (Inr a, w') \<and>
     (w_cookies w' = w_cookies w \<or>
      a = Redirect 302 (lit ''/'') \<and>
      (\<exists>tok. w_cookies w' = w_cookies w @ [SetCookie COOKIE_NAME tok (session_cookie_options req)])) \<and>
     (getQueryParam req ''code'' \<notin> {None, Some []} \<and> getQueryParam req ''state'' \<notin> {None, Some []} \<or>
      a = JsonAnswer 400 (JObj [(lit ''error'', JStr (lit ''code and state are required''))]) \<and> w' = w)"
proof (cases "getQueryParam req ''code'' \<in> {None, Some []} \<or> getQueryParam req ''state'' \<in> {None, Some []}")
  case True
  then show ?thesis
    by (auto simp: oauth_callback_def io_return_def error_answer_def split: option.splits)
next
  case False
  then obtain code state where c: "getQueryParam req ''code'' = Some code" "code \<noteq> []"
    and s: "getQueryParam req ''state'' = Some state" "state \<noteq> []" by auto
  obtain r w1 where l: "oauth_login rt req code state w = (r, w1)" by fastforce
  from oauth_login_cookies [OF l] show ?thesis
    using c s l
    by (cases r) (auto simp: oauth_callback_def io_catch_def io_return_def)
qed

end
