(* ===== verification/Analytics.thy ===== *)
theory Analytics
  imports Db "HOL-Library.List_Lexorder"
begin

text \<open>
  The two dashboard queries of \<open>server/db.ts\<close>: the counting loops over the rows of the
  period, their sorting and truncation, and the conversion funnel. Every counting loop
  interprets the locale \<open>tally\<close>.
\<close>

section \<open>Rows\<close>

text \<open>
  Rows of \<open>page_views\<close> and \<open>events\<close> as the driver decodes them: \<open>notNull\<close> columns carry
  a value, nullable text columns a string or \<open>null\<close>.
\<close>

record page_view =
  pv_path :: jstr
  pv_referrer :: "jstr option"
  pv_utmSource :: "jstr option"
  pv_visitorId :: "jstr option"
  pv_deviceType :: "jstr option"
  pv_createdAt :: time

record event_row =
  ev_category :: jstr
  ev_action :: jstr
  ev_createdAt :: time

definition text_of :: "jsobj \<Rightarrow> string \<Rightarrow> jstr option" where
  "text_of r k = str_of (getp r (lit k))"

definition date_of :: "jsobj \<Rightarrow> string \<Rightarrow> time" where
  "date_of r k = (case getp r (lit k) of JDate t \<Rightarrow> t | _ \<Rightarrow> 0)"

definition page_view_of :: "jsobj \<Rightarrow> page_view" where
  "page_view_of r =
     \<lparr>pv_path = (case text_of r ''path'' of None \<Rightarrow> [] | Some p \<Rightarrow> p),
      pv_referrer = text_of r ''referrer'', pv_utmSource = text_of r ''utmSource'',
      pv_visitorId = text_of r ''visitorId'', pv_deviceType = text_of r ''deviceType'',
      pv_createdAt = date_of r ''createdAt''\<rparr>"

definition event_of :: "jsobj \<Rightarrow> event_row" where
  "event_of r =
     \<lparr>ev_category = (case text_of r ''category'' of None \<Rightarrow> [] | Some p \<Rightarrow> p),
      ev_action = (case text_of r ''action'' of None \<Rightarrow> [] | Some p \<Rightarrow> p),
      ev_createdAt = date_of r ''createdAt''\<rparr>"

text \<open>An optional text column that is truthy.\<close>

definition nonempty :: "jstr option \<Rightarrow> jstr option" where
  "nonempty x = (case x of Some [] \<Rightarrow> None | _ \<Rightarrow> x)"

definition date_key :: "time \<Rightarrow> jstr" where
  "date_key t = hd (split_on 0x54 (to_iso t))"

section \<open>The page-view loop\<close>

text \<open>The referrer counted for a view: the host when the URL parses, else the raw text.\<close>

definition referrer_key :: "(jstr \<Rightarrow> jstr result) \<Rightarrow> page_view \<Rightarrow> jstr option" where
  "referrer_key hostname v =
     (case nonempty (pv_referrer v) of
        None \<Rightarrow> None
      | Some u \<Rightarrow> (case hostname u of Inl _ \<Rightarrow> Some u | Inr h \<Rightarrow> nonempty (Some h)))"

type_synonym day = "nat \<times> jstr list"

record view_acc =
  va_daily :: "(jstr, day) dict"
  va_pages :: "(jstr, nat) dict"
  va_referrers :: "(jstr, nat) dict"
  va_devices :: "(jstr, nat) dict"
  va_utm :: "(jstr, nat) dict"
  va_visitors :: "jstr list"

definition empty_views :: view_acc where
  "empty_views = \<lparr>va_daily = [], va_pages = [], va_referrers = [], va_devices = [],
                  va_utm = [], va_visitors = []\<rparr>"

definition bump_opt :: "'k option \<Rightarrow> ('k, nat) dict \<Rightarrow> ('k, nat) dict" where
  "bump_opt k m = (case k of None \<Rightarrow> m | Some k \<Rightarrow> bump k m)"

definition add_day :: "page_view \<Rightarrow> (jstr, day) dict \<Rightarrow> (jstr, day) dict" where
  "add_day v m =
     (let k = date_key (pv_createdAt v);
          d = (case dict_get m k of None \<Rightarrow> (0, []) | Some d \<Rightarrow> d)
      in dict_set k (fst d + 1,
           case nonempty (pv_visitorId v) of None \<Rightarrow> snd d | Some x \<Rightarrow> set_add x (snd d)) m)"

definition view_step :: "(jstr \<Rightarrow> jstr result) \<Rightarrow> view_acc \<Rightarrow> page_view \<Rightarrow> view_acc" where
  "view_step hostname a v =
     a\<lparr>va_daily := add_day v (va_daily a),
       va_pages := bump (pv_path v) (va_pages a),
       va_referrers := bump_opt (referrer_key hostname v) (va_referrers a),
       va_devices := bump_opt (nonempty (pv_deviceType v)) (va_devices a),
       va_utm := bump_opt (nonempty (pv_utmSource v)) (va_utm a),
       va_visitors := (case nonempty (pv_visitorId v) of None \<Rightarrow> va_visitors a
                       | Some x \<Rightarrow> set_add x (va_visitors a))\<rparr>"

definition view_loop :: "(jstr \<Rightarrow> jstr result) \<Rightarrow> page_view list \<Rightarrow> view_acc" where
  "view_loop hostname vs = foldl (view_step hostname) empty_views vs"

text \<open>\<open>sort((a, b) => b.views - a.views).slice(0, n)\<close>, and the sort by date.\<close>

definition ranked :: "('k, nat) dict \<Rightarrow> ('k \<times> nat) list" where
  "ranked m = sort_desc snd m"

definition top_n :: "nat \<Rightarrow> ('k, nat) dict \<Rightarrow> ('k \<times> nat) list" where
  "top_n n m = take n (ranked m)"

text \<open>
  \<open>sort((a, b) => a.date.localeCompare(b.date))\<close>: on date keys, which are digits with
  separators in fixed places, the collation order is the order of the code units.
\<close>

definition by_date :: "(jstr \<times> 'a) list \<Rightarrow> (jstr \<times> 'a) list" where
  "by_date m = sort_key fst m"

record view_report =
  vr_totalViews :: nat
  vr_uniqueVisitors :: nat
  vr_daily :: "(jstr \<times> nat \<times> nat) list"
  vr_topPages :: "(jstr \<times> nat) list"
  vr_topReferrers :: "(jstr \<times> nat) list"
  vr_devices :: "(jstr \<times> nat) list"
  vr_utmSources :: "(jstr \<times> nat) list"

definition view_report_of :: "(jstr \<Rightarrow> jstr result) \<Rightarrow> page_view list \<Rightarrow> view_report" where
  "view_report_of hostname vs =
     (let a = view_loop hostname vs in
      \<lparr>vr_totalViews = length vs,
       vr_uniqueVisitors = length (va_visitors a),
       vr_daily = by_date (map (\<lambda>(k, n, ids). (k, n, length ids)) (va_daily a)),
       vr_topPages = top_n 20 (va_pages a),
       vr_topReferrers = top_n 15 (va_referrers a),
       vr_devices = ranked (va_devices a),
       vr_utmSources = top_n 15 (va_utm a)\<rparr>)"
section \<open>The event loop\<close>

record event_acc =
  ea_category :: "(jstr, nat) dict"
  ea_action :: "(jstr, nat) dict"
  ea_daily :: "(jstr, nat) dict"

definition action_key :: "event_row \<Rightarrow> jstr" where
  "action_key v = ev_category v @ lit '':'' @ ev_action v"

definition event_step :: "event_acc \<Rightarrow> event_row \<Rightarrow> event_acc" where
  "event_step a v =
     a\<lparr>ea_category := bump (ev_category v) (ea_category a),
       ea_action := bump (action_key v) (ea_action a),
       ea_daily := bump (date_key (ev_createdAt v)) (ea_daily a)\<rparr>"

definition event_loop :: "event_row list \<Rightarrow> event_acc" where
  "event_loop vs = foldl event_step \<lparr>ea_category = [], ea_action = [], ea_daily = []\<rparr> vs"

record event_report =
  er_totalEvents :: nat
  er_byCategory :: "(jstr \<times> nat) list"
  er_topActions :: "(jstr \<times> nat) list"
  er_dailyEvents :: "(jstr \<times> nat) list"
  er_funnelStages :: "(jstr \<times> nat) list"
  er_leadSources :: "(jstr \<times> nat) list"

definition funnel :: "nat \<Rightarrow> nat \<Rightarrow> (jstr, nat) dict \<Rightarrow> (jstr \<times> nat) list" where
  "funnel pageViewCount leadCount category =
     [(lit ''Page Views'', pageViewCount),
      (lit ''CTA Clicks'', count_of category (lit ''cta_click'')),
      (lit ''Form Submits'', count_of category (lit ''form_submit'')),
      (lit ''Leads Created'', leadCount),
      (lit ''LINE Clicks'', count_of category (lit ''line_click''))]"

definition lead_sources :: "(jsval \<times> nat) list \<Rightarrow> (jstr \<times> nat) list" where
  "lead_sources gs =
     sort_desc snd (map (\<lambda>(k, n). (case k of JStr s \<Rightarrow> if s = [] then lit ''unknown'' else s
                                    | _ \<Rightarrow> lit ''unknown'', n)) gs)"

definition event_report_of ::
  "event_row list \<Rightarrow> nat \<Rightarrow> nat \<Rightarrow> (jsval \<times> nat) list \<Rightarrow> event_report" where
  "event_report_of vs leadCount pvCount sources =
     (let a = event_loop vs in
      \<lparr>er_totalEvents = length vs,
       er_byCategory = ranked (ea_category a),
       er_topActions = top_n 20 (ea_action a),
       er_dailyEvents = by_date (ea_daily a),
       er_funnelStages = funnel pvCount leadCount (ea_category a),
       er_leadSources = lead_sources sources\<rparr>)"

section \<open>The queries\<close>

text \<open>
  \<open>since.setDate(since.getDate() - daysBack)\<close> for a server on UTC: the day of the month
  is truncated to an integer, so a fractional number of days is cut towards zero.
\<close>

definition trunc :: "rat \<Rightarrow> int" where
  "trunc x = (if 0 \<le> x then \<lfloor>x\<rfloor> else \<lceil>x\<rceil>)"

definition days_before :: "time \<Rightarrow> rat \<Rightarrow> time" where
  "days_before now days =
     (let d = snd (snd (civil_of_days (now div ms_per_day)))
      in now + (trunc (of_int d - days) - d) * ms_per_day)"

record period =
  pe_from :: jstr
  pe_to :: jstr
  pe_days :: rat

definition period_of :: "time \<Rightarrow> rat \<Rightarrow> period" where
  "period_of now days =
     \<lparr>pe_from = to_iso (days_before now days), pe_to = to_iso now, pe_days = days\<rparr>"

definition since_cond :: "time \<Rightarrow> rat \<Rightarrow> cond list" where
  "since_cond now days = [Gte (lit ''createdAt'') (JDate (days_before now days))]"

definition getPageViewAnalytics ::
  "'d runtime \<Rightarrow> rat option \<Rightarrow> ('d, view_report \<times> period) op" where
  "getPageViewAnalytics rt opt_days =
     with_db rt
       (let daysBack = (case opt_days of None \<Rightarrow> 30 | Some d \<Rightarrow> d) in
        io_bind (query rt (SSelect (lit ''pageViews'') (since_cond (rt_now rt) daysBack)
                  (Some (lit ''createdAt'')) None None)) (\<lambda>rows.
        io_return (view_report_of (n_hostname (rt_net rt)) (map page_view_of rows),
                   period_of (rt_now rt) daysBack)))"

definition getEventAnalytics ::
  "'d runtime \<Rightarrow> rat option \<Rightarrow> ('d, event_report \<times> period) op" where
  "getEventAnalytics rt opt_days =
     with_db rt
       (let daysBack = (case opt_days of None \<Rightarrow> 30 | Some d \<Rightarrow> d);
            since = since_cond (rt_now rt) daysBack in
        io_bind (query rt (SSelect (lit ''events'') since (Some (lit ''createdAt'')) None None)) (\<lambda>rows.
        io_bind (count_rows rt (lit ''leads'') since) (\<lambda>leadCount.
        io_bind (count_rows rt (lit ''pageViews'') since) (\<lambda>pvCount.
        io_bind (run_stmt (rt_driver rt) (SGroupCount (lit ''leads'') (lit ''source'') since)) (\<lambda>r.
        io_return (event_report_of (map event_of rows) leadCount pvCount
                     (case r of Groups gs \<Rightarrow> gs | _ \<Rightarrow> []),
                   period_of (rt_now rt) daysBack))))))"

section \<open>The loops count\<close>

text \<open>The accumulators run independently of each other.\<close>

lemma foldl_view_step:
  "va_pages (foldl (view_step h) a vs) = foldl (\<lambda>m v. bump (pv_path v) m) (va_pages a) vs"
  "va_referrers (foldl (view_step h) a vs) =
     foldl (\<lambda>m v. bump_opt (referrer_key h v) m) (va_referrers a) vs"
  "va_devices (foldl (view_step h) a vs) =
     foldl (\<lambda>m v. bump_opt (nonempty (pv_deviceType v)) m) (va_devices a) vs"
  "va_utm (foldl (view_step h) a vs) =
     foldl (\<lambda>m v. bump_opt (nonempty (pv_utmSource v)) m) (va_utm a) vs"
  "va_daily (foldl (view_step h) a vs) = foldl (\<lambda>m v. add_day v m) (va_daily a) vs"
  by (induction vs arbitrary: a) (simp_all add: view_step_def)

lemma foldl_event_step:
  "ea_category (foldl event_step a vs) = foldl (\<lambda>m v. bump (ev_category v) m) (ea_category a) vs"
  "ea_action (foldl event_step a vs) = foldl (\<lambda>m v. bump (action_key v) m) (ea_action a) vs"
  "ea_daily (foldl event_step a vs) =
     foldl (\<lambda>m v. bump (date_key (ev_createdAt v)) m) (ea_daily a) vs"
  by (induction vs arbitrary: a) (simp_all add: event_step_def)

interpretation pages: tally "\<lambda>m v. bump (pv_path v) m" "\<lambda>v. Some (pv_path v)"
  by unfold_locales simp_all

interpretation referrers: tally "\<lambda>m v. bump_opt (referrer_key h v) m" "referrer_key h" for h
  by unfold_locales (simp_all add: bump_opt_def)

interpretation devices: tally "\<lambda>m v. bump_opt (nonempty (pv_deviceType v)) m"
    "\<lambda>v. nonempty (pv_deviceType v)"
  by unfold_locales (simp_all add: bump_opt_def)

interpretation utm: tally "\<lambda>m v. bump_opt (nonempty (pv_utmSource v)) m"
    "\<lambda>v. nonempty (pv_utmSource v)"
  by unfold_locales (simp_all add: bump_opt_def)

interpretation category: tally "\<lambda>m v. bump (ev_category v) m" "\<lambda>v. Some (ev_category v)"
  by unfold_locales simp_all

interpretation actions: tally "\<lambda>m v. bump (action_key v) m" "\<lambda>v. Some (action_key v)"
  by unfold_locales simp_all

interpretation event_days: tally "\<lambda>m v. bump (date_key (ev_createdAt v)) m"
    "\<lambda>v. Some (date_key (ev_createdAt v))"
  by unfold_locales simp_all

lemma foldl_visitors:
  "distinct (va_visitors a) \<Longrightarrow>
     distinct (va_visitors (foldl (view_step h) a vs)) \<and>
     set (va_visitors (foldl (view_step h) a vs)) =
       set (va_visitors a) \<union> {x. \<exists>v \<in> set vs. nonempty (pv_visitorId v) = Some x}"
proof (induction vs arbitrary: a)
  case Nil
  then show ?case by simp
next
  case (Cons v vs)
  have "distinct (va_visitors (view_step h a v))"
    using Cons.prems by (auto simp: view_step_def distinct_set_add split: option.splits)
  from Cons.IH [OF this] show ?case
    by (auto simp: view_step_def split: option.splits)
qed

lemma view_loop_visitors:
  "length (va_visitors (view_loop h vs)) =
     card {x. \<exists>v \<in> set vs. nonempty (pv_visitorId v) = Some x}"
proof -
  have "distinct (va_visitors (view_loop h vs)) \<and>
      set (va_visitors (view_loop h vs)) = {x. \<exists>v \<in> set vs. nonempty (pv_visitorId v) = Some x}"
    using foldl_visitors [of empty_views h vs] by (simp add: view_loop_def empty_views_def)
  then show ?thesis by (metis distinct_card)
qed

text \<open>The day entries, as the view counts and the visitor sets they hold.\<close>

definition day_views :: "(jstr, day) dict \<Rightarrow> (jstr, nat) dict" where
  "day_views m = map (\<lambda>(k, d). (k, fst d)) m"

lemma dict_get_day_views: "dict_get (day_views m) k = map_option fst (dict_get m k)"
  by (induction m) (auto simp: day_views_def)

lemma day_views_set: "day_views (dict_set k d m) = dict_set k (fst d) (day_views m)"
  by (induction k d m rule: dict_set.induct) (auto simp: day_views_def)

lemma day_views_add: "day_views (add_day v m) = bump (date_key (pv_createdAt v)) (day_views m)"
  by (auto simp: add_day_def Let_def day_views_set bump_def dict_get_day_views split: option.splits)

lemma day_views_foldl:
  "day_views (foldl (\<lambda>m v. add_day v m) m vs) =
     foldl (\<lambda>m v. bump (date_key (pv_createdAt v)) m) (day_views m) vs"
  by (induction vs arbitrary: m) (simp_all add: day_views_add)

interpretation view_days: tally "\<lambda>m v. bump (date_key (pv_createdAt v)) m"
    "\<lambda>v. Some (date_key (pv_createdAt v))"
  by unfold_locales simp_all

section \<open>Rankings\<close>

lemma ranked_sorted: "sorted_wrt (\<lambda>a b. snd b \<le> snd a) (ranked m)"
  unfolding ranked_def by (rule sorted_sort_desc)

lemma ranked_total: "sum_list (map snd (ranked m)) = total m"
  by (simp add: ranked_def total_def)

lemma set_ranked [simp]: "set (ranked m) = set m"
  by (simp add: ranked_def)

lemma distinct_ranked_keys: "distinct (map fst m) \<Longrightarrow> distinct (map fst (ranked m))"
  unfolding ranked_def sort_desc_def
  by (metis distinct_map distinct_sort set_sort)

text \<open>Every entry cut off by \<open>slice(0, n)\<close> counts at most as much as every entry kept.\<close>

lemma top_n_best:
  assumes "e \<in> set (top_n n m)" and "e' \<in> set m" and "e' \<notin> set (top_n n m)"
  shows "snd e' \<le> snd e"
proof -
  have s: "\<forall>a \<in> set (take n (ranked m)). \<forall>b \<in> set (drop n (ranked m)). snd b \<le> snd a"
    using ranked_sorted [of m] by (metis append_take_drop_id sorted_wrt_append)
  have "set (take n (ranked m)) \<union> set (drop n (ranked m)) = set m"
    by (metis append_take_drop_id set_append set_ranked)
  then have "e' \<in> set (drop n (ranked m))" using assms(2,3) by (auto simp: top_n_def)
  with s assms(1) show ?thesis by (simp add: top_n_def)
qed

lemma length_top_n: "length (top_n n m) = min n (length m)"
  by (simp add: top_n_def ranked_def)

lemma by_date_sorted: "sorted (map fst (by_date m))"
  by (simp add: by_date_def)

lemma set_by_date [simp]: "set (by_date m) = set m"
  by (simp add: by_date_def)

section \<open>Properties\<close>

lemma view_pages_entry:
  "(p, n) \<in> set (va_pages (view_loop h vs)) \<longleftrightarrow> n = length (filter (\<lambda>v. pv_path v = p) vs) \<and> 0 < n"
  using pages.run_entry [of p n vs] by (simp add: view_loop_def foldl_view_step empty_views_def)

lemma view_daily_loop:
  "day_views (va_daily (view_loop h vs)) = foldl (\<lambda>m v. bump (date_key (pv_createdAt v)) m) [] vs"
  by (simp add: view_loop_def foldl_view_step empty_views_def day_views_foldl) (simp add: day_views_def)

lemma view_daily_total: "sum_list (map (\<lambda>(d, n, u). n) (vr_daily (view_report_of h vs))) = length vs"
proof -
  let ?m = "va_daily (view_loop h vs)"
  have "mset (vr_daily (view_report_of h vs)) = mset (map (\<lambda>(k, n, ids). (k, n, length ids)) ?m)"
    by (simp add: view_report_of_def Let_def by_date_def)
  then have "sum_list (map (\<lambda>(d, n, u). n) (vr_daily (view_report_of h vs))) =
      sum_list (map (\<lambda>(d, n, u). n) (map (\<lambda>(k, n, ids). (k, n, length ids)) ?m))"
    by (rule sum_list_map_mset)
  also have "\<dots> = total (day_views ?m)"
    by (simp add: total_def day_views_def comp_def case_prod_unfold)
  also have "\<dots> = length vs"
    unfolding view_daily_loop view_days.run_total by simp
  finally show ?thesis .
qed

lemma view_daily_entry:
  assumes "(d, n, u) \<in> set (vr_daily (view_report_of h vs))"
  shows "n = length (filter (\<lambda>v. iso_date (pv_createdAt v) = d) vs)"
proof -
  from assms have "(d, n) \<in> set (day_views (va_daily (view_loop h vs)))"
    by (force simp: view_report_of_def Let_def day_views_def)
  then show ?thesis
    using view_days.run_entry [of d n vs] by (simp add: view_daily_loop date_key_def iso_date_key)
qed

text \<open>
  The page-view report counts exactly: the total is the number of rows, the unique
  visitors are the distinct non-empty visitor ids, every day shows the number of views of
  its date and the days add up to the total in ascending order, every top page shows its
  number of views, and at most 20 pages are listed, none with fewer views than a page left
  out.
\<close>

theorem view_report_counts:
  "let r = view_report_of h vs in
    vr_totalViews r = length vs \<and>
    vr_uniqueVisitors r = card {x. x \<noteq> [] \<and> (\<exists>v \<in> set vs. pv_visitorId v = Some x)} \<and>
    sum_list (map (\<lambda>(d, n, u). n) (vr_daily r)) = length vs \<and>
    sorted (map fst (vr_daily r)) \<and>
    (\<forall>(d, n, u) \<in> set (vr_daily r). n = length (filter (\<lambda>v. iso_date (pv_createdAt v) = d) vs)) \<and>
    (\<forall>(p, n) \<in> set (vr_topPages r). n = length (filter (\<lambda>v. pv_path v = p) vs) \<and> 0 < n) \<and>
    length (vr_topPages r) \<le> 20 \<and>
    (\<forall>(p, n) \<in> set (vr_topPages r). \<forall>v \<in> set vs.
       pv_path v \<in> fst ` set (vr_topPages r) \<or> length (filter (\<lambda>v'. pv_path v' = pv_path v) vs) \<le> n)"
proof -
  define r where "r = view_report_of h vs"
  have unique: "vr_uniqueVisitors r = card {x. x \<noteq> [] \<and> (\<exists>v \<in> set vs. pv_visitorId v = Some x)}"
  proof -
    have "nonempty y = Some x \<longleftrightarrow> x \<noteq> [] \<and> y = Some x" for x y
      by (auto simp: nonempty_def split: option.splits list.splits)
    then show ?thesis
      using view_loop_visitors [of h vs] by (simp add: r_def view_report_of_def Let_def conj_commute Bex_def)
  qed
  have best: "\<forall>(p, n) \<in> set (vr_topPages r). \<forall>v \<in> set vs.
       pv_path v \<in> fst ` set (vr_topPages r) \<or> length (filter (\<lambda>v'. pv_path v' = pv_path v) vs) \<le> n"
  proof (intro ballI, clarify)
    fix p n and v :: page_view
    let ?c = "length (filter (\<lambda>v'. pv_path v' = pv_path v) vs)"
    assume e: "(p, n) \<in> set (vr_topPages r)" and v: "v \<in> set vs"
      and le: "\<not> ?c \<le> n"
    have "v \<in> set (filter (\<lambda>v'. pv_path v' = pv_path v) vs)" using v by simp
    then have "0 < ?c" by (metis length_pos_if_in_set)
    then have m: "(pv_path v, ?c) \<in> set (va_pages (view_loop h vs))"
      by (simp add: view_pages_entry)
    from e have t: "(p, n) \<in> set (top_n 20 (va_pages (view_loop h vs)))"
      by (simp add: r_def view_report_of_def Let_def)
    have "(pv_path v, ?c) \<in> set (vr_topPages r)"
      using top_n_best [OF t m] le by (auto simp: r_def view_report_of_def Let_def)
    then show "pv_path v \<in> fst ` set (vr_topPages r)" by force
  qed
  have counts: "\<forall>(p, n) \<in> set (vr_topPages r). n = length (filter (\<lambda>v. pv_path v = p) vs) \<and> 0 < n"
  proof (clarify)
    fix p n assume "(p, n) \<in> set (vr_topPages r)"
    then have "(p, n) \<in> set (va_pages (view_loop h vs))"
      by (auto simp: r_def view_report_of_def Let_def top_n_def dest: in_set_takeD)
    then show "n = length (filter (\<lambda>v. pv_path v = p) vs) \<and> 0 < n" unfolding view_pages_entry .
  qed
  have days: "\<forall>(d, n, u) \<in> set (vr_daily r). n = length (filter (\<lambda>v. iso_date (pv_createdAt v) = d) vs)"
    using view_daily_entry by (auto simp: r_def)
  have shape: "vr_totalViews r = length vs" "sorted (map fst (vr_daily r))" "length (vr_topPages r) \<le> 20"
    by (simp_all add: r_def view_report_of_def Let_def by_date_sorted length_top_n)
  have daily: "sum_list (map (\<lambda>(d, n, u). n) (vr_daily r)) = length vs"
    unfolding r_def by (rule view_daily_total)
  show ?thesis
    unfolding Let_def r_def [symmetric] using unique best counts days shape daily by blast
qed

theorem view_report_counts_witness:
  "let view = \<lparr>pv_path = lit ''/'', pv_referrer = None, pv_utmSource = None, pv_visitorId = Some (lit ''v''),
       pv_deviceType = None, pv_createdAt = 0\<rparr> in
   vr_totalViews (view_report_of Inr [view, view]) = 2 \<and>
   vr_topPages (view_report_of Inr [view, view]) = [(lit ''/'', 2)]"
proof -
  let ?v = "\<lparr>pv_path = lit ''/'', pv_referrer = None, pv_utmSource = None, pv_visitorId = Some (lit ''v''),
       pv_deviceType = None, pv_createdAt = 0\<rparr>"
  have "vr_topPages (view_report_of Inr [?v, ?v]) = [(lit ''/'', 2)]"
    by (simp add: view_report_of_def view_loop_def view_step_def empty_views_def Let_def bump_def
        top_n_def ranked_def sort_desc_def)
  with view_report_counts [of Inr "[?v, ?v]"] show ?thesis by (simp add: Let_def)
qed

text \<open>
  The event report counts exactly: every category and every listed action shows its
  number of events, the categories and the days each add up to the total, both rankings
  descend, and the funnel stages for clicks and submissions are the event counts of their
  categories.
\<close>

theorem event_report_counts:
  "let r = event_report_of vs leadCount pvCount sources;
       events_in = (\<lambda>c. length (filter (\<lambda>v. ev_category v = c) vs)) in
    er_totalEvents r = length vs \<and>
    (\<forall>c n. (c, n) \<in> set (er_byCategory r) = (n = events_in c \<and> 0 < n)) \<and>
    sum_list (map snd (er_byCategory r)) = length vs \<and>
    sorted_wrt (\<lambda>a b. snd b \<le> snd a) (er_byCategory r) \<and>
    (\<forall>(a, n) \<in> set (er_topActions r). n = length (filter (\<lambda>v. action_key v = a) vs) \<and> 0 < n) \<and>
    length (er_topActions r) \<le> 20 \<and>
    sum_list (map snd (er_dailyEvents r)) = length vs \<and>
    er_funnelStages r =
      [(lit ''Page Views'', pvCount), (lit ''CTA Clicks'', events_in (lit ''cta_click'')),
       (lit ''Form Submits'', events_in (lit ''form_submit'')), (lit ''Leads Created'', leadCount),
       (lit ''LINE Clicks'', events_in (lit ''line_click''))]"
proof -
  define r where "r = event_report_of vs leadCount pvCount sources"
  let ?cat = "ea_category (event_loop vs)" and ?act = "ea_action (event_loop vs)"
    and ?day = "ea_daily (event_loop vs)"
  have loops: "?cat = foldl (\<lambda>m v. bump (ev_category v) m) [] vs"
    "?act = foldl (\<lambda>m v. bump (action_key v) m) [] vs"
    "?day = foldl (\<lambda>m v. bump (date_key (ev_createdAt v)) m) [] vs"
    by (simp_all add: event_loop_def foldl_event_step)
  have cat: "(c, n) \<in> set (er_byCategory r) \<longleftrightarrow>
      n = length (filter (\<lambda>v. ev_category v = c) vs) \<and> 0 < n" for c n
    using category.run_entry [of c n vs] by (simp add: r_def event_report_of_def Let_def loops)
  have cat_total: "sum_list (map snd (er_byCategory r)) = length vs"
    using category.run_total [of vs] by (simp add: r_def event_report_of_def Let_def loops ranked_total)
  have cat_sorted: "sorted_wrt (\<lambda>a b. snd b \<le> snd a) (er_byCategory r)"
    by (simp add: r_def event_report_of_def Let_def ranked_sorted)
  have act: "n = length (filter (\<lambda>v. action_key v = a) vs) \<and> 0 < n"
    if "(a, n) \<in> set (er_topActions r)" for a n
    using that actions.run_entry [of a n vs]
    by (auto simp: r_def event_report_of_def Let_def loops top_n_def dest: in_set_takeD)
  have act_len: "length (er_topActions r) \<le> 20"
    by (simp add: r_def event_report_of_def Let_def length_top_n)
  have day: "sum_list (map snd (er_dailyEvents r)) = length vs"
  proof -
    have "mset (er_dailyEvents r) = mset ?day" by (simp add: r_def event_report_of_def Let_def by_date_def)
    then have "sum_list (map snd (er_dailyEvents r)) = total ?day"
      unfolding total_def by (rule sum_list_map_mset)
    then show ?thesis using event_days.run_total [of vs] by (simp add: loops)
  qed
  have funnel: "er_funnelStages r = funnel pvCount leadCount ?cat"
    by (simp add: r_def event_report_of_def Let_def)
  have "count_of ?cat c = length (filter (\<lambda>v. ev_category v = c) vs)" for c
    using category.run_counts [of vs c] by (simp add: loops)
  then show ?thesis
    unfolding Let_def r_def [symmetric] funnel funnel_def
    using cat cat_total cat_sorted act act_len day by (auto simp: r_def event_report_of_def Let_def)
qed

theorem event_report_counts_witness:
  "er_byCategory (event_report_of [\<lparr>ev_category = lit ''cta_click'', ev_action = lit ''hero'',
     ev_createdAt = 0\<rparr>] 2 3 []) = [(lit ''cta_click'', 1)]"
proof -
  let ?vs = "[\<lparr>ev_category = lit ''cta_click'', ev_action = lit ''hero'', ev_createdAt = 0\<rparr>]"
  have "er_totalEvents (event_report_of ?vs 2 3 []) = 1"
    using event_report_counts [of ?vs 2 3 "[]"] by (simp add: Let_def)
  then show ?thesis
    by (simp add: event_report_of_def event_loop_def event_step_def Let_def bump_def ranked_def
        sort_desc_def)
qed

end
