(* ===== verification/Health.thy ===== *)
theory Health
  imports World
begin

text \<open>
  The integration report of \<open>server/_core/integration-health.ts\<close>, which the public
  \<open>system.integrationHealth\<close> query returns.
\<close>

datatype integration_status = Ready | NotConfigured | Partial | Disabled

record readiness =
  re_status :: integration_status
  re_configuredFields :: "jstr list"
  re_missingFields :: "jstr list"

definition getConfiguredFields :: "(jstr, jstr) dict \<Rightarrow> bool \<Rightarrow> readiness" where
  "getConfiguredFields fs disabledIfEmpty =
     (let configured = map fst (filter (\<lambda>(_, v). length v > 0) fs);
          missing = map fst (filter (\<lambda>(_, v). length v = 0) fs)
      in \<lparr>re_status =
            (if length configured = length fs then Ready
             else if length configured = 0 then (if disabledIfEmpty then Disabled else NotConfigured)
             else Partial),
          re_configuredFields = configured, re_missingFields = missing\<rparr>)"

record integration_health =
  ih_auth :: readiness
  ih_database :: readiness
  ih_leadCapture :: readiness
  ih_analytics :: readiness
  ih_chatbot :: readiness
  ih_chatbotFallback :: readiness
  ih_publicLeadCaptureReady :: bool
  ih_publicChatbotReady :: bool
  ih_localContinuationReady :: bool

text \<open>\<open>e\<close> is the configuration after the overrides.\<close>

definition getIntegrationHealth :: "process_env \<Rightarrow> env \<Rightarrow> integration_health" where
  "getIntegrationHealth pe e =
     (let auth = getConfiguredFields [(lit ''appId'', appId e), (lit ''cookieSecret'', cookieSecret e),
                   (lit ''oAuthServerUrl'', oAuthServerUrl e)] False;
          database = getConfiguredFields [(lit ''databaseUrl'', databaseUrl e)] False;
          leadCapture =
            (if re_status database = Ready
             then \<lparr>re_status = Ready, re_configuredFields = [lit ''databaseUrl''], re_missingFields = []\<rparr>
             else \<lparr>re_status = Partial, re_configuredFields = [lit ''localQueue''],
                   re_missingFields = [lit ''databaseUrl'']\<rparr>);
          analytics = getConfiguredFields
            [(lit ''analyticsEndpoint'', env_or_empty pe ''VITE_ANALYTICS_ENDPOINT''),
             (lit ''analyticsWebsiteId'', env_or_empty pe ''VITE_ANALYTICS_WEBSITE_ID'')] True;
          chatbot = getConfiguredFields [(lit ''forgeApiKey'', forgeApiKey e)] False;
          chatbotFallback = \<lparr>re_status = Ready, re_configuredFields = [lit ''staticAssistant''],
                             re_missingFields = []\<rparr>
      in \<lparr>ih_auth = auth, ih_database = database, ih_leadCapture = leadCapture,
          ih_analytics = analytics, ih_chatbot = chatbot, ih_chatbotFallback = chatbotFallback,
          ih_publicLeadCaptureReady =
            (re_status leadCapture = Ready \<or> re_status leadCapture = Partial),
          ih_publicChatbotReady = (re_status chatbot = Ready \<or> re_status chatbotFallback = Ready),
          ih_localContinuationReady =
            (re_status database = Ready \<and>
             (re_status analytics = Ready \<or> re_status analytics = Disabled))\<rparr>)"

section \<open>The report as a value\<close>

fun status_value :: "integration_status \<Rightarrow> jsval" where
  "status_value Ready = JStr (lit ''ready'')"
| "status_value NotConfigured = JStr (lit ''not_configured'')"
| "status_value Partial = JStr (lit ''partial'')"
| "status_value Disabled = JStr (lit ''disabled'')"

definition readiness_value :: "readiness \<Rightarrow> jsval" where
  "readiness_value r =
     JObj [(lit ''status'', status_value (re_status r)),
           (lit ''configuredFields'', JArr (map JStr (re_configuredFields r))),
           (lit ''missingFields'', JArr (map JStr (re_missingFields r)))]"

definition health_value :: "integration_health \<Rightarrow> jsval" where
  "health_value h =
     JObj [(lit ''auth'', readiness_value (ih_auth h)),
           (lit ''database'', readiness_value (ih_database h)),
           (lit ''leadCapture'', readiness_value (ih_leadCapture h)),
           (lit ''analytics'', readiness_value (ih_analytics h)),
           (lit ''chatbot'', readiness_value (ih_chatbot h)),
           (lit ''chatbotFallback'', readiness_value (ih_chatbotFallback h)),
           (lit ''publicLeadCaptureReady'', JBool (ih_publicLeadCaptureReady h)),
           (lit ''publicChatbotReady'', JBool (ih_publicChatbotReady h)),
           (lit ''localContinuationReady'', JBool (ih_localContinuationReady h))]"

section \<open>Lemmas\<close>

lemma configured_missing_partition:
  "mset (re_configuredFields (getConfiguredFields fs d)) + mset (re_missingFields (getConfiguredFields fs d))
     = mset (map fst fs)"
  by (induction fs) (auto simp: getConfiguredFields_def Let_def)

lemma configured_ready:
  "re_status (getConfiguredFields fs d) = Ready \<longleftrightarrow> (\<forall>(k, v) \<in> set fs. v \<noteq> [])"
proof -
  have "length (filter (\<lambda>(_, v). length v > 0) fs) = length fs \<longleftrightarrow> (\<forall>(k, v) \<in> set fs. v \<noteq> [])"
  proof
    assume l: "length (filter (\<lambda>(_, v). length v > 0) fs) = length fs"
    then have "\<forall>x \<in> set fs. (\<lambda>(_, v). length v > 0) x"
      using length_filter_less [of _ fs "\<lambda>(_, v). length v > 0"] by fastforce
    then show "\<forall>(k, v) \<in> set fs. v \<noteq> []" by auto
  next
    assume "\<forall>(k, v) \<in> set fs. v \<noteq> []"
    then have "filter (\<lambda>(_, v). length v > 0) fs = fs" by (auto simp: filter_id_conv)
    then show "length (filter (\<lambda>(_, v). length v > 0) fs) = length fs" by simp
  qed
  then show ?thesis by (auto simp: getConfiguredFields_def Let_def)
qed

text \<open>The report names fields; it does not carry the value of any secret.\<close>

definition health_field_names :: "jstr list" where
  "health_field_names =
     map lit [''appId'', ''cookieSecret'', ''oAuthServerUrl'', ''databaseUrl'', ''localQueue'',
       ''analyticsEndpoint'', ''analyticsWebsiteId'', ''forgeApiKey'', ''staticAssistant'']"

definition readiness_names :: "readiness \<Rightarrow> jstr set" where
  "readiness_names r = set (re_configuredFields r) \<union> set (re_missingFields r)"

lemma readiness_names_fields: "readiness_names (getConfiguredFields fs d) = set (map fst fs)"
  by (auto simp: readiness_names_def getConfiguredFields_def Let_def)

section \<open>Properties\<close>

definition same_emptiness :: "jstr \<Rightarrow> jstr \<Rightarrow> bool" where
  "same_emptiness a b \<longleftrightarrow> (a = [] \<longleftrightarrow> b = [])"

text \<open>
  The public integration report depends on a configuration only through which values are
  empty: two configurations that agree on that give the same report, so it carries no part
  of a secret, a URL or an id.
\<close>

theorem health_discloses_emptiness_only:
  assumes "same_emptiness (appId e) (appId e')" and "same_emptiness (cookieSecret e) (cookieSecret e')"
    and "same_emptiness (oAuthServerUrl e) (oAuthServerUrl e')"
    and "same_emptiness (databaseUrl e) (databaseUrl e')"
    and "same_emptiness (forgeApiKey e) (forgeApiKey e')"
    and "same_emptiness (env_or_empty pe ''VITE_ANALYTICS_ENDPOINT'') (env_or_empty pe' ''VITE_ANALYTICS_ENDPOINT'')"
    and "same_emptiness (env_or_empty pe ''VITE_ANALYTICS_WEBSITE_ID'') (env_or_empty pe' ''VITE_ANALYTICS_WEBSITE_ID'')"
  shows "health_value (getIntegrationHealth pe e) = health_value (getIntegrationHealth pe' e')"
proof -
  have "getConfiguredFields fs d = getConfiguredFields gs d"
    if "list_all2 (\<lambda>(k, v) (k', v'). k = k' \<and> same_emptiness v v') fs gs" for fs gs d
  proof -
    have "map fst (filter (\<lambda>(_, v). length v > 0) fs) = map fst (filter (\<lambda>(_, v). length v > 0) gs)"
      and "map fst (filter (\<lambda>(_, v). length v = 0) fs) = map fst (filter (\<lambda>(_, v). length v = 0) gs)"
      using that by (induction rule: list_all2_induct) (auto simp: same_emptiness_def)
    then show ?thesis
      using list_all2_lengthD [OF that] by (simp add: getConfiguredFields_def Let_def)
  qed
  note eq = this
  have "getConfiguredFields [(lit ''appId'', appId e), (lit ''cookieSecret'', cookieSecret e),
          (lit ''oAuthServerUrl'', oAuthServerUrl e)] False =
        getConfiguredFields [(lit ''appId'', appId e'), (lit ''cookieSecret'', cookieSecret e'),
          (lit ''oAuthServerUrl'', oAuthServerUrl e')] False"
    and "getConfiguredFields [(lit ''databaseUrl'', databaseUrl e)] False =
         getConfiguredFields [(lit ''databaseUrl'', databaseUrl e')] False"
    and "getConfiguredFields [(lit ''forgeApiKey'', forgeApiKey e)] False =
         getConfiguredFields [(lit ''forgeApiKey'', forgeApiKey e')] False"
    and "getConfiguredFields [(lit ''analyticsEndpoint'', env_or_empty pe ''VITE_ANALYTICS_ENDPOINT''),
          (lit ''analyticsWebsiteId'', env_or_empty pe ''VITE_ANALYTICS_WEBSITE_ID'')] True =
         getConfiguredFields [(lit ''analyticsEndpoint'', env_or_empty pe' ''VITE_ANALYTICS_ENDPOINT''),
          (lit ''analyticsWebsiteId'', env_or_empty pe' ''VITE_ANALYTICS_WEBSITE_ID'')] True"
    by (rule eq; use assms in simp)+
  then show ?thesis by (simp add: getIntegrationHealth_def Let_def)
qed

theorem health_discloses_emptiness_only_witness:
  "health_value (getIntegrationHealth sample_process_env sample_env) =
   health_value (getIntegrationHealth sample_process_env (sample_env\<lparr>cookieSecret := lit ''other''\<rparr>))"
  by (rule health_discloses_emptiness_only) (simp_all add: same_emptiness_def sample_simps)

end
