(* ===== verification/Regex.thy ===== *)
theory Regex
  imports JsString
begin

text \<open>
  The regular expressions the program tests text with: literal texts, repeated character
  classes, options, sequences and alternatives. Matching returns the rests of the input
  after every possible match; texts are compared with ASCII case folded, as the \<open>i\<close> flag
  asks (the patterns without the flag contain no letter).
\<close>

datatype cls =
  Units "nat list" | NotUnits "nat list" | Digits | DigitsOr "nat list" | Spaces
  | NotSpacesNor "nat list"

fun in_cls :: "cls \<Rightarrow> nat \<Rightarrow> bool" where
  "in_cls (Units us) c = (c \<in> set us)"
| "in_cls (NotUnits us) c = (c \<notin> set us)"
| "in_cls Digits c = is_digit c"
| "in_cls (DigitsOr us) c = (is_digit c \<or> c \<in> set us)"
| "in_cls Spaces c = is_space c"
| "in_cls (NotSpacesNor us) c = (\<not> is_space c \<and> c \<notin> set us)"

datatype re = Text jstr | Cls cls nat "nat option" | Opt re | Seq "re list" | Alt "re list"

definition fold_case :: "nat \<Rightarrow> nat" where
  "fold_case c = (if 0x41 \<le> c \<and> c \<le> 0x5A then c + 32 else c)"

fun match_text :: "jstr \<Rightarrow> jstr \<Rightarrow> jstr option" where
  "match_text [] s = Some s"
| "match_text (p # ps) [] = None"
| "match_text (p # ps) (c # cs) = (if fold_case c = fold_case p then match_text ps cs else None)"

fun match_upto :: "cls \<Rightarrow> nat \<Rightarrow> jstr \<Rightarrow> jstr list" where
  "match_upto k 0 s = [s]"
| "match_upto k (Suc n) [] = [[]]"
| "match_upto k (Suc n) (c # cs) = (c # cs) # (if in_cls k c then match_upto k n cs else [])"

fun match_exactly :: "cls \<Rightarrow> nat \<Rightarrow> jstr \<Rightarrow> jstr option" where
  "match_exactly k 0 s = Some s"
| "match_exactly k (Suc n) [] = None"
| "match_exactly k (Suc n) (c # cs) = (if in_cls k c then match_exactly k n cs else None)"

definition match_cls :: "cls \<Rightarrow> nat \<Rightarrow> nat option \<Rightarrow> jstr \<Rightarrow> jstr list" where
  "match_cls k lo hi s =
     (case match_exactly k lo s of
        None \<Rightarrow> []
      | Some r \<Rightarrow> match_upto k (case hi of None \<Rightarrow> length r | Some h \<Rightarrow> h - lo) r)"

fun match_re :: "re \<Rightarrow> jstr \<Rightarrow> jstr list"
  and match_seq :: "re list \<Rightarrow> jstr \<Rightarrow> jstr list"
  and match_alt :: "re list \<Rightarrow> jstr \<Rightarrow> jstr list"
where
  "match_re (Text t) s = (case match_text t s of None \<Rightarrow> [] | Some r \<Rightarrow> [r])"
| "match_re (Cls k lo hi) s = match_cls k lo hi s"
| "match_re (Opt r) s = match_re r s @ [s]"
| "match_re (Seq rs) s = match_seq rs s"
| "match_re (Alt rs) s = match_alt rs s"
| "match_seq [] s = [s]"
| "match_seq (r # rs) s = concat (map (match_seq rs) (match_re r s))"
| "match_alt [] s = []"
| "match_alt (r # rs) s = match_re r s @ match_alt rs s"

text \<open>\<open>re.test(s)\<close>: a match at some position.\<close>

fun re_test :: "re \<Rightarrow> jstr \<Rightarrow> bool" where
  "re_test r [] = (match_re r [] \<noteq> [])"
| "re_test r (c # cs) = (match_re r (c # cs) \<noteq> [] \<or> re_test r cs)"

section \<open>A literal at the head of a pattern\<close>

definition fold_text :: "jstr \<Rightarrow> jstr" where
  "fold_text s = map fold_case s"

lemma match_text_Some: "match_text p s = Some r \<Longrightarrow> starts_with (fold_text p) (fold_text s)"
  by (induction p s rule: match_text.induct)
     (auto simp: fold_text_def starts_with_def split: if_splits)

text \<open>A text that lacks the literal a sequence starts with does not match the sequence.\<close>

lemma re_test_needs_head:
  "re_test (Seq (Text p # rs)) s \<Longrightarrow> contains (fold_text s) (fold_text p)"
proof (induction s)
  case Nil
  then show ?case
    by (cases p) (auto simp: fold_text_def)
next
  case (Cons c cs)
  show ?case
  proof (cases "match_text p (c # cs)")
    case None
    with Cons show ?thesis by (simp add: fold_text_def)
  next
    case (Some r)
    from match_text_Some [OF Some] show ?thesis by (simp add: fold_text_def)
  qed
qed

end
