(* ===== verification/Chatbot.thy ===== *)
theory Chatbot
  imports JsMap Regex
begin

text \<open>
  The conversation analysis of \<open>shared/chatbotIntelligence.ts\<close>: intents, the lead fields a
  conversation already answers, the fallback reply assembled from fixed texts, and the
  screening of model replies for claims the company does not make. Thai texts are lists of
  code units.
\<close>

section \<open>Messages, intents and fields\<close>

datatype chatbot_role = User | Assistant | System

record chatbot_message =
  cm_role :: chatbot_role
  cm_content :: jstr

datatype chatbot_intent =
    Pricing_roi | Solar_carport | Rooftop | Bess | Ev_charging | Tax_boi | Maintenance
  | Lead_ready | Assessment | General

datatype lead_field = Solution | MonthlyBill | SiteType | Location | Area | Timeline | Contact

record lead_qualification =
  lq_intent :: chatbot_intent
  lq_latestUserMessage :: jstr
  lq_knownFields :: "lead_field list"
  lq_missingFields :: "lead_field list"
  lq_suggestedQuestions :: "jstr list"
  lq_fieldCount :: nat

section \<open>Texts and keywords\<close>

definition CHATBOT_QUICK_REPLIES :: "(jstr \<times> jstr) list" where
  "CHATBOT_QUICK_REPLIES =
    [([0xE02, 0xE2D, 0xE43, 0xE1A, 0xE40, 0xE2A, 0xE19, 0xE2D, 0xE23, 0xE32, 0xE04, 0xE32] @
     lit '' Solar Carport'' , [0xE15, 0xE49, 0xE2D, 0xE07, 0xE01, 0xE32, 0xE23, 0xE02, 0xE2D,
     0xE43, 0xE1A, 0xE40, 0xE2A, 0xE19, 0xE2D, 0xE23, 0xE32, 0xE04, 0xE32] @
     lit '' Solar Carport '' @ [0xE2A, 0xE33, 0xE2B, 0xE23, 0xE31, 0xE1A, 0xE2D, 0xE07, 0xE04,
     0xE4C, 0xE01, 0xE23]), ([0xE04, 0xE33, 0xE19, 0xE27, 0xE13, 0xE25, 0xE14, 0xE04, 0xE48,
     0xE32, 0xE44, 0xE1F, 0xE40, 0xE1A, 0xE37, 0xE49, 0xE2D, 0xE07, 0xE15, 0xE49, 0xE19], [0xE0A,
     0xE48, 0xE27, 0xE22, 0xE1B, 0xE23, 0xE30, 0xE40, 0xE21, 0xE34, 0xE19, 0xE40, 0xE1A, 0xE37,
     0xE49, 0xE2D, 0xE07, 0xE15, 0xE49, 0xE19, 0xE27, 0xE48, 0xE32, 0xE23, 0xE30, 0xE1A, 0xE1A,
     0xE42, 0xE0B, 0xE25, 0xE32, 0xE23, 0xE4C, 0xE08, 0xE30, 0xE25, 0xE14, 0xE04, 0xE48, 0xE32,
     0xE44, 0xE1F, 0xE44, 0xE14, 0xE49, 0xE2D, 0xE22, 0xE48, 0xE32, 0xE07, 0xE44, 0xE23]), (lit
     ''Rooftop '' @ [0xE2B, 0xE23, 0xE37, 0xE2D] @ lit '' Carport '' @ [0xE14, 0xE35], [0xE04,
     0xE27, 0xE23, 0xE40, 0xE25, 0xE37, 0xE2D, 0xE01] @ lit '' Rooftop Solar '' @ [0xE2B, 0xE23,
     0xE37, 0xE2D] @ lit '' Solar Carport '' @ [0xE2A, 0xE33, 0xE2B, 0xE23, 0xE31, 0xE1A, 0xE1E,
     0xE37, 0xE49, 0xE19, 0xE17, 0xE35, 0xE48, 0xE02, 0xE2D, 0xE07, 0xE40, 0xE23, 0xE32]), (lit
     ''BESS / EV Charger'', [0xE2D, 0xE22, 0xE32, 0xE01, 0xE17, 0xE23, 0xE32, 0xE1A, 0xE01, 0xE32,
     0xE23, 0xE43, 0xE0A, 0xE49] @ lit '' BESS '' @ [0xE41, 0xE25, 0xE30] @ lit '' EV Charger '' @
     [0xE23, 0xE48, 0xE27, 0xE21, 0xE01, 0xE31, 0xE1A, 0xE23, 0xE30, 0xE1A, 0xE1A, 0xE42, 0xE0B,
     0xE25, 0xE32, 0xE23, 0xE4C]), ([0xE19, 0xE31, 0xE14, 0xE2A, 0xE33, 0xE23, 0xE27, 0xE08,
     0xE2B, 0xE19, 0xE49, 0xE32, 0xE07, 0xE32, 0xE19], [0xE15, 0xE49, 0xE2D, 0xE07, 0xE01, 0xE32,
     0xE23, 0xE19, 0xE31, 0xE14, 0xE17, 0xE35, 0xE21, 0xE27, 0xE34, 0xE28, 0xE27, 0xE01, 0xE23,
     0xE21, 0xE32, 0xE2A, 0xE33, 0xE23, 0xE27, 0xE08, 0xE2B, 0xE19, 0xE49, 0xE32, 0xE07, 0xE32,
     0xE19])]"

definition CONTACT_CTA :: jstr where
  "CONTACT_CTA =
     [0xE40, 0xE21, 0xE37, 0xE48, 0xE2D, 0xE1E, 0xE23, 0xE49, 0xE2D, 0xE21, 0xE1B, 0xE23, 0xE30,
     0xE40, 0xE21, 0xE34, 0xE19, 0xE08, 0xE23, 0xE34, 0xE07, 0x20, 0xE2A, 0xE48, 0xE07, 0xE1A,
     0xE34, 0xE25, 0xE04, 0xE48, 0xE32, 0xE44, 0xE1F] @ lit '' 3-12 '' @ [0xE40, 0xE14, 0xE37,
     0xE2D, 0xE19, 0x20, 0xE23, 0xE39, 0xE1B, 0xE1E, 0xE37, 0xE49, 0xE19, 0xE17, 0xE35, 0xE48,
     0x20, 0xE41, 0xE25, 0xE30, 0xE42, 0xE25, 0xE40, 0xE04, 0xE0A, 0xE31, 0xE19, 0xE43, 0xE2B,
     0xE49, 0xE17, 0xE35, 0xE21] @ lit '' SIRINX '' @ [0xE17, 0xE32, 0xE07] @
     lit '' LINE @sirinx '' @ [0xE40, 0xE1E, 0xE37, 0xE48, 0xE2D, 0xE04, 0xE31, 0xE14, 0xE02,
     0xE19, 0xE32, 0xE14, 0xE23, 0xE30, 0xE1A, 0xE1A, 0xE41, 0xE25, 0xE30, 0xE19, 0xE31, 0xE14,
     0xE2A, 0xE33, 0xE23, 0xE27, 0xE08]"

definition FIELD_ORDER :: "lead_field list" where
  "FIELD_ORDER = [Solution, MonthlyBill, SiteType, Location, Area, Timeline, Contact]"

fun FIELD_QUESTIONS :: "lead_field \<Rightarrow> jstr" where
  "FIELD_QUESTIONS Solution =
     [0xE2A, 0xE19, 0xE43, 0xE08] @ lit '' Solar Carport, Rooftop, BESS '' @ [0xE2B, 0xE23, 0xE37,
     0xE2D] @ lit '' EV Charger '' @ [0xE40, 0xE1B, 0xE47, 0xE19, 0xE2B, 0xE25, 0xE31, 0xE01,
     0xE04, 0xE23, 0xE31, 0xE1A, 0x3F]"
| "FIELD_QUESTIONS MonthlyBill =
     [0xE04, 0xE48, 0xE32, 0xE44, 0xE1F, 0xE40, 0xE09, 0xE25, 0xE35, 0xE48, 0xE22, 0xE15, 0xE48,
     0xE2D, 0xE40, 0xE14, 0xE37, 0xE2D, 0xE19, 0xE1B, 0xE23, 0xE30, 0xE21, 0xE32, 0xE13, 0xE01,
     0xE35, 0xE48, 0xE1A, 0xE32, 0xE17, 0x20, 0xE2B, 0xE23, 0xE37, 0xE2D, 0xE21, 0xE35, 0xE1A,
     0xE34, 0xE25, 0xE04, 0xE48, 0xE32, 0xE44, 0xE1F, 0xE22, 0xE49, 0xE2D, 0xE19, 0xE2B, 0xE25,
     0xE31, 0xE07, 0xE44, 0xE2B, 0xE21, 0xE04, 0xE23, 0xE31, 0xE1A, 0x3F]"
| "FIELD_QUESTIONS SiteType =
     [0xE1E, 0xE37, 0xE49, 0xE19, 0xE17, 0xE35, 0xE48, 0xE40, 0xE1B, 0xE47, 0xE19, 0xE42, 0xE23,
     0xE07, 0xE07, 0xE32, 0xE19, 0x20, 0xE42, 0xE23, 0xE07, 0xE41, 0xE23, 0xE21, 0x20, 0xE2B,
     0xE49, 0xE32, 0xE07, 0x20, 0xE2D, 0xE32, 0xE04, 0xE32, 0xE23, 0xE2A, 0xE33, 0xE19, 0xE31,
     0xE01, 0xE07, 0xE32, 0xE19, 0x20, 0xE2A, 0xE16, 0xE32, 0xE19, 0xE28, 0xE36, 0xE01, 0xE29,
     0xE32, 0x20, 0xE2B, 0xE23, 0xE37, 0xE2D, 0xE2B, 0xE19, 0xE48, 0xE27, 0xE22, 0xE07, 0xE32,
     0xE19, 0xE1B, 0xE23, 0xE30, 0xE40, 0xE20, 0xE17, 0xE43, 0xE14, 0xE04, 0xE23, 0xE31, 0xE1A,
     0x3F]"
| "FIELD_QUESTIONS Location =
     [0xE44, 0xE0B, 0xE15, 0xE4C, 0xE07, 0xE32, 0xE19, 0xE2D, 0xE22, 0xE39, 0xE48, 0xE08, 0xE31,
     0xE07, 0xE2B, 0xE27, 0xE31, 0xE14, 0xE2B, 0xE23, 0xE37, 0xE2D, 0xE42, 0xE0B, 0xE19, 0xE44,
     0xE2B, 0xE19, 0xE04, 0xE23, 0xE31, 0xE1A, 0x3F]"
| "FIELD_QUESTIONS Area =
     [0xE21, 0xE35, 0xE1E, 0xE37, 0xE49, 0xE19, 0xE17, 0xE35, 0xE48, 0xE08, 0xE2D, 0xE14, 0xE23,
     0xE16, 0x20, 0xE2B, 0xE25, 0xE31, 0xE07, 0xE04, 0xE32, 0x20, 0xE2B, 0xE23, 0xE37, 0xE2D,
     0xE1E, 0xE37, 0xE49, 0xE19, 0xE17, 0xE35, 0xE48, 0xE27, 0xE48, 0xE32, 0xE07, 0xE1B, 0xE23,
     0xE30, 0xE21, 0xE32, 0xE13, 0xE01, 0xE35, 0xE48, 0xE15, 0xE32, 0xE23, 0xE32, 0xE07, 0xE40,
     0xE21, 0xE15, 0xE23, 0x2F, 0xE01, 0xE35, 0xE48, 0xE0A, 0xE48, 0xE2D, 0xE07, 0xE08, 0xE2D,
     0xE14, 0xE04, 0xE23, 0xE31, 0xE1A, 0x3F]"
| "FIELD_QUESTIONS Timeline =
     [0xE15, 0xE49, 0xE2D, 0xE07, 0xE01, 0xE32, 0xE23, 0xE40, 0xE23, 0xE34, 0xE48, 0xE21, 0xE2A,
     0xE33, 0xE23, 0xE27, 0xE08, 0xE2B, 0xE23, 0xE37, 0xE2D, 0xE15, 0xE34, 0xE14, 0xE15, 0xE31,
     0xE49, 0xE07, 0xE0A, 0xE48, 0xE27, 0xE07, 0xE40, 0xE14, 0xE37, 0xE2D, 0xE19, 0xE44, 0xE2B,
     0xE19, 0xE04, 0xE23, 0xE31, 0xE1A, 0x3F]"
| "FIELD_QUESTIONS Contact =
     [0xE2A, 0xE30, 0xE14, 0xE27, 0xE01, 0xE43, 0xE2B, 0xE49, 0xE17, 0xE35, 0xE21, 0xE15, 0xE34,
     0xE14, 0xE15, 0xE48, 0xE2D, 0xE01, 0xE25, 0xE31, 0xE1A, 0xE1C, 0xE48, 0xE32, 0xE19] @
     lit '' LINE, '' @ [0xE40, 0xE1A, 0xE2D, 0xE23, 0xE4C, 0xE42, 0xE17, 0xE23, 0x20, 0xE2B,
     0xE23, 0xE37, 0xE2D, 0xE2D, 0xE35, 0xE40, 0xE21, 0xE25, 0xE0A, 0xE48, 0xE2D, 0xE07, 0xE17,
     0xE32, 0xE07, 0xE43, 0xE14, 0xE04, 0xE23, 0xE31, 0xE1A, 0x3F]"

definition PROVINCE_KEYWORDS :: "jstr list" where
  "PROVINCE_KEYWORDS =
     [[0xE01, 0xE23, 0xE38, 0xE07, 0xE40, 0xE17, 0xE1E], [0xE19, 0xE19, 0xE17, 0xE1A, 0xE38,
     0xE23, 0xE35], [0xE1B, 0xE17, 0xE38, 0xE21, 0xE18, 0xE32, 0xE19, 0xE35], [0xE2A, 0xE21,
     0xE38, 0xE17, 0xE23, 0xE1B, 0xE23, 0xE32, 0xE01, 0xE32, 0xE23], [0xE19, 0xE04, 0xE23, 0xE1B,
     0xE10, 0xE21], [0xE0A, 0xE25, 0xE1A, 0xE38, 0xE23, 0xE35], [0xE23, 0xE30, 0xE22, 0xE2D,
     0xE07], [0xE09, 0xE30, 0xE40, 0xE0A, 0xE34, 0xE07, 0xE40, 0xE17, 0xE23, 0xE32], [0xE2D,
     0xE22, 0xE38, 0xE18, 0xE22, 0xE32], [0xE2A, 0xE23, 0xE30, 0xE1A, 0xE38, 0xE23, 0xE35],
     [0xE19, 0xE04, 0xE23, 0xE23, 0xE32, 0xE0A, 0xE2A, 0xE35, 0xE21, 0xE32], [0xE40, 0xE0A, 0xE35,
     0xE22, 0xE07, 0xE43, 0xE2B, 0xE21, 0xE48], [0xE40, 0xE0A, 0xE35, 0xE22, 0xE07, 0xE23, 0xE32,
     0xE22], [0xE02, 0xE2D, 0xE19, 0xE41, 0xE01, 0xE48, 0xE19], [0xE20, 0xE39, 0xE40, 0xE01,
     0xE47, 0xE15], [0xE2A, 0xE38, 0xE23, 0xE32, 0xE29, 0xE0E, 0xE23, 0xE4C], [0xE2A, 0xE07,
     0xE02, 0xE25, 0xE32], [0xE2B, 0xE32, 0xE14, 0xE43, 0xE2B, 0xE0D, 0xE48], [0xE23, 0xE30,
     0xE22, 0xE2D, 0xE07], [0xE2D, 0xE35, 0xE2D, 0xE35, 0xE0B, 0xE35], lit ''eec'' ]"

definition SITE_TYPE_KEYWORDS :: "jstr list" where
  "SITE_TYPE_KEYWORDS =
     [[0xE42, 0xE23, 0xE07, 0xE07, 0xE32, 0xE19], lit ''factory'' , lit ''warehouse'' , [0xE04,
     0xE25, 0xE31, 0xE07], [0xE2B, 0xE49, 0xE32, 0xE07], lit ''mall'' , [0xE42, 0xE23, 0xE07,
     0xE41, 0xE23, 0xE21], lit ''hotel'' , [0xE23, 0xE35, 0xE2A, 0xE2D, 0xE23, 0xE4C, 0xE17],
     [0xE2A, 0xE33, 0xE19, 0xE31, 0xE01, 0xE07, 0xE32, 0xE19], lit ''office'' , [0xE42, 0xE23,
     0xE07, 0xE40, 0xE23, 0xE35, 0xE22, 0xE19], [0xE21, 0xE2B, 0xE32, 0xE27, 0xE34, 0xE17, 0xE22,
     0xE32, 0xE25, 0xE31, 0xE22], [0xE2A, 0xE16, 0xE32, 0xE19, 0xE28, 0xE36, 0xE01, 0xE29, 0xE32],
     [0xE23, 0xE32, 0xE0A, 0xE01, 0xE32, 0xE23], [0xE42, 0xE23, 0xE07, 0xE1E, 0xE22, 0xE32, 0xE1A,
     0xE32, 0xE25], lit ''hospital'' , [0xE04, 0xE2D, 0xE19, 0xE42, 0xE14], [0xE2B, 0xE21, 0xE39,
     0xE48, 0xE1A, 0xE49, 0xE32, 0xE19], [0xE2D, 0xE32, 0xE04, 0xE32, 0xE23]]"

definition SOLUTION_KEYWORDS :: "jstr list" where
  "SOLUTION_KEYWORDS =
     [lit ''solar'', [0xE42, 0xE0B, 0xE25, 0xE32, 0xE23, 0xE4C], [0xE42, 0xE0B, 0xE25, 0xE48,
     0xE32], [0xE41, 0xE1C, 0xE07], lit ''carport'' , [0xE17, 0xE35, 0xE48, 0xE08, 0xE2D, 0xE14],
     lit ''rooftop'' , [0xE2B, 0xE25, 0xE31, 0xE07, 0xE04, 0xE32], lit ''bess'' , lit ''battery''
     , [0xE41, 0xE1A, 0xE15], lit ''ev'' , lit ''charger'' , [0xE0A, 0xE32, 0xE23, 0xE4C, 0xE08]]"

definition normalize :: "jstr \<Rightarrow> jstr" where
  "normalize value = to_lower (trim value)"

definition getUserMessages :: "chatbot_message list \<Rightarrow> chatbot_message list" where
  "getUserMessages messages = filter (\<lambda>m. cm_role m = User) messages"

definition getLatestUserMessage :: "chatbot_message list \<Rightarrow> jstr" where
  "getLatestUserMessage messages =
     (case rev (getUserMessages messages) of [] \<Rightarrow> [] | m # _ \<Rightarrow> trim (cm_content m))"

definition getConversationText :: "chatbot_message list \<Rightarrow> jstr" where
  "getConversationText messages = to_lower (join [10] (map cm_content (getUserMessages messages)))"

section \<open>Intents\<close>

definition lead_keywords :: "jstr list" where
  "lead_keywords =
     [[0xE19, 0xE31, 0xE14], [0xE2A, 0xE33, 0xE23, 0xE27, 0xE08], [0xE43, 0xE1A, 0xE40, 0xE2A,
     0xE19, 0xE2D, 0xE23, 0xE32, 0xE04, 0xE32], [0xE40, 0xE2A, 0xE19, 0xE2D, 0xE23, 0xE32, 0xE04,
     0xE32], [0xE15, 0xE34, 0xE14, 0xE15, 0xE48, 0xE2D, 0xE01, 0xE25, 0xE31, 0xE1A], [0xE04,
     0xE38, 0xE22, 0xE01, 0xE31, 0xE1A, 0xE17, 0xE35, 0xE21], [0xE1E, 0xE23, 0xE49, 0xE2D, 0xE21]]"

definition tax_keywords :: "jstr list" where
  "tax_keywords =
     [[0xE20, 0xE32, 0xE29, 0xE35], lit ''boi'' , [0xE25, 0xE14, 0xE2B, 0xE22, 0xE48, 0xE2D,
     0xE19], [0xE2A, 0xE34, 0xE17, 0xE18, 0xE34, 0xE1B, 0xE23, 0xE30, 0xE42, 0xE22, 0xE0A, 0xE19,
     0xE4C]]"

definition pricing_keywords :: "jstr list" where
  "pricing_keywords =
     [[0xE23, 0xE32, 0xE04, 0xE32], [0xE04, 0xE48, 0xE32, 0xE44, 0xE1F], [0xE04, 0xE37, 0xE19,
     0xE17, 0xE38, 0xE19], lit ''roi'' , lit ''payback'' , lit ''lcoe'' , [0xE04, 0xE33, 0xE19,
     0xE27, 0xE13], [0xE1B, 0xE23, 0xE30, 0xE40, 0xE21, 0xE34, 0xE19], [0xE1B, 0xE23, 0xE30,
     0xE2B, 0xE22, 0xE31, 0xE14]]"

definition bess_keywords :: "jstr list" where
  "bess_keywords =
     [lit ''bess'', lit ''battery'' , [0xE41, 0xE1A, 0xE15], lit ''demand'' , lit ''peak'' ,
     [0xE1E, 0xE35, 0xE01]]"

definition ev_keywords :: "jstr list" where
  "ev_keywords =
     [lit ''ev'', lit ''charger'' , [0xE0A, 0xE32, 0xE23, 0xE4C, 0xE08], [0xE23, 0xE16, 0xE44,
     0xE1F, 0xE1F, 0xE49, 0xE32]]"

definition carport_keywords :: "jstr list" where
  "carport_keywords =
     [lit ''carport'', [0xE17, 0xE35, 0xE48, 0xE08, 0xE2D, 0xE14], [0xE25, 0xE32, 0xE19, 0xE08,
     0xE2D, 0xE14], [0xE42, 0xE23, 0xE07, 0xE08, 0xE2D, 0xE14]]"

definition rooftop_keywords :: "jstr list" where
  "rooftop_keywords =
     [[0xE2B, 0xE25, 0xE31, 0xE07, 0xE04, 0xE32], lit ''rooftop'' , lit ''roof'' , [0xE14, 0xE32,
     0xE14, 0xE1F, 0xE49, 0xE32]]"

definition maintenance_keywords :: "jstr list" where
  "maintenance_keywords =
     [lit ''o&m'', lit ''om'' , lit ''maintenance'' , [0xE25, 0xE49, 0xE32, 0xE07, 0xE41, 0xE1C,
     0xE07], [0xE0B, 0xE48, 0xE2D, 0xE21], [0xE14, 0xE39, 0xE41, 0xE25]]"

definition assessment_keywords :: "jstr list" where
  "assessment_keywords =
     [lit ''assessment'', [0xE1B, 0xE23, 0xE30, 0xE40, 0xE21, 0xE34, 0xE19, 0xE44, 0xE0B, 0xE15,
     0xE4C], [0xE41, 0xE1A, 0xE1A, 0xE1F, 0xE2D, 0xE23, 0xE4C, 0xE21]]"

text \<open>The rules in the order of the source: the first list with a keyword in the message decides.\<close>

definition detectChatbotIntent :: "jstr \<Rightarrow> chatbot_intent" where
  "detectChatbotIntent message =
     (let normalized = normalize message in
      if contains_any normalized lead_keywords then Lead_ready
      else if contains_any normalized tax_keywords then Tax_boi
      else if contains_any normalized pricing_keywords then Pricing_roi
      else if contains_any normalized bess_keywords then Bess
      else if contains_any normalized ev_keywords then Ev_charging
      else if contains_any normalized carport_keywords then Solar_carport
      else if contains_any normalized rooftop_keywords then Rooftop
      else if contains_any normalized maintenance_keywords then Maintenance
      else if contains_any normalized assessment_keywords then Assessment
      else General)"

section \<open>Guidance\<close>

fun getIntentGuidance :: "chatbot_intent \<Rightarrow> jstr" where
  "getIntentGuidance Pricing_roi =
     [0xE1B, 0xE23, 0xE30, 0xE40, 0xE21, 0xE34, 0xE19, 0xE04, 0xE48, 0xE32, 0xE44, 0xE1F, 0xE41,
     0xE25, 0xE30] @ lit '' ROI '' @ [0xE44, 0xE14, 0xE49, 0xE04, 0xE23, 0xE31, 0xE1A, 0x20,
     0xE41, 0xE15, 0xE48, 0xE15, 0xE49, 0xE2D, 0xE07, 0xE2D, 0xE34, 0xE07, 0xE1A, 0xE34, 0xE25,
     0xE04, 0xE48, 0xE32, 0xE44, 0xE1F] @ lit '', tariff, load profile, '' @ [0xE1E, 0xE37, 0xE49,
     0xE19, 0xE17, 0xE35, 0xE48, 0xE15, 0xE34, 0xE14, 0xE15, 0xE31, 0xE49, 0xE07, 0x20, 0xE41,
     0xE25, 0xE30, 0xE23, 0xE39, 0xE1B, 0xE41, 0xE1A, 0xE1A, 0xE25, 0xE07, 0xE17, 0xE38, 0xE19,
     0xE08, 0xE23, 0xE34, 0xE07, 0xE01, 0xE48, 0xE2D, 0xE19, 0x20, 0xE08, 0xE36, 0xE07, 0xE08,
     0xE30, 0xE2A, 0xE23, 0xE38, 0xE1B, 0xE02, 0xE19, 0xE32, 0xE14, 0xE23, 0xE30, 0xE1A, 0xE1A] @
     lit '', LCOE '' @ [0xE41, 0xE25, 0xE30] @ lit '' payback '' @ [0xE44, 0xE14, 0xE49, 0xE42,
     0xE14, 0xE22, 0xE44, 0xE21, 0xE48, 0xE1F, 0xE31, 0xE19, 0xE18, 0xE07, 0xE40, 0xE01, 0xE34,
     0xE19, 0xE02, 0xE49, 0xE2D, 0xE21, 0xE39, 0xE25]"
| "getIntentGuidance Solar_carport =
     lit ''Solar Carport '' @ [0xE40, 0xE1B, 0xE47, 0xE19, 0xE15, 0xE31, 0xE27, 0xE40, 0xE25,
     0xE37, 0xE2D, 0xE01, 0xE2B, 0xE25, 0xE31, 0xE01, 0xE02, 0xE2D, 0xE07] @ lit '' SIRINX '' @
     [0xE2A, 0xE33, 0xE2B, 0xE23, 0xE31, 0xE1A, 0xE2D, 0xE07, 0xE04, 0xE4C, 0xE01, 0xE23, 0xE17,
     0xE35, 0xE48, 0xE21, 0xE35, 0xE25, 0xE32, 0xE19, 0xE08, 0xE2D, 0xE14, 0xE23, 0xE16, 0x20,
     0xE40, 0xE1E, 0xE23, 0xE32, 0xE30, 0xE1C, 0xE25, 0xE34, 0xE15, 0xE44, 0xE1F, 0xE1F, 0xE49,
     0xE32, 0xE44, 0xE14, 0xE49] @ lit '', '' @ [0xE43, 0xE2B, 0xE49, 0xE23, 0xE48, 0xE21, 0xE40,
     0xE07, 0xE32] @ lit '', '' @ [0xE23, 0xE2D, 0xE07, 0xE23, 0xE31, 0xE1A] @
     lit '' EV Charger '' @ [0xE41, 0xE25, 0xE30, 0xE15, 0xE48, 0xE2D, 0xE22, 0xE2D, 0xE14] @
     lit '' BESS/AI Energy Management '' @ [0xE44, 0xE14, 0xE49, 0xE43, 0xE19, 0xE23, 0xE30,
     0xE1A, 0xE1A, 0xE40, 0xE14, 0xE35, 0xE22, 0xE27]"
| "getIntentGuidance Rooftop =
     lit ''Rooftop Solar '' @ [0xE40, 0xE2B, 0xE21, 0xE32, 0xE30, 0xE40, 0xE21, 0xE37, 0xE48,
     0xE2D, 0xE2B, 0xE25, 0xE31, 0xE07, 0xE04, 0xE32, 0xE41, 0xE02, 0xE47, 0xE07, 0xE41, 0xE23,
     0xE07, 0x20, 0xE1E, 0xE37, 0xE49, 0xE19, 0xE17, 0xE35, 0xE48, 0xE23, 0xE31, 0xE1A, 0xE41,
     0xE14, 0xE14, 0xE14, 0xE35, 0x20, 0xE41, 0xE25, 0xE30, 0xE42, 0xE2B, 0xE25, 0xE14, 0xE44,
     0xE1F, 0xE01, 0xE25, 0xE32, 0xE07, 0xE27, 0xE31, 0xE19, 0xE2A, 0xE39, 0xE07, 0x20, 0xE04,
     0xE27, 0xE23, 0xE40, 0xE17, 0xE35, 0xE22, 0xE1A, 0xE01, 0xE31, 0xE1A] @
     lit '' Solar Carport '' @ [0xE2B, 0xE32, 0xE01, 0xE21, 0xE35, 0xE1E, 0xE37, 0xE49, 0xE19,
     0xE17, 0xE35, 0xE48, 0xE08, 0xE2D, 0xE14, 0xE23, 0xE16, 0x20, 0xE40, 0xE1E, 0xE23, 0xE32,
     0xE30] @ lit '' Carport '' @ [0xE40, 0xE1E, 0xE34, 0xE48, 0xE21, 0xE1B, 0xE23, 0xE30, 0xE42,
     0xE22, 0xE0A, 0xE19, 0xE4C, 0xE14, 0xE49, 0xE32, 0xE19, 0xE42, 0xE04, 0xE23, 0xE07, 0xE2A,
     0xE23, 0xE49, 0xE32, 0xE07, 0xE41, 0xE25, 0xE30] @ lit '' EV '' @ [0xE44, 0xE14, 0xE49,
     0xE21, 0xE32, 0xE01, 0xE01, 0xE27, 0xE48, 0xE32]"
| "getIntentGuidance Bess =
     lit ''BESS '' @ [0xE40, 0xE2B, 0xE21, 0xE32, 0xE30, 0xE01, 0xE31, 0xE1A, 0xE44, 0xE0B, 0xE15,
     0xE4C, 0xE17, 0xE35, 0xE48, 0xE21, 0xE35] @ lit '' demand charge '' @ [0xE2A, 0xE39, 0xE07] @
     lit '', '' @ [0xE42, 0xE2B, 0xE25, 0xE14, 0xE1E, 0xE35, 0xE01, 0xE0A, 0xE31, 0xE14] @
     lit '', '' @ [0xE15, 0xE49, 0xE2D, 0xE07, 0xE01, 0xE32, 0xE23, 0xE2A, 0xE33, 0xE23, 0xE2D,
     0xE07, 0xE44, 0xE1F, 0x20, 0xE2B, 0xE23, 0xE37, 0xE2D, 0xE2D, 0xE22, 0xE32, 0xE01, 0xE43,
     0xE0A, 0xE49, 0xE1E, 0xE25, 0xE31, 0xE07, 0xE07, 0xE32, 0xE19, 0xE42, 0xE0B, 0xE25, 0xE32,
     0xE23, 0xE4C, 0xE43, 0xE2B, 0xE49, 0xE22, 0xE37, 0xE14, 0xE2B, 0xE22, 0xE38, 0xE48, 0xE19,
     0xE02, 0xE36, 0xE49, 0xE19, 0x20, 0xE02, 0xE19, 0xE32, 0xE14, 0xE41, 0xE1A, 0xE15, 0xE15,
     0xE49, 0xE2D, 0xE07, 0xE2D, 0xE2D, 0xE01, 0xE41, 0xE1A, 0xE1A, 0xE08, 0xE32, 0xE01, 0xE01,
     0xE23, 0xE32, 0xE1F, 0xE42, 0xE2B, 0xE25, 0xE14, 0xE41, 0xE25, 0xE30] @ lit '' tariff '' @
     [0xE08, 0xE23, 0xE34, 0xE07]"
| "getIntentGuidance Ev_charging =
     lit ''EV Charger '' @ [0xE04, 0xE27, 0xE23, 0xE27, 0xE32, 0xE07, 0xE23, 0xE48, 0xE27, 0xE21,
     0xE01, 0xE31, 0xE1A] @ lit '' Solar Carport '' @ [0xE41, 0xE25, 0xE30, 0xE23, 0xE30, 0xE1A,
     0xE1A, 0xE08, 0xE31, 0xE14, 0xE01, 0xE32, 0xE23, 0xE1E, 0xE25, 0xE31, 0xE07, 0xE07, 0xE32,
     0xE19, 0x20, 0xE40, 0xE1E, 0xE37, 0xE48, 0xE2D, 0xE04, 0xE38, 0xE21, 0xE42, 0xE2B, 0xE25,
     0xE14, 0xE0A, 0xE32, 0xE23, 0xE4C, 0xE08] @ lit '', '' @ [0xE25, 0xE14, 0xE1E, 0xE35, 0xE01,
     0x20, 0xE41, 0xE25, 0xE30, 0xE40, 0xE15, 0xE23, 0xE35, 0xE22, 0xE21, 0xE15, 0xE48, 0xE2D] @
     lit '' BESS '' @ [0xE43, 0xE19, 0xE2D, 0xE19, 0xE32, 0xE04, 0xE15, 0x20, 0xE42, 0xE14, 0xE22,
     0xE15, 0xE49, 0xE2D, 0xE07, 0xE14, 0xE39, 0xE08, 0xE33, 0xE19, 0xE27, 0xE19, 0xE2B, 0xE31,
     0xE27, 0xE0A, 0xE32, 0xE23, 0xE4C, 0xE08, 0xE41, 0xE25, 0xE30, 0xE1E, 0xE24, 0xE15, 0xE34,
     0xE01, 0xE23, 0xE23, 0xE21, 0xE23, 0xE16, 0xE40, 0xE02, 0xE49, 0xE32, 0xE2D, 0xE2D, 0xE01,
     0xE08, 0xE23, 0xE34, 0xE07]"
| "getIntentGuidance Tax_boi =
     [0xE40, 0xE23, 0xE37, 0xE48, 0xE2D, 0xE07, 0xE20, 0xE32, 0xE29, 0xE35, 0xE2B, 0xE23, 0xE37,
     0xE2D] @ lit '' BOI '' @ [0xE15, 0xE49, 0xE2D, 0xE07, 0xE15, 0xE23, 0xE27, 0xE08, 0xE15,
     0xE32, 0xE21, 0xE40, 0xE07, 0xE37, 0xE48, 0xE2D, 0xE19, 0xE44, 0xE02, 0xE25, 0xE48, 0xE32,
     0xE2A, 0xE38, 0xE14, 0xE01, 0xE31, 0xE1A, 0xE1C, 0xE39, 0xE49, 0xE40, 0xE0A, 0xE35, 0xE48,
     0xE22, 0xE27, 0xE0A, 0xE32, 0xE0D, 0xE2B, 0xE23, 0xE37, 0xE2D, 0xE2B, 0xE19, 0xE48, 0xE27,
     0xE22, 0xE07, 0xE32, 0xE19, 0xE17, 0xE35, 0xE48, 0xE40, 0xE01, 0xE35, 0xE48, 0xE22, 0xE27,
     0xE02, 0xE49, 0xE2D, 0xE07, 0xE01, 0xE48, 0xE2D, 0xE19, 0xE43, 0xE0A, 0xE49, 0xE43, 0xE19,
     0xE02, 0xE49, 0xE2D, 0xE40, 0xE2A, 0xE19, 0xE2D, 0xE08, 0xE23, 0xE34, 0xE07] @
     lit '' SIRINX '' @ [0xE0A, 0xE48, 0xE27, 0xE22, 0xE40, 0xE15, 0xE23, 0xE35, 0xE22, 0xE21,
     0xE02, 0xE49, 0xE2D, 0xE21, 0xE39, 0xE25, 0xE1E, 0xE25, 0xE31, 0xE07, 0xE07, 0xE32, 0xE19,
     0xE41, 0xE25, 0xE30, 0xE2A, 0xE21, 0xE21, 0xE15, 0xE34, 0xE10, 0xE32, 0xE19, 0xE17, 0xE32,
     0xE07, 0xE01, 0xE32, 0xE23, 0xE40, 0xE07, 0xE34, 0xE19, 0xE43, 0xE2B, 0xE49, 0xE15, 0xE23,
     0xE27, 0xE08, 0xE15, 0xE48, 0xE2D, 0xE44, 0xE14, 0xE49]"
| "getIntentGuidance Maintenance =
     [0xE07, 0xE32, 0xE19] @ lit '' O&M '' @ [0xE04, 0xE27, 0xE23, 0xE27, 0xE32, 0xE07, 0xE23,
     0xE2D, 0xE1A, 0xE15, 0xE23, 0xE27, 0xE08] @ lit '', '' @ [0xE25, 0xE49, 0xE32, 0xE07, 0xE41,
     0xE1C, 0xE07] @ lit '', drone inspection, inverter monitoring '' @ [0xE41, 0xE25, 0xE30] @
     lit '' performance ratio review '' @ [0xE40, 0xE1E, 0xE37, 0xE48, 0xE2D, 0xE23, 0xE31, 0xE01,
     0xE29, 0xE32, 0xE1C, 0xE25, 0xE34, 0xE15, 0xE44, 0xE1F, 0xE08, 0xE23, 0xE34, 0xE07, 0x20,
     0xE44, 0xE21, 0xE48, 0xE43, 0xE0A, 0xE48, 0xE14, 0xE39, 0xE41, 0xE04, 0xE48, 0xE01, 0xE33,
     0xE25, 0xE31, 0xE07, 0xE15, 0xE34, 0xE14, 0xE15, 0xE31, 0xE49, 0xE07, 0xE1A, 0xE19, 0xE01,
     0xE23, 0xE30, 0xE14, 0xE32, 0xE29]"
| "getIntentGuidance Lead_ready =
     [0xE23, 0xE31, 0xE1A, 0xE42, 0xE08, 0xE17, 0xE22, 0xE4C, 0xE44, 0xE14, 0xE49, 0xE04, 0xE23,
     0xE31, 0xE1A, 0x20, 0xE02, 0xE31, 0xE49, 0xE19, 0xE15, 0xE48, 0xE2D, 0xE44, 0xE1B, 0xE04,
     0xE37, 0xE2D, 0xE23, 0xE27, 0xE1A, 0xE23, 0xE27, 0xE21, 0xE02, 0xE49, 0xE2D, 0xE21, 0xE39,
     0xE25, 0xE43, 0xE2B, 0xE49, 0xE17, 0xE35, 0xE21, 0xE27, 0xE34, 0xE28, 0xE27, 0xE01, 0xE23,
     0xE1B, 0xE23, 0xE30, 0xE40, 0xE21, 0xE34, 0xE19, 0xE02, 0xE19, 0xE32, 0xE14, 0xE23, 0xE30,
     0xE1A, 0xE1A, 0xE41, 0xE25, 0xE30, 0xE19, 0xE31, 0xE14, 0xE2A, 0xE33, 0xE23, 0xE27, 0xE08,
     0xE2B, 0xE19, 0xE49, 0xE32, 0xE07, 0xE32, 0xE19, 0x20, 0xE42, 0xE14, 0xE22, 0xE22, 0xE31,
     0xE07, 0xE44, 0xE21, 0xE48, 0xE04, 0xE27, 0xE23, 0xE2A, 0xE23, 0xE38, 0xE1B, 0xE23, 0xE32,
     0xE04, 0xE32, 0xE41, 0xE19, 0xE48, 0xE19, 0xE2D, 0xE19, 0xE01, 0xE48, 0xE2D, 0xE19, 0xE40,
     0xE2B, 0xE47, 0xE19, 0xE02, 0xE49, 0xE2D, 0xE21, 0xE39, 0xE25, 0xE44, 0xE0B, 0xE15, 0xE4C,
     0xE08, 0xE23, 0xE34, 0xE07]"
| "getIntentGuidance Assessment =
     [0xE01, 0xE32, 0xE23, 0xE1B, 0xE23, 0xE30, 0xE40, 0xE21, 0xE34, 0xE19, 0xE44, 0xE0B, 0xE15,
     0xE4C, 0xE04, 0xE27, 0xE23, 0xE40, 0xE23, 0xE34, 0xE48, 0xE21, 0xE08, 0xE32, 0xE01, 0xE1A,
     0xE34, 0xE25, 0xE04, 0xE48, 0xE32, 0xE44, 0xE1F] @ lit '', '' @ [0xE23, 0xE39, 0xE1B, 0xE1E,
     0xE37, 0xE49, 0xE19, 0xE17, 0xE35, 0xE48] @ lit '', '' @ [0xE42, 0xE25, 0xE40, 0xE04, 0xE0A,
     0xE31, 0xE19] @ lit '', '' @ [0xE1B, 0xE23, 0xE30, 0xE40, 0xE20, 0xE17, 0xE2D, 0xE32, 0xE04,
     0xE32, 0xE23, 0x20, 0xE41, 0xE25, 0xE30, 0xE40, 0xE1B, 0xE49, 0xE32, 0xE2B, 0xE21, 0xE32,
     0xE22, 0xE01, 0xE32, 0xE23, 0xE25, 0xE07, 0xE17, 0xE38, 0xE19, 0x20, 0xE08, 0xE32, 0xE01,
     0xE19, 0xE31, 0xE49, 0xE19, 0xE04, 0xE48, 0xE2D, 0xE22, 0xE40, 0xE25, 0xE37, 0xE2D, 0xE01] @
     lit '' Solar Carport, Rooftop, BESS '' @ [0xE2B, 0xE23, 0xE37, 0xE2D] @ lit '' EV Charger ''
     @ [0xE17, 0xE35, 0xE48, 0xE40, 0xE2B, 0xE21, 0xE32, 0xE30, 0xE17, 0xE35, 0xE48, 0xE2A, 0xE38,
     0xE14]"
| "getIntentGuidance General =
     lit ''SIRINX '' @ [0xE0A, 0xE48, 0xE27, 0xE22, 0xE2D, 0xE07, 0xE04, 0xE4C, 0xE01, 0xE23,
     0xE27, 0xE32, 0xE07, 0xE41, 0xE1C, 0xE19] @
     lit '' Solar Carport, Rooftop Solar, BESS, EV Charger, AI Energy Management '' @ [0xE41,
     0xE25, 0xE30] @ lit '' O&M '' @ [0xE42, 0xE14, 0xE22, 0xE40, 0xE19, 0xE49, 0xE19, 0xE1B,
     0xE23, 0xE30, 0xE40, 0xE21, 0xE34, 0xE19, 0xE08, 0xE32, 0xE01, 0xE02, 0xE49, 0xE2D, 0xE21,
     0xE39, 0xE25, 0xE08, 0xE23, 0xE34, 0xE07, 0xE01, 0xE48, 0xE2D, 0xE19, 0xE2A, 0xE23, 0xE38,
     0xE1B, 0xE15, 0xE31, 0xE27, 0xE40, 0xE25, 0xE02, 0xE17, 0xE32, 0xE07, 0xE01, 0xE32, 0xE23,
     0xE40, 0xE07, 0xE34, 0xE19]"

section \<open>Known fields\<close>

text \<open>\<open>\d[\d,]*(?:\.\d+)?\<close>.\<close>

definition re_number :: re where
  "re_number = Seq [Cls Digits 1 (Some 1), Cls (DigitsOr [0x2C]) 0 None,
                    Opt (Seq [Text (lit ''.''), Cls Digits 1 None])]"

definition re_bill_before :: re where
  "re_bill_before =
     Seq [Alt [Text ([0xE04, 0xE48, 0xE32, 0xE44, 0xE1F]), Text ([0xE1A, 0xE34, 0xE25]), Text
       (lit ''bill''), Text (lit ''kwh''), Text ([0xE2B, 0xE19, 0xE48, 0xE27, 0xE22])], Cls
       (NotUnits [10]) 0 (Some 24), re_number]"

definition re_bill_after :: re where
  "re_bill_after =
     Seq [re_number, Cls (NotUnits [10]) 0 (Some 16), Alt [Text ([0xE1A, 0xE32, 0xE17]), Text
       ([0xE3F]), Text (lit ''thb''), Text (lit ''kwh''), Text ([0xE2B, 0xE19, 0xE48, 0xE27,
       0xE22]), Text ([0xE2B, 0xE21, 0xE37, 0xE48, 0xE19]), Text ([0xE41, 0xE2A, 0xE19])]]"

definition re_area :: re where
  "re_area =
     Seq [re_number, Cls (NotUnits [10]) 0 (Some 16), Alt [Seq [Text ([0xE15, 0xE23]), Opt (Text
       (lit ''.'')), Text ([0xE21]), Opt (Text (lit ''.''))], Text ([0xE15, 0xE32, 0xE23, 0xE32,
       0xE07, 0xE40, 0xE21, 0xE15, 0xE23]), Text (lit ''sqm''), Text (lit ''m2''), Text ([0xE44,
       0xE23, 0xE48]), Text ([0xE0A, 0xE48, 0xE2D, 0xE07, 0xE08, 0xE2D, 0xE14]), Text ([0xE04,
       0xE31, 0xE19]), Text ([0xE2B, 0xE25, 0xE31, 0xE07, 0xE04, 0xE32])]]"

definition re_timeline :: re where
  "re_timeline =
     Seq [Alt [Text ([0xE20, 0xE32, 0xE22, 0xE43, 0xE19]), Text ([0xE0A, 0xE48, 0xE27, 0xE07])],
       Cls Spaces 0 None, Cls (NotUnits [10]) 0 (Some 24), Alt [Text ([0xE27, 0xE31, 0xE19]), Text
       ([0xE2A, 0xE31, 0xE1B, 0xE14, 0xE32, 0xE2B, 0xE4C]), Text ([0xE40, 0xE14, 0xE37, 0xE2D,
       0xE19]), Text ([0xE44, 0xE15, 0xE23, 0xE21, 0xE32, 0xE2A]), Text ([0xE1B, 0xE35]), Seq
       [Text (lit ''q''), Cls (Units [0x31, 0x32, 0x33, 0x34]) 1 (Some 1)]]]"

definition re_phone :: re where
  "re_phone =
     Seq [Alt [Seq [Opt (Text (lit ''+'')), Text (lit ''66'')], Text (lit ''0'')], Cls Digits 8
       (Some 9)]"

definition re_email :: re where
  "re_email =
     Seq [Cls (NotSpacesNor [0x40]) 1 None, Text (lit ''@''), Cls (NotSpacesNor [0x40]) 1 None,
       Text (lit ''.''), Cls (NotSpacesNor [0x40]) 1 None]"

definition timeline_keywords :: "jstr list" where
  "timeline_keywords =
     [[0xE14, 0xE48, 0xE27, 0xE19], [0xE40, 0xE14, 0xE37, 0xE2D, 0xE19, 0xE19, 0xE35, 0xE49],
     [0xE40, 0xE14, 0xE37, 0xE2D, 0xE19, 0xE2B, 0xE19, 0xE49, 0xE32], [0xE44, 0xE15, 0xE23, 0xE21,
     0xE32, 0xE2A], lit ''q1'' , lit ''q2'' , lit ''q3'' , lit ''q4'' , [0xE1B, 0xE35, 0xE19,
     0xE35, 0xE49], [0xE1B, 0xE35, 0xE2B, 0xE19, 0xE49, 0xE32]]"

definition contact_keywords :: "jstr list" where
  "contact_keywords =
     [lit ''line'', [0xE44, 0xE25, 0xE19, 0xE4C], lit ''@sirinx'' , [0xE42, 0xE17, 0xE23],
     lit ''email'' , [0xE2D, 0xE35, 0xE40, 0xE21, 0xE25]]"

definition extractKnownLeadFields :: "chatbot_message list \<Rightarrow> chatbot_intent \<Rightarrow> lead_field list" where
  "extractKnownLeadFields messages intent =
     (let conversation = getConversationText messages;
          known =
            (if intent \<noteq> General \<or> contains_any conversation SOLUTION_KEYWORDS then [Solution] else []) @
            (if re_test re_bill_before conversation \<or> re_test re_bill_after conversation
             then [MonthlyBill] else []) @
            (if contains_any conversation SITE_TYPE_KEYWORDS then [SiteType] else []) @
            (if contains_any conversation PROVINCE_KEYWORDS then [Location] else []) @
            (if re_test re_area conversation then [Area] else []) @
            (if contains_any conversation timeline_keywords \<or> re_test re_timeline conversation
             then [Timeline] else []) @
            (if re_test re_phone conversation \<or> re_test re_email conversation \<or>
                contains_any conversation contact_keywords
             then [Contact] else [])
      in filter (\<lambda>f. f \<in> set known) FIELD_ORDER)"

definition analyzeChatbotConversation :: "chatbot_message list \<Rightarrow> lead_qualification" where
  "analyzeChatbotConversation messages =
     (let latest = getLatestUserMessage messages;
          intent = detectChatbotIntent latest;
          knownFields = extractKnownLeadFields messages intent;
          missingFields = filter (\<lambda>f. f \<notin> set knownFields) FIELD_ORDER
      in \<lparr>lq_intent = intent, lq_latestUserMessage = latest, lq_knownFields = knownFields,
          lq_missingFields = missingFields,
          lq_suggestedQuestions = map FIELD_QUESTIONS (take 2 missingFields),
          lq_fieldCount = length FIELD_ORDER\<rparr>)"

section \<open>The fallback reply\<close>

definition progress_text :: "nat \<Rightarrow> nat \<Rightarrow> jstr" where
  "progress_text known outOf =
     [0xE02, 0xE49, 0xE2D, 0xE21, 0xE39, 0xE25, 0xE1B, 0xE23, 0xE30, 0xE40, 0xE21, 0xE34, 0xE19,
     0xE15, 0xE2D, 0xE19, 0xE19, 0xE35, 0xE49, 0x20] @ decimal known @ lit ''/'' @ decimal outOf
       @ [0x20, 0xE2A, 0xE48, 0xE27, 0xE19]"

definition questions_intro :: "nat \<Rightarrow> jstr" where
  "questions_intro n =
     [0xE40, 0xE1E, 0xE37, 0xE48, 0xE2D, 0xE1B, 0xE23, 0xE30, 0xE40, 0xE21, 0xE34, 0xE19, 0xE15,
     0xE48, 0xE2D, 0x20, 0xE02, 0xE2D, 0xE02, 0xE49, 0xE2D, 0xE21, 0xE39, 0xE25, 0xE40, 0xE1E,
     0xE34, 0xE48, 0xE21, 0x20] @ decimal n @ [0x20, 0xE02, 0xE49, 0xE2D, 0x3A]"

definition enough_information :: jstr where
  "enough_information =
     [0xE02, 0xE49, 0xE2D, 0xE21, 0xE39, 0xE25, 0xE40, 0xE1A, 0xE37, 0xE49, 0xE2D, 0xE07, 0xE15,
     0xE49, 0xE19, 0xE04, 0xE48, 0xE2D, 0xE19, 0xE02, 0xE49, 0xE32, 0xE07, 0xE04, 0xE23, 0xE1A,
     0xE41, 0xE25, 0xE49, 0xE27, 0x20, 0xE17, 0xE35, 0xE21, 0xE27, 0xE34, 0xE28, 0xE27, 0xE01,
     0xE23, 0xE2A, 0xE32, 0xE21, 0xE32, 0xE23, 0xE16, 0xE43, 0xE0A, 0xE49, 0xE15, 0xE48, 0xE2D,
     0xE22, 0xE2D, 0xE14, 0xE40, 0xE1B, 0xE47, 0xE19] @ lit '' sizing '' @ [0xE41, 0xE25, 0xE30,
     0xE19, 0xE31, 0xE14, 0xE2A, 0xE33, 0xE23, 0xE27, 0xE08, 0xE44, 0xE14, 0xE49]"

definition questions_text :: "jstr list \<Rightarrow> jstr" where
  "questions_text qs =
     (if qs \<noteq> []
      then [10, 10] @ questions_intro (length qs) @ [10] @ join [10] (map (\<lambda>q. lit ''- '' @ q) qs)
      else [10, 10] @ enough_information)"

definition createSmartChatbotReply :: "chatbot_message list \<Rightarrow> jstr" where
  "createSmartChatbotReply messages =
     (let analysis = analyzeChatbotConversation messages in
      getIntentGuidance (lq_intent analysis) @ [10, 10]
        @ progress_text (length (lq_knownFields analysis)) (lq_fieldCount analysis) @ lit ''.''
        @ questions_text (lq_suggestedQuestions analysis) @ [10, 10] @ CONTACT_CTA)"

section \<open>Screening\<close>

definition UNSAFE_CLAIM_PATTERNS :: "re list" where
  "UNSAFE_CLAIM_PATTERNS =
     [Seq [Text ([0xE25, 0xE14, 0xE04, 0xE48, 0xE32, 0xE44, 0xE1F]), Cls (NotUnits [10, 0x2E]) 0
       (Some 60), Text (lit ''100''), Cls Spaces 0 None, Text (lit ''%'')], Seq [Text ([0xE04,
       0xE37, 0xE19, 0xE17, 0xE38, 0xE19]), Cls (NotUnits [10, 0x2E]) 0 (Some 30), Text (lit
       ''3''), Cls Spaces 0 None, Cls (Units [0x2D, 0x2013]) 1 (Some 1), Cls Spaces 0 None, Text
       (lit ''5''), Cls Spaces 0 None, Text ([0xE1B, 0xE35])], Seq [Text ([0xE23, 0xE31, 0xE1A,
       0xE1B, 0xE23, 0xE30, 0xE01, 0xE31, 0xE19]), Cls (NotUnits [10, 0x2E]) 0 (Some 60), Alt
       [Text ([0xE25, 0xE14, 0xE04, 0xE48, 0xE32, 0xE44, 0xE1F]), Text ([0xE04, 0xE37, 0xE19,
       0xE17, 0xE38, 0xE19]), Text (lit ''roi''), Text (lit ''payback'')]], Seq [Text ([0xE01,
       0xE32, 0xE23, 0xE31, 0xE19, 0xE15, 0xE35]), Cls (NotUnits [10, 0x2E]) 0 (Some 60), Alt
       [Text ([0xE25, 0xE14, 0xE04, 0xE48, 0xE32, 0xE44, 0xE1F]), Text ([0xE04, 0xE37, 0xE19,
       0xE17, 0xE38, 0xE19]), Text (lit ''roi''), Text (lit ''payback'')]], Seq [Text (lit
       ''guarantee''), Cls (NotUnits [10, 0x2E]) 0 (Some 60), Alt [Text (lit ''saving''), Text
       (lit ''payback''), Text (lit ''roi'')]]]"

definition sanitizeChatbotReply :: "jstr option \<Rightarrow> chatbot_message list \<Rightarrow> jstr" where
  "sanitizeChatbotReply reply messages =
     (let trimmed = (case reply of None \<Rightarrow> [] | Some r \<Rightarrow> trim r) in
      if trimmed = [] then createSmartChatbotReply messages
      else if list_ex (\<lambda>p. re_test p trimmed) UNSAFE_CLAIM_PATTERNS
      then createSmartChatbotReply messages
      else trimmed)"

text \<open>\<open>server/_core/chatbotFallback.ts\<close>.\<close>

definition createFallbackChatbotReply :: "chatbot_message list \<Rightarrow> jstr" where
  "createFallbackChatbotReply messages = createSmartChatbotReply messages"

section \<open>The analysis partitions the lead fields\<close>

text \<open>Known and missing fields split \<open>FIELD_ORDER\<close>, both in its order.\<close>

lemma extractKnown_subset: "set (extractKnownLeadFields ms i) \<subseteq> set FIELD_ORDER"
  by (simp add: extractKnownLeadFields_def Let_def)

lemma distinct_FIELD_ORDER: "distinct FIELD_ORDER"
  by (simp add: FIELD_ORDER_def)

lemma set_FIELD_ORDER: "set FIELD_ORDER = UNIV"
proof -
  have "f \<in> set FIELD_ORDER" for f by (cases f) (simp_all add: FIELD_ORDER_def)
  then show ?thesis by auto
qed

lemma extractKnown_filter:
  "filter (\<lambda>f. f \<in> set (extractKnownLeadFields ms i)) FIELD_ORDER = extractKnownLeadFields ms i"
  by (auto simp: extractKnownLeadFields_def Let_def intro!: filter_cong)

lemma length_filter_le7: "length (filter P FIELD_ORDER) \<le> 7"
  using length_filter_le [of P FIELD_ORDER] by (simp add: FIELD_ORDER_def)

lemma length_extractKnown: "length (extractKnownLeadFields ms i) \<le> 7"
  using length_filter_le7 extractKnown_filter [of ms i] by metis

section \<open>No unsafe claim is formed\<close>

text \<open>
  Every screening pattern starts with a fixed word. A text is \<open>claim_free\<close> when it has
  none of these words; the words have no line feed, so the lines of a reply can be
  checked one by one.
\<close>

definition unsafe_heads :: "jstr list" where
  "unsafe_heads =
     [[0xE25, 0xE14, 0xE04, 0xE48, 0xE32, 0xE44, 0xE1F],
      [0xE04, 0xE37, 0xE19, 0xE17, 0xE38, 0xE19],
      [0xE23, 0xE31, 0xE1A, 0xE1B, 0xE23, 0xE30, 0xE01, 0xE31, 0xE19],
      [0xE01, 0xE32, 0xE23, 0xE31, 0xE19, 0xE15, 0xE35],
      lit ''guarantee'']"

definition claim_free :: "jstr \<Rightarrow> bool" where
  "claim_free s \<longleftrightarrow> list_all (\<lambda>h. \<not> contains (fold_text s) h) unsafe_heads"

definition makes_claim :: "jstr \<Rightarrow> bool" where
  "makes_claim s \<longleftrightarrow> list_ex (\<lambda>p. re_test p s) UNSAFE_CLAIM_PATTERNS"

lemma claim_free_safe: "claim_free s \<Longrightarrow> \<not> makes_claim s"
  using re_test_needs_head
  by (fastforce simp: makes_claim_def UNSAFE_CLAIM_PATTERNS_def claim_free_def unsafe_heads_def
      lit_def fold_text_def fold_case_def)

lemma claim_free_lines: "claim_free (s @ 10 # t) \<longleftrightarrow> claim_free s \<and> claim_free t"
proof -
  have f: "fold_text (s @ 10 # t) = fold_text s @ 10 # fold_text t"
    by (simp add: fold_text_def fold_case_def)
  have "contains (fold_text s @ 10 # fold_text t) h \<longleftrightarrow> contains (fold_text s) h \<or> contains (fold_text t) h"
    if "h \<in> set unsafe_heads" for h
    by (rule contains_separated) (use that in \<open>auto simp: unsafe_heads_def lit_def\<close>)
  then show ?thesis by (auto simp: claim_free_def list_all_iff f)
qed

lemmas claim_simps = claim_free_def unsafe_heads_def fold_text_def fold_case_def lit_def
  starts_with_unit_simps

lemma claim_free_Nil [simp]: "claim_free []"
  by (simp add: claim_simps)

lemma claim_free_newline: "claim_free (10 # t) \<longleftrightarrow> claim_free t"
  using claim_free_lines [of "[]" t] by simp

lemma claim_free_guidance: "claim_free (getIntentGuidance i)"
  by (cases i) (simp_all add: claim_simps)

lemma claim_free_question: "claim_free (lit ''- '' @ FIELD_QUESTIONS f)"
  by (cases f) (simp_all add: claim_simps)

lemma claim_free_cta: "claim_free CONTACT_CTA"
  by (simp add: CONTACT_CTA_def claim_simps)

lemma claim_free_enough: "claim_free enough_information"
  by (simp add: enough_information_def claim_simps)

lemma up_to_7: "n \<le> 7 \<Longrightarrow> n \<in> {0, 1, 2, 3, 4, 5, 6, 7 :: nat}"
  by auto

lemma claim_free_progress: "n \<le> 7 \<Longrightarrow> claim_free (progress_text n 7 @ lit ''.'')"
  by (drule up_to_7) (auto simp: progress_text_def decimal_small claim_simps)

lemma claim_free_intro: "claim_free (questions_intro 1)" "claim_free (questions_intro 2)"
  by (simp_all add: questions_intro_def decimal_small claim_simps)

lemma claim_free_join: "(\<forall>s \<in> set ss. claim_free s) \<Longrightarrow> claim_free (join [10] ss)"
  by (induction "[10 :: nat]" ss rule: join.induct) (auto simp: claim_free_lines)

lemma claim_free_questions:
  assumes "length fs \<le> 2"
  shows "claim_free (questions_text (map FIELD_QUESTIONS fs))"
proof (cases "fs = []")
  case True
  then show ?thesis by (simp add: questions_text_def claim_free_newline claim_free_enough)
next
  case False
  with assms have "length fs = 1 \<or> length fs = 2"
    by (cases fs; cases "tl fs") auto
  then have "claim_free (questions_intro (length fs))" using claim_free_intro by auto
  moreover have "claim_free (join [10] (map (\<lambda>q. lit ''- '' @ q) (map FIELD_QUESTIONS fs)))"
    by (rule claim_free_join) (auto simp: claim_free_question)
  ultimately show ?thesis
    using False by (simp add: questions_text_def claim_free_newline claim_free_lines)
qed

lemma questions_text_newline: "\<exists>t. questions_text qs = 10 # t"
  by (simp add: questions_text_def)

lemma claim_free_reply: "claim_free (createSmartChatbotReply ms)"
proof -
  let ?a = "analyzeChatbotConversation ms"
  have n: "length (lq_knownFields ?a) \<le> 7" and c: "lq_fieldCount ?a = 7"
    by (simp_all add: analyzeChatbotConversation_def Let_def length_extractKnown FIELD_ORDER_def)
  obtain fs where fs: "lq_suggestedQuestions ?a = map FIELD_QUESTIONS fs" and l: "length fs \<le> 2"
    by (simp add: analyzeChatbotConversation_def Let_def)
  obtain t where t: "questions_text (lq_suggestedQuestions ?a) = 10 # t"
    using questions_text_newline by blast
  have "claim_free (10 # t)" using claim_free_questions [OF l] fs t by simp
  moreover have "createSmartChatbotReply ms =
      getIntentGuidance (lq_intent ?a) @ 10 # 10 #
        (progress_text (length (lq_knownFields ?a)) 7 @ lit ''.'') @ 10 # t @ 10 # 10 # CONTACT_CTA"
    by (simp add: createSmartChatbotReply_def Let_def t c)
  ultimately show ?thesis
    using claim_free_progress [OF n]
    by (simp add: claim_free_lines claim_free_newline claim_free_guidance claim_free_cta
        del: append_assoc)
qed

lemma createSmartChatbotReply_not_Nil: "createSmartChatbotReply ms \<noteq> []"
  by (simp add: createSmartChatbotReply_def Let_def)

section \<open>Properties\<close>

text \<open>
  For every conversation the known and the missing lead fields split the seven fields
  between them, both in the order of the questionnaire, and the assistant asks the questions
  of the first missing fields, at most two.
\<close>

theorem analysis_partitions_fields:
  "let a = analyzeChatbotConversation ms in
     set (lq_knownFields a) \<inter> set (lq_missingFields a) = {} \<and>
     set (lq_knownFields a) \<union> set (lq_missingFields a) = UNIV \<and>
     distinct (lq_knownFields a) \<and> distinct (lq_missingFields a) \<and>
     length (lq_knownFields a) + length (lq_missingFields a) = lq_fieldCount a \<and>
     lq_knownFields a = filter (\<lambda>f. f \<in> set (lq_knownFields a)) FIELD_ORDER \<and>
     lq_suggestedQuestions a = map FIELD_QUESTIONS (take 2 (lq_missingFields a))"
proof -
  define K where "K = extractKnownLeadFields ms (detectChatbotIntent (getLatestUserMessage ms))"
  have K: "filter (\<lambda>f. f \<in> set K) FIELD_ORDER = K"
    by (simp add: K_def extractKnown_filter)
  have d: "distinct K" by (metis K distinct_FIELD_ORDER distinct_filter)
  have "length (filter (\<lambda>f. f \<in> set K) FIELD_ORDER) + length (filter (\<lambda>f. f \<notin> set K) FIELD_ORDER)
      = length FIELD_ORDER"
    by (rule sum_length_filter_compl)
  then show ?thesis
    using K d
    by (auto simp: analyzeChatbotConversation_def Let_def K_def [symmetric] set_FIELD_ORDER
        distinct_FIELD_ORDER)
qed

text \<open>
  C25. What the assistant says is never empty and never matches a screening pattern, whatever
  the model answered; a model reply that matches none is passed on, trimmed.
\<close>

theorem sanitized_reply_safe:
  "sanitizeChatbotReply reply ms \<noteq> [] \<and>
   list_all (\<lambda>p. \<not> re_test p (sanitizeChatbotReply reply ms)) UNSAFE_CLAIM_PATTERNS \<and>
   sanitizeChatbotReply (Some r) ms =
     (if trim r = [] \<or> list_ex (\<lambda>p. re_test p (trim r)) UNSAFE_CLAIM_PATTERNS
      then createSmartChatbotReply ms else trim r)"
  using claim_free_safe [OF claim_free_reply, of ms] createSmartChatbotReply_not_Nil [of ms]
  by (auto simp: sanitizeChatbotReply_def makes_claim_def Let_def list_all_iff list_ex_iff)

end
