(* ===== verification/Llm.thy ===== *)
theory Llm
  imports Env
begin

text \<open>
  The language-model client (\<open>server/_core/llm.ts\<close>): normalisation of messages, tool
  choice and response format, the payload and the single request it is sent in. Message
  parts, tools and schemas are dynamic values, so the runtime checks of the source are
  branches of the model.
\<close>

section \<open>Parameters\<close>

record message =
  ms_role :: jstr
  ms_content :: jsval
  ms_name :: jsval
  ms_tool_call_id :: jsval

record invoke_params =
  ip_messages :: "message list"
  ip_tools :: "jsval list option"
  ip_toolChoice :: jsval
  ip_tool_choice :: jsval
  ip_maxTokens :: "nat option"
  ip_max_tokens :: "nat option"
  ip_outputSchema :: jsval
  ip_output_schema :: jsval
  ip_responseFormat :: jsval
  ip_response_format :: jsval

definition text_message :: "jstr \<Rightarrow> jstr \<Rightarrow> message" where
  "text_message role text =
     \<lparr>ms_role = role, ms_content = JStr text, ms_name = JUndef, ms_tool_call_id = JUndef\<rparr>"

section \<open>Messages\<close>

fun ensureArray :: "jsval \<Rightarrow> jsval list" where
  "ensureArray (JArr vs) = vs"
| "ensureArray v = [v]"

definition normalizeContentPart :: "jsval \<Rightarrow> jsval result" where
  "normalizeContentPart part =
     (case part of
        JStr s \<Rightarrow> Inr (JObj [(lit ''type'', JStr (lit ''text'')), (lit ''text'', JStr s)])
      | _ \<Rightarrow> result_bind (member part (lit ''type'')) (\<lambda>t.
               if t = JStr (lit ''text'') \<or> t = JStr (lit ''image_url'') \<or> t = JStr (lit ''file_url'')
               then Inr part
               else Inl (JsError (lit ''Unsupported message content part''))))"

fun map_result :: "('a \<Rightarrow> 'b result) \<Rightarrow> 'a list \<Rightarrow> 'b list result" where
  "map_result f [] = Inr []"
| "map_result f (x # xs) =
     result_bind (f x) (\<lambda>y. result_bind (map_result f xs) (\<lambda>ys. Inr (y # ys)))"

definition part_text :: "(rat \<Rightarrow> jstr) \<Rightarrow> jsval \<Rightarrow> jstr" where
  "part_text fmt part =
     (case part of JStr s \<Rightarrow> s | _ \<Rightarrow> (case json fmt part of None \<Rightarrow> [] | Some s \<Rightarrow> s))"

definition normalizeMessage :: "(rat \<Rightarrow> jstr) \<Rightarrow> message \<Rightarrow> jsval result" where
  "normalizeMessage fmt m =
     (if ms_role m = lit ''tool'' \<or> ms_role m = lit ''function''
      then Inr (JObj
             [(lit ''role'', JStr (ms_role m)), (lit ''name'', ms_name m),
              (lit ''tool_call_id'', ms_tool_call_id m),
              (lit ''content'', JStr (join [10] (map (part_text fmt) (ensureArray (ms_content m)))))])
      else result_bind (map_result normalizeContentPart (ensureArray (ms_content m))) (\<lambda>parts.
        let content =
          (case parts of
             [JObj fs] \<Rightarrow> if getp fs (lit ''type'') = JStr (lit ''text'') then getp fs (lit ''text'')
                          else JArr parts
           | _ \<Rightarrow> JArr parts)
        in Inr (JObj [(lit ''role'', JStr (ms_role m)), (lit ''name'', ms_name m),
                      (lit ''content'', content)])))"

section \<open>Tool choice\<close>

definition named_tool :: "jsval \<Rightarrow> jsval" where
  "named_tool nm = JObj [(lit ''type'', JStr (lit ''function'')),
                         (lit ''function'', JObj [(lit ''name'', nm)])]"

definition normalizeToolChoice :: "jsval \<Rightarrow> jsval list option \<Rightarrow> jsval result" where
  "normalizeToolChoice toolChoice tools =
     (if \<not> truthy toolChoice then Inr JUndef
      else if toolChoice = JStr (lit ''none'') \<or> toolChoice = JStr (lit ''auto'') then Inr toolChoice
      else if toolChoice = JStr (lit ''required'')
      then (case tools of
              None \<Rightarrow> Inl (JsError (lit ''tool_choice 'required' was provided but no tools were configured''))
            | Some [] \<Rightarrow> Inl (JsError (lit ''tool_choice 'required' was provided but no tools were configured''))
            | Some [t] \<Rightarrow>
                result_bind (member t (lit ''function'')) (\<lambda>f.
                result_bind (member f (lit ''name'')) (\<lambda>nm. Inr (named_tool nm)))
            | Some _ \<Rightarrow> Inl (JsError (lit ''tool_choice 'required' needs a single tool or specify the tool name explicitly'')))
      else (case toolChoice of
              JObj fs \<Rightarrow>
                if lit ''name'' \<in> set (dict_keys fs) then Inr (named_tool (getp fs (lit ''name'')))
                else Inr toolChoice
            | JArr _ \<Rightarrow> Inr toolChoice
            | JDate _ \<Rightarrow> Inr toolChoice
            | _ \<Rightarrow> Inl (JsTypeError (lit ''Cannot use 'in' operator to search for 'name' in a primitive''))))"

section \<open>Endpoint, key and response format\<close>

definition resolveApiUrl :: "env \<Rightarrow> jstr" where
  "resolveApiUrl e =
     (if forgeApiUrl e \<noteq> [] \<and> length (trim (forgeApiUrl e)) > 0
      then strip_slash (forgeApiUrl e) @ lit ''/v1/chat/completions''
      else lit ''https://forge.manus.im/v1/chat/completions'')"

definition assertApiKey :: "env \<Rightarrow> unit result" where
  "assertApiKey e =
     (if forgeApiKey e = [] then Inl (JsError (lit ''OPENAI_API_KEY is not configured'')) else Inr ())"

text \<open>\<open>x?.k\<close>.\<close>

definition opt_member :: "jsval \<Rightarrow> jstr \<Rightarrow> jsval" where
  "opt_member v k = (case member v k of Inl _ \<Rightarrow> JUndef | Inr x \<Rightarrow> x)"

definition normalizeResponseFormat :: "jsval \<Rightarrow> jsval \<Rightarrow> jsval \<Rightarrow> jsval \<Rightarrow> jsval result" where
  "normalizeResponseFormat responseFormat response_format outputSchema output_schema =
     (let explicitFormat = js_or responseFormat response_format in
      if truthy explicitFormat
      then (if opt_member explicitFormat (lit ''type'') = JStr (lit ''json_schema'') \<and>
               \<not> truthy (opt_member (opt_member explicitFormat (lit ''json_schema'')) (lit ''schema''))
            then Inl (JsError (lit ''responseFormat json_schema requires a defined schema object''))
            else Inr explicitFormat)
      else
        let schema = js_or outputSchema output_schema in
        if \<not> truthy schema then Inr JUndef
        else if \<not> truthy (opt_member schema (lit ''name'')) \<or> \<not> truthy (opt_member schema (lit ''schema''))
        then Inl (JsError (lit ''outputSchema requires both name and schema''))
        else Inr (JObj
          [(lit ''type'', JStr (lit ''json_schema'')),
           (lit ''json_schema'', JObj
             ([(lit ''name'', opt_member schema (lit ''name'')),
               (lit ''schema'', opt_member schema (lit ''schema''))] @
              (case opt_member schema (lit ''strict'') of
                 JBool b \<Rightarrow> [(lit ''strict'', JBool b)]
               | _ \<Rightarrow> [])))]))"

section \<open>The call\<close>

definition llm_payload :: "(rat \<Rightarrow> jstr) \<Rightarrow> invoke_params \<Rightarrow> jsobj result" where
  "llm_payload fmt p =
     result_bind (map_result (normalizeMessage fmt) (ip_messages p)) (\<lambda>messages.
     result_bind (normalizeToolChoice (js_or (ip_toolChoice p) (ip_tool_choice p)) (ip_tools p)) (\<lambda>choice.
     result_bind (normalizeResponseFormat (ip_responseFormat p) (ip_response_format p)
                    (ip_outputSchema p) (ip_output_schema p)) (\<lambda>rformat.
     Inr ([(lit ''model'', JStr (lit ''gemini-2.5-flash'')), (lit ''messages'', JArr messages)]
       @ (case ip_tools p of Some (t # ts) \<Rightarrow> [(lit ''tools'', JArr (t # ts))] | _ \<Rightarrow> [])
       @ (if truthy choice then [(lit ''tool_choice'', choice)] else [])
       @ [(lit ''max_tokens'', JNum 32768),
          (lit ''thinking'', JObj [(lit ''budget_tokens'', JNum 128)])]
       @ (if truthy rformat then [(lit ''response_format'', rformat)] else [])))))"

definition invokeLLM :: "net \<Rightarrow> env \<Rightarrow> invoke_params \<Rightarrow> jsval netop" where
  "invokeLLM n e p =
     io_bind (io_result (assertApiKey e)) (\<lambda>_.
     io_bind (io_result (llm_payload (n_fmt n) p)) (\<lambda>payload.
     io_bind (fetch n \<lparr>rq_url = resolveApiUrl e, rq_query = [], rq_method = lit ''POST'',
               rq_headers = [(lit ''content-type'', lit ''application/json''),
                             (lit ''authorization'', bearer (forgeApiKey e))],
               rq_body = JsonBody (JObj payload)\<rparr>) (\<lambda>r.
     if \<not> rs_ok r
     then io_bind (io_result (rs_text r)) (\<lambda>errorText.
            io_throw (JsError (lit ''LLM invoke failed: '' @ status_line r @ lit '' '' @ [0x2013]
                        @ lit '' '' @ errorText)))
     else io_result (rs_json r))))"

section \<open>Lemmas\<close>

definition llm_ready :: "env \<Rightarrow> bool" where
  "llm_ready e \<longleftrightarrow> forgeApiKey e \<noteq> []"

lemma invokeLLM_unready:
  "\<not> llm_ready e \<Longrightarrow>
     invokeLLM n e p sent = (Inl (JsError (lit ''OPENAI_API_KEY is not configured'')), sent)"
  by (simp add: invokeLLM_def assertApiKey_def llm_ready_def io_defs)

interpretation llm: guarded_service llm_ready
    "\<lambda>_ _. JsError (lit ''OPENAI_API_KEY is not configured'')" "invokeLLM n" for n
  by unfold_locales (rule invokeLLM_unready)

lemma map_result_Inr_iff:
  "map_result f xs = Inr ys \<longleftrightarrow> list_all2 (\<lambda>x y. f x = Inr y) xs ys"
  by (induction xs arbitrary: ys) (auto simp: result_bind_Inr_iff list_all2_Cons1)

lemma map_result_all: "(\<And>x. x \<in> set xs \<Longrightarrow> f x = Inr (g x)) \<Longrightarrow> map_result f xs = Inr (map g xs)"
  by (induction xs) auto

lemma normalizeContentPart_text:
  "normalizeContentPart (JStr s) =
     Inr (JObj [(lit ''type'', JStr (lit ''text'')), (lit ''text'', JStr s)])"
  by (simp add: normalizeContentPart_def)

lemma normalizeContentPart_shape:
  "normalizeContentPart part = Inr q \<Longrightarrow> \<exists>fs. q = JObj fs \<and>
     getp fs (lit ''type'') \<in> {JStr (lit ''text''), JStr (lit ''image_url''), JStr (lit ''file_url'')}"
  by (cases part)
     (auto simp: normalizeContentPart_def member_def split: if_splits)

lemma normalizeMessage_text:
  assumes "role \<noteq> lit ''tool''" and "role \<noteq> lit ''function''"
  shows "normalizeMessage fmt (text_message role s) =
     Inr (JObj [(lit ''role'', JStr role), (lit ''name'', JUndef), (lit ''content'', JStr s)])"
  using assms
  by (simp add: normalizeMessage_def text_message_def normalizeContentPart_text lit_def)

lemma llm_payload_max_tokens:
  assumes "llm_payload fmt p = Inr payload"
  shows "(lit ''max_tokens'', JNum 32768) \<in> set payload"
  using assms by (auto simp: llm_payload_def result_bind_Inr_iff)

lemma invokeLLM_log:
  "snd (invokeLLM n e p sent) = sent \<or>
   (\<exists>payload. llm_payload (n_fmt n) p = Inr payload \<and>
      snd (invokeLLM n e p sent) = sent @
        [\<lparr>rq_url = resolveApiUrl e, rq_query = [], rq_method = lit ''POST'',
          rq_headers = [(lit ''content-type'', lit ''application/json''),
                        (lit ''authorization'', bearer (forgeApiKey e))],
          rq_body = JsonBody (JObj payload)\<rparr>])"
  by (cases "llm_payload (n_fmt n) p")
     (auto simp: invokeLLM_def io_defs fetch_def split: prod.splits sum.splits)

text \<open>A tool as its type declares it, with the name \<open>nm\<close>.\<close>

definition function_tool :: "jstr \<Rightarrow> jsval" where
  "function_tool nm = JObj [(lit ''type'', JStr (lit ''function'')),
                            (lit ''function'', JObj [(lit ''name'', JStr nm)])]"

section \<open>Properties\<close>

text \<open>A call with one user message, for a concrete run.\<close>

definition sample_call :: invoke_params where
  "sample_call =
     \<lparr>ip_messages = [text_message (lit ''user'') (lit ''hi'')], ip_tools = None, ip_toolChoice = JUndef,
      ip_tool_choice = JUndef, ip_maxTokens = None, ip_max_tokens = None, ip_outputSchema = JUndef,
      ip_output_schema = JUndef, ip_responseFormat = JUndef, ip_response_format = JUndef\<rparr>"

text \<open>
  A model call issues at most one request, and none without an API key or when the
  messages, the tool choice or the response format are rejected; the request goes to the
  chat-completions endpoint of the configured base URL, authorised with the configured key.
\<close>

theorem invokeLLM_request:
  assumes "invokeLLM n e p sent = (r, sent')"
  shows "(sent' = sent \<and> (\<exists>err. r = Inl err) \<and>
            (forgeApiKey e = [] \<or> (\<exists>err. llm_payload (n_fmt n) p = Inl err))) \<or>
         (forgeApiKey e \<noteq> [] \<and> (\<exists>payload rq. llm_payload (n_fmt n) p = Inr payload \<and>
            sent' = sent @ [rq] \<and> rq_url rq = resolveApiUrl e \<and> rq_body rq = JsonBody (JObj payload) \<and>
            (lit ''authorization'', lit ''Bearer '' @ forgeApiKey e) \<in> set (rq_headers rq)))"
  using assms
  by (cases "llm_payload (n_fmt n) p")
     (auto simp: invokeLLM_def assertApiKey_def io_defs fetch_def bearer_def
        split: if_splits sum.splits prod.splits)

theorem invokeLLM_request_witness:
  "\<exists>r rq. invokeLLM (fixed_net (answer_with [] [])) sample_env sample_call [] = (r, [rq]) \<and>
     rq_url rq = lit ''https://forge/v1/chat/completions''"
proof -
  let ?n = "fixed_net (answer_with [] [])"
  have u: "resolveApiUrl sample_env = lit ''https://forge/v1/chat/completions''"
    by (simp add: resolveApiUrl_def sample_simps lit_append [symmetric] trim_def trim_start_def
        trim_end_def strip_slash_def lit_def is_space_def)
  obtain r sent' where i: "invokeLLM ?n sample_env sample_call [] = (r, sent')" and s: "sent' \<noteq> []"
    by (simp add: invokeLLM_def assertApiKey_def llm_payload_def normalizeMessage_text sample_call_def
        normalizeToolChoice_def normalizeResponseFormat_def js_or_def fixed_net_def answer_with_def
        fetch_def sample_simps io_defs Let_def)
  from invokeLLM_request [OF i] s u i show ?thesis by auto
qed

text \<open>
  The tool choice: \<open>required\<close> is accepted exactly when one tool is configured and then
  names that tool; \<open>none\<close> and \<open>auto\<close> pass through; an object with a \<open>name\<close> is turned into the
  explicit form.
\<close>

theorem normalizeToolChoice_cases:
  "normalizeToolChoice JUndef tools = Inr JUndef \<and>
   normalizeToolChoice (JStr (lit ''none'')) tools = Inr (JStr (lit ''none'')) \<and>
   normalizeToolChoice (JStr (lit ''auto'')) tools = Inr (JStr (lit ''auto'')) \<and>
   (\<exists>v. normalizeToolChoice (JStr (lit ''required'')) (Some (map function_tool names)) = Inr v) =
     (length names = 1) \<and>
   normalizeToolChoice (JStr (lit ''required'')) (Some [function_tool nm]) = Inr (named_tool (JStr nm)) \<and>
   normalizeToolChoice (JObj [(lit ''name'', JStr nm)]) tools = Inr (named_tool (JStr nm))"
proof (intro conjI)
  show "(\<exists>v. normalizeToolChoice (JStr (lit ''required'')) (Some (map function_tool names)) = Inr v) =
     (length names = 1)"
    by (cases names; cases "tl names")
       (auto simp: normalizeToolChoice_def function_tool_def member_def)
qed (auto simp: normalizeToolChoice_def function_tool_def member_def dict_keys_def)

end
