(* ===== verification/Forge.thy ===== *)
theory Forge
  imports Env
begin

text \<open>
  The clients of the Forge services: object storage (\<open>server/storage.ts\<close>), the Google
  Maps proxy (\<open>server/_core/map.ts\<close>), the data API (\<open>server/_core/dataApi.ts\<close>), image
  generation (\<open>server/_core/imageGeneration.ts\<close>) and owner notifications
  (\<open>server/_core/notification.ts\<close>). Each takes the configuration, the runtime and the
  log of requests issued so far.
\<close>

section \<open>Object storage\<close>

record storage_config =
  sc_baseUrl :: jstr
  sc_apiKey :: jstr

definition getStorageConfig :: "env \<Rightarrow> storage_config result" where
  "getStorageConfig e =
     (if forgeApiUrl e = [] \<or> forgeApiKey e = []
      then Inl (JsError (lit ''Storage proxy credentials missing: set BUILT_IN_FORGE_API_URL and BUILT_IN_FORGE_API_KEY''))
      else Inr \<lparr>sc_baseUrl = strip_slashes (forgeApiUrl e), sc_apiKey = forgeApiKey e\<rparr>)"

definition normalizeKey :: "jstr \<Rightarrow> jstr" where
  "normalizeKey relKey = strip_leading_slashes relKey"

definition buildAuthHeaders :: "jstr \<Rightarrow> (jstr \<times> jstr) list" where
  "buildAuthHeaders apiKey = [(lit ''Authorization'', bearer apiKey)]"

definition buildUploadUrl :: "net \<Rightarrow> jstr \<Rightarrow> jstr \<Rightarrow> (jstr \<times> (jstr \<times> jstr) list) result" where
  "buildUploadUrl n baseUrl relKey =
     result_bind (n_url n (lit ''v1/storage/upload'') (Some (ensureTrailingSlash baseUrl)))
       (\<lambda>u. Inr (u, [(lit ''path'', normalizeKey relKey)]))"

definition buildDownloadUrl :: "net \<Rightarrow> jstr \<Rightarrow> jstr \<Rightarrow> jstr \<Rightarrow> jsval netop" where
  "buildDownloadUrl n baseUrl relKey apiKey =
     io_bind (io_result (n_url n (lit ''v1/storage/downloadUrl'') (Some (ensureTrailingSlash baseUrl))))
       (\<lambda>u. io_bind (fetch n \<lparr>rq_url = u, rq_query = [(lit ''path'', normalizeKey relKey)],
                     rq_method = lit ''GET'', rq_headers = buildAuthHeaders apiKey, rq_body = NoBody\<rparr>)
       (\<lambda>r. io_bind (io_result (rs_json r)) (\<lambda>v. io_result (member v (lit ''url'')))))"

definition toFormData :: "jsval \<Rightarrow> jstr \<Rightarrow> jstr \<Rightarrow> body" where
  "toFormData data contentType fileName =
     FormBody [(lit ''file'', data,
       Some (contentType, if fileName = [] then lit ''file'' else fileName))]"

record storage_file =
  sf_key :: jstr
  sf_url :: jsval

definition storagePut :: "net \<Rightarrow> env \<Rightarrow> jstr \<times> jsval \<times> jstr \<Rightarrow> storage_file netop" where
  "storagePut n e arg =
     (case arg of (relKey, data, contentType) \<Rightarrow>
       io_bind (io_result (getStorageConfig e)) (\<lambda>cfg.
       let key = normalizeKey relKey in
       io_bind (io_result (buildUploadUrl n (sc_baseUrl cfg) key)) (\<lambda>(u, q).
       io_bind (fetch n \<lparr>rq_url = u, rq_query = q, rq_method = lit ''POST'',
                 rq_headers = buildAuthHeaders (sc_apiKey cfg),
                 rq_body = toFormData data contentType (last (split_on 0x2F key))\<rparr>) (\<lambda>r.
       if \<not> rs_ok r
       then io_throw (JsError (lit ''Storage upload failed ('' @ status_line r @ lit ''): '' @
              (case rs_text r of Inl _ \<Rightarrow> rs_statusText r | Inr t \<Rightarrow> t)))
       else io_bind (io_result (rs_json r)) (\<lambda>v.
            io_bind (io_result (member v (lit ''url''))) (\<lambda>url.
            io_return \<lparr>sf_key = key, sf_url = url\<rparr>))))))"

definition storageGet :: "net \<Rightarrow> env \<Rightarrow> jstr \<Rightarrow> storage_file netop" where
  "storageGet n e relKey =
     io_bind (io_result (getStorageConfig e)) (\<lambda>cfg.
       let key = normalizeKey relKey in
       io_bind (buildDownloadUrl n (sc_baseUrl cfg) key (sc_apiKey cfg)) (\<lambda>url.
       io_return \<lparr>sf_key = key, sf_url = url\<rparr>))"

lemma normalizeKey_idem: "normalizeKey (normalizeKey k) = normalizeKey k"
  by (simp add: normalizeKey_def)

lemma storagePut_unready:
  "\<not> forge_ready e \<Longrightarrow> storagePut n e x sent =
     (Inl (JsError (lit ''Storage proxy credentials missing: set BUILT_IN_FORGE_API_URL and BUILT_IN_FORGE_API_KEY'')), sent)"
  by (auto simp: storagePut_def getStorageConfig_def forge_ready_def io_defs split: prod.splits)

lemma storageGet_unready:
  "\<not> forge_ready e \<Longrightarrow> storageGet n e x sent =
     (Inl (JsError (lit ''Storage proxy credentials missing: set BUILT_IN_FORGE_API_URL and BUILT_IN_FORGE_API_KEY'')), sent)"
  by (auto simp: storageGet_def getStorageConfig_def forge_ready_def io_defs)

section \<open>Google Maps proxy\<close>

definition getMapsConfig :: "env \<Rightarrow> storage_config result" where
  "getMapsConfig e =
     (if forgeApiUrl e = [] \<or> forgeApiKey e = []
      then Inl (JsError (lit ''Google Maps proxy credentials missing: set BUILT_IN_FORGE_API_URL and BUILT_IN_FORGE_API_KEY''))
      else Inr \<lparr>sc_baseUrl = strip_slashes (forgeApiUrl e), sc_apiKey = forgeApiKey e\<rparr>)"

record request_options =
  ro_method :: "jstr option"
  ro_body :: "jsval option"

text \<open>The query: the key first, then every parameter that is neither \<open>undefined\<close> nor \<open>null\<close>.\<close>

definition maps_query :: "net \<Rightarrow> jstr \<Rightarrow> jsobj \<Rightarrow> (jstr \<times> jstr) list" where
  "maps_query n apiKey params =
     (lit ''key'', apiKey) #
     map (\<lambda>(k, v). (k, js_string (n_fmt n) (n_date n) v))
       (filter (\<lambda>(k, v). v \<noteq> JUndef \<and> v \<noteq> JNull) params)"

definition makeRequest :: "net \<Rightarrow> env \<Rightarrow> jstr \<times> jsobj \<times> request_options \<Rightarrow> jsval netop" where
  "makeRequest n e arg =
     (case arg of (endpoint, params, opts) \<Rightarrow>
       io_bind (io_result (getMapsConfig e)) (\<lambda>cfg.
       io_bind (io_result (n_url n (sc_baseUrl cfg @ lit ''/v1/maps/proxy'' @ endpoint) None)) (\<lambda>u.
       io_bind (fetch n \<lparr>rq_url = u, rq_query = maps_query n (sc_apiKey cfg) params,
                 rq_method = (case ro_method opts of None \<Rightarrow> lit ''GET'' | Some m \<Rightarrow> m),
                 rq_headers = [(lit ''Content-Type'', lit ''application/json'')],
                 rq_body = (case ro_body opts of None \<Rightarrow> NoBody | Some b \<Rightarrow> JsonBody b)\<rparr>) (\<lambda>r.
       if \<not> rs_ok r
       then io_bind (io_result (rs_text r)) (\<lambda>t.
              io_throw (JsError (lit ''Google Maps API request failed ('' @ status_line r @ lit ''): '' @ t)))
       else io_result (rs_json r)))))"

lemma makeRequest_unready:
  "\<not> forge_ready e \<Longrightarrow> makeRequest n e x sent =
     (Inl (JsError (lit ''Google Maps proxy credentials missing: set BUILT_IN_FORGE_API_URL and BUILT_IN_FORGE_API_KEY'')), sent)"
  by (auto simp: makeRequest_def getMapsConfig_def forge_ready_def io_defs split: prod.splits)

section \<open>Data API\<close>

record data_api_options =
  da_query :: jsval
  da_body :: jsval
  da_pathParams :: jsval
  da_formData :: jsval

definition forge_missing :: "env \<Rightarrow> js_error" where
  "forge_missing e =
     (if forgeApiUrl e = [] then JsError (lit ''BUILT_IN_FORGE_API_URL is not configured'')
      else JsError (lit ''BUILT_IN_FORGE_API_KEY is not configured''))"

text \<open>\<open>response.json().catch(() => ({}))\<close>, and the unwrapping of a \<open>jsonData\<close> member.\<close>

definition data_payload :: "net \<Rightarrow> http_response \<Rightarrow> jsval" where
  "data_payload n r =
     (let payload = (case rs_json r of Inl _ \<Rightarrow> JObj [] | Inr v \<Rightarrow> v)
      in case payload of
           JObj fs \<Rightarrow>
             (case dict_get fs (lit ''jsonData'') of
                None \<Rightarrow> payload
              | Some d \<Rightarrow>
                  (case n_parse n (js_nullish d (JStr (lit ''{}''))) of Inr v \<Rightarrow> v | Inl _ \<Rightarrow> d))
         | _ \<Rightarrow> payload)"

definition callDataApi :: "net \<Rightarrow> env \<Rightarrow> jstr \<times> data_api_options \<Rightarrow> jsval netop" where
  "callDataApi n e arg =
     (case arg of (apiId, opts) \<Rightarrow>
       if forgeApiUrl e = [] \<or> forgeApiKey e = [] then io_throw (forge_missing e)
       else
       io_bind (io_result (n_url n (lit ''webdevtoken.v1.WebDevService/CallApi'')
                 (Some (ensureTrailingSlash (forgeApiUrl e))))) (\<lambda>u.
       io_bind (fetch n \<lparr>rq_url = u, rq_query = [], rq_method = lit ''POST'',
                 rq_headers = connect_headers (forgeApiKey e),
                 rq_body = JsonBody (JObj [(lit ''apiId'', JStr apiId), (lit ''query'', da_query opts),
                   (lit ''body'', da_body opts), (lit ''path_params'', da_pathParams opts),
                   (lit ''multipart_form_data'', da_formData opts)])\<rparr>) (\<lambda>r.
       if \<not> rs_ok r
       then io_throw (JsError (lit ''Data API request failed ('' @ status_line r @ lit '')'' @
              with_detail (text_or_empty r)))
       else io_return (data_payload n r))))"

lemma callDataApi_unready:
  "\<not> forge_ready e \<Longrightarrow> callDataApi n e x sent = (Inl (forge_missing e), sent)"
  by (auto simp: callDataApi_def forge_ready_def io_defs split: prod.splits)

section \<open>Image generation\<close>

record image_options =
  im_prompt :: jstr
  im_originalImages :: "jsval option"

definition generateImage :: "net \<Rightarrow> env \<Rightarrow> image_options \<times> time \<Rightarrow> jsval netop" where
  "generateImage n e arg =
     (case arg of (opts, now) \<Rightarrow>
       if forgeApiUrl e = [] \<or> forgeApiKey e = [] then io_throw (forge_missing e)
       else
       io_bind (io_result (n_url n (lit ''images.v1.ImageService/GenerateImage'')
                 (Some (ensureTrailingSlash (forgeApiUrl e))))) (\<lambda>u.
       io_bind (fetch n \<lparr>rq_url = u, rq_query = [], rq_method = lit ''POST'',
                 rq_headers = connect_headers (forgeApiKey e),
                 rq_body = JsonBody (JObj [(lit ''prompt'', JStr (im_prompt opts)),
                   (lit ''original_images'',
                    (case im_originalImages opts of None \<Rightarrow> JArr [] | Some v \<Rightarrow> v))])\<rparr>) (\<lambda>r.
       if \<not> rs_ok r
       then io_throw (JsError (lit ''Image generation request failed ('' @ status_line r @ lit '')'' @
              with_detail (text_or_empty r)))
       else
       io_bind (io_result (rs_json r)) (\<lambda>res.
       io_bind (io_result (member res (lit ''image''))) (\<lambda>image.
       io_bind (io_result (member image (lit ''b64Json''))) (\<lambda>b64.
       io_bind (io_result (n_b64 n b64)) (\<lambda>buffer.
       io_bind (io_result (member image (lit ''mimeType''))) (\<lambda>mime.
       io_bind (storagePut n e
                 (lit ''generated/'' @ decimal (nat now) @ lit ''.png'', JStr buffer,
                  (case mime of JStr m \<Rightarrow> m | _ \<Rightarrow> lit ''application/octet-stream''))) (\<lambda>f.
       io_return (sf_url f))))))))))"

lemma generateImage_unready:
  "\<not> forge_ready e \<Longrightarrow> generateImage n e x sent = (Inl (forge_missing e), sent)"
  by (auto simp: generateImage_def forge_ready_def io_defs split: prod.splits)

section \<open>Owner notifications\<close>

record notification_payload =
  np_title :: jstr
  np_content :: jstr

definition TITLE_MAX_LENGTH :: nat where
  "TITLE_MAX_LENGTH = 1200"

definition CONTENT_MAX_LENGTH :: nat where
  "CONTENT_MAX_LENGTH = 20000"

definition validatePayload :: "notification_payload \<Rightarrow> notification_payload result" where
  "validatePayload p =
     (let title = trim (np_title p); content = trim (np_content p) in
      if title = [] then Inl (JsTrpcError BAD_REQUEST (lit ''Notification title is required.''))
      else if content = []
      then Inl (JsTrpcError BAD_REQUEST (lit ''Notification content is required.''))
      else if length title > TITLE_MAX_LENGTH
      then Inl (JsTrpcError BAD_REQUEST
             (lit ''Notification title must be at most '' @ decimal TITLE_MAX_LENGTH @ lit '' characters.''))
      else if length content > CONTENT_MAX_LENGTH
      then Inl (JsTrpcError BAD_REQUEST
             (lit ''Notification content must be at most '' @ decimal CONTENT_MAX_LENGTH @ lit '' characters.''))
      else Inr \<lparr>np_title = title, np_content = content\<rparr>)"

definition notify_missing :: "env \<Rightarrow> js_error" where
  "notify_missing e =
     (if forgeApiUrl e = []
      then JsTrpcError INTERNAL_SERVER_ERROR (lit ''Notification service URL is not configured.'')
      else JsTrpcError INTERNAL_SERVER_ERROR (lit ''Notification service API key is not configured.''))"

definition notification_json :: "notification_payload \<Rightarrow> jsval" where
  "notification_json p =
     JObj [(lit ''title'', JStr (np_title p)), (lit ''content'', JStr (np_content p))]"

text \<open>
  \<open>buildEndpointUrl\<close> runs outside the \<open>try\<close>, so a malformed base URL is thrown; a failing
  request is only reported as \<open>false\<close>.
\<close>

definition notifyOwner :: "net \<Rightarrow> env \<Rightarrow> notification_payload \<Rightarrow> bool netop" where
  "notifyOwner n e input =
     io_bind (io_result (validatePayload input)) (\<lambda>p.
     if forgeApiUrl e = [] \<or> forgeApiKey e = [] then io_throw (notify_missing e)
     else
     io_bind (io_result (n_url n (lit ''webdevtoken.v1.WebDevService/SendNotification'')
               (Some (ensureTrailingSlash (forgeApiUrl e))))) (\<lambda>u.
     io_catch
       (io_bind (fetch n \<lparr>rq_url = u, rq_query = [], rq_method = lit ''POST'',
                 rq_headers = [(lit ''accept'', lit ''application/json''),
                   (lit ''authorization'', bearer (forgeApiKey e)),
                   (lit ''content-type'', lit ''application/json''),
                   (lit ''connect-protocol-version'', lit ''1'')],
                 rq_body = JsonBody (notification_json p)\<rparr>) (\<lambda>r. io_return (rs_ok r)))
       (\<lambda>_. io_return False)))"

definition notify_refuse :: "env \<Rightarrow> notification_payload \<Rightarrow> js_error" where
  "notify_refuse e input =
     (case validatePayload input of Inl err \<Rightarrow> err | Inr _ \<Rightarrow> notify_missing e)"

lemma notifyOwner_unready:
  "\<not> forge_ready e \<Longrightarrow> notifyOwner n e x sent = (Inl (notify_refuse e x), sent)"
  by (auto simp: notifyOwner_def notify_refuse_def forge_ready_def io_defs split: sum.splits)

lemma validatePayload_Inr:
  assumes "validatePayload p = Inr q"
  shows "np_title q = trim (np_title p)" and "np_content q = trim (np_content p)"
    and "0 < length (np_title q)" and "length (np_title q) \<le> 1200"
    and "0 < length (np_content q)" and "length (np_content q) \<le> 20000"
  using assms
  by (auto simp: validatePayload_def Let_def TITLE_MAX_LENGTH_def CONTENT_MAX_LENGTH_def
      split: if_splits)

section \<open>The contract, for every client\<close>

interpretation put: guarded_service forge_ready "\<lambda>_ _. JsError (lit ''Storage proxy credentials missing: set BUILT_IN_FORGE_API_URL and BUILT_IN_FORGE_API_KEY'')" "storagePut n" for n
  by unfold_locales (rule storagePut_unready)

interpretation get: guarded_service forge_ready "\<lambda>_ _. JsError (lit ''Storage proxy credentials missing: set BUILT_IN_FORGE_API_URL and BUILT_IN_FORGE_API_KEY'')" "storageGet n" for n
  by unfold_locales (rule storageGet_unready)

interpretation maps: guarded_service forge_ready "\<lambda>_ _. JsError (lit ''Google Maps proxy credentials missing: set BUILT_IN_FORGE_API_URL and BUILT_IN_FORGE_API_KEY'')" "makeRequest n" for n
  by unfold_locales (rule makeRequest_unready)

interpretation data: guarded_service forge_ready "\<lambda>e _. forge_missing e" "callDataApi n" for n
  by unfold_locales (rule callDataApi_unready)

interpretation image: guarded_service forge_ready "\<lambda>e _. forge_missing e" "generateImage n" for n
  by unfold_locales (rule generateImage_unready)

interpretation notify: guarded_service forge_ready notify_refuse "notifyOwner n" for n
  by unfold_locales (rule notifyOwner_unready)

section \<open>Properties\<close>

text \<open>
  A file is reported as stored only when the service is configured, and then under its
  key without leading slashes, after exactly one upload request, authorised with the key of
  the configuration.
\<close>

theorem storagePut_key:
  assumes "storagePut n e (k, d, c) sent = (Inr f, sent')"
  shows "forge_ready e \<and> sf_key f = strip_leading_slashes k \<and>
    (\<exists>rq. sent' = sent @ [rq] \<and> rq_method rq = lit ''POST'' \<and>
          rq_headers rq = [(lit ''Authorization'', lit ''Bearer '' @ forgeApiKey e)] \<and>
          rq_query rq = [(lit ''path'', strip_leading_slashes k)])"
proof -
  have ready: "forge_ready e"
    by (rule put.success_ready [OF assms])
  have q: "buildUploadUrl n b key = Inr (u, q) \<Longrightarrow> q = [(lit ''path'', normalizeKey key)]" for b key u q
    by (auto simp: buildUploadUrl_def result_bind_Inr_iff)
  from assms ready show ?thesis
    by (auto simp: storagePut_def getStorageConfig_def forge_ready_def io_bind_Inr Let_def
        io_result_def io_return_def io_throw_def fetch_def normalizeKey_def buildAuthHeaders_def
        bearer_def split: if_splits dest!: q)
qed

theorem storagePut_key_witness:
  "\<exists>f sent'. storagePut (fixed_net (answer_with [(lit ''url'', JStr (lit ''u''))] [])) sample_env
       (lit ''/a/b.png'', JStr [1], lit ''image/png'') [] = (Inr f, sent') \<and>
     sf_key f = lit ''a/b.png'' \<and> length sent' = 1"
proof -
  let ?n = "fixed_net (answer_with [(lit ''url'', JStr (lit ''u''))] [])"
  obtain f sent' where s: "storagePut ?n sample_env (lit ''/a/b.png'', JStr [1], lit ''image/png'') [] = (Inr f, sent')"
    by (simp add: storagePut_def getStorageConfig_def buildUploadUrl_def fixed_net_def answer_with_def
        fetch_def member_def sample_simps io_defs Let_def)
  from storagePut_key [OF s] s show ?thesis
    by (auto simp: strip_leading_slashes_def lit_def)
qed

text \<open>
  A notification that leaves the server carries a title of 1 to 1200 and a content of
  1 to 20000 characters, both trimmed, and it leaves in a single request.
\<close>

theorem notifyOwner_sent:
  assumes "notifyOwner n e p sent = (r, sent')" and "sent' \<noteq> sent"
  shows "\<exists>rq. sent' = sent @ [rq] \<and>
    rq_body rq = JsonBody (JObj [(lit ''title'', JStr (trim (np_title p))),
                                 (lit ''content'', JStr (trim (np_content p)))]) \<and>
    0 < length (trim (np_title p)) \<and> length (trim (np_title p)) \<le> 1200 \<and>
    0 < length (trim (np_content p)) \<and> length (trim (np_content p)) \<le> 20000"
proof (cases "validatePayload p")
  case (Inl err)
  with assms show ?thesis by (simp add: notifyOwner_def io_defs)
next
  case (Inr q)
  note v = validatePayload_Inr [OF Inr]
  from assms(1) Inr assms(2) have "\<exists>rq. sent' = sent @ [rq] \<and> rq_body rq = JsonBody (notification_json q)"
    by (auto simp: notifyOwner_def io_defs fetch_def split: if_splits sum.splits)
  with v show ?thesis by (auto simp: notification_json_def)
qed

theorem notifyOwner_sent_witness:
  "snd (notifyOwner (fixed_net (answer_with [] [])) sample_env
      \<lparr>np_title = lit '' Lead '', np_content = lit ''text''\<rparr> []) \<noteq> [] \<and>
   length (trim (lit '' Lead '')) \<le> 1200"
proof -
  let ?p = "\<lparr>np_title = lit '' Lead '', np_content = lit ''text''\<rparr>"
  have t: "trim (lit '' Lead '') = lit ''Lead''" "trim (lit ''text'') = lit ''text''"
    by (simp_all add: trim_def trim_start_def trim_end_def lit_def is_space_def)
  have s: "notifyOwner (fixed_net (answer_with [] [])) sample_env ?p [] =
      (fst (notifyOwner (fixed_net (answer_with [] [])) sample_env ?p []),
       snd (notifyOwner (fixed_net (answer_with [] [])) sample_env ?p []))" by simp
  have "snd (notifyOwner (fixed_net (answer_with [] [])) sample_env ?p []) \<noteq> []"
    by (simp add: notifyOwner_def validatePayload_def t TITLE_MAX_LENGTH_def CONTENT_MAX_LENGTH_def
        fixed_net_def answer_with_def fetch_def sample_simps io_defs Let_def)
  with notifyOwner_sent [OF s] show ?thesis by auto
qed

end
