(* ===== verification/Api.thy ===== *)
theory Api
  imports Routers "HOL-Library.Sublist"
begin

text \<open>
  The API as the outside sees it: any sequence of requests, each authenticated by
  \<open>createContext\<close> and served by the procedure it names. What callers without a session can
  do to the database, to the services behind the server and to its files is an invariant
  of that step relation.
\<close>

section \<open>Effects\<close>

text \<open>
  \<open>effects R m\<close>: whatever \<open>m\<close> returns or throws, it moves the world along \<open>R\<close>. For a
  preorder \<open>R\<close> the rules follow the shape of an operation.
\<close>

definition effects :: "('w \<Rightarrow> 'w \<Rightarrow> bool) \<Rightarrow> ('w, 'a) io \<Rightarrow> bool" where
  "effects R m \<longleftrightarrow> (\<forall>w. R w (snd (m w)))"

lemma effectsD: "effects R m \<Longrightarrow> R w (snd (m w))"
  by (simp add: effects_def)

locale world_preorder =
  fixes R :: "'w \<Rightarrow> 'w \<Rightarrow> bool"
  assumes reflexive: "R w w"
    and transitive: "R w w' \<Longrightarrow> R w' w'' \<Longrightarrow> R w w''"
begin

lemma effects_still:
  "effects R (io_return x)" "effects R (io_throw e)" "effects R (io_result r)"
  by (simp_all add: effects_def io_defs reflexive)

lemma effects_bind: "effects R m \<Longrightarrow> (\<And>x. effects R (f x)) \<Longrightarrow> effects R (io_bind m f)"
  unfolding effects_def io_bind_def
  by (auto split: prod.splits sum.splits) (metis snd_conv transitive)+

lemma effects_catch: "effects R m \<Longrightarrow> (\<And>e. effects R (h e)) \<Longrightarrow> effects R (io_catch m h)"
  unfolding effects_def io_catch_def
  by (auto split: prod.splits sum.splits) (metis snd_conv transitive)+

lemma effects_if: "(b \<Longrightarrow> effects R m) \<Longrightarrow> (\<not> b \<Longrightarrow> effects R n) \<Longrightarrow> effects R (if b then m else n)"
  by simp

lemma effects_map: "effects R m \<Longrightarrow> effects R (io_map f m)"
  unfolding io_map_def by (intro effects_bind effects_still)

lemmas effects_rules = effects_still effects_bind effects_catch effects_if effects_map

end

text \<open>The log of requests only grows.\<close>

interpretation net_log: world_preorder "prefix :: http_request list \<Rightarrow> http_request list \<Rightarrow> bool"
  by unfold_locales auto

lemma effects_fetch: "effects prefix (fetch n rq)"
  by (simp add: effects_def fetch_def)

lemma notifyOwner_appends: "effects prefix (notifyOwner n e p)"
  unfolding notifyOwner_def by (intro net_log.effects_rules effects_fetch)

lemma invokeLLM_appends: "effects prefix (invokeLLM n e p)"
  unfolding invokeLLM_def by (intro net_log.effects_rules effects_fetch)

section \<open>What a caller without a session may do\<close>

text \<open>
  The statements the public procedures send: they read posts and projects and they add
  rows to four tables; they never update or delete a row.
\<close>

definition written_tables :: "jstr list" where
  "written_tables = map lit [''leads'', ''contactSubmissions'', ''pageViews'', ''events'']"

definition read_tables :: "jstr list" where
  "read_tables = map lit [''blogPosts'', ''projects'']"

fun visitor_stmt :: "stmt \<Rightarrow> bool" where
  "visitor_stmt (SSelect t cs ord limit offset) = (t \<in> set read_tables)"
| "visitor_stmt (SInsert t row) = (t \<in> set written_tables)"
| "visitor_stmt _ = False"

definition run_all :: "'d driver \<Rightarrow> stmt list \<Rightarrow> 'd \<Rightarrow> 'd" where
  "run_all dr ss d = fold (\<lambda>s d. snd (dr_exec dr s d)) ss d"

lemma run_all_append: "run_all dr (ss @ ts) d = run_all dr ts (run_all dr ss d)"
  by (simp add: run_all_def)

definition file_text :: "'d world \<Rightarrow> jstr \<Rightarrow> jstr" where
  "file_text w path = (case dict_get (w_files w) path of None \<Rightarrow> [] | Some t \<Rightarrow> t)"

definition visitor_effect :: "'d driver \<Rightarrow> 'd world \<Rightarrow> 'd world \<Rightarrow> bool" where
  "visitor_effect dr w w' \<longleftrightarrow>
     (\<exists>ss. list_all visitor_stmt ss \<and> w_db w' = run_all dr ss (w_db w)) \<and>
     prefix (w_sent w) (w_sent w') \<and>
     (\<forall>path. prefix (file_text w path) (file_text w' path))"

interpretation visitor: world_preorder "visitor_effect dr" for dr
proof
  show "visitor_effect dr w w" for w :: "'a world"
    by (auto simp: visitor_effect_def run_all_def intro: exI [of _ "[]"])
next
  fix w w' w'' :: "'a world"
  assume "visitor_effect dr w w'" and "visitor_effect dr w' w''"
  then obtain ss ts where 1: "list_all visitor_stmt ss" "w_db w' = run_all dr ss (w_db w)"
      "list_all visitor_stmt ts" "w_db w'' = run_all dr ts (w_db w')"
    and 2: "prefix (w_sent w) (w_sent w')" "prefix (w_sent w') (w_sent w'')"
      "\<And>path. prefix (file_text w path) (file_text w' path)"
      "\<And>path. prefix (file_text w' path) (file_text w'' path)"
    unfolding visitor_effect_def by blast
  from 1 have "list_all visitor_stmt (ss @ ts) \<and> w_db w'' = run_all dr (ss @ ts) (w_db w)"
    by (simp add: run_all_append)
  with 2 show "visitor_effect dr w w''"
    unfolding visitor_effect_def by (meson prefix_order.trans)
qed

section \<open>The public procedures\<close>

text \<open>A guard that refuses does nothing, one that passes does what its handler does.\<close>

lemma effects_guarded:
  assumes "\<And>ctx. effects (visitor_effect dr) (h ctx)"
  shows "effects (visitor_effect dr) (guarded g h ctx)"
  using assms by (cases g) (auto simp: requireUser_def requireAdmin_def visitor.effects_still split: option.splits)

lemma effects_on_net: "effects prefix m \<Longrightarrow> effects (visitor_effect dr) (on_net m)"
  unfolding effects_def on_net_def io_zoom_def
  by (auto simp: visitor_effect_def run_all_def file_text_def intro: exI [of _ "[]"] split: prod.splits)
     (metis snd_conv)

lemma effects_run_stmt: "visitor_stmt s \<Longrightarrow> effects (visitor_effect dr) (run_stmt dr s)"
  by (auto simp: effects_def run_stmt_def io_zoom_def visitor_effect_def run_all_def file_text_def
      intro: exI [of _ "[s]"] split: prod.splits)

lemma effects_getDb: "effects (visitor_effect dr) (getDb rt)"
  by (auto simp: effects_def getDb_def Let_def visitor_effect_def run_all_def file_text_def
      intro: exI [of _ "[]"])

lemma effects_with_db: "effects (visitor_effect dr) k \<Longrightarrow> effects (visitor_effect dr) (with_db rt k)"
  unfolding with_db_def by (intro visitor.effects_rules effects_getDb)

lemma effects_statements:
  assumes "visitor_stmt s"
  shows "effects (visitor_effect (rt_driver rt)) (query rt s)"
    and "effects (visitor_effect (rt_driver rt)) (insert_id rt s)"
    and "effects (visitor_effect (rt_driver rt)) (execute rt s)"
  unfolding query_def insert_id_def execute_def
  by (intro visitor.effects_rules effects_run_stmt assms)+

lemma visitor_tables:
  "lit ''leads'' \<in> set written_tables" "lit ''contactSubmissions'' \<in> set written_tables"
  "lit ''pageViews'' \<in> set written_tables" "lit ''events'' \<in> set written_tables"
  "lit ''blogPosts'' \<in> set read_tables" "lit ''projects'' \<in> set read_tables"
  by (simp_all add: written_tables_def read_tables_def)

lemma effects_appendFile: "effects (visitor_effect dr) (appendFile rt path text)"
  by (auto simp: effects_def appendFile_def visitor_effect_def run_all_def file_text_def dict_get_set
      intro: exI [of _ "[]"] split: sum.splits option.splits)

lemmas public_effects = visitor.effects_rules effects_with_db effects_statements effects_on_net
  effects_appendFile notifyOwner_appends invokeLLM_appends

lemma effects_leads:
  "effects (visitor_effect (rt_driver rt)) (createLead rt data)"
  "effects (visitor_effect (rt_driver rt)) (createContactSubmission rt data)"
  "effects (visitor_effect (rt_driver rt)) (queueLocalLeadSubmission rt data context)"
  "effects (visitor_effect (rt_driver rt)) (recordPageView rt data)"
  "effects (visitor_effect (rt_driver rt)) (recordEvent rt data)"
  unfolding createLead_def createContactSubmission_def queueLocalLeadSubmission_def Let_def
    recordPageView_def recordEvent_def
  by (intro public_effects; simp add: visitor_tables)+

lemma effects_reads:
  "effects (visitor_effect (rt_driver rt)) (getBlogPosts rt opts)"
  "effects (visitor_effect (rt_driver rt)) (getBlogPostBySlug rt v)"
  "effects (visitor_effect (rt_driver rt)) (getProjects rt opts)"
  unfolding getBlogPosts_def getBlogPostBySlug_def getProjects_def select_by_def Let_def
  by (intro public_effects; simp add: visitor_tables)+

lemma effects_public_handlers:
  "effects (visitor_effect (rt_driver rt)) (lead_submit rt input ctx)"
  "effects (visitor_effect (rt_driver rt)) (blog_list rt input ctx)"
  "effects (visitor_effect (rt_driver rt)) (blog_getBySlug rt input ctx)"
  "effects (visitor_effect (rt_driver rt)) (project_list rt input ctx)"
  "effects (visitor_effect (rt_driver rt)) (trackPageView rt input ctx)"
  "effects (visitor_effect (rt_driver rt)) (trackEvent rt input ctx)"
  "effects (visitor_effect (rt_driver rt)) (chat rt input ctx)"
  "effects (visitor_effect (rt_driver rt)) (auth_me rt input ctx)"
  "effects (visitor_effect (rt_driver rt)) (system_health rt input ctx)"
  "effects (visitor_effect (rt_driver rt)) (system_integrationHealth rt input ctx)"
  unfolding lead_submit_def store_lead_def queue_lead_def blog_list_def blog_getBySlug_def
    project_list_def trackPageView_def trackEvent_def skip_unavailable_def chat_def Let_def
    auth_me_def system_health_def system_integrationHealth_def
  by (intro public_effects effects_leads effects_reads)+

lemma effects_logout: "effects (visitor_effect dr) (auth_logout rt input ctx)"
  unfolding auth_logout_def
  by (intro visitor.effects_rules)
     (auto simp: effects_def clear_cookie_def visitor_effect_def run_all_def file_text_def intro: exI [of _ "[]"])

lemma public_router_effects:
  "list_all (\<lambda>(path, p). pr_guard p = Admin \<or>
     (\<forall>input ctx. effects (visitor_effect (rt_driver rt)) (pr_handler p rt input ctx))) appRouter"
  by (simp add: router_defs effects_public_handlers effects_logout)

lemma call_visitor:
  assumes "tc_user ctx = None"
  shows "effects (visitor_effect (rt_driver rt)) (call rt path ctx raw)"
proof (cases "map_of (appRouter :: (string \<times> 'a procedure) list) path")
  case None
  then show ?thesis by (simp add: call_def visitor.effects_still)
next
  case (Some p)
  show ?thesis
  proof (cases "pr_guard p = Admin")
    case True
    with Some assms show ?thesis
      by (simp add: call_def effects_def run_admin_refused is_admin_def visitor.reflexive)
  next
    case False
    with Some public_router_effects [of rt]
    have "effects (visitor_effect (rt_driver rt)) (pr_handler p rt input ctx)" for input ctx
      by (auto simp: list_all_iff dest!: map_of_SomeD)
    then show ?thesis
      unfolding call_def Some option.case run_procedure_def
      by (intro effects_guarded visitor.effects_rules)
  qed
qed

section \<open>Requests in sequence\<close>

definition anonymous :: "'d runtime \<Rightarrow> request \<Rightarrow> bool" where
  "anonymous rt req \<longleftrightarrow> verifySession rt (session_cookie rt req) = None"

lemma api_request_anonymous:
  "anonymous rt req \<Longrightarrow>
     api_request rt req path raw w = call rt path \<lparr>tc_req = req, tc_user = None\<rparr> raw w"
  by (simp add: anonymous_def api_request_def createContext_def io_bind_def io_catch_def
      io_return_def authenticateRequest_no_session)

text \<open>
  A step is one request without a session that verifies, served in any runtime around the
  same database driver: clock, network and file system may change between steps.
\<close>

inductive visitor_run :: "'d driver \<Rightarrow> 'd world \<Rightarrow> 'd world \<Rightarrow> bool" for dr where
  start: "visitor_run dr w w"
| serve: "visitor_run dr w w' \<Longrightarrow> rt_driver rt = dr \<Longrightarrow> anonymous rt req \<Longrightarrow>
    api_request rt req path raw w' = (r, w'') \<Longrightarrow> visitor_run dr w w''"

inductive_cases visitor_runE: "visitor_run dr w w'"

lemma api_request_visitor:
  assumes "anonymous rt req" and "api_request rt req path raw w = (r, w')"
  shows "visitor_effect (rt_driver rt) w w'"
  using effectsD [OF call_visitor [of "\<lparr>tc_req = req, tc_user = None\<rparr>" rt path raw], of w]
    assms by (simp add: api_request_anonymous)

lemma visitor_run_effect: "visitor_run dr w w' \<Longrightarrow> visitor_effect dr w w'"
proof (induction rule: visitor_run.induct)
  case (start w)
  show ?case by (rule visitor.reflexive)
next
  case (serve w w' rt req path raw r w'')
  then show ?case using api_request_visitor visitor.transitive by blast
qed

text \<open>The two facts the properties rest on.\<close>

lemma call_needs_admin:
  fixes rt :: "'d runtime"
  assumes "path \<notin> set public_paths" and "\<not> is_admin ctx"
  shows "\<exists>e. call rt path ctx raw w = (Inl e, w)"
proof (cases "map_of (appRouter :: (string \<times> 'd procedure) list) path")
  case None
  then show ?thesis by (simp add: call_def io_throw_def)
next
  case (Some p)
  then show ?thesis
    by (simp add: call_def run_admin_refused [OF router_guard_Admin [OF Some assms(1)] assms(2)])
qed

lemma visitor_stmt_cases:
  "visitor_stmt s \<Longrightarrow>
     (\<exists>t cs ord limit offset. s = SSelect t cs ord limit offset \<and> t \<in> {lit ''blogPosts'', lit ''projects''}) \<or>
     (\<exists>t row. s = SInsert t row \<and>
        t \<in> {lit ''leads'', lit ''contactSubmissions'', lit ''pageViews'', lit ''events''})"
  by (cases s) (simp_all add: read_tables_def written_tables_def)

section \<open>A signed-in administrator\<close>

text \<open>A signed-in administrator of the in-memory server.\<close>

definition admin_claims :: jsobj where
  "admin_claims = [(lit ''openId'', JStr (lit ''o'')), (lit ''appId'', JStr (lit ''app'')),
     (lit ''name'', JStr (lit ''n''))]"

definition admin_runtime :: "memory runtime" where
  "admin_runtime = sample_runtime sample_process_env
     \<lparr>jw_sign = \<lambda>_ _ _. Inr (lit ''t''), jw_verify = \<lambda>_ _ _. Inr admin_claims\<rparr>"

definition admin_request :: request where
  "admin_request = sample_request\<lparr>rq_hdrs := [(lit ''cookie'', HStr (lit ''t''))]\<rparr>"

definition admin_world :: "memory world" where
  "admin_world = sample_world\<lparr>w_conn := True,
     w_db := [(lit ''users'', [[(lit ''openId'', JStr (lit ''o'')), (lit ''role'', JStr (lit ''admin''))]])]\<rparr>"

lemma admin_request_runs:
  "\<exists>v w'. api_request admin_runtime admin_request ''lead.list'' JUndef admin_world = (Inr v, w')"
  by (simp add: api_request_def createContext_def authenticateRequest_def session_cookie_def
      parseCookies_def admin_runtime_def admin_request_def admin_world_def admin_claims_def sample_runtime_def
      sample_request_def verifySession_def getUserByOpenId_def getDb_def query_def run_stmt_def
      memory_driver_def matching_def rows_of_def upsertUser_def touch_user_def open_id_of_def
      COOKIE_NAME_def call_def router_defs run_procedure_def requireAdmin_def strict_zod_def
      lead_list_def getLeads_def with_db_def io_map_def io_zoom_def io_defs Let_def)

end
