(* ===== verification/LeadLog.thy ===== *)
theory LeadLog
  imports Api
begin

text \<open>
  The queue file as an append-only log. The specification is a list of records to which a
  submission adds one; the implementation is the text file \<open>queueLocalLeadSubmission\<close> appends
  lines to (\<open>server/_core/localLeadQueue.ts\<close>), reached through the public procedure
  \<open>lead.submit\<close> of \<open>server/routers.ts\<close> on a server without a database connection. The abstraction reads the
  file back line by line, as an operator replaying the queue does.
\<close>

section \<open>The log and the file\<close>

definition log_of :: "jstr \<Rightarrow> 'd world \<Rightarrow> jstr list" where
  "log_of path w = butlast (split_on 10 (file_text w path))"

text \<open>The file is empty or its last line is complete.\<close>

definition complete_lines :: "jstr \<Rightarrow> 'd world \<Rightarrow> bool" where
  "complete_lines path w \<longleftrightarrow> (file_text w path = [] \<or> last (file_text w path) = 10)"

record 'd submission =
  sb_rt :: "'d runtime"
  sb_ctx :: tcontext
  sb_raw :: jsval

definition log_entry :: "'d submission \<Rightarrow> jstr" where
  "log_entry s =
     (let rt = sb_rt s;
          data = (case rt_zod rt leadInputSchema (sb_raw s) of Inr v \<Rightarrow> obj_fields v | Inl e \<Rightarrow> [])
      in case json (rt_fmt rt) (queue_record (rt_uuid rt) (rt_now rt) data (lead_context (tc_req (sb_ctx s)))) of
           None \<Rightarrow> [] | Some t \<Rightarrow> t)"

text \<open>
  A valid lead on a server without a database (\<open>db_down\<close>: \<open>DATABASE_URL\<close> is unset or empty and no
  connection was made before), while the file system takes the queue file. A database that is
  configured and fails a query is another case: the query's error is rethrown and nothing is
  queued.
\<close>

definition offline_submission :: "jstr \<Rightarrow> 'd world \<Rightarrow> 'd submission \<Rightarrow> bool" where
  "offline_submission path w s \<longleftrightarrow>
     db_down (sb_rt s) w \<and> queue_file (sb_rt s) = path \<and>
     rt_append (sb_rt s) path = Inr () \<and> (\<forall>a. printable (rt_fmt (sb_rt s) a)) \<and>
     (\<exists>input. rt_zod (sb_rt s) leadInputSchema (sb_raw s) = Inr input)"

definition submit :: "'d submission \<Rightarrow> 'd world \<Rightarrow> 'd world" where
  "submit s w = snd (call (sb_rt s) ''lead.submit'' (sb_ctx s) (sb_raw s) w)"

section \<open>Lines\<close>

lemma split_on_line:
  "c \<notin> set l \<Longrightarrow> split_on c (s @ c # l) = split_on c s @ [l]"
proof (induction s)
  case Nil
  have "split_on c l = [l]"
    using Nil by (induction l) auto
  then show ?case by simp
next
  case (Cons x xs)
  obtain p ps where "split_on c xs = p # ps"
    using split_on_not_Nil [of c xs] by (cases "split_on c xs") auto
  with Cons show ?case by auto
qed

lemma split_on_complete:
  "s = [] \<or> last s = c \<Longrightarrow> split_on c s = butlast (split_on c s) @ [[]]"
proof (cases "s = []")
  case False
  assume "s = [] \<or> last s = c"
  with False obtain t where "s = t @ [c]" by (metis append_butlast_last_id)
  then show ?thesis using split_on_line [of c "[]" t] by simp
qed simp

text \<open>Appending a line to a file of complete lines.\<close>

lemma split_on_append_line:
  assumes "s = [] \<or> last s = c" and "c \<notin> set l"
  shows "butlast (split_on c (s @ l @ [c])) = butlast (split_on c s) @ [l]"
proof -
  have "split_on c (s @ l @ [c]) = split_on c (s @ l) @ [[]]"
    using split_on_line [of c "[]" "s @ l"] by simp
  moreover have "split_on c (s @ l) = butlast (split_on c s) @ [l]"
  proof (cases "s = []")
    case True
    have "split_on c l = [l]"
      using assms(2) by (induction l) auto
    with True show ?thesis by simp
  next
    case False
    with assms(1) obtain t where t: "s = t @ [c]" by (metis append_butlast_last_id)
    then show ?thesis
      using split_on_line [OF assms(2), of t] split_on_line [of c "[]" t] by simp
  qed
  ultimately show ?thesis by (simp add: butlast_append)
qed

section \<open>One submission\<close>

lemma file_text_appended [simp]:
  "file_text (appended path line w) p = file_text w p @ (if p = path then line else [])"
  by (simp add: file_text_def appended_def dict_get_set)

lemma submit_offline:
  assumes "offline_submission path w s"
  shows "submit s w = appended path (log_entry s @ [10]) w"
proof -
  obtain input where z: "rt_zod (sb_rt s) leadInputSchema (sb_raw s) = Inr input"
    using assms by (auto simp: offline_submission_def)
  have "call (sb_rt s) ''lead.submit'' (sb_ctx s) (sb_raw s) w =
      queue_lead (sb_rt s) input (sb_ctx s) w"
    using assms z
    by (simp add: call_public [OF map_of_router(3)] lead_submit_def io_catch_def store_lead_down
        isDatabaseUnavailable_DB offline_submission_def)
  then show ?thesis
    using assms z
    by (simp add: submit_def queue_lead_eq offline_submission_def queue_line_def log_entry_def Let_def)
qed

lemma log_entry_line:
  assumes "offline_submission path w s"
  shows "10 \<notin> set (log_entry s)"
proof -
  have f: "\<forall>a. printable (rt_fmt (sb_rt s) a)"
    using assms by (simp add: offline_submission_def)
  have "printable (log_entry s)"
    using json_printable(1) [OF f] by (auto simp: log_entry_def Let_def split: option.split)
  then show ?thesis by (auto simp: printable_def)
qed

text \<open>There is still no connection for the next submission.\<close>

lemma db_down_appended: "db_down rt (appended path line w) = db_down rt w"
  by (simp add: db_down_def appended_def)

lemma offline_after_submit:
  "offline_submission path w s \<Longrightarrow> offline_submission path w s' \<Longrightarrow> offline_submission path (submit s w) s'"
  by (simp add: submit_offline) (simp add: offline_submission_def db_down_appended)

lemma submit_refines:
  assumes "offline_submission path w s" and "complete_lines path w"
  shows "log_of path (submit s w) = log_of path w @ [log_entry s]"
    and "complete_lines path (submit s w)"
  using assms(2) split_on_append_line [OF _ log_entry_line [OF assms(1)]]
  by (simp_all add: submit_offline [OF assms(1)] log_of_def complete_lines_def)

section \<open>Properties\<close>

text \<open>
  C8. On a server without a database (\<open>DATABASE_URL\<close> unset or empty, and no connection made
  before) the queue file refines an append-only log: over any sequence of valid submissions of any
  clients, the lines of the file are the lines it had followed by one
  record for each submission, in order. No record is lost, split or merged with another, and the
  file is left ready for the next one.
\<close>

theorem offline_log_refines:
  assumes "\<forall>s \<in> set ss. offline_submission path w s" and "complete_lines path w"
  shows "log_of path (fold submit ss w) = log_of path w @ map log_entry ss \<and>
    complete_lines path (fold submit ss w)"
  using assms
proof (induction ss arbitrary: w)
  case Nil
  then show ?case by simp
next
  case (Cons s ss)
  then have s: "offline_submission path w s" by simp
  have "\<forall>s' \<in> set ss. offline_submission path (submit s w) s'"
    using Cons.prems(1) offline_after_submit [OF s] by simp
  with Cons.IH [of "submit s w"] submit_refines [OF s Cons.prems(2)] show ?case by simp
qed

theorem offline_log_refines_witness:
  "\<exists>s. log_of (queue_file (sample_runtime [] no_jwt)) (fold submit [s, s] sample_world) =
     [log_entry s, log_entry s]"
proof -
  let ?rt = "sample_runtime [] no_jwt"
  let ?v = "JObj [(lit ''source'', JStr (lit ''contact'')), (lit ''name'', JStr (lit ''A''))]"
  let ?s = "\<lparr>sb_rt = ?rt, sb_ctx = visitor, sb_raw = ?v\<rparr>"
  have "db_down ?rt sample_world"
    by (simp add: db_down_def sample_runtime_def sample_world_def env_or_empty_def)
  moreover have "rt_zod ?rt leadInputSchema ?v = Inr ?v"
    by (simp add: sample_runtime_def strict_zod_def leadInputSchema_def opt_trimmed_def dict_keys_def
        trim_def trim_start_def trim_end_def lit_def is_space_def)
  moreover have "\<forall>a. printable (rt_fmt ?rt a)"
    by (simp add: sample_runtime_def fixed_net_def lit_def)
  ultimately have o: "offline_submission (queue_file ?rt) sample_world ?s"
    by (auto simp: offline_submission_def sample_runtime_def)
  have c: "complete_lines (queue_file ?rt) sample_world"
      "log_of (queue_file ?rt) sample_world = []"
    by (simp_all add: complete_lines_def log_of_def file_text_def sample_world_def)
  have "\<forall>s \<in> set [?s, ?s]. offline_submission (queue_file ?rt) sample_world s" using o by simp
  from offline_log_refines [OF this c(1)] c(2) show ?thesis by (intro exI [of _ ?s]) simp
qed

end
