(* ===== verification/Voice.thy ===== *)
theory Voice
  imports Forge
begin

text \<open>
  Voice transcription (\<open>server/_core/voiceTranscription.ts\<close>): download of the audio
  file, the size limit, the multipart upload and the error objects the function returns
  where others throw.
\<close>

section \<open>Options, answers and error objects\<close>

record transcribe_options =
  to_audioUrl :: jstr
  to_language :: "jstr option"
  to_prompt :: "jstr option"

datatype transcription_code =
  FILE_TOO_LARGE | INVALID_FORMAT | TRANSCRIPTION_FAILED | UPLOAD_FAILED | SERVICE_ERROR

datatype transcription =
    Transcribed jsval
  | TranscriptionError jstr transcription_code jstr

section \<open>Tables\<close>

definition mimeToExt :: "(jstr, jstr) dict" where
  "mimeToExt = map (\<lambda>(k, v). (lit k, lit v))
     [(''audio/webm'', ''webm''), (''audio/mp3'', ''mp3''), (''audio/mpeg'', ''mp3''),
      (''audio/wav'', ''wav''), (''audio/wave'', ''wav''), (''audio/ogg'', ''ogg''),
      (''audio/m4a'', ''m4a''), (''audio/mp4'', ''m4a'')]"

definition getFileExtension :: "jstr \<Rightarrow> jstr" where
  "getFileExtension mimeType = index_text_or mimeToExt mimeType (lit ''audio'')"

definition langMap :: "(jstr, jstr) dict" where
  "langMap = map (\<lambda>(k, v). (lit k, lit v))
     [(''en'', ''English''), (''es'', ''Spanish''), (''fr'', ''French''), (''de'', ''German''),
      (''it'', ''Italian''), (''pt'', ''Portuguese''), (''ru'', ''Russian''), (''ja'', ''Japanese''),
      (''ko'', ''Korean''), (''zh'', ''Chinese''), (''ar'', ''Arabic''), (''hi'', ''Hindi''),
      (''nl'', ''Dutch''), (''pl'', ''Polish''), (''tr'', ''Turkish''), (''sv'', ''Swedish''),
      (''da'', ''Danish''), (''no'', ''Norwegian''), (''fi'', ''Finnish'')]"

definition getLanguageName :: "jstr \<Rightarrow> jstr" where
  "getLanguageName langCode = index_text_or langMap langCode langCode"

section \<open>The request\<close>

text \<open>
  \<open>sizeMB.toFixed(2)\<close> of a size in bytes: the quotient by \<open>2 ^ 20\<close> is exact in a double,
  and a tie rounds up.
\<close>

definition size_mb_text :: "nat \<Rightarrow> jstr" where
  "size_mb_text n =
     (let h = (n * 200 + 1048576) div 2097152
      in decimal (h div 100) @ lit ''.'' @ decimal (h div 10 mod 10) @ decimal (h mod 10))"

definition transcribe_prompt :: "transcribe_options \<Rightarrow> jstr" where
  "transcribe_prompt opts =
     (let prompt = (case to_prompt opts of None \<Rightarrow> [] | Some p \<Rightarrow> p);
          language = (case to_language opts of None \<Rightarrow> [] | Some l \<Rightarrow> l)
      in if prompt \<noteq> [] then prompt
         else if language \<noteq> []
         then lit ''Transcribe the user's voice to text, the user's working language is ''
                @ getLanguageName language
         else lit ''Transcribe the user's voice to text'')"

definition transcribe_form :: "transcribe_options \<Rightarrow> nat list \<Rightarrow> jstr \<Rightarrow> body" where
  "transcribe_form opts audio mimeType =
     FormBody
       [(lit ''file'', JStr audio, Some (mimeType, lit ''audio.'' @ getFileExtension mimeType)),
        (lit ''model'', JStr (lit ''whisper-1''), None),
        (lit ''response_format'', JStr (lit ''verbose_json''), None),
        (lit ''prompt'', JStr (transcribe_prompt opts), None)]"

definition error_details :: "jstr \<Rightarrow> js_error \<Rightarrow> jstr" where
  "error_details fallback e = (case error_message e of Some m \<Rightarrow> m | None \<Rightarrow> fallback)"

text \<open>Step 2: the download, which either yields the bytes and their type or an error object.\<close>

definition download_audio ::
  "net \<Rightarrow> transcribe_options \<Rightarrow> (transcription + nat list \<times> jstr) netop" where
  "download_audio n opts =
     io_catch
       (io_bind (fetch n (get_request (to_audioUrl opts))) (\<lambda>r.
        if \<not> rs_ok r
        then io_return (Inl (TranscriptionError (lit ''Failed to download audio file'')
               INVALID_FORMAT (lit ''HTTP '' @ decimal (rs_status r) @ lit '': '' @ rs_statusText r)))
        else io_bind (io_result (rs_bytes r)) (\<lambda>audio.
          let mimeType = (case rs_contentType r of
                            Some t \<Rightarrow> if t = [] then lit ''audio/mpeg'' else t
                          | None \<Rightarrow> lit ''audio/mpeg'')
          in if length audio > 16 * (1024 * 1024)
             then io_return (Inl (TranscriptionError (lit ''Audio file exceeds maximum size limit'')
                    FILE_TOO_LARGE (lit ''File size is '' @ size_mb_text (length audio)
                      @ lit ''MB, maximum allowed is 16MB'')))
             else io_return (Inr (audio, mimeType)))))
       (\<lambda>e. io_return (Inl (TranscriptionError (lit ''Failed to fetch audio file'')
              SERVICE_ERROR (error_details (lit ''Unknown error'') e))))"

text \<open>Steps 3 to 5: the upload and the check of the answer.\<close>

definition upload_audio ::
  "net \<Rightarrow> env \<Rightarrow> transcribe_options \<Rightarrow> nat list \<times> jstr \<Rightarrow> transcription netop" where
  "upload_audio n e opts am =
     (case am of (audio, mimeType) \<Rightarrow>
       io_bind (io_result (n_url n (lit ''v1/audio/transcriptions'')
                 (Some (ensureTrailingSlash (forgeApiUrl e))))) (\<lambda>u.
       io_bind (fetch n \<lparr>rq_url = u, rq_query = [], rq_method = lit ''POST'',
                 rq_headers = [(lit ''authorization'', bearer (forgeApiKey e)),
                               (lit ''Accept-Encoding'', lit ''identity'')],
                 rq_body = transcribe_form opts audio mimeType\<rparr>) (\<lambda>r.
       if \<not> rs_ok r
       then io_return (TranscriptionError (lit ''Transcription service request failed'')
              TRANSCRIPTION_FAILED (status_line r @ with_detail (text_or_empty r)))
       else io_bind (io_result (rs_json r)) (\<lambda>whisper.
            io_bind (io_result (member whisper (lit ''text''))) (\<lambda>text.
            if \<not> is_nonempty_str text
            then io_return (TranscriptionError (lit ''Invalid transcription response'') SERVICE_ERROR
                   (lit ''Transcription service returned an invalid response format''))
            else io_return (Transcribed whisper))))))"

definition transcribeAudio :: "net \<Rightarrow> env \<Rightarrow> transcribe_options \<Rightarrow> transcription netop" where
  "transcribeAudio n e opts =
     io_catch
       (if forgeApiUrl e = []
        then io_return (TranscriptionError (lit ''Voice transcription service is not configured'')
               SERVICE_ERROR (lit ''BUILT_IN_FORGE_API_URL is not set''))
        else if forgeApiKey e = []
        then io_return (TranscriptionError (lit ''Voice transcription service authentication is missing'')
               SERVICE_ERROR (lit ''BUILT_IN_FORGE_API_KEY is not set''))
        else io_bind (download_audio n opts) (\<lambda>d.
          case d of
            Inl err \<Rightarrow> io_return err
          | Inr am \<Rightarrow> upload_audio n e opts am))
       (\<lambda>x. io_return (TranscriptionError (lit ''Voice transcription failed'') SERVICE_ERROR
              (error_details (lit ''An unexpected error occurred'') x)))"

section \<open>What it promises\<close>

lemma transcribeAudio_returns: "\<exists>t sent'. transcribeAudio n e opts sent = (Inr t, sent')"
  by (auto simp: transcribeAudio_def io_catch_def io_return_def split: prod.splits sum.splits)

lemma download_audio_log:
  "snd (download_audio n opts sent) = sent @ [get_request (to_audioUrl opts)]"
  by (auto simp: download_audio_def io_defs fetch_def Let_def split: prod.splits sum.splits)

lemma download_audio_size:
  "fst (download_audio n opts sent) = Inr (Inr (audio, m)) \<Longrightarrow> length audio \<le> 16777216"
  by (auto simp: download_audio_def io_defs fetch_def Let_def
      split: prod.splits sum.splits if_splits)

lemma upload_audio_log:
  "\<exists>more. snd (upload_audio n e opts (audio, m) sent) = sent @ more \<and>
     (\<forall>rq \<in> set more. rq_body rq = transcribe_form opts audio m)"
  by (auto simp: upload_audio_def io_defs fetch_def split: prod.splits sum.splits)

lemma upload_audio_answer:
  assumes "upload_audio n e opts am sent = (Inr (Transcribed v), sent')"
  shows "\<exists>fs s. v = JObj fs \<and> getp fs (lit ''text'') = JStr s \<and> s \<noteq> []"
proof -
  have "\<exists>t. member v (lit ''text'') = Inr t \<and> is_nonempty_str t"
    using assms
    by (auto simp: upload_audio_def io_defs fetch_def split: prod.splits sum.splits if_splits)
  then show ?thesis
    by (cases v) (auto simp: member_def is_nonempty_str_iff)
qed

text \<open>The table lookup falls through to the prototype of the object literal.\<close>

lemma getFileExtension_known:
  "dict_get mimeToExt m = Some x \<Longrightarrow> x \<noteq> [] \<Longrightarrow> getFileExtension m = x"
  by (simp add: getFileExtension_def index_text_or_def js_index_def)

lemma download_audio_error: "download_audio n opts sent = (Inr (Inl t), s1) \<Longrightarrow> t \<noteq> Transcribed v"
  by (auto simp: download_audio_def io_defs fetch_def Let_def
      split: prod.splits sum.splits if_splits)

section \<open>Properties\<close>

text \<open>
  Transcription never throws: it answers with an object, which is a transcription only
  if the service is configured and its answer has a non-empty text; without configuration no
  request is made.
\<close>

theorem transcribeAudio_answers:
  "\<exists>t sent'. transcribeAudio n e opts sent = (Inr t, sent') \<and>
     (\<not> forge_ready e \<longrightarrow> sent' = sent \<and> (\<exists>m d. t = TranscriptionError m SERVICE_ERROR d)) \<and>
     (\<forall>v. t = Transcribed v \<longrightarrow> forge_ready e \<and>
        (\<exists>fs s. v = JObj fs \<and> getp fs (lit ''text'') = JStr s \<and> s \<noteq> []))"
proof (cases "forge_ready e")
  case False
  then show ?thesis
    by (auto simp: transcribeAudio_def forge_ready_def io_catch_def io_return_def)
next
  case True
  obtain d s1 where d: "download_audio n opts sent = (d, s1)" by fastforce
  obtain t sent' where t: "transcribeAudio n e opts sent = (Inr t, sent')"
    using transcribeAudio_returns by blast
  have "\<exists>fs s. v = JObj fs \<and> getp fs (lit ''text'') = JStr s \<and> s \<noteq> []" if v: "t = Transcribed v" for v
  proof -
    from t v d True obtain am where "upload_audio n e opts am s1 = (Inr (Transcribed v), sent')"
      by (auto simp: transcribeAudio_def forge_ready_def io_catch_def io_bind_def io_return_def
          split: sum.splits prod.splits if_splits dest: download_audio_error)
    then show ?thesis by (rule upload_audio_answer)
  qed
  with t True show ?thesis by blast
qed

theorem transcribeAudio_answers_witness:
  "\<exists>t sent'. transcribeAudio (fixed_net (answer_with [(lit ''text'', JStr (lit ''hello''))] [1, 2])) sample_env
       \<lparr>to_audioUrl = lit ''https://a'', to_language = Some (lit ''th''), to_prompt = None\<rparr> [] =
       (Inr (Transcribed t), sent') \<and> (\<exists>fs s. t = JObj fs \<and> getp fs (lit ''text'') = JStr s \<and> s \<noteq> [])"
proof -
  let ?n = "fixed_net (answer_with [(lit ''text'', JStr (lit ''hello''))] [1, 2])"
  let ?o = "\<lparr>to_audioUrl = lit ''https://a'', to_language = Some (lit ''th''), to_prompt = None\<rparr>"
  obtain v sent' where "transcribeAudio ?n sample_env ?o [] = (Inr (Transcribed v), sent')"
    by (simp add: transcribeAudio_def download_audio_def upload_audio_def fixed_net_def answer_with_def
        fetch_def member_def is_nonempty_str_def sample_simps io_defs Let_def)
  with transcribeAudio_answers [of ?n sample_env ?o "[]"] show ?thesis by auto
qed

text \<open>
  A file of more than 16 MiB is refused as \<open>FILE_TOO_LARGE\<close> and never uploaded: the only
  request is its download.
\<close>

theorem transcribeAudio_limit:
  assumes "forge_ready e" and "n_fetch n sent (get_request (to_audioUrl opts)) = Inr r"
    and "rs_ok r" and "rs_bytes r = Inr audio" and "16777216 < length audio"
  shows "transcribeAudio n e opts sent =
    (Inr (TranscriptionError (lit ''Audio file exceeds maximum size limit'') FILE_TOO_LARGE
       (lit ''File size is '' @ size_mb_text (length audio) @ lit ''MB, maximum allowed is 16MB'')),
     sent @ [get_request (to_audioUrl opts)])"
  using assms
  by (simp add: transcribeAudio_def forge_ready_def download_audio_def io_defs fetch_def Let_def)

theorem transcribeAudio_limit_witness:
  "fst (transcribeAudio (fixed_net (answer_with [] (replicate 16777217 0))) sample_env
     \<lparr>to_audioUrl = lit ''https://a'', to_language = None, to_prompt = None\<rparr> []) =
   Inr (TranscriptionError (lit ''Audio file exceeds maximum size limit'') FILE_TOO_LARGE
     (lit ''File size is '' @ size_mb_text 16777217 @ lit ''MB, maximum allowed is 16MB''))"
  by (subst transcribeAudio_limit [where r = "answer_with [] (replicate 16777217 0)"
        and audio = "replicate 16777217 0"])
     (simp_all add: sample_ready fixed_net_def answer_with_def)

end
