(* ===== verification/Calculator.thy ===== *)
theory Calculator
  imports JsValue
begin

text \<open>
  The solar assessment calculator (\<open>client/src/pages/SolarAssessment.tsx\<close>): its tables,
  \<open>calculateSolar\<close> step by step as its comments number them, \<open>calculateIRR\<close>, and the wizard
  around it. A message shown to the user is a constructor with the values interpolated into
  its text.
\<close>

section \<open>Tables\<close>

record region =
  rg_name :: jstr
  rg_psh :: jsnum
  rg_ghi :: jsnum
  rg_tempCoeff :: jsnum

definition REGIONS :: "(jstr, region) dict" where
  "REGIONS =
    [(lit ''central'', \<lparr>rg_name = [0xE20, 0xE32, 0xE04, 0xE01, 0xE25, 0xE32, 0xE07] @ lit '' ('' @ [0xE01, 0xE23, 0xE38,
        0xE07, 0xE40, 0xE17, 0xE1E, 0xE2F] @ lit '', '' @ [0xE1B, 0xE23, 0xE34, 0xE21, 0xE13,
        0xE11, 0xE25, 0x29],
        rg_psh = Fin 4.3, rg_ghi = Fin 1750, rg_tempCoeff = Fin (- 0.004)\<rparr>),
     (lit ''east'', \<lparr>rg_name = [0xE20, 0xE32, 0xE04, 0xE15, 0xE30, 0xE27, 0xE31, 0xE19, 0xE2D, 0xE2D, 0xE01] @ lit '' (''
        @ [0xE0A, 0xE25, 0xE1A, 0xE38, 0xE23, 0xE35] @ lit '', '' @ [0xE23, 0xE30, 0xE22, 0xE2D,
        0xE07, 0x29],
        rg_psh = Fin 4.5, rg_ghi = Fin 1800, rg_tempCoeff = Fin (- 0.004)\<rparr>),
     (lit ''northeast'', \<lparr>rg_name = [0xE20, 0xE32, 0xE04, 0xE15, 0xE30, 0xE27, 0xE31, 0xE19, 0xE2D, 0xE2D, 0xE01, 0xE40,
        0xE09, 0xE35, 0xE22, 0xE07, 0xE40, 0xE2B, 0xE19, 0xE37, 0xE2D] @ lit '' ('' @ [0xE2D,
        0xE35, 0xE2A, 0xE32, 0xE19, 0x29],
        rg_psh = Fin 4.8, rg_ghi = Fin 1900, rg_tempCoeff = Fin (- 0.0038)\<rparr>),
     (lit ''north'', \<lparr>rg_name = [0xE20, 0xE32, 0xE04, 0xE40, 0xE2B, 0xE19, 0xE37, 0xE2D] @ lit '' ('' @ [0xE40, 0xE0A,
        0xE35, 0xE22, 0xE07, 0xE43, 0xE2B, 0xE21, 0xE48] @ lit '', '' @ [0xE25, 0xE33, 0xE1B,
        0xE32, 0xE07, 0x29],
        rg_psh = Fin 4.6, rg_ghi = Fin 1850, rg_tempCoeff = Fin (- 0.0035)\<rparr>),
     (lit ''west'', \<lparr>rg_name = [0xE20, 0xE32, 0xE04, 0xE15, 0xE30, 0xE27, 0xE31, 0xE19, 0xE15, 0xE01] @ lit '' ('' @
        [0xE01, 0xE32, 0xE0D, 0xE08, 0xE19, 0xE1A, 0xE38, 0xE23, 0xE35] @ lit '', '' @ [0xE23,
        0xE32, 0xE0A, 0xE1A, 0xE38, 0xE23, 0xE35, 0x29],
        rg_psh = Fin 4.5, rg_ghi = Fin 1800, rg_tempCoeff = Fin (- 0.004)\<rparr>),
     (lit ''south'', \<lparr>rg_name = [0xE20, 0xE32, 0xE04, 0xE43, 0xE15, 0xE49] @ lit '' ('' @ [0xE2A, 0xE38, 0xE23, 0xE32,
        0xE29, 0xE0E, 0xE23, 0xE4C, 0xE2F] @ lit '', '' @ [0xE20, 0xE39, 0xE40, 0xE01, 0xE47,
        0xE15, 0x29],
        rg_psh = Fin 4.2, rg_ghi = Fin 1700, rg_tempCoeff = Fin (- 0.0042)\<rparr>)]"

record roof_type =
  rf_name :: jstr
  rf_usableRatio :: jsnum
  rf_loadCapacity :: jstr
  rf_suitability :: jstr
  rf_weightPerPanel :: jsnum

definition ROOF_TYPES :: "(jstr, roof_type) dict" where
  "ROOF_TYPES =
    [(lit ''metal_sheet'', \<lparr>rf_name = [0xE40, 0xE21, 0xE17, 0xE31, 0xE25, 0xE0A, 0xE35, 0xE17],
        rf_usableRatio = Fin 0.7,
        rf_loadCapacity = lit ''15-20 kg/m'' @ [0xB2],
        rf_suitability = [0xE40, 0xE2B, 0xE21, 0xE32, 0xE30, 0xE21, 0xE32, 0xE01],
        rf_weightPerPanel = Fin 12\<rparr>),
     (lit ''concrete'', \<lparr>rf_name = [0xE04, 0xE2D, 0xE19, 0xE01, 0xE23, 0xE35, 0xE15] @ lit '' ('' @ [0xE14, 0xE32, 0xE14,
        0xE1F, 0xE49, 0xE32, 0x29],
        rf_usableRatio = Fin 0.65,
        rf_loadCapacity = lit ''30-50 kg/m'' @ [0xB2],
        rf_suitability = [0xE40, 0xE2B, 0xE21, 0xE32, 0xE30, 0xE21, 0xE32, 0xE01],
        rf_weightPerPanel = Fin 15\<rparr>),
     (lit ''tile'', \<lparr>rf_name = [0xE01, 0xE23, 0xE30, 0xE40, 0xE1A, 0xE37, 0xE49, 0xE2D, 0xE07],
        rf_usableRatio = Fin 0.55,
        rf_loadCapacity = lit ''10-15 kg/m'' @ [0xB2],
        rf_suitability = [0xE40, 0xE2B, 0xE21, 0xE32, 0xE30, 0xE1B, 0xE32, 0xE19, 0xE01, 0xE25, 0xE32, 0xE07],
        rf_weightPerPanel = Fin 12\<rparr>),
     (lit ''corrugated'', \<lparr>rf_name = [0xE2A, 0xE31, 0xE07, 0xE01, 0xE30, 0xE2A, 0xE35, 0x2F, 0xE25, 0xE2D, 0xE19, 0xE04, 0xE39,
        0xE48],
        rf_usableRatio = Fin 0.6,
        rf_loadCapacity = lit ''10-15 kg/m'' @ [0xB2],
        rf_suitability = [0xE15, 0xE49, 0xE2D, 0xE07, 0xE15, 0xE23, 0xE27, 0xE08, 0xE2A, 0xE2D, 0xE1A],
        rf_weightPerPanel = Fin 12\<rparr>)]"

record roof_orientation =
  or_name :: jstr
  or_factor :: jsnum
  or_note :: jstr

definition ORIENTATIONS :: "(jstr, roof_orientation) dict" where
  "ORIENTATIONS =
    [(lit ''south'', \<lparr>or_name = [0xE17, 0xE34, 0xE28, 0xE43, 0xE15, 0xE49],
        or_factor = Fin 1,
        or_note = [0xE14, 0xE35, 0xE17, 0xE35, 0xE48, 0xE2A, 0xE38, 0xE14, 0x20, 0x2014, 0x20, 0xE23, 0xE31,
        0xE1A, 0xE41, 0xE2A, 0xE07, 0xE40, 0xE15, 0xE47, 0xE21, 0xE17, 0xE35, 0xE48, 0xE15, 0xE25,
        0xE2D, 0xE14, 0xE27, 0xE31, 0xE19]\<rparr>),
     (lit ''southeast'', \<lparr>or_name = [0xE17, 0xE34, 0xE28, 0xE15, 0xE30, 0xE27, 0xE31, 0xE19, 0xE2D, 0xE2D, 0xE01, 0xE40,
        0xE09, 0xE35, 0xE22, 0xE07, 0xE43, 0xE15, 0xE49],
        or_factor = Fin 0.95,
        or_note = [0xE14, 0xE35, 0xE21, 0xE32, 0xE01, 0x20, 0x2014, 0x20, 0xE23, 0xE31, 0xE1A, 0xE41, 0xE2A,
        0xE07, 0xE40, 0xE0A, 0xE49, 0xE32, 0xE44, 0xE14, 0xE49, 0xE14, 0xE35]\<rparr>),
     (lit ''southwest'', \<lparr>or_name = [0xE17, 0xE34, 0xE28, 0xE15, 0xE30, 0xE27, 0xE31, 0xE19, 0xE15, 0xE01, 0xE40, 0xE09,
        0xE35, 0xE22, 0xE07, 0xE43, 0xE15, 0xE49],
        or_factor = Fin 0.95,
        or_note = [0xE14, 0xE35, 0xE21, 0xE32, 0xE01, 0x20, 0x2014, 0x20, 0xE23, 0xE31, 0xE1A, 0xE41, 0xE2A,
        0xE07, 0xE1A, 0xE48, 0xE32, 0xE22, 0xE44, 0xE14, 0xE49, 0xE14, 0xE35]\<rparr>),
     (lit ''east'', \<lparr>or_name = [0xE17, 0xE34, 0xE28, 0xE15, 0xE30, 0xE27, 0xE31, 0xE19, 0xE2D, 0xE2D, 0xE01],
        or_factor = Fin 0.88,
        or_note = [0xE14, 0xE35, 0x20, 0x2014, 0x20, 0xE40, 0xE19, 0xE49, 0xE19, 0xE1C, 0xE25, 0xE34, 0xE15,
        0xE0A, 0xE48, 0xE27, 0xE07, 0xE40, 0xE0A, 0xE49, 0xE32]\<rparr>),
     (lit ''west'', \<lparr>or_name = [0xE17, 0xE34, 0xE28, 0xE15, 0xE30, 0xE27, 0xE31, 0xE19, 0xE15, 0xE01],
        or_factor = Fin 0.88,
        or_note = [0xE14, 0xE35, 0x20, 0x2014, 0x20, 0xE40, 0xE19, 0xE49, 0xE19, 0xE1C, 0xE25, 0xE34, 0xE15,
        0xE0A, 0xE48, 0xE27, 0xE07, 0xE1A, 0xE48, 0xE32, 0xE22]\<rparr>),
     (lit ''north'', \<lparr>or_name = [0xE17, 0xE34, 0xE28, 0xE40, 0xE2B, 0xE19, 0xE37, 0xE2D],
        or_factor = Fin 0.75,
        or_note = [0xE44, 0xE21, 0xE48, 0xE41, 0xE19, 0xE30, 0xE19, 0xE33, 0x20, 0x2014, 0x20, 0xE1C, 0xE25,
        0xE1C, 0xE25, 0xE34, 0xE15, 0xE15, 0xE48, 0xE33]\<rparr>),
     (lit ''flat'', \<lparr>or_name = [0xE2B, 0xE25, 0xE31, 0xE07, 0xE04, 0xE32, 0xE41, 0xE1A, 0xE19] @ lit '' (0'' @ [0xB0,
        0x29],
        or_factor = Fin 0.92,
        or_note = [0xE14, 0xE35, 0x20, 0x2014, 0x20, 0xE15, 0xE34, 0xE14, 0xE15, 0xE31, 0xE49, 0xE07, 0xE1A,
        0xE19, 0xE02, 0xE32, 0xE15, 0xE31, 0xE49, 0xE07, 0xE1B, 0xE23, 0xE31, 0xE1A, 0xE21, 0xE38,
        0xE21]\<rparr>)]"

text \<open>The icon of a business type is left out: it is a picture.\<close>

record business =
  bz_nameKey :: jstr
  bz_daytimeRatio :: jsnum
  bz_avgRate :: jsnum
  bz_peakRate :: jsnum
  bz_offPeakRate :: jsnum
  bz_costPerKwp :: jsnum
  bz_typicalBill :: jstr
  bz_operatingHoursKey :: jstr
  bz_peakDemandHours :: jstr
  bz_nightUsageRatio :: jsnum
  bz_demandCharge :: jsnum
  bz_hourlyProfile :: "jsnum list"

definition FACTORY_PROFILE :: "jsnum list" where
  "FACTORY_PROFILE =
     map Fin [0.02, 0.02, 0.02, 0.02, 0.02, 0.03, 0.05, 0.06, 0.07, 0.07, 0.07, 0.06, 0.06, 0.07, 0.07,
       0.07, 0.06, 0.05, 0.04, 0.03, 0.02, 0.02, 0.02, 0.02]"

definition OFFICE_PROFILE :: "jsnum list" where
  "OFFICE_PROFILE =
     map Fin [0.01, 0.01, 0.01, 0.01, 0.01, 0.01, 0.02, 0.05, 0.08, 0.09, 0.09, 0.09, 0.08, 0.09, 0.09,
       0.09, 0.08, 0.05, 0.02, 0.01, 0.01, 0.01, 0.01, 0.01]"

definition HOTEL_PROFILE :: "jsnum list" where
  "HOTEL_PROFILE =
     map Fin [0.03, 0.03, 0.02, 0.02, 0.02, 0.03, 0.04, 0.05, 0.05, 0.05, 0.05, 0.05, 0.05, 0.05, 0.05,
       0.05, 0.05, 0.05, 0.05, 0.05, 0.05, 0.04, 0.04, 0.03]"

definition SOLAR_HOURLY_PROFILE :: "jsnum list" where
  "SOLAR_HOURLY_PROFILE =
     map Fin [0, 0, 0, 0, 0, 0, 0.02, 0.06, 0.1, 0.14, 0.16, 0.17, 0.16, 0.14, 0.1, 0.06, 0.02, 0, 0, 0,
       0, 0, 0, 0]"

definition BUSINESS_TYPES :: "(jstr, business) dict" where
  "BUSINESS_TYPES =
    [(lit ''factory'', \<lparr>bz_nameKey = lit ''sa.biz.factory'',
        bz_daytimeRatio = Fin 0.7, bz_avgRate = Fin 4.2, bz_peakRate = Fin 5.3, bz_offPeakRate = Fin 2.6,
        bz_costPerKwp = Fin 28000,
        bz_typicalBill = [0xE01, 0xE23, 0xE2D, 0xE01, 0xE1A, 0xE34, 0xE25, 0xE08, 0xE23, 0xE34, 0xE07],
        bz_operatingHoursKey = lit ''sa.biz.hours.8_24'', bz_peakDemandHours = lit ''09:00-22:00'',
        bz_nightUsageRatio = Fin 0.3, bz_demandCharge = Fin 132.93, bz_hourlyProfile = FACTORY_PROFILE\<rparr>),
     (lit ''commercial'', \<lparr>bz_nameKey = lit ''sa.biz.commercial'',
        bz_daytimeRatio = Fin 0.65, bz_avgRate = Fin 4.5, bz_peakRate = Fin 5.5, bz_offPeakRate = Fin 2.8,
        bz_costPerKwp = Fin 30000,
        bz_typicalBill = [0xE01, 0xE23, 0xE2D, 0xE01, 0xE1A, 0xE34, 0xE25, 0xE08, 0xE23, 0xE34, 0xE07],
        bz_operatingHoursKey = lit ''sa.biz.hours.8_12'', bz_peakDemandHours = lit ''08:00-18:00'',
        bz_nightUsageRatio = Fin 0.15, bz_demandCharge = Fin 210, bz_hourlyProfile = OFFICE_PROFILE\<rparr>),
     (lit ''warehouse'', \<lparr>bz_nameKey = lit ''sa.biz.warehouse'',
        bz_daytimeRatio = Fin 0.6, bz_avgRate = Fin 4.3, bz_peakRate = Fin 5.2, bz_offPeakRate = Fin 2.7,
        bz_costPerKwp = Fin 28000,
        bz_typicalBill = [0xE01, 0xE23, 0xE2D, 0xE01, 0xE1A, 0xE34, 0xE25, 0xE08, 0xE23, 0xE34, 0xE07],
        bz_operatingHoursKey = lit ''sa.biz.hours.10_18'', bz_peakDemandHours = lit ''10:00-21:00'',
        bz_nightUsageRatio = Fin 0.25, bz_demandCharge = Fin 132.93, bz_hourlyProfile = FACTORY_PROFILE\<rparr>),
     (lit ''hotel'', \<lparr>bz_nameKey = lit ''sa.biz.hotel'',
        bz_daytimeRatio = Fin 0.5, bz_avgRate = Fin 4.3, bz_peakRate = Fin 5.3, bz_offPeakRate = Fin 2.7,
        bz_costPerKwp = Fin 32000,
        bz_typicalBill = [0xE01, 0xE23, 0xE2D, 0xE01, 0xE1A, 0xE34, 0xE25, 0xE08, 0xE23, 0xE34, 0xE07],
        bz_operatingHoursKey = lit ''sa.biz.hours.24'', bz_peakDemandHours = lit ''06:00-23:00'',
        bz_nightUsageRatio = Fin 0.4, bz_demandCharge = Fin 210, bz_hourlyProfile = HOTEL_PROFILE\<rparr>),
     (lit ''education'', \<lparr>bz_nameKey = lit ''sa.biz.education'',
        bz_daytimeRatio = Fin 0.75, bz_avgRate = Fin 4, bz_peakRate = Fin 5, bz_offPeakRate = Fin 2.5,
        bz_costPerKwp = Fin 30000,
        bz_typicalBill = [0xE01, 0xE23, 0xE2D, 0xE01, 0xE1A, 0xE34, 0xE25, 0xE08, 0xE23, 0xE34, 0xE07],
        bz_operatingHoursKey = lit ''sa.biz.hours.8_10'', bz_peakDemandHours = lit ''07:00-17:00'',
        bz_nightUsageRatio = Fin 0.1, bz_demandCharge = Fin 132.93, bz_hourlyProfile = OFFICE_PROFILE\<rparr>),
     (lit ''agriculture'', \<lparr>bz_nameKey = lit ''sa.biz.agriculture'',
        bz_daytimeRatio = Fin 0.8, bz_avgRate = Fin 3.8, bz_peakRate = Fin 4.8, bz_offPeakRate = Fin 2.4,
        bz_costPerKwp = Fin 28000,
        bz_typicalBill = [0xE01, 0xE23, 0xE2D, 0xE01, 0xE1A, 0xE34, 0xE25, 0xE08, 0xE23, 0xE34, 0xE07],
        bz_operatingHoursKey = lit ''sa.biz.hours.8_14'', bz_peakDemandHours = lit ''06:00-18:00'',
        bz_nightUsageRatio = Fin 0.15, bz_demandCharge = Fin 0, bz_hourlyProfile = FACTORY_PROFILE\<rparr>),
     (lit ''government'', \<lparr>bz_nameKey = lit ''sa.biz.government'',
        bz_daytimeRatio = Fin 0.7, bz_avgRate = Fin 4, bz_peakRate = Fin 5, bz_offPeakRate = Fin 2.5,
        bz_costPerKwp = Fin 30000,
        bz_typicalBill = [0xE01, 0xE23, 0xE2D, 0xE01, 0xE1A, 0xE34, 0xE25, 0xE08, 0xE23, 0xE34, 0xE07],
        bz_operatingHoursKey = lit ''sa.biz.hours.8_10'', bz_peakDemandHours = lit ''08:00-17:00'',
        bz_nightUsageRatio = Fin 0.1, bz_demandCharge = Fin 132.93, bz_hourlyProfile = OFFICE_PROFILE\<rparr>)]"

section \<open>Constants\<close>

definition BESS_COST_PER_KWH :: jsnum where
  "BESS_COST_PER_KWH = Fin 12000"

definition BESS_ROUND_TRIP_EFF :: jsnum where
  "BESS_ROUND_TRIP_EFF = Fin 0.92"

definition BESS_DOD :: jsnum where
  "BESS_DOD = Fin 0.9"

definition BESS_CYCLE_LIFE :: jsnum where
  "BESS_CYCLE_LIFE = Fin 6000"

definition BESS_DEGRADATION_YEAR :: jsnum where
  "BESS_DEGRADATION_YEAR = Fin 0.025"

definition PANEL_WATT :: jsnum where
  "PANEL_WATT = Fin 580"

definition PANEL_EFFICIENCY :: jsnum where
  "PANEL_EFFICIENCY = Fin 0.215"

definition AREA_PER_KWP :: jsnum where
  "AREA_PER_KWP = Fin 4.8"

definition PERFORMANCE_RATIO :: jsnum where
  "PERFORMANCE_RATIO = Fin 0.82"

definition YEAR1_DEGRADATION :: jsnum where
  "YEAR1_DEGRADATION = Fin 0.02"

definition ANNUAL_DEGRADATION :: jsnum where
  "ANNUAL_DEGRADATION = Fin 0.005"

definition INVERTER_COST_RATIO :: jsnum where
  "INVERTER_COST_RATIO = Fin 0.15"

definition MAINTENANCE_COST_PER_KWP :: jsnum where
  "MAINTENANCE_COST_PER_KWP = Fin 500"

definition INSURANCE_RATE :: jsnum where
  "INSURANCE_RATE = Fin 0.003"

definition ELECTRICITY_ESCALATION :: jsnum where
  "ELECTRICITY_ESCALATION = Fin 0.03"

definition SYSTEM_LIFETIME :: nat where
  "SYSTEM_LIFETIME = 25"

definition INVERTER_REPLACEMENT_YEAR :: nat where
  "INVERTER_REPLACEMENT_YEAR = 12"

definition MONTHLY_PRODUCTION_FACTORS :: "jsnum list" where
  "MONTHLY_PRODUCTION_FACTORS =
     map Fin [0.95, 1, 1.05, 1.08, 0.98, 0.9, 0.88, 0.85, 0.88, 0.95, 1, 0.98]"

section \<open>Input and result\<close>

datatype input_mode = ByBill | ByKwh

datatype bess_mode = NightMode | BackupMode | PeakShavingMode | HybridMode

record calc_input =
  ci_businessType :: jstr
  ci_monthlyBill :: jsnum
  ci_monthlyKwh :: jsnum
  ci_inputMode :: input_mode
  ci_roofArea :: jsnum
  ci_roofType :: jstr
  ci_orientation :: jstr
  ci_region :: jstr
  ci_desiredKwp :: jsnum
  ci_wantBess :: bool
  ci_bessMode :: bess_mode
  ci_backupHours :: jsnum
  ci_nightCoverage :: jsnum
  ci_tiltAngle :: jsnum
  ci_shading :: jsnum
  ci_gridExportAllowed :: bool

record yearly_projection =
  yp_year :: nat
  yp_production :: jsnum
  yp_savings :: jsnum
  yp_cumulativeSavings :: jsnum
  yp_netCashFlow :: jsnum
  yp_cumulativeNetCashFlow :: jsnum
  yp_maintenanceCost :: jsnum
  yp_electricityRate :: jsnum

datatype size_verdict = Optimal | Undersized | Oversized | RoofLimited | Unreasonable

text \<open>The messages, with the numbers and the name each one shows.\<close>

datatype warning =
    NoRoofCapacity
  | AboveRoof jsnum jsnum jsnum
  | FarAboveRecommended jsnum jsnum
  | FarBelowRecommended jsnum
  | LongPayback jsnum
  | PoorOrientation jstr jsnum
  | CheckTileRoof jsnum
  | HeavyShading jsnum

datatype recommendation =
    SurveySite
  | ConsiderBess
  | ConsiderPpa
  | LowLcoe jsnum jsnum
  | HighIrr jsnum
  | DemandCharge jsnum

text \<open>\<open>TABLE[key] || TABLE.fallback\<close>: an inherited property is truthy and hides the fallback.\<close>

definition table_or :: "(jstr, 'a) dict \<Rightarrow> string \<Rightarrow> 'a \<Rightarrow> jstr \<Rightarrow> 'a" where
  "table_or table fallback alien key =
     (case js_index table key of
        Own v \<Rightarrow> v
      | Inherited _ \<Rightarrow> alien
      | Missing \<Rightarrow> (case dict_get table (lit fallback) of None \<Rightarrow> alien | Some v \<Rightarrow> v))"

text \<open>
  The members of an inherited property are \<open>undefined\<close>, which is \<open>NaN\<close> in arithmetic; the
  hourly profile of such a business type is read with \<open>map\<close>, so the calculation throws.
\<close>

definition region_of :: "jstr \<Rightarrow> region" where
  "region_of = table_or REGIONS ''central''
     \<lparr>rg_name = [], rg_psh = NaN, rg_ghi = NaN, rg_tempCoeff = NaN\<rparr>"

definition roof_of :: "jstr \<Rightarrow> roof_type" where
  "roof_of = table_or ROOF_TYPES ''metal_sheet''
     \<lparr>rf_name = [], rf_usableRatio = NaN, rf_loadCapacity = [], rf_suitability = [], rf_weightPerPanel = NaN\<rparr>"

definition orientation_of :: "jstr \<Rightarrow> roof_orientation" where
  "orientation_of = table_or ORIENTATIONS ''south'' \<lparr>or_name = [], or_factor = NaN, or_note = []\<rparr>"

definition business_of :: "jstr \<Rightarrow> business result" where
  "business_of key = table_or (map (\<lambda>(k, b). (k, Inr b)) BUSINESS_TYPES) ''factory''
     (Inl (JsTypeError (lit ''Cannot read properties of undefined (reading '' @ [0x27] @ lit ''map''
        @ [0x27] @ lit '')''))) key"

section \<open>Steps 1 to 4: consumption and size\<close>

record sizing =
  sz_monthlyConsumption :: jsnum
  sz_annualConsumption :: jsnum
  sz_daytimeConsumption :: jsnum
  sz_nightConsumption :: jsnum
  sz_effectivePSH :: jsnum
  sz_recommendedKwp :: jsnum
  sz_usableRoofArea :: jsnum
  sz_maxKwpFromRoof :: jsnum
  sz_actualKwp :: jsnum
  sz_installable :: bool
  sz_numberOfPanels :: jsnum
  sz_requiredRoofArea :: jsnum
  sz_totalWeight :: jsnum

text \<open>\<open>Math.round(x * 10) / 10\<close>.\<close>

definition round1 :: "jsnum \<Rightarrow> jsnum" where
  "round1 x = math_round (x * 10) / 10"

definition tiltFactor :: "jsnum \<Rightarrow> jsnum" where
  "tiltFactor a =
     (if 10 \<le> a \<and> a \<le> 20 then Fin 1 else if a < 10 then Fin 0.95 else if a \<le> 30 then Fin 0.98 else Fin 0.93)"

definition monthly_consumption :: "business \<Rightarrow> calc_input \<Rightarrow> jsnum" where
  "monthly_consumption biz input =
     (if ci_inputMode input = ByKwh \<and> 0 < ci_monthlyKwh input then ci_monthlyKwh input
      else ci_monthlyBill input / bz_avgRate biz)"

definition effective_psh :: "calc_input \<Rightarrow> jsnum" where
  "effective_psh input =
     rg_psh (region_of (ci_region input)) * or_factor (orientation_of (ci_orientation input))
       * tiltFactor (ci_tiltAngle input) * (1 - ci_shading input / 100)"

definition size_system :: "business \<Rightarrow> calc_input \<Rightarrow> sizing" where
  "size_system biz input =
     (let roof = roof_of (ci_roofType input);
          monthlyConsumption = monthly_consumption biz input;
          annualConsumption = monthlyConsumption * 12;
          daytimeConsumption = annualConsumption * bz_daytimeRatio biz;
          nightConsumption = annualConsumption * bz_nightUsageRatio biz;
          effectivePSH = effective_psh input;
          recommendedKwp = round1 (daytimeConsumption / (effectivePSH * 365 * PERFORMANCE_RATIO));
          usableRoofArea = ci_roofArea input * rf_usableRatio roof;
          maxKwpFromRoof = round1 (usableRoofArea / AREA_PER_KWP);
          desiredKwp = (if 0 < ci_desiredKwp input then ci_desiredKwp input else recommendedKwp);
          actualKwp = math_min desiredKwp maxKwpFromRoof;
          installable = (0 < actualKwp);
          numberOfPanels = (if installable then math_ceil (actualKwp * 1000 / PANEL_WATT) else 0)
      in \<lparr>sz_monthlyConsumption = monthlyConsumption, sz_annualConsumption = annualConsumption,
          sz_daytimeConsumption = daytimeConsumption, sz_nightConsumption = nightConsumption,
          sz_effectivePSH = effectivePSH, sz_recommendedKwp = recommendedKwp,
          sz_usableRoofArea = usableRoofArea, sz_maxKwpFromRoof = maxKwpFromRoof,
          sz_actualKwp = actualKwp, sz_installable = installable,
          sz_numberOfPanels = numberOfPanels,
          sz_requiredRoofArea = math_round (actualKwp * AREA_PER_KWP),
          sz_totalWeight = numberOfPanels * rf_weightPerPanel roof\<rparr>)"

section \<open>Step 5: production\<close>

record production =
  pd_year1 :: jsnum
  pd_annual :: jsnum
  pd_daily :: jsnum
  pd_specificYield :: jsnum
  pd_capacityFactor :: jsnum
  pd_monthlyProfile :: "jsnum list"
  pd_hourlyProduction :: "jsnum list"
  pd_hourlyConsumption :: "jsnum list"
  pd_selfConsumption :: jsnum

definition self_consumption :: "bool \<Rightarrow> jsnum \<Rightarrow> jsnum" where
  "self_consumption export ratio =
     (if export
      then (if ratio \<le> 1 then Fin 0.85 else if ratio \<le> Fin 1.3 then Fin 0.75 else Fin 0.6)
      else (if ratio \<le> 1 then Fin 0.92 + ratio * Fin 0.03 else if ratio \<le> Fin 1.3 then Fin 0.85
            else if ratio \<le> Fin 1.5 then Fin 0.75 else Fin 0.65))"

definition produce :: "business \<Rightarrow> calc_input \<Rightarrow> sizing \<Rightarrow> production" where
  "produce biz input sz =
     (let year1 = (if sz_installable sz
                   then sz_actualKwp sz * sz_effectivePSH sz * 365 * PERFORMANCE_RATIO else 0);
          annual = year1 * (1 - YEAR1_DEGRADATION);
          dailyProd = annual / 365;
          dailyCons = sz_annualConsumption sz / 365
      in \<lparr>pd_year1 = year1, pd_annual = annual, pd_daily = dailyProd,
          pd_specificYield = (if sz_installable sz then math_round (annual / sz_actualKwp sz) else 0),
          pd_capacityFactor =
            (if sz_installable sz then math_round (annual / (sz_actualKwp sz * 8760) * 1000) / 10 else 0),
          pd_monthlyProfile = map (\<lambda>f. math_round (annual / 12 * f)) MONTHLY_PRODUCTION_FACTORS,
          pd_hourlyProduction = map (\<lambda>f. round1 (dailyProd * f)) SOLAR_HOURLY_PROFILE,
          pd_hourlyConsumption = map (\<lambda>f. round1 (dailyCons * f)) (bz_hourlyProfile biz),
          pd_selfConsumption =
            self_consumption (ci_gridExportAllowed input) (annual / sz_daytimeConsumption sz)\<rparr>)"

section \<open>The internal rate of return\<close>

text \<open>One pass over the cash flows: the net present value and its derivative.\<close>

definition npv_step :: "jsnum \<Rightarrow> jsnum \<times> jsnum \<Rightarrow> nat \<times> jsnum \<Rightarrow> jsnum \<times> jsnum" where
  "npv_step rate acc e =
     (case (acc, e) of ((npv, dnpv), (i, cf)) \<Rightarrow>
        (npv + cf / (1 + rate) ^ i, dnpv - Fin (of_nat i) * cf / (1 + rate) ^ (i + 1)))"

definition npv_pass :: "jsnum list \<Rightarrow> jsnum \<Rightarrow> jsnum \<times> jsnum" where
  "npv_pass cashFlows rate = foldl (npv_step rate) (0, 0) (enumerate 0 cashFlows)"

text \<open>Newton's method: at most as many iterations as the first argument, 100 in the code.\<close>

fun irr_loop :: "nat \<Rightarrow> jsnum list \<Rightarrow> jsnum \<Rightarrow> jsnum" where
  "irr_loop 0 cashFlows rate = rate"
| "irr_loop (Suc n) cashFlows rate =
     (case npv_pass cashFlows rate of (npv, dnpv) \<Rightarrow>
        if math_abs dnpv < Fin (1 / 10 ^ 10) then rate
        else (let newRate = rate - npv / dnpv in
              if math_abs (newRate - rate) < Fin (1 / 10 ^ 6) then rate
              else irr_loop n cashFlows newRate))"

definition calculateIRR :: "jsnum list \<Rightarrow> jsnum" where
  "calculateIRR cashFlows = math_round (irr_loop 100 cashFlows (Fin 0.1) * 1000) / 10"

section \<open>Step 6: finance\<close>

record finance =
  fi_systemCost :: jsnum
  fi_annualSavings :: jsnum
  fi_simplePayback :: jsnum
  fi_projection :: "yearly_projection list"
  fi_lifetimeSavings :: jsnum
  fi_roi25Year :: jsnum
  fi_lcoe :: jsnum
  fi_irr :: jsnum

text \<open>The variables of the loop over the years.\<close>

record loop_state =
  lo_lifetimeSavings :: jsnum
  lo_yearProduction :: jsnum
  lo_cumulativeSavings :: jsnum
  lo_cumulativeNetCashFlow :: jsnum
  lo_rows :: "yearly_projection list"

definition year_step :: "jsnum \<Rightarrow> jsnum \<Rightarrow> jsnum \<Rightarrow> jsnum \<Rightarrow> loop_state \<Rightarrow> nat \<Rightarrow> loop_state" where
  "year_step actualKwp systemCost selfConsumption savingsRate st y =
     (let yearProduction = lo_yearProduction st
            * (if y = 1 then 1 - YEAR1_DEGRADATION else 1 - ANNUAL_DEGRADATION);
          escRate = savingsRate * (1 + ELECTRICITY_ESCALATION) ^ (y - 1);
          yearSavings = yearProduction * selfConsumption * escRate;
          maintenanceCost = actualKwp * MAINTENANCE_COST_PER_KWP + systemCost * INSURANCE_RATE;
          inverterReplacement = (if y = INVERTER_REPLACEMENT_YEAR then systemCost * INVERTER_COST_RATIO else 0);
          netCashFlow = yearSavings - maintenanceCost - inverterReplacement;
          cumulativeSavings = lo_cumulativeSavings st + yearSavings;
          cumulativeNetCashFlow = lo_cumulativeNetCashFlow st + netCashFlow
      in \<lparr>lo_lifetimeSavings = lo_lifetimeSavings st + yearSavings,
          lo_yearProduction = yearProduction,
          lo_cumulativeSavings = cumulativeSavings,
          lo_cumulativeNetCashFlow = cumulativeNetCashFlow,
          lo_rows = lo_rows st @
            [\<lparr>yp_year = y, yp_production = math_round yearProduction, yp_savings = math_round yearSavings,
              yp_cumulativeSavings = math_round cumulativeSavings,
              yp_netCashFlow = math_round netCashFlow,
              yp_cumulativeNetCashFlow = math_round cumulativeNetCashFlow,
              yp_maintenanceCost = math_round (maintenanceCost + inverterReplacement),
              yp_electricityRate = math_round (escRate * 100) / 100\<rparr>]\<rparr>)"

definition project_years :: "jsnum \<Rightarrow> jsnum \<Rightarrow> jsnum \<Rightarrow> jsnum \<Rightarrow> jsnum \<Rightarrow> loop_state" where
  "project_years year1 actualKwp systemCost selfConsumption savingsRate =
     foldl (year_step actualKwp systemCost selfConsumption savingsRate)
       \<lparr>lo_lifetimeSavings = 0, lo_yearProduction = year1, lo_cumulativeSavings = 0,
        lo_cumulativeNetCashFlow = - systemCost, lo_rows = []\<rparr>
       [1..<SYSTEM_LIFETIME + 1]"

definition savings_rate :: "business \<Rightarrow> jsnum" where
  "savings_rate biz = bz_avgRate biz * Fin 0.85 + bz_peakRate biz * Fin 0.15"

definition financials :: "business \<Rightarrow> sizing \<Rightarrow> production \<Rightarrow> finance" where
  "financials biz sz pd =
     (let systemCost = sz_actualKwp sz * bz_costPerKwp biz;
          annualSavings = pd_annual pd * pd_selfConsumption pd * savings_rate biz;
          simplePayback = (if 0 < annualSavings then systemCost / annualSavings else 0);
          st = project_years (pd_year1 pd) (sz_actualKwp sz) systemCost (pd_selfConsumption pd) (savings_rate biz);
          rows = lo_rows st;
          totalMaintenance = jsum (map yp_maintenanceCost rows);
          totalLifetimeProduction = jsum (map yp_production rows)
      in \<lparr>fi_systemCost = systemCost, fi_annualSavings = annualSavings, fi_simplePayback = simplePayback,
          fi_projection = rows, fi_lifetimeSavings = lo_lifetimeSavings st,
          fi_roi25Year = (if 0 < systemCost
            then (lo_lifetimeSavings st - systemCost - totalMaintenance) / systemCost * 100 else 0),
          fi_lcoe = (if 0 < totalLifetimeProduction
            then math_round ((systemCost + totalMaintenance) / totalLifetimeProduction * 100) / 100 else 0),
          fi_irr = (if 0 < systemCost then calculateIRR (- systemCost # map yp_netCashFlow rows) else 0)\<rparr>)"

section \<open>Step 7: battery\<close>

record bess =
  bs_capacityKwh :: jsnum
  bs_capacityKw :: jsnum
  bs_cost :: jsnum
  bs_annualSavings :: jsnum
  bs_payback :: jsnum
  bs_demandSavings :: jsnum

definition no_bess :: bess where
  "no_bess = \<lparr>bs_capacityKwh = 0, bs_capacityKw = 0, bs_cost = 0, bs_annualSavings = 0,
              bs_payback = 0, bs_demandSavings = 0\<rparr>"

fun raw_capacity :: "bess_mode \<Rightarrow> jsnum \<Rightarrow> jsnum \<Rightarrow> jsnum \<Rightarrow> jsnum" where
  "raw_capacity NightMode night backup excess = night"
| "raw_capacity BackupMode night backup excess = backup"
| "raw_capacity PeakShavingMode night backup excess = excess * Fin 0.8"
| "raw_capacity HybridMode night backup excess = math_max (math_max night backup) (excess * Fin 0.8)"

definition size_bess :: "business \<Rightarrow> calc_input \<Rightarrow> sizing \<Rightarrow> production \<Rightarrow> bess" where
  "size_bess biz input sz pd =
     (if \<not> ci_wantBess input then no_bess
      else
        (let nightDailyKwh = sz_nightConsumption sz / 365 * (ci_nightCoverage input / 100);
             avgHourlyLoad = sz_monthlyConsumption sz / (30 * 24);
             backupKwh = avgHourlyLoad * ci_backupHours input;
             excessSolar = math_max 0 (pd_daily pd - sz_daytimeConsumption sz / 365);
             rawCapacity = raw_capacity (ci_bessMode input) nightDailyKwh backupKwh excessSolar;
             capacityKwh = round1 (rawCapacity / (BESS_DOD * BESS_ROUND_TRIP_EFF));
             capacityKw = round1 (capacityKwh / math_max (ci_backupHours input) 2);
             bessCost = math_round (capacityKwh * BESS_COST_PER_KWH);
             nightSavings = nightDailyKwh * 365 * bz_offPeakRate biz * BESS_ROUND_TRIP_EFF;
             peakShavingSavings = excessSolar * Fin 0.7 * 365 * (bz_peakRate biz - bz_avgRate biz);
             demandSavings = (if 0 < bz_demandCharge biz
               then capacityKw * bz_demandCharge biz * 12 * Fin 0.5 else 0);
             annualSavings = nightSavings + peakShavingSavings + demandSavings
         in \<lparr>bs_capacityKwh = capacityKwh, bs_capacityKw = capacityKw, bs_cost = bessCost,
             bs_annualSavings = annualSavings,
             bs_payback = (if 0 < bessCost \<and> 0 < annualSavings then bessCost / annualSavings else 0),
             bs_demandSavings = demandSavings\<rparr>))"

section \<open>Step 9: validation\<close>

definition push_if :: "bool \<Rightarrow> 'a \<Rightarrow> 'a list" where
  "push_if b x = (if b then [x] else [])"

definition size_verdict_of :: "calc_input \<Rightarrow> sizing \<Rightarrow> size_verdict" where
  "size_verdict_of input sz =
     (let desired = ci_desiredKwp input;
          v = (if sz_maxKwpFromRoof sz \<le> 0 \<or> \<not> sz_installable sz then RoofLimited else Optimal);
          v = (if 0 < desired \<and> sz_maxKwpFromRoof sz < desired then RoofLimited else v);
          v = (if 0 < desired \<and> sz_recommendedKwp sz * Fin 1.5 < desired \<and> v = Optimal then Oversized else v);
          v = (if sz_installable sz \<and> 0 < desired \<and> desired < sz_recommendedKwp sz * Fin 0.3
               then Undersized else v)
      in if 0 < desired \<and> sz_recommendedKwp sz * 2 < desired then Unreasonable else v)"

definition warnings_of :: "calc_input \<Rightarrow> sizing \<Rightarrow> finance \<Rightarrow> warning list" where
  "warnings_of input sz fi =
     (let desired = ci_desiredKwp input; recommended = sz_recommendedKwp sz;
          orient = orientation_of (ci_orientation input) in
      push_if (sz_maxKwpFromRoof sz \<le> 0 \<or> \<not> sz_installable sz) NoRoofCapacity @
      push_if (0 < desired \<and> sz_maxKwpFromRoof sz < desired)
        (AboveRoof desired (sz_maxKwpFromRoof sz) (sz_actualKwp sz)) @
      push_if (0 < desired \<and> recommended * Fin 1.5 < desired)
        (FarAboveRecommended desired (math_round ((desired / recommended - 1) * 100))) @
      push_if (sz_installable sz \<and> 0 < desired \<and> desired < recommended * Fin 0.3)
        (FarBelowRecommended desired) @
      push_if (8 < fi_simplePayback fi) (LongPayback (fi_simplePayback fi)) @
      push_if (or_factor orient < Fin 0.8)
        (PoorOrientation (or_name orient) (math_round ((1 - or_factor orient) * 100))) @
      push_if (0 < sz_totalWeight sz \<and> ci_roofType input = lit ''tile'') (CheckTileRoof (sz_totalWeight sz)) @
      push_if (15 < ci_shading input) (HeavyShading (ci_shading input)))"

definition recommendations_of :: "business \<Rightarrow> calc_input \<Rightarrow> sizing \<Rightarrow> finance \<Rightarrow> recommendation list" where
  "recommendations_of biz input sz fi =
     push_if (sz_installable sz \<and> size_verdict_of input sz \<in> {Optimal, RoofLimited}) SurveySite @
     push_if (\<not> ci_wantBess input \<and> Fin 0.25 < bz_nightUsageRatio biz) ConsiderBess @
     push_if (100 \<le> sz_actualKwp sz) ConsiderPpa @
     push_if (fi_lcoe fi < bz_avgRate biz * Fin 0.5)
       (LowLcoe (fi_lcoe fi) (math_round ((1 - fi_lcoe fi / bz_avgRate biz) * 100))) @
     push_if (15 < fi_irr fi) (HighIrr (fi_irr fi)) @
     push_if (0 < bz_demandCharge biz \<and> \<not> ci_wantBess input) (DemandCharge (bz_demandCharge biz))"

section \<open>The result\<close>

record solar_result =
  sr_monthlyConsumption :: jsnum
  sr_annualConsumption :: jsnum
  sr_daytimeConsumption :: jsnum
  sr_recommendedKwp :: jsnum
  sr_maxKwpFromRoof :: jsnum
  sr_actualKwp :: jsnum
  sr_numberOfPanels :: jsnum
  sr_requiredRoofArea :: jsnum
  sr_usableRoofArea :: jsnum
  sr_totalWeight :: jsnum
  sr_annualProduction :: jsnum
  sr_monthlyProduction :: jsnum
  sr_dailyProduction :: jsnum
  sr_selfConsumptionRatio :: jsnum
  sr_specificYield :: jsnum
  sr_capacityFactor :: jsnum
  sr_monthlyProductionProfile :: "jsnum list"
  sr_hourlyProductionProfile :: "jsnum list"
  sr_hourlyConsumptionProfile :: "jsnum list"
  sr_systemCost :: jsnum
  sr_annualSavings :: jsnum
  sr_monthlySavings :: jsnum
  sr_simplePayback :: jsnum
  sr_roi25Year :: jsnum
  sr_lifetimeSavings :: jsnum
  sr_co2Reduction :: jsnum
  sr_treesEquivalent :: jsnum
  sr_lcoe :: jsnum
  sr_irr :: jsnum
  sr_yearlyProjection :: "yearly_projection list"
  sr_bessCapacityKwh :: jsnum
  sr_bessCapacityKw :: jsnum
  sr_bessCost :: jsnum
  sr_bessAnnualSavings :: jsnum
  sr_bessPayback :: jsnum
  sr_bessDemandSavings :: jsnum
  sr_totalCost :: jsnum
  sr_totalAnnualSavings :: jsnum
  sr_totalPayback :: jsnum
  sr_totalRoi25Year :: jsnum
  sr_warnings :: "warning list"
  sr_recommendations :: "recommendation list"
  sr_sizeVerdict :: size_verdict

definition solar_result_of :: "business \<Rightarrow> calc_input \<Rightarrow> sizing \<Rightarrow> production \<Rightarrow> finance \<Rightarrow> bess \<Rightarrow> solar_result" where
  "solar_result_of biz input sz pd fi bs =
     (let co2Reduction = pd_annual pd / 1000 * Fin 0.4999;
          totalCost = fi_systemCost fi + bs_cost bs;
          totalAnnualSavings = fi_annualSavings fi + bs_annualSavings bs;
          totalPayback = (if 0 < totalAnnualSavings then totalCost / totalAnnualSavings else 0);
          totalRoi = fi_roi25Year fi + (if 0 < bs_annualSavings bs \<and> 0 < bs_cost bs
            then (bs_annualSavings bs * 15 - bs_cost bs) / bs_cost bs * 100 else 0)
      in \<lparr>sr_monthlyConsumption = math_round (sz_monthlyConsumption sz),
          sr_annualConsumption = math_round (sz_annualConsumption sz),
          sr_daytimeConsumption = math_round (sz_daytimeConsumption sz),
          sr_recommendedKwp = sz_recommendedKwp sz, sr_maxKwpFromRoof = sz_maxKwpFromRoof sz,
          sr_actualKwp = sz_actualKwp sz, sr_numberOfPanels = sz_numberOfPanels sz,
          sr_requiredRoofArea = sz_requiredRoofArea sz,
          sr_usableRoofArea = math_round (sz_usableRoofArea sz), sr_totalWeight = sz_totalWeight sz,
          sr_annualProduction = math_round (pd_annual pd),
          sr_monthlyProduction = math_round (pd_annual pd / 12),
          sr_dailyProduction = round1 (pd_daily pd),
          sr_selfConsumptionRatio = math_round (pd_selfConsumption pd * 100),
          sr_specificYield = pd_specificYield pd, sr_capacityFactor = pd_capacityFactor pd,
          sr_monthlyProductionProfile = pd_monthlyProfile pd,
          sr_hourlyProductionProfile = pd_hourlyProduction pd,
          sr_hourlyConsumptionProfile = pd_hourlyConsumption pd,
          sr_systemCost = math_round (fi_systemCost fi),
          sr_annualSavings = math_round (fi_annualSavings fi),
          sr_monthlySavings = math_round (fi_annualSavings fi / 12),
          sr_simplePayback = round1 (fi_simplePayback fi),
          sr_roi25Year = math_round (fi_roi25Year fi),
          sr_lifetimeSavings = math_round (fi_lifetimeSavings fi),
          sr_co2Reduction = round1 co2Reduction,
          sr_treesEquivalent = math_round (co2Reduction * 1000 / Fin 21.77),
          sr_lcoe = fi_lcoe fi, sr_irr = fi_irr fi, sr_yearlyProjection = fi_projection fi,
          sr_bessCapacityKwh = bs_capacityKwh bs, sr_bessCapacityKw = bs_capacityKw bs,
          sr_bessCost = bs_cost bs, sr_bessAnnualSavings = math_round (bs_annualSavings bs),
          sr_bessPayback = round1 (bs_payback bs),
          sr_bessDemandSavings = math_round (bs_demandSavings bs),
          sr_totalCost = math_round totalCost, sr_totalAnnualSavings = math_round totalAnnualSavings,
          sr_totalPayback = round1 totalPayback, sr_totalRoi25Year = math_round totalRoi,
          sr_warnings = warnings_of input sz fi,
          sr_recommendations = recommendations_of biz input sz fi,
          sr_sizeVerdict = size_verdict_of input sz\<rparr>)"

definition calculate_for :: "business \<Rightarrow> calc_input \<Rightarrow> solar_result" where
  "calculate_for biz input =
     (let sz = size_system biz input;
          pd = produce biz input sz;
          fi = financials biz sz pd;
          bs = size_bess biz input sz pd
      in solar_result_of biz input sz pd fi bs)"

definition calculateSolar :: "calc_input \<Rightarrow> solar_result result" where
  "calculateSolar input =
     result_bind (business_of (ci_businessType input)) (\<lambda>biz. Inr (calculate_for biz input))"

section \<open>The wizard\<close>

datatype result_tab = Overview | Financial | Technical | Projection

record wizard =
  wz_step :: nat
  wz_input :: calc_input
  wz_tab :: result_tab

definition initial_input :: calc_input where
  "initial_input =
     \<lparr>ci_businessType = [], ci_monthlyBill = 0, ci_monthlyKwh = 0, ci_inputMode = ByBill,
      ci_roofArea = 0, ci_roofType = lit ''metal_sheet'', ci_orientation = lit ''south'',
      ci_region = lit ''central'', ci_desiredKwp = 0, ci_wantBess = False, ci_bessMode = HybridMode,
      ci_backupHours = 4, ci_nightCoverage = 50, ci_tiltAngle = 15, ci_shading = 5,
      ci_gridExportAllowed = False\<rparr>"

definition initial_wizard :: wizard where
  "initial_wizard = \<lparr>wz_step = 0, wz_input = initial_input, wz_tab = Overview\<rparr>"

definition amount_positive :: "calc_input \<Rightarrow> bool" where
  "amount_positive i = (case ci_inputMode i of ByBill \<Rightarrow> 0 < ci_monthlyBill i | ByKwh \<Rightarrow> 0 < ci_monthlyKwh i)"

text \<open>The guard of the result: \<open>x <= 0\<close> is false for \<open>NaN\<close>.\<close>

definition wizard_result :: "wizard \<Rightarrow> solar_result result option" where
  "wizard_result s =
     (let i = wz_input s in
      if wz_step s < 5 \<or> ci_businessType i = [] \<or>
         (case ci_inputMode i of ByBill \<Rightarrow> ci_monthlyBill i \<le> 0 | ByKwh \<Rightarrow> ci_monthlyKwh i \<le> 0)
      then None else Some (calculateSolar i))"

definition canProceed :: "wizard \<Rightarrow> bool" where
  "canProceed s =
     (let i = wz_input s in
      if wz_step s = 0 then ci_businessType i \<noteq> []
      else if wz_step s = 1 then amount_positive i
      else if wz_step s = 2 then 0 < ci_roofArea i \<and> ci_region i \<noteq> []
      else True)"

definition nextStep :: "wizard \<Rightarrow> wizard" where
  "nextStep s = (if wz_step s < 5 \<and> canProceed s then s\<lparr>wz_step := wz_step s + 1\<rparr> else s)"

definition prevStep :: "wizard \<Rightarrow> wizard" where
  "prevStep s = (if 0 < wz_step s then s\<lparr>wz_step := wz_step s - 1\<rparr> else s)"

definition resetCalc :: "wizard \<Rightarrow> wizard" where
  "resetCalc s = s\<lparr>wz_step := 0, wz_input := initial_input, wz_tab := Overview\<rparr>"


section \<open>Numbers that stay finite\<close>

named_theorems finite_rules \<open>closure rules for is_finite\<close>

lemma finite_arith [finite_rules]:
  "is_finite (Fin a)"
  "is_finite x \<Longrightarrow> is_finite y \<Longrightarrow> is_finite (x + y)"
  "is_finite x \<Longrightarrow> is_finite y \<Longrightarrow> is_finite (x - y)"
  "is_finite x \<Longrightarrow> is_finite (- x)"
  "is_finite x \<Longrightarrow> is_finite y \<Longrightarrow> is_finite (x * y)"
  "is_finite x \<Longrightarrow> is_finite (x ^ n)"
  by (auto simp: is_finite_iff)

lemma finite_zero_one [finite_rules]:
  "is_finite (0 :: jsnum)" "is_finite (1 :: jsnum)" "is_finite (numeral n :: jsnum)"
  by simp_all

lemma finite_divide [finite_rules]: "is_finite x \<Longrightarrow> is_finite y \<Longrightarrow> y \<noteq> Fin 0 \<Longrightarrow> is_finite (x / y)"
  by (auto simp: is_finite_iff)

lemma finite_math [finite_rules]:
  "is_finite x \<Longrightarrow> is_finite (math_round x)"
  "is_finite x \<Longrightarrow> is_finite (math_ceil x)"
  "is_finite x \<Longrightarrow> is_finite y \<Longrightarrow> is_finite (math_min x y)"
  "is_finite x \<Longrightarrow> is_finite y \<Longrightarrow> is_finite (math_max x y)"
  by (auto simp: is_finite_iff)

lemma round1_Fin [simp]: "round1 (Fin a) = Fin (of_int \<lfloor>a * 10 + 1 / 2\<rfloor> / 10)"
  by (simp add: round1_def)

lemma finite_round1 [finite_rules]: "is_finite x \<Longrightarrow> is_finite (round1 x)"
  unfolding round1_def by (intro finite_rules) simp_all

lemma finite_if [finite_rules]:
  "(b \<Longrightarrow> is_finite x) \<Longrightarrow> (\<not> b \<Longrightarrow> is_finite y) \<Longrightarrow> is_finite (if b then x else y)"
  by simp

lemma finite_jsum: "list_all is_finite xs \<Longrightarrow> is_finite (jsum xs)"
proof -
  have "is_finite (foldl (+) a xs)" if "is_finite a" "list_all is_finite xs" for a
    using that by (induction xs arbitrary: a) (auto simp: finite_arith)
  then show "list_all is_finite xs \<Longrightarrow> is_finite (jsum xs)" by (simp add: jsum_def)
qed

lemma positive_finite: "0 < x \<Longrightarrow> is_finite x \<Longrightarrow> x \<noteq> Fin 0"
  by auto

section \<open>The tables are within bounds\<close>

definition positive :: "jsnum \<Rightarrow> bool" where
  "positive x \<longleftrightarrow> (\<exists>q > 0. x = Fin q)"

definition nonnegative :: "jsnum \<Rightarrow> bool" where
  "nonnegative x \<longleftrightarrow> (\<exists>q \<ge> 0. x = Fin q)"

lemma positive_Fin [simp]: "positive (Fin q) \<longleftrightarrow> 0 < q"
  by (auto simp: positive_def)

lemma nonnegative_Fin [simp]: "nonnegative (Fin q) \<longleftrightarrow> 0 \<le> q"
  by (auto simp: nonnegative_def)

lemma positive_mult: "positive x \<Longrightarrow> positive y \<Longrightarrow> positive (x * y)"
  by (auto simp: positive_def)

lemma positive_divide: "positive x \<Longrightarrow> positive y \<Longrightarrow> positive (x / y)"
  by (auto simp: positive_def)

lemma positive_imp: "positive x \<Longrightarrow> is_finite x \<and> x \<noteq> Fin 0 \<and> 0 < x"
  by (auto simp: positive_def)

lemma nonnegative_imp: "nonnegative x \<Longrightarrow> is_finite x \<and> 0 \<le> x"
  by (auto simp: nonnegative_def)

lemma nonnegative_mult: "nonnegative x \<Longrightarrow> nonnegative y \<Longrightarrow> nonnegative (x * y)"
  by (auto simp: nonnegative_def)

lemma nonnegative_add: "nonnegative x \<Longrightarrow> nonnegative y \<Longrightarrow> nonnegative (x + y)"
  by (auto simp: nonnegative_def)

lemma positive_nonnegative: "positive x \<Longrightarrow> nonnegative x"
  by (auto simp: positive_def nonnegative_def intro: less_imp_le)

definition business_ok :: "business \<Rightarrow> bool" where
  "business_ok b \<longleftrightarrow>
     positive (bz_daytimeRatio b) \<and> positive (bz_avgRate b) \<and> positive (bz_peakRate b) \<and>
     positive (bz_offPeakRate b) \<and> positive (bz_costPerKwp b) \<and> positive (bz_nightUsageRatio b) \<and>
     nonnegative (bz_demandCharge b) \<and> list_all is_finite (bz_hourlyProfile b)"

lemma profiles_finite:
  "list_all is_finite FACTORY_PROFILE" "list_all is_finite OFFICE_PROFILE"
  "list_all is_finite HOTEL_PROFILE" "list_all is_finite SOLAR_HOURLY_PROFILE"
  "list_all is_finite MONTHLY_PRODUCTION_FACTORS"
  by (simp_all add: FACTORY_PROFILE_def OFFICE_PROFILE_def HOTEL_PROFILE_def
      SOLAR_HOURLY_PROFILE_def MONTHLY_PRODUCTION_FACTORS_def list_all_iff)

lemma business_table_ok: "list_all (business_ok \<circ> snd) BUSINESS_TYPES"
  by (simp add: BUSINESS_TYPES_def business_ok_def profiles_finite)

lemma table_or_cases:
  assumes "table_or table fallback alien key = v"
  shows "(\<exists>k. (k, v) \<in> set table) \<or> v = alien \<and> (key \<in> set object_prototype_keys \<or> dict_get table (lit fallback) = None)"
  using assms
  by (auto simp: table_or_def js_index_def dict_get_def dest: map_of_SomeD split: option.splits if_splits)

lemma table_or_member:
  assumes "key \<notin> set object_prototype_keys" and "dict_get table (lit fallback) \<noteq> None"
  shows "\<exists>k. (k, table_or table fallback alien key) \<in> set table"
  using table_or_cases [of table fallback alien key, OF refl] assms by blast

lemma business_of_ok: "business_of key = Inr b \<Longrightarrow> business_ok b"
  using business_table_ok
  by (fastforce simp: business_of_def list_all_iff dest!: table_or_cases)

lemma REGIONS_psh: "(k, r) \<in> set REGIONS \<Longrightarrow> positive (rg_psh r)"
  by (auto simp: REGIONS_def)

lemma ROOF_TYPES_ok: "(k, r) \<in> set ROOF_TYPES \<Longrightarrow> positive (rf_usableRatio r) \<and> positive (rf_weightPerPanel r)"
  by (auto simp: ROOF_TYPES_def)

lemma ORIENTATIONS_factor: "(k, r) \<in> set ORIENTATIONS \<Longrightarrow> positive (or_factor r)"
  by (auto simp: ORIENTATIONS_def)

lemma table_fallbacks:
  "dict_get REGIONS (lit ''central'') \<noteq> None" "dict_get ROOF_TYPES (lit ''metal_sheet'') \<noteq> None"
  "dict_get ORIENTATIONS (lit ''south'') \<noteq> None"
  by (simp_all add: REGIONS_def ROOF_TYPES_def ORIENTATIONS_def)

lemma region_of_ok: "key \<notin> set object_prototype_keys \<Longrightarrow> positive (rg_psh (region_of key))"
  using table_or_member [of key REGIONS "''central''"] table_fallbacks REGIONS_psh
  by (force simp: region_of_def)

lemma roof_of_ok:
  "key \<notin> set object_prototype_keys \<Longrightarrow>
     positive (rf_usableRatio (roof_of key)) \<and> positive (rf_weightPerPanel (roof_of key))"
  using table_or_member [of key ROOF_TYPES "''metal_sheet''"] table_fallbacks ROOF_TYPES_ok
  by (force simp: roof_of_def)

lemma orientation_of_ok:
  "key \<notin> set object_prototype_keys \<Longrightarrow> positive (or_factor (orientation_of key))"
  using table_or_member [of key ORIENTATIONS "''south''"] table_fallbacks ORIENTATIONS_factor
  by (force simp: orientation_of_def)

lemma tiltFactor_ok: "positive (tiltFactor a)"
  by (simp add: tiltFactor_def)

section \<open>Sizing\<close>

lemmas calculator_constants = PERFORMANCE_RATIO_def AREA_PER_KWP_def PANEL_WATT_def BESS_DOD_def
  BESS_ROUND_TRIP_EFF_def BESS_COST_PER_KWH_def YEAR1_DEGRADATION_def ANNUAL_DEGRADATION_def
  INVERTER_COST_RATIO_def MAINTENANCE_COST_PER_KWP_def INSURANCE_RATE_def ELECTRICITY_ESCALATION_def

text \<open>
  The inputs the projection is studied for: finite numbers, a roof area that is not negative, a
  shading from 0 to less than 100, a consumption that is positive, and keys that are not
  properties of every object. It is an assumption, not a description of the form: the fields
  accept other numbers, and since numbers are exact here it also admits inputs so large that
  the code overflows.
\<close>

definition sane_input :: "calc_input \<Rightarrow> bool" where
  "sane_input i \<longleftrightarrow>
     amount_positive i \<and> is_finite (ci_monthlyBill i) \<and> is_finite (ci_monthlyKwh i) \<and>
     nonnegative (ci_roofArea i) \<and> is_finite (ci_desiredKwp i) \<and>
     nonnegative (ci_shading i) \<and> ci_shading i < 100 \<and>
     is_finite (ci_backupHours i) \<and> is_finite (ci_nightCoverage i) \<and>
     ci_businessType i \<notin> set object_prototype_keys \<and> ci_region i \<notin> set object_prototype_keys \<and>
     ci_roofType i \<notin> set object_prototype_keys \<and> ci_orientation i \<notin> set object_prototype_keys"

lemma monthly_consumption_ok:
  "sane_input i \<Longrightarrow> business_ok b \<Longrightarrow> positive (monthly_consumption b i)"
  by (auto simp: sane_input_def amount_positive_def monthly_consumption_def business_ok_def positive_def
      is_finite_iff split: input_mode.splits)

lemma effective_psh_ok: "sane_input i \<Longrightarrow> positive (effective_psh i)"
  unfolding effective_psh_def
  by (intro positive_mult region_of_ok orientation_of_ok tiltFactor_ok)
     (auto simp: sane_input_def nonnegative_def)

lemma nonnegativeE: "nonnegative x \<Longrightarrow> (\<And>q. x = Fin q \<Longrightarrow> 0 \<le> q \<Longrightarrow> thesis) \<Longrightarrow> thesis"
  by (auto simp: nonnegative_def)

lemma nonnegative_math [finite_rules]:
  "nonnegative x \<Longrightarrow> nonnegative (math_round x)" "nonnegative x \<Longrightarrow> nonnegative (round1 x)"
  "nonnegative x \<Longrightarrow> nonnegative (math_ceil x)"
  "nonnegative x \<Longrightarrow> nonnegative y \<Longrightarrow> nonnegative (math_min x y)"
  "nonnegative x \<Longrightarrow> nonnegative y \<Longrightarrow> nonnegative (math_max x y)"
  by (elim nonnegativeE; simp)+

lemma nonnegative_divide: "nonnegative x \<Longrightarrow> positive y \<Longrightarrow> nonnegative (x / y)"
  by (auto simp: nonnegative_def positive_def)

lemma nonnegative_if [finite_rules]:
  "(c \<Longrightarrow> nonnegative x) \<Longrightarrow> (\<not> c \<Longrightarrow> nonnegative y) \<Longrightarrow> nonnegative (if c then x else y)"
  by simp

lemma constants_positive:
  "positive PERFORMANCE_RATIO" "positive AREA_PER_KWP" "positive PANEL_WATT" "positive BESS_DOD"
  "positive BESS_ROUND_TRIP_EFF" "positive BESS_COST_PER_KWH" "positive MAINTENANCE_COST_PER_KWP"
  "positive INSURANCE_RATE" "positive INVERTER_COST_RATIO" "positive (1 - YEAR1_DEGRADATION)"
  "positive (1 - ANNUAL_DEGRADATION)" "positive (1 + ELECTRICITY_ESCALATION)"
  by (simp_all add: calculator_constants)

lemma positive_numeral: "positive (numeral n)"
  by simp

lemma positive_power: "positive x \<Longrightarrow> positive (x ^ n)"
  by (auto simp: positive_def)

lemmas sign_rules = positive_mult positive_divide positive_power constants_positive positive_numeral
  nonnegative_mult nonnegative_add nonnegative_divide nonnegative_math nonnegative_if

definition sizing_ok :: "sizing \<Rightarrow> bool" where
  "sizing_ok sz \<longleftrightarrow>
     positive (sz_monthlyConsumption sz) \<and> positive (sz_annualConsumption sz) \<and>
     positive (sz_daytimeConsumption sz) \<and> positive (sz_nightConsumption sz) \<and>
     positive (sz_effectivePSH sz) \<and> nonnegative (sz_recommendedKwp sz) \<and>
     nonnegative (sz_usableRoofArea sz) \<and> nonnegative (sz_maxKwpFromRoof sz) \<and>
     nonnegative (sz_actualKwp sz) \<and> sz_installable sz = (0 < sz_actualKwp sz) \<and>
     nonnegative (sz_numberOfPanels sz) \<and> nonnegative (sz_requiredRoofArea sz) \<and>
     nonnegative (sz_totalWeight sz)"

lemma size_system_ok:
  assumes "sane_input i" and "business_ok b"
  shows "sizing_ok (size_system b i)"
proof -
  note in_ok = assms(1) [unfolded sane_input_def] and biz = assms(2) [unfolded business_ok_def]
  have m: "positive (monthly_consumption b i)" by (rule monthly_consumption_ok [OF assms])
  have psh: "positive (effective_psh i)" by (rule effective_psh_ok [OF assms(1)])
  have roof: "positive (rf_usableRatio (roof_of (ci_roofType i)))"
    "positive (rf_weightPerPanel (roof_of (ci_roofType i)))"
    using roof_of_ok in_ok by blast+
  have rec: "nonnegative (round1 (monthly_consumption b i * 12 * bz_daytimeRatio b /
      (effective_psh i * 365 * PERFORMANCE_RATIO)))"
    using biz by (intro sign_rules positive_nonnegative m psh) simp_all
  have area: "nonnegative (ci_roofArea i * rf_usableRatio (roof_of (ci_roofType i)))"
    using in_ok by (intro sign_rules positive_nonnegative [OF roof(1)]) simp
  have top: "nonnegative (round1 (ci_roofArea i * rf_usableRatio (roof_of (ci_roofType i)) / AREA_PER_KWP))"
    by (intro sign_rules area)
  have act: "nonnegative (math_min (if 0 < ci_desiredKwp i then ci_desiredKwp i
      else round1 (monthly_consumption b i * 12 * bz_daytimeRatio b / (effective_psh i * 365 * PERFORMANCE_RATIO)))
      (round1 (ci_roofArea i * rf_usableRatio (roof_of (ci_roofType i)) / AREA_PER_KWP)))"
  proof (cases "0 < ci_desiredKwp i")
    case True
    then have "nonnegative (ci_desiredKwp i)" using in_ok by (auto simp: nonnegative_def is_finite_iff)
    with True show ?thesis by (simp only: if_True) (intro sign_rules top)
  next
    case False
    then show ?thesis by (simp only: if_False) (intro nonnegative_math rec top)
  qed
  have "nonnegative (if 0 < a then math_ceil (a * 1000 / PANEL_WATT) else 0)" if "nonnegative a" for a
    using that by (intro sign_rules) (simp_all add: PANEL_WATT_def)
  note panels = this [OF act]
  show ?thesis
    unfolding sizing_ok_def size_system_def Let_def sizing.simps
    using biz
    by (intro conjI refl rec area top act panels psh m sign_rules positive_nonnegative [OF roof(2)]
        positive_nonnegative [OF constants_positive(2)]) simp_all
qed

definition production_ok :: "production \<Rightarrow> bool" where
  "production_ok pd \<longleftrightarrow>
     nonnegative (pd_year1 pd) \<and> nonnegative (pd_annual pd) \<and> nonnegative (pd_daily pd) \<and>
     is_finite (pd_specificYield pd) \<and> is_finite (pd_capacityFactor pd) \<and>
     list_all is_finite (pd_monthlyProfile pd) \<and> list_all is_finite (pd_hourlyProduction pd) \<and>
     list_all is_finite (pd_hourlyConsumption pd) \<and> positive (pd_selfConsumption pd)"

lemma self_consumption_ok: "nonnegative r \<Longrightarrow> positive (self_consumption export r)"
  by (auto simp: self_consumption_def nonnegative_def intro: add_pos_nonneg)

lemma produce_ok:
  assumes "sizing_ok sz" and "business_ok b"
  shows "production_ok (produce b i sz)"
proof -
  note sz = assms(1) [unfolded sizing_ok_def] and biz = assms(2) [unfolded business_ok_def]
  have act: "positive (sz_actualKwp sz)" if "sz_installable sz"
    using sz that by (auto simp: positive_def nonnegative_def)
  have y1: "nonnegative (if sz_installable sz
      then sz_actualKwp sz * sz_effectivePSH sz * 365 * PERFORMANCE_RATIO else 0)"
    using sz act by (auto intro!: positive_nonnegative positive_mult constants_positive)
  then have an: "nonnegative ((if sz_installable sz
      then sz_actualKwp sz * sz_effectivePSH sz * 365 * PERFORMANCE_RATIO else 0) * (1 - YEAR1_DEGRADATION))"
    by (intro nonnegative_mult positive_nonnegative [OF constants_positive(10)])
  have fin: "is_finite x \<Longrightarrow> list_all is_finite fs \<Longrightarrow> list_all is_finite (map (\<lambda>f. math_round (x * f)) fs)"
    and fin1: "is_finite x \<Longrightarrow> list_all is_finite fs \<Longrightarrow> list_all is_finite (map (\<lambda>f. round1 (x * f)) fs)"
    for x fs by (auto simp: list_all_iff intro!: finite_rules)
  have div: "is_finite x \<Longrightarrow> is_finite (x / numeral n)" for x n
    by (intro finite_divide) simp_all
  have nz: "sz_installable sz \<Longrightarrow> sz_actualKwp sz * 8760 \<noteq> Fin 0" "sz_installable sz \<Longrightarrow> sz_actualKwp sz \<noteq> Fin 0"
    using act by (auto simp: positive_def)
  have ratio: "nonnegative (pd_annual (produce b i sz) / sz_daytimeConsumption sz)"
    using an sz by (simp add: produce_def Let_def nonnegative_divide)
  have cons: "is_finite (sz_annualConsumption sz / 365)" using sz by (intro div) (simp add: positive_imp)
  have daily: "nonnegative (pd_daily (produce b i sz))"
    using an by (simp add: produce_def Let_def nonnegative_divide)
  have yields: "is_finite (if sz_installable sz then math_round (x / sz_actualKwp sz) else 0)"
    "is_finite (if sz_installable sz then math_round (x / (sz_actualKwp sz * 8760) * 1000) / 10 else 0)"
    if "is_finite x" for x
    using that act nz by (auto dest!: positive_imp intro!: finite_math finite_divide finite_arith)
  have yields: "is_finite (pd_specificYield (produce b i sz))" "is_finite (pd_capacityFactor (produce b i sz))"
    unfolding produce_def Let_def production.simps
    using nonnegative_imp [OF an] by (blast intro: yields)+
  have lists: "list_all is_finite (pd_monthlyProfile (produce b i sz))"
    "list_all is_finite (pd_hourlyProduction (produce b i sz))"
    "list_all is_finite (pd_hourlyConsumption (produce b i sz))"
    unfolding produce_def Let_def production.simps
    using nonnegative_imp [OF an] biz by (intro fin fin1 div cons profiles_finite; simp)+
  show ?thesis
    using y1 an daily yields lists self_consumption_ok [OF ratio, of "ci_gridExportAllowed i"]
    by (simp add: production_ok_def produce_def Let_def)
qed

section \<open>The projection in closed form\<close>

text \<open>
  What year \<open>y\<close> of the projection amounts to, for a first-year production \<open>p\<close>, a size \<open>a\<close>, a
  cost \<open>c\<close>, a self-consumption \<open>s\<close> and a savings rate \<open>r\<close>.
\<close>

definition year_production :: "rat \<Rightarrow> nat \<Rightarrow> rat" where
  "year_production p y = p * 0.98 * 0.995 ^ (y - 1)"

definition year_rate :: "rat \<Rightarrow> nat \<Rightarrow> rat" where
  "year_rate r y = r * 1.03 ^ (y - 1)"

definition year_savings :: "rat \<Rightarrow> rat \<Rightarrow> rat \<Rightarrow> nat \<Rightarrow> rat" where
  "year_savings p s r y = year_production p y * s * year_rate r y"

definition year_costs :: "rat \<Rightarrow> rat \<Rightarrow> nat \<Rightarrow> rat" where
  "year_costs a c y = a * 500 + c * 0.003 + (if y = 12 then c * 0.15 else 0)"

definition rounded :: "rat \<Rightarrow> jsnum" where
  "rounded x = math_round (Fin x)"

definition projection_row :: "rat \<Rightarrow> rat \<Rightarrow> rat \<Rightarrow> rat \<Rightarrow> rat \<Rightarrow> nat \<Rightarrow> yearly_projection" where
  "projection_row p a c s r y =
     \<lparr>yp_year = y, yp_production = rounded (year_production p y),
      yp_savings = rounded (year_savings p s r y),
      yp_cumulativeSavings = rounded (\<Sum>t = 1..y. year_savings p s r t),
      yp_netCashFlow = rounded (year_savings p s r y - year_costs a c y),
      yp_cumulativeNetCashFlow = rounded (- c + (\<Sum>t = 1..y. year_savings p s r t - year_costs a c t)),
      yp_maintenanceCost = rounded (year_costs a c y),
      yp_electricityRate = rounded (year_rate r y * 100) / 100\<rparr>"

definition projection_state :: "rat \<Rightarrow> rat \<Rightarrow> rat \<Rightarrow> rat \<Rightarrow> rat \<Rightarrow> nat \<Rightarrow> loop_state" where
  "projection_state p a c s r n =
     \<lparr>lo_lifetimeSavings = Fin (\<Sum>t = 1..n. year_savings p s r t),
      lo_yearProduction = Fin (if n = 0 then p else year_production p n),
      lo_cumulativeSavings = Fin (\<Sum>t = 1..n. year_savings p s r t),
      lo_cumulativeNetCashFlow = Fin (- c + (\<Sum>t = 1..n. year_savings p s r t - year_costs a c t)),
      lo_rows = map (projection_row p a c s r) [1..<n + 1]\<rparr>"

lemma year_production_step:
  "(if n = 0 then p else year_production p n) * (if n = 0 then 0.98 else 0.995) = year_production p (Suc n)"
  by (cases n) (simp_all add: year_production_def)

lemma year_step_closed:
  "year_step (Fin a) (Fin c) (Fin s) (Fin r) (projection_state p a c s r n) (Suc n) =
     projection_state p a c s r (Suc n)"
proof -
  have prod: "lo_yearProduction (projection_state p a c s r n)
      * (if Suc n = 1 then 1 - YEAR1_DEGRADATION else 1 - ANNUAL_DEGRADATION) = Fin (year_production p (Suc n))"
    using year_production_step [of n p]
    by (simp add: projection_state_def YEAR1_DEGRADATION_def ANNUAL_DEGRADATION_def split: if_splits)
  have rate: "Fin r * (1 + ELECTRICITY_ESCALATION) ^ (Suc n - 1) = Fin (year_rate r (Suc n))"
    by (simp add: year_rate_def ELECTRICITY_ESCALATION_def)
  show ?thesis
    unfolding year_step_def prod rate Let_def
    by (simp add: projection_state_def projection_row_def rounded_def year_savings_def year_costs_def
        MAINTENANCE_COST_PER_KWP_def INSURANCE_RATE_def INVERTER_COST_RATIO_def INVERTER_REPLACEMENT_YEAR_def
        algebra_simps)
qed

lemma project_years_closed:
  "foldl (year_step (Fin a) (Fin c) (Fin s) (Fin r)) (projection_state p a c s r 0) [1..<n + 1] =
     projection_state p a c s r n"
proof (induction n)
  case 0
  show ?case by simp
next
  case (Suc n)
  have "[1..<Suc n + 1] = [1..<n + 1] @ [Suc n]" by simp
  with Suc year_step_closed show ?case by (simp del: upt_Suc)
qed

lemma project_years_eq:
  "project_years (Fin p) (Fin a) (Fin c) (Fin s) (Fin r) = projection_state p a c s r SYSTEM_LIFETIME"
  unfolding project_years_def using project_years_closed [of a c s r p SYSTEM_LIFETIME]
  by (simp add: projection_state_def del: upt_Suc)

lemma projection_mono:
  assumes "0 \<le> p" and "0 \<le> s" and "0 \<le> r" and "1 \<le> i" and "i \<le> j"
  shows "year_production p j \<le> year_production p i"
    and "(\<Sum>t = 1..i. year_savings p s r t) \<le> (\<Sum>t = 1..j. year_savings p s r t)"
proof -
  show "year_production p j \<le> year_production p i"
    unfolding year_production_def using assms
    by (intro mult_left_mono power_decreasing) auto
  have "0 \<le> year_savings p s r t" for t
    using assms by (simp add: year_savings_def year_production_def year_rate_def)
  then show "(\<Sum>t = 1..i. year_savings p s r t) \<le> (\<Sum>t = 1..j. year_savings p s r t)"
    using assms by (intro sum_mono2) auto
qed

section \<open>Finite results\<close>

definition row_numbers :: "yearly_projection \<Rightarrow> jsnum list" where
  "row_numbers y = [yp_production y, yp_savings y, yp_cumulativeSavings y, yp_netCashFlow y,
     yp_cumulativeNetCashFlow y, yp_maintenanceCost y, yp_electricityRate y]"

text \<open>Every number of a result but the internal rate of return.\<close>

definition result_numbers :: "solar_result \<Rightarrow> jsnum list" where
  "result_numbers r =
     [sr_monthlyConsumption r, sr_annualConsumption r, sr_daytimeConsumption r, sr_recommendedKwp r,
      sr_maxKwpFromRoof r, sr_actualKwp r, sr_numberOfPanels r, sr_requiredRoofArea r,
      sr_usableRoofArea r, sr_totalWeight r, sr_annualProduction r, sr_monthlyProduction r,
      sr_dailyProduction r, sr_selfConsumptionRatio r, sr_specificYield r, sr_capacityFactor r,
      sr_systemCost r, sr_annualSavings r, sr_monthlySavings r, sr_simplePayback r, sr_roi25Year r,
      sr_lifetimeSavings r, sr_co2Reduction r, sr_treesEquivalent r, sr_lcoe r,
      sr_bessCapacityKwh r, sr_bessCapacityKw r, sr_bessCost r, sr_bessAnnualSavings r,
      sr_bessPayback r, sr_bessDemandSavings r, sr_totalCost r, sr_totalAnnualSavings r,
      sr_totalPayback r, sr_totalRoi25Year r]
     @ sr_monthlyProductionProfile r @ sr_hourlyProductionProfile r @ sr_hourlyConsumptionProfile r
     @ concat (map row_numbers (sr_yearlyProjection r))"

definition finance_ok :: "finance \<Rightarrow> bool" where
  "finance_ok fi \<longleftrightarrow>
     nonnegative (fi_systemCost fi) \<and> nonnegative (fi_annualSavings fi) \<and>
     is_finite (fi_simplePayback fi) \<and> is_finite (fi_lifetimeSavings fi) \<and>
     is_finite (fi_roi25Year fi) \<and> is_finite (fi_lcoe fi) \<and>
     list_all (list_all is_finite \<circ> row_numbers) (fi_projection fi)"

lemma positive_add: "positive x \<Longrightarrow> positive y \<Longrightarrow> positive (x + y)"
  by (auto simp: positive_def)

lemma savings_rate_ok: "business_ok b \<Longrightarrow> positive (savings_rate b)"
  unfolding savings_rate_def business_ok_def by (intro positive_add positive_mult) simp_all

lemma finite_rounded [finite_rules]: "is_finite (rounded x)"
  by (simp add: rounded_def)

lemma finite_guarded_divide: "is_finite x \<Longrightarrow> is_finite y \<Longrightarrow> is_finite (if 0 < y then x / y else 0)"
  by (auto intro!: finite_divide)

lemma projection_row_finite: "list_all is_finite (row_numbers (projection_row p a c s r y))"
  by (simp add: row_numbers_def projection_row_def finite_rounded finite_divide)

lemma projection_state_finite:
  "list_all (list_all is_finite \<circ> row_numbers) (lo_rows (projection_state p a c s r n))"
  "is_finite (jsum (map yp_maintenanceCost (lo_rows (projection_state p a c s r n))))"
  "is_finite (jsum (map yp_production (lo_rows (projection_state p a c s r n))))"
  "is_finite (lo_lifetimeSavings (projection_state p a c s r n))"
proof -
  show "list_all (list_all is_finite \<circ> row_numbers) (lo_rows (projection_state p a c s r n))"
    by (simp add: projection_state_def list_all_iff projection_row_finite [unfolded list_all_iff])
  show "is_finite (jsum (map yp_maintenanceCost (lo_rows (projection_state p a c s r n))))"
    and "is_finite (jsum (map yp_production (lo_rows (projection_state p a c s r n))))"
    by (rule finite_jsum; simp add: projection_state_def projection_row_def list_all_iff finite_rounded)+
qed (simp add: projection_state_def)

text \<open>The loop runs on rationals when its parameters are finite.\<close>

lemma financials_state:
  assumes "sizing_ok sz" and "production_ok pd" and "business_ok b"
  obtains p a c s r where "pd_year1 pd = Fin p" "sz_actualKwp sz = Fin a" "sz_actualKwp sz * bz_costPerKwp b = Fin c"
    "pd_selfConsumption pd = Fin s" "savings_rate b = Fin r" "0 \<le> p" "0 \<le> a" "0 \<le> c" "0 \<le> s" "0 \<le> r"
    "project_years (pd_year1 pd) (sz_actualKwp sz) (sz_actualKwp sz * bz_costPerKwp b) (pd_selfConsumption pd)
       (savings_rate b) = projection_state p a c s r SYSTEM_LIFETIME"
proof -
  obtain p where p: "pd_year1 pd = Fin p" "0 \<le> p"
    using assms(2) by (auto simp: production_ok_def nonnegative_def)
  obtain a where a: "sz_actualKwp sz = Fin a" "0 \<le> a"
    using assms(1) by (auto simp: sizing_ok_def nonnegative_def)
  obtain k where k: "bz_costPerKwp b = Fin k" "0 < k"
    using assms(3) by (auto simp: business_ok_def positive_def)
  obtain s where s: "pd_selfConsumption pd = Fin s" "0 < s"
    using assms(2) by (auto simp: production_ok_def positive_def)
  obtain r where r: "savings_rate b = Fin r" "0 < r"
    using savings_rate_ok [OF assms(3)] by (auto simp: positive_def)
  show thesis
    by (rule that [of p a "a * k" s r]) (use p a k s r in \<open>simp_all add: project_years_eq\<close>)
qed

lemma financials_ok:
  assumes "sizing_ok sz" and "production_ok pd" and "business_ok b"
  shows "finance_ok (financials b sz pd)"
proof -
  obtain p a c s r where st: "project_years (pd_year1 pd) (sz_actualKwp sz) (sz_actualKwp sz * bz_costPerKwp b)
      (pd_selfConsumption pd) (savings_rate b) = projection_state p a c s r SYSTEM_LIFETIME"
    by (rule financials_state [OF assms]) (rule that)
  have cost: "nonnegative (sz_actualKwp sz * bz_costPerKwp b)"
    using assms by (intro nonnegative_mult) (auto simp: sizing_ok_def business_ok_def positive_nonnegative)
  have sav: "nonnegative (pd_annual pd * pd_selfConsumption pd * savings_rate b)"
    using assms(2) savings_rate_ok [OF assms(3)]
    by (intro nonnegative_mult) (auto simp: production_ok_def positive_nonnegative)
  have atoms: "is_finite (sz_actualKwp sz)" "is_finite (bz_costPerKwp b)" "is_finite (pd_annual pd)"
    "is_finite (pd_selfConsumption pd)" "is_finite (savings_rate b)"
    using assms savings_rate_ok [OF assms(3)]
    by (auto simp: sizing_ok_def production_ok_def business_ok_def dest!: positive_imp nonnegative_imp)
  note f = atoms nonnegative_imp [OF cost] nonnegative_imp [OF sav] projection_state_finite
  have mul: "is_finite (if c then x else 0) \<Longrightarrow> is_finite (if c then x * 100 else 0)"
    and lc: "is_finite (if c then x else 0) \<Longrightarrow> is_finite (if c then math_round (x * 100) / 100 else 0)" for c x
    by (cases c; simp add: finite_arith finite_math finite_divide)+
  show ?thesis
    unfolding finance_ok_def financials_def Let_def finance.simps st
    using f by (intro conjI cost sav mul lc finite_guarded_divide finite_arith) simp_all
qed

definition bess_ok :: "bess \<Rightarrow> bool" where
  "bess_ok bs \<longleftrightarrow> is_finite (bs_capacityKwh bs) \<and> is_finite (bs_capacityKw bs) \<and> is_finite (bs_cost bs) \<and>
     is_finite (bs_annualSavings bs) \<and> is_finite (bs_payback bs) \<and> is_finite (bs_demandSavings bs)"

lemma raw_capacity_finite:
  "is_finite n \<Longrightarrow> is_finite b \<Longrightarrow> is_finite e \<Longrightarrow> is_finite (raw_capacity mode n b e)"
  by (cases mode) (simp_all add: finite_math finite_arith)

lemma finite_payback: "is_finite x \<Longrightarrow> is_finite y \<Longrightarrow> is_finite (if 0 < x \<and> 0 < y then x / y else 0)"
  by (auto intro!: finite_divide)

lemma size_bess_ok:
  assumes "sane_input i" and "sizing_ok sz" and "production_ok pd" and "business_ok b"
  shows "bess_ok (size_bess b i sz pd)"
proof -
  note in_ok = assms(1) [unfolded sane_input_def]
  have fin: "is_finite (sz_nightConsumption sz)" "is_finite (sz_monthlyConsumption sz)"
    "is_finite (sz_daytimeConsumption sz)" "is_finite (pd_daily pd)" "is_finite (ci_nightCoverage i)"
    "is_finite (ci_backupHours i)" "is_finite (bz_offPeakRate b)" "is_finite (bz_peakRate b)"
    "is_finite (bz_avgRate b)" "is_finite (bz_demandCharge b)"
    using in_ok assms(2-4) by (auto simp: sizing_ok_def production_ok_def business_ok_def
        dest!: positive_imp nonnegative_imp)
  have eff: "is_finite BESS_DOD" "is_finite BESS_ROUND_TRIP_EFF" "is_finite BESS_COST_PER_KWH"
    "BESS_DOD * BESS_ROUND_TRIP_EFF \<noteq> Fin 0"
    by (simp_all add: calculator_constants)
  have hrs: "math_max (ci_backupHours i) 2 \<noteq> Fin 0"
    using in_ok by (auto simp: is_finite_iff math_max_def max_def)
  note rules = finite_arith finite_math finite_round1 finite_if raw_capacity_finite finite_payback fin eff hrs
  show ?thesis
  proof (cases "ci_wantBess i")
    case False
    then show ?thesis by (simp add: size_bess_def bess_ok_def no_bess_def)
  next
    case True
    have div: "is_finite x \<Longrightarrow> is_finite (x / numeral n)" for x n by (intro finite_divide) simp_all
    have night: "is_finite (sz_nightConsumption sz / 365 * (ci_nightCoverage i / 100))"
      and backup: "is_finite (sz_monthlyConsumption sz / (30 * 24) * ci_backupHours i)"
      and excess: "is_finite (math_max 0 (pd_daily pd - sz_daytimeConsumption sz / 365))"
      by (intro rules div finite_divide; simp add: zero_jsnum_def)+
    have "is_finite x \<Longrightarrow> is_finite (round1 (x / (BESS_DOD * BESS_ROUND_TRIP_EFF)))"
      "is_finite x \<Longrightarrow> is_finite (round1 (x / math_max (ci_backupHours i) 2))" for x
      by (intro rules finite_divide; simp)+
    note caps = this(1) [OF raw_capacity_finite [OF night backup excess, of "ci_bessMode i"]] this(2)
    let ?night = "sz_nightConsumption sz / 365 * (ci_nightCoverage i / 100)"
    let ?excess = "math_max 0 (pd_daily pd - sz_daytimeConsumption sz / 365)"
    let ?kwh = "bs_capacityKwh (size_bess b i sz pd)" and ?kw = "bs_capacityKw (size_bess b i sz pd)"
    have kwh: "is_finite ?kwh" using True caps(1) by (simp only: size_bess_def Let_def if_False simp_thms bess.simps)
    then have kw: "is_finite ?kw" and cost: "is_finite (math_round (?kwh * BESS_COST_PER_KWH))"
      using True caps(2) eff by (simp_all only: size_bess_def Let_def if_False simp_thms bess.simps finite_arith finite_math)
    have dem: "is_finite (if 0 < bz_demandCharge b then ?kw * bz_demandCharge b * 12 * Fin 0.5 else 0)"
      using kw fin by (simp add: finite_arith)
    have sav: "is_finite (?night * 365 * bz_offPeakRate b * BESS_ROUND_TRIP_EFF +
        ?excess * Fin 0.7 * 365 * (bz_peakRate b - bz_avgRate b) +
        (if 0 < bz_demandCharge b then ?kw * bz_demandCharge b * 12 * Fin 0.5 else 0))"
      by (intro finite_arith night excess dem fin eff finite_zero_one)
    show ?thesis
      using True kwh kw cost dem sav finite_payback [OF cost sav]
      by (simp only: bess_ok_def size_bess_def Let_def if_False simp_thms bess.simps)
  qed
qed

lemma calculate_for_finite:
  assumes "sane_input i" and "business_ok b"
  shows "list_all is_finite (result_numbers (calculate_for b i))"
proof -
  let ?sz = "size_system b i" and ?pd = "produce b i (size_system b i)"
  let ?fi = "financials b ?sz ?pd" and ?bs = "size_bess b i ?sz ?pd"
  have sz: "sizing_ok ?sz" by (rule size_system_ok [OF assms])
  have pd: "production_ok ?pd" by (rule produce_ok [OF sz assms(2)])
  have fi: "finance_ok ?fi" by (rule financials_ok [OF sz pd assms(2)])
  have bs: "bess_ok ?bs" by (rule size_bess_ok [OF assms(1) sz pd assms(2)])
  have rows: "list_all is_finite (concat (map row_numbers (fi_projection ?fi)))"
    using fi by (auto simp: finance_ok_def list_all_iff)
  have div: "is_finite x \<Longrightarrow> is_finite (x / numeral n)" for x n by (intro finite_divide) simp_all
  have total: "is_finite (if 0 < x then y / x else 0)" if "is_finite x" "is_finite y" for x y
    using that by (auto intro!: finite_divide)
  have roi: "is_finite (if 0 < x \<and> 0 < y then (x * 15 - y) / y * 100 else 0)" if "is_finite x" "is_finite y" for x y
    using that by (auto intro!: finite_divide finite_arith)
  have co2: "is_finite x \<Longrightarrow> is_finite (x / 1000 * Fin 0.4999)"
    "is_finite x \<Longrightarrow> is_finite (x / 1000 * Fin 0.4999 * 1000 / Fin 21.77)" for x
    by (intro div finite_arith finite_divide; simp)+
  note s = sz [unfolded sizing_ok_def] and p = pd [unfolded production_ok_def]
    and f = fi [unfolded finance_ok_def] and b = bs [unfolded bess_ok_def]
  have nums: "is_finite (sz_monthlyConsumption ?sz)" "is_finite (sz_annualConsumption ?sz)"
    "is_finite (sz_daytimeConsumption ?sz)" "is_finite (sz_recommendedKwp ?sz)"
    "is_finite (sz_maxKwpFromRoof ?sz)" "is_finite (sz_actualKwp ?sz)" "is_finite (sz_numberOfPanels ?sz)"
    "is_finite (sz_requiredRoofArea ?sz)" "is_finite (sz_usableRoofArea ?sz)" "is_finite (sz_totalWeight ?sz)"
    "is_finite (pd_annual ?pd)" "is_finite (pd_daily ?pd)" "is_finite (pd_selfConsumption ?pd)"
    "is_finite (fi_systemCost ?fi)" "is_finite (fi_annualSavings ?fi)"
    using s p f by (simp_all add: positive_imp nonnegative_imp)
  show ?thesis
    unfolding calculate_for_def Let_def result_numbers_def solar_result_of_def solar_result.simps
      list_all_append list.pred_inject
    using p f b rows
    by (intro conjI TrueI nums finite_math finite_round1 finite_arith finite_zero_one div total roi co2; simp)
qed

text \<open>Without a battery the totals are those of the solar system.\<close>

lemma jsnum_add_zero [simp]: "x + Fin 0 = x" for x :: jsnum
  by (cases x) (simp_all add: plus_jsnum_def)

lemma floor_half [simp]: "\<lfloor>1 / 2 :: rat\<rfloor> = 0"
  by (simp add: floor_eq_iff)

section \<open>Using the wizard\<close>

definition with_input :: "(calc_input \<Rightarrow> calc_input) \<Rightarrow> wizard \<Rightarrow> wizard" where
  "with_input edit s = s\<lparr>wz_input := edit (wz_input s)\<rparr>"

text \<open>
  What a user can do: change any input field (\<open>updateInput\<close>), go on, go back, start over or
  open a tab of the result.
\<close>

inductive wizard_reach :: "wizard \<Rightarrow> bool" where
  open_page: "wizard_reach initial_wizard"
| edit: "wizard_reach s \<Longrightarrow> wizard_reach (with_input f s)"
| go_on: "wizard_reach s \<Longrightarrow> wizard_reach (nextStep s)"
| go_back: "wizard_reach s \<Longrightarrow> wizard_reach (prevStep s)"
| start_over: "wizard_reach s \<Longrightarrow> wizard_reach (resetCalc s)"
| open_tab: "wizard_reach s \<Longrightarrow> wizard_reach (s\<lparr>wz_tab := t\<rparr>)"

inductive_cases wizard_reachE: "wizard_reach s"

lemma wizard_step_bound: "wizard_reach s \<Longrightarrow> wz_step s \<le> 5"
  by (induction rule: wizard_reach.induct)
     (auto simp: initial_wizard_def with_input_def nextStep_def prevStep_def resetCalc_def)

definition complete_input :: "calc_input \<Rightarrow> bool" where
  "complete_input i \<longleftrightarrow> ci_businessType i \<noteq> [] \<and> amount_positive i \<and> 0 < ci_roofArea i \<and> ci_region i \<noteq> []"

lemma nextStep_complete:
  "complete_input (wz_input s) \<Longrightarrow> wz_step s \<le> 5 \<Longrightarrow>
     wz_step (nextStep s) = min 5 (wz_step s + 1) \<and> wz_input (nextStep s) = wz_input s"
  by (auto simp: nextStep_def canProceed_def complete_input_def Let_def)

lemma nextSteps_complete:
  "complete_input (wz_input s) \<Longrightarrow> wz_step s \<le> 5 \<Longrightarrow>
     wz_step ((nextStep ^^ n) s) = min 5 (wz_step s + n) \<and> wz_input ((nextStep ^^ n) s) = wz_input s"
  by (induction n) (use nextStep_complete in \<open>auto simp: min_def\<close>)

lemma wizard_result_complete:
  "wz_step s = 5 \<Longrightarrow> complete_input (wz_input s) \<Longrightarrow>
     wizard_result s = Some (calculateSolar (wz_input s))"
proof -
  have "\<not> x \<le> Fin 0" if "Fin 0 < x" for x :: jsnum using that by (cases x) auto
  then show "wz_step s = 5 \<Longrightarrow> complete_input (wz_input s) \<Longrightarrow>
     wizard_result s = Some (calculateSolar (wz_input s))"
    by (auto simp: wizard_result_def complete_input_def amount_positive_def Let_def split: input_mode.splits)
qed

lemma business_of_total:
  assumes "key \<notin> set object_prototype_keys"
  shows "\<exists>b. business_of key = Inr b"
proof -
  let ?t = "map (\<lambda>(k, b). (k, Inr b)) BUSINESS_TYPES :: (jstr \<times> business result) list"
  have "dict_get ?t (lit ''factory'') \<noteq> None" by (simp add: BUSINESS_TYPES_def)
  from table_or_member [OF assms this] obtain k where "(k, business_of key) \<in> set ?t"
    unfolding business_of_def by blast
  then show ?thesis by auto
qed

lemma self_consumption_finite: "is_finite (self_consumption export (Fin 0 / d))"
  by (cases d) (auto simp: self_consumption_def divide_jsnum_def inf_of_sign_def)

lemma not_positive_mult: "\<not> 0 < x \<Longrightarrow> positive y \<Longrightarrow> \<not> 0 < x * y"
  by (cases x) (auto simp: positive_def times_jsnum_def inf_of_sign_def mult_less_0_iff zero_less_mult_iff)

section \<open>A factory\<close>

definition factory_input :: calc_input where
  "factory_input = initial_input\<lparr>ci_businessType := lit ''factory'', ci_monthlyBill := 200000, ci_roofArea := 3000\<rparr>"

lemma factory_sane: "sane_input factory_input"
  by (simp add: sane_input_def factory_input_def initial_input_def amount_positive_def object_prototype_keys_def)

lemma factory_complete: "complete_input factory_input"
  by (simp add: complete_input_def factory_input_def initial_input_def amount_positive_def)

lemma factory_result: "\<exists>r. calculateSolar factory_input = Inr r \<and> sr_actualKwp r \<noteq> NaN"
proof -
  obtain b where b: "business_of (ci_businessType factory_input) = Inr b"
    using business_of_total factory_sane by (auto simp: sane_input_def)
  have "is_finite (sr_actualKwp (calculate_for b factory_input))"
    using calculate_for_finite [OF factory_sane business_of_ok [OF b]] by (simp add: result_numbers_def)
  with b show ?thesis by (auto simp: calculateSolar_def is_finite_def)
qed

lemma min_zero_not_positive: "\<not> 0 < math_min x (Fin 0)"
  by (cases x) (auto simp: math_min_def)

lemma roofless_result:
  "\<exists>r. calculateSolar (factory_input\<lparr>ci_roofArea := 0\<rparr>) = Inr r \<and> \<not> 0 < sr_actualKwp r"
proof -
  let ?i = "factory_input\<lparr>ci_roofArea := 0\<rparr>"
  have "sane_input ?i" using factory_sane by (simp add: sane_input_def amount_positive_def split: input_mode.splits)
  then obtain b where b: "business_of (ci_businessType ?i) = Inr b"
    using business_of_total by (auto simp: sane_input_def)
  have k: "lit ''metal_sheet'' \<notin> set object_prototype_keys" by (simp add: object_prototype_keys_def)
  obtain q where q: "rf_usableRatio (roof_of (lit ''metal_sheet'')) = Fin q"
    using roof_of_ok [OF k] by (auto simp: positive_def)
  have "sz_maxKwpFromRoof (size_system b ?i) = Fin 0"
    by (simp add: size_system_def Let_def factory_input_def initial_input_def q AREA_PER_KWP_def)
  then have "\<not> 0 < sz_actualKwp (size_system b ?i)"
    using min_zero_not_positive by (simp add: size_system_def Let_def)
  with b show ?thesis
    by (auto simp: calculateSolar_def calculate_for_def solar_result_of_def Let_def)
qed

section \<open>Properties\<close>

text \<open>
  The proposed system fits the roof: its size is never above what the roof carries nor above
  the size asked for, and the number of panels is the least whole number that reaches it.
\<close>

theorem sizing_fits_roof:
  assumes "calculateSolar i = Inr r" and "sr_actualKwp r \<noteq> NaN"
  shows "sr_actualKwp r \<le> sr_maxKwpFromRoof r \<and>
    (0 < ci_desiredKwp i \<longrightarrow> sr_actualKwp r \<le> ci_desiredKwp i) \<and>
    (\<forall>a. sr_actualKwp r = Fin a \<longrightarrow>
       (if 0 < a
        then \<exists>n :: int. sr_numberOfPanels r = Fin (of_int n) \<and> 1000 * a \<le> 580 * of_int n \<and>
               580 * (of_int n - 1) < 1000 * a
        else sr_numberOfPanels r = Fin 0))"
proof -
  obtain b where r: "r = calculate_for b i"
    using assms(1) by (auto simp: calculateSolar_def result_bind_Inr_iff)
  define sz where "sz = size_system b i"
  have parts: "sr_actualKwp r = sz_actualKwp sz" "sr_maxKwpFromRoof r = sz_maxKwpFromRoof sz"
    "sr_numberOfPanels r = sz_numberOfPanels sz"
    by (simp_all add: r sz_def calculate_for_def solar_result_of_def Let_def)
  have act: "sz_actualKwp sz = math_min
      (if 0 < ci_desiredKwp i then ci_desiredKwp i else sz_recommendedKwp sz) (sz_maxKwpFromRoof sz)"
    by (simp add: sz_def size_system_def Let_def)
  then have "sz_actualKwp sz \<le> sz_maxKwpFromRoof sz \<and>
      sz_actualKwp sz \<le> (if 0 < ci_desiredKwp i then ci_desiredKwp i else sz_recommendedKwp sz)"
    using assms(2) math_min_le parts(1) by (metis math_min_def)
  moreover have "if 0 < a then \<exists>n :: int. sz_numberOfPanels sz = Fin (of_int n) \<and> 1000 * a \<le> 580 * of_int n \<and>
      580 * (of_int n - 1) < 1000 * a else sz_numberOfPanels sz = Fin 0" if "sz_actualKwp sz = Fin a" for a
  proof -
    have "sz_numberOfPanels sz = (if 0 < Fin a then math_ceil (Fin a * 1000 / PANEL_WATT) else 0)"
      using that by (simp add: sz_def size_system_def Let_def)
    then have n: "sz_numberOfPanels sz = (if 0 < a then Fin (of_int \<lceil>a * 1000 / 580\<rceil>) else Fin 0)"
      by (simp add: PANEL_WATT_def)
    have "580 * (of_int \<lceil>x\<rceil> - 1) < 580 * x \<and> 580 * x \<le> 580 * of_int \<lceil>x\<rceil>" for x :: rat
      using ceiling_correct [of x] by simp
    from this [of "a * 1000 / 580"] n show ?thesis by auto
  qed
  ultimately show ?thesis by (auto simp: parts split: if_splits)
qed

theorem sizing_fits_roof_witness:
  "\<exists>r. calculateSolar factory_input = Inr r \<and> sr_actualKwp r \<le> sr_maxKwpFromRoof r"
proof -
  obtain r where "calculateSolar factory_input = Inr r" "sr_actualKwp r \<noteq> NaN"
    using factory_result by blast
  with sizing_fits_roof [OF this] show ?thesis by blast
qed

text \<open>
  C39. The projection of 25 years that the loop builds is the closed form: year \<open>y\<close> produces the
  first year's output reduced by 2% and then by 0.5% a year, earns at a rate that grows by 3% a
  year, and pays maintenance, insurance and, in year 12, a new inverter. Production never rises
  and the savings accumulate to the reported lifetime savings.
\<close>

theorem projection_closed_form:
  assumes "sane_input i" and "calculateSolar i = Inr r"
  shows "\<exists>p a c s q. 0 \<le> p \<and> 0 \<le> c \<and> 0 \<le> s \<and> 0 \<le> q \<and>
    sr_actualKwp r = Fin a \<and> sr_systemCost r = rounded c \<and> sr_annualProduction r = rounded (p * 0.98) \<and>
    sr_yearlyProjection r = map (projection_row p a c s q) [1..<26] \<and>
    sr_lifetimeSavings r = rounded (\<Sum>t = 1..25. year_savings p s q t) \<and>
    (\<forall>x \<in> {1..25}. \<forall>y \<in> {x..25}. year_production p y \<le> year_production p x \<and>
       (\<Sum>t = 1..x. year_savings p s q t) \<le> (\<Sum>t = 1..y. year_savings p s q t))"
proof -
  obtain b where b: "business_of (ci_businessType i) = Inr b" and r: "r = calculate_for b i"
    using assms(2) by (auto simp: calculateSolar_def result_bind_Inr_iff)
  define sz where "sz = size_system b i"
  define pd where "pd = produce b i sz"
  have biz: "business_ok b" by (rule business_of_ok [OF b])
  have sz: "sizing_ok sz" unfolding sz_def by (rule size_system_ok [OF assms(1) biz])
  have pd: "production_ok pd" unfolding pd_def by (rule produce_ok [OF sz biz])
  obtain p a c s q where st: "pd_year1 pd = Fin p" "sz_actualKwp sz = Fin a"
    "sz_actualKwp sz * bz_costPerKwp b = Fin c" "0 \<le> p" "0 \<le> c" "0 \<le> s" "0 \<le> q"
    "project_years (pd_year1 pd) (sz_actualKwp sz) (sz_actualKwp sz * bz_costPerKwp b) (pd_selfConsumption pd)
       (savings_rate b) = projection_state p a c s q SYSTEM_LIFETIME"
    by (rule financials_state [OF sz pd biz]) (rule that)
  have "pd_annual pd = pd_year1 pd * (1 - YEAR1_DEGRADATION)"
    by (simp add: pd_def produce_def Let_def)
  then have annual: "pd_annual pd = Fin (p * 0.98)" by (simp add: st(1) YEAR1_DEGRADATION_def)
  have parts: "sr_actualKwp r = Fin a" "sr_systemCost r = rounded c" "sr_annualProduction r = rounded (p * 0.98)"
    "sr_yearlyProjection r = lo_rows (projection_state p a c s q SYSTEM_LIFETIME)"
    "sr_lifetimeSavings r = math_round (lo_lifetimeSavings (projection_state p a c s q SYSTEM_LIFETIME))"
    unfolding r calculate_for_def Let_def sz_def [symmetric] pd_def [symmetric] solar_result_of_def financials_def
    by (simp_all add: st(1,2) st(3) [unfolded st(2)] st(8) [unfolded st(1,2) st(3) [unfolded st(2)]] annual rounded_def
        del: math_round_Fin)
  have "sr_yearlyProjection r = map (projection_row p a c s q) [1..<26]"
    and "sr_lifetimeSavings r = rounded (\<Sum>t = 1..25. year_savings p s q t)"
    unfolding parts by (simp_all add: projection_state_def SYSTEM_LIFETIME_def rounded_def del: upt_Suc math_round_Fin)
  moreover have "\<forall>x \<in> {1..25}. \<forall>y \<in> {x..25}. year_production p y \<le> year_production p x \<and>
       (\<Sum>t = 1..x. year_savings p s q t) \<le> (\<Sum>t = 1..y. year_savings p s q t)"
    by (intro ballI conjI projection_mono st) auto
  ultimately show ?thesis using parts st by blast
qed

theorem projection_closed_form_witness:
  "\<exists>r. calculateSolar factory_input = Inr r \<and> length (sr_yearlyProjection r) = 25"
proof -
  obtain r where r: "calculateSolar factory_input = Inr r" using factory_result by blast
  from projection_closed_form [OF factory_sane r] r show ?thesis
    by (auto simp del: upt_Suc)
qed

text \<open>
  If nothing can be installed the result says so for every input: no panels, no production,
  no savings, no payback, cost of energy or rate of return, a warning first in the list, and a
  verdict that is never \<open>Optimal\<close>.
\<close>

theorem no_capacity_reported:
  assumes "calculateSolar i = Inr r" and "\<not> 0 < sr_actualKwp r"
  shows "sr_numberOfPanels r = 0 \<and> sr_annualProduction r = 0 \<and> sr_annualSavings r = 0 \<and>
    sr_simplePayback r = 0 \<and> sr_irr r = 0 \<and> sr_specificYield r = 0 \<and>
    (\<exists>ws. sr_warnings r = NoRoofCapacity # ws) \<and> SurveySite \<notin> set (sr_recommendations r) \<and>
    sr_sizeVerdict r =
      (if 0 < ci_desiredKwp i \<and> sr_recommendedKwp r * 2 < ci_desiredKwp i then Unreasonable else RoofLimited)"
proof -
  obtain b where b: "business_of (ci_businessType i) = Inr b" and r: "r = calculate_for b i"
    using assms(1) by (auto simp: calculateSolar_def result_bind_Inr_iff)
  define sz where "sz = size_system b i"
  define pd where "pd = produce b i sz"
  define fi where "fi = financials b sz pd"
  note parts = r calculate_for_def Let_def sz_def [symmetric] pd_def [symmetric] fi_def [symmetric] solar_result_of_def
  have act: "\<not> 0 < sz_actualKwp sz" using assms(2) unfolding parts by simp
  then have inst: "\<not> sz_installable sz" and panels: "sz_numberOfPanels sz = 0"
    by (simp_all add: sz_def size_system_def Let_def)
  have prod: "pd_annual pd = 0" "pd_specificYield pd = 0" "is_finite (pd_selfConsumption pd)"
    using inst by (simp_all add: pd_def produce_def Let_def YEAR1_DEGRADATION_def self_consumption_finite)
  have rate: "is_finite (savings_rate b)"
    using savings_rate_ok [OF business_of_ok [OF b]] by (simp add: positive_imp)
  have sav: "fi_annualSavings fi = 0"
    using prod(1,3) rate by (auto simp: fi_def financials_def Let_def is_finite_iff)
  have cost: "\<not> 0 < sz_actualKwp sz * bz_costPerKwp b"
    using act business_of_ok [OF b] by (intro not_positive_mult) (simp_all add: business_ok_def)
  have fin: "fi_simplePayback fi = 0" "fi_irr fi = 0"
    using sav cost by (simp_all add: fi_def financials_def Let_def)
  show ?thesis
    unfolding parts
    using inst panels prod sav fin
    by (auto simp: warnings_of_def recommendations_of_def push_if_def size_verdict_of_def Let_def)
qed

theorem no_capacity_reported_witness:
  "\<exists>r. calculateSolar (factory_input\<lparr>ci_roofArea := 0\<rparr>) = Inr r \<and> sr_irr r = 0 \<and>
     sr_sizeVerdict r = RoofLimited"
proof -
  obtain r where r: "calculateSolar (factory_input\<lparr>ci_roofArea := 0\<rparr>) = Inr r" "\<not> 0 < sr_actualKwp r"
    using roofless_result by blast
  from no_capacity_reported [OF r] r(1) show ?thesis by (simp add: factory_input_def initial_input_def)
qed

text \<open>
  Without a battery the battery part of the result is zero and the totals are those of the
  solar system alone.
\<close>

theorem no_battery_totals:
  assumes "calculateSolar i = Inr r" and "\<not> ci_wantBess i"
  shows "sr_bessCapacityKwh r = 0 \<and> sr_bessCapacityKw r = 0 \<and> sr_bessCost r = 0 \<and>
    sr_bessAnnualSavings r = 0 \<and> sr_bessPayback r = 0 \<and> sr_bessDemandSavings r = 0 \<and>
    sr_totalCost r = sr_systemCost r \<and> sr_totalAnnualSavings r = sr_annualSavings r \<and>
    sr_totalPayback r = sr_simplePayback r \<and> sr_totalRoi25Year r = sr_roi25Year r"
proof -
  obtain b where r: "r = calculate_for b i"
    using assms(1) by (auto simp: calculateSolar_def result_bind_Inr_iff)
  have bs: "size_bess b i sz pd = no_bess" for sz pd using assms(2) by (simp add: size_bess_def)
  have pay: "fi_simplePayback (financials b sz pd) =
      (if 0 < fi_annualSavings (financials b sz pd)
       then fi_systemCost (financials b sz pd) / fi_annualSavings (financials b sz pd) else 0)" for sz pd
    by (simp add: financials_def Let_def)
  show ?thesis
    unfolding r calculate_for_def Let_def solar_result_of_def bs
    by (simp add: no_bess_def pay)
qed

theorem no_battery_totals_witness:
  "\<exists>r. calculateSolar factory_input = Inr r \<and> sr_totalCost r = sr_systemCost r"
proof -
  obtain r where r: "calculateSolar factory_input = Inr r" using factory_result by blast
  from no_battery_totals [OF r] r show ?thesis by (simp add: factory_input_def initial_input_def)
qed

text \<open>
  C40. From every state a user can bring the wizard into, the step is one of the six, and once
  the input is complete five times "next" lead to the result of exactly that input.
\<close>

theorem wizard_reaches_result:
  assumes "wizard_reach s" and "complete_input (wz_input s)"
  shows "wz_step s \<le> 5 \<and> wizard_result ((nextStep ^^ 5) s) = Some (calculateSolar (wz_input s))"
  using nextSteps_complete [OF assms(2) wizard_step_bound [OF assms(1)], of 5]
    wizard_step_bound [OF assms(1)] assms(2)
  by (simp add: wizard_result_complete)

theorem wizard_reaches_result_witness:
  "wizard_result ((nextStep ^^ 5) (with_input (\<lambda>_. factory_input) initial_wizard)) =
     Some (calculateSolar factory_input)"
  using wizard_reaches_result [OF wizard_reach.edit [OF wizard_reach.open_page, of "\<lambda>_. factory_input"]]
    factory_complete by (simp add: with_input_def)

end
