(* ===== verification/Provinces.thy ===== *)
theory Provinces
  imports JsValue
begin

text \<open>
  The province tables (\<open>shared/thaiProvinces.ts\<close>, \<open>shared/provinceEnergyData.ts\<close>) and the
  statistics over them (\<open>shared/provinceEnergyStats.ts\<close>). Yields and coordinates are exact
  decimals; sums and quotients are exact rationals.
\<close>

section \<open>The provinces\<close>

datatype thai_region = North | Northeast | Central | East | West | South

record thai_province =
  tp_slug :: jstr
  tp_nameTh :: jstr
  tp_nameEn :: jstr
  tp_region :: thai_region

definition province :: "string \<Rightarrow> jstr \<Rightarrow> string \<Rightarrow> thai_region \<Rightarrow> thai_province" where
  "province slug nameTh nameEn region =
     \<lparr>tp_slug = lit slug, tp_nameTh = nameTh, tp_nameEn = lit nameEn, tp_region = region\<rparr>"

definition thaiProvinces :: "thai_province list" where
  "thaiProvinces =
    [province ''bangkok''
       [0xE01, 0xE23, 0xE38, 0xE07, 0xE40, 0xE17, 0xE1E, 0xE21, 0xE2B, 0xE32, 0xE19, 0xE04, 0xE23]
       ''Bangkok'' Central,
     province ''amnat-charoen''
       [0xE2D, 0xE33, 0xE19, 0xE32, 0xE08, 0xE40, 0xE08, 0xE23, 0xE34, 0xE0D]
       ''Amnat Charoen'' Northeast,
     province ''ang-thong''
       [0xE2D, 0xE48, 0xE32, 0xE07, 0xE17, 0xE2D, 0xE07]
       ''Ang Thong'' Central,
     province ''bueng-kan''
       [0xE1A, 0xE36, 0xE07, 0xE01, 0xE32, 0xE2C]
       ''Bueng Kan'' Northeast,
     province ''buriram''
       [0xE1A, 0xE38, 0xE23, 0xE35, 0xE23, 0xE31, 0xE21, 0xE22, 0xE4C]
       ''Buriram'' Northeast,
     province ''chachoengsao''
       [0xE09, 0xE30, 0xE40, 0xE0A, 0xE34, 0xE07, 0xE40, 0xE17, 0xE23, 0xE32]
       ''Chachoengsao'' East,
     province ''chai-nat''
       [0xE0A, 0xE31, 0xE22, 0xE19, 0xE32, 0xE17]
       ''Chai Nat'' Central,
     province ''chaiyaphum''
       [0xE0A, 0xE31, 0xE22, 0xE20, 0xE39, 0xE21, 0xE34]
       ''Chaiyaphum'' Northeast,
     province ''chanthaburi''
       [0xE08, 0xE31, 0xE19, 0xE17, 0xE1A, 0xE38, 0xE23, 0xE35]
       ''Chanthaburi'' East,
     province ''chiang-mai''
       [0xE40, 0xE0A, 0xE35, 0xE22, 0xE07, 0xE43, 0xE2B, 0xE21, 0xE48]
       ''Chiang Mai'' North,
     province ''chiang-rai''
       [0xE40, 0xE0A, 0xE35, 0xE22, 0xE07, 0xE23, 0xE32, 0xE22]
       ''Chiang Rai'' North,
     province ''chonburi''
       [0xE0A, 0xE25, 0xE1A, 0xE38, 0xE23, 0xE35]
       ''Chonburi'' East,
     province ''chumphon''
       [0xE0A, 0xE38, 0xE21, 0xE1E, 0xE23]
       ''Chumphon'' South,
     province ''kalasin''
       [0xE01, 0xE32, 0xE2C, 0xE2A, 0xE34, 0xE19, 0xE18, 0xE38, 0xE4C]
       ''Kalasin'' Northeast,
     province ''kamphaeng-phet''
       [0xE01, 0xE33, 0xE41, 0xE1E, 0xE07, 0xE40, 0xE1E, 0xE0A, 0xE23]
       ''Kamphaeng Phet'' North,
     province ''kanchanaburi''
       [0xE01, 0xE32, 0xE0D, 0xE08, 0xE19, 0xE1A, 0xE38, 0xE23, 0xE35]
       ''Kanchanaburi'' West,
     province ''khon-kaen''
       [0xE02, 0xE2D, 0xE19, 0xE41, 0xE01, 0xE48, 0xE19]
       ''Khon Kaen'' Northeast,
     province ''krabi''
       [0xE01, 0xE23, 0xE30, 0xE1A, 0xE35, 0xE48]
       ''Krabi'' South,
     province ''lampang''
       [0xE25, 0xE33, 0xE1B, 0xE32, 0xE07]
       ''Lampang'' North,
     province ''lamphun''
       [0xE25, 0xE33, 0xE1E, 0xE39, 0xE19]
       ''Lamphun'' North,
     province ''loei''
       [0xE40, 0xE25, 0xE22]
       ''Loei'' Northeast,
     province ''lopburi''
       [0xE25, 0xE1E, 0xE1A, 0xE38, 0xE23, 0xE35]
       ''Lopburi'' Central,
     province ''mae-hong-son''
       [0xE41, 0xE21, 0xE48, 0xE2E, 0xE48, 0xE2D, 0xE07, 0xE2A, 0xE2D, 0xE19]
       ''Mae Hong Son'' North,
     province ''maha-sarakham''
       [0xE21, 0xE2B, 0xE32, 0xE2A, 0xE32, 0xE23, 0xE04, 0xE32, 0xE21]
       ''Maha Sarakham'' Northeast,
     province ''mukdahan''
       [0xE21, 0xE38, 0xE01, 0xE14, 0xE32, 0xE2B, 0xE32, 0xE23]
       ''Mukdahan'' Northeast,
     province ''nakhon-nayok''
       [0xE19, 0xE04, 0xE23, 0xE19, 0xE32, 0xE22, 0xE01]
       ''Nakhon Nayok'' Central,
     province ''nakhon-pathom''
       [0xE19, 0xE04, 0xE23, 0xE1B, 0xE10, 0xE21]
       ''Nakhon Pathom'' Central,
     province ''nakhon-phanom''
       [0xE19, 0xE04, 0xE23, 0xE1E, 0xE19, 0xE21]
       ''Nakhon Phanom'' Northeast,
     province ''nakhon-ratchasima''
       [0xE19, 0xE04, 0xE23, 0xE23, 0xE32, 0xE0A, 0xE2A, 0xE35, 0xE21, 0xE32]
       ''Nakhon Ratchasima'' Northeast,
     province ''nakhon-sawan''
       [0xE19, 0xE04, 0xE23, 0xE2A, 0xE27, 0xE23, 0xE23, 0xE04, 0xE4C]
       ''Nakhon Sawan'' Central,
     province ''nakhon-si-thammarat''
       [0xE19, 0xE04, 0xE23, 0xE28, 0xE23, 0xE35, 0xE18, 0xE23, 0xE23, 0xE21, 0xE23, 0xE32, 0xE0A]
       ''Nakhon Si Thammarat'' South,
     province ''nan''
       [0xE19, 0xE48, 0xE32, 0xE19]
       ''Nan'' North,
     province ''narathiwat''
       [0xE19, 0xE23, 0xE32, 0xE18, 0xE34, 0xE27, 0xE32, 0xE2A]
       ''Narathiwat'' South,
     province ''nong-bua-lamphu''
       [0xE2B, 0xE19, 0xE2D, 0xE07, 0xE1A, 0xE31, 0xE27, 0xE25, 0xE33, 0xE20, 0xE39]
       ''Nong Bua Lamphu'' Northeast,
     province ''nong-khai''
       [0xE2B, 0xE19, 0xE2D, 0xE07, 0xE04, 0xE32, 0xE22]
       ''Nong Khai'' Northeast,
     province ''nonthaburi''
       [0xE19, 0xE19, 0xE17, 0xE1A, 0xE38, 0xE23, 0xE35]
       ''Nonthaburi'' Central,
     province ''pathum-thani''
       [0xE1B, 0xE17, 0xE38, 0xE21, 0xE18, 0xE32, 0xE19, 0xE35]
       ''Pathum Thani'' Central,
     province ''pattani''
       [0xE1B, 0xE31, 0xE15, 0xE15, 0xE32, 0xE19, 0xE35]
       ''Pattani'' South,
     province ''phang-nga''
       [0xE1E, 0xE31, 0xE07, 0xE07, 0xE32]
       ''Phang Nga'' South,
     province ''phatthalung''
       [0xE1E, 0xE31, 0xE17, 0xE25, 0xE38, 0xE07]
       ''Phatthalung'' South,
     province ''phayao''
       [0xE1E, 0xE30, 0xE40, 0xE22, 0xE32]
       ''Phayao'' North,
     province ''phetchabun''
       [0xE40, 0xE1E, 0xE0A, 0xE23, 0xE1A, 0xE39, 0xE23, 0xE13, 0xE4C]
       ''Phetchabun'' North,
     province ''phetchaburi''
       [0xE40, 0xE1E, 0xE0A, 0xE23, 0xE1A, 0xE38, 0xE23, 0xE35]
       ''Phetchaburi'' West,
     province ''phichit''
       [0xE1E, 0xE34, 0xE08, 0xE34, 0xE15, 0xE23]
       ''Phichit'' North,
     province ''phitsanulok''
       [0xE1E, 0xE34, 0xE29, 0xE13, 0xE38, 0xE42, 0xE25, 0xE01]
       ''Phitsanulok'' North,
     province ''phra-nakhon-si-ayutthaya''
       [0xE1E, 0xE23, 0xE30, 0xE19, 0xE04, 0xE23, 0xE28, 0xE23, 0xE35, 0xE2D, 0xE22, 0xE38, 0xE18,
       0xE22, 0xE32]
       ''Phra Nakhon Si Ayutthaya'' Central,
     province ''phrae''
       [0xE41, 0xE1E, 0xE23, 0xE48]
       ''Phrae'' North,
     province ''phuket''
       [0xE20, 0xE39, 0xE40, 0xE01, 0xE47, 0xE15]
       ''Phuket'' South,
     province ''prachinburi''
       [0xE1B, 0xE23, 0xE32, 0xE08, 0xE35, 0xE19, 0xE1A, 0xE38, 0xE23, 0xE35]
       ''Prachinburi'' East,
     province ''prachuap-khiri-khan''
       [0xE1B, 0xE23, 0xE30, 0xE08, 0xE27, 0xE1A, 0xE04, 0xE35, 0xE23, 0xE35, 0xE02, 0xE31, 0xE19,
       0xE18, 0xE4C]
       ''Prachuap Khiri Khan'' West,
     province ''ranong''
       [0xE23, 0xE30, 0xE19, 0xE2D, 0xE07]
       ''Ranong'' South,
     province ''ratchaburi''
       [0xE23, 0xE32, 0xE0A, 0xE1A, 0xE38, 0xE23, 0xE35]
       ''Ratchaburi'' West,
     province ''rayong''
       [0xE23, 0xE30, 0xE22, 0xE2D, 0xE07]
       ''Rayong'' East,
     province ''roi-et''
       [0xE23, 0xE49, 0xE2D, 0xE22, 0xE40, 0xE2D, 0xE47, 0xE14]
       ''Roi Et'' Northeast,
     province ''sa-kaeo''
       [0xE2A, 0xE23, 0xE30, 0xE41, 0xE01, 0xE49, 0xE27]
       ''Sa Kaeo'' East,
     province ''sakon-nakhon''
       [0xE2A, 0xE01, 0xE25, 0xE19, 0xE04, 0xE23]
       ''Sakon Nakhon'' Northeast,
     province ''samut-prakan''
       [0xE2A, 0xE21, 0xE38, 0xE17, 0xE23, 0xE1B, 0xE23, 0xE32, 0xE01, 0xE32, 0xE23]
       ''Samut Prakan'' Central,
     province ''samut-sakhon''
       [0xE2A, 0xE21, 0xE38, 0xE17, 0xE23, 0xE2A, 0xE32, 0xE04, 0xE23]
       ''Samut Sakhon'' Central,
     province ''samut-songkhram''
       [0xE2A, 0xE21, 0xE38, 0xE17, 0xE23, 0xE2A, 0xE07, 0xE04, 0xE23, 0xE32, 0xE21]
       ''Samut Songkhram'' Central,
     province ''saraburi''
       [0xE2A, 0xE23, 0xE30, 0xE1A, 0xE38, 0xE23, 0xE35]
       ''Saraburi'' Central,
     province ''satun''
       [0xE2A, 0xE15, 0xE39, 0xE25]
       ''Satun'' South,
     province ''sing-buri''
       [0xE2A, 0xE34, 0xE07, 0xE2B, 0xE4C, 0xE1A, 0xE38, 0xE23, 0xE35]
       ''Sing Buri'' Central,
     province ''sisaket''
       [0xE28, 0xE23, 0xE35, 0xE2A, 0xE30, 0xE40, 0xE01, 0xE29]
       ''Sisaket'' Northeast,
     province ''songkhla''
       [0xE2A, 0xE07, 0xE02, 0xE25, 0xE32]
       ''Songkhla'' South,
     province ''sukhothai''
       [0xE2A, 0xE38, 0xE42, 0xE02, 0xE17, 0xE31, 0xE22]
       ''Sukhothai'' North,
     province ''suphan-buri''
       [0xE2A, 0xE38, 0xE1E, 0xE23, 0xE23, 0xE13, 0xE1A, 0xE38, 0xE23, 0xE35]
       ''Suphan Buri'' Central,
     province ''surat-thani''
       [0xE2A, 0xE38, 0xE23, 0xE32, 0xE29, 0xE0E, 0xE23, 0xE4C, 0xE18, 0xE32, 0xE19, 0xE35]
       ''Surat Thani'' South,
     province ''surin''
       [0xE2A, 0xE38, 0xE23, 0xE34, 0xE19, 0xE17, 0xE23, 0xE4C]
       ''Surin'' Northeast,
     province ''tak''
       [0xE15, 0xE32, 0xE01]
       ''Tak'' West,
     province ''trang''
       [0xE15, 0xE23, 0xE31, 0xE07]
       ''Trang'' South,
     province ''trat''
       [0xE15, 0xE23, 0xE32, 0xE14]
       ''Trat'' East,
     province ''ubon-ratchathani''
       [0xE2D, 0xE38, 0xE1A, 0xE25, 0xE23, 0xE32, 0xE0A, 0xE18, 0xE32, 0xE19, 0xE35]
       ''Ubon Ratchathani'' Northeast,
     province ''udon-thani''
       [0xE2D, 0xE38, 0xE14, 0xE23, 0xE18, 0xE32, 0xE19, 0xE35]
       ''Udon Thani'' Northeast,
     province ''uthai-thani''
       [0xE2D, 0xE38, 0xE17, 0xE31, 0xE22, 0xE18, 0xE32, 0xE19, 0xE35]
       ''Uthai Thani'' Central,
     province ''uttaradit''
       [0xE2D, 0xE38, 0xE15, 0xE23, 0xE14, 0xE34, 0xE15, 0xE16, 0xE4C]
       ''Uttaradit'' North,
     province ''yala''
       [0xE22, 0xE30, 0xE25, 0xE32]
       ''Yala'' South,
     province ''yasothon''
       [0xE22, 0xE42, 0xE2A, 0xE18, 0xE23]
       ''Yasothon'' Northeast]"

definition getProvinceBySlug :: "jstr \<Rightarrow> thai_province option" where
  "getProvinceBySlug slug = List.find (\<lambda>p. tp_slug p = slug) thaiProvinces"

section \<open>The energy facts\<close>

record fact_source =
  fs_name :: jstr
  fs_url :: jstr
  fs_database :: jstr
  fs_yearRange :: jstr
  fs_retrievedAt :: jstr
  fs_coordinateSource :: jstr

record province_energy_fact =
  ef_lat :: rat
  ef_lon :: rat
  ef_irradiationDaily :: rat
  ef_specificYield :: rat
  ef_source :: fact_source

text \<open>The source of every record but for the article the coordinates come from.\<close>

definition pvgis :: "jstr \<Rightarrow> fact_source" where
  "pvgis article =
     \<lparr>fs_name = lit ''PVGIS v5.3, European Commission Joint Research Centre'',
      fs_url = lit ''https://re.jrc.ec.europa.eu/pvg_tools/en/tools.html'',
      fs_database = lit ''PVGIS-ERA5'', fs_yearRange = lit ''2005-2023'', fs_retrievedAt = lit ''2026-09-26'',
      fs_coordinateSource = article\<rparr>"

definition energy_fact :: "rat \<Rightarrow> rat \<Rightarrow> rat \<Rightarrow> rat \<Rightarrow> jstr \<Rightarrow> province_energy_fact" where
  "energy_fact lat lon irradiation yield article =
     \<lparr>ef_lat = lat, ef_lon = lon, ef_irradiationDaily = irradiation, ef_specificYield = yield,
      ef_source = pvgis article\<rparr>"

text \<open>The records in the order of the file, ten to a definition.\<close>

definition energyData_1 :: "(jstr, province_energy_fact) dict" where
  "energyData_1 =
    [(lit ''amnat-charoen'', energy_fact (1586 / 100) (10463 / 100) (506 / 100) (139291 / 100)
       (lit ''th.wikipedia.org article '' @ [0x22, 0xE08, 0xE31, 0xE07, 0xE2B, 0xE27, 0xE31,
        0xE14, 0xE2D, 0xE33, 0xE19, 0xE32, 0xE08, 0xE40, 0xE08, 0xE23, 0xE34, 0xE0D] @
        lit '' (wikidata)'' @ [0x22])),
     (lit ''ang-thong'', energy_fact (1459 / 100) (10048 / 100) (508 / 100) (137937 / 100)
       (lit ''th.wikipedia.org article '' @ [0x22, 0xE08, 0xE31, 0xE07, 0xE2B, 0xE27, 0xE31,
        0xE14, 0xE2D, 0xE48, 0xE32, 0xE07, 0xE17, 0xE2D, 0xE07] @ lit '' (wikidata)'' @ [0x22])),
     (lit ''bangkok'', energy_fact (137525 / 10000) (10049416667 / 100000000) (512 / 100) (14014 / 10)
       (lit ''th.wikipedia.org article '' @ [0x22, 0xE01, 0xE23, 0xE38, 0xE07, 0xE40, 0xE17,
        0xE1E, 0xE21, 0xE2B, 0xE32, 0xE19, 0xE04, 0xE23] @ lit '' (wikidata)'' @ [0x22])),
     (lit ''bueng-kan'', energy_fact (18367 / 1000) (103655 / 1000) (48 / 10) (130442 / 100)
       (lit ''th.wikipedia.org article '' @ [0x22, 0xE08, 0xE31, 0xE07, 0xE2B, 0xE27, 0xE31,
        0xE14, 0xE1A, 0xE36, 0xE07, 0xE01, 0xE32, 0xE2C] @ lit '' (wikidata)'' @ [0x22])),
     (lit ''buriram'', energy_fact (15) (10311 / 100) (512 / 100) (13999 / 10)
       (lit ''th.wikipedia.org article '' @ [0x22, 0xE08, 0xE31, 0xE07, 0xE2B, 0xE27, 0xE31,
        0xE14, 0xE1A, 0xE38, 0xE23, 0xE35, 0xE23, 0xE31, 0xE21, 0xE22, 0xE4C] @
        lit '' (wikidata)'' @ [0x22])),
     (lit ''chachoengsao'', energy_fact (1369 / 100) (10107 / 100) (497 / 100) (135575 / 100)
       (lit ''th.wikipedia.org article '' @ [0x22, 0xE08, 0xE31, 0xE07, 0xE2B, 0xE27, 0xE31,
        0xE14, 0xE09, 0xE30, 0xE40, 0xE0A, 0xE34, 0xE07, 0xE40, 0xE17, 0xE23, 0xE32] @
        lit '' (wikidata)'' @ [0x22])),
     (lit ''chai-nat'', energy_fact (1518 / 100) (10013 / 100) (511 / 100) (138493 / 100)
       (lit ''th.wikipedia.org article '' @ [0x22, 0xE08, 0xE31, 0xE07, 0xE2B, 0xE27, 0xE31,
        0xE14, 0xE0A, 0xE31, 0xE22, 0xE19, 0xE32, 0xE17] @ lit '' (wikidata)'' @ [0x22])),
     (lit ''chaiyaphum'', energy_fact (158 / 10) (10204 / 100) (51 / 10) (139938 / 100)
       (lit ''th.wikipedia.org article '' @ [0x22, 0xE08, 0xE31, 0xE07, 0xE2B, 0xE27, 0xE31,
        0xE14, 0xE0A, 0xE31, 0xE22, 0xE20, 0xE39, 0xE21, 0xE34] @ lit '' (wikidata)'' @ [0x22])),
     (lit ''chanthaburi'', energy_fact (1261 / 100) (10211 / 100) (486 / 100) (133923 / 100)
       (lit ''th.wikipedia.org article '' @ [0x22, 0xE08, 0xE31, 0xE07, 0xE2B, 0xE27, 0xE31,
        0xE14, 0xE08, 0xE31, 0xE19, 0xE17, 0xE1A, 0xE38, 0xE23, 0xE35] @ lit '' (wikidata)'' @
        [0x22])),
     (lit ''chiang-mai'', energy_fact (188 / 10) (9898 / 100) (484 / 100) (130185 / 100)
       (lit ''th.wikipedia.org article '' @ [0x22, 0xE08, 0xE31, 0xE07, 0xE2B, 0xE27, 0xE31,
        0xE14, 0xE40, 0xE0A, 0xE35, 0xE22, 0xE07, 0xE43, 0xE2B, 0xE21, 0xE48] @
        lit '' (wikidata)'' @ [0x22]))]"

definition energyData_2 :: "(jstr, province_energy_fact) dict" where
  "energyData_2 =
    [(lit ''chiang-rai'', energy_fact (1991 / 100) (9983 / 100) (493 / 100) (13418 / 10)
       (lit ''th.wikipedia.org article '' @ [0x22, 0xE08, 0xE31, 0xE07, 0xE2B, 0xE27, 0xE31,
        0xE14, 0xE40, 0xE0A, 0xE35, 0xE22, 0xE07, 0xE23, 0xE32, 0xE22] @ lit '' (wikidata)'' @
        [0x22])),
     (lit ''chonburi'', energy_fact (134 / 10) (101) (492 / 100) (135379 / 100)
       (lit ''th.wikipedia.org article '' @ [0x22, 0xE08, 0xE31, 0xE07, 0xE2B, 0xE27, 0xE31,
        0xE14, 0xE0A, 0xE25, 0xE1A, 0xE38, 0xE23, 0xE35] @ lit '' (wikidata)'' @ [0x22])),
     (lit ''chumphon'', energy_fact (10493 / 1000) (99179 / 1000) (501 / 100) (13945 / 10)
       (lit ''th.wikipedia.org article '' @ [0x22, 0xE08, 0xE31, 0xE07, 0xE2B, 0xE27, 0xE31,
        0xE14, 0xE0A, 0xE38, 0xE21, 0xE1E, 0xE23] @ lit '' (wikidata)'' @ [0x22])),
     (lit ''kalasin'', energy_fact (16433 / 1000) (103507 / 1000) (51 / 10) (139878 / 100)
       (lit ''th.wikipedia.org article '' @ [0x22, 0xE08, 0xE31, 0xE07, 0xE2B, 0xE27, 0xE31,
        0xE14, 0xE01, 0xE32, 0xE2C, 0xE2A, 0xE34, 0xE19, 0xE18, 0xE38, 0xE4C] @
        lit '' (wikidata)'' @ [0x22])),
     (lit ''kamphaeng-phet'', energy_fact (1647 / 100) (9952 / 100) (493 / 100) (132396 / 100)
       (lit ''th.wikipedia.org article '' @ [0x22, 0xE08, 0xE31, 0xE07, 0xE2B, 0xE27, 0xE31,
        0xE14, 0xE01, 0xE33, 0xE41, 0xE1E, 0xE07, 0xE40, 0xE1E, 0xE0A, 0xE23] @
        lit '' (wikidata)'' @ [0x22])),
     (lit ''kanchanaburi'', energy_fact (1400416667 / 100000000) (9954916667 / 100000000) (502 / 100) (136329 / 100)
       (lit ''th.wikipedia.org article '' @ [0x22, 0xE08, 0xE31, 0xE07, 0xE2B, 0xE27, 0xE31,
        0xE14, 0xE01, 0xE32, 0xE0D, 0xE08, 0xE19, 0xE1A, 0xE38, 0xE23, 0xE35] @
        lit '' (wikidata)'' @ [0x22])),
     (lit ''khon-kaen'', energy_fact (1642 / 100) (10283 / 100) (513 / 100) (140026 / 100)
       (lit ''th.wikipedia.org article '' @ [0x22, 0xE08, 0xE31, 0xE07, 0xE2B, 0xE27, 0xE31,
        0xE14, 0xE02, 0xE2D, 0xE19, 0xE41, 0xE01, 0xE48, 0xE19] @ lit '' (wikidata)'' @ [0x22])),
     (lit ''krabi'', energy_fact (8058 / 1000) (98917 / 1000) (497 / 100) (13613 / 10)
       (lit ''th.wikipedia.org article '' @ [0x22, 0xE08, 0xE31, 0xE07, 0xE2B, 0xE27, 0xE31,
        0xE14, 0xE01, 0xE23, 0xE30, 0xE1A, 0xE35, 0xE48] @ lit '' (wikidata)'' @ [0x22])),
     (lit ''lampang'', energy_fact (1829 / 100) (9948 / 100) (483 / 100) (130531 / 100)
       (lit ''th.wikipedia.org article '' @ [0x22, 0xE08, 0xE31, 0xE07, 0xE2B, 0xE27, 0xE31,
        0xE14, 0xE25, 0xE33, 0xE1B, 0xE32, 0xE07] @ lit '' (wikidata)'' @ [0x22])),
     (lit ''lamphun'', energy_fact (185 / 10) (9908 / 100) (482 / 100) (131306 / 100)
       (lit ''th.wikipedia.org article '' @ [0x22, 0xE08, 0xE31, 0xE07, 0xE2B, 0xE27, 0xE31,
        0xE14, 0xE25, 0xE33, 0xE1E, 0xE39, 0xE19] @ lit '' (wikidata)'' @ [0x22]))]"

definition energyData_3 :: "(jstr, province_energy_fact) dict" where
  "energyData_3 =
    [(lit ''loei'', energy_fact (1749 / 100) (10173 / 100) (488 / 100) (132906 / 100)
       (lit ''th.wikipedia.org article '' @ [0x22, 0xE08, 0xE31, 0xE07, 0xE2B, 0xE27, 0xE31,
        0xE14, 0xE40, 0xE25, 0xE22] @ lit '' (wikidata)'' @ [0x22])),
     (lit ''lopburi'', energy_fact (148 / 10) (10062 / 100) (509 / 100) (138882 / 100)
       (lit ''th.wikipedia.org article '' @ [0x22, 0xE08, 0xE31, 0xE07, 0xE2B, 0xE27, 0xE31,
        0xE14, 0xE25, 0xE1E, 0xE1A, 0xE38, 0xE23, 0xE35] @ lit '' (wikidata)'' @ [0x22])),
     (lit ''mae-hong-son'', energy_fact (1927 / 100) (9793 / 100) (487 / 100) (132594 / 100)
       (lit ''th.wikipedia.org article '' @ [0x22, 0xE08, 0xE31, 0xE07, 0xE2B, 0xE27, 0xE31,
        0xE14, 0xE41, 0xE21, 0xE48, 0xE2E, 0xE48, 0xE2D, 0xE07, 0xE2A, 0xE2D, 0xE19] @
        lit '' (wikidata)'' @ [0x22])),
     (lit ''maha-sarakham'', energy_fact (1618 / 100) (10329 / 100) (513 / 100) (140781 / 100)
       (lit ''th.wikipedia.org article '' @ [0x22, 0xE08, 0xE31, 0xE07, 0xE2B, 0xE27, 0xE31,
        0xE14, 0xE21, 0xE2B, 0xE32, 0xE2A, 0xE32, 0xE23, 0xE04, 0xE32, 0xE21] @
        lit '' (wikidata)'' @ [0x22])),
     (lit ''mukdahan'', energy_fact (1654 / 100) (10472 / 100) (499 / 100) (137467 / 100)
       (lit ''th.wikipedia.org article '' @ [0x22, 0xE08, 0xE31, 0xE07, 0xE2B, 0xE27, 0xE31,
        0xE14, 0xE21, 0xE38, 0xE01, 0xE14, 0xE32, 0xE2B, 0xE32, 0xE23] @ lit '' (wikidata)'' @
        [0x22])),
     (lit ''nakhon-nayok'', energy_fact (142 / 10) (10122 / 100) (491 / 100) (133553 / 100)
       (lit ''th.wikipedia.org article '' @ [0x22, 0xE08, 0xE31, 0xE07, 0xE2B, 0xE27, 0xE31,
        0xE14, 0xE19, 0xE04, 0xE23, 0xE19, 0xE32, 0xE22, 0xE01] @ lit '' (wikidata)'' @ [0x22])),
     (lit ''nakhon-pathom'', energy_fact (1382 / 100) (10006 / 100) (509 / 100) (138413 / 100)
       (lit ''th.wikipedia.org article '' @ [0x22, 0xE08, 0xE31, 0xE07, 0xE2B, 0xE27, 0xE31,
        0xE14, 0xE19, 0xE04, 0xE23, 0xE1B, 0xE10, 0xE21] @ lit '' (wikidata)'' @ [0x22])),
     (lit ''nakhon-phanom'', energy_fact (174 / 10) (10478 / 100) (485 / 100) (132705 / 100)
       (lit ''th.wikipedia.org article '' @ [0x22, 0xE08, 0xE31, 0xE07, 0xE2B, 0xE27, 0xE31,
        0xE14, 0xE19, 0xE04, 0xE23, 0xE1E, 0xE19, 0xE21] @ lit '' (wikidata)'' @ [0x22])),
     (lit ''nakhon-ratchasima'', energy_fact (1497 / 100) (1021 / 10) (507 / 100) (138932 / 100)
       (lit ''th.wikipedia.org article '' @ [0x22, 0xE08, 0xE31, 0xE07, 0xE2B, 0xE27, 0xE31,
        0xE14, 0xE19, 0xE04, 0xE23, 0xE23, 0xE32, 0xE0A, 0xE2A, 0xE35, 0xE21, 0xE32] @
        lit '' (wikidata)'' @ [0x22])),
     (lit ''nakhon-sawan'', energy_fact (157 / 10) (10007 / 100) (51 / 10) (137568 / 100)
       (lit ''th.wikipedia.org article '' @ [0x22, 0xE08, 0xE31, 0xE07, 0xE2B, 0xE27, 0xE31,
        0xE14, 0xE19, 0xE04, 0xE23, 0xE2A, 0xE27, 0xE23, 0xE23, 0xE04, 0xE4C] @
        lit '' (wikidata)'' @ [0x22]))]"

definition energyData_4 :: "(jstr, province_energy_fact) dict" where
  "energyData_4 =
    [(lit ''nakhon-si-thammarat'', energy_fact (84 / 10) (9997 / 100) (503 / 100) (137748 / 100)
       (lit ''th.wikipedia.org article '' @ [0x22, 0xE08, 0xE31, 0xE07, 0xE2B, 0xE27, 0xE31,
        0xE14, 0xE19, 0xE04, 0xE23, 0xE28, 0xE23, 0xE35, 0xE18, 0xE23, 0xE23, 0xE21, 0xE23, 0xE32,
        0xE0A] @ lit '' (wikidata)'' @ [0x22])),
     (lit ''nan'', energy_fact (1878 / 100) (10077 / 100) (478 / 100) (12948 / 10)
       (lit ''th.wikipedia.org article '' @ [0x22, 0xE08, 0xE31, 0xE07, 0xE2B, 0xE27, 0xE31,
        0xE14, 0xE19, 0xE48, 0xE32, 0xE19] @ lit '' (wikidata)'' @ [0x22])),
     (lit ''narathiwat'', energy_fact (643 / 100) (10182 / 100) (53 / 10) (145453 / 100)
       (lit ''th.wikipedia.org article '' @ [0x22, 0xE08, 0xE31, 0xE07, 0xE2B, 0xE27, 0xE31,
        0xE14, 0xE19, 0xE23, 0xE32, 0xE18, 0xE34, 0xE27, 0xE32, 0xE2A] @ lit '' (wikidata)'' @
        [0x22])),
     (lit ''nong-bua-lamphu'', energy_fact (172 / 10) (10244 / 100) (501 / 100) (136722 / 100)
       (lit ''th.wikipedia.org article '' @ [0x22, 0xE08, 0xE31, 0xE07, 0xE2B, 0xE27, 0xE31,
        0xE14, 0xE2B, 0xE19, 0xE2D, 0xE07, 0xE1A, 0xE31, 0xE27, 0xE25, 0xE33, 0xE20, 0xE39] @
        lit '' (wikidata)'' @ [0x22])),
     (lit ''nong-khai'', energy_fact (1788 / 100) (10274 / 100) (499 / 100) (13579 / 10)
       (lit ''th.wikipedia.org article '' @ [0x22, 0xE08, 0xE31, 0xE07, 0xE2B, 0xE27, 0xE31,
        0xE14, 0xE2B, 0xE19, 0xE2D, 0xE07, 0xE04, 0xE32, 0xE22] @ lit '' (wikidata)'' @ [0x22])),
     (lit ''nonthaburi'', energy_fact (138 / 10) (10018 / 100) (509 / 100) (138594 / 100)
       (lit ''th.wikipedia.org article '' @ [0x22, 0xE08, 0xE31, 0xE07, 0xE2B, 0xE27, 0xE31,
        0xE14, 0xE19, 0xE19, 0xE17, 0xE1A, 0xE38, 0xE23, 0xE35] @ lit '' (wikidata)'' @ [0x22])),
     (lit ''pathum-thani'', energy_fact (1402 / 100) (10052 / 100) (504 / 100) (137114 / 100)
       (lit ''th.wikipedia.org article '' @ [0x22, 0xE08, 0xE31, 0xE07, 0xE2B, 0xE27, 0xE31,
        0xE14, 0xE1B, 0xE17, 0xE38, 0xE21, 0xE18, 0xE32, 0xE19, 0xE35] @ lit '' (wikidata)'' @
        [0x22])),
     (lit ''pattani'', energy_fact (687 / 100) (10124 / 100) (51 / 10) (14001 / 10)
       (lit ''th.wikipedia.org article '' @ [0x22, 0xE08, 0xE31, 0xE07, 0xE2B, 0xE27, 0xE31,
        0xE14, 0xE1B, 0xE31, 0xE15, 0xE15, 0xE32, 0xE19, 0xE35] @ lit '' (wikidata)'' @ [0x22])),
     (lit ''phang-nga'', energy_fact (845 / 100) (9853 / 100) (494 / 100) (13499 / 10)
       (lit ''th.wikipedia.org article '' @ [0x22, 0xE08, 0xE31, 0xE07, 0xE2B, 0xE27, 0xE31,
        0xE14, 0xE1E, 0xE31, 0xE07, 0xE07, 0xE32] @ lit '' (wikidata)'' @ [0x22])),
     (lit ''phatthalung'', energy_fact (763 / 100) (10007 / 100) (518 / 100) (142316 / 100)
       (lit ''th.wikipedia.org article '' @ [0x22, 0xE08, 0xE31, 0xE07, 0xE2B, 0xE27, 0xE31,
        0xE14, 0xE1E, 0xE31, 0xE17, 0xE25, 0xE38, 0xE07] @ lit '' (wikidata)'' @ [0x22]))]"

definition energyData_5 :: "(jstr, province_energy_fact) dict" where
  "energyData_5 =
    [(lit ''phayao'', energy_fact (1917 / 100) (9991 / 100) (49 / 10) (133211 / 100)
       (lit ''th.wikipedia.org article '' @ [0x22, 0xE08, 0xE31, 0xE07, 0xE2B, 0xE27, 0xE31,
        0xE14, 0xE1E, 0xE30, 0xE40, 0xE22, 0xE32] @ lit '' (wikidata)'' @ [0x22])),
     (lit ''phetchabun'', energy_fact (1642 / 100) (10116 / 100) (494 / 100) (133633 / 100)
       (lit ''th.wikipedia.org article '' @ [0x22, 0xE08, 0xE31, 0xE07, 0xE2B, 0xE27, 0xE31,
        0xE14, 0xE40, 0xE1E, 0xE0A, 0xE23, 0xE1A, 0xE39, 0xE23, 0xE13, 0xE4C] @
        lit '' (wikidata)'' @ [0x22])),
     (lit ''phetchaburi'', energy_fact (13111 / 1000) (99946 / 1000) (515 / 100) (141145 / 100)
       (lit ''th.wikipedia.org article '' @ [0x22, 0xE08, 0xE31, 0xE07, 0xE2B, 0xE27, 0xE31,
        0xE14, 0xE40, 0xE1E, 0xE0A, 0xE23, 0xE1A, 0xE38, 0xE23, 0xE35] @ lit '' (wikidata)'' @
        [0x22])),
     (lit ''phichit'', energy_fact (1644 / 100) (10035 / 100) (501 / 100) (134825 / 100)
       (lit ''th.wikipedia.org article '' @ [0x22, 0xE08, 0xE31, 0xE07, 0xE2B, 0xE27, 0xE31,
        0xE14, 0xE1E, 0xE34, 0xE08, 0xE34, 0xE15, 0xE23] @ lit '' (wikidata)'' @ [0x22])),
     (lit ''phitsanulok'', energy_fact (16826 / 1000) (10026 / 100) (497 / 100) (13387 / 10)
       (lit ''th.wikipedia.org article '' @ [0x22, 0xE08, 0xE31, 0xE07, 0xE2B, 0xE27, 0xE31,
        0xE14, 0xE1E, 0xE34, 0xE29, 0xE13, 0xE38, 0xE42, 0xE25, 0xE01] @ lit '' (wikidata)'' @
        [0x22])),
     (lit ''phra-nakhon-si-ayutthaya'', energy_fact (1436 / 100) (10057 / 100) (501 / 100) (136165 / 100)
       (lit ''th.wikipedia.org article '' @ [0x22, 0xE08, 0xE31, 0xE07, 0xE2B, 0xE27, 0xE31,
        0xE14, 0xE1E, 0xE23, 0xE30, 0xE19, 0xE04, 0xE23, 0xE28, 0xE23, 0xE35, 0xE2D, 0xE22, 0xE38,
        0xE18, 0xE22, 0xE32] @ lit '' (wikidata)'' @ [0x22])),
     (lit ''phrae'', energy_fact (1815 / 100) (10016 / 100) (489 / 100) (132742 / 100)
       (lit ''th.wikipedia.org article '' @ [0x22, 0xE08, 0xE31, 0xE07, 0xE2B, 0xE27, 0xE31,
        0xE14, 0xE41, 0xE1E, 0xE23, 0xE48] @ lit '' (wikidata)'' @ [0x22])),
     (lit ''phuket'', energy_fact (788 / 100) (9838 / 100) (542 / 100) (151098 / 100)
       (lit ''th.wikipedia.org article '' @ [0x22, 0xE08, 0xE31, 0xE07, 0xE2B, 0xE27, 0xE31,
        0xE14, 0xE20, 0xE39, 0xE40, 0xE01, 0xE47, 0xE15] @ lit '' (wikidata)'' @ [0x22])),
     (lit ''prachinburi'', energy_fact (1405 / 100) (10138 / 100) (497 / 100) (135215 / 100)
       (lit ''th.wikipedia.org article '' @ [0x22, 0xE08, 0xE31, 0xE07, 0xE2B, 0xE27, 0xE31,
        0xE14, 0xE1B, 0xE23, 0xE32, 0xE08, 0xE35, 0xE19, 0xE1A, 0xE38, 0xE23, 0xE35] @
        lit '' (wikidata)'' @ [0x22])),
     (lit ''prachuap-khiri-khan'', energy_fact (1182 / 100) (998 / 10) (534 / 100) (148547 / 100)
       (lit ''th.wikipedia.org article '' @ [0x22, 0xE08, 0xE31, 0xE07, 0xE2B, 0xE27, 0xE31,
        0xE14, 0xE1B, 0xE23, 0xE30, 0xE08, 0xE27, 0xE1A, 0xE04, 0xE35, 0xE23, 0xE35, 0xE02, 0xE31,
        0xE19, 0xE18, 0xE4C] @ lit '' (wikidata)'' @ [0x22]))]"

definition energyData_6 :: "(jstr, province_energy_fact) dict" where
  "energyData_6 =
    [(lit ''ranong'', energy_fact (997 / 100) (9863 / 100) (503 / 100) (139564 / 100)
       (lit ''th.wikipedia.org article '' @ [0x22, 0xE08, 0xE31, 0xE07, 0xE2B, 0xE27, 0xE31,
        0xE14, 0xE23, 0xE30, 0xE19, 0xE2D, 0xE07] @ lit '' (wikidata)'' @ [0x22])),
     (lit ''ratchaburi'', energy_fact (1354 / 100) (9982 / 100) (506 / 100) (137213 / 100)
       (lit ''th.wikipedia.org article '' @ [0x22, 0xE08, 0xE31, 0xE07, 0xE2B, 0xE27, 0xE31,
        0xE14, 0xE23, 0xE32, 0xE0A, 0xE1A, 0xE38, 0xE23, 0xE35] @ lit '' (wikidata)'' @ [0x22])),
     (lit ''rayong'', energy_fact (1268 / 100) (10128 / 100) (515 / 100) (141269 / 100)
       (lit ''th.wikipedia.org article '' @ [0x22, 0xE08, 0xE31, 0xE07, 0xE2B, 0xE27, 0xE31,
        0xE14, 0xE23, 0xE30, 0xE22, 0xE2D, 0xE07] @ lit '' (wikidata)'' @ [0x22])),
     (lit ''roi-et'', energy_fact (1605 / 100) (10365 / 100) (511 / 100) (140403 / 100)
       (lit ''th.wikipedia.org article '' @ [0x22, 0xE08, 0xE31, 0xE07, 0xE2B, 0xE27, 0xE31,
        0xE14, 0xE23, 0xE49, 0xE2D, 0xE22, 0xE40, 0xE2D, 0xE47, 0xE14] @ lit '' (wikidata)'' @
        [0x22])),
     (lit ''sa-kaeo'', energy_fact (1382 / 100) (10207 / 100) (51 / 10) (139728 / 100)
       (lit ''th.wikipedia.org article '' @ [0x22, 0xE08, 0xE31, 0xE07, 0xE2B, 0xE27, 0xE31,
        0xE14, 0xE2A, 0xE23, 0xE30, 0xE41, 0xE01, 0xE49, 0xE27] @ lit '' (wikidata)'' @ [0x22])),
     (lit ''sakon-nakhon'', energy_fact (1717 / 100) (10415 / 100) (5) (137297 / 100)
       (lit ''th.wikipedia.org article '' @ [0x22, 0xE08, 0xE31, 0xE07, 0xE2B, 0xE27, 0xE31,
        0xE14, 0xE2A, 0xE01, 0xE25, 0xE19, 0xE04, 0xE23] @ lit '' (wikidata)'' @ [0x22])),
     (lit ''samut-prakan'', energy_fact (1361 / 100) (10061 / 100) (514 / 100) (140756 / 100)
       (lit ''th.wikipedia.org article '' @ [0x22, 0xE08, 0xE31, 0xE07, 0xE2B, 0xE27, 0xE31,
        0xE14, 0xE2A, 0xE21, 0xE38, 0xE17, 0xE23, 0xE1B, 0xE23, 0xE32, 0xE01, 0xE32, 0xE23] @
        lit '' (wikidata)'' @ [0x22])),
     (lit ''samut-sakhon'', energy_fact (1354 / 100) (10028 / 100) (519 / 100) (142274 / 100)
       (lit ''th.wikipedia.org article '' @ [0x22, 0xE08, 0xE31, 0xE07, 0xE2B, 0xE27, 0xE31,
        0xE14, 0xE2A, 0xE21, 0xE38, 0xE17, 0xE23, 0xE2A, 0xE32, 0xE04, 0xE23] @
        lit '' (wikidata)'' @ [0x22])),
     (lit ''samut-songkhram'', energy_fact (13413 / 1000) (100002 / 1000) (522 / 100) (141386 / 100)
       (lit ''th.wikipedia.org article '' @ [0x22, 0xE08, 0xE31, 0xE07, 0xE2B, 0xE27, 0xE31,
        0xE14, 0xE2A, 0xE21, 0xE38, 0xE17, 0xE23, 0xE2A, 0xE07, 0xE04, 0xE23, 0xE32, 0xE21] @
        lit '' (wikidata)'' @ [0x22])),
     (lit ''saraburi'', energy_fact (1453 / 100) (10088 / 100) (497 / 100) (135212 / 100)
       (lit ''th.wikipedia.org article '' @ [0x22, 0xE08, 0xE31, 0xE07, 0xE2B, 0xE27, 0xE31,
        0xE14, 0xE2A, 0xE23, 0xE30, 0xE1A, 0xE38, 0xE23, 0xE35] @ lit '' (wikidata)'' @ [0x22]))]"

definition energyData_7 :: "(jstr, province_energy_fact) dict" where
  "energyData_7 =
    [(lit ''satun'', energy_fact (662 / 100) (10007 / 100) (516 / 100) (14163 / 10)
       (lit ''th.wikipedia.org article '' @ [0x22, 0xE08, 0xE31, 0xE07, 0xE2B, 0xE27, 0xE31,
        0xE14, 0xE2A, 0xE15, 0xE39, 0xE25] @ lit '' (wikidata)'' @ [0x22])),
     (lit ''sing-buri'', energy_fact (1489 / 100) (1004 / 10) (511 / 100) (138964 / 100)
       (lit ''th.wikipedia.org article '' @ [0x22, 0xE08, 0xE31, 0xE07, 0xE2B, 0xE27, 0xE31,
        0xE14, 0xE2A, 0xE34, 0xE07, 0xE2B, 0xE4C, 0xE1A, 0xE38, 0xE23, 0xE35] @
        lit '' (wikidata)'' @ [0x22])),
     (lit ''sisaket'', energy_fact (1512 / 100) (104322 / 1000) (512 / 100) (140123 / 100)
       (lit ''th.wikipedia.org article '' @ [0x22, 0xE08, 0xE31, 0xE07, 0xE2B, 0xE27, 0xE31,
        0xE14, 0xE28, 0xE23, 0xE35, 0xE2A, 0xE30, 0xE40, 0xE01, 0xE29] @ lit '' (wikidata)'' @
        [0x22])),
     (lit ''songkhla'', energy_fact (721 / 100) (10056 / 100) (524 / 100) (14338 / 10)
       (lit ''th.wikipedia.org article '' @ [0x22, 0xE08, 0xE31, 0xE07, 0xE2B, 0xE27, 0xE31,
        0xE14, 0xE2A, 0xE07, 0xE02, 0xE25, 0xE32] @ lit '' (wikidata)'' @ [0x22])),
     (lit ''sukhothai'', energy_fact (1701 / 100) (9975 / 100) (499 / 100) (13462 / 10)
       (lit ''th.wikipedia.org article '' @ [0x22, 0xE08, 0xE31, 0xE07, 0xE2B, 0xE27, 0xE31,
        0xE14, 0xE2A, 0xE38, 0xE42, 0xE02, 0xE17, 0xE31, 0xE22] @ lit '' (wikidata)'' @ [0x22])),
     (lit ''suphan-buri'', energy_fact (14474 / 1000) (100118 / 1000) (508 / 100) (137712 / 100)
       (lit ''th.wikipedia.org article '' @ [0x22, 0xE08, 0xE31, 0xE07, 0xE2B, 0xE27, 0xE31,
        0xE14, 0xE2A, 0xE38, 0xE1E, 0xE23, 0xE23, 0xE13, 0xE1A, 0xE38, 0xE23, 0xE35] @
        lit '' (wikidata)'' @ [0x22])),
     (lit ''surat-thani'', energy_fact (914 / 100) (9933 / 100) (511 / 100) (139704 / 100)
       (lit ''th.wikipedia.org article '' @ [0x22, 0xE08, 0xE31, 0xE07, 0xE2B, 0xE27, 0xE31,
        0xE14, 0xE2A, 0xE38, 0xE23, 0xE32, 0xE29, 0xE0E, 0xE23, 0xE4C, 0xE18, 0xE32, 0xE19, 0xE35]
        @ lit '' (wikidata)'' @ [0x22])),
     (lit ''surin'', energy_fact (1488 / 100) (10349 / 100) (511 / 100) (140093 / 100)
       (lit ''th.wikipedia.org article '' @ [0x22, 0xE08, 0xE31, 0xE07, 0xE2B, 0xE27, 0xE31,
        0xE14, 0xE2A, 0xE38, 0xE23, 0xE34, 0xE19, 0xE17, 0xE23, 0xE4C] @ lit '' (wikidata)'' @
        [0x22])),
     (lit ''tak'', energy_fact (16884 / 1000) (99125 / 1000) (48 / 10) (129614 / 100)
       (lit ''th.wikipedia.org article '' @ [0x22, 0xE08, 0xE31, 0xE07, 0xE2B, 0xE27, 0xE31,
        0xE14, 0xE15, 0xE32, 0xE01] @ lit '' (wikidata)'' @ [0x22])),
     (lit ''trang'', energy_fact (756 / 100) (9961 / 100) (485 / 100) (132682 / 100)
       (lit ''th.wikipedia.org article '' @ [0x22, 0xE08, 0xE31, 0xE07, 0xE2B, 0xE27, 0xE31,
        0xE14, 0xE15, 0xE23, 0xE31, 0xE07] @ lit '' (wikidata)'' @ [0x22]))]"

definition energyData_8 :: "(jstr, province_energy_fact) dict" where
  "energyData_8 =
    [(lit ''trat'', energy_fact (1223 / 100) (1025 / 10) (469 / 100) (128682 / 100)
       (lit ''th.wikipedia.org article '' @ [0x22, 0xE08, 0xE31, 0xE07, 0xE2B, 0xE27, 0xE31,
        0xE14, 0xE15, 0xE23, 0xE32, 0xE14] @ lit '' (wikidata)'' @ [0x22])),
     (lit ''ubon-ratchathani'', energy_fact (15229 / 1000) (104851 / 1000) (509 / 100) (139221 / 100)
       (lit ''th.wikipedia.org article '' @ [0x22, 0xE08, 0xE31, 0xE07, 0xE2B, 0xE27, 0xE31,
        0xE14, 0xE2D, 0xE38, 0xE1A, 0xE25, 0xE23, 0xE32, 0xE0A, 0xE18, 0xE32, 0xE19, 0xE35] @
        lit '' (wikidata)'' @ [0x22])),
     (lit ''udon-thani'', energy_fact (1741 / 100) (10279 / 100) (501 / 100) (136646 / 100)
       (lit ''th.wikipedia.org article '' @ [0x22, 0xE08, 0xE31, 0xE07, 0xE2B, 0xE27, 0xE31,
        0xE14, 0xE2D, 0xE38, 0xE14, 0xE23, 0xE18, 0xE32, 0xE19, 0xE35] @ lit '' (wikidata)'' @
        [0x22])),
     (lit ''uthai-thani'', energy_fact (1538 / 100) (10003 / 100) (511 / 100) (138279 / 100)
       (lit ''th.wikipedia.org article '' @ [0x22, 0xE08, 0xE31, 0xE07, 0xE2B, 0xE27, 0xE31,
        0xE14, 0xE2D, 0xE38, 0xE17, 0xE31, 0xE22, 0xE18, 0xE32, 0xE19, 0xE35] @
        lit '' (wikidata)'' @ [0x22])),
     (lit ''uttaradit'', energy_fact (1763 / 100) (1001 / 10) (496 / 100) (13373 / 10)
       (lit ''th.wikipedia.org article '' @ [0x22, 0xE08, 0xE31, 0xE07, 0xE2B, 0xE27, 0xE31,
        0xE14, 0xE2D, 0xE38, 0xE15, 0xE23, 0xE14, 0xE34, 0xE15, 0xE16, 0xE4C] @
        lit '' (wikidata)'' @ [0x22])),
     (lit ''yala'', energy_fact (655 / 100) (10129 / 100) (522 / 100) (14182 / 10)
       (lit ''th.wikipedia.org article '' @ [0x22, 0xE08, 0xE31, 0xE07, 0xE2B, 0xE27, 0xE31,
        0xE14, 0xE22, 0xE30, 0xE25, 0xE32] @ lit '' (wikidata)'' @ [0x22])),
     (lit ''yasothon'', energy_fact (1579 / 100) (10415 / 100) (51 / 10) (140007 / 100)
       (lit ''th.wikipedia.org article '' @ [0x22, 0xE08, 0xE31, 0xE07, 0xE2B, 0xE27, 0xE31,
        0xE14, 0xE22, 0xE42, 0xE2A, 0xE18, 0xE23] @ lit '' (wikidata)'' @ [0x22]))]"

definition provinceEnergyData :: "(jstr, province_energy_fact) dict" where
  "provinceEnergyData = energyData_1 @ energyData_2 @ energyData_3 @ energyData_4
     @ energyData_5 @ energyData_6 @ energyData_7 @ energyData_8"

text \<open>The lookup finds inherited properties too: \<open>Inherited\<close> is a function, not \<open>null\<close>.\<close>

definition getProvinceEnergyFact :: "jstr \<Rightarrow> province_energy_fact lookup" where
  "getProvinceEnergyFact slug = js_index provinceEnergyData slug"

section \<open>Statistics\<close>

record yield_ranking_entry =
  yr_slug :: jstr
  yr_specificYield :: rat
  yr_rank :: nat

definition round2 :: "rat \<Rightarrow> rat" where
  "round2 x = of_int \<lfloor>x * 100 + 1 / 2\<rfloor> / 100"

type_synonym energy_data = "(jstr, province_energy_fact) dict"

definition sorted_yields :: "energy_data \<Rightarrow> (jstr \<times> rat) list" where
  "sorted_yields data =
     sort_key (\<lambda>e. - snd e) (map (\<lambda>(slug, ft). (slug, ef_specificYield ft)) data)"

definition yieldRanking_of :: "energy_data \<Rightarrow> yield_ranking_entry list" where
  "yieldRanking_of data =
     map (\<lambda>(index, slug, y). \<lparr>yr_slug = slug, yr_specificYield = y, yr_rank = index + 1\<rparr>)
       (enumerate 0 (sorted_yields data))"

definition yieldRanking :: "yield_ranking_entry list" where
  "yieldRanking = yieldRanking_of provinceEnergyData"

record national_yield_stats =
  ns_count :: nat
  ns_min :: rat
  ns_max :: rat
  ns_mean :: rat
  ns_median :: rat
  ns_minSlug :: jstr
  ns_maxSlug :: jstr

text \<open>
  \<open>sorted[0]\<close>, \<open>ranking[count - 1].slug\<close> and the division by \<open>count\<close> need a table that is
  not empty, which the table of the program is.
\<close>

definition nationalYieldStats_of :: "energy_data \<Rightarrow> national_yield_stats" where
  "nationalYieldStats_of data =
     (let ranking = yieldRanking_of data;
          vals = map yr_specificYield ranking;
          n = length vals;
          sm = foldl (+) 0 vals;
          srt = sort vals;
          mid = n div 2
      in \<lparr>ns_count = n, ns_min = srt ! 0, ns_max = srt ! (n - 1),
          ns_mean = round2 (sm / of_nat n),
          ns_median = (if n mod 2 = 0 then round2 ((srt ! (mid - 1) + srt ! mid) / 2) else srt ! mid),
          ns_minSlug = yr_slug (ranking ! (n - 1)), ns_maxSlug = yr_slug (ranking ! 0)\<rparr>)"

definition nationalYieldStats :: national_yield_stats where
  "nationalYieldStats = nationalYieldStats_of provinceEnergyData"

record province_yield_summary =
  ps_slug :: jstr
  ps_specificYield :: rat
  ps_irradiationDaily :: rat
  ps_rank :: nat
  ps_count :: nat
  ps_vsMeanPct :: rat
  ps_percentile :: rat
  ps_fact :: province_energy_fact

text \<open>
  A slug that names an inherited property passes the test \<open>!ft\<close> but is no entry of the
  ranking, so it yields \<open>null\<close> as an unknown slug does.
\<close>

definition provinceYieldSummary_of :: "energy_data \<Rightarrow> jstr \<Rightarrow> province_yield_summary option" where
  "provinceYieldSummary_of data slug =
     (case js_index data slug of
        Own ft \<Rightarrow>
          (let ranking = yieldRanking_of data; stats = nationalYieldStats_of data in
           case List.find (\<lambda>r. yr_slug r = slug) ranking of
             None \<Rightarrow> None
           | Some entry \<Rightarrow>
               (let lowerOrEqual =
                      length (filter (\<lambda>r. yr_specificYield r \<le> ef_specificYield ft) ranking)
                in Some \<lparr>ps_slug = slug, ps_specificYield = ef_specificYield ft,
                     ps_irradiationDaily = ef_irradiationDaily ft, ps_rank = yr_rank entry,
                     ps_count = length ranking,
                     ps_vsMeanPct = round2 ((ef_specificYield ft - ns_mean stats) / ns_mean stats * 100),
                     ps_percentile = round2 (of_nat lowerOrEqual / of_nat (length ranking) * 100),
                     ps_fact = ft\<rparr>))
      | _ \<Rightarrow> None)"

definition provinceYieldSummary :: "jstr \<Rightarrow> province_yield_summary option" where
  "provinceYieldSummary slug = provinceYieldSummary_of provinceEnergyData slug"

text \<open>\<open>slice(-0)\<close> is \<open>slice(0)\<close>, the whole ranking.\<close>

definition yieldExtremes :: "nat \<Rightarrow> yield_ranking_entry list \<times> yield_ranking_entry list" where
  "yieldExtremes n =
     (take n yieldRanking,
      rev (if n = 0 then yieldRanking else drop (length yieldRanking - n) yieldRanking))"

section \<open>Rankings\<close>

lemma mset_sorted_yields:
  "mset (sorted_yields data) = mset (map (\<lambda>(slug, ft). (slug, ef_specificYield ft)) data)"
  by (simp add: sorted_yields_def)

lemma length_sorted_yields [simp]: "length (sorted_yields data) = length data"
  by (simp add: sorted_yields_def)

lemma length_ranking [simp]: "length (yieldRanking_of data) = length data"
  by (simp add: yieldRanking_of_def)

lemma nth_ranking:
  "i < length data \<Longrightarrow> yieldRanking_of data ! i =
     \<lparr>yr_slug = fst (sorted_yields data ! i), yr_specificYield = snd (sorted_yields data ! i),
      yr_rank = i + 1\<rparr>"
  by (simp add: yieldRanking_of_def nth_enumerate_eq split: prod.split)

lemma ranking_pairs: "map (\<lambda>r. (yr_slug r, yr_specificYield r)) (yieldRanking_of data) = sorted_yields data"
  by (rule nth_equalityI) (simp_all add: nth_ranking)

lemma ranking_ranks: "map yr_rank (yieldRanking_of data) = [1..<length data + 1]"
  by (rule nth_equalityI) (simp_all add: nth_ranking del: upt_Suc)

lemma sorted_yields_desc: "sorted_wrt (\<lambda>a b. snd b \<le> snd a) (sorted_yields data)"
proof -
  have "sorted (map (\<lambda>e. - snd e) (sorted_yields data))" by (simp add: sorted_yields_def)
  then show ?thesis by (simp add: sorted_map)
qed

lemma ranking_desc:
  "sorted_wrt (\<lambda>a b. yr_specificYield b \<le> yr_specificYield a) (yieldRanking_of data)"
proof -
  have "sorted_wrt (\<lambda>a b. snd b \<le> snd a)
      (map (\<lambda>r. (yr_slug r, yr_specificYield r)) (yieldRanking_of data))"
    unfolding ranking_pairs by (rule sorted_yields_desc)
  then show ?thesis by (simp add: sorted_wrt_map)
qed

lemma ranking_entries:
  "set (map (\<lambda>r. (yr_slug r, yr_specificYield r)) (yieldRanking_of data)) =
     (\<lambda>(slug, ft). (slug, ef_specificYield ft)) ` set data"
  unfolding ranking_pairs by (simp add: sorted_yields_def)

lemma ranking_slugs: "mset (map yr_slug (yieldRanking_of data)) = mset (dict_keys data)"
proof -
  have "map yr_slug (yieldRanking_of data) =
      map fst (map (\<lambda>r. (yr_slug r, yr_specificYield r)) (yieldRanking_of data))"
    by simp
  also have "\<dots> = map fst (sorted_yields data)" unfolding ranking_pairs ..
  finally have "mset (map yr_slug (yieldRanking_of data)) = image_mset fst (mset (sorted_yields data))"
    by (metis mset_map)
  also have "\<dots> = mset (dict_keys data)"
    by (simp add: mset_sorted_yields dict_keys_def case_prod_unfold multiset.map_comp comp_def)
  finally show ?thesis .
qed

text \<open>Entries before a position have at least its yield, entries after it at most.\<close>

lemma ranking_mono:
  "i \<le> j \<Longrightarrow> j < length data \<Longrightarrow>
     yr_specificYield (yieldRanking_of data ! j) \<le> yr_specificYield (yieldRanking_of data ! i)"
  using ranking_desc [of data] by (cases "i = j") (auto simp: sorted_wrt_iff_nth_less)

text \<open>A slug of the table is found, and what the ranking says of the entries around it.\<close>

lemma ranking_find:
  assumes "slug \<in> set (dict_keys data)"
  shows "\<exists>i. i < length data \<and> yr_slug (yieldRanking_of data ! i) = slug \<and>
    List.find (\<lambda>r. yr_slug r = slug) (yieldRanking_of data) = Some (yieldRanking_of data ! i)"
proof -
  have "slug \<in> set (map yr_slug (yieldRanking_of data))"
    using assms ranking_slugs [of data] by (metis set_mset_mset)
  then have "List.find (\<lambda>r. yr_slug r = slug) (yieldRanking_of data) \<noteq> None"
    by (auto simp: find_None_iff)
  then show ?thesis by (auto simp: find_Some_iff)
qed

lemma ranking_count_le:
  "length (filter (\<lambda>r. yr_specificYield r \<le> y) (yieldRanking_of data)) =
     length (filter (\<lambda>(k, ft). ef_specificYield ft \<le> y) data)"
proof -
  have "length (filter (\<lambda>r. yr_specificYield r \<le> y) (yieldRanking_of data)) =
      length (filter (\<lambda>e. snd e \<le> y) (map (\<lambda>r. (yr_slug r, yr_specificYield r)) (yieldRanking_of data)))"
    by (simp add: filter_map comp_def)
  also have "\<dots> = size (filter_mset (\<lambda>e. snd e \<le> y) (mset (sorted_yields data)))"
    unfolding ranking_pairs by (metis mset_filter size_mset)
  also have "\<dots> = length (filter (\<lambda>(k, ft). ef_specificYield ft \<le> y) data)"
    unfolding mset_sorted_yields
    by (simp add: mset_filter [symmetric] filter_map comp_def case_prod_unfold del: mset_map mset_filter)
  finally show ?thesis .
qed

lemma ranking_above:
  assumes "(k, ft) \<in> set data" and "i < length data"
    and "yr_specificYield (yieldRanking_of data ! i) < ef_specificYield ft"
  shows "\<exists>j < i. yr_slug (yieldRanking_of data ! j) = k"
proof -
  have "(k, ef_specificYield ft) \<in> set (map (\<lambda>r. (yr_slug r, yr_specificYield r)) (yieldRanking_of data))"
    unfolding ranking_entries using assms(1) by force
  then obtain j where j: "j < length data" "yr_slug (yieldRanking_of data ! j) = k"
      "yr_specificYield (yieldRanking_of data ! j) = ef_specificYield ft"
    by (auto simp: in_set_conv_nth)
  have "j < i"
    using ranking_mono [of i j data] j(1,3) assms(3) by (cases "i \<le> j") auto
  with j show ?thesis by blast
qed

section \<open>The tables\<close>

lemma length_thaiProvinces: "length thaiProvinces = 77"
  by (simp add: thaiProvinces_def)

lemmas energy_data_defs = provinceEnergyData_def energyData_1_def energyData_2_def energyData_3_def
  energyData_4_def energyData_5_def energyData_6_def energyData_7_def energyData_8_def

lemma length_energyData: "length provinceEnergyData = 77"
  by (simp add: energy_data_defs)

lemma energy_slugs_sorted: "set (dict_keys provinceEnergyData) = set (map tp_slug thaiProvinces)"
proof -
  have "list_all (\<lambda>s. s \<in> set (map tp_slug thaiProvinces)) (dict_keys provinceEnergyData)"
    by (simp add: energy_data_defs thaiProvinces_def province_def dict_keys_def)
  moreover have "list_all (\<lambda>s. s \<in> set (dict_keys provinceEnergyData)) (map tp_slug thaiProvinces)"
    by (simp add: energy_data_defs thaiProvinces_def province_def dict_keys_def)
  ultimately show ?thesis by (auto simp: list_all_iff)
qed

lemma distinct_province_slugs: "distinct (map tp_slug thaiProvinces)"
  by (simp add: thaiProvinces_def province_def)

lemma distinct_energy_slugs: "distinct (dict_keys provinceEnergyData)"
proof (rule card_distinct)
  have "card (set (dict_keys provinceEnergyData)) = length (map tp_slug thaiProvinces)"
    unfolding energy_slugs_sorted by (rule distinct_card [OF distinct_province_slugs])
  then show "card (set (dict_keys provinceEnergyData)) = length (dict_keys provinceEnergyData)"
    by (simp only: length_map length_thaiProvinces length_energyData dict_keys_def)
qed

section \<open>Properties\<close>

text \<open>
  The two province tables agree: both have 77 entries with distinct slugs, and the slugs
  are the same, so every province has an energy record and no record is without a province.
\<close>

theorem province_tables_agree:
  "length thaiProvinces = 77 \<and> distinct (map tp_slug thaiProvinces) \<and>
   length provinceEnergyData = 77 \<and> distinct (dict_keys provinceEnergyData) \<and>
   set (dict_keys provinceEnergyData) = set (map tp_slug thaiProvinces)"
  using length_thaiProvinces distinct_province_slugs length_energyData distinct_energy_slugs
    energy_slugs_sorted by simp

text \<open>
  The ranking lists every province once with its own yield, from the highest yield to the
  lowest, with the ranks 1, 2, 3 and so on.
\<close>

theorem yield_ranking_correct:
  "mset (map yr_slug (yieldRanking_of data)) = mset (dict_keys data) \<and>
   set (map (\<lambda>r. (yr_slug r, yr_specificYield r)) (yieldRanking_of data)) =
     {(slug, y). \<exists>ft. (slug, ft) \<in> set data \<and> y = ef_specificYield ft} \<and>
   sorted_wrt (\<lambda>a b. yr_specificYield b \<le> yr_specificYield a) (yieldRanking_of data) \<and>
   map yr_rank (yieldRanking_of data) = [1..<length data + 1]"
proof (intro conjI)
  show "set (map (\<lambda>r. (yr_slug r, yr_specificYield r)) (yieldRanking_of data)) =
     {(slug, y). \<exists>ft. (slug, ft) \<in> set data \<and> y = ef_specificYield ft}"
    unfolding ranking_entries by force
qed (rule ranking_slugs ranking_desc ranking_ranks)+

text \<open>
  The national minimum and maximum are the yields of the provinces named for them, no
  province lies outside them, and the count is the number of provinces.
\<close>

theorem national_stats_extremes:
  assumes "data \<noteq> []"
  shows "let s = nationalYieldStats_of data in
    ns_count s = length data \<and>
    (\<exists>ft. (ns_minSlug s, ft) \<in> set data \<and> ef_specificYield ft = ns_min s) \<and>
    (\<exists>ft. (ns_maxSlug s, ft) \<in> set data \<and> ef_specificYield ft = ns_max s) \<and>
    (\<forall>(slug, ft) \<in> set data. ns_min s \<le> ef_specificYield ft \<and> ef_specificYield ft \<le> ns_max s)"
proof -
  let ?r = "yieldRanking_of data" and ?n = "length data"
  define ys where "ys = map yr_specificYield ?r"
  have n: "0 < ?n" using assms by simp
  have ly: "length ys = ?n" by (simp add: ys_def)
  have srt: "sort ys = rev ys"
  proof (rule properties_for_sort)
    have "sorted_wrt (\<lambda>a b. b \<le> a) ys"
      using ranking_desc [of data] by (simp add: ys_def sorted_wrt_map)
    then show "sorted (rev ys)" by (simp add: sorted_wrt_rev)
  qed simp
  have mn: "sort ys ! 0 = yr_specificYield (?r ! (?n - 1))"
    unfolding srt using n by (simp add: rev_nth ly) (simp add: ys_def)
  have mx: "sort ys ! (?n - 1) = yr_specificYield (?r ! 0)"
    unfolding srt using n by (simp add: rev_nth ly) (simp add: ys_def)
  have entry: "\<exists>ft. (yr_slug (?r ! i), ft) \<in> set data \<and> ef_specificYield ft = yr_specificYield (?r ! i)"
    if "i < ?n" for i
  proof -
    have "(yr_slug (?r ! i), yr_specificYield (?r ! i))
        \<in> set (map (\<lambda>r. (yr_slug r, yr_specificYield r)) ?r)"
      using that by (auto intro!: image_eqI [where x = "?r ! i"])
    then show ?thesis unfolding ranking_entries by auto
  qed
  have all: "yr_specificYield (?r ! (?n - 1)) \<le> ef_specificYield ft \<and>
      ef_specificYield ft \<le> yr_specificYield (?r ! 0)" if "(slug, ft) \<in> set data" for slug ft
  proof -
    have "(slug, ef_specificYield ft) \<in> set (map (\<lambda>r. (yr_slug r, yr_specificYield r)) ?r)"
      unfolding ranking_entries using that by force
    then obtain i where i: "i < ?n" and e: "ef_specificYield ft = yr_specificYield (?r ! i)"
      by (auto simp: in_set_conv_nth)
    with ranking_mono [of 0 i data] ranking_mono [of i "?n - 1" data] n show ?thesis by simp
  qed
  have "nationalYieldStats_of data = nationalYieldStats_of data" ..
  then show ?thesis
    using mn mx entry [of 0] entry [of "?n - 1"] n all
    by (simp add: nationalYieldStats_of_def Let_def ys_def [symmetric] ly) blast
qed

theorem national_stats_extremes_witness:
  "ns_count (nationalYieldStats_of [(lit ''a'', energy_fact 1 2 3 1400 [])]) = 1"
  using national_stats_extremes [of "[(lit ''a'', energy_fact 1 2 3 1400 [])]"] by (simp add: Let_def)

text \<open>
  A summary exists exactly for the provinces of the table; its rank is a position in the
  ranking, every province with a strictly higher yield is ranked before it, and its percentile
  counts the provinces with a lower or equal yield, itself included.
\<close>

theorem province_summary_correct:
  assumes "distinct (dict_keys data)"
  shows "(provinceYieldSummary_of data slug = None) = (slug \<notin> set (dict_keys data)) \<and>
    (\<forall>s. provinceYieldSummary_of data slug = Some s \<longrightarrow>
       ps_slug s = slug \<and> ps_count s = length data \<and>
       (slug, ps_fact s) \<in> set data \<and> ps_specificYield s = ef_specificYield (ps_fact s) \<and>
       1 \<le> ps_rank s \<and> ps_rank s \<le> length data \<and>
       (\<forall>(k, ft) \<in> set data. ps_specificYield s < ef_specificYield ft \<longrightarrow>
          (\<exists>i < ps_rank s - 1. yr_slug (yieldRanking_of data ! i) = k)) \<and>
       ps_percentile s = round2 (of_nat (length (filter (\<lambda>(k, ft). ef_specificYield ft \<le> ps_specificYield s) data))
          / of_nat (length data) * 100))"
proof -
  let ?r = "yieldRanking_of data"
  show ?thesis
  proof (cases "dict_get data slug")
    case None
    then have "provinceYieldSummary_of data slug = None"
      by (simp add: provinceYieldSummary_of_def js_index_def)
    moreover have "slug \<notin> set (dict_keys data)" using None by (simp add: dict_get_None_iff)
    ultimately show ?thesis by simp
  next
    case (Some ft)
    then have mem: "(slug, ft) \<in> set data" by (simp add: dict_get_def map_of_SomeD)
    then have "slug \<in> set (dict_keys data)" by (force simp: dict_keys_def)
    from ranking_find [OF this] obtain i where i: "i < length data" "yr_slug (?r ! i) = slug"
      and f: "List.find (\<lambda>r. yr_slug r = slug) ?r = Some (?r ! i)" by blast
    have y: "yr_specificYield (?r ! i) = ef_specificYield ft"
    proof -
      have "(slug, yr_specificYield (?r ! i)) \<in> set (map (\<lambda>r. (yr_slug r, yr_specificYield r)) ?r)"
        using i by (auto intro!: image_eqI [where x = "?r ! i"])
      then obtain ft' where "(slug, ft') \<in> set data" "yr_specificYield (?r ! i) = ef_specificYield ft'"
        unfolding ranking_entries by auto
      with mem assms show ?thesis by (metis dict_keys_def eq_key_imp_eq_value)
    qed
    define s where "s = the (provinceYieldSummary_of data slug)"
    have s: "provinceYieldSummary_of data slug = Some s"
      by (simp add: s_def provinceYieldSummary_of_def js_index_def Some f Let_def)
    have parts: "ps_slug s = slug" "ps_count s = length data" "ps_fact s = ft"
      "ps_specificYield s = ef_specificYield ft" "ps_rank s = i + 1"
      "ps_percentile s = round2 (of_nat (length (filter (\<lambda>(k, ft'). ef_specificYield ft' \<le> ef_specificYield ft) data))
          / of_nat (length data) * 100)"
      using i(1) by (simp_all add: s_def provinceYieldSummary_of_def js_index_def Some f Let_def ranking_count_le nth_ranking)
    have above: "\<exists>j < ps_rank s - 1. yr_slug (?r ! j) = k"
      if "(k, ft') \<in> set data" "ps_specificYield s < ef_specificYield ft'" for k ft'
      using ranking_above [OF that(1) i(1)] that(2) parts y by simp
    show ?thesis
      using s parts mem i(1) above \<open>slug \<in> set (dict_keys data)\<close> by auto
  qed
qed

theorem province_summary_correct_witness:
  "\<exists>s. provinceYieldSummary_of [(lit ''a'', energy_fact 1 2 3 1400 [])] (lit ''a'') = Some s \<and>
     ps_rank s = 1"
proof -
  let ?d = "[(lit ''a'', energy_fact 1 2 3 1400 [])]"
  have d: "distinct (dict_keys ?d)" by (simp add: dict_keys_def)
  obtain s where s: "provinceYieldSummary_of ?d (lit ''a'') = Some s"
    using province_summary_correct [OF d, of "lit ''a''"] by (auto simp: dict_keys_def)
  with province_summary_correct [OF d, of "lit ''a''"] show ?thesis by auto
qed

end
