(* ===== verification/Content.thy ===== *)
theory Content
  imports Provinces World
begin

text \<open>
  The content the public pages are made of: project records with their evidence and
  publication states (\<open>shared/publicProjectContent.ts\<close>), the content registry with its
  build-time integrity assertion (\<open>shared/siteContentRegistry.ts\<close>), and the questions and
  steps the pages mark up (\<open>shared/solarCarportFaq.ts\<close>, \<open>shared/homeSolutionFaq.ts\<close>,
  \<open>shared/provinceHowTo.ts\<close>).
\<close>

section \<open>Project records\<close>

datatype evidence_state = VERIFIED_LIVE | UNDER_CONSTRUCTION | CONCEPT_SIMULATION | PENDING_EVIDENCE

fun evidence_text :: "evidence_state \<Rightarrow> jstr" where
  "evidence_text VERIFIED_LIVE = lit ''VERIFIED_LIVE''"
| "evidence_text UNDER_CONSTRUCTION = lit ''UNDER_CONSTRUCTION''"
| "evidence_text CONCEPT_SIMULATION = lit ''CONCEPT / SIMULATION''"
| "evidence_text PENDING_EVIDENCE = lit ''PENDING_EVIDENCE''"

definition projectEvidenceStates :: "evidence_state list" where
  "projectEvidenceStates =
     [VERIFIED_LIVE, UNDER_CONSTRUCTION, CONCEPT_SIMULATION, PENDING_EVIDENCE]"

definition publicProjectEvidence :: "(jstr, evidence_state) dict" where
  "publicProjectEvidence =
     [(lit ''ruenphae-royal-park'', VERIFIED_LIVE), (lit ''holatel-rim-nan'', VERIFIED_LIVE)]"

definition getProjectEvidenceBadgeKey :: "jstr option \<Rightarrow> evidence_state option \<Rightarrow> jstr" where
  "getProjectEvidenceBadgeKey projectId explicitState =
     (case (case explicitState of
              Some s \<Rightarrow> Own s
            | None \<Rightarrow>
                (case projectId of
                   None \<Rightarrow> Missing
                 | Some i \<Rightarrow> if i = [] then Missing else js_index publicProjectEvidence i)) of
        Own VERIFIED_LIVE \<Rightarrow> lit ''badgeVerifiedLive''
      | Own UNDER_CONSTRUCTION \<Rightarrow> lit ''badgeUnderConstruction''
      | Own CONCEPT_SIMULATION \<Rightarrow> lit ''badgeConceptSimulation''
      | _ \<Rightarrow> lit ''badgePendingEvidence'')"

datatype detail_publication = DetailReviewRequired | DetailPublished

datatype numeric_claim = NOT_FOR_PUBLIC_CLAIM | VERIFIED_FOR_PUBLIC_CLAIM

record detail_section =
  ds_id :: jstr
  ds_title :: jstr
  ds_body :: jstr

record detail_media =
  dm_approved :: bool
  dm_note :: jstr

record detail_claims =
  dc_numericStatus :: numeric_claim
  dc_note :: jstr

record project_detail =
  pd_slug :: jstr
  pd_projectId :: jstr
  pd_name :: jstr
  pd_evidenceState :: evidence_state
  pd_publicationState :: detail_publication
  pd_province :: jstr
  pd_industry :: jstr
  pd_systemSummary :: jstr
  pd_seoTitle :: jstr
  pd_seoDescription :: jstr
  pd_media :: detail_media
  pd_claims :: detail_claims
  pd_sections :: "detail_section list"

definition approvedInstallationMedia :: detail_media where
  "approvedInstallationMedia = \<lparr>dm_approved = True, dm_note =
     [0xE20, 0xE32, 0xE1E, 0xE15, 0xE34, 0xE14, 0xE15, 0xE31, 0xE49, 0xE07, 0xE08, 0xE23, 0xE34,
     0xE07, 0xE17, 0xE35, 0xE48, 0xE1C, 0xE48, 0xE32, 0xE19, 0xE01, 0xE32, 0xE23, 0xE04, 0xE31,
     0xE14, 0xE40, 0xE25, 0xE37, 0xE2D, 0xE01, 0xE14, 0xE49, 0xE32, 0xE19, 0xE2A, 0xE34, 0xE17,
     0xE18, 0xE34, 0xE4C, 0xE43, 0xE0A, 0xE49, 0xE07, 0xE32, 0xE19, 0xE41, 0xE25, 0xE30, 0xE02,
     0xE49, 0xE2D, 0xE21, 0xE39, 0xE25, 0xE2A, 0xE48, 0xE27, 0xE19, 0xE1A, 0xE38, 0xE04, 0xE04,
     0xE25, 0xE41, 0xE25, 0xE49, 0xE27, 0x20, 0xE42, 0xE14, 0xE22, 0xE44, 0xE21, 0xE48, 0xE40,
     0xE1C, 0xE22, 0xE41, 0xE1E, 0xE23, 0xE48, 0xE15, 0xE31, 0xE27, 0xE40, 0xE25, 0xE02, 0xE2B,
     0xE23, 0xE37, 0xE2D, 0xE1C, 0xE25, 0xE25, 0xE31, 0xE1E, 0xE18, 0xE4C, 0xE17, 0xE35, 0xE48,
     0xE22, 0xE31, 0xE07, 0xE44, 0xE21, 0xE48, 0xE1C, 0xE48, 0xE32, 0xE19, 0xE01, 0xE32, 0xE23,
     0xE15, 0xE23, 0xE27, 0xE08, 0xE2B, 0xE25, 0xE31, 0xE01, 0xE10, 0xE32, 0xE19]\<rparr>"

definition withheldNumericClaims :: detail_claims where
  "withheldNumericClaims = \<lparr>dc_numericStatus = NOT_FOR_PUBLIC_CLAIM, dc_note =
     [0xE22, 0xE31, 0xE07, 0xE44, 0xE21, 0xE48, 0xE40, 0xE1C, 0xE22, 0xE41, 0xE1E, 0xE23, 0xE48,
     0xE15, 0xE31, 0xE27, 0xE40, 0xE25, 0xE02, 0xE02, 0xE19, 0xE32, 0xE14, 0xE23, 0xE30, 0xE1A,
     0xE1A, 0x20, 0xE04, 0xE48, 0xE32, 0xE44, 0xE1F, 0x20, 0xE1C, 0xE25, 0xE1B, 0xE23, 0xE30,
     0xE2B, 0xE22, 0xE31, 0xE14, 0x20, 0xE2B, 0xE23, 0xE37, 0xE2D, 0xE23, 0xE30, 0xE22, 0xE30,
     0xE04, 0xE37, 0xE19, 0xE17, 0xE38, 0xE19, 0x20, 0xE08, 0xE19, 0xE01, 0xE27, 0xE48, 0xE32,
     0xE2B, 0xE25, 0xE31, 0xE01, 0xE10, 0xE32, 0xE19, 0xE41, 0xE25, 0xE30, 0xE1C, 0xE39, 0xE49,
     0xE2D, 0xE19, 0xE38, 0xE21, 0xE31, 0xE15, 0xE34, 0xE08, 0xE30, 0xE04, 0xE23, 0xE1A]\<rparr>"

definition ruenphae_detail :: project_detail where
  "ruenphae_detail =
     \<lparr>pd_slug = lit ''ruenphae-royal-park'',
      pd_projectId = lit ''ruenphae-royal-park'',
      pd_name = [0xE42, 0xE23, 0xE07, 0xE41, 0xE23, 0xE21, 0xE40, 0xE23, 0xE37, 0xE2D, 0xE19, 0xE41,
        0xE1E, 0x20, 0xE23, 0xE2D, 0xE22, 0xE31, 0xE25, 0xE1B, 0xE32, 0xE23, 0xE4C, 0xE04],
      pd_evidenceState = VERIFIED_LIVE,
      pd_publicationState = DetailReviewRequired,
      pd_province = [0xE1E, 0xE34, 0xE29, 0xE13, 0xE38, 0xE42, 0xE25, 0xE01],
      pd_industry = [0xE42, 0xE23, 0xE07, 0xE41, 0xE23, 0xE21],
      pd_systemSummary = lit ''Solar Carport, BESS, Cable Tray, '' @ [0xE23, 0xE30, 0xE1A, 0xE1A, 0xE44, 0xE1F,
        0xE1F, 0xE49, 0xE32, 0x20, 0xE41, 0xE25, 0xE30, 0xE41, 0xE19, 0xE27, 0xE17, 0xE32, 0xE07]
        @ lit '' AI Monitoring'',
      pd_seoTitle = [0xE42, 0xE23, 0xE07, 0xE41, 0xE23, 0xE21, 0xE40, 0xE23, 0xE37, 0xE2D, 0xE19, 0xE41,
        0xE1E, 0x20, 0xE23, 0xE2D, 0xE22, 0xE31, 0xE25, 0xE1B, 0xE32, 0xE23, 0xE4C, 0xE04] @
        lit '' | Project Detail | SIRINX'',
      pd_seoDescription = [0xE02, 0xE49, 0xE2D, 0xE21, 0xE39, 0xE25, 0xE40, 0xE1A, 0xE37, 0xE49, 0xE2D, 0xE07,
        0xE15, 0xE49, 0xE19, 0xE02, 0xE2D, 0xE07, 0xE42, 0xE04, 0xE23, 0xE07, 0xE01, 0xE32, 0xE23,
        0xE42, 0xE23, 0xE07, 0xE41, 0xE23, 0xE21, 0xE40, 0xE23, 0xE37, 0xE2D, 0xE19, 0xE41, 0xE1E,
        0x20, 0xE23, 0xE2D, 0xE22, 0xE31, 0xE25, 0xE1B, 0xE32, 0xE23, 0xE4C, 0xE04, 0x20, 0xE08,
        0xE31, 0xE07, 0xE2B, 0xE27, 0xE31, 0xE14, 0xE1E, 0xE34, 0xE29, 0xE13, 0xE38, 0xE42, 0xE25,
        0xE01, 0x20, 0xE42, 0xE14, 0xE22, 0xE23, 0xE30, 0xE1A, 0xE38, 0xE2A, 0xE16, 0xE32, 0xE19,
        0xE30, 0xE1C, 0xE25, 0xE07, 0xE32, 0xE19, 0xE41, 0xE25, 0xE30, 0xE02, 0xE49, 0xE2D, 0xE08,
        0xE33, 0xE01, 0xE31, 0xE14, 0xE02, 0xE2D, 0xE07, 0xE2B, 0xE25, 0xE31, 0xE01, 0xE10, 0xE32,
        0xE19, 0xE01, 0xE48, 0xE2D, 0xE19, 0xE40, 0xE1C, 0xE22, 0xE41, 0xE1E, 0xE23, 0xE48, 0xE40,
        0xE1B, 0xE47, 0xE19, 0xE01, 0xE23, 0xE13, 0xE35, 0xE28, 0xE36, 0xE01, 0xE29, 0xE32],
      pd_media = approvedInstallationMedia,
      pd_claims = withheldNumericClaims,
      pd_sections =
     [\<lparr>ds_id = lit ''overview'',
       ds_title = [0xE20, 0xE32, 0xE1E, 0xE23, 0xE27, 0xE21, 0xE42, 0xE04, 0xE23, 0xE07, 0xE01, 0xE32,
         0xE23],
       ds_body = [0xE42, 0xE04, 0xE23, 0xE07, 0xE01, 0xE32, 0xE23, 0xE42, 0xE23, 0xE07, 0xE41, 0xE23,
         0xE21, 0xE43, 0xE19, 0xE08, 0xE31, 0xE07, 0xE2B, 0xE27, 0xE31, 0xE14, 0xE1E, 0xE34,
         0xE29, 0xE13, 0xE38, 0xE42, 0xE25, 0xE01, 0xE17, 0xE35, 0xE48, 0xE21, 0xE35, 0xE02,
         0xE49, 0xE2D, 0xE21, 0xE39, 0xE25, 0xE40, 0xE1A, 0xE37, 0xE49, 0xE2D, 0xE07, 0xE15,
         0xE49, 0xE19, 0xE40, 0xE01, 0xE35, 0xE48, 0xE22, 0xE27, 0xE01, 0xE31, 0xE1A, 0xE07,
         0xE32, 0xE19] @ lit '' Solar Carport '' @ [0xE41, 0xE25, 0xE30, 0xE23, 0xE30, 0xE1A,
         0xE1A, 0xE01, 0xE31, 0xE01, 0xE40, 0xE01, 0xE47, 0xE1A, 0xE1E, 0xE25, 0xE31, 0xE07,
         0xE07, 0xE32, 0xE19, 0x20, 0xE42, 0xE14, 0xE22, 0xE23, 0xE32, 0xE22, 0xE25, 0xE30, 0xE40,
         0xE2D, 0xE35, 0xE22, 0xE14, 0xE2A, 0xE32, 0xE18, 0xE32, 0xE23, 0xE13, 0xE30, 0xE08,
         0xE30, 0xE40, 0xE1B, 0xE34, 0xE14, 0xE40, 0xE1C, 0xE22, 0xE15, 0xE32, 0xE21, 0xE2B,
         0xE25, 0xE31, 0xE01, 0xE10, 0xE32, 0xE19, 0xE17, 0xE35, 0xE48, 0xE15, 0xE23, 0xE27,
         0xE08, 0xE41, 0xE25, 0xE49, 0xE27, 0xE40, 0xE17, 0xE48, 0xE32, 0xE19, 0xE31, 0xE49,
         0xE19]\<rparr>,
      \<lparr>ds_id = lit ''site-problem'',
       ds_title = [0xE42, 0xE08, 0xE17, 0xE22, 0xE4C, 0xE2B, 0xE19, 0xE49, 0xE32, 0xE07, 0xE32, 0xE19],
       ds_body = [0xE01, 0xE32, 0xE23, 0xE2D, 0xE2D, 0xE01, 0xE41, 0xE1A, 0xE1A, 0xE15, 0xE49, 0xE2D,
         0xE07, 0xE1E, 0xE34, 0xE08, 0xE32, 0xE23, 0xE13, 0xE32, 0xE1E, 0xE37, 0xE49, 0xE19,
         0xE17, 0xE35, 0xE48, 0xE08, 0xE2D, 0xE14, 0xE23, 0xE16, 0x20, 0xE23, 0xE39, 0xE1B, 0xE41,
         0xE1A, 0xE1A, 0xE01, 0xE32, 0xE23, 0xE43, 0xE0A, 0xE49, 0xE44, 0xE1F, 0xE02, 0xE2D,
         0xE07, 0xE42, 0xE23, 0xE07, 0xE41, 0xE23, 0xE21, 0x20, 0xE07, 0xE32, 0xE19, 0xE40, 0xE14,
         0xE34, 0xE19, 0xE2A, 0xE32, 0xE22, 0x20, 0xE41, 0xE25, 0xE30, 0xE02, 0xE49, 0xE2D, 0xE01,
         0xE33, 0xE2B, 0xE19, 0xE14, 0xE14, 0xE49, 0xE32, 0xE19, 0xE04, 0xE27, 0xE32, 0xE21,
         0xE1B, 0xE25, 0xE2D, 0xE14, 0xE20, 0xE31, 0xE22, 0xE23, 0xE48, 0xE27, 0xE21, 0xE01,
         0xE31, 0xE19, 0x20, 0xE02, 0xE49, 0xE2D, 0xE21, 0xE39, 0xE25, 0xE20, 0xE32, 0xE23, 0xE30,
         0xE42, 0xE2B, 0xE25, 0xE14, 0xE41, 0xE25, 0xE30, 0xE04, 0xE48, 0xE32, 0xE43, 0xE0A,
         0xE49, 0xE44, 0xE1F, 0xE22, 0xE31, 0xE07, 0xE2D, 0xE22, 0xE39, 0xE48, 0xE23, 0xE30,
         0xE2B, 0xE27, 0xE48, 0xE32, 0xE07, 0xE01, 0xE32, 0xE23, 0xE15, 0xE23, 0xE27, 0xE08,
         0xE40, 0xE2D, 0xE01, 0xE2A, 0xE32, 0xE23]\<rparr>,
      \<lparr>ds_id = lit ''proposed-solution'',
       ds_title = [0xE41, 0xE19, 0xE27, 0xE17, 0xE32, 0xE07, 0xE23, 0xE30, 0xE1A, 0xE1A],
       ds_body = [0xE41, 0xE19, 0xE27, 0xE17, 0xE32, 0xE07, 0xE40, 0xE1A, 0xE37, 0xE49, 0xE2D, 0xE07,
         0xE15, 0xE49, 0xE19, 0xE1B, 0xE23, 0xE30, 0xE01, 0xE2D, 0xE1A, 0xE14, 0xE49, 0xE27,
         0xE22] @ lit '' Solar Carport, BESS, Cable Tray '' @ [0xE41, 0xE25, 0xE30, 0xE01, 0xE32,
         0xE23, 0xE08, 0xE31, 0xE14, 0xE01, 0xE32, 0xE23, 0xE23, 0xE30, 0xE1A, 0xE1A, 0xE44,
         0xE1F, 0xE1F, 0xE49, 0xE32, 0x20, 0xE42, 0xE14, 0xE22, 0xE22, 0xE31, 0xE07, 0xE44, 0xE21,
         0xE48, 0xE16, 0xE37, 0xE2D, 0xE40, 0xE1B, 0xE47, 0xE19, 0xE41, 0xE1A, 0xE1A, 0xE01,
         0xE48, 0xE2D, 0xE2A, 0xE23, 0xE49, 0xE32, 0xE07, 0xE2B, 0xE23, 0xE37, 0xE2D, 0xE02,
         0xE49, 0xE2D, 0xE40, 0xE2A, 0xE19, 0xE2D, 0xE23, 0xE32, 0xE04, 0xE32]\<rparr>,
      \<lparr>ds_id = lit ''evidence-gate'',
       ds_title = [0xE2A, 0xE16, 0xE32, 0xE19, 0xE30, 0xE2B, 0xE25, 0xE31, 0xE01, 0xE10, 0xE32, 0xE19],
       ds_body = [0xE2A, 0xE16, 0xE32, 0xE19, 0xE30, 0xE42, 0xE04, 0xE23, 0xE07, 0xE01, 0xE32, 0xE23,
         0xE40, 0xE1B, 0xE47, 0xE19, 0xE1C, 0xE25, 0xE07, 0xE32, 0xE19, 0xE15, 0xE34, 0xE14,
         0xE15, 0xE31, 0xE49, 0xE07, 0xE08, 0xE23, 0xE34, 0xE07, 0xE15, 0xE32, 0xE21, 0xE02,
         0xE49, 0xE2D, 0xE21, 0xE39, 0xE25, 0xE15, 0xE31, 0xE49, 0xE07, 0xE15, 0xE49, 0xE19, 0x20,
         0xE41, 0xE15, 0xE48, 0xE2B, 0xE19, 0xE49, 0xE32] @ lit '' detail '' @ [0xE19, 0xE35,
         0xE49, 0xE22, 0xE31, 0xE07, 0xE2D, 0xE22, 0xE39, 0xE48, 0xE43, 0xE19, 0xE02, 0xE31,
         0xE49, 0xE19] @ lit '' REVIEW_REQUIRED '' @ [0xE08, 0xE36, 0xE07, 0xE44, 0xE21, 0xE48,
         0xE41, 0xE2A, 0xE14, 0xE07, 0xE15, 0xE31, 0xE27, 0xE40, 0xE25, 0xE02, 0xE1C, 0xE25,
         0xE25, 0xE31, 0xE1E, 0xE18, 0xE4C, 0xE41, 0xE25, 0xE30, 0xE22, 0xE31, 0xE07, 0xE44,
         0xE21, 0xE48, 0xE43, 0xE0A, 0xE49, 0xE20, 0xE32, 0xE1E, 0xE40, 0xE1B, 0xE47, 0xE19,
         0xE2A, 0xE37, 0xE48, 0xE2D] @ lit '' production''\<rparr>,
      \<lparr>ds_id = lit ''next-step'',
       ds_title = [0xE02, 0xE31, 0xE49, 0xE19, 0xE15, 0xE2D, 0xE19, 0xE16, 0xE31, 0xE14, 0xE44, 0xE1B],
       ds_body = [0xE17, 0xE35, 0xE21, 0xE07, 0xE32, 0xE19, 0xE15, 0xE49, 0xE2D, 0xE07, 0xE15, 0xE23,
         0xE27, 0xE08, 0xE2A, 0xE34, 0xE17, 0xE18, 0xE34, 0xE4C, 0xE43, 0xE0A, 0xE49, 0xE2A,
         0xE37, 0xE48, 0xE2D] @ lit '' consent '' @ [0xE01, 0xE32, 0xE23, 0xE1B, 0xE01, 0xE1B,
         0xE34, 0xE14, 0xE02, 0xE49, 0xE2D, 0xE21, 0xE39, 0xE25, 0xE2A, 0xE48, 0xE27, 0xE19,
         0xE1A, 0xE38, 0xE04, 0xE04, 0xE25, 0x20, 0xE41, 0xE25, 0xE30, 0xE40, 0xE2D, 0xE01, 0xE2A,
         0xE32, 0xE23, 0xE1C, 0xE25, 0xE25, 0xE31, 0xE1E, 0xE18, 0xE4C, 0xE01, 0xE48, 0xE2D,
         0xE19, 0xE2D, 0xE19, 0xE38, 0xE21, 0xE31, 0xE15, 0xE34, 0xE40, 0xE1B, 0xE47, 0xE19] @
         lit '' Case Study '' @ [0xE2A, 0xE32, 0xE18, 0xE32, 0xE23, 0xE13, 0xE30]\<rparr>]\<rparr>"

definition holatel_detail :: project_detail where
  "holatel_detail =
     \<lparr>pd_slug = lit ''holatel-rim-nan'',
      pd_projectId = lit ''holatel-rim-nan'',
      pd_name = [0xE42, 0xE23, 0xE07, 0xE41, 0xE23, 0xE21, 0xE42, 0xE2E, 0xE25, 0xE32, 0xE40, 0xE17,
        0xE25],
      pd_evidenceState = VERIFIED_LIVE,
      pd_publicationState = DetailPublished,
      pd_province = [0xE44, 0xE21, 0xE48, 0xE40, 0xE1B, 0xE34, 0xE14, 0xE40, 0xE1C, 0xE22],
      pd_industry = [0xE42, 0xE23, 0xE07, 0xE41, 0xE23, 0xE21],
      pd_systemSummary = lit ''Solar Rooftop '' @ [0xE41, 0xE25, 0xE30, 0xE1A, 0xE23, 0xE34, 0xE1A, 0xE17, 0xE2D,
        0xE32, 0xE04, 0xE32, 0xE23, 0xE08, 0xE23, 0xE34, 0xE07],
      pd_seoTitle = [0xE42, 0xE23, 0xE07, 0xE41, 0xE23, 0xE21, 0xE42, 0xE2E, 0xE25, 0xE32, 0xE40, 0xE17,
        0xE25] @ lit '' | '' @ [0xE1C, 0xE25, 0xE07, 0xE32, 0xE19, 0xE15, 0xE34, 0xE14, 0xE15,
        0xE31, 0xE49, 0xE07] @ lit '' Solar Rooftop | SIRINX'',
      pd_seoDescription = [0xE1C, 0xE25, 0xE07, 0xE32, 0xE19, 0xE15, 0xE34, 0xE14, 0xE15, 0xE31, 0xE49, 0xE07] @
        lit '' Solar Rooftop '' @ [0xE17, 0xE35, 0xE48, 0xE42, 0xE23, 0xE07, 0xE41, 0xE23, 0xE21,
        0xE42, 0xE2E, 0xE25, 0xE32, 0xE40, 0xE17, 0xE25, 0x20, 0xE1E, 0xE23, 0xE49, 0xE2D, 0xE21,
        0xE20, 0xE32, 0xE1E, 0xE07, 0xE32, 0xE19, 0xE08, 0xE23, 0xE34, 0xE07, 0xE17, 0xE35, 0xE48,
        0xE04, 0xE31, 0xE14, 0xE40, 0xE25, 0xE37, 0xE2D, 0xE01, 0xE41, 0xE25, 0xE49, 0xE27, 0x20,
        0xE42, 0xE14, 0xE22, 0xE22, 0xE31, 0xE07, 0xE44, 0xE21, 0xE48, 0xE40, 0xE1C, 0xE22, 0xE41,
        0xE1E, 0xE23, 0xE48, 0xE15, 0xE31, 0xE27, 0xE40, 0xE25, 0xE02, 0xE01, 0xE33, 0xE25, 0xE31,
        0xE07, 0x20, 0xE1C, 0xE25, 0xE1B, 0xE23, 0xE30, 0xE2B, 0xE22, 0xE31, 0xE14, 0x20, 0xE2B,
        0xE23, 0xE37, 0xE2D, 0xE27, 0xE31, 0xE19, 0xE2A, 0xE48, 0xE07, 0xE21, 0xE2D, 0xE1A, 0xE17,
        0xE35, 0xE48, 0xE22, 0xE31, 0xE07, 0xE44, 0xE21, 0xE48, 0xE1C, 0xE48, 0xE32, 0xE19, 0xE01,
        0xE32, 0xE23, 0xE15, 0xE23, 0xE27, 0xE08, 0xE2B, 0xE25, 0xE31, 0xE01, 0xE10, 0xE32, 0xE19],
      pd_media = approvedInstallationMedia,
      pd_claims = withheldNumericClaims,
      pd_sections =
     [\<lparr>ds_id = lit ''overview'',
       ds_title = [0xE20, 0xE32, 0xE1E, 0xE23, 0xE27, 0xE21, 0xE42, 0xE04, 0xE23, 0xE07, 0xE01, 0xE32,
         0xE23],
       ds_body = [0xE42, 0xE23, 0xE07, 0xE41, 0xE23, 0xE21, 0xE42, 0xE2E, 0xE25, 0xE32, 0xE40, 0xE17,
         0xE25, 0xE21, 0xE35, 0xE20, 0xE32, 0xE1E, 0xE07, 0xE32, 0xE19, 0xE15, 0xE34, 0xE14,
         0xE15, 0xE31, 0xE49, 0xE07] @ lit '' Solar Rooftop '' @ [0xE08, 0xE23, 0xE34, 0xE07,
         0x20, 0xE41, 0xE25, 0xE30, 0xE42, 0xE04, 0xE23, 0xE07, 0xE01, 0xE32, 0xE23, 0xE15, 0xE34,
         0xE14, 0xE15, 0xE31, 0xE49, 0xE07, 0xE40, 0xE23, 0xE35, 0xE22, 0xE1A, 0xE23, 0xE49,
         0xE2D, 0xE22, 0xE41, 0xE25, 0xE49, 0xE27, 0x20, 0xE2B, 0xE19, 0xE49, 0xE32, 0xE19, 0xE35,
         0xE49, 0xE08, 0xE31, 0xE14, 0xE17, 0xE33, 0xE02, 0xE36, 0xE49, 0xE19, 0xE40, 0xE1E,
         0xE37, 0xE48, 0xE2D, 0xE41, 0xE2A, 0xE14, 0xE07, 0xE20, 0xE32, 0xE1E, 0xE1C, 0xE25,
         0xE07, 0xE32, 0xE19, 0xE42, 0xE14, 0xE22, 0xE44, 0xE21, 0xE48, 0xE40, 0xE1B, 0xE34,
         0xE14, 0xE40, 0xE1C, 0xE22, 0xE08, 0xE31, 0xE07, 0xE2B, 0xE27, 0xE31, 0xE14, 0xE2B,
         0xE23, 0xE37, 0xE2D, 0xE23, 0xE32, 0xE22, 0xE25, 0xE30, 0xE40, 0xE2D, 0xE35, 0xE22,
         0xE14, 0xE2A, 0xE48, 0xE27, 0xE19, 0xE1A, 0xE38, 0xE04, 0xE04, 0xE25, 0xE17, 0xE35,
         0xE48, 0xE22, 0xE31, 0xE07, 0xE44, 0xE21, 0xE48, 0xE1C, 0xE48, 0xE32, 0xE19, 0xE01,
         0xE32, 0xE23, 0xE15, 0xE23, 0xE27, 0xE08]\<rparr>,
      \<lparr>ds_id = lit ''installation-status'',
       ds_title = [0xE2A, 0xE16, 0xE32, 0xE19, 0xE30, 0xE01, 0xE32, 0xE23, 0xE15, 0xE34, 0xE14, 0xE15,
         0xE31, 0xE49, 0xE07],
       ds_body = [0xE2A, 0xE16, 0xE32, 0xE19, 0xE30, 0xE1C, 0xE39, 0xE49, 0xE43, 0xE0A, 0xE49, 0xE22,
         0xE37, 0xE19, 0xE22, 0xE31, 0xE19, 0xE27, 0xE48, 0xE32, 0xE40, 0xE1B, 0xE47, 0xE19,
         0xE07, 0xE32, 0xE19, 0xE15, 0xE34, 0xE14, 0xE15, 0xE31, 0xE49, 0xE07, 0xE17, 0xE35,
         0xE48, 0xE41, 0xE01, 0xE49, 0xE44, 0xE02, 0xE40, 0xE23, 0xE35, 0xE22, 0xE1A, 0xE23,
         0xE49, 0xE2D, 0xE22, 0xE41, 0xE25, 0xE49, 0xE27, 0x20, 0xE20, 0xE32, 0xE1E, 0xE43, 0xE19,
         0xE2B, 0xE19, 0xE49, 0xE32, 0xE19, 0xE35, 0xE49, 0xE40, 0xE25, 0xE37, 0xE2D, 0xE01,
         0xE08, 0xE32, 0xE01, 0xE20, 0xE32, 0xE1E, 0xE07, 0xE32, 0xE19, 0xE08, 0xE23, 0xE34,
         0xE07, 0xE17, 0xE35, 0xE48, 0xE04, 0xE31, 0xE14, 0xE02, 0xE49, 0xE2D, 0xE21, 0xE39,
         0xE25, 0xE1A, 0xE38, 0xE04, 0xE04, 0xE25, 0x20, 0xE40, 0xE25, 0xE02, 0xE17, 0xE30, 0xE40,
         0xE1A, 0xE35, 0xE22, 0xE19, 0x20, 0xE41, 0xE25, 0xE30, 0xE20, 0xE32, 0xE1E, 0xE1A, 0xE34,
         0xE25, 0xE25, 0xE4C, 0xE1A, 0xE2D, 0xE23, 0xE4C, 0xE14, 0xE41, 0xE25, 0xE49, 0xE27]\<rparr>,
      \<lparr>ds_id = lit ''installed-system'',
       ds_title = [0xE23, 0xE30, 0xE1A, 0xE1A, 0xE17, 0xE35, 0xE48, 0xE15, 0xE34, 0xE14, 0xE15, 0xE31,
         0xE49, 0xE07],
       ds_body = [0xE20, 0xE32, 0xE1E, 0xE23, 0xE2D, 0xE07, 0xE23, 0xE31, 0xE1A, 0xE01, 0xE32, 0xE23,
         0xE15, 0xE34, 0xE14, 0xE15, 0xE31, 0xE49, 0xE07, 0xE41, 0xE1C, 0xE07, 0xE42, 0xE0B,
         0xE25, 0xE32, 0xE23, 0xE4C, 0xE1A, 0xE19, 0xE2B, 0xE25, 0xE31, 0xE07, 0xE04, 0xE32,
         0xE41, 0xE25, 0xE30, 0xE1A, 0xE23, 0xE34, 0xE1A, 0xE17, 0xE2D, 0xE32, 0xE04, 0xE32,
         0xE23, 0xE08, 0xE23, 0xE34, 0xE07, 0x20, 0xE2A, 0xE48, 0xE27, 0xE19, 0xE01, 0xE33, 0xE25,
         0xE31, 0xE07, 0xE1C, 0xE25, 0xE34, 0xE15, 0x20, 0xE23, 0xE38, 0xE48, 0xE19, 0xE2D, 0xE38,
         0xE1B, 0xE01, 0xE23, 0xE13, 0xE4C, 0x20, 0xE1C, 0xE25, 0xE1B, 0xE23, 0xE30, 0xE2B, 0xE22,
         0xE31, 0xE14, 0x20, 0xE41, 0xE25, 0xE30, 0xE27, 0xE31, 0xE19, 0xE2A, 0xE48, 0xE07, 0xE21,
         0xE2D, 0xE1A, 0xE22, 0xE31, 0xE07, 0xE44, 0xE21, 0xE48, 0xE41, 0xE2A, 0xE14, 0xE07,
         0xE08, 0xE19, 0xE01, 0xE27, 0xE48, 0xE32, 0xE08, 0xE30, 0xE21, 0xE35, 0xE40, 0xE2D,
         0xE01, 0xE2A, 0xE32, 0xE23, 0xE22, 0xE37, 0xE19, 0xE22, 0xE31, 0xE19]\<rparr>,
      \<lparr>ds_id = lit ''evidence-gate'',
       ds_title = [0xE02, 0xE2D, 0xE1A, 0xE40, 0xE02, 0xE15, 0xE2B, 0xE25, 0xE31, 0xE01, 0xE10, 0xE32,
         0xE19],
       ds_body = [0xE2B, 0xE19, 0xE49, 0xE32, 0xE19, 0xE35, 0xE49, 0xE40, 0xE1C, 0xE22, 0xE41, 0xE1E,
         0xE23, 0xE48, 0xE2A, 0xE16, 0xE32, 0xE19, 0xE30, 0xE01, 0xE32, 0xE23, 0xE15, 0xE34,
         0xE14, 0xE15, 0xE31, 0xE49, 0xE07, 0xE41, 0xE25, 0xE30, 0xE20, 0xE32, 0xE1E, 0xE1C,
         0xE25, 0xE07, 0xE32, 0xE19, 0xE08, 0xE23, 0xE34, 0xE07, 0xE40, 0xE17, 0xE48, 0xE32,
         0xE19, 0xE31, 0xE49, 0xE19, 0x20, 0xE44, 0xE21, 0xE48, 0xE43, 0xE0A, 0xE49, 0xE20, 0xE32,
         0xE1E, 0xE40, 0xE1E, 0xE37, 0xE48, 0xE2D, 0xE22, 0xE37, 0xE19, 0xE22, 0xE31, 0xE19,
         0xE15, 0xE31, 0xE27, 0xE40, 0xE25, 0xE02, 0xE01, 0xE33, 0xE25, 0xE31, 0xE07, 0x20, 0xE1C,
         0xE25, 0xE1B, 0xE23, 0xE30, 0xE2B, 0xE22, 0xE31, 0xE14, 0xE44, 0xE1F, 0x20, 0xE2D, 0xE38,
         0xE1B, 0xE01, 0xE23, 0xE13, 0xE4C, 0x20, 0xE2B, 0xE23, 0xE37, 0xE2D, 0xE1C, 0xE25, 0xE01,
         0xE32, 0xE23, 0xE17, 0xE33, 0xE07, 0xE32, 0xE19, 0xE17, 0xE35, 0xE48, 0xE22, 0xE31,
         0xE07, 0xE44, 0xE21, 0xE48, 0xE1C, 0xE48, 0xE32, 0xE19, 0xE01, 0xE32, 0xE23, 0xE15,
         0xE23, 0xE27, 0xE08, 0xE40, 0xE2D, 0xE01, 0xE2A, 0xE32, 0xE23]\<rparr>,
      \<lparr>ds_id = lit ''next-step'',
       ds_title = [0xE01, 0xE32, 0xE23, 0xE14, 0xE39, 0xE41, 0xE25, 0xE23, 0xE30, 0xE1A, 0xE1A],
       ds_body = [0xE2A, 0xE32, 0xE21, 0xE32, 0xE23, 0xE16, 0xE15, 0xE34, 0xE14, 0xE15, 0xE32, 0xE21,
         0xE1C, 0xE25, 0xE01, 0xE32, 0xE23, 0xE1C, 0xE25, 0xE34, 0xE15, 0xE41, 0xE25, 0xE30,
         0xE01, 0xE32, 0xE23, 0xE14, 0xE39, 0xE41, 0xE25, 0xE23, 0xE30, 0xE1A, 0xE1A, 0xE44,
         0xE14, 0xE49, 0xE20, 0xE32, 0xE22, 0xE2B, 0xE25, 0xE31, 0xE07, 0xE40, 0xE21, 0xE37,
         0xE48, 0xE2D, 0xE21, 0xE35, 0xE02, 0xE49, 0xE2D, 0xE21, 0xE39, 0xE25] @ lit '' meter '' @
         [0xE41, 0xE25, 0xE30, 0xE40, 0xE2D, 0xE01, 0xE2A, 0xE32, 0xE23, 0xE2A, 0xE48, 0xE07,
         0xE21, 0xE2D, 0xE1A, 0xE17, 0xE35, 0xE48, 0xE15, 0xE23, 0xE27, 0xE08, 0xE2A, 0xE2D,
         0xE1A, 0xE41, 0xE25, 0xE49, 0xE27, 0x20, 0xE42, 0xE14, 0xE22, 0xE44, 0xE21, 0xE48, 0xE19,
         0xE33, 0xE15, 0xE31, 0xE27, 0xE40, 0xE25, 0xE02, 0xE17, 0xE35, 0xE48, 0xE22, 0xE31,
         0xE07, 0xE44, 0xE21, 0xE48, 0xE22, 0xE37, 0xE19, 0xE22, 0xE31, 0xE19, 0xE21, 0xE32,
         0xE41, 0xE2A, 0xE14, 0xE07, 0xE01, 0xE48, 0xE2D, 0xE19, 0xE2B, 0xE19, 0xE49, 0xE32,
         0xE19, 0xE35, 0xE49]\<rparr>]\<rparr>"

definition publicProjectDetails :: "(jstr, project_detail) dict" where
  "publicProjectDetails =
     [(lit ''ruenphae-royal-park'', ruenphae_detail),
      (lit ''holatel-rim-nan'', holatel_detail)]"

definition getProjectDetailPath :: "jstr \<Rightarrow> jstr" where
  "getProjectDetailPath slug = lit ''/projects/'' @ slug"

text \<open>\<open>Missing\<close> stands for the returned \<open>null\<close>; a slug that names a member every object
inherits finds that member.\<close>

definition getPublicProjectDetail :: "jstr option \<Rightarrow> project_detail lookup" where
  "getPublicProjectDetail slug =
     (case slug of
        None \<Rightarrow> Missing
      | Some s \<Rightarrow> if s = [] then Missing else js_index publicProjectDetails s)"

definition isProjectDetailIndexable :: "project_detail \<Rightarrow> bool" where
  "isProjectDetailIndexable detail \<longleftrightarrow>
     pd_publicationState detail = DetailPublished \<and>
     dm_approved (pd_media detail) \<and>
     dc_numericStatus (pd_claims detail) = VERIFIED_FOR_PUBLIC_CLAIM"

definition getIndexableProjectSlugs :: "jstr list" where
  "getIndexableProjectSlugs =
     map pd_slug (filter isProjectDetailIndexable (map snd publicProjectDetails))"

definition getAllProjectDetailSlugs :: "jstr list" where
  "getAllProjectDetailSlugs = map pd_slug (map snd publicProjectDetails)"

record page_info =
  pi_path :: jstr
  pi_title :: jstr
  pi_description :: jstr

definition projectsPageMeta :: page_info where
  "projectsPageMeta = \<lparr>pi_path = lit ''/projects'',
     pi_title = [0xE1C, 0xE25, 0xE07, 0xE32, 0xE19, 0xE15, 0xE34, 0xE14, 0xE15, 0xE31, 0xE49, 0xE07, 0xE08,
       0xE23, 0xE34, 0xE07] @ lit '' Solar Carport '' @ [0xE41, 0xE25, 0xE30, 0xE42, 0xE0B, 0xE25,
       0xE32, 0xE23, 0xE4C, 0xE40, 0xE0B, 0xE25, 0xE25, 0xE4C] @ lit '' | SIRINX'',
     pi_description =
       [0xE20, 0xE32, 0xE1E, 0xE1C, 0xE25, 0xE07, 0xE32, 0xE19, 0xE15, 0xE34, 0xE14, 0xE15, 0xE31,
       0xE49, 0xE07, 0xE08, 0xE23, 0xE34, 0xE07, 0xE08, 0xE32, 0xE01, 0xE42, 0xE23, 0xE07, 0xE41,
       0xE23, 0xE21, 0xE40, 0xE23, 0xE37, 0xE2D, 0xE19, 0xE41, 0xE1E, 0x20, 0xE23, 0xE2D, 0xE22,
       0xE31, 0xE25, 0xE1B, 0xE32, 0xE23, 0xE4C, 0xE04, 0xE41, 0xE25, 0xE30, 0xE42, 0xE23, 0xE07,
       0xE41, 0xE23, 0xE21, 0xE42, 0xE2E, 0xE25, 0xE32, 0xE40, 0xE17, 0xE25, 0x20, 0xE1E, 0xE23,
       0xE49, 0xE2D, 0xE21, 0xE41, 0xE19, 0xE27, 0xE04, 0xE34, 0xE14, 0xE42, 0xE0B, 0xE25, 0xE39,
       0xE0A, 0xE31, 0xE19, 0xE2D, 0xE37, 0xE48, 0xE19, 0xE17, 0xE35, 0xE48, 0xE23, 0xE30, 0xE1A,
       0xE38, 0xE2A, 0xE16, 0xE32, 0xE19, 0xE30, 0xE41, 0xE25, 0xE30, 0xE44, 0xE21, 0xE48, 0xE40,
       0xE1C, 0xE22, 0xE41, 0xE1E, 0xE23, 0xE48, 0xE15, 0xE31, 0xE27, 0xE40, 0xE25, 0xE02, 0xE17,
       0xE35, 0xE48, 0xE22, 0xE31, 0xE07, 0xE44, 0xE21, 0xE48, 0xE1C, 0xE48, 0xE32, 0xE19, 0xE01,
       0xE32, 0xE23, 0xE15, 0xE23, 0xE27, 0xE08, 0xE2B, 0xE25, 0xE31, 0xE01, 0xE10, 0xE32, 0xE19]\<rparr>"

section \<open>The content registry\<close>

datatype publication_state = DRAFT | REVIEW_REQUIRED | APPROVED_FOR_RELEASE | PUBLISHED | WITHHELD

fun publication_text :: "publication_state \<Rightarrow> jstr" where
  "publication_text DRAFT = lit ''DRAFT''"
| "publication_text REVIEW_REQUIRED = lit ''REVIEW_REQUIRED''"
| "publication_text APPROVED_FOR_RELEASE = lit ''APPROVED_FOR_RELEASE''"
| "publication_text PUBLISHED = lit ''PUBLISHED''"
| "publication_text WITHHELD = lit ''WITHHELD''"

definition publicationStates :: "publication_state list" where
  "publicationStates = [DRAFT, REVIEW_REQUIRED, APPROVED_FOR_RELEASE, PUBLISHED, WITHHELD]"

definition EvidenceRefSchema :: ztype where
  "EvidenceRefSchema = ZObject
     [(lit ''id'', ZString [ZMin 1, ZMax 120]),
      (lit ''sourceKind'', ZEnum [lit ''drive_folder_name'', lit ''project_record'']),
      (lit ''sourceReference'', ZString [ZMin 1, ZMax 160, ZNoUrl]),
      (lit ''verificationState'', ZEnum [lit ''RECORDED'', lit ''VERIFIED'', lit ''PENDING_REVIEW''])]"

definition ConsentSchema :: ztype where
  "ConsentSchema = ZObject
     [(lit ''status'', ZEnum
        [lit ''NOT_RECORDED'', lit ''PENDING_REVIEW'', lit ''CLEARED'', lit ''NOT_REQUIRED'']),
      (lit ''publicationScope'', ZEnum
        [lit ''NONE'', lit ''ANONYMOUS_CASE_STUDY'', lit ''PROJECT_NAME_AND_PROVINCE'']),
      (lit ''locationPrecision'', ZEnum [lit ''withheld'', lit ''province''])]"

definition MediaAssetSchema :: ztype where
  "MediaAssetSchema = ZObject
     [(lit ''id'', ZString [ZMin 1, ZMax 120]),
      (lit ''sourceEvidenceId'', ZString [ZMin 1, ZMax 120]),
      (lit ''lifecycleState'', ZEnum
        [lit ''REGISTERED'',
         lit ''HASHED'',
         lit ''VISUALLY_REVIEWED'',
         lit ''PROJECT_MAPPED'',
         lit ''RIGHTS_CLEARED'',
         lit ''SELECTED'',
         lit ''EDITED'',
         lit ''QA_APPROVED'',
         lit ''RELEASE_APPROVED'',
         lit ''PUBLISHED'']),
      (lit ''originalImmutable'', ZTrue),
      (lit ''derivativeStorage'', ZEnum [lit ''pending'', lit ''r2_versioned''])]"

definition ProjectRecordSchema :: ztype where
  "ProjectRecordSchema = ZObject
     [(lit ''id'', ZString [ZMin 1, ZMax 120]),
      (lit ''displayNameTh'', ZString [ZMin 1, ZMax 160]),
      (lit ''evidenceState'', ZEnum (map evidence_text projectEvidenceStates)),
      (lit ''publicationState'', ZEnum (map publication_text publicationStates)),
      (lit ''location'', ZObject
        [(lit ''precision'', ZEnum [lit ''withheld'', lit ''province'']),
         (lit ''provinceSlug'', ZOptional (ZString [ZMin 1, ZMax 80]))]),
      (lit ''evidence'', EvidenceRefSchema),
      (lit ''consent'', ConsentSchema),
      (lit ''publicNotes'', ZArrayMax 4 (ZString [ZMin 1, ZMax 240]))]"

record project_location =
  pl_precision :: jstr
  pl_provinceSlug :: "jstr option"

record evidence_ref =
  ev_id :: jstr
  ev_sourceKind :: jstr
  ev_sourceReference :: jstr
  ev_verificationState :: jstr

record consent =
  co_status :: jstr
  co_publicationScope :: jstr
  co_locationPrecision :: jstr

record project_record =
  pj_id :: jstr
  pj_displayNameTh :: jstr
  pj_evidenceState :: evidence_state
  pj_publicationState :: publication_state
  pj_location :: project_location
  pj_evidence :: evidence_ref
  pj_consent :: consent
  pj_publicNotes :: "jstr list"

text \<open>A record as the object handed to the schema.\<close>

definition project_val :: "project_record \<Rightarrow> jsval" where
  "project_val p = JObj
     [(lit ''id'', JStr (pj_id p)),
      (lit ''displayNameTh'', JStr (pj_displayNameTh p)),
      (lit ''evidenceState'', JStr (evidence_text (pj_evidenceState p))),
      (lit ''publicationState'', JStr (publication_text (pj_publicationState p))),
      (lit ''location'', JObj
        ((lit ''precision'', JStr (pl_precision (pj_location p))) #
         (case pl_provinceSlug (pj_location p) of
            None \<Rightarrow> [] | Some s \<Rightarrow> [(lit ''provinceSlug'', JStr s)]))),
      (lit ''evidence'', JObj
        [(lit ''id'', JStr (ev_id (pj_evidence p))),
         (lit ''sourceKind'', JStr (ev_sourceKind (pj_evidence p))),
         (lit ''sourceReference'', JStr (ev_sourceReference (pj_evidence p))),
         (lit ''verificationState'', JStr (ev_verificationState (pj_evidence p)))]),
      (lit ''consent'', JObj
        [(lit ''status'', JStr (co_status (pj_consent p))),
         (lit ''publicationScope'', JStr (co_publicationScope (pj_consent p))),
         (lit ''locationPrecision'', JStr (co_locationPrecision (pj_consent p)))]),
      (lit ''publicNotes'', JArr (map JStr (pj_publicNotes p)))]"

definition projectRegistry :: "project_record list" where
  "projectRegistry =
     [\<lparr>pj_id = lit ''ruenphae-royal-park'',
       pj_displayNameTh = [0xE42, 0xE23, 0xE07, 0xE41, 0xE23, 0xE21, 0xE40, 0xE23, 0xE37, 0xE2D, 0xE19, 0xE41,
         0xE1E, 0x20, 0xE23, 0xE2D, 0xE22, 0xE31, 0xE25, 0xE1B, 0xE32, 0xE23, 0xE4C, 0xE04],
       pj_evidenceState = the (dict_get publicProjectEvidence (lit ''ruenphae-royal-park'')),
       pj_publicationState = REVIEW_REQUIRED,
       pj_location = \<lparr>pl_precision = lit ''province'', pl_provinceSlug = Some (lit ''phitsanulok'')\<rparr>,
       pj_evidence =
         \<lparr>ev_id = lit ''drive-folder-ruenphae-royal-park'',
          ev_sourceKind = lit ''drive_folder_name'',
          ev_sourceReference = [0xE40, 0xE23, 0xE37, 0xE2D, 0xE19, 0xE41, 0xE1E, 0xE23, 0xE2D, 0xE22, 0xE31, 0xE25,
            0xE1B, 0xE32, 0xE23, 0xE4C, 0xE04],
          ev_verificationState = lit ''VERIFIED''\<rparr>,
       pj_consent =
         \<lparr>co_status = lit ''PENDING_REVIEW'',
          co_publicationScope = lit ''PROJECT_NAME_AND_PROVINCE'',
          co_locationPrecision = lit ''province''\<rparr>,
       pj_publicNotes =
         [lit ''Public release requires rights, privacy, and visual QA.'']\<rparr>,
      \<lparr>pj_id = lit ''holatel-rim-nan'',
       pj_displayNameTh = [0xE42, 0xE23, 0xE07, 0xE41, 0xE23, 0xE21, 0xE42, 0xE2E, 0xE25, 0xE32, 0xE40, 0xE17,
         0xE25],
       pj_evidenceState = the (dict_get publicProjectEvidence (lit ''holatel-rim-nan'')),
       pj_publicationState = PUBLISHED,
       pj_location = \<lparr>pl_precision = lit ''withheld'', pl_provinceSlug = None\<rparr>,
       pj_evidence =
         \<lparr>ev_id = lit ''owner-confirmed-holatel-completion-20260925'',
          ev_sourceKind = lit ''project_record'',
          ev_sourceReference = lit ''owner-confirmed completed installation on 2026-09-25'',
          ev_verificationState = lit ''VERIFIED''\<rparr>,
       pj_consent =
         \<lparr>co_status = lit ''CLEARED'',
          co_publicationScope = lit ''ANONYMOUS_CASE_STUDY'',
          co_locationPrecision = lit ''withheld''\<rparr>,
       pj_publicNotes =
         [lit ''Publish only the privacy-reviewed Holatel photo subset selected in
          publicProjectMedia.'',
          lit ''Do not publish unverified capacity, savings, equipment, or commissioning-date claims.''
          ]\<rparr>,
      \<lparr>pj_id = lit ''supalai-private-residential'',
       pj_displayNameTh = [0xE42, 0xE04, 0xE23, 0xE07, 0xE01, 0xE32, 0xE23, 0xE1A, 0xE49, 0xE32, 0xE19, 0xE1E,
         0xE31, 0xE01, 0xE2D, 0xE32, 0xE28, 0xE31, 0xE22] @ lit '' ('' @ [0xE44, 0xE21, 0xE48,
         0xE40, 0xE1B, 0xE34, 0xE14, 0xE40, 0xE1C, 0xE22, 0xE15, 0xE31, 0xE27, 0xE15, 0xE19, 0x29],
       pj_evidenceState = PENDING_EVIDENCE,
       pj_publicationState = WITHHELD,
       pj_location = \<lparr>pl_precision = lit ''withheld'', pl_provinceSlug = None\<rparr>,
       pj_evidence =
         \<lparr>ev_id = lit ''drive-folder-supalai-private-residential'',
          ev_sourceKind = lit ''drive_folder_name'',
          ev_sourceReference = [0xE2B, 0xE21, 0xE39, 0xE48, 0xE1A, 0xE49, 0xE32, 0xE19, 0xE28, 0xE38, 0xE20, 0xE32,
            0xE25, 0xE31, 0xE22],
          ev_verificationState = lit ''RECORDED''\<rparr>,
       pj_consent =
         \<lparr>co_status = lit ''NOT_RECORDED'',
          co_publicationScope = lit ''NONE'',
          co_locationPrecision = lit ''withheld''\<rparr>,
       pj_publicNotes =
         [lit ''Do not infer or disclose a province, address, home number, people, vehicles, or
          precise location.'']\<rparr>]"

definition staticProvinceCanaryFlag :: jstr where
  "staticProvinceCanaryFlag = lit ''SIRINX_STATIC_PROVINCE_CANARY''"

definition staticProvinceCanarySlugs :: "jstr list" where
  "staticProvinceCanarySlugs =
     [lit ''bangkok'', lit ''chiang-mai'' , lit ''chonburi'' , lit ''khon-kaen'' , lit ''phuket''
     ]"

definition isStaticProvinceCanaryEnabled :: "(jstr, jstr) dict \<Rightarrow> bool" where
  "isStaticProvinceCanaryEnabled environment \<longleftrightarrow>
     dict_get environment staticProvinceCanaryFlag = Some (lit ''1'')"

definition getStaticProvinceCanaryRoutes :: "(jstr, jstr) dict \<Rightarrow> jstr list" where
  "getStaticProvinceCanaryRoutes environment =
     (if \<not> isStaticProvinceCanaryEnabled environment then []
      else map (\<lambda>slug. lit ''/solar-carport/'' @ slug) staticProvinceCanarySlugs)"

record canary_record =
  cr_province :: thai_province
  cr_canonicalPath :: jstr
  cr_contentStatus :: jstr

definition getStaticProvinceCanaryRecord :: "jstr \<Rightarrow> canary_record option" where
  "getStaticProvinceCanaryRecord route =
     (let pre = lit ''/solar-carport/'' in
      if \<not> starts_with pre route then None
      else
        let slug = strip_slash (drop (length pre) route) in
        if slug \<notin> set staticProvinceCanarySlugs then None
        else
          (case getProvinceBySlug slug of
             None \<Rightarrow> None
           | Some p \<Rightarrow> Some \<lparr>cr_province = p, cr_canonicalPath = pre @ tp_slug p,
                             cr_contentStatus = lit ''DRAFT_CANARY''\<rparr>))"

text \<open>
  The integrity assertion throws on the first violation. The loop over the projects is
  \<open>check_projects\<close>; \<open>zod\<close> is the validation library.
\<close>

definition check_project :: "(ztype \<Rightarrow> jsval \<Rightarrow> jsval result) \<Rightarrow> project_record \<Rightarrow> unit result" where
  "check_project zod p =
     (case zod ProjectRecordSchema (project_val p) of
        Inl e \<Rightarrow> Inl e
      | Inr _ \<Rightarrow>
          if pj_evidenceState p = PENDING_EVIDENCE \<and> pj_publicationState p = PUBLISHED
          then Inl (JsError (lit ''Projects pending evidence cannot be published.''))
          else if pj_id p = lit ''supalai-private-residential'' \<and>
            (pj_evidenceState p \<noteq> PENDING_EVIDENCE \<or>
             pl_precision (pj_location p) \<noteq> lit ''withheld'' \<or>
             (case pl_provinceSlug (pj_location p) of None \<Rightarrow> False | Some s \<Rightarrow> s \<noteq> []) \<or>
             pj_publicationState p \<noteq> WITHHELD)
          then Inl (JsError (lit ''Private residential evidence must remain pending and withheld.''))
          else if pj_publicationState p = PUBLISHED \<and> co_status (pj_consent p) \<noteq> lit ''CLEARED''
          then Inl (JsError (lit ''Published project records require cleared consent.''))
          else Inr ())"

fun check_projects ::
  "(ztype \<Rightarrow> jsval \<Rightarrow> jsval result) \<Rightarrow> project_record list \<Rightarrow> unit result" where
  "check_projects zod [] = Inr ()"
| "check_projects zod (p # ps) = result_bind (check_project zod p) (\<lambda>_. check_projects zod ps)"

definition check_registry ::
  "(ztype \<Rightarrow> jsval \<Rightarrow> jsval result) \<Rightarrow> jstr list \<Rightarrow> jstr list \<Rightarrow> project_record list \<Rightarrow> unit result" where
  "check_registry zod provinceSlugs canarySlugs registry =
     (if length provinceSlugs \<noteq> 77 \<or> length (unique provinceSlugs) \<noteq> 77
      then Inl (JsError (lit ''Province registry must contain exactly 77 unique slugs.''))
      else
        (case List.find (\<lambda>slug. slug \<notin> set provinceSlugs) canarySlugs of
           Some slug \<Rightarrow>
             if slug \<noteq> [] then Inl (JsError (lit ''Unknown static province canary slug: '' @ slug))
             else if length (unique (map pj_id registry)) \<noteq> length registry
             then Inl (JsError (lit ''Project registry contains duplicate IDs.''))
             else check_projects zod registry
         | None \<Rightarrow>
             if length (unique (map pj_id registry)) \<noteq> length registry
             then Inl (JsError (lit ''Project registry contains duplicate IDs.''))
             else check_projects zod registry))"

definition assertSiteContentRegistryIntegrity ::
  "(ztype \<Rightarrow> jsval \<Rightarrow> jsval result) \<Rightarrow> unit result" where
  "assertSiteContentRegistryIntegrity zod =
     check_registry zod (map tp_slug thaiProvinces) staticProvinceCanarySlugs projectRegistry"

section \<open>Questions and answers\<close>

datatype seo_language = Lang_th | Lang_en | Lang_cn

record localized =
  lz_th :: jstr
  lz_en :: jstr
  lz_cn :: jstr

record faq_item =
  fq_id :: jstr
  fq_question :: localized
  fq_answer :: localized

record resolved_faq =
  rq_id :: jstr
  rq_question :: jstr
  rq_answer :: jstr

definition provincePlaceholder :: jstr where
  "provincePlaceholder = lit ''{province}''"

definition solarCarportFaq :: "faq_item list" where
  "solarCarportFaq =
     [\<lparr>fq_id = lit ''carport-vs-rooftop'',
       fq_question =
        \<lparr>lz_th = lit ''Solar Carport '' @ [0xE15, 0xE48, 0xE32, 0xE07, 0xE08, 0xE32, 0xE01] @
           lit '' Rooftop Solar '' @ [0xE2D, 0xE22, 0xE48, 0xE32, 0xE07, 0xE44, 0xE23, 0x3F],
         lz_en = lit ''How is Solar Carport different from Rooftop Solar?'',
         lz_cn = lit ''Solar Carport'' @ [0x4E0E, 0x5C4B, 0x9876, 0x592A, 0x9633, 0x80FD, 0x6709,
           0x4EC0, 0x4E48, 0x533A, 0x522B, 0xFF1F]\<rparr>,
       fq_answer =
        \<lparr>lz_th = lit ''Solar Carport '' @ [0xE15, 0xE34, 0xE14, 0xE15, 0xE31, 0xE49, 0xE07, 0xE1A,
           0xE19, 0xE42, 0xE04, 0xE23, 0xE07, 0xE2A, 0xE23, 0xE49, 0xE32, 0xE07, 0xE2B, 0xE25,
           0xE31, 0xE07, 0xE04, 0xE32, 0xE17, 0xE35, 0xE48, 0xE08, 0xE2D, 0xE14, 0xE23, 0xE16,
           0x20, 0xE44, 0xE21, 0xE48, 0xE15, 0xE49, 0xE2D, 0xE07, 0xE43, 0xE0A, 0xE49, 0xE1E,
           0xE37, 0xE49, 0xE19, 0xE17, 0xE35, 0xE48, 0xE2B, 0xE25, 0xE31, 0xE07, 0xE04, 0xE32,
           0xE2D, 0xE32, 0xE04, 0xE32, 0xE23, 0x20, 0xE40, 0xE2B, 0xE21, 0xE32, 0xE30, 0xE01,
           0xE31, 0xE1A, 0xE18, 0xE38, 0xE23, 0xE01, 0xE34, 0xE08, 0xE17, 0xE35, 0xE48, 0xE21,
           0xE35, 0xE25, 0xE32, 0xE19, 0xE08, 0xE2D, 0xE14, 0xE23, 0xE16, 0xE02, 0xE19, 0xE32,
           0xE14, 0xE43, 0xE2B, 0xE0D, 0xE48, 0x20, 0xE19, 0xE2D, 0xE01, 0xE08, 0xE32, 0xE01,
           0xE1C, 0xE25, 0xE34, 0xE15, 0xE44, 0xE1F, 0xE1F, 0xE49, 0xE32, 0xE41, 0xE25, 0xE49,
           0xE27, 0x20, 0xE22, 0xE31, 0xE07, 0xE43, 0xE2B, 0xE49, 0xE23, 0xE48, 0xE21, 0xE40,
           0xE07, 0xE32, 0xE1B, 0xE01, 0xE1B, 0xE49, 0xE2D, 0xE07, 0xE23, 0xE16, 0xE41, 0xE25,
           0xE30, 0xE23, 0xE2D, 0xE07, 0xE23, 0xE31, 0xE1A] @ lit '' EV Charger '' @ [0xE44,
           0xE14, 0xE49, 0xE17, 0xE31, 0xE19, 0xE17, 0xE35, 0x20, 0xE43, 0xE19, 0xE02, 0xE13,
           0xE30, 0xE17, 0xE35, 0xE48] @ lit '' Rooftop Solar '' @ [0xE15, 0xE49, 0xE2D, 0xE07,
           0xE43, 0xE0A, 0xE49, 0xE2B, 0xE25, 0xE31, 0xE07, 0xE04, 0xE32, 0xE2D, 0xE32, 0xE04,
           0xE32, 0xE23, 0xE17, 0xE35, 0xE48, 0xE21, 0xE35, 0xE04, 0xE27, 0xE32, 0xE21, 0xE41,
           0xE02, 0xE47, 0xE07, 0xE41, 0xE23, 0xE07, 0xE40, 0xE1E, 0xE35, 0xE22, 0xE07, 0xE1E,
           0xE2D],
         lz_en = lit ''Solar Carport is installed on parking lot roof structures, not building roofs. It''
           @ [0x27] @
           lit ''s ideal for businesses with large parking areas. Besides generating electricity, it provides vehicle shade and supports EV Chargers. Rooftop Solar requires structurally sound building roofs.'',
         lz_cn = lit ''Solar Carport'' @ [0x5B89, 0x88C5, 0x5728, 0x505C, 0x8F66, 0x573A, 0x5C4B,
           0x9876, 0x7ED3, 0x6784, 0x4E0A, 0xFF0C, 0x4E0D, 0x5360, 0x7528, 0x5EFA, 0x7B51, 0x5C4B,
           0x9876, 0x3002, 0x9002, 0x5408, 0x62E5, 0x6709, 0x5927, 0x578B, 0x505C, 0x8F66, 0x573A,
           0x7684, 0x4F01, 0x4E1A, 0x3002, 0x9664, 0x53D1, 0x7535, 0x5916, 0xFF0C, 0x8FD8, 0x63D0,
           0x4F9B, 0x8F66, 0x8F86, 0x906E, 0x9633, 0x5E76, 0x652F, 0x6301, 0x7535, 0x52A8, 0x8F66,
           0x5145, 0x7535, 0x3002, 0x5C4B, 0x9876, 0x592A, 0x9633, 0x80FD, 0x9700, 0x8981, 0x7ED3,
           0x6784, 0x575A, 0x56FA, 0x7684, 0x5EFA, 0x7B51, 0x5C4B, 0x9876, 0x3002]\<rparr>\<rparr>,
      \<lparr>fq_id = lit ''parking-lot-size'',
       fq_question =
        \<lparr>lz_th = [0xE25, 0xE32, 0xE19, 0xE08, 0xE2D, 0xE14, 0xE23, 0xE16, 0xE15, 0xE49, 0xE2D, 0xE07,
           0xE43, 0xE2B, 0xE0D, 0xE48, 0xE41, 0xE04, 0xE48, 0xE44, 0xE2B, 0xE19, 0xE16, 0xE36,
           0xE07, 0xE08, 0xE30, 0xE04, 0xE38, 0xE49, 0xE21, 0xE04, 0xE48, 0xE32, 0x3F],
         lz_en = lit ''How big does the parking lot need to be?'',
         lz_cn = [0x505C, 0x8F66, 0x573A, 0x9700, 0x8981, 0x591A, 0x5927, 0x624D, 0x5212, 0x7B97,
           0xFF1F]\<rparr>,
       fq_answer =
        \<lparr>lz_th = [0xE42, 0xE14, 0xE22, 0xE17, 0xE31, 0xE48, 0xE27, 0xE44, 0xE1B, 0x20, 0xE25, 0xE32,
           0xE19, 0xE08, 0xE2D, 0xE14, 0xE23, 0xE16] @ lit '' 50 '' @ [0xE04, 0xE31, 0xE19, 0xE02,
           0xE36, 0xE49, 0xE19, 0xE44, 0xE1B] @ lit '' ('' @ [0xE1B, 0xE23, 0xE30, 0xE21, 0xE32,
           0xE13] @ lit '' 500 '' @ [0xE15, 0xE23, 0x2E, 0xE21] @ lit ''.) '' @ [0xE08, 0xE30,
           0xE40, 0xE23, 0xE34, 0xE48, 0xE21, 0xE04, 0xE38, 0xE49, 0xE21, 0xE04, 0xE48, 0xE32,
           0xE17, 0xE32, 0xE07, 0xE40, 0xE28, 0xE23, 0xE29, 0xE10, 0xE01, 0xE34, 0xE08, 0x20,
           0xE41, 0xE15, 0xE48] @ lit '' SIRINX '' @ [0xE2A, 0xE32, 0xE21, 0xE32, 0xE23, 0xE16,
           0xE2D, 0xE2D, 0xE01, 0xE41, 0xE1A, 0xE1A, 0xE23, 0xE30, 0xE1A, 0xE1A, 0xE2A, 0xE33,
           0xE2B, 0xE23, 0xE31, 0xE1A, 0xE1E, 0xE37, 0xE49, 0xE19, 0xE17, 0xE35, 0xE48, 0xE15,
           0xE31, 0xE49, 0xE07, 0xE41, 0xE15, 0xE48] @ lit '' 30 '' @ [0xE04, 0xE31, 0xE19, 0xE02,
           0xE36, 0xE49, 0xE19, 0xE44, 0xE1B, 0xE44, 0xE14, 0xE49, 0x20, 0xE02, 0xE36, 0xE49,
           0xE19, 0xE2D, 0xE22, 0xE39, 0xE48, 0xE01, 0xE31, 0xE1A, 0xE04, 0xE48, 0xE32, 0xE44,
           0xE1F, 0xE1B, 0xE31, 0xE08, 0xE08, 0xE38, 0xE1A, 0xE31, 0xE19, 0xE41, 0xE25, 0xE30,
           0xE23, 0xE39, 0xE1B, 0xE41, 0xE1A, 0xE1A, 0xE01, 0xE32, 0xE23, 0xE25, 0xE07, 0xE17,
           0xE38, 0xE19],
         lz_en = lit ''Generally, parking lots for 50+ vehicles (approx. 500 sq.m.) become economically viable. SIRINX can design systems for 30+ vehicles depending on current electricity costs and investment model.'',
         lz_cn = [0x901A, 0x5E38] @ lit ''50'' @ [0x8F86, 0x4EE5, 0x4E0A, 0x7684, 0x505C, 0x8F66,
           0x573A, 0xFF08, 0x7EA6] @ lit ''500'' @ [0x5E73, 0x65B9, 0x7C73, 0xFF09, 0x5F00,
           0x59CB, 0x5177, 0x6709, 0x7ECF, 0x6D4E, 0x53EF, 0x884C, 0x6027, 0x3002] @
           lit ''SIRINX'' @ [0x53EF, 0x6839, 0x636E, 0x5F53, 0x524D, 0x7535, 0x8D39, 0x548C,
           0x6295, 0x8D44, 0x6A21, 0x5F0F, 0x4E3A] @ lit ''30'' @ [0x8F86, 0x4EE5, 0x4E0A, 0x7684,
           0x505C, 0x8F66, 0x573A, 0x8BBE, 0x8BA1, 0x7CFB, 0x7EDF, 0x3002]\<rparr>\<rparr>,
      \<lparr>fq_id = lit ''payback-and-returns'',
       fq_question =
        \<lparr>lz_th = [0xE04, 0xE37, 0xE19, 0xE17, 0xE38, 0xE19, 0xE01, 0xE35, 0xE48, 0xE1B, 0xE35] @
           lit ''? '' @ [0xE1C, 0xE25, 0xE15, 0xE2D, 0xE1A, 0xE41, 0xE17, 0xE19, 0xE40, 0xE17,
           0xE48, 0xE32, 0xE44, 0xE2B, 0xE23, 0xE48, 0x3F],
         lz_en = lit ''What'' @ [0x27] @ lit ''s the ROI period and returns?'',
         lz_cn = [0x56DE, 0x672C, 0x5468, 0x671F, 0x548C, 0x56DE, 0x62A5, 0x7387, 0x662F, 0x591A,
           0x5C11, 0xFF1F]\<rparr>,
       fq_answer =
        \<lparr>lz_th = [0xE23, 0xE30, 0xE22, 0xE30, 0xE04, 0xE37, 0xE19, 0xE17, 0xE38, 0xE19, 0xE41, 0xE25,
           0xE30, 0xE1C, 0xE25, 0xE15, 0xE2D, 0xE1A, 0xE41, 0xE17, 0xE19, 0xE15, 0xE49, 0xE2D,
           0xE07, 0xE04, 0xE33, 0xE19, 0xE27, 0xE13, 0xE40, 0xE09, 0xE1E, 0xE32, 0xE30, 0xE42,
           0xE04, 0xE23, 0xE07, 0xE01, 0xE32, 0xE23, 0xE08, 0xE32, 0xE01, 0xE04, 0xE48, 0xE32,
           0xE44, 0xE1F, 0xE08, 0xE23, 0xE34, 0xE07] @ lit '' load profile '' @ [0xE1E, 0xE37,
           0xE49, 0xE19, 0xE17, 0xE35, 0xE48, 0xE15, 0xE34, 0xE14, 0xE15, 0xE31, 0xE49, 0xE07,
           0x20, 0xE23, 0xE39, 0xE1B, 0xE41, 0xE1A, 0xE1A, 0xE01, 0xE32, 0xE23, 0xE25, 0xE07,
           0xE17, 0xE38, 0xE19, 0x20, 0xE41, 0xE25, 0xE30, 0xE02, 0xE49, 0xE2D, 0xE08, 0xE33,
           0xE01, 0xE31, 0xE14, 0xE2B, 0xE19, 0xE49, 0xE32, 0xE07, 0xE32, 0xE19, 0x20, 0xE1C,
           0xE25, 0xE25, 0xE31, 0xE1E, 0xE18, 0xE4C, 0xE1A, 0xE19, 0xE40, 0xE27, 0xE47, 0xE1A,
           0xE44, 0xE0B, 0xE15, 0xE4C, 0xE40, 0xE1B, 0xE47, 0xE19, 0xE40, 0xE1E, 0xE35, 0xE22,
           0xE07, 0xE01, 0xE32, 0xE23, 0xE1B, 0xE23, 0xE30, 0xE40, 0xE21, 0xE34, 0xE19, 0xE40,
           0xE1A, 0xE37, 0xE49, 0xE2D, 0xE07, 0xE15, 0xE49, 0xE19, 0x20, 0xE44, 0xE21, 0xE48,
           0xE43, 0xE0A, 0xE48, 0xE43, 0xE1A, 0xE40, 0xE2A, 0xE19, 0xE2D, 0xE23, 0xE32, 0xE04,
           0xE32, 0xE2B, 0xE23, 0xE37, 0xE2D, 0xE01, 0xE32, 0xE23, 0xE23, 0xE31, 0xE1A, 0xE1B,
           0xE23, 0xE30, 0xE01, 0xE31, 0xE19, 0xE1C, 0xE25, 0xE1B, 0xE23, 0xE30, 0xE2B, 0xE22,
           0xE31, 0xE14],
         lz_en = lit ''Payback and returns must be calculated for each project from actual electricity costs, load profile, installation area, investment model, and site constraints. Website results are preliminary assessments, not quotes or guaranteed savings.'',
         lz_cn = [0x56DE, 0x672C, 0x5468, 0x671F, 0x548C, 0x56DE, 0x62A5, 0x9700, 0x8981, 0x6839,
           0x636E, 0x5B9E, 0x9645, 0x7535, 0x8D39, 0x3001, 0x8D1F, 0x8F7D, 0x66F2, 0x7EBF, 0x3001,
           0x5B89, 0x88C5, 0x9762, 0x79EF, 0x3001, 0x6295, 0x8D44, 0x65B9, 0x5F0F, 0x548C, 0x73B0,
           0x573A, 0x9650, 0x5236, 0x6309, 0x9879, 0x76EE, 0x8BA1, 0x7B97, 0x3002, 0x7F51, 0x7AD9,
           0x7ED3, 0x679C, 0x4EC5, 0x4E3A, 0x521D, 0x6B65, 0x8BC4, 0x4F30, 0xFF0C, 0x4E0D, 0x662F,
           0x62A5, 0x4EF7, 0x6216, 0x8282, 0x7701, 0x4FDD, 0x8BC1, 0x3002]\<rparr>\<rparr>,
      \<lparr>fq_id = lit ''permits'',
       fq_question =
        \<lparr>lz_th = [0xE15, 0xE49, 0xE2D, 0xE07, 0xE02, 0xE2D, 0xE2D, 0xE19, 0xE38, 0xE0D, 0xE32, 0xE15,
           0xE2D, 0xE30, 0xE44, 0xE23, 0xE1A, 0xE49, 0xE32, 0xE07, 0x3F],
         lz_en = lit ''What permits are required?'',
         lz_cn = [0x9700, 0x8981, 0x54EA, 0x4E9B, 0x8BB8, 0x53EF, 0x8BC1, 0xFF1F]\<rparr>,
       fq_answer =
        \<lparr>lz_th = lit ''SIRINX '' @ [0xE14, 0xE39, 0xE41, 0xE25, 0xE40, 0xE23, 0xE37, 0xE48, 0xE2D,
           0xE07, 0xE01, 0xE32, 0xE23, 0xE02, 0xE2D, 0xE2D, 0xE19, 0xE38, 0xE0D, 0xE32, 0xE15,
           0xE17, 0xE31, 0xE49, 0xE07, 0xE2B, 0xE21, 0xE14, 0x20, 0xE15, 0xE31, 0xE49, 0xE07,
           0xE41, 0xE15, 0xE48, 0xE43, 0xE1A, 0xE2D, 0xE19, 0xE38, 0xE0D, 0xE32, 0xE15, 0xE01,
           0xE48, 0xE2D, 0xE2A, 0xE23, 0xE49, 0xE32, 0xE07] @ lit '' ('' @ [0xE2D] @ lit ''.1) ''
           @ [0xE01, 0xE32, 0xE23, 0xE02, 0xE2D, 0xE2D, 0xE19, 0xE38, 0xE0D, 0xE32, 0xE15, 0xE1C,
           0xE25, 0xE34, 0xE15, 0xE44, 0xE1F, 0xE1F, 0xE49, 0xE32] @ lit '' ('' @ [0xE01, 0xE01,
           0xE1E] @ lit ''.) '' @ [0xE41, 0xE25, 0xE30, 0xE01, 0xE32, 0xE23, 0xE40, 0xE0A, 0xE37,
           0xE48, 0xE2D, 0xE21, 0xE15, 0xE48, 0xE2D, 0xE01, 0xE31, 0xE1A, 0xE23, 0xE30, 0xE1A,
           0xE1A, 0xE44, 0xE1F, 0xE1F, 0xE49, 0xE32] @ lit '' (MEA/PEA) '' @ [0xE17, 0xE31, 0xE49,
           0xE07, 0xE2B, 0xE21, 0xE14, 0xE23, 0xE27, 0xE21, 0xE2D, 0xE22, 0xE39, 0xE48, 0xE43,
           0xE19, 0xE1A, 0xE23, 0xE34, 0xE01, 0xE32, 0xE23, 0xE02, 0xE2D, 0xE07, 0xE40, 0xE23,
           0xE32],
         lz_en = lit ''SIRINX handles all permits '' @ [0x2014] @
           lit '' construction permits, power generation licenses (ERC), and grid connection (MEA/PEA). Everything is included in our service.'',
         lz_cn = lit ''SIRINX'' @ [0x5904, 0x7406, 0x6240, 0x6709, 0x8BB8, 0x53EF, 0x2014, 0x2014,
           0x5EFA, 0x7B51, 0x8BB8, 0x53EF, 0x3001, 0x53D1, 0x7535, 0x8BB8, 0x53EF, 0x8BC1, 0xFF08]
           @ lit ''ERC'' @ [0xFF09, 0x548C, 0x7535, 0x7F51, 0x8FDE, 0x63A5, 0xFF08] @
           lit ''MEA/PEA'' @ [0xFF09, 0x3002, 0x5168, 0x90E8, 0x5305, 0x542B, 0x5728, 0x6211,
           0x4EEC, 0x7684, 0x670D, 0x52A1, 0x4E2D, 0x3002]\<rparr>\<rparr>,
      \<lparr>fq_id = lit ''investment-models'',
       fq_question =
        \<lparr>lz_th = [0xE21, 0xE35, 0xE23, 0xE39, 0xE1B, 0xE41, 0xE1A, 0xE1A, 0xE01, 0xE32, 0xE23, 0xE25,
           0xE07, 0xE17, 0xE38, 0xE19, 0xE2D, 0xE30, 0xE44, 0xE23, 0xE1A, 0xE49, 0xE32, 0xE07,
           0x3F],
         lz_en = lit ''What investment models are available?'',
         lz_cn = [0x6709, 0x54EA, 0x4E9B, 0x6295, 0x8D44, 0x6A21, 0x5F0F, 0xFF1F]\<rparr>,
       fq_answer =
        \<lparr>lz_th = [0xE23, 0xE39, 0xE1B, 0xE41, 0xE1A, 0xE1A, 0xE01, 0xE32, 0xE23, 0xE25, 0xE07, 0xE17,
           0xE38, 0xE19, 0xE2D, 0xE32, 0xE08, 0xE1B, 0xE23, 0xE30, 0xE01, 0xE2D, 0xE1A, 0xE14,
           0xE49, 0xE27, 0xE22, 0xE0B, 0xE37, 0xE49, 0xE2D, 0xE02, 0xE32, 0xE14, 0x20, 0xE1C,
           0xE48, 0xE2D, 0xE19, 0xE0A, 0xE33, 0xE23, 0xE30] @ lit '' PPA '' @ [0xE2B, 0xE23,
           0xE37, 0xE2D, 0xE23, 0xE39, 0xE1B, 0xE41, 0xE1A, 0xE1A, 0xE23, 0xE48, 0xE27, 0xE21,
           0xE25, 0xE07, 0xE17, 0xE38, 0xE19, 0x20, 0xE17, 0xE31, 0xE49, 0xE07, 0xE19, 0xE35,
           0xE49, 0xE15, 0xE49, 0xE2D, 0xE07, 0xE22, 0xE37, 0xE19, 0xE22, 0xE31, 0xE19, 0xE04,
           0xE27, 0xE32, 0xE21, 0xE1E, 0xE23, 0xE49, 0xE2D, 0xE21, 0x20, 0xE40, 0xE07, 0xE37,
           0xE48, 0xE2D, 0xE19, 0xE44, 0xE02, 0xE01, 0xE32, 0xE23, 0xE40, 0xE07, 0xE34, 0xE19,
           0x20, 0xE41, 0xE25, 0xE30, 0xE2A, 0xE34, 0xE17, 0xE18, 0xE34, 0xE1B, 0xE23, 0xE30,
           0xE42, 0xE22, 0xE0A, 0xE19, 0xE4C, 0xE01, 0xE31, 0xE1A, 0xE1C, 0xE39, 0xE49, 0xE40,
           0xE0A, 0xE35, 0xE48, 0xE22, 0xE27, 0xE0A, 0xE32, 0xE0D, 0xE01, 0xE48, 0xE2D, 0xE19,
           0xE40, 0xE2A, 0xE19, 0xE2D],
         lz_en = lit ''Investment options may include outright purchase, installment, PPA, or co-investment. Availability, financial terms, and incentives must be confirmed before quoting.'',
         lz_cn = [0x6295, 0x8D44, 0x65B9, 0x5F0F, 0x53EF, 0x80FD, 0x5305, 0x62EC, 0x5168, 0x989D,
           0x8D2D, 0x4E70, 0x3001, 0x5206, 0x671F, 0x3001] @ lit ''PPA'' @ [0x6216, 0x8054,
           0x5408, 0x6295, 0x8D44, 0x3002, 0x53EF, 0x7528, 0x6027, 0x3001, 0x8D22, 0x52A1, 0x6761,
           0x6B3E, 0x548C, 0x4F18, 0x60E0, 0x5FC5, 0x987B, 0x5728, 0x62A5, 0x4EF7, 0x524D, 0x786E,
           0x8BA4, 0x3002]\<rparr>\<rparr>,
      \<lparr>fq_id = lit ''aftercare'',
       fq_question =
        \<lparr>lz_th = [0xE2B, 0xE25, 0xE31, 0xE07, 0xE15, 0xE34, 0xE14, 0xE15, 0xE31, 0xE49, 0xE07, 0xE41,
           0xE25, 0xE49, 0xE27] @ lit '' SIRINX '' @ [0xE14, 0xE39, 0xE41, 0xE25, 0xE2D, 0xE22,
           0xE48, 0xE32, 0xE07, 0xE44, 0xE23, 0x3F],
         lz_en = lit ''How does SIRINX maintain the system after installation?'',
         lz_cn = [0x5B89, 0x88C5, 0x540E] @ lit ''SIRINX'' @ [0x5982, 0x4F55, 0x7EF4, 0x62A4, 0x7CFB,
           0x7EDF, 0xFF1F]\<rparr>,
       fq_answer =
        \<lparr>lz_th = lit ''SIRINX '' @ [0xE08, 0xE31, 0xE14, 0xE1A, 0xE23, 0xE34, 0xE01, 0xE32, 0xE23] @
           lit '' O&M '' @ [0xE15, 0xE32, 0xE21, 0xE02, 0xE2D, 0xE1A, 0xE40, 0xE02, 0xE15, 0xE2A,
           0xE31, 0xE0D, 0xE0D, 0xE32, 0x20, 0xE40, 0xE0A, 0xE48, 0xE19] @ lit '' AI Monitoring ''
           @ [0xE01, 0xE32, 0xE23, 0xE15, 0xE23, 0xE27, 0xE08, 0xE2A, 0xE2D, 0xE1A, 0x20, 0xE41,
           0xE25, 0xE30, 0xE23, 0xE32, 0xE22, 0xE07, 0xE32, 0xE19, 0xE1C, 0xE25, 0x20, 0xE42,
           0xE14, 0xE22, 0xE23, 0xE30, 0xE22, 0xE30, 0xE40, 0xE27, 0xE25, 0xE32, 0x20, 0xE23,
           0xE2D, 0xE1A, 0xE15, 0xE23, 0xE27, 0xE08, 0x20, 0xE41, 0xE25, 0xE30, 0xE40, 0xE27,
           0xE25, 0xE32, 0xE15, 0xE2D, 0xE1A, 0xE2A, 0xE19, 0xE2D, 0xE07, 0xE15, 0xE49, 0xE2D,
           0xE07, 0xE23, 0xE30, 0xE1A, 0xE38, 0xE43, 0xE19, 0xE43, 0xE1A, 0xE40, 0xE2A, 0xE19,
           0xE2D, 0xE23, 0xE32, 0xE04, 0xE32, 0xE2B, 0xE23, 0xE37, 0xE2D, 0xE2A, 0xE31, 0xE0D,
           0xE0D, 0xE32, 0xE17, 0xE35, 0xE48, 0xE2D, 0xE19, 0xE38, 0xE21, 0xE31, 0xE15, 0xE34],
         lz_en = lit ''SIRINX provides O&M by contract scope, such as AI Monitoring, inspections, and reporting. Duration, inspection cadence, and response terms must be stated in the approved quotation or contract.'',
         lz_cn = lit ''SIRINX'' @ [0x6309, 0x5408, 0x540C, 0x8303, 0x56F4, 0x63D0, 0x4F9B, 0x8FD0,
           0x7EF4, 0x670D, 0x52A1, 0xFF0C, 0x4F8B, 0x5982] @ lit ''AI'' @ [0x76D1, 0x63A7, 0x3001,
           0x68C0, 0x67E5, 0x548C, 0x62A5, 0x544A, 0x3002, 0x671F, 0x9650, 0x3001, 0x68C0, 0x67E5,
           0x9891, 0x7387, 0x548C, 0x54CD, 0x5E94, 0x6761, 0x6B3E, 0x5FC5, 0x987B, 0x5199, 0x5165,
           0x6279, 0x51C6, 0x7684, 0x62A5, 0x4EF7, 0x6216, 0x5408, 0x540C, 0x3002]\<rparr>\<rparr>]"

definition solarCarportProvinceFaq :: "faq_item list" where
  "solarCarportProvinceFaq =
     [\<lparr>fq_id = lit ''province-assessment-data'',
       fq_question =
        \<lparr>lz_th = [0xE1B, 0xE23, 0xE30, 0xE40, 0xE21, 0xE34, 0xE19] @ lit '' Solar Carport '' @ [0xE43,
           0xE19] @ lit ''{province}'' @ [0xE15, 0xE49, 0xE2D, 0xE07, 0xE43, 0xE0A, 0xE49, 0xE02,
           0xE49, 0xE2D, 0xE21, 0xE39, 0xE25, 0xE2D, 0xE30, 0xE44, 0xE23, 0x3F],
         lz_en = lit ''What data is needed to assess Solar Carport in {province}?'',
         lz_cn = [0x5728] @ lit ''{province}'' @ [0x8BC4, 0x4F30, 0x592A, 0x9633, 0x80FD, 0x8F66,
           0x68DA, 0x9700, 0x8981, 0x54EA, 0x4E9B, 0x6570, 0x636E, 0xFF1F]\<rparr>,
       fq_answer =
        \<lparr>lz_th = [0xE43, 0xE0A, 0xE49, 0xE1A, 0xE34, 0xE25, 0xE04, 0xE48, 0xE32, 0xE44, 0xE1F, 0xE22,
           0xE49, 0xE2D, 0xE19, 0xE2B, 0xE25, 0xE31, 0xE07, 0x20, 0xE0A, 0xE48, 0xE27, 0xE07,
           0xE40, 0xE27, 0xE25, 0xE32, 0xE17, 0xE35, 0xE48, 0xE43, 0xE0A, 0xE49, 0xE44, 0xE1F,
           0xE08, 0xE23, 0xE34, 0xE07] @ lit '' (load profile) '' @ [0xE08, 0xE33, 0xE19, 0xE27,
           0xE19, 0xE41, 0xE25, 0xE30, 0xE02, 0xE19, 0xE32, 0xE14, 0xE0A, 0xE48, 0xE2D, 0xE07,
           0xE08, 0xE2D, 0xE14, 0xE23, 0xE16, 0x20, 0xE42, 0xE04, 0xE23, 0xE07, 0xE2A, 0xE23,
           0xE49, 0xE32, 0xE07, 0xE2B, 0xE19, 0xE49, 0xE32, 0xE07, 0xE32, 0xE19, 0x20, 0xE41,
           0xE25, 0xE30, 0xE04, 0xE27, 0xE32, 0xE21, 0xE15, 0xE49, 0xE2D, 0xE07, 0xE01, 0xE32,
           0xE23] @ lit '' EV Charger '' @ [0xE2B, 0xE23, 0xE37, 0xE2D, 0xE23, 0xE30, 0xE1A,
           0xE1A, 0xE2A, 0xE33, 0xE23, 0xE2D, 0xE07, 0xE44, 0xE1F, 0x20, 0xE40, 0xE1E, 0xE37,
           0xE48, 0xE2D, 0xE1B, 0xE23, 0xE30, 0xE40, 0xE21, 0xE34, 0xE19, 0xE02, 0xE19, 0xE32,
           0xE14, 0xE23, 0xE30, 0xE1A, 0xE1A, 0xE41, 0xE25, 0xE30, 0xE23, 0xE39, 0xE1B, 0xE41,
           0xE1A, 0xE1A, 0xE01, 0xE32, 0xE23, 0xE25, 0xE07, 0xE17, 0xE38, 0xE19, 0x20, 0xE15,
           0xE31, 0xE27, 0xE40, 0xE25, 0xE02, 0xE1C, 0xE25, 0xE1B, 0xE23, 0xE30, 0xE2B, 0xE22,
           0xE31, 0xE14, 0xE08, 0xE23, 0xE34, 0xE07, 0xE15, 0xE49, 0xE2D, 0xE07, 0xE04, 0xE33,
           0xE19, 0xE27, 0xE13, 0xE08, 0xE32, 0xE01, 0xE02, 0xE49, 0xE2D, 0xE21, 0xE39, 0xE25,
           0xE44, 0xE0B, 0xE15, 0xE4C, 0xE08, 0xE23, 0xE34, 0xE07, 0x20, 0xE44, 0xE21, 0xE48,
           0xE43, 0xE0A, 0xE48, 0xE04, 0xE48, 0xE32, 0xE01, 0xE25, 0xE32, 0xE07, 0xE02, 0xE2D,
           0xE07, 0xE08, 0xE31, 0xE07, 0xE2B, 0xE27, 0xE31, 0xE14],
         lz_en = lit ''We use past electricity bills, the real usage pattern (load profile), the number and size of parking bays, the site structure, and any EV Charger or backup power requirement. Actual savings must be calculated from real site data, not from a provincial average.'',
         lz_cn = [0x6211, 0x4EEC, 0x4F7F, 0x7528, 0x5386, 0x53F2, 0x7535, 0x8D39, 0x8D26, 0x5355,
           0x3001, 0x5B9E, 0x9645, 0x7528, 0x7535, 0x66F2, 0x7EBF, 0x3001, 0x8F66, 0x4F4D, 0x6570,
           0x91CF, 0x4E0E, 0x5C3A, 0x5BF8, 0x3001, 0x73B0, 0x573A, 0x7ED3, 0x6784, 0x4EE5, 0x53CA,
           0x7535, 0x52A8, 0x8F66, 0x5145, 0x7535, 0x6216, 0x5907, 0x7535, 0x9700, 0x6C42, 0x3002,
           0x5B9E, 0x9645, 0x8282, 0x7701, 0x5FC5, 0x987B, 0x6839, 0x636E, 0x73B0, 0x573A, 0x771F,
           0x5B9E, 0x6570, 0x636E, 0x8BA1, 0x7B97, 0xFF0C, 0x800C, 0x4E0D, 0x662F, 0x4F7F, 0x7528,
           0x5168, 0x7701, 0x5E73, 0x5747, 0x503C, 0x3002]\<rparr>\<rparr>,
      \<lparr>fq_id = lit ''province-starting-area'',
       fq_question =
        \<lparr>lz_th = [0xE1E, 0xE37, 0xE49, 0xE19, 0xE17, 0xE35, 0xE48, 0xE41, 0xE1A, 0xE1A, 0xE43, 0xE14,
           0xE43, 0xE19] @ lit ''{province}'' @ [0xE04, 0xE27, 0xE23, 0xE40, 0xE23, 0xE34, 0xE48,
           0xE21, 0xE1B, 0xE23, 0xE30, 0xE40, 0xE21, 0xE34, 0xE19] @ lit '' Solar Carport?'',
         lz_en = lit ''Which areas in {province} should be assessed first for Solar Carport?'',
         lz_cn = [0x5728] @ lit ''{province}'' @ [0x5E94, 0x4F18, 0x5148, 0x8BC4, 0x4F30, 0x54EA,
           0x4E9B, 0x533A, 0x57DF, 0x7684, 0x592A, 0x9633, 0x80FD, 0x8F66, 0x68DA, 0xFF1F]\<rparr>,
       fq_answer =
        \<lparr>lz_th = [0xE25, 0xE32, 0xE19, 0xE08, 0xE2D, 0xE14, 0xE23, 0xE16, 0xE17, 0xE35, 0xE48, 0xE43,
           0xE0A, 0xE49, 0xE07, 0xE32, 0xE19, 0xE08, 0xE23, 0xE34, 0xE07, 0xE43, 0xE19] @
           lit ''{province}'' @ [0xE17, 0xE35, 0xE48, 0xE21, 0xE35, 0xE17, 0xE34, 0xE28, 0xE2B,
           0xE25, 0xE31, 0xE07, 0xE04, 0xE32, 0xE41, 0xE25, 0xE30, 0xE23, 0xE30, 0xE22, 0xE30,
           0xE2B, 0xE48, 0xE32, 0xE07, 0xE08, 0xE32, 0xE01, 0xE15, 0xE49, 0xE19, 0xE02, 0xE48,
           0xE32, 0xE22, 0xE40, 0xE2B, 0xE21, 0xE32, 0xE30, 0xE2A, 0xE21, 0x20, 0xE42, 0xE04,
           0xE23, 0xE07, 0xE2A, 0xE23, 0xE49, 0xE32, 0xE07, 0xE17, 0xE35, 0xE48, 0xE23, 0xE2D,
           0xE07, 0xE23, 0xE31, 0xE1A, 0xE41, 0xE1C, 0xE07, 0xE44, 0xE14, 0xE49, 0x20, 0xE01,
           0xE32, 0xE23, 0xE43, 0xE0A, 0xE49, 0xE44, 0xE1F, 0xE43, 0xE19, 0xE0A, 0xE48, 0xE27,
           0xE07, 0xE01, 0xE25, 0xE32, 0xE07, 0xE27, 0xE31, 0xE19, 0x20, 0xE41, 0xE25, 0xE30,
           0xE04, 0xE27, 0xE32, 0xE21, 0xE15, 0xE49, 0xE2D, 0xE07, 0xE01, 0xE32, 0xE23, 0xE0A,
           0xE32, 0xE23, 0xE4C, 0xE08, 0xE23, 0xE16, 0xE02, 0xE2D, 0xE07, 0xE18, 0xE38, 0xE23,
           0xE01, 0xE34, 0xE08, 0x20, 0xE40, 0xE1B, 0xE47, 0xE19, 0xE02, 0xE49, 0xE2D, 0xE21,
           0xE39, 0xE25, 0xE15, 0xE31, 0xE49, 0xE07, 0xE15, 0xE49, 0xE19, 0xE2A, 0xE33, 0xE2B,
           0xE23, 0xE31, 0xE1A, 0xE01, 0xE32, 0xE23, 0xE2A, 0xE33, 0xE23, 0xE27, 0xE08, 0xE2B,
           0xE19, 0xE49, 0xE32, 0xE07, 0xE32, 0xE19, 0x20, 0xE1C, 0xE25, 0xE2D, 0xE2D, 0xE01,
           0xE41, 0xE1A, 0xE1A, 0xE41, 0xE25, 0xE30, 0xE02, 0xE19, 0xE32, 0xE14, 0xE23, 0xE30,
           0xE1A, 0xE1A, 0xE08, 0xE23, 0xE34, 0xE07, 0xE15, 0xE49, 0xE2D, 0xE07, 0xE22, 0xE37,
           0xE19, 0xE22, 0xE31, 0xE19, 0xE2B, 0xE25, 0xE31, 0xE07, 0xE2A, 0xE33, 0xE23, 0xE27,
           0xE08],
         lz_en = lit ''Parking areas in {province} that are actually used, with a workable roof orientation and distance to the grid connection point, plus a structure that can carry panels, daytime consumption, and the business''
           @ [0x27] @
           lit ''s EV charging demand, are the right starting point for a site survey. The final design and system size are confirmed after the survey.'',
         lz_cn = [0x5728] @ lit ''{province}'' @ [0x5B9E, 0x9645, 0x4F7F, 0x7528, 0x4E2D, 0x7684,
           0x505C, 0x8F66, 0x573A, 0xFF0C, 0x5982, 0x679C, 0x5C4B, 0x9876, 0x671D, 0x5411, 0x548C,
           0x5230, 0x5E76, 0x7F51, 0x70B9, 0x7684, 0x8DDD, 0x79BB, 0x5408, 0x9002, 0xFF0C, 0x4E14,
           0x7ED3, 0x6784, 0x80FD, 0x591F, 0x627F, 0x8F7D, 0x7EC4, 0x4EF6, 0xFF0C, 0x914D, 0x5408,
           0x767D, 0x5929, 0x7528, 0x7535, 0x60C5, 0x51B5, 0x548C, 0x5145, 0x7535, 0x9700, 0x6C42,
           0xFF0C, 0x5C31, 0x662F, 0x52D8, 0x5BDF, 0x7684, 0x5408, 0x9002, 0x8D77, 0x70B9, 0x3002,
           0x6700, 0x7EC8, 0x8BBE, 0x8BA1, 0x548C, 0x7CFB, 0x7EDF, 0x5BB9, 0x91CF, 0x9700, 0x5728,
           0x52D8, 0x5BDF, 0x540E, 0x786E, 0x8BA4, 0x3002]\<rparr>\<rparr>]"

definition provinceDisplayName :: "thai_province \<Rightarrow> seo_language \<Rightarrow> jstr" where
  "provinceDisplayName p lang = (if lang = Lang_th then tp_nameTh p else tp_nameEn p)"

definition pick :: "localized \<Rightarrow> seo_language \<Rightarrow> jstr" where
  "pick t lang =
     (let v = (case lang of Lang_th \<Rightarrow> lz_th t | Lang_en \<Rightarrow> lz_en t | Lang_cn \<Rightarrow> lz_cn t) in
      if v = [] then lz_th t else v)"

definition fill :: "jstr \<Rightarrow> jstr \<Rightarrow> jstr" where
  "fill template provinceName = join provinceName (split_text provincePlaceholder template)"

definition resolve_faq :: "(jstr \<Rightarrow> jstr) \<Rightarrow> seo_language \<Rightarrow> faq_item \<Rightarrow> resolved_faq" where
  "resolve_faq f lang item =
     \<lparr>rq_id = fq_id item, rq_question = f (pick (fq_question item) lang),
      rq_answer = f (pick (fq_answer item) lang)\<rparr>"

definition buildSolarCarportFaq :: "seo_language \<Rightarrow> thai_province option \<Rightarrow> resolved_faq list" where
  "buildSolarCarportFaq lang prov =
     map (resolve_faq id lang) solarCarportFaq @
     (case prov of
        None \<Rightarrow> []
      | Some p \<Rightarrow>
          let name = provinceDisplayName p lang in
          map (resolve_faq (\<lambda>t. fill t name) lang) solarCarportProvinceFaq)"

fun translation_entries :: "jstr \<Rightarrow> nat \<Rightarrow> faq_item list \<Rightarrow> (jstr, localized) dict" where
  "translation_entries pre n [] = []"
| "translation_entries pre n (item # items) =
     (pre @ decimal n @ lit ''.q'', fq_question item) #
     (pre @ decimal n @ lit ''.a'', fq_answer item) # translation_entries pre (n + 1) items"

definition solarCarportFaqTranslationEntries :: "(jstr, localized) dict" where
  "solarCarportFaqTranslationEntries =
     dict_spread (dict_spread [] (translation_entries (lit ''sc.faq'') 1 solarCarportFaq))
       (translation_entries (lit ''sc.faqProvince'') 1 solarCarportProvinceFaq)"

record qa =
  qa_question :: jstr
  qa_answer :: jstr

definition homeSolutionFaq :: "qa list" where
  "homeSolutionFaq =
     [\<lparr>qa_question = lit ''Home Solution '' @ [0xE02, 0xE2D, 0xE07] @ lit '' SIRINX '' @ [0xE40, 0xE2B, 0xE21,
         0xE32, 0xE30, 0xE01, 0xE31, 0xE1A, 0xE1A, 0xE49, 0xE32, 0xE19, 0xE41, 0xE1A, 0xE1A,
         0xE44, 0xE2B, 0xE19, 0x3F],
       qa_answer = [0xE40, 0xE2B, 0xE21, 0xE32, 0xE30, 0xE01, 0xE31, 0xE1A, 0xE1A, 0xE49, 0xE32, 0xE19,
         0xE02, 0xE19, 0xE32, 0xE14, 0xE43, 0xE2B, 0xE0D, 0xE48, 0x20, 0xE42, 0xE2E, 0xE21, 0xE2D,
         0xE2D, 0xE1F, 0xE1F, 0xE34, 0xE28, 0x20, 0xE1A, 0xE49, 0xE32, 0xE19, 0xE1E, 0xE31, 0xE01,
         0xE1C, 0xE39, 0xE49, 0xE1A, 0xE23, 0xE34, 0xE2B, 0xE32, 0xE23, 0x20, 0xE1A, 0xE49, 0xE32,
         0xE19, 0xE17, 0xE35, 0xE48, 0xE21, 0xE35] @ lit '' EV '' @ [0xE2B, 0xE25, 0xE32, 0xE22,
         0xE04, 0xE31, 0xE19, 0x20, 0xE2B, 0xE23, 0xE37, 0xE2D, 0xE1A, 0xE49, 0xE32, 0xE19, 0xE17,
         0xE35, 0xE48, 0xE21, 0xE35, 0xE42, 0xE2B, 0xE25, 0xE14, 0xE44, 0xE1F, 0xE2A, 0xE39,
         0xE07, 0x20, 0xE40, 0xE0A, 0xE48, 0xE19, 0x20, 0xE41, 0xE2D, 0xE23, 0xE4C, 0xE2B, 0xE25,
         0xE32, 0xE22, 0xE42, 0xE0B, 0xE19, 0x20, 0xE2B, 0xE49, 0xE2D, 0xE07, 0xE17, 0xE33, 0xE07,
         0xE32, 0xE19] @ lit '' server '' @ [0xE2B, 0xE49, 0xE2D, 0xE07, 0xE1B, 0xE23, 0xE30,
         0xE0A, 0xE38, 0xE21, 0x20, 0xE2A, 0xE23, 0xE30, 0xE27, 0xE48, 0xE32, 0xE22, 0xE19, 0xE49,
         0xE33, 0x20, 0xE41, 0xE25, 0xE30, 0xE23, 0xE30, 0xE1A, 0xE1A, 0xE23, 0xE31, 0xE01, 0xE29,
         0xE32, 0xE04, 0xE27, 0xE32, 0xE21, 0xE1B, 0xE25, 0xE2D, 0xE14, 0xE20, 0xE31, 0xE22]\<rparr>,
      \<lparr>qa_question = [0xE17, 0xE33, 0xE44, 0xE21, 0xE44, 0xE21, 0xE48, 0xE04, 0xE27, 0xE23, 0xE0B, 0xE37,
         0xE49, 0xE2D, 0xE23, 0xE30, 0xE1A, 0xE1A, 0xE08, 0xE32, 0xE01, 0xE23, 0xE32, 0xE04,
         0xE32, 0xE15, 0xE48, 0xE2D, 0xE01, 0xE34, 0xE42, 0xE25, 0xE27, 0xE31, 0xE15, 0xE15,
         0xE4C, 0xE2D, 0xE22, 0xE48, 0xE32, 0xE07, 0xE40, 0xE14, 0xE35, 0xE22, 0xE27, 0x3F],
       qa_answer = [0xE40, 0xE1E, 0xE23, 0xE32, 0xE30, 0xE1A, 0xE49, 0xE32, 0xE19, 0xE43, 0xE2B, 0xE0D,
         0xE48, 0xE21, 0xE35, 0xE02, 0xE49, 0xE2D, 0xE08, 0xE33, 0xE01, 0xE31, 0xE14, 0xE40,
         0xE09, 0xE1E, 0xE32, 0xE30, 0x20, 0xE40, 0xE0A, 0xE48, 0xE19, 0x20, 0xE40, 0xE07, 0xE32,
         0xE1A, 0xE31, 0xE07, 0x20, 0xE17, 0xE34, 0xE28, 0xE2B, 0xE25, 0xE31, 0xE07, 0xE04, 0xE32]
         @ lit '' MDB '' @ [0xE40, 0xE14, 0xE34, 0xE21] @ lit '' backup load '' @ [0xE41, 0xE25,
         0xE30] @ lit '' EV charging behavior '' @ [0xE23, 0xE30, 0xE1A, 0xE1A, 0xE17, 0xE35,
         0xE48, 0xE04, 0xE38, 0xE49, 0xE21, 0xE08, 0xE23, 0xE34, 0xE07, 0xE15, 0xE49, 0xE2D,
         0xE07, 0xE2D, 0xE2D, 0xE01, 0xE41, 0xE1A, 0xE1A, 0xE08, 0xE32, 0xE01, 0xE02, 0xE49,
         0xE2D, 0xE21, 0xE39, 0xE25, 0xE42, 0xE2B, 0xE25, 0xE14, 0xE41, 0xE25, 0xE30, 0xE2B,
         0xE19, 0xE49, 0xE32, 0xE07, 0xE32, 0xE19, 0x20, 0xE44, 0xE21, 0xE48, 0xE43, 0xE0A, 0xE48,
         0xE43, 0xE0A, 0xE49, 0xE23, 0xE32, 0xE04, 0xE32, 0xE41, 0xE1C, 0xE07, 0xE40, 0xE1B,
         0xE47, 0xE19, 0xE15, 0xE31, 0xE27, 0xE15, 0xE31, 0xE14, 0xE2A, 0xE34, 0xE19, 0xE2D,
         0xE22, 0xE48, 0xE32, 0xE07, 0xE40, 0xE14, 0xE35, 0xE22, 0xE27]\<rparr>,
      \<lparr>qa_question = lit ''SIRINX '' @ [0xE0A, 0xE48, 0xE27, 0xE22, 0xE25, 0xE14, 0xE04, 0xE27, 0xE32, 0xE21,
         0xE40, 0xE2A, 0xE35, 0xE48, 0xE22, 0xE07, 0xE40, 0xE23, 0xE37, 0xE48, 0xE2D, 0xE07,
         0xE07, 0xE32, 0xE19, 0xE15, 0xE34, 0xE14, 0xE15, 0xE31, 0xE49, 0xE07, 0xE44, 0xE21,
         0xE48, 0xE44, 0xE14, 0xE49, 0xE21, 0xE32, 0xE15, 0xE23, 0xE10, 0xE32, 0xE19, 0xE2D,
         0xE22, 0xE48, 0xE32, 0xE07, 0xE44, 0xE23, 0x3F],
       qa_answer = [0xE43, 0xE0A, 0xE49, 0xE01, 0xE23, 0xE30, 0xE1A, 0xE27, 0xE19, 0xE01, 0xE32, 0xE23,
         0xE2A, 0xE33, 0xE23, 0xE27, 0xE08, 0x20, 0xE2D, 0xE2D, 0xE01, 0xE41, 0xE1A, 0xE1A, 0xE40,
         0xE2D, 0xE01, 0xE2A, 0xE32, 0xE23, 0xE27, 0xE34, 0xE28, 0xE27, 0xE01, 0xE23, 0xE23,
         0xE21] @ lit '' BOQ '' @ [0xE0A, 0xE31, 0xE14, 0xE40, 0xE08, 0xE19] @
         lit '' payment milestone commissioning record '' @ [0xE41, 0xE25, 0xE30] @
         lit '' monitoring '' @ [0xE2B, 0xE25, 0xE31, 0xE07, 0xE2A, 0xE48, 0xE07, 0xE21, 0xE2D,
         0xE1A, 0x20, 0xE40, 0xE1E, 0xE37, 0xE48, 0xE2D, 0xE43, 0xE2B, 0xE49, 0xE25, 0xE39, 0xE01,
         0xE04, 0xE49, 0xE32, 0xE15, 0xE23, 0xE27, 0xE08, 0xE2A, 0xE2D, 0xE1A, 0xE44, 0xE14,
         0xE49, 0xE17, 0xE38, 0xE01, 0xE0A, 0xE48, 0xE27, 0xE07, 0x20, 0xE44, 0xE21, 0xE48, 0xE43,
         0xE0A, 0xE48, 0xE23, 0xE2D, 0xE40, 0xE0A, 0xE37, 0xE48, 0xE2D, 0xE04, 0xE33, 0xE02,
         0xE32, 0xE22, 0xE2D, 0xE22, 0xE48, 0xE32, 0xE07, 0xE40, 0xE14, 0xE35, 0xE22, 0xE27]\<rparr>,
      \<lparr>qa_question = [0xE2A, 0xE32, 0xE21, 0xE32, 0xE23, 0xE16, 0xE43, 0xE0A, 0xE49, 0xE23, 0xE48, 0xE27,
         0xE21, 0xE01, 0xE31, 0xE1A] @ lit '' EV Charger '' @ [0xE41, 0xE25, 0xE30] @
         lit '' Battery '' @ [0xE44, 0xE14, 0xE49, 0xE2B, 0xE23, 0xE37, 0xE2D, 0xE44, 0xE21,
         0xE48, 0x3F],
       qa_answer = [0xE44, 0xE14, 0xE49, 0x20, 0xE42, 0xE14, 0xE22, 0xE2D, 0xE2D, 0xE01, 0xE41, 0xE1A,
         0xE1A, 0xE40, 0xE1B, 0xE47, 0xE19, 0xE23, 0xE30, 0xE1A, 0xE1A, 0xE40, 0xE14, 0xE35,
         0xE22, 0xE27, 0xE01, 0xE31, 0xE19, 0xE15, 0xE31, 0xE49, 0xE07, 0xE41, 0xE15, 0xE48,
         0xE15, 0xE49, 0xE19, 0xE40, 0xE1E, 0xE37, 0xE48, 0xE2D, 0xE08, 0xE31, 0xE14, 0xE25,
         0xE33, 0xE14, 0xE31, 0xE1A, 0xE01, 0xE32, 0xE23, 0xE43, 0xE0A, 0xE49, 0xE44, 0xE1F,
         0xE08, 0xE32, 0xE01] @ lit '' solar, grid, battery '' @ [0xE41, 0xE25, 0xE30] @
         lit '' EV charger '' @ [0xE15, 0xE32, 0xE21, 0xE1E, 0xE24, 0xE15, 0xE34, 0xE01, 0xE23,
         0xE23, 0xE21, 0xE02, 0xE2D, 0xE07, 0xE1A, 0xE49, 0xE32, 0xE19, 0xE41, 0xE25, 0xE30,
         0xE02, 0xE49, 0xE2D, 0xE08, 0xE33, 0xE01, 0xE31, 0xE14, 0xE02, 0xE2D, 0xE07, 0xE2D,
         0xE38, 0xE1B, 0xE01, 0xE23, 0xE13, 0xE4C]\<rparr>]"

section \<open>Installation steps\<close>

record how_to_step =
  hs_name :: jstr
  hs_text :: jstr

definition provinceInstallSteps :: "jstr \<Rightarrow> how_to_step list" where
  "provinceInstallSteps nameTh =
     [\<lparr>hs_name = [0xE2A, 0xE33, 0xE23, 0xE27, 0xE08, 0xE2B, 0xE19, 0xE49, 0xE32, 0xE07, 0xE32, 0xE19,
         0xE41, 0xE25, 0xE30, 0xE27, 0xE34, 0xE40, 0xE04, 0xE23, 0xE32, 0xE30, 0xE2B, 0xE4C,
         0xE42, 0xE2B, 0xE25, 0xE14, 0xE44, 0xE1F],
       hs_text = [0xE2A, 0xE33, 0xE23, 0xE27, 0xE08, 0xE1E, 0xE37, 0xE49, 0xE19, 0xE17, 0xE35, 0xE48,
         0xE25, 0xE32, 0xE19, 0xE08, 0xE2D, 0xE14, 0xE23, 0xE16, 0xE41, 0xE25, 0xE30, 0xE2B,
         0xE25, 0xE31, 0xE07, 0xE04, 0xE32, 0xE02, 0xE2D, 0xE07, 0xE2D, 0xE32, 0xE04, 0xE32,
         0xE23, 0xE43, 0xE19] @ nameTh @ [0x20, 0xE1E, 0xE23, 0xE49, 0xE2D, 0xE21, 0xE40, 0xE01,
         0xE47, 0xE1A, 0xE1A, 0xE34, 0xE25, 0xE04, 0xE48, 0xE32, 0xE44, 0xE1F, 0xE22, 0xE49,
         0xE2D, 0xE19, 0xE2B, 0xE25, 0xE31, 0xE07, 0xE2D, 0xE22, 0xE48, 0xE32, 0xE07, 0xE19,
         0xE49, 0xE2D, 0xE22] @ lit '' 3 '' @ [0xE40, 0xE14, 0xE37, 0xE2D, 0xE19, 0x20, 0xE40,
         0xE1E, 0xE37, 0xE48, 0xE2D, 0xE40, 0xE2B, 0xE47, 0xE19, 0xE42, 0xE2B, 0xE25, 0xE14,
         0xE0A, 0xE48, 0xE27, 0xE07, 0xE01, 0xE25, 0xE32, 0xE07, 0xE27, 0xE31, 0xE19, 0x20, 0xE1E,
         0xE23, 0xE49, 0xE2D, 0xE21, 0xE2A, 0xE33, 0xE23, 0xE27, 0xE08, 0xE40, 0xE07, 0xE32,
         0xE1A, 0xE31, 0xE07, 0xE08, 0xE32, 0xE01, 0xE2D, 0xE32, 0xE04, 0xE32, 0xE23, 0xE02,
         0xE49, 0xE32, 0xE07, 0xE40, 0xE04, 0xE35, 0xE22, 0xE07, 0xE41, 0xE25, 0xE30, 0xE42,
         0xE04, 0xE23, 0xE07, 0xE2A, 0xE23, 0xE49, 0xE32, 0xE07, 0xE40, 0xE14, 0xE34, 0xE21,
         0xE02, 0xE2D, 0xE07, 0xE25, 0xE32, 0xE19, 0xE08, 0xE2D, 0xE14, 0xE23, 0xE16]\<rparr>,
      \<lparr>hs_name = [0xE2D, 0xE2D, 0xE01, 0xE41, 0xE1A, 0xE1A, 0xE23, 0xE30, 0xE1A, 0xE1A, 0xE40, 0xE1A,
         0xE37, 0xE49, 0xE2D, 0xE07, 0xE15, 0xE49, 0xE19, 0xE41, 0xE25, 0xE30, 0xE1B, 0xE23,
         0xE30, 0xE40, 0xE21, 0xE34, 0xE19, 0xE07, 0xE1A],
       hs_text = [0xE2D, 0xE2D, 0xE01, 0xE41, 0xE1A, 0xE1A, 0xE01, 0xE33, 0xE25, 0xE31, 0xE07, 0xE1C,
         0xE25, 0xE34, 0xE15, 0x20, 0xE41, 0xE1A, 0xE1A, 0xE42, 0xE04, 0xE23, 0xE07, 0xE2A, 0xE23,
         0xE49, 0xE32, 0xE07, 0x20, 0xE41, 0xE19, 0xE27, 0xE40, 0xE14, 0xE34, 0xE19, 0xE2A, 0xE32,
         0xE22, 0x20, 0xE41, 0xE25, 0xE30, 0xE08, 0xE38, 0xE14, 0xE40, 0xE0A, 0xE37, 0xE48, 0xE2D,
         0xE21, 0xE15, 0xE48, 0xE2D, 0xE44, 0xE1F, 0xE1F, 0xE49, 0xE32, 0x20, 0xE42, 0xE14, 0xE22,
         0xE01, 0xE33, 0xE2B, 0xE19, 0xE14, 0xE04, 0xE27, 0xE32, 0xE21, 0xE2A, 0xE39, 0xE07,
         0xE43, 0xE15, 0xE49, 0xE04, 0xE32, 0xE19, 0xE43, 0xE2B, 0xE49, 0xE23, 0xE16, 0xE17,
         0xE35, 0xE48, 0xE08, 0xE2D, 0xE14, 0xE08, 0xE23, 0xE34, 0xE07, 0xE1C, 0xE48, 0xE32,
         0xE19, 0xE44, 0xE14, 0xE49, 0x20, 0xE41, 0xE25, 0xE49, 0xE27, 0xE08, 0xE31, 0xE14, 0xE17,
         0xE33, 0xE23, 0xE32, 0xE22, 0xE01, 0xE32, 0xE23, 0xE07, 0xE32, 0xE19, 0xE01, 0xE31,
         0xE1A, 0xE23, 0xE32, 0xE04, 0xE32, 0xE41, 0xE22, 0xE01, 0xE23, 0xE32, 0xE22, 0xE01,
         0xE32, 0xE23, 0xE40, 0xE1E, 0xE37, 0xE48, 0xE2D, 0xE43, 0xE2B, 0xE49, 0xE40, 0xE17,
         0xE35, 0xE22, 0xE1A, 0xE02, 0xE49, 0xE2D, 0xE40, 0xE2A, 0xE19, 0xE2D, 0xE08, 0xE32,
         0xE01, 0xE1C, 0xE39, 0xE49, 0xE23, 0xE31, 0xE1A, 0xE40, 0xE2B, 0xE21, 0xE32, 0xE44,
         0xE14, 0xE49, 0xE43, 0xE19, 0xE40, 0xE01, 0xE13, 0xE11, 0xE4C, 0xE40, 0xE14, 0xE35,
         0xE22, 0xE27, 0xE01, 0xE31, 0xE19]\<rparr>,
      \<lparr>hs_name = [0xE22, 0xE37, 0xE48, 0xE19, 0xE02, 0xE2D, 0xE2D, 0xE19, 0xE38, 0xE0D, 0xE32, 0xE15,
         0xE01, 0xE48, 0xE2D, 0xE2A, 0xE23, 0xE49, 0xE32, 0xE07, 0xE2B, 0xE23, 0xE37, 0xE2D,
         0xE14, 0xE31, 0xE14, 0xE41, 0xE1B, 0xE25, 0xE07, 0xE42, 0xE04, 0xE23, 0xE07, 0xE2A,
         0xE23, 0xE49, 0xE32, 0xE07],
       hs_text = [0xE22, 0xE37, 0xE48, 0xE19, 0xE02, 0xE2D, 0xE2D, 0xE19, 0xE38, 0xE0D, 0xE32, 0xE15,
         0xE01, 0xE48, 0xE2D, 0xE2A, 0xE23, 0xE49, 0xE32, 0xE07, 0xE2B, 0xE23, 0xE37, 0xE2D,
         0xE14, 0xE31, 0xE14, 0xE41, 0xE1B, 0xE25, 0xE07, 0xE42, 0xE04, 0xE23, 0xE07, 0xE2A,
         0xE23, 0xE49, 0xE32, 0xE07, 0xE01, 0xE31, 0xE1A, 0xE2B, 0xE19, 0xE48, 0xE27, 0xE22,
         0xE07, 0xE32, 0xE19, 0xE17, 0xE35, 0xE48, 0xE14, 0xE39, 0xE41, 0xE25, 0xE1E, 0xE37,
         0xE49, 0xE19, 0xE17, 0xE35, 0xE48, 0xE43, 0xE19] @ nameTh @ [0x20, 0xE15, 0xE32, 0xE21,
         0xE02, 0xE19, 0xE32, 0xE14, 0xE41, 0xE25, 0xE30, 0xE25, 0xE31, 0xE01, 0xE29, 0xE13,
         0xE30, 0xE07, 0xE32, 0xE19, 0x20, 0xE42, 0xE14, 0xE22, 0xE15, 0xE49, 0xE2D, 0xE07, 0xE15,
         0xE23, 0xE27, 0xE08, 0xE2A, 0xE2D, 0xE1A, 0xE01, 0xE31, 0xE1A, 0xE2B, 0xE19, 0xE48,
         0xE27, 0xE22, 0xE07, 0xE32, 0xE19, 0xE17, 0xE35, 0xE48, 0xE40, 0xE01, 0xE35, 0xE48,
         0xE22, 0xE27, 0xE02, 0xE49, 0xE2D, 0xE07, 0xE02, 0xE2D, 0xE07, 0xE1E, 0xE37, 0xE49,
         0xE19, 0xE17, 0xE35, 0xE48, 0xE01, 0xE48, 0xE2D, 0xE19, 0xE40, 0xE23, 0xE34, 0xE48,
         0xE21, 0xE07, 0xE32, 0xE19, 0xE40, 0xE2A, 0xE21, 0xE2D, 0x20, 0xE40, 0xE1E, 0xE23, 0xE32,
         0xE30, 0xE40, 0xE2D, 0xE01, 0xE2A, 0xE32, 0xE23, 0xE41, 0xE25, 0xE30, 0xE02, 0xE31,
         0xE49, 0xE19, 0xE15, 0xE2D, 0xE19, 0xE15, 0xE48, 0xE32, 0xE07, 0xE01, 0xE31, 0xE19,
         0xE15, 0xE32, 0xE21, 0xE40, 0xE02, 0xE15]\<rparr>,
      \<lparr>hs_name = [0xE22, 0xE37, 0xE48, 0xE19, 0xE02, 0xE2D, 0xE40, 0xE0A, 0xE37, 0xE48, 0xE2D, 0xE21,
         0xE15, 0xE48, 0xE2D, 0xE23, 0xE30, 0xE1A, 0xE1A, 0xE1C, 0xE25, 0xE34, 0xE15, 0xE44,
         0xE1F, 0xE1F, 0xE49, 0xE32],
       hs_text = [0xE22, 0xE37, 0xE48, 0xE19, 0xE02, 0xE2D, 0xE40, 0xE0A, 0xE37, 0xE48, 0xE2D, 0xE21,
         0xE15, 0xE48, 0xE2D, 0xE23, 0xE30, 0xE1A, 0xE1A, 0xE1C, 0xE25, 0xE34, 0xE15, 0xE44,
         0xE1F, 0xE1F, 0xE49, 0xE32, 0xE01, 0xE31, 0xE1A, 0xE2B, 0xE19, 0xE48, 0xE27, 0xE22,
         0xE07, 0xE32, 0xE19, 0xE17, 0xE35, 0xE48, 0xE14, 0xE39, 0xE41, 0xE25, 0xE1E, 0xE37,
         0xE49, 0xE19, 0xE17, 0xE35, 0xE48, 0xE43, 0xE19] @ nameTh @ [0x20, 0xE1E, 0xE23, 0xE49,
         0xE2D, 0xE21, 0xE41, 0xE1A, 0xE1A, 0xE23, 0xE30, 0xE1A, 0xE1A, 0xE44, 0xE1F, 0xE1F,
         0xE49, 0xE32, 0xE17, 0xE35, 0xE48, 0xE08, 0xE31, 0xE14, 0xE17, 0xE33, 0xE41, 0xE25,
         0xE30, 0xE23, 0xE31, 0xE1A, 0xE23, 0xE2D, 0xE07, 0xE42, 0xE14, 0xE22, 0xE27, 0xE34,
         0xE28, 0xE27, 0xE01, 0xE23, 0xE17, 0xE35, 0xE48, 0xE21, 0xE35, 0xE43, 0xE1A, 0xE2D,
         0xE19, 0xE38, 0xE0D, 0xE32, 0xE15, 0x20, 0xE23, 0xE27, 0xE21, 0xE16, 0xE36, 0xE07, 0xE2D,
         0xE38, 0xE1B, 0xE01, 0xE23, 0xE13, 0xE4C, 0xE1B, 0xE49, 0xE2D, 0xE07, 0xE01, 0xE31,
         0xE19, 0xE01, 0xE32, 0xE23, 0xE22, 0xE49, 0xE2D, 0xE19, 0xE44, 0xE1F, 0xE15, 0xE32,
         0xE21, 0xE21, 0xE32, 0xE15, 0xE23, 0xE10, 0xE32, 0xE19, 0xE02, 0xE2D, 0xE07, 0xE2B,
         0xE19, 0xE48, 0xE27, 0xE22, 0xE07, 0xE32, 0xE19]\<rparr>,
      \<lparr>hs_name = [0xE15, 0xE34, 0xE14, 0xE15, 0xE31, 0xE49, 0xE07, 0xE42, 0xE04, 0xE23, 0xE07, 0xE2A,
         0xE23, 0xE49, 0xE32, 0xE07, 0xE41, 0xE25, 0xE30, 0xE23, 0xE30, 0xE1A, 0xE1A, 0xE44,
         0xE1F, 0xE1F, 0xE49, 0xE32],
       hs_text = [0xE15, 0xE34, 0xE14, 0xE15, 0xE31, 0xE49, 0xE07, 0xE42, 0xE04, 0xE23, 0xE07, 0xE2A,
         0xE23, 0xE49, 0xE32, 0xE07, 0xE41, 0xE25, 0xE30, 0xE23, 0xE30, 0xE1A, 0xE1A, 0xE44,
         0xE1F, 0xE1F, 0xE49, 0xE32, 0xE42, 0xE14, 0xE22, 0xE17, 0xE35, 0xE21, 0xE17, 0xE35,
         0xE48, 0xE21, 0xE35, 0xE43, 0xE1A, 0xE23, 0xE31, 0xE1A, 0xE23, 0xE2D, 0xE07, 0x20, 0xE1E,
         0xE23, 0xE49, 0xE2D, 0xE21, 0xE1A, 0xE31, 0xE19, 0xE17, 0xE36, 0xE01, 0xE20, 0xE32,
         0xE1E, 0xE07, 0xE32, 0xE19, 0xE17, 0xE38, 0xE01, 0xE02, 0xE31, 0xE49, 0xE19, 0xE15,
         0xE2D, 0xE19, 0x20, 0xE41, 0xE25, 0xE30, 0xE14, 0xE33, 0xE40, 0xE19, 0xE34, 0xE19, 0xE01,
         0xE32, 0xE23, 0xE44, 0xE21, 0xE48, 0xE43, 0xE2B, 0xE49, 0xE01, 0xE35, 0xE14, 0xE02,
         0xE27, 0xE32, 0xE07, 0xE01, 0xE32, 0xE23, 0xE43, 0xE0A, 0xE49, 0xE1E, 0xE37, 0xE49,
         0xE19, 0xE17, 0xE35, 0xE48, 0xE02, 0xE2D, 0xE07, 0xE2D, 0xE32, 0xE04, 0xE32, 0xE23,
         0xE23, 0xE30, 0xE2B, 0xE27, 0xE48, 0xE32, 0xE07, 0xE17, 0xE33, 0xE07, 0xE32, 0xE19]\<rparr>,
      \<lparr>hs_name = [0xE17, 0xE14, 0xE2A, 0xE2D, 0xE1A, 0xE23, 0xE30, 0xE1A, 0xE1A, 0xE41, 0xE25, 0xE30,
         0xE15, 0xE23, 0xE27, 0xE08, 0xE23, 0xE31, 0xE1A],
       hs_text = [0xE17, 0xE14, 0xE2A, 0xE2D, 0xE1A, 0xE23, 0xE30, 0xE1A, 0xE1A, 0x20, 0xE15, 0xE23,
         0xE27, 0xE08, 0xE23, 0xE31, 0xE1A, 0xE42, 0xE14, 0xE22, 0xE27, 0xE34, 0xE28, 0xE27,
         0xE01, 0xE23, 0x20, 0xE41, 0xE25, 0xE30, 0xE1B, 0xE23, 0xE30, 0xE2A, 0xE32, 0xE19, 0xE2B,
         0xE19, 0xE48, 0xE27, 0xE22, 0xE07, 0xE32, 0xE19, 0xE17, 0xE35, 0xE48, 0xE14, 0xE39,
         0xE41, 0xE25, 0xE1E, 0xE37, 0xE49, 0xE19, 0xE17, 0xE35, 0xE48, 0xE40, 0xE1E, 0xE37,
         0xE48, 0xE2D, 0xE40, 0xE1B, 0xE25, 0xE35, 0xE48, 0xE22, 0xE19, 0xE21, 0xE32, 0xE15,
         0xE23, 0xE27, 0xE31, 0xE14, 0xE2B, 0xE23, 0xE37, 0xE2D, 0xE40, 0xE1B, 0xE34, 0xE14,
         0xE43, 0xE0A, 0xE49, 0xE07, 0xE32, 0xE19, 0xE15, 0xE32, 0xE21, 0xE23, 0xE30, 0xE40,
         0xE1A, 0xE35, 0xE22, 0xE1A]\<rparr>,
      \<lparr>hs_name = [0xE2A, 0xE48, 0xE07, 0xE21, 0xE2D, 0xE1A, 0xE23, 0xE30, 0xE1A, 0xE1A, 0xE41, 0xE25,
         0xE30, 0xE40, 0xE23, 0xE34, 0xE48, 0xE21, 0xE1A, 0xE31, 0xE19, 0xE17, 0xE36, 0xE01,
         0xE1C, 0xE25, 0xE1C, 0xE25, 0xE34, 0xE15],
       hs_text = [0xE2A, 0xE48, 0xE07, 0xE21, 0xE2D, 0xE1A, 0xE41, 0xE1A, 0xE1A] @ lit '' as-built '' @
         [0xE02, 0xE2D, 0xE07, 0xE23, 0xE30, 0xE1A, 0xE1A, 0xE44, 0xE1F, 0xE1F, 0xE49, 0xE32,
         0xE41, 0xE25, 0xE30, 0xE42, 0xE04, 0xE23, 0xE07, 0xE2A, 0xE23, 0xE49, 0xE32, 0xE07, 0x20,
         0xE04, 0xE39, 0xE48, 0xE21, 0xE37, 0xE2D, 0xE01, 0xE32, 0xE23, 0xE43, 0xE0A, 0xE49,
         0xE07, 0xE32, 0xE19, 0xE2D, 0xE38, 0xE1B, 0xE01, 0xE23, 0xE13, 0xE4C, 0x20, 0xE1A, 0xE31,
         0xE19, 0xE17, 0xE36, 0xE01, 0xE01, 0xE32, 0xE23, 0xE17, 0xE14, 0xE2A, 0xE2D, 0xE1A, 0x20,
         0xE41, 0xE25, 0xE30, 0xE40, 0xE07, 0xE37, 0xE48, 0xE2D, 0xE19, 0xE44, 0xE02, 0xE01,
         0xE32, 0xE23, 0xE23, 0xE31, 0xE1A, 0xE1B, 0xE23, 0xE30, 0xE01, 0xE31, 0xE19, 0x20, 0xE1E,
         0xE23, 0xE49, 0xE2D, 0xE21, 0xE2D, 0xE1A, 0xE23, 0xE21, 0xE01, 0xE32, 0xE23, 0xE43,
         0xE0A, 0xE49, 0xE07, 0xE32, 0xE19, 0xE41, 0xE25, 0xE30, 0xE40, 0xE23, 0xE34, 0xE48,
         0xE21, 0xE1A, 0xE31, 0xE19, 0xE17, 0xE36, 0xE01, 0xE02, 0xE49, 0xE2D, 0xE21, 0xE39,
         0xE25, 0xE01, 0xE32, 0xE23, 0xE1C, 0xE25, 0xE34, 0xE15, 0xE44, 0xE1F, 0xE40, 0xE1E,
         0xE37, 0xE48, 0xE2D, 0xE40, 0xE17, 0xE35, 0xE22, 0xE1A, 0xE01, 0xE31, 0xE1A, 0xE04,
         0xE48, 0xE32, 0xE17, 0xE35, 0xE48, 0xE04, 0xE32, 0xE14, 0xE2B, 0xE27, 0xE31, 0xE07,
         0xE08, 0xE32, 0xE01, 0xE02, 0xE49, 0xE2D, 0xE21, 0xE39, 0xE25] @ lit '' PVGIS''\<rparr>]"

section \<open>The integrity assertion\<close>

lemma check_projects_iff:
  "check_projects zod ps = Inr () \<longleftrightarrow> (\<forall>p \<in> set ps. check_project zod p = Inr ())"
  by (induction ps) (auto simp: result_bind_Inr_iff)

text \<open>What the assertion demands of one project.\<close>

definition releasable :: "(ztype \<Rightarrow> jsval \<Rightarrow> jsval result) \<Rightarrow> project_record \<Rightarrow> bool" where
  "releasable zod p \<longleftrightarrow>
     (\<exists>v. zod ProjectRecordSchema (project_val p) = Inr v) \<and>
     (pj_publicationState p = PUBLISHED \<longrightarrow>
        pj_evidenceState p \<noteq> PENDING_EVIDENCE \<and> co_status (pj_consent p) = lit ''CLEARED'') \<and>
     (pj_id p = lit ''supalai-private-residential'' \<longrightarrow>
        pj_evidenceState p = PENDING_EVIDENCE \<and> pj_publicationState p = WITHHELD \<and>
        pl_precision (pj_location p) = lit ''withheld'' \<and>
        pl_provinceSlug (pj_location p) \<in> {None, Some []})"

lemma check_project_iff: "check_project zod p = Inr () \<longleftrightarrow> releasable zod p"
  by (cases "zod ProjectRecordSchema (project_val p)")
     (auto simp: check_project_def releasable_def split: option.splits)

lemma length_unique_iff: "length (unique xs) = length xs \<longleftrightarrow> distinct xs"
  by (metis card_distinct distinct_card length_unique)

lemma check_registry_iff:
  assumes "[] \<notin> set canary"
  shows "check_registry zod slugs canary registry = Inr () \<longleftrightarrow>
     length slugs = 77 \<and> distinct slugs \<and> set canary \<subseteq> set slugs \<and>
     distinct (map pj_id registry) \<and> (\<forall>p \<in> set registry. releasable zod p)"
proof (cases "length slugs = 77 \<and> distinct slugs")
  case False
  then show ?thesis
    using length_unique_iff [of slugs] by (auto simp: check_registry_def)
next
  case True
  then have u: "length (unique slugs) = 77" by (metis length_unique_iff)
  show ?thesis
  proof (cases "List.find (\<lambda>slug. slug \<notin> set slugs) canary")
    case None
    then have "set canary \<subseteq> set slugs" by (auto simp: find_None_all)
    with True u None show ?thesis
      using length_unique_iff [of "map pj_id registry"]
      by (simp add: check_registry_def check_projects_iff check_project_iff)
  next
    case (Some c)
    then have "c \<in> set canary" and "c \<notin> set slugs" by (auto dest: find_Some_in_set)
    with True u Some assms show ?thesis
      by (auto simp: check_registry_def)
  qed
qed

lemma canary_known: "set staticProvinceCanarySlugs \<subseteq> set (map tp_slug thaiProvinces)"
  by (simp add: staticProvinceCanarySlugs_def thaiProvinces_def province_def)

lemma shipped_registry_passes:
  "assertSiteContentRegistryIntegrity strict_zod = Inr ()"
proof -
  have e: "dict_get publicProjectEvidence (lit ''ruenphae-royal-park'') = Some VERIFIED_LIVE"
    "dict_get publicProjectEvidence (lit ''holatel-rim-nan'') = Some VERIFIED_LIVE"
    by (simp_all add: publicProjectEvidence_def)
  have n: "[] \<notin> set staticProvinceCanarySlugs"
    by (simp add: staticProvinceCanarySlugs_def eq_commute [of "[]"])
  have d: "distinct (map pj_id projectRegistry)"
    by (simp add: projectRegistry_def)
  have u: "\<forall>p \<in> set projectRegistry. check_holds (ev_sourceReference (pj_evidence p)) ZNoUrl"
    by (simp add: projectRegistry_def to_lower_def lower_unit_def starts_with_def lit_def)
  have z: "\<forall>p \<in> set projectRegistry. conforms ProjectRecordSchema (project_val p)"
    using u by (simp add: projectRegistry_def e project_val_def ProjectRecordSchema_def
        EvidenceRefSchema_def ConsentSchema_def dict_keys_def projectEvidenceStates_def
        publicationStates_def)
  have r: "\<forall>p \<in> set projectRegistry.
      (\<exists>v. strict_zod ProjectRecordSchema (project_val p) = Inr v) \<and>
        (pj_publicationState p = PUBLISHED \<longrightarrow>
           pj_evidenceState p \<noteq> PENDING_EVIDENCE \<and> co_status (pj_consent p) = lit ''CLEARED'') \<and>
        (pj_id p = lit ''supalai-private-residential'' \<longrightarrow>
           pj_evidenceState p = PENDING_EVIDENCE \<and> pj_publicationState p = WITHHELD \<and>
           pl_precision (pj_location p) = lit ''withheld'' \<and>
           pl_provinceSlug (pj_location p) \<in> {None, Some []})"
    using z by (simp add: strict_zod_def) (simp add: projectRegistry_def e)
  show ?thesis
    unfolding assertSiteContentRegistryIntegrity_def check_registry_iff [OF n] releasable_def
    by (intro conjI distinct_province_slugs canary_known d r) (simp add: length_thaiProvinces)
qed

section \<open>Properties\<close>

text \<open>
  The build-time assertion accepts a content registry exactly when the province list has 77
  distinct slugs that cover the canary slugs, project ids are distinct, every project satisfies
  its schema, every published project has evidence and cleared consent, and the private
  residential record is pending, withheld and without a province.
\<close>

theorem registry_integrity:
  assumes "[] \<notin> set canary"
  shows "check_registry zod slugs canary registry = Inr () \<longleftrightarrow>
     length slugs = 77 \<and> distinct slugs \<and> set canary \<subseteq> set slugs \<and>
     distinct (map pj_id registry) \<and>
     (\<forall>p \<in> set registry.
        (\<exists>v. zod ProjectRecordSchema (project_val p) = Inr v) \<and>
        (pj_publicationState p = PUBLISHED \<longrightarrow>
           pj_evidenceState p \<noteq> PENDING_EVIDENCE \<and> co_status (pj_consent p) = lit ''CLEARED'') \<and>
        (pj_id p = lit ''supalai-private-residential'' \<longrightarrow>
           pj_evidenceState p = PENDING_EVIDENCE \<and> pj_publicationState p = WITHHELD \<and>
           pl_precision (pj_location p) = lit ''withheld'' \<and>
           pl_provinceSlug (pj_location p) \<in> {None, Some []}))"
  unfolding check_registry_iff [OF assms] releasable_def ..

theorem registry_integrity_witness:
  "distinct (map pj_id projectRegistry) \<and> set staticProvinceCanarySlugs \<subseteq> set (map tp_slug thaiProvinces)"
proof -
  have "[] \<notin> set staticProvinceCanarySlugs"
    by (simp add: staticProvinceCanarySlugs_def eq_commute [of "[]"])
  from registry_integrity [OF this] shipped_registry_passes show ?thesis
    unfolding assertSiteContentRegistryIntegrity_def by blast
qed

end
