(* ===== verification/Html.thy ===== *)
theory Html
  imports JsString
begin

text \<open>
  Escaping of text that goes into HTML and XML. The program has two families of escapers: the
  sequential replacements of \<open>server/ogTags.ts\<close>, \<open>server/staticSeoBuild.ts\<close> (\<open>buildFeed\<close>) and
  \<open>shared/staticRouteShell.ts\<close>, and the one-pass replacement with a table of
  \<open>server/staticSeoBuild.ts\<close>, \<open>shared/provinceLongformHtml.ts\<close> and
  \<open>shared/provinceLongformFigure.ts\<close>. Both meet the contract of the locale \<open>escaper\<close>, which
  the pages' properties rest on.
\<close>

section \<open>The escapers of the source\<close>

definition escapeHtmlAttribute :: "jstr \<Rightarrow> jstr" where
  "escapeHtmlAttribute s =
     replace_unit 0x3E (lit ''&gt;'') (replace_unit 0x3C (lit ''&lt;'')
       (replace_unit 0x22 (lit ''&quot;'') (replace_unit 0x26 (lit ''&amp;'') s)))"

definition escape_feed :: "jstr \<Rightarrow> jstr" where
  "escape_feed s =
     replace_unit 0x22 (lit ''&quot;'') (replace_unit 0x3E (lit ''&gt;'')
       (replace_unit 0x3C (lit ''&lt;'') (replace_unit 0x26 (lit ''&amp;'') s)))"

definition html_entity :: "nat \<Rightarrow> jstr" where
  "html_entity c =
     (if c = 0x26 then lit ''&amp;''
      else if c = 0x3C then lit ''&lt;''
      else if c = 0x3E then lit ''&gt;''
      else if c = 0x22 then lit ''&quot;''
      else if c = 0x27 then lit ''&#39;''
      else [c])"

definition escapeHtml :: "jstr \<Rightarrow> jstr" where
  "escapeHtml s = replace_units html_entity s"

section \<open>Decoding\<close>

text \<open>What a reader of the document sees: the five entities decoded.\<close>

fun unescape :: "jstr \<Rightarrow> jstr" where
  "unescape [] = []"
| "unescape (c # cs) =
     (if c \<noteq> 0x26 then c # unescape cs
      else if starts_with (lit ''amp;'') cs then 0x26 # unescape (drop 4 cs)
      else if starts_with (lit ''lt;'') cs then 0x3C # unescape (drop 3 cs)
      else if starts_with (lit ''gt;'') cs then 0x3E # unescape (drop 3 cs)
      else if starts_with (lit ''quot;'') cs then 0x22 # unescape (drop 5 cs)
      else if starts_with (lit ''#39;'') cs then 0x27 # unescape (drop 4 cs)
      else c # unescape cs)"

text \<open>The units that open and close tags and attribute values.\<close>

definition is_markup :: "nat \<Rightarrow> bool" where
  "is_markup c \<longleftrightarrow> c = 0x3C \<or> c = 0x3E \<or> c = 0x22"

definition markup :: "jstr \<Rightarrow> jstr" where
  "markup s = filter is_markup s"

lemma markup_append [simp]: "markup (s @ t) = markup s @ markup t"
  by (simp add: markup_def)

lemma markup_Nil [simp]: "markup [] = []"
  by (simp add: markup_def)

lemma markup_Cons [simp]: "markup (c # s) = (if is_markup c then c # markup s else markup s)"
  by (simp add: markup_def)

lemma markup_join:
  "list_all2 (\<lambda>s t. markup s = markup t) ss ts \<Longrightarrow> markup (join sep ss) = markup (join sep ts)"
proof (induction ss ts rule: list_all2_induct)
  case (Cons s ss t ts)
  then show ?case by (cases ss; cases ts) auto
qed simp

text \<open>\<open>join\<close> over rows rendered the same up to markup.\<close>

lemma markup_join_map:
  "(\<And>x. markup (f x) = markup (g x)) \<Longrightarrow> markup (join sep (map f xs)) = markup (join sep (map g xs))"
  by (rule markup_join) (simp add: list_all2_conv_all_nth)

section \<open>The contract of an escaper\<close>

locale escaper =
  fixes esc :: "jstr \<Rightarrow> jstr" and entity :: "nat \<Rightarrow> jstr"
  assumes esc_units: "esc s = replace_units entity s"
    and entity_plain: "c \<in> set (entity d) \<Longrightarrow> \<not> is_markup c"
    and entity_decodes: "unescape (entity d @ s) = d # unescape s"
begin

lemma esc_Nil [simp]: "esc [] = []"
  by (simp add: esc_units)

lemma esc_append: "esc (s @ t) = esc s @ esc t"
  by (simp add: esc_units replace_units_append)

lemma esc_plain: "c \<in> set (esc s) \<Longrightarrow> \<not> is_markup c"
  using entity_plain by (auto simp: esc_units set_replace_units)

lemma markup_esc [simp]: "markup (esc s) = []"
  using esc_plain by (auto simp: markup_def filter_empty_conv)

lemma decode_prefix: "unescape (esc s @ t) = s @ unescape t"
  by (induction s) (simp_all add: esc_units replace_units_Cons entity_decodes)

lemma decode: "unescape (esc s) = s"
  using decode_prefix [of s "[]"] by simp

lemma esc_inject: "esc s = esc t \<longleftrightarrow> s = t"
  by (metis decode)

end

text \<open>The sequential escapers replace every unit on its own: no replacement makes a unit a later
one looks for, because the ampersand goes first.\<close>

definition attribute_entity :: "nat \<Rightarrow> jstr" where
  "attribute_entity c = (if c = 0x27 then [c] else html_entity c)"

lemma replace_units_compose:
  "replace_units g (replace_units f s) = replace_units (\<lambda>c. replace_units g (f c)) s"
  by (induction s) (simp_all add: replace_units_Cons replace_units_append)

lemma escapeHtmlAttribute_units: "escapeHtmlAttribute s = replace_units attribute_entity s"
  unfolding escapeHtmlAttribute_def replace_unit_def replace_units_compose
  by (rule arg_cong [of _ _ "\<lambda>f. replace_units f s"])
     (auto simp: fun_eq_iff attribute_entity_def html_entity_def replace_units_def lit_def)

lemma escape_feed_units: "escape_feed s = replace_units attribute_entity s"
  unfolding escape_feed_def replace_unit_def replace_units_compose
  by (rule arg_cong [of _ _ "\<lambda>f. replace_units f s"])
     (auto simp: fun_eq_iff attribute_entity_def html_entity_def replace_units_def lit_def)

lemma html_entity_plain: "c \<in> set (html_entity d) \<Longrightarrow> \<not> is_markup c"
  by (auto simp: html_entity_def is_markup_def lit_def split: if_splits)

lemma html_entity_decodes: "unescape (html_entity d @ s) = d # unescape s"
  by (simp add: html_entity_def lit_def starts_with_def)

interpretation attr: escaper escapeHtmlAttribute attribute_entity
proof
  show "c \<in> set (attribute_entity d) \<Longrightarrow> \<not> is_markup c" for c d
    by (cases "d = 0x27") (auto simp: attribute_entity_def is_markup_def dest: html_entity_plain)
  show "unescape (attribute_entity d @ s) = d # unescape s" for d s
    by (cases "d = 0x27") (auto simp: attribute_entity_def html_entity_decodes)
qed (rule escapeHtmlAttribute_units)

interpretation feed: escaper escape_feed attribute_entity
  using attr.entity_plain attr.entity_decodes by unfold_locales (simp_all add: escape_feed_units)

interpretation html: escaper escapeHtml html_entity
  by unfold_locales (simp_all add: escapeHtml_def html_entity_plain html_entity_decodes)

section \<open>Properties\<close>

text \<open>
  The escapers put no markup into a document, lose nothing and agree: what
  \<open>escapeHtmlAttribute\<close>, the feed's escaper and \<open>escapeHtml\<close> return holds no angle bracket and no
  double quote, decodes to the text that was escaped, the two sequential escapers are the same
  function, and \<open>escapeHtml\<close> differs from them on the apostrophe only.
\<close>

theorem escapers_agree:
  "escape_feed s = escapeHtmlAttribute s \<and>
   escapeHtml s = replace_unit 0x27 (lit ''&#39;'') (escapeHtmlAttribute s) \<and>
   set (escapeHtml s) \<inter> {0x3C, 0x3E, 0x22, 0x27} = {} \<and>
   set (escapeHtmlAttribute s) \<inter> {0x3C, 0x3E, 0x22} = {} \<and>
   unescape (escapeHtml s) = s \<and> unescape (escapeHtmlAttribute s) = s"
proof (intro conjI)
  show "escape_feed s = escapeHtmlAttribute s"
    by (simp add: escape_feed_units escapeHtmlAttribute_units)
  show "escapeHtml s = replace_unit 0x27 (lit ''&#39;'') (escapeHtmlAttribute s)"
    unfolding escapeHtmlAttribute_units escapeHtml_def replace_unit_def replace_units_compose
    by (rule arg_cong [of _ _ "\<lambda>f. replace_units f s"])
       (auto simp: fun_eq_iff attribute_entity_def html_entity_def replace_units_def lit_def)
  have "0x27 \<notin> set (html_entity d)" for d
    by (simp add: html_entity_def lit_def)
  then have "0x27 \<notin> set (escapeHtml s)"
    by (auto simp: escapeHtml_def set_replace_units)
  then show "set (escapeHtml s) \<inter> {0x3C, 0x3E, 0x22, 0x27} = {}"
    using html.esc_plain [of _ s] by (auto simp: is_markup_def)
  show "set (escapeHtmlAttribute s) \<inter> {0x3C, 0x3E, 0x22} = {}"
    using attr.esc_plain [of _ s] by (auto simp: is_markup_def)
qed (rule html.decode attr.decode)+

end
