(* ===== verification/Longform.thy ===== *)
theory Longform
  imports Content Html
begin

text \<open>
  The long-form province articles: the types of \<open>shared/provinceLongform.ts\<close> with its word
  count, the resolver (\<open>shared/provinceLongformResolver.ts\<close>), the monthly table
  (\<open>shared/provinceSolarMonthly.ts\<close>), the figure (\<open>shared/provinceLongformFigure.ts\<close>) and the
  HTML renderer (\<open>shared/provinceLongformHtml.ts\<close>). The articles themselves, some twenty-four
  thousand lines of prose, are the two tables every definition takes, so what is proved holds
  whatever they say.
\<close>

section \<open>Articles\<close>

datatype block = BP jstr | BH3 jstr | BList "jstr list"

record longform_section =
  ls_h2 :: jstr
  ls_blocks :: "block list"

record longform =
  lf_slug :: jstr
  lf_nameTh :: jstr
  lf_intro :: "jstr list"
  lf_sections :: "longform_section list"
  lf_faq :: "qa list"
  lf_cta :: jstr

record articles =
  ar_handWritten :: "(jstr, longform) dict"
  ar_generated :: "(jstr, longform) dict"

text \<open>
  How the runtime prints: \<open>String\<close> of a fraction, \<open>toLocaleString\<close> with a fixed number of
  decimals, and the number of word-like segments of a text.
\<close>

record formats =
  fm_number :: "rat \<Rightarrow> jstr"
  fm_fixed :: "nat \<Rightarrow> rat \<Rightarrow> jstr"
  fm_words :: "jstr \<Rightarrow> nat"

definition getGeneratedProvinceLongform :: "articles \<Rightarrow> jstr \<Rightarrow> longform lookup" where
  "getGeneratedProvinceLongform ar slug = js_index (ar_generated ar) slug"

definition getProvinceLongformEntry :: "articles \<Rightarrow> jstr \<Rightarrow> longform lookup" where
  "getProvinceLongformEntry ar slug =
     (case js_index (ar_handWritten ar) slug of
        Missing \<Rightarrow> getGeneratedProvinceLongform ar slug
      | found \<Rightarrow> found)"

definition getProvinceLongformSource :: "articles \<Rightarrow> jstr \<Rightarrow> jstr" where
  "getProvinceLongformSource ar slug =
     (if js_index (ar_handWritten ar) slug \<noteq> Missing then lit ''hand-written''
      else if getGeneratedProvinceLongform ar slug \<noteq> Missing then lit ''generated''
      else lit ''none'')"

fun block_texts :: "block \<Rightarrow> jstr list" where
  "block_texts (BP t) = [t]"
| "block_texts (BH3 t) = [t]"
| "block_texts (BList items) = items"

definition countWords :: "formats \<Rightarrow> jstr \<Rightarrow> nat" where
  "countWords fm t = fm_words fm t"

definition longform_parts :: "longform \<Rightarrow> jstr list" where
  "longform_parts e =
     lf_intro e @ [lf_cta e] @
     concat (map (\<lambda>s. ls_h2 s # concat (map block_texts (ls_blocks s))) (lf_sections e)) @
     concat (map (\<lambda>i. [qa_question i, qa_answer i]) (lf_faq e))"

definition longformWordCount :: "formats \<Rightarrow> longform \<Rightarrow> nat" where
  "longformWordCount fm e = countWords fm (join (lit '' '') (longform_parts e))"

section \<open>Neighbours\<close>

record sibling =
  sb_slug :: jstr
  sb_nameTh :: jstr

definition byRegion_step ::
  "(thai_region, thai_province list) dict \<Rightarrow> thai_province \<Rightarrow> (thai_region, thai_province list) dict" where
  "byRegion_step m p =
     dict_set (tp_region p)
       ((case dict_get m (tp_region p) of None \<Rightarrow> [] | Some ps \<Rightarrow> ps) @ [p]) m"

definition byRegion :: "(thai_region, thai_province list) dict" where
  "byRegion = foldl byRegion_step [] thaiProvinces"

definition siblings_of :: "thai_province \<Rightarrow> sibling list" where
  "siblings_of p =
     map (\<lambda>other. \<lparr>sb_slug = tp_slug other, sb_nameTh = tp_nameTh other\<rparr>)
       (take 6 (filter (\<lambda>other. tp_slug other \<noteq> tp_slug p)
         (case dict_get byRegion (tp_region p) of None \<Rightarrow> [] | Some ps \<Rightarrow> ps)))"

definition siblingsBySlug :: "(jstr, sibling list) dict" where
  "siblingsBySlug = foldl (\<lambda>m p. dict_set (tp_slug p) (siblings_of p) m) [] thaiProvinces"

definition getProvinceSiblings :: "jstr \<Rightarrow> sibling list" where
  "getProvinceSiblings slug =
     (case dict_get siblingsBySlug slug of None \<Rightarrow> [] | Some ss \<Rightarrow> ss)"

section \<open>The monthly table\<close>

record solar_month =
  sm_month :: nat
  sm_irradiationDaily :: rat

text \<open>A row of the table, its values in hundredths.\<close>

definition monthly :: "nat list \<Rightarrow> solar_month list" where
  "monthly hundredths =
     map (\<lambda>(i, n). \<lparr>sm_month = i, sm_irradiationDaily = of_nat n / 100\<rparr>) (enumerate 1 hundredths)"

definition solarMonthly_1 :: "(jstr, solar_month list) dict" where
  "solarMonthly_1 =
    [(lit ''amnat-charoen'', monthly [502, 565, 605, 615, 552, 514, 461, 439, 428, 467, 464, 469]),
     (lit ''ang-thong'', monthly [494, 546, 595, 612, 558, 517, 472, 460, 444, 456, 472, 469]),
     (lit ''bangkok'', monthly [503, 557, 600, 609, 557, 524, 482, 484, 452, 455, 472, 477]),
     (lit ''bueng-kan'', monthly [469, 529, 580, 596, 503, 445, 414, 385, 432, 479, 474, 453]),
     (lit ''buriram'', monthly [504, 564, 598, 609, 560, 526, 484, 467, 435, 460, 466, 470]),
     (lit ''chachoengsao'', monthly [497, 541, 572, 578, 525, 499, 466, 464, 428, 449, 471, 476]),
     (lit ''chai-nat'', monthly [497, 554, 603, 623, 572, 521, 473, 459, 455, 453, 467, 466]),
     (lit ''chaiyaphum'', monthly [498, 561, 604, 615, 569, 525, 472, 448, 447, 460, 464, 468]),
     (lit ''chanthaburi'', monthly [511, 553, 573, 571, 495, 456, 424, 438, 408, 441, 476, 493]),
     (lit ''chiang-mai'', monthly [464, 565, 625, 621, 538, 463, 420, 400, 430, 427, 437, 422]),
     (lit ''chiang-rai'', monthly [448, 547, 619, 631, 567, 495, 448, 424, 449, 442, 439, 415])]"

definition solarMonthly_2 :: "(jstr, solar_month list) dict" where
  "solarMonthly_2 =
    [(lit ''chonburi'', monthly [496, 535, 564, 567, 514, 496, 466, 473, 420, 438, 470, 482]),
     (lit ''chumphon'', monthly [499, 573, 617, 606, 532, 495, 466, 498, 449, 428, 415, 446]),
     (lit ''kalasin'', monthly [497, 559, 598, 613, 559, 521, 471, 452, 443, 471, 470, 469]),
     (lit ''kamphaeng-phet'', monthly [484, 552, 607, 620, 543, 478, 429, 415, 438, 442, 457, 451]),
     (lit ''kanchanaburi'', monthly [506, 562, 610, 613, 529, 453, 397, 396, 411, 428, 458, 471]),
     (lit ''khon-kaen'', monthly [493, 559, 599, 613, 570, 530, 479, 459, 451, 470, 467, 465]),
     (lit ''krabi'', monthly [494, 586, 606, 572, 500, 485, 477, 496, 462, 435, 418, 435]),
     (lit ''lampang'', monthly [461, 548, 608, 623, 538, 469, 420, 397, 423, 431, 440, 425]),
     (lit ''lamphun'', monthly [465, 561, 622, 624, 541, 472, 428, 405, 429, 427, 439, 425]),
     (lit ''loei'', monthly [471, 540, 588, 599, 536, 481, 437, 419, 435, 449, 460, 451]),
     (lit ''lopburi'', monthly [495, 548, 595, 610, 560, 517, 476, 461, 446, 458, 473, 471])]"

definition solarMonthly_3 :: "(jstr, solar_month list) dict" where
  "solarMonthly_3 =
    [(lit ''mae-hong-son'', monthly [483, 581, 649, 645, 544, 437, 389, 372, 422, 441, 449, 439]),
     (lit ''maha-sarakham'', monthly [498, 561, 601, 617, 567, 529, 476, 457, 446, 471, 470, 470]),
     (lit ''mukdahan'', monthly [489, 553, 595, 609, 543, 510, 460, 438, 436, 457, 450, 455]),
     (lit ''nakhon-nayok'', monthly [495, 541, 579, 585, 525, 485, 450, 440, 416, 443, 469, 473]),
     (lit ''nakhon-pathom'', monthly [498, 554, 607, 618, 560, 517, 470, 469, 450, 446, 461, 466]),
     (lit ''nakhon-phanom'', monthly [482, 543, 586, 601, 519, 475, 427, 402, 424, 452, 454, 454]),
     (lit ''nakhon-ratchasima'', monthly [504, 559, 594, 599, 557, 524, 483, 467, 437, 446, 454, 468]),
     (lit ''nakhon-sawan'', monthly [493, 554, 603, 621, 569, 523, 472, 454, 454, 450, 465, 463]),
     (lit ''nakhon-si-thammarat'', monthly [461, 561, 604, 591, 538, 526, 515, 534, 500, 438, 381, 394]),
     (lit ''nan'', monthly [456, 536, 592, 604, 527, 462, 416, 394, 431, 448, 447, 429]),
     (lit ''narathiwat'', monthly [455, 559, 610, 622, 577, 561, 551, 584, 558, 499, 410, 376])]"

definition solarMonthly_4 :: "(jstr, solar_month list) dict" where
  "solarMonthly_4 =
    [(lit ''nong-bua-lamphu'', monthly [481, 549, 593, 601, 553, 508, 461, 440, 443, 463, 464, 457]),
     (lit ''nong-khai'', monthly [477, 547, 597, 610, 541, 493, 457, 430, 445, 473, 472, 455]),
     (lit ''nonthaburi'', monthly [500, 554, 598, 607, 553, 517, 474, 472, 446, 453, 471, 474]),
     (lit ''pathum-thani'', monthly [496, 547, 592, 602, 547, 510, 468, 461, 439, 452, 471, 471]),
     (lit ''pattani'', monthly [481, 585, 622, 615, 565, 553, 544, 568, 540, 482, 405, 394]),
     (lit ''phang-nga'', monthly [498, 586, 605, 568, 494, 474, 465, 485, 452, 430, 422, 444]),
     (lit ''phatthalung'', monthly [489, 591, 621, 601, 548, 531, 522, 545, 513, 457, 399, 404]),
     (lit ''phayao'', monthly [460, 551, 620, 631, 554, 483, 432, 409, 436, 438, 444, 425]),
     (lit ''phetchabun'', monthly [489, 552, 603, 616, 544, 479, 428, 409, 419, 447, 475, 470]),
     (lit ''phetchaburi'', monthly [514, 576, 619, 628, 562, 510, 459, 476, 450, 443, 465, 481]),
     (lit ''phichit'', monthly [490, 554, 608, 628, 562, 502, 448, 425, 432, 441, 466, 461])]"

definition solarMonthly_5 :: "(jstr, solar_month list) dict" where
  "solarMonthly_5 =
    [(lit ''phitsanulok'', monthly [486, 554, 615, 636, 560, 487, 435, 413, 427, 440, 464, 458]),
     (lit ''phra-nakhon-si-ayutthaya'', monthly [492, 542, 590, 601, 545, 506, 464, 454, 434, 451, 471, 469]),
     (lit ''phrae'', monthly [471, 549, 612, 626, 545, 474, 422, 398, 427, 447, 456, 445]),
     (lit ''phuket'', monthly [546, 634, 650, 614, 538, 526, 520, 540, 507, 482, 465, 486]),
     (lit ''prachinburi'', monthly [499, 548, 586, 590, 532, 492, 457, 446, 422, 446, 469, 476]),
     (lit ''prachuap-khiri-khan'', monthly [531, 595, 634, 640, 580, 533, 489, 512, 478, 455, 473, 500]),
     (lit ''ranong'', monthly [504, 590, 622, 599, 522, 492, 467, 493, 448, 434, 425, 452]),
     (lit ''ratchaburi'', monthly [500, 558, 609, 618, 555, 506, 457, 462, 445, 439, 457, 466]),
     (lit ''rayong'', monthly [520, 568, 596, 599, 524, 501, 475, 494, 445, 468, 495, 501]),
     (lit ''roi-et'', monthly [499, 561, 600, 615, 562, 525, 474, 454, 442, 471, 470, 470]),
     (lit ''sa-kaeo'', monthly [507, 562, 594, 601, 552, 511, 477, 470, 441, 460, 470, 479])]"

definition solarMonthly_6 :: "(jstr, solar_month list) dict" where
  "solarMonthly_6 =
    [(lit ''sakon-nakhon'', monthly [489, 549, 592, 608, 541, 500, 456, 432, 437, 468, 465, 463]),
     (lit ''samut-prakan'', monthly [503, 557, 600, 609, 557, 524, 482, 484, 452, 455, 471, 477]),
     (lit ''samut-sakhon'', monthly [505, 564, 612, 621, 568, 529, 484, 487, 460, 456, 470, 476]),
     (lit ''samut-songkhram'', monthly [510, 573, 619, 630, 572, 528, 480, 490, 463, 454, 469, 478]),
     (lit ''saraburi'', monthly [491, 540, 587, 597, 542, 498, 457, 443, 424, 445, 469, 470]),
     (lit ''satun'', monthly [512, 599, 610, 576, 520, 517, 513, 529, 494, 465, 424, 433]),
     (lit ''sing-buri'', monthly [495, 550, 598, 616, 565, 521, 477, 463, 450, 458, 472, 469]),
     (lit ''sisaket'', monthly [509, 571, 605, 614, 559, 519, 475, 458, 431, 464, 472, 475]),
     (lit ''songkhla'', monthly [492, 592, 623, 606, 555, 541, 534, 556, 524, 472, 405, 403]),
     (lit ''sukhothai'', monthly [483, 557, 619, 636, 557, 486, 433, 414, 442, 453, 464, 453]),
     (lit ''suphan-buri'', monthly [495, 550, 601, 616, 559, 519, 471, 463, 446, 449, 463, 464])]"

definition solarMonthly_7 :: "(jstr, solar_month list) dict" where
  "solarMonthly_7 =
    [(lit ''surat-thani'', monthly [476, 578, 622, 605, 546, 525, 507, 532, 490, 441, 396, 415]),
     (lit ''surin'', monthly [504, 565, 599, 610, 558, 522, 480, 464, 433, 461, 468, 471]),
     (lit ''tak'', monthly [487, 562, 612, 611, 521, 436, 389, 379, 419, 437, 457, 452]),
     (lit ''trang'', monthly [473, 574, 593, 554, 498, 494, 487, 500, 465, 416, 380, 393]),
     (lit ''trat'', monthly [498, 537, 548, 543, 470, 422, 384, 397, 373, 414, 456, 480]),
     (lit ''ubon-ratchathani'', monthly [513, 577, 611, 614, 549, 506, 458, 442, 423, 463, 478, 479]),
     (lit ''udon-thani'', monthly [485, 551, 597, 605, 547, 502, 458, 432, 437, 471, 472, 461]),
     (lit ''uthai-thani'', monthly [495, 555, 603, 622, 572, 523, 474, 458, 456, 453, 466, 465]),
     (lit ''uttaradit'', monthly [477, 552, 616, 633, 552, 482, 430, 409, 436, 453, 463, 452]),
     (lit ''yala'', monthly [471, 576, 614, 604, 556, 548, 538, 562, 534, 478, 401, 385]),
     (lit ''yasothon'', monthly [501, 563, 600, 614, 558, 523, 474, 451, 437, 469, 468, 471])]"

definition provinceSolarMonthly :: "(jstr, solar_month list) dict" where
  "provinceSolarMonthly =
     solarMonthly_1 @ solarMonthly_2 @ solarMonthly_3 @ solarMonthly_4 @
     solarMonthly_5 @ solarMonthly_6 @ solarMonthly_7"

definition getProvinceSolarMonthly :: "jstr \<Rightarrow> solar_month list lookup" where
  "getProvinceSolarMonthly slug = js_index provinceSolarMonthly slug"

section \<open>The figure\<close>

definition provinceYieldRank :: "jstr \<Rightarrow> nat option" where
  "provinceYieldRank slug =
     map_option Suc (find_index (\<lambda>e. fst e = slug)
       (sort_key (\<lambda>e. - snd e) (map (\<lambda>(k, ft). (k, ef_specificYield ft)) provinceEnergyData)))"

definition formatNumber :: "formats \<Rightarrow> rat \<Rightarrow> nat \<Rightarrow> jstr" where
  "formatNumber fm x digits = fm_fixed fm digits x"

text \<open>\<open>values[values.indexOf(Math.max(...values))]\<close> is the maximum itself.\<close>

definition peak_text :: "formats \<Rightarrow> solar_month list \<Rightarrow> jstr" where
  "peak_text fm months =
     (let vals = map sm_irradiationDaily months in
      case find_index (\<lambda>v. v = Max (set vals)) vals of
        None \<Rightarrow> lit ''undefined''
      | Some i \<Rightarrow> num_text (fm_number fm) (vals ! i))"

definition figure_source :: "thai_province \<Rightarrow> jstr" where
  "figure_source prov =
     escapeHtml ([0xE20, 0xE32, 0xE1E, 0xE08, 0xE33, 0xE25, 0xE2D, 0xE07] @ lit '' 3 '' @ [0xE21, 0xE34,
       0xE15, 0xE34, 0xE08, 0xE32, 0xE01, 0xE02, 0xE49, 0xE2D, 0xE21, 0xE39, 0xE25] @
       lit '' PVGIS v5.3 (PVGIS-ERA5, 2005'' @ [0x2013] @ lit ''2023) '' @ [0xE13, 0x20, 0xE08,
       0xE38, 0xE14, 0xE28, 0xE39, 0xE19, 0xE22, 0xE4C, 0xE01, 0xE25, 0xE32, 0xE07] @ tp_nameTh
       prov @ [0x20, 0x2014, 0x20, 0xE04, 0xE48, 0xE32, 0xE1B, 0xE01, 0xE15, 0xE34, 0xE17, 0xE32,
       0xE07, 0xE20, 0xE39, 0xE21, 0xE34, 0xE2D, 0xE32, 0xE01, 0xE32, 0xE28, 0x20, 0xE40, 0xE1B,
       0xE23, 0xE35, 0xE22, 0xE1A, 0xE40, 0xE17, 0xE35, 0xE22, 0xE1A, 0xE23, 0xE30, 0xE2B, 0xE27,
       0xE48, 0xE32, 0xE07, 0xE1E, 0xE37, 0xE49, 0xE19, 0xE17, 0xE35, 0xE48, 0xE44, 0xE14, 0xE49,
       0x20, 0xE44, 0xE21, 0xE48, 0xE43, 0xE0A, 0xE48, 0xE1C, 0xE25, 0xE2A, 0xE33, 0xE23, 0xE27,
       0xE08, 0xE2B, 0xE19, 0xE49, 0xE32, 0xE07, 0xE32, 0xE19, 0x20, 0xE41, 0xE25, 0xE30, 0xE44,
       0xE21, 0xE48, 0xE43, 0xE0A, 0xE48, 0xE01, 0xE32, 0xE23, 0xE23, 0xE31, 0xE1A, 0xE1B, 0xE23,
       0xE30, 0xE01, 0xE31, 0xE19, 0xE1C, 0xE25, 0xE1C, 0xE25, 0xE34, 0xE15, 0xE02, 0xE2D, 0xE07,
       0xE23, 0xE30, 0xE1A, 0xE1A, 0xE08, 0xE23, 0xE34, 0xE07])"

definition figure_alt ::
  "formats \<Rightarrow> thai_province \<Rightarrow> province_energy_fact \<Rightarrow> nat option \<Rightarrow> solar_month list \<Rightarrow> jstr" where
  "figure_alt fm prov energy rank months =
     escapeHtml
      ([0xE20, 0xE32, 0xE1E, 0xE08, 0xE33, 0xE25, 0xE2D, 0xE07] @ lit '' Solar Carport '' @
        [0xE43, 0xE19] @ tp_nameTh prov @ [0x20, 0xE1E, 0xE23, 0xE49, 0xE2D, 0xE21, 0xE02, 0xE49,
        0xE2D, 0xE21, 0xE39, 0xE25] @ lit '' PVGIS: '' @ [0xE1C, 0xE25, 0xE1C, 0xE25, 0xE34,
        0xE15, 0xE40, 0xE09, 0xE1E, 0xE32, 0xE30, 0xE23, 0xE30, 0xE1A, 0xE1A, 0x20] @ formatNumber
        fm (ef_specificYield energy) 1 @ lit '' kWh/kWp/'' @ [0xE1B, 0xE35] @
       (case rank of None \<Rightarrow> []
        | Some r \<Rightarrow> if r = 0 then [] else [0x20, 0xE2D, 0xE31, 0xE19, 0xE14, 0xE31, 0xE1A, 0x20] @ decimal r @ [0x20, 0xE08,
          0xE32, 0xE01] @ lit '' 77 '' @ [0xE08, 0xE31, 0xE07, 0xE2B, 0xE27, 0xE31, 0xE14]) @
       [0x20, 0xE23, 0xE31, 0xE07, 0xE2A, 0xE35, 0xE40, 0xE09, 0xE25, 0xE35, 0xE48, 0xE22, 0x20]
        @ formatNumber fm (ef_irradiationDaily energy) 2 @ lit '' kWh/m'' @ [0xB2, 0x2F, 0xE27,
        0xE31, 0xE19, 0x20, 0xE40, 0xE14, 0xE37, 0xE2D, 0xE19, 0xE17, 0xE35, 0xE48, 0xE1C, 0xE25,
        0xE34, 0xE15, 0xE44, 0xE14, 0xE49, 0xE2A, 0xE39, 0xE07, 0xE2A, 0xE38, 0xE14, 0x20] @
        peak_text fm months @ lit '' kWh/m'' @ [0xB2, 0x2F, 0xE27, 0xE31, 0xE19])"

definition figure_html :: "jstr \<Rightarrow> jstr \<Rightarrow> jstr \<Rightarrow> jstr" where
  "figure_html slug alt source =
     lit ''<figure class='' @ [0x22] @ lit ''mt-10'' @ [0x22] @ lit '' data-sirinx-figure='' @
     [0x22] @ lit ''province-monthly'' @ [0x22, 0x3E, 10] @ lit ''        <picture>'' @ [10] @
     lit ''          <source type='' @ [0x22] @ lit ''image/avif'' @ [0x22] @ lit '' srcset='' @
     [0x22] @ lit ''/provinces/'' @ slug @ lit ''.avif'' @ [0x22] @ lit '' />'' @ [10] @
     lit ''          <source type='' @ [0x22] @ lit ''image/webp'' @ [0x22] @ lit '' srcset='' @
     [0x22] @ lit ''/provinces/'' @ slug @ lit ''.webp'' @ [0x22] @ lit '' />'' @ [10] @
     lit ''          <img src='' @ [0x22] @ lit ''/provinces/'' @ slug @ lit ''.webp'' @ [0x22] @
     lit '' alt='' @ [0x22] @ alt @ [0x22] @ lit '' width='' @ [0x22] @ lit ''1200'' @ [0x22] @
     lit '' height='' @ [0x22] @ lit ''675'' @ [0x22] @ lit '' loading='' @ [0x22] @ lit ''lazy''
     @ [0x22] @ lit '' decoding='' @ [0x22] @ lit ''async'' @ [0x22] @ lit '' class='' @ [0x22] @
     lit ''w-full h-auto rounded-2xl'' @ [0x22] @ lit '' />'' @ [10] @ lit ''        </picture>''
     @ [10] @ lit ''        <figcaption class='' @ [0x22] @
     lit ''mt-3 text-xs leading-relaxed text-text-secondary'' @ [0x22, 0x3E] @ source @
     lit ''</figcaption>'' @ [10] @ lit ''      </figure>''"

definition buildProvinceMonthlyFigure :: "formats \<Rightarrow> jstr \<Rightarrow> jstr option" where
  "buildProvinceMonthlyFigure fm slug =
     (case (js_index provinceEnergyData slug, getProvinceSolarMonthly slug, getProvinceBySlug slug) of
        (Own energy, Own months, Some prov) \<Rightarrow>
          if length months \<noteq> 12 then None
          else Some (figure_html slug
            (figure_alt fm prov energy (provinceYieldRank slug) months) (figure_source prov))
      | _ \<Rightarrow> None)"

section \<open>The article as HTML\<close>

fun renderBlock :: "block \<Rightarrow> jstr" where
  "renderBlock (BH3 t) =
     lit ''        <h3 class='' @ [0x22] @ lit ''font-display text-lg font-semibold pt-2'' @
     [0x22, 0x3E] @ escapeHtml t @ lit ''</h3>''"
| "renderBlock (BList items) =
     lit ''        <ul class='' @ [0x22] @ lit ''list-disc pl-5 space-y-2'' @ [0x22, 0x3E, 10] @
     join [10] (map (\<lambda>item. lit ''          <li>'' @ escapeHtml item @ lit ''</li>'' )
     items) @ [10] @ lit ''        </ul>''"
| "renderBlock (BP t) =
     lit ''        <p class='' @ [0x22] @ lit ''leading-relaxed'' @ [0x22, 0x3E] @ escapeHtml t @
     lit ''</p>''"

definition renderSection :: "longform_section \<Rightarrow> jstr" where
  "renderSection s =
     lit ''      <section class='' @ [0x22] @ lit ''mt-10'' @ [0x22, 0x3E, 10] @
     lit ''        <h2 class='' @ [0x22] @ lit ''font-display text-xl lg:text-2xl font-bold'' @
     [0x22, 0x3E] @ escapeHtml (ls_h2 s) @ lit ''</h2>'' @ [10] @ lit ''        <div class='' @
     [0x22] @ lit ''mt-4 space-y-4'' @ [0x22, 0x3E, 10] @ join [10] (map renderBlock (ls_blocks
     s)) @ [10] @ lit ''        </div>'' @ [10] @ lit ''      </section>''"

definition intro_html :: "longform \<Rightarrow> jstr" where
  "intro_html e =
     join [10] (map (\<lambda>t. lit ''        <p class='' @ [0x22] @ lit ''leading-relaxed'' @ [0x22, 0x3E] @ escapeHtml t @
     lit ''</p>'') (lf_intro e))"

definition breadcrumb_html :: "longform \<Rightarrow> jstr" where
  "breadcrumb_html e =
     lit ''        <nav aria-label='' @ [0x22] @ lit ''Breadcrumb'' @ [0x22] @ lit '' class='' @
     [0x22] @ lit ''mb-6 text-sm text-text-secondary'' @ [0x22, 0x3E, 10] @
     lit ''          <a href='' @ [0x22, 0x2F, 0x22] @ lit '' class='' @ [0x22] @
     lit ''underline-offset-4 hover:underline'' @ [0x22, 0x3E, 0xE2B, 0xE19, 0xE49, 0xE32, 0xE41,
     0xE23, 0xE01] @ lit ''</a>'' @ [10] @ lit ''          <span aria-hidden='' @ [0x22] @
     lit ''true'' @ [0x22] @ lit ''> / </span>'' @ [10] @ lit ''          <a href='' @ [0x22] @
     lit ''/solar-carport/'' @ [0x22] @ lit '' class='' @ [0x22] @
     lit ''underline-offset-4 hover:underline'' @ [0x22] @ lit ''>Solar Carport</a>'' @ [10] @
     lit ''          <span aria-hidden='' @ [0x22] @ lit ''true'' @ [0x22] @ lit ''> / </span>'' @
     [10] @ lit ''          <a href='' @ [0x22] @ lit ''/provinces/'' @ [0x22] @ lit '' class='' @
     [0x22] @ lit ''underline-offset-4 hover:underline'' @ [0x22] @ lit ''>77 '' @ [0xE08, 0xE31,
     0xE07, 0xE2B, 0xE27, 0xE31, 0xE14] @ lit ''</a>'' @ [10] @
     lit ''          <span aria-hidden='' @ [0x22] @ lit ''true'' @ [0x22] @ lit ''> / </span>'' @
     [10] @ lit ''          <span>'' @ escapeHtml (lf_nameTh e) @ lit ''</span>'' @ [10] @
     lit ''        </nav>''"

definition sibling_html :: "sibling \<Rightarrow> jstr" where
  "sibling_html s =
     lit ''            <li><a href='' @ [0x22] @ lit ''/solar-carport/'' @ escapeHtml (sb_slug s)
     @ [0x2F, 0x22] @ lit '' class='' @ [0x22] @ lit ''underline-offset-4 hover:underline'' @
     [0x22, 0x3E] @ escapeHtml (sb_nameTh s) @ lit ''</a></li>''"

definition related_html :: "jstr \<Rightarrow> jstr" where
  "related_html siblings =
     (if siblings \<noteq> []
      then [10] @ lit ''        <div class='' @ [0x22] @ lit ''mt-12 border-t border-border pt-8'' @
        [0x22, 0x3E, 10] @ lit ''          <h2 class='' @ [0x22] @
        lit ''font-display text-lg font-bold'' @ [0x22, 0x3E, 0xE08, 0xE31, 0xE07, 0xE2B, 0xE27,
        0xE31, 0xE14, 0xE2D, 0xE37, 0xE48, 0xE19, 0xE43, 0xE19, 0xE23, 0xE30, 0xE1A, 0xE1A, 0xE40,
        0xE14, 0xE35, 0xE22, 0xE27, 0xE01, 0xE31, 0xE19] @ lit ''</h2>'' @ [10] @
        lit ''          <ul class='' @ [0x22] @
        lit ''mt-4 flex flex-wrap gap-x-6 gap-y-2 text-sm'' @ [0x22, 0x3E, 10] @ siblings @ [10] @
        lit ''          </ul>'' @ [10] @ lit ''          <p class='' @ [0x22] @
        lit ''mt-4 text-sm'' @ [0x22] @ lit ''><a href='' @ [0x22] @ lit ''/provinces/'' @ [0x22]
        @ lit '' class='' @ [0x22] @ lit ''underline-offset-4 hover:underline'' @ [0x22, 0x3E,
        0xE14, 0xE39, 0xE17, 0xE31, 0xE49, 0xE07] @ lit '' 77 '' @ [0xE08, 0xE31, 0xE07, 0xE2B,
        0xE27, 0xE31, 0xE14, 0x20, 0x2192] @ lit ''</a></p>'' @ [10] @ lit ''        </div>''
      else [10] @ lit ''        <div class='' @ [0x22] @ lit ''mt-12 border-t border-border pt-8'' @
        [0x22, 0x3E, 10] @ lit ''          <p class='' @ [0x22] @ lit ''text-sm'' @ [0x22] @
        lit ''><a href='' @ [0x22] @ lit ''/provinces/'' @ [0x22] @ lit '' class='' @ [0x22] @
        lit ''underline-offset-4 hover:underline'' @ [0x22, 0x3E, 0xE14, 0xE39, 0xE17, 0xE31,
        0xE49, 0xE07] @ lit '' 77 '' @ [0xE08, 0xE31, 0xE07, 0xE2B, 0xE27, 0xE31, 0xE14, 0x20,
        0x2192] @ lit ''</a></p>'' @ [10] @ lit ''        </div>'')"

definition renderEntry :: "formats \<Rightarrow> longform \<Rightarrow> jstr" where
  "renderEntry fm e =
     lit ''<main data-sirinx-static-shell='' @ [0x22] @ lit ''province-longform'' @ [0x22] @
     lit '' data-sirinx-longform='' @ [0x22] @ escapeHtml (lf_slug e) @ [0x22, 0x3E, 10] @
     lit ''      <section class='' @ [0x22] @
     lit ''bg-background px-4 py-16 text-foreground sm:px-6 lg:py-20'' @ [0x22, 0x3E, 10] @
     lit ''        <article class='' @ [0x22] @ lit ''container mx-auto max-w-3xl'' @ [0x22, 0x3E,
     10] @ breadcrumb_html e @ [10] @ lit ''        <h1 class='' @ [0x22] @
     lit ''font-display text-3xl sm:text-4xl lg:text-5xl font-bold leading-tight text-foreground''
     @ [0x22] @ lit ''>Solar Carport '' @ [0xE43, 0xE19] @ escapeHtml (lf_nameTh e) @
     lit ''</h1>'' @ [10] @ lit ''        <div class='' @ [0x22] @ lit ''space-y-4'' @ [0x22,
     0x3E, 10] @ intro_html e @ [10] @ lit ''        </div>'' @ [10] @ (case
     buildProvinceMonthlyFigure fm (lf_slug e) of None \<Rightarrow> [] | Some f \<Rightarrow> f)
     @ [10] @ join [10] (map renderSection (lf_sections e)) @ [10] @ lit ''        <div class='' @
     [0x22] @ lit ''mt-12 rounded-2xl border border-border bg-card p-6 lg:p-8'' @ [0x22, 0x3E, 10]
     @ lit ''          <p class='' @ [0x22] @ lit ''leading-relaxed'' @ [0x22, 0x3E] @ escapeHtml
     (lf_cta e) @ lit ''</p>'' @ [10] @ lit ''          <div class='' @ [0x22] @
     lit ''mt-4 flex flex-wrap gap-x-6 gap-y-2 text-sm'' @ [0x22, 0x3E, 10] @
     lit ''            <a href='' @ [0x22] @ lit ''/contact'' @ [0x22] @ lit '' class='' @ [0x22]
     @ lit ''font-medium'' @ [0x22, 0x3E, 0xE19, 0xE31, 0xE14, 0xE2A, 0xE33, 0xE23, 0xE27, 0xE08,
     0xE2B, 0xE19, 0xE49, 0xE32, 0xE07, 0xE32, 0xE19, 0x20, 0x2192] @ lit ''</a>'' @ [10] @
     lit ''            <a href='' @ [0x22] @ lit ''/assessment/'' @ [0x22] @ lit '' class='' @
     [0x22] @ lit ''underline-offset-4 hover:underline'' @ [0x22, 0x3E, 0xE1B, 0xE23, 0xE30,
     0xE40, 0xE21, 0xE34, 0xE19, 0xE04, 0xE27, 0xE32, 0xE21, 0xE04, 0xE38, 0xE49, 0xE21, 0xE04,
     0xE48, 0xE32] @ lit ''</a>'' @ [10] @ lit ''            <a href='' @ [0x22] @
     lit ''/pricing/'' @ [0x22] @ lit '' class='' @ [0x22] @
     lit ''underline-offset-4 hover:underline'' @ [0x22, 0x3E, 0xE14, 0xE39, 0xE41, 0xE1E, 0xE47,
     0xE01, 0xE40, 0xE01, 0xE08, 0xE41, 0xE25, 0xE30, 0xE02, 0xE2D, 0xE1A, 0xE40, 0xE02, 0xE15,
     0xE07, 0xE32, 0xE19] @ lit ''</a>'' @ [10] @ lit ''            <a href='' @ [0x22] @
     lit ''/projects/'' @ [0x22] @ lit '' class='' @ [0x22] @
     lit ''underline-offset-4 hover:underline'' @ [0x22, 0x3E, 0xE14, 0xE39, 0xE1C, 0xE25, 0xE07,
     0xE32, 0xE19, 0xE15, 0xE34, 0xE14, 0xE15, 0xE31, 0xE49, 0xE07, 0xE08, 0xE23, 0xE34, 0xE07] @
     lit ''</a>'' @ [10] @ lit ''          </div>'' @ [10] @ lit ''        </div>'' @ related_html
     (join [10] (map sibling_html (getProvinceSiblings (lf_slug e)))) @ [10] @
     lit ''        </article>'' @ [10] @ lit ''      </section>'' @ [10] @ lit ''    </main>''"

text \<open>
  \<open>/^\/solar-carport\/([^/]+)\/?$/\<close>. An inherited member has no \<open>intro\<close> to map over, so
  rendering it raises.
\<close>

definition match_province_route :: "jstr \<Rightarrow> jstr option" where
  "match_province_route route =
     (let pre = lit ''/solar-carport/''; rest = drop (length pre) route;
          slug = takeWhile (\<lambda>c. c \<noteq> 0x2F) rest; tail = dropWhile (\<lambda>c. c \<noteq> 0x2F) rest in
      if starts_with pre route \<and> slug \<noteq> [] \<and> (tail = [] \<or> tail = [0x2F]) then Some slug else None)"

definition buildProvinceLongformHtml :: "articles \<Rightarrow> formats \<Rightarrow> jstr \<Rightarrow> jstr option result" where
  "buildProvinceLongformHtml ar fm routeOrSlug =
     (let slug = (case match_province_route routeOrSlug of Some s \<Rightarrow> s | None \<Rightarrow> routeOrSlug) in
      if 0x2F \<in> set slug then Inr None
      else
        (case getProvinceLongformEntry ar slug of
           Missing \<Rightarrow> Inr None
         | Inherited k \<Rightarrow> Inl (JsTypeError (lit ''Cannot read properties of undefined''))
         | Own e \<Rightarrow> Inr (Some (renderEntry fm e))))"

section \<open>Ranks\<close>

lemma find_index_map: "find_index P (map f xs) = find_index (\<lambda>x. P (f x)) xs"
  by (induction xs) auto

lemma find_index_eq:
  "i < length xs \<Longrightarrow> P (xs ! i) \<Longrightarrow> (\<And>j. j < i \<Longrightarrow> \<not> P (xs ! j)) \<Longrightarrow> find_index P xs = Some i"
proof (induction xs arbitrary: i)
  case (Cons x xs)
  show ?case
  proof (cases i)
    case (Suc k)
    with Cons.prems(3) [of 0] have "\<not> P x" by simp
    moreover have "\<not> P (xs ! j)" if "j < k" for j
      using Cons.prems(3) [of "Suc j"] that Suc by simp
    then have "find_index P xs = Some k"
      using Cons.prems(1,2) Suc by (intro Cons.IH) auto
    ultimately show ?thesis using Suc by simp
  qed (use Cons.prems in simp)
qed simp

text \<open>The position of a slug in the ranking is one less than the rank the entry found carries.\<close>

lemma find_index_ranking:
  "map_option Suc (find_index (\<lambda>e. fst e = slug) (sorted_yields data)) =
     map_option yr_rank (List.find (\<lambda>r. yr_slug r = slug) (yieldRanking_of data))"
proof -
  have e: "find_index (\<lambda>e. fst e = slug) (sorted_yields data) =
      find_index (\<lambda>r. yr_slug r = slug) (yieldRanking_of data)"
    unfolding ranking_pairs [symmetric] by (simp add: find_index_map)
  show ?thesis
  proof (cases "List.find (\<lambda>r. yr_slug r = slug) (yieldRanking_of data)")
    case None
    then have "find_index (\<lambda>r. yr_slug r = slug) (yieldRanking_of data) = None"
      by (simp add: find_index_None find_None_all)
    with None e show ?thesis by simp
  next
    case (Some r)
    then obtain i where i: "i < length data" "r = yieldRanking_of data ! i" "yr_slug r = slug"
        "\<forall>j < i. yr_slug (yieldRanking_of data ! j) \<noteq> slug"
      by (auto simp: find_Some_iff)
    then have "find_index (\<lambda>r. yr_slug r = slug) (yieldRanking_of data) = Some i"
      by (intro find_index_eq) auto
    with Some e i show ?thesis by (simp add: nth_ranking)
  qed
qed

section \<open>Markup does not depend on texts\<close>

definition blanks :: "'a list \<Rightarrow> jstr list" where
  "blanks xs = map (\<lambda>_. []) xs"

fun blank_block :: "block \<Rightarrow> block" where
  "blank_block (BP t) = BP []"
| "blank_block (BH3 t) = BH3 []"
| "blank_block (BList items) = BList (blanks items)"

definition blank_section :: "longform_section \<Rightarrow> longform_section" where
  "blank_section s = \<lparr>ls_h2 = [], ls_blocks = map blank_block (ls_blocks s)\<rparr>"

text \<open>The article with every text of it empty. The slug stays: it selects figure and neighbours.\<close>

definition blank :: "longform \<Rightarrow> longform" where
  "blank e = e\<lparr>lf_nameTh := [], lf_intro := blanks (lf_intro e),
     lf_sections := map blank_section (lf_sections e), lf_faq := [], lf_cta := []\<rparr>"

lemma markup_blanks:
  "(\<And>t. markup (f t) = markup (f [])) \<Longrightarrow>
     markup (join sep (map f ts)) = markup (join sep (map f (blanks ts)))"
  unfolding blanks_def map_map comp_def by (rule markup_join_map)

lemma markup_renderBlock: "markup (renderBlock b) = markup (renderBlock (blank_block b))"
proof (cases b)
  case (BList items)
  have "markup (join [10] (map (\<lambda>item. lit ''          <li>'' @ escapeHtml item @ lit ''</li>'') items)) =
      markup (join [10] (map (\<lambda>item. lit ''          <li>'' @ escapeHtml item @ lit ''</li>'') (blanks items)))"
    by (rule markup_blanks) simp
  with BList show ?thesis by simp
qed simp_all

lemma markup_renderSection: "markup (renderSection s) = markup (renderSection (blank_section s))"
proof -
  have "markup (join [10] (map renderBlock (ls_blocks s))) =
      markup (join [10] (map renderBlock (map blank_block (ls_blocks s))))"
    unfolding map_map comp_def by (rule markup_join_map) (rule markup_renderBlock)
  then show ?thesis by (simp add: renderSection_def blank_section_def comp_def)
qed

lemma markup_intro: "markup (intro_html e) = markup (intro_html (blank e))"
proof -
  have b: "lf_intro (blank e) = blanks (lf_intro e)" by (simp add: blank_def)
  show ?thesis unfolding intro_html_def b by (rule markup_blanks) simp
qed

lemma markup_breadcrumb: "markup (breadcrumb_html e) = markup (breadcrumb_html (blank e))"
  by (simp add: breadcrumb_html_def)

lemma markup_sections:
  "markup (join [10] (map renderSection (lf_sections e))) =
     markup (join [10] (map renderSection (lf_sections (blank e))))"
  unfolding blank_def by (simp add: comp_def, rule markup_join_map, rule markup_renderSection)

section \<open>Neighbours\<close>

lemma dict_get_byRegion:
  "dict_get (foldl byRegion_step m ps) r =
     (case dict_get m r of
        None \<Rightarrow> (if filter (\<lambda>p. tp_region p = r) ps = [] then None
                 else Some (filter (\<lambda>p. tp_region p = r) ps))
      | Some qs \<Rightarrow> Some (qs @ filter (\<lambda>p. tp_region p = r) ps))"
  by (induction ps arbitrary: m) (auto simp: byRegion_step_def dict_get_set split: option.splits)

lemma dict_get_foldl_set:
  "distinct (map k ps) \<Longrightarrow>
     dict_get (foldl (\<lambda>m p. dict_set (k p) (f p) m) m ps) x =
       (case List.find (\<lambda>p. k p = x) ps of Some p \<Rightarrow> Some (f p) | None \<Rightarrow> dict_get m x)"
proof (induction ps arbitrary: m)
  case (Cons p ps)
  show ?case
  proof (cases "k p = x")
    case True
    with Cons.prems have "List.find (\<lambda>p. k p = x) ps = None"
      by (auto simp: find_None_iff) (metis image_eqI)
    with True Cons show ?thesis by simp
  next
    case False
    with Cons show ?thesis by (simp split: option.split)
  qed
qed simp

lemma getProvinceBySlug_own: "p \<in> set thaiProvinces \<Longrightarrow> getProvinceBySlug (tp_slug p) = Some p"
proof -
  assume p: "p \<in> set thaiProvinces"
  then have "getProvinceBySlug (tp_slug p) \<noteq> None"
    by (auto simp: getProvinceBySlug_def find_None_iff)
  then obtain q where q: "getProvinceBySlug (tp_slug p) = Some q" by blast
  then have "q \<in> set thaiProvinces" and "tp_slug q = tp_slug p"
    unfolding getProvinceBySlug_def by (auto dest: find_Some_in_set)
  with p have "q = p"
    using distinct_province_slugs by (simp add: distinct_map inj_on_def)
  with q show ?thesis by simp
qed

lemma siblings_filter:
  "siblings_of p =
     map (\<lambda>q. \<lparr>sb_slug = tp_slug q, sb_nameTh = tp_nameTh q\<rparr>)
       (take 6 (filter (\<lambda>q. tp_region q = tp_region p \<and> tp_slug q \<noteq> tp_slug p) thaiProvinces))"
proof -
  have "(case dict_get byRegion (tp_region p) of None \<Rightarrow> [] | Some ps \<Rightarrow> ps) =
      filter (\<lambda>q. tp_region q = tp_region p) thaiProvinces"
    unfolding byRegion_def dict_get_byRegion by simp
  then show ?thesis unfolding siblings_of_def by (simp only: filter_filter)
qed

lemma getProvinceSiblings_cases:
  "getProvinceSiblings slug =
     (case getProvinceBySlug slug of None \<Rightarrow> [] | Some p \<Rightarrow> siblings_of p)"
  unfolding getProvinceSiblings_def siblingsBySlug_def dict_get_foldl_set [OF distinct_province_slugs]
    getProvinceBySlug_def
  by (simp split: option.split)

section \<open>Routes\<close>

lemma province_slugs_no_slash: "\<forall>p \<in> set thaiProvinces. tp_slug p \<noteq> [] \<and> 0x2F \<notin> set (tp_slug p)"
  by (simp add: thaiProvinces_def province_def lit_def)

lemma province_not_inherited: "\<forall>p \<in> set thaiProvinces. tp_slug p \<notin> set object_prototype_keys"
  by (simp add: thaiProvinces_def province_def object_prototype_keys_def)

lemma takeWhile_no_slash: "0x2F \<notin> set s \<Longrightarrow> takeWhile (\<lambda>c. c \<noteq> 0x2F) s = s"
  by (auto simp: takeWhile_eq_all_conv)

lemma dropWhile_no_slash: "0x2F \<notin> set s \<Longrightarrow> dropWhile (\<lambda>c. c \<noteq> 0x2F) s = []"
  by auto

lemma match_province_route_prefix:
  "match_province_route (lit ''/solar-carport/'' @ r) =
     (let slug = takeWhile (\<lambda>c. c \<noteq> 0x2F) r; tail = dropWhile (\<lambda>c. c \<noteq> 0x2F) r in
      if slug \<noteq> [] \<and> (tail = [] \<or> tail = [0x2F]) then Some slug else None)"
  by (simp add: match_province_route_def)

lemma match_province_route_slug:
  "slug \<noteq> [] \<Longrightarrow> 0x2F \<notin> set slug \<Longrightarrow> match_province_route (lit ''/solar-carport/'' @ slug) = Some slug"
  by (simp add: match_province_route_prefix takeWhile_no_slash dropWhile_no_slash)

section \<open>Properties\<close>

text \<open>
  The two rankings of the site agree: \<open>provinceYieldRank\<close>, which the figure prints, is the rank
  of the yield summary for every slug, and neither knows a slug the table does not have.
\<close>

theorem yield_ranks_agree:
  "provinceYieldRank slug = map_option ps_rank (provinceYieldSummary slug)"
proof -
  have r: "provinceYieldRank slug =
      map_option yr_rank (List.find (\<lambda>r. yr_slug r = slug) (yieldRanking_of provinceEnergyData))"
    unfolding provinceYieldRank_def sorted_yields_def [symmetric] by (rule find_index_ranking)
  show ?thesis
  proof (cases "dict_get provinceEnergyData slug")
    case None
    have "slug \<notin> set (map yr_slug (yieldRanking_of provinceEnergyData))"
      using None ranking_slugs [of provinceEnergyData] by (metis dict_get_None_iff set_mset_mset)
    then have "List.find (\<lambda>r. yr_slug r = slug) (yieldRanking_of provinceEnergyData) = None"
      by (auto simp: find_None_iff)
    with None r show ?thesis
      by (simp add: provinceYieldSummary_def provinceYieldSummary_of_def js_index_def)
  next
    case (Some ft)
    with r show ?thesis
      by (simp add: provinceYieldSummary_def provinceYieldSummary_of_def js_index_def Let_def
          split: option.split)
  qed
qed

text \<open>
  No text of an article can change the page around it: the sequence of angle brackets and
  double quotes in the rendered article is the one of the article with every text empty, so a
  text cannot open or close a tag or an attribute.
\<close>

theorem article_markup_fixed:
  "markup (renderEntry fm e) = markup (renderEntry fm (blank e))"
proof -
  have s: "lf_slug (blank e) = lf_slug e" by (simp add: blank_def)
  show ?thesis
    unfolding renderEntry_def markup_append s html.markup_esc markup_intro [of e]
      markup_breadcrumb [of e] markup_sections [of e] ..
qed

text \<open>
  The neighbours a province page links are the first six provinces of its region in the order
  of the table without the province itself; a slug that is no province has none.
\<close>

theorem siblings_same_region:
  "getProvinceSiblings slug =
     (case getProvinceBySlug slug of
        None \<Rightarrow> []
      | Some p \<Rightarrow>
          map (\<lambda>q. \<lparr>sb_slug = tp_slug q, sb_nameTh = tp_nameTh q\<rparr>)
            (take 6 (filter (\<lambda>q. tp_region q = tp_region p \<and> tp_slug q \<noteq> tp_slug p) thaiProvinces)))"
  unfolding getProvinceSiblings_cases siblings_filter ..

text \<open>
  The static page of a province is its article: for each of the 77 routes the renderer finds
  the hand-written article when there is one and the generated one otherwise, and a route with a
  trailing slash or the bare slug gives the same page.
\<close>

theorem province_article_resolved:
  assumes "p \<in> set thaiProvinces"
    and "dict_get (ar_handWritten ar) (tp_slug p) = Some e \<or>
      dict_get (ar_handWritten ar) (tp_slug p) = None \<and> dict_get (ar_generated ar) (tp_slug p) = Some e"
  shows "buildProvinceLongformHtml ar fm (lit ''/solar-carport/'' @ tp_slug p) =
      Inr (Some (renderEntry fm e)) \<and>
    buildProvinceLongformHtml ar fm (lit ''/solar-carport/'' @ tp_slug p @ lit ''/'') =
      Inr (Some (renderEntry fm e)) \<and>
    buildProvinceLongformHtml ar fm (tp_slug p) = Inr (Some (renderEntry fm e))"
proof -
  have s: "tp_slug p \<noteq> []" "0x2F \<notin> set (tp_slug p)"
    using province_slugs_no_slash assms(1) by auto
  have pr: "tp_slug p \<notin> set object_prototype_keys"
    using assms(1) province_not_inherited by blast
  have slash: "lit ''/'' = [0x2F]" by (simp add: lit_def)
  have "getProvinceLongformEntry ar (tp_slug p) = Own e"
    using assms(2) pr
    by (auto simp: getProvinceLongformEntry_def getGeneratedProvinceLongform_def js_index_def)
  moreover have "match_province_route (tp_slug p) = None"
    using s by (auto simp: match_province_route_def Let_def starts_with_iff lit_def)
  moreover have "match_province_route (lit ''/solar-carport/'' @ tp_slug p @ lit ''/'') = Some (tp_slug p)"
    using s unfolding match_province_route_prefix
    by (simp add: slash takeWhile_append takeWhile_no_slash dropWhile_append dropWhile_no_slash)
  ultimately show ?thesis
    using s by (simp add: buildProvinceLongformHtml_def match_province_route_slug Let_def)
qed

definition sample_formats :: formats where
  "sample_formats = \<lparr>fm_number = \<lambda>_. [], fm_fixed = \<lambda>_ _. [], fm_words = length\<rparr>"

definition sample_article :: longform where
  "sample_article = \<lparr>lf_slug = lit ''phuket'', lf_nameTh = lit ''Phuket'', lf_intro = [lit ''a < b''],
     lf_sections = [\<lparr>ls_h2 = lit ''Roofs'', ls_blocks = [BP (lit ''text''), BList [lit ''one'']]\<rparr>],
     lf_faq = [], lf_cta = lit ''Call''\<rparr>"

theorem province_article_resolved_witness:
  "buildProvinceLongformHtml \<lparr>ar_handWritten = [], ar_generated = [(lit ''phuket'', sample_article)]\<rparr>
     sample_formats (lit ''/solar-carport/'' @ lit ''phuket'' @ lit ''/'') =
   Inr (Some (renderEntry sample_formats sample_article))"
proof -
  have "\<exists>p \<in> set thaiProvinces. tp_slug p = lit ''phuket''"
    by (simp add: thaiProvinces_def province_def)
  then obtain p where p: "p \<in> set thaiProvinces" "tp_slug p = lit ''phuket''" by blast
  show ?thesis
    using province_article_resolved [OF p(1),
        of "\<lparr>ar_handWritten = [], ar_generated = [(lit ''phuket'', sample_article)]\<rparr>" sample_article
          sample_formats] p(2)
    by simp
qed

end
