(* ===== verification/Seo.thy ===== *)
theory Seo
  imports Longform
begin

text \<open>
  What a page says about itself: the route metadata the server injects (\<open>server/ogTags.ts\<close>) and
  the metadata the hydrated page sets (\<open>client/src/lib/seo.ts\<close>), over the same blog index
  (\<open>client/src/lib/blogData.ts\<close>), and the structured-data graph (\<open>shared/seoGraph.ts\<close>).
  A title or description is \<open>None\<close> where the code reads a property that is \<open>undefined\<close>.
\<close>

section \<open>Constants and records\<close>

definition SITE_NAME :: jstr where
  "SITE_NAME = lit ''SIRINX''"

definition PRODUCTION_BASE_URL :: jstr where
  "PRODUCTION_BASE_URL = lit ''https://www.sirinx.co''"

definition OG_IMAGE :: jstr where
  "OG_IMAGE = PRODUCTION_BASE_URL @ lit ''/provinces/amnat-charoen-og.jpg''"

record page_meta =
  pm_title :: "jstr option"
  pm_description :: "jstr option"
  pm_image :: "jstr option"
  pm_noindex :: bool

definition page :: "jstr \<Rightarrow> jstr \<Rightarrow> page_meta" where
  "page title description =
     \<lparr>pm_title = Some title, pm_description = Some description, pm_image = None, pm_noindex = False\<rparr>"

record blog_post =
  bp_slug :: jstr
  bp_title :: jstr
  bp_excerpt :: jstr
  bp_category :: jstr
  bp_categoryKey :: jstr
  bp_date :: jstr
  bp_readTime :: jstr
  bp_image :: jstr
  bp_featured :: bool
  bp_author :: jstr
  bp_tags :: "jstr list"

definition DEFAULT_TITLE :: jstr where
  "DEFAULT_TITLE =
     lit ''SIRINX | Solar Carport '' @ [0xE27, 0xE32, 0xE07, 0xE41, 0xE1C, 0xE19, 0xE25, 0xE14,
     0xE04, 0xE48, 0xE32, 0xE44, 0xE1F, 0xE2D, 0xE07, 0xE04, 0xE4C, 0xE01, 0xE23, 0x20, 0xE1E,
     0xE23, 0xE49, 0xE2D, 0xE21] @ lit '' EV Charger, BESS & AI Energy''"

definition DEFAULT_DESC :: jstr where
  "DEFAULT_DESC =
     lit ''SIRINX Solar Carport '' @ [0xE1C, 0xE25, 0xE34, 0xE15, 0xE44, 0xE1F, 0xE1F, 0xE49,
     0xE32, 0xE08, 0xE32, 0xE01, 0xE17, 0xE35, 0xE48, 0xE08, 0xE2D, 0xE14, 0xE23, 0xE16, 0x20,
     0xE23, 0xE2D, 0xE07, 0xE23, 0xE31, 0xE1A] @ lit '' EV Charger + BESS + AI Energy '' @ [0xE1E,
     0xE23, 0xE49, 0xE2D, 0xE21, 0xE1B, 0xE23, 0xE30, 0xE40, 0xE21, 0xE34, 0xE19, 0xE1C, 0xE25,
     0xE1B, 0xE23, 0xE30, 0xE2B, 0xE22, 0xE31, 0xE14, 0xE41, 0xE25, 0xE30, 0xE04, 0xE37, 0xE19,
     0xE17, 0xE38, 0xE19, 0xE08, 0xE32, 0xE01, 0xE02, 0xE49, 0xE2D, 0xE21, 0xE39, 0xE25, 0xE44,
     0xE0B, 0xE15, 0xE4C, 0xE08, 0xE23, 0xE34, 0xE07]"

definition blogPosts :: "blog_post list" where
  "blogPosts =
     [\<lparr>bp_slug = lit ''rooftop-solar-roi-2025'',
       bp_title = lit ''Rooftop Solar ROI '' @ [0xE1B, 0xE35] @ lit '' 2025: '' @ [0xE04, 0xE38, 0xE49,
         0xE21, 0xE04, 0xE48, 0xE32, 0xE41, 0xE04, 0xE48, 0xE44, 0xE2B, 0xE19, 0xE2A, 0xE33,
         0xE2B, 0xE23, 0xE31, 0xE1A, 0xE42, 0xE23, 0xE07, 0xE07, 0xE32, 0xE19, 0xE44, 0xE17,
         0xE22, 0x3F],
       bp_excerpt = [0xE27, 0xE34, 0xE40, 0xE04, 0xE23, 0xE32, 0xE30, 0xE2B, 0xE4C, 0xE1C, 0xE25, 0xE15,
         0xE2D, 0xE1A, 0xE41, 0xE17, 0xE19, 0xE01, 0xE32, 0xE23, 0xE25, 0xE07, 0xE17, 0xE38,
         0xE19] @ lit '' Rooftop Solar '' @ [0xE2A, 0xE33, 0xE2B, 0xE23, 0xE31, 0xE1A, 0xE42,
         0xE23, 0xE07, 0xE07, 0xE32, 0xE19, 0xE43, 0xE19, 0xE1B, 0xE23, 0xE30, 0xE40, 0xE17,
         0xE28, 0xE44, 0xE17, 0xE22, 0x20, 0xE1E, 0xE23, 0xE49, 0xE2D, 0xE21, 0xE1B, 0xE31, 0xE08,
         0xE08, 0xE31, 0xE22, 0xE17, 0xE35, 0xE48, 0xE2A, 0xE48, 0xE07, 0xE1C, 0xE25, 0xE15,
         0xE48, 0xE2D] @ lit '' ROI '' @ [0xE15, 0xE31, 0xE27, 0xE40, 0xE25, 0xE02, 0xE08, 0xE23,
         0xE34, 0xE07, 0xE08, 0xE32, 0xE01, 0xE42, 0xE04, 0xE23, 0xE07, 0xE01, 0xE32, 0xE23,
         0xE17, 0xE35, 0xE48, 0xE15, 0xE34, 0xE14, 0xE15, 0xE31, 0xE49, 0xE07, 0x20, 0xE41, 0xE25,
         0xE30, 0xE41, 0xE19, 0xE27, 0xE42, 0xE19, 0xE49, 0xE21, 0xE23, 0xE32, 0xE04, 0xE32,
         0xE41, 0xE1C, 0xE07, 0xE42, 0xE0B, 0xE25, 0xE32, 0xE23, 0xE4C, 0xE1B, 0xE35] @
         lit '' 2025-2026'',
       bp_category = lit ''Investment & Tax'',
       bp_categoryKey = lit ''investment'',
       bp_date = lit ''10 '' @ [0xE40, 0xE21, 0x2E, 0xE22] @ lit ''. 2025'',
       bp_readTime = lit ''8 '' @ [0xE19, 0xE32, 0xE17, 0xE35],
       bp_image = lit ''https://images.unsplash.com/photo-1509391366360-2e959784a276?w=600&h=400&fit=crop'',
       bp_featured = True,
       bp_author = [0xE17, 0xE35, 0xE21, 0xE27, 0xE34, 0xE28, 0xE27, 0xE01, 0xE23, 0xE23, 0xE21] @
         lit '' SIRINX'',
       bp_tags = [lit ''ROI'', lit ''Rooftop Solar'' , [0xE42, 0xE23, 0xE07, 0xE07, 0xE32, 0xE19],
          [0xE01, 0xE32, 0xE23, 0xE25, 0xE07, 0xE17, 0xE38, 0xE19]]\<rparr>,
      \<lparr>bp_slug = lit ''ai-energy-management-guide'',
       bp_title = lit ''AI Energy Management '' @ [0xE04, 0xE37, 0xE2D, 0xE2D, 0xE30, 0xE44, 0xE23] @
         lit ''? '' @ [0xE17, 0xE33, 0xE44, 0xE21, 0xE18, 0xE38, 0xE23, 0xE01, 0xE34, 0xE08,
         0xE22, 0xE38, 0xE04, 0xE43, 0xE2B, 0xE21, 0xE48, 0xE15, 0xE49, 0xE2D, 0xE07, 0xE21,
         0xE35],
       bp_excerpt = [0xE17, 0xE33, 0xE04, 0xE27, 0xE32, 0xE21, 0xE23, 0xE39, 0xE49, 0xE08, 0xE31, 0xE01,
         0xE01, 0xE31, 0xE1A, 0xE23, 0xE30, 0xE1A, 0xE1A, 0xE1A, 0xE23, 0xE34, 0xE2B, 0xE32,
         0xE23, 0xE08, 0xE31, 0xE14, 0xE01, 0xE32, 0xE23, 0xE1E, 0xE25, 0xE31, 0xE07, 0xE07,
         0xE32, 0xE19, 0xE14, 0xE49, 0xE27, 0xE22] @ lit '' AI '' @ [0xE17, 0xE35, 0xE48, 0xE0A,
         0xE48, 0xE27, 0xE22, 0xE25, 0xE14, 0xE04, 0xE48, 0xE32, 0xE44, 0xE1F, 0xE40, 0xE1E,
         0xE34, 0xE48, 0xE21, 0xE2D, 0xE35, 0xE01] @ lit '' 10-20% '' @ [0xE08, 0xE32, 0xE01,
         0xE42, 0xE0B, 0xE25, 0xE32, 0xE23, 0xE4C, 0xE40, 0xE1E, 0xE35, 0xE22, 0xE07, 0xE2D,
         0xE22, 0xE48, 0xE32, 0xE07, 0xE40, 0xE14, 0xE35, 0xE22, 0xE27, 0x20, 0xE40, 0xE1E, 0xE34,
         0xE48, 0xE21, 0xE1B, 0xE23, 0xE30, 0xE2A, 0xE34, 0xE17, 0xE18, 0xE34, 0xE20, 0xE32,
         0xE1E, 0x20, 0xE41, 0xE25, 0xE30, 0xE2A, 0xE23, 0xE49, 0xE32, 0xE07, 0xE02, 0xE49, 0xE2D,
         0xE21, 0xE39, 0xE25, 0xE40, 0xE0A, 0xE34, 0xE07, 0xE25, 0xE36, 0xE01, 0xE2A, 0xE33,
         0xE2B, 0xE23, 0xE31, 0xE1A, 0xE18, 0xE38, 0xE23, 0xE01, 0xE34, 0xE08],
       bp_category = lit ''Energy Management'',
       bp_categoryKey = lit ''energy-mgmt'',
       bp_date = lit ''5 '' @ [0xE40, 0xE21, 0x2E, 0xE22] @ lit ''. 2025'',
       bp_readTime = lit ''6 '' @ [0xE19, 0xE32, 0xE17, 0xE35],
       bp_image = lit ''https://images.unsplash.com/photo-1451187580459-43490279c0fa?w=600&h=400&fit=crop'',
       bp_featured = True,
       bp_author = [0xE17, 0xE35, 0xE21] @ lit '' AI & Data SIRINX'',
       bp_tags = [lit ''AI'', lit ''Energy Management'' , lit ''Smart Building'' , lit ''IoT'' ]\<rparr>,
      \<lparr>bp_slug = lit ''floating-solar-thailand'',
       bp_title = lit ''Floating Solar '' @ [0xE43, 0xE19, 0xE1B, 0xE23, 0xE30, 0xE40, 0xE17, 0xE28, 0xE44,
         0xE17, 0xE22] @ lit '': '' @ [0xE42, 0xE2D, 0xE01, 0xE32, 0xE2A, 0xE41, 0xE25, 0xE30,
         0xE04, 0xE27, 0xE32, 0xE21, 0xE17, 0xE49, 0xE32, 0xE17, 0xE32, 0xE22],
       bp_excerpt = [0xE2A, 0xE33, 0xE23, 0xE27, 0xE08, 0xE28, 0xE31, 0xE01, 0xE22, 0xE20, 0xE32, 0xE1E,
         0xE02, 0xE2D, 0xE07] @ lit '' Floating Solar '' @ [0xE43, 0xE19, 0xE1B, 0xE23, 0xE30,
         0xE40, 0xE17, 0xE28, 0xE44, 0xE17, 0xE22, 0x20, 0xE15, 0xE31, 0xE49, 0xE07, 0xE41, 0xE15,
         0xE48, 0xE2D, 0xE48, 0xE32, 0xE07, 0xE40, 0xE01, 0xE47, 0xE1A, 0xE19, 0xE49, 0xE33,
         0xE0A, 0xE25, 0xE1B, 0xE23, 0xE30, 0xE17, 0xE32, 0xE19, 0xE44, 0xE1B, 0xE08, 0xE19,
         0xE16, 0xE36, 0xE07, 0xE1A, 0xE48, 0xE2D, 0xE19, 0xE49, 0xE33, 0xE2D, 0xE38, 0xE15,
         0xE2A, 0xE32, 0xE2B, 0xE01, 0xE23, 0xE23, 0xE21, 0x20, 0xE1E, 0xE23, 0xE49, 0xE2D, 0xE21,
         0xE40, 0xE1B, 0xE23, 0xE35, 0xE22, 0xE1A, 0xE40, 0xE17, 0xE35, 0xE22, 0xE1A, 0xE15,
         0xE49, 0xE19, 0xE17, 0xE38, 0xE19, 0xE01, 0xE31, 0xE1A] @ lit '' Rooftop Solar'',
       bp_category = lit ''Solar Technology'',
       bp_categoryKey = lit ''solar-tech'',
       bp_date = lit ''28 '' @ [0xE21, 0xE35, 0x2E, 0xE04] @ lit ''. 2025'',
       bp_readTime = lit ''7 '' @ [0xE19, 0xE32, 0xE17, 0xE35],
       bp_image = lit ''https://images.unsplash.com/photo-1508514177221-188b1cf16e9d?w=600&h=400&fit=crop'',
       bp_featured = False,
       bp_author = [0xE17, 0xE35, 0xE21, 0xE27, 0xE34, 0xE28, 0xE27, 0xE01, 0xE23, 0xE23, 0xE21] @
         lit '' SIRINX'',
       bp_tags = [lit ''Floating Solar'', [0xE40, 0xE17, 0xE04, 0xE42, 0xE19, 0xE42, 0xE25, 0xE22,
          0xE35], [0xE2D, 0xE48, 0xE32, 0xE07, 0xE40, 0xE01, 0xE47, 0xE1A, 0xE19, 0xE49, 0xE33]]\<rparr>,
      \<lparr>bp_slug = lit ''solar-tax-benefits-thailand'',
       bp_title = [0xE2A, 0xE34, 0xE17, 0xE18, 0xE34, 0xE1B, 0xE23, 0xE30, 0xE42, 0xE22, 0xE0A, 0xE19,
         0xE4C, 0xE17, 0xE32, 0xE07, 0xE20, 0xE32, 0xE29, 0xE35, 0xE08, 0xE32, 0xE01, 0xE01,
         0xE32, 0xE23, 0xE25, 0xE07, 0xE17, 0xE38, 0xE19, 0xE42, 0xE0B, 0xE25, 0xE32, 0xE23,
         0xE4C, 0x20, 0xE1B, 0xE35] @ lit '' 2025'',
       bp_excerpt = [0xE2A, 0xE23, 0xE38, 0xE1B, 0xE2A, 0xE34, 0xE17, 0xE18, 0xE34, 0xE1B, 0xE23, 0xE30,
         0xE42, 0xE22, 0xE0A, 0xE19, 0xE4C, 0xE17, 0xE32, 0xE07, 0xE20, 0xE32, 0xE29, 0xE35,
         0xE17, 0xE35, 0xE48, 0xE40, 0xE1B, 0xE47, 0xE19, 0xE44, 0xE1B, 0xE44, 0xE14, 0xE49,
         0xE08, 0xE32, 0xE01, 0xE01, 0xE32, 0xE23, 0xE25, 0xE07, 0xE17, 0xE38, 0xE19, 0xE1E,
         0xE25, 0xE31, 0xE07, 0xE07, 0xE32, 0xE19, 0xE41, 0xE2A, 0xE07, 0xE2D, 0xE32, 0xE17,
         0xE34, 0xE15, 0xE22, 0xE4C, 0x20, 0xE15, 0xE31, 0xE49, 0xE07, 0xE41, 0xE15, 0xE48, 0xE04,
         0xE48, 0xE32, 0xE40, 0xE2A, 0xE37, 0xE48, 0xE2D, 0xE21, 0xE23, 0xE32, 0xE04, 0xE32,
         0xE40, 0xE23, 0xE48, 0xE07] @ lit '' BOI '' @ [0xE44, 0xE1B, 0xE08, 0xE19, 0xE16, 0xE36,
         0xE07] @ lit '' Carbon Credit '' @ [0xE17, 0xE35, 0xE48, 0xE2D, 0xE32, 0xE08, 0xE44,
         0xE14, 0xE49, 0xE23, 0xE31, 0xE1A],
       bp_category = lit ''Investment & Tax'',
       bp_categoryKey = lit ''investment'',
       bp_date = lit ''20 '' @ [0xE21, 0xE35, 0x2E, 0xE04] @ lit ''. 2025'',
       bp_readTime = lit ''5 '' @ [0xE19, 0xE32, 0xE17, 0xE35],
       bp_image = lit ''https://images.unsplash.com/photo-1554224155-6726b3ff858f?w=600&h=400&fit=crop'',
       bp_featured = False,
       bp_author = [0xE17, 0xE35, 0xE21, 0xE17, 0xE35, 0xE48, 0xE1B, 0xE23, 0xE36, 0xE01, 0xE29, 0xE32,
         0xE01, 0xE32, 0xE23, 0xE25, 0xE07, 0xE17, 0xE38, 0xE19] @ lit '' SIRINX'',
       bp_tags = [[0xE20, 0xE32, 0xE29, 0xE35], lit ''BOI'' , [0xE04, 0xE48, 0xE32, 0xE40, 0xE2A, 0xE37,
          0xE48, 0xE2D, 0xE21, 0xE23, 0xE32, 0xE04, 0xE32], lit ''Carbon Credit'' ]\<rparr>,
      \<lparr>bp_slug = lit ''bess-peak-shaving'',
       bp_title = lit ''BESS '' @ [0xE01, 0xE31, 0xE1A] @ lit '' Peak Shaving: '' @ [0xE25, 0xE14, 0xE04,
         0xE48, 0xE32] @ lit '' Demand Charge '' @ [0xE2D, 0xE22, 0xE48, 0xE32, 0xE07, 0xE44,
         0xE23],
       bp_excerpt = [0xE40, 0xE02, 0xE49, 0xE32, 0xE43, 0xE08, 0xE2B, 0xE25, 0xE31, 0xE01, 0xE01, 0xE32,
         0xE23] @ lit '' Peak Shaving '' @ [0xE14, 0xE49, 0xE27, 0xE22] @
         lit '' Battery Energy Storage System '' @ [0xE27, 0xE34, 0xE18, 0xE35, 0xE04, 0xE33,
         0xE19, 0xE27, 0xE13, 0xE04, 0xE27, 0xE32, 0xE21, 0xE04, 0xE38, 0xE49, 0xE21, 0xE04,
         0xE48, 0xE32, 0x20, 0xE41, 0xE25, 0xE30, 0xE01, 0xE23, 0xE13, 0xE35, 0xE28, 0xE36, 0xE01,
         0xE29, 0xE32, 0xE08, 0xE32, 0xE01, 0xE42, 0xE23, 0xE07, 0xE07, 0xE32, 0xE19, 0xE17,
         0xE35, 0xE48, 0xE25, 0xE14, 0xE04, 0xE48, 0xE32] @ lit '' demand charge '' @ [0xE44,
         0xE14, 0xE49] @ lit '' 30%'',
       bp_category = lit ''Solar Technology'',
       bp_categoryKey = lit ''solar-tech'',
       bp_date = lit ''15 '' @ [0xE21, 0xE35, 0x2E, 0xE04] @ lit ''. 2025'',
       bp_readTime = lit ''6 '' @ [0xE19, 0xE32, 0xE17, 0xE35],
       bp_image = lit ''https://images.unsplash.com/photo-1473341304170-971dccb5ac1e?w=600&h=400&fit=crop'',
       bp_featured = False,
       bp_author = [0xE17, 0xE35, 0xE21, 0xE27, 0xE34, 0xE28, 0xE27, 0xE01, 0xE23, 0xE23, 0xE21] @
         lit '' SIRINX'',
       bp_tags = [lit ''BESS'', lit ''Peak Shaving'' , lit ''Demand Charge'' , [0xE41, 0xE1A, 0xE15,
          0xE40, 0xE15, 0xE2D, 0xE23, 0xE35, 0xE48]]\<rparr>,
      \<lparr>bp_slug = lit ''esg-solar-reporting'',
       bp_title = lit ''ESG Reporting '' @ [0xE01, 0xE31, 0xE1A, 0xE1E, 0xE25, 0xE31, 0xE07, 0xE07, 0xE32,
         0xE19, 0xE42, 0xE0B, 0xE25, 0xE32, 0xE23, 0xE4C] @ lit '': '' @ [0xE2A, 0xE34, 0xE48,
         0xE07, 0xE17, 0xE35, 0xE48, 0xE18, 0xE38, 0xE23, 0xE01, 0xE34, 0xE08, 0xE15, 0xE49,
         0xE2D, 0xE07, 0xE23, 0xE39, 0xE49],
       bp_excerpt = [0xE41, 0xE19, 0xE27, 0xE17, 0xE32, 0xE07, 0xE01, 0xE32, 0xE23, 0xE23, 0xE32, 0xE22,
         0xE07, 0xE32, 0xE19] @ lit '' ESG '' @ [0xE2A, 0xE33, 0xE2B, 0xE23, 0xE31, 0xE1A, 0xE18,
         0xE38, 0xE23, 0xE01, 0xE34, 0xE08, 0xE17, 0xE35, 0xE48, 0xE43, 0xE0A, 0xE49, 0xE1E,
         0xE25, 0xE31, 0xE07, 0xE07, 0xE32, 0xE19, 0xE42, 0xE0B, 0xE25, 0xE32, 0xE23, 0xE4C, 0x20,
         0xE15, 0xE31, 0xE49, 0xE07, 0xE41, 0xE15, 0xE48, 0xE01, 0xE32, 0xE23, 0xE04, 0xE33,
         0xE19, 0xE27, 0xE13] @ lit '' Carbon Footprint '' @ [0xE44, 0xE1B, 0xE08, 0xE19, 0xE16,
         0xE36, 0xE07] @ lit '' Scope 2 Emissions '' @ [0xE15, 0xE32, 0xE21, 0xE21, 0xE32, 0xE15,
         0xE23, 0xE10, 0xE32, 0xE19] @ lit '' GRI'',
       bp_category = lit ''ESG & Sustainability'',
       bp_categoryKey = lit ''esg'',
       bp_date = lit ''8 '' @ [0xE21, 0xE35, 0x2E, 0xE04] @ lit ''. 2025'',
       bp_readTime = lit ''7 '' @ [0xE19, 0xE32, 0xE17, 0xE35],
       bp_image = lit ''https://images.unsplash.com/photo-1497435334941-8c899ee9e8e9?w=600&h=400&fit=crop'',
       bp_featured = False,
       bp_author = [0xE17, 0xE35, 0xE21] @ lit '' ESG SIRINX'',
       bp_tags = [lit ''ESG'', lit ''Carbon Footprint'' , lit ''Scope 2'' , lit ''GRI'' ]\<rparr>,
      \<lparr>bp_slug = lit ''solar-panel-comparison-2025'',
       bp_title = [0xE40, 0xE1B, 0xE23, 0xE35, 0xE22, 0xE1A, 0xE40, 0xE17, 0xE35, 0xE22, 0xE1A, 0xE41,
         0xE1C, 0xE07, 0xE42, 0xE0B, 0xE25, 0xE32, 0xE23, 0xE4C] @
         lit '' 2025: Mono PERC vs TOPCon vs HJT'',
       bp_excerpt = [0xE40, 0xE1B, 0xE23, 0xE35, 0xE22, 0xE1A, 0xE40, 0xE17, 0xE35, 0xE22, 0xE1A, 0xE40,
         0xE17, 0xE04, 0xE42, 0xE19, 0xE42, 0xE25, 0xE22, 0xE35, 0xE41, 0xE1C, 0xE07, 0xE42,
         0xE0B, 0xE25, 0xE32, 0xE23, 0xE4C] @ lit '' 3 '' @ [0xE1B, 0xE23, 0xE30, 0xE40, 0xE20,
         0xE17, 0xE2B, 0xE25, 0xE31, 0xE01, 0xE43, 0xE19, 0xE1B, 0xE35] @ lit '' 2025 '' @ [0xE17,
         0xE31, 0xE49, 0xE07, 0xE1B, 0xE23, 0xE30, 0xE2A, 0xE34, 0xE17, 0xE18, 0xE34, 0xE20,
         0xE32, 0xE1E, 0x20, 0xE23, 0xE32, 0xE04, 0xE32, 0x20, 0xE2D, 0xE32, 0xE22, 0xE38, 0xE01,
         0xE32, 0xE23, 0xE43, 0xE0A, 0xE49, 0xE07, 0xE32, 0xE19, 0x20, 0xE41, 0xE25, 0xE30, 0xE04,
         0xE27, 0xE32, 0xE21, 0xE40, 0xE2B, 0xE21, 0xE32, 0xE30, 0xE2A, 0xE21, 0xE01, 0xE31,
         0xE1A, 0xE2A, 0xE20, 0xE32, 0xE1E, 0xE2D, 0xE32, 0xE01, 0xE32, 0xE28, 0xE44, 0xE17,
         0xE22],
       bp_category = lit ''Solar Technology'',
       bp_categoryKey = lit ''solar-tech'',
       bp_date = lit ''1 '' @ [0xE21, 0xE35, 0x2E, 0xE04] @ lit ''. 2025'',
       bp_readTime = lit ''9 '' @ [0xE19, 0xE32, 0xE17, 0xE35],
       bp_image = lit ''https://images.unsplash.com/photo-1558449028-b53a39d100fc?w=600&h=400&fit=crop'',
       bp_featured = False,
       bp_author = [0xE17, 0xE35, 0xE21, 0xE27, 0xE34, 0xE28, 0xE27, 0xE01, 0xE23, 0xE23, 0xE21] @
         lit '' SIRINX'',
       bp_tags = [[0xE41, 0xE1C, 0xE07, 0xE42, 0xE0B, 0xE25, 0xE32, 0xE23, 0xE4C], lit ''TOPCon'' ,
          lit ''HJT'' , lit ''Mono PERC'' ]\<rparr>,
      \<lparr>bp_slug = lit ''net-metering-thailand-guide'',
       bp_title = lit ''Net Metering '' @ [0xE43, 0xE19, 0xE44, 0xE17, 0xE22] @ lit '': '' @ [0xE02, 0xE32,
         0xE22, 0xE44, 0xE1F, 0xE04, 0xE37, 0xE19, 0xE01, 0xE23, 0xE34, 0xE14, 0xE44, 0xE14,
         0xE49, 0xE08, 0xE23, 0xE34, 0xE07, 0xE2B, 0xE23, 0xE37, 0xE2D, 0x3F],
       bp_excerpt = [0xE2D, 0xE31, 0xE1E, 0xE40, 0xE14, 0xE15, 0xE2A, 0xE16, 0xE32, 0xE19, 0xE30] @
         lit '' Net Metering '' @ [0xE43, 0xE19, 0xE1B, 0xE23, 0xE30, 0xE40, 0xE17, 0xE28, 0xE44,
         0xE17, 0xE22, 0x20, 0xE02, 0xE49, 0xE2D, 0xE01, 0xE33, 0xE2B, 0xE19, 0xE14, 0xE02, 0xE2D,
         0xE07, 0x20, 0xE01, 0xE01, 0xE1E] @ lit ''. '' @ [0xE02, 0xE31, 0xE49, 0xE19, 0xE15,
         0xE2D, 0xE19, 0xE01, 0xE32, 0xE23, 0xE02, 0xE2D, 0x20, 0xE41, 0xE25, 0xE30, 0xE01, 0xE32,
         0xE23, 0xE04, 0xE33, 0xE19, 0xE27, 0xE13, 0xE23, 0xE32, 0xE22, 0xE44, 0xE14, 0xE49,
         0xE08, 0xE32, 0xE01, 0xE01, 0xE32, 0xE23, 0xE02, 0xE32, 0xE22, 0xE44, 0xE1F, 0xE04,
         0xE37, 0xE19],
       bp_category = lit ''Industry Insights'',
       bp_categoryKey = lit ''industry'',
       bp_date = lit ''22 '' @ [0xE01, 0x2E, 0xE1E] @ lit ''. 2025'',
       bp_readTime = lit ''6 '' @ [0xE19, 0xE32, 0xE17, 0xE35],
       bp_image = lit ''https://images.unsplash.com/photo-1466611653911-95081537e5b7?w=600&h=400&fit=crop'',
       bp_featured = False,
       bp_author = [0xE17, 0xE35, 0xE21, 0xE01, 0xE0E, 0xE2B, 0xE21, 0xE32, 0xE22, 0xE41, 0xE25, 0xE30,
         0xE19, 0xE42, 0xE22, 0xE1A, 0xE32, 0xE22] @ lit '' SIRINX'',
       bp_tags = [lit ''Net Metering'', [0xE01, 0xE01, 0xE1E, 0x2E], [0xE02, 0xE32, 0xE22, 0xE44, 0xE1F,
          0xE04, 0xE37, 0xE19], [0xE19, 0xE42, 0xE22, 0xE1A, 0xE32, 0xE22]]\<rparr>,
      \<lparr>bp_slug = lit ''solar-carport-ev-charging'',
       bp_title = lit ''Solar Carport + EV Charging: '' @ [0xE2D, 0xE19, 0xE32, 0xE04, 0xE15, 0xE17, 0xE35,
         0xE48, 0xE08, 0xE2D, 0xE14, 0xE23, 0xE16, 0xE2D, 0xE31, 0xE08, 0xE09, 0xE23, 0xE34,
         0xE22, 0xE30],
       bp_excerpt = [0xE41, 0xE19, 0xE27, 0xE04, 0xE34, 0xE14] @ lit '' Solar Carport '' @ [0xE17, 0xE35,
         0xE48, 0xE23, 0xE27, 0xE21] @ lit '' EV Charging Station '' @ [0xE44, 0xE27, 0xE49,
         0xE43, 0xE19, 0xE17, 0xE35, 0xE48, 0xE40, 0xE14, 0xE35, 0xE22, 0xE27, 0x20, 0xE40, 0xE2B,
         0xE21, 0xE32, 0xE30, 0xE01, 0xE31, 0xE1A, 0xE2B, 0xE49, 0xE32, 0xE07, 0xE2A, 0xE23,
         0xE23, 0xE1E, 0xE2A, 0xE34, 0xE19, 0xE04, 0xE49, 0xE32, 0x20, 0xE42, 0xE23, 0xE07, 0xE41,
         0xE23, 0xE21, 0x20, 0xE41, 0xE25, 0xE30, 0xE2D, 0xE32, 0xE04, 0xE32, 0xE23, 0xE2A, 0xE33,
         0xE19, 0xE31, 0xE01, 0xE07, 0xE32, 0xE19, 0x20, 0xE1E, 0xE23, 0xE49, 0xE2D, 0xE21, 0xE15,
         0xE31, 0xE27, 0xE2D, 0xE22, 0xE48, 0xE32, 0xE07, 0xE01, 0xE32, 0xE23, 0xE04, 0xE33,
         0xE19, 0xE27, 0xE13],
       bp_category = lit ''Solar Technology'',
       bp_categoryKey = lit ''solar-tech'',
       bp_date = lit ''15 '' @ [0xE01, 0x2E, 0xE1E] @ lit ''. 2025'',
       bp_readTime = lit ''5 '' @ [0xE19, 0xE32, 0xE17, 0xE35],
       bp_image = lit ''https://images.unsplash.com/photo-1593941707882-a5bba14938c7?w=600&h=400&fit=crop'',
       bp_featured = False,
       bp_author = [0xE17, 0xE35, 0xE21, 0xE27, 0xE34, 0xE28, 0xE27, 0xE01, 0xE23, 0xE23, 0xE21] @
         lit '' SIRINX'',
       bp_tags = [lit ''Solar Carport'', lit ''EV Charging'' , [0xE17, 0xE35, 0xE48, 0xE08, 0xE2D, 0xE14,
          0xE23, 0xE16], [0xE2D, 0xE32, 0xE04, 0xE32, 0xE23, 0xE1E, 0xE32, 0xE13, 0xE34, 0xE0A,
          0xE22, 0xE4C]]\<rparr>]"

section \<open>Metadata on the server\<close>

definition routeMetaMap :: "(jstr, page_meta) dict" where
  "routeMetaMap =
     [(lit ''/'', page
         (lit ''SIRINX | Solar Carport '' @ [0xE27, 0xE32, 0xE07, 0xE41, 0xE1C, 0xE19, 0xE25,
           0xE14, 0xE04, 0xE48, 0xE32, 0xE44, 0xE1F, 0xE2D, 0xE07, 0xE04, 0xE4C, 0xE01, 0xE23,
           0x20, 0xE1E, 0xE23, 0xE49, 0xE2D, 0xE21] @ lit '' EV Charger, BESS & AI Energy'')
         (lit ''SIRINX Solar Carport '' @ [0xE1C, 0xE25, 0xE34, 0xE15, 0xE44, 0xE1F, 0xE1F,
           0xE49, 0xE32, 0xE08, 0xE32, 0xE01, 0xE17, 0xE35, 0xE48, 0xE08, 0xE2D, 0xE14, 0xE23,
           0xE16, 0x20, 0xE23, 0xE2D, 0xE07, 0xE23, 0xE31, 0xE1A] @
           lit '' EV Charger + BESS + AI Energy '' @ [0xE1E, 0xE23, 0xE49, 0xE2D, 0xE21, 0xE1B,
           0xE23, 0xE30, 0xE40, 0xE21, 0xE34, 0xE19, 0xE1C, 0xE25, 0xE1B, 0xE23, 0xE30, 0xE2B,
           0xE22, 0xE31, 0xE14, 0xE41, 0xE25, 0xE30, 0xE04, 0xE37, 0xE19, 0xE17, 0xE38, 0xE19,
           0xE08, 0xE32, 0xE01, 0xE02, 0xE49, 0xE2D, 0xE21, 0xE39, 0xE25, 0xE44, 0xE0B, 0xE15,
           0xE4C, 0xE08, 0xE23, 0xE34, 0xE07])),
      (lit ''/solar-carport'', page
         (lit ''Solar Carport '' @ [0xE42, 0xE14, 0xE22] @ lit '' SIRINX | '' @ [0xE40, 0xE1B,
           0xE25, 0xE35, 0xE48, 0xE22, 0xE19, 0xE17, 0xE35, 0xE48, 0xE08, 0xE2D, 0xE14, 0xE23,
           0xE16, 0xE40, 0xE1B, 0xE47, 0xE19, 0xE42, 0xE23, 0xE07, 0xE44, 0xE1F, 0xE1F, 0xE49,
           0xE32, 0x20, 0xE1C, 0xE25, 0xE34, 0xE15, 0xE44, 0xE1F, 0xE1F, 0xE49, 0xE32, 0x2B,
           0xE23, 0xE48, 0xE21, 0xE40, 0xE07, 0xE32] @ lit ''+EV Charger'')
         (lit ''Solar Carport '' @ [0xE1C, 0xE25, 0xE34, 0xE15, 0xE44, 0xE1F, 0xE1F, 0xE49,
           0xE32, 0xE08, 0xE32, 0xE01, 0xE17, 0xE35, 0xE48, 0xE08, 0xE2D, 0xE14, 0xE23, 0xE16,
           0x20, 0xE43, 0xE2B, 0xE49, 0xE23, 0xE48, 0xE21, 0xE40, 0xE07, 0xE32, 0x20, 0xE23,
           0xE2D, 0xE07, 0xE23, 0xE31, 0xE1A] @ lit '' EV Charging + BESS + AI Energy '' @ [0xE41,
           0xE25, 0xE30, 0xE1B, 0xE23, 0xE30, 0xE40, 0xE21, 0xE34, 0xE19, 0xE04, 0xE27, 0xE32,
           0xE21, 0xE04, 0xE38, 0xE49, 0xE21, 0xE04, 0xE48, 0xE32, 0xE15, 0xE32, 0xE21, 0xE02,
           0xE49, 0xE2D, 0xE21, 0xE39, 0xE25, 0xE44, 0xE0B, 0xE15, 0xE4C, 0xE08, 0xE23, 0xE34,
           0xE07])),
      (lit ''/provinces'', page
         (lit ''Solar Carport 77 '' @ [0xE08, 0xE31, 0xE07, 0xE2B, 0xE27, 0xE31, 0xE14] @
           lit '' | '' @ [0xE40, 0xE25, 0xE37, 0xE2D, 0xE01, 0xE08, 0xE31, 0xE07, 0xE2B, 0xE27,
           0xE31, 0xE14, 0xE17, 0xE35, 0xE48, 0xE15, 0xE49, 0xE2D, 0xE07, 0xE01, 0xE32, 0xE23,
           0xE1B, 0xE23, 0xE30, 0xE40, 0xE21, 0xE34, 0xE19] @ lit '' | SIRINX'')
         ([0xE40, 0xE25, 0xE37, 0xE2D, 0xE01, 0xE08, 0xE31, 0xE07, 0xE2B, 0xE27, 0xE31, 0xE14,
           0xE40, 0xE1E, 0xE37, 0xE48, 0xE2D, 0xE14, 0xE39, 0xE41, 0xE19, 0xE27, 0xE17, 0xE32,
           0xE07, 0xE2D, 0xE2D, 0xE01, 0xE41, 0xE1A, 0xE1A] @
           lit '' Solar Carport, BESS, EV Charger '' @ [0xE41, 0xE25, 0xE30] @
           lit '' AI Energy Management '' @ [0xE02, 0xE2D, 0xE07] @ lit '' SIRINX '' @ [0xE04,
           0xE23, 0xE1A, 0xE17, 0xE31, 0xE49, 0xE07] @ lit '' 77 '' @ [0xE08, 0xE31, 0xE07, 0xE2B,
           0xE27, 0xE31, 0xE14, 0x20, 0xE1E, 0xE23, 0xE49, 0xE2D, 0xE21, 0xE02, 0xE49, 0xE2D,
           0xE21, 0xE39, 0xE25, 0xE17, 0xE35, 0xE48, 0xE15, 0xE49, 0xE2D, 0xE07, 0xE43, 0xE0A,
           0xE49, 0xE2A, 0xE33, 0xE23, 0xE27, 0xE08, 0xE2B, 0xE19, 0xE49, 0xE32, 0xE07, 0xE32,
           0xE19])),
      (lit ''/home-solution'', (page
         (lit ''Home Solar Solution '' @ [0xE1A, 0xE49, 0xE32, 0xE19, 0xE43, 0xE2B, 0xE0D, 0xE48,
           0xE41, 0xE25, 0xE30, 0xE42, 0xE2E, 0xE21, 0xE2D, 0xE2D, 0xE1F, 0xE1F, 0xE34, 0xE28] @
           lit '' | Rooftop Solar, Carport, BESS, EV | SIRINX'')
         (lit ''SIRINX Home Solar Solution '' @ [0xE2A, 0xE33, 0xE2B, 0xE23, 0xE31, 0xE1A, 0xE1A,
           0xE49, 0xE32, 0xE19, 0xE02, 0xE19, 0xE32, 0xE14, 0xE43, 0xE2B, 0xE0D, 0xE48, 0x20,
           0xE42, 0xE2E, 0xE21, 0xE2D, 0xE2D, 0xE1F, 0xE1F, 0xE34, 0xE28, 0x20, 0xE41, 0xE25,
           0xE30, 0xE42, 0xE04, 0xE23, 0xE07, 0xE01, 0xE32, 0xE23, 0xE2B, 0xE21, 0xE39, 0xE48,
           0xE1A, 0xE49, 0xE32, 0xE19, 0xE1E, 0xE23, 0xE35, 0xE40, 0xE21, 0xE35, 0xE22, 0xE21,
           0xE17, 0xE35, 0xE48, 0xE43, 0xE0A, 0xE49, 0xE44, 0xE1F, 0xE2A, 0xE39, 0xE07, 0x20,
           0xE1E, 0xE23, 0xE49, 0xE2D, 0xE21] @
           lit '' Rooftop Solar, Solar Carport, BESS, EV Charger, AI Energy Monitoring '' @
           [0xE41, 0xE25, 0xE30, 0xE2B, 0xE25, 0xE31, 0xE01, 0xE10, 0xE32, 0xE19] @
           lit '' commissioning''))\<lparr>pm_image := Some (PRODUCTION_BASE_URL @ lit ''/assets/home-solution/home-solution-drone-hero.jpg'')\<rparr>),
      (lit ''/about'', page
         (lit ''SIRINX '' @ [0xE04, 0xE37, 0xE2D, 0xE43, 0xE04, 0xE23] @ lit ''? '' @ [0xE1A,
           0xE23, 0xE34, 0xE29, 0xE31, 0xE17, 0xE15, 0xE34, 0xE14, 0xE15, 0xE31, 0xE49, 0xE07,
           0xE42, 0xE0B, 0xE25, 0xE32, 0xE23, 0xE4C, 0xE40, 0xE0B, 0xE25, 0xE25, 0xE4C] @
           lit '' + AI Energy '' @ [0xE02, 0xE2D, 0xE07, 0xE44, 0xE17, 0xE22])
         (lit ''SIRINX '' @ [0xE2D, 0xE2D, 0xE01, 0xE41, 0xE1A, 0xE1A, 0x20, 0xE15, 0xE34, 0xE14,
           0xE15, 0xE31, 0xE49, 0xE07, 0x20, 0xE41, 0xE25, 0xE30, 0xE14, 0xE39, 0xE41, 0xE25,
           0xE23, 0xE30, 0xE1A, 0xE1A, 0xE1E, 0xE25, 0xE31, 0xE07, 0xE07, 0xE32, 0xE19, 0xE2A,
           0xE30, 0xE2D, 0xE32, 0xE14, 0xE15, 0xE32, 0xE21, 0xE02, 0xE2D, 0xE1A, 0xE40, 0xE02,
           0xE15, 0xE42, 0xE04, 0xE23, 0xE07, 0xE01, 0xE32, 0xE23, 0x20, 0xE1E, 0xE23, 0xE49,
           0xE2D, 0xE21, 0xE43, 0xE0A, 0xE49, 0xE02, 0xE49, 0xE2D, 0xE21, 0xE39, 0xE25, 0xE2B,
           0xE19, 0xE49, 0xE32, 0xE07, 0xE32, 0xE19, 0xE40, 0xE1E, 0xE37, 0xE48, 0xE2D, 0xE0A,
           0xE48, 0xE27, 0xE22, 0xE18, 0xE38, 0xE23, 0xE01, 0xE34, 0xE08, 0xE27, 0xE32, 0xE07,
           0xE41, 0xE1C, 0xE19, 0xE25, 0xE14, 0xE15, 0xE49, 0xE19, 0xE17, 0xE38, 0xE19, 0xE1E,
           0xE25, 0xE31, 0xE07, 0xE07, 0xE32, 0xE19])),
      (lit ''/solutions'', page
         ([0xE42, 0xE0B, 0xE25, 0xE39, 0xE0A, 0xE31, 0xE19, 0xE42, 0xE0B, 0xE25, 0xE32, 0xE23,
           0xE4C, 0xE40, 0xE0B, 0xE25, 0xE25, 0xE4C] @
           lit '' | Rooftop Solar, Floating Solar, BESS, AI Energy'')
         ([0xE40, 0xE25, 0xE37, 0xE2D, 0xE01, 0xE42, 0xE0B, 0xE25, 0xE39, 0xE0A, 0xE31, 0xE19,
           0xE17, 0xE35, 0xE48, 0xE40, 0xE2B, 0xE21, 0xE32, 0xE30, 0xE01, 0xE31, 0xE1A, 0xE18,
           0xE38, 0xE23, 0xE01, 0xE34, 0xE08, 0xE04, 0xE38, 0xE13, 0x20, 0x2014, 0x20, 0xE42,
           0xE0B, 0xE25, 0xE32, 0xE23, 0xE4C, 0xE2B, 0xE25, 0xE31, 0xE07, 0xE04, 0xE32] @
           lit '', '' @ [0xE42, 0xE0B, 0xE25, 0xE32, 0xE23, 0xE4C, 0xE25, 0xE2D, 0xE22, 0xE19,
           0xE49, 0xE33] @ lit '', Solar Carport, '' @ [0xE41, 0xE1A, 0xE15, 0xE40, 0xE15, 0xE2D,
           0xE23, 0xE35, 0xE48, 0xE01, 0xE31, 0xE01, 0xE40, 0xE01, 0xE47, 0xE1A, 0xE1E, 0xE25,
           0xE31, 0xE07, 0xE07, 0xE32, 0xE19] @ lit '' BESS '' @ [0xE41, 0xE25, 0xE30] @
           lit '' AI '' @ [0xE27, 0xE34, 0xE40, 0xE04, 0xE23, 0xE32, 0xE30, 0xE2B, 0xE4C, 0xE01,
           0xE32, 0xE23, 0xE43, 0xE0A, 0xE49, 0xE44, 0xE1F, 0xE1F, 0xE49, 0xE32, 0xE41, 0xE1A,
           0xE1A] @ lit '' Real-time '' @ [0xE25, 0xE14, 0xE04, 0xE48, 0xE32, 0xE44, 0xE1F, 0xE17,
           0xE31, 0xE19, 0xE17, 0xE35])),
      (lit ''/industries'', page
         ([0xE42, 0xE0B, 0xE25, 0xE32, 0xE23, 0xE4C, 0xE40, 0xE0B, 0xE25, 0xE25, 0xE4C, 0xE2A,
           0xE33, 0xE2B, 0xE23, 0xE31, 0xE1A, 0xE42, 0xE23, 0xE07, 0xE07, 0xE32, 0xE19, 0x20,
           0xE42, 0xE23, 0xE07, 0xE41, 0xE23, 0xE21, 0x20, 0xE40, 0xE01, 0xE29, 0xE15, 0xE23,
           0x20, 0xE20, 0xE32, 0xE04, 0xE23, 0xE31, 0xE10] @ lit '' | '' @ [0xE25, 0xE14, 0xE04,
           0xE48, 0xE32, 0xE44, 0xE1F, 0xE40, 0xE09, 0xE1E, 0xE32, 0xE30, 0xE17, 0xE32, 0xE07])
         ([0xE42, 0xE0B, 0xE25, 0xE39, 0xE0A, 0xE31, 0xE19, 0xE42, 0xE0B, 0xE25, 0xE32, 0xE23,
           0xE4C, 0xE40, 0xE0B, 0xE25, 0xE25, 0xE4C, 0xE40, 0xE09, 0xE1E, 0xE32, 0xE30, 0xE2D,
           0xE38, 0xE15, 0xE2A, 0xE32, 0xE2B, 0xE01, 0xE23, 0xE23, 0xE21, 0x20, 0x2014, 0x20,
           0xE42, 0xE23, 0xE07, 0xE07, 0xE32, 0xE19, 0x20, 0xE42, 0xE23, 0xE07, 0xE41, 0xE23,
           0xE21, 0x20, 0xE40, 0xE01, 0xE29, 0xE15, 0xE23, 0x20, 0xE2A, 0xE16, 0xE32, 0xE19,
           0xE28, 0xE36, 0xE01, 0xE29, 0xE32, 0x20, 0xE2D, 0xE32, 0xE04, 0xE32, 0xE23, 0xE1E,
           0xE32, 0xE13, 0xE34, 0xE0A, 0xE22, 0xE4C, 0x20, 0xE20, 0xE32, 0xE04, 0xE23, 0xE31,
           0xE10, 0x20, 0xE2D, 0xE2D, 0xE01, 0xE41, 0xE1A, 0xE1A, 0xE23, 0xE30, 0xE1A, 0xE1A,
           0xE15, 0xE32, 0xE21, 0xE23, 0xE39, 0xE1B, 0xE41, 0xE1A, 0xE1A, 0xE01, 0xE32, 0xE23,
           0xE43, 0xE0A, 0xE49, 0xE44, 0xE1F, 0xE08, 0xE23, 0xE34, 0xE07, 0x20, 0xE25, 0xE14,
           0xE04, 0xE48, 0xE32, 0xE44, 0xE1F, 0xE17, 0xE31, 0xE19, 0xE17, 0xE35])),
      (lit ''/investment'', page
         ([0xE25, 0xE07, 0xE17, 0xE38, 0xE19, 0xE42, 0xE0B, 0xE25, 0xE32, 0xE23, 0xE4C, 0xE40,
           0xE0B, 0xE25, 0xE25, 0xE4C, 0x20, 0xE04, 0xE38, 0xE49, 0xE21, 0xE04, 0xE48, 0xE32,
           0xE41, 0xE04, 0xE48, 0xE44, 0xE2B, 0xE19] @ lit ''? ROI, '' @ [0xE2A, 0xE34, 0xE17,
           0xE18, 0xE34, 0xE4C] @ lit '' BOI, '' @ [0xE04, 0xE48, 0xE32, 0xE40, 0xE2A, 0xE37,
           0xE48, 0xE2D, 0xE21, 0xE40, 0xE23, 0xE48, 0xE07] @ lit '' | SIRINX'')
         ([0xE27, 0xE34, 0xE40, 0xE04, 0xE23, 0xE32, 0xE30, 0xE2B, 0xE4C, 0xE04, 0xE27, 0xE32,
           0xE21, 0xE04, 0xE38, 0xE49, 0xE21, 0xE04, 0xE48, 0xE32, 0xE25, 0xE07, 0xE17, 0xE38,
           0xE19, 0xE42, 0xE0B, 0xE25, 0xE32, 0xE23, 0xE4C, 0xE40, 0xE0B, 0xE25, 0xE25, 0xE4C,
           0x20, 0x2014, 0x20, 0xE0B, 0xE37, 0xE49, 0xE2D, 0xE02, 0xE32, 0xE14] @
           lit '' PPA Leasing '' @ [0xE1E, 0xE23, 0xE49, 0xE2D, 0xE21, 0xE15, 0xE23, 0xE27, 0xE08,
           0xE2A, 0xE34, 0xE17, 0xE18, 0xE34] @ lit '' BOI '' @ [0xE20, 0xE32, 0xE29, 0xE35, 0x20,
           0xE04, 0xE48, 0xE32, 0xE40, 0xE2A, 0xE37, 0xE48, 0xE2D, 0xE21, 0x20, 0xE41, 0xE25,
           0xE30, 0xE2A, 0xE21, 0xE21, 0xE15, 0xE34, 0xE10, 0xE32, 0xE19, 0xE04, 0xE37, 0xE19,
           0xE17, 0xE38, 0xE19, 0xE15, 0xE32, 0xE21, 0xE40, 0xE07, 0xE37, 0xE48, 0xE2D, 0xE19,
           0xE44, 0xE02, 0xE25, 0xE48, 0xE32, 0xE2A, 0xE38, 0xE14])),
      (lit ''/projects'', page (pi_title projectsPageMeta) (pi_description projectsPageMeta)),
      (lit ''/strategy'', page
         ([0xE27, 0xE32, 0xE07, 0xE41, 0xE1C, 0xE19, 0xE25, 0xE14, 0xE04, 0xE48, 0xE32, 0xE44,
           0xE1F, 0xE23, 0xE30, 0xE22, 0xE30, 0xE22, 0xE32, 0xE27] @ lit '' | '' @ [0xE01, 0xE25,
           0xE22, 0xE38, 0xE17, 0xE18, 0xE4C] @ lit '' Solar + BESS + AI Energy | SIRINX'')
         ([0xE27, 0xE32, 0xE07, 0xE01, 0xE25, 0xE22, 0xE38, 0xE17, 0xE18, 0xE4C, 0xE1E, 0xE25,
           0xE31, 0xE07, 0xE07, 0xE32, 0xE19, 0xE2A, 0xE30, 0xE2D, 0xE32, 0xE14, 0xE2A, 0xE33,
           0xE2B, 0xE23, 0xE31, 0xE1A, 0xE18, 0xE38, 0xE23, 0xE01, 0xE34, 0xE08, 0x20, 0x2014,
           0x20, 0xE40, 0xE23, 0xE34, 0xE48, 0xE21, 0xE08, 0xE32, 0xE01] @ lit '' Solar Rooftop ''
           @ [0xE15, 0xE48, 0xE2D, 0xE22, 0xE2D, 0xE14, 0xE14, 0xE49, 0xE27, 0xE22] @
           lit '' BESS '' @ [0xE01, 0xE31, 0xE01, 0xE40, 0xE01, 0xE47, 0xE1A, 0xE1E, 0xE25, 0xE31,
           0xE07, 0xE07, 0xE32, 0xE19, 0x20, 0xE41, 0xE25, 0xE30] @ lit '' AI Energy Management ''
           @ [0xE15, 0xE32, 0xE21, 0xE02, 0xE49, 0xE2D, 0xE21, 0xE39, 0xE25, 0xE01, 0xE32, 0xE23,
           0xE43, 0xE0A, 0xE49, 0xE44, 0xE1F, 0xE41, 0xE25, 0xE30, 0xE02, 0xE49, 0xE2D, 0xE08,
           0xE33, 0xE01, 0xE31, 0xE14, 0xE02, 0xE2D, 0xE07, 0xE44, 0xE0B, 0xE15, 0xE4C])),
      (lit ''/blog'', page
         ([0xE1A, 0xE17, 0xE04, 0xE27, 0xE32, 0xE21, 0xE42, 0xE0B, 0xE25, 0xE32, 0xE23, 0xE4C,
           0xE40, 0xE0B, 0xE25, 0xE25, 0xE4C] @ lit '' & '' @ [0xE1E, 0xE25, 0xE31, 0xE07, 0xE07,
           0xE32, 0xE19, 0xE2A, 0xE30, 0xE2D, 0xE32, 0xE14] @ lit '' | '' @ [0xE04, 0xE27, 0xE32,
           0xE21, 0xE23, 0xE39, 0xE49] @ lit '' ROI, BESS, AI Energy | SIRINX'')
         ([0xE2D, 0xE31, 0xE1E, 0xE40, 0xE14, 0xE15, 0xE04, 0xE27, 0xE32, 0xE21, 0xE23, 0xE39,
           0xE49, 0xE1E, 0xE25, 0xE31, 0xE07, 0xE07, 0xE32, 0xE19, 0xE2A, 0xE30, 0xE2D, 0xE32,
           0xE14, 0xE25, 0xE48, 0xE32, 0xE2A, 0xE38, 0xE14, 0x20, 0x2014, 0x20, 0xE27, 0xE34,
           0xE40, 0xE04, 0xE23, 0xE32, 0xE30, 0xE2B, 0xE4C] @ lit '' ROI '' @ [0xE42, 0xE0B,
           0xE25, 0xE32, 0xE23, 0xE4C, 0xE40, 0xE0B, 0xE25, 0xE25, 0xE4C] @ lit '', '' @ [0xE40,
           0xE17, 0xE04, 0xE42, 0xE19, 0xE42, 0xE25, 0xE22, 0xE35] @ lit '' BESS '' @ [0xE41,
           0xE1A, 0xE15, 0xE40, 0xE15, 0xE2D, 0xE23, 0xE35, 0xE48] @
           lit '', AI Energy Management, '' @ [0xE41, 0xE19, 0xE27, 0xE42, 0xE19, 0xE49, 0xE21,
           0xE23, 0xE32, 0xE04, 0xE32, 0xE41, 0xE1C, 0xE07, 0xE42, 0xE0B, 0xE25, 0xE32, 0xE23,
           0xE4C, 0x20, 0xE41, 0xE25, 0xE30, 0xE2A, 0xE34, 0xE17, 0xE18, 0xE34, 0xE1B, 0xE23,
           0xE30, 0xE42, 0xE22, 0xE0A, 0xE19, 0xE4C, 0xE17, 0xE32, 0xE07, 0xE20, 0xE32, 0xE29,
           0xE35])),
      (lit ''/contact'', page
         ([0xE19, 0xE31, 0xE14, 0xE2A, 0xE33, 0xE23, 0xE27, 0xE08, 0xE2B, 0xE19, 0xE49, 0xE32,
           0xE07, 0xE32, 0xE19, 0xE1F, 0xE23, 0xE35] @ lit '' | '' @ [0xE02, 0xE2D, 0xE43, 0xE1A,
           0xE40, 0xE2A, 0xE19, 0xE2D, 0xE23, 0xE32, 0xE04, 0xE32, 0xE42, 0xE0B, 0xE25, 0xE32,
           0xE23, 0xE4C, 0xE40, 0xE0B, 0xE25, 0xE25, 0xE4C] @ lit '' | SIRINX'')
         ([0xE1B, 0xE23, 0xE36, 0xE01, 0xE29, 0xE32, 0xE1F, 0xE23, 0xE35] @ lit ''! '' @ [0xE19,
           0xE31, 0xE14, 0xE17, 0xE35, 0xE21, 0xE27, 0xE34, 0xE28, 0xE27, 0xE01, 0xE23] @
           lit '' SIRINX '' @ [0xE2A, 0xE33, 0xE23, 0xE27, 0xE08, 0xE2B, 0xE19, 0xE49, 0xE32,
           0xE07, 0xE32, 0xE19, 0x20, 0xE1B, 0xE23, 0xE30, 0xE40, 0xE21, 0xE34, 0xE19, 0xE04,
           0xE48, 0xE32, 0xE44, 0xE1F, 0x20, 0xE41, 0xE25, 0xE30, 0xE2D, 0xE2D, 0xE01, 0xE41,
           0xE1A, 0xE1A, 0xE23, 0xE30, 0xE1A, 0xE1A, 0xE42, 0xE0B, 0xE25, 0xE32, 0xE23, 0xE4C,
           0xE40, 0xE0B, 0xE25, 0xE25, 0xE4C, 0xE40, 0xE09, 0xE1E, 0xE32, 0xE30, 0xE2D, 0xE32,
           0xE04, 0xE32, 0xE23, 0xE02, 0xE2D, 0xE07, 0xE04, 0xE38, 0xE13, 0xE15, 0xE32, 0xE21,
           0xE02, 0xE49, 0xE2D, 0xE21, 0xE39, 0xE25, 0xE08, 0xE23, 0xE34, 0xE07, 0x20, 0xE1E,
           0xE23, 0xE49, 0xE2D, 0xE21, 0xE0A, 0xE48, 0xE2D, 0xE07, 0xE17, 0xE32, 0xE07, 0xE02,
           0xE2D, 0xE43, 0xE1A, 0xE40, 0xE2A, 0xE19, 0xE2D, 0xE23, 0xE32, 0xE04, 0xE32, 0x20,
           0xE42, 0xE17, 0xE23] @ lit '', LINE '' @ [0xE2B, 0xE23, 0xE37, 0xE2D, 0xE01, 0xE23,
           0xE2D, 0xE01, 0xE41, 0xE1A, 0xE1A, 0xE1F, 0xE2D, 0xE23, 0xE4C, 0xE21])),
      (lit ''/line'', page
         ([0xE15, 0xE34, 0xE14, 0xE15, 0xE48, 0xE2D] @ lit '' SIRINX '' @ [0xE1C, 0xE48, 0xE32,
           0xE19] @ lit '' LINE Official | Solar Carport, Rooftop Solar, BESS, EV Charger'')
         ([0xE40, 0xE1E, 0xE34, 0xE48, 0xE21, 0xE40, 0xE1E, 0xE37, 0xE48, 0xE2D, 0xE19] @
           lit '' LINE Official '' @ [0xE02, 0xE2D, 0xE07] @ lit '' SIRINX '' @ [0xE40, 0xE1E,
           0xE37, 0xE48, 0xE2D, 0xE2A, 0xE48, 0xE07, 0xE1A, 0xE34, 0xE25, 0xE04, 0xE48, 0xE32,
           0xE44, 0xE1F, 0x20, 0xE23, 0xE39, 0xE1B, 0xE1E, 0xE37, 0xE49, 0xE19, 0xE17, 0xE35,
           0xE48, 0x20, 0xE41, 0xE25, 0xE30, 0xE02, 0xE2D, 0xE1B, 0xE23, 0xE30, 0xE40, 0xE21,
           0xE34, 0xE19, 0xE23, 0xE30, 0xE1A, 0xE1A] @
           lit '' Solar Carport, Rooftop Solar, BESS '' @ [0xE41, 0xE25, 0xE30] @
           lit '' EV Charger '' @ [0xE40, 0xE1A, 0xE37, 0xE49, 0xE2D, 0xE07, 0xE15, 0xE49, 0xE19])),
      (lit ''/assessment'', page
         ([0xE04, 0xE33, 0xE19, 0xE27, 0xE13, 0xE04, 0xE48, 0xE32, 0xE44, 0xE1F, 0xE17, 0xE35,
           0xE48, 0xE1B, 0xE23, 0xE30, 0xE2B, 0xE22, 0xE31, 0xE14, 0xE44, 0xE14, 0xE49] @
           lit '' | '' @ [0xE1B, 0xE23, 0xE30, 0xE40, 0xE21, 0xE34, 0xE19, 0xE04, 0xE27, 0xE32,
           0xE21, 0xE04, 0xE38, 0xE49, 0xE21, 0xE04, 0xE48, 0xE32, 0xE42, 0xE0B, 0xE25, 0xE32,
           0xE23, 0xE4C, 0xE40, 0xE0B, 0xE25, 0xE25, 0xE4C, 0xE1F, 0xE23, 0xE35] @
           lit '' | SIRINX'')
         ([0xE01, 0xE23, 0xE2D, 0xE01, 0xE02, 0xE49, 0xE2D, 0xE21, 0xE39, 0xE25, 0xE04, 0xE48,
           0xE32, 0xE44, 0xE1F, 0xE23, 0xE32, 0xE22, 0xE40, 0xE14, 0xE37, 0xE2D, 0xE19, 0xE40,
           0xE1E, 0xE37, 0xE48, 0xE2D, 0xE23, 0xE31, 0xE1A, 0xE1C, 0xE25, 0xE1B, 0xE23, 0xE30,
           0xE40, 0xE21, 0xE34, 0xE19, 0xE40, 0xE1A, 0xE37, 0xE49, 0xE2D, 0xE07, 0xE15, 0xE49,
           0xE19, 0x20, 0x2014, 0x20, 0xE04, 0xE33, 0xE19, 0xE27, 0xE13, 0xE2A, 0xE21, 0xE21,
           0xE15, 0xE34, 0xE10, 0xE32, 0xE19] @ lit '' ROI '' @ [0xE23, 0xE30, 0xE22, 0xE30,
           0xE40, 0xE27, 0xE25, 0xE32, 0xE04, 0xE37, 0xE19, 0xE17, 0xE38, 0xE19, 0x20, 0xE41,
           0xE25, 0xE30, 0xE02, 0xE19, 0xE32, 0xE14, 0xE23, 0xE30, 0xE1A, 0xE1A] @ lit '' Solar ''
           @ [0xE17, 0xE35, 0xE48, 0xE40, 0xE2B, 0xE21, 0xE32, 0xE30, 0xE01, 0xE31, 0xE1A, 0xE18,
           0xE38, 0xE23, 0xE01, 0xE34, 0xE08, 0xE04, 0xE38, 0xE13])),
      (lit ''/pricing'', page
         ([0xE41, 0xE1E, 0xE47, 0xE04, 0xE40, 0xE01, 0xE08, 0xE23, 0xE32, 0xE04, 0xE32] @
           lit '' Solar Carport | Start / Pro / Enterprise '' @ [0xE1E, 0xE23, 0xE49, 0xE2D,
           0xE21] @ lit '' EV Charger | SIRINX'')
         ([0xE40, 0xE1B, 0xE23, 0xE35, 0xE22, 0xE1A, 0xE40, 0xE17, 0xE35, 0xE22, 0xE1A, 0xE01,
           0xE23, 0xE2D, 0xE1A, 0xE1A, 0xE23, 0xE34, 0xE01, 0xE32, 0xE23] @
           lit '' Solar Carport '' @ [0xE23, 0xE30, 0xE14, 0xE31, 0xE1A] @
           lit '' Start / Pro / Enterprise '' @ [0x2014, 0x20, 0xE1C, 0xE25, 0xE34, 0xE15, 0xE44,
           0xE1F, 0xE1F, 0xE49, 0xE32, 0x20, 0xE43, 0xE2B, 0xE49, 0xE23, 0xE48, 0xE21, 0xE40,
           0xE07, 0xE32, 0x20, 0xE23, 0xE2D, 0xE07, 0xE23, 0xE31, 0xE1A] @ lit '' EV Charger '' @
           [0xE41, 0xE25, 0xE30, 0xE1B, 0xE23, 0xE30, 0xE40, 0xE21, 0xE34, 0xE19, 0xE04, 0xE27,
           0xE32, 0xE21, 0xE04, 0xE38, 0xE49, 0xE21, 0xE04, 0xE48, 0xE32, 0xE15, 0xE32, 0xE21,
           0xE44, 0xE0B, 0xE15, 0xE4C, 0xE08, 0xE23, 0xE34, 0xE07])),
      (lit ''/partner'', page
         ([0xE23, 0xE48, 0xE27, 0xE21, 0xE40, 0xE1B, 0xE47, 0xE19, 0xE1E, 0xE31, 0xE19, 0xE18,
           0xE21, 0xE34, 0xE15, 0xE23, 0xE1E, 0xE25, 0xE31, 0xE07, 0xE07, 0xE32, 0xE19, 0xE2A,
           0xE30, 0xE2D, 0xE32, 0xE14, 0xE01, 0xE31, 0xE1A] @ lit '' SIRINX'')
         ([0xE40, 0xE1B, 0xE34, 0xE14, 0xE23, 0xE31, 0xE1A, 0xE1E, 0xE31, 0xE19, 0xE18, 0xE21,
           0xE34, 0xE15, 0xE23, 0xE14, 0xE49, 0xE32, 0xE19] @ lit '' EPC, EV Charging, BESS, '' @
           [0xE2D, 0xE2A, 0xE31, 0xE07, 0xE2B, 0xE32, 0xE23, 0xE34, 0xE21, 0xE17, 0xE23, 0xE31,
           0xE1E, 0xE22, 0xE4C, 0x20, 0xE41, 0xE25, 0xE30, 0xE01, 0xE32, 0xE23, 0xE25, 0xE07,
           0xE17, 0xE38, 0xE19, 0xE1E, 0xE25, 0xE31, 0xE07, 0xE07, 0xE32, 0xE19, 0xE2A, 0xE30,
           0xE2D, 0xE32, 0xE14, 0xE01, 0xE31, 0xE1A] @ lit '' SIRINX'')),
      (lit ''/privacy'', page
         ([0xE19, 0xE42, 0xE22, 0xE1A, 0xE32, 0xE22, 0xE04, 0xE27, 0xE32, 0xE21, 0xE40, 0xE1B,
           0xE47, 0xE19, 0xE2A, 0xE48, 0xE27, 0xE19, 0xE15, 0xE31, 0xE27] @ lit '' | SIRINX'')
         ([0xE19, 0xE42, 0xE22, 0xE1A, 0xE32, 0xE22, 0xE01, 0xE32, 0xE23, 0xE40, 0xE01, 0xE47,
           0xE1A, 0x20, 0xE43, 0xE0A, 0xE49, 0x20, 0xE41, 0xE25, 0xE30, 0xE04, 0xE38, 0xE49,
           0xE21, 0xE04, 0xE23, 0xE2D, 0xE07, 0xE02, 0xE49, 0xE2D, 0xE21, 0xE39, 0xE25, 0xE2A,
           0xE48, 0xE27, 0xE19, 0xE1A, 0xE38, 0xE04, 0xE04, 0xE25, 0xE2A, 0xE33, 0xE2B, 0xE23,
           0xE31, 0xE1A, 0xE1C, 0xE39, 0xE49, 0xE43, 0xE0A, 0xE49, 0xE07, 0xE32, 0xE19, 0xE40,
           0xE27, 0xE47, 0xE1A, 0xE44, 0xE0B, 0xE15, 0xE4C] @ lit '' SIRINX '' @ [0xE41, 0xE25,
           0xE30, 0xE1C, 0xE39, 0xE49, 0xE2A, 0xE19, 0xE43, 0xE08, 0xE1A, 0xE23, 0xE34, 0xE01,
           0xE32, 0xE23, 0xE1E, 0xE25, 0xE31, 0xE07, 0xE07, 0xE32, 0xE19, 0xE2A, 0xE30, 0xE2D,
           0xE32, 0xE14])),
      (lit ''/terms'', page
         ([0xE40, 0xE07, 0xE37, 0xE48, 0xE2D, 0xE19, 0xE44, 0xE02, 0xE01, 0xE32, 0xE23, 0xE43,
           0xE0A, 0xE49, 0xE07, 0xE32, 0xE19] @ lit '' | SIRINX'')
         ([0xE40, 0xE07, 0xE37, 0xE48, 0xE2D, 0xE19, 0xE44, 0xE02, 0xE01, 0xE32, 0xE23, 0xE43,
           0xE0A, 0xE49, 0xE07, 0xE32, 0xE19, 0xE40, 0xE27, 0xE47, 0xE1A, 0xE44, 0xE0B, 0xE15,
           0xE4C] @ lit '' SIRINX '' @ [0xE02, 0xE49, 0xE2D, 0xE21, 0xE39, 0xE25, 0xE1A, 0xE23,
           0xE34, 0xE01, 0xE32, 0xE23, 0x20, 0xE43, 0xE1A, 0xE40, 0xE2A, 0xE19, 0xE2D, 0xE23,
           0xE32, 0xE04, 0xE32, 0x20, 0xE01, 0xE32, 0xE23, 0xE1B, 0xE23, 0xE30, 0xE40, 0xE21,
           0xE34, 0xE19, 0xE23, 0xE30, 0xE1A, 0xE1A, 0x20, 0xE41, 0xE25, 0xE30, 0xE02, 0xE49,
           0xE2D, 0xE08, 0xE33, 0xE01, 0xE31, 0xE14, 0xE04, 0xE27, 0xE32, 0xE21, 0xE23, 0xE31,
           0xE1A, 0xE1C, 0xE34, 0xE14, 0xE0A, 0xE2D, 0xE1A])),
      (lit ''/cookies'', page
         (lit ''Cookie Policy | SIRINX'')
         ([0xE19, 0xE42, 0xE22, 0xE1A, 0xE32, 0xE22, 0xE04, 0xE38, 0xE01, 0xE01, 0xE35, 0xE49,
           0xE02, 0xE2D, 0xE07, 0xE40, 0xE27, 0xE47, 0xE1A, 0xE44, 0xE0B, 0xE15, 0xE4C] @
           lit '' SIRINX '' @ [0xE2A, 0xE33, 0xE2B, 0xE23, 0xE31, 0xE1A, 0xE01, 0xE32, 0xE23,
           0xE27, 0xE34, 0xE40, 0xE04, 0xE23, 0xE32, 0xE30, 0xE2B, 0xE4C, 0xE01, 0xE32, 0xE23,
           0xE43, 0xE0A, 0xE49, 0xE07, 0xE32, 0xE19, 0x20, 0xE01, 0xE32, 0xE23, 0xE1B, 0xE23,
           0xE31, 0xE1A, 0xE1B, 0xE23, 0xE38, 0xE07, 0xE1B, 0xE23, 0xE30, 0xE2A, 0xE1A, 0xE01,
           0xE32, 0xE23, 0xE13, 0xE4C, 0x20, 0xE41, 0xE25, 0xE30, 0xE01, 0xE32, 0xE23, 0xE27,
           0xE31, 0xE14, 0xE1C, 0xE25, 0xE1A, 0xE23, 0xE34, 0xE01, 0xE32, 0xE23, 0xE2D, 0xE2D,
           0xE19, 0xE44, 0xE25, 0xE19, 0xE4C])),
      (lit ''/styleguide/motion'', (page
         (lit ''Motion Styleguide | SIRINX'')
         ([0xE2B, 0xE19, 0xE49, 0xE32, 0xE20, 0xE32, 0xE22, 0xE43, 0xE19, 0xE2A, 0xE33, 0xE2B,
           0xE23, 0xE31, 0xE1A, 0xE17, 0xE35, 0xE21] @ lit '': '' @ [0xE17, 0xE38, 0xE01, 0xE1E,
           0xE24, 0xE15, 0xE34, 0xE01, 0xE23, 0xE23, 0xE21] @ lit '' motion '' @ [0xE17, 0xE35,
           0xE48, 0xE43, 0xE0A, 0xE49, 0xE08, 0xE23, 0xE34, 0xE07, 0xE1A, 0xE19, 0xE40, 0xE27,
           0xE47, 0xE1A, 0xE44, 0xE0B, 0xE15, 0xE4C, 0x20, 0xE25, 0xE07, 0xE17, 0xE30, 0xE40,
           0xE1A, 0xE35, 0xE22, 0xE19, 0xE43, 0xE19] @ lit '' motionRegistry '' @ [0xE41, 0xE25,
           0xE30, 0xE1A, 0xE31, 0xE07, 0xE04, 0xE31, 0xE1A, 0xE14, 0xE49, 0xE27, 0xE22] @
           lit '' tests''))\<lparr>pm_noindex := True\<rparr>)]"

definition getProvinceRoute :: "thai_province \<Rightarrow> jstr" where
  "getProvinceRoute p = lit ''/solar-carport/'' @ tp_slug p"

definition getProvinceMeta :: "thai_province \<Rightarrow> page_meta" where
  "getProvinceMeta p =
     \<lparr>pm_title = Some ([0xE15, 0xE34, 0xE14, 0xE15, 0xE31, 0xE49, 0xE07] @ lit '' Solar Carport '' @ tp_nameTh p
        @ lit '' | '' @ [0xE42, 0xE0B, 0xE25, 0xE32, 0xE23, 0xE4C, 0xE17, 0xE35, 0xE48, 0xE08,
        0xE2D, 0xE14, 0xE23, 0xE16] @ lit '' EV Charger BESS | SIRINX''),
      pm_description = Some (lit ''SIRINX '' @ [0xE2D, 0xE2D, 0xE01, 0xE41, 0xE1A, 0xE1A, 0xE41, 0xE25, 0xE30, 0xE15,
        0xE34, 0xE14, 0xE15, 0xE31, 0xE49, 0xE07] @ lit '' Solar Carport '' @ tp_nameTh p @ [0x20,
        0xE2A, 0xE33, 0xE2B, 0xE23, 0xE31, 0xE1A, 0xE42, 0xE07, 0xE32, 0xE19, 0xE41, 0xE25, 0xE07,
        0xE41, 0xE25, 0xE30, 0xE25, 0xE32, 0xE19, 0xE08, 0xE2D, 0xE14, 0xE23, 0xE16, 0x20, 0xE1E,
        0xE23, 0xE49, 0xE2D, 0xE21] @ lit '' EV Charger '' @ [0xE41, 0xE25, 0xE30] @
        lit '' BESS '' @ [0xE42, 0xE14, 0xE22, 0xE2A, 0xE33, 0xE23, 0xE27, 0xE08, 0xE1E, 0xE37,
        0xE49, 0xE19, 0xE17, 0xE35, 0xE48, 0xE41, 0xE25, 0xE30, 0xE02, 0xE49, 0xE2D, 0xE21, 0xE39,
        0xE25, 0xE01, 0xE32, 0xE23, 0xE43, 0xE0A, 0xE49, 0xE44, 0xE1F, 0xE08, 0xE23, 0xE34, 0xE07,
        0xE01, 0xE48, 0xE2D, 0xE19, 0xE2D, 0xE2D, 0xE01, 0xE41, 0xE1A, 0xE1A]),
      pm_image = Some (PRODUCTION_BASE_URL @ lit ''/provinces/'' @ tp_slug p @ lit ''-og.jpg''),
      pm_noindex = False\<rparr>"

text \<open>An inherited member is an object without title, description or publication state.\<close>

definition getProjectDetailMeta :: "jstr \<Rightarrow> page_meta option" where
  "getProjectDetailMeta cleanPath =
     (if \<not> starts_with (lit ''/projects/'') cleanPath then None
      else
        (case getPublicProjectDetail (Some (remove_first (lit ''/projects/'') cleanPath)) of
           Missing \<Rightarrow> None
         | Inherited k \<Rightarrow>
             Some \<lparr>pm_title = None, pm_description = None, pm_image = None, pm_noindex = True\<rparr>
         | Own d \<Rightarrow>
             Some \<lparr>pm_title = Some (pd_seoTitle d), pm_description = Some (pd_seoDescription d),
               pm_image = None, pm_noindex = \<not> isProjectDetailIndexable d\<rparr>))"

definition getProvinceFromPath :: "jstr \<Rightarrow> thai_province option" where
  "getProvinceFromPath cleanPath =
     (if \<not> starts_with (lit ''/solar-carport/'') cleanPath then None
      else getProvinceBySlug (remove_first (lit ''/solar-carport/'') cleanPath))"

text \<open>\<open>urlPath.split("?")[0].split("#")[0].replace(/\/$/, "") || "/"\<close>.\<close>

definition clean_path :: "jstr \<Rightarrow> jstr" where
  "clean_path urlPath =
     (let p = strip_slash (hd (split_on 0x23 (hd (split_on 0x3F urlPath)))) in
      if p = [] then lit ''/'' else p)"

definition find_post :: "jstr \<Rightarrow> blog_post option" where
  "find_post cleanPath =
     List.find (\<lambda>item. bp_slug item = remove_first (lit ''/blog/'') cleanPath) blogPosts"

definition post_title :: "blog_post \<Rightarrow> jstr" where
  "post_title post = bp_title post @ lit '' | SIRINX Blog''"

definition post_meta :: "blog_post \<Rightarrow> page_meta" where
  "post_meta post =
     \<lparr>pm_title = Some (post_title post), pm_description = Some (bp_excerpt post),
      pm_image = Some (bp_image post), pm_noindex = False\<rparr>"

definition project_not_found :: page_meta where
  "project_not_found = (page
     ([0xE44, 0xE21, 0xE48, 0xE1E, 0xE1A, 0xE23, 0xE32, 0xE22, 0xE25, 0xE30, 0xE40, 0xE2D,
        0xE35, 0xE22, 0xE14, 0xE42, 0xE04, 0xE23, 0xE07, 0xE01, 0xE32, 0xE23] @ lit '' | SIRINX'')
     ([0xE23, 0xE32, 0xE22, 0xE25, 0xE30, 0xE40, 0xE2D, 0xE35, 0xE22, 0xE14, 0xE42, 0xE04,
        0xE23, 0xE07, 0xE01, 0xE32, 0xE23, 0xE19, 0xE35, 0xE49, 0xE22, 0xE31, 0xE07, 0xE44, 0xE21,
        0xE48, 0xE21, 0xE35, 0xE02, 0xE49, 0xE2D, 0xE21, 0xE39, 0xE25, 0xE2A, 0xE32, 0xE18, 0xE32,
        0xE23, 0xE13, 0xE30, 0xE17, 0xE35, 0xE48, 0xE1C, 0xE48, 0xE32, 0xE19, 0xE01, 0xE32, 0xE23,
        0xE15, 0xE23, 0xE27, 0xE08, 0xE2A, 0xE2D, 0xE1A, 0x20, 0xE2B, 0xE23, 0xE37, 0xE2D, 0xE22,
        0xE31, 0xE07, 0xE44, 0xE21, 0xE48, 0xE2D, 0xE19, 0xE38, 0xE21, 0xE31, 0xE15, 0xE34, 0xE43,
        0xE2B, 0xE49, 0xE40, 0xE1C, 0xE22, 0xE41, 0xE1E, 0xE23, 0xE48]))\<lparr>pm_noindex := True\<rparr>"

definition page_not_found :: page_meta where
  "page_not_found = (page
     ([0xE44, 0xE21, 0xE48, 0xE1E, 0xE1A, 0xE2B, 0xE19, 0xE49, 0xE32, 0xE17, 0xE35, 0xE48,
        0xE04, 0xE38, 0xE13, 0xE15, 0xE49, 0xE2D, 0xE07, 0xE01, 0xE32, 0xE23] @ lit '' | SIRINX'')
     ([0xE2B, 0xE19, 0xE49, 0xE32, 0xE19, 0xE35, 0xE49, 0xE2D, 0xE32, 0xE08, 0xE16, 0xE39,
        0xE01, 0xE22, 0xE49, 0xE32, 0xE22, 0xE2B, 0xE23, 0xE37, 0xE2D, 0xE25, 0xE1A, 0xE44, 0xE1B,
        0xE41, 0xE25, 0xE49, 0xE27, 0x20, 0xE01, 0xE23, 0xE38, 0xE13, 0xE32, 0xE01, 0xE25, 0xE31,
        0xE1A, 0xE44, 0xE1B, 0xE2B, 0xE19, 0xE49, 0xE32, 0xE2B, 0xE25, 0xE31, 0xE01, 0xE02, 0xE2D,
        0xE07] @ lit '' SIRINX''))\<lparr>pm_noindex := True\<rparr>"

definition getPageMeta :: "jstr \<Rightarrow> page_meta" where
  "getPageMeta urlPath =
     (let cleanPath = clean_path urlPath in
      case js_index routeMetaMap cleanPath of
        Own m \<Rightarrow> m
      | Inherited k \<Rightarrow>
          \<lparr>pm_title = None, pm_description = None, pm_image = None, pm_noindex = False\<rparr>
      | Missing \<Rightarrow>
          (case getProvinceFromPath cleanPath of
             Some p \<Rightarrow> getProvinceMeta p
           | None \<Rightarrow>
               (case getProjectDetailMeta cleanPath of
                  Some m \<Rightarrow> m
                | None \<Rightarrow>
                    if starts_with (lit ''/projects/'') cleanPath then project_not_found
                    else if starts_with (lit ''/blog/'') cleanPath then
                      (case find_post cleanPath of
                         Some post \<Rightarrow> post_meta post
                       | None \<Rightarrow> page_not_found)
                    else page DEFAULT_TITLE DEFAULT_DESC)))"

definition getStaticSeoRoutes :: "jstr list" where
  "getStaticSeoRoutes =
     dict_keys routeMetaMap @ map getProvinceRoute thaiProvinces @
     map (\<lambda>slug. lit ''/projects/'' @ slug) getAllProjectDetailSlugs @
     map (\<lambda>post. lit ''/blog/'' @ bp_slug post) blogPosts"

definition getSitemapRoutes :: "jstr list \<Rightarrow> jstr list" where
  "getSitemapRoutes routes = filter (\<lambda>route. \<not> pm_noindex (getPageMeta route)) routes"

definition buildCanonicalUrl :: "jstr \<Rightarrow> jstr \<Rightarrow> jstr" where
  "buildCanonicalUrl baseUrl urlPath =
     (let cleanPath = clean_path urlPath in
      if cleanPath = lit ''/'' then baseUrl @ lit ''/'' else baseUrl @ cleanPath @ lit ''/'')"

section \<open>Metadata on the client\<close>

definition metaByPath :: "(jstr, page_meta) dict" where
  "metaByPath =
     [(lit ''/'', page
         (lit ''SIRINX | Solar Carport '' @ [0xE25, 0xE14, 0xE04, 0xE48, 0xE32, 0xE44, 0xE1F,
           0xE2D, 0xE07, 0xE04, 0xE4C, 0xE01, 0xE23, 0x20, 0xE1E, 0xE23, 0xE49, 0xE2D, 0xE21] @
           lit '' EV Charger, BESS '' @ [0xE41, 0xE25, 0xE30] @ lit '' AI Energy'')
         (lit ''SIRINX '' @ [0xE2D, 0xE2D, 0xE01, 0xE41, 0xE1A, 0xE1A, 0xE41, 0xE25, 0xE30,
           0xE15, 0xE34, 0xE14, 0xE15, 0xE31, 0xE49, 0xE07] @
           lit '' Solar Carport, Rooftop Solar, BESS, EV Charger '' @ [0xE41, 0xE25, 0xE30] @
           lit '' AI Energy Management '' @ [0xE2A, 0xE33, 0xE2B, 0xE23, 0xE31, 0xE1A, 0xE42,
           0xE23, 0xE07, 0xE07, 0xE32, 0xE19, 0x20, 0xE2D, 0xE32, 0xE04, 0xE32, 0xE23, 0x20,
           0xE42, 0xE23, 0xE07, 0xE41, 0xE23, 0xE21, 0x20, 0xE41, 0xE25, 0xE30, 0xE18, 0xE38,
           0xE23, 0xE01, 0xE34, 0xE08, 0xE44, 0xE17, 0xE22])),
      (lit ''/solar-carport'', page
         (lit ''Solar Carport '' @ [0xE2A, 0xE33, 0xE2B, 0xE23, 0xE31, 0xE1A, 0xE18, 0xE38,
           0xE23, 0xE01, 0xE34, 0xE08] @ lit '' | '' @ [0xE40, 0xE1B, 0xE25, 0xE35, 0xE48, 0xE22,
           0xE19, 0xE17, 0xE35, 0xE48, 0xE08, 0xE2D, 0xE14, 0xE23, 0xE16, 0xE40, 0xE1B, 0xE47,
           0xE19, 0xE42, 0xE23, 0xE07, 0xE44, 0xE1F, 0xE1F, 0xE49, 0xE32] @ lit '' | SIRINX'')
         (lit ''Solar Carport '' @ [0xE1C, 0xE25, 0xE34, 0xE15, 0xE44, 0xE1F, 0xE1F, 0xE49,
           0xE32, 0xE08, 0xE32, 0xE01, 0xE25, 0xE32, 0xE19, 0xE08, 0xE2D, 0xE14, 0xE23, 0xE16,
           0x20, 0xE43, 0xE2B, 0xE49, 0xE23, 0xE48, 0xE21, 0xE40, 0xE07, 0xE32, 0x20, 0xE23,
           0xE2D, 0xE07, 0xE23, 0xE31, 0xE1A] @ lit '' EV Charger '' @ [0xE41, 0xE25, 0xE30] @
           lit '' BESS '' @ [0xE1E, 0xE23, 0xE49, 0xE2D, 0xE21, 0xE1B, 0xE23, 0xE30, 0xE40, 0xE21,
           0xE34, 0xE19] @ lit '' ROI '' @ [0xE08, 0xE32, 0xE01, 0xE02, 0xE49, 0xE2D, 0xE21,
           0xE39, 0xE25, 0xE44, 0xE0B, 0xE15, 0xE4C, 0xE08, 0xE23, 0xE34, 0xE07, 0xE42, 0xE14,
           0xE22] @ lit '' SIRINX'')),
      (lit ''/provinces'', page
         (lit ''Solar Carport 77 '' @ [0xE08, 0xE31, 0xE07, 0xE2B, 0xE27, 0xE31, 0xE14] @
           lit '' | '' @ [0xE40, 0xE25, 0xE37, 0xE2D, 0xE01, 0xE08, 0xE31, 0xE07, 0xE2B, 0xE27,
           0xE31, 0xE14, 0xE17, 0xE35, 0xE48, 0xE15, 0xE49, 0xE2D, 0xE07, 0xE01, 0xE32, 0xE23,
           0xE1B, 0xE23, 0xE30, 0xE40, 0xE21, 0xE34, 0xE19] @ lit '' | SIRINX'')
         ([0xE40, 0xE25, 0xE37, 0xE2D, 0xE01, 0xE08, 0xE31, 0xE07, 0xE2B, 0xE27, 0xE31, 0xE14,
           0xE40, 0xE1E, 0xE37, 0xE48, 0xE2D, 0xE14, 0xE39, 0xE41, 0xE19, 0xE27, 0xE17, 0xE32,
           0xE07, 0xE2D, 0xE2D, 0xE01, 0xE41, 0xE1A, 0xE1A] @
           lit '' Solar Carport, BESS, EV Charger '' @ [0xE41, 0xE25, 0xE30] @
           lit '' AI Energy Management '' @ [0xE02, 0xE2D, 0xE07] @ lit '' SIRINX '' @ [0xE04,
           0xE23, 0xE1A, 0xE17, 0xE31, 0xE49, 0xE07] @ lit '' 77 '' @ [0xE08, 0xE31, 0xE07, 0xE2B,
           0xE27, 0xE31, 0xE14, 0x20, 0xE1E, 0xE23, 0xE49, 0xE2D, 0xE21, 0xE02, 0xE49, 0xE2D,
           0xE21, 0xE39, 0xE25, 0xE17, 0xE35, 0xE48, 0xE15, 0xE49, 0xE2D, 0xE07, 0xE43, 0xE0A,
           0xE49, 0xE2A, 0xE33, 0xE23, 0xE27, 0xE08, 0xE2B, 0xE19, 0xE49, 0xE32, 0xE07, 0xE32,
           0xE19])),
      (lit ''/pricing'', page
         ([0xE41, 0xE1E, 0xE47, 0xE04, 0xE40, 0xE01, 0xE08, 0xE23, 0xE32, 0xE04, 0xE32] @
           lit '' Solar Carport | Start, Pro, Enterprise | SIRINX'')
         ([0xE40, 0xE1B, 0xE23, 0xE35, 0xE22, 0xE1A, 0xE40, 0xE17, 0xE35, 0xE22, 0xE1A, 0xE41,
           0xE1E, 0xE47, 0xE04, 0xE40, 0xE01, 0xE08] @ lit '' Solar Carport 10-500+ kWp '' @
           [0xE1E, 0xE23, 0xE49, 0xE2D, 0xE21] @ lit '' EV Charger, BESS, '' @ [0xE2A, 0xE34,
           0xE17, 0xE18, 0xE34, 0xE1B, 0xE23, 0xE30, 0xE42, 0xE22, 0xE0A, 0xE19, 0xE4C, 0xE20,
           0xE32, 0xE29, 0xE35, 0x20, 0xE41, 0xE25, 0xE30] @ lit '' ROI '' @ [0xE2A, 0xE33, 0xE2B,
           0xE23, 0xE31, 0xE1A, 0xE18, 0xE38, 0xE23, 0xE01, 0xE34, 0xE08])),
      (lit ''/solutions'', page
         ([0xE42, 0xE0B, 0xE25, 0xE39, 0xE0A, 0xE31, 0xE19, 0xE1E, 0xE25, 0xE31, 0xE07, 0xE07,
           0xE32, 0xE19] @ lit '': Solar, BESS, EV, AI Energy | SIRINX'')
         ([0xE23, 0xE27, 0xE21, 0xE42, 0xE0B, 0xE25, 0xE39, 0xE0A, 0xE31, 0xE19] @
           lit '' Solar Carport, Rooftop Solar, Floating Solar, BESS, EV Charging, AI Energy Management ''
           @ [0xE41, 0xE25, 0xE30] @ lit '' O&M '' @ [0xE2A, 0xE33, 0xE2B, 0xE23, 0xE31, 0xE1A,
           0xE2D, 0xE07, 0xE04, 0xE4C, 0xE01, 0xE23])),
      (lit ''/home-solution'', page
         (lit ''Home Solar Solution '' @ [0xE1A, 0xE49, 0xE32, 0xE19, 0xE43, 0xE2B, 0xE0D, 0xE48,
           0xE41, 0xE25, 0xE30, 0xE42, 0xE2E, 0xE21, 0xE2D, 0xE2D, 0xE1F, 0xE1F, 0xE34, 0xE28] @
           lit '' | Rooftop Solar, Carport, BESS, EV | SIRINX'')
         (lit ''SIRINX Home Solar Solution '' @ [0xE2A, 0xE33, 0xE2B, 0xE23, 0xE31, 0xE1A, 0xE1A,
           0xE49, 0xE32, 0xE19, 0xE02, 0xE19, 0xE32, 0xE14, 0xE43, 0xE2B, 0xE0D, 0xE48, 0x20,
           0xE42, 0xE2E, 0xE21, 0xE2D, 0xE2D, 0xE1F, 0xE1F, 0xE34, 0xE28, 0x20, 0xE41, 0xE25,
           0xE30, 0xE42, 0xE04, 0xE23, 0xE07, 0xE01, 0xE32, 0xE23, 0xE2B, 0xE21, 0xE39, 0xE48,
           0xE1A, 0xE49, 0xE32, 0xE19, 0xE1E, 0xE23, 0xE35, 0xE40, 0xE21, 0xE35, 0xE22, 0xE21,
           0xE17, 0xE35, 0xE48, 0xE43, 0xE0A, 0xE49, 0xE44, 0xE1F, 0xE2A, 0xE39, 0xE07, 0x20,
           0xE1E, 0xE23, 0xE49, 0xE2D, 0xE21] @
           lit '' Rooftop Solar, Solar Carport, BESS, EV Charger, AI Energy Monitoring '' @
           [0xE41, 0xE25, 0xE30, 0xE2B, 0xE25, 0xE31, 0xE01, 0xE10, 0xE32, 0xE19] @
           lit '' commissioning'')),
      (lit ''/industries'', page
         ([0xE42, 0xE0B, 0xE25, 0xE39, 0xE0A, 0xE31, 0xE19, 0xE42, 0xE0B, 0xE25, 0xE32, 0xE23,
           0xE4C, 0xE2A, 0xE33, 0xE2B, 0xE23, 0xE31, 0xE1A, 0xE2D, 0xE38, 0xE15, 0xE2A, 0xE32,
           0xE2B, 0xE01, 0xE23, 0xE23, 0xE21, 0x20, 0xE42, 0xE23, 0xE07, 0xE07, 0xE32, 0xE19,
           0x20, 0xE42, 0xE23, 0xE07, 0xE41, 0xE23, 0xE21, 0x20, 0xE41, 0xE25, 0xE30, 0xE2D,
           0xE32, 0xE04, 0xE32, 0xE23] @ lit '' | SIRINX'')
         ([0xE2D, 0xE2D, 0xE01, 0xE41, 0xE1A, 0xE1A, 0xE23, 0xE30, 0xE1A, 0xE1A, 0xE1E, 0xE25,
           0xE31, 0xE07, 0xE07, 0xE32, 0xE19, 0xE2A, 0xE30, 0xE2D, 0xE32, 0xE14, 0xE40, 0xE09,
           0xE1E, 0xE32, 0xE30, 0xE18, 0xE38, 0xE23, 0xE01, 0xE34, 0xE08, 0x20, 0xE42, 0xE23,
           0xE07, 0xE07, 0xE32, 0xE19, 0x20, 0xE40, 0xE01, 0xE29, 0xE15, 0xE23, 0xE01, 0xE23,
           0xE23, 0xE21, 0x20, 0xE42, 0xE23, 0xE07, 0xE41, 0xE23, 0xE21, 0x20, 0xE2A, 0xE16,
           0xE32, 0xE19, 0xE28, 0xE36, 0xE01, 0xE29, 0xE32, 0x20, 0xE41, 0xE25, 0xE30, 0xE2D,
           0xE32, 0xE04, 0xE32, 0xE23, 0xE1E, 0xE32, 0xE13, 0xE34, 0xE0A, 0xE22, 0xE4C, 0x20,
           0xE1E, 0xE23, 0xE49, 0xE2D, 0xE21, 0xE1B, 0xE23, 0xE30, 0xE40, 0xE21, 0xE34, 0xE19,
           0xE1C, 0xE25, 0xE1B, 0xE23, 0xE30, 0xE2B, 0xE22, 0xE31, 0xE14, 0xE08, 0xE23, 0xE34,
           0xE07])),
      (lit ''/investment'', page
         ([0xE01, 0xE32, 0xE23, 0xE25, 0xE07, 0xE17, 0xE38, 0xE19, 0xE1E, 0xE25, 0xE31, 0xE07,
           0xE07, 0xE32, 0xE19, 0xE2A, 0xE30, 0xE2D, 0xE32, 0xE14, 0xE41, 0xE25, 0xE30] @
           lit '' ROI Solar Carport | SIRINX'')
         ([0xE27, 0xE34, 0xE40, 0xE04, 0xE23, 0xE32, 0xE30, 0xE2B, 0xE4C, 0xE23, 0xE39, 0xE1B,
           0xE41, 0xE1A, 0xE1A, 0xE01, 0xE32, 0xE23, 0xE25, 0xE07, 0xE17, 0xE38, 0xE19] @
           lit '' Solar Carport '' @ [0xE0B, 0xE37, 0xE49, 0xE2D, 0xE02, 0xE32, 0xE14, 0x20,
           0xE1C, 0xE48, 0xE2D, 0xE19, 0xE0A, 0xE33, 0xE23, 0xE30, 0x20, 0xE2B, 0xE23, 0xE37,
           0xE2D, 0xE23, 0xE48, 0xE27, 0xE21, 0xE25, 0xE07, 0xE17, 0xE38, 0xE19, 0x20, 0xE1E,
           0xE23, 0xE49, 0xE2D, 0xE21, 0xE1C, 0xE25, 0xE15, 0xE2D, 0xE1A, 0xE41, 0xE17, 0xE19,
           0x20, 0xE20, 0xE32, 0xE29, 0xE35, 0x20, 0xE41, 0xE25, 0xE30, 0xE21, 0xE39, 0xE25,
           0xE04, 0xE48, 0xE32] @ lit '' ESG'')),
      (lit ''/projects'', page (pi_title projectsPageMeta) (pi_description projectsPageMeta)),
      (lit ''/strategy'', page
         ([0xE01, 0xE25, 0xE22, 0xE38, 0xE17, 0xE18, 0xE4C, 0xE1E, 0xE25, 0xE31, 0xE07, 0xE07,
           0xE32, 0xE19, 0xE14, 0xE34, 0xE08, 0xE34, 0xE17, 0xE31, 0xE25, 0xE2A, 0xE33, 0xE2B,
           0xE23, 0xE31, 0xE1A, 0xE18, 0xE38, 0xE23, 0xE01, 0xE34, 0xE08] @ lit '' | SIRINX'')
         ([0xE41, 0xE1C, 0xE19, 0xE01, 0xE25, 0xE22, 0xE38, 0xE17, 0xE18, 0xE4C] @
           lit '' Solar Digital Energy '' @ [0xE2A, 0xE33, 0xE2B, 0xE23, 0xE31, 0xE1A, 0xE25,
           0xE14, 0xE15, 0xE49, 0xE19, 0xE17, 0xE38, 0xE19, 0xE44, 0xE1F, 0xE1F, 0xE49, 0xE32,
           0x20, 0xE40, 0xE1E, 0xE34, 0xE48, 0xE21, 0xE02, 0xE49, 0xE2D, 0xE21, 0xE39, 0xE25,
           0xE1E, 0xE25, 0xE31, 0xE07, 0xE07, 0xE32, 0xE19, 0x20, 0xE41, 0xE25, 0xE30, 0xE27,
           0xE32, 0xE07, 0xE23, 0xE30, 0xE1A, 0xE1A, 0xE1E, 0xE25, 0xE31, 0xE07, 0xE07, 0xE32,
           0xE19, 0xE2A, 0xE30, 0xE2D, 0xE32, 0xE14, 0xE23, 0xE30, 0xE22, 0xE30, 0xE22, 0xE32,
           0xE27])),
      (lit ''/blog'', page
         ([0xE1A, 0xE17, 0xE04, 0xE27, 0xE32, 0xE21] @ lit '' Solar, BESS, EV Charger '' @
           [0xE41, 0xE25, 0xE30] @ lit '' AI Energy | SIRINX'')
         ([0xE23, 0xE27, 0xE21, 0xE1A, 0xE17, 0xE04, 0xE27, 0xE32, 0xE21, 0xE04, 0xE27, 0xE32,
           0xE21, 0xE23, 0xE39, 0xE49, 0xE14, 0xE49, 0xE32, 0xE19] @
           lit '' Solar Carport, Rooftop Solar, BESS, EV Charging, AI Energy, ROI, '' @ [0xE20,
           0xE32, 0xE29, 0xE35, 0x20, 0xE41, 0xE25, 0xE30] @ lit '' ESG '' @ [0xE2A, 0xE33, 0xE2B,
           0xE23, 0xE31, 0xE1A, 0xE18, 0xE38, 0xE23, 0xE01, 0xE34, 0xE08, 0xE44, 0xE17, 0xE22])),
      (lit ''/contact'', page
         ([0xE15, 0xE34, 0xE14, 0xE15, 0xE48, 0xE2D] @ lit '' SIRINX | '' @ [0xE19, 0xE31, 0xE14,
           0xE2A, 0xE33, 0xE23, 0xE27, 0xE08, 0xE2B, 0xE19, 0xE49, 0xE32, 0xE07, 0xE32, 0xE19] @
           lit '' Solar Carport '' @ [0xE1F, 0xE23, 0xE35])
         ([0xE15, 0xE34, 0xE14, 0xE15, 0xE48, 0xE2D, 0xE17, 0xE35, 0xE21] @ lit '' SIRINX '' @
           [0xE40, 0xE1E, 0xE37, 0xE48, 0xE2D, 0xE02, 0xE2D, 0xE43, 0xE1A, 0xE40, 0xE2A, 0xE19,
           0xE2D, 0xE23, 0xE32, 0xE04, 0xE32, 0x20, 0xE19, 0xE31, 0xE14, 0xE2A, 0xE33, 0xE23,
           0xE27, 0xE08, 0xE2B, 0xE19, 0xE49, 0xE32, 0xE07, 0xE32, 0xE19, 0x20, 0xE2B, 0xE23,
           0xE37, 0xE2D, 0xE1B, 0xE23, 0xE36, 0xE01, 0xE29, 0xE32] @
           lit '' Solar Carport, BESS, EV Charger '' @ [0xE41, 0xE25, 0xE30, 0xE23, 0xE30, 0xE1A,
           0xE1A, 0xE25, 0xE14, 0xE04, 0xE48, 0xE32, 0xE44, 0xE1F, 0xE2D, 0xE07, 0xE04, 0xE4C,
           0xE01, 0xE23])),
      (lit ''/line'', page
         ([0xE15, 0xE34, 0xE14, 0xE15, 0xE48, 0xE2D] @ lit '' SIRINX '' @ [0xE1C, 0xE48, 0xE32,
           0xE19] @ lit '' LINE Official | Solar Carport, Rooftop Solar, BESS, EV Charger'')
         ([0xE40, 0xE1E, 0xE34, 0xE48, 0xE21, 0xE40, 0xE1E, 0xE37, 0xE48, 0xE2D, 0xE19] @
           lit '' LINE Official '' @ [0xE02, 0xE2D, 0xE07] @ lit '' SIRINX '' @ [0xE40, 0xE1E,
           0xE37, 0xE48, 0xE2D, 0xE2A, 0xE48, 0xE07, 0xE1A, 0xE34, 0xE25, 0xE04, 0xE48, 0xE32,
           0xE44, 0xE1F, 0x20, 0xE23, 0xE39, 0xE1B, 0xE1E, 0xE37, 0xE49, 0xE19, 0xE17, 0xE35,
           0xE48, 0x20, 0xE41, 0xE25, 0xE30, 0xE02, 0xE2D, 0xE1B, 0xE23, 0xE30, 0xE40, 0xE21,
           0xE34, 0xE19, 0xE23, 0xE30, 0xE1A, 0xE1A] @
           lit '' Solar Carport, Rooftop Solar, BESS '' @ [0xE41, 0xE25, 0xE30] @
           lit '' EV Charger '' @ [0xE40, 0xE1A, 0xE37, 0xE49, 0xE2D, 0xE07, 0xE15, 0xE49, 0xE19])),
      (lit ''/assessment'', page
         ([0xE1B, 0xE23, 0xE30, 0xE40, 0xE21, 0xE34, 0xE19] @ lit '' Solar '' @ [0xE41, 0xE25,
           0xE30, 0xE04, 0xE33, 0xE19, 0xE27, 0xE13, 0xE25, 0xE14, 0xE04, 0xE48, 0xE32, 0xE44,
           0xE1F, 0xE40, 0xE1A, 0xE37, 0xE49, 0xE2D, 0xE07, 0xE15, 0xE49, 0xE19] @
           lit '' | SIRINX'')
         ([0xE1B, 0xE23, 0xE30, 0xE40, 0xE21, 0xE34, 0xE19, 0xE02, 0xE19, 0xE32, 0xE14, 0xE23,
           0xE30, 0xE1A, 0xE1A] @ lit '' Solar, Solar Carport, BESS '' @ [0xE41, 0xE25, 0xE30,
           0xE1C, 0xE25, 0xE1B, 0xE23, 0xE30, 0xE2B, 0xE22, 0xE31, 0xE14, 0xE04, 0xE48, 0xE32,
           0xE44, 0xE1F, 0xE40, 0xE1A, 0xE37, 0xE49, 0xE2D, 0xE07, 0xE15, 0xE49, 0xE19, 0xE08,
           0xE32, 0xE01, 0xE02, 0xE49, 0xE2D, 0xE21, 0xE39, 0xE25, 0xE18, 0xE38, 0xE23, 0xE01,
           0xE34, 0xE08, 0xE02, 0xE2D, 0xE07, 0xE04, 0xE38, 0xE13])),
      (lit ''/partner'', page
         ([0xE23, 0xE48, 0xE27, 0xE21, 0xE40, 0xE1B, 0xE47, 0xE19, 0xE1E, 0xE31, 0xE19, 0xE18,
           0xE21, 0xE34, 0xE15, 0xE23, 0xE1E, 0xE25, 0xE31, 0xE07, 0xE07, 0xE32, 0xE19, 0xE2A,
           0xE30, 0xE2D, 0xE32, 0xE14, 0xE01, 0xE31, 0xE1A] @ lit '' SIRINX'')
         ([0xE40, 0xE1B, 0xE34, 0xE14, 0xE23, 0xE31, 0xE1A, 0xE1E, 0xE31, 0xE19, 0xE18, 0xE21,
           0xE34, 0xE15, 0xE23, 0xE14, 0xE49, 0xE32, 0xE19] @ lit '' EPC, EV Charging, BESS, '' @
           [0xE2D, 0xE2A, 0xE31, 0xE07, 0xE2B, 0xE32, 0xE23, 0xE34, 0xE21, 0xE17, 0xE23, 0xE31,
           0xE1E, 0xE22, 0xE4C, 0x20, 0xE41, 0xE25, 0xE30, 0xE01, 0xE32, 0xE23, 0xE25, 0xE07,
           0xE17, 0xE38, 0xE19, 0xE1E, 0xE25, 0xE31, 0xE07, 0xE07, 0xE32, 0xE19, 0xE2A, 0xE30,
           0xE2D, 0xE32, 0xE14, 0xE01, 0xE31, 0xE1A] @ lit '' SIRINX'')),
      (lit ''/about'', page
         ([0xE40, 0xE01, 0xE35, 0xE48, 0xE22, 0xE27, 0xE01, 0xE31, 0xE1A] @
           lit '' SIRINX | Solar Digital Agentic Company'')
         ([0xE23, 0xE39, 0xE49, 0xE08, 0xE31, 0xE01] @ lit '' SIRINX '' @ [0xE1A, 0xE23, 0xE34,
           0xE29, 0xE31, 0xE17, 0xE2D, 0xE2D, 0xE01, 0xE41, 0xE1A, 0xE1A, 0x20, 0xE15, 0xE34,
           0xE14, 0xE15, 0xE31, 0xE49, 0xE07, 0x20, 0xE41, 0xE25, 0xE30, 0xE1A, 0xE23, 0xE34,
           0xE2B, 0xE32, 0xE23, 0xE23, 0xE30, 0xE1A, 0xE1A, 0xE1E, 0xE25, 0xE31, 0xE07, 0xE07,
           0xE32, 0xE19, 0xE2A, 0xE30, 0xE2D, 0xE32, 0xE14, 0x20, 0xE1E, 0xE23, 0xE49, 0xE2D,
           0xE21] @ lit '' AI Energy Management'')),
      (lit ''/privacy'', page
         ([0xE19, 0xE42, 0xE22, 0xE1A, 0xE32, 0xE22, 0xE04, 0xE27, 0xE32, 0xE21, 0xE40, 0xE1B,
           0xE47, 0xE19, 0xE2A, 0xE48, 0xE27, 0xE19, 0xE15, 0xE31, 0xE27] @ lit '' | SIRINX'')
         ([0xE19, 0xE42, 0xE22, 0xE1A, 0xE32, 0xE22, 0xE01, 0xE32, 0xE23, 0xE40, 0xE01, 0xE47,
           0xE1A, 0x20, 0xE43, 0xE0A, 0xE49, 0x20, 0xE41, 0xE25, 0xE30, 0xE04, 0xE38, 0xE49,
           0xE21, 0xE04, 0xE23, 0xE2D, 0xE07, 0xE02, 0xE49, 0xE2D, 0xE21, 0xE39, 0xE25, 0xE2A,
           0xE48, 0xE27, 0xE19, 0xE1A, 0xE38, 0xE04, 0xE04, 0xE25, 0xE2A, 0xE33, 0xE2B, 0xE23,
           0xE31, 0xE1A, 0xE1C, 0xE39, 0xE49, 0xE43, 0xE0A, 0xE49, 0xE07, 0xE32, 0xE19, 0xE40,
           0xE27, 0xE47, 0xE1A, 0xE44, 0xE0B, 0xE15, 0xE4C] @ lit '' SIRINX '' @ [0xE41, 0xE25,
           0xE30, 0xE1C, 0xE39, 0xE49, 0xE2A, 0xE19, 0xE43, 0xE08, 0xE1A, 0xE23, 0xE34, 0xE01,
           0xE32, 0xE23, 0xE1E, 0xE25, 0xE31, 0xE07, 0xE07, 0xE32, 0xE19, 0xE2A, 0xE30, 0xE2D,
           0xE32, 0xE14])),
      (lit ''/terms'', page
         ([0xE40, 0xE07, 0xE37, 0xE48, 0xE2D, 0xE19, 0xE44, 0xE02, 0xE01, 0xE32, 0xE23, 0xE43,
           0xE0A, 0xE49, 0xE07, 0xE32, 0xE19] @ lit '' | SIRINX'')
         ([0xE40, 0xE07, 0xE37, 0xE48, 0xE2D, 0xE19, 0xE44, 0xE02, 0xE01, 0xE32, 0xE23, 0xE43,
           0xE0A, 0xE49, 0xE07, 0xE32, 0xE19, 0xE40, 0xE27, 0xE47, 0xE1A, 0xE44, 0xE0B, 0xE15,
           0xE4C] @ lit '' SIRINX '' @ [0xE02, 0xE49, 0xE2D, 0xE21, 0xE39, 0xE25, 0xE1A, 0xE23,
           0xE34, 0xE01, 0xE32, 0xE23, 0x20, 0xE43, 0xE1A, 0xE40, 0xE2A, 0xE19, 0xE2D, 0xE23,
           0xE32, 0xE04, 0xE32, 0x20, 0xE01, 0xE32, 0xE23, 0xE1B, 0xE23, 0xE30, 0xE40, 0xE21,
           0xE34, 0xE19, 0xE23, 0xE30, 0xE1A, 0xE1A, 0x20, 0xE41, 0xE25, 0xE30, 0xE02, 0xE49,
           0xE2D, 0xE08, 0xE33, 0xE01, 0xE31, 0xE14, 0xE04, 0xE27, 0xE32, 0xE21, 0xE23, 0xE31,
           0xE1A, 0xE1C, 0xE34, 0xE14, 0xE0A, 0xE2D, 0xE1A])),
      (lit ''/cookies'', page
         (lit ''Cookie Policy | SIRINX'')
         ([0xE19, 0xE42, 0xE22, 0xE1A, 0xE32, 0xE22, 0xE04, 0xE38, 0xE01, 0xE01, 0xE35, 0xE49,
           0xE02, 0xE2D, 0xE07, 0xE40, 0xE27, 0xE47, 0xE1A, 0xE44, 0xE0B, 0xE15, 0xE4C] @
           lit '' SIRINX '' @ [0xE2A, 0xE33, 0xE2B, 0xE23, 0xE31, 0xE1A, 0xE01, 0xE32, 0xE23,
           0xE27, 0xE34, 0xE40, 0xE04, 0xE23, 0xE32, 0xE30, 0xE2B, 0xE4C, 0xE01, 0xE32, 0xE23,
           0xE43, 0xE0A, 0xE49, 0xE07, 0xE32, 0xE19, 0x20, 0xE01, 0xE32, 0xE23, 0xE1B, 0xE23,
           0xE31, 0xE1A, 0xE1B, 0xE23, 0xE38, 0xE07, 0xE1B, 0xE23, 0xE30, 0xE2A, 0xE1A, 0xE01,
           0xE32, 0xE23, 0xE13, 0xE4C, 0x20, 0xE41, 0xE25, 0xE30, 0xE01, 0xE32, 0xE23, 0xE27,
           0xE31, 0xE14, 0xE1C, 0xE25, 0xE1A, 0xE23, 0xE34, 0xE01, 0xE32, 0xE23, 0xE2D, 0xE2D,
           0xE19, 0xE44, 0xE25, 0xE19, 0xE4C]))]"

record seo_meta =
  sm_path :: "jstr option"
  sm_meta :: page_meta

definition at_path :: "jstr \<Rightarrow> page_meta \<Rightarrow> seo_meta" where
  "at_path path m = \<lparr>sm_path = Some path, sm_meta = m\<rparr>"

definition normalizePath :: "jstr \<Rightarrow> jstr" where
  "normalizePath pathname =
     (let p = hd (split_on 0x23 (hd (split_on 0x3F pathname)));
          clean = (if p = [] then lit ''/'' else p) in
      if length clean > 1 then strip_slash clean else clean)"

definition getProvinceSeoMeta :: "jstr \<Rightarrow> seo_meta option" where
  "getProvinceSeoMeta path =
     (if \<not> starts_with (lit ''/solar-carport/'') path then None
      else
        (case getProvinceBySlug (remove_first (lit ''/solar-carport/'') path) of
           None \<Rightarrow> None
         | Some p \<Rightarrow> Some (at_path path (page
             ([0xE15, 0xE34, 0xE14, 0xE15, 0xE31, 0xE49, 0xE07] @ lit '' Solar Carport '' @
                tp_nameTh p @ lit '' | '' @ [0xE42, 0xE0B, 0xE25, 0xE32, 0xE23, 0xE4C, 0xE17,
                0xE35, 0xE48, 0xE08, 0xE2D, 0xE14, 0xE23, 0xE16] @
                lit '' EV Charger BESS | SIRINX'')
             (lit ''SIRINX '' @ [0xE2D, 0xE2D, 0xE01, 0xE41, 0xE1A, 0xE1A, 0xE41, 0xE25, 0xE30,
                0xE15, 0xE34, 0xE14, 0xE15, 0xE31, 0xE49, 0xE07] @ lit '' Solar Carport '' @
                tp_nameTh p @ [0x20, 0xE2A, 0xE33, 0xE2B, 0xE23, 0xE31, 0xE1A, 0xE42, 0xE23,
                0xE07, 0xE07, 0xE32, 0xE19, 0xE41, 0xE25, 0xE30, 0xE25, 0xE32, 0xE19, 0xE08,
                0xE2D, 0xE14, 0xE23, 0xE16, 0x20, 0xE1E, 0xE23, 0xE49, 0xE2D, 0xE21] @
                lit '' EV Charger '' @ [0xE41, 0xE25, 0xE30] @ lit '' BESS '' @ [0xE42, 0xE14,
                0xE22, 0xE2A, 0xE33, 0xE23, 0xE27, 0xE08, 0xE1E, 0xE37, 0xE49, 0xE19, 0xE17,
                0xE35, 0xE48, 0xE41, 0xE25, 0xE30, 0xE02, 0xE49, 0xE2D, 0xE21, 0xE39, 0xE25,
                0xE01, 0xE32, 0xE23, 0xE43, 0xE0A, 0xE49, 0xE44, 0xE1F, 0xE08, 0xE23, 0xE34,
                0xE07, 0xE01, 0xE48, 0xE2D, 0xE19, 0xE2D, 0xE2D, 0xE01, 0xE41, 0xE1A, 0xE1A])))))"

definition getProjectDetailSeoMeta :: "jstr \<Rightarrow> seo_meta option" where
  "getProjectDetailSeoMeta path =
     (if \<not> starts_with (lit ''/projects/'') path then None
      else
        (case getPublicProjectDetail (Some (remove_first (lit ''/projects/'') path)) of
           Missing \<Rightarrow> None
         | Inherited k \<Rightarrow> Some (at_path path
             \<lparr>pm_title = None, pm_description = None, pm_image = None, pm_noindex = True\<rparr>)
         | Own d \<Rightarrow> Some (at_path path
             \<lparr>pm_title = Some (pd_seoTitle d), pm_description = Some (pd_seoDescription d),
               pm_image = None, pm_noindex = \<not> isProjectDetailIndexable d\<rparr>)))"

definition getSeoMeta :: "jstr \<Rightarrow> seo_meta" where
  "getSeoMeta pathname =
     (let path = normalizePath pathname in
      case getProvinceSeoMeta path of
        Some m \<Rightarrow> m
      | None \<Rightarrow>
          (case getProjectDetailSeoMeta path of
             Some m \<Rightarrow> m
           | None \<Rightarrow>
               (case (if starts_with (lit ''/blog/'') path then find_post path else None) of
                  Some post \<Rightarrow> at_path path (post_meta post)
                | None \<Rightarrow>
                    (case js_index metaByPath path of
                       Own m \<Rightarrow> at_path path m
                     | Inherited k \<Rightarrow> \<lparr>sm_path = None, sm_meta =
                         \<lparr>pm_title = None, pm_description = None, pm_image = None,
                          pm_noindex = False\<rparr>\<rparr>
                     | Missing \<Rightarrow> at_path path page_not_found))))"

definition absoluteUrl :: "jstr \<Rightarrow> jstr" where
  "absoluteUrl path =
     (let cleanPath = (if path = lit ''/'' then lit ''/'' else strip_slash path) in
      if cleanPath = lit ''/'' then lit ''https://www.sirinx.co/''
      else lit ''https://www.sirinx.co'' @ cleanPath @ lit ''/'')"

section \<open>Breadcrumbs\<close>

record breadcrumb =
  bc_name :: jstr
  bc_item :: jstr

text \<open>The labels are the defaults of \<open>homeLabel\<close> and \<open>carportLabel\<close>, which no caller sets.\<close>

definition buildSeoBreadcrumbs ::
  "jstr \<Rightarrow> jstr \<Rightarrow> jstr \<Rightarrow> thai_province option \<Rightarrow> breadcrumb list" where
  "buildSeoBreadcrumbs baseUrl path title prov =
     \<lparr>bc_name = [0xE2B, 0xE19, 0xE49, 0xE32, 0xE41, 0xE23, 0xE01], bc_item = baseUrl\<rparr> #
     (if starts_with (lit ''/solar-carport'') path then
        \<lparr>bc_name = lit ''Solar Carport'', bc_item = baseUrl @ lit ''/solar-carport/''\<rparr> #
        (case prov of
           None \<Rightarrow> []
         | Some p \<Rightarrow>
             [\<lparr>bc_name = lit ''77 '' @ [0xE08, 0xE31, 0xE07, 0xE2B, 0xE27, 0xE31, 0xE14],
               bc_item = baseUrl @ lit ''/provinces/''\<rparr>,
              \<lparr>bc_name = lit ''Solar Carport '' @ tp_nameTh p,
               bc_item = baseUrl @ lit ''/solar-carport/'' @ tp_slug p @ lit ''/''\<rparr>])
      else if path \<noteq> lit ''/'' then
        [\<lparr>bc_name = trim (hd (split_on 0x7C title)), bc_item = baseUrl @ path\<rparr>]
      else [])"

section \<open>The structured-data graph\<close>

record graph_service =
  sv_id :: jstr
  sv_name :: jstr
  sv_serviceType :: jstr

record graph_article =
  ga_headline :: jstr
  ga_dateModified :: jstr
  ga_wordCount :: "nat option"
  ga_section :: "jstr option"

record graph_how_to =
  gh_name :: jstr
  gh_description :: jstr
  gh_steps :: "how_to_step list"

record graph_input =
  gi_baseUrl :: jstr
  gi_siteName :: jstr
  gi_path :: jstr
  gi_title :: "jstr option"
  gi_description :: "jstr option"
  gi_image :: jstr
  gi_organizationDescription :: jstr
  gi_service :: graph_service
  gi_areaServed :: "jstr list"
  gi_breadcrumbs :: "breadcrumb list"
  gi_faq :: "qa list option"
  gi_inLanguage :: jstr
  gi_article :: "graph_article option"
  gi_howTo :: "graph_how_to option"

definition absolute :: "jstr \<Rightarrow> jstr \<Rightarrow> jstr" where
  "absolute baseUrl path = (if path = [] \<or> path = lit ''/'' then baseUrl else baseUrl @ path)"

definition opt_str :: "jstr option \<Rightarrow> jsval" where
  "opt_str t = (case t of None \<Rightarrow> JUndef | Some s \<Rightarrow> JStr s)"

definition str :: "string \<Rightarrow> jstr \<Rightarrow> jstr \<times> jsval" where
  "str k v = (lit k, JStr v)"

definition ref_to :: "string \<Rightarrow> jstr \<Rightarrow> jstr \<times> jsval" where
  "ref_to k target = (lit k, JObj [str ''@id'' target])"

definition organization_id :: "graph_input \<Rightarrow> jstr" where
  "organization_id i = gi_baseUrl i @ lit ''/#organization''"

definition website_id :: "graph_input \<Rightarrow> jstr" where
  "website_id i = gi_baseUrl i @ lit ''/#website''"

definition page_url :: "graph_input \<Rightarrow> jstr" where
  "page_url i = absolute (gi_baseUrl i) (gi_path i)"

definition organization_node :: "graph_input \<Rightarrow> jsobj" where
  "organization_node i =
     [str ''@type'' (lit ''Organization''), str ''@id'' (organization_id i),
      str ''name'' (gi_siteName i), str ''url'' (gi_baseUrl i), str ''logo'' (gi_image i),
      str ''description'' (gi_organizationDescription i),
      (lit ''areaServed'', JObj [str ''@type'' (lit ''Country''), str ''name'' (lit ''Thailand'')]),
      (lit ''contactPoint'', JObj
        [str ''@type'' (lit ''ContactPoint''), str ''contactType'' (lit ''sales''),
         str ''areaServed'' (lit ''TH''),
         (lit ''availableLanguage'', JArr [JStr (lit ''th''), JStr (lit ''en''), JStr (lit ''zh'')])])]"

definition website_node :: "graph_input \<Rightarrow> jsobj" where
  "website_node i =
     [str ''@type'' (lit ''WebSite''), str ''@id'' (website_id i), str ''name'' (gi_siteName i),
      str ''url'' (gi_baseUrl i), str ''inLanguage'' (gi_inLanguage i),
      ref_to ''publisher'' (organization_id i)]"

definition webpage_node :: "graph_input \<Rightarrow> jsobj" where
  "webpage_node i =
     [str ''@type'' (lit ''WebPage''), str ''@id'' (page_url i @ lit ''#webpage''),
      str ''url'' (page_url i), (lit ''name'', opt_str (gi_title i)),
      (lit ''description'', opt_str (gi_description i)), ref_to ''isPartOf'' (website_id i),
      ref_to ''about'' (sv_id (gi_service i)), str ''inLanguage'' (gi_inLanguage i)]"

definition service_node :: "graph_input \<Rightarrow> jsobj" where
  "service_node i =
     [str ''@type'' (lit ''Service''), str ''@id'' (sv_id (gi_service i)),
      str ''name'' (sv_name (gi_service i)), str ''serviceType'' (sv_serviceType (gi_service i)),
      ref_to ''provider'' (organization_id i),
      (lit ''areaServed'', JObj
        [str ''@type'' (lit ''AdministrativeArea''),
         (lit ''name'', case gi_areaServed i of [] \<Rightarrow> JUndef | a # _ \<Rightarrow> JStr a)]),
      (lit ''description'', opt_str (gi_description i)),
      (lit ''offers'', JObj
        [str ''@type'' (lit ''Offer''), str ''availability'' (lit ''https://schema.org/InStock''),
         (lit ''priceSpecification'', JObj
           [str ''@type'' (lit ''PriceSpecification''), str ''priceCurrency'' (lit ''THB''),
            str ''description''
              (lit ''Project-specific quotation after site survey and engineering assessment.'')])])]"

definition numbered :: "(nat \<Rightarrow> 'a \<Rightarrow> jsobj) \<Rightarrow> 'a list \<Rightarrow> jsval" where
  "numbered f xs = JArr (map (\<lambda>(index, x). JObj (f (index + 1) x)) (enumerate 0 xs))"

definition breadcrumb_node :: "graph_input \<Rightarrow> jsobj" where
  "breadcrumb_node i =
     [str ''@context'' (lit ''https://schema.org''), str ''@type'' (lit ''BreadcrumbList''),
      (lit ''itemListElement'',
       numbered (\<lambda>pos b. [str ''@type'' (lit ''ListItem''), (lit ''position'', JNum (Fin (of_nat pos))),
           str ''name'' (bc_name b), str ''item'' (bc_item b)]) (gi_breadcrumbs i))]"

definition article_node :: "graph_input \<Rightarrow> graph_article \<Rightarrow> jsobj" where
  "article_node i a =
     [str ''@type'' (lit ''Article''), str ''@id'' (page_url i @ lit ''#article''),
      str ''headline'' (ga_headline a), (lit ''description'', opt_str (gi_description i)),
      str ''url'' (page_url i), ref_to ''mainEntityOfPage'' (page_url i @ lit ''#webpage''),
      ref_to ''isPartOf'' (website_id i), ref_to ''about'' (sv_id (gi_service i)),
      ref_to ''author'' (organization_id i), ref_to ''publisher'' (organization_id i),
      str ''image'' (gi_image i), str ''dateModified'' (ga_dateModified a)] @
     (case ga_wordCount a of
        None \<Rightarrow> []
      | Some n \<Rightarrow> if n = 0 then [] else [(lit ''wordCount'', JNum (Fin (of_nat n)))]) @
     (case ga_section a of
        None \<Rightarrow> []
      | Some s \<Rightarrow> if s = [] then [] else [str ''articleSection'' s]) @
     [str ''inLanguage'' (gi_inLanguage i)]"

definition how_to_node :: "graph_input \<Rightarrow> graph_how_to \<Rightarrow> jsobj" where
  "how_to_node i h =
     [str ''@type'' (lit ''HowTo''), str ''@id'' (page_url i @ lit ''#howto''),
      str ''name'' (gh_name h), str ''description'' (gh_description h)] @
     (if gi_article i = None then []
      else [ref_to ''mainEntityOfPage'' (page_url i @ lit ''#article'')]) @
     [(lit ''step'',
       numbered (\<lambda>pos s. [str ''@type'' (lit ''HowToStep''), (lit ''position'', JNum (Fin (of_nat pos))),
           str ''name'' (hs_name s), str ''text'' (hs_text s)]) (gh_steps h)),
      str ''inLanguage'' (gi_inLanguage i)]"

definition faq_node :: "qa list \<Rightarrow> jsobj" where
  "faq_node items =
     [str ''@type'' (lit ''FAQPage''),
      (lit ''mainEntity'', JArr (map (\<lambda>q. JObj
        [str ''@type'' (lit ''Question''), str ''name'' (qa_question q),
         (lit ''acceptedAnswer'', JObj [str ''@type'' (lit ''Answer''), str ''text'' (qa_answer q)])])
        items))]"

definition graph_nodes :: "graph_input \<Rightarrow> jsobj list" where
  "graph_nodes i =
     [organization_node i, website_node i, webpage_node i, service_node i, breadcrumb_node i] @
     (case gi_article i of None \<Rightarrow> [] | Some a \<Rightarrow> [article_node i a]) @
     (case gi_howTo i of
        None \<Rightarrow> []
      | Some h \<Rightarrow> if gh_steps h \<noteq> [] then [how_to_node i h] else []) @
     (case gi_faq i of
        None \<Rightarrow> []
      | Some items \<Rightarrow> if items \<noteq> [] then [faq_node items] else [])"

definition buildSeoGraph :: "graph_input \<Rightarrow> jsval" where
  "buildSeoGraph i =
     JObj [str ''@context'' (lit ''https://schema.org''),
           (lit ''@graph'', JArr (map JObj (graph_nodes i)))]"

section \<open>The graph of a route\<close>

text \<open>
  Rendering metadata that is \<open>undefined\<close> needs a string where the code calls a string method:
  the breadcrumb of a page without title raises, and \<open>getStructuredData\<close> with it. An inherited
  article is an object without questions, and its word count raises.
\<close>

definition longform_faq :: "articles \<Rightarrow> thai_province \<Rightarrow> qa list" where
  "longform_faq ar p =
     (case getProvinceLongformEntry ar (tp_slug p) of Own e \<Rightarrow> lf_faq e | _ \<Rightarrow> [])"

definition route_breadcrumbs ::
  "jstr \<Rightarrow> jstr \<Rightarrow> jstr option \<Rightarrow> thai_province option \<Rightarrow> breadcrumb list result" where
  "route_breadcrumbs baseUrl cleanPath title prov =
     (case title of
        Some t \<Rightarrow> Inr (buildSeoBreadcrumbs baseUrl cleanPath t prov)
      | None \<Rightarrow>
          if starts_with (lit ''/solar-carport'') cleanPath \<or> cleanPath = lit ''/''
          then Inr (buildSeoBreadcrumbs baseUrl cleanPath [] prov)
          else Inl (JsTypeError (lit ''Cannot read properties of undefined'')))"

definition route_faq :: "articles \<Rightarrow> jstr \<Rightarrow> thai_province option \<Rightarrow> qa list option" where
  "route_faq ar cleanPath prov =
     (if cleanPath = lit ''/home-solution'' then Some homeSolutionFaq
      else if cleanPath = lit ''/solar-carport'' \<or> prov \<noteq> None then
        Some (map (\<lambda>r. \<lparr>qa_question = rq_question r, qa_answer = rq_answer r\<rparr>)
                (buildSolarCarportFaq Lang_th prov) @
              (case prov of None \<Rightarrow> [] | Some p \<Rightarrow> longform_faq ar p))
      else None)"

definition route_service :: "jstr \<Rightarrow> jstr \<Rightarrow> thai_province option \<Rightarrow> graph_service" where
  "route_service baseUrl cleanPath prov =
     (if cleanPath = lit ''/home-solution'' then
        \<lparr>sv_id = baseUrl @ lit ''/home-solution#service'',
         sv_name = lit ''SIRINX Home Solar Solution'',
         sv_serviceType = lit ''Solar rooftop, solar carport, BESS, EV Charger, and AI energy monitoring for large homes and home offices''\<rparr>
      else
        \<lparr>sv_id = baseUrl @ lit ''/solar-carport#service'',
         sv_name = (case prov of
             Some p \<Rightarrow> lit ''Solar Carport '' @ tp_nameTh p
           | None \<Rightarrow> lit ''Solar Carport by SIRINX''),
         sv_serviceType = lit ''Solar Carport design, installation, EV Charger, BESS, AI Energy Management''\<rparr>)"

definition route_article :: "formats \<Rightarrow> jstr \<Rightarrow> thai_province \<Rightarrow> longform \<Rightarrow> graph_article" where
  "route_article fm dateModified p e =
     \<lparr>ga_headline = lit ''Solar Carport '' @ [0xE43, 0xE19] @ tp_nameTh p, ga_dateModified = dateModified,
      ga_wordCount = Some (longformWordCount fm e), ga_section = Some (lit ''Solar Carport'')\<rparr>"

definition route_how_to :: "thai_province \<Rightarrow> graph_how_to" where
  "route_how_to p =
     \<lparr>gh_name = [0xE02, 0xE31, 0xE49, 0xE19, 0xE15, 0xE2D, 0xE19, 0xE15, 0xE34, 0xE14, 0xE15, 0xE31,
        0xE49, 0xE07] @ lit '' Solar Carport '' @ [0xE43, 0xE19] @ tp_nameTh p,
      gh_description = [0xE02, 0xE31, 0xE49, 0xE19, 0xE15, 0xE2D, 0xE19, 0xE15, 0xE34, 0xE14, 0xE15, 0xE31,
        0xE49, 0xE07] @ lit '' Solar Carport '' @ [0xE2A, 0xE33, 0xE2B, 0xE23, 0xE31, 0xE1A,
        0xE2D, 0xE32, 0xE04, 0xE32, 0xE23, 0xE43, 0xE19] @ tp_nameTh p @ [0x20, 0xE15, 0xE31,
        0xE49, 0xE07, 0xE41, 0xE15, 0xE48, 0xE2A, 0xE33, 0xE23, 0xE27, 0xE08, 0xE2B, 0xE19, 0xE49,
        0xE32, 0xE07, 0xE32, 0xE19, 0xE08, 0xE19, 0xE16, 0xE36, 0xE07, 0xE2A, 0xE48, 0xE07, 0xE21,
        0xE2D, 0xE1A, 0xE23, 0xE30, 0xE1A, 0xE1A, 0x20, 0xE42, 0xE14, 0xE22, 0xE02, 0xE31, 0xE49,
        0xE19, 0xE15, 0xE2D, 0xE19, 0xE01, 0xE32, 0xE23, 0xE02, 0xE2D, 0xE2D, 0xE19, 0xE38, 0xE0D,
        0xE32, 0xE15, 0xE41, 0xE25, 0xE30, 0xE01, 0xE32, 0xE23, 0xE40, 0xE0A, 0xE37, 0xE48, 0xE2D,
        0xE21, 0xE15, 0xE48, 0xE2D, 0xE15, 0xE49, 0xE2D, 0xE07, 0xE15, 0xE23, 0xE27, 0xE08, 0xE2A,
        0xE2D, 0xE1A, 0xE01, 0xE31, 0xE1A, 0xE2B, 0xE19, 0xE48, 0xE27, 0xE22, 0xE07, 0xE32, 0xE19,
        0xE17, 0xE35, 0xE48, 0xE14, 0xE39, 0xE41, 0xE25, 0xE1E, 0xE37, 0xE49, 0xE19, 0xE17, 0xE35,
        0xE48, 0xE2D, 0xE35, 0xE01, 0xE04, 0xE23, 0xE31, 0xE49, 0xE07],
      gh_steps = provinceInstallSteps (tp_nameTh p)\<rparr>"

definition getStructuredData ::
  "articles \<Rightarrow> formats \<Rightarrow> jstr \<Rightarrow> jstr \<Rightarrow> jstr \<Rightarrow> jsval result" where
  "getStructuredData ar fm urlPath baseUrl dateModified =
     (let cleanPath = clean_path urlPath;
          meta = getPageMeta cleanPath;
          prov = getProvinceFromPath cleanPath;
          entry = (case prov of
              None \<Rightarrow> None
            | Some p \<Rightarrow> (case getProvinceLongformEntry ar (tp_slug p) of
                 Own e \<Rightarrow> Some (p, e) | _ \<Rightarrow> None))
      in result_bind (route_breadcrumbs baseUrl cleanPath (pm_title meta) prov) (\<lambda>breadcrumbs.
         Inr (buildSeoGraph
           \<lparr>gi_baseUrl = baseUrl, gi_siteName = SITE_NAME, gi_path = cleanPath,
            gi_title = pm_title meta, gi_description = pm_description meta, gi_image = OG_IMAGE,
            gi_organizationDescription = DEFAULT_DESC,
            gi_service = route_service baseUrl cleanPath prov,
            gi_areaServed = [case prov of Some p \<Rightarrow> tp_nameTh p | None \<Rightarrow> lit ''Thailand''],
            gi_breadcrumbs = breadcrumbs, gi_faq = route_faq ar cleanPath prov,
            gi_inLanguage = lit ''th-TH'',
            gi_article = map_option (\<lambda>(p, e). route_article fm dateModified p e) entry,
            gi_howTo = map_option (\<lambda>(p, e). route_how_to p) entry\<rparr>)))"

section \<open>Paths\<close>

lemma strip_slash_Nil [simp]: "strip_slash [] = []"
  by (simp add: strip_slash_def)

lemma clean_path_normalizePath: "normalizePath url = clean_path url"
proof -
  obtain p where p: "p = hd (split_on 0x23 (hd (split_on 0x3F url)))" by blast
  have slash: "lit ''/'' = [0x2F]" by (simp add: lit_def)
  show ?thesis
    unfolding normalizePath_def clean_path_def p [symmetric] slash Let_def
    by (cases p) (auto simp: strip_slash_def)
qed

lemma clean_path_not_Nil [simp]: "clean_path url \<noteq> []"
  by (simp add: clean_path_def Let_def)

text \<open>A path without query, fragment and trailing slash is its own clean path.\<close>

lemma split_on_fresh: "c \<notin> set s \<Longrightarrow> split_on c s = [s]"
  by (induction s) auto

lemma clean_path_id:
  assumes "s \<noteq> []" and "0x3F \<notin> set s" and "0x23 \<notin> set s" and "last s \<noteq> 0x2F"
  shows "clean_path s = s"
  using assms by (simp add: clean_path_def split_on_fresh strip_slash_def Let_def)

text \<open>Which of the three families of computed routes a path can belong to.\<close>

lemma starts_with_nth: "starts_with p s \<Longrightarrow> i < length p \<Longrightarrow> s ! i = p ! i"
  by (auto simp: starts_with_iff nth_append)

lemma family_second_unit:
  "starts_with (lit ''/projects/'') p \<Longrightarrow> p ! 1 = 0x70"
  "starts_with (lit ''/blog/'') p \<Longrightarrow> p ! 1 = 0x62"
  "starts_with (lit ''/solar-carport/'') p \<Longrightarrow> p ! 1 = 0x73"
  using starts_with_nth [of "lit ''/projects/''" p 1] starts_with_nth [of "lit ''/blog/''" p 1]
    starts_with_nth [of "lit ''/solar-carport/''" p 1]
  by (simp_all add: lit_def)

lemma family_disjoint:
  "starts_with (lit ''/projects/'') p \<Longrightarrow> \<not> starts_with (lit ''/solar-carport/'') p"
  "starts_with (lit ''/blog/'') p \<Longrightarrow> \<not> starts_with (lit ''/solar-carport/'') p"
  "starts_with (lit ''/blog/'') p \<Longrightarrow> \<not> starts_with (lit ''/projects/'') p"
  using family_second_unit [of p] by auto

lemma routeMetaMap_keys:
  "dict_keys routeMetaMap = map lit [''/'', ''/solar-carport'', ''/provinces'', ''/home-solution'',
     ''/about'', ''/solutions'', ''/industries'', ''/investment'', ''/projects'', ''/strategy'',
     ''/blog'', ''/contact'', ''/line'', ''/assessment'', ''/pricing'', ''/partner'', ''/privacy'',
     ''/terms'', ''/cookies'', ''/styleguide/motion'']"
  by (simp add: dict_keys_def routeMetaMap_def)

lemma starts_with_trans: "starts_with a b \<Longrightarrow> starts_with b s \<Longrightarrow> starts_with a s"
  by (auto simp: starts_with_iff)

lemma family_not_in_table:
  assumes "starts_with (lit ''/projects/'') p \<or> starts_with (lit ''/blog/'') p \<or>
    starts_with (lit ''/solar-carport/'') p"
  shows "js_index routeMetaMap p = Missing"
proof -
  have "\<forall>k \<in> set (dict_keys routeMetaMap) \<union> set object_prototype_keys.
      \<not> (starts_with (lit ''/projects/'') k \<or> starts_with (lit ''/blog/'') k \<or>
         starts_with (lit ''/solar-carport/'') k)"
    unfolding routeMetaMap_keys object_prototype_keys_def
    by (simp add: starts_with_unit_simps lit_def)
  with assms have "p \<notin> set (dict_keys routeMetaMap)" and "p \<notin> set object_prototype_keys" by blast+
  then show ?thesis by (simp add: js_index_Missing_iff dict_get_None_iff)
qed

lemma getPageMeta_family:
  assumes "starts_with (lit ''/projects/'') p \<or> starts_with (lit ''/blog/'') p \<or>
    starts_with (lit ''/solar-carport/'') p" and "p = clean_path url"
  shows "getPageMeta url =
    (case getProvinceFromPath p of
       Some q \<Rightarrow> getProvinceMeta q
     | None \<Rightarrow>
         (case getProjectDetailMeta p of
            Some m \<Rightarrow> m
          | None \<Rightarrow>
              if starts_with (lit ''/projects/'') p then project_not_found
              else if starts_with (lit ''/blog/'') p then
                (case find_post p of Some post \<Rightarrow> post_meta post | None \<Rightarrow> page_not_found)
              else page DEFAULT_TITLE DEFAULT_DESC))"
  using family_not_in_table [OF assms(1)] unfolding getPageMeta_def assms(2) [symmetric] Let_def
  by simp

text \<open>What \<open>getSeoMeta\<close> computes, without its path.\<close>

lemma getProjectDetailSeoMeta_alt:
  "getProjectDetailSeoMeta p = map_option (at_path p) (getProjectDetailMeta p)"
  by (simp add: getProjectDetailSeoMeta_def getProjectDetailMeta_def split: lookup.split)

lemma client_table_family:
  assumes "starts_with (lit ''/blog/'') p"
  shows "js_index metaByPath p = Missing"
proof -
  have "\<forall>k \<in> set (dict_keys metaByPath) \<union> set object_prototype_keys. \<not> starts_with (lit ''/blog/'') k"
    unfolding metaByPath_def dict_keys_def object_prototype_keys_def
    by (simp add: starts_with_unit_simps lit_def)
  with assms have "p \<notin> set (dict_keys metaByPath)" and "p \<notin> set object_prototype_keys" by blast+
  then show ?thesis by (simp add: js_index_Missing_iff dict_get_None_iff)
qed

section \<open>The static routes\<close>

lemma plain_slugs:
  "\<forall>p \<in> set thaiProvinces. list_all (\<lambda>c. c \<notin> {0x3F, 0x23, 0x2F}) (tp_slug p)"
  "\<forall>post \<in> set blogPosts. bp_slug post \<noteq> [] \<and> list_all (\<lambda>c. c \<notin> {0x3F, 0x23, 0x2F}) (bp_slug post)"
  "\<forall>slug \<in> set getAllProjectDetailSlugs. slug \<noteq> [] \<and> list_all (\<lambda>c. c \<notin> {0x3F, 0x23, 0x2F}) slug"
    apply (simp add: thaiProvinces_def province_def lit_def)
   apply (simp add: blogPosts_def lit_def)
  apply (simp add: getAllProjectDetailSlugs_def publicProjectDetails_def ruenphae_detail_def
      holatel_detail_def lit_def)
  done

lemma clean_path_family:
  assumes "pre \<in> {lit ''/projects/'', lit ''/blog/'', lit ''/solar-carport/''}"
    and "s \<noteq> []" and "list_all (\<lambda>c. c \<notin> {0x3F, 0x23, 0x2F}) s"
  shows "clean_path (pre @ s) = pre @ s"
proof (rule clean_path_id)
  have "0x3F \<notin> set pre \<and> 0x23 \<notin> set pre"
    using assms(1) by (simp add: lit_def, elim disjE; simp)
  with assms(3) show "0x3F \<notin> set (pre @ s)" and "0x23 \<notin> set (pre @ s)"
    by (auto simp: list_all_iff)
  show "last (pre @ s) \<noteq> 0x2F"
    using assms(2,3) last_in_set [of s] by (auto simp: list_all_iff)
qed (use assms(2) in simp)

lemma getPageMeta_province:
  assumes "p \<in> set thaiProvinces"
  shows "getPageMeta (getProvinceRoute p) = getProvinceMeta p"
proof -
  have c: "clean_path (getProvinceRoute p) = getProvinceRoute p"
    unfolding getProvinceRoute_def using assms plain_slugs(1) province_slugs_no_slash
    by (intro clean_path_family) auto
  have "getProvinceFromPath (getProvinceRoute p) = Some p"
    by (simp add: getProvinceFromPath_def getProvinceRoute_def getProvinceBySlug_own assms)
  then show ?thesis
    using getPageMeta_family [OF _ c [symmetric]] by (simp add: getProvinceRoute_def)
qed

lemma getPageMeta_post:
  assumes "post \<in> set blogPosts"
  shows "getPageMeta (lit ''/blog/'' @ bp_slug post) = post_meta post"
proof -
  let ?r = "lit ''/blog/'' @ bp_slug post"
  have c: "clean_path ?r = ?r"
    using assms plain_slugs(2) by (intro clean_path_family) auto
  have d: "distinct (map bp_slug blogPosts)" by (simp add: blogPosts_def)
  have "find_post ?r \<noteq> None"
    using assms by (auto simp: find_post_def find_None_iff)
  then obtain q where q: "find_post ?r = Some q" by blast
  then have "q \<in> set blogPosts" and "bp_slug q = bp_slug post"
    by (auto simp: find_post_def dest: find_Some_in_set)
  with assms d have "q = post" by (simp add: distinct_map inj_on_def)
  moreover have "starts_with (lit ''/blog/'') ?r" by simp
  ultimately show ?thesis
    using getPageMeta_family [OF _ c [symmetric]] q family_disjoint(2,3) [of ?r]
    by (simp add: getProvinceFromPath_def getProjectDetailMeta_def)
qed

lemma project_detail_slugs [simp]:
  "pd_slug ruenphae_detail = lit ''ruenphae-royal-park''" "pd_slug holatel_detail = lit ''holatel-rim-nan''"
  by (simp_all add: ruenphae_detail_def holatel_detail_def)

lemma project_detail_cases:
  "(slug, d) \<in> set publicProjectDetails \<Longrightarrow>
     slug = pd_slug d \<and> dict_get publicProjectDetails (pd_slug d) = Some d"
  by (auto simp: publicProjectDetails_def)

lemma getPageMeta_project:
  assumes "(slug, d) \<in> set publicProjectDetails"
  shows "getPageMeta (lit ''/projects/'' @ pd_slug d) =
    \<lparr>pm_title = Some (pd_seoTitle d), pm_description = Some (pd_seoDescription d),
     pm_image = None, pm_noindex = \<not> isProjectDetailIndexable d\<rparr>"
proof -
  let ?r = "lit ''/projects/'' @ pd_slug d"
  have s: "pd_slug d \<noteq> []" "list_all (\<lambda>c. c \<notin> {0x3F, 0x23, 0x2F}) (pd_slug d)"
    using assms plain_slugs(3) by (force simp: getAllProjectDetailSlugs_def)+
  then have c: "clean_path ?r = ?r"
    by (intro clean_path_family) auto
  have "dict_get publicProjectDetails (pd_slug d) = Some d"
    using project_detail_cases [OF assms] by simp
  then have "getProjectDetailMeta ?r = Some \<lparr>pm_title = Some (pd_seoTitle d),
      pm_description = Some (pd_seoDescription d), pm_image = None,
      pm_noindex = \<not> isProjectDetailIndexable d\<rparr>"
    using s by (simp add: getProjectDetailMeta_def getPublicProjectDetail_def js_index_def)
  moreover have "getProvinceFromPath ?r = None"
    using family_disjoint(1) [of ?r] by (simp add: getProvinceFromPath_def)
  ultimately show ?thesis
    using getPageMeta_family [OF _ c [symmetric]] by simp
qed

lemma no_project_indexable: "(slug, d) \<in> set publicProjectDetails \<Longrightarrow> \<not> isProjectDetailIndexable d"
  by (auto simp: publicProjectDetails_def isProjectDetailIndexable_def ruenphae_detail_def
      holatel_detail_def withheldNumericClaims_def)

text \<open>Which routes of the table are kept out of the sitemap.\<close>

lemma table_route:
  assumes "(k, m) \<in> set routeMetaMap"
  shows "clean_path k = k" and "getPageMeta k = m"
proof -
  have k: "k \<in> set (dict_keys routeMetaMap)"
    using assms by (force simp: dict_keys_def)
  have "\<forall>x \<in> set (dict_keys routeMetaMap). clean_path x = x"
    unfolding routeMetaMap_keys
    by (simp add: clean_path_def lit_def strip_slash_def)
  with k show c: "clean_path k = k" by blast
  have "distinct (dict_keys routeMetaMap)" unfolding routeMetaMap_keys by simp
  with assms have "dict_get routeMetaMap k = Some m"
    by (simp add: dict_get_def dict_keys_def)
  then show "getPageMeta k = m"
    unfolding getPageMeta_def c Let_def by (simp add: js_index_def)
qed

lemma table_noindex:
  "(k, m) \<in> set routeMetaMap \<Longrightarrow> pm_noindex m \<longleftrightarrow> k = lit ''/styleguide/motion''"
  by (auto simp: routeMetaMap_def page_def)

text \<open>The client's lookup on the computed routes.\<close>

lemma getSeoMeta_project:
  assumes "starts_with (lit ''/projects/'') (clean_path url)"
  shows "getSeoMeta url =
    (case getProjectDetailMeta (clean_path url) of
       Some m \<Rightarrow> at_path (clean_path url) m
     | None \<Rightarrow> at_path (clean_path url) page_not_found)"
proof -
  have "js_index metaByPath (clean_path url) = Missing"
  proof -
    have "\<forall>k \<in> set (dict_keys metaByPath) \<union> set object_prototype_keys.
        \<not> starts_with (lit ''/projects/'') k"
      unfolding metaByPath_def dict_keys_def object_prototype_keys_def
      by (simp add: starts_with_unit_simps lit_def)
    with assms have "clean_path url \<notin> set (dict_keys metaByPath)"
      and "clean_path url \<notin> set object_prototype_keys" by blast+
    then show ?thesis by (simp add: js_index_Missing_iff dict_get_None_iff)
  qed
  moreover have "\<not> starts_with (lit ''/blog/'') (clean_path url)"
    using assms family_disjoint(3) by blast
  ultimately show ?thesis
    using family_disjoint(1) [OF assms]
    by (simp add: getSeoMeta_def clean_path_normalizePath Let_def getProvinceSeoMeta_def
        getProjectDetailSeoMeta_alt split: option.split)
qed

lemma getSeoMeta_blog:
  assumes "starts_with (lit ''/blog/'') (clean_path url)"
  shows "sm_meta (getSeoMeta url) =
    (case find_post (clean_path url) of Some post \<Rightarrow> post_meta post | None \<Rightarrow> page_not_found)"
  using assms family_disjoint(2,3) [OF assms] client_table_family [OF assms]
  by (simp add: getSeoMeta_def clean_path_normalizePath Let_def getProvinceSeoMeta_def at_path_def
      getProjectDetailSeoMeta_alt getProjectDetailMeta_def split: option.split)

lemma getProjectDetailMeta_prefix:
  "getProjectDetailMeta p \<noteq> None \<Longrightarrow> starts_with (lit ''/projects/'') p"
  by (auto simp: getProjectDetailMeta_def split: if_splits)

lemma not_found_noindex [simp]: "pm_noindex project_not_found" "pm_noindex page_not_found"
  by (simp_all add: project_not_found_def page_not_found_def)

lemma getProjectDetailMeta_noindex: "getProjectDetailMeta p = Some m \<Longrightarrow> pm_noindex m"
  using no_project_indexable
  by (auto simp: getProjectDetailMeta_def getPublicProjectDetail_def js_index_Own_iff dict_get_def
      dest!: map_of_SomeD split: if_splits lookup.splits)

text \<open>
  Where the two differ: the description of every province page. The server's has a garbled word
  for \<open>factories\<close>.
\<close>

lemma province_descriptions_differ:
  "p \<in> set thaiProvinces \<Longrightarrow>
     pm_description (sm_meta (getSeoMeta (getProvinceRoute p))) \<noteq>
     pm_description (getPageMeta (getProvinceRoute p))"
proof -
  assume p: "p \<in> set thaiProvinces"
  have c: "clean_path (getProvinceRoute p) = getProvinceRoute p"
    unfolding getProvinceRoute_def using p plain_slugs(1) province_slugs_no_slash
    by (intro clean_path_family) auto
  then show ?thesis
    by (simp add: getPageMeta_province [OF p, unfolded getProvinceRoute_def] p getSeoMeta_def clean_path_normalizePath Let_def
        getProvinceSeoMeta_def getProvinceRoute_def getProvinceBySlug_own at_path_def
        getProvinceMeta_def page_def)
qed

lemma distinct_static_routes: "distinct getStaticSeoRoutes"
proof -
  have d: "distinct (dict_keys routeMetaMap)" "distinct getAllProjectDetailSlugs"
      "distinct (map bp_slug blogPosts)"
    unfolding routeMetaMap_keys
    by (simp_all add: getAllProjectDetailSlugs_def publicProjectDetails_def blogPosts_def)
  have t: "\<not> starts_with f k" if "k \<in> set (dict_keys routeMetaMap)"
      "f \<in> {lit ''/projects/'', lit ''/blog/'', lit ''/solar-carport/''}" for f k
    using family_not_in_table [of k] that by (auto simp: js_index_Missing_iff dict_get_None_iff)
  have e: "distinct (map getProvinceRoute thaiProvinces)"
      "distinct (map (\<lambda>slug. lit ''/projects/'' @ slug) getAllProjectDetailSlugs)"
      "distinct (map (\<lambda>post. lit ''/blog/'' @ bp_slug post) blogPosts)"
    using d distinct_province_slugs by (simp_all add: distinct_map inj_on_def getProvinceRoute_def)
  have i: "\<And>x. x \<in> set (map getProvinceRoute thaiProvinces) \<Longrightarrow> starts_with (lit ''/solar-carport/'') x"
      "\<And>x. x \<in> set (map (\<lambda>slug. lit ''/projects/'' @ slug) getAllProjectDetailSlugs) \<Longrightarrow>
        starts_with (lit ''/projects/'') x"
      "\<And>x. x \<in> set (map (\<lambda>post. lit ''/blog/'' @ bp_slug post) blogPosts) \<Longrightarrow>
        starts_with (lit ''/blog/'') x"
    by (auto simp: getProvinceRoute_def)
  show "distinct getStaticSeoRoutes"
    unfolding getStaticSeoRoutes_def distinct_append set_append
    using d(1) e i t family_disjoint by (intro conjI) blast+
qed

section \<open>Properties\<close>

text \<open>
  C27. The server's metadata for crawlers and the client's for the hydrated page agree on every
  computed route: both normalise a URL to the same path; blog posts, unknown posts and project
  records get identical metadata; a province page gets the same title and is indexed by both; an
  unknown project is kept out of the index by both.
\<close>

theorem server_client_meta_agree:
  "normalizePath url = clean_path url \<and>
   (starts_with (lit ''/blog/'') (clean_path url) \<longrightarrow> sm_meta (getSeoMeta url) = getPageMeta url) \<and>
   (getProjectDetailMeta (clean_path url) \<noteq> None \<longrightarrow> sm_meta (getSeoMeta url) = getPageMeta url) \<and>
   (getProvinceFromPath (clean_path url) \<noteq> None \<longrightarrow>
      pm_title (sm_meta (getSeoMeta url)) = pm_title (getPageMeta url) \<and>
      \<not> pm_noindex (sm_meta (getSeoMeta url)) \<and> \<not> pm_noindex (getPageMeta url)) \<and>
   (starts_with (lit ''/projects/'') (clean_path url) \<longrightarrow>
      pm_noindex (sm_meta (getSeoMeta url)) \<and> pm_noindex (getPageMeta url))"
proof (intro conjI impI)
  let ?p = "clean_path url"
  show "normalizePath url = ?p" by (rule clean_path_normalizePath)
  show "sm_meta (getSeoMeta url) = getPageMeta url" if "starts_with (lit ''/blog/'') ?p"
    using that family_disjoint(2,3) [OF that] getPageMeta_family [OF _ refl, of url]
    by (simp add: getSeoMeta_blog getProvinceFromPath_def getProjectDetailMeta_def)
  have proj: "sm_meta (getSeoMeta url) = m \<and> getPageMeta url = m"
    if "getProjectDetailMeta ?p = Some m" for m
    using that getProjectDetailMeta_prefix [of ?p] family_disjoint(1) [of ?p]
      getPageMeta_family [OF _ refl, of url]
    by (simp add: getSeoMeta_project getProvinceFromPath_def at_path_def)
  then show "sm_meta (getSeoMeta url) = getPageMeta url" if "getProjectDetailMeta ?p \<noteq> None"
    using that by auto
  show "pm_noindex (sm_meta (getSeoMeta url))" and "pm_noindex (getPageMeta url)"
    if "starts_with (lit ''/projects/'') ?p"
    using that family_disjoint(1) [OF that] getPageMeta_family [OF _ refl, of url]
      getProjectDetailMeta_noindex [of ?p]
    by (simp_all add: getSeoMeta_project getProvinceFromPath_def at_path_def split: option.split)
  have prov: "pm_title (sm_meta (getSeoMeta url)) = pm_title (getPageMeta url)"
      "\<not> pm_noindex (sm_meta (getSeoMeta url))" "\<not> pm_noindex (getPageMeta url)"
    if "getProvinceFromPath ?p = Some q" for q
    using that getPageMeta_family [OF _ refl, of url]
    by (simp_all add: getProvinceFromPath_def getSeoMeta_def clean_path_normalizePath Let_def
        getProvinceSeoMeta_def at_path_def getProvinceMeta_def page_def split: if_splits)
  show "pm_title (sm_meta (getSeoMeta url)) = pm_title (getPageMeta url)"
    and "\<not> pm_noindex (sm_meta (getSeoMeta url))" and "\<not> pm_noindex (getPageMeta url)"
    if "getProvinceFromPath ?p \<noteq> None"
    using that prov by auto
qed

theorem server_client_meta_agree_witness:
  "pm_noindex (sm_meta (getSeoMeta (lit ''/projects/none''))) \<and>
   sm_meta (getSeoMeta (lit ''/blog/none'')) = getPageMeta (lit ''/blog/none'')"
proof -
  have c: "clean_path (lit ''/projects/none'') = lit ''/projects/none''"
      "clean_path (lit ''/blog/none'') = lit ''/blog/none''"
    by (simp_all add: clean_path_def strip_slash_def lit_def)
  have s: "starts_with (lit ''/projects/'') (lit ''/projects/none'')"
      "starts_with (lit ''/blog/'') (lit ''/blog/none'')"
    by (simp_all add: starts_with_def lit_def)
  show ?thesis
    using server_client_meta_agree [of "lit ''/projects/none''"]
      server_client_meta_agree [of "lit ''/blog/none''"] c s by simp
qed

text \<open>
  The sitemap lists what may be indexed, once: the static routes are distinct; of them the
  sitemap has every route of the table but the internal style guide, all 77 province pages and
  all posts, and no project page, since no record has cleared its evidence gate.
\<close>

theorem sitemap_routes:
  "distinct getStaticSeoRoutes \<and>
   getSitemapRoutes getStaticSeoRoutes =
     removeAll (lit ''/styleguide/motion'') (dict_keys routeMetaMap) @
     map getProvinceRoute thaiProvinces @ map (\<lambda>post. lit ''/blog/'' @ bp_slug post) blogPosts"
proof
  show "distinct getStaticSeoRoutes" by (rule distinct_static_routes)
next
  have r: "filter (\<lambda>route. \<not> pm_noindex (getPageMeta route)) (dict_keys routeMetaMap) =
      removeAll (lit ''/styleguide/motion'') (dict_keys routeMetaMap)"
    unfolding removeAll_filter_not_eq
    by (rule filter_cong [OF refl]) (auto simp: dict_keys_def table_route table_noindex)
  show "getSitemapRoutes getStaticSeoRoutes =
     removeAll (lit ''/styleguide/motion'') (dict_keys routeMetaMap) @
     map getProvinceRoute thaiProvinces @ map (\<lambda>post. lit ''/blog/'' @ bp_slug post) blogPosts"
    using no_project_indexable
    by (simp add: getSitemapRoutes_def getStaticSeoRoutes_def r)
       (auto simp: getPageMeta_province getProvinceMeta_def getPageMeta_post post_meta_def
         getAllProjectDetailSlugs_def getPageMeta_project filter_id_conv filter_empty_conv)
qed

end
