(* ===== verification/Pages.thy ===== *)
theory Pages
  imports Seo
begin

text \<open>
  How a page is put together: the injection of metadata into the HTML template
  (\<open>injectOgTags\<close> and its helpers in \<open>server/ogTags.ts\<close>), and the shells with body text for
  clients that run no script (\<open>shared/staticRouteShell.ts\<close>, \<open>server/staticSeoBuild.ts\<close>).
\<close>

section \<open>Replacing the first match of a pattern\<close>

text \<open>
  A pattern is a function that returns the rest of the text after a match at its start. The
  patterns of the source are sequences of literals, \<open>\s+\<close>, \<open>[^c]*\<close> before a \<open>c\<close>, and
  \<open>[\s\S]*?\<close> up to a literal, which have one match at most where the code uses them. The
  replacement is a template, as for a string pattern.
\<close>

type_synonym pattern = "jstr \<Rightarrow> jstr option"

definition m_lit :: "jstr \<Rightarrow> pattern" where
  "m_lit p s = (if starts_with p s then Some (drop (length p) s) else None)"

definition m_spaces :: pattern where
  "m_spaces s =
     (case s of [] \<Rightarrow> None | c # cs \<Rightarrow> if is_space c then Some (dropWhile is_space cs) else None)"

definition m_none_of :: "nat \<Rightarrow> pattern" where
  "m_none_of c s = Some (dropWhile (\<lambda>x. x \<noteq> c) s)"

definition m_upto :: "jstr \<Rightarrow> pattern" where
  "m_upto p s = map_option snd (split_first p s)"

fun m_seq :: "pattern list \<Rightarrow> pattern" where
  "m_seq [] s = Some s"
| "m_seq (m # ms) s = (case m s of None \<Rightarrow> None | Some r \<Rightarrow> m_seq ms r)"

fun find_match :: "pattern \<Rightarrow> jstr \<Rightarrow> (jstr \<times> jstr \<times> jstr) option" where
  "find_match m [] = (case m [] of None \<Rightarrow> None | Some r \<Rightarrow> Some ([], [], r))"
| "find_match m (c # cs) =
     (case m (c # cs) of
        Some r \<Rightarrow> Some ([], take (length (c # cs) - length r) (c # cs), r)
      | None \<Rightarrow> map_option (\<lambda>(a, x, b). (c # a, x, b)) (find_match m cs))"

definition replace_match :: "pattern \<Rightarrow> jstr \<Rightarrow> jstr \<Rightarrow> jstr" where
  "replace_match m rep s =
     (case find_match m s of
        None \<Rightarrow> s
      | Some (a, x, b) \<Rightarrow> a @ expand_template a x b rep @ b)"

section \<open>The head\<close>

definition head_end :: jstr where
  "head_end = lit ''</head>''"

definition title_pattern :: pattern where
  "title_pattern = m_seq [m_lit (lit ''<title>''), m_none_of 0x3C, m_lit (lit ''</title>'')]"

text \<open>\<open><meta\s+name="..."[\s\S]*?\/>\<close>, and the same with another tag or attribute.\<close>

definition tag_pattern :: "jstr \<Rightarrow> jstr \<Rightarrow> jstr \<Rightarrow> pattern" where
  "tag_pattern tag attribute value =
     m_seq [m_lit (lit ''<'' @ tag), m_spaces, m_lit (attribute @ lit ''='' @ [0x22] @ value @ [0x22]),
            m_upto (lit ''/>'')]"

definition meta_tag :: "jstr \<Rightarrow> jstr \<Rightarrow> jstr \<Rightarrow> jstr" where
  "meta_tag attribute name content =
     lit ''<meta '' @ attribute @ lit ''='' @ [0x22] @ name @ [0x22] @ lit '' content='' @ [0x22] @
     content @ [0x22] @ lit '' />''"

text \<open>A tag replaced where it is, or put before the end of the head.\<close>

definition replace_or_append :: "pattern \<Rightarrow> jstr \<Rightarrow> jstr \<Rightarrow> jstr" where
  "replace_or_append pat tag html =
     (if find_match pat html \<noteq> None then replace_match pat tag html
      else replace_first head_end (lit ''    '' @ tag @ [10] @ lit ''  </head>'') html)"

definition replaceMetaByName :: "jstr \<Rightarrow> jstr \<Rightarrow> jstr \<Rightarrow> jstr" where
  "replaceMetaByName html name content =
     replace_or_append (tag_pattern (lit ''meta'') (lit ''name'') name)
       (meta_tag (lit ''name'') name content) html"

definition replaceMetaByProperty :: "jstr \<Rightarrow> jstr \<Rightarrow> jstr \<Rightarrow> jstr" where
  "replaceMetaByProperty html name content =
     replace_or_append (tag_pattern (lit ''meta'') (lit ''property'') name)
       (meta_tag (lit ''property'') name content) html"

definition replaceCanonical :: "jstr \<Rightarrow> jstr \<Rightarrow> jstr" where
  "replaceCanonical html href =
     replace_or_append (tag_pattern (lit ''link'') (lit ''rel'') (lit ''canonical''))
       (lit ''<link rel='' @ [0x22] @ lit ''canonical'' @ [0x22] @ lit '' href='' @ [0x22] @ href @
        [0x22] @ lit '' />'') html"

section \<open>The structured data\<close>

text \<open>The JSON text with \<open><\<close> escaped, so that no closing tag can occur in it.\<close>

definition script_payload :: "formats \<Rightarrow> jsval \<Rightarrow> jstr" where
  "script_payload fm data =
     replace_unit 0x3C ([0x5C] @ lit ''u003c'')
       (case json (fm_number fm) data of None \<Rightarrow> lit ''undefined'' | Some s \<Rightarrow> s)"

definition structured_script :: "jstr \<Rightarrow> jstr" where
  "structured_script payload =
     lit ''    <script type='' @ [0x22] @ lit ''application/ld+json'' @ [0x22] @
     lit '' data-sirinx-seo='' @ [0x22] @ lit ''route'' @ [0x22, 0x3E] @ payload @
     lit ''</script>'' @ [10]"

definition injectStructuredData :: "formats \<Rightarrow> jstr \<Rightarrow> jsval \<Rightarrow> jstr" where
  "injectStructuredData fm html data =
     (if contains html head_end
      then replace_first head_end (structured_script (script_payload fm data) @ lit ''  </head>'') html
      else html)"

section \<open>Route images and fallback text\<close>

definition MOBILE_FIRST_HERO_IMAGE_SIZES :: jstr where
  "MOBILE_FIRST_HERO_IMAGE_SIZES = lit ''(max-width: 767px) 80vw, 100vw''"

record hero_preload =
  hp_href :: jstr
  hp_responsive :: "(jstr \<times> jstr) option"
  hp_type :: jstr

definition getRouteHeroPreload :: "jstr \<Rightarrow> hero_preload option" where
  "getRouteHeroPreload urlPath =
     (let cleanPath = clean_path urlPath in
      if cleanPath = lit ''/'' then
        Some \<lparr>hp_href = lit ''/assets/projects/ruenphae/20260924/1000076001.jpg'', hp_responsive = None,
              hp_type = lit ''image/jpeg''\<rparr>
      else if cleanPath = lit ''/home-solution'' then
        Some \<lparr>hp_href = lit ''/assets/home-solution/home-solution-drone-hero-960.avif'',
              hp_responsive = Some
               (lit ''/assets/home-solution/home-solution-drone-hero-640.avif 640w, /assets/home-solution/home-solution-drone-hero-960.avif 960w, /assets/home-solution/home-solution-drone-hero-1280.avif 1280w'',
                MOBILE_FIRST_HERO_IMAGE_SIZES),
              hp_type = lit ''image/avif''\<rparr>
      else None)"

definition preload_tag :: "hero_preload \<Rightarrow> jstr" where
  "preload_tag preload =
     lit ''    <link rel='' @ [0x22] @ lit ''preload'' @ [0x22] @ lit '' as='' @ [0x22] @
     lit ''image'' @ [0x22] @ lit '' href='' @ [0x22] @ hp_href preload @ [0x22] @ (case
     hp_responsive preload of None \<Rightarrow> [] | Some (imageSrcSet, imageSizes) \<Rightarrow>
     lit '' imagesrcset='' @ [0x22] @ imageSrcSet @ [0x22] @ lit '' imagesizes='' @ [0x22] @
     imageSizes @ [0x22]) @ lit '' type='' @ [0x22] @ hp_type preload @ [0x22] @
     lit '' fetchpriority='' @ [0x22] @ lit ''high'' @ [0x22] @ lit '' />''"

definition injectRouteHeroPreload :: "jstr \<Rightarrow> jstr \<Rightarrow> jstr" where
  "injectRouteHeroPreload html urlPath =
     (case getRouteHeroPreload urlPath of
        None \<Rightarrow> html
      | Some preload \<Rightarrow>
          let tag = preload_tag preload; fonts = lit ''    <!-- Fonts -->'' in
          if contains html (lit ''rel='' @ [0x22] @ lit ''preload'' @ [0x22] @ lit '' as='' @ [0x22] @ lit ''image'' @ [0x22]) then
            replace_match
              (m_seq [m_lit (lit ''    <link rel='' @ [0x22] @ lit ''preload'' @ [0x22] @ lit '' as='' @ [0x22] @ lit ''image'' @ [0x22]), m_upto (lit ''/>'' @ [10])])
              (tag @ [10]) html
          else if contains html fonts then
            replace_first fonts (tag @ [10, 10] @ fonts) html
          else replace_first head_end (tag @ [10] @ lit ''  </head>'') html)"

definition root_div :: jstr where
  "root_div = lit ''<div id='' @ [0x22] @ lit ''root'' @ [0x22] @ lit ''></div>''"

definition home_solution_fallback :: jstr where
  "home_solution_fallback =
     lit ''    <noscript data-sirinx-static-fallback='' @ [0x22] @ lit ''home-solution'' @ [0x22,
     0x3E, 10] @ lit ''      <main>'' @ [10] @ lit ''        <h1>Home Solar Solution '' @ [0xE2A,
     0xE33, 0xE2B, 0xE23, 0xE31, 0xE1A, 0xE1A, 0xE49, 0xE32, 0xE19, 0xE43, 0xE2B, 0xE0D, 0xE48,
     0xE41, 0xE25, 0xE30, 0xE42, 0xE2E, 0xE21, 0xE2D, 0xE2D, 0xE1F, 0xE1F, 0xE34, 0xE28, 0xE17,
     0xE35, 0xE48, 0xE43, 0xE0A, 0xE49, 0xE44, 0xE1F, 0xE2A, 0xE39, 0xE07] @ lit ''</h1>'' @ [10]
     @ lit ''        <p>'' @ [10] @ lit ''          SIRINX '' @ [0xE2D, 0xE2D, 0xE01, 0xE41,
     0xE1A, 0xE1A, 0xE23, 0xE30, 0xE1A, 0xE1A, 0xE42, 0xE0B, 0xE25, 0xE32, 0xE23, 0xE4C, 0xE1A,
     0xE49, 0xE32, 0xE19, 0xE43, 0xE2B, 0xE0D, 0xE48, 0x20, 0xE42, 0xE2E, 0xE21, 0xE2D, 0xE2D,
     0xE1F, 0xE1F, 0xE34, 0xE28, 0x20, 0xE41, 0xE25, 0xE30, 0xE42, 0xE04, 0xE23, 0xE07, 0xE01,
     0xE32, 0xE23, 0xE2B, 0xE21, 0xE39, 0xE48, 0xE1A, 0xE49, 0xE32, 0xE19, 0xE1E, 0xE23, 0xE35,
     0xE40, 0xE21, 0xE35, 0xE22, 0xE21, 10] @ lit ''          '' @ [0xE1E, 0xE23, 0xE49, 0xE2D,
     0xE21] @ lit '' Rooftop Solar, Solar Carport, EV Charger, BESS, AI Energy Monitoring'' @ [10]
     @ lit ''          '' @ [0xE41, 0xE25, 0xE30, 0xE01, 0xE23, 0xE30, 0xE1A, 0xE27, 0xE19, 0xE01,
     0xE32, 0xE23] @ lit '' commissioning '' @ [0xE17, 0xE35, 0xE48, 0xE15, 0xE23, 0xE27, 0xE08,
     0xE2A, 0xE2D, 0xE1A, 0xE44, 0xE14, 0xE49, 10] @ lit ''        </p>'' @ [10] @
     lit ''        <ul>'' @ [10] @ lit ''          <li>'' @ [0xE40, 0xE2B, 0xE21, 0xE32, 0xE30,
     0xE01, 0xE31, 0xE1A, 0xE1A, 0xE49, 0xE32, 0xE19, 0xE17, 0xE35, 0xE48, 0xE21, 0xE35, 0xE04,
     0xE48, 0xE32, 0xE44, 0xE1F, 0xE2A, 0xE39, 0xE07] @ lit '' EV '' @ [0xE2B, 0xE25, 0xE32,
     0xE22, 0xE04, 0xE31, 0xE19, 0x20, 0xE2B, 0xE49, 0xE2D, 0xE07, 0xE17, 0xE33, 0xE07, 0xE32,
     0xE19] @ lit '' server '' @ [0xE2B, 0xE23, 0xE37, 0xE2D, 0xE42, 0xE2B, 0xE25, 0xE14, 0xE2A,
     0xE33, 0xE04, 0xE31, 0xE0D] @ lit ''</li>'' @ [10] @ lit ''          <li>'' @ [0xE2D, 0xE2D,
     0xE01, 0xE41, 0xE1A, 0xE1A, 0xE08, 0xE32, 0xE01, 0xE1A, 0xE34, 0xE25, 0xE44, 0xE1F, 0x20,
     0xE1E, 0xE24, 0xE15, 0xE34, 0xE01, 0xE23, 0xE23, 0xE21, 0xE42, 0xE2B, 0xE25, 0xE14, 0x20,
     0xE1E, 0xE37, 0xE49, 0xE19, 0xE17, 0xE35, 0xE48, 0xE2B, 0xE25, 0xE31, 0xE07, 0xE04, 0xE32,
     0x20, 0xE41, 0xE25, 0xE30, 0xE02, 0xE49, 0xE2D, 0xE08, 0xE33, 0xE01, 0xE31, 0xE14, 0xE2B,
     0xE19, 0xE49, 0xE32, 0xE07, 0xE32, 0xE19, 0xE08, 0xE23, 0xE34, 0xE07] @ lit ''</li>'' @ [10]
     @ lit ''          <li>'' @ [0xE15, 0xE31, 0xE27, 0xE40, 0xE25, 0xE02, 0xE1B, 0xE23, 0xE30,
     0xE2B, 0xE22, 0xE31, 0xE14, 0xE41, 0xE25, 0xE30, 0xE04, 0xE37, 0xE19, 0xE17, 0xE38, 0xE19,
     0xE40, 0xE1B, 0xE47, 0xE19] @ lit '' scenario '' @ [0xE15, 0xE32, 0xE21, 0xE02, 0xE49, 0xE2D,
     0xE21, 0xE39, 0xE25, 0xE44, 0xE0B, 0xE15, 0xE4C, 0x20, 0xE44, 0xE21, 0xE48, 0xE43, 0xE0A,
     0xE48, 0xE04, 0xE33, 0xE23, 0xE31, 0xE1A, 0xE1B, 0xE23, 0xE30, 0xE01, 0xE31, 0xE19, 0xE40,
     0xE2B, 0xE21, 0xE32, 0xE23, 0xE27, 0xE21] @ lit ''</li>'' @ [10] @ lit ''        </ul>'' @
     [10] @ lit ''        <p>'' @ [10] @ lit ''          <a href='' @ [0x22] @
     lit ''/contact?interest=home-solution'' @ [0x22, 0x3E, 0xE19, 0xE31, 0xE14, 0xE1B, 0xE23,
     0xE30, 0xE40, 0xE21, 0xE34, 0xE19, 0xE1A, 0xE49, 0xE32, 0xE19, 0xE2B, 0xE23, 0xE37, 0xE2D,
     0xE42, 0xE2E, 0xE21, 0xE2D, 0xE2D, 0xE1F, 0xE1F, 0xE34, 0xE28] @ lit ''</a>'' @ [10] @
     lit ''          '' @ [0xE2B, 0xE23, 0xE37, 0xE2D] @ lit '' <a href='' @ [0x22] @
     lit ''/assessment'' @ [0x22, 0x3E, 0xE1B, 0xE23, 0xE30, 0xE40, 0xE21, 0xE34, 0xE19, 0xE04,
     0xE48, 0xE32, 0xE44, 0xE1F, 0xE40, 0xE1A, 0xE37, 0xE49, 0xE2D, 0xE07, 0xE15, 0xE49, 0xE19] @
     lit ''</a>'' @ [10] @ lit ''        </p>'' @ [10] @ lit ''      </main>'' @ [10] @
     lit ''    </noscript>''"

definition injectNoScriptStaticFallback :: "jstr \<Rightarrow> jstr \<Rightarrow> jstr" where
  "injectNoScriptStaticFallback html urlPath =
     (if clean_path urlPath \<noteq> lit ''/home-solution'' \<or> contains html (lit ''data-sirinx-static-fallback'')
      then html
      else if contains html root_div
      then replace_first root_div (root_div @ [10] @ home_solution_fallback) html
      else replace_first (lit ''</body>'') (home_solution_fallback @ [10] @ lit ''  </body>'') html)"

section \<open>Injecting the metadata of a route\<close>

text \<open>Calling a string method on an \<open>undefined\<close> title or description raises.\<close>

definition required :: "jstr option \<Rightarrow> jstr result" where
  "required t =
     (case t of
        Some s \<Rightarrow> Inr s
      | None \<Rightarrow> Inl (JsTypeError (lit ''Cannot read properties of undefined'')))"

definition og_url_pattern :: pattern where
  "og_url_pattern =
     m_seq [m_lit (lit ''<meta property='' @ [0x22] @ lit ''og:url'' @ [0x22] @ lit '' content='' @ [0x22]),
            m_none_of 0x22, m_lit ([0x22] @ lit '' />'')]"

definition og_type_start :: jstr where
  "og_type_start = lit ''<meta property='' @ [0x22] @ lit ''og:type'' @ [0x22]"

definition injectOgUrl :: "jstr \<Rightarrow> jstr \<Rightarrow> jstr" where
  "injectOgUrl html canonicalUrl =
     (let tag = meta_tag (lit ''property'') (lit ''og:url'') canonicalUrl in
      if contains html (lit ''property='' @ [0x22] @ lit ''og:url'' @ [0x22])
      then replace_match og_url_pattern tag html
      else replace_first og_type_start (tag @ [10] @ lit ''    '' @ og_type_start) html)"

definition inject_head ::
  "jstr \<Rightarrow> jstr \<Rightarrow> jstr \<Rightarrow> jstr \<Rightarrow> jstr \<Rightarrow> bool \<Rightarrow> jstr" where
  "inject_head html0 title description imageUrl canonicalUrl noindex =
     (let html1 = replace_match title_pattern (lit ''<title>'' @ title @ lit ''</title>'') html0;
          html2 = replaceMetaByName html1 (lit ''description'') description;
          html3 = replaceMetaByName html2 (lit ''robots'')
            (if noindex then lit ''noindex, nofollow'' else lit ''index, follow'');
          html4 = replaceMetaByProperty html3 (lit ''og:title'') title;
          html5 = replaceMetaByProperty html4 (lit ''og:description'') description;
          html6 = replaceMetaByProperty html5 (lit ''og:image'') imageUrl;
          html7 = injectOgUrl html6 canonicalUrl;
          html8 = replaceMetaByName html7 (lit ''twitter:title'') title;
          html9 = replaceMetaByName html8 (lit ''twitter:description'') description;
          html10 = replaceMetaByName html9 (lit ''twitter:image'') imageUrl
      in replaceCanonical html10 canonicalUrl)"

definition image_or_default :: "jstr option \<Rightarrow> jstr" where
  "image_or_default i = (case i of None \<Rightarrow> OG_IMAGE | Some s \<Rightarrow> if s = [] then OG_IMAGE else s)"

definition injectOgTags ::
  "articles \<Rightarrow> formats \<Rightarrow> jstr \<Rightarrow> jstr \<Rightarrow> jstr \<Rightarrow> jstr \<Rightarrow> jstr result" where
  "injectOgTags ar fm html urlPath baseUrl dateModified =
     (let meta = getPageMeta urlPath in
      result_bind (map_sum id escapeHtmlAttribute (required (pm_title meta))) (\<lambda>title.
      result_bind (map_sum id escapeHtmlAttribute (required (pm_description meta))) (\<lambda>description.
      let html1 = inject_head html title description
            (escapeHtmlAttribute (image_or_default (pm_image meta)))
            (escapeHtmlAttribute (buildCanonicalUrl baseUrl urlPath)) (pm_noindex meta);
          html2 = injectRouteHeroPreload html1 urlPath;
          html3 = injectNoScriptStaticFallback html2 urlPath
      in result_bind (getStructuredData ar fm urlPath baseUrl dateModified) (\<lambda>data.
         Inr (injectStructuredData fm html3 data)))))"

section \<open>Shells\<close>

definition buildStaticRouteShell :: "(jstr \<Rightarrow> jstr) option \<Rightarrow> jstr \<Rightarrow> jstr option" where
  "buildStaticRouteShell escapeOption route =
     (let esc = (case escapeOption of Some f \<Rightarrow> f | None \<Rightarrow> escape_feed); meta = getPageMeta route in
      case pm_title meta of
        None \<Rightarrow> None
      | Some t \<Rightarrow>
          if t = [] then None
          else
            let title = esc t;
                description = esc (case pm_description meta of None \<Rightarrow> [] | Some s \<Rightarrow> s)
            in Some (lit ''<main data-sirinx-static-shell='' @ [0x22] @ lit ''route'' @ [0x22, 0x3E, 10]
              @ lit ''      <section class='' @ [0x22] @
              lit ''bg-background px-4 py-16 text-foreground sm:px-6 lg:py-24'' @ [0x22, 0x3E, 10]
              @ lit ''        <div class='' @ [0x22] @ lit ''container mx-auto max-w-5xl'' @
              [0x22, 0x3E, 10] @ lit ''          <nav aria-label='' @ [0x22] @ lit ''Breadcrumb''
              @ [0x22] @ lit '' class='' @ [0x22] @ lit ''mb-6 text-sm text-text-secondary'' @
              [0x22, 0x3E, 10] @ lit ''            <a href='' @ [0x22, 0x2F, 0x22] @
              lit '' class='' @ [0x22] @ lit ''underline-offset-4 hover:underline'' @ [0x22, 0x3E,
              0xE2B, 0xE19, 0xE49, 0xE32, 0xE41, 0xE23, 0xE01] @ lit ''</a>'' @ [10] @
              lit ''            <span aria-hidden='' @ [0x22] @ lit ''true'' @ [0x22] @
              lit ''> / </span>'' @ [10] @ lit ''            <span>'' @ title @ lit ''</span>'' @
              [10] @ lit ''          </nav>'' @ [10] @ lit ''          <h1 class='' @ [0x22] @
              lit ''font-display text-3xl font-bold leading-tight sm:text-4xl'' @ [0x22, 0x3E] @
              title @ lit ''</h1>'' @ [10] @ lit ''          '' @ (if description \<noteq> [] then
              lit ''<p class='' @ [0x22] @
              lit ''mt-5 max-w-3xl text-base leading-relaxed text-text-secondary'' @ [0x22, 0x3E]
              @ description @ lit ''</p>'' else []) @ [10] @ lit ''          <div class='' @
              [0x22] @ lit ''mt-10 flex flex-wrap gap-4'' @ [0x22, 0x3E, 10] @
              lit ''            <a href='' @ [0x22] @ lit ''/contact?interest=solar-carport'' @
              [0x22] @ lit '' class='' @ [0x22] @
              lit ''inline-flex items-center justify-center rounded-lg px-6 py-3.5 font-display font-semibold btn-accent''
              @ [0x22, 0x3E, 0xE2A, 0xE48, 0xE07, 0xE02, 0xE49, 0xE2D, 0xE21, 0xE39, 0xE25, 0xE42,
              0xE04, 0xE23, 0xE07, 0xE01, 0xE32, 0xE23] @ lit ''</a>'' @ [10] @
              lit ''            <a href='' @ [0x22] @ lit ''/provinces/'' @ [0x22] @
              lit '' class='' @ [0x22] @
              lit ''inline-flex items-center justify-center rounded-lg px-6 py-3.5 font-display font-semibold btn-accent-outline''
              @ [0x22, 0x3E, 0xE14, 0xE39, 0xE1A, 0xE23, 0xE34, 0xE01, 0xE32, 0xE23] @
              lit '' 77 '' @ [0xE08, 0xE31, 0xE07, 0xE2B, 0xE27, 0xE31, 0xE14] @ lit ''</a>'' @
              [10] @ lit ''          </div>'' @ [10] @ lit ''        </div>'' @ [10] @
              lit ''      </section>'' @ [10] @ lit ''    </main>''))"

definition home_link :: "thai_province \<Rightarrow> jstr" where
  "home_link p =
     lit ''            <li><a href='' @ [0x22] @ lit ''/solar-carport/'' @ escapeHtml (tp_slug p)
     @ [0x2F, 0x22] @ lit '' class='' @ [0x22] @ lit ''underline-offset-4 hover:underline'' @
     [0x22, 0x3E] @ escapeHtml (tp_nameTh p) @ lit ''</a></li>''"

definition province_link :: "thai_province \<Rightarrow> jstr" where
  "province_link p =
     lit ''          <li><a href='' @ [0x22] @ lit ''/solar-carport/'' @ escapeHtml (tp_slug p) @
     [0x2F, 0x22, 0x3E] @ escapeHtml (tp_nameTh p) @ lit '' <span class='' @ [0x22] @
     lit ''text-xs opacity-70'' @ [0x22, 0x3E] @ escapeHtml (tp_nameEn p) @
     lit ''</span></a></li>''"

definition buildStaticHomeShell :: "jstr" where
  "buildStaticHomeShell =
     lit ''<main data-sirinx-static-shell='' @ [0x22] @ lit ''home'' @ [0x22, 0x3E, 10] @
     lit ''      <nav aria-label='' @ [0x22, 0xE40, 0xE21, 0xE19, 0xE39, 0xE2B, 0xE25, 0xE31,
     0xE01, 0x22] @ lit '' class='' @ [0x22] @
     lit ''border-b border-border bg-background/90 px-4 py-3 sm:px-6'' @ [0x22, 0x3E, 10] @
     lit ''        <ul class='' @ [0x22] @
     lit ''container mx-auto flex flex-wrap items-center gap-x-6 gap-y-2 text-sm'' @ [0x22, 0x3E,
     10] @ lit ''          <li><a href='' @ [0x22, 0x2F, 0x22] @ lit '' class='' @ [0x22] @
     lit ''underline-offset-4 hover:underline'' @ [0x22, 0x3E, 0xE2B, 0xE19, 0xE49, 0xE32, 0xE41,
     0xE23, 0xE01] @ lit ''</a></li>'' @ [10] @ lit ''          <li><a href='' @ [0x22] @
     lit ''/solar-carport/'' @ [0x22] @ lit '' class='' @ [0x22] @
     lit ''underline-offset-4 hover:underline'' @ [0x22] @ lit ''>Solar Carport</a></li>'' @ [10]
     @ lit ''          <li><a href='' @ [0x22] @ lit ''/provinces/'' @ [0x22] @ lit '' class='' @
     [0x22] @ lit ''underline-offset-4 hover:underline'' @ [0x22, 0x3E, 0xE1A, 0xE23, 0xE34,
     0xE01, 0xE32, 0xE23] @ lit '' 77 '' @ [0xE08, 0xE31, 0xE07, 0xE2B, 0xE27, 0xE31, 0xE14] @
     lit ''</a></li>'' @ [10] @ lit ''          <li><a href='' @ [0x22] @ lit ''/projects/'' @
     [0x22] @ lit '' class='' @ [0x22] @ lit ''underline-offset-4 hover:underline'' @ [0x22, 0x3E,
     0xE1C, 0xE25, 0xE07, 0xE32, 0xE19] @ lit ''</a></li>'' @ [10] @
     lit ''          <li><a href='' @ [0x22] @ lit ''/pricing/'' @ [0x22] @ lit '' class='' @
     [0x22] @ lit ''underline-offset-4 hover:underline'' @ [0x22, 0x3E, 0xE23, 0xE32, 0xE04,
     0xE32] @ lit ''</a></li>'' @ [10] @ lit ''          <li><a href='' @ [0x22] @
     lit ''/assessment/'' @ [0x22] @ lit '' class='' @ [0x22] @
     lit ''underline-offset-4 hover:underline'' @ [0x22, 0x3E, 0xE1B, 0xE23, 0xE30, 0xE40, 0xE21,
     0xE34, 0xE19, 0xE04, 0xE27, 0xE32, 0xE21, 0xE04, 0xE38, 0xE49, 0xE21, 0xE04, 0xE48, 0xE32] @
     lit ''</a></li>'' @ [10] @ lit ''          <li><a href='' @ [0x22] @ lit ''/contact/'' @
     [0x22] @ lit '' class='' @ [0x22] @ lit ''underline-offset-4 hover:underline'' @ [0x22, 0x3E,
     0xE15, 0xE34, 0xE14, 0xE15, 0xE48, 0xE2D] @ lit ''</a></li>'' @ [10] @ lit ''        </ul>''
     @ [10] @ lit ''      </nav>'' @ [10] @ lit ''      <section class='' @ [0x22] @
     lit ''relative min-h-[92vh] flex items-center overflow-hidden bg-background text-foreground''
     @ [0x22, 0x3E, 10] @ lit ''        <img src='' @ [0x22] @
     lit ''/assets/projects/ruenphae/20260924/1000076001.jpg'' @ [0x22] @ lit '' alt='' @ [0x22] @
     lit ''Solar rooftop installation at Ruenphae Royal Park Hotel'' @ [0x22] @ lit '' width='' @
     [0x22] @ lit ''1280'' @ [0x22] @ lit '' height='' @ [0x22] @ lit ''721'' @ [0x22] @
     lit '' class='' @ [0x22] @ lit ''absolute inset-0 h-full w-full object-cover'' @ [0x22] @
     lit '' fetchpriority='' @ [0x22] @ lit ''high'' @ [0x22] @ lit '' />'' @ [10] @
     lit ''        <div class='' @ [0x22] @
     lit ''absolute inset-0 bg-gradient-to-r from-background/95 via-background/75 to-background/30''
     @ [0x22] @ lit ''></div>'' @ [10] @ lit ''        <div class='' @ [0x22] @
     lit ''absolute inset-0 bg-gradient-to-t from-background via-transparent to-transparent'' @
     [0x22] @ lit ''></div>'' @ [10] @ lit ''        <div class='' @ [0x22] @
     lit ''container relative z-10 pt-20'' @ [0x22, 0x3E, 10] @ lit ''          <div class='' @
     [0x22] @ lit ''max-w-3xl'' @ [0x22, 0x3E, 10] @ lit ''            <span class='' @ [0x22] @
     lit ''inline-flex items-center gap-2 px-3 py-1.5 text-xs font-medium text-accent-primary bg-accent-glow border border-border-accent rounded-full mb-6''
     @ [0x22, 0x3E, 0xE1C, 0xE25, 0xE07, 0xE32, 0xE19, 0xE15, 0xE34, 0xE14, 0xE15, 0xE31, 0xE49,
     0xE07, 0xE08, 0xE23, 0xE34, 0xE07] @ lit ''</span>'' @ [10] @ lit ''            <h1 class=''
     @ [0x22] @
     lit ''font-display text-4xl sm:text-5xl lg:text-6xl xl:text-7xl font-bold text-foreground leading-[1.1] mb-2''
     @ [0x22] @ lit ''>Solar Carport</h1>'' @ [10] @ lit ''            <h2 class='' @ [0x22] @
     lit ''font-display text-3xl sm:text-4xl lg:text-5xl xl:text-6xl font-bold text-gradient-accent leading-[1.1] mb-6''
     @ [0x22, 0x3E, 0xE42, 0xE23, 0xE07, 0xE41, 0xE23, 0xE21, 0xE40, 0xE23, 0xE37, 0xE2D, 0xE19,
     0xE41, 0xE1E, 0x20, 0xE23, 0xE2D, 0xE22, 0xE31, 0xE25, 0xE1B, 0xE32, 0xE23, 0xE4C, 0xE04] @
     lit ''</h2>'' @ [10] @ lit ''            <p class='' @ [0x22] @
     lit ''text-lg sm:text-xl text-text-secondary leading-relaxed mb-8 max-w-xl'' @ [0x22, 0x3E,
     0xE20, 0xE32, 0xE1E, 0xE07, 0xE32, 0xE19, 0xE15, 0xE34, 0xE14, 0xE15, 0xE31, 0xE49, 0xE07,
     0xE08, 0xE23, 0xE34, 0xE07, 0xE08, 0xE32, 0xE01, 0xE23, 0xE30, 0xE1A, 0xE1A, 0xE1E, 0xE25,
     0xE31, 0xE07, 0xE07, 0xE32, 0xE19, 0xE41, 0xE25, 0xE30] @ lit '' Solar Rooftop '' @ [0xE42,
     0xE14, 0xE22, 0xE44, 0xE21, 0xE48, 0xE2D, 0xE49, 0xE32, 0xE07, 0xE15, 0xE31, 0xE27, 0xE40,
     0xE25, 0xE02, 0xE17, 0xE35, 0xE48, 0xE22, 0xE31, 0xE07, 0xE44, 0xE21, 0xE48, 0xE1C, 0xE48,
     0xE32, 0xE19, 0xE01, 0xE32, 0xE23, 0xE15, 0xE23, 0xE27, 0xE08, 0xE2B, 0xE25, 0xE31, 0xE01,
     0xE10, 0xE32, 0xE19] @ lit ''</p>'' @ [10] @ lit ''            <div class='' @ [0x22] @
     lit ''flex flex-col sm:flex-row gap-4'' @ [0x22, 0x3E, 10] @ lit ''              <a href='' @
     [0x22] @ lit ''/projects/ruenphae-royal-park'' @ [0x22] @ lit '' class='' @ [0x22] @
     lit ''inline-flex items-center justify-center gap-2 px-6 py-3.5 font-display font-semibold btn-accent rounded-lg''
     @ [0x22, 0x3E, 0xE14, 0xE39, 0xE1C, 0xE25, 0xE07, 0xE32, 0xE19, 0xE15, 0xE34, 0xE14, 0xE15,
     0xE31, 0xE49, 0xE07, 0xE08, 0xE23, 0xE34, 0xE07] @ lit ''</a>'' @ [10] @
     lit ''              <a href='' @ [0x22] @ lit ''/contact?interest=solar-carport'' @ [0x22] @
     lit '' class='' @ [0x22] @
     lit ''inline-flex items-center justify-center gap-2 px-6 py-3.5 font-display font-semibold btn-accent-outline rounded-lg''
     @ [0x22, 0x3E, 0xE1B, 0xE23, 0xE30, 0xE40, 0xE21, 0xE34, 0xE19, 0xE42, 0xE04, 0xE23, 0xE07,
     0xE01, 0xE32, 0xE23, 0xE02, 0xE2D, 0xE07, 0xE04, 0xE38, 0xE13] @ lit ''</a>'' @ [10] @
     lit ''            </div>'' @ [10] @ lit ''          </div>'' @ [10] @ lit ''        </div>''
     @ [10] @ lit ''      </section>'' @ [10] @ lit ''      <section class='' @ [0x22] @
     lit ''bg-background px-4 py-16 text-foreground sm:px-6 lg:py-24'' @ [0x22, 0x3E, 10] @
     lit ''        <div class='' @ [0x22] @ lit ''container mx-auto max-w-5xl'' @ [0x22, 0x3E, 10]
     @ lit ''          <h2 class='' @ [0x22] @
     lit ''font-display text-2xl font-bold leading-tight sm:text-3xl'' @ [0x22, 0x3E, 0xE1A,
     0xE23, 0xE34, 0xE01, 0xE32, 0xE23] @ lit '' Solar Carport '' @ [0xE04, 0xE23, 0xE1A] @
     lit '' 77 '' @ [0xE08, 0xE31, 0xE07, 0xE2B, 0xE27, 0xE31, 0xE14] @ lit ''</h2>'' @ [10] @
     lit ''          <p class='' @ [0x22] @
     lit ''mt-4 max-w-3xl text-base leading-relaxed text-text-secondary'' @ [0x22, 0x3E, 0xE40,
     0xE25, 0xE37, 0xE2D, 0xE01, 0xE08, 0xE31, 0xE07, 0xE2B, 0xE27, 0xE31, 0xE14, 0xE40, 0xE1E,
     0xE37, 0xE48, 0xE2D, 0xE14, 0xE39, 0xE41, 0xE19, 0xE27, 0xE17, 0xE32, 0xE07, 0xE2D, 0xE2D,
     0xE01, 0xE41, 0xE1A, 0xE1A, 0xE41, 0xE25, 0xE30, 0xE02, 0xE49, 0xE2D, 0xE21, 0xE39, 0xE25,
     0xE1E, 0xE25, 0xE31, 0xE07, 0xE07, 0xE32, 0xE19, 0xE41, 0xE2A, 0xE07, 0xE2D, 0xE32, 0xE17,
     0xE34, 0xE15, 0xE22, 0xE4C, 0xE02, 0xE2D, 0xE07, 0xE1E, 0xE37, 0xE49, 0xE19, 0xE17, 0xE35,
     0xE48, 0xE19, 0xE31, 0xE49, 0xE19, 0x20, 0xE41, 0xE15, 0xE48, 0xE25, 0xE30, 0xE08, 0xE31,
     0xE07, 0xE2B, 0xE27, 0xE31, 0xE14, 0xE04, 0xE33, 0xE19, 0xE27, 0xE13, 0xE08, 0xE32, 0xE01,
     0xE02, 0xE49, 0xE2D, 0xE21, 0xE39, 0xE25, 0xE2B, 0xE19, 0xE49, 0xE32, 0xE07, 0xE32, 0xE19,
     0xE08, 0xE23, 0xE34, 0xE07, 0x20, 0xE44, 0xE21, 0xE48, 0xE43, 0xE0A, 0xE48, 0xE04, 0xE48,
     0xE32, 0xE01, 0xE25, 0xE32, 0xE07] @ lit ''</p>'' @ [10] @ lit ''          <ul class='' @
     [0x22] @ lit ''mt-8 grid grid-cols-2 gap-x-4 gap-y-2 text-sm sm:grid-cols-3 lg:grid-cols-4''
     @ [0x22, 0x3E, 10] @ join [10] (map home_link thaiProvinces) @ [10] @ lit ''          </ul>''
     @ [10] @ lit ''          <div class='' @ [0x22] @ lit ''mt-10 flex flex-wrap gap-4'' @ [0x22,
     0x3E, 10] @ lit ''            <a href='' @ [0x22] @ lit ''/provinces/'' @ [0x22] @
     lit '' class='' @ [0x22] @
     lit ''inline-flex items-center justify-center rounded-lg px-6 py-3.5 font-display font-semibold btn-accent-outline''
     @ [0x22, 0x3E, 0xE14, 0xE39, 0xE17, 0xE31, 0xE49, 0xE07] @ lit '' 77 '' @ [0xE08, 0xE31,
     0xE07, 0xE2B, 0xE27, 0xE31, 0xE14] @ lit ''</a>'' @ [10] @ lit ''            <a href='' @
     [0x22] @ lit ''/contact?interest=solar-carport'' @ [0x22] @ lit '' class='' @ [0x22] @
     lit ''inline-flex items-center justify-center rounded-lg px-6 py-3.5 font-display font-semibold btn-accent''
     @ [0x22, 0x3E, 0xE2A, 0xE48, 0xE07, 0xE02, 0xE49, 0xE2D, 0xE21, 0xE39, 0xE25, 0xE42, 0xE04,
     0xE23, 0xE07, 0xE01, 0xE32, 0xE23] @ lit ''</a>'' @ [10] @ lit ''          </div>'' @ [10] @
     lit ''        </div>'' @ [10] @ lit ''      </section>'' @ [10] @ lit ''    </main>''"

definition buildStaticHomeSolutionShell :: "jstr" where
  "buildStaticHomeSolutionShell =
     lit ''<main data-sirinx-static-shell='' @ [0x22] @ lit ''home-solution'' @ [0x22, 0x3E, 10] @
     lit ''      <section class='' @ [0x22] @
     lit ''relative min-h-[92vh] overflow-hidden bg-background text-foreground'' @ [0x22, 0x3E,
     10] @ lit ''        <picture class='' @ [0x22] @ lit ''absolute inset-0 block h-full w-full''
     @ [0x22, 0x3E, 10] @ lit ''          <source type='' @ [0x22] @ lit ''image/avif'' @ [0x22] @
     lit '' srcset='' @ [0x22] @
     lit ''/assets/home-solution/home-solution-drone-hero-640.avif 640w, /assets/home-solution/home-solution-drone-hero-960.avif 960w, /assets/home-solution/home-solution-drone-hero-1280.avif 1280w''
     @ [0x22] @ lit '' sizes='' @ [0x22] @ MOBILE_FIRST_HERO_IMAGE_SIZES @ [0x22] @ lit '' />'' @
     [10] @ lit ''          <img src='' @ [0x22] @
     lit ''/assets/home-solution/home-solution-drone-hero-960.jpg'' @ [0x22] @ lit '' srcset='' @
     [0x22] @
     lit ''/assets/home-solution/home-solution-drone-hero-640.jpg 640w, /assets/home-solution/home-solution-drone-hero-960.jpg 960w, /assets/home-solution/home-solution-drone-hero-1280.jpg 1280w''
     @ [0x22] @ lit '' sizes='' @ [0x22] @ MOBILE_FIRST_HERO_IMAGE_SIZES @ [0x22] @ lit '' alt=''
     @ [0x22, 0xE21, 0xE38, 0xE21, 0xE42, 0xE14, 0xE23, 0xE19, 0xE42, 0xE04, 0xE23, 0xE07, 0xE01,
     0xE32, 0xE23, 0xE1A, 0xE49, 0xE32, 0xE19, 0xE02, 0xE19, 0xE32, 0xE14, 0xE43, 0xE2B, 0xE0D,
     0xE48, 0xE41, 0xE25, 0xE30, 0xE42, 0xE2E, 0xE21, 0xE2D, 0xE2D, 0xE1F, 0xE1F, 0xE34, 0xE28,
     0xE1E, 0xE23, 0xE49, 0xE2D, 0xE21, 0xE23, 0xE30, 0xE1A, 0xE1A, 0xE42, 0xE0B, 0xE25, 0xE32,
     0xE23, 0xE4C] @ lit '' SIRINX'' @ [0x22] @ lit '' width='' @ [0x22] @ lit ''1280'' @ [0x22] @
     lit '' height='' @ [0x22] @ lit ''720'' @ [0x22] @ lit '' class='' @ [0x22] @
     lit ''h-full w-full object-cover'' @ [0x22] @ lit '' fetchpriority='' @ [0x22] @ lit ''high''
     @ [0x22] @ lit '' />'' @ [10] @ lit ''        </picture>'' @ [10] @
     lit ''        <div class='' @ [0x22] @
     lit ''absolute inset-0 bg-gradient-to-r from-background via-background/78 to-background/20''
     @ [0x22] @ lit ''></div>'' @ [10] @ lit ''        <div class='' @ [0x22] @
     lit ''absolute inset-0 bg-gradient-to-t from-background via-transparent to-transparent'' @
     [0x22] @ lit ''></div>'' @ [10] @ lit ''        <div class='' @ [0x22] @
     lit ''container relative z-10 flex min-h-[92vh] items-center pt-24 pb-16'' @ [0x22, 0x3E, 10]
     @ lit ''          <div class='' @ [0x22] @ lit ''max-w-3xl'' @ [0x22, 0x3E, 10] @
     lit ''            <div class='' @ [0x22] @
     lit ''mb-5 inline-flex items-center gap-2 rounded-full border border-border-accent bg-accent-glow px-3 py-1.5 text-xs font-semibold text-accent-primary''
     @ [0x22] @ lit ''>Home Solution for high-load residences</div>'' @ [10] @
     lit ''            <h1 class='' @ [0x22] @
     lit ''mb-6 font-display text-3xl font-bold leading-[1.1] text-foreground sm:text-5xl lg:text-6xl''
     @ [0x22] @ lit ''>Solar '' @ [0xE2A, 0xE33, 0xE2B, 0xE23, 0xE31, 0xE1A, 0xE1A, 0xE49, 0xE32,
     0xE19, 0xE43, 0xE2B, 0xE0D, 0xE48] @ lit '' <span class='' @ [0x22] @
     lit ''block text-gradient-accent'' @ [0x22, 0x3E, 0xE41, 0xE25, 0xE30, 0xE42, 0xE2E, 0xE21,
     0xE2D, 0xE2D, 0xE1F, 0xE1F, 0xE34, 0xE28, 0xE17, 0xE35, 0xE48, 0xE43, 0xE0A, 0xE49, 0xE44,
     0xE1F, 0xE2A, 0xE39, 0xE07] @ lit ''</span></h1>'' @ [10] @ lit ''            <p class='' @
     [0x22] @
     lit ''mb-8 max-w-2xl text-sm leading-7 text-text-secondary sm:text-lg sm:leading-relaxed'' @
     [0x22] @ lit ''>SIRINX '' @ [0xE2D, 0xE2D, 0xE01, 0xE41, 0xE1A, 0xE1A, 0xE42, 0xE0B, 0xE25,
     0xE32, 0xE23, 0xE4C, 0xE1A, 0xE49, 0xE32, 0xE19, 0xE43, 0xE2B, 0xE0D, 0xE48, 0x20, 0xE04,
     0xE23, 0xE2D, 0xE1A, 0xE04, 0xE25, 0xE38, 0xE21, 0xE2B, 0xE25, 0xE31, 0xE07, 0xE04, 0xE32,
     0x20, 0xE04, 0xE32, 0xE23, 0xE4C, 0xE1E, 0xE2D, 0xE23, 0xE4C, 0xE15, 0x20, 0xE08, 0xE38,
     0xE14, 0xE0A, 0xE32, 0xE23, 0xE4C, 0xE08] @ lit '' EV '' @ [0xE41, 0xE1A, 0xE15, 0xE40,
     0xE15, 0xE2D, 0xE23, 0xE35, 0xE48, 0x20, 0xE41, 0xE25, 0xE30, 0xE23, 0xE30, 0xE1A, 0xE1A,
     0xE15, 0xE34, 0xE14, 0xE15, 0xE32, 0xE21, 0xE1E, 0xE25, 0xE31, 0xE07, 0xE07, 0xE32, 0xE19,
     0x20, 0xE2A, 0xE33, 0xE2B, 0xE23, 0xE31, 0xE1A, 0xE1A, 0xE49, 0xE32, 0xE19, 0xE1E, 0xE23,
     0xE35, 0xE40, 0xE21, 0xE35, 0xE22, 0xE21, 0x20, 0xE42, 0xE2E, 0xE21, 0xE2D, 0xE2D, 0xE1F,
     0xE1F, 0xE34, 0xE28, 0x20, 0xE41, 0xE25, 0xE30, 0xE2B, 0xE21, 0xE39, 0xE48, 0xE1A, 0xE49,
     0xE32, 0xE19, 0xE08, 0xE31, 0xE14, 0xE2A, 0xE23, 0xE23, 0xE17, 0xE35, 0xE48, 0xE15, 0xE49,
     0xE2D, 0xE07, 0xE01, 0xE32, 0xE23, 0xE23, 0xE30, 0xE1A, 0xE1A, 0xE17, 0xE35, 0xE48, 0xE15,
     0xE23, 0xE27, 0xE08, 0xE2A, 0xE2D, 0xE1A, 0xE44, 0xE14, 0xE49, 0xE08, 0xE23, 0xE34, 0xE07] @
     lit ''</p>'' @ [10] @ lit ''            <div class='' @ [0x22] @
     lit ''flex flex-col gap-3 sm:flex-row'' @ [0x22, 0x3E, 10] @ lit ''              <a href='' @
     [0x22] @ lit ''/contact?interest=home-solution'' @ [0x22] @ lit '' class='' @ [0x22] @
     lit ''inline-flex items-center justify-center gap-2 rounded-lg px-6 py-3.5 font-display font-semibold btn-accent''
     @ [0x22, 0x3E, 0xE19, 0xE31, 0xE14, 0xE1B, 0xE23, 0xE30, 0xE40, 0xE21, 0xE34, 0xE19, 0xE1A,
     0xE49, 0xE32, 0xE19] @ lit '' / '' @ [0xE42, 0xE2E, 0xE21, 0xE2D, 0xE2D, 0xE1F, 0xE1F, 0xE34,
     0xE28] @ lit ''</a>'' @ [10] @ lit ''              <a href='' @ [0x22] @ lit ''/assessment''
     @ [0x22] @ lit '' class='' @ [0x22] @
     lit ''inline-flex items-center justify-center gap-2 rounded-lg px-6 py-3.5 font-display font-semibold btn-accent-outline''
     @ [0x22, 0x3E, 0xE1B, 0xE23, 0xE30, 0xE40, 0xE21, 0xE34, 0xE19, 0xE04, 0xE48, 0xE32, 0xE44,
     0xE1F, 0xE40, 0xE1A, 0xE37, 0xE49, 0xE2D, 0xE07, 0xE15, 0xE49, 0xE19] @ lit ''</a>'' @ [10] @
     lit ''            </div>'' @ [10] @ lit ''          </div>'' @ [10] @ lit ''        </div>''
     @ [10] @ lit ''      </section>'' @ [10] @ lit ''    </main>''"

definition buildStaticProvincesShell :: "jstr" where
  "buildStaticProvincesShell =
     lit ''<main data-sirinx-static-shell='' @ [0x22] @ lit ''provinces'' @ [0x22, 0x3E, 10] @
     lit ''      <section class='' @ [0x22] @
     lit ''bg-background px-4 py-16 text-foreground sm:px-6 lg:py-24'' @ [0x22, 0x3E, 10] @
     lit ''        <div class='' @ [0x22] @ lit ''container mx-auto max-w-5xl'' @ [0x22, 0x3E, 10]
     @ lit ''          <nav aria-label='' @ [0x22] @ lit ''Breadcrumb'' @ [0x22] @ lit '' class=''
     @ [0x22] @ lit ''mb-6 text-sm text-text-secondary'' @ [0x22, 0x3E, 10] @
     lit ''            <a href='' @ [0x22, 0x2F, 0x22] @ lit '' class='' @ [0x22] @
     lit ''underline-offset-4 hover:underline'' @ [0x22, 0x3E, 0xE2B, 0xE19, 0xE49, 0xE32, 0xE41,
     0xE23, 0xE01] @ lit ''</a>'' @ [10] @ lit ''            <span aria-hidden='' @ [0x22] @
     lit ''true'' @ [0x22] @ lit ''> / </span>'' @ [10] @ lit ''            <a href='' @ [0x22] @
     lit ''/solar-carport'' @ [0x22] @ lit '' class='' @ [0x22] @
     lit ''underline-offset-4 hover:underline'' @ [0x22] @ lit ''>Solar Carport</a>'' @ [10] @
     lit ''            <span aria-hidden='' @ [0x22] @ lit ''true'' @ [0x22] @ lit ''> / </span>''
     @ [10] @ lit ''            <span>77 '' @ [0xE08, 0xE31, 0xE07, 0xE2B, 0xE27, 0xE31, 0xE14] @
     lit ''</span>'' @ [10] @ lit ''          </nav>'' @ [10] @ lit ''          <h1 class='' @
     [0x22] @ lit ''font-display text-3xl font-bold leading-tight sm:text-4xl'' @ [0x22] @
     lit ''>Solar Carport '' @ [0xE41, 0xE25, 0xE30, 0xE23, 0xE30, 0xE1A, 0xE1A, 0xE1E, 0xE25,
     0xE31, 0xE07, 0xE07, 0xE32, 0xE19, 0xE2A, 0xE30, 0xE2D, 0xE32, 0xE14, 0xE02, 0xE2D, 0xE07] @
     lit '' SIRINX '' @ [0xE04, 0xE23, 0xE1A, 0xE17, 0xE38, 0xE01, 0xE08, 0xE31, 0xE07, 0xE2B,
     0xE27, 0xE31, 0xE14] @ lit ''</h1>'' @ [10] @ lit ''          <p class='' @ [0x22] @
     lit ''mt-5 max-w-3xl text-base leading-relaxed text-text-secondary'' @ [0x22, 0x3E, 0xE40,
     0xE25, 0xE37, 0xE2D, 0xE01, 0xE08, 0xE31, 0xE07, 0xE2B, 0xE27, 0xE31, 0xE14, 0xE02, 0xE2D,
     0xE07, 0xE04, 0xE38, 0xE13, 0xE40, 0xE1E, 0xE37, 0xE48, 0xE2D, 0xE14, 0xE39, 0xE41, 0xE19,
     0xE27, 0xE17, 0xE32, 0xE07, 0xE2D, 0xE2D, 0xE01, 0xE41, 0xE1A, 0xE1A] @
     lit '' Solar Carport, Rooftop Solar, BESS, EV Charger '' @ [0xE41, 0xE25, 0xE30] @
     lit '' AI Energy Management '' @ [0xE1E, 0xE23, 0xE49, 0xE2D, 0xE21, 0xE02, 0xE49, 0xE2D,
     0xE21, 0xE39, 0xE25, 0xE17, 0xE35, 0xE48, 0xE15, 0xE49, 0xE2D, 0xE07, 0xE40, 0xE15, 0xE23,
     0xE35, 0xE22, 0xE21, 0xE01, 0xE48, 0xE2D, 0xE19, 0xE19, 0xE31, 0xE14, 0xE2A, 0xE33, 0xE23,
     0xE27, 0xE08, 0xE2B, 0xE19, 0xE49, 0xE32, 0xE07, 0xE32, 0xE19, 0x20, 0xE1C, 0xE25, 0xE1B,
     0xE23, 0xE30, 0xE40, 0xE21, 0xE34, 0xE19, 0xE41, 0xE15, 0xE48, 0xE25, 0xE30, 0xE42, 0xE04,
     0xE23, 0xE07, 0xE01, 0xE32, 0xE23, 0xE04, 0xE33, 0xE19, 0xE27, 0xE13, 0xE08, 0xE32, 0xE01,
     0xE1A, 0xE34, 0xE25, 0xE04, 0xE48, 0xE32, 0xE44, 0xE1F, 0xE41, 0xE25, 0xE30, 0xE02, 0xE49,
     0xE2D, 0xE21, 0xE39, 0xE25, 0xE2B, 0xE19, 0xE49, 0xE32, 0xE07, 0xE32, 0xE19, 0xE08, 0xE23,
     0xE34, 0xE07, 0x20, 0xE44, 0xE21, 0xE48, 0xE43, 0xE0A, 0xE48, 0xE04, 0xE48, 0xE32, 0xE01,
     0xE25, 0xE32, 0xE07, 0xE02, 0xE2D, 0xE07, 0xE08, 0xE31, 0xE07, 0xE2B, 0xE27, 0xE31, 0xE14] @
     lit ''</p>'' @ [10] @ lit ''          <ul class='' @ [0x22] @
     lit ''mt-10 grid grid-cols-2 gap-3 sm:grid-cols-3 lg:grid-cols-4'' @ [0x22, 0x3E, 10] @ join
     [10] (map province_link thaiProvinces) @ [10] @ lit ''          </ul>'' @ [10] @
     lit ''          <div class='' @ [0x22] @ lit ''mt-14 grid gap-6 sm:grid-cols-2'' @ [0x22,
     0x3E, 10] @ lit ''            <section>'' @ [10] @ lit ''              <h2 class='' @ [0x22]
     @ lit ''font-display text-xl font-bold'' @ [0x22, 0x3E, 0xE2A, 0xE34, 0xE48, 0xE07, 0xE17,
     0xE35, 0xE48, 0xE44, 0xE14, 0xE49, 0xE43, 0xE19, 0xE01, 0xE32, 0xE23, 0xE1B, 0xE23, 0xE30,
     0xE40, 0xE21, 0xE34, 0xE19, 0xE41, 0xE15, 0xE48, 0xE25, 0xE30, 0xE08, 0xE31, 0xE07, 0xE2B,
     0xE27, 0xE31, 0xE14] @ lit ''</h2>'' @ [10] @ lit ''              <p class='' @ [0x22] @
     lit ''mt-3 text-sm leading-6 text-text-secondary'' @ [0x22, 0x3E, 0xE15, 0xE31, 0xE27, 0xE40,
     0xE25, 0xE02, 0xE1E, 0xE25, 0xE31, 0xE07, 0xE07, 0xE32, 0xE19, 0xE41, 0xE2A, 0xE07, 0xE2D,
     0xE32, 0xE17, 0xE34, 0xE15, 0xE22, 0xE4C, 0xE08, 0xE23, 0xE34, 0xE07, 0xE08, 0xE32, 0xE01] @
     lit '' PVGIS ('' @ [0xE04, 0xE48, 0xE32, 0xE1B, 0xE01, 0xE15, 0xE34, 0xE2A, 0xE20, 0xE32,
     0xE1E, 0xE20, 0xE39, 0xE21, 0xE34, 0xE2D, 0xE32, 0xE01, 0xE32, 0xE28, 0x20, 0xE44, 0xE21,
     0xE48, 0xE43, 0xE0A, 0xE48, 0xE04, 0xE33, 0xE2A, 0xE31, 0xE0D, 0xE0D, 0xE32, 0xE1B, 0xE23,
     0xE30, 0xE2B, 0xE22, 0xE31, 0xE14] @ lit '') '' @ [0xE41, 0xE19, 0xE27, 0xE17, 0xE32, 0xE07,
     0xE01, 0xE32, 0xE23, 0xE40, 0xE0A, 0xE37, 0xE48, 0xE2D, 0xE21, 0xE15, 0xE48, 0xE2D, 0xE40,
     0xE02, 0xE49, 0xE32, 0xE01, 0xE31, 0xE1A] @ lit '' MEA '' @ [0xE2B, 0xE23, 0xE37, 0xE2D] @
     lit '' PEA '' @ [0xE15, 0xE32, 0xE21, 0xE1E, 0xE37, 0xE49, 0xE19, 0xE17, 0xE35, 0xE48, 0x20,
     0xE41, 0xE25, 0xE30, 0xE1B, 0xE23, 0xE30, 0xE40, 0xE14, 0xE47, 0xE19, 0xE17, 0xE35, 0xE48,
     0xE15, 0xE49, 0xE2D, 0xE07, 0xE40, 0xE15, 0xE23, 0xE35, 0xE22, 0xE21, 0xE01, 0xE48, 0xE2D,
     0xE19, 0xE19, 0xE31, 0xE14, 0xE2A, 0xE33, 0xE23, 0xE27, 0xE08, 0xE2B, 0xE19, 0xE49, 0xE32,
     0xE07, 0xE32, 0xE19, 0x20, 0xE40, 0xE0A, 0xE48, 0xE19, 0x20, 0xE1E, 0xE37, 0xE49, 0xE19,
     0xE17, 0xE35, 0xE48, 0xE43, 0xE0A, 0xE49, 0xE07, 0xE32, 0xE19, 0x20, 0xE42, 0xE04, 0xE23,
     0xE07, 0xE2A, 0xE23, 0xE49, 0xE32, 0xE07, 0xE40, 0xE14, 0xE34, 0xE21, 0x20, 0xE41, 0xE25,
     0xE30, 0xE04, 0xE27, 0xE32, 0xE21, 0xE15, 0xE49, 0xE2D, 0xE07, 0xE01, 0xE32, 0xE23, 0xE0A,
     0xE32, 0xE23, 0xE4C, 0xE08] @ lit '' EV</p>'' @ [10] @ lit ''            </section>'' @ [10]
     @ lit ''            <section>'' @ [10] @ lit ''              <h2 class='' @ [0x22] @
     lit ''font-display text-xl font-bold'' @ [0x22, 0x3E, 0xE02, 0xE31, 0xE49, 0xE19, 0xE15,
     0xE2D, 0xE19, 0xE40, 0xE23, 0xE34, 0xE48, 0xE21, 0xE15, 0xE49, 0xE19] @ lit ''</h2>'' @ [10]
     @ lit ''              <p class='' @ [0x22] @
     lit ''mt-3 text-sm leading-6 text-text-secondary'' @ [0x22, 0x3E, 0xE40, 0xE25, 0xE37, 0xE2D,
     0xE01, 0xE08, 0xE31, 0xE07, 0xE2B, 0xE27, 0xE31, 0xE14, 0xE17, 0xE35, 0xE48, 0xE15, 0xE34,
     0xE14, 0xE15, 0xE31, 0xE49, 0xE07, 0xE2B, 0xE23, 0xE37, 0xE2D, 0xE01, 0xE33, 0xE25, 0xE31,
     0xE07, 0xE2B, 0xE32, 0xE17, 0xE35, 0xE48, 0x20, 0xE08, 0xE32, 0xE01, 0xE19, 0xE31, 0xE49,
     0xE19, 0xE1B, 0xE23, 0xE30, 0xE40, 0xE21, 0xE34, 0xE19, 0xE04, 0xE27, 0xE32, 0xE21, 0xE04,
     0xE38, 0xE49, 0xE21, 0xE04, 0xE48, 0xE32, 0xE40, 0xE1A, 0xE37, 0xE49, 0xE2D, 0xE07, 0xE15,
     0xE49, 0xE19, 0x20, 0xE41, 0xE25, 0xE49, 0xE27, 0xE2A, 0xE48, 0xE07, 0xE02, 0xE49, 0xE2D,
     0xE21, 0xE39, 0xE25, 0xE40, 0xE1E, 0xE37, 0xE48, 0xE2D, 0xE19, 0xE31, 0xE14, 0xE2A, 0xE33,
     0xE23, 0xE27, 0xE08, 0xE2B, 0xE19, 0xE49, 0xE32, 0xE07, 0xE32, 0xE19, 0xE42, 0xE14, 0xE22,
     0xE17, 0xE35, 0xE21, 0xE27, 0xE34, 0xE28, 0xE27, 0xE01, 0xE23, 0xE23, 0xE21, 0x20, 0xE1C,
     0xE25, 0xE01, 0xE32, 0xE23, 0xE2D, 0xE2D, 0xE01, 0xE41, 0xE1A, 0xE1A, 0xE41, 0xE25, 0xE30,
     0xE23, 0xE32, 0xE04, 0xE32, 0xE2D, 0xE49, 0xE32, 0xE07, 0xE2D, 0xE34, 0xE07, 0xE08, 0xE32,
     0xE01, 0xE02, 0xE49, 0xE2D, 0xE21, 0xE39, 0xE25, 0xE08, 0xE23, 0xE34, 0xE07, 0xE02, 0xE2D,
     0xE07, 0xE42, 0xE04, 0xE23, 0xE07, 0xE01, 0xE32, 0xE23, 0x20, 0xE44, 0xE21, 0xE48, 0xE43,
     0xE0A, 0xE48, 0xE04, 0xE48, 0xE32, 0xE01, 0xE25, 0xE32, 0xE07, 0xE02, 0xE2D, 0xE07, 0xE08,
     0xE31, 0xE07, 0xE2B, 0xE27, 0xE31, 0xE14] @ lit ''</p>'' @ [10] @
     lit ''            </section>'' @ [10] @ lit ''          </div>'' @ [10] @
     lit ''          <div class='' @ [0x22] @ lit ''mt-10 flex flex-wrap gap-4'' @ [0x22, 0x3E,
     10] @ lit ''            <a href='' @ [0x22] @ lit ''/contact?interest=solar-carport'' @
     [0x22] @ lit '' class='' @ [0x22] @
     lit ''inline-flex items-center justify-center rounded-lg px-6 py-3.5 font-display font-semibold btn-accent''
     @ [0x22, 0x3E, 0xE2A, 0xE48, 0xE07, 0xE02, 0xE49, 0xE2D, 0xE21, 0xE39, 0xE25, 0xE42, 0xE04,
     0xE23, 0xE07, 0xE01, 0xE32, 0xE23] @ lit ''</a>'' @ [10] @ lit ''            <a href='' @
     [0x22] @ lit ''/solar-carport'' @ [0x22] @ lit '' class='' @ [0x22] @
     lit ''inline-flex items-center justify-center rounded-lg px-6 py-3.5 font-display font-semibold btn-accent-outline''
     @ [0x22, 0x3E, 0xE01, 0xE25, 0xE31, 0xE1A, 0xE44, 0xE1B, 0xE2B, 0xE19, 0xE49, 0xE32] @
     lit '' Solar Carport</a>'' @ [10] @ lit ''          </div>'' @ [10] @ lit ''        </div>''
     @ [10] @ lit ''      </section>'' @ [10] @ lit ''    </main>''"

text \<open>\<open>encodeURIComponent\<close> leaves the letters, digits and hyphens of a slug as they are.\<close>

definition canary_shell :: "canary_record \<Rightarrow> jstr" where
  "canary_shell r =
     (let provinceName = escapeHtml (tp_nameTh (cr_province r));
          provinceNameEn = escapeHtml (tp_nameEn (cr_province r));
          canonicalPath = escapeHtml (cr_canonicalPath r);
          contactHref = lit ''/contact?interest=solar-carport&amp;province='' @ tp_slug (cr_province r)
      in lit ''<main data-sirinx-static-shell='' @ [0x22] @ lit ''province'' @ [0x22, 0x3E, 10] @
        lit ''      <section class='' @ [0x22] @
        lit ''bg-background px-4 py-20 text-foreground sm:px-6 lg:py-28'' @ [0x22, 0x3E, 10] @
        lit ''        <div class='' @ [0x22] @ lit ''container mx-auto max-w-4xl'' @ [0x22, 0x3E,
        10] @ lit ''          <nav aria-label='' @ [0x22] @ lit ''Breadcrumb'' @ [0x22] @
        lit '' class='' @ [0x22] @ lit ''mb-6 text-sm text-text-secondary'' @ [0x22, 0x3E, 10] @
        lit ''            <a href='' @ [0x22] @ lit ''/solar-carport'' @ [0x22] @ lit '' class=''
        @ [0x22] @ lit ''underline-offset-4 hover:underline'' @ [0x22] @
        lit ''>Solar Carport</a>'' @ [10] @ lit ''            <span aria-hidden='' @ [0x22] @
        lit ''true'' @ [0x22] @ lit ''> / </span>'' @ [10] @ lit ''            <span>'' @
        provinceName @ lit ''</span>'' @ [10] @ lit ''          </nav>'' @ [10] @
        lit ''          <span class='' @ [0x22] @
        lit ''mb-5 inline-flex rounded-full border border-border-accent bg-accent-glow px-3 py-1.5 text-xs font-semibold text-accent-primary''
        @ [0x22] @ lit ''>Solar Carport Consultation</span>'' @ [10] @
        lit ''          <h1 class='' @ [0x22] @
        lit ''mb-6 font-display text-4xl font-bold leading-tight sm:text-5xl'' @ [0x22] @
        lit ''>Solar Carport '' @ [0xE43, 0xE19] @ provinceName @ lit ''</h1>'' @ [10] @
        lit ''          <p class='' @ [0x22] @
        lit ''max-w-3xl text-lg leading-relaxed text-text-secondary'' @ [0x22, 0x3E, 0xE02, 0xE49,
        0xE2D, 0xE21, 0xE39, 0xE25, 0xE40, 0xE1A, 0xE37, 0xE49, 0xE2D, 0xE07, 0xE15, 0xE49, 0xE19,
        0xE2A, 0xE33, 0xE2B, 0xE23, 0xE31, 0xE1A, 0xE1C, 0xE39, 0xE49, 0xE17, 0xE35, 0xE48, 0xE01,
        0xE33, 0xE25, 0xE31, 0xE07, 0xE27, 0xE32, 0xE07, 0xE41, 0xE1C, 0xE19] @
        lit '' Solar Carport '' @ [0xE43, 0xE19, 0xE08, 0xE31, 0xE07, 0xE2B, 0xE27, 0xE31, 0xE14]
        @ provinceName @ lit '' ('' @ provinceNameEn @ lit '') '' @ [0xE40, 0xE1E, 0xE37, 0xE48,
        0xE2D, 0xE43, 0xE0A, 0xE49, 0xE40, 0xE15, 0xE23, 0xE35, 0xE22, 0xE21, 0xE02, 0xE49, 0xE2D,
        0xE21, 0xE39, 0xE25, 0xE2B, 0xE19, 0xE49, 0xE32, 0xE07, 0xE32, 0xE19, 0x20, 0xE01, 0xE32,
        0xE23, 0xE43, 0xE0A, 0xE49, 0xE44, 0xE1F, 0x20, 0xE1E, 0xE37, 0xE49, 0xE19, 0xE17, 0xE35,
        0xE48, 0xE43, 0xE0A, 0xE49, 0xE07, 0xE32, 0xE19, 0x20, 0xE41, 0xE25, 0xE30, 0xE04, 0xE27,
        0xE32, 0xE21, 0xE15, 0xE49, 0xE2D, 0xE07, 0xE01, 0xE32, 0xE23] @ lit '' EV '' @ [0xE2B,
        0xE23, 0xE37, 0xE2D, 0xE23, 0xE30, 0xE1A, 0xE1A, 0xE2A, 0xE33, 0xE23, 0xE2D, 0xE07, 0xE44,
        0xE1F, 0xE01, 0xE48, 0xE2D, 0xE19, 0xE1B, 0xE23, 0xE36, 0xE01, 0xE29, 0xE32, 0xE27, 0xE34,
        0xE28, 0xE27, 0xE01, 0xE23] @ lit ''</p>'' @ [10] @ lit ''          <div class='' @ [0x22]
        @ lit ''mt-10 grid gap-5 sm:grid-cols-3'' @ [0x22, 0x3E, 10] @
        lit ''            <section class='' @ [0x22] @
        lit ''rounded-xl border border-border bg-card p-5'' @ [0x22, 0x3E, 10] @
        lit ''              <h2 class='' @ [0x22] @ lit ''font-display text-lg font-semibold'' @
        [0x22, 0x3E, 0xE40, 0xE23, 0xE34, 0xE48, 0xE21, 0xE08, 0xE32, 0xE01, 0xE02, 0xE49, 0xE2D,
        0xE21, 0xE39, 0xE25, 0xE44, 0xE0B, 0xE15, 0xE4C, 0xE08, 0xE23, 0xE34, 0xE07] @
        lit ''</h2>'' @ [10] @ lit ''              <p class='' @ [0x22] @
        lit ''mt-2 text-sm leading-6 text-text-secondary'' @ [0x22, 0x3E, 0xE02, 0xE19, 0xE32,
        0xE14, 0xE1E, 0xE37, 0xE49, 0xE19, 0xE17, 0xE35, 0xE48, 0x20, 0xE42, 0xE04, 0xE23, 0xE07,
        0xE2A, 0xE23, 0xE49, 0xE32, 0xE07, 0xE40, 0xE14, 0xE34, 0xE21, 0x20, 0xE41, 0xE25, 0xE30,
        0xE01, 0xE32, 0xE23, 0xE43, 0xE0A, 0xE49, 0xE44, 0xE1F, 0xE15, 0xE49, 0xE2D, 0xE07, 0xE15,
        0xE23, 0xE27, 0xE08, 0xE2A, 0xE2D, 0xE1A, 0xE15, 0xE32, 0xE21, 0xE2B, 0xE19, 0xE49, 0xE32,
        0xE07, 0xE32, 0xE19, 0xE01, 0xE48, 0xE2D, 0xE19, 0xE2D, 0xE2D, 0xE01, 0xE41, 0xE1A, 0xE1A]
        @ lit ''</p>'' @ [10] @ lit ''            </section>'' @ [10] @
        lit ''            <section class='' @ [0x22] @
        lit ''rounded-xl border border-border bg-card p-5'' @ [0x22, 0x3E, 10] @
        lit ''              <h2 class='' @ [0x22] @ lit ''font-display text-lg font-semibold'' @
        [0x22, 0x3E, 0xE27, 0xE32, 0xE07, 0xE41, 0xE1C, 0xE19, 0xE01, 0xE32, 0xE23, 0xE43, 0xE0A,
        0xE49, 0xE07, 0xE32, 0xE19] @ lit ''</h2>'' @ [10] @ lit ''              <p class='' @
        [0x22] @ lit ''mt-2 text-sm leading-6 text-text-secondary'' @ [0x22, 0x3E, 0xE23, 0xE30,
        0xE1A, 0xE38, 0xE08, 0xE33, 0xE19, 0xE27, 0xE19, 0xE17, 0xE35, 0xE48, 0xE08, 0xE2D, 0xE14,
        0xE23, 0xE16, 0x20, 0xE0A, 0xE48, 0xE27, 0xE07, 0xE40, 0xE27, 0xE25, 0xE32, 0xE43, 0xE0A,
        0xE49, 0xE44, 0xE1F, 0x20, 0xE41, 0xE25, 0xE30, 0xE04, 0xE27, 0xE32, 0xE21, 0xE15, 0xE49,
        0xE2D, 0xE07, 0xE01, 0xE32, 0xE23, 0xE0A, 0xE32, 0xE23, 0xE4C, 0xE08] @ lit '' EV '' @
        [0xE40, 0xE1E, 0xE37, 0xE48, 0xE2D, 0xE43, 0xE2B, 0xE49, 0xE17, 0xE35, 0xE21, 0xE1B,
        0xE23, 0xE30, 0xE40, 0xE21, 0xE34, 0xE19, 0xE17, 0xE32, 0xE07, 0xE40, 0xE25, 0xE37, 0xE2D,
        0xE01, 0xE44, 0xE14, 0xE49, 0xE04, 0xE23, 0xE1A, 0xE02, 0xE36, 0xE49, 0xE19] @
        lit ''</p>'' @ [10] @ lit ''            </section>'' @ [10] @
        lit ''            <section class='' @ [0x22] @
        lit ''rounded-xl border border-border bg-card p-5'' @ [0x22, 0x3E, 10] @
        lit ''              <h2 class='' @ [0x22] @ lit ''font-display text-lg font-semibold'' @
        [0x22, 0x3E, 0xE19, 0xE31, 0xE14, 0xE1B, 0xE23, 0xE30, 0xE40, 0xE21, 0xE34, 0xE19, 0xE01,
        0xE31, 0xE1A, 0xE17, 0xE35, 0xE21] @ lit ''</h2>'' @ [10] @
        lit ''              <p class='' @ [0x22] @
        lit ''mt-2 text-sm leading-6 text-text-secondary'' @ [0x22, 0x3E, 0xE1C, 0xE25, 0xE01,
        0xE32, 0xE23, 0xE2D, 0xE2D, 0xE01, 0xE41, 0xE1A, 0xE1A, 0x20, 0xE23, 0xE32, 0xE04, 0xE32,
        0x20, 0xE41, 0xE25, 0xE30, 0xE01, 0xE32, 0xE23, 0xE15, 0xE34, 0xE14, 0xE15, 0xE31, 0xE49,
        0xE07, 0xE02, 0xE36, 0xE49, 0xE19, 0xE2D, 0xE22, 0xE39, 0xE48, 0xE01, 0xE31, 0xE1A, 0xE02,
        0xE49, 0xE2D, 0xE21, 0xE39, 0xE25, 0xE08, 0xE23, 0xE34, 0xE07, 0xE41, 0xE25, 0xE30, 0xE01,
        0xE32, 0xE23, 0xE15, 0xE23, 0xE27, 0xE08, 0xE2A, 0xE2D, 0xE1A, 0xE02, 0xE2D, 0xE07, 0xE17,
        0xE35, 0xE21, 0xE27, 0xE34, 0xE28, 0xE27, 0xE01, 0xE23, 0xE23, 0xE21] @ lit ''</p>'' @
        [10] @ lit ''            </section>'' @ [10] @ lit ''          </div>'' @ [10] @
        lit ''          <div class='' @ [0x22] @ lit ''mt-10 flex flex-wrap gap-4'' @ [0x22, 0x3E,
        10] @ lit ''            <a href='' @ [0x22] @ contactHref @ [0x22] @ lit '' class='' @
        [0x22] @
        lit ''inline-flex items-center justify-center rounded-lg px-6 py-3.5 font-display font-semibold btn-accent''
        @ [0x22, 0x3E, 0xE02, 0xE2D, 0xE04, 0xE33, 0xE1B, 0xE23, 0xE36, 0xE01, 0xE29, 0xE32,
        0xE40, 0xE1A, 0xE37, 0xE49, 0xE2D, 0xE07, 0xE15, 0xE49, 0xE19] @ lit ''</a>'' @ [10] @
        lit ''            <a href='' @ [0x22] @ lit ''/solar-carport'' @ [0x22] @ lit '' class=''
        @ [0x22] @
        lit ''inline-flex items-center justify-center rounded-lg px-6 py-3.5 font-display font-semibold btn-accent-outline''
        @ [0x22, 0x3E, 0xE14, 0xE39] @ lit '' Solar Carport</a>'' @ [10] @
        lit ''            <a href='' @ [0x22] @ lit ''/assessment/'' @ [0x22] @ lit '' class='' @
        [0x22] @
        lit ''inline-flex items-center justify-center rounded-lg px-6 py-3.5 font-display font-semibold btn-accent-outline''
        @ [0x22, 0x3E, 0xE1B, 0xE23, 0xE30, 0xE40, 0xE21, 0xE34, 0xE19, 0xE04, 0xE27, 0xE32,
        0xE21, 0xE04, 0xE38, 0xE49, 0xE21, 0xE04, 0xE48, 0xE32] @ lit ''</a>'' @ [10] @
        lit ''            <a href='' @ [0x22] @ lit ''/pricing/'' @ [0x22] @ lit '' class='' @
        [0x22] @
        lit ''inline-flex items-center justify-center rounded-lg px-6 py-3.5 font-display font-semibold btn-accent-outline''
        @ [0x22, 0x3E, 0xE14, 0xE39, 0xE41, 0xE1E, 0xE47, 0xE01, 0xE40, 0xE01, 0xE08, 0xE41,
        0xE25, 0xE30, 0xE02, 0xE2D, 0xE1A, 0xE40, 0xE02, 0xE15, 0xE07, 0xE32, 0xE19] @
        lit ''</a>'' @ [10] @ lit ''            <a href='' @ [0x22] @ lit ''/projects/'' @ [0x22]
        @ lit '' class='' @ [0x22] @
        lit ''inline-flex items-center justify-center rounded-lg px-6 py-3.5 font-display font-semibold btn-accent-outline''
        @ [0x22, 0x3E, 0xE14, 0xE39, 0xE1C, 0xE25, 0xE07, 0xE32, 0xE19, 0xE15, 0xE34, 0xE14,
        0xE15, 0xE31, 0xE49, 0xE07, 0xE08, 0xE23, 0xE34, 0xE07] @ lit ''</a>'' @ [10] @
        lit ''          </div>'' @ [10] @ lit ''          <p class='' @ [0x22] @
        lit ''mt-8 text-xs text-text-secondary'' @ [0x22] @ lit ''>Canonical route: '' @
        canonicalPath @ lit ''</p>'' @ [10] @ lit ''        </div>'' @ [10] @
        lit ''      </section>'' @ [10] @ lit ''    </main>'')"

definition buildStaticProvinceCanaryShell :: "jstr list \<Rightarrow> jstr \<Rightarrow> jstr option" where
  "buildStaticProvinceCanaryShell canaryRoutes route =
     (if route \<notin> set canaryRoutes then None
      else map_option canary_shell (getStaticProvinceCanaryRecord route))"

definition in_root :: "jstr \<Rightarrow> jstr \<Rightarrow> jstr" where
  "in_root html shell =
     replace_first root_div
       (lit ''<div id='' @ [0x22] @ lit ''root'' @ [0x22, 0x3E, 10] @ lit ''    '' @ shell @ [10] @
        lit ''    </div>'') html"

definition injectStaticShell ::
  "articles \<Rightarrow> formats \<Rightarrow> jstr list \<Rightarrow> jstr \<Rightarrow> jstr \<Rightarrow> jstr result" where
  "injectStaticShell ar fm canaryRoutes html route =
     (if \<not> contains html root_div \<or> contains html (lit ''data-sirinx-static-shell'') then Inr html
      else if route = lit ''/'' then Inr (in_root html buildStaticHomeShell)
      else if route = lit ''/home-solution'' then Inr (in_root html buildStaticHomeSolutionShell)
      else if route = lit ''/provinces'' then Inr (in_root html buildStaticProvincesShell)
      else
        (case buildProvinceLongformHtml ar fm route of
           Inl e \<Rightarrow> Inl e
         | Inr (Some shell) \<Rightarrow> Inr (in_root html shell)
         | Inr None \<Rightarrow>
             (case buildStaticProvinceCanaryShell canaryRoutes route of
                Some shell \<Rightarrow> Inr (in_root html shell)
              | None \<Rightarrow>
                  (case buildStaticRouteShell (Some escapeHtml) route of
                     Some shell \<Rightarrow> Inr (in_root html shell)
                   | None \<Rightarrow> Inr html))))"

section \<open>Matches\<close>

lemma find_match_Some:
  "find_match m s = Some (a, x, b) \<Longrightarrow> \<exists>t. m t = Some b \<and> s = a @ t"
proof (induction s arbitrary: a)
  case Nil
  then show ?case by (auto split: option.splits)
next
  case (Cons c cs)
  show ?case
  proof (cases "m (c # cs)")
    case None
    with Cons.prems obtain a' where "find_match m cs = Some (a', x, b)" and "a = c # a'" by auto
    with Cons.IH show ?thesis by auto
  next
    case (Some r)
    with Cons.prems show ?thesis by auto
  qed
qed

section \<open>When the injection throws\<close>

text \<open>The paths on which the metadata lookup finds an inherited member.\<close>

definition inherited_path :: "jstr \<Rightarrow> bool" where
  "inherited_path p \<longleftrightarrow>
     p \<in> set object_prototype_keys \<or> p \<in> (\<lambda>k. lit ''/projects/'' @ k) ` set object_prototype_keys"

lemma table_titles:
  assumes "js_index routeMetaMap p = Own m"
  shows "pm_title m \<noteq> None \<and> pm_description m \<noteq> None"
proof -
  have "list_all (\<lambda>(k, m). pm_title m \<noteq> None \<and> pm_description m \<noteq> None) routeMetaMap"
    by (simp add: routeMetaMap_def page_def)
  with assms show ?thesis
    by (auto simp: js_index_Own_iff dict_get_def list_all_iff dest!: map_of_SomeD)
qed

lemma project_detail_inherited:
  assumes "starts_with (lit ''/projects/'') p"
  shows "(\<exists>m. getProjectDetailMeta p = Some m \<and> pm_title m = None) \<longleftrightarrow>
    p \<in> (\<lambda>k. lit ''/projects/'' @ k) ` set object_prototype_keys"
proof -
  obtain k where p: "p = lit ''/projects/'' @ k"
    using assms by (auto simp: starts_with_iff)
  have d: "dict_get publicProjectDetails x = None" if "x \<in> set object_prototype_keys" for x
    using that by (auto simp: publicProjectDetails_def object_prototype_keys_def)
  have e: "[] \<notin> set object_prototype_keys"
    by (simp add: object_prototype_keys_def eq_commute [of "[]"])
  show ?thesis
    unfolding p
    by (cases "k \<in> set object_prototype_keys")
       (use e in \<open>auto simp: d getProjectDetailMeta_def getPublicProjectDetail_def js_index_def
          split: option.splits\<close>)
qed

lemma table_keys_slash: "\<forall>k \<in> set (dict_keys routeMetaMap). starts_with (lit ''/'') k"
  unfolding routeMetaMap_keys by (simp add: starts_with_def lit_def)

lemma page_title_None_iff:
  "pm_title (getPageMeta url) = None \<longleftrightarrow> inherited_path (clean_path url)"
proof -
  let ?p = "clean_path url"
  have pro: "\<forall>k \<in> set object_prototype_keys. \<not> starts_with (lit ''/'') k"
    unfolding object_prototype_keys_def by (simp add: starts_with_unit_simps lit_def)
  have slash: "starts_with (lit ''/'') p" if "starts_with (lit ''/projects/'') p" for p
    using that by (rule starts_with_trans [rotated]) (simp add: starts_with_def lit_def)
  consider (own) m where "js_index routeMetaMap ?p = Own m"
    | (inh) k where "js_index routeMetaMap ?p = Inherited k"
    | (missing) "js_index routeMetaMap ?p = Missing"
    by (cases "js_index routeMetaMap ?p") auto
  then show ?thesis
  proof cases
    case own
    then have "?p \<in> set (dict_keys routeMetaMap)"
      by (simp add: js_index_Own_iff dict_get_None_iff [symmetric] del: dict_get_None_iff)
        (metis dict_get_None_iff option.distinct(1))
    moreover from this have "?p \<notin> set object_prototype_keys"
      using pro table_keys_slash by blast
    ultimately have "\<not> inherited_path ?p"
      using family_not_in_table [of ?p] own by (auto simp: inherited_path_def)
    with own table_titles [OF own] show ?thesis
      by (simp add: getPageMeta_def Let_def)
  next
    case inh
    then have "?p \<in> set object_prototype_keys"
      by (auto simp: js_index_def split: option.splits if_splits)
    with inh show ?thesis by (simp add: getPageMeta_def Let_def inherited_path_def)
  next
    case missing
    then have np: "?p \<notin> set object_prototype_keys" by (simp add: js_index_Missing_iff)
    show ?thesis
    proof (cases "starts_with (lit ''/projects/'') ?p")
      case True
      then have "getPageMeta url = (case getProjectDetailMeta ?p of Some m \<Rightarrow> m | None \<Rightarrow> project_not_found)"
        using getPageMeta_family [OF _ refl, of url] family_disjoint(1) [OF True]
        by (simp add: getProvinceFromPath_def)
      then show ?thesis
        using np project_detail_inherited [OF True]
        by (auto simp: inherited_path_def project_not_found_def page_def split: option.splits)
    next
      case False
      then have "?p \<notin> (\<lambda>k. lit ''/projects/'' @ k) ` set object_prototype_keys" by auto
      with missing False np show ?thesis
        by (simp add: getPageMeta_def Let_def inherited_path_def getProjectDetailMeta_def
            getProvinceMeta_def post_meta_def page_not_found_def page_def split: option.split)
    qed
  qed
qed

lemma page_description_None_iff:
  "pm_description (getPageMeta url) = None \<longleftrightarrow> pm_title (getPageMeta url) = None"
proof -
  have t: "pm_description m = None \<longleftrightarrow> pm_title m = None" if "js_index routeMetaMap p = Own m" for p m
    using table_titles [OF that] by auto
  show ?thesis
    by (auto simp: getPageMeta_def Let_def getProvinceMeta_def project_not_found_def page_def
        page_not_found_def post_meta_def getProjectDetailMeta_def t
        split: lookup.splits option.splits if_splits)
qed

text \<open>A clean path is a prefix of the path it was cleaned from, or the root.\<close>

lemma clean_path_prefix: "clean_path p = lit ''/'' \<or> (\<exists>t. p = clean_path p @ t)"
proof -
  define q where "q = takeWhile (\<lambda>c. c \<noteq> 0x23) (takeWhile (\<lambda>c. c \<noteq> 0x3F) p)"
  have "\<exists>t. p = q @ t"
    unfolding q_def by (metis append.assoc takeWhile_dropWhile_id)
  moreover have "\<exists>t. q = strip_slash q @ t"
    by (metis append_butlast_last_id append_Nil2 strip_slash_def)
  ultimately have "\<exists>t. p = strip_slash q @ t" by (metis append.assoc)
  then show ?thesis by (simp add: clean_path_def hd_split_on q_def [symmetric] Let_def)
qed

lemma inherited_path_not_carport:
  assumes "inherited_path (clean_path p)"
  shows "\<not> starts_with (lit ''/solar-carport'') p \<and> p \<noteq> lit ''/''"
proof -
  have pro: "\<forall>k \<in> set object_prototype_keys. k \<noteq> [] \<and> k ! 0 \<noteq> 0x2F"
    unfolding object_prototype_keys_def by (simp add: lit_def)
  have slash: "lit ''/'' = [0x2F]" by (simp add: lit_def)
  have c: "clean_path p \<noteq> lit ''/''"
    using assms pro by (auto simp: inherited_path_def slash) (simp add: lit_def)
  then obtain t where t: "p = clean_path p @ t" using clean_path_prefix by blast
  have "p ! 0 \<noteq> 0x2F \<or> p ! 1 = 0x70"
  proof (cases "clean_path p \<in> set object_prototype_keys")
    case True
    with pro have "p ! 0 \<noteq> 0x2F" by (subst t) (auto simp: nth_append)
    then show ?thesis ..
  next
    case False
    with assms have "starts_with (lit ''/projects/'') (clean_path p)" by (auto simp: inherited_path_def)
    then have "starts_with (lit ''/projects/'') p"
      by (subst t) (auto simp: starts_with_iff)
    then show ?thesis using family_second_unit(1) by blast
  qed
  then have "\<not> starts_with (lit ''/solar-carport'') p"
    using starts_with_nth [of "lit ''/solar-carport''" p 0] starts_with_nth [of "lit ''/solar-carport''" p 1]
    by (auto simp: lit_def)
  moreover have "p \<noteq> lit ''/''"
    using c t clean_path_not_Nil [of p] by (auto simp: slash Cons_eq_append_conv)
  ultimately show ?thesis ..
qed

section \<open>Text for every static page\<close>

lemma titles_not_empty:
  "list_all (\<lambda>(k, m). case pm_title m of None \<Rightarrow> False | Some t \<Rightarrow> t \<noteq> []) routeMetaMap"
  "\<forall>d \<in> snd ` set publicProjectDetails. pd_seoTitle d \<noteq> []"
  by (simp add: routeMetaMap_def page_def projectsPageMeta_def)
     (simp add: publicProjectDetails_def ruenphae_detail_def holatel_detail_def)

lemma static_route_title:
  assumes "route \<in> set getStaticSeoRoutes"
  shows "\<exists>t. pm_title (getPageMeta route) = Some t \<and> t \<noteq> []"
proof -
  consider m where "(route, m) \<in> set routeMetaMap"
    | p where "p \<in> set thaiProvinces" "route = getProvinceRoute p"
    | slug d where "(slug, d) \<in> set publicProjectDetails" "route = lit ''/projects/'' @ pd_slug d"
    | post where "post \<in> set blogPosts" "route = lit ''/blog/'' @ bp_slug post"
    using assms by (force simp: getStaticSeoRoutes_def dict_keys_def getAllProjectDetailSlugs_def)
  then show ?thesis
  proof cases
    case (1 m)
    with titles_not_empty(1) table_route(2) [OF 1] show ?thesis
      by (auto simp: list_all_iff split: option.splits)
  next
    case (2 p)
    then show ?thesis by (simp add: getPageMeta_province getProvinceMeta_def)
  next
    case (3 slug d)
    with titles_not_empty(2) show ?thesis by (force simp: getPageMeta_project)
  next
    case (4 post)
    then show ?thesis by (simp add: getPageMeta_post post_meta_def post_title_def)
  qed
qed

lemma static_route_slash: "route \<in> set getStaticSeoRoutes \<Longrightarrow> 0x2F \<in> set route"
  using table_keys_slash
  by (auto simp: getStaticSeoRoutes_def getProvinceRoute_def starts_with_iff) (auto simp: lit_def)

text \<open>On a static route the article renderer does not throw.\<close>

lemma static_route_article:
  assumes "route \<in> set getStaticSeoRoutes"
  shows "\<exists>r. buildProvinceLongformHtml ar fm route = Inr r"
proof (cases "match_province_route route")
  case None
  with static_route_slash [OF assms] show ?thesis by (simp add: buildProvinceLongformHtml_def)
next
  case (Some slug)
  have pre: "starts_with (lit ''/solar-carport/'') route"
    using Some by (auto simp: match_province_route_def Let_def split: if_splits)
  then have "route \<notin> set (dict_keys routeMetaMap)"
    using family_not_in_table [of route] by (auto simp: js_index_Missing_iff dict_get_None_iff)
  moreover have "\<not> starts_with (lit ''/solar-carport/'') (lit ''/projects/'' @ x)"
      "\<not> starts_with (lit ''/solar-carport/'') (lit ''/blog/'' @ x)" for x
    using family_disjoint(1,2) by simp_all
  ultimately obtain p where p: "p \<in> set thaiProvinces" "route = getProvinceRoute p"
    using assms pre by (auto simp: getStaticSeoRoutes_def)
  have s: "tp_slug p \<noteq> []" "0x2F \<notin> set (tp_slug p)"
    using province_slugs_no_slash p(1) by auto
  have "slug = tp_slug p"
    using Some p(2) match_province_route_slug [OF s] by (simp add: getProvinceRoute_def)
  moreover have "getProvinceLongformEntry ar (tp_slug p) \<noteq> Inherited k" for k
    using province_not_inherited p(1)
    by (auto simp: getProvinceLongformEntry_def getGeneratedProvinceLongform_def js_index_def
        split: option.splits)
  ultimately show ?thesis
    using Some s by (auto simp: buildProvinceLongformHtml_def split: lookup.split)
qed

lemma buildStaticRouteShell_Some:
  "pm_title (getPageMeta route) = Some t \<Longrightarrow> t \<noteq> [] \<Longrightarrow>
     \<exists>shell. buildStaticRouteShell (Some escapeHtml) route = Some shell"
  by (simp add: buildStaticRouteShell_def Let_def)

lemma script_payload_no_tag: "0x3C \<notin> set (script_payload fm data)"
  by (auto simp: script_payload_def replace_unit_def set_replace_units lit_def split: if_splits)

lemma inject_throws_iff:
  "(\<exists>e. injectOgTags ar fm html url baseUrl date = Inl e) \<longleftrightarrow>
     inherited_path (clean_path url) \<or> inherited_path (clean_path (clean_path url))"
proof (cases "inherited_path (clean_path url)")
  case True
  then show ?thesis
    by (simp add: injectOgTags_def Let_def required_def page_title_None_iff [THEN iffD2])
next
  case False
  then obtain t d where t: "pm_title (getPageMeta url) = Some t" "pm_description (getPageMeta url) = Some d"
    using page_title_None_iff page_description_None_iff by (metis not_None_eq)
  show ?thesis
  proof (cases "inherited_path (clean_path (clean_path url))")
    case True
    then have "pm_title (getPageMeta (clean_path url)) = None" by (simp add: page_title_None_iff)
    with inherited_path_not_carport [OF True] t True show ?thesis
      by (simp add: injectOgTags_def Let_def required_def getStructuredData_def route_breadcrumbs_def)
  next
    case False
    then have "pm_title (getPageMeta (clean_path url)) \<noteq> None" by (simp add: page_title_None_iff)
    then obtain u where "pm_title (getPageMeta (clean_path url)) = Some u" by blast
    with t False \<open>\<not> inherited_path (clean_path url)\<close> show ?thesis
      by (simp add: injectOgTags_def Let_def required_def getStructuredData_def route_breadcrumbs_def)
  qed
qed

section \<open>Properties\<close>

text \<open>
  Injecting the metadata of a URL throws exactly when the lookup of its page runs into a member
  every object inherits, as for \<open>/projects/constructor\<close>: then the title is \<open>undefined\<close>. Every
  other URL, known or not, gets its page, whatever the template, the articles and the base URL.
\<close>

theorem inject_throws_on_inherited:
  "(\<exists>e. injectOgTags ar fm html url baseUrl date = Inl e) \<longleftrightarrow>
     inherited_path (clean_path url) \<or> inherited_path (clean_path (clean_path url))"
  by (rule inject_throws_iff)

text \<open>The URL of the finding.\<close>

lemma projects_constructor_throws:
  "\<exists>e. injectOgTags ar fm html (lit ''/projects/constructor'') baseUrl date = Inl e"
proof -
  have "clean_path (lit ''/projects/constructor'') = lit ''/projects/'' @ lit ''constructor''"
    by (simp add: clean_path_def strip_slash_def lit_def)
  moreover have "lit ''constructor'' \<in> set object_prototype_keys"
    by (simp add: object_prototype_keys_def)
  ultimately have "pm_title (getPageMeta (lit ''/projects/constructor'')) = None"
    unfolding page_title_None_iff inherited_path_def by blast
  then show ?thesis by (simp add: injectOgTags_def Let_def required_def)
qed

text \<open>
  The structured data cannot leave its script element: the JSON text put into the page holds
  no \<open><\<close>, and it stands between the opening and the closing tag right before the end of the head,
  the rest of the document untouched.
\<close>

theorem structured_data_contained:
  assumes "contains html (lit ''</head>'')" and "0x24 \<notin> set (script_payload fm data)"
  shows "\<exists>a b. html = a @ lit ''</head>'' @ b \<and>
    injectStructuredData fm html data =
      a @ structured_script (script_payload fm data) @ lit ''  </head>'' @ b \<and>
    0x3C \<notin> set (script_payload fm data)"
proof -
  obtain a b where ab: "split_first head_end html = Some (a, b)"
    using assms(1) split_first_None_iff [of head_end html] by (auto simp: head_end_def)
  have "0x24 \<notin> set (structured_script (script_payload fm data) @ lit ''  </head>'')"
    using assms(2) by (simp add: structured_script_def) (simp add: lit_def)
  then have "injectStructuredData fm html data =
      a @ structured_script (script_payload fm data) @ lit ''  </head>'' @ b"
    using assms(1) ab expand_template_no_dollar
    by (simp add: injectStructuredData_def head_end_def [symmetric] replace_first_def)
  with split_first_Some [OF ab] show ?thesis
    using script_payload_no_tag by (auto simp: head_end_def)
qed

theorem structured_data_contained_witness:
  "\<exists>a b. lit ''<head></head>'' = a @ lit ''</head>'' @ b \<and>
    injectStructuredData sample_formats (lit ''<head></head>'') (JStr (lit ''</script>'')) =
      a @ structured_script (script_payload sample_formats (JStr (lit ''</script>''))) @
      lit ''  </head>'' @ b \<and>
    0x3C \<notin> set (script_payload sample_formats (JStr (lit ''</script>'')))"
proof (rule structured_data_contained)
  show "contains (lit ''<head></head>'') (lit ''</head>'')"
    by (simp add: lit_def starts_with_def)
  show "0x24 \<notin> set (script_payload sample_formats (JStr (lit ''</script>'')))"
    by (simp add: script_payload_def json_quote_def json_unit_def lit_def is_high_def is_low_def
        replace_unit_def replace_units_Cons replace_units_append)
qed

text \<open>
  No static page ships an empty body: on every prerendered route the shell injection returns,
  and into a template with an empty root element it puts a shell, for whatever articles.
\<close>

theorem static_pages_have_body:
  assumes "route \<in> set getStaticSeoRoutes" and "contains html root_div"
    and "\<not> contains html (lit ''data-sirinx-static-shell'')"
  shows "\<exists>shell. injectStaticShell ar fm canaryRoutes html route = Inr (in_root html shell) \<and> shell \<noteq> []"
proof -
  obtain t where t: "pm_title (getPageMeta route) = Some t" "t \<noteq> []"
    using static_route_title [OF assms(1)] by blast
  obtain shell where shell: "buildStaticRouteShell (Some escapeHtml) route = Some shell"
    using buildStaticRouteShell_Some [OF t] by blast
  then have "shell \<noteq> []" by (auto simp: buildStaticRouteShell_def Let_def split: option.splits if_splits)
  obtain r where r: "buildProvinceLongformHtml ar fm route = Inr r"
    using static_route_article [OF assms(1)] by blast
  have n: "buildStaticHomeShell \<noteq> []" "buildStaticHomeSolutionShell \<noteq> []" "buildStaticProvincesShell \<noteq> []"
      "canary_shell c \<noteq> []" "renderEntry fm e \<noteq> []" for c e
    by (simp_all add: buildStaticHomeShell_def buildStaticHomeSolutionShell_def
        buildStaticProvincesShell_def canary_shell_def renderEntry_def Let_def)
  have m: "buildProvinceLongformHtml ar fm route = Inr (Some s) \<Longrightarrow> s \<noteq> []" for s
    using n(5) by (auto simp: buildProvinceLongformHtml_def Let_def split: if_splits lookup.splits)
  show ?thesis
    using assms(2,3) r shell \<open>shell \<noteq> []\<close> n m
    by (auto simp: injectStaticShell_def buildStaticProvinceCanaryShell_def split: option.splits)
qed

theorem static_pages_have_body_witness:
  "\<exists>shell. injectStaticShell \<lparr>ar_handWritten = [], ar_generated = []\<rparr> sample_formats []
     root_div (lit ''/pricing'') = Inr (in_root root_div shell) \<and> shell \<noteq> []"
proof (rule static_pages_have_body)
  show "lit ''/pricing'' \<in> set getStaticSeoRoutes"
    unfolding getStaticSeoRoutes_def routeMetaMap_keys by simp
  show "contains root_div root_div"
    using contains_iff [of root_div root_div] by (metis append_Nil append_Nil2)
  show "\<not> contains root_div (lit ''data-sirinx-static-shell'')"
    by (simp add: root_div_def lit_def starts_with_def)
qed

end
