(* ===== verification/Build.thy ===== *)
theory Build
  imports Pages World
begin

text \<open>
  The static build (\<open>server/staticSeoBuild.ts\<close>): the sitemap, feed, robots and \<open>llms.txt\<close>
  writers, the preload tags, and the script itself as one operation on the files of the output
  directory.
\<close>

section \<open>Sitemap, feed and robots\<close>

definition priorityForRoute :: "jstr \<Rightarrow> jstr" where
  "priorityForRoute route =
     (if route = lit ''/'' then lit ''1.0''
      else if route = lit ''/solar-carport'' then lit ''0.95''
      else if route = lit ''/provinces'' then lit ''0.80''
      else if starts_with (lit ''/solar-carport/'') route then lit ''0.75''
      else if route \<in> set
        [lit ''/assessment'', lit ''/contact'' , lit ''/pricing'' , lit ''/projects'' ,
      lit ''/home-solution'' ]
      then lit ''0.85''
      else lit ''0.70'')"

definition changefreqForRoute :: "jstr \<Rightarrow> jstr" where
  "changefreqForRoute route =
     (if route = lit ''/'' \<or> route = lit ''/solar-carport'' then lit ''weekly''
      else if starts_with (lit ''/solar-carport/'') route then lit ''monthly''
      else lit ''monthly'')"

definition sitemap_loc :: "jstr \<Rightarrow> jstr" where
  "sitemap_loc route =
     (if route = lit ''/'' then PRODUCTION_BASE_URL @ lit ''/''
      else PRODUCTION_BASE_URL @ strip_slash route @ lit ''/'')"

definition sitemap_entry :: "jstr \<Rightarrow> jstr \<Rightarrow> jstr" where
  "sitemap_entry now route =
     join [10]
       [lit ''  <url>'',
        lit ''    <loc>'' @ sitemap_loc route @ lit ''</loc>'',
        lit ''    <lastmod>'' @ now @ lit ''</lastmod>'',
        lit ''    <changefreq>'' @ changefreqForRoute route @ lit ''</changefreq>'',
        lit ''    <priority>'' @ priorityForRoute route @ lit ''</priority>'',
        lit ''  </url>'']"

definition buildSitemap :: "jstr \<Rightarrow> jstr list \<Rightarrow> jstr" where
  "buildSitemap now routes =
     (let urls = join [10] (map (sitemap_entry now) routes) in
      lit ''<?xml version='' @ [0x22] @ lit ''1.0'' @ [0x22] @ lit '' encoding='' @ [0x22] @
      lit ''UTF-8'' @ [0x22] @ lit ''?>'' @ [10] @ lit ''<urlset xmlns='' @ [0x22] @
      lit ''http://www.sitemaps.org/schemas/sitemap/0.9'' @ [0x22, 0x3E, 10] @ urls @ [10] @
      lit ''</urlset>'' @ [10])"

definition AI_BOTS :: "jstr list" where
  "AI_BOTS =
     [lit ''OAI-SearchBot'', lit ''ChatGPT-User'' , lit ''GPTBot'' , lit ''PerplexityBot'' ,
      lit ''ClaudeBot'' , lit ''Claude-Web'' , lit ''anthropic-ai'' , lit ''Google-Extended'' ,
      lit ''CCBot'' , lit ''cohere-ai'' , lit ''Meta-ExternalAgent'' , lit ''Bytespider'' ]"

definition feed_url :: "jstr \<Rightarrow> jstr" where
  "feed_url route =
     PRODUCTION_BASE_URL @ (if route = lit ''/'' then lit ''/'' else route @ lit ''/'')"

definition feed_item :: "jstr \<Rightarrow> jstr option" where
  "feed_item route =
     (let meta = getPageMeta route in
      case pm_title meta of
        None \<Rightarrow> None
      | Some title \<Rightarrow>
          if title = [] then None
          else Some (join [10]
            [lit ''    <item>'',
             lit ''      <title>'' @ escape_feed title @ lit ''</title>'',
             lit ''      <link>'' @ escape_feed (feed_url route) @ lit ''</link>'',
             lit ''      <guid isPermaLink='' @ [0x22] @ lit ''true'' @ [0x22] @ lit ''>'' @
               escape_feed (feed_url route) @ lit ''</guid>'',
             lit ''      <description>'' @
               escape_feed (case pm_description meta of None \<Rightarrow> [] | Some s \<Rightarrow> s) @
               lit ''</description>'',
             lit ''    </item>'']))"

definition buildFeed :: "jstr \<Rightarrow> jstr list \<Rightarrow> jstr" where
  "buildFeed now routes =
     (let items = join [10] (List.map_filter feed_item routes) in
      join [10]
       [lit ''<?xml version='' @ [0x22] @ lit ''1.0'' @ [0x22] @ lit '' encoding='' @ [0x22] @
        lit ''UTF-8'' @ [0x22] @ lit ''?>'',
        lit ''<rss version='' @ [0x22] @ lit ''2.0'' @ [0x22, 0x3E],
        lit ''  <channel>'',
        lit ''    <title>SIRINX '' @ [0x2014] @
        lit '' Solar Carport, BESS, EV Charger (Thailand)</title>'',
        lit ''    <link>'' @ escape_feed PRODUCTION_BASE_URL @ lit ''/</link>'',
        lit ''    <description>'' @ [0xE2D, 0xE2D, 0xE01, 0xE41, 0xE1A, 0xE1A, 0xE41, 0xE25,
        0xE30, 0xE15, 0xE34, 0xE14, 0xE15, 0xE31, 0xE49, 0xE07] @ lit '' Solar Carport, BESS '' @
        [0xE41, 0xE25, 0xE30] @ lit '' EV Charger '' @ [0xE2A, 0xE33, 0xE2B, 0xE23, 0xE31, 0xE1A,
        0xE2D, 0xE07, 0xE04, 0xE4C, 0xE01, 0xE23, 0xE43, 0xE19, 0xE1B, 0xE23, 0xE30, 0xE40, 0xE17,
        0xE28, 0xE44, 0xE17, 0xE22, 0x20, 0xE1E, 0xE23, 0xE49, 0xE2D, 0xE21, 0xE02, 0xE49, 0xE2D,
        0xE21, 0xE39, 0xE25, 0xE23, 0xE32, 0xE22, 0xE08, 0xE31, 0xE07, 0xE2B, 0xE27, 0xE31, 0xE14,
        0xE08, 0xE32, 0xE01, 0xE02, 0xE49, 0xE2D, 0xE21, 0xE39, 0xE25, 0xE2B, 0xE19, 0xE49, 0xE32,
        0xE07, 0xE32, 0xE19, 0xE08, 0xE23, 0xE34, 0xE07] @ lit ''</description>'',
        lit ''    <language>th</language>'',
        lit ''    <lastBuildDate>'' @ now @ lit ''</lastBuildDate>'',
        items,
        lit ''  </channel>'',
        lit ''</rss>'',
        []])"

definition buildRobots :: jstr where
  "buildRobots =
     join [10]
       ([lit ''User-agent: *'', lit ''Allow: /'', lit ''Disallow: /admin'', []] @
        concat (map (\<lambda>bot. [lit ''User-agent: '' @ bot, lit ''Allow: /'', lit ''Disallow: /admin'', []])
          AI_BOTS) @
        [lit ''Sitemap: '' @ PRODUCTION_BASE_URL @ lit ''/sitemap.xml'', []])"

definition buildLlmsTxt :: jstr where
  "buildLlmsTxt =
     join [10]
       [lit ''# SIRINX '' @ [0x2014] @
        lit '' Solar Carport, BESS, EV Charger & AI Energy Management (Thailand)'',
        [],
        lit ''> SIRINX '' @ [0xE2D, 0xE2D, 0xE01, 0xE41, 0xE1A, 0xE1A, 0xE41, 0xE25, 0xE30, 0xE15,
        0xE34, 0xE14, 0xE15, 0xE31, 0xE49, 0xE07] @ lit '' Solar Carport, '' @ [0xE23, 0xE30,
        0xE1A, 0xE1A, 0xE01, 0xE31, 0xE01, 0xE40, 0xE01, 0xE47, 0xE1A, 0xE1E, 0xE25, 0xE31, 0xE07,
        0xE07, 0xE32, 0xE19] @ lit '' (BESS), EV Charging '' @ [0xE41, 0xE25, 0xE30] @
        lit '' AI Energy Management '' @ [0xE2A, 0xE33, 0xE2B, 0xE23, 0xE31, 0xE1A, 0xE2D, 0xE07,
        0xE04, 0xE4C, 0xE01, 0xE23, 0xE43, 0xE19, 0xE1B, 0xE23, 0xE30, 0xE40, 0xE17, 0xE28, 0xE44,
        0xE17, 0xE22, 0x20, 0x2014, 0x20, 0xE1B, 0xE23, 0xE30, 0xE40, 0xE21, 0xE34, 0xE19, 0xE1C,
        0xE25, 0xE08, 0xE32, 0xE01, 0xE02, 0xE49, 0xE2D, 0xE21, 0xE39, 0xE25, 0xE2B, 0xE19, 0xE49,
        0xE32, 0xE07, 0xE32, 0xE19, 0xE08, 0xE23, 0xE34, 0xE07, 0x20, 0xE44, 0xE21, 0xE48, 0xE2A,
        0xE31, 0xE0D, 0xE0D, 0xE32, 0xE15, 0xE31, 0xE27, 0xE40, 0xE25, 0xE02, 0xE25, 0xE2D, 0xE22,
        0x20, 0xE46],
        [],
        lit ''## '' @ [0xE2B, 0xE19, 0xE49, 0xE32, 0xE2B, 0xE25, 0xE31, 0xE01],
        [],
        lit ''- ['' @ [0xE2B, 0xE19, 0xE49, 0xE32, 0xE41, 0xE23, 0xE01] @ lit '']('' @
        PRODUCTION_BASE_URL @ lit ''/): '' @ [0xE20, 0xE32, 0xE1E, 0xE23, 0xE27, 0xE21, 0xE1A,
        0xE23, 0xE34, 0xE01, 0xE32, 0xE23] @ lit '' Solar Carport + BESS + AI + EV'',
        lit ''- [Solar Carport]('' @ PRODUCTION_BASE_URL @ lit ''/solar-carport/): '' @ [0xE23,
        0xE32, 0xE22, 0xE25, 0xE30, 0xE40, 0xE2D, 0xE35, 0xE22, 0xE14, 0xE1A, 0xE23, 0xE34, 0xE01,
        0xE32, 0xE23, 0xE2B, 0xE25, 0xE31, 0xE01],
        lit ''- ['' @ [0xE1A, 0xE23, 0xE34, 0xE01, 0xE32, 0xE23, 0xE23, 0xE32, 0xE22, 0xE08,
        0xE31, 0xE07, 0xE2B, 0xE27, 0xE31, 0xE14] @ lit '' 77 '' @ [0xE08, 0xE31, 0xE07, 0xE2B,
        0xE27, 0xE31, 0xE14] @ lit '']('' @ PRODUCTION_BASE_URL @ lit ''/provinces/): '' @ [0xE2B,
        0xE19, 0xE49, 0xE32, 0xE02, 0xE49, 0xE2D, 0xE21, 0xE39, 0xE25, 0xE40, 0xE09, 0xE1E, 0xE32,
        0xE30, 0xE08, 0xE31, 0xE07, 0xE2B, 0xE27, 0xE31, 0xE14, 0xE1E, 0xE23, 0xE49, 0xE2D, 0xE21,
        0xE15, 0xE31, 0xE27, 0xE40, 0xE25, 0xE02, 0xE1E, 0xE25, 0xE31, 0xE07, 0xE07, 0xE32, 0xE19,
        0xE41, 0xE2A, 0xE07, 0xE2D, 0xE32, 0xE17, 0xE34, 0xE15, 0xE22, 0xE4C, 0xE08, 0xE23, 0xE34,
        0xE07] @ lit '' (PVGIS v5.3, 2005'' @ [0x2013] @ lit ''2023)'',
        lit ''- ['' @ [0xE23, 0xE32, 0xE04, 0xE32, 0xE41, 0xE25, 0xE30, 0xE41, 0xE1E, 0xE47,
        0xE01, 0xE40, 0xE01, 0xE08] @ lit '']('' @ PRODUCTION_BASE_URL @ lit ''/pricing/)'',
        lit ''- ['' @ [0xE1B, 0xE23, 0xE30, 0xE40, 0xE21, 0xE34, 0xE19, 0xE04, 0xE27, 0xE32,
        0xE21, 0xE04, 0xE38, 0xE49, 0xE21, 0xE04, 0xE48, 0xE32] @ lit '']('' @ PRODUCTION_BASE_URL
        @ lit ''/assessment/)'',
        lit ''- ['' @ [0xE1C, 0xE25, 0xE07, 0xE32, 0xE19, 0xE15, 0xE34, 0xE14, 0xE15, 0xE31,
        0xE49, 0xE07, 0xE08, 0xE23, 0xE34, 0xE07] @ lit '']('' @ PRODUCTION_BASE_URL @
        lit ''/projects/)'',
        lit ''- ['' @ [0xE1A, 0xE17, 0xE04, 0xE27, 0xE32, 0xE21] @ lit '']('' @
        PRODUCTION_BASE_URL @ lit ''/blog/)'',
        lit ''- ['' @ [0xE15, 0xE34, 0xE14, 0xE15, 0xE48, 0xE2D, 0x2F, 0xE19, 0xE31, 0xE14, 0xE2A,
        0xE33, 0xE23, 0xE27, 0xE08, 0xE2B, 0xE19, 0xE49, 0xE32, 0xE07, 0xE32, 0xE19] @ lit ''](''
        @ PRODUCTION_BASE_URL @ lit ''/contact/)'',
        [],
        lit ''## '' @ [0xE2B, 0xE21, 0xE32, 0xE22, 0xE40, 0xE2B, 0xE15, 0xE38, 0xE2A, 0xE33,
        0xE2B, 0xE23, 0xE31, 0xE1A] @ lit '' AI'',
        [],
        lit ''- '' @ [0xE02, 0xE49, 0xE2D, 0xE21, 0xE39, 0xE25, 0xE1E, 0xE25, 0xE31, 0xE07, 0xE07,
        0xE32, 0xE19, 0xE23, 0xE32, 0xE22, 0xE08, 0xE31, 0xE07, 0xE2B, 0xE27, 0xE31, 0xE14, 0xE21,
        0xE32, 0xE1E, 0xE23, 0xE49, 0xE2D, 0xE21, 0xE41, 0xE2B, 0xE25, 0xE48, 0xE07, 0xE2D, 0xE49,
        0xE32, 0xE07, 0xE2D, 0xE34, 0xE07] @ lit '' (PVGIS-ERA5) '' @ [0xE41, 0xE25, 0xE30, 0xE40,
        0xE1B, 0xE47, 0xE19] @ lit '' climate normals '' @ [0xE44, 0xE21, 0xE48, 0xE43, 0xE0A,
        0xE48, 0xE04, 0xE33, 0xE2A, 0xE31, 0xE0D, 0xE0D, 0xE32, 0xE1B, 0xE23, 0xE30, 0xE2B, 0xE22,
        0xE31, 0xE14],
        lit ''- '' @ [0xE15, 0xE31, 0xE27, 0xE40, 0xE25, 0xE02, 0xE1C, 0xE25, 0xE15, 0xE2D, 0xE1A,
        0xE41, 0xE17, 0xE19, 0x2F, 0xE04, 0xE37, 0xE19, 0xE17, 0xE38, 0xE19, 0xE15, 0xE49, 0xE2D,
        0xE07, 0xE1B, 0xE23, 0xE30, 0xE40, 0xE21, 0xE34, 0xE19, 0xE08, 0xE32, 0xE01, 0xE02, 0xE49,
        0xE2D, 0xE21, 0xE39, 0xE25, 0xE2B, 0xE19, 0xE49, 0xE32, 0xE07, 0xE32, 0xE19, 0xE23, 0xE32,
        0xE22, 0xE42, 0xE04, 0xE23, 0xE07, 0xE01, 0xE32, 0xE23],
        lit ''- '' @ [0xE02, 0xE49, 0xE2D, 0xE21, 0xE39, 0xE25, 0xE15, 0xE34, 0xE14, 0xE15, 0xE48,
        0xE2D, 0xE17, 0xE35, 0xE48, 0xE22, 0xE37, 0xE19, 0xE22, 0xE31, 0xE19, 0xE41, 0xE25, 0xE49,
        0xE27, 0xE2D, 0xE22, 0xE39, 0xE48, 0xE17, 0xE35, 0xE48, 0xE2B, 0xE19, 0xE49, 0xE32] @
        lit '' /contact/ '' @ [0xE40, 0xE17, 0xE48, 0xE32, 0xE19, 0xE31, 0xE49, 0xE19],
        []]"

section \<open>Preload tags\<close>

definition routeChunkPrefixes :: "(jstr, jstr list) dict" where
  "routeChunkPrefixes =
     [(lit ''/'', [lit ''Home-'']),
      (lit ''/about'', [lit ''About-'']),
      (lit ''/assessment'', [lit ''SolarAssessment-'']),
      (lit ''/blog'', [lit ''Blog-'']),
      (lit ''/contact'', [lit ''Contact-'']),
      (lit ''/cookies'', [lit ''Cookies-'']),
      (lit ''/home-solution'', [lit ''HomeSolution-'']),
      (lit ''/industries'', [lit ''Industries-'']),
      (lit ''/investment'', [lit ''InvestmentTaxHub-'']),
      (lit ''/line'', [lit ''Line-'']),
      (lit ''/partner'', [lit ''Partner-'']),
      (lit ''/pricing'', [lit ''Pricing-'']),
      (lit ''/privacy'', [lit ''Privacy-'']),
      (lit ''/projects'', [lit ''Projects-'']),
      (lit ''/solar-carport'', [lit ''SolarCarport-'']),
      (lit ''/provinces'', [lit ''Provinces-'']),
      (lit ''/solutions'', [lit ''Solutions-'']),
      (lit ''/strategy'', [lit ''Strategy-'']),
      (lit ''/terms'', [lit ''Terms-''])]"

definition chunk_prefixes_of :: "jstr \<Rightarrow> jstr list" where
  "chunk_prefixes_of route =
     (case dict_get routeChunkPrefixes route of None \<Rightarrow> [] | Some ps \<Rightarrow> ps)"

definition getRouteChunkPrefixes :: "jstr \<Rightarrow> jstr list" where
  "getRouteChunkPrefixes route =
     (if starts_with (lit ''/solar-carport/'') route then chunk_prefixes_of (lit ''/solar-carport'')
      else if starts_with (lit ''/blog/'') route then [lit ''BlogPost-'']
      else chunk_prefixes_of route)"

text \<open>\<open>assets\<close> is the listing of the asset directory, \<open>None\<close> when there is none.\<close>

definition findBuiltAsset :: "jstr list option \<Rightarrow> jstr \<Rightarrow> jstr option" where
  "findBuiltAsset assets pre =
     (case assets of
        None \<Rightarrow> None
      | Some files \<Rightarrow>
          List.find (\<lambda>fileName. starts_with pre fileName \<and> ends_with (lit ''.js'') fileName) files)"

text \<open>
  \<open><script[^>]+src="\/assets\/([^"]+\.js)"\<close> and the pattern for \<open>link\<close> backtrack over
  \<open>[^>]+\<close> from the longest match down. A pattern returns the captured name and the rest.
\<close>

definition longest_first :: "jstr \<Rightarrow> jstr list" where
  "longest_first s = map (\<lambda>k. drop k s) (rev [1..<length (takeWhile (\<lambda>c. c \<noteq> 0x3E) s) + 1])"

definition asset_name :: "jstr \<Rightarrow> (jstr \<times> jstr) option" where
  "asset_name s =
     (let name = takeWhile (\<lambda>c. c \<noteq> 0x22) s in
      if ends_with (lit ''.js'') name \<and> length name > 3 \<and> length name < length s
      then Some (name, drop (length name + 1) s) else None)"

definition asset_after :: "jstr \<Rightarrow> jstr \<Rightarrow> (jstr \<times> jstr) option" where
  "asset_after attribute s =
     Option.bind (m_lit (attribute @ lit ''='' @ [0x22] @ lit ''/assets/'') s) asset_name"

fun first_some :: "('a \<Rightarrow> 'b option) \<Rightarrow> 'a list \<Rightarrow> 'b option" where
  "first_some f [] = None"
| "first_some f (x # xs) = (case f x of None \<Rightarrow> first_some f xs | Some y \<Rightarrow> Some y)"

definition script_asset :: "jstr \<Rightarrow> (jstr \<times> jstr) option" where
  "script_asset s =
     Option.bind (m_lit (lit ''<script'') s)
       (\<lambda>r. first_some (asset_after (lit ''src'')) (longest_first r))"

definition modulepreload_asset :: "jstr \<Rightarrow> (jstr \<times> jstr) option" where
  "modulepreload_asset s =
     Option.bind (m_lit (lit ''<link'') s)
       (first_some (\<lambda>r. Option.bind
            (m_lit (lit ''rel='' @ [0x22] @ lit ''modulepreload'' @ [0x22]) r)
            (\<lambda>r'. first_some (asset_after (lit ''href'')) (longest_first r')))
          \<circ> longest_first)"

text \<open>\<open>html.matchAll(pattern)\<close>: after a match the search goes on behind it.\<close>

function match_all :: "(jstr \<Rightarrow> (jstr \<times> jstr) option) \<Rightarrow> jstr \<Rightarrow> jstr list" where
  "match_all m [] = []"
| "match_all m (c # cs) =
     (case m (c # cs) of
        None \<Rightarrow> match_all m cs
      | Some (name, rest) \<Rightarrow>
          name # match_all m (if length rest \<le> length cs then rest else cs))"
  by pat_completeness auto
termination by (relation "measure (\<lambda>(m, s). length s)") auto

definition getInitialRuntimeAssets :: "jstr \<Rightarrow> jstr list" where
  "getInitialRuntimeAssets html =
     unique (match_all script_asset html @ match_all modulepreload_asset html)"

definition preload_link :: "jstr \<Rightarrow> jstr" where
  "preload_link fileName =
     lit ''    <link rel='' @ [0x22] @ lit ''modulepreload'' @ [0x22] @ lit '' crossorigin href='' @ [0x22] @
     lit ''/assets/'' @ fileName @ [0x22, 0x3E]"

definition injectRouteModulePreloads ::
  "jstr list option \<Rightarrow> jstr list \<Rightarrow> jstr \<Rightarrow> jstr \<Rightarrow> jstr" where
  "injectRouteModulePreloads assets initialRuntimeAssets html route =
     (let files = filter (\<lambda>fileName. fileName \<notin> set initialRuntimeAssets \<and>
              \<not> contains html (lit ''/assets/'' @ fileName))
            (filter (\<lambda>fileName. fileName \<noteq> [])
              (List.map_filter (findBuiltAsset assets) (getRouteChunkPrefixes route)))
      in if files = [] then html
         else replace_first head_end (join [10] (map preload_link files) @ [10] @ lit ''  </head>'') html)"

section \<open>The script\<close>

text \<open>
  What the script reads: the output directory, the clock, the process environment, the asset
  listing, the validation library, the articles and the runtime's number formats; \<open>bd_write\<close>
  says whether the file system accepts a file. The state is the files by path.
\<close>

type_synonym files = "(jstr, jstr) dict"

record build =
  bd_dist :: jstr
  bd_now :: jstr
  bd_env :: "(jstr, jstr) dict"
  bd_assets :: "jstr list option"
  bd_zod :: "ztype \<Rightarrow> jsval \<Rightarrow> jsval result"
  bd_articles :: articles
  bd_formats :: formats
  bd_write :: "jstr \<Rightarrow> unit result"

definition writeFile :: "build \<Rightarrow> jstr \<Rightarrow> jstr \<Rightarrow> (files, unit) io" where
  "writeFile b path content =
     (\<lambda>w. case bd_write b path of
        Inl e \<Rightarrow> (Inl e, w)
      | Inr _ \<Rightarrow> (Inr (), dict_set path content w))"

text \<open>\<open>path.join\<close> of plain segments.\<close>

definition path_join :: "jstr list \<Rightarrow> jstr" where
  "path_join segments = join (lit ''/'') segments"

definition indexPath :: "build \<Rightarrow> jstr" where
  "indexPath b = path_join [bd_dist b, lit ''index.html'']"

definition routeToIndexPath :: "build \<Rightarrow> jstr \<Rightarrow> jstr" where
  "routeToIndexPath b route =
     (if route = lit ''/'' then indexPath b
      else path_join [bd_dist b,
        (case route of c # cs \<Rightarrow> if c = 0x2F then cs else c # cs | [] \<Rightarrow> []), lit ''index.html''])"

definition static_page :: "build \<Rightarrow> jstr \<Rightarrow> jstr \<Rightarrow> jstr result" where
  "static_page b baseHtml route =
     result_bind (injectOgTags (bd_articles b) (bd_formats b) baseHtml route PRODUCTION_BASE_URL (bd_now b))
       (\<lambda>html. injectStaticShell (bd_articles b) (bd_formats b)
          (getStaticProvinceCanaryRoutes (bd_env b))
          (injectRouteModulePreloads (bd_assets b) (getInitialRuntimeAssets baseHtml) html route) route)"

fun write_pages :: "build \<Rightarrow> jstr \<Rightarrow> jstr list \<Rightarrow> (files, unit) io" where
  "write_pages b baseHtml [] = io_return ()"
| "write_pages b baseHtml (route # routes) =
     io_bind (io_result (static_page b baseHtml route)) (\<lambda>html.
     io_bind (writeFile b (routeToIndexPath b route) html) (\<lambda>_. write_pages b baseHtml routes))"

definition in_dist :: "build \<Rightarrow> string \<Rightarrow> jstr" where
  "in_dist b name = path_join [bd_dist b, lit name]"

definition static_build :: "build \<Rightarrow> (files, unit) io" where
  "static_build b =
     (\<lambda>w. case dict_get w (indexPath b) of
        None \<Rightarrow> (Inl (JsError (lit ''Missing build index: '' @ indexPath b)), w)
      | Some baseHtml \<Rightarrow>
          (let routes = unique getStaticSeoRoutes in
           io_bind (io_result (assertSiteContentRegistryIntegrity (bd_zod b))) (\<lambda>_.
           io_bind (write_pages b baseHtml routes) (\<lambda>_.
           io_bind (writeFile b (in_dist b ''sitemap.xml'') (buildSitemap (bd_now b) (getSitemapRoutes routes))) (\<lambda>_.
           io_bind (writeFile b (in_dist b ''robots.txt'') buildRobots) (\<lambda>_.
           io_bind (writeFile b (in_dist b ''llms.txt'') buildLlmsTxt) (\<lambda>_.
           writeFile b (in_dist b ''feed.xml'') (buildFeed (bd_now b) routes)))))) w))"

section \<open>Where the pages go\<close>

lemma unique_distinct: "distinct xs \<Longrightarrow> unique xs = xs"
proof -
  have "fold set_add xs s = s @ xs" if "distinct (s @ xs)" for s
    using that by (induction xs arbitrary: s) (auto simp: set_add_def)
  then show "distinct xs \<Longrightarrow> unique xs = xs" by (simp add: unique_def)
qed

text \<open>A static route is the root or a slash and a text that is no root.\<close>

lemma static_route_shape:
  assumes "route \<in> set getStaticSeoRoutes" and "route \<noteq> lit ''/''"
  shows "\<exists>r. route = 0x2F # r \<and> r \<noteq> []"
proof -
  have "starts_with (lit ''/'') route"
    using table_keys_slash assms(1)
    by (auto simp: getStaticSeoRoutes_def getProvinceRoute_def starts_with_iff) (auto simp: lit_def)
  with assms(2) show ?thesis by (auto simp: starts_with_iff lit_def)
qed

lemma routeToIndexPath_shape:
  assumes "route \<in> set getStaticSeoRoutes"
  shows "\<exists>r. route = 0x2F # r \<and>
    routeToIndexPath b route =
      bd_dist b @ [0x2F] @ (if r = [] then [] else r @ [0x2F]) @ lit ''index.html''"
proof (cases "route = lit ''/''")
  case True
  then show ?thesis by (simp add: routeToIndexPath_def indexPath_def path_join_def) (simp add: lit_def)
next
  case False
  then obtain r where "route = 0x2F # r" "r \<noteq> []" using static_route_shape [OF assms] by blast
  with False show ?thesis by (simp add: routeToIndexPath_def path_join_def) (simp add: lit_def)
qed

lemma routeToIndexPath_inject:
  assumes "r1 \<in> set getStaticSeoRoutes" and "r2 \<in> set getStaticSeoRoutes"
    and "routeToIndexPath b r1 = routeToIndexPath b r2"
  shows "r1 = r2"
proof -
  obtain s where s: "r1 = 0x2F # s" "routeToIndexPath b r1 =
      bd_dist b @ [0x2F] @ (if s = [] then [] else s @ [0x2F]) @ lit ''index.html''"
    using routeToIndexPath_shape [OF assms(1)] by blast
  obtain t where t: "r2 = 0x2F # t" "routeToIndexPath b r2 =
      bd_dist b @ [0x2F] @ (if t = [] then [] else t @ [0x2F]) @ lit ''index.html''"
    using routeToIndexPath_shape [OF assms(2)] by blast
  show ?thesis using assms(3) s t by (auto split: if_splits)
qed

lemma site_file_no_page:
  assumes "route \<in> set getStaticSeoRoutes"
    and "name \<in> {''sitemap.xml'', ''robots.txt'', ''llms.txt'', ''feed.xml''}"
  shows "routeToIndexPath b route \<noteq> in_dist b name"
proof
  assume e: "routeToIndexPath b route = in_dist b name"
  obtain r where r: "routeToIndexPath b route =
      bd_dist b @ [0x2F] @ (if r = [] then [] else r @ [0x2F]) @ lit ''index.html''"
    using routeToIndexPath_shape [OF assms(1)] by blast
  have n: "lit name \<noteq> lit ''index.html''" "0x2F \<notin> set (lit name)"
    using assms(2) by (auto, auto simp: lit_def)
  have slash: "lit ''/'' = [0x2F]" by (simp add: lit_def)
  from e r have "lit name = (if r = [] then [] else r @ [0x2F]) @ lit ''index.html''"
    by (simp add: in_dist_def path_join_def slash)
  with n show False by (auto split: if_splits)
qed

section \<open>The pages are written\<close>

lemma writeFile_ok: "bd_write b path = Inr () \<Longrightarrow> writeFile b path content w = (Inr (), dict_set path content w)"
  by (simp add: writeFile_def)

text \<open>Writing pages that all render, to a file system that takes them.\<close>

lemma write_pages_ok:
  assumes "\<forall>r \<in> set routes. static_page b baseHtml r = Inr (page_of r)"
    and "\<forall>path. bd_write b path = Inr ()"
  shows "write_pages b baseHtml routes w =
    (Inr (), fold (\<lambda>r. dict_set (routeToIndexPath b r) (page_of r)) routes w)"
  using assms
  by (induction routes arbitrary: w) (simp_all add: io_defs writeFile_ok)

lemma dict_get_fold_set:
  assumes "inj_on k (set xs)"
  shows "dict_get (fold (\<lambda>x. dict_set (k x) (v x)) xs w) y =
    (if y \<in> k ` set xs then Some (v (the_inv_into (set xs) k y)) else dict_get w y)"
  using assms
proof (induction xs arbitrary: w)
  case (Cons x xs)
  have i: "inj_on k (set xs)" using Cons.prems by simp
  show ?case
  proof (cases "y \<in> k ` set xs")
    case True
    then obtain z where z: "z \<in> set xs" "y = k z" by blast
    then have "the_inv_into (set xs) k y = z" and "the_inv_into (set (x # xs)) k y = z"
      using Cons.prems i by (auto intro: the_inv_into_f_f simp del: list.set(2)) (auto intro: the_inv_into_f_f)
    with True Cons.IH [OF i] show ?thesis by simp
  next
    case False
    have "the_inv_into (set (x # xs)) k (k x) = x"
      using Cons.prems by (intro the_inv_into_f_f) simp_all
    with False Cons.IH [OF i] show ?thesis by (auto simp: dict_get_set)
  qed
qed simp

section \<open>No static page throws\<close>

lemma static_route_clean: "route \<in> set getStaticSeoRoutes \<Longrightarrow> clean_path route = route"
proof -
  assume "route \<in> set getStaticSeoRoutes"
  then consider m where "(route, m) \<in> set routeMetaMap"
    | p where "p \<in> set thaiProvinces" "route = lit ''/solar-carport/'' @ tp_slug p"
    | slug where "slug \<in> set getAllProjectDetailSlugs" "route = lit ''/projects/'' @ slug"
    | post where "post \<in> set blogPosts" "route = lit ''/blog/'' @ bp_slug post"
    by (force simp: getStaticSeoRoutes_def dict_keys_def getProvinceRoute_def)
  then show "clean_path route = route"
  proof cases
    case (1 m)
    then show ?thesis by (rule table_route)
  next
    case (2 p)
    then show ?thesis using plain_slugs(1) province_slugs_no_slash by (auto intro!: clean_path_family)
  next
    case (3 slug)
    then show ?thesis using plain_slugs(3) by (auto intro!: clean_path_family)
  next
    case (4 post)
    then show ?thesis using plain_slugs(2) by (auto intro!: clean_path_family)
  qed
qed

lemma static_page_renders:
  assumes "route \<in> set getStaticSeoRoutes"
  shows "\<exists>html. static_page b baseHtml route = Inr html"
proof -
  have c: "clean_path route = route" by (rule static_route_clean [OF assms])
  have "\<not> inherited_path (clean_path route)"
    using static_route_title [OF assms] by (auto simp: page_title_None_iff [symmetric])
  then obtain html where h: "injectOgTags (bd_articles b) (bd_formats b) baseHtml route PRODUCTION_BASE_URL (bd_now b) = Inr html"
    using inject_throws_iff c by (metis sum.exhaust_sel)
  have "\<exists>r. injectStaticShell ar fm canary html' route = Inr r" for ar fm canary html'
    using static_route_article [OF assms, of ar fm]
    by (auto simp: injectStaticShell_def split: option.splits)
  with h show ?thesis by (simp add: static_page_def)
qed

section \<open>Properties\<close>

text \<open>
  C26. The static build is complete: over a built template, with a registry that passes its
  assertion and a file system that accepts files, it returns; every static route then has its own
  file with the page rendered for it, sitemap, robots, \<open>llms.txt\<close> and feed are written, and no
  other file is touched.
\<close>

theorem static_build_writes:
  assumes "dict_get w (indexPath b) = Some baseHtml"
    and "assertSiteContentRegistryIntegrity (bd_zod b) = Inr ()"
    and "\<forall>path. bd_write b path = Inr ()"
  shows "\<exists>w'. static_build b w = (Inr (), w') \<and>
    (\<forall>route \<in> set getStaticSeoRoutes. \<exists>html. static_page b baseHtml route = Inr html \<and>
        dict_get w' (routeToIndexPath b route) = Some html) \<and>
    dict_get w' (in_dist b ''sitemap.xml'') =
      Some (buildSitemap (bd_now b) (getSitemapRoutes getStaticSeoRoutes)) \<and>
    dict_get w' (in_dist b ''robots.txt'') = Some buildRobots \<and>
    dict_get w' (in_dist b ''llms.txt'') = Some buildLlmsTxt \<and>
    dict_get w' (in_dist b ''feed.xml'') = Some (buildFeed (bd_now b) getStaticSeoRoutes) \<and>
    (\<forall>path. path \<notin> routeToIndexPath b ` set getStaticSeoRoutes \<union>
        in_dist b ` {''sitemap.xml'', ''robots.txt'', ''llms.txt'', ''feed.xml''} \<longrightarrow>
        dict_get w' path = dict_get w path)"
proof -
  let ?rs = "getStaticSeoRoutes"
  have d: "distinct ?rs" by (rule distinct_static_routes)
  obtain page_of where p: "\<forall>r \<in> set ?rs. static_page b baseHtml r = Inr (page_of r)"
    using static_page_renders [of _ b baseHtml] by metis
  define w1 where "w1 = fold (\<lambda>r. dict_set (routeToIndexPath b r) (page_of r)) ?rs w"
  have inj: "inj_on (routeToIndexPath b) (set ?rs)"
    using routeToIndexPath_inject by (blast intro: inj_onI)
  have w1: "dict_get w1 y = (if y \<in> routeToIndexPath b ` set ?rs
      then Some (page_of (the_inv_into (set ?rs) (routeToIndexPath b) y)) else dict_get w y)" for y
    unfolding w1_def by (rule dict_get_fold_set [OF inj])
  have pages: "dict_get w1 (routeToIndexPath b r) = Some (page_of r)" if "r \<in> set ?rs" for r
    using w1 that by (simp add: the_inv_into_f_f [OF inj])
  define w' where "w' = dict_set (in_dist b ''feed.xml'') (buildFeed (bd_now b) ?rs)
     (dict_set (in_dist b ''llms.txt'') buildLlmsTxt (dict_set (in_dist b ''robots.txt'') buildRobots
       (dict_set (in_dist b ''sitemap.xml'') (buildSitemap (bd_now b) (getSitemapRoutes ?rs)) w1)))"
  have run: "static_build b w = (Inr (), w')"
    using assms write_pages_ok [OF p assms(3)]
    by (simp add: static_build_def unique_distinct [OF d] Let_def io_defs writeFile_ok w'_def w1_def)
  have ne: "in_dist b x \<noteq> in_dist b y" if "x \<noteq> y" for x y
    using that by (simp add: in_dist_def path_join_def)
  show ?thesis
  proof (intro exI [of _ w'] conjI ballI allI impI)
    show "static_build b w = (Inr (), w')" by (rule run)
  next
    fix route assume r: "route \<in> set ?rs"
    have "dict_get w' (routeToIndexPath b route) = dict_get w1 (routeToIndexPath b route)"
      unfolding w'_def dict_get_set using site_file_no_page [OF r] by auto
    then show "\<exists>html. static_page b baseHtml route = Inr html \<and>
        dict_get w' (routeToIndexPath b route) = Some html"
      unfolding pages [OF r] using p r by blast
  next
    fix path
    assume "path \<notin> routeToIndexPath b ` set ?rs \<union>
        in_dist b ` {''sitemap.xml'', ''robots.txt'', ''llms.txt'', ''feed.xml''}"
    then have "path \<notin> routeToIndexPath b ` set ?rs" and "\<forall>name \<in> {''sitemap.xml'', ''robots.txt'', ''llms.txt'', ''feed.xml''}. path \<noteq> in_dist b name"
      by blast+
    then show "dict_get w' path = dict_get w path"
      unfolding w'_def dict_get_set w1 by auto
  qed (simp_all add: w'_def dict_get_set ne)
qed

theorem static_build_writes_witness:
  "\<exists>w'. static_build \<lparr>bd_dist = lit ''/dist'', bd_now = [], bd_env = [], bd_assets = None,
      bd_zod = strict_zod, bd_articles = \<lparr>ar_handWritten = [], ar_generated = []\<rparr>,
      bd_formats = sample_formats, bd_write = \<lambda>_. Inr ()\<rparr>
     [(lit ''/dist/index.html'', root_div)] = (Inr (), w')"
proof -
  let ?b = "\<lparr>bd_dist = lit ''/dist'', bd_now = [], bd_env = [], bd_assets = None,
      bd_zod = strict_zod, bd_articles = \<lparr>ar_handWritten = [], ar_generated = []\<rparr>,
      bd_formats = sample_formats, bd_write = \<lambda>_. Inr ()\<rparr>"
  have "dict_get [(lit ''/dist/index.html'', root_div)] (indexPath ?b) = Some root_div"
    by (simp add: indexPath_def path_join_def) (simp add: lit_def)
  from static_build_writes [OF this] shipped_registry_passes show ?thesis by fastforce
qed

text \<open>
  Every page has one address: on each static route the sitemap's location, the feed's link and
  the canonical URL of the page are the same.
\<close>

theorem page_urls_agree:
  assumes "route \<in> set getStaticSeoRoutes"
  shows "sitemap_loc route = buildCanonicalUrl PRODUCTION_BASE_URL route \<and>
    feed_url route = buildCanonicalUrl PRODUCTION_BASE_URL route \<and>
    absoluteUrl route = buildCanonicalUrl PRODUCTION_BASE_URL route"
proof -
  have c: "clean_path route = route" by (rule static_route_clean [OF assms])
  have "strip_slash route = route" if "route \<noteq> lit ''/''"
  proof -
    have "strip_slash (hd (split_on 0x23 (hd (split_on 0x3F route)))) = route"
      using c that by (simp add: clean_path_def Let_def split: if_splits)
    then obtain q where q: "strip_slash q = route" "q = hd (split_on 0x23 (hd (split_on 0x3F route)))" by blast
    have "length q \<le> length route"
      unfolding q(2) hd_split_on by (meson le_trans length_takeWhile_le)
    have "\<not> (q \<noteq> [] \<and> last q = 0x2F)"
    proof
      assume e: "q \<noteq> [] \<and> last q = 0x2F"
      with q(1) have "length route = length q - 1" by (auto simp: strip_slash_def)
      with e \<open>length q \<le> length route\<close> show False by (cases q) auto
    qed
    with q(1) have "route = q" by (auto simp: strip_slash_def)
    with q(1) show ?thesis by simp
  qed
  moreover have "PRODUCTION_BASE_URL @ lit ''/'' = lit ''https://www.sirinx.co/''"
      "PRODUCTION_BASE_URL = lit ''https://www.sirinx.co''"
    by (simp_all add: PRODUCTION_BASE_URL_def) (simp add: lit_def)
  ultimately show ?thesis
    using c by (auto simp: sitemap_loc_def feed_url_def buildCanonicalUrl_def absoluteUrl_def Let_def)
qed

theorem page_urls_agree_witness:
  "sitemap_loc (lit ''/pricing'') = buildCanonicalUrl PRODUCTION_BASE_URL (lit ''/pricing'')"
proof -
  have "lit ''/pricing'' \<in> set getStaticSeoRoutes"
    unfolding getStaticSeoRoutes_def set_append routeMetaMap_keys by simp
  from page_urls_agree [OF this] show ?thesis by blast
qed

end
