(* ===== verification/Server.thy ===== *)
theory Server
  imports Build Auth
begin

text \<open>
  The web server around the pages: the port search of \<open>server/_core/index.ts\<close> and the HTML
  fallback of \<open>server/_core/vite.ts\<close>. What listens on a port is a parameter, asked through
  \<open>isPortAvailable\<close>; Express routes requests for existing files elsewhere.
\<close>

section \<open>Finding a port\<close>

definition int_text :: "int \<Rightarrow> jstr" where
  "int_text i = (if i < 0 then lit ''-'' else []) @ decimal (nat \<bar>i\<bar>)"

text \<open>
  \<open>for (let port = startPort; port < startPort + 20; port++)\<close>. The start is \<open>None\<close> when
  \<open>parseInt\<close> gave \<open>NaN\<close>: no comparison with it holds.
\<close>

function try_ports :: "(int \<Rightarrow> ('w, bool) io) \<Rightarrow> int \<Rightarrow> int \<Rightarrow> ('w, int) io" where
  "try_ports isPortAvailable start port =
     (if port < start + 20 then
        io_bind (isPortAvailable port) (\<lambda>free.
          if free then io_return port else try_ports isPortAvailable start (port + 1))
      else io_throw (JsError (lit ''No available port found starting from '' @ int_text start)))"
  by pat_completeness auto
termination by (relation "measure (\<lambda>(f, start, port). nat (start + 20 - port))") auto

declare try_ports.simps [simp del]

definition findAvailablePort :: "(int \<Rightarrow> ('w, bool) io) \<Rightarrow> int option \<Rightarrow> ('w, int) io" where
  "findAvailablePort isPortAvailable startPort =
     (case startPort of
        None \<Rightarrow> io_throw (JsError (lit ''No available port found starting from NaN''))
      | Some start \<Rightarrow> try_ports isPortAvailable start start)"

text \<open>\<open>parseInt(process.env.PORT || "3000")\<close>.\<close>

definition hex_value :: "nat \<Rightarrow> nat option" where
  "hex_value c =
     (if 0x30 \<le> c \<and> c \<le> 0x39 then Some (c - 0x30)
      else if 0x41 \<le> c \<and> c \<le> 0x46 then Some (c - 0x37)
      else if 0x61 \<le> c \<and> c \<le> 0x66 then Some (c - 0x57)
      else None)"

definition digit_value :: "nat \<Rightarrow> nat \<Rightarrow> nat option" where
  "digit_value radix c =
     (case hex_value c of None \<Rightarrow> None | Some d \<Rightarrow> if d < radix then Some d else None)"

fun leading_number :: "nat \<Rightarrow> nat option \<Rightarrow> jstr \<Rightarrow> nat option" where
  "leading_number radix acc [] = acc"
| "leading_number radix acc (c # cs) =
     (case digit_value radix c of
        None \<Rightarrow> acc
      | Some d \<Rightarrow> leading_number radix (Some (radix * (case acc of None \<Rightarrow> 0 | Some n \<Rightarrow> n) + d)) cs)"

definition parse_int :: "jstr \<Rightarrow> int option" where
  "parse_int s =
     (let t = trim_start s;
          negative = (t \<noteq> [] \<and> hd t = 0x2D);
          u = (if t \<noteq> [] \<and> (hd t = 0x2D \<or> hd t = 0x2B) then tl t else t);
          n = (if starts_with (lit ''0x'') u \<or> starts_with (lit ''0X'') u
               then leading_number 16 None (drop 2 u) else leading_number 10 None u)
      in map_option (\<lambda>k. if negative then - int k else int k) n)"

definition preferredPort :: "(jstr, jstr) dict \<Rightarrow> int option" where
  "preferredPort environment =
     parse_int (case dict_get environment (lit ''PORT'') of
        None \<Rightarrow> lit ''3000'' | Some s \<Rightarrow> if s = [] then lit ''3000'' else s)"

definition choosePort :: "(int \<Rightarrow> ('w, bool) io) \<Rightarrow> (jstr, jstr) dict \<Rightarrow> ('w, int) io" where
  "choosePort isPortAvailable environment =
     findAvailablePort isPortAvailable (preferredPort environment)"

section \<open>The HTML fallback\<close>

definition header_or :: "request \<Rightarrow> string \<Rightarrow> jstr \<Rightarrow> jstr" where
  "header_or req name other =
     (case dict_get (rq_hdrs req) (lit name) of
        None \<Rightarrow> other
      | Some h \<Rightarrow> if header_text h = [] then other else header_text h)"

definition getBaseUrl :: "request \<Rightarrow> jstr" where
  "getBaseUrl req =
     (let proto = header_or req ''x-forwarded-proto''
            (if rq_protocol req = [] then lit ''https'' else rq_protocol req);
          host = header_or req ''x-forwarded-host'' (header_or req ''host'' (lit ''sirinx.co''))
      in proto @ lit ''://'' @ host)"

text \<open>
  The directories tried in order: \<open>rootDir\<close> is two levels above the module, \<open>dirname\<close> the module's
  directory and \<open>cwd\<close> the process's, all absolute.
\<close>

definition dist_candidates :: "jstr \<Rightarrow> jstr \<Rightarrow> jstr \<Rightarrow> jstr list" where
  "dist_candidates rootDir dirname cwd =
     [path_join [rootDir, lit ''dist'', lit ''public''],
      path_join [dirname, lit ''public''],
      path_join [cwd, lit ''dist'', lit ''public''],
      path_join [cwd, lit ''apps'', lit ''web-sirinx'', lit ''dist'', lit ''public'']]"

definition resolveStaticDistPath :: "jstr list \<Rightarrow> files \<Rightarrow> jstr" where
  "resolveStaticDistPath candidates w =
     (case List.find (\<lambda>c. dict_get w (path_join [c, lit ''index.html'']) \<noteq> None) candidates of
        Some c \<Rightarrow> c
      | None \<Rightarrow> hd candidates)"

record http_answer =
  ha_status :: nat
  ha_body :: jstr

text \<open>
  The handler behind the static files: it throws when the injection does, and Express turns that
  into an error page.
\<close>

definition serve_fallback ::
  "articles \<Rightarrow> formats \<Rightarrow> jstr \<Rightarrow> files \<Rightarrow> jstr \<Rightarrow> request \<Rightarrow> jstr \<Rightarrow> http_answer result" where
  "serve_fallback ar fm distPath w now req originalUrl =
     (case dict_get w (path_join [distPath, lit ''index.html'']) of
        None \<Rightarrow> Inr \<lparr>ha_status = 500, ha_body =
          lit ''Build output is missing. Run the client build before starting production.''\<rparr>
      | Some html \<Rightarrow>
          result_bind (injectOgTags ar fm html originalUrl (getBaseUrl req) now) (\<lambda>page.
            Inr \<lparr>ha_status = 200, ha_body = page\<rparr>))"

section \<open>Ports\<close>

text \<open>A probe that answers from a table and logs what it was asked.\<close>

definition table_probe :: "(int \<Rightarrow> bool) \<Rightarrow> int \<Rightarrow> (int list, bool) io" where
  "table_probe free port = (\<lambda>asked. (Inr (free port), asked @ [port]))"

lemma try_ports_table:
  assumes "port \<le> start + 20"
  shows "try_ports (table_probe free) start port asked =
    (case List.find free [port..start + 19] of
       Some p \<Rightarrow> (Inr p, asked @ [port..p])
     | None \<Rightarrow> (Inl (JsError (lit ''No available port found starting from '' @ int_text start)),
               asked @ [port..start + 19]))"
  using assms
proof (induction "nat (start + 20 - port)" arbitrary: port asked)
  case 0
  then have "port = start + 20" by simp
  then show ?case by (subst try_ports.simps) (simp add: io_throw_def)
next
  case (Suc n)
  then have lt: "port < start + 20" by simp
  then have upto: "[port..start + 19] = port # [port + 1..start + 19]"
    by (simp add: upto_rec1)
  show ?case
  proof (cases "free port")
    case True
    with lt upto show ?thesis
      by (subst try_ports.simps) (simp add: table_probe_def io_bind_def io_return_def upto_rec1)
  next
    case False
    have ih: "try_ports (table_probe free) start (port + 1) (asked @ [port]) =
      (case List.find free [port + 1..start + 19] of
         Some p \<Rightarrow> (Inr p, (asked @ [port]) @ [port + 1..p])
       | None \<Rightarrow> (Inl (JsError (lit ''No available port found starting from '' @ int_text start)),
                 (asked @ [port]) @ [port + 1..start + 19]))"
      using Suc.hyps(2) lt by (intro Suc.hyps(1)) auto
    have "[port..p] = port # [port + 1..p]" if "List.find free [port + 1..start + 19] = Some p" for p
    proof -
      have "p \<in> set [port + 1..start + 19]" using that by (auto dest: find_Some_in_set)
      then show ?thesis by (simp add: upto_rec1)
    qed
    with False lt upto ih show ?thesis
      by (subst try_ports.simps)
         (auto simp: table_probe_def io_bind_def io_return_def split: option.splits)
  qed
qed

section \<open>A host header with a dollar sign\<close>

text \<open>
  The escaper leaves dollar signs alone and the replacement is a template, so a canonical URL that
  ends in \<open>$'\<close> pulls the rest of the document into the attribute.
\<close>

lemma canonical_template_expands:
  "replaceCanonical
     (lit ''<link rel='' @ [0x22] @ lit ''canonical'' @ [0x22] @ lit '' /></head>'')
     (escapeHtmlAttribute [0x24, 0x27]) =
   lit ''<link rel='' @ [0x22] @ lit ''canonical'' @ [0x22] @ lit '' href='' @ [0x22] @ lit ''</head>'' @
     [0x22] @ lit '' /></head>''"
  by (simp add: replaceCanonical_def replace_or_append_def tag_pattern_def replace_match_def m_lit_def
      m_spaces_def m_upto_def is_space_def escapeHtmlAttribute_units replace_units_def
      attribute_entity_def html_entity_def lit_def starts_with_def)

section \<open>Properties\<close>

text \<open>
  C37. The port search ends after twenty probes at most: it asks the ports from the preferred one
  upwards, stops at the first free one and returns it, and throws when all twenty are taken; a
  \<open>PORT\<close> that is no number makes it throw without a probe.
\<close>

theorem findAvailablePort_first_free:
  "findAvailablePort (table_probe free) startPort [] =
    (case startPort of
       None \<Rightarrow> (Inl (JsError (lit ''No available port found starting from NaN'')), [])
     | Some start \<Rightarrow>
        (case List.find free [start..start + 19] of
           Some p \<Rightarrow> (Inr p, [start..p])
         | None \<Rightarrow> (Inl (JsError (lit ''No available port found starting from '' @ int_text start)),
                   [start..start + 19])))"
  by (simp add: findAvailablePort_def io_throw_def try_ports_table split: option.split)

text \<open>
  C29. What the production server answers where no file matches: without a built index it says so
  with status 500; otherwise it answers 200 with the page of the URL, known or not, except that the
  handler throws when the lookup of the page runs into a member every object inherits, as for
  \<open>/projects/constructor\<close>.
\<close>

theorem fallback_answers:
  "(dict_get w (path_join [distPath, lit ''index.html'']) = None \<longrightarrow>
      (\<exists>body. serve_fallback ar fm distPath w now req url = Inr \<lparr>ha_status = 500, ha_body = body\<rparr>)) \<and>
   (dict_get w (path_join [distPath, lit ''index.html'']) \<noteq> None \<longrightarrow>
      (if inherited_path (clean_path url) \<or> inherited_path (clean_path (clean_path url))
       then \<exists>e. serve_fallback ar fm distPath w now req url = Inl e
       else \<exists>page. serve_fallback ar fm distPath w now req url = Inr \<lparr>ha_status = 200, ha_body = page\<rparr>))"
proof (cases "dict_get w (path_join [distPath, lit ''index.html''])")
  case None
  then show ?thesis by (simp add: serve_fallback_def)
next
  case (Some html)
  have "(\<exists>e. injectOgTags ar fm html url (getBaseUrl req) now = Inl e) \<longleftrightarrow>
     inherited_path (clean_path url) \<or> inherited_path (clean_path (clean_path url))"
    by (rule inject_throws_iff)
  with Some show ?thesis
    by (cases "injectOgTags ar fm html url (getBaseUrl req) now") (auto simp: serve_fallback_def)
qed

theorem fallback_answers_witness:
  "\<exists>e. serve_fallback \<lparr>ar_handWritten = [], ar_generated = []\<rparr> sample_formats (lit ''/dist'')
     [(lit ''/dist/index.html'', root_div)] []
     \<lparr>rq_protocol = lit ''https'', rq_ip = lit ''10.0.0.1'', rq_hdrs = [], rq_params = []\<rparr>
     (lit ''/projects/constructor'') = Inl e"
proof -
  have i: "dict_get [(lit ''/dist/index.html'', root_div)] (path_join [lit ''/dist'', lit ''index.html'']) \<noteq> None"
    by (simp add: path_join_def) (simp add: lit_def)
  have "clean_path (lit ''/projects/constructor'') = lit ''/projects/'' @ lit ''constructor''"
    by (simp add: clean_path_def strip_slash_def lit_def)
  moreover have "lit ''constructor'' \<in> set object_prototype_keys"
    by (simp add: object_prototype_keys_def)
  ultimately have "inherited_path (clean_path (lit ''/projects/constructor''))"
    unfolding inherited_path_def by blast
  with i fallback_answers show ?thesis by auto
qed

end
