(* ===== verification/Rx.thy ===== *)
theory Rx
  imports JsString
begin

text \<open>
  The regular expressions of the control services: literal texts, character classes with
  quantifiers, options, groups, alternatives, word boundaries and the two anchors. Matching
  lists the ends of all matches in the order a backtracking engine tries them, so the head of
  the list is the match \<open>exec\<close> and \<open>replace\<close> see. A position keeps the units before it, in
  reverse, because a word boundary looks back.
\<close>

section \<open>Expressions\<close>

text \<open>
  \<open>Chars neg ws rs\<close> is a bracketed class: the ranges \<open>rs\<close>, white space when \<open>ws\<close>, the
  complement of both when \<open>neg\<close>.
\<close>

datatype chars = Chars bool bool "(nat \<times> nat) list"

datatype rx =
    RText jstr
  | RClass chars nat "nat option"
  | ROpt rx
  | RSeq "rx list"
  | RAlt "rx list"
  | RBound
  | RStart
  | REnd

definition in_range :: "nat \<Rightarrow> nat \<times> nat \<Rightarrow> bool" where
  "in_range c r \<longleftrightarrow> fst r \<le> c \<and> c \<le> snd r"

definition other_case :: "nat \<Rightarrow> nat" where
  "other_case c =
     (if 0x41 \<le> c \<and> c \<le> 0x5A then c + 32
      else if 0x61 \<le> c \<and> c \<le> 0x7A then c - 32
      else c)"

text \<open>The flag \<open>i\<close> makes a class accept a unit whose other case it holds.\<close>

fun hits :: "bool \<Rightarrow> chars \<Rightarrow> nat \<Rightarrow> bool" where
  "hits ci (Chars neg ws rs) c =
     ((list_ex (in_range c) rs \<or> (ci \<and> list_ex (in_range (other_case c)) rs) \<or> (ws \<and> is_space c))
       \<noteq> neg)"

definition same_unit :: "bool \<Rightarrow> nat \<Rightarrow> nat \<Rightarrow> bool" where
  "same_unit ci c d \<longleftrightarrow> c = d \<or> (ci \<and> other_case c = d)"

definition is_word :: "nat \<Rightarrow> bool" where
  "is_word c \<longleftrightarrow>
     (0x30 \<le> c \<and> c \<le> 0x39) \<or> (0x41 \<le> c \<and> c \<le> 0x5A) \<or> c = 0x5F \<or> (0x61 \<le> c \<and> c \<le> 0x7A)"

text \<open>The classes \<open>\d\<close>, \<open>\s\<close>, \<open>\S\<close> and \<open>.\<close>.\<close>

definition c_digit :: chars where "c_digit = Chars False False [(0x30, 0x39)]"
definition c_space :: chars where "c_space = Chars False True []"
definition c_nonspace :: chars where "c_nonspace = Chars True True []"
definition c_any :: chars where "c_any = Chars True False [(10, 10), (13, 13), (0x2028, 0x2029)]"

section \<open>Matching\<close>

type_synonym pos = "jstr \<times> jstr"

fun advance :: "nat \<Rightarrow> pos \<Rightarrow> pos" where
  "advance n (b, s) = (rev (take n s) @ b, drop n s)"

fun eat_text :: "bool \<Rightarrow> jstr \<Rightarrow> jstr \<Rightarrow> bool" where
  "eat_text ci [] s = True"
| "eat_text ci (p # ps) [] = False"
| "eat_text ci (p # ps) (c # cs) = (same_unit ci c p \<and> eat_text ci ps cs)"

definition run_length :: "bool \<Rightarrow> chars \<Rightarrow> nat option \<Rightarrow> jstr \<Rightarrow> nat" where
  "run_length ci k hi s =
     (let n = length (takeWhile (hits ci k) s) in case hi of None \<Rightarrow> n | Some h \<Rightarrow> min n h)"

definition head_word :: "jstr \<Rightarrow> bool" where
  "head_word s = (case s of [] \<Rightarrow> False | c # _ \<Rightarrow> is_word c)"

fun rx_match :: "bool \<Rightarrow> rx \<Rightarrow> pos \<Rightarrow> pos list"
  and rx_seq :: "bool \<Rightarrow> rx list \<Rightarrow> pos \<Rightarrow> pos list"
  and rx_alt :: "bool \<Rightarrow> rx list \<Rightarrow> pos \<Rightarrow> pos list"
where
  "rx_match ci (RText t) p = (if eat_text ci t (snd p) then [advance (length t) p] else [])"
| "rx_match ci (RClass k lo hi) p =
     map (\<lambda>n. advance n p) (rev [lo..<Suc (run_length ci k hi (snd p))])"
| "rx_match ci (ROpt r) p = rx_match ci r p @ [p]"
| "rx_match ci (RSeq rs) p = rx_seq ci rs p"
| "rx_match ci (RAlt rs) p = rx_alt ci rs p"
| "rx_match ci RBound p = (if head_word (fst p) \<noteq> head_word (snd p) then [p] else [])"
| "rx_match ci RStart p = (if fst p = [] then [p] else [])"
| "rx_match ci REnd p = (if snd p = [] then [p] else [])"
| "rx_seq ci [] p = [p]"
| "rx_seq ci (r # rs) p = concat (map (rx_seq ci rs) (rx_match ci r p))"
| "rx_alt ci [] p = []"
| "rx_alt ci (r # rs) p = rx_match ci r p @ rx_alt ci rs p"

section \<open>The operations of the standard library\<close>

text \<open>\<open>re.test(s)\<close>.\<close>

fun rx_from :: "bool \<Rightarrow> rx \<Rightarrow> jstr \<Rightarrow> jstr \<Rightarrow> bool" where
  "rx_from ci r b [] = (rx_match ci r (b, []) \<noteq> [])"
| "rx_from ci r b (c # cs) = (rx_match ci r (b, c # cs) \<noteq> [] \<or> rx_from ci r (c # b) cs)"

definition rx_test :: "bool \<Rightarrow> rx \<Rightarrow> jstr \<Rightarrow> bool" where
  "rx_test ci r s = rx_from ci r [] s"

text \<open>
  \<open>s.match(/pre(grp)post/)[1]\<close>: the text of the group in the first match, trying positions
  from the left.
\<close>

definition rx_groups :: "bool \<Rightarrow> rx list \<Rightarrow> rx \<Rightarrow> rx list \<Rightarrow> pos \<Rightarrow> jstr list" where
  "rx_groups ci pre grp post p =
     concat (map (\<lambda>p1. concat (map (\<lambda>p2.
         map (\<lambda>p3. take (length (snd p1) - length (snd p2)) (snd p1)) (rx_seq ci post p2))
       (rx_match ci grp p1))) (rx_seq ci pre p))"

fun rx_capture_from :: "bool \<Rightarrow> rx list \<Rightarrow> rx \<Rightarrow> rx list \<Rightarrow> jstr \<Rightarrow> jstr \<Rightarrow> jstr option" where
  "rx_capture_from ci pre grp post b [] =
     (case rx_groups ci pre grp post (b, []) of [] \<Rightarrow> None | g # _ \<Rightarrow> Some g)"
| "rx_capture_from ci pre grp post b (c # cs) =
     (case rx_groups ci pre grp post (b, c # cs) of
        [] \<Rightarrow> rx_capture_from ci pre grp post (c # b) cs
      | g # _ \<Rightarrow> Some g)"

definition rx_capture :: "bool \<Rightarrow> rx list \<Rightarrow> rx \<Rightarrow> rx list \<Rightarrow> jstr \<Rightarrow> jstr option" where
  "rx_capture ci pre grp post s = rx_capture_from ci pre grp post [] s"

text \<open>
  \<open>s.replace(/r/g, rep)\<close> for a replacement without \<open>$\<close>. An empty match is left alone and the
  search goes on one unit further; no expression of the program matches the empty text.
\<close>

function rx_replace_from :: "bool \<Rightarrow> rx \<Rightarrow> jstr \<Rightarrow> jstr \<Rightarrow> jstr \<Rightarrow> jstr" where
  "rx_replace_from ci r rep b s =
     (case rx_match ci r (b, s) of
        [] \<Rightarrow> (case s of [] \<Rightarrow> [] | c # cs \<Rightarrow> c # rx_replace_from ci r rep (c # b) cs)
      | (b', s') # _ \<Rightarrow>
          if length s' < length s then rep @ rx_replace_from ci r rep b' s'
          else (case s of [] \<Rightarrow> [] | c # cs \<Rightarrow> c # rx_replace_from ci r rep (c # b) cs))"
  by pat_completeness auto
termination by (relation "measure (\<lambda>(ci, r, rep, b, s). length s)") auto

declare rx_replace_from.simps [simp del]

definition rx_replace :: "bool \<Rightarrow> rx \<Rightarrow> jstr \<Rightarrow> jstr \<Rightarrow> jstr" where
  "rx_replace ci r rep s = rx_replace_from ci r rep [] s"

section \<open>Facts about matching\<close>

text \<open>A match only moves forward: the text before and after a position stays one text.\<close>

definition whole :: "pos \<Rightarrow> jstr" where
  "whole p = rev (fst p) @ snd p"

lemma whole_advance [simp]: "whole (rev (take n s) @ b, drop n s) = whole (b, s)"
  by (simp add: whole_def)

lemma rx_match_whole:
  "q \<in> set (rx_match ci r p) \<Longrightarrow> whole q = whole p"
  "q \<in> set (rx_seq ci rs p) \<Longrightarrow> whole q = whole p"
  "q \<in> set (rx_alt ci rs' p) \<Longrightarrow> whole q = whole p"
  by (induction ci r p and ci rs p and ci rs' p arbitrary: q and q and q
        rule: rx_match_rx_seq_rx_alt.induct)
     (auto split: if_splits)

lemma rx_from_iff:
  "rx_from ci r b s \<longleftrightarrow> (\<exists>u v. s = u @ v \<and> rx_match ci r (rev u @ b, v) \<noteq> [])"
proof (induction s arbitrary: b)
  case Nil
  show ?case by simp
next
  case (Cons c cs)
  show ?case
  proof
    assume "rx_from ci r b (c # cs)"
    then consider "rx_match ci r (b, c # cs) \<noteq> []" | "rx_from ci r (c # b) cs" by auto
    then show "\<exists>u v. c # cs = u @ v \<and> rx_match ci r (rev u @ b, v) \<noteq> []"
    proof cases
      case 1
      then have "c # cs = [] @ (c # cs) \<and> rx_match ci r (rev [] @ b, c # cs) \<noteq> []" by simp
      then show ?thesis by blast
    next
      case 2
      then obtain u v where "cs = u @ v" "rx_match ci r (rev u @ c # b, v) \<noteq> []"
        using Cons.IH by blast
      then have "c # cs = (c # u) @ v \<and> rx_match ci r (rev (c # u) @ b, v) \<noteq> []" by simp
      then show ?thesis by blast
    qed
  next
    assume "\<exists>u v. c # cs = u @ v \<and> rx_match ci r (rev u @ b, v) \<noteq> []"
    then obtain u v where e: "c # cs = u @ v" and m: "rx_match ci r (rev u @ b, v) \<noteq> []" by blast
    show "rx_from ci r b (c # cs)"
    proof (cases u)
      case Nil
      with m have "rx_match ci r (b, v) \<noteq> []" by simp
      with e Nil show ?thesis by auto
    next
      case (Cons d u')
      with e m have "cs = u' @ v" "rx_match ci r (rev u' @ c # b, v) \<noteq> []" by auto
      then show ?thesis using Cons.IH by auto
    qed
  qed
qed

lemma rx_test_iff: "rx_test ci r s \<longleftrightarrow> (\<exists>u v. s = u @ v \<and> rx_match ci r (rev u, v) \<noteq> [])"
  by (simp add: rx_test_def rx_from_iff)

text \<open>An expression anchored at the start is tried at the start only.\<close>

lemma rx_test_anchored:
  "rx_test ci (RSeq (RStart # rs)) s \<longleftrightarrow> rx_seq ci rs ([], s) \<noteq> []"
  by (auto simp: rx_test_iff split: if_splits)

text \<open>A literal, case included: its presence is what \<open>includes\<close> asks.\<close>

lemma eat_text_False_iff: "eat_text False p s \<longleftrightarrow> starts_with p s"
  by (induction "False" p s rule: eat_text.induct)
     (auto simp: same_unit_def starts_with_def)

lemma rx_test_text: "rx_test False (RText t) s \<longleftrightarrow> contains s t"
  by (auto simp: rx_test_iff eat_text_False_iff contains_iff starts_with_iff)

text \<open>Replacing in a text without a match changes nothing.\<close>

lemma rx_replace_from_absent:
  "\<not> rx_from ci r b s \<Longrightarrow> rx_replace_from ci r rep b s = s"
proof (induction s arbitrary: b)
  case Nil
  then show ?case by (simp add: rx_replace_from.simps)
next
  case (Cons c cs)
  then show ?case by (simp add: rx_replace_from.simps [of ci r rep b "c # cs"])
qed

lemma rx_replace_absent: "\<not> rx_test ci r s \<Longrightarrow> rx_replace ci r rep s = s"
  by (simp add: rx_test_def rx_replace_def rx_replace_from_absent)

end
