(* ===== verification/Policy.thy ===== *)
theory Policy
  imports JsValue Rx
begin

text \<open>
  The policy core of the control services (\<open>packages/policy-core/src/index.mjs\<close>): it
  normalises a proposed action and decides whether it is blocked, needs approval or is
  allowed. Actions and approvals come from requests, so they are dynamic values; how numbers
  and dates print is a parameter.
\<close>

section \<open>Dynamic values as text\<close>

record printer =
  pr_num :: "rat \<Rightarrow> jstr"
  pr_date :: "time \<Rightarrow> jstr"

definition text_of :: "printer \<Rightarrow> jsval \<Rightarrow> jstr" where
  "text_of pr v = js_string (pr_num pr) (pr_date pr) v"

lemma text_of_JStr [simp]: "text_of pr (JStr s) = s"
  by (simp add: text_of_def)

text \<open>\<open>v?.k\<close>: \<open>undefined\<close> on everything but an object that has the property.\<close>

definition opt_prop :: "jsval \<Rightarrow> string \<Rightarrow> jsval" where
  "opt_prop v k = (case v of JObj fs \<Rightarrow> getp fs (lit k) | _ \<Rightarrow> JUndef)"

lemma opt_prop_simps [simp]:
  "opt_prop (JObj fs) k = getp fs (lit k)" "opt_prop JUndef k = JUndef" "opt_prop JNull k = JUndef"
  "opt_prop (JStr s) k = JUndef" "opt_prop (JArr vs) k = JUndef"
  by (simp_all add: opt_prop_def)

definition get :: "jsobj \<Rightarrow> string \<Rightarrow> jsval" where
  "get o1 k = getp o1 (lit k)"

lemma get_Nil [simp]: "get [] k = JUndef"
  by (simp add: get_def)

lemma get_Cons [simp]: "get ((lit k, v) # o1) k' = (if k' = k then v else get o1 k')"
  by (simp add: get_def)

lemma getp_lit: "getp o1 (lit k) = get o1 k"
  by (simp add: get_def)

text \<open>\<open>String(a || b || ... || d)\<close>.\<close>

fun first_truthy :: "jsval list \<Rightarrow> jsval \<Rightarrow> jsval" where
  "first_truthy [] d = d"
| "first_truthy (v # vs) d = (if truthy v then v else first_truthy vs d)"

section \<open>The tables\<close>

definition POLICY_CORE_VERSION :: jstr where
  "POLICY_CORE_VERSION = lit ''2026-05-20.policy-core.v1''"

definition EXTERNAL_ACTION_TYPES :: "jstr list" where
  "EXTERNAL_ACTION_TYPES =
     map lit [''cloudflare-deploy'', ''cloudflare-write'', ''database-migration'', ''github-push'',
       ''github-pr'', ''line-send'', ''paid-api-call'', ''production-lead-write'',
       ''solis-telemetry-read'', ''telegram-send'']"

definition dash_or_underscore :: rx where
  "dash_or_underscore = ROpt (RClass (Chars False False [(0x5F, 0x5F), (0x2D, 0x2D)]) 1 (Some 1))"

definition SECRET_PATTERNS :: "rx list" where
  "SECRET_PATTERNS =
     [RSeq [RText (lit ''.env''), RAlt [RText (lit ''.''), REnd]],
      RText (lit ''secret''),
      RText (lit ''token''),
      RSeq [RText (lit ''api''), dash_or_underscore, RText (lit ''key'')],
      RText (lit ''password''),
      RSeq [RText (lit ''private''), dash_or_underscore, RText (lit ''key'')],
      RText (lit ''keystore'')]"

section \<open>Reading an action\<close>

definition toArray :: "jsval \<Rightarrow> jsval list" where
  "toArray v =
     (if \<not> truthy v then []
      else case v of JArr vs \<Rightarrow> filter truthy vs | _ \<Rightarrow> [v])"

definition targetId :: "printer \<Rightarrow> jsval \<Rightarrow> jstr" where
  "targetId pr target =
     (if \<not> truthy target then []
      else case target of
        JStr s \<Rightarrow> trim s
      | _ \<Rightarrow> trim (text_of pr (first_truthy
               [opt_prop target ''id'', opt_prop target ''path'', opt_prop target ''url'',
                opt_prop target ''name''] (JStr []))))"

record policy_action =
  pa_id :: jstr
  pa_type :: jstr
  pa_description :: jstr
  pa_command :: jstr
  pa_target :: jsval
  pa_paths :: "jsval list"
  pa_connectors :: "jsval list"
  pa_externalWrite :: bool
  pa_productionWrite :: bool
  pa_customerVisible :: bool
  pa_paidApi :: bool
  pa_destructive :: bool
  pa_readsSecretValues :: bool
  pa_printsSecrets :: bool
  pa_rawChatToMemory :: bool
  pa_readOnly :: bool
  pa_evidence :: jsval

definition normalizePolicyAction :: "printer \<Rightarrow> jsobj \<Rightarrow> policy_action" where
  "normalizePolicyAction pr input =
     \<lparr>pa_id = text_of pr (first_truthy [get input ''id'', get input ''actionId'', get input ''type'']
                (JStr (lit ''unnamed-action''))),
      pa_type = text_of pr (js_or (get input ''type'') (JStr (lit ''local-review''))),
      pa_description = text_of pr (js_or (get input ''description'') (JStr [])),
      pa_command = (if truthy (get input ''command'') then text_of pr (get input ''command'') else []),
      pa_target = js_or (get input ''target'') JNull,
      pa_paths = toArray (get input ''paths''),
      pa_connectors = toArray (get input ''connectors''),
      pa_externalWrite = truthy (get input ''externalWrite''),
      pa_productionWrite = truthy (get input ''productionWrite''),
      pa_customerVisible = truthy (get input ''customerVisible''),
      pa_paidApi = truthy (get input ''paidApi''),
      pa_destructive = truthy (get input ''destructive''),
      pa_readsSecretValues = truthy (get input ''readsSecretValues''),
      pa_printsSecrets = truthy (get input ''printsSecrets''),
      pa_rawChatToMemory = truthy (get input ''rawChatToMemory''),
      pa_readOnly = truthy (get input ''readOnly''),
      pa_evidence = js_or (get input ''evidence'') (JObj [])\<rparr>"

definition textFields :: "printer \<Rightarrow> policy_action \<Rightarrow> jstr list" where
  "textFields pr a =
     filter (\<lambda>s. s \<noteq> []) [pa_id a, pa_type a, pa_description a, pa_command a, targetId pr (pa_target a)]
     @ map (text_of pr) (filter truthy (pa_paths a @ pa_connectors a))"

definition referencesSecretMaterial :: "printer \<Rightarrow> policy_action \<Rightarrow> bool" where
  "referencesSecretMaterial pr a \<longleftrightarrow>
     list_ex (\<lambda>value. list_ex (\<lambda>p. rx_test True p value) SECRET_PATTERNS) (textFields pr a)"

definition isExternalAction :: "policy_action \<Rightarrow> bool" where
  "isExternalAction a \<longleftrightarrow>
     pa_externalWrite a \<or> pa_productionWrite a \<or> pa_customerVisible a \<or> pa_paidApi a \<or>
     pa_destructive a \<or> pa_type a \<in> set EXTERNAL_ACTION_TYPES"

text \<open>
  The result is the value of \<open>scopeMatches && targetMatches\<close>: the empty string when the action
  has no target.
\<close>

definition approvalMatches :: "printer \<Rightarrow> policy_action \<Rightarrow> jsval \<Rightarrow> jsval" where
  "approvalMatches pr a approval =
     (if \<not> truthy (opt_prop approval ''approved'') then JBool False
      else
        let expectedTarget = targetId pr (pa_target a);
            approvedTarget = targetId pr (opt_prop approval ''target'');
            scope = opt_prop approval ''scope'';
            scopeMatches = (\<not> truthy scope \<or> scope = JStr (pa_id a) \<or> scope = JStr (pa_type a))
        in if \<not> scopeMatches then JBool False
           else if expectedTarget = [] then JStr []
           else JBool (approvedTarget = expectedTarget))"

definition solisEvidenceComplete :: "policy_action \<Rightarrow> bool" where
  "solisEvidenceComplete a \<longleftrightarrow>
     (if pa_type a \<noteq> lit ''solis-telemetry-read'' then True
      else pa_readOnly a \<and> opt_prop (pa_evidence a) ''consent'' = JBool True \<and>
           opt_prop (pa_evidence a) ''credentialStorage'' = JBool True \<and>
           opt_prop (pa_evidence a) ''stationMapping'' = JBool True)"

section \<open>The decision\<close>

datatype verdict = Blocked | Approval_Required | Allowed

fun verdict_text :: "verdict \<Rightarrow> jstr" where
  "verdict_text Blocked = lit ''blocked''"
| "verdict_text Approval_Required = lit ''approval_required''"
| "verdict_text Allowed = lit ''allowed''"

record policy_decision =
  pd_policyVersion :: jstr
  pd_decision :: verdict
  pd_allowed :: bool
  pd_externalWrites :: bool
  pd_requiresApproval :: bool
  pd_action :: policy_action
  pd_target :: jstr
  pd_hardBlocks :: "jstr list"
  pd_approvalReasons :: "jstr list"
  pd_approved :: jsval

text \<open>\<open>if (b) list.push(...)\<close>, for a list of such statements.\<close>

definition pushed :: "(bool \<times> string) list \<Rightarrow> jstr list" where
  "pushed bs = map (lit \<circ> snd) (filter fst bs)"

definition hard_blocks :: "printer \<Rightarrow> policy_action \<Rightarrow> jstr list" where
  "hard_blocks pr a =
     pushed
       [(pa_readsSecretValues a, ''secret-value-read-requested''),
        (pa_printsSecrets a, ''secret-print-requested''),
        (pa_rawChatToMemory a, ''raw-chat-memory-requested''),
        (referencesSecretMaterial pr a \<and> \<not> pa_readOnly a, ''secret-like-path-or-target-in-write-scope''),
        (isExternalAction a \<and> targetId pr (pa_target a) = [], ''external-action-missing-exact-target''),
        (\<not> solisEvidenceComplete a, ''solis-consent-credential-or-station-evidence-missing'')]"

definition approval_reasons :: "policy_action \<Rightarrow> jstr list" where
  "approval_reasons a =
     pushed
       [(isExternalAction a, ''external-or-production-action''),
        (pa_customerVisible a, ''customer-visible-action''),
        (pa_paidApi a, ''paid-api-action''),
        (pa_destructive a, ''destructive-action'')]"

definition evaluatePolicy :: "printer \<Rightarrow> jsobj \<Rightarrow> jsval \<Rightarrow> policy_decision" where
  "evaluatePolicy pr input approval =
     (let action = normalizePolicyAction pr input;
          target = targetId pr (pa_target action);
          externalAction = isExternalAction action;
          hardBlocks = hard_blocks pr action;
          approvalReasons = approval_reasons action
      in if hardBlocks \<noteq> []
         then \<lparr>pd_policyVersion = POLICY_CORE_VERSION, pd_decision = Blocked, pd_allowed = False,
               pd_externalWrites = False, pd_requiresApproval = (approvalReasons \<noteq> []),
               pd_action = action, pd_target = target, pd_hardBlocks = hardBlocks,
               pd_approvalReasons = approvalReasons, pd_approved = JBool False\<rparr>
         else
           let approved = approvalMatches pr action approval
           in if approvalReasons \<noteq> [] \<and> \<not> truthy approved
              then \<lparr>pd_policyVersion = POLICY_CORE_VERSION, pd_decision = Approval_Required,
                    pd_allowed = False, pd_externalWrites = False, pd_requiresApproval = True,
                    pd_action = action, pd_target = target, pd_hardBlocks = hardBlocks,
                    pd_approvalReasons = approvalReasons, pd_approved = JBool False\<rparr>
              else \<lparr>pd_policyVersion = POLICY_CORE_VERSION, pd_decision = Allowed,
                    pd_allowed = True, pd_externalWrites = externalAction,
                    pd_requiresApproval = (approvalReasons \<noteq> []), pd_action = action,
                    pd_target = target, pd_hardBlocks = hardBlocks,
                    pd_approvalReasons = approvalReasons, pd_approved = approved\<rparr>)"

definition summarizePolicyDecision :: "policy_decision \<Rightarrow> jsobj" where
  "summarizePolicyDecision d =
     [(lit ''policyVersion'', JStr (pd_policyVersion d)),
      (lit ''decision'', JStr (verdict_text (pd_decision d))),
      (lit ''allowed'', JBool (pd_allowed d)),
      (lit ''externalWrites'', JBool (pd_externalWrites d)),
      (lit ''requiresApproval'', JBool (pd_requiresApproval d)),
      (lit ''target'', JStr (pd_target d)),
      (lit ''hardBlocks'', JArr (map JStr (pd_hardBlocks d))),
      (lit ''approvalReasons'', JArr (map JStr (pd_approvalReasons d)))]"

section \<open>What a decision means\<close>

lemma pushed_Nil_iff: "pushed bs = [] \<longleftrightarrow> (\<forall>(b, s) \<in> set bs. \<not> b)"
  by (auto simp: pushed_def filter_empty_conv)

lemma approval_reasons_Nil_iff: "approval_reasons a = [] \<longleftrightarrow> \<not> isExternalAction a"
  by (auto simp: approval_reasons_def pushed_Nil_iff isExternalAction_def)

lemma evaluatePolicy_action [simp]:
  "pd_action (evaluatePolicy pr input approval) = normalizePolicyAction pr input"
  "pd_target (evaluatePolicy pr input approval) = targetId pr (pa_target (normalizePolicyAction pr input))"
  by (simp_all add: evaluatePolicy_def Let_def)

lemma requiresApproval_iff:
  "pd_requiresApproval (evaluatePolicy pr input approval) \<longleftrightarrow>
     isExternalAction (normalizePolicyAction pr input)"
  by (simp add: evaluatePolicy_def Let_def approval_reasons_Nil_iff)

lemma externalWrites_iff:
  "pd_externalWrites (evaluatePolicy pr input approval) \<longleftrightarrow>
     pd_decision (evaluatePolicy pr input approval) = Allowed \<and>
     isExternalAction (normalizePolicyAction pr input)"
  by (simp add: evaluatePolicy_def Let_def)

lemma allowed_iff:
  "pd_allowed (evaluatePolicy pr input approval) \<longleftrightarrow>
     pd_decision (evaluatePolicy pr input approval) = Allowed"
  by (simp add: evaluatePolicy_def Let_def)

lemma decision_cases:
  "pd_decision (evaluatePolicy pr input approval) =
     (let a = normalizePolicyAction pr input in
      if hard_blocks pr a \<noteq> [] then Blocked
      else if isExternalAction a \<and> \<not> truthy (approvalMatches pr a approval) then Approval_Required
      else Allowed)"
  by (simp add: evaluatePolicy_def Let_def approval_reasons_Nil_iff)

lemma truthy_approval_iff:
  "truthy (approvalMatches pr a approval) \<longleftrightarrow>
     truthy (opt_prop approval ''approved'') \<and> targetId pr (pa_target a) \<noteq> [] \<and>
     targetId pr (opt_prop approval ''target'') = targetId pr (pa_target a) \<and>
     (\<not> truthy (opt_prop approval ''scope'') \<or> opt_prop approval ''scope'' = JStr (pa_id a) \<or>
      opt_prop approval ''scope'' = JStr (pa_type a))"
  by (auto simp: approvalMatches_def Let_def)

section \<open>What names secret material\<close>

text \<open>
  The patterns ignore the case of the letters A to Z: a test asks whether the text, with these
  letters made small, contains one of a list of words or ends with \<open>.env\<close>.
\<close>

definition small_letters :: "jstr \<Rightarrow> jstr" where
  "small_letters s = map (\<lambda>c. if 0x41 \<le> c \<and> c \<le> 0x5A then c + 32 else c) s"

lemma small_letters_append: "small_letters (u @ v) = small_letters u @ small_letters v"
  by (simp add: small_letters_def)

lemma same_unit_small:
  "\<not> (0x41 \<le> d \<and> d \<le> 0x5A) \<Longrightarrow>
     same_unit True c d \<longleftrightarrow> (if 0x41 \<le> c \<and> c \<le> 0x5A then c + 32 else c) = d"
  by (auto simp: same_unit_def other_case_def)

definition small_text :: "jstr \<Rightarrow> bool" where
  "small_text p \<longleftrightarrow> list_all (\<lambda>d. \<not> (0x41 \<le> d \<and> d \<le> 0x5A)) p"

lemma eat_text_small:
  "small_text p \<Longrightarrow> eat_text True p s \<longleftrightarrow> starts_with p (small_letters s)"
  by (induction "True" p s rule: eat_text.induct)
     (simp_all add: starts_with_unit_simps small_letters_def small_text_def same_unit_small)

lemma starts_with_append_iff:
  "starts_with (p @ q) s \<longleftrightarrow> starts_with p s \<and> starts_with q (drop (length p) s)"
  by (auto simp: starts_with_iff)

lemma somewhere_iff:
  "(\<exists>u v. s = u @ v \<and> starts_with w (small_letters v)) \<longleftrightarrow> contains (small_letters s) w"
proof
  assume "contains (small_letters s) w"
  then obtain a b where "small_letters s = a @ w @ b" by (auto simp: contains_iff)
  from iffD1 [OF map_eq_append_conv this [unfolded small_letters_def]]
  obtain u v where "s = u @ v" "small_letters v = w @ b" by (auto simp only: small_letters_def)
  then show "\<exists>u v. s = u @ v \<and> starts_with w (small_letters v)" by (auto simp: starts_with_iff)
next
  assume "\<exists>u v. s = u @ v \<and> starts_with w (small_letters v)"
  then obtain u v t where "s = u @ v" "small_letters v = w @ t" by (auto simp: starts_with_iff)
  then have "small_letters s = small_letters u @ w @ t" by (simp add: small_letters_append)
  then show "contains (small_letters s) w" unfolding contains_iff by blast
qed

lemma word_test: "small_text w \<Longrightarrow> rx_test True (RText w) s \<longleftrightarrow> contains (small_letters s) w"
  by (auto simp: rx_test_iff eat_text_small somewhere_iff [symmetric])

lemma dash_match:
  "rx_match True dash_or_underscore p =
     (case snd p of c # _ \<Rightarrow> if c = 0x5F \<or> c = 0x2D then [advance 1 p, p] else [p] | [] \<Rightarrow> [p])"
  by (cases p; cases "snd p")
     (auto simp: dash_or_underscore_def run_length_def in_range_def other_case_def)

text \<open>The matches at one position.\<close>

lemma starts_with_unit:
  "d \<in> {0x5F, 0x2D, 0x2E} \<Longrightarrow> starts_with [d] (small_letters v) \<longleftrightarrow> (\<exists>cs. v = d # cs)"
  by (cases v) (auto simp: small_letters_def starts_with_unit_simps)

lemma drop_small_letters: "drop n (small_letters v) = small_letters (drop n v)"
  by (simp add: small_letters_def drop_map)

lemma joined_match:
  assumes "small_text p" and "small_text q"
  shows "rx_match True (RSeq [RText p, dash_or_underscore, RText q]) (b, v) \<noteq> [] \<longleftrightarrow>
    (\<exists>sep \<in> {[], [0x5F], [0x2D]}. starts_with (p @ sep @ q) (small_letters v))"
proof -
  have "drop (length p) v = c # cs \<Longrightarrow> drop (Suc (length p)) v = cs" for c cs
    by (metis drop_Suc list.sel(3) tl_drop)
  then show ?thesis
    by (cases "drop (length p) v")
      (auto simp: starts_with_append_iff eat_text_small assms dash_match starts_with_unit drop_small_letters)
qed

lemma joined_test:
  assumes "small_text p" and "small_text q"
  shows "rx_test True (RSeq [RText p, dash_or_underscore, RText q]) s \<longleftrightarrow>
    (\<exists>sep \<in> {[], [0x5F], [0x2D]}. contains (small_letters s) (p @ sep @ q))"
  unfolding rx_test_iff joined_match [OF assms] somewhere_iff [symmetric] by blast

lemma env_match:
  "rx_match True (RSeq [RText (lit ''.env''), RAlt [RText (lit ''.''), REnd]]) (b, v) \<noteq> [] \<longleftrightarrow>
     starts_with (lit ''.env'' @ lit ''.'') (small_letters v) \<or> small_letters v = lit ''.env''"
proof -
  have small: "small_text (lit ''.env'')" "small_text (lit ''.'')" by (simp_all add: small_text_def lit_def)
  have "starts_with w (small_letters v) \<and> length v \<le> length w \<longleftrightarrow> small_letters v = w" for w
    by (auto simp: starts_with_def small_letters_def)
  from this [of "lit ''.env''"] show ?thesis
    by (auto simp: starts_with_append_iff eat_text_small small drop_small_letters)
qed

lemma env_test:
  "rx_test True (RSeq [RText (lit ''.env''), RAlt [RText (lit ''.''), REnd]]) s \<longleftrightarrow>
     contains (small_letters s) (lit ''.env'' @ lit ''.'') \<or> ends_with (lit ''.env'') (small_letters s)"
proof -
  have "(\<exists>u v. s = u @ v \<and> small_letters v = lit ''.env'') \<longleftrightarrow> ends_with (lit ''.env'') (small_letters s)"
  proof
    assume "ends_with (lit ''.env'') (small_letters s)"
    moreover have "length (small_letters s) = length s" by (simp add: small_letters_def)
    ultimately have "small_letters (drop (length s - length (lit ''.env'')) s) = lit ''.env''"
      by (simp add: ends_with_def drop_small_letters)
    then show "\<exists>u v. s = u @ v \<and> small_letters v = lit ''.env''" by (metis append_take_drop_id)
  qed (auto simp: ends_with_def small_letters_append)
  then show ?thesis
    unfolding rx_test_iff env_match somewhere_iff [symmetric] by blast
qed

text \<open>The words the seven patterns look for.\<close>

lemma secret_text_iff:
  "list_ex (\<lambda>p. rx_test True p s) SECRET_PATTERNS \<longleftrightarrow>
     (\<exists>w \<in> set [''.env.'', ''secret'', ''token'', ''apikey'', ''api_key'', ''api-key'', ''password'',
        ''privatekey'', ''private_key'', ''private-key'', ''keystore''].
        contains (small_letters s) (lit w)) \<or>
     ends_with (lit ''.env'') (small_letters s)"
proof -
  have small: "small_text (lit w)"
    if "w \<in> {''secret'', ''token'', ''api'', ''key'', ''password'', ''private'', ''keystore''}" for w
    using that by (auto simp: small_text_def lit_def)
  have j: "lit a @ lit b = lit (a @ b)" "lit a @ 0x5F # lit b = lit (a @ ''_'' @ b)"
    "lit a @ 0x2D # lit b = lit (a @ ''-'' @ b)" for a b
    by (simp_all add: lit_def)
  show ?thesis
    unfolding SECRET_PATTERNS_def
    by (simp add: word_test joined_test env_test small j) blast
qed

section \<open>Properties\<close>

lemma toArray_truthy: "v \<in> set (toArray w) \<Longrightarrow> truthy v"
  by (auto simp: toArray_def split: jsval.splits if_splits)

lemma targetId_default [simp]: "targetId pr (js_or v JNull) = targetId pr v"
  by (simp add: targetId_def js_or_def)

text \<open>
  C3. The decision read off the request. With the identity, type and target of the request as
  the code takes them, an action is external when one of five flags is set or its type is one of
  ten. It is allowed exactly when it neither reads nor prints secret values nor stores raw chat,
  is read-only or names nothing secret in any of its texts, is no telemetry read without the
  three confirmations and, if it is external, names a target and comes with an approval that was
  given, names the same target and no other scope than its identity or its type. What is not
  allowed needs an approval when only the approval is missing, and is blocked otherwise,
  whatever the approval says. External writes are announced exactly for an external action that
  is allowed.
\<close>

theorem policy_allows_iff:
  fixes pr input approval
  defines "d \<equiv> evaluatePolicy pr input approval"
    and "flag \<equiv> \<lambda>k. truthy (get input k)"
    and "identity \<equiv> text_of pr (first_truthy [get input ''id'', get input ''actionId'', get input ''type'']
           (JStr (lit ''unnamed-action'')))"
    and "type \<equiv> text_of pr (js_or (get input ''type'') (JStr (lit ''local-review'')))"
    and "target \<equiv> targetId pr (get input ''target'')"
    and "evidence \<equiv> opt_prop (js_or (get input ''evidence'') (JObj []))"
  defines "external \<equiv>
      (\<exists>k \<in> {''externalWrite'', ''productionWrite'', ''customerVisible'', ''paidApi'', ''destructive''}. flag k) \<or>
      type \<in> set (map lit [''cloudflare-deploy'', ''cloudflare-write'', ''database-migration'',
        ''github-push'', ''github-pr'', ''line-send'', ''paid-api-call'', ''production-lead-write'',
        ''solis-telemetry-read'', ''telegram-send''])"
    and "secret \<equiv> \<lambda>s.
      (\<exists>w \<in> set [''.env.'', ''secret'', ''token'', ''apikey'', ''api_key'', ''api-key'', ''password'',
         ''privatekey'', ''private_key'', ''private-key'', ''keystore''].
         contains (small_letters s) (lit w)) \<or>
      ends_with (lit ''.env'') (small_letters s)"
    and "texts \<equiv> {identity, type, text_of pr (js_or (get input ''description'') (JStr [])),
        text_of pr (js_or (get input ''command'') (JStr [])), target} \<union>
      text_of pr ` set (toArray (get input ''paths'')) \<union> text_of pr ` set (toArray (get input ''connectors''))"
  defines "clean \<equiv>
      \<not> flag ''readsSecretValues'' \<and> \<not> flag ''printsSecrets'' \<and> \<not> flag ''rawChatToMemory'' \<and>
      (flag ''readOnly'' \<or>
         (\<forall>s \<in> texts. \<not> secret s)) \<and>
      (external \<longrightarrow> target \<noteq> []) \<and>
      (type = lit ''solis-telemetry-read'' \<longrightarrow> flag ''readOnly'' \<and>
         (\<forall>k \<in> {''consent'', ''credentialStorage'', ''stationMapping''}. evidence k = JBool True))"
    and "approved \<equiv>
      truthy (opt_prop approval ''approved'') \<and> targetId pr (opt_prop approval ''target'') = target \<and>
      (\<not> truthy (opt_prop approval ''scope'') \<or>
       opt_prop approval ''scope'' \<in> {JStr identity, JStr type})"
  shows "(pd_decision d = Allowed \<longleftrightarrow> clean \<and> (external \<longrightarrow> approved)) \<and>
    (pd_decision d = Approval_Required \<longleftrightarrow> clean \<and> external \<and> \<not> approved) \<and>
    (pd_decision d = Blocked \<longleftrightarrow> \<not> clean) \<and>
    (pd_allowed d \<longleftrightarrow> pd_decision d = Allowed) \<and>
    (pd_requiresApproval d \<longleftrightarrow> external) \<and>
    (pd_externalWrites d \<longleftrightarrow> external \<and> pd_decision d = Allowed)"
proof -
  let ?a = "normalizePolicyAction pr input"
  have ext: "isExternalAction ?a \<longleftrightarrow> external"
    by (auto simp: isExternalAction_def EXTERNAL_ACTION_TYPES_def normalizePolicyAction_def external_def
        flag_def type_def)
  have tgt: "targetId pr (pa_target ?a) = target"
    by (simp add: normalizePolicyAction_def target_def)
  have appr: "truthy (approvalMatches pr ?a approval) \<longleftrightarrow> target \<noteq> [] \<and> approved"
    by (auto simp: truthy_approval_iff tgt approved_def) (auto simp: normalizePolicyAction_def identity_def type_def)
  have no_empty: "\<not> secret []"
    by (simp add: secret_def small_letters_def ends_with_def lit_def)
  have sec: "referencesSecretMaterial pr ?a \<longleftrightarrow> (\<exists>s \<in> texts. secret s)"
  proof -
    have "textFields pr ?a = filter (\<lambda>s. s \<noteq> []) [identity, type, text_of pr (js_or (get input ''description'') (JStr [])),
        (if truthy (get input ''command'') then text_of pr (get input ''command'') else []), target] @
        map (text_of pr) (filter truthy (toArray (get input ''paths'') @ toArray (get input ''connectors'')))"
      using tgt by (simp add: textFields_def normalizePolicyAction_def identity_def type_def)
    moreover have "(if truthy (get input ''command'') then text_of pr (get input ''command'') else []) =
        text_of pr (js_or (get input ''command'') (JStr []))"
      by (simp add: js_or_def)
    ultimately have "set (textFields pr ?a) \<union> {[]} = texts \<union> {[]}"
      by (auto simp: toArray_truthy texts_def)
    then have "(\<exists>s \<in> set (textFields pr ?a) \<union> {[]}. secret s) \<longleftrightarrow> (\<exists>s \<in> texts \<union> {[]}. secret s)" by simp
    moreover have "referencesSecretMaterial pr ?a \<longleftrightarrow> (\<exists>s \<in> set (textFields pr ?a). secret s)"
      by (simp only: referencesSecretMaterial_def secret_text_iff secret_def) (simp only: list_ex_iff)
    ultimately show ?thesis using no_empty by (simp only: bex_Un) blast
  qed
  have clean: "hard_blocks pr ?a = [] \<longleftrightarrow> clean"
    by (simp add: hard_blocks_def pushed_Nil_iff sec ext tgt)
      (simp add: normalizePolicyAction_def solisEvidenceComplete_def clean_def flag_def type_def evidence_def; blast)
  have need: "clean \<Longrightarrow> external \<Longrightarrow> target \<noteq> []" by (simp add: clean_def)
  show ?thesis
    unfolding d_def
    by (simp add: decision_cases requiresApproval_iff externalWrites_iff allowed_iff Let_def ext clean appr)
      (use need in blast)
qed


theorem policy_allows_iff_witness:
  "pd_decision (evaluatePolicy \<lparr>pr_num = \<lambda>_. [], pr_date = \<lambda>_. []\<rparr>
      [(lit ''type'', JStr (lit ''github-pr'')), (lit ''target'', JStr (lit ''repo'')),
       (lit ''readOnly'', JBool True)] JNull)
     = Approval_Required \<and>
   pd_decision (evaluatePolicy \<lparr>pr_num = \<lambda>_. [], pr_date = \<lambda>_. []\<rparr>
      [(lit ''printsSecrets'', JBool True)] (JObj [(lit ''approved'', JBool True)])) = Blocked"
proof
  let ?pr = "\<lparr>pr_num = \<lambda>_. [], pr_date = \<lambda>_. []\<rparr>"
  show "pd_decision (evaluatePolicy ?pr
      [(lit ''type'', JStr (lit ''github-pr'')), (lit ''target'', JStr (lit ''repo'')),
       (lit ''readOnly'', JBool True)] JNull)
     = Approval_Required"
  proof -
    have "trim (lit ''repo'') \<noteq> []" by (simp add: trim_eq_Nil_iff lit_def is_space_def)
    then show ?thesis
      by (simp add: decision_cases normalizePolicyAction_def hard_blocks_def pushed_def js_or_def
          isExternalAction_def EXTERNAL_ACTION_TYPES_def solisEvidenceComplete_def targetId_def
          truthy_approval_iff)
  qed
  have "flag \<longrightarrow> pd_decision d = Blocked" if "pd_decision d = Blocked \<longleftrightarrow> \<not> (\<not> r \<and> \<not> flag \<and> rest)" for flag r rest d
    using that by simp
  from this [OF policy_allows_iff [THEN conjunct2, THEN conjunct2, THEN conjunct1]]
  show "pd_decision (evaluatePolicy ?pr [(lit ''printsSecrets'', JBool True)]
      (JObj [(lit ''approved'', JBool True)])) = Blocked" by simp
qed

end
