(* ===== verification/Inbox.thy ===== *)
theory Inbox
  imports Policy
begin

text \<open>
  The inbox of the Hermes service (\<open>services/hermes-api/src/inbox.mjs\<close>): it turns a request
  body into an action, refuses unsigned sources, requests to execute and image edits without a
  caption, and answers with the decision of the policy core. Bodies are dynamic values.
\<close>

section \<open>Picking fields\<close>

definition INBOX_PHASE :: jstr where
  "INBOX_PHASE = lit ''2026-05-20.hermes-inbox-dry-run.v1''"

definition LOCAL_SOURCES :: "jstr list" where
  "LOCAL_SOURCES = [lit ''codex-local'', lit ''hermes-dashboard'']"

record inbox_context =
  ix_source :: jsval
  ix_signatureVerified :: jsval

definition isObject :: "jsval \<Rightarrow> bool" where
  "isObject v \<longleftrightarrow> (case v of JObj _ \<Rightarrow> True | JDate _ \<Rightarrow> True | _ \<Rightarrow> False)"

definition object_or_empty :: "jsval \<Rightarrow> jsobj" where
  "object_or_empty v = (case v of JObj fs \<Rightarrow> fs | _ \<Rightarrow> [])"

definition pickSource :: "printer \<Rightarrow> jsobj \<Rightarrow> inbox_context \<Rightarrow> jstr" where
  "pickSource pr body context =
     trim (text_of pr (first_truthy
       [ix_source context, get body ''source'', opt_prop (get body ''operator'') ''channel'']
       (JStr (lit ''unknown''))))"

definition pickTarget :: "jsobj \<Rightarrow> jsval" where
  "pickTarget body =
     (if truthy (opt_prop (get body ''action'') ''target'') then opt_prop (get body ''action'') ''target''
      else if truthy (opt_prop (get body ''target'') ''id'') then opt_prop (get body ''target'') ''id''
      else case get body ''target'' of JStr s \<Rightarrow> JStr s | _ \<Rightarrow> JStr [])"

definition is_array :: "jsval \<Rightarrow> bool" where
  "is_array v \<longleftrightarrow> (case v of JArr _ \<Rightarrow> True | _ \<Rightarrow> False)"

definition pickAttachments :: "jsobj \<Rightarrow> jsobj \<Rightarrow> jsval list" where
  "pickAttachments body actionInput =
     (case List.find is_array
        [get body ''attachments'', get body ''media'', opt_prop (get body ''message'') ''attachments'',
         get actionInput ''attachments''] of
        Some (JArr vs) \<Rightarrow> vs
      | _ \<Rightarrow> [])"

definition is_image :: "printer \<Rightarrow> jsval \<Rightarrow> bool" where
  "is_image pr attachment \<longleftrightarrow>
     isObject attachment \<and>
     (let type = to_lower (text_of pr (first_truthy
              [opt_prop attachment ''type'', opt_prop attachment ''kind''] (JStr [])));
          mime = to_lower (text_of pr (first_truthy
              [opt_prop attachment ''mimeType'', opt_prop attachment ''mime_type'',
               opt_prop attachment ''contentType''] (JStr [])))
      in type = lit ''image'' \<or> type = lit ''photo'' \<or> starts_with (lit ''image/'') mime)"

definition pickImageAttachment :: "printer \<Rightarrow> jsval list \<Rightarrow> jsval" where
  "pickImageAttachment pr attachments =
     (case List.find (is_image pr) attachments of None \<Rightarrow> JNull | Some a \<Rightarrow> a)"

definition pickImageRef :: "printer \<Rightarrow> jsobj \<Rightarrow> jsobj \<Rightarrow> jsval \<Rightarrow> jstr" where
  "pickImageRef pr body actionInput att =
     trim (text_of pr (first_truthy
       [get actionInput ''image_ref'', get actionInput ''imageRef'', get body ''image_ref'',
        get body ''imageRef'', opt_prop att ''image_ref'', opt_prop att ''imageRef'',
        opt_prop att ''path'', opt_prop att ''url'', opt_prop att ''id''] (JStr [])))"

definition pickImageEditInstruction :: "printer \<Rightarrow> jsobj \<Rightarrow> jsobj \<Rightarrow> jsobj \<Rightarrow> jsval \<Rightarrow> jstr" where
  "pickImageEditInstruction pr body actionInput intent att =
     trim (text_of pr (first_truthy
       [get actionInput ''prompt'', get actionInput ''instruction'', get actionInput ''caption'',
        get body ''caption'', get body ''instruction'', opt_prop (get body ''message'') ''caption'',
        opt_prop att ''caption'', get intent ''caption'', get intent ''instruction''] (JStr [])))"

text \<open>\<open>bool(value)\<close>: \<open>value === true\<close>.\<close>

definition is_true :: "jsval \<Rightarrow> bool" where
  "is_true v \<longleftrightarrow> v = JBool True"

section \<open>Normalising a request\<close>

definition imageEdit_of :: "jstr \<Rightarrow> jstr \<Rightarrow> jsval" where
  "imageEdit_of imageRef editInstruction =
     (let ready = (imageRef \<noteq> [] \<and> editInstruction \<noteq> []) in
      JObj [(lit ''image_edit'', JBool True), (lit ''imageEdit'', JBool True),
        (lit ''mode'', JStr (if ready then lit ''image-to-image'' else lit ''caption-bound-image-edit-required'')),
        (lit ''tool'', JStr (lit ''image_edit'')),
        (lit ''image_ref'', JStr imageRef), (lit ''imageRef'', JStr imageRef),
        (lit ''edit_instruction'', JStr editInstruction), (lit ''editInstruction'', JStr editInstruction),
        (lit ''caption_required'', JBool True), (lit ''captionRequired'', JBool True),
        (lit ''fallback_text_to_image_blocked'', JBool True),
        (lit ''fallbackTextToImageBlocked'', JBool True),
        (lit ''externalWrites'', JBool False), (lit ''canExecuteExternally'', JBool False),
        (lit ''canRunMcp'', JBool False), (lit ''canReadSecrets'', JBool False),
        (lit ''providerMustSupportEdit'', JBool True),
        (lit ''status'', JStr (if ready then lit ''ready'' else lit ''caption_required'')),
        (lit ''message'', JStr (if ready
           then lit ''Caption-bound image edit is ready for local dry-run only.''
           else lit ''True image-to-image editing requires the source image and instruction in the same image caption.''))])"

record inbox_error =
  ie_error :: jstr
  ie_message :: jstr

record inbox_request =
  in_requestId :: jstr
  in_source :: jstr
  in_dryRun :: bool
  in_action :: jsobj

text \<open>The fields of the action, of which the policy core reads all but the image edit.\<close>

definition inbox_action ::
  "printer \<Rightarrow> jsobj \<Rightarrow> jsobj \<Rightarrow> jsobj \<Rightarrow> jstr \<Rightarrow> jstr \<Rightarrow> jsval \<Rightarrow> jsval \<Rightarrow> jsobj" where
  "inbox_action pr body actionInput intent actionId actionType target imageEdit =
     [(lit ''id'', JStr actionId),
      (lit ''type'', JStr actionType),
      (lit ''description'', JStr (text_of pr (first_truthy
         [get intent ''summary'', get actionInput ''description''] (JStr [])))),
      (lit ''command'', JStr (if truthy (get actionInput ''command'')
         then text_of pr (get actionInput ''command'') else [])),
      (lit ''target'', target),
      (lit ''paths'', get actionInput ''paths''),
      (lit ''connectors'', get actionInput ''connectors''),
      (lit ''externalWrite'', JBool (is_true (get actionInput ''externalWrite''))),
      (lit ''productionWrite'', JBool (is_true (get actionInput ''productionWrite''))),
      (lit ''customerVisible'', JBool (is_true (get actionInput ''customerVisible''))),
      (lit ''paidApi'', JBool (is_true (get actionInput ''paidApi''))),
      (lit ''destructive'', JBool (is_true (get actionInput ''destructive''))),
      (lit ''readsSecretValues'', JBool (is_true (get actionInput ''readsSecretValues''))),
      (lit ''printsSecrets'', JBool (is_true (get actionInput ''printsSecrets''))),
      (lit ''rawChatToMemory'', JBool (is_true (get actionInput ''rawChatToMemory'')
         \<or> is_true (get intent ''rawTextIncluded'') \<or> is_true (get body ''rawTextIncluded''))),
      (lit ''readOnly'', JBool (is_true (get actionInput ''readOnly''))),
      (lit ''evidence'', first_truthy [get body ''evidence'', get actionInput ''evidence''] (JObj [])),
      (lit ''imageEdit'', imageEdit)]"

definition normalizeHermesInboxRequest ::
  "printer \<Rightarrow> jsval \<Rightarrow> inbox_context \<Rightarrow> inbox_error + inbox_request" where
  "normalizeHermesInboxRequest pr body_val context =
     (if \<not> isObject body_val
      then Inl \<lparr>ie_error = lit ''invalid_request_body'',
                ie_message = lit ''Hermes inbox body must be a JSON object.''\<rparr>
      else
        let body = object_or_empty body_val;
            source = pickSource pr body context;
            actionInput = object_or_empty (get body ''action'');
            intent = object_or_empty (get body ''intent'');
            imageAttachment = pickImageAttachment pr (pickAttachments body actionInput);
            imageRef = pickImageRef pr body actionInput imageAttachment;
            editInstruction = pickImageEditInstruction pr body actionInput intent imageAttachment;
            actionType = text_of pr (first_truthy [get actionInput ''type'', get intent ''type'']
                           (JStr (lit ''local-review'')));
            wantsImageEdit = (actionType = lit ''image-edit'' \<or>
                              get intent ''type'' = JStr (lit ''image-edit'') \<or>
                              (imageRef \<noteq> [] \<and> editInstruction \<noteq> []));
            target = js_or (pickTarget body)
                       (JStr (if wantsImageEdit then lit ''hermes:image-edit'' else []));
            actionId = text_of pr (first_truthy [get actionInput ''id'', get body ''requestId'']
                         (JStr actionType));
            dryRun = (get body ''dryRun'' \<noteq> JBool False);
            imageEdit = (if wantsImageEdit then imageEdit_of imageRef editInstruction else JNull)
        in if actionId = [] \<or> actionId = lit ''undefined''
           then Inl \<lparr>ie_error = lit ''missing_action_id'',
                     ie_message = lit ''Hermes inbox request requires action.id or requestId.''\<rparr>
           else if \<not> truthy target
           then Inl \<lparr>ie_error = lit ''missing_target'',
                     ie_message = lit ''Hermes inbox request requires target.id or action.target.''\<rparr>
           else Inr \<lparr>in_requestId = text_of pr (js_or (get body ''requestId'') (JStr actionId)),
                     in_source = source, in_dryRun = dryRun,
                     in_action = inbox_action pr body actionInput intent actionId actionType target imageEdit\<rparr>)"

section \<open>Answers\<close>

record inbox_response =
  ir_status :: nat
  ir_body :: jsobj

definition no_effects :: "jsobj" where
  "no_effects =
     [(lit ''externalWrites'', JBool False), (lit ''productionWrites'', JBool False),
      (lit ''customerVisible'', JBool False)]"

definition invalid_request :: "inbox_error \<Rightarrow> inbox_response" where
  "invalid_request e =
     \<lparr>ir_status = 400,
      ir_body = [(lit ''status'', JStr (lit ''invalid_request'')), (lit ''phase'', JStr INBOX_PHASE),
        (lit ''error'', JStr (ie_error e)), (lit ''message'', JStr (ie_message e))] @ no_effects @
        [(lit ''requiresHumanApproval'', JBool True)]\<rparr>"

definition or_unknown :: "jstr \<Rightarrow> jstr" where
  "or_unknown s = (if s = [] then lit ''unknown'' else s)"

definition authFailure :: "inbox_request \<Rightarrow> inbox_response" where
  "authFailure n =
     \<lparr>ir_status = 401,
      ir_body = [(lit ''status'', JStr (lit ''auth_required'')), (lit ''phase'', JStr INBOX_PHASE),
        (lit ''requestId'', JStr (or_unknown (in_requestId n))),
        (lit ''source'', JStr (or_unknown (in_source n))),
        (lit ''result'', JStr (lit ''blocked_external_source_without_verified_signature''))] @ no_effects @
        [(lit ''requiresHumanApproval'', JBool True)]\<rparr>"

definition phaseExecutionFailure :: "inbox_request \<Rightarrow> inbox_response" where
  "phaseExecutionFailure n =
     \<lparr>ir_status = 403,
      ir_body = [(lit ''status'', JStr (lit ''execution_disabled'')), (lit ''phase'', JStr INBOX_PHASE),
        (lit ''requestId'', JStr (in_requestId n)), (lit ''source'', JStr (in_source n)),
        (lit ''result'', JStr (lit ''phase_1_dry_run_only''))] @ no_effects @
        [(lit ''requiresHumanApproval'', JBool True)]\<rparr>"

definition captionRequired :: "inbox_request \<Rightarrow> inbox_response" where
  "captionRequired n =
     \<lparr>ir_status = 400,
      ir_body = [(lit ''status'', JStr (lit ''image_edit_caption_required'')),
        (lit ''phase'', JStr INBOX_PHASE), (lit ''requestId'', JStr (in_requestId n)),
        (lit ''source'', JStr (in_source n)), (lit ''dryRun'', JBool True),
        (lit ''result'', JStr (lit ''blocked_caption_required'')), (lit ''image_edit'', JBool True),
        (lit ''imageEdit'', get (in_action n) ''imageEdit'')] @ no_effects @
        [(lit ''canExecuteExternally'', JBool False), (lit ''canRunMcp'', JBool False),
         (lit ''canReadSecrets'', JBool False), (lit ''requiresHumanApproval'', JBool True),
         (lit ''message'', opt_prop (get (in_action n) ''imageEdit'') ''message'')]\<rparr>"

fun statusForDecision :: "verdict \<Rightarrow> nat" where
  "statusForDecision Blocked = 403"
| "statusForDecision Approval_Required = 202"
| "statusForDecision Allowed = 200"

definition auditEventFor :: "printer \<Rightarrow> inbox_request \<Rightarrow> policy_decision \<Rightarrow> nat \<Rightarrow> jsobj" where
  "auditEventFor pr n d status =
     [(lit ''source'', JStr (lit ''hermes-inbox-dry-run'')),
      (lit ''action'', get (in_action n) ''id''),
      (lit ''target'', get (in_action n) ''target''),
      (lit ''risk_level'', JStr (if 400 \<le> status then lit ''high''
         else if pd_requiresApproval d then lit ''medium'' else lit ''low'')),
      (lit ''approval_status'', JStr (if pd_requiresApproval d then lit ''required'' else lit ''not-required'')),
      (lit ''kill_switch_status'', JStr (if pd_decision d = Blocked then lit ''blocked'' else lit ''clear'')),
      (lit ''external_writes'', JBool False),
      (lit ''result'', JStr (verdict_text (pd_decision d))),
      (lit ''evidence'', JArr [JStr (lit ''phase='' @ INBOX_PHASE), JStr (lit ''source='' @ in_source n),
         JStr (lit ''policy='' @ pd_policyVersion d), JStr (lit ''externalWrites=false'')])]"

definition inbox_decision :: "printer \<Rightarrow> jsobj \<Rightarrow> inbox_request \<Rightarrow> policy_decision" where
  "inbox_decision pr body n =
     evaluatePolicy pr (in_action n)
       (first_truthy [opt_prop (get body ''evidence'') ''approval'', get body ''approval''] JNull)"

definition decisionAnswer :: "printer \<Rightarrow> inbox_request \<Rightarrow> policy_decision \<Rightarrow> inbox_response" where
  "decisionAnswer pr n d =
     (let status = statusForDecision (pd_decision d) in
      \<lparr>ir_status = status,
       ir_body = [(lit ''status'', JStr (verdict_text (pd_decision d))), (lit ''phase'', JStr INBOX_PHASE),
         (lit ''requestId'', JStr (in_requestId n)), (lit ''source'', JStr (in_source n)),
         (lit ''dryRun'', JBool True), (lit ''result'', JStr (verdict_text (pd_decision d)))] @ no_effects @
         [(lit ''image_edit'', JBool (truthy (get (in_action n) ''imageEdit''))),
          (lit ''imageEdit'', get (in_action n) ''imageEdit''),
          (lit ''requiresHumanApproval'', JBool (pd_requiresApproval d \<or> pd_decision d \<noteq> Allowed)),
          (lit ''normalizedAction'', JObj (in_action n)),
          (lit ''policy'', JObj (summarizePolicyDecision d)),
          (lit ''auditEvent'', JObj (auditEventFor pr n d status))]\<rparr>)"

definition evaluateHermesInboxDryRun :: "printer \<Rightarrow> jsval \<Rightarrow> inbox_context \<Rightarrow> inbox_response" where
  "evaluateHermesInboxDryRun pr body context =
     (case normalizeHermesInboxRequest pr body context of
        Inl e \<Rightarrow> invalid_request e
      | Inr n \<Rightarrow>
          if in_source n \<notin> set LOCAL_SOURCES \<and> \<not> truthy (ix_signatureVerified context)
          then authFailure n
          else if \<not> in_dryRun n then phaseExecutionFailure n
          else if opt_prop (get (in_action n) ''imageEdit'') ''status'' = JStr (lit ''caption_required'')
          then captionRequired n
          else decisionAnswer pr n (inbox_decision pr (object_or_empty body) n))"

section \<open>What the inbox promises\<close>

lemma truthy_first_truthy: "truthy v \<Longrightarrow> first_truthy (v # vs) d = v"
  by simp

lemma normalize_source:
  "normalizeHermesInboxRequest pr body context = Inr n \<Longrightarrow>
     in_source n = pickSource pr (object_or_empty body) context"
  by (auto simp: normalizeHermesInboxRequest_def Let_def split: if_splits)

lemma no_effects_get [simp]:
  "get (no_effects @ o1) ''externalWrites'' = JBool False"
  "get (no_effects @ o1) ''productionWrites'' = JBool False"
  "get (no_effects @ o1) ''customerVisible'' = JBool False"
  by (simp_all add: no_effects_def)

lemma no_effects_other [simp]:
  "k \<notin> {''externalWrites'', ''productionWrites'', ''customerVisible''} \<Longrightarrow>
     get (no_effects @ o1) k = get o1 k"
  by (simp add: no_effects_def)

lemma refusals_get:
  "get (ir_body (invalid_request e)) ''requiresHumanApproval'' = JBool True"
  "get (ir_body (authFailure n)) ''requiresHumanApproval'' = JBool True"
  "get (ir_body (phaseExecutionFailure n)) ''requiresHumanApproval'' = JBool True"
  "get (ir_body (captionRequired n)) ''requiresHumanApproval'' = JBool True"
  "get (ir_body (decisionAnswer pr n d)) ''requiresHumanApproval'' =
     JBool (pd_requiresApproval d \<or> pd_decision d \<noteq> Allowed)"
  by (simp_all add: invalid_request_def authFailure_def phaseExecutionFailure_def captionRequired_def
      decisionAnswer_def Let_def)

lemma bodies_write_nothing:
  "\<forall>k \<in> {''externalWrites'', ''productionWrites'', ''customerVisible''}.
     get (ir_body (invalid_request e)) k = JBool False"
  "\<forall>k \<in> {''externalWrites'', ''productionWrites'', ''customerVisible''}.
     get (ir_body (authFailure n)) k = JBool False"
  "\<forall>k \<in> {''externalWrites'', ''productionWrites'', ''customerVisible''}.
     get (ir_body (phaseExecutionFailure n)) k = JBool False"
  "\<forall>k \<in> {''externalWrites'', ''productionWrites'', ''customerVisible''}.
     get (ir_body (captionRequired n)) k = JBool False"
  "\<forall>k \<in> {''externalWrites'', ''productionWrites'', ''customerVisible''}.
     get (ir_body (decisionAnswer pr n d)) k = JBool False"
  by (simp_all add: invalid_request_def authFailure_def phaseExecutionFailure_def captionRequired_def
      decisionAnswer_def Let_def)

lemma answer_cases:
  obtains (invalid) e where "evaluateHermesInboxDryRun pr body context = invalid_request e"
  | (auth) n where "evaluateHermesInboxDryRun pr body context = authFailure n"
  | (phase) n where "evaluateHermesInboxDryRun pr body context = phaseExecutionFailure n"
  | (caption) n where "evaluateHermesInboxDryRun pr body context = captionRequired n"
  | (decided) n where "normalizeHermesInboxRequest pr body context = Inr n"
      and "evaluateHermesInboxDryRun pr body context =
         decisionAnswer pr n (inbox_decision pr (object_or_empty body) n)"
proof (cases "normalizeHermesInboxRequest pr body context")
  case (Inl e)
  then show ?thesis by (intro invalid) (simp add: evaluateHermesInboxDryRun_def)
next
  case (Inr n)
  then have "evaluateHermesInboxDryRun pr body context \<in>
      {authFailure n, phaseExecutionFailure n, captionRequired n,
       decisionAnswer pr n (inbox_decision pr (object_or_empty body) n)}"
    by (simp add: evaluateHermesInboxDryRun_def)
  with Inr auth phase caption decided show ?thesis by blast
qed

lemma answers_write_nothing:
  "\<forall>k \<in> {''externalWrites'', ''productionWrites'', ''customerVisible''}.
     get (ir_body (evaluateHermesInboxDryRun pr body context)) k = JBool False"
  by (cases rule: answer_cases [of pr body "context"]) (metis bodies_write_nothing)+

lemma unapproved_decision:
  "\<not> pd_requiresApproval (evaluatePolicy pr input approval) \<Longrightarrow>
   pd_decision (evaluatePolicy pr input approval) = Allowed \<Longrightarrow>
     hard_blocks pr (normalizePolicyAction pr input) = [] \<and>
     \<not> isExternalAction (normalizePolicyAction pr input)"
  by (auto simp: evaluatePolicy_def Let_def approval_reasons_Nil_iff split: if_splits)

text \<open>A body with a plain action: no intent, no attachment, no image.\<close>

lemma normalize_plain:
  assumes "object_or_empty (get body ''action'') = ai" and "object_or_empty (get body ''intent'') = []"
    and "pickAttachments body ai = []" and "pickImageRef pr body ai JNull = []"
    and "text_of pr (first_truthy [get ai ''type'', JUndef] (JStr (lit ''local-review''))) = ty"
    and "ty \<noteq> lit ''image-edit''"
    and "text_of pr (first_truthy [get ai ''id'', get body ''requestId''] (JStr ty)) = i"
    and "i \<noteq> []" and "i \<noteq> lit ''undefined''" and "pickTarget body = JStr t" and "t \<noteq> []"
  shows "normalizeHermesInboxRequest pr (JObj body) context =
    Inr \<lparr>in_requestId = text_of pr (js_or (get body ''requestId'') (JStr i)),
         in_source = pickSource pr body context, in_dryRun = (get body ''dryRun'' \<noteq> JBool False),
         in_action = inbox_action pr body ai [] i ty (JStr t) JNull\<rparr>"
proof -
  have "pickImageAttachment pr [] = JNull" by (simp add: pickImageAttachment_def)
  moreover have "isObject (JObj body)" "object_or_empty (JObj body) = body"
    by (simp_all add: isObject_def object_or_empty_def)
  ultimately show ?thesis
    using assms
    by (simp add: normalizeHermesInboxRequest_def Let_def js_or_def del: first_truthy.simps)
qed

lemma inbox_action_get [simp]:
  "get (inbox_action pr body ai intent i ty t im) ''id'' = JStr i"
  "get (inbox_action pr body ai intent i ty t im) ''target'' = t"
  "get (inbox_action pr body ai intent i ty t im) ''imageEdit'' = im"
  by (simp_all add: inbox_action_def)

text \<open>The policy core reads back what the inbox wrote.\<close>

lemma normalized_inbox_action:
  assumes "i \<noteq> []" and "ty \<noteq> []" and "truthy t"
  shows "normalizePolicyAction pr (inbox_action pr body ai intent i ty t im) =
    \<lparr>pa_id = i, pa_type = ty,
     pa_description = text_of pr (first_truthy [get intent ''summary'', get ai ''description''] (JStr [])),
     pa_command = (if truthy (get ai ''command'') then text_of pr (get ai ''command'') else []),
     pa_target = t, pa_paths = toArray (get ai ''paths''), pa_connectors = toArray (get ai ''connectors''),
     pa_externalWrite = is_true (get ai ''externalWrite''),
     pa_productionWrite = is_true (get ai ''productionWrite''),
     pa_customerVisible = is_true (get ai ''customerVisible''),
     pa_paidApi = is_true (get ai ''paidApi''), pa_destructive = is_true (get ai ''destructive''),
     pa_readsSecretValues = is_true (get ai ''readsSecretValues''),
     pa_printsSecrets = is_true (get ai ''printsSecrets''),
     pa_rawChatToMemory = (is_true (get ai ''rawChatToMemory'')
        \<or> is_true (get intent ''rawTextIncluded'') \<or> is_true (get body ''rawTextIncluded'')),
     pa_readOnly = is_true (get ai ''readOnly''),
     pa_evidence = js_or (first_truthy [get body ''evidence'', get ai ''evidence''] (JObj [])) (JObj [])\<rparr>"
  using assms
  by (simp add: normalizePolicyAction_def inbox_action_def js_or_def truthy_first_truthy
      del: first_truthy.simps)

lemma is_true_simps [simp]: "is_true JUndef = False" "is_true (JBool b) = b"
  by (simp_all add: is_true_def)

lemmas policy_simps = hard_blocks_def pushed_def isExternalAction_def EXTERNAL_ACTION_TYPES_def
  solisEvidenceComplete_def

lemma trim_local: "trim (lit ''codex-local'') = lit ''codex-local''"
  by (simp add: trim_def trim_start_def trim_end_def lit_def is_space_def)

text \<open>
  C19. Whatever the body and the source, an answer of the inbox announces no write and nothing
  visible to customers, its status is one of five, and the only answers that do not ask for a
  human are those with status 200 for an action without hard block that reaches nothing
  outside.
\<close>

theorem inbox_asks_human:
  "(\<forall>k \<in> {''externalWrites'', ''productionWrites'', ''customerVisible''}.
      get (ir_body (evaluateHermesInboxDryRun pr body context)) k = JBool False) \<and>
   ir_status (evaluateHermesInboxDryRun pr body context) \<in> {200, 202, 400, 401, 403} \<and>
   (get (ir_body (evaluateHermesInboxDryRun pr body context)) ''requiresHumanApproval'' \<noteq> JBool True \<longrightarrow>
      ir_status (evaluateHermesInboxDryRun pr body context) = 200 \<and>
      (\<exists>n. normalizeHermesInboxRequest pr body context = Inr n \<and>
           hard_blocks pr (normalizePolicyAction pr (in_action n)) = [] \<and>
           \<not> isExternalAction (normalizePolicyAction pr (in_action n))))"
proof (intro conjI)
  show "\<forall>k \<in> {''externalWrites'', ''productionWrites'', ''customerVisible''}.
      get (ir_body (evaluateHermesInboxDryRun pr body context)) k = JBool False"
    by (rule answers_write_nothing)
  have "statusForDecision d \<in> {200, 202, 400, 401, 403}" for d by (cases d) simp_all
  then show "ir_status (evaluateHermesInboxDryRun pr body context) \<in> {200, 202, 400, 401, 403}"
    by (cases rule: answer_cases [of pr body "context"])
       (auto simp: invalid_request_def authFailure_def phaseExecutionFailure_def captionRequired_def
          decisionAnswer_def Let_def)
  show "get (ir_body (evaluateHermesInboxDryRun pr body context)) ''requiresHumanApproval'' \<noteq> JBool True \<longrightarrow>
      ir_status (evaluateHermesInboxDryRun pr body context) = 200 \<and>
      (\<exists>n. normalizeHermesInboxRequest pr body context = Inr n \<and>
           hard_blocks pr (normalizePolicyAction pr (in_action n)) = [] \<and>
           \<not> isExternalAction (normalizePolicyAction pr (in_action n)))"
  proof (cases rule: answer_cases [of pr body "context"])
    case (decided n)
    then show ?thesis
      using unapproved_decision [of pr "in_action n"]
      by (auto simp: refusals_get inbox_decision_def decisionAnswer_def Let_def)
  qed (simp_all add: refusals_get)
qed

theorem inbox_asks_human_witness:
  "\<exists>n. normalizeHermesInboxRequest \<lparr>pr_num = \<lambda>_. [], pr_date = \<lambda>_. []\<rparr>
     (JObj [(lit ''source'', JStr (lit ''codex-local'')), (lit ''target'', JStr (lit ''docs'')),
       (lit ''action'', JObj [(lit ''id'', JStr (lit ''read'')), (lit ''readOnly'', JBool True)])])
     \<lparr>ix_source = JUndef, ix_signatureVerified = JBool False\<rparr> = Inr n \<and>
     \<not> isExternalAction (normalizePolicyAction \<lparr>pr_num = \<lambda>_. [], pr_date = \<lambda>_. []\<rparr> (in_action n))"
proof -
  let ?pr = "\<lparr>pr_num = \<lambda>_. [], pr_date = \<lambda>_. []\<rparr>"
  let ?c = "\<lparr>ix_source = JUndef, ix_signatureVerified = JBool False\<rparr>"
  let ?body = "[(lit ''source'', JStr (lit ''codex-local'')), (lit ''target'', JStr (lit ''docs'')),
       (lit ''action'', JObj [(lit ''id'', JStr (lit ''read'')), (lit ''readOnly'', JBool True)])]"
  have n: "normalizeHermesInboxRequest ?pr (JObj ?body) ?c = Inr \<lparr>in_requestId = lit ''read'',
      in_source = pickSource ?pr ?body ?c, in_dryRun = True,
      in_action = inbox_action ?pr ?body [(lit ''id'', JStr (lit ''read'')), (lit ''readOnly'', JBool True)]
        [] (lit ''read'') (lit ''local-review'') (JStr (lit ''docs'')) JNull\<rparr>"
    by (subst normalize_plain [where ty = "lit ''local-review''" and i = "lit ''read''" and t = "lit ''docs''"])
       (simp_all add: object_or_empty_def pickAttachments_def is_array_def pickImageRef_def
          pickTarget_def js_or_def trim_eq_Nil_iff)
  have "get (ir_body (evaluateHermesInboxDryRun ?pr (JObj ?body) ?c)) ''requiresHumanApproval'' \<noteq> JBool True"
    by (simp add: evaluateHermesInboxDryRun_def n refusals_get inbox_decision_def requiresApproval_iff
        decision_cases normalized_inbox_action policy_simps pickSource_def trim_local LOCAL_SOURCES_def)
  then show ?thesis using inbox_asks_human [of ?pr "JObj ?body" ?c] by blast
qed

text \<open>
  A source given in the header cannot be replaced by the body: when it is no local source and
  no signature was verified, every body is answered with 400 or 401 and the policy is not
  asked.
\<close>

theorem foreign_source_refused:
  assumes "ix_source context = JStr s" and "s \<noteq> []" and "trim s \<notin> set LOCAL_SOURCES"
    and "\<not> truthy (ix_signatureVerified context)"
  shows "case normalizeHermesInboxRequest pr body context of
      Inl e \<Rightarrow> evaluateHermesInboxDryRun pr body context = invalid_request e
    | Inr n \<Rightarrow> evaluateHermesInboxDryRun pr body context = authFailure n \<and> in_source n = trim s"
proof (cases "normalizeHermesInboxRequest pr body context")
  case (Inl e)
  then show ?thesis by (simp add: evaluateHermesInboxDryRun_def)
next
  case (Inr n)
  have "in_source n = trim s"
    using normalize_source [OF Inr] assms(1,2) by (simp add: pickSource_def)
  with Inr assms show ?thesis by (simp add: evaluateHermesInboxDryRun_def)
qed

text \<open>A request that names its own source and carries its own approval.\<close>

definition self_approved_body :: "jstr \<Rightarrow> jsobj" where
  "self_approved_body t =
     [(lit ''source'', JStr (lit ''codex-local'')),
      (lit ''action'', JObj [(lit ''id'', JStr (lit ''send'')), (lit ''type'', JStr (lit ''telegram-send'')),
         (lit ''target'', JStr t), (lit ''readOnly'', JBool True)]),
      (lit ''approval'', JObj [(lit ''approved'', JBool True), (lit ''target'', JStr t)])]"

text \<open>
  C35. Without the header the body names its own source, and the approval is read from the same
  body. A request that calls itself \<open>codex-local\<close> and carries an approval for its own target
  has an external action allowed, with no signature and no approval from anywhere else.
\<close>

theorem self_approval_accepted:
  assumes "trim t \<noteq> []" and "ix_source context = JUndef"
  shows "ir_status (evaluateHermesInboxDryRun pr (JObj (self_approved_body t)) context) = 200 \<and>
    opt_prop (get (ir_body (evaluateHermesInboxDryRun pr (JObj (self_approved_body t)) context)) ''policy'')
      ''externalWrites'' = JBool True"
proof -
  let ?n = "\<lparr>in_requestId = lit ''send'', in_source = lit ''codex-local'', in_dryRun = True,
      in_action = inbox_action pr (self_approved_body t)
        [(lit ''id'', JStr (lit ''send'')), (lit ''type'', JStr (lit ''telegram-send'')),
         (lit ''target'', JStr t), (lit ''readOnly'', JBool True)]
        [] (lit ''send'') (lit ''telegram-send'') (JStr t) JNull\<rparr>"
  from assms have t: "t \<noteq> []" by (auto simp: trim_eq_Nil_iff)
  have "normalizeHermesInboxRequest pr (JObj (self_approved_body t)) context = Inr ?n"
    using assms t
    by (subst normalize_plain [where ty = "lit ''telegram-send''" and i = "lit ''send''" and t = t])
       (simp_all add: self_approved_body_def object_or_empty_def pickAttachments_def is_array_def
          pickImageRef_def pickTarget_def pickSource_def js_or_def trim_eq_Nil_iff trim_local)
  then have answer: "evaluateHermesInboxDryRun pr (JObj (self_approved_body t)) context =
      decisionAnswer pr ?n (inbox_decision pr (self_approved_body t) ?n)"
    by (simp add: evaluateHermesInboxDryRun_def LOCAL_SOURCES_def object_or_empty_def)
  let ?act = "in_action ?n"
  have a: "isExternalAction (normalizePolicyAction pr ?act)" and
    h: "hard_blocks pr (normalizePolicyAction pr ?act) = []"
    using assms t
    by (simp_all add: normalized_inbox_action policy_simps targetId_def self_approved_body_def)
  have "truthy (approvalMatches pr (normalizePolicyAction pr ?act)
      (JObj [(lit ''approved'', JBool True), (lit ''target'', JStr t)]))"
    using assms t by (simp add: normalized_inbox_action truthy_approval_iff targetId_def)
  with a h have d: "pd_decision (inbox_decision pr (self_approved_body t) ?n) = Allowed"
    by (simp add: inbox_decision_def decision_cases self_approved_body_def)
  with a have "pd_externalWrites (inbox_decision pr (self_approved_body t) ?n)"
    by (simp add: inbox_decision_def externalWrites_iff)
  with d answer show ?thesis
    by (simp add: decisionAnswer_def Let_def summarizePolicyDecision_def getp_lit)
qed

theorem self_approval_accepted_witness:
  "ir_status (evaluateHermesInboxDryRun \<lparr>pr_num = \<lambda>_. [], pr_date = \<lambda>_. []\<rparr>
     (JObj (self_approved_body (lit ''@customers'')))
     \<lparr>ix_source = JUndef, ix_signatureVerified = JBool False\<rparr>) = 200"
  using self_approval_accepted [of "lit ''@customers''" "\<lparr>ix_source = JUndef, ix_signatureVerified = JBool False\<rparr>"
      "\<lparr>pr_num = \<lambda>_. [], pr_date = \<lambda>_. []\<rparr>"]
  by (simp add: trim_eq_Nil_iff lit_def is_space_def)

theorem foreign_source_refused_witness:
  "case normalizeHermesInboxRequest \<lparr>pr_num = \<lambda>_. [], pr_date = \<lambda>_. []\<rparr> JNull
      \<lparr>ix_source = JStr (lit ''line''), ix_signatureVerified = JBool False\<rparr> of
    Inl e \<Rightarrow> evaluateHermesInboxDryRun \<lparr>pr_num = \<lambda>_. [], pr_date = \<lambda>_. []\<rparr> JNull
      \<lparr>ix_source = JStr (lit ''line''), ix_signatureVerified = JBool False\<rparr> = invalid_request e
  | Inr n \<Rightarrow> evaluateHermesInboxDryRun \<lparr>pr_num = \<lambda>_. [], pr_date = \<lambda>_. []\<rparr> JNull
      \<lparr>ix_source = JStr (lit ''line''), ix_signatureVerified = JBool False\<rparr> = authFailure n \<and>
      in_source n = trim (lit ''line'')"
  by (rule foreign_source_refused)
     (simp_all add: LOCAL_SOURCES_def trim_def trim_start_def trim_end_def lit_def is_space_def)

end
