(* ===== verification/JsConvert.thy ===== *)
theory JsConvert
  imports Policy
begin

text \<open>
  The conversions of the JavaScript library the control services use on text from outside:
  \<open>Number(v)\<close> on strings and other values, and reading a character range of a text as a
  number. A numeral denotes its exact rational value.
\<close>

section \<open>\<open>Number(s)\<close> on a string\<close>

definition radix_digit :: "nat \<Rightarrow> nat \<Rightarrow> nat option" where
  "radix_digit radix c =
     (let d = (if 0x30 \<le> c \<and> c \<le> 0x39 then Some (c - 0x30)
               else if 0x41 \<le> c \<and> c \<le> 0x46 then Some (c - 0x37)
               else if 0x61 \<le> c \<and> c \<le> 0x66 then Some (c - 0x57)
               else None)
      in case d of None \<Rightarrow> None | Some k \<Rightarrow> if k < radix then Some k else None)"

fun radix_value :: "nat \<Rightarrow> nat \<Rightarrow> jstr \<Rightarrow> nat option" where
  "radix_value radix acc [] = Some acc"
| "radix_value radix acc (c # cs) =
     (case radix_digit radix c of None \<Rightarrow> None | Some d \<Rightarrow> radix_value radix (radix * acc + d) cs)"

definition radix_literal :: "nat \<Rightarrow> jstr \<Rightarrow> jsnum" where
  "radix_literal radix s =
     (if s = [] then NaN
      else case radix_value radix 0 s of None \<Rightarrow> NaN | Some n \<Rightarrow> Fin (of_nat n))"

definition scale10 :: "nat \<Rightarrow> int \<Rightarrow> rat" where
  "scale10 n e = (if 0 \<le> e then of_nat n * 10 ^ nat e else of_nat n / 10 ^ nat (- e))"

definition exponent_value :: "jstr \<Rightarrow> int option" where
  "exponent_value s =
     (case s of
        [] \<Rightarrow> Some 0
      | c # r \<Rightarrow>
          if c = 0x65 \<or> c = 0x45 then
            let neg = (r \<noteq> [] \<and> hd r = 0x2D);
                ds = (if r \<noteq> [] \<and> (hd r = 0x2D \<or> hd r = 0x2B) then tl r else r)
            in if ds = [] \<or> \<not> list_all is_digit ds then None
               else Some (if neg then - int (decimal_value 0 ds) else int (decimal_value 0 ds))
          else None)"

definition unsigned_decimal :: "jstr \<Rightarrow> jsnum" where
  "unsigned_decimal u =
     (if u = lit ''Infinity'' then PInf
      else
        let i = takeWhile is_digit u;
            r = dropWhile is_digit u;
            dotted = (r \<noteq> [] \<and> hd r = 0x2E);
            f = (if dotted then takeWhile is_digit (tl r) else []);
            rest = (if dotted then dropWhile is_digit (tl r) else r)
        in if i = [] \<and> f = [] then NaN
           else case exponent_value rest of
             None \<Rightarrow> NaN
           | Some e \<Rightarrow> Fin (scale10 (decimal_value 0 (i @ f)) (e - int (length f))))"

definition string_number :: "jstr \<Rightarrow> jsnum" where
  "string_number s =
     (let t = trim s;
          prefixed = (\<lambda>a b. starts_with (lit a) t \<or> starts_with (lit b) t)
      in if t = [] then Fin 0
         else if prefixed ''0x'' ''0X'' then radix_literal 16 (drop 2 t)
         else if prefixed ''0o'' ''0O'' then radix_literal 8 (drop 2 t)
         else if prefixed ''0b'' ''0B'' then radix_literal 2 (drop 2 t)
         else if hd t = 0x2D then - unsigned_decimal (tl t)
         else if hd t = 0x2B then unsigned_decimal (tl t)
         else unsigned_decimal t)"

text \<open>\<open>Number(v)\<close> on any value; an array or object goes through its text.\<close>

definition to_number :: "printer \<Rightarrow> jsval \<Rightarrow> jsnum" where
  "to_number pr v =
     (case v of
        JUndef \<Rightarrow> NaN
      | JNull \<Rightarrow> Fin 0
      | JBool b \<Rightarrow> Fin (if b then 1 else 0)
      | JNum x \<Rightarrow> x
      | JStr s \<Rightarrow> string_number s
      | JDate t \<Rightarrow> Fin (of_int t)
      | _ \<Rightarrow> string_number (text_of pr v))"

text \<open>\<open>Number.isInteger\<close> and \<open>Number.isSafeInteger\<close>.\<close>

definition is_integer :: "jsnum \<Rightarrow> bool" where
  "is_integer x \<longleftrightarrow> (case x of Fin a \<Rightarrow> snd (quotient_of a) = 1 | _ \<Rightarrow> False)"

definition MAX_SAFE_INTEGER :: int where
  "MAX_SAFE_INTEGER = 9007199254740991"

definition is_safe_integer :: "jsnum \<Rightarrow> bool" where
  "is_safe_integer x \<longleftrightarrow>
     (case x of Fin a \<Rightarrow> snd (quotient_of a) = 1 \<and> \<bar>a\<bar> \<le> of_int MAX_SAFE_INTEGER | _ \<Rightarrow> False)"

text \<open>
  \<open>String(v)\<close> raises on an object with a member \<open>toString\<close>: a parsed document holds no
  function, and what \<open>valueOf\<close> returns is the object again. An array is joined element by
  element.
\<close>

fun convertible :: "jsval \<Rightarrow> bool" where
  "convertible (JObj fs) = (lit ''toString'' \<notin> set (dict_keys fs))"
| "convertible (JArr vs) = list_all convertible vs"
| "convertible _ = True"

definition string_result :: "printer \<Rightarrow> jsval \<Rightarrow> jstr result" where
  "string_result pr v =
     (if convertible v then Inr (text_of pr v)
      else Inl (JsTypeError (lit ''Cannot convert object to primitive value'')))"

section \<open>Objects\<close>

text \<open>Documents built from literals.\<close>

definition JInt :: "int \<Rightarrow> jsval" where
  "JInt n = JNum (Fin (of_int n))"

definition JText :: "string \<Rightarrow> jsval" where
  "JText s = JStr (lit s)"

definition JTexts :: "string list \<Rightarrow> jsval" where
  "JTexts ss = JArr (map JText ss)"

text \<open>\<open>Object.keys\<close>: array indices in ascending order, then the other keys as they were added.\<close>

definition array_index :: "jstr \<Rightarrow> bool" where
  "array_index k \<longleftrightarrow>
     k \<noteq> [] \<and> list_all is_digit k \<and> (k = lit ''0'' \<or> hd k \<noteq> 0x30) \<and>
     decimal_value 0 k < 4294967295"

definition object_keys :: "jsobj \<Rightarrow> jstr list" where
  "object_keys fs =
     sort_key (decimal_value 0) (filter array_index (dict_keys fs)) @
     filter (\<lambda>k. \<not> array_index k) (dict_keys fs)"

lemma set_object_keys: "set (object_keys fs) = set (dict_keys fs)"
  by (auto simp: object_keys_def)

text \<open>\<open>[...new Set(xs)]\<close> is \<open>unique xs\<close>; a decimal numeral reads back as its value.\<close>

lemma all_digits_decimal: "list_all is_digit (decimal n)"
  using decimal_digits by (simp add: list_all_iff)

lemma trim_digits: "list_all is_digit s \<Longrightarrow> trim s = s"
proof -
  assume a: "list_all is_digit s"
  have n: "\<not> is_space c" if "is_digit c" for c
    using that by (auto simp: is_digit_def is_space_def)
  have d: "dropWhile is_space t = t" if "list_all is_digit t" for t
    using that n by (cases t) auto
  from a have "list_all is_digit (rev s)" by (simp add: list_all_iff)
  with a d show ?thesis by (simp add: trim_def trim_start_def trim_end_def)
qed

lemma string_number_decimal: "string_number (decimal n) = Fin (of_nat n)"
proof -
  let ?s = "decimal n"
  have a: "list_all is_digit ?s" by (rule all_digits_decimal)
  have ne: "?s \<noteq> []" by (rule decimal_not_Nil)
  then obtain c cs where s: "?s = c # cs" by (cases ?s) auto
  with a have c: "is_digit c" by simp
  have pre: "\<not> starts_with (lit p) ?s" if "length p = 2" "\<not> is_digit (of_char (p ! 1))" for p
  proof
    assume "starts_with (lit p) ?s"
    then obtain r where "?s = lit p @ r" by (auto simp: starts_with_iff)
    with a that show False by (cases p rule: list.exhaust) (auto simp: lit_def list_all_iff Suc_length_conv)
  qed
  have tw: "takeWhile is_digit ?s = ?s" "dropWhile is_digit ?s = []"
    using a by (simp_all add: filter_takeWhile_all dropWhile_eq_Nil_conv list_all_iff)
  have "?s \<noteq> lit ''Infinity''" using c s by (auto simp: lit_def is_digit_def)
  then have u: "unsigned_decimal ?s = Fin (of_nat n)"
    using ne by (simp add: unsigned_decimal_def Let_def tw exponent_value_def scale10_def decimal_value_decimal)
  have "hd ?s \<noteq> 0x2D" "hd ?s \<noteq> 0x2B" using c s by (auto simp: is_digit_def)
  moreover have "trim ?s = ?s" using a by (rule trim_digits)
  ultimately show ?thesis
    using ne u by (simp add: string_number_def Let_def pre is_digit_def)
qed

end
