(* ===== verification/TelegramGate.thy ===== *)
theory TelegramGate
  imports JsConvert Env
begin

text \<open>
  The Telegram send gate (\<open>services/telegram-command-bot/src/control-gate.mjs\<close>) and the
  gateway configuration built on it (\<open>config.mjs\<close>). The gate lives in a control service on the
  loopback interface; the bot asks it before each message and holds unless the answer is
  complete, fresh and backed by durable storage. The HTTP exchange, the URL and date parsers
  and the hash are parameters.
\<close>

section \<open>What the bot is started with\<close>

record url_parts =
  up_protocol :: jstr
  up_hostname :: jstr
  up_pathname :: jstr
  up_origin :: jstr

record bot_runtime =
  br_env :: process_env
  br_net :: net
  br_now :: time
  br_isTimeout :: "js_error \<Rightarrow> bool"
  br_url :: "jstr \<Rightarrow> url_parts result"
  br_parseDate :: "jstr \<Rightarrow> jsnum"
  br_sha256 :: "jstr \<Rightarrow> jstr"
  br_parse :: "jstr \<Rightarrow> jsval result"
  br_decode :: "nat list \<Rightarrow> jstr"

text \<open>
  The options of a call. A server started from the command line sets none of them:
  \<open>gate\<close> is a gate injected by a test.
\<close>

record gate_options =
  go_gate :: jsval
  go_baseUrl :: "jstr option"
  go_maxAgeMs :: "int option"

definition no_options :: gate_options where
  "no_options = \<lparr>go_gate = JUndef, go_baseUrl = None, go_maxAgeMs = None\<rparr>"

definition max_age :: "gate_options \<Rightarrow> int" where
  "max_age opts =
     (case go_maxAgeMs opts of None \<Rightarrow> 2000 | Some n \<Rightarrow> if n = 0 then 2000 else n)"

definition env_text :: "process_env \<Rightarrow> string \<Rightarrow> jstr" where
  "env_text pe k = trim (env_or_empty pe k)"

section \<open>Evidence\<close>

definition TELEGRAM_GATE_NAME :: jstr where
  "TELEGRAM_GATE_NAME = lit ''telegram_send''"

definition DEFAULT_CONTROL_BASE_URL :: jstr where
  "DEFAULT_CONTROL_BASE_URL = lit ''http://127.0.0.1:8711''"

definition c_alnum :: "(nat \<times> nat) list" where
  "c_alnum = [(0x41, 0x5A), (0x61, 0x7A), (0x30, 0x39)]"

definition TELEGRAM_TICKET_PATTERN :: rx where
  "TELEGRAM_TICKET_PATTERN =
     RSeq [RStart, RText (lit ''OPS-TG-''), RClass (Chars False False c_alnum) 1 (Some 1),
           RClass (Chars False False (c_alnum @ [(0x2E, 0x2E), (0x5F, 0x5F), (0x3A, 0x3A), (0x2D, 0x2D)]))
             0 (Some 119), REnd]"

record gate_evidence =
  ge_authority :: jstr
  ge_testOnly :: bool
  ge_effectiveState :: jstr
  ge_reportedState :: "jstr option"
  ge_open :: bool
  ge_authoritative :: bool
  ge_fresh :: bool
  ge_ticketPresent :: bool
  ge_ticketPrefixValid :: bool
  ge_persistenceBackend :: "jstr option"
  ge_durable :: bool
  ge_durabilityVerified :: bool
  ge_persistenceObservedAt :: "jstr option"
  ge_persistenceObservedAtMs :: "int option"
  ge_checkedAt :: "jstr option"
  ge_checkedAtMs :: "int option"
  ge_expiresAt :: "jstr option"
  ge_reason :: "jstr option"

definition heldEvidence :: "jstr \<Rightarrow> gate_evidence" where
  "heldEvidence reason =
     \<lparr>ge_authority = lit ''sirinx-control'', ge_testOnly = False, ge_effectiveState = lit ''hold'',
      ge_reportedState = None, ge_open = False, ge_authoritative = False, ge_fresh = False,
      ge_ticketPresent = False, ge_ticketPrefixValid = False, ge_persistenceBackend = None,
      ge_durable = False, ge_durabilityVerified = False, ge_persistenceObservedAt = None,
      ge_persistenceObservedAtMs = None, ge_checkedAt = None, ge_checkedAtMs = None,
      ge_expiresAt = None, ge_reason = Some reason\<rparr>"

abbreviation held :: "string \<Rightarrow> gate_evidence" where
  "held reason \<equiv> heldEvidence (lit reason)"

definition isLoopbackControlUrl :: "bot_runtime \<Rightarrow> jstr \<Rightarrow> bool" where
  "isLoopbackControlUrl rt value \<longleftrightarrow>
     (case br_url rt value of
        Inl _ \<Rightarrow> False
      | Inr u \<Rightarrow> up_protocol u = lit ''http:'' \<and>
          up_hostname u \<in> {lit ''127.0.0.1'', lit ''localhost'', lit ''[::1]''})"

definition ticket_of :: "jsval \<Rightarrow> jstr" where
  "ticket_of gate = (case opt_prop gate ''ticket'' of JStr s \<Rightarrow> trim s | _ \<Rightarrow> [])"

definition ticket_valid :: "jstr \<Rightarrow> bool" where
  "ticket_valid t \<longleftrightarrow> rx_test False TELEGRAM_TICKET_PATTERN t"

definition is_object_val :: "jsval \<Rightarrow> bool" where
  "is_object_val v \<longleftrightarrow> (case v of JObj _ \<Rightarrow> True | JArr _ \<Rightarrow> True | JDate _ \<Rightarrow> True | _ \<Rightarrow> False)"

definition normalizeInjectedGate :: "jsval \<Rightarrow> int \<Rightarrow> int \<Rightarrow> gate_evidence" where
  "normalizeInjectedGate gate timestampMs maxAgeMs =
     (if \<not> is_object_val gate then held ''injected_gate_invalid''
      else
        let ticket = ticket_of gate;
            reportedState =
              (if opt_prop gate ''state'' = JStr (lit ''open'') then Some (lit ''open'')
               else if opt_prop gate ''state'' = JStr (lit ''hold'') then Some (lit ''hold'') else None);
            prefixValid = ticket_valid ticket;
            opened = (reportedState = Some (lit ''open'') \<and> prefixValid)
        in \<lparr>ge_authority = lit ''test-injected'', ge_testOnly = True,
            ge_effectiveState = (if opened then lit ''open'' else lit ''hold''),
            ge_reportedState = reportedState, ge_open = opened,
            ge_authoritative = (reportedState \<noteq> None), ge_fresh = True,
            ge_ticketPresent = (ticket \<noteq> []), ge_ticketPrefixValid = prefixValid,
            ge_persistenceBackend = Some (lit ''test-injected''), ge_durable = False,
            ge_durabilityVerified = False, ge_persistenceObservedAt = None,
            ge_persistenceObservedAtMs = None, ge_checkedAt = Some (to_iso timestampMs),
            ge_checkedAtMs = Some timestampMs,
            ge_expiresAt = Some (to_iso (timestampMs + maxAgeMs)),
            ge_reason = (if reportedState = None then Some (lit ''gate_state_invalid'')
              else if reportedState = Some (lit ''open'') \<and> \<not> prefixValid
              then Some (lit ''gate_ticket_invalid'')
              else if reportedState = Some (lit ''hold'') then Some (lit ''gate_held'') else None)\<rparr>)"

section \<open>Persistence\<close>

record persistence =
  ps_backend :: "jstr option"
  ps_durable :: bool
  ps_verified :: bool
  ps_observedAt :: "jstr option"
  ps_observedAtMs :: "int option"
  ps_reason :: "jstr option"

text \<open>A safe, positive integer within the range of dates.\<close>

definition date_ms :: "jsnum \<Rightarrow> int option" where
  "date_ms x =
     (case x of
        Fin a \<Rightarrow>
          (let n = fst (quotient_of a) in
           if is_safe_integer x \<and> 0 < n \<and> n \<le> 8640000000000000 then Some n else None)
      | _ \<Rightarrow> None)"

definition observed_at :: "bot_runtime \<Rightarrow> jsval \<Rightarrow> int option" where
  "observed_at rt raw =
     date_ms (case raw of JNum x \<Rightarrow> x | JStr s \<Rightarrow> br_parseDate rt s | _ \<Rightarrow> NaN)"

definition inspectPersistenceEvidence :: "bot_runtime \<Rightarrow> jsval \<Rightarrow> int \<Rightarrow> int \<Rightarrow> persistence" where
  "inspectPersistenceEvidence rt p timestampMs maxAgeMs =
     (if \<not> is_object_val p
      then \<lparr>ps_backend = None, ps_durable = False, ps_verified = False, ps_observedAt = None,
            ps_observedAtMs = None, ps_reason = Some (lit ''control_persistence_invalid'')\<rparr>
      else
        let backend =
              (if opt_prop p ''backend'' = JStr (lit ''memory'') then Some (lit ''memory'')
               else if opt_prop p ''backend'' = JStr (lit ''postgres'') then Some (lit ''postgres'')
               else None);
            durable = (opt_prop p ''durable'' = JBool True);
            observedAtMs = observed_at rt (opt_prop p ''observedAt'');
            observedAtFresh =
              (case observedAtMs of None \<Rightarrow> False | Some t \<Rightarrow> \<bar>timestampMs - t\<bar> \<le> maxAgeMs);
            shapeConsistent =
              ((backend = Some (lit ''memory'') \<and> \<not> durable) \<or>
               (backend = Some (lit ''postgres'') \<and> durable));
            verified = (shapeConsistent \<and> backend = Some (lit ''postgres'') \<and> durable \<and> observedAtFresh);
            reason =
              (if backend = None \<or> \<not> shapeConsistent \<or> observedAtMs = None
               then Some (lit ''control_persistence_invalid'')
               else if \<not> observedAtFresh then Some (lit ''control_persistence_stale'')
               else if \<not> verified then Some (lit ''control_persistence_not_durable'') else None)
        in \<lparr>ps_backend = backend, ps_durable = durable, ps_verified = verified,
            ps_observedAt = map_option to_iso observedAtMs, ps_observedAtMs = observedAtMs,
            ps_reason = reason\<rparr>)"

section \<open>Assessing evidence\<close>

text \<open>\<open>Number(null)\<close> is \<open>0\<close>: missing milliseconds in evidence count as the epoch.\<close>

definition ms_number :: "int option \<Rightarrow> int" where
  "ms_number m = (case m of None \<Rightarrow> 0 | Some t \<Rightarrow> t)"

definition assessTelegramSendGateEvidence ::
  "gate_evidence option \<Rightarrow> int \<Rightarrow> int \<Rightarrow> gate_evidence" where
  "assessTelegramSendGateEvidence evidence currentMs maxAgeMs =
     (case evidence of
        None \<Rightarrow> held ''gate_evidence_stale''
      | Some e \<Rightarrow>
          let checkedAtMs = ms_number (ge_checkedAtMs e);
              ageMs = currentMs - checkedAtMs;
              fresh = (0 \<le> ageMs \<and> ageMs \<le> maxAgeMs)
          in if \<not> fresh
             then (held (if ageMs < 0 then ''gate_evidence_from_future'' else ''gate_evidence_stale''))
               \<lparr>ge_reportedState := ge_reportedState e, ge_authoritative := ge_authoritative e,
                ge_ticketPresent := ge_ticketPresent e, ge_ticketPrefixValid := ge_ticketPrefixValid e,
                ge_testOnly := ge_testOnly e, ge_persistenceBackend := ge_persistenceBackend e,
                ge_durable := ge_durable e, ge_durabilityVerified := ge_durabilityVerified e,
                ge_persistenceObservedAt := ge_persistenceObservedAt e,
                ge_persistenceObservedAtMs := Some (ms_number (ge_persistenceObservedAtMs e)),
                ge_checkedAt := ge_checkedAt e, ge_checkedAtMs := Some checkedAtMs,
                ge_expiresAt := ge_expiresAt e\<rparr>
             else
               let opened = (ge_authoritative e \<and> ge_reportedState e = Some (lit ''open'') \<and>
                     ge_ticketPrefixValid e \<and>
                     (ge_testOnly e \<or> (ge_persistenceBackend e = Some (lit ''postgres'') \<and>
                        ge_durable e \<and> ge_durabilityVerified e)))
               in e\<lparr>ge_effectiveState := (if opened then lit ''open'' else lit ''hold''),
                    ge_open := opened, ge_fresh := True,
                    ge_reason := (if opened then None
                      else case ge_reason e of None \<Rightarrow> Some (lit ''gate_held'')
                        | Some r \<Rightarrow> Some (if r = [] then lit ''gate_held'' else r))\<rparr>)"

section \<open>Reading the gate\<close>

definition gate_request :: "jstr \<Rightarrow> jstr \<Rightarrow> http_request" where
  "gate_request baseUrl token =
     \<lparr>rq_url = baseUrl @ lit ''/api/gates'', rq_query = [], rq_method = lit ''GET'',
      rq_headers = [(lit ''accept'', lit ''application/json''), (lit ''authorization'', bearer token)],
      rq_body = NoBody\<rparr>"

definition is_telegram_gate :: "jsval \<Rightarrow> bool" where
  "is_telegram_gate gate \<longleftrightarrow> opt_prop gate ''name'' = JStr TELEGRAM_GATE_NAME"

definition gate_verdict :: "bot_runtime \<Rightarrow> int \<Rightarrow> jsval \<Rightarrow> jsval \<Rightarrow> gate_evidence" where
  "gate_verdict rt maxAgeMs body gate =
     (case opt_prop gate ''state'' of
        JStr state \<Rightarrow>
          if state \<noteq> lit ''hold'' \<and> state \<noteq> lit ''open'' then held ''gate_state_invalid''
          else
            let ticket = ticket_of gate;
                prefixValid = ticket_valid ticket;
                p = inspectPersistenceEvidence rt (opt_prop body ''persistence'') (br_now rt) maxAgeMs;
                evidence =
                  \<lparr>ge_authority = lit ''sirinx-control'', ge_testOnly = False,
                   ge_effectiveState = lit ''hold'', ge_reportedState = Some state, ge_open = False,
                   ge_authoritative = True, ge_fresh = True, ge_ticketPresent = (ticket \<noteq> []),
                   ge_ticketPrefixValid = prefixValid, ge_persistenceBackend = ps_backend p,
                   ge_durable = ps_durable p, ge_durabilityVerified = ps_verified p,
                   ge_persistenceObservedAt = ps_observedAt p,
                   ge_persistenceObservedAtMs = ps_observedAtMs p,
                   ge_checkedAt = Some (to_iso (br_now rt)), ge_checkedAtMs = Some (br_now rt),
                   ge_expiresAt = Some (to_iso (br_now rt + maxAgeMs)),
                   ge_reason = (if state = lit ''hold'' then Some (lit ''gate_held'')
                     else if prefixValid then ps_reason p else Some (lit ''gate_ticket_invalid''))\<rparr>
            in assessTelegramSendGateEvidence (Some evidence) (br_now rt) maxAgeMs
      | _ \<Rightarrow> held ''gate_state_invalid'')"

definition gate_of_response :: "bot_runtime \<Rightarrow> int \<Rightarrow> http_response \<Rightarrow> gate_evidence" where
  "gate_of_response rt maxAgeMs response =
     (if \<not> rs_ok response then heldEvidence (lit ''control_http_'' @ decimal (rs_status response))
      else case rs_json response of
        Inl _ \<Rightarrow> held ''control_response_invalid_json''
      | Inr body \<Rightarrow>
          (case opt_prop body ''gates'' of
             JArr gates \<Rightarrow>
               (case filter is_telegram_gate gates of
                  [] \<Rightarrow> held ''telegram_gate_missing''
                | [gate] \<Rightarrow> gate_verdict rt maxAgeMs body gate
                | _ \<Rightarrow> held ''telegram_gate_duplicate'')
           | _ \<Rightarrow> held ''control_gate_list_invalid''))"

definition control_base_url :: "process_env \<Rightarrow> gate_options \<Rightarrow> jstr" where
  "control_base_url pe opts =
     (let given = (case go_baseUrl opts of None \<Rightarrow> [] | Some u \<Rightarrow> u) in
      strip_slashes
        (if given \<noteq> [] then given
         else if env_or_empty pe ''SIRINX_CONTROL_URL'' \<noteq> [] then env_or_empty pe ''SIRINX_CONTROL_URL''
         else DEFAULT_CONTROL_BASE_URL))"

definition readTelegramSendGate :: "bot_runtime \<Rightarrow> gate_options \<Rightarrow> gate_evidence netop" where
  "readTelegramSendGate rt opts =
     (let token = env_text (br_env rt) ''CONTROL_API_TOKEN'';
          baseUrl = control_base_url (br_env rt) opts
      in if truthy (go_gate opts)
         then io_return (normalizeInjectedGate (go_gate opts) (br_now rt) (max_age opts))
         else if token = [] then io_return (held ''control_api_token_missing'')
         else if \<not> isLoopbackControlUrl rt baseUrl then io_return (held ''control_url_not_loopback'')
         else io_catch
           (io_bind (fetch (br_net rt) (gate_request baseUrl token)) (\<lambda>response.
              io_return (gate_of_response rt (max_age opts) response)))
           (\<lambda>error. io_return (if br_isTimeout rt error then held ''control_request_timeout''
                           else held ''control_request_failed'')))"

section \<open>The gateway configuration\<close>

definition DEFAULT_ALLOWED_COMMANDS :: "jstr list" where
  "DEFAULT_ALLOWED_COMMANDS = map lit [''/status'', ''/gates'', ''/sync-plan'', ''/stop'']"

definition parseCommaList :: "jstr \<Rightarrow> jstr list" where
  "parseCommaList value = filter (\<lambda>s. s \<noteq> []) (map trim (split_on 0x2C value))"

definition normalizeCommand :: "jstr \<Rightarrow> jstr" where
  "normalizeCommand value =
     (let trimmed = trim value in
      if trimmed = [] then []
      else if starts_with (lit ''/'') trimmed then trimmed else lit ''/'' @ trimmed)"

definition parseAllowedCommands :: "jstr \<Rightarrow> jstr list" where
  "parseAllowedCommands value =
     (let parsed = filter (\<lambda>s. s \<noteq> []) (map normalizeCommand (parseCommaList value)) in
      if parsed \<noteq> [] then unique parsed else DEFAULT_ALLOWED_COMMANDS)"

definition uncheckedEvidence :: gate_evidence where
  "uncheckedEvidence = held ''durable_gate_not_checked''
     \<lparr>ge_reportedState := Some (lit ''hold'')\<rparr>"

record gate_view =
  gv_state :: jstr
  gv_reportedState :: "jstr option"
  gv_authority :: jstr
  gv_authoritative :: bool
  gv_fresh :: bool
  gv_ticketPresent :: bool
  gv_ticketPrefixValid :: bool
  gv_checkedAt :: "jstr option"
  gv_expiresAt :: "jstr option"
  gv_reason :: "jstr option"

record gateway_config =
  gc_mode :: jstr
  gc_botTokenConfigured :: bool
  gc_chatIdConfigured :: bool
  gc_ownerIdsConfigured :: bool
  gc_ownerCount :: nat
  gc_confirmSend :: bool
  gc_allowedCommands :: "jstr list"
  gc_gate :: gate_view
  gc_envReady :: bool
  gc_liveSendReady :: bool
  gc_missing :: "jstr list"

definition or_text :: "jstr \<Rightarrow> jstr \<Rightarrow> jstr" where
  "or_text s d = (if s = [] then d else s)"

definition truthy_text :: "jstr option \<Rightarrow> jstr option" where
  "truthy_text m = (case m of None \<Rightarrow> None | Some s \<Rightarrow> if s = [] then None else Some s)"

definition gateway_missing :: "process_env \<Rightarrow> jstr list" where
  "gateway_missing pe =
     pushed
       [(env_text pe ''TELEGRAM_BOT_TOKEN'' = [], ''TELEGRAM_BOT_TOKEN''),
        (env_text pe ''TELEGRAM_CHAT_ID'' = [], ''TELEGRAM_CHAT_ID''),
        (parseCommaList (env_or_empty pe ''TELEGRAM_OWNER_IDS'') = [], ''TELEGRAM_OWNER_IDS''),
        (dict_get pe (lit ''SIRINX_TELEGRAM_CONFIRM'') \<noteq> Some (lit ''SEND''), ''SIRINX_TELEGRAM_CONFIRM=SEND'')]"

definition gate_view_of :: "gate_evidence \<Rightarrow> gate_view" where
  "gate_view_of e =
     \<lparr>gv_state = or_text (ge_effectiveState e) (lit ''hold''),
      gv_reportedState = truthy_text (ge_reportedState e),
      gv_authority = or_text (ge_authority e) (lit ''sirinx-control''),
      gv_authoritative = ge_authoritative e, gv_fresh = ge_fresh e,
      gv_ticketPresent = ge_ticketPresent e, gv_ticketPrefixValid = ge_ticketPrefixValid e,
      gv_checkedAt = truthy_text (ge_checkedAt e), gv_expiresAt = truthy_text (ge_expiresAt e),
      gv_reason = truthy_text (ge_reason e)\<rparr>"

definition resolveTelegramGatewayConfig :: "process_env \<Rightarrow> gate_evidence option \<Rightarrow> gateway_config" where
  "resolveTelegramGatewayConfig pe given =
     (let ownerIds = parseCommaList (env_or_empty pe ''TELEGRAM_OWNER_IDS'');
          missing = gateway_missing pe;
          envReady = (missing = []);
          gateEvidence = (case given of None \<Rightarrow> uncheckedEvidence | Some e \<Rightarrow> e);
          gateOpen = (ge_open gateEvidence \<and> ge_authoritative gateEvidence \<and> ge_fresh gateEvidence);
          liveSendReady = (envReady \<and> gateOpen)
      in \<lparr>gc_mode = (if liveSendReady then lit ''live-ready''
            else if envReady \<and> ge_authoritative gateEvidence then lit ''env-ready-gate-held''
            else if envReady then lit ''env-ready-gate-unavailable'' else lit ''dry-run''),
          gc_botTokenConfigured = (env_text pe ''TELEGRAM_BOT_TOKEN'' \<noteq> []),
          gc_chatIdConfigured = (env_text pe ''TELEGRAM_CHAT_ID'' \<noteq> []),
          gc_ownerIdsConfigured = (ownerIds \<noteq> []), gc_ownerCount = length ownerIds,
          gc_confirmSend = (dict_get pe (lit ''SIRINX_TELEGRAM_CONFIRM'') = Some (lit ''SEND'')),
          gc_allowedCommands = parseAllowedCommands (env_or_empty pe ''TELEGRAM_ALLOWED_COMMANDS''),
          gc_gate = gate_view_of gateEvidence, gc_envReady = envReady,
          gc_liveSendReady = liveSendReady, gc_missing = missing\<rparr>)"

definition resolveTelegramGatewayReadiness :: "bot_runtime \<Rightarrow> gate_options \<Rightarrow> gateway_config netop" where
  "resolveTelegramGatewayReadiness rt opts =
     io_bind (readTelegramSendGate rt opts) (\<lambda>gateEvidence.
       io_return (resolveTelegramGatewayConfig (br_env rt) (Some gateEvidence)))"

section \<open>An open gate is durable\<close>

definition gate_token :: "bot_runtime \<Rightarrow> jstr" where
  "gate_token rt = env_text (br_env rt) ''CONTROL_API_TOKEN''"

definition control_request :: "bot_runtime \<Rightarrow> gate_options \<Rightarrow> http_request" where
  "control_request rt opts = gate_request (control_base_url (br_env rt) opts) (gate_token rt)"

lemma read_gate_returns:
  "\<exists>e. readTelegramSendGate rt opts sent = (Inr e, sent) \<or>
     readTelegramSendGate rt opts sent = (Inr e, sent @ [control_request rt opts])"
  by (auto simp: readTelegramSendGate_def Let_def io_defs fetch_def control_request_def gate_token_def
      split: sum.splits)

lemma held_not_open [simp]: "\<not> ge_open (heldEvidence r)"
  by (simp add: heldEvidence_def)

text \<open>What the control service has to say before a gate counts as open.\<close>

definition durable_answer :: "bot_runtime \<Rightarrow> int \<Rightarrow> http_response \<Rightarrow> bool" where
  "durable_answer rt maxAgeMs response \<longleftrightarrow>
     rs_ok response \<and>
     (\<exists>body gates gate p t.
        rs_json response = Inr body \<and> opt_prop body ''gates'' = JArr gates \<and>
        filter is_telegram_gate gates = [gate] \<and>
        opt_prop gate ''state'' = JStr (lit ''open'') \<and> ticket_valid (ticket_of gate) \<and>
        p = opt_prop body ''persistence'' \<and> opt_prop p ''backend'' = JStr (lit ''postgres'') \<and>
        opt_prop p ''durable'' = JBool True \<and>
        observed_at rt (opt_prop p ''observedAt'') = Some t \<and> \<bar>br_now rt - t\<bar> \<le> maxAgeMs)"

lemma verified_persistence:
  "ps_verified (inspectPersistenceEvidence rt p now maxAge) \<Longrightarrow>
     opt_prop p ''backend'' = JStr (lit ''postgres'') \<and> opt_prop p ''durable'' = JBool True \<and>
     (\<exists>t. observed_at rt (opt_prop p ''observedAt'') = Some t \<and> \<bar>now - t\<bar> \<le> maxAge)"
  by (auto simp: inspectPersistenceEvidence_def Let_def split: if_splits option.splits)

lemma gate_verdict_open:
  assumes "ge_open (gate_verdict rt maxAge body gate)"
  shows "opt_prop gate ''state'' = JStr (lit ''open'') \<and> ticket_valid (ticket_of gate) \<and>
    ps_verified (inspectPersistenceEvidence rt (opt_prop body ''persistence'') (br_now rt) maxAge)"
proof -
  obtain state where st: "opt_prop gate ''state'' = JStr state"
    using assms by (auto simp: gate_verdict_def split: jsval.splits)
  show ?thesis
    using assms st
    by (simp add: gate_verdict_def Let_def assessTelegramSendGateEvidence_def ms_number_def
        heldEvidence_def split: if_splits)
qed

lemma gate_of_response_open:
  assumes "ge_open (gate_of_response rt maxAge response)"
  shows "durable_answer rt maxAge response"
proof -
  from assms have ok: "rs_ok response" by (auto simp: gate_of_response_def split: if_splits)
  from assms ok obtain body where b: "rs_json response = Inr body"
    by (auto simp: gate_of_response_def split: sum.splits)
  from assms ok b obtain gates where g: "opt_prop body ''gates'' = JArr gates"
    by (auto simp: gate_of_response_def split: jsval.splits)
  from assms ok b g obtain gate where f: "filter is_telegram_gate gates = [gate]"
    by (auto simp: gate_of_response_def split: list.splits)
  from assms ok b g f have "ge_open (gate_verdict rt maxAge body gate)"
    by (simp add: gate_of_response_def)
  note v = gate_verdict_open [OF this]
  then obtain t where t: "observed_at rt (opt_prop (opt_prop body ''persistence'') ''observedAt'') = Some t"
      "\<bar>br_now rt - t\<bar> \<le> maxAge"
    using verified_persistence by blast
  show ?thesis unfolding durable_answer_def
    by (intro conjI exI [of _ body] exI [of _ gates] exI [of _ gate]
          exI [of _ "opt_prop body ''persistence''"] exI [of _ t])
       (use ok b g f v t verified_persistence in auto)
qed

lemma read_gate_open:
  assumes "\<not> truthy (go_gate opts)" and "readTelegramSendGate rt opts sent = (Inr e, sent')" and "ge_open e"
  shows "gate_token rt \<noteq> [] \<and> isLoopbackControlUrl rt (control_base_url (br_env rt) opts) \<and>
    sent' = sent @ [control_request rt opts] \<and>
    (\<exists>response. n_fetch (br_net rt) sent (control_request rt opts) = Inr response \<and>
                durable_answer rt (max_age opts) response)"
proof (cases "gate_token rt = [] \<or> \<not> isLoopbackControlUrl rt (control_base_url (br_env rt) opts)")
  case True
  with assms show ?thesis
    by (auto simp: readTelegramSendGate_def Let_def io_return_def gate_token_def split: if_splits)
next
  case False
  show ?thesis
  proof (cases "n_fetch (br_net rt) sent (control_request rt opts)")
    case (Inl e)
    with assms False show ?thesis
      by (auto simp: readTelegramSendGate_def Let_def io_defs fetch_def control_request_def gate_token_def
          split: if_splits)
  next
    case (Inr response)
    with assms False show ?thesis
      by (auto simp: readTelegramSendGate_def Let_def io_defs fetch_def control_request_def gate_token_def
          gate_of_response_open)
  qed
qed

text \<open>
  C10. Without an injected gate, evidence that says open comes from one request to a loopback
  address with the control token, whose answer names exactly one gate, open, with a valid
  ticket, on durable storage observed within the allowed age. Reading never throws.
\<close>

theorem open_gate_is_durable:
  assumes "\<not> truthy (go_gate opts)" and "readTelegramSendGate rt opts sent = (r, sent')"
  shows "\<exists>e. r = Inr e \<and>
    (ge_open e \<longrightarrow>
       gate_token rt \<noteq> [] \<and> isLoopbackControlUrl rt (control_base_url (br_env rt) opts) \<and>
       sent' = sent @ [control_request rt opts] \<and>
       (\<exists>response. n_fetch (br_net rt) sent (control_request rt opts) = Inr response \<and>
                   durable_answer rt (max_age opts) response))"
proof -
  obtain e where "r = Inr e" using read_gate_returns [of rt opts sent] assms(2) by auto
  with read_gate_open [of opts rt sent e sent'] assms show ?thesis by blast
qed

definition sample_bot :: "process_env \<Rightarrow> jsobj \<Rightarrow> bot_runtime" where
  "sample_bot pe answer =
     \<lparr>br_env = pe, br_net = fixed_net (answer_with answer []), br_now = 1700000000000,
      br_isTimeout = \<lambda>_. False,
      br_url = \<lambda>_. Inr \<lparr>up_protocol = lit ''http:'', up_hostname = lit ''127.0.0.1'',
                       up_pathname = lit ''/'', up_origin = lit ''http://127.0.0.1''\<rparr>,
      br_parseDate = \<lambda>_. NaN, br_sha256 = \<lambda>s. s, br_parse = \<lambda>s. Inr (JStr s),
      br_decode = \<lambda>b. b\<rparr>"

definition open_answer :: jsobj where
  "open_answer =
     [(lit ''gates'', JArr [JObj [(lit ''name'', JStr TELEGRAM_GATE_NAME), (lit ''state'', JStr (lit ''open'')),
        (lit ''ticket'', JStr (lit ''OPS-TG-1''))]]),
      (lit ''persistence'', JObj [(lit ''backend'', JStr (lit ''postgres'')), (lit ''durable'', JBool True),
        (lit ''observedAt'', JNum (Fin 1700000000000))]),
      (lit ''ok'', JBool True)]"

definition bot_env :: process_env where
  "bot_env =
     [(lit ''CONTROL_API_TOKEN'', lit ''c''), (lit ''TELEGRAM_BOT_TOKEN'', lit ''b''),
      (lit ''TELEGRAM_CHAT_ID'', lit ''7''), (lit ''TELEGRAM_OWNER_IDS'', lit ''1''),
      (lit ''SIRINX_TELEGRAM_CONFIRM'', lit ''SEND'')]"

lemma bot_env_token: "env_text bot_env ''CONTROL_API_TOKEN'' = lit ''c''"
  by (simp add: bot_env_def env_text_def env_or_empty_def) (simp add: lit_def trim_def trim_start_def trim_end_def is_space_def)

lemma sample_ticket_valid: "ticket_valid (lit ''OPS-TG-1'')"
  by (simp add: ticket_valid_def TELEGRAM_TICKET_PATTERN_def rx_test_anchored lit_def same_unit_def
      c_alnum_def run_length_def in_range_def upt_rec)

lemma sample_gate_any:
  "\<exists>e. (\<forall>sent. readTelegramSendGate (sample_bot bot_env open_answer) no_options sent =
     (Inr e, sent @ [control_request (sample_bot bot_env open_answer) no_options])) \<and> ge_open e \<and>
     ge_authoritative e \<and> ge_fresh e"
proof -
  let ?rt = "sample_bot bot_env open_answer"
  have tok: "gate_token ?rt \<noteq> []"
    by (simp add: gate_token_def sample_bot_def bot_env_token)
  have lb: "isLoopbackControlUrl ?rt u" for u
    by (simp add: isLoopbackControlUrl_def sample_bot_def)
  have "trim (lit ''OPS-TG-1'') = lit ''OPS-TG-1''"
    by (simp add: trim_def trim_start_def trim_end_def lit_def is_space_def)
  then have v: "ge_open (gate_of_response ?rt 2000 (answer_with open_answer [])) \<and>
      ge_authoritative (gate_of_response ?rt 2000 (answer_with open_answer [])) \<and>
      ge_fresh (gate_of_response ?rt 2000 (answer_with open_answer []))"
    by (simp add: gate_of_response_def answer_with_def open_answer_def is_telegram_gate_def
        gate_verdict_def ticket_of_def sample_ticket_valid inspectPersistenceEvidence_def
        is_object_val_def observed_at_def date_ms_def is_safe_integer_def MAX_SAFE_INTEGER_def
        sample_bot_def assessTelegramSendGateEvidence_def ms_number_def Let_def)
  have "readTelegramSendGate ?rt no_options sent =
      (Inr (gate_of_response ?rt 2000 (answer_with open_answer [])), sent @ [control_request ?rt no_options])" for sent
    using tok lb
    by (simp add: readTelegramSendGate_def Let_def io_defs fetch_def control_request_def gate_token_def
        no_options_def max_age_def sample_bot_def fixed_net_def)
  with v show ?thesis by blast
qed

lemma sample_gate_open:
  "\<exists>e. readTelegramSendGate (sample_bot bot_env open_answer) no_options [] =
     (Inr e, [control_request (sample_bot bot_env open_answer) no_options]) \<and> ge_open e \<and>
     ge_authoritative e \<and> ge_fresh e"
  using sample_gate_any by (metis append_Nil)

theorem open_gate_is_durable_witness:
  "durable_answer (sample_bot bot_env open_answer) 2000 (answer_with open_answer [])"
proof -
  obtain e where e: "readTelegramSendGate (sample_bot bot_env open_answer) no_options [] =
      (Inr e, [control_request (sample_bot bot_env open_answer) no_options])" "ge_open e"
    using sample_gate_open by blast
  have "\<not> truthy (go_gate no_options)" by (simp add: no_options_def)
  from open_gate_is_durable [OF this e(1)] e(2)
  show ?thesis by (auto simp: sample_bot_def fixed_net_def max_age_def no_options_def)
qed

text \<open>
  The configuration shown to callers discloses of the secrets only whether they are set: two
  environments that agree on that, on the number of owners and on the allowed commands give
  the same configuration.
\<close>

theorem config_discloses_presence:
  assumes "env_text pe ''TELEGRAM_BOT_TOKEN'' = [] \<longleftrightarrow> env_text pe' ''TELEGRAM_BOT_TOKEN'' = []"
    and "env_text pe ''TELEGRAM_CHAT_ID'' = [] \<longleftrightarrow> env_text pe' ''TELEGRAM_CHAT_ID'' = []"
    and "length (parseCommaList (env_or_empty pe ''TELEGRAM_OWNER_IDS'')) =
         length (parseCommaList (env_or_empty pe' ''TELEGRAM_OWNER_IDS''))"
    and "dict_get pe (lit ''SIRINX_TELEGRAM_CONFIRM'') = Some (lit ''SEND'') \<longleftrightarrow>
         dict_get pe' (lit ''SIRINX_TELEGRAM_CONFIRM'') = Some (lit ''SEND'')"
    and "env_or_empty pe ''TELEGRAM_ALLOWED_COMMANDS'' = env_or_empty pe' ''TELEGRAM_ALLOWED_COMMANDS''"
  shows "resolveTelegramGatewayConfig pe e = resolveTelegramGatewayConfig pe' e"
proof -
  have o: "parseCommaList (env_or_empty pe ''TELEGRAM_OWNER_IDS'') = [] \<longleftrightarrow>
      parseCommaList (env_or_empty pe' ''TELEGRAM_OWNER_IDS'') = []"
    using assms(3) by (metis length_0_conv)
  then have m: "gateway_missing pe = gateway_missing pe'"
    using assms(1,2,4) by (simp add: gateway_missing_def)
  show ?thesis
    unfolding resolveTelegramGatewayConfig_def Let_def m o
    using assms by simp
qed

theorem config_discloses_presence_witness:
  "resolveTelegramGatewayConfig [(lit ''TELEGRAM_BOT_TOKEN'', lit ''a'')] None =
   resolveTelegramGatewayConfig [(lit ''TELEGRAM_BOT_TOKEN'', lit ''b'')] None"
proof (rule config_discloses_presence)
  have c: "env_text [(lit ''TELEGRAM_BOT_TOKEN'', [c])] ''TELEGRAM_BOT_TOKEN'' = [c]"
    if "\<not> is_space c" for c
    using that by (simp add: env_text_def env_or_empty_def trim_def trim_start_def trim_end_def)
  have "lit ''a'' = [0x61]" "lit ''b'' = [0x62]" by (simp_all add: lit_def)
  with c [of "0x61"] c [of "0x62"]
  show "env_text [(lit ''TELEGRAM_BOT_TOKEN'', lit ''a'')] ''TELEGRAM_BOT_TOKEN'' = [] \<longleftrightarrow>
      env_text [(lit ''TELEGRAM_BOT_TOKEN'', lit ''b'')] ''TELEGRAM_BOT_TOKEN'' = []"
    by (simp add: is_space_def lit_def)
qed (simp_all add: env_text_def env_or_empty_def)

end
