(* ===== verification/TelegramSender.thy ===== *)
theory TelegramSender
  imports TelegramGate
begin

text \<open>
  The Telegram sender (\<open>services/telegram-command-bot/src/sender.mjs\<close>) and the bearer check of
  the bot's server (\<open>control-auth.mjs\<close>). A call returns an audit record; it reaches the provider
  only after its own checks, a configuration that is complete and a gate read for this call.
\<close>

section \<open>The sender\<close>

definition TELEGRAM_API_BASE :: jstr where
  "TELEGRAM_API_BASE = lit ''https://api.telegram.org''"

definition TELEGRAM_MAX_TEXT_LENGTH :: nat where
  "TELEGRAM_MAX_TEXT_LENGTH = 4096"

record readiness_view =
  rv_ready :: bool
  rv_envReady :: bool
  rv_gateOpen :: bool
  rv_mode :: jstr
  rv_missing :: "jstr list"
  rv_gate :: gate_view

definition readinessView :: "gateway_config \<Rightarrow> readiness_view" where
  "readinessView c =
     \<lparr>rv_ready = gc_liveSendReady c, rv_envReady = gc_envReady c,
      rv_gateOpen = (gv_state (gc_gate c) = lit ''open''), rv_mode = gc_mode c,
      rv_missing = gc_missing c, rv_gate = gc_gate c\<rparr>"

definition checkTelegramSendReady :: "bot_runtime \<Rightarrow> gate_options \<Rightarrow> bool \<Rightarrow> readiness_view netop" where
  "checkTelegramSendReady rt opts checkDurableGate =
     (if \<not> checkDurableGate
      then io_return (readinessView (resolveTelegramGatewayConfig (br_env rt) None))
      else io_bind (resolveTelegramGatewayReadiness rt opts) (\<lambda>config.
             io_return (readinessView config)))"

record send_options =
  so_parseMode :: "jstr option"
  so_noPreview :: bool
  so_dryRun :: bool
  so_gate :: gate_options

record send_record =
  sr_timestamp :: jstr
  sr_chatId :: "jstr option"
  sr_textDigest :: jstr
  sr_textLength :: nat
  sr_parseMode :: "jstr option"
  sr_readiness :: readiness_view
  sr_sent :: bool
  sr_dryRun :: bool
  sr_providerCalled :: bool
  sr_outcome :: jstr
  sr_apiResponse :: jsval
  sr_error :: "jstr option"

definition redactChatId :: "bot_runtime \<Rightarrow> jstr \<Rightarrow> jstr option" where
  "redactChatId rt chatId =
     (if chatId = [] then None else Some (lit ''sha256:'' @ slice0 12 (br_sha256 rt chatId)))"

text \<open>The checks before anything is sent, in their order.\<close>

definition send_refusal :: "bot_runtime \<Rightarrow> jstr \<Rightarrow> jstr \<Rightarrow> bool \<Rightarrow> jstr option" where
  "send_refusal rt requestedChatId message dryRun =
     (let botToken = env_text (br_env rt) ''TELEGRAM_BOT_TOKEN'';
          configuredChatId = env_text (br_env rt) ''TELEGRAM_CHAT_ID''
      in if configuredChatId = [] then Some (lit ''telegram_chat_id_missing'')
         else if requestedChatId \<noteq> configuredChatId then Some (lit ''telegram_destination_override_blocked'')
         else if botToken = [] then Some (lit ''telegram_bot_token_missing'')
         else if trim message = [] then Some (lit ''telegram_message_empty'')
         else if TELEGRAM_MAX_TEXT_LENGTH < length message then Some (lit ''telegram_message_too_long'')
         else if dryRun then Some (lit ''telegram_dry_run_no_provider_call'')
         else None)"

definition telegram_request :: "bot_runtime \<Rightarrow> jstr \<Rightarrow> send_options \<Rightarrow> http_request" where
  "telegram_request rt message opts =
     \<lparr>rq_url = TELEGRAM_API_BASE @ lit ''/bot'' @ env_text (br_env rt) ''TELEGRAM_BOT_TOKEN'' @ lit ''/sendMessage'',
      rq_query = [], rq_method = lit ''POST'',
      rq_headers = [(lit ''content-type'', lit ''application/json'')],
      rq_body = JsonBody (JObj (
        [(lit ''chat_id'', JStr (env_text (br_env rt) ''TELEGRAM_CHAT_ID'')),
         (lit ''text'', JStr message),
         (lit ''disable_web_page_preview'', JBool (so_noPreview opts))] @
        (case so_parseMode opts of None \<Rightarrow> [] | Some m \<Rightarrow> [(lit ''parse_mode'', JStr m)])))\<rparr>"

definition net_printer :: "bot_runtime \<Rightarrow> printer" where
  "net_printer rt = \<lparr>pr_num = n_fmt (br_net rt), pr_date = n_date (br_net rt)\<rparr>"

definition opt_text :: "jstr option \<Rightarrow> jsval" where
  "opt_text m = (case m of None \<Rightarrow> JNull | Some s \<Rightarrow> JStr s)"

definition api_response :: "bot_runtime \<Rightarrow> http_response \<Rightarrow> jsval \<Rightarrow> bool \<Rightarrow> jsval" where
  "api_response rt response responseBody sent =
     JObj [(lit ''ok'', JBool (opt_prop responseBody ''ok'' = JBool True)),
       (lit ''httpStatus'', JNum (Fin (of_nat (rs_status response)))),
       (lit ''errorCode'', js_or (opt_prop responseBody ''error_code'') JNull),
       (lit ''descriptionPresent'',
          JBool (case opt_prop responseBody ''description'' of JStr _ \<Rightarrow> True | _ \<Rightarrow> False)),
       (lit ''result'',
          if \<not> sent then JNull
          else
            let result = opt_prop responseBody ''result'';
                chat = js_or (opt_prop (opt_prop result ''chat'') ''id'')
                         (JStr (env_text (br_env rt) ''TELEGRAM_CHAT_ID''))
            in JObj [(lit ''messageId'', js_or (opt_prop result ''message_id'') JNull),
                 (lit ''chat'', opt_text (redactChatId rt (text_of (net_printer rt) chat))),
                 (lit ''date'', js_or (opt_prop result ''date'') JNull)])]"

definition after_response :: "bot_runtime \<Rightarrow> send_record \<Rightarrow> http_response \<Rightarrow> send_record" where
  "after_response rt ready response =
     (let responseBody = (case rs_json response of Inl _ \<Rightarrow> JNull | Inr b \<Rightarrow> b);
          sent = (rs_ok response \<and> opt_prop responseBody ''ok'' = JBool True)
      in ready\<lparr>sr_sent := sent, sr_providerCalled := True,
          sr_outcome := (if sent then lit ''confirmed'' else lit ''rejected''),
          sr_apiResponse := api_response rt response responseBody sent,
          sr_error := (if sent then None else Some (lit ''telegram_provider_rejected''))\<rparr>)"

definition after_error :: "bot_runtime \<Rightarrow> send_record \<Rightarrow> js_error \<Rightarrow> send_record" where
  "after_error rt ready error =
     ready\<lparr>sr_sent := False, sr_providerCalled := True, sr_outcome := lit ''unknown'',
       sr_error := Some (if br_isTimeout rt error then lit ''telegram_request_timeout''
                         else lit ''telegram_request_failed'')\<rparr>"

definition audit_record :: "bot_runtime \<Rightarrow> jstr \<Rightarrow> jstr \<Rightarrow> send_options \<Rightarrow> send_record" where
  "audit_record rt requestedChatId message opts =
     \<lparr>sr_timestamp = to_iso (br_now rt),
      sr_chatId = redactChatId rt
        (or_text (env_text (br_env rt) ''TELEGRAM_CHAT_ID'') requestedChatId),
      sr_textDigest = br_sha256 rt message, sr_textLength = length message,
      sr_parseMode = so_parseMode opts,
      sr_readiness = readinessView (resolveTelegramGatewayConfig (br_env rt) None),
      sr_sent = False, sr_dryRun = so_dryRun opts, sr_providerCalled = False,
      sr_outcome = lit ''none'', sr_apiResponse = JNull, sr_error = None\<rparr>"

definition requested_chat :: "bot_runtime \<Rightarrow> jstr \<Rightarrow> jstr" where
  "requested_chat rt chatId = trim (or_text chatId (env_text (br_env rt) ''TELEGRAM_CHAT_ID''))"

definition sendTelegramMessage ::
  "bot_runtime \<Rightarrow> jstr \<Rightarrow> jstr \<Rightarrow> send_options \<Rightarrow> send_record netop" where
  "sendTelegramMessage rt chatId message opts =
     (let requestedChatId = requested_chat rt chatId;
          auditRecord = audit_record rt requestedChatId message opts
      in case send_refusal rt requestedChatId message (so_dryRun opts) of
           Some e \<Rightarrow> io_return (auditRecord\<lparr>sr_error := Some e\<rparr>)
         | None \<Rightarrow>
             io_bind (checkTelegramSendReady rt (so_gate opts) True) (\<lambda>readiness.
               let readyRecord = auditRecord\<lparr>sr_readiness := readiness\<rparr> in
               if \<not> rv_ready readiness
               then io_return (readyRecord\<lparr>sr_error := Some
                      (case gv_reason (rv_gate readiness) of
                         None \<Rightarrow> lit ''telegram_live_send_not_ready'' | Some r \<Rightarrow> r)\<rparr>)
               else io_catch
                 (io_bind (fetch (br_net rt) (telegram_request rt message opts)) (\<lambda>response.
                    io_return (after_response rt readyRecord response)))
                 (\<lambda>error. io_return (after_error rt readyRecord error))))"

definition sendTelegramAlert ::
  "bot_runtime \<Rightarrow> jstr option \<Rightarrow> jstr \<Rightarrow> send_options \<Rightarrow> send_record netop" where
  "sendTelegramAlert rt prefix text opts =
     sendTelegramMessage rt (env_or_empty (br_env rt) ''TELEGRAM_CHAT_ID'')
       ((case truthy_text prefix of Some p \<Rightarrow> p
         | None \<Rightarrow> [0x26A0, 0xFE0F] @ lit '' SIRINX Alert'') @ [10, 10] @ text) opts"

definition sendTelegramNotification ::
  "bot_runtime \<Rightarrow> jstr option \<Rightarrow> jstr \<Rightarrow> send_options \<Rightarrow> send_record netop" where
  "sendTelegramNotification rt prefix text opts =
     sendTelegramMessage rt (env_or_empty (br_env rt) ''TELEGRAM_CHAT_ID'')
       ((case truthy_text prefix of Some p \<Rightarrow> p
         | None \<Rightarrow> [0x2139, 0xFE0F] @ lit '' SIRINX Notification'') @ [10, 10] @ text) opts"

section \<open>The bearer check\<close>

record authorization =
  az_configured :: bool
  az_authorized :: bool
  az_reason :: "jstr option"

definition BEARER_PREFIX :: "rx list" where
  "BEARER_PREFIX = [RStart, RText (lit ''Bearer''), RClass c_space 1 None]"

text \<open>
  The headers are those of a Node request: a dictionary with names in lower case. Comparing
  the UTF-8 bytes of two texts in constant time is comparing the texts.
\<close>

definition authorizeControlRequest :: "(jstr, jstr) dict \<Rightarrow> process_env \<Rightarrow> authorization" where
  "authorizeControlRequest headers pe =
     (let expectedToken = env_text pe ''CONTROL_API_TOKEN'' in
      if expectedToken = []
      then \<lparr>az_configured = False, az_authorized = False, az_reason = Some (lit ''control_api_token_missing'')\<rparr>
      else
        let authorization = (case dict_get headers (lit ''authorization'') of None \<Rightarrow> [] | Some h \<Rightarrow> h)
        in case rx_capture True BEARER_PREFIX (RClass c_any 1 None) [REnd] authorization of
             None \<Rightarrow> \<lparr>az_configured = True, az_authorized = False, az_reason = Some (lit ''bearer_token_missing'')\<rparr>
           | Some token \<Rightarrow>
               if token = expectedToken
               then \<lparr>az_configured = True, az_authorized = True, az_reason = None\<rparr>
               else \<lparr>az_configured = True, az_authorized = False, az_reason = Some (lit ''bearer_token_invalid'')\<rparr>)"

section \<open>What has to hold before the provider is called\<close>

lemma send_refusal_None_iff:
  "send_refusal rt requested message dryRun = None \<longleftrightarrow>
     env_text (br_env rt) ''TELEGRAM_CHAT_ID'' \<noteq> [] \<and>
     requested = env_text (br_env rt) ''TELEGRAM_CHAT_ID'' \<and>
     env_text (br_env rt) ''TELEGRAM_BOT_TOKEN'' \<noteq> [] \<and>
     trim message \<noteq> [] \<and> length message \<le> TELEGRAM_MAX_TEXT_LENGTH \<and> \<not> dryRun"
  by (auto simp: send_refusal_def Let_def)

lemma live_ready:
  "gc_liveSendReady (resolveTelegramGatewayConfig pe (Some e)) \<longleftrightarrow>
     gateway_missing pe = [] \<and> ge_open e \<and> ge_authoritative e \<and> ge_fresh e"
  by (auto simp: resolveTelegramGatewayConfig_def Let_def)

lemma audit_record_idle [simp]:
  "\<not> sr_sent (audit_record rt c m opts)" "\<not> sr_providerCalled (audit_record rt c m opts)"
  by (simp_all add: audit_record_def)

lemma after_called [simp]:
  "sr_providerCalled (after_response rt rec response)" "sr_providerCalled (after_error rt rec e)"
  by (simp_all add: after_response_def after_error_def Let_def)

text \<open>
  What a call of the sender can do, given the evidence \<open>e\<close> it reads: nothing when a check
  fails, a gate read when the gate holds, and a gate read and one request otherwise.
\<close>

lemma send_steps:
  assumes gate: "readTelegramSendGate rt (so_gate opts) sent = (Inr e, sent1)"
  shows "sendTelegramMessage rt chatId message opts sent =
    (case send_refusal rt (requested_chat rt chatId) message (so_dryRun opts) of
       Some err \<Rightarrow> (Inr (audit_record rt (requested_chat rt chatId) message opts\<lparr>sr_error := Some err\<rparr>), sent)
     | None \<Rightarrow>
         let view = readinessView (resolveTelegramGatewayConfig (br_env rt) (Some e));
             ready = audit_record rt (requested_chat rt chatId) message opts\<lparr>sr_readiness := view\<rparr>
         in if \<not> rv_ready view
            then (Inr (ready\<lparr>sr_error := Some (case gv_reason (rv_gate view) of
                    None \<Rightarrow> lit ''telegram_live_send_not_ready'' | Some r \<Rightarrow> r)\<rparr>), sent1)
            else (Inr (case n_fetch (br_net rt) sent1 (telegram_request rt message opts) of
                    Inl err \<Rightarrow> after_error rt ready err
                  | Inr response \<Rightarrow> after_response rt ready response),
                  sent1 @ [telegram_request rt message opts]))"
proof -
  have check: "checkTelegramSendReady rt (so_gate opts) True sent =
      (Inr (readinessView (resolveTelegramGatewayConfig (br_env rt) (Some e))), sent1)"
    by (simp add: checkTelegramSendReady_def resolveTelegramGatewayReadiness_def io_bind_def gate
        io_return_def)
  show ?thesis
    unfolding sendTelegramMessage_def Let_def
    by (cases "send_refusal rt (requested_chat rt chatId) message (so_dryRun opts)")
       (auto simp: io_bind_def check io_return_def io_catch_def fetch_def split: sum.splits)
qed

lemma send_message_gated:
  assumes "sendTelegramMessage rt chatId message opts sent = (r, sent')"
  shows "\<exists>rec. r = Inr rec \<and>
    (if sr_providerCalled rec
     then \<not> so_dryRun opts \<and> trim message \<noteq> [] \<and> length message \<le> TELEGRAM_MAX_TEXT_LENGTH \<and>
       requested_chat rt chatId = env_text (br_env rt) ''TELEGRAM_CHAT_ID'' \<and>
       gateway_missing (br_env rt) = [] \<and>
       sent' \<in> (\<lambda>pre. pre @ [telegram_request rt message opts])
          ` {sent, sent @ [control_request rt (so_gate opts)]} \<and>
       (\<not> truthy (go_gate (so_gate opts)) \<longrightarrow>
          (\<exists>response. n_fetch (br_net rt) sent (control_request rt (so_gate opts)) = Inr response \<and>
                      durable_answer rt (max_age (so_gate opts)) response))
     else \<not> sr_sent rec \<and> sent' \<in> {sent, sent @ [control_request rt (so_gate opts)]})"
proof -
  obtain e sent1 where g: "readTelegramSendGate rt (so_gate opts) sent = (Inr e, sent1)"
    and s1: "sent1 \<in> {sent, sent @ [control_request rt (so_gate opts)]}"
    using read_gate_returns [of rt "so_gate opts" sent] by auto
  let ?view = "readinessView (resolveTelegramGatewayConfig (br_env rt) (Some e))"
  note run = assms [unfolded send_steps [OF g]]
  show ?thesis
  proof (cases "send_refusal rt (requested_chat rt chatId) message (so_dryRun opts)")
    case (Some err)
    with run show ?thesis
      by (intro exI [of _ "audit_record rt (requested_chat rt chatId) message opts\<lparr>sr_error := Some err\<rparr>"])
         auto
  next
    case None
    note checks = None [unfolded send_refusal_None_iff]
    show ?thesis
    proof (cases "rv_ready ?view")
      case False
      with run None s1 show ?thesis by (auto simp: Let_def)
    next
      case True
      then have l: "gateway_missing (br_env rt) = []" "ge_open e"
        by (simp_all add: readinessView_def live_ready)
      have "\<not> truthy (go_gate (so_gate opts)) \<longrightarrow>
          (\<exists>response. n_fetch (br_net rt) sent (control_request rt (so_gate opts)) = Inr response \<and>
                      durable_answer rt (max_age (so_gate opts)) response)"
        using read_gate_open [OF _ g] l(2) by auto
      moreover obtain rec where "r = Inr rec" and "sr_providerCalled rec"
        and "sent' = sent1 @ [telegram_request rt message opts]"
        using run None True by (cases "n_fetch (br_net rt) sent1 (telegram_request rt message opts)")
          (auto simp: Let_def)
      moreover note checks l(1) s1
      ultimately show ?thesis by (intro exI [of _ rec]) auto
    qed
  qed
qed

text \<open>
  C11. A call never throws. It calls the provider only when it is no dry run, the message is
  non-empty and within the limit, the destination is the configured chat, the configuration
  lacks nothing and, unless a test injects a gate, the control service has just answered with
  a durable open gate; then it issues exactly one message request, last. Otherwise nothing
  was sent and at most the gate was read.
\<close>

theorem send_gated:
  assumes "sendTelegramMessage rt chatId message opts sent = (r, sent')"
  shows "\<exists>rec. r = Inr rec \<and>
    (if sr_providerCalled rec
     then \<not> so_dryRun opts \<and> trim message \<noteq> [] \<and> length message \<le> TELEGRAM_MAX_TEXT_LENGTH \<and>
       requested_chat rt chatId = env_text (br_env rt) ''TELEGRAM_CHAT_ID'' \<and>
       gateway_missing (br_env rt) = [] \<and>
       sent' \<in> (\<lambda>pre. pre @ [telegram_request rt message opts])
          ` {sent, sent @ [control_request rt (so_gate opts)]} \<and>
       (\<not> truthy (go_gate (so_gate opts)) \<longrightarrow>
          (\<exists>response. n_fetch (br_net rt) sent (control_request rt (so_gate opts)) = Inr response \<and>
                      durable_answer rt (max_age (so_gate opts)) response))
     else \<not> sr_sent rec \<and> sent' \<in> {sent, sent @ [control_request rt (so_gate opts)]})"
  using assms by (rule send_message_gated)

definition live_options :: send_options where
  "live_options = \<lparr>so_parseMode = None, so_noPreview = True, so_dryRun = False, so_gate = no_options\<rparr>"

lemma sample_env_texts:
  "env_text bot_env ''TELEGRAM_CHAT_ID'' = lit ''7''" "env_text bot_env ''TELEGRAM_BOT_TOKEN'' = lit ''b''"
  by (simp_all add: bot_env_def env_text_def env_or_empty_def)
     (simp_all add: lit_def trim_def trim_start_def trim_end_def is_space_def)

lemma sample_send_ready:
  "send_refusal (sample_bot bot_env open_answer) (requested_chat (sample_bot bot_env open_answer) [])
     (lit ''hi'') False = None"
  "gateway_missing bot_env = []"
proof -
  have e: "br_env (sample_bot bot_env open_answer) = bot_env" by (simp add: sample_bot_def)
  have h: "trim (lit ''hi'') \<noteq> []" "trim (lit ''7'') = lit ''7''" "trim (lit ''1'') = lit ''1''"
    by (simp_all add: lit_def trim_def trim_start_def trim_end_def is_space_def)
  have c: "env_or_empty bot_env ''TELEGRAM_CHAT_ID'' = lit ''7''"
    by (simp add: bot_env_def env_or_empty_def)
  have "requested_chat (sample_bot bot_env open_answer) [] = lit ''7''"
    by (simp add: requested_chat_def or_text_def e sample_env_texts h)
  then show "send_refusal (sample_bot bot_env open_answer) (requested_chat (sample_bot bot_env open_answer) [])
     (lit ''hi'') False = None"
    by (simp add: send_refusal_None_iff e sample_env_texts h TELEGRAM_MAX_TEXT_LENGTH_def)
  have "split_on 0x2C (lit ''1'') = [lit ''1'']" by (simp add: lit_def)
  then have "parseCommaList (env_or_empty bot_env ''TELEGRAM_OWNER_IDS'') \<noteq> []"
    by (simp add: parseCommaList_def bot_env_def env_or_empty_def h)
  then show "gateway_missing bot_env = []"
    by (simp add: gateway_missing_def pushed_def sample_env_texts) (simp add: bot_env_def)
qed

theorem send_gated_witness:
  "\<exists>rec sent'. sendTelegramMessage (sample_bot bot_env open_answer) [] (lit ''hi'') live_options [] =
     (Inr rec, sent') \<and> sr_providerCalled rec \<and>
     (\<exists>pre. sent' = pre @ [telegram_request (sample_bot bot_env open_answer) (lit ''hi'') live_options])"
proof -
  let ?rt = "sample_bot bot_env open_answer"
  obtain e where e: "readTelegramSendGate ?rt (so_gate live_options) [] =
      (Inr e, [control_request ?rt no_options])" "ge_open e" "ge_authoritative e" "ge_fresh e"
    using sample_gate_open by (auto simp: live_options_def)
  have env: "br_env ?rt = bot_env" by (simp add: sample_bot_def)
  have "rv_ready (readinessView (resolveTelegramGatewayConfig bot_env (Some e)))"
    using e sample_send_ready(2) by (simp add: readinessView_def live_ready)
  then obtain rec sent' where run: "sendTelegramMessage ?rt [] (lit ''hi'') live_options [] = (Inr rec, sent')"
    and c: "sr_providerCalled rec"
    using send_steps [OF e(1), of "[]" "lit ''hi''"] sample_send_ready(1)
    by (auto simp: live_options_def env Let_def split: sum.splits)
  from send_gated [OF run] c show ?thesis using run c by auto
qed

text \<open>A live request is authorised only by the configured token.\<close>

lemma authorized_token:
  "az_authorized (authorizeControlRequest headers pe) \<Longrightarrow>
     env_text pe ''CONTROL_API_TOKEN'' \<noteq> [] \<and>
     (\<exists>h. dict_get headers (lit ''authorization'') = Some h \<and>
        rx_capture True BEARER_PREFIX (RClass c_any 1 None) [REnd] h = Some (env_text pe ''CONTROL_API_TOKEN''))"
proof -
  have "rx_capture True BEARER_PREFIX (RClass c_any 1 None) [REnd] [] = None"
    by (simp add: rx_capture_def rx_groups_def BEARER_PREFIX_def lit_def)
  then show "az_authorized (authorizeControlRequest headers pe) \<Longrightarrow> ?thesis"
    by (auto simp: authorizeControlRequest_def Let_def split: if_splits option.splits)
qed

text \<open>The bearer token \<open>c\<close> is read from its header.\<close>

lemma sample_bearer:
  "rx_capture True BEARER_PREFIX (RClass c_any 1 None) [REnd] (lit ''Bearer c'') = Some (lit ''c'')"
  by (simp add: rx_capture_def rx_groups_def BEARER_PREFIX_def lit_def same_unit_def other_case_def
      run_length_def in_range_def c_any_def c_space_def is_space_def upt_rec)

lemma sample_authorized:
  "authorizeControlRequest [(lit ''authorization'', lit ''Bearer c'')] bot_env =
     \<lparr>az_configured = True, az_authorized = True, az_reason = None\<rparr>"
proof -
  have "lit ''c'' \<noteq> []" by (simp add: lit_def)
  then show ?thesis by (simp add: authorizeControlRequest_def bot_env_token sample_bearer [unfolded One_nat_def])
qed

end
