(* ===== verification/TelegramStore.thy ===== *)
theory TelegramStore
  imports JsMap JsDate Prelude
begin

text \<open>
  The idempotency store of the Telegram bot
  (\<open>createInMemoryIdempotencyStore\<close> in \<open>services/telegram-command-bot/src/index.mjs\<close>). A call
  looks its key up and either replays, conflicts, is refused or starts a producer; between the
  start of a producer and its end other calls run, so the store is a step relation. An entry
  is identified by the number of the call that made it, as the object in the source is.
\<close>

section \<open>Entries\<close>

record store_entry =
  en_id :: nat
  en_fingerprint :: jstr
  en_expiresAt :: time
  en_settled :: bool

type_synonym entries = "(jstr, store_entry) dict"

definition DEFAULT_IDEMPOTENCY_MAX_ENTRIES :: nat where
  "DEFAULT_IDEMPOTENCY_MAX_ENTRIES = 128"

definition DEFAULT_IDEMPOTENCY_TTL_MS :: time where
  "DEFAULT_IDEMPOTENCY_TTL_MS = 10 * 60 * 1000"

definition removeExpired :: "time \<Rightarrow> entries \<Rightarrow> entries" where
  "removeExpired currentTime m =
     filter (\<lambda>(k, e). \<not> (en_expiresAt e \<le> currentTime \<and> en_settled e)) m"

fun delete_first_settled :: "entries \<Rightarrow> entries option" where
  "delete_first_settled [] = None"
| "delete_first_settled ((k, e) # m) =
     (if en_settled e then Some m else map_option (Cons (k, e)) (delete_first_settled m))"

definition makeRoom :: "nat \<Rightarrow> time \<Rightarrow> entries \<Rightarrow> bool \<times> entries" where
  "makeRoom maxEntries currentTime m =
     (let m1 = removeExpired currentTime m in
      if length m1 < maxEntries then (True, m1)
      else case delete_first_settled m1 of None \<Rightarrow> (False, m1) | Some m2 \<Rightarrow> (True, m2))"

datatype begun = Conflict | Full | Replay nat | Start

text \<open>
  The part of \<open>execute\<close> before the first \<open>await\<close>, run without interruption: \<open>i\<close> is the
  identity of the entry a start creates.
\<close>

definition begin_execute ::
  "nat \<Rightarrow> time \<Rightarrow> nat \<Rightarrow> jstr \<Rightarrow> jstr \<Rightarrow> time \<Rightarrow> entries \<Rightarrow> begun \<times> entries" where
  "begin_execute maxEntries ttlMs i key fingerprint currentTime m =
     (let m1 = removeExpired currentTime m in
      case dict_get m1 key of
        Some e \<Rightarrow> (if en_fingerprint e \<noteq> fingerprint then Conflict else Replay (en_id e), m1)
      | None \<Rightarrow>
          (case makeRoom maxEntries currentTime m1 of
             (False, m2) \<Rightarrow> (Full, m2)
           | (True, m2) \<Rightarrow>
               (Start, dict_set key \<lparr>en_id = i, en_fingerprint = fingerprint,
                  en_expiresAt = currentTime + ttlMs, en_settled = False\<rparr> m2)))"

text \<open>The producer returned: its entry is settled, wherever it is.\<close>

definition settle :: "nat \<Rightarrow> time \<Rightarrow> entries \<Rightarrow> entries" where
  "settle i expires m =
     map (\<lambda>(k, e). (k, if en_id e = i then e\<lparr>en_settled := True, en_expiresAt := expires\<rparr> else e)) m"

section \<open>The store as a state machine\<close>

text \<open>
  \<open>ss_running\<close> holds the producers in flight with identity, key and fingerprint, \<open>ss_started\<close>
  every producer ever started, \<open>ss_receipts\<close> the results of the finished ones, and
  \<open>ss_replayed\<close> the calls answered with another call's receipt.
\<close>

record 'r store =
  ss_entries :: entries
  ss_next :: nat
  ss_running :: "(nat \<times> jstr \<times> jstr) list"
  ss_started :: "(nat \<times> jstr \<times> jstr) list"
  ss_receipts :: "(nat \<times> 'r result) list"
  ss_replayed :: "(nat \<times> jstr \<times> jstr) list"

definition empty_store :: "'r store" where
  "empty_store =
     \<lparr>ss_entries = [], ss_next = 0, ss_running = [], ss_started = [], ss_receipts = [],
      ss_replayed = []\<rparr>"

definition store_call :: "nat \<Rightarrow> time \<Rightarrow> jstr \<Rightarrow> jstr \<Rightarrow> time \<Rightarrow> 'r store \<Rightarrow> begun \<times> 'r store" where
  "store_call maxEntries ttlMs key fingerprint now s =
     (case begin_execute maxEntries ttlMs (ss_next s) key fingerprint now (ss_entries s) of
        (Start, m) \<Rightarrow>
          (Start, s\<lparr>ss_entries := m, ss_next := Suc (ss_next s),
             ss_running := (ss_next s, key, fingerprint) # ss_running s,
             ss_started := (ss_next s, key, fingerprint) # ss_started s\<rparr>)
      | (Replay i, m) \<Rightarrow>
          (Replay i, s\<lparr>ss_entries := m, ss_replayed := (i, key, fingerprint) # ss_replayed s\<rparr>)
      | (b, m) \<Rightarrow> (b, s\<lparr>ss_entries := m\<rparr>))"

text \<open>\<open>entries.delete(key)\<close> when the producer throws deletes by key.\<close>

definition store_finish :: "time \<Rightarrow> time \<Rightarrow> nat \<times> jstr \<times> jstr \<Rightarrow> 'r result \<Rightarrow> 'r store \<Rightarrow> 'r store" where
  "store_finish ttlMs now p r s =
     (case p of (i, key, fingerprint) \<Rightarrow>
        s\<lparr>ss_entries := (case r of Inr _ \<Rightarrow> settle i (now + ttlMs) (ss_entries s)
                                | Inl _ \<Rightarrow> dict_without key (ss_entries s)),
          ss_running := removeAll p (ss_running s),
          ss_receipts := (i, r) # ss_receipts s\<rparr>)"

inductive store_step :: "nat \<Rightarrow> time \<Rightarrow> 'r store \<Rightarrow> 'r store \<Rightarrow> bool" for maxEntries ttlMs where
  call: "store_step maxEntries ttlMs s (snd (store_call maxEntries ttlMs key fingerprint now s))"
| finish: "p \<in> set (ss_running s) \<Longrightarrow> store_step maxEntries ttlMs s (store_finish ttlMs now p r s)"

inductive reachable_store :: "nat \<Rightarrow> time \<Rightarrow> 'r store \<Rightarrow> bool" for maxEntries ttlMs where
  start: "reachable_store maxEntries ttlMs empty_store"
| step: "reachable_store maxEntries ttlMs s \<Longrightarrow> store_step maxEntries ttlMs s t \<Longrightarrow>
     reachable_store maxEntries ttlMs t"

section \<open>Making room\<close>

text \<open>\<open>trims m' m\<close>: \<open>m'\<close> is \<open>m\<close> without some settled entries.\<close>

definition entry_ids :: "entries \<Rightarrow> nat list" where
  "entry_ids m = map (\<lambda>x. en_id (snd x)) m"

definition trims :: "entries \<Rightarrow> entries \<Rightarrow> bool" where
  "trims m' m \<longleftrightarrow>
     set m' \<subseteq> set m \<and> length m' \<le> length m \<and>
     (\<forall>(k, e) \<in> set m. \<not> en_settled e \<longrightarrow> (k, e) \<in> set m') \<and>
     (distinct (dict_keys m) \<longrightarrow> distinct (dict_keys m')) \<and>
     (distinct (entry_ids m) \<longrightarrow> distinct (entry_ids m'))"

lemma trims_refl [simp]: "trims m m"
  by (auto simp: trims_def)

lemma trims_trans: "trims m3 m2 \<Longrightarrow> trims m2 m1 \<Longrightarrow> trims m3 m1"
  unfolding trims_def by fastforce

lemma trims_removeExpired: "trims (removeExpired now m) m"
  by (auto simp: trims_def removeExpired_def dict_keys_def entry_ids_def distinct_map_filter)

lemma trims_delete_first: "delete_first_settled m = Some m' \<Longrightarrow> trims m' m \<and> length m' < length m"
proof (induction m arbitrary: m' rule: delete_first_settled.induct)
  case 1
  then show ?case by simp
next
  case (2 k e m)
  show ?case
  proof (cases "en_settled e")
    case True
    with 2 show ?thesis by (auto simp: trims_def dict_keys_def entry_ids_def)
  next
    case False
    with 2 obtain m1 where m1: "delete_first_settled m = Some m1" "m' = (k, e) # m1" by auto
    with False 2 have "trims m1 m" "length m1 < length m" by auto
    with m1 show ?thesis by (auto simp: trims_def dict_keys_def entry_ids_def)
  qed
qed

lemma delete_first_None: "delete_first_settled m = None \<longleftrightarrow> (\<forall>(k, e) \<in> set m. \<not> en_settled e)"
  by (induction m rule: delete_first_settled.induct) auto

lemma makeRoom_trims:
  "makeRoom maxEntries now m = (b, m') \<Longrightarrow> trims m' m \<and> (b \<longrightarrow> length m \<le> maxEntries \<longrightarrow> length m' < maxEntries)"
proof -
  assume a: "makeRoom maxEntries now m = (b, m')"
  have t: "trims (removeExpired now m) m" by (rule trims_removeExpired)
  then have l: "length (removeExpired now m) \<le> length m" by (simp add: trims_def)
  show ?thesis
  proof (cases "length (removeExpired now m) < maxEntries")
    case True
    with a t show ?thesis by (auto simp: makeRoom_def Let_def)
  next
    case False
    with a t l show ?thesis
      by (auto simp: makeRoom_def Let_def split: option.splits
          dest!: trims_delete_first intro: trims_trans)
  qed
qed


section \<open>The invariant\<close>

definition unsettled :: "entries \<Rightarrow> (nat \<times> jstr \<times> jstr) set" where
  "unsettled m = set (map (\<lambda>x. (en_id (snd x), fst x, en_fingerprint (snd x)))
                      (filter (\<lambda>x. \<not> en_settled (snd x)) m))"

text \<open>
  Keys and identities are distinct, the store is within its bound, the unsettled entries are
  exactly the running producers, and a replay refers to a producer started under the same key
  and fingerprint.
\<close>

definition store_inv :: "nat \<Rightarrow> 'r store \<Rightarrow> bool" where
  "store_inv maxEntries s \<longleftrightarrow>
     distinct (dict_keys (ss_entries s)) \<and> distinct (entry_ids (ss_entries s)) \<and>
     (\<forall>i \<in> set (entry_ids (ss_entries s)). i < ss_next s) \<and>
     length (ss_entries s) \<le> maxEntries \<and>
     unsettled (ss_entries s) = set (ss_running s) \<and>
     (\<forall>(k, e) \<in> set (ss_entries s). (en_id e, k, en_fingerprint e) \<in> set (ss_started s)) \<and>
     set (ss_replayed s) \<subseteq> set (ss_started s) \<and>
     set (ss_running s) \<subseteq> set (ss_started s) \<and>
     distinct (map fst (ss_started s)) \<and> (\<forall>p \<in> set (ss_started s). fst p < ss_next s)"

lemma trims_unsettled: "trims m' m \<Longrightarrow> unsettled m' = unsettled m"
  by (auto simp: trims_def unsettled_def image_iff)

lemma store_inv_trims:
  assumes "store_inv n s" and "trims m (ss_entries s)"
  shows "store_inv n (s\<lparr>ss_entries := m\<rparr>)"
proof -
  have "set (entry_ids m) \<subseteq> set (entry_ids (ss_entries s))"
    using assms(2) by (auto simp: trims_def entry_ids_def)
  with assms trims_unsettled [OF assms(2)] show ?thesis
    unfolding store_inv_def trims_def by auto
qed

lemma begin_cases:
  assumes "begin_execute n ttl i key fp now m = (b, m')"
  obtains (conflict) "b = Conflict" "trims m' m"
  | (replay) e where "b = Replay (en_id e)" "trims m' m" "(key, e) \<in> set m" "en_fingerprint e = fp"
  | (full) "b = Full" "trims m' m"
  | (begun) m2 where "b = Start" "trims m2 m" "key \<notin> set (dict_keys m2)"
      "length m \<le> n \<longrightarrow> length m2 < n"
      "m' = m2 @ [(key, \<lparr>en_id = i, en_fingerprint = fp, en_expiresAt = now + ttl, en_settled = False\<rparr>)]"
proof (cases "dict_get (removeExpired now m) key")
  case (Some e)
  then have "(key, e) \<in> set (removeExpired now m)" by (simp add: dict_get_def map_of_SomeD)
  then have "(key, e) \<in> set m" by (simp add: removeExpired_def)
  with assms Some trims_removeExpired [of now m] conflict replay show ?thesis
    by (auto simp: begin_execute_def Let_def split: if_splits)
next
  case None
  obtain r m2 where r: "makeRoom n now (removeExpired now m) = (r, m2)" by force
  then have t: "trims m2 (removeExpired now m)"
    "r \<Longrightarrow> length (removeExpired now m) \<le> n \<Longrightarrow> length m2 < n"
    using makeRoom_trims by blast+
  with trims_removeExpired [of now m] have t2: "trims m2 m" by (rule_tac trims_trans)
  show ?thesis
  proof (cases r)
    case False
    with assms None r t2 full show ?thesis by (simp add: begin_execute_def Let_def)
  next
    case True
    have l: "length m \<le> n \<longrightarrow> length m2 < n"
      using t(2) [OF True] trims_removeExpired [of now m] by (simp add: trims_def)
    have "key \<notin> set (dict_keys (removeExpired now m))" using None by (simp add: dict_get_None_iff)
    with t(1) have "key \<notin> set (dict_keys m2)" by (auto simp: trims_def dict_keys_def)
    moreover have "dict_set key v m2 = m2 @ [(key, v)]" if "key \<notin> set (dict_keys m2)" for v
      using that by (induction key v m2 rule: dict_set.induct) (auto simp: dict_keys_def)
    ultimately show ?thesis
      using assms None r True t2 l begun [of m2] by (simp add: begin_execute_def Let_def)
  qed
qed

lemma store_call_inv:
  assumes "store_inv n s"
  shows "store_inv n (snd (store_call n ttl key fp now s))"
proof -
  obtain b m' where r: "begin_execute n ttl (ss_next s) key fp now (ss_entries s) = (b, m')" by force
  from r show ?thesis
  proof (cases rule: begin_cases)
    case conflict
    with r store_inv_trims [OF assms] show ?thesis by (simp add: store_call_def)
  next
    case (replay e)
    then have "(en_id e, key, fp) \<in> set (ss_started s)"
      using assms unfolding store_inv_def by fastforce
    with replay r store_inv_trims [OF assms replay(2)] show ?thesis
      by (simp add: store_call_def store_inv_def)
  next
    case full
    with r store_inv_trims [OF assms] show ?thesis by (simp add: store_call_def)
  next
    case (begun m2)
    let ?e = "\<lparr>en_id = ss_next s, en_fingerprint = fp, en_expiresAt = now + ttl, en_settled = False\<rparr>"
    have i: "store_inv n (s\<lparr>ss_entries := m2\<rparr>)" by (rule store_inv_trims [OF assms begun(2)])
    have u: "unsettled (m2 @ [(key, ?e)]) = insert (ss_next s, key, fp) (unsettled m2)"
      by (auto simp: unsettled_def)
    have fresh: "ss_next s \<notin> set (entry_ids m2)" "ss_next s \<notin> fst ` set (ss_started s)"
      using i by (auto simp: store_inv_def)
    from begun(4) assms have "length m2 < n" by (simp add: store_inv_def)
    with i u fresh begun r show ?thesis
      by (auto simp: store_call_def store_inv_def dict_keys_def entry_ids_def less_Suc_eq)
  qed
qed

lemma settle_keys [simp]: "dict_keys (settle i t m) = dict_keys m"
  by (induction m) (auto simp: settle_def dict_keys_def)

lemma settle_ids [simp]: "entry_ids (settle i t m) = entry_ids m"
  by (induction m) (auto simp: settle_def entry_ids_def)

lemma length_settle [simp]: "length (settle i t m) = length m"
  by (simp add: settle_def)

lemma unsettled_Cons:
  "unsettled (x # m) =
     (if en_settled (snd x) then unsettled m
      else insert (en_id (snd x), fst x, en_fingerprint (snd x)) (unsettled m))"
  by (simp add: unsettled_def)

lemma unsettled_settle: "unsettled (settle i t m) = {p \<in> unsettled m. fst p \<noteq> i}"
proof (induction m)
  case Nil
  show ?case by (simp add: settle_def unsettled_def)
next
  case (Cons x m)
  have "settle i t (x # m) =
      (fst x, if en_id (snd x) = i then (snd x)\<lparr>en_settled := True, en_expiresAt := t\<rparr> else snd x)
        # settle i t m"
    by (simp add: settle_def split: prod.split)
  then show ?case
    by (cases "en_settled (snd x)"; cases "en_id (snd x) = i") (auto simp: unsettled_Cons Cons.IH)
qed

lemma unsettled_without:
  "(\<And>x. x \<in> set m \<Longrightarrow> fst x = key \<longleftrightarrow> en_id (snd x) = i) \<Longrightarrow>
     unsettled (dict_without key m) = {q \<in> unsettled m. fst q \<noteq> i}"
proof (induction m)
  case Nil
  show ?case by (simp add: dict_without_def unsettled_def)
next
  case (Cons x m)
  have w: "dict_without key (x # m) =
      (if fst x = key then dict_without key m else x # dict_without key m)"
    by (simp add: dict_without_def split: prod.split)
  from Cons.prems [of x] have "fst x = key \<longleftrightarrow> en_id (snd x) = i" by simp
  with Cons show ?case
    by (cases "en_settled (snd x)"; cases "fst x = key") (auto simp: w unsettled_Cons)
qed

lemma store_finish_inv:
  assumes "store_inv n s" and "p \<in> set (ss_running s)"
  shows "store_inv n (store_finish ttl now p r s)"
proof -
  obtain i key fp where p: "p = (i, key, fp)" by (cases p)
  from assms p have "(i, key, fp) \<in> unsettled (ss_entries s)" by (simp add: store_inv_def)
  then obtain e where e: "(key, e) \<in> set (ss_entries s)" "en_id e = i" "en_fingerprint e = fp"
    by (auto simp: unsettled_def)
  have ids: "inj_on (\<lambda>x. en_id (snd x)) (set (ss_entries s))" and
    keys: "inj_on fst (set (ss_entries s))"
    using assms(1) by (auto simp: store_inv_def entry_ids_def dict_keys_def distinct_map)
  have same: "q = (key, e)" if "q \<in> set (ss_entries s)" "en_id (snd q) = i \<or> fst q = key" for q
    using that e inj_onD [OF ids, of q "(key, e)"] inj_onD [OF keys, of q "(key, e)"] by auto
  have run: "{q \<in> set (ss_running s). fst q \<noteq> i} = set (ss_running s) - {p}"
  proof -
    have "fst q = i \<longleftrightarrow> q = p" if "q \<in> set (ss_running s)" for q
    proof
      assume i: "fst q = i"
      from that assms(1) have "q \<in> unsettled (ss_entries s)" by (simp add: store_inv_def)
      then obtain x where "x \<in> set (ss_entries s)"
        "q = (en_id (snd x), fst x, en_fingerprint (snd x))" by (auto simp: unsettled_def)
      with i same [of x] e p show "q = p" by auto
    next
      assume "q = p"
      with p show "fst q = i" by simp
    qed
    then show ?thesis by blast
  qed
  show ?thesis
  proof (cases r)
    case (Inr x)
    have "(en_id e', k, en_fingerprint e') \<in> set (ss_started s)"
      if "(k, e') \<in> set (settle i t (ss_entries s))" for k e' t
      using that assms(1) by (fastforce simp: settle_def store_inv_def split: if_splits)
    with assms(1) p Inr run show ?thesis
      by (auto simp: store_finish_def store_inv_def unsettled_settle)
  next
    case (Inl err)
    have "unsettled (dict_without key (ss_entries s)) = {q \<in> unsettled (ss_entries s). fst q \<noteq> i}"
    proof (rule unsettled_without)
      fix x assume "x \<in> set (ss_entries s)"
      then show "fst x = key \<longleftrightarrow> en_id (snd x) = i"
        using same [of x] e by (metis fst_conv snd_conv)
    qed
    moreover have "distinct (dict_keys (dict_without key (ss_entries s)))"
      "distinct (entry_ids (dict_without key (ss_entries s)))"
      using assms(1) by (auto simp: store_inv_def dict_without_def dict_keys_def entry_ids_def
          distinct_map_filter)
    moreover have "length (dict_without key (ss_entries s)) \<le> n"
      using assms(1) order_trans [OF length_filter_le]
      by (auto simp: dict_without_def store_inv_def)
    ultimately show ?thesis using assms(1) p Inl run
      by (auto simp: store_finish_def store_inv_def dict_without_def entry_ids_def)
  qed
qed

lemma reachable_store_inv: "reachable_store n ttl s \<Longrightarrow> store_inv n s"
proof (induction rule: reachable_store.induct)
  case start
  show ?case by (simp add: store_inv_def empty_store_def dict_keys_def entry_ids_def unsettled_def)
next
  case (step s t)
  from step.hyps(2) step.IH show ?case
    by (cases rule: store_step.cases) (auto intro: store_call_inv store_finish_inv)
qed

lemma reachable_store_run:
  "rtranclp (store_step n ttl) s u \<Longrightarrow> reachable_store n ttl s \<Longrightarrow> reachable_store n ttl u"
  by (induction rule: rtranclp_induct) (auto intro: reachable_store.step)

section \<open>A finished execution\<close>

text \<open>The entry of execution \<open>i\<close> is in the store under \<open>key\<close>.\<close>

definition keeps_entry :: "jstr \<Rightarrow> nat \<Rightarrow> 'r store \<Rightarrow> bool" where
  "keeps_entry key i st \<longleftrightarrow> (\<exists>e. (key, e) \<in> set (ss_entries st) \<and> en_id e = i)"

text \<open>
  Once an execution has returned, its receipt stays and its entry can be dropped but not changed,
  whatever is called and finished after it.
\<close>

definition has_returned :: "nat \<Rightarrow> jstr \<Rightarrow> jstr \<Rightarrow> time \<Rightarrow> 'r \<Rightarrow> 'r store \<Rightarrow> bool" where
  "has_returned i key fp expires v st \<longleftrightarrow>
     map_of (ss_receipts st) i = Some (Inr v) \<and> i < ss_next st \<and> i \<notin> fst ` set (ss_running st) \<and>
     (\<forall>(k, e) \<in> set (ss_entries st). en_id e = i \<longrightarrow>
        k = key \<and> e = \<lparr>en_id = i, en_fingerprint = fp, en_expiresAt = expires, en_settled = True\<rparr>)"

lemma returned_call:
  assumes "has_returned i key fp expires v s"
  shows "has_returned i key fp expires v (snd (store_call n ttl key' fp' now s))"
proof -
  obtain b m' where b: "begin_execute n ttl (ss_next s) key' fp' now (ss_entries s) = (b, m')" by force
  then show ?thesis
  proof (cases rule: begin_cases)
    case (begun m2)
    then have "set m2 \<subseteq> set (ss_entries s)" by (simp add: trims_def)
    with begun b assms show ?thesis by (auto simp: store_call_def has_returned_def)
  qed (use b assms in \<open>auto simp: store_call_def has_returned_def trims_def\<close>)
qed

lemma settle_other: "(k, e) \<in> set (settle j t m) \<Longrightarrow> en_id e \<noteq> j \<Longrightarrow> (k, e) \<in> set m"
  by (auto simp: settle_def split: if_splits)

lemma returned_finish:
  assumes "has_returned i key fp expires v s" and "p \<in> set (ss_running s)"
  shows "has_returned i key fp expires v (store_finish ttl now p r s)"
proof -
  obtain j k f where p: "p = (j, k, f)" by (cases p)
  with assms have "j \<noteq> i" by (force simp: has_returned_def)
  then have same: "(k', e) \<in> set (settle j t (ss_entries s)) \<and> en_id e = i \<Longrightarrow> (k', e) \<in> set (ss_entries s)" for k' e t
    using settle_other by blast
  from assms p \<open>j \<noteq> i\<close> show ?thesis
    by (cases r) (auto simp: store_finish_def has_returned_def dict_without_def dest: same [OF conjI])
qed

lemma returned_run:
  "rtranclp (store_step n ttl) s u \<Longrightarrow> has_returned i key fp expires v s \<Longrightarrow> has_returned i key fp expires v u"
proof (induction rule: rtranclp_induct)
  case (step t u)
  from step.hyps(2) step.IH [OF step.prems] show ?case
    by (cases rule: store_step.cases) (auto intro: returned_call returned_finish)
qed

lemma returned_entry:
  "has_returned i key fp expires v st \<Longrightarrow> keeps_entry key i st \<Longrightarrow>
    (key, \<lparr>en_id = i, en_fingerprint = fp, en_expiresAt = expires, en_settled = True\<rparr>) \<in> set (ss_entries st)"
  by (auto simp: has_returned_def keeps_entry_def)

text \<open>While its entry is held, the next call before it expires replays it.\<close>

lemma returned_replays:
  assumes "has_returned i key fp expires v st" and "store_inv n st" and "keeps_entry key i st" and "now < expires"
  shows "\<exists>st'. store_call n ttl key fp now st = (Replay i, st') \<and> ss_receipts st' = ss_receipts st"
proof -
  let ?e = "\<lparr>en_id = i, en_fingerprint = fp, en_expiresAt = expires, en_settled = True\<rparr>"
  have "(key, ?e) \<in> set (removeExpired now (ss_entries st))"
    using returned_entry [OF assms(1,3)] assms(4) by (simp add: removeExpired_def)
  moreover have "distinct (dict_keys (removeExpired now (ss_entries st)))"
    using assms(2) trims_removeExpired [of now "ss_entries st"] by (simp add: store_inv_def trims_def)
  ultimately have "dict_get (removeExpired now (ss_entries st)) key = Some ?e"
    by (simp add: dict_get_def dict_keys_def)
  then show ?thesis by (simp add: store_call_def begin_execute_def Let_def)
qed

text \<open>A call before it expires drops it only from a full store.\<close>

lemma held_call:
  assumes "has_returned i key fp expires v st" and "keeps_entry key i st" and "now < expires"
    and "length (ss_entries st) < n"
  shows "keeps_entry key i (snd (store_call n ttl key' fp' now st))"
proof -
  have e: "(key, \<lparr>en_id = i, en_fingerprint = fp, en_expiresAt = expires, en_settled = True\<rparr>) \<in>
      set (removeExpired now (ss_entries st))"
    using returned_entry [OF assms(1,2)] assms(3) by (simp add: removeExpired_def)
  have short: "length (removeExpired now (ss_entries st)) < n"
    using assms(4) trims_removeExpired [of now "ss_entries st"] by (simp add: trims_def)
  have idem: "removeExpired now (removeExpired now m) = removeExpired now m" for m
    by (simp add: removeExpired_def)
  have new: "(key, e) \<in> set (dict_set key' x m)" if "(key, e) \<in> set m" "dict_get m key' = None" for x m e
    using that by (induction key' x m rule: dict_set.induct) (auto simp: dict_get_def split: if_splits)
  show ?thesis
    using e short new [OF e]
    by (force simp: keeps_entry_def store_call_def begin_execute_def Let_def makeRoom_def idem
        split: option.splits)
qed

section \<open>What clients may rely on\<close>

text \<open>
  C16. However calls and completions interleave: the store holds at most its bound, under distinct
  keys, at most one producer runs per key, a producer that is running keeps its entry (so a retry replays or
  conflicts and never starts a second one), and a call that replays gets the receipt of a
  producer started under its own key and fingerprint.
\<close>

theorem idempotent_store:
  assumes "reachable_store maxEntries ttlMs s"
  shows "length (ss_entries s) \<le> maxEntries \<and> distinct (dict_keys (ss_entries s)) \<and>
    (\<forall>(i, k, fp) \<in> set (ss_running s).
       (\<forall>(j, k', fp') \<in> set (ss_running s). k' = k \<longrightarrow> j = i \<and> fp' = fp) \<and>
       (\<forall>fp' now. fst (store_call maxEntries ttlMs k fp' now s) =
                  (if fp' = fp then Replay i else Conflict))) \<and>
    set (ss_replayed s) \<subseteq> set (ss_started s)"
proof -
  have inv: "store_inv maxEntries s" using assms by (rule reachable_store_inv)
  have live: "fst (store_call maxEntries ttlMs k fp' now s) = (if fp' = fp then Replay i else Conflict)"
    and one: "\<forall>(j, k', fp') \<in> set (ss_running s). k' = k \<longrightarrow> j = i \<and> fp' = fp"
    if r: "(i, k, fp) \<in> set (ss_running s)" for i k fp fp' now
  proof -
    from r inv have "(i, k, fp) \<in> unsettled (ss_entries s)" by (simp add: store_inv_def)
    then obtain e where e: "(k, e) \<in> set (ss_entries s)" "en_id e = i" "en_fingerprint e = fp" "\<not> en_settled e"
      by (auto simp: unsettled_def)
    then have "(k, e) \<in> set (removeExpired now (ss_entries s))" by (simp add: removeExpired_def)
    moreover have "distinct (dict_keys (removeExpired now (ss_entries s)))"
      using inv trims_removeExpired [of now "ss_entries s"] by (simp add: store_inv_def trims_def)
    ultimately have "dict_get (removeExpired now (ss_entries s)) k = Some e"
      by (simp add: dict_get_def dict_keys_def)
    with e show "fst (store_call maxEntries ttlMs k fp' now s) = (if fp' = fp then Replay i else Conflict)"
      by (simp add: store_call_def begin_execute_def Let_def)
    have keys: "inj_on fst (set (ss_entries s))"
      using inv by (simp add: store_inv_def dict_keys_def distinct_map)
    have "j = i \<and> fp2 = fp" if "(j, k, fp2) \<in> set (ss_running s)" for j fp2
    proof -
      from that inv have "(j, k, fp2) \<in> unsettled (ss_entries s)" by (simp add: store_inv_def)
      then obtain e2 where "(k, e2) \<in> set (ss_entries s)" "en_id e2 = j" "en_fingerprint e2 = fp2"
        by (auto simp: unsettled_def)
      with e inj_onD [OF keys, of "(k, e2)" "(k, e)"] show ?thesis by auto
    qed
    then show "\<forall>(j, k', fp') \<in> set (ss_running s). k' = k \<longrightarrow> j = i \<and> fp' = fp" by auto
  qed
  have "case p of (i, k, fp) \<Rightarrow>
       (\<forall>(j, k', fp') \<in> set (ss_running s). k' = k \<longrightarrow> j = i \<and> fp' = fp) \<and>
       (\<forall>fp' now. fst (store_call maxEntries ttlMs k fp' now s) =
                  (if fp' = fp then Replay i else Conflict))"
    if "p \<in> set (ss_running s)" for p
  proof -
    obtain i k fp where p: "p = (i, k, fp)" by (rule prod_cases3)
    with that live [of i k fp] one [of i k fp] show ?thesis by simp
  qed
  with inv show ?thesis by (simp add: store_inv_def)
qed

theorem idempotent_store_witness:
  "\<exists>s :: nat store. reachable_store 1 5 s \<and> ss_running s \<noteq> [] \<and> length (ss_entries s) \<le> 1"
proof -
  let ?s = "snd (store_call 1 5 [1] [2] 0 (empty_store :: nat store))"
  have r: "reachable_store 1 5 ?s"
    by (rule reachable_store.step [OF reachable_store.start store_step.call])
  moreover have "ss_running ?s \<noteq> []"
    by (simp add: store_call_def empty_store_def begin_execute_def removeExpired_def makeRoom_def Let_def)
  ultimately show ?thesis using idempotent_store [OF r] by blast
qed

text \<open>
  The bound is kept by dropping the oldest settled entry, expired or not. When the store is
  full of settled entries, one new key makes a retry of the oldest key run its producer again
  although its time to live is not over.
\<close>

theorem eviction_forgets:
  assumes "ss_entries s = (k, e) # (k2, e2) # m" and "length (ss_entries s) = maxEntries"
    and "\<forall>(k', e') \<in> set (ss_entries s). en_settled e' \<and> now < en_expiresAt e'"
    and "distinct (key # dict_keys (ss_entries s))"
  shows "fst (store_call maxEntries ttlMs k (en_fingerprint e) now s) = Replay (en_id e) \<and>
    fst (store_call maxEntries ttlMs k (en_fingerprint e) now
      (snd (store_call maxEntries ttlMs key fp now s))) = Start"
proof
  let ?new = "\<lparr>en_id = ss_next s, en_fingerprint = fp, en_expiresAt = now + ttlMs, en_settled = False\<rparr>"
  have r: "removeExpired now (ss_entries s) = ss_entries s"
    using assms(3) by (auto simp: removeExpired_def filter_id_conv)
  show "fst (store_call maxEntries ttlMs k (en_fingerprint e) now s) = Replay (en_id e)"
    using assms(1) r by (simp add: store_call_def begin_execute_def Let_def)
  have room: "makeRoom maxEntries now (ss_entries s) = (True, (k2, e2) # m)"
    using assms r by (simp add: makeRoom_def Let_def)
  have "dict_get (ss_entries s) key = None" using assms(4) by (simp add: dict_get_None_iff)
  moreover have "dict_set key v ((k2, e2) # m) = (k2, e2) # m @ [(key, v)]" for v
  proof -
    have "dict_set key v m' = m' @ [(key, v)]" if "key \<notin> set (dict_keys m')" for m'
      using that by (induction key v m' rule: dict_set.induct) (auto simp: dict_keys_def)
    from this [of m] assms(1,4) show ?thesis by (simp add: dict_keys_def)
  qed
  ultimately have after: "ss_entries (snd (store_call maxEntries ttlMs key fp now s)) =
      (k2, e2) # m @ [(key, ?new)]"
    using r room by (simp add: store_call_def begin_execute_def Let_def)
  let ?s = "snd (store_call maxEntries ttlMs key fp now s)"
  have r2: "removeExpired now ((k2, e2) # m @ [(key, ?new)]) = (k2, e2) # m @ [(key, ?new)]"
    using assms(1,3) by (auto simp: removeExpired_def filter_id_conv)
  have "dict_get ((k2, e2) # m @ [(key, ?new)]) k = None"
    using assms(1,4) by (auto simp: dict_get_None_iff dict_keys_def)
  moreover have "fst (makeRoom maxEntries now ((k2, e2) # m @ [(key, ?new)]))"
    using assms(1,3) r2 by (simp add: makeRoom_def Let_def)
  ultimately show "fst (store_call maxEntries ttlMs k (en_fingerprint e) now ?s) = Start"
    using after r2 by (auto simp: store_call_def [of _ _ k] begin_execute_def Let_def split: prod.splits bool.splits)
qed

definition full_store :: "nat store" where
  "full_store =
     \<lparr>ss_entries = [([1], \<lparr>en_id = 0, en_fingerprint = [9], en_expiresAt = 50, en_settled = True\<rparr>),
        ([2], \<lparr>en_id = 1, en_fingerprint = [9], en_expiresAt = 50, en_settled = True\<rparr>)],
      ss_next = 2, ss_running = [], ss_started = [], ss_receipts = [], ss_replayed = []\<rparr>"

theorem eviction_forgets_witness:
  "fst (store_call 2 100 [1] [9] 0 (snd (store_call 2 100 [3] [9] 0 full_store))) = Start"
proof -
  let ?e = "\<lambda>i. \<lparr>en_id = i, en_fingerprint = [9], en_expiresAt = 50, en_settled = True\<rparr>"
  have "ss_entries full_store = ([1], ?e 0) # ([2], ?e 1) # []" by (simp add: full_store_def)
  from eviction_forgets [OF this, of 2 0 "[3]" 100 "[9]"] show ?thesis
    by (simp add: full_store_def dict_keys_def)
qed

end
