(* ===== verification/TelegramServer.thy ===== *)
theory TelegramServer
  imports TelegramSender TelegramStore JsConvert
begin

text \<open>
  The HTTP server of the Telegram bot (\<open>services/telegram-command-bot/src/index.mjs\<close>): CORS,
  body reading with its limits, validation, the webhook inspection, and \<open>/send\<close> with bearer
  check, idempotency key and the sender. One request is handled at a time here; how the
  idempotency store behaves when requests overlap is the subject of \<open>TelegramStore\<close>.
\<close>

section \<open>Requests, responses and state\<close>

record bot_server =
  sv_rt :: bot_runtime
  sv_path :: "jstr \<Rightarrow> jstr result"
  sv_options :: gate_options
  sv_maxBodyBytes :: nat
  sv_maxEntries :: nat
  sv_ttlMs :: time

record bot_request =
  tq_method :: jstr
  tq_url :: jstr
  tq_headers :: "(jstr, jstr) dict"
  tq_chunks :: "nat list list"

datatype reply_body =
    ReplyObject jsobj
  | ReplyConfig gateway_config
  | ReplyRecord send_record

record bot_response =
  ts_status :: nat
  ts_body :: reply_body
  ts_cors :: "jstr option"
  ts_headers :: "(jstr, jstr) dict"

record bot_state =
  bs_store :: "(nat \<times> send_record) store"
  bs_sent :: "http_request list"

type_synonym 'a botop = "(bot_state, 'a) io"

definition on_log :: "'a netop \<Rightarrow> 'a botop" where
  "on_log m = io_zoom bs_sent (\<lambda>l s. s\<lparr>bs_sent := l\<rparr>) m"

definition request_header :: "bot_request \<Rightarrow> string \<Rightarrow> jstr" where
  "request_header rq name = (case dict_get (tq_headers rq) (lit name) of None \<Rightarrow> [] | Some v \<Rightarrow> v)"

definition HttpRequestError :: "nat \<Rightarrow> string \<Rightarrow> js_error" where
  "HttpRequestError statusCode code = JsHttpError statusCode (lit code)"

definition DEFAULT_MAX_REQUEST_BODY_BYTES :: nat where
  "DEFAULT_MAX_REQUEST_BODY_BYTES = 16 * 1024"

definition DESTINATION_FIELDS :: "jstr list" where
  "DESTINATION_FIELDS = map lit [''chatId'', ''chat_id'', ''destination'', ''destinationId'', ''to'']"

definition SEND_FIELDS :: "jstr list" where
  "SEND_FIELDS = map lit [''text'', ''dryRun'', ''parseMode'']"

definition IDEMPOTENCY_KEY_PATTERN :: rx where
  "IDEMPOTENCY_KEY_PATTERN =
     RSeq [RStart, RClass (Chars False False
        (c_alnum @ [(0x2E, 0x2E), (0x5F, 0x5F), (0x3A, 0x3A), (0x2D, 0x2D)])) 1 (Some 128), REnd]"

section \<open>CORS\<close>

definition configuredOrigins :: "process_env \<Rightarrow> jstr list" where
  "configuredOrigins pe = parseCommaList (env_or_empty pe ''TELEGRAM_ALLOWED_ORIGINS'')"

definition isLoopbackOrigin :: "bot_runtime \<Rightarrow> jstr \<Rightarrow> bool" where
  "isLoopbackOrigin rt origin \<longleftrightarrow>
     (case br_url rt origin of
        Inl _ \<Rightarrow> False
      | Inr u \<Rightarrow> up_protocol u \<in> {lit ''http:'', lit ''https:''} \<and>
          up_hostname u \<in> {lit ''127.0.0.1'', lit ''localhost'', lit ''[::1]''} \<and>
          up_origin u = origin)"

text \<open>\<open>None\<close>: denied; \<open>Some None\<close>: no origin given.\<close>

definition resolveCorsOrigin :: "bot_server \<Rightarrow> bot_request \<Rightarrow> jstr option option" where
  "resolveCorsOrigin sv rq =
     (let origin = trim (request_header rq ''origin'') in
      if origin = [] then Some None
      else if isLoopbackOrigin (sv_rt sv) origin \<or> origin \<in> set (configuredOrigins (br_env (sv_rt sv)))
      then Some (Some origin) else None)"

section \<open>Reading and validating bodies\<close>

text \<open>The loop over the chunks: what was kept, the size so far, whether it was exceeded.\<close>

fun read_chunks :: "nat \<Rightarrow> nat list list \<Rightarrow> nat list \<times> nat \<times> bool \<Rightarrow> nat list \<times> nat \<times> bool" where
  "read_chunks maxBodyBytes [] acc = acc"
| "read_chunks maxBodyBytes (chunk # cs) (kept, sofar, exceeded) =
     (let size' = sofar + length chunk in
      if maxBodyBytes < size' then read_chunks maxBodyBytes cs ([], size', True)
      else read_chunks maxBodyBytes cs (if exceeded then kept else kept @ chunk, size', exceeded))"

definition readJson :: "bot_server \<Rightarrow> bot_request \<Rightarrow> jsval result" where
  "readJson sv rq =
     (if \<not> starts_with (lit ''application/json'') (to_lower (request_header rq ''content-type''))
      then Inl (HttpRequestError 415 ''content_type_must_be_application_json'')
      else
        let contentLength =
              (case dict_get (tq_headers rq) (lit ''content-length'') of
                 None \<Rightarrow> NaN | Some s \<Rightarrow> string_number s)
        in if is_finite contentLength \<and> Fin (of_nat (sv_maxBodyBytes sv)) < contentLength
           then Inl (HttpRequestError 413 ''request_body_too_large'')
           else case read_chunks (sv_maxBodyBytes sv) (tq_chunks rq) ([], 0, False) of
             (bytes, sofar, exceeded) \<Rightarrow>
               if exceeded then Inl (HttpRequestError 413 ''request_body_too_large'')
               else
                 let raw = br_decode (sv_rt sv) bytes in
                 if raw = [] then Inr (JObj [])
                 else case br_parse (sv_rt sv) raw of
                   Inl _ \<Rightarrow> Inl (HttpRequestError 400 ''invalid_json'')
                 | Inr v \<Rightarrow> Inr v)"

definition validateObjectBody :: "jsval \<Rightarrow> jsobj result" where
  "validateObjectBody body =
     (case body of
        JObj fs \<Rightarrow> Inr fs
      | JDate _ \<Rightarrow> Inr []
      | _ \<Rightarrow> Inl (HttpRequestError 422 ''request_body_must_be_object''))"

definition field_error :: "jstr \<Rightarrow> js_error option" where
  "field_error f =
     (if f \<in> set DESTINATION_FIELDS then Some (HttpRequestError 422 ''telegram_destination_override_blocked'')
      else if f \<notin> set SEND_FIELDS then Some (HttpRequestError 422 ''unsupported_send_field'')
      else None)"

record send_request =
  sq_text :: jstr
  sq_dryRun :: bool
  sq_parseMode :: "jstr option"

definition send_fields :: "jsobj \<Rightarrow> send_request result" where
  "send_fields body =
     (if get body ''dryRun'' \<noteq> JUndef \<and> \<not> (\<exists>b \<in> {True, False}. get body ''dryRun'' = JBool b)
      then Inl (HttpRequestError 422 ''dry_run_must_be_boolean'')
      else case get body ''text'' of
        JStr text \<Rightarrow>
          if trim text = [] then Inl (HttpRequestError 422 ''missing_message_text'')
          else if get body ''parseMode'' \<notin>
            {JUndef, JNull, JStr (lit ''HTML''), JStr (lit ''MarkdownV2'')}
          then Inl (HttpRequestError 422 ''parse_mode_invalid'')
          else Inr \<lparr>sq_text = trim text, sq_dryRun = (get body ''dryRun'' \<noteq> JBool False),
                    sq_parseMode = str_of (get body ''parseMode'')\<rparr>
      | _ \<Rightarrow> Inl (HttpRequestError 422 ''missing_message_text''))"

definition validateSendBody :: "jsval \<Rightarrow> send_request result" where
  "validateSendBody body_val =
     result_bind (validateObjectBody body_val) (\<lambda>body.
       case List.find (\<lambda>f. field_error f \<noteq> None) (object_keys body) of
         Some f \<Rightarrow> Inl (the (field_error f))
       | None \<Rightarrow> send_fields body)"

definition idempotencyFingerprint :: "bot_runtime \<Rightarrow> jsobj \<Rightarrow> jstr" where
  "idempotencyFingerprint rt body =
     br_sha256 rt
       (case json (n_fmt (br_net rt)) (JObj
          [(lit ''text'', get body ''text''), (lit ''dryRun'', get body ''dryRun''),
           (lit ''parseModePresent'', JBool (dict_get body (lit ''parseMode'') \<noteq> None)),
           (lit ''parseMode'', js_nullish (get body ''parseMode'') JNull),
           (lit ''destination'', JStr (env_or_empty (br_env rt) ''TELEGRAM_CHAT_ID''))]) of
          None \<Rightarrow> [] | Some s \<Rightarrow> s)"

section \<open>The webhook\<close>

definition handleWebhook :: "bot_runtime \<Rightarrow> jsobj \<Rightarrow> gateway_config \<Rightarrow> jsobj" where
  "handleWebhook rt body config =
     (let message = first_truthy [get body ''message'', get body ''edited_message'', get body ''channel_post'']
                      (JObj []);
          text = trim (text_of (net_printer rt)
                   (first_truthy [opt_prop message ''text'', opt_prop message ''caption''] (JStr [])));
          chat = js_or (opt_prop message ''chat'') (JObj []);
          from_user = js_or (opt_prop message ''from'') (JObj []);
          ownerIds = (if 0 < gc_ownerCount config
            then map trim (split_on 0x2C (env_or_empty (br_env rt) ''TELEGRAM_OWNER_IDS'')) else []);
          isOwner = (truthy (opt_prop from_user ''id'') \<and>
            text_of (net_printer rt) (opt_prop from_user ''id'') \<in> set ownerIds)
      in [(lit ''ok'', JBool True), (lit ''dryRun'', JBool True),
          (lit ''telegramUpdateProcessed'', JBool False), (lit ''messageSent'', JBool False),
          (lit ''providerCalled'', JBool False), (lit ''commandExecuted'', JBool False),
          (lit ''webhook'', JObj
             [(lit ''updateId'', js_or (get body ''update_id'') JNull),
              (lit ''chatId'', js_or (opt_prop chat ''id'') JNull),
              (lit ''chatType'', js_or (opt_prop chat ''type'') JNull),
              (lit ''userId'', js_or (opt_prop from_user ''id'') JNull),
              (lit ''isOwner'', JBool isOwner), (lit ''text'', JStr text),
              (lit ''allowedCommands'', JArr (map JStr (gc_allowedCommands config)))]),
          (lit ''gates'', JObj
             [(lit ''telegram_send'', JStr (gv_state (gc_gate config))),
              (lit ''envReady'', JBool (gc_envReady config)),
              (lit ''liveSendReady'', JBool (gc_liveSendReady config))]),
          (lit ''guardrail'',
             JStr (lit ''Webhook inspection is dry-run only; no provider or command execution occurred.''))])"

section \<open>Sending\<close>

definition receiptStatus :: "send_record \<Rightarrow> bool \<Rightarrow> nat" where
  "receiptStatus result dryRun =
     (if dryRun then 200 else if sr_sent result then 200
      else if sr_providerCalled result then 502 else 409)"

definition send_options_of :: "bot_server \<Rightarrow> send_request \<Rightarrow> send_options" where
  "send_options_of sv sq =
     \<lparr>so_parseMode = sq_parseMode sq, so_noPreview = True, so_dryRun = sq_dryRun sq,
      so_gate = sv_options sv\<rparr>"

definition send_message :: "bot_server \<Rightarrow> send_request \<Rightarrow> send_record netop" where
  "send_message sv sq =
     sendTelegramMessage (sv_rt sv) (env_or_empty (br_env (sv_rt sv)) ''TELEGRAM_CHAT_ID'')
       (sq_text sq) (send_options_of sv sq)"

datatype execution = Executed bool nat send_record | Conflicted | Busy

text \<open>\<open>store.execute(key, fingerprint, producer)\<close> when no other call runs meanwhile.\<close>

definition execute_send :: "bot_server \<Rightarrow> jstr \<Rightarrow> jstr \<Rightarrow> send_request \<Rightarrow> execution botop" where
  "execute_send sv key fingerprint sq =
     (\<lambda>s. case store_call (sv_maxEntries sv) (sv_ttlMs sv) key fingerprint (br_now (sv_rt sv)) (bs_store s) of
        (Conflict, st) \<Rightarrow> (Inr Conflicted, s\<lparr>bs_store := st\<rparr>)
      | (Full, st) \<Rightarrow> (Inr Busy, s\<lparr>bs_store := st\<rparr>)
      | (Replay i, st) \<Rightarrow>
          (case map_of (ss_receipts st) i of
             Some (Inr (status, rec)) \<Rightarrow> (Inr (Executed True status rec), s\<lparr>bs_store := st\<rparr>)
           | Some (Inl e) \<Rightarrow> (Inl e, s\<lparr>bs_store := st\<rparr>)
           | None \<Rightarrow> (Inl (JsThrown (lit ''pending'')), s\<lparr>bs_store := st\<rparr>))
      | (Start, st) \<Rightarrow>
          (let i = ss_next (bs_store s);
               finished = (\<lambda>r. store_finish (sv_ttlMs sv) (br_now (sv_rt sv)) (i, key, fingerprint) r st)
           in case send_message sv sq (bs_sent s) of
                (Inr rec, sent') \<Rightarrow>
                  (Inr (Executed False (receiptStatus rec False) rec),
                   s\<lparr>bs_store := finished (Inr (receiptStatus rec False, rec)), bs_sent := sent'\<rparr>)
              | (Inl e, sent') \<Rightarrow> (Inl e, s\<lparr>bs_store := finished (Inl e), bs_sent := sent'\<rparr>)))"

definition answer :: "nat \<Rightarrow> reply_body \<Rightarrow> jstr option \<Rightarrow> bot_response" where
  "answer status body cors = \<lparr>ts_status = status, ts_body = body, ts_cors = cors, ts_headers = []\<rparr>"

definition refusal :: "string \<Rightarrow> (jstr \<times> jsval) list \<Rightarrow> jsobj" where
  "refusal status extra =
     [(lit ''ok'', JBool False), (lit ''status'', JStr (lit status))] @ extra @
     [(lit ''sent'', JBool False), (lit ''providerCalled'', JBool False)]"

definition send_live :: "bot_server \<Rightarrow> bot_request \<Rightarrow> jstr option \<Rightarrow> jsobj \<Rightarrow> send_request \<Rightarrow> bot_response botop" where
  "send_live sv rq cors body sq =
     (let auth = authorizeControlRequest (tq_headers rq) (br_env (sv_rt sv));
          key = trim (request_header rq ''idempotency-key'')
      in if \<not> az_configured auth
         then io_return (answer 503 (ReplyObject (refusal ''control_auth_unavailable''
                [(lit ''error'', JStr (lit ''control_api_token_missing''))])) cors)
         else if \<not> az_authorized auth
         then io_return ((answer 401 (ReplyObject (refusal ''unauthorized_live_send''
                [(lit ''error'', JStr (lit ''bearer_token_required''))])) cors)
                \<lparr>ts_headers := [(lit ''www-authenticate'', lit ''Bearer'')]\<rparr>)
         else if key = [] then io_return (answer 400 (ReplyObject (refusal ''idempotency_key_required'' [])) cors)
         else if \<not> rx_test False IDEMPOTENCY_KEY_PATTERN key
         then io_return (answer 400 (ReplyObject (refusal ''idempotency_key_invalid'' [])) cors)
         else io_bind (execute_send sv key (idempotencyFingerprint (sv_rt sv) body) sq) (\<lambda>x.
           io_return (case x of
               Conflicted \<Rightarrow> answer 409 (ReplyObject (refusal ''idempotency_key_conflict'' [])) cors
             | Busy \<Rightarrow> answer 503 (ReplyObject (refusal ''idempotency_store_busy'' [])) cors
             | Executed replay status rec \<Rightarrow>
                 (answer status (ReplyRecord rec) cors)
                   \<lparr>ts_headers := (if replay then [(lit ''idempotency-replayed'', lit ''true'')] else [])\<rparr>)))"

definition handle_send :: "bot_server \<Rightarrow> bot_request \<Rightarrow> jstr option \<Rightarrow> bot_response botop" where
  "handle_send sv rq cors =
     io_bind (io_result (readJson sv rq)) (\<lambda>body_val.
     io_bind (io_result (validateSendBody body_val)) (\<lambda>sq.
       if \<not> sq_dryRun sq
       then send_live sv rq cors (case body_val of JObj fs \<Rightarrow> fs | _ \<Rightarrow> []) sq
       else io_bind (on_log (send_message sv sq)) (\<lambda>result.
              io_return (answer (receiptStatus result True) (ReplyRecord result) cors))))"

section \<open>The dispatcher\<close>

definition readiness_op :: "bot_server \<Rightarrow> gateway_config botop" where
  "readiness_op sv = on_log (resolveTelegramGatewayReadiness (sv_rt sv) (sv_options sv))"

definition health_body :: "gateway_config \<Rightarrow> jsobj" where
  "health_body c =
     [(lit ''status'', JStr (lit ''ok'')), (lit ''service'', JStr (lit ''telegram-command-bot'')),
      (lit ''mode'', JStr (gc_mode c)), (lit ''envReady'', JBool (gc_envReady c)),
      (lit ''liveSendReady'', JBool (gc_liveSendReady c)), (lit ''externalWrites'', JBool False)]"

definition dispatch :: "bot_server \<Rightarrow> bot_request \<Rightarrow> bot_response botop" where
  "dispatch sv rq =
     (case resolveCorsOrigin sv rq of
        None \<Rightarrow> io_return (answer 403 (ReplyObject
                  [(lit ''ok'', JBool False), (lit ''status'', JStr (lit ''cors_origin_denied''))]) None)
      | Some cors \<Rightarrow>
          io_bind (io_result (sv_path sv (or_text (tq_url rq) (lit ''/'')))) (\<lambda>pathname.
            if tq_method rq = lit ''OPTIONS'' then io_return (answer 204 (ReplyObject []) cors)
            else if tq_method rq = lit ''GET'' \<and> pathname = lit ''/health''
            then io_bind (readiness_op sv) (\<lambda>c. io_return (answer 200 (ReplyObject (health_body c)) cors))
            else if tq_method rq = lit ''GET'' \<and> (pathname = lit ''/status'' \<or> pathname = lit ''/'')
            then io_bind (readiness_op sv) (\<lambda>c. io_return (answer 200 (ReplyConfig c) cors))
            else if tq_method rq = lit ''POST'' \<and> pathname = lit ''/webhook''
            then io_bind (io_result (readJson sv rq)) (\<lambda>body.
                 io_bind (readiness_op sv) (\<lambda>c.
                 io_bind (io_result (validateObjectBody body)) (\<lambda>fs.
                   io_return (answer 200 (ReplyObject (handleWebhook (sv_rt sv) fs c)) cors))))
            else if tq_method rq = lit ''POST'' \<and> pathname = lit ''/send''
            then handle_send sv rq cors
            else io_return (answer 404 (ReplyObject
                   [(lit ''ok'', JBool False), (lit ''status'', JStr (lit ''not_found''))]) cors)))"

text \<open>\<open>sanitizedError\<close>.\<close>

fun error_status :: "js_error \<Rightarrow> nat" where
  "error_status (JsHttpError n c) = n"
| "error_status _ = 500"

fun error_code :: "js_error \<Rightarrow> jstr" where
  "error_code (JsHttpError n c) = c"
| "error_code _ = lit ''internal_error''"

definition error_answer :: "bot_server \<Rightarrow> bot_request \<Rightarrow> js_error \<Rightarrow> bot_response" where
  "error_answer sv rq e =
     answer (error_status e)
       (ReplyObject [(lit ''ok'', JBool False), (lit ''status'', JStr (error_code e)),
          (lit ''sent'', JBool False), (lit ''providerCalled'', JBool False),
          (lit ''commandExecuted'', JBool False)])
       (case resolveCorsOrigin sv rq of None \<Rightarrow> None | Some cors \<Rightarrow> cors)"

definition handle_request :: "bot_server \<Rightarrow> bot_request \<Rightarrow> bot_response botop" where
  "handle_request sv rq = io_catch (dispatch sv rq) (\<lambda>e. io_return (error_answer sv rq e))"

lemma io_bind_result [simp]:
  "io_bind (io_result (Inr x)) f = f x" "io_bind (io_result (Inl e)) f = io_throw e"
  by (simp_all add: io_defs)

section \<open>Bodies are bounded\<close>

lemma read_chunks_exceeded: "snd (snd (read_chunks n cs (kept, sofar, True)))"
  by (induction cs arbitrary: kept sofar) (auto simp: Let_def)

lemma read_chunks_spec:
  "sofar \<le> n \<Longrightarrow>
     (if sofar + length (concat cs) \<le> n
      then read_chunks n cs (kept, sofar, False) = (kept @ concat cs, sofar + length (concat cs), False)
      else snd (snd (read_chunks n cs (kept, sofar, False))))"
proof (induction cs arbitrary: kept sofar)
  case Nil
  then show ?case by simp
next
  case (Cons c cs)
  show ?case
  proof (cases "sofar + length c \<le> n")
    case True
    with Cons.IH [OF True, of "kept @ c"] show ?thesis by (simp add: Let_def add.assoc)
  next
    case False
    then show ?thesis by (simp add: Let_def read_chunks_exceeded)
  qed
qed

text \<open>
  However a body is cut into chunks: when the length it announces, if any, is its own, a body
  above the limit is refused with 413 and any other is parsed as a whole, exactly as if it
  had come in one chunk.
\<close>

theorem body_limit:
  assumes "starts_with (lit ''application/json'') (to_lower (request_header rq ''content-type''))"
    and "\<And>h. dict_get (tq_headers rq) (lit ''content-length'') = Some h \<Longrightarrow>
           string_number h = Fin (of_nat (length (concat (tq_chunks rq))))"
  shows "readJson sv rq =
    (if sv_maxBodyBytes sv < length (concat (tq_chunks rq))
     then Inl (HttpRequestError 413 ''request_body_too_large'')
     else if br_decode (sv_rt sv) (concat (tq_chunks rq)) = [] then Inr (JObj [])
     else case br_parse (sv_rt sv) (br_decode (sv_rt sv) (concat (tq_chunks rq))) of
       Inl _ \<Rightarrow> Inl (HttpRequestError 400 ''invalid_json'')
     | Inr v \<Rightarrow> Inr v)"
proof -
  let ?n = "sv_maxBodyBytes sv" and ?l = "length (concat (tq_chunks rq))"
  have spec: "if ?l \<le> ?n then read_chunks ?n (tq_chunks rq) ([], 0, False) = (concat (tq_chunks rq), ?l, False)
      else snd (snd (read_chunks ?n (tq_chunks rq) ([], 0, False)))"
    using read_chunks_spec [of 0 ?n "tq_chunks rq" "[]"] by simp
  obtain bytes total ex where r: "read_chunks ?n (tq_chunks rq) ([], 0, False) = (bytes, total, ex)"
    by (rule prod_cases3)
  show ?thesis
  proof (cases "?l \<le> ?n")
    case True
    with spec r have "bytes = concat (tq_chunks rq)" "\<not> ex" by auto
    with True r assms show ?thesis
      by (cases "dict_get (tq_headers rq) (lit ''content-length'')")
         (auto simp: readJson_def Let_def is_finite_def)
  next
    case False
    with spec r have "ex" by simp
    with False r assms show ?thesis
      by (cases "dict_get (tq_headers rq) (lit ''content-length'')")
         (auto simp: readJson_def Let_def is_finite_def)
  qed
qed

section \<open>Which requests reach the provider\<close>

text \<open>At most the gate was read.\<close>

definition quiet :: "bot_server \<Rightarrow> http_request list \<Rightarrow> http_request list \<Rightarrow> bool" where
  "quiet sv l l' \<longleftrightarrow> l' \<in> {l, l @ [control_request (sv_rt sv) (sv_options sv)]}"

definition provider_call ::
  "bot_server \<Rightarrow> send_request \<Rightarrow> http_request list \<Rightarrow> http_request list \<Rightarrow> bool" where
  "provider_call sv sq l l' \<longleftrightarrow>
     \<not> sq_dryRun sq \<and> gateway_missing (br_env (sv_rt sv)) = [] \<and>
     l' \<in> (\<lambda>pre. pre @ [telegram_request (sv_rt sv) (sq_text sq) (send_options_of sv sq)])
        ` {l, l @ [control_request (sv_rt sv) (sv_options sv)]} \<and>
     (\<not> truthy (go_gate (sv_options sv)) \<longrightarrow>
        (\<exists>response. n_fetch (br_net (sv_rt sv)) l (control_request (sv_rt sv) (sv_options sv)) = Inr response \<and>
                    durable_answer (sv_rt sv) (max_age (sv_options sv)) response))"

lemma quiet_refl [simp]: "quiet sv l l"
  by (simp add: quiet_def)

lemma send_message_cases:
  assumes "send_message sv sq l = (r, l')"
  shows "\<exists>rec. r = Inr rec \<and> (quiet sv l l' \<or> provider_call sv sq l l')"
proof -
  from assms have "sendTelegramMessage (sv_rt sv) (env_or_empty (br_env (sv_rt sv)) ''TELEGRAM_CHAT_ID'')
       (sq_text sq) (send_options_of sv sq) l = (r, l')"
    by (simp add: send_message_def)
  from send_message_gated [OF this] obtain rec where "r = Inr rec"
    and "if sr_providerCalled rec then provider_call sv sq l l' else quiet sv l l'"
    by (auto simp: provider_call_def quiet_def send_options_of_def split: if_splits)
  then show ?thesis by (auto split: if_splits)
qed

lemma readiness_quiet:
  assumes "readiness_op sv s = (r, s')"
  shows "\<exists>c. r = Inr c \<and> quiet sv (bs_sent s) (bs_sent s') \<and> bs_store s' = bs_store s"
  using read_gate_returns [of "sv_rt sv" "sv_options sv" "bs_sent s"] assms
  by (auto simp: readiness_op_def on_log_def io_zoom_def resolveTelegramGatewayReadiness_def io_bind_def
      io_return_def quiet_def)

lemma execute_send_cases:
  assumes "execute_send sv key fp sq s = (r, s')"
  shows "quiet sv (bs_sent s) (bs_sent s') \<or>
    (fst (store_call (sv_maxEntries sv) (sv_ttlMs sv) key fp (br_now (sv_rt sv)) (bs_store s)) = Start \<and>
     provider_call sv sq (bs_sent s) (bs_sent s'))"
proof -
  obtain b st where b: "store_call (sv_maxEntries sv) (sv_ttlMs sv) key fp (br_now (sv_rt sv)) (bs_store s) = (b, st)"
    by force
  show ?thesis
  proof (cases b)
    case Start
    obtain r1 l1 where l1: "send_message sv sq (bs_sent s) = (r1, l1)" by force
    with send_message_cases obtain rec where "r1 = Inr rec" "quiet sv (bs_sent s) l1 \<or> provider_call sv sq (bs_sent s) l1"
      by blast
    with assms b Start l1 show ?thesis by (auto simp: execute_send_def Let_def)
  next
    case (Replay i)
    with assms b show ?thesis
      by (auto simp: execute_send_def split: option.splits sum.splits)
  qed (use assms b in \<open>auto simp: execute_send_def\<close>)
qed

definition live_send :: "bot_server \<Rightarrow> bot_request \<Rightarrow> bot_state \<Rightarrow> bot_state \<Rightarrow> bool" where
  "live_send sv rq s s' \<longleftrightarrow>
     az_authorized (authorizeControlRequest (tq_headers rq) (br_env (sv_rt sv))) \<and>
     rx_test False IDEMPOTENCY_KEY_PATTERN (trim (request_header rq ''idempotency-key'')) \<and>
     (\<exists>sq fp. provider_call sv sq (bs_sent s) (bs_sent s') \<and>
        fst (store_call (sv_maxEntries sv) (sv_ttlMs sv) (trim (request_header rq ''idempotency-key'')) fp
               (br_now (sv_rt sv)) (bs_store s)) = Start)"

lemma send_live_cases:
  assumes "send_live sv rq cors body sq s = (r, s')"
  shows "quiet sv (bs_sent s) (bs_sent s') \<or> live_send sv rq s s'"
proof -
  let ?key = "trim (request_header rq ''idempotency-key'')"
  show ?thesis
  proof (cases "az_authorized (authorizeControlRequest (tq_headers rq) (br_env (sv_rt sv))) \<and>
      az_configured (authorizeControlRequest (tq_headers rq) (br_env (sv_rt sv))) \<and>
      ?key \<noteq> [] \<and> rx_test False IDEMPOTENCY_KEY_PATTERN ?key")
    case False
    with assms show ?thesis by (auto simp: send_live_def Let_def io_return_def split: if_splits)
  next
    case True
    obtain x s1 where x: "execute_send sv ?key (idempotencyFingerprint (sv_rt sv) body) sq s = (x, s1)"
      by force
    with True assms have "s1 = s'"
      by (cases x) (auto simp: send_live_def Let_def io_bind_def io_return_def)
    with execute_send_cases [OF x] True show ?thesis unfolding live_send_def by blast
  qed
qed

lemma handle_send_cases:
  assumes "handle_send sv rq cors s = (r, s')"
  shows "quiet sv (bs_sent s) (bs_sent s') \<or> live_send sv rq s s'"
proof (cases "result_bind (readJson sv rq) validateSendBody")
  case (Inl e)
  with assms have "s' = s"
    by (cases "readJson sv rq") (auto simp: handle_send_def io_throw_def)
  then show ?thesis by simp
next
  case (Inr sq)
  then obtain v where v: "readJson sv rq = Inr v" "validateSendBody v = Inr sq"
    by (auto simp: result_bind_Inr_iff)
  show ?thesis
  proof (cases "sq_dryRun sq")
    case False
    with assms v have "send_live sv rq cors (case v of JObj fs \<Rightarrow> fs | _ \<Rightarrow> []) sq s = (r, s')"
      by (simp add: handle_send_def)
    then show ?thesis by (rule send_live_cases)
  next
    case True
    obtain r1 l1 where l: "send_message sv sq (bs_sent s) = (r1, l1)" by force
    from send_message_cases [OF l] True have q: "\<exists>rec. r1 = Inr rec" "quiet sv (bs_sent s) l1"
      by (auto simp: provider_call_def)
    with assms v True have "io_bind (on_log (send_message sv sq))
        (\<lambda>result. io_return (answer (receiptStatus result True) (ReplyRecord result) cors)) s = (r, s')"
      by (simp add: handle_send_def)
    with l q(1) have "bs_sent s' = l1"
      by (auto simp: io_bind_def on_log_def io_zoom_def io_return_def)
    with q show ?thesis by simp
  qed
qed

lemma readiness_then_quiet:
  assumes "io_bind (readiness_op sv) f s = (r, s')" and "\<And>c t. snd (f c t) = t"
  shows "quiet sv (bs_sent s) (bs_sent s')"
proof -
  obtain r1 s1 where r1: "readiness_op sv s = (r1, s1)" by force
  with readiness_quiet obtain c where c: "r1 = Inr c" "quiet sv (bs_sent s) (bs_sent s1)" by blast
  with assms(1) r1 have "f c s1 = (r, s')" by (simp add: io_bind_def)
  with assms(2) [of c s1] c show ?thesis by simp
qed

text \<open>The webhook reads the body before it reads the gate.\<close>

lemma webhook_quiet:
  assumes "io_bind (io_result (readJson sv rq)) (\<lambda>body.
      io_bind (readiness_op sv) (\<lambda>c.
      io_bind (io_result (validateObjectBody body)) (\<lambda>fs.
        io_return (answer 200 (ReplyObject (handleWebhook (sv_rt sv) fs c)) cors)))) s = (r, s')"
  shows "quiet sv (bs_sent s) (bs_sent s')"
proof (cases "readJson sv rq")
  case (Inl e)
  with assms show ?thesis by (auto simp: io_throw_def)
next
  case (Inr body)
  have t: "snd (io_bind (io_result (validateObjectBody body)) (\<lambda>fs.
        io_return (answer 200 (ReplyObject (handleWebhook (sv_rt sv) fs c)) cors)) t) = t" for c t
    by (cases "validateObjectBody body") (simp_all add: io_throw_def io_return_def)
  show ?thesis by (rule readiness_then_quiet [OF assms [unfolded Inr io_bind_result] t])
qed

lemma dispatch_sends:
  assumes "resolveCorsOrigin sv rq = Some cors" "sv_path sv (or_text (tq_url rq) (lit ''/'')) = Inr pathname"
    and "dispatch sv rq s = (r, s')"
  shows "quiet sv (bs_sent s) (bs_sent s') \<or>
    (tq_method rq = lit ''POST'' \<and> pathname = lit ''/send'' \<and> live_send sv rq s s')"
proof -
  note run = assms(3) [unfolded dispatch_def assms(1,2) option.case io_bind_result]
  have read: "quiet sv (bs_sent s) (bs_sent s')"
    if "io_bind (readiness_op sv) (\<lambda>c. io_return (f c)) s = (r, s')" for f
    using readiness_then_quiet [OF that] by (simp add: io_return_def)
  consider (options) "tq_method rq = lit ''OPTIONS''"
    | (health) "tq_method rq = lit ''GET''" "pathname = lit ''/health''"
    | (status) "tq_method rq = lit ''GET''" "pathname = lit ''/status'' \<or> pathname = lit ''/''"
    | (webhook) "tq_method rq = lit ''POST''" "pathname = lit ''/webhook''"
    | (send) "tq_method rq = lit ''POST''" "pathname = lit ''/send''"
    | (other) "tq_method rq \<noteq> lit ''OPTIONS''"
      "\<not> (tq_method rq = lit ''GET'' \<and> pathname = lit ''/health'')"
      "\<not> (tq_method rq = lit ''GET'' \<and> (pathname = lit ''/status'' \<or> pathname = lit ''/''))"
      "\<not> (tq_method rq = lit ''POST'' \<and> pathname = lit ''/webhook'')"
      "\<not> (tq_method rq = lit ''POST'' \<and> pathname = lit ''/send'')" by blast
  then show ?thesis
  proof cases
    case options
    with run show ?thesis by (auto simp: io_return_def)
  next
    case health
    with run show ?thesis by (intro disjI1 read) simp
  next
    case status
    with run show ?thesis by (intro disjI1 read) auto
  next
    case webhook
    with run show ?thesis by (intro disjI1 webhook_quiet) simp
  next
    case send
    with run have "handle_send sv rq cors s = (r, s')" by simp
    with handle_send_cases send show ?thesis by blast
  next
    case other
    with run show ?thesis by (simp add: io_return_def)
  qed
qed

text \<open>
  C2. The server answers every request. It calls the provider only for a \<open>POST /send\<close> that is no
  dry run, carries the configured token and a well-formed idempotency key under which the
  store starts a producer, and only as the sender allows: complete configuration and, unless a
  test injects a gate, a durable open gate read in this request. Every other request issues at
  most the question to the control service.
\<close>

theorem live_send_authorised:
  assumes "handle_request sv rq s = (r, s')"
  shows "\<exists>resp. r = Inr resp \<and>
    (quiet sv (bs_sent s) (bs_sent s') \<or>
     (tq_method rq = lit ''POST'' \<and> sv_path sv (or_text (tq_url rq) (lit ''/'')) = Inr (lit ''/send'') \<and>
      live_send sv rq s s'))"
proof -
  obtain r1 where d: "dispatch sv rq s = (r1, s')" and resp: "\<exists>resp. r = Inr resp"
    using assms by (cases "dispatch sv rq s") (auto simp: handle_request_def io_catch_def io_return_def
        split: sum.splits)
  show ?thesis
  proof (cases "\<exists>cors pathname. resolveCorsOrigin sv rq = Some cors \<and>
      sv_path sv (or_text (tq_url rq) (lit ''/'')) = Inr pathname")
    case True
    with dispatch_sends [OF _ _ d] resp show ?thesis by blast
  next
    case False
    with d have "s' = s"
      by (cases "resolveCorsOrigin sv rq"; cases "sv_path sv (or_text (tq_url rq) (lit ''/''))")
        (auto simp: dispatch_def io_return_def io_throw_def)
    with resp show ?thesis by simp
  qed
qed

text \<open>The server at a later time.\<close>

definition at_time :: "time \<Rightarrow> bot_server \<Rightarrow> bot_server" where
  "at_time t sv = sv\<lparr>sv_rt := (sv_rt sv)\<lparr>br_now := t\<rparr>\<rparr>"

text \<open>A live send that starts a producer is a call and a completion of the store.\<close>

lemma execute_send_steps:
  assumes "execute_send sv key fp sq s = (Inr (Executed False status rec), s')"
  shows "rtranclp (store_step (sv_maxEntries sv) (sv_ttlMs sv)) (bs_store s) (bs_store s')" (is ?steps)
    and "keeps_entry key (ss_next (bs_store s)) (bs_store s')" (is ?kept)
    and "reachable_store (sv_maxEntries sv) (sv_ttlMs sv) (bs_store s) \<Longrightarrow>
      has_returned (ss_next (bs_store s)) key fp (br_now (sv_rt sv) + sv_ttlMs sv) (status, rec) (bs_store s')"
      (is "_ \<Longrightarrow> ?returned")
proof -
  let ?now = "br_now (sv_rt sv)" and ?i = "ss_next (bs_store s)"
  obtain b st where b: "store_call (sv_maxEntries sv) (sv_ttlMs sv) key fp ?now (bs_store s) = (b, st)"
    by force
  obtain r1 l1 where l: "send_message sv sq (bs_sent s) = (r1, l1)" by force
  from assms(1) b l have start: "b = Start"
    by (auto simp: execute_send_def Let_def split: begun.splits option.splits sum.splits)
  with assms(1) b l have s': "bs_store s' = store_finish (sv_ttlMs sv) ?now (?i, key, fp) (Inr (status, rec)) st"
    by (auto simp: execute_send_def Let_def split: sum.splits)
  obtain m' where m': "begin_execute (sv_maxEntries sv) (sv_ttlMs sv) ?i key fp ?now (ss_entries (bs_store s)) = (Start, m')"
    and st: "st = (bs_store s)\<lparr>ss_entries := m', ss_next := Suc ?i,
        ss_running := (?i, key, fp) # ss_running (bs_store s), ss_started := (?i, key, fp) # ss_started (bs_store s)\<rparr>"
    using b start by (auto simp: store_call_def split: prod.splits begun.splits)
  let ?e = "\<lparr>en_id = ?i, en_fingerprint = fp, en_expiresAt = ?now + sv_ttlMs sv, en_settled = False\<rparr>"
  obtain m2 where m2: "m' = m2 @ [(key, ?e)]" "trims m2 (ss_entries (bs_store s))"
    using begin_cases [OF m'] by (metis begun.distinct begun.inject)
  have "store_step (sv_maxEntries sv) (sv_ttlMs sv) (bs_store s) st"
    using store_step.call [of "sv_maxEntries sv" "sv_ttlMs sv" "bs_store s" key fp ?now] b by simp
  moreover have "store_step (sv_maxEntries sv) (sv_ttlMs sv) st (bs_store s')"
    unfolding s' by (rule store_step.finish) (simp add: st)
  ultimately show ?steps by (rule converse_rtranclp_into_rtranclp [OF _ r_into_rtranclp])
  let ?done = "?e\<lparr>en_settled := True\<rparr>"
  have entries: "ss_entries (bs_store s') = settle ?i (?now + sv_ttlMs sv) m2 @ [(key, ?done)]"
    by (simp add: s' store_finish_def st m2(1)) (simp add: settle_def)
  show ?kept
    unfolding keeps_entry_def by (rule exI [of _ ?done]) (simp add: entries)
  assume "reachable_store (sv_maxEntries sv) (sv_ttlMs sv) (bs_store s)"
  then have inv: "store_inv (sv_maxEntries sv) (bs_store s)" by (rule reachable_store_inv)
  have fresh: "?i \<notin> fst ` set (ss_running (bs_store s))"
    using inv by (force simp: store_inv_def)
  have "en_id e \<noteq> ?i" if "(k, e) \<in> set m2" for k e
  proof -
    have "(k, e) \<in> set (ss_entries (bs_store s))" using that m2(2) by (auto simp: trims_def)
    then have "en_id e \<in> set (entry_ids (ss_entries (bs_store s)))" by (force simp: entry_ids_def)
    with inv show ?thesis by (auto simp: store_inv_def)
  qed
  then have "en_id e \<noteq> ?i" if "(k, e) \<in> set (settle ?i (?now + sv_ttlMs sv) m2)" for k e
    using that by (auto simp: settle_def)
  moreover have "map_of (ss_receipts (bs_store s')) ?i = Some (Inr (status, rec))" "?i < ss_next (bs_store s')"
      "?i \<notin> fst ` set (ss_running (bs_store s'))"
    using fresh by (auto simp: s' store_finish_def st)
  ultimately show ?returned unfolding has_returned_def entries by auto
qed

text \<open>
  C17. A live send that returned is replayed, and not sent again, for as long as the store keeps
  its entry. Its entry is in the store when it returns. Whatever other calls and completions
  follow, in any order, a repeat with the same key and body before the entry expires gives the
  same status and record if the entry is still there, and reaches neither the provider nor the
  control service. Before it expires, no call removes it from a store that holds less than its
  bound; a full store may.
\<close>

theorem retry_replays:
  assumes "reachable_store (sv_maxEntries sv) (sv_ttlMs sv) (bs_store s)"
    and "execute_send sv key fp sq s = (Inr (Executed False status rec), s')"
    and "rtranclp (store_step (sv_maxEntries sv) (sv_ttlMs sv)) (bs_store s') (bs_store u)"
    and "t < br_now (sv_rt sv) + sv_ttlMs sv"
  shows "keeps_entry key (ss_next (bs_store s)) (bs_store s') \<and>
    (keeps_entry key (ss_next (bs_store s)) (bs_store u) \<longrightarrow>
      (\<exists>u2. execute_send (at_time t sv) key fp sq' u = (Inr (Executed True status rec), u2) \<and> bs_sent u2 = bs_sent u) \<and>
      (length (ss_entries (bs_store u)) < sv_maxEntries sv \<longrightarrow>
        (\<forall>key' fp'. keeps_entry key (ss_next (bs_store s))
           (snd (store_call (sv_maxEntries sv) (sv_ttlMs sv) key' fp' t (bs_store u))))))"
proof -
  let ?i = "ss_next (bs_store s)" and ?expires = "br_now (sv_rt sv) + sv_ttlMs sv"
  note sent = execute_send_steps [OF assms(2)]
  have returned: "has_returned ?i key fp ?expires (status, rec) (bs_store u)"
    using returned_run [OF assms(3) sent(3) [OF assms(1)]] .
  have inv: "store_inv (sv_maxEntries sv) (bs_store u)"
    using reachable_store_run [OF assms(3) reachable_store_run [OF sent(1) assms(1)]] by (rule reachable_store_inv)
  have "\<exists>u2. execute_send (at_time t sv) key fp sq' u = (Inr (Executed True status rec), u2) \<and> bs_sent u2 = bs_sent u"
    if kept: "keeps_entry key ?i (bs_store u)"
  proof -
    obtain st where "store_call (sv_maxEntries sv) (sv_ttlMs sv) key fp t (bs_store u) = (Replay ?i, st)"
        "ss_receipts st = ss_receipts (bs_store u)"
      using returned_replays [OF returned inv kept assms(4)] by blast
    moreover have "map_of (ss_receipts (bs_store u)) ?i = Some (Inr (status, rec))"
      using returned by (simp add: has_returned_def)
    ultimately show ?thesis by (simp add: execute_send_def at_time_def)
  qed
  moreover have "keeps_entry key ?i (snd (store_call (sv_maxEntries sv) (sv_ttlMs sv) key' fp' t (bs_store u)))"
    if "keeps_entry key ?i (bs_store u)" "length (ss_entries (bs_store u)) < sv_maxEntries sv" for key' fp'
    using held_call [OF returned that(1) assms(4) that(2)] .
  ultimately show ?thesis using sent(2) by blast
qed

definition sample_server :: bot_server where
  "sample_server =
     \<lparr>sv_rt = sample_bot bot_env open_answer, sv_path = (\<lambda>u. Inr u), sv_options = no_options,
      sv_maxBodyBytes = DEFAULT_MAX_REQUEST_BODY_BYTES, sv_maxEntries = 128, sv_ttlMs = 600000\<rparr>"

definition sample_send :: send_request where
  "sample_send = \<lparr>sq_text = lit ''hi'', sq_dryRun = False, sq_parseMode = None\<rparr>"

definition idle_state :: bot_state where
  "idle_state = \<lparr>bs_store = empty_store, bs_sent = []\<rparr>"

lemma sample_executes:
  "\<exists>status rec s'. execute_send sample_server (lit ''k'') (lit ''f'') sample_send idle_state =
     (Inr (Executed False status rec), s') \<and> length (ss_entries (bs_store s')) = 1"
proof -
  obtain r l where l: "send_message sample_server sample_send [] = (r, l)" by force
  with send_message_cases obtain rec where "r = Inr rec" by blast
  with l show ?thesis
    by (simp add: execute_send_def idle_state_def empty_store_def store_call_def begin_execute_def
        removeExpired_def makeRoom_def sample_server_def store_finish_def Let_def)
qed

theorem retry_replays_witness:
  "\<exists>status rec s' u s2.
     execute_send sample_server (lit ''k'') (lit ''f'') sample_send idle_state =
       (Inr (Executed False status rec), s') \<and>
     bs_store u = snd (store_call 128 600000 (lit ''other'') (lit ''g'') 1700000400000 (bs_store s')) \<and>
     execute_send (at_time 1700000500000 sample_server) (lit ''k'') (lit ''f'') sample_send u =
       (Inr (Executed True status rec), s2)"
proof -
  obtain status rec s' where e: "execute_send sample_server (lit ''k'') (lit ''f'') sample_send idle_state =
     (Inr (Executed False status rec), s')" and one: "length (ss_entries (bs_store s')) = 1"
    using sample_executes by blast
  let ?u = "s'\<lparr>bs_store := snd (store_call 128 600000 (lit ''other'') (lit ''g'') 1700000400000 (bs_store s'))\<rparr>"
  have r: "reachable_store (sv_maxEntries sample_server) (sv_ttlMs sample_server) (bs_store idle_state)"
    by (simp add: idle_state_def reachable_store.start)
  have t: "t < br_now (sv_rt sample_server) + sv_ttlMs sample_server" if "t \<le> 1700000500000" for t
    using that by (simp add: sample_server_def sample_bot_def)
  have "rtranclp (store_step (sv_maxEntries sample_server) (sv_ttlMs sample_server)) (bs_store s') (bs_store ?u)"
    by (simp add: sample_server_def r_into_rtranclp store_step.call)
  note later = retry_replays [OF r e this t]
  have "length (ss_entries (bs_store s')) < sv_maxEntries sample_server"
    by (simp add: one) (simp add: sample_server_def)
  then have "keeps_entry (lit ''k'') (ss_next (bs_store idle_state)) (bs_store ?u)"
    using retry_replays [OF r e rtranclp.rtrancl_refl t, of 1700000400000] by (simp add: sample_server_def)
  then obtain u2 where u2: "execute_send (at_time 1700000500000 sample_server) (lit ''k'') (lit ''f'') sample_send ?u =
      (Inr (Executed True status rec), u2)"
    using later [of 1700000500000 sample_send] by auto
  show ?thesis
    by (rule exI [of _ status], rule exI [of _ rec], rule exI [of _ s'], rule exI [of _ ?u], rule exI [of _ u2])
      (use e u2 in simp)
qed

theorem body_limit_witness:
  "readJson sample_server \<lparr>tq_method = lit ''POST'', tq_url = lit ''/send'',
     tq_headers = [(lit ''content-type'', lit ''application/json'')],
     tq_chunks = [[0x7B], [0x7D]]\<rparr> = Inr (JStr [0x7B, 0x7D])"
proof -
  let ?rq = "\<lparr>tq_method = lit ''POST'', tq_url = lit ''/send'',
     tq_headers = [(lit ''content-type'', lit ''application/json'')],
     tq_chunks = [[0x7B], [0x7D]]\<rparr>"
  have "starts_with (lit ''application/json'') (to_lower (request_header ?rq ''content-type''))"
    by (simp add: request_header_def lit_def to_lower_def lower_unit_def starts_with_def)
  then show ?thesis
    by (subst body_limit)
       (simp_all add: sample_server_def sample_bot_def DEFAULT_MAX_REQUEST_BODY_BYTES_def)
qed

theorem live_send_authorised_witness:
  "\<exists>resp s'. handle_request sample_server \<lparr>tq_method = lit ''GET'', tq_url = lit ''/health'',
     tq_headers = [], tq_chunks = []\<rparr> idle_state = (Inr resp, s') \<and> length (bs_sent s') \<le> 1"
proof -
  let ?rq = "\<lparr>tq_method = lit ''GET'', tq_url = lit ''/health'', tq_headers = [], tq_chunks = []\<rparr>"
  obtain r s' where h: "handle_request sample_server ?rq idle_state = (r, s')" by force
  from live_send_authorised [OF h] obtain resp where "r = Inr resp"
    and "quiet sample_server (bs_sent idle_state) (bs_sent s')" by auto
  with h show ?thesis by (auto simp: quiet_def idle_state_def)
qed

end
