(* ===== verification/EdgeRouter.thy ===== *)
theory EdgeRouter
  imports JsConvert
begin

text \<open>
  The edge worker (\<open>infra/cloudflare/main-router/src/worker.js\<close>): it redirects the apex
  domain, answers lead submissions from the primary host by storing them in the edge database,
  and passes every other request of the primary host on to the static pages. The database, the
  upstream exchange, the clock and the random identifier are parameters.
\<close>

section \<open>Requests and responses\<close>

text \<open>
  A parsed URL without credentials and fragment, which a request line does not carry. Setting
  the protocol drops the port that is the default of the new one.
\<close>

record web_url =
  wu_protocol :: jstr
  wu_hostname :: jstr
  wu_port :: jstr
  wu_pathname :: jstr
  wu_search :: jstr

definition href :: "web_url \<Rightarrow> jstr" where
  "href u = wu_protocol u @ lit ''//'' @ wu_hostname u @
     (if wu_port u = [] then [] else lit '':'' @ wu_port u) @ wu_pathname u @ wu_search u"

definition set_https :: "web_url \<Rightarrow> web_url" where
  "set_https u =
     u\<lparr>wu_protocol := lit ''https:'',
       wu_port := (if wu_port u = lit ''443'' then [] else wu_port u)\<rparr>"

text \<open>\<open>request.json()\<close> is the parsed body or the error of parsing it.\<close>

record edge_request =
  eq_method :: jstr
  eq_url :: web_url
  eq_headers :: "(jstr, jstr) dict"
  eq_json :: "jsval result"

datatype edge_body = NoContent | JsonText jsval | PlainText jstr | Upstream nat

record edge_response =
  ea_status :: nat
  ea_statusText :: jstr
  ea_headers :: "(jstr, jstr) dict"
  ea_body :: edge_body

text \<open>The statements sent to the database: the table with its columns, and a row bound to columns.\<close>

record table_column =
  tc_name :: jstr
  tc_type :: jstr
  tc_primaryKey :: bool
  tc_notNull :: bool
  tc_default :: "jstr option"

datatype d1_stmt =
    CreateTable jstr "table_column list"
  | InsertInto jstr "jstr list" "jsval list"

record edge_env =
  ev_db :: "(d1_stmt list \<Rightarrow> d1_stmt \<Rightarrow> unit result) option"
  ev_fetch :: "edge_request \<Rightarrow> edge_response result"
  ev_uuid :: jstr
  ev_now :: time
  ev_printer :: printer

text \<open>What a request can touch: the statements the database has seen and the upstream requests.\<close>

record edge_state =
  et_db :: "d1_stmt list"
  et_sent :: "edge_request list"

type_synonym 'a edgeop = "(edge_state, 'a) io"

section \<open>Constants\<close>

definition PRIMARY_HOST :: jstr where "PRIMARY_HOST = lit ''www.sirinx.co''"
definition APEX_HOST :: jstr where "APEX_HOST = lit ''sirinx.co''"
definition PAGES_HOST :: jstr where "PAGES_HOST = lit ''sirinx-co.pages.dev''"
definition LEAD_SUBMIT_PATH :: jstr where "LEAD_SUBMIT_PATH = lit ''/api/trpc/lead.submit''"

record schema_field =
  sf_name :: jstr
  sf_dbColumn :: jstr
  sf_maxLength :: nat
  sf_required :: bool
  sf_pii :: bool
  sf_default :: "jstr option"
  sf_contactChannel :: bool

definition schema_entry :: "string \<Rightarrow> string \<Rightarrow> nat \<Rightarrow> bool \<Rightarrow> bool \<Rightarrow> schema_field" where
  "schema_entry name column n required pii =
     \<lparr>sf_name = lit name, sf_dbColumn = lit column, sf_maxLength = n, sf_required = required,
      sf_pii = pii, sf_default = None, sf_contactChannel = False\<rparr>"

definition schema_fields :: "schema_field list" where
  "schema_fields =
     [(schema_entry ''source'' ''source'' 40 False False)\<lparr>sf_default := Some (lit ''contact'')\<rparr>,
      schema_entry ''name'' ''name'' 160 True True,
      schema_entry ''company'' ''company'' 160 False True,
      (schema_entry ''email'' ''email'' 180 False True)\<lparr>sf_contactChannel := True\<rparr>,
      (schema_entry ''phone'' ''phone'' 80 False True)\<lparr>sf_contactChannel := True\<rparr>,
      schema_entry ''interest'' ''interest'' 160 False False,
      schema_entry ''budget'' ''budget'' 160 False False,
      schema_entry ''timeline'' ''timeline'' 160 False False,
      schema_entry ''industry'' ''industry'' 160 False False,
      schema_entry ''systemSize'' ''system_size'' 80 False False,
      schema_entry ''systemType'' ''system_type'' 160 False False,
      schema_entry ''monthlyBill'' ''monthly_bill'' 80 False False,
      schema_entry ''bessInterest'' ''bess_interest'' 40 False False,
      (schema_entry ''lineUserId'' ''line_user_id'' 120 False True)\<lparr>sf_contactChannel := True\<rparr>,
      schema_entry ''message'' ''message'' 4000 False True]"

definition required_all :: "jstr list" where
  "required_all = [lit ''name'']"

definition required_oneOf :: "jstr list" where
  "required_oneOf = map lit [''phone'', ''email'', ''lineUserId'']"

definition jsonHeaders :: "(jstr, jstr) dict" where
  "jsonHeaders =
     [(lit ''content-type'', lit ''application/json; charset=utf-8''),
      (lit ''cache-control'', lit ''no-store''),
      (lit ''x-sirinx-router'', lit ''main-www'')]"

section \<open>Reading a lead\<close>

definition normalizeLeadValue :: "printer \<Rightarrow> jsval \<Rightarrow> nat \<Rightarrow> jstr option result" where
  "normalizeLeadValue pr v maxLength =
     (if v = JUndef \<or> v = JNull then Inr None
      else result_bind (string_result pr v) (\<lambda>s.
        let t = slice0 maxLength (trim s) in Inr (if t = [] then None else Some t)))"

definition isRecord :: "jsval \<Rightarrow> bool" where
  "isRecord v \<longleftrightarrow> (case v of JObj _ \<Rightarrow> True | JDate _ \<Rightarrow> True | _ \<Rightarrow> False)"

definition numeric_key :: "jstr \<Rightarrow> bool" where
  "numeric_key k \<longleftrightarrow> k \<noteq> [] \<and> list_all is_digit k"

definition isNumericKeyedBatch :: "jsval \<Rightarrow> bool" where
  "isNumericKeyedBatch body \<longleftrightarrow>
     (case body of JObj fs \<Rightarrow> object_keys fs \<noteq> [] \<and> list_all numeric_key (object_keys fs) | _ \<Rightarrow> False)"

definition firstNumericBatchItem :: "jsval \<Rightarrow> jsval" where
  "firstNumericBatchItem body =
     (if \<not> isNumericKeyedBatch body then body
      else case body of
        JObj fs \<Rightarrow> getp fs (hd (sort_key (decimal_value 0) (object_keys fs)))
      | _ \<Rightarrow> body)"

definition unwrapTrpcInput :: "jsval \<Rightarrow> jsval" where
  "unwrapTrpcInput item =
     (let input = js_nullish (opt_prop item ''input'') item in
      first_truthy [opt_prop input ''json'', opt_prop item ''json'', input] item)"

type_synonym lead = "(jstr, jstr option) dict"

text \<open>The fields in the order of the object literal, each with its limit.\<close>

definition lead_limits :: "(string \<times> nat) list" where
  "lead_limits =
     [(''source'', 40), (''name'', 160), (''company'', 160), (''email'', 180), (''phone'', 80),
      (''interest'', 160), (''budget'', 160), (''timeline'', 160), (''industry'', 160),
      (''systemSize'', 80), (''systemType'', 160), (''monthlyBill'', 80), (''bessInterest'', 40),
      (''lineUserId'', 120), (''message'', 4000)]"

fun lead_fields :: "printer \<Rightarrow> jsval \<Rightarrow> (string \<times> nat) list \<Rightarrow> lead result" where
  "lead_fields pr obj [] = Inr []"
| "lead_fields pr obj ((k, n) # ls) =
     result_bind (normalizeLeadValue pr (opt_prop obj k) n) (\<lambda>v.
     result_bind (lead_fields pr obj ls) (\<lambda>m.
       Inr ((lit k, if k = ''source'' \<and> v = None then Some (lit ''contact'') else v) # m)))"

definition extractLeadPayload :: "printer \<Rightarrow> jsval \<Rightarrow> (bool \<times> lead) result" where
  "extractLeadPayload pr body =
     (let isBatch = ((case body of JArr _ \<Rightarrow> True | _ \<Rightarrow> False) \<or> isNumericKeyedBatch body);
          item = (case body of
              JArr vs \<Rightarrow> (case vs of [] \<Rightarrow> JUndef | v # _ \<Rightarrow> v)
            | _ \<Rightarrow> firstNumericBatchItem body)
      in result_bind (lead_fields pr (unwrapTrpcInput item) lead_limits) (\<lambda>lead. Inr (isBatch, lead)))"

text \<open>\<open>lead.k\<close>, and \<open>lead.k || ""\<close>.\<close>

definition lead_value :: "lead \<Rightarrow> string \<Rightarrow> jstr option" where
  "lead_value lead k = (case dict_get lead (lit k) of None \<Rightarrow> None | Some v \<Rightarrow> v)"

definition column_value :: "jstr option \<Rightarrow> jsval" where
  "column_value v = (case v of None \<Rightarrow> JNull | Some s \<Rightarrow> JStr s)"

definition lead_json :: "printer \<Rightarrow> lead \<Rightarrow> jstr" where
  "lead_json pr lead =
     (case json (pr_num pr) (JObj (map (\<lambda>(k, v). (k, column_value v)) lead)) of
        None \<Rightarrow> [] | Some s \<Rightarrow> s)"

section \<open>Answers\<close>

definition json_response :: "nat \<Rightarrow> jsval \<Rightarrow> bool \<Rightarrow> edge_response" where
  "json_response status payload isBatch =
     \<lparr>ea_status = status, ea_statusText = [], ea_headers = jsonHeaders,
      ea_body = JsonText (if isBatch then JArr [payload] else payload)\<rparr>"

definition trpcSuccess :: "jsval \<Rightarrow> bool \<Rightarrow> edge_response" where
  "trpcSuccess data isBatch =
     json_response 200
       (JObj [(lit ''result'', JObj [(lit ''data'', JObj [(lit ''json'', data)])])]) isBatch"

definition trpcError :: "string \<Rightarrow> nat \<Rightarrow> bool \<Rightarrow> edge_response" where
  "trpcError message status isBatch =
     json_response status
       (JObj [(lit ''error'', JObj
          [(lit ''message'', JStr (lit message)), (lit ''code'', JNum (Fin (- 32603))),
           (lit ''data'', JObj
              [(lit ''code'', JStr (if 500 \<le> status then lit ''INTERNAL_SERVER_ERROR''
                                 else lit ''BAD_REQUEST'')),
               (lit ''httpStatus'', JNum (Fin (of_nat status)))])])]) isBatch"

section \<open>Storing a lead\<close>

definition run_d1 :: "(d1_stmt list \<Rightarrow> d1_stmt \<Rightarrow> unit result) \<Rightarrow> d1_stmt \<Rightarrow> unit edgeop" where
  "run_d1 db stmt = (\<lambda>s. (db (et_db s) stmt, s\<lparr>et_db := et_db s @ [stmt]\<rparr>))"

definition text_column :: "string \<Rightarrow> table_column" where
  "text_column n = \<lparr>tc_name = lit n, tc_type = lit ''TEXT'', tc_primaryKey = False, tc_notNull = False, tc_default = None\<rparr>"

definition not_null :: "table_column \<Rightarrow> table_column" where
  "not_null c = c\<lparr>tc_notNull := True\<rparr>"

definition lead_table :: "table_column list" where
  "lead_table =
     [(text_column ''id'')\<lparr>tc_primaryKey := True\<rparr>, not_null (text_column ''created_at''),
      not_null (text_column ''source''), not_null (text_column ''name''), text_column ''company'',
      text_column ''email'', text_column ''phone'', text_column ''industry'', text_column ''interest'',
      text_column ''budget'', text_column ''timeline'', text_column ''system_size'',
      text_column ''system_type'', text_column ''monthly_bill'', text_column ''bess_interest'',
      text_column ''line_user_id'', text_column ''message'',
      (not_null (text_column ''status''))\<lparr>tc_default := Some (lit ''new'')\<rparr>,
      not_null (text_column ''raw_json'')]"

definition create_leads :: d1_stmt where
  "create_leads = CreateTable (lit ''contact_leads'') lead_table"

definition ensureLeadTable :: "(d1_stmt list \<Rightarrow> d1_stmt \<Rightarrow> unit result) \<Rightarrow> unit edgeop" where
  "ensureLeadTable db = run_d1 db create_leads"

definition insert_columns :: "jstr list" where
  "insert_columns =
     map lit [''id'', ''created_at'', ''source'', ''name'', ''company'', ''email'', ''phone'', ''industry'',
       ''interest'', ''budget'', ''timeline'', ''system_size'', ''system_type'', ''monthly_bill'',
       ''bess_interest'', ''line_user_id'', ''message'', ''raw_json'']"

definition insert_values :: "edge_env \<Rightarrow> lead \<Rightarrow> jsval list" where
  "insert_values ev lead =
     [JStr (ev_uuid ev), JStr (to_iso (ev_now ev)),
      column_value (lead_value lead ''source''), column_value (lead_value lead ''name''),
      column_value (lead_value lead ''company''), column_value (lead_value lead ''email''),
      js_or (column_value (lead_value lead ''phone'')) (JStr []),
      column_value (lead_value lead ''industry''), column_value (lead_value lead ''interest''),
      column_value (lead_value lead ''budget''), column_value (lead_value lead ''timeline''),
      column_value (lead_value lead ''systemSize''), column_value (lead_value lead ''systemType''),
      column_value (lead_value lead ''monthlyBill''), column_value (lead_value lead ''bessInterest''),
      column_value (lead_value lead ''lineUserId''), column_value (lead_value lead ''message''),
      JStr (lead_json (ev_printer ev) lead)]"

definition insert_lead :: "edge_env \<Rightarrow> lead \<Rightarrow> d1_stmt" where
  "insert_lead ev lead = InsertInto (lit ''contact_leads'') insert_columns (insert_values ev lead)"

text \<open>\<open>!lead.k\<close> on a text or \<open>null\<close>.\<close>

definition missing :: "lead \<Rightarrow> string \<Rightarrow> bool" where
  "missing lead k \<longleftrightarrow> \<not> truthy (column_value (lead_value lead k))"

definition handleLeadSubmit :: "edge_env \<Rightarrow> edge_request \<Rightarrow> edge_response edgeop" where
  "handleLeadSubmit ev rq =
     (if eq_method rq = lit ''OPTIONS''
      then io_return \<lparr>ea_status = 204, ea_statusText = [], ea_headers = jsonHeaders, ea_body = NoContent\<rparr>
      else if eq_method rq \<noteq> lit ''POST''
      then io_return (trpcError ''Method not allowed'' 405 True)
      else case result_bind (eq_json rq) (extractLeadPayload (ev_printer ev)) of
        Inl _ \<Rightarrow> io_return (trpcError ''Invalid JSON payload'' 400 True)
      | Inr (isBatch, lead) \<Rightarrow>
          if missing lead ''name'' then io_return (trpcError ''Name is required'' 400 isBatch)
          else if missing lead ''phone'' \<and> missing lead ''email'' \<and> missing lead ''lineUserId''
          then io_return (trpcError ''At least one contact channel is required'' 400 isBatch)
          else case ev_db ev of
            None \<Rightarrow> io_return (trpcError ''Lead database binding is not configured'' 503 isBatch)
          | Some db \<Rightarrow>
              io_bind (ensureLeadTable db) (\<lambda>_.
              io_bind (run_d1 db (insert_lead ev lead)) (\<lambda>_.
                io_return (trpcSuccess (JObj
                  [(lit ''ok'', JBool True), (lit ''id'', JStr (ev_uuid ev)),
                   (lit ''createdAt'', JStr (to_iso (ev_now ev)))]) isBatch))))"

section \<open>Routing\<close>

definition redirectToPrimary :: "web_url \<Rightarrow> edge_response" where
  "redirectToPrimary u =
     \<lparr>ea_status = 301, ea_statusText = [],
      ea_headers = [(lit ''location'', href ((set_https u)\<lparr>wu_hostname := PRIMARY_HOST\<rparr>))],
      ea_body = NoContent\<rparr>"

definition upstream_request :: "edge_request \<Rightarrow> edge_request" where
  "upstream_request rq =
     rq\<lparr>eq_url := (set_https (eq_url rq))\<lparr>wu_hostname := PAGES_HOST\<rparr>,
        eq_headers := dict_set (lit ''x-forwarded-proto'') (lit ''https'')
          (dict_set (lit ''x-forwarded-host'') (wu_hostname (eq_url rq)) (eq_headers rq))\<rparr>"

definition edge_fetch :: "edge_env \<Rightarrow> edge_request \<Rightarrow> edge_response edgeop" where
  "edge_fetch ev rq = (\<lambda>s. (ev_fetch ev rq, s\<lparr>et_sent := et_sent s @ [rq]\<rparr>))"

definition proxyToPages :: "edge_env \<Rightarrow> edge_request \<Rightarrow> edge_response edgeop" where
  "proxyToPages ev rq =
     io_bind (edge_fetch ev (upstream_request rq)) (\<lambda>response.
       io_return (response\<lparr>ea_headers :=
         dict_set (lit ''x-sirinx-router'') (lit ''main-www'') (ea_headers response)\<rparr>))"

definition not_found :: edge_response where
  "not_found =
     \<lparr>ea_status = 404, ea_statusText = [],
      ea_headers = [(lit ''content-type'', lit ''text/plain; charset=utf-8''),
                    (lit ''cache-control'', lit ''no-store'')],
      ea_body = PlainText (lit ''Not found'')\<rparr>"

definition worker_fetch :: "edge_env \<Rightarrow> edge_request \<Rightarrow> edge_response edgeop" where
  "worker_fetch ev rq =
     (let url = eq_url rq in
      if wu_hostname url = APEX_HOST then io_return (redirectToPrimary url)
      else if wu_hostname url = PRIMARY_HOST
      then if wu_pathname url = LEAD_SUBMIT_PATH then handleLeadSubmit ev rq else proxyToPages ev rq
      else io_return not_found)"

section \<open>What is extracted fits the published schema\<close>

lemma normalizeLeadValue_fits:
  "normalizeLeadValue pr v n = Inr (Some t) \<Longrightarrow> t \<noteq> [] \<and> length t \<le> n"
  using length_slice0 [of n]
  by (auto simp: normalizeLeadValue_def result_bind_Inr_iff Let_def split: if_splits)

definition field_fits :: "string \<times> nat \<Rightarrow> jstr \<times> jstr option \<Rightarrow> bool" where
  "field_fits l f \<longleftrightarrow>
     fst f = lit (fst l) \<and>
     (case snd f of
        None \<Rightarrow> fst l \<noteq> ''source''
      | Some s \<Rightarrow> s \<noteq> [] \<and> (length s \<le> snd l \<or> s = lit ''contact'' \<and> fst l = ''source''))"

lemma lead_fields_fit: "lead_fields pr obj ls = Inr m \<Longrightarrow> list_all2 field_fits ls m"
proof (induction ls arbitrary: m)
  case Nil
  then show ?case by simp
next
  case (Cons l ls)
  obtain k n where l: "l = (k, n)" by force
  from Cons.prems l obtain v m' where v: "normalizeLeadValue pr (opt_prop obj k) n = Inr v"
    and m': "lead_fields pr obj ls = Inr m'"
    and m: "m = (lit k, if k = ''source'' \<and> v = None then Some (lit ''contact'') else v) # m'"
    by (auto simp: result_bind_Inr_iff)
  have "field_fits (k, n) (lit k, if k = ''source'' \<and> v = None then Some (lit ''contact'') else v)"
    using v normalizeLeadValue_fits by (cases v) (auto simp: field_fits_def)
  with Cons.IH [OF m'] l m show ?case by simp
qed

lemma extracted_fields:
  "extractLeadPayload pr body = Inr (b, lead) \<Longrightarrow> list_all2 field_fits lead_limits lead"
  using lead_fields_fit by (auto simp: extractLeadPayload_def Let_def result_bind_Inr_iff)

lemma fitting_keys: "list_all2 field_fits ls m \<Longrightarrow> dict_keys m = map (lit \<circ> fst) ls"
  by (induction rule: list_all2_induct) (auto simp: dict_keys_def field_fits_def)

lemma fitting_field:
  assumes "list_all2 field_fits ls m" and "distinct (map fst ls)" and "l \<in> set ls"
  shows "\<exists>v. dict_get m (lit (fst l)) = Some v \<and> field_fits l (lit (fst l), v)"
  using assms
proof (induction rule: list_all2_induct)
  case Nil
  then show ?case by simp
next
  case (Cons l' ls f m)
  have k: "f = (lit (fst l'), snd f)" using Cons.hyps(1) by (cases f) (simp add: field_fits_def)
  show ?case
  proof (cases "l = l'")
    case True
    with k Cons.hyps(1) show ?thesis by (metis dict_get_Cons)
  next
    case False
    with Cons.prems have "l \<in> set ls" "distinct (map fst ls)" by auto
    moreover from Cons.prems(1) \<open>l \<in> set ls\<close> have "fst l \<noteq> fst l'" by (metis distinct.simps(2) image_eqI list.map(2) list.set_map)
    ultimately show ?thesis using Cons.IH k by (metis dict_get_Cons lit_eq_iff)
  qed
qed

lemma schema_limits:
  "map sf_name schema_fields = map (lit \<circ> fst) lead_limits"
  "distinct (map fst lead_limits)"
  "\<forall>f \<in> set schema_fields. \<exists>l \<in> set lead_limits. sf_name f = lit (fst l) \<and> sf_maxLength f = snd l \<and>
     (sf_default f = None \<longleftrightarrow> fst l \<noteq> ''source'') \<and> (fst l = ''source'' \<longrightarrow> 7 \<le> snd l)"
  by (simp_all add: schema_fields_def schema_entry_def lead_limits_def)

text \<open>
  Whatever the body, the extracted lead has exactly the fields of the published schema, in its
  order, each missing (then without a default) or a non-empty text within its limit.
\<close>

theorem extracted_lead_fits:
  assumes "extractLeadPayload pr body = Inr (b, lead)"
  shows "dict_keys lead = map sf_name schema_fields \<and>
    (\<forall>f \<in> set schema_fields.
       case dict_get lead (sf_name f) of
         None \<Rightarrow> False
       | Some None \<Rightarrow> sf_default f = None
       | Some (Some s) \<Rightarrow> s \<noteq> [] \<and> length s \<le> sf_maxLength f)"
proof (intro conjI ballI)
  note fit = extracted_fields [OF assms]
  show "dict_keys lead = map sf_name schema_fields"
    using fitting_keys [OF fit] schema_limits(1) by simp
  fix f assume "f \<in> set schema_fields"
  then obtain l where l: "l \<in> set lead_limits" "sf_name f = lit (fst l)" "sf_maxLength f = snd l"
    "sf_default f = None \<longleftrightarrow> fst l \<noteq> ''source''" "fst l = ''source'' \<longrightarrow> 7 \<le> snd l"
    using schema_limits(3) by blast
  obtain v where "dict_get lead (lit (fst l)) = Some v" "field_fits l (lit (fst l), v)"
    using fitting_field [OF fit schema_limits(2) l(1)] by blast
  with l show "case dict_get lead (sf_name f) of
         None \<Rightarrow> False
       | Some None \<Rightarrow> sf_default f = None
       | Some (Some s) \<Rightarrow> s \<noteq> [] \<and> length s \<le> sf_maxLength f"
    by (auto simp: field_fits_def split: option.splits)
qed

section \<open>The payload shapes\<close>


definition json_wrapper :: "string \<Rightarrow> jsval \<Rightarrow> jsval" where
  "json_wrapper k v = JObj [(lit k, v)]"

text \<open>The shapes a client may send a single call in.\<close>

definition call_shapes :: "jsval \<Rightarrow> jsval set" where
  "call_shapes x =
     {x, json_wrapper ''json'' x, json_wrapper ''input'' x, json_wrapper ''input'' (json_wrapper ''json'' x)}"

lemma unwrap_shapes:
  assumes "get fs ''input'' = JUndef" and "get fs ''json'' = JUndef" and "w \<in> call_shapes (JObj fs)"
  shows "unwrapTrpcInput w = JObj fs"
  using assms by (auto simp: call_shapes_def json_wrapper_def unwrapTrpcInput_def js_nullish_def Let_def getp_lit)



section \<open>What is stored\<close>

text \<open>The requirements of the published schema: a name and one way to reach the visitor.\<close>

definition lead_complete :: "lead \<Rightarrow> bool" where
  "lead_complete lead \<longleftrightarrow>
     (\<forall>k \<in> set required_all. dict_get lead k \<notin> {None, Some None}) \<and>
     (\<exists>k \<in> set required_oneOf. dict_get lead k \<notin> {None, Some None})"

lemma missing_fitting:
  assumes "list_all2 field_fits lead_limits lead" and "k \<in> set (map fst lead_limits)"
  shows "missing lead k \<longleftrightarrow> dict_get lead (lit k) \<in> {None, Some None}"
proof -
  from assms(2) obtain l where l: "l \<in> set lead_limits" "k = fst l" by auto
  obtain v where "dict_get lead (lit (fst l)) = Some v" "field_fits l (lit (fst l), v)"
    using fitting_field [OF assms(1) schema_limits(2) l(1)] by blast
  with l show ?thesis
    by (cases v) (auto simp: missing_def lead_value_def column_value_def field_fits_def)
qed

lemma complete_iff:
  assumes "list_all2 field_fits lead_limits lead"
  shows "lead_complete lead \<longleftrightarrow>
    \<not> missing lead ''name'' \<and>
    \<not> (missing lead ''phone'' \<and> missing lead ''email'' \<and> missing lead ''lineUserId'')"
proof -
  have "set [''name'', ''phone'', ''email'', ''lineUserId''] \<subseteq> set (map fst lead_limits)"
    by (simp add: lead_limits_def)
  then show ?thesis
    by (auto simp: lead_complete_def required_all_def required_oneOf_def missing_fitting [OF assms])
qed

text \<open>The lead a request posts, when it is complete.\<close>

definition posted_lead :: "edge_env \<Rightarrow> edge_request \<Rightarrow> lead \<Rightarrow> bool" where
  "posted_lead ev rq lead \<longleftrightarrow> eq_method rq = lit ''POST'' \<and>
     (\<exists>body b. eq_json rq = Inr body \<and> extractLeadPayload (ev_printer ev) body = Inr (b, lead) \<and> lead_complete lead)"

lemma posted_lead_unique: "posted_lead ev rq lead \<Longrightarrow> posted_lead ev rq lead' \<longleftrightarrow> lead' = lead"
  by (auto simp: posted_lead_def)

text \<open>The submission of a complete lead, without a database and with one.\<close>

lemma submit_complete:
  assumes "posted_lead ev rq lead"
  shows "ev_db ev = None \<Longrightarrow> \<exists>resp. handleLeadSubmit ev rq s = (Inr resp, s) \<and> ea_status resp = 503"
    and "ev_db ev = Some db \<Longrightarrow> \<exists>resp. ea_status resp = 200 \<and> handleLeadSubmit ev rq s =
      (case db (et_db s) create_leads of
         Inl e \<Rightarrow> (Inl e, s\<lparr>et_db := et_db s @ [create_leads]\<rparr>)
       | Inr _ \<Rightarrow>
           (case db (et_db s @ [create_leads]) (insert_lead ev lead) of Inl e \<Rightarrow> Inl e | Inr _ \<Rightarrow> Inr resp,
            s\<lparr>et_db := et_db s @ [create_leads, insert_lead ev lead]\<rparr>))"
proof -
  obtain body b where p: "eq_method rq = lit ''POST''" "eq_json rq = Inr body"
      "extractLeadPayload (ev_printer ev) body = Inr (b, lead)" "lead_complete lead"
    using assms by (auto simp: posted_lead_def)
  note complete = complete_iff [OF extracted_fields [OF p(3)]]
  show "\<exists>resp. handleLeadSubmit ev rq s = (Inr resp, s) \<and> ea_status resp = 503" if "ev_db ev = None"
    using p complete that by (auto simp: handleLeadSubmit_def io_return_def trpcError_def json_response_def)
  let ?resp = "trpcSuccess (JObj
      [(lit ''ok'', JBool True), (lit ''id'', JStr (ev_uuid ev)), (lit ''createdAt'', JStr (to_iso (ev_now ev)))]) b"
  show "\<exists>resp. ea_status resp = 200 \<and> handleLeadSubmit ev rq s =
      (case db (et_db s) create_leads of
         Inl e \<Rightarrow> (Inl e, s\<lparr>et_db := et_db s @ [create_leads]\<rparr>)
       | Inr _ \<Rightarrow>
           (case db (et_db s @ [create_leads]) (insert_lead ev lead) of Inl e \<Rightarrow> Inl e | Inr _ \<Rightarrow> Inr resp,
            s\<lparr>et_db := et_db s @ [create_leads, insert_lead ev lead]\<rparr>))" if "ev_db ev = Some db"
  proof (intro exI conjI)
    show "ea_status ?resp = 200" by (simp add: trpcSuccess_def json_response_def)
    show "handleLeadSubmit ev rq s =
      (case db (et_db s) create_leads of
         Inl e \<Rightarrow> (Inl e, s\<lparr>et_db := et_db s @ [create_leads]\<rparr>)
       | Inr _ \<Rightarrow>
           (case db (et_db s @ [create_leads]) (insert_lead ev lead) of Inl e \<Rightarrow> Inl e | Inr _ \<Rightarrow> Inr ?resp,
            s\<lparr>et_db := et_db s @ [create_leads, insert_lead ev lead]\<rparr>))"
      using p complete that
      by (auto simp: handleLeadSubmit_def ensureLeadTable_def run_d1_def io_bind_def io_return_def split: sum.splits)
  qed
qed

lemma submit_refused:
  assumes "\<And>lead. \<not> posted_lead ev rq lead"
  shows "\<exists>resp. handleLeadSubmit ev rq s = (Inr resp, s) \<and> ea_status resp =
    (if eq_method rq = lit ''OPTIONS'' then 204 else if eq_method rq = lit ''POST'' then 400 else 405)"
proof (cases "eq_method rq = lit ''POST''")
  case False
  then show ?thesis
    by (auto simp: handleLeadSubmit_def io_return_def trpcError_def json_response_def)
next
  case post: True
  then have o: "eq_method rq \<noteq> lit ''OPTIONS''" by simp
  show ?thesis
  proof (cases "result_bind (eq_json rq) (extractLeadPayload (ev_printer ev))")
    case (Inl e)
    with post o show ?thesis
      by (auto simp: handleLeadSubmit_def io_return_def trpcError_def json_response_def)
  next
    case (Inr p)
    obtain b lead where p: "p = (b, lead)" by force
    from Inr p obtain body where body: "eq_json rq = Inr body"
      and ex: "extractLeadPayload (ev_printer ev) body = Inr (b, lead)"
      by (auto simp: result_bind_Inr_iff)
    have "\<not> lead_complete lead"
      using assms [of lead] post body ex by (auto simp: posted_lead_def)
    with post o Inr p complete_iff [OF extracted_fields [OF ex]] show ?thesis
      by (auto simp: handleLeadSubmit_def io_return_def trpcError_def json_response_def split: if_splits)
  qed
qed

text \<open>
  C21. What a lead submission answers and does, for every request. It answers 200 exactly when a
  complete lead was posted to a worker with a database that accepted the table and then the row
  of this lead, 400 exactly for a \<open>POST\<close> without a complete lead, 503 exactly for a complete lead
  without a database, 204 and 405 exactly for the other methods, and it throws exactly the error
  of the statement the database refused. The table is tried exactly for a complete lead with a
  database, the row exactly after the table was accepted; otherwise nothing changes.
\<close>

theorem lead_submit_stores:
  fixes ev rq s
  assumes "handleLeadSubmit ev rq s = (r, s')"
  defines "status \<equiv> \<lambda>n. \<exists>resp. r = Inr resp \<and> ea_status resp = n"
    and "posted \<equiv> \<lambda>lead. eq_method rq = lit ''POST'' \<and> (\<exists>body b. eq_json rq = Inr body \<and>
      extractLeadPayload (ev_printer ev) body = Inr (b, lead) \<and> lead_complete lead)"
    and "table \<equiv> \<lambda>db. db (et_db s) create_leads"
    and "row \<equiv> \<lambda>db lead. db (et_db s @ [create_leads]) (insert_lead ev lead)"
  shows "(status 200 \<longleftrightarrow> (\<exists>lead db. posted lead \<and> ev_db ev = Some db \<and> table db = Inr () \<and> row db lead = Inr ())) \<and>
    (status 400 \<longleftrightarrow> eq_method rq = lit ''POST'' \<and> (\<forall>lead. \<not> posted lead)) \<and>
    (status 503 \<longleftrightarrow> (\<exists>lead. posted lead) \<and> ev_db ev = None) \<and>
    (status 204 \<longleftrightarrow> eq_method rq = lit ''OPTIONS'') \<and>
    (status 405 \<longleftrightarrow> eq_method rq \<notin> {lit ''OPTIONS'', lit ''POST''}) \<and>
    (\<forall>e. r = Inl e \<longleftrightarrow> (\<exists>lead db. posted lead \<and> ev_db ev = Some db \<and>
       (table db = Inl e \<or> table db = Inr () \<and> row db lead = Inl e))) \<and>
    (\<forall>lead db. posted lead \<and> ev_db ev = Some db \<longrightarrow> s' = s\<lparr>et_db := et_db s @
       (if table db = Inr () then [create_leads, insert_lead ev lead] else [create_leads])\<rparr>) \<and>
    ((\<forall>lead. \<not> posted lead) \<or> ev_db ev = None \<longrightarrow> s' = s)"
proof -
  have posted: "posted lead \<longleftrightarrow> posted_lead ev rq lead" for lead by (simp add: posted_def posted_lead_def)
  consider (none) "\<And>lead. \<not> posted_lead ev rq lead"
    | (no_db) lead where "posted_lead ev rq lead" "ev_db ev = None"
    | (db) lead db where "posted_lead ev rq lead" "ev_db ev = Some db"
    by (cases "ev_db ev") auto
  then show ?thesis
  proof cases
    case none
    from submit_refused [OF this, of s] assms(1) none show ?thesis
      by (auto simp: posted status_def split: if_splits)
  next
    case no_db
    then have "eq_method rq = lit ''POST''" by (simp add: posted_lead_def)
    with no_db submit_complete(1) [OF no_db, of s] assms(1) show ?thesis
      by (auto simp: posted posted_lead_unique [OF no_db(1)] status_def)
  next
    case db
    then have "eq_method rq = lit ''POST''" by (simp add: posted_lead_def)
    with db submit_complete(2) [OF db, of s] assms(1) show ?thesis
      by (cases "db (et_db s) create_leads"; cases "db (et_db s @ [create_leads]) (insert_lead ev lead)")
        (auto simp: posted posted_lead_unique [OF db(1)] status_def table_def row_def)
  qed
qed

section \<open>The row and its table\<close>

definition bound :: "jstr list \<Rightarrow> jsval list \<Rightarrow> jstr \<Rightarrow> jsval option" where
  "bound cols vals c = map_of (zip cols vals) c"

text \<open>
  The row of a complete lead names columns of the table, each once, binds as many values, and
  leaves no required column without a value; each field of the published schema is bound to the
  column the schema names, with a missing phone stored as the empty text.
\<close>

theorem lead_row_valid:
  assumes "extractLeadPayload pr body = Inr (b, lead)" and "lead_complete lead"
  shows "distinct insert_columns \<and> length insert_columns = length (insert_values ev lead) \<and>
    set insert_columns \<subseteq> set (map tc_name lead_table) \<and>
    (\<forall>c \<in> set lead_table. (tc_primaryKey c \<or> tc_notNull c) \<and> tc_default c = None \<longrightarrow>
       bound insert_columns (insert_values ev lead) (tc_name c) \<notin> {None, Some JNull, Some JUndef}) \<and>
    (\<forall>f \<in> set schema_fields.
       bound insert_columns (insert_values ev lead) (sf_dbColumn f) =
         Some (case dict_get lead (sf_name f) of
             Some (Some s) \<Rightarrow> JStr s
           | _ \<Rightarrow> if sf_name f = lit ''phone'' then JStr [] else JNull))"
proof (intro conjI)
  note fit = extracted_fields [OF assms(1)]
  have src: "\<exists>s. lead_value lead ''source'' = Some s"
  proof -
    have "(''source'', 40) \<in> set lead_limits" by (simp add: lead_limits_def)
    from fitting_field [OF fit schema_limits(2) this] show ?thesis
      by (auto simp: field_fits_def lead_value_def split: option.splits)
  qed
  have name: "\<exists>s. lead_value lead ''name'' = Some s"
    using assms(2) by (auto simp: lead_complete_def required_all_def lead_value_def)
  have phone: "lead_value lead ''phone'' \<noteq> Some []"
  proof -
    have "(''phone'', 80) \<in> set lead_limits" by (simp add: lead_limits_def)
    from fitting_field [OF fit schema_limits(2) this] show ?thesis
      by (auto simp: field_fits_def lead_value_def)
  qed
  show "distinct insert_columns" by (simp add: insert_columns_def)
  show "length insert_columns = length (insert_values ev lead)"
    by (simp add: insert_columns_def insert_values_def)
  show "set insert_columns \<subseteq> set (map tc_name lead_table)"
    by (simp add: insert_columns_def lead_table_def text_column_def not_null_def)
  show "\<forall>c \<in> set lead_table. (tc_primaryKey c \<or> tc_notNull c) \<and> tc_default c = None \<longrightarrow>
       bound insert_columns (insert_values ev lead) (tc_name c) \<notin> {None, Some JNull, Some JUndef}"
    using src name
    by (auto simp: bound_def insert_columns_def insert_values_def lead_table_def text_column_def
        not_null_def column_value_def)
  have v: "column_value (lead_value lead k) = (case dict_get lead (lit k) of Some (Some s) \<Rightarrow> JStr s | _ \<Rightarrow> JNull)"
    for k by (auto simp: column_value_def lead_value_def split: option.splits)
  have p: "js_or (column_value (lead_value lead ''phone'')) (JStr []) =
      (case dict_get lead (lit ''phone'') of Some (Some s) \<Rightarrow> JStr s | _ \<Rightarrow> JStr [])"
    using phone by (auto simp: column_value_def lead_value_def js_or_def split: option.splits)
  show "\<forall>f \<in> set schema_fields.
       bound insert_columns (insert_values ev lead) (sf_dbColumn f) =
         Some (case dict_get lead (sf_name f) of
             Some (Some s) \<Rightarrow> JStr s
           | _ \<Rightarrow> if sf_name f = lit ''phone'' then JStr [] else JNull)"
    unfolding schema_fields_def schema_entry_def
    by (simp add: bound_def insert_columns_def insert_values_def p) (simp add: v)
qed

section \<open>Routing\<close>

text \<open>
  C20. Only a request to the lead path of the primary host reaches the database, and only a request
  to another path of that host leaves the worker: once, to the static pages over https, with
  method, body, path and query kept. The apex host is redirected to the primary one with path
  and query kept; every other host is answered 404.
\<close>

theorem worker_routes:
  assumes "worker_fetch ev rq s = (r, s')"
  shows "(et_db s' \<noteq> et_db s \<longrightarrow> wu_hostname (eq_url rq) = PRIMARY_HOST \<and>
        wu_pathname (eq_url rq) = LEAD_SUBMIT_PATH \<and> eq_method rq = lit ''POST'') \<and>
    (et_sent s' \<noteq> et_sent s \<longrightarrow> wu_hostname (eq_url rq) = PRIMARY_HOST \<and>
        wu_pathname (eq_url rq) \<noteq> LEAD_SUBMIT_PATH \<and>
        (\<exists>up. et_sent s' = et_sent s @ [up] \<and> wu_hostname (eq_url up) = PAGES_HOST \<and>
           wu_protocol (eq_url up) = lit ''https:'' \<and>
           wu_pathname (eq_url up) = wu_pathname (eq_url rq) \<and>
           wu_search (eq_url up) = wu_search (eq_url rq) \<and>
           eq_method up = eq_method rq \<and> eq_json up = eq_json rq)) \<and>
    (wu_hostname (eq_url rq) = APEX_HOST \<longrightarrow>
       (\<exists>resp port. r = Inr resp \<and> ea_status resp = 301 \<and>
          ea_headers resp = [(lit ''location'',
            lit ''https://www.sirinx.co'' @ port @ wu_pathname (eq_url rq) @ wu_search (eq_url rq))])) \<and>
    (wu_hostname (eq_url rq) \<notin> {APEX_HOST, PRIMARY_HOST} \<longrightarrow> r = Inr not_found)"
proof (cases "wu_hostname (eq_url rq) = PRIMARY_HOST")
  case False
  have "\<exists>port. ea_headers (redirectToPrimary u) = [(lit ''location'',
      lit ''https://www.sirinx.co'' @ port @ wu_pathname u @ wu_search u)]" for u
    by (simp add: redirectToPrimary_def href_def set_https_def PRIMARY_HOST_def)
       (auto simp: lit_def)
  moreover have "ea_status (redirectToPrimary u) = 301" for u by (simp add: redirectToPrimary_def)
  ultimately show ?thesis
    using False assms by (auto simp: worker_fetch_def Let_def io_return_def split: if_splits)
next
  case host: True
  have other: "PRIMARY_HOST \<noteq> APEX_HOST" by (simp add: PRIMARY_HOST_def APEX_HOST_def)
  show ?thesis
  proof (cases "wu_pathname (eq_url rq) = LEAD_SUBMIT_PATH")
    case True
    with assms host other have "handleLeadSubmit ev rq s = (r, s')" by (simp add: worker_fetch_def)
    then have "s' = s \<or> eq_method rq = lit ''POST'' \<and> (\<exists>ss. s' = s\<lparr>et_db := ss\<rparr>)"
      by (auto simp: handleLeadSubmit_def io_return_def ensureLeadTable_def run_d1_def io_bind_def
          split: if_splits sum.splits option.splits prod.splits)
    with True host other show ?thesis by auto
  next
    case False
    with assms host other have "proxyToPages ev rq s = (r, s')" by (simp add: worker_fetch_def)
    then have "s' = s\<lparr>et_sent := et_sent s @ [upstream_request rq]\<rparr>"
      by (auto simp: proxyToPages_def edge_fetch_def io_bind_def io_return_def split: sum.splits)
    with False host other show ?thesis by (simp add: upstream_request_def set_https_def)
  qed
qed

section \<open>A concrete submission\<close>

definition sample_edge :: edge_env where
  "sample_edge =
     \<lparr>ev_db = Some (\<lambda>_ _. Inr ()), ev_fetch = (\<lambda>_. Inr not_found), ev_uuid = lit ''id-1'', ev_now = 0,
      ev_printer = \<lparr>pr_num = \<lambda>_. [], pr_date = \<lambda>_. []\<rparr>\<rparr>"

definition sample_visitor :: jsobj where
  "sample_visitor = [(lit ''name'', JStr [0x41]), (lit ''phone'', JStr [0x31])]"

definition sample_lead_post :: edge_request where
  "sample_lead_post =
     \<lparr>eq_method = lit ''POST'',
      eq_url = \<lparr>wu_protocol = lit ''https:'', wu_hostname = PRIMARY_HOST, wu_port = [],
                wu_pathname = LEAD_SUBMIT_PATH, wu_search = []\<rparr>,
      eq_headers = [], eq_json = Inr (JObj sample_visitor)\<rparr>"

definition sample_lead :: lead where
  "sample_lead = map (\<lambda>(k, n). (lit k,
     if k = ''source'' then Some (lit ''contact'') else if k = ''name'' then Some [0x41]
     else if k = ''phone'' then Some [0x31] else None)) lead_limits"

lemma trim_unit: "\<not> is_space c \<Longrightarrow> trim [c] = [c]"
  by (simp add: trim_def trim_start_def trim_end_def)

lemma sample_extracts: "extractLeadPayload pr (JObj sample_visitor) = Inr (False, sample_lead)"
proof -
  have "\<not> isNumericKeyedBatch (JObj sample_visitor)"
    by (simp add: isNumericKeyedBatch_def list_all_iff set_object_keys sample_visitor_def dict_keys_def
        numeric_key_def lit_def is_digit_def)
  moreover have "get sample_visitor ''input'' = JUndef" "get sample_visitor ''json'' = JUndef"
    by (simp_all add: sample_visitor_def)
  ultimately have "extractLeadPayload pr (JObj sample_visitor) =
      result_bind (lead_fields pr (JObj sample_visitor) lead_limits) (\<lambda>lead. Inr (False, lead))"
    using unwrap_shapes [of sample_visitor "JObj sample_visitor"]
    by (simp add: extractLeadPayload_def firstNumericBatchItem_def call_shapes_def)
  moreover have "\<not> is_space 0x41" "\<not> is_space 0x31" by (simp_all add: is_space_def)
  ultimately show ?thesis
    by (simp add: lead_limits_def sample_visitor_def sample_lead_def normalizeLeadValue_def
        string_result_def trim_unit slice0_def)
qed

lemma sample_lead_complete: "lead_complete sample_lead"
  by (simp add: lead_complete_def required_all_def required_oneOf_def sample_lead_def lead_limits_def)

theorem extracted_lead_fits_witness:
  "dict_keys sample_lead = map sf_name schema_fields"
  using extracted_lead_fits [OF sample_extracts] by simp


lemma sample_stored:
  "handleLeadSubmit sample_edge sample_lead_post \<lparr>et_db = [], et_sent = []\<rparr> =
    (Inr (trpcSuccess (JObj
        [(lit ''ok'', JBool True), (lit ''id'', JStr (lit ''id-1'')), (lit ''createdAt'', JStr (to_iso 0))]) False),
     \<lparr>et_db = [create_leads, insert_lead sample_edge sample_lead], et_sent = []\<rparr>)"
proof -
  have m: "\<not> missing sample_lead ''name''" "\<not> missing sample_lead ''phone''"
    by (simp_all add: missing_def lead_value_def sample_lead_def lead_limits_def column_value_def)
  show ?thesis
    by (simp add: handleLeadSubmit_def sample_lead_post_def sample_extracts m)
       (simp add: sample_edge_def ensureLeadTable_def run_d1_def io_bind_def io_return_def)
qed

theorem lead_submit_stores_witness:
  "\<exists>body b lead. eq_json sample_lead_post = Inr body \<and>
     extractLeadPayload (ev_printer sample_edge) body = Inr (b, lead) \<and> lead_complete lead"
  using lead_submit_stores [OF sample_stored, THEN conjunct1, unfolded sum.inject] by (auto simp: trpcSuccess_def json_response_def)

theorem lead_row_valid_witness:
  "length insert_columns = length (insert_values sample_edge sample_lead)"
  using lead_row_valid [OF sample_extracts sample_lead_complete] by blast

theorem worker_routes_witness:
  "\<exists>r s'. worker_fetch sample_edge sample_lead_post \<lparr>et_db = [], et_sent = []\<rparr> = (r, s') \<and>
     et_db s' \<noteq> [] \<and> eq_method sample_lead_post = lit ''POST''"
proof -
  have "PRIMARY_HOST \<noteq> APEX_HOST" by (simp add: PRIMARY_HOST_def APEX_HOST_def)
  then have w: "worker_fetch sample_edge sample_lead_post \<lparr>et_db = [], et_sent = []\<rparr> =
      handleLeadSubmit sample_edge sample_lead_post \<lparr>et_db = [], et_sent = []\<rparr>"
    by (simp add: worker_fetch_def sample_lead_post_def)
  show ?thesis using worker_routes [OF w [unfolded sample_stored]] w sample_stored by auto
qed

end
