(* ===== verification/CommandGateway.thy ===== *)
theory CommandGateway
  imports JsConvert
begin

text \<open>
  The adaptive command gateway of the Hermes service
  (\<open>services/hermes-api/src/adaptive-command-gateway.mjs\<close>): it screens a chat command for
  secrets and dangerous requests, parses it, and answers with an acknowledgement and, for a
  mission, a job that waits for approval. Nothing is executed.
\<close>

section \<open>Case mapping\<close>

text \<open>
  \<open>toUpperCase\<close> on the letters \<open>to_lower\<close> knows, and on every unit whose upper case holds an
  ASCII letter.
\<close>

definition upper_special :: "(nat, string \<times> nat list) dict" where
  "upper_special =
     [(0xDF, ''SS'', []), (0x131, ''I'', []), (0x17F, ''S'', []), (0x1F0, ''J'', [0x30C]),
      (0x1E96, ''H'', [0x331]), (0x1E97, ''T'', [0x308]), (0x1E98, ''W'', [0x30A]),
      (0x1E99, ''Y'', [0x30A]), (0x1E9A, ''A'', [0x2BE]), (0xFB00, ''FF'', []), (0xFB01, ''FI'', []),
      (0xFB02, ''FL'', []), (0xFB03, ''FFI'', []), (0xFB04, ''FFL'', []), (0xFB05, ''ST'', []),
      (0xFB06, ''ST'', [])]"

definition upper_unit :: "nat \<Rightarrow> jstr" where
  "upper_unit c =
     (if 0x61 \<le> c \<and> c \<le> 0x7A then [c - 32]
      else if 0xE0 \<le> c \<and> c \<le> 0xFE \<and> c \<noteq> 0xF7 then [c - 32]
      else if 0x3B1 \<le> c \<and> c \<le> 0x3C9 \<and> c \<noteq> 0x3C2 then [c - 32]
      else if c = 0x3C2 then [0x3A3]
      else if 0x430 \<le> c \<and> c \<le> 0x44F then [c - 32]
      else if 0x450 \<le> c \<and> c \<le> 0x45F then [c - 80]
      else if 0xFF41 \<le> c \<and> c \<le> 0xFF5A then [c - 32]
      else if c = 0x149 then [0x2BC, 0x4E]
      else case dict_get upper_special c of None \<Rightarrow> [c] | Some (t, r) \<Rightarrow> lit t @ r)"

definition to_upper :: "jstr \<Rightarrow> jstr" where
  "to_upper s = concat (map upper_unit s)"

section \<open>Tables\<close>

definition GATEWAY_STOP_POINT :: jstr where
  "GATEWAY_STOP_POINT =
     lit ''HERMES ADAPTIVE COMMAND GATEWAY V0.2 READY - FAST ACK QUEUE DRY-RUN - WAITING FOR GATEWAY RELOAD APPROVAL''"

definition mission_route_usage :: jstr where
  "mission_route_usage =
     lit ''/mission route '' @ [0x22] @ lit ''<route>'' @ [0x22] @
     lit '' --provider <provider> --sync <targets> --mode <mode>''"

definition mission_create_usage :: jstr where
  "mission_create_usage = lit ''/mission create '' @ [0x22] @ lit ''<name>'' @ [0x22]"

definition hermes_mission_usage :: jstr where
  "hermes_mission_usage =
     lit ''/hermes mission create --board <slug> --name '' @ [0x22] @ lit ''<name>'' @ [0x22] @
     lit '' --route '' @ [0x22] @ lit ''<route>'' @ [0x22] @
     lit '' --provider <provider> --sync <targets> --mode <mode>''"

definition GATEWAY_COMMANDS :: "jstr list" where
  "GATEWAY_COMMANDS =
     map lit [''/clear'', ''/reset'', ''/status'', ''/jobs'', ''/jobs get <job_id>'',
       ''/kanban boards list'', ''/kanban boards switch <slug>''] @
     [mission_create_usage, mission_route_usage] @
     map lit [''/mission status'', ''/hermes approve <job_id>'', ''/hermes cancel <job_id>'',
       ''/hermes sync pc'', ''/hermes sync mobile''] @ [hermes_mission_usage]"

definition GATEWAY_BLOCKED_ACTIONS :: "jstr list" where
  "GATEWAY_BLOCKED_ACTIONS =
     map lit [''agent_execution'', ''mcp_start'', ''package_install'', ''provider_call'',
       ''secret_read_or_print'', ''message_send'', ''deploy'', ''push'', ''publish'',
       ''external_connector_activation'']"

definition GATEWAY_MODEL :: jstr where
  "GATEWAY_MODEL = lit ''qwen/qwen3.7-max''"

definition model_entry :: "int \<Rightarrow> rat \<Rightarrow> string list \<Rightarrow> jsval" where
  "model_entry maxTokens temperature useFor =
     JObj [(lit ''provider'', JText ''openrouter''), (lit ''model'', JStr GATEWAY_MODEL),
       (lit ''contextLength'', JInt 1000000), (lit ''maxTokens'', JInt maxTokens),
       (lit ''temperature'', JNum (Fin temperature)), (lit ''useFor'', JTexts useFor)]"

definition MODEL_POLICY :: jsval where
  "MODEL_POLICY =
     JObj [(lit ''router'', model_entry 512 (1 / 10)
              [''parse_command'', ''classify_intent'', ''validate_syntax'', ''fast_ack'']),
       (lit ''planner'', model_entry 4096 (1 / 5)
              [''mission_planning'', ''spec'', ''architecture'', ''long_context'']),
       (lit ''reviewer'', model_entry 3000 (1 / 10) [''review'', ''qa'', ''risk_assessment''])]"

definition QUEUE_POLICY :: jsval where
  "QUEUE_POLICY =
     JObj [(lit ''backend'', JText ''sqlite''), (lit ''dbPath'', JText ''.hermes/jobs.sqlite''),
       (lit ''workerConcurrency'', JInt 2), (lit ''retryAttempts'', JInt 2),
       (lit ''retryBackoffMs'', JInt 3000), (lit ''persistedByDryRun'', JBool False)]"

definition ACK_TIMEOUT_MS :: int where
  "ACK_TIMEOUT_MS = 1200"

definition LATENCY_CONTROL :: jsval where
  "LATENCY_CONTROL =
     JObj [(lit ''fastAck'', JBool True), (lit ''ackTimeoutMs'', JInt ACK_TIMEOUT_MS),
       (lit ''streamProgress'', JBool True), (lit ''progressIntervalMs'', JInt 6000),
       (lit ''maxCommandChars'', JInt 2000), (lit ''maxRouterTokens'', JInt 512),
       (lit ''maxPlannerTokens'', JInt 2500), (lit ''summarizeContextBeforePlanning'', JBool True),
       (lit ''cacheProjectContext'', JBool True), (lit ''debounceKanbanSyncMs'', JInt 2000),
       (lit ''batchNodeUpdates'', JBool True)]"

section \<open>Patterns\<close>

definition token_chars :: chars where
  "token_chars = Chars False False [(0x41, 0x5A), (0x61, 0x7A), (0x30, 0x39), (0x5F, 0x5F), (0x2D, 0x2D)]"

definition bearer_chars :: chars where
  "bearer_chars =
     Chars False False [(0x41, 0x5A), (0x61, 0x7A), (0x30, 0x39), (0x2E, 0x2E), (0x5F, 0x5F), (0x2D, 0x2D)]"

definition spaces :: "nat \<Rightarrow> rx" where
  "spaces n = RClass c_space n None"

text \<open>Each pattern with its kind and its flag \<open>i\<close>.\<close>

definition GATEWAY_SECRET_PATTERNS :: "(string \<times> bool \<times> rx) list" where
  "GATEWAY_SECRET_PATTERNS =
     [(''openrouter_key'', False,
        RSeq [RBound, RText (lit ''sk-or-v1''), RClass (Chars False False [(0x5F, 0x5F), (0x2D, 0x2D)]) 1 (Some 1),
              RClass token_chars 24 None, RBound]),
      (''openai_key'', False,
        RSeq [RBound, RText (lit ''sk-''), ROpt (RText (lit ''proj-'')), RClass token_chars 24 None, RBound]),
      (''telegram_bot_token'', False,
        RSeq [RBound, RClass c_digit 7 (Some 12), RText (lit '':''), RClass token_chars 25 None, RBound]),
      (''bearer_token'', True,
        RSeq [RBound, RText (lit ''Bearer''), spaces 1, RClass bearer_chars 24 None, RBound]),
      (''jwt'', False,
        RSeq [RBound, RText (lit ''eyJ''), RClass token_chars 10 None, RText (lit ''.''),
              RClass token_chars 10 None, RText (lit ''.''), RClass token_chars 10 None, RBound]),
      (''named_secret'', True,
        RSeq [RBound,
              RAlt (map (RText \<circ> lit) [''OPENROUTER_API_KEY'', ''TELEGRAM_BOT_TOKEN'', ''API_KEY'',
                ''SECRET'', ''TOKEN'', ''PASSWORD'']),
              spaces 0, RText (lit ''=''), spaces 0,
              ROpt (RClass (Chars False False [(0x22, 0x22), (0x27, 0x27)]) 1 (Some 1)),
              RClass (Chars True True [(0x22, 0x22), (0x27, 0x27)]) 8 None])]"

definition words :: "string list \<Rightarrow> rx" where
  "words ws = RAlt (map (RText \<circ> lit) ws)"

definition then_word :: "rx \<Rightarrow> rx \<Rightarrow> rx" where
  "then_word a b = RSeq [a, spaces 1, b]"

definition word :: "string \<Rightarrow> rx" where
  "word w = RText (lit w)"

definition bounded :: "rx list \<Rightarrow> rx" where
  "bounded rs = RSeq ([RBound] @ rs @ [RBound])"

definition DANGEROUS_PATTERNS :: "(string \<times> rx) list" where
  "DANGEROUS_PATTERNS =
     [(''agent_execution'', bounded [RAlt
         [word ''execute'', then_word (word ''run'') (words [''codex'', ''antigravity'', ''agent'']),
          word ''dispatch'',
          RSeq [word ''auto'', ROpt (RClass (Chars False False [(0x2D, 0x2D), (0x20, 0x20)]) 1 (Some 1)),
                word ''start''],
          then_word (word ''start'') (word ''agent'')]]),
      (''mcp_start'', RAlt
         [bounded [words [''start'', ''run'', ''reload''], spaces 1, ROpt (RSeq [word ''real'', spaces 1]),
                   word ''mcp''],
          bounded [word ''mcp'', spaces 1, words [''start'', ''run'', ''reload'']]]),
      (''package_install'', bounded [RAlt
         [then_word (word ''install'') (word ''package''), then_word (word ''package'') (word ''install''),
          then_word (word ''npm'') (word ''install''), then_word (word ''pnpm'') (word ''add''),
          then_word (word ''pip'') (word ''install''), then_word (word ''cargo'') (word ''install''),
          then_word (word ''brew'') (word ''install'')]]),
      (''provider_call'', bounded [RAlt
         [then_word (word ''call'') (words [''openrouter'', ''provider'']),
          then_word (word ''provider'') (word ''call''), then_word (word ''paid'') (word ''api''),
          then_word (word ''spend'') (word ''credits'')]]),
      (''message_send'', bounded [RAlt
         [then_word (word ''send'') (words [''telegram'', ''line'', ''email'', ''sms'', ''message'']),
          RSeq [word ''dm'', spaces 1], RSeq [word ''notify'', spaces 1],
          then_word (word ''reply'') (word ''to'')]]),
      (''deploy'', bounded [word ''deploy'']),
      (''push'', bounded [RAlt
         [then_word (word ''git'') (word ''push''), then_word (word ''push'') (word ''to''),
          RSeq [word ''push'', RBound]]]),
      (''publish'', bounded [word ''publish'']),
      (''external_connector_activation'',
        bounded [words [''activate'', ''enable'', ''connect''], spaces 1,
                 ROpt (RSeq [word ''external'', spaces 1]), words [''connector'', ''plugin'', ''saas'']]),
      (''secret_read_or_print'',
        bounded [words [''read'', ''print'', ''show'', ''dump'', ''expose''], spaces 1,
                 RAlt [word ''secret'', word ''token'', RSeq [word ''api'', spaces 0, word ''key''],
                       word ''credential'', word ''.env'']])]"

definition secret_matches :: "jstr \<Rightarrow> jstr list" where
  "secret_matches text =
     unique (map (\<lambda>(t, _). lit t) (filter (\<lambda>(t, ci, p). rx_test ci p text) GATEWAY_SECRET_PATTERNS))"

definition redactSecretLikeText :: "jstr \<Rightarrow> jstr" where
  "redactSecretLikeText text =
     foldl (\<lambda>redacted (t, ci, p). rx_replace ci p (lit ''<REDACTED:'' @ lit t @ lit ''>'') redacted)
       text GATEWAY_SECRET_PATTERNS"

definition detectDangerousCommand :: "jstr \<Rightarrow> jstr list" where
  "detectDangerousCommand command =
     unique (map (\<lambda>(reason, _). lit reason)
       (filter (\<lambda>(reason, p). rx_test True p command) DANGEROUS_PATTERNS))"

section \<open>Tokens and flags\<close>

text \<open>
  The quoted alternatives of the token pattern: everything up to the next bare quote, where a
  backslash takes the next unit along unless that is a line terminator.
\<close>

definition line_terminator :: "nat \<Rightarrow> bool" where
  "line_terminator c \<longleftrightarrow> c = 10 \<or> c = 13 \<or> c = 0x2028 \<or> c = 0x2029"

fun quoted :: "nat \<Rightarrow> jstr \<Rightarrow> (jstr \<times> jstr) option" where
  "quoted q [] = None"
| "quoted q [c] = (if c = q then Some ([], []) else None)"
| "quoted q (c # d # s) =
     (if c = q then Some ([], d # s)
      else if c = 0x5C then
        if line_terminator d then None
        else map_option (\<lambda>(b, r). (c # d # b, r)) (quoted q s)
      else map_option (\<lambda>(b, r). (c # b, r)) (quoted q (d # s)))"

text \<open>\<open>s.replace(/\q/g, q)\<close> for a quote \<open>q\<close> after a backslash.\<close>

fun unescape :: "nat \<Rightarrow> jstr \<Rightarrow> jstr" where
  "unescape q [] = []"
| "unescape q [c] = [c]"
| "unescape q (c # d # s) =
     (if c = 0x5C \<and> d = q then q # unescape q s else c # unescape q (d # s))"

definition unescaped :: "jstr \<Rightarrow> jstr" where
  "unescaped t = unescape 0x27 (unescape 0x22 t)"

lemma quoted_length: "quoted q s = Some (b, r) \<Longrightarrow> length r < length s"
  by (induction q s arbitrary: b r rule: quoted.induct) (auto split: if_splits)

text \<open>The first match from the start of \<open>s\<close>: the token and the rest, when there is one.\<close>

fun next_token :: "jstr \<Rightarrow> (jstr \<times> jstr) option" where
  "next_token [] = None"
| "next_token (c # s) =
     (let bare = Some (takeWhile (\<lambda>x. \<not> is_space x) (c # s), dropWhile (\<lambda>x. \<not> is_space x) (c # s)) in
      if is_space c then next_token s
      else if c = 0x22 \<or> c = 0x27 then
        (case quoted c s of Some (b, r) \<Rightarrow> Some (b, r) | None \<Rightarrow> bare)
      else bare)"

lemma next_token_length: "next_token s = Some (t, r) \<Longrightarrow> length r < length s"
proof (induction s rule: next_token.induct)
  case 1
  then show ?case by simp
next
  case (2 c s)
  have d: "length (dropWhile (\<lambda>x. \<not> is_space x) s) < Suc (length s)"
    by (simp add: length_dropWhile_le less_Suc_eq_le)
  from 2 d show ?case
    by (auto simp: Let_def split: if_splits option.splits dest: quoted_length)
qed

function tokenizeCommand :: "jstr \<Rightarrow> jstr list" where
  "tokenizeCommand command =
     (case next_token command of
        None \<Rightarrow> []
      | Some (t, r) \<Rightarrow> unescaped t # tokenizeCommand r)"
  by pat_completeness auto
termination by (relation "measure length") (auto dest: next_token_length)

declare tokenizeCommand.simps [simp del]

definition is_flag :: "jstr \<Rightarrow> bool" where
  "is_flag t \<longleftrightarrow> starts_with (lit ''--'') t"

text \<open>\<open>part.slice(2).split("=", 2)\<close>: the key, and what follows the first equals sign up to the next.\<close>

definition flag_parts :: "jstr \<Rightarrow> jstr \<times> jstr option" where
  "flag_parts part =
     (case split_on 0x3D (drop 2 part) of
        [] \<Rightarrow> ([], None)
      | [k] \<Rightarrow> (k, None)
      | k # v # _ \<Rightarrow> (k, Some v))"

fun parse_flags :: "jstr list \<Rightarrow> jsobj \<Rightarrow> jsobj" where
  "parse_flags [] flags = flags"
| "parse_flags [part] flags =
     (if is_flag part
      then case flag_parts part of
        (k, Some v) \<Rightarrow> dict_set k (JStr v) flags
      | (k, None) \<Rightarrow> dict_set k (JBool True) flags
      else flags)"
| "parse_flags (part # follow # ts) flags =
     (if is_flag part
      then case flag_parts part of
        (k, Some v) \<Rightarrow> parse_flags (follow # ts) (dict_set k (JStr v) flags)
      | (k, None) \<Rightarrow>
          if follow \<noteq> [] \<and> \<not> is_flag follow then parse_flags ts (dict_set k (JStr follow) flags)
          else parse_flags (follow # ts) (dict_set k (JBool True) flags)
      else parse_flags (follow # ts) flags)"

text \<open>\<open>String(flags.k || d)\<close>: a flag is a text or \<open>true\<close>.\<close>

definition flag_text :: "jsobj \<Rightarrow> string \<Rightarrow> string \<Rightarrow> jstr" where
  "flag_text flags k d =
     (case get flags k of
        JStr s \<Rightarrow> if s = [] then lit d else s
      | JBool True \<Rightarrow> lit ''true''
      | _ \<Rightarrow> lit d)"

definition slug_class :: rx where
  "slug_class = RClass (Chars True False [(0x61, 0x7A), (0x30, 0x39)]) 1 None"

definition strip_dashes :: "jstr \<Rightarrow> jstr" where
  "strip_dashes s =
     (let t = (if starts_with (lit ''-'') s then tl s else s)
      in if t \<noteq> [] \<and> last t = 0x2D then butlast t else t)"

definition slugify :: "jstr \<Rightarrow> jstr" where
  "slugify value = strip_dashes (rx_replace False slug_class (lit ''-'') (to_lower (trim value)))"

definition normalizeRoute :: "jstr \<Rightarrow> jstr list" where
  "normalizeRoute value =
     filter (\<lambda>s. s \<noteq> []) (map (\<lambda>item. to_upper (trim item)) (split_on 0x3E value))"

definition sync_target :: "jstr \<Rightarrow> jstr" where
  "sync_target item =
     (if item = lit ''pc'' then lit ''pc_node''
      else if item = lit ''mobile'' then lit ''mobile_node''
      else if ends_with (lit ''_node'') item then item else item @ lit ''_node'')"

definition normalizeSyncTargets :: "jstr \<Rightarrow> jstr list" where
  "normalizeSyncTargets value =
     map sync_target
       (filter (\<lambda>s. s \<noteq> []) (map (\<lambda>item. to_lower (trim item)) (split_on 0x2C value)))"

section \<open>Commands\<close>

datatype command =
    Reset
  | Status
  | JobsList jstr
  | JobsGet jstr
  | BoardsList
  | BoardSwitch jstr
  | MissionCreate jstr
  | MissionRoute "jstr list" jstr "jstr list" jstr
  | MissionStatus
  | ApprovalIntent jstr
  | CancelIntent jstr
  | SyncStatus jstr "jstr list"
  | HermesMission jstr jstr "jstr list" jstr "jstr list" jstr

fun command_kind :: "command \<Rightarrow> jstr" where
  "command_kind Reset = lit ''reset''"
| "command_kind Status = lit ''status''"
| "command_kind (JobsList _) = lit ''jobs_list''"
| "command_kind (JobsGet _) = lit ''jobs_get''"
| "command_kind BoardsList = lit ''kanban_boards_list''"
| "command_kind (BoardSwitch _) = lit ''kanban_board_switch''"
| "command_kind (MissionCreate _) = lit ''mission_create''"
| "command_kind (MissionRoute _ _ _ _) = lit ''mission_route''"
| "command_kind MissionStatus = lit ''mission_status''"
| "command_kind (ApprovalIntent _) = lit ''approval_intent''"
| "command_kind (CancelIntent _) = lit ''cancel_intent''"
| "command_kind (SyncStatus _ _) = lit ''sync_status_request''"
| "command_kind (HermesMission _ _ _ _ _ _) = lit ''hermes_mission_create''"

fun fast_command :: "command \<Rightarrow> bool" where
  "fast_command (MissionCreate _) = False"
| "fast_command (MissionRoute _ _ _ _) = False"
| "fast_command (HermesMission _ _ _ _ _ _) = False"
| "fast_command _ = True"

fun canonical_command :: "command \<Rightarrow> jstr" where
  "canonical_command Reset = lit ''/reset''"
| "canonical_command Status = lit ''/status''"
| "canonical_command (JobsList _) = lit ''/jobs''"
| "canonical_command (JobsGet _) = lit ''/jobs get <job_id>''"
| "canonical_command BoardsList = lit ''/kanban boards list''"
| "canonical_command (BoardSwitch _) = lit ''/kanban boards switch <slug>''"
| "canonical_command (MissionCreate _) = mission_create_usage"
| "canonical_command (MissionRoute _ _ _ _) = mission_route_usage"
| "canonical_command MissionStatus = lit ''/mission status''"
| "canonical_command (ApprovalIntent _) = lit ''/hermes approve <job_id>''"
| "canonical_command (CancelIntent _) = lit ''/hermes cancel <job_id>''"
| "canonical_command (SyncStatus t _) = lit ''/hermes sync '' @ t"
| "canonical_command (HermesMission _ _ _ _ _ _) = hermes_mission_usage"

text \<open>The members a result has besides kind, speed and canonical form.\<close>

fun command_fields :: "command \<Rightarrow> jsobj" where
  "command_fields (JobsList i) = [(lit ''jobId'', JStr i)]"
| "command_fields (JobsGet i) = [(lit ''jobId'', JStr i)]"
| "command_fields (BoardSwitch b) = [(lit ''board'', JStr b)]"
| "command_fields (MissionCreate n) = [(lit ''name'', JStr n)]"
| "command_fields (MissionRoute r p ts m) =
     [(lit ''route'', JArr (map JStr r)), (lit ''provider'', JStr p),
      (lit ''syncTargets'', JArr (map JStr ts)), (lit ''mode'', JStr m)]"
| "command_fields (ApprovalIntent t) = [(lit ''targetId'', JStr t), (lit ''executionBlocked'', JBool True)]"
| "command_fields (CancelIntent t) = [(lit ''targetId'', JStr t), (lit ''executionBlocked'', JBool True)]"
| "command_fields (SyncStatus _ ts) =
     [(lit ''syncTargets'', JArr (map JStr ts)), (lit ''executionBlocked'', JBool True)]"
| "command_fields (HermesMission b n r p ts m) =
     [(lit ''board'', JStr b), (lit ''name'', JStr n), (lit ''route'', JArr (map JStr r)),
      (lit ''provider'', JStr p), (lit ''syncTargets'', JArr (map JStr ts)), (lit ''mode'', JStr m)]"
| "command_fields _ = []"

text \<open>\<open>tokens[i]\<close>, empty when there is none: the code only asks whether it is truthy.\<close>

definition token :: "jstr list \<Rightarrow> nat \<Rightarrow> jstr" where
  "token ts i = (if i < length ts then ts ! i else [])"

definition parse_kanban :: "jstr list \<Rightarrow> string + command" where
  "parse_kanban ts =
     (if token ts 1 = lit ''boards'' \<and> token ts 2 = lit ''list'' then Inr BoardsList
      else if token ts 1 = lit ''boards'' \<and> token ts 2 = lit ''switch'' \<and> token ts 3 \<noteq> []
      then Inr (BoardSwitch (slugify (token ts 3)))
      else Inl ''kanban_boards_switch_required'')"

definition parse_mission :: "jstr list \<Rightarrow> string + command" where
  "parse_mission ts =
     (if token ts 1 = lit ''create'' \<and> token ts 2 \<noteq> []
      then Inr (MissionCreate (trim (join (lit '' '') (drop 2 ts))))
      else if token ts 1 = lit ''route'' \<and> token ts 2 \<noteq> []
      then let flags = parse_flags (drop 3 ts) [] in
        Inr (MissionRoute (normalizeRoute (token ts 2)) (flag_text flags ''provider'' ''openrouter'')
          (normalizeSyncTargets (flag_text flags ''sync'' [])) (flag_text flags ''mode'' ''adaptive''))
      else if token ts 1 = lit ''status'' then Inr MissionStatus
      else Inl ''unknown_command'')"

definition parse_hermes :: "jstr list \<Rightarrow> string + command" where
  "parse_hermes ts =
     (if token ts 1 = lit ''approve'' \<and> token ts 2 \<noteq> [] then Inr (ApprovalIntent (token ts 2))
      else if token ts 1 = lit ''cancel'' \<and> token ts 2 \<noteq> [] then Inr (CancelIntent (token ts 2))
      else if token ts 1 = lit ''sync'' \<and> token ts 2 \<noteq> []
      then Inr (SyncStatus (token ts 2) (normalizeSyncTargets (token ts 2)))
      else if token ts 1 = lit ''mission'' \<and> token ts 2 = lit ''create''
      then let flags = parse_flags (drop 3 ts) [] in
        Inr (HermesMission (slugify (flag_text flags ''board'' ''fusion-team-ai''))
          (flag_text flags ''name'' ''Fusion Team AI'') (normalizeRoute (flag_text flags ''route'' []))
          (flag_text flags ''provider'' ''openrouter'') (normalizeSyncTargets (flag_text flags ''sync'' []))
          (flag_text flags ''mode'' ''adaptive''))
      else Inl ''unknown_command'')"

text \<open>The argument is trimmed already.\<close>

definition parse_tokens :: "jstr \<Rightarrow> jstr list \<Rightarrow> string + command" where
  "parse_tokens rawCommand ts =
     (if rawCommand = [] then Inl ''missing_command''
      else if token ts 0 \<in> {lit ''/clear'', lit ''/reset''} then Inr Reset
      else if token ts 0 = lit ''/status'' then Inr Status
      else if token ts 0 = lit ''/jobs''
      then Inr (if token ts 1 = lit ''get'' then JobsGet (token ts 2) else JobsList (token ts 2))
      else if token ts 0 = lit ''/kanban'' then parse_kanban ts
      else if token ts 0 = lit ''/mission'' then parse_mission ts
      else if token ts 0 = lit ''/hermes'' then parse_hermes ts
      else Inl ''unknown_command'')"

definition parseAdaptiveCommand :: "jstr \<Rightarrow> string + command" where
  "parseAdaptiveCommand command =
     (let rawCommand = trim command in parse_tokens rawCommand (tokenizeCommand rawCommand))"

definition parser_json :: "jstr \<Rightarrow> string + command \<Rightarrow> jsobj" where
  "parser_json rawCommand parsed =
     (case parsed of
        Inl e \<Rightarrow> [(lit ''valid'', JBool False), (lit ''error'', JText e)]
      | Inr c \<Rightarrow>
          [(lit ''valid'', JBool True), (lit ''kind'', JStr (command_kind c)),
           (lit ''fastCommand'', JBool (fast_command c)),
           (lit ''canonicalCommand'', JStr (canonical_command c))] @ command_fields c) @
     [(lit ''rawCommand'', JStr rawCommand),
      (lit ''tokens'', JArr (map JStr (tokenizeCommand rawCommand)))]"

section \<open>Missions\<close>

fun command_board :: "command \<Rightarrow> jstr" where
  "command_board (BoardSwitch b) = b"
| "command_board (HermesMission b _ _ _ _ _) = b"
| "command_board _ = []"

fun command_name :: "command \<Rightarrow> jstr" where
  "command_name (MissionCreate n) = n"
| "command_name (HermesMission _ n _ _ _ _) = n"
| "command_name _ = []"

fun command_route :: "command \<Rightarrow> jstr list" where
  "command_route (MissionRoute r _ _ _) = r"
| "command_route (HermesMission _ _ r _ _ _) = r"
| "command_route _ = []"

fun command_provider :: "command \<Rightarrow> jstr" where
  "command_provider (MissionRoute _ p _ _) = p"
| "command_provider (HermesMission _ _ _ p _ _) = p"
| "command_provider _ = []"

fun command_targets :: "command \<Rightarrow> jstr list" where
  "command_targets (MissionRoute _ _ ts _) = ts"
| "command_targets (SyncStatus _ ts) = ts"
| "command_targets (HermesMission _ _ _ _ ts _) = ts"
| "command_targets _ = []"

fun command_mode :: "command \<Rightarrow> jstr" where
  "command_mode (MissionRoute _ _ _ m) = m"
| "command_mode (HermesMission _ _ _ _ _ m) = m"
| "command_mode _ = []"

fun is_mission_create :: "command \<Rightarrow> bool" where
  "is_mission_create (MissionCreate _) = True"
| "is_mission_create _ = False"

definition compactDate :: "jstr \<Rightarrow> jstr" where
  "compactDate stamp = replace_unit 0x2D [] (slice0 10 stamp)"

text \<open>Every unit but a capital and a digit is removed.\<close>

definition requestSuffix :: "jstr \<Rightarrow> jstr" where
  "requestSuffix v =
     (let cleaned = slice0 10 (filter (\<lambda>c. is_digit c \<or> (0x41 \<le> c \<and> c \<le> 0x5A))
            (to_upper (if v = [] then lit ''job'' else v)))
      in if cleaned = [] then lit ''JOB'' else cleaned)"

definition makeJobId :: "jstr \<Rightarrow> jstr \<Rightarrow> jstr" where
  "makeJobId requestId stamp = lit ''HERMES-'' @ compactDate stamp @ lit ''-'' @ requestSuffix requestId"

definition makeMissionId :: "jstr \<Rightarrow> jstr \<Rightarrow> jstr" where
  "makeMissionId requestId stamp = lit ''MISSION-'' @ compactDate stamp @ lit ''-'' @ requestSuffix requestId"

record mission =
  mi_missionId :: jstr
  mi_board :: jstr
  mi_name :: jstr
  mi_route :: "jstr list"
  mi_provider :: jstr
  mi_syncTargets :: "jstr list"
  mi_mode :: jstr
  mi_status :: jstr
  mi_approvalRequired :: bool
  mi_nextAction :: jstr

definition or_default :: "jstr \<Rightarrow> string \<Rightarrow> jstr" where
  "or_default s d = (if s = [] then lit d else s)"

definition buildMission :: "command \<Rightarrow> jstr \<Rightarrow> jstr \<Rightarrow> mission" where
  "buildMission c requestId stamp =
     (let route = (if command_route c = [] then map lit [''HERMES'', ''CODEX'', ''ANTIGRAVITY'']
                   else command_route c);
          syncTargets = (if command_targets c = [] then map lit [''pc_node'', ''mobile_node'']
                         else command_targets c);
          hasRoute = (route \<noteq> []);
          status = (if is_mission_create c \<and> \<not> hasRoute then lit ''DRAFT'' else lit ''WAITING_APPROVAL'')
      in \<lparr>mi_missionId = makeMissionId requestId stamp,
          mi_board = or_default (command_board c) ''fusion-team-ai'',
          mi_name = or_default (command_name c) ''Fusion Team AI'',
          mi_route = route, mi_provider = or_default (command_provider c) ''openrouter'',
          mi_syncTargets = syncTargets, mi_mode = or_default (command_mode c) ''adaptive'',
          mi_status = status, mi_approvalRequired = (status \<noteq> lit ''DRAFT''),
          mi_nextAction = (if status = lit ''DRAFT'' then lit ''Configure mission route.''
                           else lit ''Approve mission execution.'')\<rparr>)"

definition mission_json :: "mission option \<Rightarrow> jsval" where
  "mission_json mission =
     (case mission of
        None \<Rightarrow> JNull
      | Some m \<Rightarrow> JObj
          [(lit ''missionId'', JStr (mi_missionId m)), (lit ''board'', JStr (mi_board m)),
           (lit ''name'', JStr (mi_name m)), (lit ''route'', JArr (map JStr (mi_route m))),
           (lit ''provider'', JStr (mi_provider m)),
           (lit ''modelPolicy'', JObj [(lit ''router'', JStr GATEWAY_MODEL),
              (lit ''planner'', JStr GATEWAY_MODEL), (lit ''reviewer'', JStr GATEWAY_MODEL)]),
           (lit ''syncTargets'', JArr (map JStr (mi_syncTargets m))), (lit ''mode'', JStr (mi_mode m)),
           (lit ''status'', JStr (mi_status m)), (lit ''approvalRequired'', JBool (mi_approvalRequired m)),
           (lit ''nextAction'', JStr (mi_nextAction m))])"

definition progress :: "jstr \<Rightarrow> int \<Rightarrow> string \<Rightarrow> string \<Rightarrow> jsval" where
  "progress jobId percent status text =
     JObj [(lit ''jobId'', JStr jobId), (lit ''percent'', JInt percent), (lit ''status'', JText status),
       (lit ''text'', JText text)]"

definition buildProgressCallbacks :: "jstr \<Rightarrow> jsval list" where
  "buildProgressCallbacks jobId =
     [progress jobId 10 ''QUEUED'' ''Parsed command and created queue job.'',
      progress jobId 25 ''ROUTING'' ''Fast router selected mission lane.'',
      progress jobId 50 ''PLANNING'' ''Deep Hermes planner is approval-gated.'',
      progress jobId 100 ''WAITING_APPROVAL'' ''Ready for human approval; workers remain blocked.'']"

section \<open>Acknowledgements\<close>

definition check_mark :: jstr where
  "check_mark = [0x2705, 0x20]"

text \<open>
  The last answer reads the mission, which a fast command does not have: reading a member of
  \<open>null\<close> raises.
\<close>

definition mission_ack :: "jstr \<Rightarrow> mission option \<Rightarrow> jstr result" where
  "mission_ack jobId mission =
     (case mission of
        None \<Rightarrow> Inl (JsTypeError (lit ''Cannot read properties of null (reading board)''))
      | Some m \<Rightarrow> Inr (join [10]
          [check_mark @ lit ''Command received.'',
           lit ''Job ID: '' @ jobId,
           lit ''Board: '' @ mi_board m,
           lit ''Route: '' @ join (lit '' > '') (mi_route m),
           lit ''Status: '' @ (if mi_status m = lit ''DRAFT'' then lit ''draft''
                              else lit ''queued / waiting approval'')]))"

fun ackFor :: "command \<Rightarrow> jstr \<Rightarrow> mission option \<Rightarrow> jstr result" where
  "ackFor Reset jobId mission = Inr (check_mark @ lit ''Screen cleared and session reset.'')"
| "ackFor Status jobId mission =
     Inr (check_mark @ lit ''Status request received. Fast local status handler only; no deep model required.'')"
| "ackFor (JobsList _) jobId mission =
     Inr (check_mark @ lit ''Jobs request received. Queue status can be listed locally.'')"
| "ackFor (JobsGet i) jobId mission =
     Inr (check_mark @ lit ''Job lookup request received for '' @ or_default i ''missing job id'' @ lit ''.'')"
| "ackFor BoardsList jobId mission = Inr (check_mark @ lit ''Kanban board list request received.'')"
| "ackFor (BoardSwitch b) jobId mission =
     Inr (check_mark @ lit ''Active board switched to '' @ b @ lit ''.'')"
| "ackFor (ApprovalIntent t) jobId mission =
     Inr (check_mark @ lit ''Approval intent captured for '' @ t @
       lit ''. Execution remains blocked until the worker gate is separately approved.'')"
| "ackFor (CancelIntent t) jobId mission =
     Inr (check_mark @ lit ''Cancel intent captured for '' @ t @ lit ''. No worker command executed.'')"
| "ackFor (SyncStatus _ ts) jobId mission =
     Inr (check_mark @ lit ''Sync status request received for '' @ join (lit '', '') ts @ lit ''.'')"
| "ackFor c jobId mission = mission_ack jobId mission"

definition ack_json :: "jstr \<Rightarrow> jsval" where
  "ack_json text =
     JObj [(lit ''shouldRespondImmediately'', JBool True), (lit ''timeoutMs'', JInt ACK_TIMEOUT_MS),
       (lit ''text'', JStr text)]"

section \<open>The dry run\<close>

definition SAFETY_FLAGS :: "string list" where
  "SAFETY_FLAGS =
     [''externalWrites'', ''productionWrites'', ''customerVisible'', ''commandExecuted'', ''providerCalled'',
      ''secretsRead'', ''messageSent'', ''telegramMessageSent'', ''canSendTelegram'', ''canCallProvider'',
      ''canExecuteAgents'', ''canStartMcp'', ''canInstallPackages'', ''canDeploy'', ''canPush'', ''canPublish'',
      ''shouldForwardToLlm'']"

definition baseSafety :: jsobj where
  "baseSafety =
     map (\<lambda>k. (lit k, JBool False)) SAFETY_FLAGS @ [(lit ''requiresHumanApproval'', JBool True)]"

definition recommendedCommands :: "jstr list" where
  "recommendedCommands =
     [lit ''/kanban boards switch fusion-team-ai'',
      lit ''/mission create '' @ [0x22] @ lit ''Fusion Team AI: Hermes Codex Antigravity Adaptive Sync'' @ [0x22],
      lit ''/mission route '' @ [0x22] @ lit ''HERMES>CODEX>ANTIGRAVITY'' @ [0x22] @
        lit '' --provider openrouter --sync pc,mobile --mode adaptive'',
      lit ''/mission status'']"

definition gateway_base :: "jstr \<Rightarrow> jstr \<Rightarrow> jstr \<Rightarrow> jstr \<Rightarrow> bool \<Rightarrow> jsobj" where
  "gateway_base source requestId stamp sanitizedCommand received =
     baseSafety @
     [(lit ''title'', JText ''Hermes Adaptive Command Gateway''), (lit ''version'', JText ''0.2''),
      (lit ''source'', JStr source), (lit ''requestId'', JStr requestId), (lit ''createdAt'', JStr stamp),
      (lit ''stopPoint'', JStr GATEWAY_STOP_POINT), (lit ''rawCommandReceived'', JBool received),
      (lit ''sanitizedCommand'', JStr sanitizedCommand), (lit ''latencyControl'', LATENCY_CONTROL)]"

definition no_job :: jsval where
  "no_job = JObj [(lit ''required'', JBool False)]"

definition secret_answer :: "jstr list \<Rightarrow> jsobj" where
  "secret_answer matches =
     [(lit ''status'', JText ''blocked_secret_detected''), (lit ''secretDetected'', JBool True),
      (lit ''secretMatches'', JArr (map JStr matches)),
      (lit ''blockedReasons'', JTexts [''secret_like_content'']),
      (lit ''ack'', ack_json ([0x26A0, 0xFE0F, 0x20] @
         lit ''Secret-like text detected. I did not forward this command to the model. Rotate or revoke the token if it is real.'')),
      (lit ''job'', no_job),
      (lit ''nextActions'', JTexts [''rotate_or_revoke_possible_token'',
         ''remove_secret_from_logs_if_persisted'', ''retry_with_redacted_command''])]"

definition dangerous_answer :: "jstr list \<Rightarrow> jsobj" where
  "dangerous_answer reasons =
     [(lit ''status'', JText ''blocked_dangerous_command''), (lit ''secretDetected'', JBool False),
      (lit ''blockedReasons'', JArr (map JStr reasons)),
      (lit ''ack'', ack_json ([0x26D4, 0x20] @
         lit ''Command blocked. This gateway is dry-run only and cannot execute workers, send messages, call providers, install packages, start MCP, deploy, push, or publish.'')),
      (lit ''job'', no_job),
      (lit ''nextActions'', JTexts [''rewrite_as_dry_run_plan'', ''request_specific_execution_approval_packet''])]"

definition invalid_answer :: "jstr \<Rightarrow> string \<Rightarrow> jsobj" where
  "invalid_answer command e =
     [(lit ''status'', JText ''invalid_command_syntax''), (lit ''secretDetected'', JBool False),
      (lit ''parser'', JObj (parser_json command (Inl e))),
      (lit ''ack'', ack_json ([0x26A0, 0xFE0F, 0x20] @
         lit ''Command syntax needs structure. Split board, mission, route, and sync into separate fields.'')),
      (lit ''job'', no_job),
      (lit ''recommendedCommands'', JArr (map JStr recommendedCommands))]"

definition queued_job :: "jstr \<Rightarrow> jstr \<Rightarrow> jstr \<Rightarrow> jsval" where
  "queued_job jobId sanitizedCommand stamp =
     JObj [(lit ''required'', JBool True), (lit ''id'', JStr jobId), (lit ''status'', JText ''QUEUED''),
       (lit ''currentAgent'', JText ''HERMES''), (lit ''command'', JStr sanitizedCommand),
       (lit ''commandExecuted'', JBool False), (lit ''createdAt'', JStr stamp), (lit ''updatedAt'', JStr stamp)]"

definition accepted_status :: "command \<Rightarrow> jstr" where
  "accepted_status c =
     (if \<not> fast_command c then lit ''long_job_queued_dry_run''
      else if command_kind c = lit ''approval_intent'' then lit ''approval_intent_captured_dry_run''
      else lit ''fast_ack_ready'')"

definition accepted_answer ::
  "jstr \<Rightarrow> command \<Rightarrow> jstr \<Rightarrow> mission option \<Rightarrow> jstr \<Rightarrow> jstr \<Rightarrow> jstr \<Rightarrow> jsobj" where
  "accepted_answer command c jobId mission ackText sanitizedCommand stamp =
     (let jobRequired = (\<not> fast_command c) in
      [(lit ''status'', JStr (accepted_status c)), (lit ''secretDetected'', JBool False),
       (lit ''parser'', JObj (parser_json command (Inr c))),
       (lit ''canonicalCommand'', JStr (canonical_command c)),
       (lit ''ack'', ack_json ackText),
       (lit ''job'', if jobRequired then queued_job jobId sanitizedCommand stamp else no_job),
       (lit ''queue'', if jobRequired then QUEUE_POLICY else JNull),
       (lit ''mission'', mission_json mission),
       (lit ''progressCallbacks'', JArr (if jobRequired then buildProgressCallbacks jobId else [])),
       (lit ''workerExecution'', JObj (map (\<lambda>k. (lit k, JBool False))
          [''hermesPlanner'', ''codex'', ''antigravity'', ''pcNode'', ''mobileNode''])),
       (lit ''syncPolicy'', JObj
          [(lit ''pcNode'', JText ''heavy execution after approval only''),
           (lit ''mobileNode'', JText ''status and approval only''),
           (lit ''telegram'', JText ''command, status, approval, report surface'')]),
       (lit ''nextActions'', JTexts (if jobRequired
          then [''review_mission_packet'', ''wait_for_human_approval''] else [''return_fast_ack_only'']))])"

text \<open>What happens to a trimmed command once the texts of the body are read.\<close>

definition answer_command :: "jstr \<Rightarrow> jstr \<Rightarrow> jstr \<Rightarrow> jstr \<Rightarrow> jsobj result" where
  "answer_command source requestId stamp command =
     (let sanitizedCommand = redactSecretLikeText command;
          base = gateway_base source requestId stamp sanitizedCommand (command \<noteq> [])
      in if secret_matches command \<noteq> [] then Inr (base @ secret_answer (secret_matches command))
         else if detectDangerousCommand command \<noteq> []
         then Inr (base @ dangerous_answer (detectDangerousCommand command))
         else case parseAdaptiveCommand command of
           Inl e \<Rightarrow> Inr (base @ invalid_answer command e)
         | Inr c \<Rightarrow>
             let jobId = makeJobId requestId stamp;
                 mission = (if fast_command c then None else Some (buildMission c requestId stamp))
             in result_bind (ackFor c jobId mission) (\<lambda>ackText.
                  Inr (base @ accepted_answer command c jobId mission ackText sanitizedCommand stamp)))"

text \<open>A body that is \<open>null\<close> has no members to read; \<open>undefined\<close> stands for an empty one.\<close>

definition createAdaptiveCommandDryRun :: "printer \<Rightarrow> time \<Rightarrow> jsval \<Rightarrow> jsobj result" where
  "createAdaptiveCommandDryRun pr now body =
     (if body = JNull then Inl (JsTypeError (lit ''Cannot read properties of null''))
      else
        result_bind (string_result pr (js_or (opt_prop body ''requestId'') (JText ''adaptive-command''))) (\<lambda>requestId.
        result_bind (string_result pr (js_or (opt_prop body ''source'') (JText ''telegram''))) (\<lambda>source.
        result_bind (string_result pr (first_truthy
            [opt_prop body ''command'', opt_prop body ''text'', opt_prop (opt_prop body ''message'') ''text'']
            (JStr []))) (\<lambda>command.
          answer_command source requestId (to_iso now) (trim command)))))"

section \<open>Night watch reports\<close>

definition final_words :: rx where
  "final_words = words [''OK'', ''WARN'', ''FAILED'']"

text \<open>\<open>value.split(/\r?\n/)\<close>: a carriage return before a line feed belongs to the separator.\<close>

definition drop_cr :: "jstr \<Rightarrow> jstr" where
  "drop_cr l = (if l \<noteq> [] \<and> last l = 13 then butlast l else l)"

definition report_lines :: "jstr \<Rightarrow> jstr list" where
  "report_lines v =
     (let ls = split_on 10 v in map drop_cr (butlast ls) @ [last ls])"

definition status_heading :: "jstr \<Rightarrow> bool" where
  "status_heading line \<longleftrightarrow>
     rx_test True (RSeq [RStart, RClass (Chars False False [(0x23, 0x23)]) 1 (Some 6), spaces 0,
        RText (lit ''Final Status''), spaces 0, REnd]) (trim line)"

definition leading_status :: "jstr \<Rightarrow> jstr option" where
  "leading_status line = rx_capture True [RStart] final_words [RBound] line"

text \<open>The first line after the heading that is not blank decides.\<close>

fun status_below :: "jstr list \<Rightarrow> jstr option" where
  "status_below [] = None"
| "status_below (line # ls) = (if trim line = [] then status_below ls else leading_status (trim line))"

fun after_heading :: "jstr list \<Rightarrow> jstr list" where
  "after_heading [] = []"
| "after_heading (line # ls) = (if status_heading line then ls else after_heading ls)"

definition extractNightWatchFinalStatus :: "jstr \<Rightarrow> jstr" where
  "extractNightWatchFinalStatus v =
     (case rx_capture True [RText (lit ''Hermes night-watch status:''), spaces 0] final_words [RBound] v of
        Some s \<Rightarrow> to_upper s
      | None \<Rightarrow>
          (case rx_capture True [RText (lit ''Final Status''), spaces 0, ROpt (RText (lit '':'')), spaces 0]
                  final_words [RBound] v of
             Some s \<Rightarrow> to_upper s
           | None \<Rightarrow>
               (case status_below (after_heading (report_lines v)) of
                  Some s \<Rightarrow> to_upper s
                | None \<Rightarrow> lit ''UNKNOWN'')))"

record night_watch =
  nw_finalStatus :: jstr
  nw_exitCode :: jsnum
  nw_status :: jstr
  nw_failed :: bool
  nw_logPath :: jstr
  nw_telegramLevel :: jstr
  nw_note :: jstr

definition night_watch_of :: "jsnum \<Rightarrow> jstr \<Rightarrow> jstr \<Rightarrow> night_watch" where
  "night_watch_of exitCode output logPath =
     (let finalStatus = extractNightWatchFinalStatus output;
          failed = (exitCode \<noteq> Fin 0 \<or> finalStatus = lit ''FAILED'');
          warned = (finalStatus = lit ''WARN'')
      in \<lparr>nw_finalStatus = finalStatus, nw_exitCode = exitCode,
          nw_status = (if failed then lit ''failed'' else if warned then lit ''completed_with_warning''
             else if finalStatus = lit ''OK'' then lit ''completed'' else lit ''completed_unknown''),
          nw_failed = failed, nw_logPath = logPath,
          nw_telegramLevel = (if failed then lit ''failure'' else if warned then lit ''success_warning''
             else lit ''success''),
          nw_note =
            (if failed
             then lit ''Night Watch failed or exited non-zero; include log path and request human review.''
             else if warned
             then lit ''Night Watch completed with warnings; optional/degraded services should not be reported as script failure.''
             else lit ''Night Watch completed.'')\<rparr>)"

definition number_result :: "printer \<Rightarrow> jsval \<Rightarrow> jsnum result" where
  "number_result pr v =
     (if convertible v then Inr (to_number pr v)
      else Inl (JsTypeError (lit ''Cannot convert object to primitive value'')))"

definition classifyNightWatchCallback :: "printer \<Rightarrow> jsobj \<Rightarrow> night_watch result" where
  "classifyNightWatchCallback pr input =
     result_bind (number_result pr (js_nullish (get input ''exitCode'') (JInt 1))) (\<lambda>exitCode.
     result_bind (string_result pr (first_truthy [get input ''output'', get input ''report''] (JStr []))) (\<lambda>output.
     result_bind (string_result pr (js_or (get input ''logPath'') (JText ''.hermes/logs/night-watch-latest.md''))) (\<lambda>logPath.
       Inr (night_watch_of exitCode output logPath))))"

definition night_watch_json :: "night_watch \<Rightarrow> jsval" where
  "night_watch_json n =
     JObj [(lit ''finalStatus'', JStr (nw_finalStatus n)), (lit ''exitCode'', JNum (nw_exitCode n)),
       (lit ''status'', JStr (nw_status n)), (lit ''failed'', JBool (nw_failed n)),
       (lit ''logPath'', JStr (nw_logPath n)), (lit ''telegramLevel'', JStr (nw_telegramLevel n)),
       (lit ''shouldNotifyFailure'', JBool (nw_failed n)),
       (lit ''shouldTreatAsCompleted'', JBool (\<not> nw_failed n)), (lit ''note'', JStr (nw_note n))]"

definition night_watch_sample :: "int \<Rightarrow> string \<Rightarrow> jsval" where
  "night_watch_sample code w =
     night_watch_json (night_watch_of (Fin (of_int code)) (lit ''Hermes night-watch status: '' @ lit w)
       (lit ''.hermes/logs/night-watch-latest.md''))"

definition node_entry :: "string \<Rightarrow> string list \<Rightarrow> string list \<Rightarrow> jsval" where
  "node_entry role allowed blocked =
     JObj [(lit ''role'', JText role), (lit ''allowedBeforeApproval'', JTexts allowed),
       (lit ''blockedBeforeApproval'', JTexts blocked)]"

definition getAdaptiveCommandGatewayStatus :: "time \<Rightarrow> jsobj" where
  "getAdaptiveCommandGatewayStatus now =
     baseSafety @
     [(lit ''title'', JText ''Hermes Adaptive Command Gateway''), (lit ''version'', JText ''0.2''),
      (lit ''status'', JText ''hermes-adaptive-command-gateway-ready-local-only''),
      (lit ''mode'', JText ''fast-ack-queue-dry-run''), (lit ''generatedAt'', JStr (to_iso now)),
      (lit ''aliases'', JObj [(lit ''clear'', JText ''reset'')]),
      (lit ''commandRegistry'', JArr (map JStr GATEWAY_COMMANDS)),
      (lit ''modelPolicy'', MODEL_POLICY), (lit ''queuePolicy'', QUEUE_POLICY),
      (lit ''latencyControl'', LATENCY_CONTROL),
      (lit ''nodePolicy'', JObj
         [(lit ''pcNode'', node_entry ''heavy_execution_after_approval'' [''status'', ''heartbeat'']
             [''code_execution'', ''repo_mutation'', ''build'', ''test_worker_start'']),
          (lit ''mobileNode'', node_entry ''monitor_and_approve'' [''status'', ''approval_review'']
             [''file_mutation'', ''provider_call'', ''agent_execution''])]),
      (lit ''blockedActions'', JArr (map JStr GATEWAY_BLOCKED_ACTIONS)),
      (lit ''nightWatchCallbackPolicy'', JObj
         [(lit ''ok'', night_watch_sample 0 ''OK''), (lit ''warn'', night_watch_sample 0 ''WARN''),
          (lit ''failed'', night_watch_sample 1 ''FAILED'')]),
      (lit ''supportedJobStatuses'', JTexts
         [''QUEUED'', ''ROUTING'', ''PLANNING'', ''RUNNING_CODEX'', ''RUNNING_ANTIGRAVITY'', ''SYNCING_PC_NODE'',
          ''SYNCING_MOBILE_NODE'', ''WAITING_APPROVAL'', ''DONE'', ''FAILED'']),
      (lit ''recommendedFirstCommands'', JArr (map JStr recommendedCommands)),
      (lit ''stopPoint'', JStr GATEWAY_STOP_POINT)]"

section \<open>Quoting and tokens\<close>

text \<open>How an operator writes a word with blanks: between quotes, with a backslash before each quote.\<close>

definition quote_word :: "jstr \<Rightarrow> jstr" where
  "quote_word w = [0x22] @ replace_unit 0x22 [0x5C, 0x22] w @ [0x22]"

lemma quoted_escaped:
  "0x5C \<notin> set w \<Longrightarrow>
     quoted 0x22 (replace_unit 0x22 [0x5C, 0x22] w @ 0x22 # r) = Some (replace_unit 0x22 [0x5C, 0x22] w, r)"
proof (induction w)
  case Nil
  show ?case by (cases r) (simp_all add: replace_unit_def)
next
  case (Cons c w)
  obtain d s where t: "replace_unit 0x22 [0x5C, 0x22] w @ 0x22 # r = d # s"
    by (cases "replace_unit 0x22 [0x5C, 0x22] w") auto
  from Cons.prems have IH: "quoted 0x22 (d # s) = Some (replace_unit 0x22 [0x5C, 0x22] w, r)"
    using Cons.IH t by simp
  show ?case
  proof (cases "c = 0x22")
    case True
    with IH t show ?thesis
      by (simp add: replace_unit_def replace_units_Cons line_terminator_def)
  next
    case False
    with Cons.prems IH t show ?thesis
      by (simp add: replace_unit_def replace_units_Cons)
  qed
qed

lemma unescape_no_backslash: "0x5C \<notin> set w \<Longrightarrow> unescape q w = w"
  by (induction q w rule: unescape.induct) auto

lemma unescape_step: "c \<noteq> 0x5C \<Longrightarrow> unescape q (c # s) = c # unescape q s"
  by (cases s) auto

lemma unescape_escaped: "0x5C \<notin> set w \<Longrightarrow> unescape 0x22 (replace_unit 0x22 [0x5C, 0x22] w) = w"
  by (induction w) (auto simp: replace_unit_def replace_units_Cons unescape_step)

lemma unescaped_escaped: "0x5C \<notin> set w \<Longrightarrow> unescaped (replace_unit 0x22 [0x5C, 0x22] w) = w"
  by (simp add: unescaped_def unescape_escaped unescape_no_backslash)

lemma next_token_quoted:
  "0x5C \<notin> set w \<Longrightarrow> next_token (quote_word w @ r) = Some (replace_unit 0x22 [0x5C, 0x22] w, r)"
  by (simp add: quote_word_def Let_def is_space_def quoted_escaped)

lemma tokenize_quoted:
  "0x5C \<notin> set w \<Longrightarrow> tokenizeCommand (quote_word w @ r) = w # tokenizeCommand r"
  by (subst tokenizeCommand.simps) (simp add: next_token_quoted unescaped_escaped)

lemma tokenize_space: "is_space c \<Longrightarrow> tokenizeCommand (c # s) = tokenizeCommand s"
  by (subst (1 2) tokenizeCommand.simps) simp

lemma tokenize_Nil: "tokenizeCommand [] = []"
  by (subst tokenizeCommand.simps) simp

text \<open>
  Words without a backslash, quoted and put one after the other, are read back as they were,
  blanks and quotes inside them included.
\<close>

theorem quoting_roundtrip:
  assumes "\<forall>w \<in> set ws. 0x5C \<notin> set w"
  shows "tokenizeCommand (join [0x20] (map quote_word ws)) = ws"
  using assms
proof (induction ws)
  case Nil
  show ?case by (simp add: tokenize_Nil)
next
  case (Cons w ws)
  show ?case
  proof (cases ws)
    case Nil
    with Cons.prems show ?thesis using tokenize_quoted [of w "[]"] by (simp add: tokenize_Nil)
  next
    case (Cons v vs)
    have "is_space 0x20" by (simp add: is_space_def)
    with Cons Cons.IH Cons.prems show ?thesis
      by (simp add: tokenize_quoted tokenize_space)
  qed
qed

theorem quoting_roundtrip_witness:
  "tokenizeCommand (join [0x20] (map quote_word [lit ''a b'', [0x22]])) = [lit ''a b'', [0x22]]"
  by (rule quoting_roundtrip) (simp add: lit_def)

section \<open>What the gateway promises\<close>

lemma get_map_false: "get (map (\<lambda>k. (lit k, JBool False)) ks @ o1) k = (if k \<in> set ks then JBool False else get o1 k)"
  by (induction ks) auto

lemma base_flags:
  "k \<in> set SAFETY_FLAGS \<Longrightarrow> get (gateway_base source requestId stamp c received @ o1) k = JBool False"
  by (simp add: gateway_base_def baseSafety_def get_map_false)

lemma base_other:
  "k \<notin> set SAFETY_FLAGS \<Longrightarrow>
     k \<notin> {''requiresHumanApproval'', ''title'', ''version'', ''source'', ''requestId'', ''createdAt'',
           ''stopPoint'', ''rawCommandReceived'', ''sanitizedCommand'', ''latencyControl''} \<Longrightarrow>
     get (gateway_base source requestId stamp c received @ o1) k = get o1 k"
  by (simp add: gateway_base_def baseSafety_def get_map_false)

lemma base_approval:
  "get (gateway_base source requestId stamp c received @ o1) ''requiresHumanApproval'' = JBool True"
  by (simp add: gateway_base_def baseSafety_def get_map_false SAFETY_FLAGS_def)

lemma not_flags [simp]:
  "''status'' \<notin> set SAFETY_FLAGS" "''job'' \<notin> set SAFETY_FLAGS" "''mission'' \<notin> set SAFETY_FLAGS"
  "''nextActions'' \<notin> set SAFETY_FLAGS"
  by (simp_all add: SAFETY_FLAGS_def)

lemma ackFor_returns:
  "(\<exists>e. ackFor c jobId (if fast_command c then None else Some m) = Inl e) \<longleftrightarrow> c = MissionStatus"
  by (cases c) (simp_all add: mission_ack_def)

lemma gateway_answer_cases [consumes 1]:
  assumes "answer_command source requestId stamp command = Inr resp"
  obtains (secret) "secret_matches command \<noteq> []"
      "resp = gateway_base source requestId stamp (redactSecretLikeText command) (command \<noteq> []) @
         secret_answer (secret_matches command)"
  | (dangerous) "secret_matches command = []" "detectDangerousCommand command \<noteq> []"
      "resp = gateway_base source requestId stamp (redactSecretLikeText command) (command \<noteq> []) @
         dangerous_answer (detectDangerousCommand command)"
  | (invalid) e where "secret_matches command = []" "detectDangerousCommand command = []"
      "resp = gateway_base source requestId stamp (redactSecretLikeText command) (command \<noteq> []) @
         invalid_answer command e"
  | (accepted) c t where "secret_matches command = []" "detectDangerousCommand command = []"
      "parseAdaptiveCommand command = Inr c" "c \<noteq> MissionStatus"
      "resp = gateway_base source requestId stamp (redactSecretLikeText command) (command \<noteq> []) @
         accepted_answer command c (makeJobId requestId stamp)
           (if fast_command c then None else Some (buildMission c requestId stamp)) t
           (redactSecretLikeText command) stamp"
proof -
  show ?thesis
  proof (cases "secret_matches command \<noteq> [] \<or> detectDangerousCommand command \<noteq> []")
    case True
    with assms secret dangerous show ?thesis by (auto simp: answer_command_def Let_def split: if_splits)
  next
    case False
    show ?thesis
    proof (cases "parseAdaptiveCommand command")
      case (Inl e)
      with False assms have "secret_matches command = []" "detectDangerousCommand command = []"
        "resp = gateway_base source requestId stamp (redactSecretLikeText command) (command \<noteq> []) @
           invalid_answer command e"
        by (auto simp: answer_command_def Let_def)
      then show ?thesis by (rule invalid)
    next
      case (Inr c)
      with False assms obtain t where t: "ackFor c (makeJobId requestId stamp)
          (if fast_command c then None else Some (buildMission c requestId stamp)) = Inr t"
        and "resp = gateway_base source requestId stamp (redactSecretLikeText command) (command \<noteq> []) @
         accepted_answer command c (makeJobId requestId stamp)
           (if fast_command c then None else Some (buildMission c requestId stamp)) t
           (redactSecretLikeText command) stamp"
        by (auto simp: answer_command_def Let_def result_bind_Inr_iff)
      moreover have "c \<noteq> MissionStatus"
        using t ackFor_returns [of c "makeJobId requestId stamp" "buildMission c requestId stamp"] by auto
      ultimately show ?thesis using False Inr accepted by blast
    qed
  qed
qed

lemma mission_waits:
  "mi_status (buildMission c requestId stamp) = lit ''WAITING_APPROVAL'' \<and>
   mi_approvalRequired (buildMission c requestId stamp) \<and> mi_route (buildMission c requestId stamp) \<noteq> []"
  by (simp add: buildMission_def Let_def)

lemma dry_run_answer:
  "createAdaptiveCommandDryRun pr now body = Inr resp \<Longrightarrow>
     \<exists>source requestId command. answer_command source requestId (to_iso now) command = Inr resp"
  by (auto simp: createAdaptiveCommandDryRun_def result_bind_Inr_iff split: if_splits)

text \<open>
  C23. Every answer of the dry run denies all seventeen effects and asks for a human. It queues a job
  only for a mission, with a status of its own, and that mission waits for approval: the draft
  state the code provides for is never reached.
\<close>

theorem gateway_never_acts:
  assumes "createAdaptiveCommandDryRun pr now body = Inr resp"
  shows "(\<forall>k \<in> set SAFETY_FLAGS. get resp k = JBool False) \<and>
    get resp ''requiresHumanApproval'' = JBool True \<and>
    (opt_prop (get resp ''job'') ''required'' = JBool True \<longleftrightarrow>
       get resp ''status'' = JText ''long_job_queued_dry_run'') \<and>
    (opt_prop (get resp ''job'') ''required'' = JBool True \<longrightarrow>
       opt_prop (get resp ''job'') ''commandExecuted'' = JBool False \<and>
       opt_prop (get resp ''mission'') ''status'' = JText ''WAITING_APPROVAL'' \<and>
       opt_prop (get resp ''mission'') ''approvalRequired'' = JBool True)"
proof -
  obtain source requestId command where "answer_command source requestId (to_iso now) command = Inr resp"
    using dry_run_answer [OF assms] by blast
  then show ?thesis
  proof (cases rule: gateway_answer_cases)
    case (accepted c t)
    then show ?thesis
      using mission_waits [of c requestId "to_iso now"]
      by (cases "fast_command c")
         (auto simp: base_flags base_other base_approval accepted_answer_def Let_def accepted_status_def
           queued_job_def no_job_def mission_json_def JText_def getp_lit)
  qed (simp_all add: base_flags base_other base_approval secret_answer_def dangerous_answer_def
      invalid_answer_def no_job_def JText_def getp_lit)
qed

text \<open>
  A command with a secret is answered from its redacted form and the kinds of secret alone: two
  commands that agree on these get the same answer, which blocks the command and queues nothing.
\<close>

theorem secret_not_echoed:
  assumes "secret_matches c \<noteq> []" and "secret_matches c' = secret_matches c"
    and "redactSecretLikeText c' = redactSecretLikeText c"
  shows "answer_command source requestId stamp c' = answer_command source requestId stamp c \<and>
    (\<exists>resp. answer_command source requestId stamp c = Inr resp \<and>
       get resp ''status'' = JText ''blocked_secret_detected'' \<and>
       opt_prop (get resp ''job'') ''required'' = JBool False)"
proof -
  have "secret_matches [] = []"
    by (simp add: secret_matches_def GATEWAY_SECRET_PATTERNS_def rx_test_def head_word_def unique_def)
  with assms have "c \<noteq> []" "c' \<noteq> []" by auto
  with assms show ?thesis
    by (simp add: answer_command_def Let_def base_other secret_answer_def no_job_def getp_lit)
qed

lemma answer_raises_iff:
  "(\<exists>e. answer_command source requestId stamp command = Inl e) \<longleftrightarrow>
     secret_matches command = [] \<and> detectDangerousCommand command = [] \<and>
     parseAdaptiveCommand command = Inr MissionStatus"
proof (cases "parseAdaptiveCommand command")
  case (Inl e)
  then show ?thesis by (simp add: answer_command_def Let_def)
next
  case (Inr c)
  have b: "(\<exists>e. result_bind r (\<lambda>x. Inr (f x)) = Inl e) \<longleftrightarrow> (\<exists>e. r = Inl e)" for r :: "jstr result" and f
    by (cases r) auto
  from Inr show ?thesis
    using ackFor_returns [of c "makeJobId requestId stamp" "buildMission c requestId stamp"]
    by (simp add: answer_command_def Let_def b)
qed

lemmas pattern_simps = rx_test_def head_word_def unique_def set_add_def lit_def is_word_def run_length_def
  token_chars_def bearer_chars_def spaces_def c_space_def c_digit_def same_unit_def other_case_def
  in_range_def is_space_def words_def word_def bounded_def then_word_def

lemma mission_status_passes:
  "secret_matches (lit ''/mission status'') = []"
  "detectDangerousCommand (lit ''/mission status'') = []"
  "parseAdaptiveCommand (lit ''/mission status'') = Inr MissionStatus"
  by (simp add: secret_matches_def GATEWAY_SECRET_PATTERNS_def pattern_simps)
     (simp add: detectDangerousCommand_def DANGEROUS_PATTERNS_def pattern_simps,
      simp add: parseAdaptiveCommand_def Let_def trim_def trim_start_def trim_end_def lit_def is_space_def
        tokenizeCommand.simps unescaped_def parse_tokens_def token_def parse_mission_def)

lemma jobs_passes:
  "secret_matches (lit ''/jobs'') = []"
  "detectDangerousCommand (lit ''/jobs'') = []"
  "parseAdaptiveCommand (lit ''/jobs'') = Inr (JobsList [])"
  by (simp add: secret_matches_def GATEWAY_SECRET_PATTERNS_def pattern_simps)
     (simp add: detectDangerousCommand_def DANGEROUS_PATTERNS_def pattern_simps,
      simp add: parseAdaptiveCommand_def Let_def trim_def trim_start_def trim_end_def lit_def is_space_def
        tokenizeCommand.simps unescaped_def parse_tokens_def token_def)

lemma token_secret:
  "secret_matches (lit ''TOKEN=aaaaaaaa'') = [lit ''named_secret'']"
  "redactSecretLikeText (lit ''TOKEN=aaaaaaaa'') = lit ''<REDACTED:named_secret>''"
  "secret_matches (lit ''TOKEN=bbbbbbbb'') = [lit ''named_secret'']"
  "redactSecretLikeText (lit ''TOKEN=bbbbbbbb'') = lit ''<REDACTED:named_secret>''"
  by (simp add: secret_matches_def GATEWAY_SECRET_PATTERNS_def pattern_simps upt_rec)
     (simp add: redactSecretLikeText_def GATEWAY_SECRET_PATTERNS_def rx_replace_def rx_replace_from.simps
        pattern_simps upt_rec,
      simp add: secret_matches_def GATEWAY_SECRET_PATTERNS_def pattern_simps upt_rec,
      simp add: redactSecretLikeText_def GATEWAY_SECRET_PATTERNS_def rx_replace_def rx_replace_from.simps
        pattern_simps upt_rec)

theorem secret_not_echoed_witness:
  "answer_command [] [] [] (lit ''TOKEN=bbbbbbbb'') = answer_command [] [] [] (lit ''TOKEN=aaaaaaaa'')"
  using secret_not_echoed [of "lit ''TOKEN=aaaaaaaa''" "lit ''TOKEN=bbbbbbbb''"] token_secret by simp

definition command_body :: "string \<Rightarrow> jsval" where
  "command_body command = JObj [(lit ''command'', JText command)]"

lemma dry_run_of_command:
  "command \<noteq> [] \<Longrightarrow> trim (lit command) = lit command \<Longrightarrow>
   createAdaptiveCommandDryRun pr now (command_body command) =
     answer_command (lit ''telegram'') (lit ''adaptive-command'') (to_iso now) (lit command)"
  by (simp add: createAdaptiveCommandDryRun_def command_body_def string_result_def js_or_def JText_def getp_lit)

theorem gateway_never_acts_witness:
  "\<exists>resp. createAdaptiveCommandDryRun \<lparr>pr_num = \<lambda>_. [], pr_date = \<lambda>_. []\<rparr> 0 (command_body ''/jobs'') = Inr resp \<and>
     get resp ''requiresHumanApproval'' = JBool True"
proof -
  have "trim (lit ''/jobs'') = lit ''/jobs''"
    by (simp add: trim_def trim_start_def trim_end_def lit_def is_space_def)
  then obtain resp where "createAdaptiveCommandDryRun \<lparr>pr_num = \<lambda>_. [], pr_date = \<lambda>_. []\<rparr> 0 (command_body ''/jobs'') = Inr resp"
    using jobs_passes dry_run_of_command [of "''/jobs''" "\<lparr>pr_num = \<lambda>_. [], pr_date = \<lambda>_. []\<rparr>" 0]
    by (simp add: answer_command_def Let_def)
  from gateway_never_acts [OF this] this show ?thesis by blast
qed

text \<open>
  The dry run raises, on a command that passes the screens, exactly when it is \<open>/mission status\<close>:
  that command is fast, so it has no mission, but its acknowledgement reads one. It is in the
  registry and among the recommended commands.
\<close>

theorem mission_status_raises:
  "((\<exists>e. answer_command source requestId stamp command = Inl e) \<longleftrightarrow>
      secret_matches command = [] \<and> detectDangerousCommand command = [] \<and>
      parseAdaptiveCommand command = Inr MissionStatus) \<and>
   (\<exists>e. createAdaptiveCommandDryRun pr now (command_body ''/mission status'') = Inl e) \<and>
   lit ''/mission status'' \<in> set GATEWAY_COMMANDS \<inter> set recommendedCommands"
proof (intro conjI)
  show "(\<exists>e. answer_command source requestId stamp command = Inl e) \<longleftrightarrow>
      secret_matches command = [] \<and> detectDangerousCommand command = [] \<and>
      parseAdaptiveCommand command = Inr MissionStatus" by (rule answer_raises_iff)
  have "trim (lit ''/mission status'') = lit ''/mission status''"
    by (simp add: trim_def trim_start_def trim_end_def lit_def is_space_def)
  then show "\<exists>e. createAdaptiveCommandDryRun pr now (command_body ''/mission status'') = Inl e"
    using mission_status_passes by (simp add: dry_run_of_command answer_raises_iff)
  show "lit ''/mission status'' \<in> set GATEWAY_COMMANDS \<inter> set recommendedCommands"
    by (simp add: GATEWAY_COMMANDS_def recommendedCommands_def)
qed

section \<open>Final status\<close>

lemma captured_word:
  assumes "g \<in> set (rx_groups True pre (words ws) post p)"
  shows "\<exists>w \<in> set ws. length g = length w \<and> eat_text True (lit w) g"
proof -
  have e: "eat_text True t (take (length t) s)" "length t \<le> length s" if "eat_text True t s" for t s
    using that by (induction True t s rule: eat_text.induct) auto
  have alt: "q \<in> set (rx_alt True (map (RText \<circ> lit) vs) p1) \<Longrightarrow>
      \<exists>w \<in> set vs. q = advance (length w) p1 \<and> eat_text True (lit w) (snd p1)" for q vs p1
    by (induction vs) (auto split: if_splits)
  from assms obtain p1 p2 where p2: "p2 \<in> set (rx_match True (words ws) p1)"
    and g: "g = take (length (snd p1) - length (snd p2)) (snd p1)"
    by (auto simp: rx_groups_def)
  from p2 obtain w where w: "w \<in> set ws" "p2 = advance (length w) p1" "eat_text True (lit w) (snd p1)"
    using alt [OF p2 [unfolded words_def rx_match.simps]] by blast
  have "snd p2 = drop (length w) (snd p1)" using w(2) by (cases p1) simp
  with g e [OF w(3)] have "g = take (length w) (snd p1)" by simp
  with w e [OF w(3)] show ?thesis by auto
qed

lemma captured_words:
  "rx_capture True pre (words ws) post s = Some g \<Longrightarrow>
     \<exists>w \<in> set ws. length g = length w \<and> eat_text True (lit w) g"
proof -
  have hd: "xs = g # ys \<Longrightarrow> g \<in> set xs" for xs ys :: "jstr list" by simp
  have "rx_capture_from True pre (words ws) post b v = Some g \<Longrightarrow>
      \<exists>p. g \<in> set (rx_groups True pre (words ws) post p)" for b v
  proof (induction v arbitrary: b)
    case Nil
    then show ?case by (auto split: list.splits dest!: hd)
  next
    case (Cons c v)
    show ?case
    proof (cases "rx_groups True pre (words ws) post (b, c # v)")
      case Nil
      with Cons show ?thesis by auto
    next
      case (Cons x xs)
      with \<open>rx_capture_from True pre (words ws) post b (c # v) = Some g\<close>
      have "rx_groups True pre (words ws) post (b, c # v) = g # xs" by simp
      then show ?thesis using hd by blast
    qed
  qed
  then show "rx_capture True pre (words ws) post s = Some g \<Longrightarrow> ?thesis"
    unfolding rx_capture_def using captured_word by blast
qed

lemma upper_of_match:
  assumes "0x41 \<le> p" and "p \<le> 0x5A" and "same_unit True c p"
  shows "upper_unit c = [p]"
proof -
  have "c = p \<or> c = p + 32" using assms by (simp add: same_unit_def other_case_def split: if_splits)
  moreover have "upper_unit p = [p]" using assms by (simp add: upper_unit_def upper_special_def)
  moreover have "upper_unit (p + 32) = [p]" using assms by (simp add: upper_unit_def)
  ultimately show ?thesis by blast
qed

lemma upper_of_word:
  "\<forall>c \<in> set w. 0x41 \<le> c \<and> c \<le> 0x5A \<Longrightarrow> length g = length w \<Longrightarrow> eat_text True w g \<Longrightarrow> to_upper g = w"
proof (induction w arbitrary: g)
  case Nil
  then show ?case by (simp add: to_upper_def)
next
  case (Cons p ps)
  then obtain c cs where g: "g = c # cs" by (cases g) auto
  with Cons.prems have "upper_unit c = [p]" by (intro upper_of_match) simp_all
  moreover have "to_upper cs = ps" using Cons g by simp
  ultimately show ?case using g by (simp add: to_upper_def)
qed

lemma captured_status:
  assumes "rx_capture True pre final_words post s = Some g"
  shows "to_upper g \<in> set (map lit [''OK'', ''WARN'', ''FAILED''])"
proof -
  obtain w where w: "w \<in> set [''OK'', ''WARN'', ''FAILED'']" "length g = length w" "eat_text True (lit w) g"
    using captured_words [OF assms [unfolded final_words_def]] by blast
  moreover have "\<forall>c \<in> set (lit w). 0x41 \<le> c \<and> c \<le> 0x5A" using w(1) by (auto simp: lit_def)
  ultimately have "to_upper g = lit w" using upper_of_word by simp
  with w(1) show ?thesis by auto
qed

text \<open>
  The final status read from any report is one of four, and a report is a failure, asks for a
  failure notice and no completion, exactly when the exit code is not zero or the status is
  \<open>FAILED\<close>; a warning never counts as one.
\<close>

theorem night_watch_classified:
  assumes "classifyNightWatchCallback pr input = Inr n"
  shows "nw_finalStatus n \<in> set (map lit [''OK'', ''WARN'', ''FAILED'', ''UNKNOWN'']) \<and>
    (nw_telegramLevel n = lit ''failure'' \<longleftrightarrow> nw_failed n) \<and>
    (nw_failed n \<longleftrightarrow> nw_exitCode n \<noteq> Fin 0 \<or> nw_finalStatus n = lit ''FAILED'') \<and>
    (nw_status n = lit ''completed'' \<longleftrightarrow> nw_exitCode n = Fin 0 \<and> nw_finalStatus n = lit ''OK'')"
proof -
  obtain code report path where n: "n = night_watch_of code report path"
    using assms by (auto simp: classifyNightWatchCallback_def result_bind_Inr_iff)
  have below: "status_below ls = Some g \<Longrightarrow> to_upper g \<in> set (map lit [''OK'', ''WARN'', ''FAILED''])" for ls g
    by (induction ls) (auto simp del: list.map split: if_splits dest: captured_status simp: leading_status_def)
  have "extractNightWatchFinalStatus report \<in> set (map lit [''OK'', ''WARN'', ''FAILED'', ''UNKNOWN''])"
    using captured_status below
    by (fastforce simp: extractNightWatchFinalStatus_def split: option.splits)
  with n show ?thesis by (auto simp: night_watch_of_def Let_def)
qed

theorem night_watch_classified_witness:
  "nw_failed (night_watch_of (Fin 1) [] (lit ''.hermes/logs/night-watch-latest.md''))"
proof -
  have "classifyNightWatchCallback \<lparr>pr_num = \<lambda>_. [], pr_date = \<lambda>_. []\<rparr> [] =
      Inr (night_watch_of (Fin 1) [] (lit ''.hermes/logs/night-watch-latest.md''))"
    by (simp add: classifyNightWatchCallback_def number_result_def string_result_def js_nullish_def JInt_def
        to_number_def js_or_def JText_def)
  from night_watch_classified [OF this] show ?thesis by (simp add: night_watch_of_def Let_def)
qed

end
