(* ===== verification/Workflow.thy ===== *)
theory Workflow
  imports JsConvert Schema "HOL-Library.List_Lexorder"
begin

text \<open>
  The ThaiMart workflow engine
  (\<open>services/dev-control-api/src/thaimart-k-workflow-engine.mjs\<close>): a content goal moves
  through planning, drafting, two reviews and an approval. The service keeps no state: a client
  sends the whole workflow back with each event, and a review counts only for the source it was
  made on. The hash, the date parser and the clock are parameters.
\<close>

section \<open>States and tables\<close>

datatype workflow_state =
    INTAKE | CONTEXT_LOCKED | PLANNED | DRAFTED | CHANNEL_ADAPTED | QA1_REVIEW | QA2_REVIEW
  | WAITING_APPROVAL | READY_TO_APPLY | APPLIED | MONITORING | REPORTED | ARCHIVED | REJECTED
  | BLOCKED | FAILED

definition workflowStates :: "workflow_state list" where
  "workflowStates =
     [INTAKE, CONTEXT_LOCKED, PLANNED, DRAFTED, CHANNEL_ADAPTED, QA1_REVIEW, QA2_REVIEW,
      WAITING_APPROVAL, READY_TO_APPLY, APPLIED, MONITORING, REPORTED, ARCHIVED, REJECTED,
      BLOCKED, FAILED]"

fun state_name :: "workflow_state \<Rightarrow> jstr" where
  "state_name INTAKE = lit ''INTAKE''"
| "state_name CONTEXT_LOCKED = lit ''CONTEXT_LOCKED''"
| "state_name PLANNED = lit ''PLANNED''"
| "state_name DRAFTED = lit ''DRAFTED''"
| "state_name CHANNEL_ADAPTED = lit ''CHANNEL_ADAPTED''"
| "state_name QA1_REVIEW = lit ''QA1_REVIEW''"
| "state_name QA2_REVIEW = lit ''QA2_REVIEW''"
| "state_name WAITING_APPROVAL = lit ''WAITING_APPROVAL''"
| "state_name READY_TO_APPLY = lit ''READY_TO_APPLY''"
| "state_name APPLIED = lit ''APPLIED''"
| "state_name MONITORING = lit ''MONITORING''"
| "state_name REPORTED = lit ''REPORTED''"
| "state_name ARCHIVED = lit ''ARCHIVED''"
| "state_name REJECTED = lit ''REJECTED''"
| "state_name BLOCKED = lit ''BLOCKED''"
| "state_name FAILED = lit ''FAILED''"

definition state_of :: "jstr \<Rightarrow> workflow_state option" where
  "state_of s = List.find (\<lambda>st. state_name st = s) workflowStates"

definition workflowTypes :: "jstr list" where
  "workflowTypes = map lit [''catalog'', ''content'', ''insight'', ''report'', ''schedule'']"

definition externalApplyEvents :: "jstr list" where
  "externalApplyEvents =
     map lit [''apply'', ''publish'', ''price_write'', ''stock_write'', ''order_write'']"

definition on_events :: "(string \<times> workflow_state) list \<Rightarrow> (jstr, workflow_state) dict" where
  "on_events es = map (\<lambda>(e, s). (lit e, s)) es"

definition transitions :: "(workflow_state, (jstr, workflow_state) dict) dict" where
  "transitions =
     [(INTAKE, on_events [(''lock_context'', CONTEXT_LOCKED), (''reject'', REJECTED)]),
      (CONTEXT_LOCKED, on_events [(''plan'', PLANNED), (''reject'', REJECTED)]),
      (PLANNED, on_events [(''draft'', DRAFTED), (''reject'', REJECTED)]),
      (DRAFTED, on_events [(''adapt_channel'', CHANNEL_ADAPTED), (''reject'', REJECTED)]),
      (CHANNEL_ADAPTED, on_events
        [(''submit_qa1'', QA1_REVIEW), (''rework'', DRAFTED), (''reject'', REJECTED)]),
      (QA1_REVIEW, on_events
        [(''qa1_pass'', QA2_REVIEW), (''qa1_rework'', DRAFTED), (''reject'', REJECTED)]),
      (QA2_REVIEW, on_events
        [(''qa2_pass'', WAITING_APPROVAL), (''qa2_rework'', DRAFTED), (''reject'', REJECTED)]),
      (WAITING_APPROVAL, on_events
        [(''approve'', READY_TO_APPLY), (''reject'', REJECTED), (''request_info'', CONTEXT_LOCKED)]),
      (READY_TO_APPLY, on_events [(''archive'', ARCHIVED)]),
      (APPLIED, on_events [(''monitor'', MONITORING)]),
      (MONITORING, on_events [(''report'', REPORTED)]),
      (REPORTED, on_events [(''archive'', ARCHIVED)])]"

definition capability :: "string \<Rightarrow> string \<Rightarrow> string \<Rightarrow> jsval" where
  "capability cid title mode =
     JObj [(lit ''id'', JText cid), (lit ''title'', JText title), (lit ''mode'', JText mode)]"

definition kCapabilities :: jsval where
  "kCapabilities = JArr
     [capability ''K01'' ''Brand and Commerce Context Registry'' ''draft'',
      capability ''K02'' ''Project Isolation and Own-Store Scope'' ''local_setup'',
      capability ''K03'' ''Omnichannel Repurposing'' ''draft'',
      capability ''K04'' ''AI Draft Studio'' ''draft'',
      capability ''K05'' ''Insight Hub'' ''read_only_pending_contract'',
      capability ''K06'' ''Stakeholder Reporting'' ''draft_only'',
      capability ''K07'' ''Plan Before Production'' ''draft'',
      capability ''K08'' ''Scheduled Operations'' ''read_or_draft_only'',
      capability ''K09'' ''Secure Connector Registry'' ''disabled_pending_contract'',
      capability ''K10'' ''Two-Pass Quality Gate'' ''local_check'',
      capability ''K11'' ''Human Authority and Decision Ledger'' ''human_required'',
      capability ''K12'' ''Repetitive Work Templates'' ''draft_only'',
      capability ''K13'' ''Evidence Learning Loop'' ''local_analysis'',
      capability ''K14'' ''Channel-Native Adaptation'' ''draft_only'',
      capability ''K15'' ''Unified Lifecycle Orchestration'' ''local_tracking'']"

definition blockedActions :: jsval where
  "blockedActions = JTexts
     [''seller_center_login_automation'', ''session_or_cookie_access'', ''api_or_webhook_call'',
      ''catalog_write'', ''price_write'', ''stock_write'', ''order_write'', ''customer_chat'',
      ''self_publish'', ''scheduled_external_run'']"

section \<open>Sources\<close>

text \<open>
  \<open>wr_now\<close> and \<open>wr_updated\<close> are the two readings of the clock in a request: the first dates
  the page context, the second the answer.
\<close>

record wf_runtime =
  wr_printer :: printer
  wr_sha256 :: "jstr \<Rightarrow> jstr"
  wr_parseDate :: "jstr \<Rightarrow> jsnum"
  wr_now :: time
  wr_updated :: time

definition fail :: "string \<Rightarrow> 'a result" where
  "fail message = Inl (JsError (lit message))"

definition asNonEmptyString :: "printer \<Rightarrow> jsval \<Rightarrow> string \<Rightarrow> jstr result" where
  "asNonEmptyString pr v fieldName =
     result_bind (string_result pr (js_or v (JStr []))) (\<lambda>s.
       let normalized = trim s
       in if normalized = [] then fail (fieldName @ ''_required'') else Inr normalized)"

text \<open>
  A snapshot copies plain data: finite numbers, arrays and objects of at most 100 entries, at
  most six levels below the top. The keys of an object are sorted; \<open>Object.fromEntries\<close> then
  enumerates array indices first, as every object does.
\<close>

definition own_order :: "jsobj \<Rightarrow> jsobj" where
  "own_order fs =
     sort_key (\<lambda>p. decimal_value 0 (fst p)) (filter (\<lambda>p. array_index (fst p)) fs) @
     filter (\<lambda>p. \<not> array_index (fst p)) fs"

definition depth_ok :: "nat \<Rightarrow> 'a result \<Rightarrow> 'a result" where
  "depth_ok depth r = (if 6 < depth then fail ''workflow_source_snapshot_invalid'' else r)"

definition at_most_100 :: "nat \<Rightarrow> 'a result \<Rightarrow> 'a result" where
  "at_most_100 n r = (if 100 < n then fail ''workflow_source_snapshot_invalid'' else r)"

fun canonicalSource :: "nat \<Rightarrow> jsval \<Rightarrow> jsval result"
  and canonical_list :: "nat \<Rightarrow> jsval list \<Rightarrow> jsval list result"
  and canonical_fields :: "nat \<Rightarrow> (jstr \<times> jsval) list \<Rightarrow> jsobj result"
where
  "canonicalSource depth JNull = depth_ok depth (Inr JNull)"
| "canonicalSource depth (JStr s) = depth_ok depth (Inr (JStr s))"
| "canonicalSource depth (JBool b) = depth_ok depth (Inr (JBool b))"
| "canonicalSource depth (JNum x) =
     depth_ok depth (if is_finite x then Inr (JNum x) else fail ''workflow_source_snapshot_invalid'')"
| "canonicalSource depth (JArr vs) =
     depth_ok depth (at_most_100 (length vs)
       (result_bind (canonical_list (Suc depth) vs) (\<lambda>us. Inr (JArr us))))"
| "canonicalSource depth (JObj fs) =
     depth_ok depth (at_most_100 (length fs)
       (result_bind (canonical_fields (Suc depth) fs) (\<lambda>gs. Inr (JObj (own_order (sort_key fst gs))))))"
| "canonicalSource depth JUndef = fail ''workflow_source_snapshot_invalid''"
| "canonicalSource depth (JDate t) = fail ''workflow_source_snapshot_invalid''"
| "canonical_list depth [] = Inr []"
| "canonical_list depth (v # vs) =
     result_bind (canonicalSource depth v) (\<lambda>u.
     result_bind (canonical_list depth vs) (\<lambda>us. Inr (u # us)))"
| "canonical_fields depth [] = Inr []"
| "canonical_fields depth ((k, v) # fs) =
     result_bind (canonicalSource depth v) (\<lambda>u.
     result_bind (canonical_fields depth fs) (\<lambda>gs. Inr ((k, u) # gs)))"

definition json_text :: "wf_runtime \<Rightarrow> jsval \<Rightarrow> jstr" where
  "json_text rt v = (case json (pr_num (wr_printer rt)) v of None \<Rightarrow> [] | Some s \<Rightarrow> s)"

definition sourceSnapshot :: "wf_runtime \<Rightarrow> jsval \<Rightarrow> jsval result" where
  "sourceSnapshot rt v =
     (case v of
        JUndef \<Rightarrow> Inr JNull
      | JObj fs \<Rightarrow>
          if fs = [] then fail ''workflow_source_snapshot_invalid''
          else result_bind (canonicalSource 0 v) (\<lambda>snapshot.
            if 8192 < utf8_length (json_text rt snapshot)
            then fail ''workflow_source_snapshot_invalid'' else Inr snapshot)
      | _ \<Rightarrow> fail ''workflow_source_snapshot_invalid'')"

section \<open>Review bindings\<close>

record binding =
  bi_contextVersion :: jstr
  bi_sourceHash :: "jstr option"

definition is_sha256_hex :: "jstr \<Rightarrow> bool" where
  "is_sha256_hex s \<longleftrightarrow> length s = 64 \<and> list_all (\<lambda>c. is_digit c \<or> (0x61 \<le> c \<and> c \<le> 0x66)) s"

definition reviewBinding :: "jsval \<Rightarrow> binding option result" where
  "reviewBinding v =
     (case v of
        JUndef \<Rightarrow> Inr None
      | JNull \<Rightarrow> Inr None
      | JObj fs \<Rightarrow>
          (case (get fs ''contextVersion'', get fs ''sourceHash'') of
             (JStr cv, JStr h) \<Rightarrow>
               if trim cv \<noteq> [] \<and> is_sha256_hex h
               then Inr (Some \<lparr>bi_contextVersion = cv, bi_sourceHash = Some h\<rparr>)
               else fail ''workflow_review_source_invalid''
           | _ \<Rightarrow> fail ''workflow_review_source_invalid'')
      | _ \<Rightarrow> fail ''workflow_review_source_invalid'')"

section \<open>The seller page context\<close>

definition sellerContextFields :: "jstr list" where
  "sellerContextFields =
     map lit [''schemaVersion'', ''sourceHost'', ''pageKind'', ''observedTableRowCount'', ''hasTable'',
       ''productControlsPresent'', ''capturedAt'']"

definition row_count_ok :: "jsval \<Rightarrow> bool" where
  "row_count_ok v \<longleftrightarrow>
     (case v of JNum (Fin a) \<Rightarrow> is_integer (Fin a) \<and> 0 \<le> a \<and> a \<le> 9999 | _ \<Rightarrow> False)"

definition is_bool :: "jsval \<Rightarrow> bool" where
  "is_bool v \<longleftrightarrow> (case v of JBool _ \<Rightarrow> True | _ \<Rightarrow> False)"

definition validSellerContext :: "jsval \<Rightarrow> bool" where
  "validSellerContext v \<longleftrightarrow>
     (case v of
        JObj fs \<Rightarrow>
          length (dict_keys fs) = length sellerContextFields \<and>
          list_all (\<lambda>k. k \<in> set sellerContextFields) (dict_keys fs) \<and>
          get fs ''schemaVersion'' = JText ''seller-page-structure-v1'' \<and>
          get fs ''sourceHost'' = JText ''seller.thaimart.com'' \<and>
          get fs ''pageKind'' \<in> {JText ''product-list'', JText ''unclassified''} \<and>
          row_count_ok (get fs ''observedTableRowCount'') \<and>
          is_bool (get fs ''hasTable'') \<and> is_bool (get fs ''productControlsPresent'') \<and>
          (case get fs ''capturedAt'' of JStr _ \<Rightarrow> True | _ \<Rightarrow> False)
      | _ \<Rightarrow> False)"

text \<open>\<open>new Date(ms).toISOString()\<close> of a parsed date, which is a whole number of milliseconds.\<close>

definition iso_of_ms :: "jsnum \<Rightarrow> jstr option" where
  "iso_of_ms x = (case x of Fin a \<Rightarrow> Some (to_iso \<lfloor>a\<rfloor>) | _ \<Rightarrow> None)"

definition captured_text :: "jsval \<Rightarrow> jstr" where
  "captured_text context = (case opt_prop context ''capturedAt'' of JStr s \<Rightarrow> s | _ \<Rightarrow> [])"

definition normalizeSellerContext :: "wf_runtime \<Rightarrow> jsval \<Rightarrow> bool \<Rightarrow> jsval result" where
  "normalizeSellerContext rt v fresh =
     (if v = JUndef \<or> (v = JNull \<and> \<not> fresh) then Inr JNull
      else case canonicalSource 0 v of
        Inl e \<Rightarrow> fail ''seller_page_context_invalid''
      | Inr ctx \<Rightarrow>
          if \<not> validSellerContext ctx then fail ''seller_page_context_invalid''
          else
            let capturedMs = wr_parseDate rt (captured_text ctx)
            in if iso_of_ms capturedMs \<noteq> Some (captured_text ctx)
               then fail ''seller_page_context_invalid''
               else
                 let age = wr_parseDate rt (to_iso (wr_now rt)) - capturedMs
                 in if fresh \<and> (Fin 120000 < age \<or> age < Fin (- 5000))
                    then fail ''seller_page_context_stale'' else Inr ctx)"

section \<open>Normalising a workflow\<close>

text \<open>
  The state of a workflow: one of the sixteen, or the member of \<open>Object.prototype\<close> an event
  of that name finds in the table of transitions.
\<close>

datatype stage = Stage workflow_state | Native jstr

record workflow =
  wf_id :: jstr
  wf_type :: jstr
  wf_state :: stage
  wf_storeScope :: jstr
  wf_contextVersion :: jstr
  wf_sourceSnapshot :: jsval
  wf_sourceHash :: "jstr option"
  wf_sourceVerification :: jstr
  wf_reviewSource :: "binding option"
  wf_approvalSource :: "binding option"
  wf_sellerPageContext :: jsval

definition currentSource :: "workflow \<Rightarrow> binding" where
  "currentSource w = \<lparr>bi_contextVersion = wf_contextVersion w, bi_sourceHash = wf_sourceHash w\<rparr>"

definition sourceMatches :: "workflow \<Rightarrow> binding \<Rightarrow> bool" where
  "sourceMatches w b \<longleftrightarrow>
     bi_contextVersion b = wf_contextVersion w \<and> bi_sourceHash b = wf_sourceHash w"

definition id_unit :: "nat \<Rightarrow> bool" where
  "id_unit c \<longleftrightarrow> is_digit c \<or> (0x41 \<le> c \<and> c \<le> 0x5A) \<or> (0x61 \<le> c \<and> c \<le> 0x7A)"

text \<open>\<open>/^[A-Za-z0-9][A-Za-z0-9_-]{2,80}$/\<close>.\<close>

definition valid_workflow_id :: "jstr \<Rightarrow> bool" where
  "valid_workflow_id s \<longleftrightarrow>
     (case s of
        [] \<Rightarrow> False
      | c # r \<Rightarrow> id_unit c \<and> 2 \<le> length r \<and> length r \<le> 80 \<and>
          list_all (\<lambda>d. id_unit d \<or> d = 0x5F \<or> d = 0x2D) r)"

definition workflow_fields :: "jsval \<Rightarrow> jsobj option" where
  "workflow_fields v =
     (case v of JUndef \<Rightarrow> Some [] | JObj fs \<Rightarrow> Some fs | JDate _ \<Rightarrow> Some [] | _ \<Rightarrow> None)"

definition snapshot_input :: "jsobj \<Rightarrow> jsval" where
  "snapshot_input input =
     (if get input ''sourceSnapshot'' = JNull \<and> get input ''sourceVerification'' = JText ''UNBOUND''
      then JUndef else get input ''sourceSnapshot'')"

definition snapshot_hash :: "wf_runtime \<Rightarrow> jsval \<Rightarrow> jstr option" where
  "snapshot_hash rt snapshot =
     (if snapshot = JNull then None else Some (wr_sha256 rt (json_text rt snapshot)))"

definition context_version :: "printer \<Rightarrow> jsval \<Rightarrow> jstr result" where
  "context_version pr v =
     result_bind (string_result pr (js_or v (JText ''unbound''))) (\<lambda>s.
       Inr (if trim s = [] then lit ''unbound'' else trim s))"

definition workflow_sources ::
  "wf_runtime \<Rightarrow> jsobj \<Rightarrow> bool \<Rightarrow> jstr \<Rightarrow> jstr \<Rightarrow> workflow_state \<Rightarrow> workflow result" where
  "workflow_sources rt input fresh wid type st =
     result_bind (sourceSnapshot rt (snapshot_input input)) (\<lambda>snapshot.
     result_bind (context_version (wr_printer rt) (get input ''contextVersion'')) (\<lambda>version.
     result_bind (reviewBinding (get input ''reviewSource'')) (\<lambda>review.
     result_bind (reviewBinding (get input ''approvalSource'')) (\<lambda>approval.
     result_bind (normalizeSellerContext rt (get input ''sellerPageContext'') fresh) (\<lambda>page.
       Inr \<lparr>wf_id = wid, wf_type = type, wf_state = Stage st, wf_storeScope = lit ''own-store'',
            wf_contextVersion = version, wf_sourceSnapshot = snapshot,
            wf_sourceHash = snapshot_hash rt snapshot,
            wf_sourceVerification = (if snapshot = JNull then lit ''UNBOUND'' else lit ''DECLARED_LOCAL_SNAPSHOT''),
            wf_reviewSource = review, wf_approvalSource = approval, wf_sellerPageContext = page\<rparr>)))))"

definition normalize_fields :: "wf_runtime \<Rightarrow> jsobj \<Rightarrow> bool \<Rightarrow> workflow result" where
  "normalize_fields rt input fresh =
     (let pr = wr_printer rt in
      result_bind (asNonEmptyString pr (get input ''id'') ''workflow_id'') (\<lambda>wid.
      if \<not> valid_workflow_id wid then fail ''workflow_id_invalid'' else
      result_bind (asNonEmptyString pr (get input ''type'') ''workflow_type'') (\<lambda>type.
      if type \<notin> set workflowTypes then fail ''workflow_type_invalid'' else
      result_bind (asNonEmptyString pr (js_or (get input ''state'') (JText ''INTAKE'')) ''workflow_state'') (\<lambda>name.
      case state_of name of None \<Rightarrow> fail ''workflow_state_invalid'' | Some st \<Rightarrow>
      result_bind (string_result pr (js_or (get input ''storeScope'') (JText ''own-store''))) (\<lambda>scope.
      if trim scope \<noteq> lit ''own-store'' then fail ''own_store_scope_required'' else
      workflow_sources rt input fresh wid type st)))))"

definition normalizeWorkflow :: "wf_runtime \<Rightarrow> jsval \<Rightarrow> bool \<Rightarrow> workflow result" where
  "normalizeWorkflow rt v fresh =
     (case workflow_fields v of
        None \<Rightarrow> fail ''workflow_object_required''
      | Some input \<Rightarrow> normalize_fields rt input fresh)"

section \<open>Documents\<close>

definition hash_json :: "jstr option \<Rightarrow> jsval" where
  "hash_json h = (case h of None \<Rightarrow> JNull | Some s \<Rightarrow> JStr s)"

definition binding_json :: "binding option \<Rightarrow> jsval" where
  "binding_json b =
     (case b of
        None \<Rightarrow> JNull
      | Some r \<Rightarrow> JObj [(lit ''contextVersion'', JStr (bi_contextVersion r)),
                        (lit ''sourceHash'', hash_json (bi_sourceHash r))])"

text \<open>A function has no JSON text, so the property is left out; \<open>Object.prototype\<close> prints as \<open>{}\<close>.\<close>

definition stage_json :: "stage \<Rightarrow> jsval" where
  "stage_json s =
     (case s of
        Stage st \<Rightarrow> JStr (state_name st)
      | Native k \<Rightarrow> if k = lit ''__proto__'' then JObj [] else JUndef)"

definition workflow_json :: "workflow \<Rightarrow> jsobj" where
  "workflow_json w =
     [(lit ''id'', JStr (wf_id w)), (lit ''type'', JStr (wf_type w)),
      (lit ''state'', stage_json (wf_state w)), (lit ''storeScope'', JStr (wf_storeScope w)),
      (lit ''contextVersion'', JStr (wf_contextVersion w)),
      (lit ''sourceSnapshot'', wf_sourceSnapshot w), (lit ''sourceHash'', hash_json (wf_sourceHash w)),
      (lit ''sourceVerification'', JStr (wf_sourceVerification w)),
      (lit ''reviewSource'', binding_json (wf_reviewSource w)),
      (lit ''approvalSource'', binding_json (wf_approvalSource w)),
      (lit ''sellerPageContext'', wf_sellerPageContext w)]"

definition localSafetyEnvelope :: jsobj where
  "localSafetyEnvelope =
     [(lit ''externalWrites'', JBool False), (lit ''productionWrites'', JBool False),
      (lit ''customerVisible'', JBool False), (lit ''canReadThaiMart'', JBool False),
      (lit ''canWriteThaiMart'', JBool False), (lit ''canExecuteExternally'', JBool False),
      (lit ''canReadSecrets'', JBool False), (lit ''requiresHumanApproval'', JBool True),
      (lit ''adapterStatus'', JText ''disabled_pending_contract'')]"

definition dated :: "wf_runtime \<Rightarrow> jsobj" where
  "dated rt = localSafetyEnvelope @ [(lit ''updatedAt'', JStr (to_iso (wr_updated rt)))]"

definition getThaiMartWorkflowStatus :: "wf_runtime \<Rightarrow> jsobj" where
  "getThaiMartWorkflowStatus rt =
     [(lit ''title'', JText ''ThaiMart K01-K15 Workflow Adapter''),
      (lit ''status'', JText ''disabled_pending_contract''),
      (lit ''mode'', JText ''local-workflow-and-dry-run-only''),
      (lit ''ownStoreOnly'', JBool True),
      (lit ''integrationContract'', JObj
         [(lit ''officialApi'', JText ''unknown''), (lit ''authMode'', JText ''unknown''),
          (lit ''webhookBehavior'', JText ''unknown''), (lit ''rateLimit'', JText ''unknown''),
          (lit ''reconciliation'', JText ''unknown''), (lit ''rollback'', JText ''unknown'')]),
      (lit ''capabilities'', kCapabilities),
      (lit ''workflowStates'', JArr (map (\<lambda>s. JStr (state_name s)) workflowStates)),
      (lit ''blockedActions'', blockedActions),
      (lit ''nextExactStep'', JText ''Obtain official ThaiMart API, auth, webhook, rate-limit, reconciliation, and rollback evidence before any connector activation.'')]
     @ dated rt"

definition allowed_events :: "stage \<Rightarrow> jsval" where
  "allowed_events s =
     JArr (map JStr (case s of
        Stage st \<Rightarrow> (case dict_get transitions st of None \<Rightarrow> [] | Some t \<Rightarrow> dict_keys t)
      | Native _ \<Rightarrow> []))"

section \<open>The operations\<close>

text \<open>\<open>{ ...body, k: v }\<close> on any value; only named keys are read from the copy.\<close>

definition spread_fields :: "jsval \<Rightarrow> jsobj" where
  "spread_fields body = (case body of JObj fs \<Rightarrow> fs | _ \<Rightarrow> [])"

definition createThaiMartWorkflowDryRun :: "wf_runtime \<Rightarrow> jsval \<Rightarrow> jsobj result" where
  "createThaiMartWorkflowDryRun rt body =
     (let fs = spread_fields body;
          input = dict_set (lit ''approvalSource'') JNull (dict_set (lit ''reviewSource'') JNull
                    (dict_set (lit ''state'') (JText ''INTAKE'') fs))
      in result_bind (normalizeWorkflow rt (JObj input) True) (\<lambda>w.
         result_bind (string_result (wr_printer rt)
             (js_or (get fs ''requestId'') (JStr (lit ''thaimart-'' @ wf_id w)))) (\<lambda>requestId.
         Inr ([(lit ''title'', JText ''ThaiMart Workflow Dry-Run''),
               (lit ''status'', JText ''thaimart_workflow_dry_run_ready''),
               (lit ''mode'', JText ''local-only-dry-run''),
               (lit ''requestId'', JStr (trim requestId)),
               (lit ''workflow'', JObj (workflow_json w)),
               (lit ''nextAllowedEvents'', allowed_events (wf_state w)),
               (lit ''nextActions'', JTexts
                  [''Lock the product, content, or insight context without reading ThaiMart.'',
                   ''Draft and quality-check locally before requesting human approval.'',
                   ''Stop before any seller-center, API, webhook, price, stock, order, chat, or publish action.''])]
              @ dated rt))))"

definition blockedExternalApply :: "wf_runtime \<Rightarrow> workflow \<Rightarrow> jstr \<Rightarrow> jsobj" where
  "blockedExternalApply rt w event =
     [(lit ''title'', JText ''ThaiMart Workflow External Apply Blocked''),
      (lit ''status'', JText ''thaimart_external_apply_blocked''),
      (lit ''mode'', JText ''local-only-dry-run''),
      (lit ''workflow'', JObj (workflow_json (w\<lparr>wf_state := Stage BLOCKED\<rparr>) @
         [(lit ''blockedFromState'', stage_json (wf_state w))])),
      (lit ''event'', JStr event),
      (lit ''blockReason'', JText ''thaimart_connector_contract_unknown''),
      (lit ''nextActions'', JTexts
         [''Keep the workflow local and collect the official connector contract.'',
          ''Do not automate Seller Center login or browser/session access.'',
          ''Request a separate approval packet only after read/write boundaries and rollback are evidenced.''])]
     @ dated rt"

definition transitionResult :: "wf_runtime \<Rightarrow> workflow \<Rightarrow> jstr \<Rightarrow> bool \<Rightarrow> jsobj" where
  "transitionResult rt w event invalidated =
     [(lit ''title'', JText ''ThaiMart Workflow Transition Dry-Run''),
      (lit ''status'', if invalidated then JText ''thaimart_workflow_review_invalidated''
         else JText ''thaimart_workflow_transitioned''),
      (lit ''mode'', JText ''local-only-dry-run''),
      (lit ''workflow'', JObj (workflow_json w)),
      (lit ''event'', JStr event),
      (lit ''nextAllowedEvents'', allowed_events (wf_state w))]
     @ dated rt"

definition next_stage :: "stage \<Rightarrow> jstr \<Rightarrow> stage option" where
  "next_stage s event =
     (case s of
        Native _ \<Rightarrow> None
      | Stage st \<Rightarrow>
          (case dict_get transitions st of
             None \<Rightarrow> None
           | Some t \<Rightarrow>
               (case js_index t event of
                  Own st' \<Rightarrow> Some (Stage st')
                | Inherited k \<Rightarrow> Some (Native k)
                | Missing \<Rightarrow> None)))"

definition clear_review :: "jstr \<Rightarrow> bool" where
  "clear_review event \<longleftrightarrow>
     event \<in> set (map lit [''rework'', ''qa1_rework'', ''qa2_rework'', ''request_info'', ''reject''])"

definition reviewedTransition :: "workflow \<Rightarrow> jstr \<Rightarrow> stage \<Rightarrow> workflow result" where
  "reviewedTransition w event nextState =
     (if event = lit ''submit_qa1'' \<and> wf_sourceSnapshot w = JNull
      then fail ''workflow_source_snapshot_required''
      else if event = lit ''submit_qa1'' \<and> wf_contextVersion w = lit ''unbound''
      then fail ''workflow_context_version_required''
      else if event \<in> {lit ''qa1_pass'', lit ''qa2_pass'', lit ''approve''} \<and> wf_reviewSource w = None
      then fail ''workflow_review_source_required''
      else Inr (w\<lparr>wf_state := nextState,
             wf_reviewSource := (if clear_review event then None
               else if event = lit ''submit_qa1'' then Some (currentSource w) else wf_reviewSource w),
             wf_approvalSource := (if clear_review event then None
               else if event = lit ''approve'' then Some (currentSource w) else wf_approvalSource w)\<rparr>))"

definition bindings_of :: "workflow \<Rightarrow> binding list" where
  "bindings_of w = (case wf_reviewSource w of None \<Rightarrow> [] | Some b \<Rightarrow> [b]) @
                   (case wf_approvalSource w of None \<Rightarrow> [] | Some b \<Rightarrow> [b])"

definition advance_workflow :: "wf_runtime \<Rightarrow> workflow \<Rightarrow> jstr \<Rightarrow> jsobj result" where
  "advance_workflow rt w event =
     (if event \<in> set externalApplyEvents then Inr (blockedExternalApply rt w event)
      else case next_stage (wf_state w) event of
        None \<Rightarrow> fail ''workflow_transition_not_allowed''
      | Some nextState \<Rightarrow>
          if event \<noteq> lit ''reject'' \<and> list_ex (\<lambda>b. \<not> sourceMatches w b) (bindings_of w)
          then Inr (transitionResult rt
                 (w\<lparr>wf_state := Stage CONTEXT_LOCKED, wf_reviewSource := None,
                    wf_approvalSource := None\<rparr>) event True)
          else result_bind (reviewedTransition w event nextState) (\<lambda>w'.
                 Inr (transitionResult rt w' event False)))"

definition advanceThaiMartWorkflowDryRun :: "wf_runtime \<Rightarrow> jsval \<Rightarrow> jsobj result" where
  "advanceThaiMartWorkflowDryRun rt body0 =
     (let body = (if body0 = JUndef then JObj [] else body0) in
      result_bind (member body (lit ''workflow'')) (\<lambda>wv.
      result_bind (normalizeWorkflow rt wv False) (\<lambda>w.
      result_bind (asNonEmptyString (wr_printer rt) (opt_prop body ''event'') ''workflow_event'') (\<lambda>event.
      advance_workflow rt w event))))"


section \<open>Snapshots are canonical\<close>

lemma canonical_list_Inr:
  "canonical_list depth vs = Inr us \<longleftrightarrow> list_all2 (\<lambda>v u. canonicalSource depth v = Inr u) vs us"
  by (induction vs arbitrary: us) (auto simp: result_bind_Inr_iff list_all2_Cons1)

lemma canonical_fields_Inr:
  "canonical_fields depth fs = Inr gs \<longleftrightarrow>
     list_all2 (\<lambda>p q. fst q = fst p \<and> canonicalSource depth (snd p) = Inr (snd q)) fs gs"
  by (induction fs arbitrary: gs) (auto simp: result_bind_Inr_iff list_all2_Cons1)

lemma depth_ok_Inr: "depth_ok depth r = Inr x \<longleftrightarrow> depth \<le> 6 \<and> r = Inr x"
  by (auto simp: depth_ok_def fail_def)

lemma at_most_100_Inr: "at_most_100 n r = Inr x \<longleftrightarrow> n \<le> 100 \<and> r = Inr x"
  by (auto simp: at_most_100_def fail_def)

lemmas canonical_Inr = canonical_list_Inr canonical_fields_Inr depth_ok_Inr at_most_100_Inr
  result_bind_Inr_iff

text \<open>Sorting is stable, so an object that was put in order keeps its order.\<close>

lemma filter_own_order: "filter (\<lambda>p. fst p = k) (own_order fs) = filter (\<lambda>p. fst p = k) fs"
proof (cases "array_index k")
  case True
  have "filter (\<lambda>p. fst p = k) (sort_key (\<lambda>p. decimal_value 0 (fst p)) xs) = filter (\<lambda>p. fst p = k) xs"
    for xs :: jsobj
  proof -
    let ?f = "\<lambda>p :: jstr \<times> jsval. decimal_value 0 (fst p)"
    have "filter (\<lambda>p. fst p = k) (sort_key ?f xs) =
        filter (\<lambda>p. fst p = k) (filter (\<lambda>p. ?f p = decimal_value 0 k) (sort_key ?f xs))"
      by (simp add: conj_commute cong: conj_cong)
    also have "\<dots> = filter (\<lambda>p. fst p = k) (filter (\<lambda>p. ?f p = decimal_value 0 k) xs)"
      by (simp only: sort_key_stable)
    also have "\<dots> = filter (\<lambda>p. fst p = k) xs"
      by (simp add: conj_commute cong: conj_cong)
    finally show ?thesis .
  qed
  moreover have "filter (\<lambda>p. array_index (fst p) \<and> fst p = k) fs = filter (\<lambda>p. fst p = k) fs"
    using True by (intro filter_cong) auto
  moreover have "filter (\<lambda>p. \<not> array_index (fst p) \<and> fst p = k) fs = []"
    using True by (auto simp: filter_empty_conv)
  ultimately show ?thesis
    by (simp add: own_order_def conj_commute)
next
  case False
  then have "filter (\<lambda>p. fst p = k) (sort_key (\<lambda>p. decimal_value 0 (fst p)) (filter (\<lambda>p. array_index (fst p)) fs)) = []"
    by (auto simp: filter_empty_conv)
  moreover have "filter (\<lambda>p. \<not> array_index (fst p) \<and> fst p = k) fs = filter (\<lambda>p. fst p = k) fs"
    using False by (intro filter_cong) auto
  ultimately show ?thesis
    by (simp add: own_order_def conj_commute)
qed

lemma mset_own_order [simp]: "mset (own_order fs) = mset fs"
  by (simp add: own_order_def)

lemma set_own_order [simp]: "set (own_order fs) = set fs"
  by (metis mset_own_order set_mset_mset)

lemma length_own_order [simp]: "length (own_order fs) = length fs"
  by (metis mset_own_order size_mset)

lemma sort_own_order: "sort_key fst (own_order (sort_key fst gs)) = sort_key fst (gs :: jsobj)"
proof (rule properties_for_sort_key)
  show "mset (sort_key fst gs) = mset (own_order (sort_key fst gs))" by simp
  fix p :: "jstr \<times> jsval"
  show "filter (\<lambda>q. fst p = fst q) (sort_key fst gs) = filter (\<lambda>q. fst p = fst q) (own_order (sort_key fst gs))"
    using filter_own_order [of "fst p" "sort_key fst gs"] by (simp add: eq_commute)
  show "sorted (map fst (sort_key fst gs))" by simp
qed

lemma canonical_fields_id:
  "(\<And>p. p \<in> set hs \<Longrightarrow> canonicalSource depth (snd p) = Inr (snd p)) \<Longrightarrow> canonical_fields depth hs = Inr hs"
  by (simp add: canonical_fields_Inr list_all2_same)

lemma canonicalSource_idem:
  "canonicalSource depth v = Inr u \<Longrightarrow> canonicalSource depth u = Inr u"
  "canonical_list depth vs = Inr us \<Longrightarrow> \<forall>u \<in> set us. canonicalSource depth u = Inr u"
  "canonical_fields depth fs = Inr gs \<Longrightarrow> \<forall>p \<in> set gs. canonicalSource depth (snd p) = Inr (snd p)"
proof (induction depth v and depth vs and depth fs arbitrary: u and us and gs
    rule: canonicalSource_canonical_list_canonical_fields.induct)
  case (5 depth vs)
  then obtain us where us: "depth \<le> 6" "length vs \<le> 100" "canonical_list (Suc depth) vs = Inr us" "u = JArr us"
    by (auto simp: depth_ok_Inr at_most_100_Inr result_bind_Inr_iff)
  moreover have "length us = length vs"
    using us(3) by (auto simp: canonical_list_Inr dest: list_all2_lengthD)
  moreover have "canonical_list (Suc depth) us = Inr us"
    using "5.IH" [OF us(3)] by (simp add: canonical_list_Inr list_all2_same)
  ultimately show ?case by (simp add: depth_ok_def at_most_100_def)
next
  case (6 depth fs)
  then obtain gs where gs: "depth \<le> 6" "length fs \<le> 100" "canonical_fields (Suc depth) fs = Inr gs"
      and u: "u = JObj (own_order (sort_key fst gs))"
    by (auto simp: depth_ok_Inr at_most_100_Inr result_bind_Inr_iff)
  moreover have "length gs = length fs"
    using gs(3) by (auto simp: canonical_fields_Inr dest: list_all2_lengthD)
  moreover have "canonical_fields (Suc depth) (own_order (sort_key fst gs)) = Inr (own_order (sort_key fst gs))"
    using "6.IH" [OF gs(3)] by (intro canonical_fields_id) simp
  ultimately show ?case by (simp add: depth_ok_def at_most_100_def sort_own_order)
next
  case (10 depth v vs)
  then show ?case by (auto simp: result_bind_Inr_iff)
next
  case (12 depth k v fs)
  then show ?case by (fastforce simp: result_bind_Inr_iff)
qed (auto simp: depth_ok_def fail_def split: if_splits)

lemma canonical_obj:
  assumes "canonicalSource depth (JObj fs) = Inr u"
  shows "\<exists>gs. u = JObj gs \<and> length gs = length fs"
  using assms by (auto simp: canonical_Inr dest: list_all2_lengthD)

lemma sourceSnapshot_cases:
  assumes "sourceSnapshot rt v = Inr s"
  obtains "v = JUndef" "s = JNull"
    | fs where "s = JObj fs" "fs \<noteq> []" "sourceSnapshot rt s = Inr s"
proof (cases v)
  case (JObj fs)
  with assms have fs: "fs \<noteq> []" and c: "canonicalSource 0 v = Inr s" and
      small: "\<not> 8192 < utf8_length (json_text rt s)"
    by (auto simp: sourceSnapshot_def result_bind_Inr_iff fail_def split: if_splits)
  obtain gs where gs: "s = JObj gs" "length gs = length fs"
    using canonical_obj c JObj by blast
  moreover have "sourceSnapshot rt s = Inr s"
    using gs fs small canonicalSource_idem(1) [OF c] by (auto simp: sourceSnapshot_def)
  ultimately show ?thesis using fs that(2) by (metis length_0_conv)
qed (use assms that(1) in \<open>auto simp: sourceSnapshot_def fail_def\<close>)


section \<open>Normal workflows\<close>

text \<open>What every workflow the service hands out satisfies, whatever its state.\<close>

definition binding_ok :: "binding option \<Rightarrow> bool" where
  "binding_ok b \<longleftrightarrow>
     (case b of
        None \<Rightarrow> True
      | Some r \<Rightarrow> trim (bi_contextVersion r) \<noteq> [] \<and>
          (case bi_sourceHash r of None \<Rightarrow> False | Some h \<Rightarrow> is_sha256_hex h))"

definition normal :: "wf_runtime \<Rightarrow> workflow \<Rightarrow> bool" where
  "normal rt w \<longleftrightarrow>
     trim (wf_id w) = wf_id w \<and> valid_workflow_id (wf_id w) \<and> wf_type w \<in> set workflowTypes \<and>
     wf_storeScope w = lit ''own-store'' \<and>
     trim (wf_contextVersion w) = wf_contextVersion w \<and> wf_contextVersion w \<noteq> [] \<and>
     (wf_sourceSnapshot w = JNull \<or>
       (\<exists>fs. wf_sourceSnapshot w = JObj fs \<and> fs \<noteq> []) \<and>
       sourceSnapshot rt (wf_sourceSnapshot w) = Inr (wf_sourceSnapshot w)) \<and>
     wf_sourceHash w = snapshot_hash rt (wf_sourceSnapshot w) \<and>
     wf_sourceVerification w =
       (if wf_sourceSnapshot w = JNull then lit ''UNBOUND'' else lit ''DECLARED_LOCAL_SNAPSHOT'') \<and>
     binding_ok (wf_reviewSource w) \<and> binding_ok (wf_approvalSource w) \<and>
     normalizeSellerContext rt (wf_sellerPageContext w) False = Inr (wf_sellerPageContext w)"

lemma string_result_Inr: "string_result pr v = Inr s \<longleftrightarrow> convertible v \<and> s = text_of pr v"
  by (auto simp: string_result_def)

lemma string_result_JStr [simp]: "string_result pr (JStr s) = Inr s"
  by (simp add: string_result_def)

lemma asNonEmptyString_Inr:
  "asNonEmptyString pr v field = Inr s \<Longrightarrow> trim s = s \<and> s \<noteq> []"
  by (auto simp: asNonEmptyString_def result_bind_Inr_iff fail_def Let_def trim_idem split: if_splits)

lemma asNonEmptyString_JStr:
  "trim s = s \<Longrightarrow> s \<noteq> [] \<Longrightarrow> asNonEmptyString pr (JStr s) field = Inr s"
  by (simp add: asNonEmptyString_def js_or_def)

lemma reviewBinding_Inr:
  "reviewBinding v = Inr b \<Longrightarrow> binding_ok b"
  by (auto simp: reviewBinding_def binding_ok_def fail_def split: jsval.splits if_splits)

lemma reviewBinding_json: "binding_ok b \<Longrightarrow> reviewBinding (binding_json b) = Inr b"
  by (cases b) (auto simp: reviewBinding_def binding_ok_def binding_json_def hash_json_def split: option.splits)

text \<open>Whatever binding a document carries, it reads back as that binding or not at all.\<close>

lemma reviewBinding_inverse: "reviewBinding (binding_json b) = Inr b' \<Longrightarrow> b' = b"
  by (cases b) (auto simp: reviewBinding_def binding_json_def hash_json_def fail_def
      split: option.splits if_splits)

lemma state_of_name [simp]: "state_of (state_name s) = Some s"
  by (cases s) (simp_all add: state_of_def workflowStates_def)

lemma trim_state_name [simp]: "trim (state_name s) = state_name s" "state_name s \<noteq> []"
  by (cases s; simp add: lit_def trim_def trim_start_def trim_end_def is_space_def)+

lemma normalizeSellerContext_clock:
  "normalizeSellerContext (rt\<lparr>wr_now := t, wr_updated := u\<rparr>) v False = normalizeSellerContext rt v False"
  by (cases "canonicalSource 0 v") (simp_all add: normalizeSellerContext_def Let_def)

lemma normalizeSellerContext_idem:
  assumes "normalizeSellerContext rt v fresh = Inr c"
  shows "normalizeSellerContext rt c False = Inr c"
proof (cases "v = JUndef \<or> (v = JNull \<and> \<not> fresh)")
  case True
  with assms show ?thesis by (auto simp: normalizeSellerContext_def)
next
  case False
  with assms obtain u where u: "canonicalSource 0 v = Inr u" "c = u" "validSellerContext u"
      "iso_of_ms (wr_parseDate rt (captured_text u)) = Some (captured_text u)"
    by (auto simp: normalizeSellerContext_def Let_def fail_def split: sum.splits if_splits)
  then show ?thesis
    using canonicalSource_idem(1) [OF u(1)]
    by (auto simp: normalizeSellerContext_def Let_def validSellerContext_def)
qed

lemma trim_unbound: "trim (lit ''unbound'') = lit ''unbound''"
  by (simp add: lit_def trim_def trim_start_def trim_end_def is_space_def)

lemma trim_own_store: "trim (lit ''own-store'') = lit ''own-store''"
  by (simp add: lit_def trim_def trim_start_def trim_end_def is_space_def)

lemma workflow_sources_normal:
  assumes "workflow_sources rt input fresh wid type st = Inr w"
    and "trim wid = wid" "valid_workflow_id wid" "type \<in> set workflowTypes"
  shows "normal rt w" "wf_state w = Stage st"
proof -
  from assms(1) obtain s cv r a c where
    s: "sourceSnapshot rt (snapshot_input input) = Inr s" and
    cv: "context_version (wr_printer rt) (get input ''contextVersion'') = Inr cv" and
    r: "reviewBinding (get input ''reviewSource'') = Inr r" and
    a: "reviewBinding (get input ''approvalSource'') = Inr a" and
    c: "normalizeSellerContext rt (get input ''sellerPageContext'') fresh = Inr c" and
    w: "w = \<lparr>wf_id = wid, wf_type = type, wf_state = Stage st, wf_storeScope = lit ''own-store'',
            wf_contextVersion = cv, wf_sourceSnapshot = s, wf_sourceHash = snapshot_hash rt s,
            wf_sourceVerification = (if s = JNull then lit ''UNBOUND'' else lit ''DECLARED_LOCAL_SNAPSHOT''),
            wf_reviewSource = r, wf_approvalSource = a, wf_sellerPageContext = c\<rparr>"
    by (auto simp: workflow_sources_def result_bind_Inr_iff)
  have "trim cv = cv \<and> cv \<noteq> []"
    using cv by (auto simp: context_version_def result_bind_Inr_iff trim_idem trim_unbound split: if_splits)
  moreover have "s = JNull \<or> (\<exists>fs. s = JObj fs \<and> fs \<noteq> []) \<and> sourceSnapshot rt s = Inr s"
    using s by (rule sourceSnapshot_cases) auto
  ultimately show "normal rt w" "wf_state w = Stage st"
    using assms(2-4) w reviewBinding_Inr [OF r] reviewBinding_Inr [OF a] normalizeSellerContext_idem [OF c]
    by (auto simp: normal_def)
qed

lemma normalizeWorkflow_Inr:
  assumes "normalizeWorkflow rt v fresh = Inr w"
  shows "normal rt w" "\<exists>st. wf_state w = Stage st"
    "\<exists>input name. workflow_fields v = Some input \<and>
       asNonEmptyString (wr_printer rt) (js_or (get input ''state'') (JText ''INTAKE'')) ''workflow_state'' = Inr name \<and>
       map_option Stage (state_of name) = Some (wf_state w) \<and>
       reviewBinding (get input ''reviewSource'') = Inr (wf_reviewSource w) \<and>
       reviewBinding (get input ''approvalSource'') = Inr (wf_approvalSource w)"
proof -
  from assms obtain input where f: "workflow_fields v = Some input" and
      n: "normalize_fields rt input fresh = Inr w"
    by (auto simp: normalizeWorkflow_def fail_def split: option.splits)
  from n obtain wid type name st where
    i: "asNonEmptyString (wr_printer rt) (get input ''id'') ''workflow_id'' = Inr wid" "valid_workflow_id wid" and
    t: "type \<in> set workflowTypes" and
    na: "asNonEmptyString (wr_printer rt) (js_or (get input ''state'') (JText ''INTAKE'')) ''workflow_state'' = Inr name"
      "state_of name = Some st" and
    ws: "workflow_sources rt input fresh wid type st = Inr w"
    by (auto simp: normalize_fields_def Let_def result_bind_Inr_iff fail_def
        split: if_splits option.splits)
  note this_normal = workflow_sources_normal [OF ws _ i(2) t]
  have tr: "trim wid = wid" using asNonEmptyString_Inr [OF i(1)] by simp
  show "normal rt w" "\<exists>st. wf_state w = Stage st"
    using this_normal [OF tr] by auto
  show "\<exists>input name. workflow_fields v = Some input \<and>
       asNonEmptyString (wr_printer rt) (js_or (get input ''state'') (JText ''INTAKE'')) ''workflow_state'' = Inr name \<and>
       map_option Stage (state_of name) = Some (wf_state w) \<and>
       reviewBinding (get input ''reviewSource'') = Inr (wf_reviewSource w) \<and>
       reviewBinding (get input ''approvalSource'') = Inr (wf_approvalSource w)"
    using f na ws this_normal(2) [OF tr] by (auto simp: workflow_sources_def result_bind_Inr_iff)
qed


text \<open>A normal workflow in one of the sixteen states is accepted as it is.\<close>

lemma get_workflow_json:
  "get (workflow_json w @ r) ''id'' = JStr (wf_id w)"
  "get (workflow_json w @ r) ''type'' = JStr (wf_type w)"
  "get (workflow_json w @ r) ''state'' = stage_json (wf_state w)"
  "get (workflow_json w @ r) ''storeScope'' = JStr (wf_storeScope w)"
  "get (workflow_json w @ r) ''contextVersion'' = JStr (wf_contextVersion w)"
  "get (workflow_json w @ r) ''sourceSnapshot'' = wf_sourceSnapshot w"
  "get (workflow_json w @ r) ''sourceVerification'' = JStr (wf_sourceVerification w)"
  "get (workflow_json w @ r) ''reviewSource'' = binding_json (wf_reviewSource w)"
  "get (workflow_json w @ r) ''approvalSource'' = binding_json (wf_approvalSource w)"
  "get (workflow_json w @ r) ''sellerPageContext'' = wf_sellerPageContext w"
  by (simp_all add: workflow_json_def)

lemma trim_workflow_type: "t \<in> set workflowTypes \<Longrightarrow> trim t = t \<and> t \<noteq> []"
proof -
  have "list_all (\<lambda>t. trim t = t \<and> t \<noteq> []) workflowTypes"
    by (simp add: workflowTypes_def lit_def trim_def trim_start_def trim_end_def is_space_def)
  then show "t \<in> set workflowTypes \<Longrightarrow> trim t = t \<and> t \<noteq> []" by (simp add: list_all_iff)
qed

lemma normal_accepted:
  assumes n: "normal rt w" and st: "wf_state w = Stage st"
  shows "normalizeWorkflow (rt\<lparr>wr_now := t, wr_updated := u\<rparr>) (JObj (workflow_json w @ r)) False = Inr w"
proof -
  let ?rt = "rt\<lparr>wr_now := t, wr_updated := u\<rparr>"
  let ?in = "workflow_json w @ r"
  have wid: "wf_id w \<noteq> []" using n by (auto simp: normal_def valid_workflow_id_def)
  have ty: "trim (wf_type w) = wf_type w" "wf_type w \<noteq> []"
    using n trim_workflow_type by (auto simp: normal_def)
  have sn: "sourceSnapshot ?rt (snapshot_input ?in) = Inr (wf_sourceSnapshot w)"
    using n by (auto simp: normal_def snapshot_input_def get_workflow_json sourceSnapshot_def JText_def json_text_def)
  have "context_version (wr_printer ?rt) (JStr (wf_contextVersion w)) = Inr (wf_contextVersion w)"
    using n by (simp add: normal_def context_version_def js_or_def)
  with sn have "workflow_sources ?rt ?in False (wf_id w) (wf_type w) st = Inr w"
    using n st by (simp add: workflow_sources_def get_workflow_json normal_def reviewBinding_json
        normalizeSellerContext_clock snapshot_hash_def json_text_def)
  then show ?thesis
    using n wid ty st
    by (simp add: normalizeWorkflow_def workflow_fields_def normalize_fields_def Let_def get_workflow_json
        asNonEmptyString_JStr normal_def stage_json_def js_or_def trim_own_store)
qed


section \<open>One step\<close>

definition body_or_empty :: "jsval \<Rightarrow> jsval" where
  "body_or_empty body = (if body = JUndef then JObj [] else body)"

lemma opt_prop_member: "member v (lit k) = Inr x \<Longrightarrow> x = opt_prop v k"
  by (cases v) (auto simp: member_def opt_prop_def)

lemma advance_Inr:
  assumes "advanceThaiMartWorkflowDryRun rt body = Inr doc"
  obtains w event where "normalizeWorkflow rt (opt_prop (body_or_empty body) ''workflow'') False = Inr w"
    "asNonEmptyString (wr_printer rt) (opt_prop (body_or_empty body) ''event'') ''workflow_event'' = Inr event"
    "advance_workflow rt w event = Inr doc"
  using assms that
  by (auto simp: advanceThaiMartWorkflowDryRun_def Let_def result_bind_Inr_iff body_or_empty_def
      dest!: opt_prop_member)

lemma advance_workflow_cases:
  assumes "advance_workflow rt w event = Inr doc"
  obtains (external) "event \<in> set externalApplyEvents" "doc = blockedExternalApply rt w event"
    | (stale) "event \<notin> set externalApplyEvents"
        "doc = transitionResult rt (w\<lparr>wf_state := Stage CONTEXT_LOCKED, wf_reviewSource := None,
          wf_approvalSource := None\<rparr>) event True"
    | (moved) ns w' where "event \<notin> set externalApplyEvents" "next_stage (wf_state w) event = Some ns"
        "event = lit ''reject'' \<or> list_all (sourceMatches w) (bindings_of w)"
        "reviewedTransition w event ns = Inr w'" "doc = transitionResult rt w' event False"
proof (cases "event \<in> set externalApplyEvents")
  case True
  with assms external show ?thesis by (simp add: advance_workflow_def)
next
  case False
  with assms obtain ns where ns: "next_stage (wf_state w) event = Some ns"
    by (auto simp: advance_workflow_def fail_def split: option.splits)
  show ?thesis
  proof (cases "event \<noteq> lit ''reject'' \<and> list_ex (\<lambda>b. \<not> sourceMatches w b) (bindings_of w)")
    case True
    with assms False ns stale show ?thesis by (simp add: advance_workflow_def)
  next
    case matches: False
    then have "event = lit ''reject'' \<or> list_all (sourceMatches w) (bindings_of w)"
      by (auto simp: list_ex_iff list_all_iff)
    with assms False ns matches moved show ?thesis
      by (auto simp: advance_workflow_def result_bind_Inr_iff)
  qed
qed

lemma get_transitionResult:
  "get (transitionResult rt w event stale) ''workflow'' = JObj (workflow_json w)"
  "get (transitionResult rt w event stale) ''event'' = JStr event"
  "get (transitionResult rt w event stale) ''status'' =
     (if stale then JText ''thaimart_workflow_review_invalidated'' else JText ''thaimart_workflow_transitioned'')"
  by (simp_all add: transitionResult_def)

lemma get_blockedExternalApply:
  "get (blockedExternalApply rt w event) ''workflow'' =
     JObj (workflow_json (w\<lparr>wf_state := Stage BLOCKED\<rparr>) @ [(lit ''blockedFromState'', stage_json (wf_state w))])"
  "get (blockedExternalApply rt w event) ''event'' = JStr event"
  "get (blockedExternalApply rt w event) ''status'' = JText ''thaimart_external_apply_blocked''"
  by (simp_all add: blockedExternalApply_def)

lemma guards_passed:
  assumes "(if a then Inl x else if b then Inl y else if c then Inl z else Inr r) = Inr v"
  shows "\<not> a" "\<not> b" "\<not> c" "v = r"
  using assms by (auto split: if_splits)

lemma reviewedTransition_Inr:
  assumes "reviewedTransition w event ns = Inr w'"
  shows "w' = w\<lparr>wf_state := ns,
      wf_reviewSource := (if clear_review event then None
        else if event = lit ''submit_qa1'' then Some (currentSource w) else wf_reviewSource w),
      wf_approvalSource := (if clear_review event then None
        else if event = lit ''approve'' then Some (currentSource w) else wf_approvalSource w)\<rparr>"
    "event = lit ''submit_qa1'' \<Longrightarrow> wf_sourceSnapshot w \<noteq> JNull \<and> wf_contextVersion w \<noteq> lit ''unbound''"
    "event \<in> {lit ''qa1_pass'', lit ''qa2_pass'', lit ''approve''} \<Longrightarrow> wf_reviewSource w \<noteq> None"
proof -
  note g = guards_passed [OF assms [unfolded reviewedTransition_def fail_def]]
  show "event = lit ''submit_qa1'' \<Longrightarrow> wf_sourceSnapshot w \<noteq> JNull \<and> wf_contextVersion w \<noteq> lit ''unbound''"
    using g(1,2) by blast
  show "event \<in> {lit ''qa1_pass'', lit ''qa2_pass'', lit ''approve''} \<Longrightarrow> wf_reviewSource w \<noteq> None"
    using g(3) by (intro notI) (erule notE, rule conjI)
  show "w' = w\<lparr>wf_state := ns,
      wf_reviewSource := (if clear_review event then None
        else if event = lit ''submit_qa1'' then Some (currentSource w) else wf_reviewSource w),
      wf_approvalSource := (if clear_review event then None
        else if event = lit ''approve'' then Some (currentSource w) else wf_approvalSource w)\<rparr>"
    by (rule g(4))
qed

lemma matched_source:
  "list_all (sourceMatches w) (bindings_of w) \<Longrightarrow> wf_reviewSource w = Some b \<Longrightarrow> currentSource w = b"
  "list_all (sourceMatches w) (bindings_of w) \<Longrightarrow> wf_approvalSource w = Some b \<Longrightarrow> currentSource w = b"
  by (auto simp: bindings_of_def sourceMatches_def currentSource_def)

section \<open>Runs\<close>

text \<open>
  A client starts a workflow and sends back what it was served, with the state and the two
  review bindings as they were; it may edit everything else, the source above all. A run
  records each event with the source it was sent for.
\<close>

definition resubmits :: "jsval \<Rightarrow> jsval \<Rightarrow> bool" where
  "resubmits served sent \<longleftrightarrow>
     (\<exists>fs gs. served = JObj fs \<and> sent = JObj gs \<and> get gs ''state'' = get fs ''state'' \<and>
        get gs ''reviewSource'' = get fs ''reviewSource'' \<and>
        get gs ''approvalSource'' = get fs ''approvalSource'')"

inductive wf_served :: "wf_runtime \<Rightarrow> (jstr \<times> binding) list \<Rightarrow> jsobj \<Rightarrow> bool" for rt where
  started: "createThaiMartWorkflowDryRun (rt\<lparr>wr_now := t, wr_updated := u\<rparr>) body = Inr doc \<Longrightarrow>
     wf_served rt [] doc"
| advanced: "wf_served rt evs doc \<Longrightarrow>
     resubmits (get doc ''workflow'') (opt_prop (JObj body) ''workflow'') \<Longrightarrow>
     normalizeWorkflow (rt\<lparr>wr_now := t, wr_updated := u\<rparr>) (opt_prop (JObj body) ''workflow'') False = Inr w \<Longrightarrow>
     asNonEmptyString (wr_printer rt) (get body ''event'') ''workflow_event'' = Inr event \<Longrightarrow>
     advanceThaiMartWorkflowDryRun (rt\<lparr>wr_now := t, wr_updated := u\<rparr>) (JObj body) = Inr doc' \<Longrightarrow>
     wf_served rt (evs @ [(event, currentSource w)]) doc'"

text \<open>The events that lead through both reviews to a state, after the last change of the source.\<close>

fun review_events :: "workflow_state \<Rightarrow> string list" where
  "review_events QA1_REVIEW = [''submit_qa1'']"
| "review_events QA2_REVIEW = [''submit_qa1'', ''qa1_pass'']"
| "review_events WAITING_APPROVAL = [''submit_qa1'', ''qa1_pass'', ''qa2_pass'']"
| "review_events READY_TO_APPLY = [''submit_qa1'', ''qa1_pass'', ''qa2_pass'', ''approve'']"
| "review_events ARCHIVED = [''submit_qa1'', ''qa1_pass'', ''qa2_pass'', ''approve'', ''archive'']"
| "review_events _ = []"

definition unused_states :: "workflow_state set" where
  "unused_states = {APPLIED, MONITORING, REPORTED, FAILED}"

definition reviewed :: "(jstr \<times> binding) list \<Rightarrow> workflow \<Rightarrow> workflow_state \<Rightarrow> bool" where
  "reviewed evs w st \<longleftrightarrow>
     st \<notin> unused_states \<and>
     (review_events st \<noteq> [] \<longrightarrow>
       (\<exists>pre src. evs = pre @ map (\<lambda>e. (lit e, src)) (review_events st) \<and>
          wf_reviewSource w = Some src \<and> bi_contextVersion src \<noteq> lit ''unbound'' \<and>
          bi_sourceHash src \<noteq> None \<and>
          (st \<in> {READY_TO_APPLY, ARCHIVED} \<longrightarrow> wf_approvalSource w = Some src)))"

definition edges :: "(workflow_state \<times> jstr \<times> workflow_state) list" where
  "edges = concat (map (\<lambda>(st, t). map (\<lambda>(e, st'). (st, e, st')) t) transitions)"

lemma next_stage_edge:
  assumes "next_stage (Stage st) event = Some (Stage st')"
  shows "(st, event, st') \<in> set edges"
proof -
  obtain t where "dict_get transitions st = Some t" "dict_get t event = Some st'"
    using assms by (auto simp: next_stage_def js_index_def split: option.splits if_splits)
  then have "(st, t) \<in> set transitions" "(event, st') \<in> set t"
    by (simp_all add: dict_get_def map_of_SomeD)
  then show ?thesis by (force simp: edges_def)
qed

definition edge_ok :: "workflow_state \<times> jstr \<times> workflow_state \<Rightarrow> bool" where
  "edge_ok = (\<lambda>(st, event, st').
     st \<in> unused_states \<or>
     st' \<notin> unused_states \<and>
     (review_events st' \<noteq> [] \<longrightarrow>
       map lit (review_events st') = map lit (review_events st) @ [event] \<and>
       (review_events st = [] \<longleftrightarrow> event = lit ''submit_qa1'') \<and>
       \<not> clear_review event \<and> event \<noteq> lit ''reject'' \<and>
       (st' = READY_TO_APPLY \<longrightarrow> event = lit ''approve'') \<and>
       (st' = ARCHIVED \<longrightarrow> st = READY_TO_APPLY \<and> event = lit ''archive'')))"

lemma edges_ok: "list_all edge_ok edges"
  by (simp add: edges_def transitions_def on_events_def edge_ok_def unused_states_def clear_review_def)

lemma next_stage_table:
  assumes "next_stage (Stage st) event = Some (Stage st')" and "st \<notin> unused_states"
  shows "st' \<notin> unused_states"
    and "review_events st' \<noteq> [] \<Longrightarrow>
      map lit (review_events st') = map lit (review_events st) @ [event] \<and>
      (review_events st = [] \<longleftrightarrow> event = lit ''submit_qa1'') \<and>
      \<not> clear_review event \<and> event \<noteq> lit ''reject'' \<and>
      (st' = READY_TO_APPLY \<longrightarrow> event = lit ''approve'') \<and>
      (st' = ARCHIVED \<longrightarrow> st = READY_TO_APPLY \<and> event = lit ''archive'')"
proof -
  have "edge_ok (st, event, st')"
    using edges_ok next_stage_edge [OF assms(1)] by (simp add: list_all_iff)
  with assms(2) show "st' \<notin> unused_states"
    and "review_events st' \<noteq> [] \<Longrightarrow>
      map lit (review_events st') = map lit (review_events st) @ [event] \<and>
      (review_events st = [] \<longleftrightarrow> event = lit ''submit_qa1'') \<and>
      \<not> clear_review event \<and> event \<noteq> lit ''reject'' \<and>
      (st' = READY_TO_APPLY \<longrightarrow> event = lit ''approve'') \<and>
      (st' = ARCHIVED \<longrightarrow> st = READY_TO_APPLY \<and> event = lit ''archive'')"
    unfolding edge_ok_def prod.case by argo+
qed

lemma transition_reviewed:
  assumes r: "reviewed evs w st" and st: "wf_state w = Stage st" and n: "normal rt w"
    and ns: "next_stage (Stage st) event = Some (Stage st')"
    and m: "event = lit ''reject'' \<or> list_all (sourceMatches w) (bindings_of w)"
    and t: "reviewedTransition w event (Stage st') = Inr w'"
  shows "reviewed (evs @ [(event, currentSource w)]) w' st'"
    and "review_events st' \<noteq> [] \<Longrightarrow> wf_reviewSource w' = Some (currentSource w')"
proof -
  have u: "st \<notin> unused_states" using r by (simp add: reviewed_def)
  note tab = next_stage_table [OF ns u]
  note w' = reviewedTransition_Inr [OF t]
  have cs: "currentSource w' = currentSource w" by (simp add: w'(1) currentSource_def)
  have "reviewed (evs @ [(event, currentSource w)]) w' st' \<and>
      (review_events st' \<noteq> [] \<longrightarrow> wf_reviewSource w' = Some (currentSource w'))"
  proof (cases "review_events st' = []")
    case True
    with tab(1) show ?thesis by (simp add: reviewed_def)
  next
    case False
    note tab2 = tab(2) [OF False]
    with m have all: "list_all (sourceMatches w) (bindings_of w)" by auto
    show ?thesis
    proof (cases "event = lit ''submit_qa1''")
      case True
      with tab2 have "map lit (review_events st') = [event]" "st' \<notin> {READY_TO_APPLY, ARCHIVED}" by auto
      moreover from this have "map (\<lambda>e. (lit e, currentSource w)) (review_events st') = [(event, currentSource w)]"
        by (auto simp: map_eq_Cons_conv)
      moreover have "bi_contextVersion (currentSource w) \<noteq> lit ''unbound''" "bi_sourceHash (currentSource w) \<noteq> None"
        using w'(2) [OF True] n by (auto simp: currentSource_def normal_def snapshot_hash_def)
      ultimately show ?thesis
        using True tab(1) tab2 cs by (auto simp: reviewed_def w'(1) currentSource_def)
    next
      case ev: False
      with tab2 have "review_events st \<noteq> []" by auto
      with r obtain pre src where src: "evs = pre @ map (\<lambda>e. (lit e, src)) (review_events st)"
          "wf_reviewSource w = Some src" "bi_contextVersion src \<noteq> lit ''unbound''" "bi_sourceHash src \<noteq> None"
          "st \<in> {READY_TO_APPLY, ARCHIVED} \<longrightarrow> wf_approvalSource w = Some src"
        by (auto simp: reviewed_def)
      have cur: "currentSource w = src" using matched_source(1) [OF all src(2)] .
      have "map (\<lambda>e. (lit e, src)) (review_events st') = map (\<lambda>e. (e, src)) (map lit (review_events st'))"
        by simp
      also have "\<dots> = map (\<lambda>e. (lit e, src)) (review_events st) @ [(event, src)]"
        using tab2 by (simp del: map_map add: map_map [symmetric]) simp
      finally have "evs @ [(event, currentSource w)] = pre @ map (\<lambda>e. (lit e, src)) (review_events st')"
        using src(1) cur by simp
      then show ?thesis
        using False ev tab(1) tab2 src cur cs by (auto simp: reviewed_def w'(1) currentSource_def)
    qed
  qed
  then show "reviewed (evs @ [(event, currentSource w)]) w' st'"
    and "review_events st' \<noteq> [] \<Longrightarrow> wf_reviewSource w' = Some (currentSource w')" by auto
qed


lemma sourceSnapshot_clock: "sourceSnapshot (rt\<lparr>wr_now := t, wr_updated := u\<rparr>) v = sourceSnapshot rt v"
  by (cases v) (simp_all add: sourceSnapshot_def json_text_def)

lemma normal_clock: "normal (rt\<lparr>wr_now := t, wr_updated := u\<rparr>) w = normal rt w"
  by (simp add: normal_def sourceSnapshot_clock normalizeSellerContext_clock snapshot_hash_def json_text_def)

lemma normalizeWorkflow_normal:
  "normalizeWorkflow (rt\<lparr>wr_now := t, wr_updated := u\<rparr>) v fresh = Inr w \<Longrightarrow> normal rt w"
  using normalizeWorkflow_Inr(1) normal_clock by blast

lemma asNonEmptyString_INTAKE: "asNonEmptyString pr (JStr (lit ''INTAKE'')) field = Inr (lit ''INTAKE'')"
  using trim_state_name [of INTAKE] by (intro asNonEmptyString_JStr) simp_all

text \<open>What a client gets back from a workflow it was served.\<close>

lemma resubmitted_workflow:
  assumes res: "resubmits (JObj (workflow_json w @ r)) v" and n: "normalizeWorkflow rt v False = Inr w0"
  shows "wf_reviewSource w0 = wf_reviewSource w \<and> wf_approvalSource w0 = wf_approvalSource w \<and>
    (wf_state w0 = wf_state w \<or> wf_state w0 = Stage INTAKE)"
proof -
  obtain gs where v: "v = JObj gs" and g: "get gs ''state'' = stage_json (wf_state w)"
      "get gs ''reviewSource'' = binding_json (wf_reviewSource w)"
      "get gs ''approvalSource'' = binding_json (wf_approvalSource w)"
    using res by (auto simp: resubmits_def get_workflow_json)
  obtain name where name:
      "asNonEmptyString (wr_printer rt) (js_or (stage_json (wf_state w)) (JText ''INTAKE'')) ''workflow_state'' = Inr name"
      "map_option Stage (state_of name) = Some (wf_state w0)"
    and b: "reviewBinding (binding_json (wf_reviewSource w)) = Inr (wf_reviewSource w0)"
      "reviewBinding (binding_json (wf_approvalSource w)) = Inr (wf_approvalSource w0)"
    using normalizeWorkflow_Inr(3) [OF n] v g by (auto simp: workflow_fields_def)
  have "wf_state w0 = wf_state w \<or> wf_state w0 = Stage INTAKE"
  proof (cases "wf_state w")
    case (Stage st)
    then have "name = state_name st"
      using name(1) by (simp add: stage_json_def js_or_def asNonEmptyString_JStr)
    with name(2) Stage show ?thesis by simp
  next
    case (Native k)
    have "state_of (trim (text_of (wr_printer rt) (JObj []))) = None"
      by (simp add: state_of_def workflowStates_def text_of_def lit_def trim_def trim_start_def
          trim_end_def is_space_def)
    moreover have "name = state_name INTAKE" if "k \<noteq> lit ''__proto__''"
      using that name(1) Native by (simp add: stage_json_def js_or_def JText_def asNonEmptyString_INTAKE)
    ultimately show ?thesis
      using name Native
      by (cases "k = lit ''__proto__''")
        (auto simp: stage_json_def js_or_def asNonEmptyString_def string_result_def convertible.simps
          Let_def fail_def split: if_splits simp del: state_name.simps)
  qed
  with reviewBinding_inverse [OF b(1)] reviewBinding_inverse [OF b(2)] show ?thesis by simp
qed

lemma served_reviewed:
  assumes "wf_served rt evs doc"
  shows "\<exists>w r. get doc ''workflow'' = JObj (workflow_json w @ r) \<and>
    (\<forall>st. wf_state w = Stage st \<longrightarrow> reviewed evs w st \<and>
       (review_events st \<noteq> [] \<longrightarrow> wf_reviewSource w = Some (currentSource w)))"
  using assms
proof induction
  case (started u t body doc)
  let ?rt = "rt\<lparr>wr_now := t, wr_updated := u\<rparr>"
  from started obtain fs w where d: "get doc ''workflow'' = JObj (workflow_json w)" and
      n: "normalizeWorkflow ?rt (JObj (dict_set (lit ''approvalSource'') JNull (dict_set (lit ''reviewSource'') JNull
          (dict_set (lit ''state'') (JText ''INTAKE'') fs)))) True = Inr w"
    by (auto simp: createThaiMartWorkflowDryRun_def Let_def result_bind_Inr_iff)
  from normalizeWorkflow_Inr(3) [OF n] have "wf_state w = Stage INTAKE"
    using state_of_name [of INTAKE]
    by (auto simp: workflow_fields_def get_def getp_set js_or_def JText_def asNonEmptyString_INTAKE)
  with d show ?case by (intro exI [of _ w] exI [of _ "[]"]) (auto simp: reviewed_def unused_states_def)
next
  case (advanced evs doc body u t w0 event doc')
  let ?rt = "rt\<lparr>wr_now := t, wr_updated := u\<rparr>"
  obtain w r where d: "get doc ''workflow'' = JObj (workflow_json w @ r)" and
      inv: "\<And>st. wf_state w = Stage st \<Longrightarrow> reviewed evs w st"
    using advanced.IH by blast
  note same = resubmitted_workflow [OF advanced.hyps(2) [unfolded d] advanced.hyps(3)]
  obtain st where st: "wf_state w0 = Stage st" using normalizeWorkflow_Inr(2) [OF advanced.hyps(3)] by blast
  have r0: "reviewed evs w0 st"
  proof (cases "wf_state w = Stage st")
    case True
    then show ?thesis using inv [of st] same by (simp add: reviewed_def)
  next
    case False
    then have "st = INTAKE" using same st by auto
    then show ?thesis by (simp add: reviewed_def unused_states_def)
  qed
  have "advance_workflow ?rt w0 event = Inr doc'"
    using advanced.hyps(3-5) by (auto elim!: advance_Inr simp: body_or_empty_def getp_lit)
  then show ?case
  proof (cases rule: advance_workflow_cases)
    case external
    then show ?thesis
      by (intro exI [of _ "w0\<lparr>wf_state := Stage BLOCKED\<rparr>"] exI)
        (auto simp: get_blockedExternalApply reviewed_def unused_states_def)
  next
    case stale
    then show ?thesis
      by (intro exI [of _ "w0\<lparr>wf_state := Stage CONTEXT_LOCKED, wf_reviewSource := None, wf_approvalSource := None\<rparr>"]
          exI [of _ "[]"]) (auto simp: get_transitionResult reviewed_def unused_states_def)
  next
    case (moved ns w')
    have "wf_state w' = ns" using reviewedTransition_Inr(1) [OF moved(4)] by simp
    moreover have "reviewed (evs @ [(event, currentSource w0)]) w' st' \<and>
        (review_events st' \<noteq> [] \<longrightarrow> wf_reviewSource w' = Some (currentSource w'))" if "ns = Stage st'" for st'
      using transition_reviewed [OF r0 st normalizeWorkflow_normal [OF advanced.hyps(3)] _ moved(3)] moved(2,4) st that
      by simp
    ultimately show ?thesis
      using moved(5) by (intro exI [of _ w'] exI [of _ "[]"]) (auto simp: get_transitionResult)
  qed
qed


section \<open>Order of the keys\<close>

text \<open>Data equal up to the order in which the properties of objects were added.\<close>

inductive same_data :: "jsval \<Rightarrow> jsval \<Rightarrow> bool" where
  same_refl: "same_data v v"
| same_array: "list_all2 same_data vs us \<Longrightarrow> same_data (JArr vs) (JArr us)"
| same_object: "list_all2 (\<lambda>p q. fst p = fst q \<and> same_data (snd p) (snd q)) fs gs \<Longrightarrow>
     mset gs = mset hs \<Longrightarrow> distinct (dict_keys hs) \<Longrightarrow> same_data (JObj fs) (JObj hs)"

lemma canonical_error:
  "canonicalSource depth v = Inl e \<Longrightarrow> e = JsError (lit ''workflow_source_snapshot_invalid'')"
  "canonical_list depth vs = Inl e \<Longrightarrow> e = JsError (lit ''workflow_source_snapshot_invalid'')"
  "canonical_fields depth fs = Inl e \<Longrightarrow> e = JsError (lit ''workflow_source_snapshot_invalid'')"
proof (induction depth v and depth vs and depth fs arbitrary: e and e and e
    rule: canonicalSource_canonical_list_canonical_fields.induct)
  case (10 depth v vs)
  then show ?case by (cases "canonicalSource depth v"; cases "canonical_list depth vs") auto
next
  case (12 depth k v fs)
  then show ?case by (cases "canonicalSource depth v"; cases "canonical_fields depth fs") auto
next
  case (5 depth vs)
  then show ?case
    by (cases "canonical_list (Suc depth) vs") (auto simp: depth_ok_def at_most_100_def fail_def split: if_splits)
next
  case (6 depth fs)
  then show ?case
    by (cases "canonical_fields (Suc depth) fs") (auto simp: depth_ok_def at_most_100_def fail_def split: if_splits)
qed (auto simp: depth_ok_def fail_def split: if_splits)

lemma canonical_result_eq:
  assumes "\<And>x. a = Inr x \<longleftrightarrow> b = Inr x" and "\<And>e. a = Inl e \<Longrightarrow> e = E" and "\<And>e. b = Inl e \<Longrightarrow> e = E"
  shows "a = b"
proof (cases a)
  case (Inl e)
  moreover have "b = Inl E"
    using assms(1) [of "projr b"] assms(3) Inl by (cases b) auto
  ultimately show ?thesis using assms(2) by simp
next
  case (Inr x)
  with assms(1) [of x] show ?thesis by simp
qed

lemma sort_key_fst_mset:
  assumes "mset gs = mset hs" and "distinct (map fst hs)"
  shows "sort_key fst gs = sort_key fst (hs :: jsobj)"
proof (rule sort_key_inj_key_eq)
  show "mset gs = mset (sort_key fst hs)" using assms(1) by simp
  have "inj_on fst (set hs)" using assms(2) by (simp add: distinct_map)
  then show "inj_on fst (set gs)" using assms(1) by (metis mset_eq_setD)
qed simp


lemma canonical_fields_keys: "canonical_fields depth fs = Inr gs \<Longrightarrow> map fst gs = dict_keys fs"
  by (induction fs arbitrary: gs) (auto simp: result_bind_Inr_iff dict_keys_def)

lemma canonical_same_data: "same_data u v \<Longrightarrow> canonicalSource depth u = canonicalSource depth v"
proof (induction arbitrary: depth rule: same_data.induct)
  case (same_refl v)
  show ?case by simp
next
  case (same_array vs us)
  have "canonical_list d vs = canonical_list d us" for d
    using same_array.IH by (induction vs us rule: list_all2_induct) auto
  moreover have "length vs = length us" using same_array.IH by (rule list_all2_lengthD)
  ultimately show ?case by simp
next
  case (same_object fs gs hs)
  have f: "canonical_fields d fs = canonical_fields d gs" for d
    using same_object.IH by (induction fs gs rule: list_all2_induct) auto
  have len: "length fs = length hs"
    using list_all2_lengthD [OF same_object.IH] mset_eq_length [OF same_object.hyps(1)] by simp
  let ?out = "\<lambda>fs. result_bind (canonical_fields (Suc depth) fs) (\<lambda>gs. Inr (JObj (own_order (sort_key fst gs))))"
  have swap: "canonical_fields d hs = Inr ys \<Longrightarrow> mset xs = mset hs \<Longrightarrow>
      \<exists>zs. canonical_fields d xs = Inr zs \<and> mset zs = mset ys" for d hs ys xs
    unfolding canonical_fields_Inr by (rule list_all2_reorder_left_invariance)
  have "?out gs = ?out hs"
  proof (cases "canonical_fields (Suc depth) hs")
    case (Inl e)
    then have "\<nexists>zs. canonical_fields (Suc depth) gs = Inr zs"
      using swap [of "Suc depth" gs _ hs] same_object.hyps(1) by auto
    then obtain e' where "canonical_fields (Suc depth) gs = Inl e'"
      by (cases "canonical_fields (Suc depth) gs") auto
    with Inl show ?thesis by (auto dest!: canonical_error(3))
  next
    case (Inr ys)
    then obtain zs where zs: "canonical_fields (Suc depth) gs = Inr zs" "mset zs = mset ys"
      using swap same_object.hyps(1) by blast
    have "map fst ys = dict_keys hs"
      by (rule canonical_fields_keys) (rule Inr)
    then have "distinct (map fst ys)" using same_object.hyps(2) by simp
    then have "sort_key fst zs = sort_key fst ys" by (rule sort_key_fst_mset [OF zs(2)])
    with zs(1) Inr show ?thesis by simp
  qed
  with f len same_object.hyps(1) show ?case by simp
qed

section \<open>What the documents say\<close>

definition flags :: "string list" where
  "flags = [''externalWrites'', ''productionWrites'', ''customerVisible'', ''canReadThaiMart'',
     ''canWriteThaiMart'', ''canExecuteExternally'', ''canReadSecrets'']"

definition harmless :: "jsobj \<Rightarrow> bool" where
  "harmless doc \<longleftrightarrow>
     list_all (\<lambda>k. get doc k = JBool False) flags \<and> get doc ''requiresHumanApproval'' = JBool True"

lemma harmless_dated: "harmless (dated rt)"
  by (simp add: harmless_def flags_def dated_def localSafetyEnvelope_def)

lemma harmless_Cons: "k \<notin> set (''requiresHumanApproval'' # flags) \<Longrightarrow> harmless ((lit k, v) # doc) = harmless doc"
  by (auto simp: harmless_def list_all_iff)

lemma harmless_answers:
  "harmless (blockedExternalApply rt w event)" "harmless (transitionResult rt w event stale)"
  by (simp_all add: blockedExternalApply_def transitionResult_def harmless_Cons harmless_dated flags_def)

lemma harmless_created: "createThaiMartWorkflowDryRun rt body = Inr doc \<Longrightarrow> harmless doc"
  by (auto simp: createThaiMartWorkflowDryRun_def Let_def result_bind_Inr_iff harmless_Cons harmless_dated flags_def)

lemma harmless_advanced: "advanceThaiMartWorkflowDryRun rt body = Inr doc \<Longrightarrow> harmless doc"
  by (elim advance_Inr advance_workflow_cases) (simp_all add: harmless_answers)

lemma normal_stage: "normal rt (w\<lparr>wf_state := st\<rparr>) = normal rt w"
  by (simp add: normal_def)

lemma normal_transition:
  assumes n: "normal rt w" and sha: "\<And>s. is_sha256_hex (wr_sha256 rt s)"
    and m: "event = lit ''reject'' \<or> list_all (sourceMatches w) (bindings_of w)"
    and t: "reviewedTransition w event ns = Inr w'"
  shows "normal rt w'"
proof -
  have cur: "binding_ok (Some (currentSource w))" if "wf_sourceSnapshot w \<noteq> JNull"
    using that n sha by (auto simp: binding_ok_def currentSource_def normal_def snapshot_hash_def)
  have rev: "binding_ok (wf_reviewSource w)" "binding_ok (wf_approvalSource w)"
    using n by (simp_all add: normal_def)
  note w' = reviewedTransition_Inr [OF t]
  have "binding_ok (wf_reviewSource w')"
    using w'(1,2) cur rev by (cases "event = lit ''submit_qa1''") (auto simp: binding_ok_def)
  moreover have "binding_ok (wf_approvalSource w')"
  proof (cases "event = lit ''approve''")
    case True
    then obtain b where b: "wf_reviewSource w = Some b" using w'(3) by auto
    moreover have "list_all (sourceMatches w) (bindings_of w)" using m True by auto
    ultimately have "currentSource w = b" by (simp add: matched_source)
    with b rev True w'(1) show ?thesis by (simp add: binding_ok_def)
  next
    case False
    with w'(1) rev show ?thesis by (simp add: binding_ok_def)
  qed
  ultimately show ?thesis using n w'(1) by (simp add: normal_def)
qed

lemma answered_workflow:
  assumes "createThaiMartWorkflowDryRun rt body = Inr doc \<or> advanceThaiMartWorkflowDryRun rt body = Inr doc"
    and sha: "\<And>s. is_sha256_hex (wr_sha256 rt s)"
  obtains w r where "get doc ''workflow'' = JObj (workflow_json w @ r)" "normal rt w"
proof -
  from assms(1) show thesis
  proof
    assume "createThaiMartWorkflowDryRun rt body = Inr doc"
    then obtain v w where "normalizeWorkflow rt v True = Inr w" "get doc ''workflow'' = JObj (workflow_json w)"
      by (auto simp: createThaiMartWorkflowDryRun_def Let_def result_bind_Inr_iff)
    with that [of w "[]"] normalizeWorkflow_Inr(1) show thesis by simp
  next
    assume "advanceThaiMartWorkflowDryRun rt body = Inr doc"
    then obtain v w event where n: "normalizeWorkflow rt v False = Inr w" "advance_workflow rt w event = Inr doc"
      by (elim advance_Inr)
    have w: "normal rt w" using normalizeWorkflow_Inr(1) [OF n(1)] .
    from n(2) show thesis
    proof (cases rule: advance_workflow_cases)
      case external
      with that w show thesis by (simp add: get_blockedExternalApply normal_stage)
    next
      case stale
      have "normal rt (w\<lparr>wf_state := Stage CONTEXT_LOCKED, wf_reviewSource := None, wf_approvalSource := None\<rparr>)"
        using w by (simp add: normal_def binding_ok_def)
      with stale that [of _ "[]"] show thesis by (simp add: get_transitionResult)
    next
      case (moved ns w')
      with that [of w' "[]"] normal_transition [OF w sha] show thesis by (simp add: get_transitionResult)
    qed
  qed
qed


lemma wf_served_answer:
  assumes "wf_served rt evs doc"
  obtains t u body where "createThaiMartWorkflowDryRun (rt\<lparr>wr_now := t, wr_updated := u\<rparr>) body = Inr doc"
    | t u body where "advanceThaiMartWorkflowDryRun (rt\<lparr>wr_now := t, wr_updated := u\<rparr>) body = Inr doc"
  using assms by (cases rule: wf_served.cases) blast+

lemma created_event: "createThaiMartWorkflowDryRun rt body = Inr doc \<Longrightarrow> get doc ''event'' = JUndef"
  by (auto simp: createThaiMartWorkflowDryRun_def Let_def result_bind_Inr_iff dated_def localSafetyEnvelope_def)

lemma advanced_event:
  assumes "advanceThaiMartWorkflowDryRun rt body = Inr doc" and "get doc ''event'' = JStr e"
    and "e \<in> set externalApplyEvents"
  shows "\<exists>fs. get doc ''workflow'' = JObj fs \<and> get fs ''state'' = JStr (state_name BLOCKED)"
  using assms
  by (elim advance_Inr advance_workflow_cases)
    (auto simp: get_transitionResult get_blockedExternalApply get_workflow_json stage_json_def)

lemma served_state:
  assumes "wf_served rt evs doc" and "get doc ''workflow'' = JObj fs" and "get fs ''state'' = JStr (state_name st)"
  obtains w r where "fs = workflow_json w @ r" "wf_state w = Stage st" "reviewed evs w st"
    "review_events st \<noteq> [] \<Longrightarrow> wf_reviewSource w = Some (currentSource w)"
proof -
  obtain w r where w: "get doc ''workflow'' = JObj (workflow_json w @ r)" and
    inv: "\<And>st. wf_state w = Stage st \<Longrightarrow> reviewed evs w st \<and>
       (review_events st \<noteq> [] \<longrightarrow> wf_reviewSource w = Some (currentSource w))"
    using served_reviewed [OF assms(1)] by blast
  have fs: "fs = workflow_json w @ r" using assms(2) w by simp
  then have "stage_json (wf_state w) = JStr (state_name st)"
    using assms(3) get_workflow_json(3) [of w r] by metis
  then have "wf_state w = Stage st"
    by (cases "wf_state w") (auto simp: stage_json_def split: if_splits dest: arg_cong [of _ _ state_of])
  with fs inv [of st] that [of w r] show thesis by blast
qed

text \<open>No name of an inherited member is an event of the tables.\<close>

lemma inherited_names:
  "list_all (\<lambda>k. trim k = k \<and> k \<noteq> [] \<and> k \<notin> set externalApplyEvents \<and> \<not> clear_review k \<and>
      k \<notin> {lit ''reject'', lit ''submit_qa1'', lit ''qa1_pass'', lit ''qa2_pass'', lit ''approve''} \<and>
      list_all (\<lambda>(_, t). dict_get t k = None) transitions) object_prototype_keys"
proof -
  have "list_all (\<lambda>k. trim k = k) object_prototype_keys"
    by (simp add: object_prototype_keys_def lit_def trim_def trim_start_def trim_end_def is_space_def)
  moreover have "list_all (\<lambda>k. k \<noteq> [] \<and> k \<notin> set externalApplyEvents \<and> \<not> clear_review k \<and>
      k \<notin> {lit ''reject'', lit ''submit_qa1'', lit ''qa1_pass'', lit ''qa2_pass'', lit ''approve''}) object_prototype_keys"
    by (simp add: object_prototype_keys_def externalApplyEvents_def clear_review_def)
  moreover have "list_all (\<lambda>k. list_all (\<lambda>(_, t). dict_get t k = None) transitions) object_prototype_keys"
    by (simp add: object_prototype_keys_def transitions_def on_events_def)
  ultimately show ?thesis by (simp add: list_all_iff)
qed

section \<open>A sample run\<close>

lemma served_step:
  assumes "wf_served rt evs doc" and w: "get doc ''workflow'' = JObj (workflow_json w)"
    and n: "normal rt w" "wf_state w = Stage st"
    and e: "trim (lit e) = lit e" "e \<noteq> []" and a: "advance_workflow rt w (lit e) = Inr doc'"
  shows "wf_served rt (evs @ [(lit e, currentSource w)]) doc'"
proof -
  let ?body = "[(lit ''workflow'', JObj (workflow_json w)), (lit ''event'', JText e)]"
  have rt: "rt\<lparr>wr_now := wr_now rt, wr_updated := wr_updated rt\<rparr> = rt" by simp
  have nw: "normalizeWorkflow rt (JObj (workflow_json w)) False = Inr w"
    using normal_accepted [OF n, where t = "wr_now rt" and u = "wr_updated rt" and r = "[]"] by simp
  have ev: "asNonEmptyString (wr_printer rt) (JText e) ''workflow_event'' = Inr (lit e)"
    using e by (simp add: JText_def asNonEmptyString_JStr)
  have "advanceThaiMartWorkflowDryRun rt (JObj ?body) = Inr doc'"
    using nw ev a by (simp add: advanceThaiMartWorkflowDryRun_def Let_def member_def getp_lit del: fun_upd_apply)
  then show ?thesis
    using wf_served.advanced [OF assms(1), where body = ?body and t = "wr_now rt" and u = "wr_updated rt"]
      nw ev w by (simp add: rt getp_lit resubmits_def)
qed

definition sample_wf_runtime :: wf_runtime where
  "sample_wf_runtime =
     \<lparr>wr_printer = \<lparr>pr_num = (\<lambda>_. []), pr_date = (\<lambda>_. [])\<rparr>, wr_sha256 = (\<lambda>_. replicate 64 0x61),
      wr_parseDate = (\<lambda>_. NaN), wr_now = 0, wr_updated = 0\<rparr>"

definition sample_source :: binding where
  "sample_source = \<lparr>bi_contextVersion = lit ''v1'', bi_sourceHash = Some (replicate 64 0x61)\<rparr>"

definition sample_snapshot :: jsval where
  "sample_snapshot = JObj [(lit ''sku'', JText ''A1'')]"

definition sample_workflow :: "workflow_state \<Rightarrow> binding option \<Rightarrow> binding option \<Rightarrow> workflow" where
  "sample_workflow st review approval =
     \<lparr>wf_id = lit ''goal-1'', wf_type = lit ''content'', wf_state = Stage st, wf_storeScope = lit ''own-store'',
      wf_contextVersion = lit ''v1'', wf_sourceSnapshot = sample_snapshot,
      wf_sourceHash = Some (replicate 64 0x61), wf_sourceVerification = lit ''DECLARED_LOCAL_SNAPSHOT'',
      wf_reviewSource = review, wf_approvalSource = approval, wf_sellerPageContext = JNull\<rparr>"

definition sample_goal :: jsval where
  "sample_goal = JObj
     [(lit ''id'', JText ''goal-1''), (lit ''type'', JText ''content''),
      (lit ''contextVersion'', JText ''v1''), (lit ''sourceSnapshot'', sample_snapshot)]"

lemma sample_canonical: "sourceSnapshot sample_wf_runtime sample_snapshot = Inr sample_snapshot"
  by (simp add: sourceSnapshot_def sample_snapshot_def JText_def depth_ok_def at_most_100_def own_order_def
      array_index_def json_text_def json_quote_def json_unit_def lit_def is_digit_def is_high_def is_low_def)

lemma sample_hash:
  "snapshot_hash sample_wf_runtime sample_snapshot = Some (replicate 64 0x61)" "sample_snapshot \<noteq> JNull"
  by (simp_all add: snapshot_hash_def sample_snapshot_def sample_wf_runtime_def)

lemma sample_trims: "trim (lit ''goal-1'') = lit ''goal-1''" "trim (lit ''v1'') = lit ''v1''"
  by (simp_all add: lit_def trim_def trim_start_def trim_end_def is_space_def)

lemma sample_normal:
  assumes "review \<in> {None, Some sample_source}" and "approval \<in> {None, Some sample_source}"
  shows "normal sample_wf_runtime (sample_workflow st review approval)"
proof -
  have b: "binding_ok (Some sample_source)"
    using sample_trims(2) by (simp add: binding_ok_def sample_source_def is_sha256_hex_def list_all_iff)
  have "valid_workflow_id (lit ''goal-1'')"
    by (simp add: valid_workflow_id_def lit_def id_unit_def is_digit_def)
  then show ?thesis
    using sample_hash assms b sample_canonical sample_trims
    by (auto simp: normal_def sample_workflow_def workflowTypes_def normalizeSellerContext_def
        binding_ok_def sample_snapshot_def)
qed

lemma sample_current: "currentSource (sample_workflow st review approval) = sample_source"
  by (simp add: currentSource_def sample_workflow_def sample_source_def)


lemma sample_started:
  "\<exists>doc. createThaiMartWorkflowDryRun sample_wf_runtime sample_goal = Inr doc \<and>
     get doc ''workflow'' = JObj (workflow_json (sample_workflow INTAKE None None) @ [])"
proof -
  let ?w = "sample_workflow INTAKE None None"
  let ?in = "[(lit ''id'', JText ''goal-1''), (lit ''type'', JText ''content''),
      (lit ''contextVersion'', JText ''v1''), (lit ''sourceSnapshot'', sample_snapshot),
      (lit ''state'', JText ''INTAKE''), (lit ''reviewSource'', JNull), (lit ''approvalSource'', JNull)]"
  have c: "context_version (wr_printer sample_wf_runtime) (JText ''v1'') = Inr (lit ''v1'')"
    by (simp add: context_version_def JText_def js_or_def sample_trims)
  have "snapshot_input ?in = sample_snapshot"
    by (simp add: snapshot_input_def JText_def)
  then have "workflow_sources sample_wf_runtime ?in True (lit ''goal-1'') (lit ''content'') INTAKE = Inr ?w"
    by (simp add: workflow_sources_def sample_canonical c reviewBinding_def normalizeSellerContext_def
        sample_workflow_def sample_hash)
  moreover have "valid_workflow_id (lit ''goal-1'')"
    by (simp add: valid_workflow_id_def lit_def id_unit_def is_digit_def)
  moreover have "state_of (lit ''INTAKE'') = Some INTAKE" using state_of_name [of INTAKE] by simp
  moreover have "lit ''content'' \<in> set workflowTypes" by (simp add: workflowTypes_def)
  moreover from this have "trim (lit ''content'') = lit ''content''" using trim_workflow_type by blast
  ultimately have "normalizeWorkflow sample_wf_runtime (JObj ?in) True = Inr ?w"
    using sample_trims(1)
    by (simp add: normalizeWorkflow_def workflow_fields_def normalize_fields_def Let_def JText_def js_or_def
        asNonEmptyString_JStr asNonEmptyString_INTAKE trim_own_store)
  then show ?thesis
    by (simp add: createThaiMartWorkflowDryRun_def sample_goal_def spread_fields_def Let_def js_or_def)
qed

definition sample_events :: "string list" where
  "sample_events = [''lock_context'', ''plan'', ''draft'', ''adapt_channel'', ''submit_qa1'', ''qa1_pass'',
     ''qa2_pass'', ''approve'']"

definition sample_trace :: "(jstr \<times> binding) list" where
  "sample_trace = map (\<lambda>e. (lit e, sample_source)) sample_events"

lemmas sample_step = advance_workflow_def externalApplyEvents_def next_stage_def transitions_def on_events_def
  js_index_Own_iff js_index_def reviewedTransition_def clear_review_def bindings_of_def sourceMatches_def
  sample_snapshot_def sample_source_def sample_workflow_def currentSource_def

lemma lit_trim:
  "trim (lit ''lock_context'') = lit ''lock_context''" "trim (lit ''plan'') = lit ''plan''"
  "trim (lit ''draft'') = lit ''draft''" "trim (lit ''adapt_channel'') = lit ''adapt_channel''"
  "trim (lit ''submit_qa1'') = lit ''submit_qa1''" "trim (lit ''qa1_pass'') = lit ''qa1_pass''"
  "trim (lit ''qa2_pass'') = lit ''qa2_pass''" "trim (lit ''approve'') = lit ''approve''"
  by (simp_all add: lit_def trim_def trim_start_def trim_end_def is_space_def)

lemma sample_run:
  "\<exists>doc. wf_served sample_wf_runtime sample_trace doc \<and>
     get doc ''workflow'' = JObj (workflow_json (sample_workflow READY_TO_APPLY (Some sample_source) (Some sample_source)))"
proof -
  let ?s = "Some sample_source"
  let ?served = "\<lambda>es st r a. \<exists>doc. wf_served sample_wf_runtime (map (\<lambda>e. (lit e, sample_source)) es) doc \<and>
     get doc ''workflow'' = JObj (workflow_json (sample_workflow st r a))"
  have step: "?served (es @ [e]) st' r' a'"
    if "?served es st r a" "r \<in> {None, ?s}" "a \<in> {None, ?s}" "trim (lit e) = lit e" "e \<noteq> []"
      "advance_workflow sample_wf_runtime (sample_workflow st r a) (lit e) =
         Inr (transitionResult sample_wf_runtime (sample_workflow st' r' a') (lit e) False)"
    for es e st st' r r' a a'
  proof -
    from that(1) obtain doc where d: "wf_served sample_wf_runtime (map (\<lambda>e. (lit e, sample_source)) es) doc"
        "get doc ''workflow'' = JObj (workflow_json (sample_workflow st r a))" by blast
    have "wf_state (sample_workflow st r a) = Stage st" by (simp add: sample_workflow_def)
    from served_step [OF d sample_normal [OF that(2,3)] this that(4-6)] show ?thesis
      by (auto simp: sample_current get_transitionResult)
  qed
  have "rt\<lparr>wr_now := wr_now rt, wr_updated := wr_updated rt\<rparr> = rt" for rt :: wf_runtime by simp
  with sample_started have "?served [] INTAKE None None"
    by (metis append_Nil2 list.simps(8) wf_served.started)
  from step [OF this, of "''lock_context''" CONTEXT_LOCKED None None]
  have "?served [''lock_context''] CONTEXT_LOCKED None None" by (simp add: sample_step lit_trim)
  from step [OF this, of "''plan''" PLANNED None None]
  have "?served [''lock_context'', ''plan''] PLANNED None None" by (simp add: sample_step lit_trim)
  from step [OF this, of "''draft''" DRAFTED None None]
  have "?served [''lock_context'', ''plan'', ''draft''] DRAFTED None None" by (simp add: sample_step lit_trim)
  from step [OF this, of "''adapt_channel''" CHANNEL_ADAPTED None None]
  have "?served (take 4 sample_events) CHANNEL_ADAPTED None None" by (simp add: sample_step lit_trim sample_events_def)
  from step [OF this, of "''submit_qa1''" QA1_REVIEW ?s None]
  have "?served (take 5 sample_events) QA1_REVIEW ?s None" by (simp add: sample_step lit_trim sample_events_def)
  from step [OF this, of "''qa1_pass''" QA2_REVIEW ?s None]
  have "?served (take 6 sample_events) QA2_REVIEW ?s None" by (simp add: sample_step lit_trim sample_events_def)
  from step [OF this, of "''qa2_pass''" WAITING_APPROVAL ?s None]
  have "?served (take 7 sample_events) WAITING_APPROVAL ?s None" by (simp add: sample_step lit_trim sample_events_def)
  from step [OF this, of "''approve''" READY_TO_APPLY ?s ?s]
  show ?thesis by (simp add: sample_step lit_trim sample_events_def sample_trace_def)
qed


section \<open>Properties\<close>

text \<open>
  C18. To a client that sends back the state and the two bindings it was served, a workflow is
  served as ready to apply only after both reviews and the approval of one and the same source.
  The client may edit whatever else it likes between the steps; the service keeps no state, so
  it cannot tell a document it never served, and the runs of \<open>wf_served\<close> exclude forged ones. In
  every such run that ends ready to apply, the last four events are the
  submission, the two passes and the approval, all four sent for the source the answer holds;
  that source has a version and a hash, and both bindings name it.
\<close>

theorem approval_follows_review:
  assumes "wf_served rt evs doc" and "get doc ''workflow'' = JObj fs"
    and "get fs ''state'' = JStr (state_name READY_TO_APPLY)"
  shows "\<exists>pre src. evs = pre @ map (\<lambda>e. (lit e, src)) [''submit_qa1'', ''qa1_pass'', ''qa2_pass'', ''approve''] \<and>
    bi_contextVersion src \<noteq> lit ''unbound'' \<and> bi_sourceHash src \<noteq> None \<and>
    get fs ''contextVersion'' = JStr (bi_contextVersion src) \<and>
    get fs ''sourceHash'' = hash_json (bi_sourceHash src) \<and>
    get fs ''reviewSource'' = binding_json (Some src) \<and> get fs ''approvalSource'' = binding_json (Some src)"
proof -
  obtain w r where fs: "fs = workflow_json w @ r" and "reviewed evs w READY_TO_APPLY" and
      cur: "wf_reviewSource w = Some (currentSource w)"
    using served_state [OF assms] by (metis list.distinct(1) review_events.simps(4))
  then obtain pre src where src: "evs = pre @ map (\<lambda>e. (lit e, src)) (review_events READY_TO_APPLY)"
      "wf_reviewSource w = Some src" "bi_contextVersion src \<noteq> lit ''unbound''" "bi_sourceHash src \<noteq> None"
      "wf_approvalSource w = Some src"
    by (auto simp: reviewed_def)
  have "get fs ''sourceHash'' = hash_json (wf_sourceHash w)" by (simp add: fs workflow_json_def)
  with src cur show ?thesis
    by (intro exI [of _ pre] exI [of _ src]) (auto simp: fs get_workflow_json currentSource_def)
qed

theorem approval_follows_review_witness:
  "\<exists>pre src. sample_trace = pre @ map (\<lambda>e. (lit e, src)) [''submit_qa1'', ''qa1_pass'', ''qa2_pass'', ''approve''] \<and>
    bi_contextVersion src \<noteq> lit ''unbound'' \<and> bi_sourceHash src \<noteq> None"
proof -
  obtain doc where "wf_served sample_wf_runtime sample_trace doc" "get doc ''workflow'' =
      JObj (workflow_json (sample_workflow READY_TO_APPLY (Some sample_source) (Some sample_source)))"
    using sample_run by blast
  from approval_follows_review [OF this] show ?thesis
    by (auto simp: workflow_json_def stage_json_def sample_workflow_def)
qed

text \<open>
  C24. Nothing a run serves announces an effect: every answer has the seven capability flags false
  and asks for human approval, no run reaches the states \<open>APPLIED\<close>, \<open>MONITORING\<close>, \<open>REPORTED\<close> or
  \<open>FAILED\<close>, and an event that would apply the workflow outside leaves it \<open>BLOCKED\<close>.
\<close>

theorem workflow_stays_local:
  assumes "wf_served rt evs doc"
  shows "(\<forall>k \<in> set [''externalWrites'', ''productionWrites'', ''customerVisible'', ''canReadThaiMart'',
        ''canWriteThaiMart'', ''canExecuteExternally'', ''canReadSecrets'']. get doc k = JBool False) \<and>
    get doc ''requiresHumanApproval'' = JBool True \<and>
    (\<exists>fs. get doc ''workflow'' = JObj fs \<and>
      (\<forall>st \<in> {APPLIED, MONITORING, REPORTED, FAILED}. get fs ''state'' \<noteq> JStr (state_name st)) \<and>
      (\<forall>e \<in> set externalApplyEvents. get doc ''event'' = JStr e \<longrightarrow> get fs ''state'' = JStr (state_name BLOCKED)))"
proof -
  have h: "harmless doc"
    using assms by (rule wf_served_answer) (auto intro: harmless_created harmless_advanced)
  obtain w r where w: "get doc ''workflow'' = JObj (workflow_json w @ r)"
    using served_reviewed [OF assms] by blast
  have unused: "get (workflow_json w @ r) ''state'' \<noteq> JStr (state_name st)"
    if "st \<in> {APPLIED, MONITORING, REPORTED, FAILED}" for st
    using served_state [OF assms w, of st] that by (auto simp: reviewed_def unused_states_def)
  have ext: "get (workflow_json w @ r) ''state'' = JStr (state_name BLOCKED)"
    if "e \<in> set externalApplyEvents" "get doc ''event'' = JStr e" for e
    using assms
  proof (rule wf_served_answer)
    fix t u body assume "createThaiMartWorkflowDryRun (rt\<lparr>wr_now := t, wr_updated := u\<rparr>) body = Inr doc"
    with that(2) show ?thesis by (simp add: created_event)
  next
    fix t u body assume "advanceThaiMartWorkflowDryRun (rt\<lparr>wr_now := t, wr_updated := u\<rparr>) body = Inr doc"
    from advanced_event [OF this that(2,1)] w show ?thesis by simp
  qed
  from h have "\<forall>k \<in> set flags. get doc k = JBool False" "get doc ''requiresHumanApproval'' = JBool True"
    by (simp_all add: harmless_def list_all_iff)
  then show ?thesis
    unfolding flags_def using w unused ext by blast
qed

theorem workflow_stays_local_witness:
  "\<exists>doc. wf_served sample_wf_runtime sample_trace doc \<and> get doc ''externalWrites'' = JBool False"
  using sample_run workflow_stays_local by (metis list.set_intros(1))

text \<open>
  C9. What the service serves it accepts back: the workflow of every answer whose state is a
  string, sent back at any later time, is read as exactly the workflow that was printed. The
  only other answers are those whose state is an inherited member of the transition table. The
  hash is assumed to print as sixty-four hexadecimal digits.
\<close>

theorem resubmission_accepted:
  assumes "createThaiMartWorkflowDryRun rt body = Inr doc \<or> advanceThaiMartWorkflowDryRun rt body = Inr doc"
    and "\<And>s. is_sha256_hex (wr_sha256 rt s)"
    and "get doc ''workflow'' = JObj fs" and "get fs ''state'' = JStr name"
  shows "\<exists>w r. fs = workflow_json w @ r \<and>
    normalizeWorkflow (rt\<lparr>wr_now := t, wr_updated := u\<rparr>) (JObj fs) False = Inr w"
proof -
  obtain w r where w: "get doc ''workflow'' = JObj (workflow_json w @ r)" "normal rt w"
    using answered_workflow [OF assms(1,2)] .
  with assms(3) have fs: "fs = workflow_json w @ r" by simp
  with assms(4) have "stage_json (wf_state w) = JStr name" by (simp add: get_workflow_json)
  then obtain st where "wf_state w = Stage st" by (cases "wf_state w") (auto simp: stage_json_def split: if_splits)
  from normal_accepted [OF w(2) this] fs show ?thesis by blast
qed

theorem resubmission_accepted_witness:
  "\<exists>doc fs w r. createThaiMartWorkflowDryRun sample_wf_runtime sample_goal = Inr doc \<and>
    get doc ''workflow'' = JObj fs \<and> fs = workflow_json w @ r \<and>
    normalizeWorkflow (sample_wf_runtime\<lparr>wr_now := 5, wr_updated := 6\<rparr>) (JObj fs) False = Inr w"
proof -
  obtain doc where d: "createThaiMartWorkflowDryRun sample_wf_runtime sample_goal = Inr doc"
      "get doc ''workflow'' = JObj (workflow_json (sample_workflow INTAKE None None) @ [])"
    using sample_started by blast
  have "is_sha256_hex (wr_sha256 sample_wf_runtime s)" for s
    by (simp add: sample_wf_runtime_def is_sha256_hex_def list_all_iff)
  moreover have "get (workflow_json (sample_workflow INTAKE None None) @ []) ''state'' = JStr (lit ''INTAKE'')"
    by (simp only: get_workflow_json) (simp add: stage_json_def sample_workflow_def)
  ultimately show ?thesis
    using resubmission_accepted [OF disjI1 [OF d(1)] _ d(2), where t = 5 and u = 6] d by blast
qed

text \<open>
  C31. The snapshot of a source, and so its hash, does not depend on the order in which the
  properties of its objects were written, at any depth: two such sources give the same snapshot
  or are both refused, and a review of one counts for the other.
\<close>

theorem snapshot_order_irrelevant:
  assumes "same_data (JObj fs) (JObj gs)"
  shows "sourceSnapshot rt (JObj fs) = sourceSnapshot rt (JObj gs)"
proof -
  from assms have "length fs = length gs"
  proof cases
    case (same_object hs)
    from list_all2_lengthD [OF same_object(1)] mset_eq_length [OF same_object(2)] show ?thesis by simp
  qed simp
  then have "fs = [] \<longleftrightarrow> gs = []" by auto
  then show ?thesis
    using canonical_same_data [OF assms, of 0] by (simp add: sourceSnapshot_def)
qed

theorem snapshot_order_irrelevant_witness:
  "let a = [(lit ''sku'', JText ''A1''), (lit ''dims'', JObj [(lit ''w'', JBool True), (lit ''h'', JNull)])];
       b = [(lit ''dims'', JObj [(lit ''h'', JNull), (lit ''w'', JBool True)]), (lit ''sku'', JText ''A1'')]
   in sourceSnapshot sample_wf_runtime (JObj a) = sourceSnapshot sample_wf_runtime (JObj b)"
proof -
  have dims: "same_data (JObj [(lit ''w'', JBool True), (lit ''h'', JNull)]) (JObj [(lit ''h'', JNull), (lit ''w'', JBool True)])"
    by (rule same_object [where gs = "[(lit ''w'', JBool True), (lit ''h'', JNull)]"])
      (simp_all add: same_refl dict_keys_def add_mset_commute)
  have "same_data
      (JObj [(lit ''sku'', JText ''A1''), (lit ''dims'', JObj [(lit ''w'', JBool True), (lit ''h'', JNull)])])
      (JObj [(lit ''dims'', JObj [(lit ''h'', JNull), (lit ''w'', JBool True)]), (lit ''sku'', JText ''A1'')])"
    by (rule same_object [where gs = "[(lit ''sku'', JText ''A1''), (lit ''dims'', JObj [(lit ''h'', JNull), (lit ''w'', JBool True)])]"])
      (simp_all add: same_refl dims dict_keys_def add_mset_commute)
  from snapshot_order_irrelevant [OF this] show ?thesis by (simp add: Let_def)
qed

text \<open>
  The table of transitions is a plain object, so an event named like a member of
  \<open>Object.prototype\<close> is not refused: from every state that has a transition, with no stale
  review, it is answered as a transition whose new state is no string and allows no event.
\<close>

theorem inherited_event_transitions:
  assumes "normalizeWorkflow rt (get body ''workflow'') False = Inr w" and "get body ''event'' = JStr k"
    and "k \<in> set object_prototype_keys" and "wf_state w = Stage st" and "dict_get transitions st \<noteq> None"
    and "list_all (sourceMatches w) (bindings_of w)"
  shows "\<exists>doc gs. advanceThaiMartWorkflowDryRun rt (JObj body) = Inr doc \<and>
    get doc ''status'' = JText ''thaimart_workflow_transitioned'' \<and>
    get doc ''nextAllowedEvents'' = JArr [] \<and>
    get doc ''workflow'' = JObj gs \<and> get gs ''state'' \<in> {JUndef, JObj []}"
proof -
  have plain: "trim k = k \<and> k \<noteq> [] \<and> k \<notin> set externalApplyEvents \<and> \<not> clear_review k \<and>
      k \<notin> {lit ''reject'', lit ''submit_qa1'', lit ''qa1_pass'', lit ''qa2_pass'', lit ''approve''} \<and>
      list_all (\<lambda>(_, t). dict_get t k = None) transitions"
    using assms(3) inherited_names by (simp add: list_all_iff)
  from assms(5) obtain t where t: "dict_get transitions st = Some t" by blast
  then have "(st, t) \<in> set transitions" by (simp add: dict_get_def map_of_SomeD)
  then have "dict_get t k = None" using plain by (auto simp: list_all_iff)
  then have "next_stage (Stage st) k = Some (Native k)"
    using t assms(3) by (simp add: next_stage_def js_index_def)
  moreover have "reviewedTransition w k (Native k) = Inr (w\<lparr>wf_state := Native k\<rparr>)"
    using plain by (auto simp: reviewedTransition_def)
  moreover have "\<not> list_ex (\<lambda>b. \<not> sourceMatches w b) (bindings_of w)"
    using assms(6) by (auto simp: list_ex_iff list_all_iff)
  ultimately have "advance_workflow rt w k = Inr (transitionResult rt (w\<lparr>wf_state := Native k\<rparr>) k False)"
    using plain assms(4) by (simp add: advance_workflow_def)
  moreover have "asNonEmptyString (wr_printer rt) (JStr k) ''workflow_event'' = Inr k"
    using plain by (simp add: asNonEmptyString_JStr)
  ultimately have "advanceThaiMartWorkflowDryRun rt (JObj body) = Inr (transitionResult rt (w\<lparr>wf_state := Native k\<rparr>) k False)"
    using assms(1,2) by (simp add: advanceThaiMartWorkflowDryRun_def Let_def member_def getp_lit)
  then show ?thesis
    using get_workflow_json(3) [of "w\<lparr>wf_state := Native k\<rparr>" "[]"]
    by (intro exI [of _ "transitionResult rt (w\<lparr>wf_state := Native k\<rparr>) k False"]
          exI [of _ "workflow_json (w\<lparr>wf_state := Native k\<rparr>)"])
      (simp add: get_transitionResult, simp add: transitionResult_def allowed_events_def stage_json_def)
qed

theorem inherited_event_transitions_witness:
  "\<exists>doc. advanceThaiMartWorkflowDryRun sample_wf_runtime
      (JObj [(lit ''workflow'', JObj (workflow_json (sample_workflow WAITING_APPROVAL None None))),
             (lit ''event'', JText ''constructor'')]) = Inr doc \<and>
    get doc ''status'' = JText ''thaimart_workflow_transitioned'' \<and> get doc ''nextAllowedEvents'' = JArr []"
proof -
  let ?w = "sample_workflow WAITING_APPROVAL None None"
  let ?body = "[(lit ''workflow'', JObj (workflow_json ?w)), (lit ''event'', JText ''constructor'')]"
  have st: "wf_state ?w = Stage WAITING_APPROVAL" by (simp add: sample_workflow_def)
  have n: "normalizeWorkflow sample_wf_runtime (get ?body ''workflow'') False = Inr ?w"
    using normal_accepted [OF sample_normal st, where t = 0 and u = 0 and r = "[]"]
    by (simp add: sample_wf_runtime_def)
  have "dict_get transitions WAITING_APPROVAL \<noteq> None" by (simp add: transitions_def)
  moreover have "list_all (sourceMatches ?w) (bindings_of ?w)" by (simp add: bindings_of_def sample_workflow_def)
  moreover have "get ?body ''event'' = JStr (lit ''constructor'')" by (simp add: JText_def)
  ultimately show ?thesis
    using inherited_event_transitions [OF n _ _ st, of "lit ''constructor''"] by (auto simp: object_prototype_keys_def)
qed

end
