(* ===== verification/A2aSync.thy ===== *)
theory A2aSync
  imports TelegramSender
begin

text \<open>
  The agent-to-agent sync coordinator (\<open>services/dev-control-api/src/a2a-sync.mjs\<close>): it
  validates a request, refuses goals that name a dangerous action, and plans a message between
  agents. An alert or an approval request may go out over Telegram; that takes an explicit
  \<open>dryRun: false\<close>, an open gate for the status and a second reading of the gate by the sender.
\<close>

section \<open>Tables\<close>

definition a2aSyncBlockedActions :: jsval where
  "a2aSyncBlockedActions = JTexts
     [''deploy'', ''push'', ''publish'', ''external_connector_activation'', ''real_mcp_execution'',
      ''paid_api_call'', ''secret_read_or_print'', ''customer_message_send'',
      ''production_database_write'', ''telegram_send_without_gate'', ''line_send'',
      ''agent_auto_start'', ''package_install'']"

definition A2A_SYNC_VERSION :: string where
  "A2A_SYNC_VERSION = ''1.2''"

definition A2A_MAX_MESSAGE_LENGTH :: nat where
  "A2A_MAX_MESSAGE_LENGTH = 3800"

definition syncAgentDefinitions :: "(string \<times> string \<times> string \<times> string) list" where
  "syncAgentDefinitions =
     [(''hermes-agent'', ''Hermes Agent'', ''team-orchestrator'', ''primary orchestrator and TUI review agent''),
      (''codex'', ''Codex'', ''coding'', ''local code editing and implementation agent''),
      (''codex-app'', ''Codex App'', ''coding'', ''Codex GUI app lane''),
      (''claude-code'', ''Claude Code'', ''coding'', ''Anthropic CLI coding agent''),
      (''opencode'', ''OpenCode'', ''coding'', ''open-source coding agent''),
      (''openclaw'', ''OpenClaw'', ''system'', ''GhostClaw OS agent''),
      (''copilot-cli'', ''Copilot CLI'', ''assistant'', ''GitHub Copilot CLI assistant''),
      (''droid'', ''Droid'', ''mobile'', ''mobile automation agent''),
      (''pi'', ''Pi'', ''assistant'', ''personal intelligence agent''),
      (''telegram-bot'', ''Telegram Bot'', ''messaging'', ''Telegram command and notification gateway''),
      (''a2a-sync'', ''A2A Sync'', ''sync'', ''agent-to-agent sync coordinator''),
      (''manus'', ''Manus'', ''agent-platform'',
       ''Manus AI generalist agent platform for the Mac mini (Mac App Store: tech.butterfly.app)''),
      (''hermes-one'', ''Hermes One'', ''desktop-agent'',
       ''Nous Research Hermes One desktop app v0.7.3 (com.nousresearch.hermes)''),
      (''kimi-code'', ''Kimi Code'', ''coding'', ''Kimi Code CLI v0.27.0 and Kimi.app v3.1.2 with optional ACP stdio''),
      (''claude-cowork'', ''Claude Cowork'', ''desktop-agent'',
       ''Claude Desktop v1.22209.3 Cowork surface; runtime handshake requires separate evidence''),
      (''antigravity'', ''Antigravity'', ''coding'',
       ''Antigravity CLI (AGY) Gemini coding agent; runtime handshake requires separate evidence'')]"

definition A2A_SYNC_AGENT_IDS :: "jstr list" where
  "A2A_SYNC_AGENT_IDS = map (\<lambda>d. lit (fst d)) syncAgentDefinitions"

definition messageTypes :: "jstr list" where
  "messageTypes =
     map lit [''status_update'', ''notification'', ''alert'', ''sync_request'', ''sync_response'',
       ''evidence_packet'', ''approval_request'']"

definition telegramMessageTypes :: "jstr list" where
  "telegramMessageTypes = map lit [''alert'', ''approval_request'']"

definition any_of :: "string list \<Rightarrow> rx" where
  "any_of ws = RAlt (map (\<lambda>w. RText (lit w)) ws)"

definition optional :: "string \<Rightarrow> rx" where
  "optional s = ROpt (RText (lit s))"

definition c_word :: chars where
  "c_word = Chars False False [(0x30, 0x39), (0x41, 0x5A), (0x5F, 0x5F), (0x61, 0x7A)]"

definition dangerousGoalRules :: "(string \<times> rx) list" where
  "dangerousGoalRules =
     [(''deploy'', RSeq [RBound, RText (lit ''deploy''), RBound]),
      (''push'', RSeq [RBound, RText (lit ''push'')]),
      (''publish'', RSeq [RBound, RText (lit ''publish''), RBound]),
      (''package_install'', RSeq [RBound, RAlt [RText (lit ''install''), RText (lit ''pnpm add''),
          RSeq [RText (lit ''npm i''), RBound]]]),
      (''real_mcp_execution'', RAlt [RSeq [RBound, RText (lit ''mcp'')], RText (lit ''model context protocol''),
          RText (lit ''start server''), RText (lit ''start-server'')]),
      (''secret_read_or_print'', RSeq [RBound, RAlt [RText (lit ''secret''), RText (lit ''token''),
          RSeq [RText (lit ''api''), optional '' '', RText (lit ''key'')], RText (lit ''password''),
          RText (lit ''credential'')]]),
      (''paid_api_call'', RSeq [RBound,
          any_of [''call provider'', ''paid api'', ''openrouter call'', ''run qwen'', ''invoke qwen''], RBound]),
      (''customer_message_send'', RSeq [RBound, RAlt [RText (lit ''line''), RText (lit ''dm''),
          RText (lit ''sms''), RSeq [RText (lit ''email''), RClass c_word 0 None],
          RText (lit ''customer message'')], RBound]),
      (''external_connector_activation'', RSeq [RBound,
          any_of [''activate'', ''connect live'', ''oauth'', ''external connector'', ''supabase write'', ''github push'']]),
      (''agent_auto_start'', RSeq [RBound, RAlt [RSeq [RText (lit ''auto''), ROpt (RClass c_any 1 (Some 1)),
          RText (lit ''start'')], RText (lit ''launch agent''), RText (lit ''spawn agent'')]])]"

definition findBlockedReasons :: "jstr \<Rightarrow> jstr list" where
  "findBlockedReasons goal =
     map (\<lambda>rule. lit (fst rule)) (filter (\<lambda>rule. rx_test True (snd rule) goal) dangerousGoalRules)"

section \<open>Status\<close>

definition a2a_lock :: jsobj where
  "a2a_lock =
     [(lit ''externalWrites'', JBool False), (lit ''productionWrites'', JBool False),
      (lit ''customerVisible'', JBool False), (lit ''canExecuteExternally'', JBool False),
      (lit ''canCallPaidApi'', JBool False), (lit ''canReadSecrets'', JBool False),
      (lit ''canRunMcp'', JBool False), (lit ''canSendTelegram'', JBool False),
      (lit ''canStartAgents'', JBool False), (lit ''commandExecuted'', JBool False),
      (lit ''requiresHumanApproval'', JBool True)]"

fun makeSyncAgent :: "string \<times> string \<times> string \<times> string \<Rightarrow> nat \<Rightarrow> jsval" where
  "makeSyncAgent (agent, title, role, purpose) index =
     JObj ([(lit ''id'', JText agent), (lit ''title'', JText title), (lit ''role'', JText role),
       (lit ''ordinal'', JInt (int index + 1)), (lit ''purpose'', JText purpose),
       (lit ''status'', JText ''registered-unverified-runtime''), (lit ''syncMode'', JText ''dry-run''),
       (lit ''lastSeenAt'', JNull), (lit ''messageCount'', JInt 0), (lit ''pendingMessages'', JInt 0)]
       @ a2a_lock @
       [(lit ''nextExactStep'', JText (''Verify '' @ title @ '' runtime presence before marking its handshake live.''))])"

definition makeMessageTypeInfo :: "jstr \<Rightarrow> jsval" where
  "makeMessageTypeInfo messageType =
     JObj [(lit ''type'', JStr messageType), (lit ''supported'', JBool True),
       (lit ''routeToTelegram'', JBool (messageType \<in> set telegramMessageTypes)),
       (lit ''requiresApproval'', JBool (messageType \<in> set telegramMessageTypes))]"

definition makeTelegramNotificationLane :: "gateway_config \<Rightarrow> jsobj" where
  "makeTelegramNotificationLane config =
     [(lit ''id'', JText ''telegram-notification''), (lit ''title'', JText ''Telegram Notification Lane''),
      (lit ''provider'', JText ''Telegram Bot API''),
      (lit ''status'', JText (if gc_liveSendReady config then ''live-ready'' else ''dry-run'')),
      (lit ''mode'', JStr (gc_mode config)), (lit ''envReady'', JBool (gc_envReady config)),
      (lit ''gateState'', JStr (gv_state (gc_gate config))),
      (lit ''gateAuthority'', JStr (gv_authority (gc_gate config))),
      (lit ''gateAuthoritative'', JBool (gv_authoritative (gc_gate config))),
      (lit ''gateFresh'', JBool (gv_fresh (gc_gate config))),
      (lit ''gateReason'', opt_text (gv_reason (gc_gate config))),
      (lit ''ticketPrefixValid'', JBool (gv_ticketPrefixValid (gc_gate config))),
      (lit ''liveSendReady'', JBool (gc_liveSendReady config)),
      (lit ''canSend'', JBool (gc_liveSendReady config)),
      (lit ''allowedCommands'', JArr (map JStr (gc_allowedCommands config))),
      (lit ''blockedActions'', a2aSyncBlockedActions)]"

definition a2a_status_body :: "bot_runtime \<Rightarrow> gateway_config \<Rightarrow> jsobj" where
  "a2a_status_body rt config =
     (let liveReady = gc_liveSendReady config in
      [(lit ''title'', JText ''A2A Sync Coordinator''),
       (lit ''status'', JText (if liveReady then ''a2a-sync-live-ready'' else ''a2a-sync-dry-run'')),
       (lit ''mode'', JText (if liveReady then ''live-sync-ready'' else ''local-only-dry-run'')),
       (lit ''version'', JText A2A_SYNC_VERSION)]
      @ dict_set (lit ''canSendTelegram'') (JBool liveReady) a2a_lock @
      [(lit ''source'', JText ''local-dev-control-api''),
       (lit ''summary'', JObj
          [(lit ''syncAgents'', JInt (int (length syncAgentDefinitions))),
           (lit ''messageTypes'', JInt (int (length messageTypes))),
           (lit ''totalMessages'', JInt 0), (lit ''pendingMessages'', JInt 0),
           (lit ''verifiedRuntimeAgents'', JInt 0), (lit ''liveTelegramReady'', JBool liveReady),
           (lit ''liveExternalActions'', JInt 0), (lit ''blockedActions'', JInt 13)]),
       (lit ''syncAgents'', JArr (map2 makeSyncAgent syncAgentDefinitions [0..<length syncAgentDefinitions])),
       (lit ''messageTypes'', JArr (map makeMessageTypeInfo messageTypes)),
       (lit ''telegramLane'', JObj (makeTelegramNotificationLane config)),
       (lit ''blockedActions'', a2aSyncBlockedActions),
       (lit ''stopRules'', JTexts
          [''Do not mark static agent definitions as live handshakes.'',
           ''Route alerts and approval requests only with explicit dryRun=false and a fresh durable telegram_send gate.'',
           ''Do not start agents or MCP servers automatically from sync messages.'',
           ''Do not call paid APIs, read secrets, or send customer messages.'']),
       (lit ''nextRecommendedAction'', JText (if liveReady
          then ''Telegram lane is live-ready; each provider attempt will re-check the durable OPS-TG gate.''
          else ''Provision the Telegram env contract and open the durable sirinx-control telegram_send gate with an OPS-TG ticket.'')),
       (lit ''stopPoint'', JText (if liveReady
          then ''A2A SYNC READY - TELEGRAM LANE LIVE-READY - EXPLICIT SEND REQUEST REQUIRED''
          else ''A2A SYNC READY - LOCAL-ONLY DRY-RUN - WAITING FOR ENV + DURABLE GATE'')),
       (lit ''updatedAt'', JStr (to_iso (br_now rt)))])"

text \<open>The status, with the configuration its lane was made from.\<close>

definition getA2aSyncStatus :: "bot_runtime \<Rightarrow> gate_options \<Rightarrow> (gateway_config \<times> jsobj) netop" where
  "getA2aSyncStatus rt opts =
     io_bind (resolveTelegramGatewayReadiness rt opts) (\<lambda>config.
       io_return (config, a2a_status_body rt config))"

section \<open>Requests\<close>

text \<open>The message of an \<open>A2aSyncValidationError\<close> is its code.\<close>

definition invalid :: "string \<Rightarrow> 'a result" where
  "invalid code = Inl (JsError (lit code))"

fun item_texts :: "printer \<Rightarrow> jsval list \<Rightarrow> jstr list result" where
  "item_texts pr [] = Inr []"
| "item_texts pr (v # vs) =
     result_bind (string_result pr v) (\<lambda>s. result_bind (item_texts pr vs) (\<lambda>ss. Inr (trim s # ss)))"

definition normalizeTargets :: "printer \<Rightarrow> jsval \<Rightarrow> jstr list result" where
  "normalizeTargets pr v =
     result_bind
       (case v of
          JArr vs \<Rightarrow> result_bind (item_texts pr vs) (\<lambda>ss. Inr (filter (\<lambda>s. s \<noteq> []) ss))
        | _ \<Rightarrow> Inr A2A_SYNC_AGENT_IDS)
       (\<lambda>targets.
          if targets = [] then invalid ''a2a_target_agents_empty''
          else if \<not> distinct targets then invalid ''a2a_target_agents_duplicate''
          else if list_ex (\<lambda>t. t \<notin> set A2A_SYNC_AGENT_IDS) targets then invalid ''a2a_target_agent_unknown''
          else Inr targets)"

definition text_or :: "printer \<Rightarrow> jsval \<Rightarrow> string \<Rightarrow> jstr result" where
  "text_or pr v d = result_bind (string_result pr (js_or v (JText d))) (\<lambda>s. Inr (trim s))"

record a2a_request =
  aq_requestId :: jstr
  aq_goal :: jstr
  aq_sourceAgent :: jstr
  aq_targetAgents :: "jstr list"
  aq_messageType :: jstr
  aq_message :: jstr
  aq_dryRun :: bool

definition routed :: "jstr \<Rightarrow> bool" where
  "routed messageType \<longleftrightarrow> messageType \<in> set telegramMessageTypes"

definition default_message :: "jstr \<Rightarrow> jstr \<Rightarrow> jstr" where
  "default_message messageType sourceAgent =
     (if routed messageType then lit ''A2A '' @ messageType @ lit '' from '' @ sourceAgent else [])"

definition validate_request :: "jsval \<Rightarrow> a2a_request \<Rightarrow> a2a_request result" where
  "validate_request dryRunField q =
     (if (case dryRunField of JUndef \<Rightarrow> False | JBool _ \<Rightarrow> False | _ \<Rightarrow> True)
      then invalid ''a2a_dry_run_must_be_boolean''
      else if aq_requestId q = [] then invalid ''a2a_request_id_empty''
      else if aq_sourceAgent q \<notin> set A2A_SYNC_AGENT_IDS then invalid ''a2a_source_agent_unknown''
      else if aq_messageType q \<notin> set messageTypes then invalid ''a2a_message_type_unsupported''
      else if routed (aq_messageType q) \<and> aq_message q = [] then invalid ''a2a_message_empty''
      else if A2A_MAX_MESSAGE_LENGTH < length (aq_message q) then invalid ''a2a_message_too_long''
      else Inr q)"

definition a2a_body :: "jsval \<Rightarrow> jsobj option" where
  "a2a_body v = (case v of JUndef \<Rightarrow> Some [] | JObj fs \<Rightarrow> Some fs | JDate _ \<Rightarrow> Some [] | _ \<Rightarrow> None)"

definition parse_request :: "printer \<Rightarrow> jsval \<Rightarrow> a2a_request result" where
  "parse_request pr input =
     (case a2a_body input of
        None \<Rightarrow> invalid ''a2a_body_must_be_object''
      | Some body \<Rightarrow>
          result_bind (text_or pr (get body ''requestId'') ''a2a-sync-plan'') (\<lambda>requestId.
          result_bind (text_or pr (get body ''goal'') ''local-only agent sync'') (\<lambda>goal.
          result_bind (text_or pr (get body ''sourceAgent'') ''a2a-sync'') (\<lambda>sourceAgent.
          result_bind (normalizeTargets pr (get body ''targetAgents'')) (\<lambda>targets.
          result_bind (text_or pr (get body ''messageType'') ''notification'') (\<lambda>messageType.
          result_bind (string_result pr (js_nullish (get body ''message'')
              (JStr (default_message messageType sourceAgent)))) (\<lambda>message.
          validate_request (get body ''dryRun'')
            \<lparr>aq_requestId = slice0 128 requestId, aq_goal = goal, aq_sourceAgent = sourceAgent,
             aq_targetAgents = targets, aq_messageType = messageType, aq_message = trim message,
             aq_dryRun = (get body ''dryRun'' \<noteq> JBool False)\<rparr>)))))))"

section \<open>Notifications\<close>

text \<open>\<open>type.toUpperCase()\<close>: a message type is written in ASCII.\<close>

definition ascii_upper :: "jstr \<Rightarrow> jstr" where
  "ascii_upper s = map (\<lambda>c. if 0x61 \<le> c \<and> c \<le> 0x7A then c - 32 else c) s"

definition notification_text :: "jstr \<Rightarrow> jstr \<Rightarrow> jstr \<Rightarrow> jstr" where
  "notification_text type source text =
     lit ''['' @ ascii_upper type @ lit ''] from '' @ source @ lit '': '' @ text"

record notification =
  nt_ready :: bool
  nt_attempted :: bool
  nt_sent :: bool
  nt_providerCalled :: bool
  nt_outcome :: jstr
  nt_result :: "send_record option"
  nt_reason :: jstr

text \<open>What the sender is called with: the gate options but the allowed age of its evidence.\<close>

definition a2a_send_options :: "gate_options \<Rightarrow> send_options" where
  "a2a_send_options opts =
     \<lparr>so_parseMode = None, so_noPreview = True, so_dryRun = False, so_gate = opts\<lparr>go_maxAgeMs := None\<rparr>\<rparr>"

definition notification_reason :: "gateway_config \<Rightarrow> jstr \<Rightarrow> bool \<Rightarrow> send_record option \<Rightarrow> jstr" where
  "notification_reason config type dryRun result =
     (if \<not> routed type then lit ''message_type_not_routed_to_telegram''
      else if dryRun then lit ''telegram_dry_run_no_provider_call''
      else if \<not> gc_liveSendReady config
      then (case truthy_text (gv_reason (gc_gate config)) of
              None \<Rightarrow> lit ''telegram_live_send_not_ready'' | Some r \<Rightarrow> r)
      else case result of
        None \<Rightarrow> lit ''telegram_provider_rejected''
      | Some rec \<Rightarrow>
          if sr_sent rec then lit ''telegram_notification_sent''
          else (case truthy_text (sr_error rec) of
                  None \<Rightarrow> lit ''telegram_provider_rejected'' | Some e \<Rightarrow> e))"

definition notification_of :: "gateway_config \<Rightarrow> jstr \<Rightarrow> bool \<Rightarrow> send_record option \<Rightarrow> notification" where
  "notification_of config type dryRun result =
     (let sent = (case result of None \<Rightarrow> False | Some rec \<Rightarrow> sr_sent rec);
          called = (case result of None \<Rightarrow> False | Some rec \<Rightarrow> sr_providerCalled rec)
      in \<lparr>nt_ready = gc_liveSendReady config,
          nt_attempted = (routed type \<and> gc_liveSendReady config \<and> \<not> dryRun),
          nt_sent = sent, nt_providerCalled = called,
          nt_outcome = (if sent then lit ''confirmed'' else if called then lit ''unknown'' else lit ''none''),
          nt_result = result, nt_reason = notification_reason config type dryRun result\<rparr>)"

definition routeA2aNotification ::
  "bot_runtime \<Rightarrow> gate_options \<Rightarrow> bool \<Rightarrow> gateway_config option \<Rightarrow> jstr \<Rightarrow> jstr \<Rightarrow> jstr \<Rightarrow>
     (jstr + notification) netop" where
  "routeA2aNotification rt opts dryRun status sourceAgent messageType message =
     (let source = trim sourceAgent; type = trim messageType; text = trim message in
      if source \<notin> set A2A_SYNC_AGENT_IDS then io_return (Inl (lit ''a2a_source_agent_unknown''))
      else if type \<notin> set messageTypes then io_return (Inl (lit ''a2a_message_type_unsupported''))
      else if A2A_MAX_MESSAGE_LENGTH < length text then io_return (Inl (lit ''a2a_message_too_long''))
      else io_bind (case status of
              Some config \<Rightarrow> io_return config
            | None \<Rightarrow> io_bind (getA2aSyncStatus rt opts) (\<lambda>s. io_return (fst s))) (\<lambda>config.
        if routed type \<and> gc_liveSendReady config \<and> \<not> dryRun
        then io_bind (sendTelegramMessage rt (env_or_empty (br_env rt) ''TELEGRAM_CHAT_ID'')
               (notification_text type source text) (a2a_send_options opts)) (\<lambda>rec.
               io_return (Inr (notification_of config type dryRun (Some rec))))
        else io_return (Inr (notification_of config type dryRun None))))"

section \<open>Plans\<close>

record sync_plan =
  pl_messageId :: jstr
  pl_sourceAgent :: jstr
  pl_targetAgents :: "jstr list"
  pl_plannedTargets :: "jstr list"
  pl_messageType :: jstr
  pl_message :: jstr
  pl_timestamp :: jstr
  pl_deliveredTo :: "jstr list"
  pl_failedTo :: "jstr list"
  pl_telegramRouted :: bool
  pl_telegramSent :: bool
  pl_providerCalled :: bool
  pl_outcome :: jstr
  pl_telegramResult :: "send_record option"

text \<open>\<open>random\<close> is the text of the random number in the identifier of the message.\<close>

definition makeSyncPlan :: "bot_runtime \<Rightarrow> jstr \<Rightarrow> a2a_request \<Rightarrow> sync_plan" where
  "makeSyncPlan rt random q =
     \<lparr>pl_messageId = lit ''a2a-'' @ text_of (net_printer rt) (JInt (br_now rt)) @ lit ''-'' @ take 6 (drop 2 random),
      pl_sourceAgent = aq_sourceAgent q, pl_targetAgents = aq_targetAgents q,
      pl_plannedTargets = aq_targetAgents q, pl_messageType = aq_messageType q,
      pl_message = aq_message q, pl_timestamp = to_iso (br_now rt), pl_deliveredTo = [],
      pl_failedTo = [], pl_telegramRouted = False, pl_telegramSent = False,
      pl_providerCalled = False, pl_outcome = lit ''none'', pl_telegramResult = None\<rparr>"

definition with_notification :: "notification \<Rightarrow> sync_plan \<Rightarrow> sync_plan" where
  "with_notification n plan =
     plan\<lparr>pl_telegramRouted := True, pl_telegramSent := nt_sent n,
       pl_providerCalled := nt_providerCalled n, pl_outcome := nt_outcome n,
       pl_telegramResult := nt_result n,
       pl_deliveredTo := (if nt_sent n then [lit ''telegram-bot''] else []),
       pl_failedTo := (if nt_attempted n \<and> \<not> nt_sent n then [lit ''telegram-bot''] else [])\<rparr>"

text \<open>The answer: its fields but the plan, and the plan.\<close>

record a2a_answer =
  aa_body :: jsobj
  aa_plan :: "sync_plan option"

definition blocked_plan :: "bot_runtime \<Rightarrow> a2a_request \<Rightarrow> a2a_answer" where
  "blocked_plan rt q =
     \<lparr>aa_body =
        [(lit ''title'', JText ''A2A Sync Plan''), (lit ''status'', JText ''blocked-a2a-sync-plan''),
         (lit ''mode'', JText ''local-only-dry-run''), (lit ''requestId'', JStr (aq_requestId q)),
         (lit ''goal'', JStr (aq_goal q))] @ a2a_lock @
        [(lit ''blockedReasons'', JArr (map JStr (findBlockedReasons (aq_goal q)))),
         (lit ''blockedActions'', a2aSyncBlockedActions),
         (lit ''nextRecommendedAction'', JText ''Remove blocked actions and request local-only planning.''),
         (lit ''stopPoint'', JText ''A2A SYNC PLAN BLOCKED - NO ACTION TAKEN''),
         (lit ''updatedAt'', JStr (to_iso (br_now rt)))],
      aa_plan = None\<rparr>"

definition plan_answer :: "bot_runtime \<Rightarrow> a2a_request \<Rightarrow> gateway_config \<Rightarrow> notification option \<Rightarrow> sync_plan \<Rightarrow> a2a_answer" where
  "plan_answer rt q config n plan =
     (let attempted = (case n of None \<Rightarrow> False | Some x \<Rightarrow> nt_attempted x);
          sent = pl_telegramSent plan; liveReady = gc_liveSendReady config
      in \<lparr>aa_body =
        [(lit ''title'', JText ''A2A Sync Plan''),
         (lit ''status'', JText (if sent then ''a2a-sync-plan-telegram-sent''
            else if attempted then ''a2a-sync-plan-telegram-failed'' else ''a2a-sync-plan-ready'')),
         (lit ''mode'', JText (if sent then ''live-sync'' else ''local-only-dry-run'')),
         (lit ''requestId'', JStr (aq_requestId q)), (lit ''goal'', JStr (aq_goal q)),
         (lit ''sourceAgent'', JStr (aq_sourceAgent q)),
         (lit ''targetAgents'', JArr (map JStr (aq_targetAgents q))),
         (lit ''messageType'', JStr (aq_messageType q))] @
        dict_spread a2a_lock
          [(lit ''externalWrites'', JBool sent), (lit ''customerVisible'', JBool sent),
           (lit ''canExecuteExternally'', JBool liveReady), (lit ''canSendTelegram'', JBool liveReady)] @
        [(lit ''providerCalled'', JBool (pl_providerCalled plan)),
         (lit ''externalWriteOutcome'', JStr (pl_outcome plan)),
         (lit ''blockedReasons'', JArr []), (lit ''blockedActions'', a2aSyncBlockedActions),
         (lit ''telegramNotification'', JObj
            [(lit ''routed'', JBool (routed (aq_messageType q))), (lit ''liveReady'', JBool liveReady),
             (lit ''attempted'', JBool attempted), (lit ''dryRun'', JBool (aq_dryRun q)),
             (lit ''sent'', JBool sent),
             (lit ''reason'', JStr (case n of None \<Rightarrow> lit ''message_type_not_routed_to_telegram''
                | Some x \<Rightarrow> or_text (nt_reason x) (lit ''message_type_not_routed_to_telegram'')))]),
         (lit ''manualSteps'', JTexts
            [''Review the sync plan and target agents.'',
             ''Use explicit dryRun=false only for the approved alert or approval_request.'',
             ''Open the durable telegram_send gate through sirinx-control with an OPS-TG ticket.'',
             ''Retain the returned provider receipt; never infer delivery from readiness.'']),
         (lit ''nextRecommendedAction'', JText (if sent
            then ''Record the Telegram delivery receipt against the OPS-TG ticket.''
            else if liveReady then ''Submit dryRun=false for an approved routed message.''
            else ''Complete env and durable gate admission before live notification routing.'')),
         (lit ''stopPoint'', JText (if sent
            then ''A2A SYNC PLAN COMPLETE - TELEGRAM DELIVERY REPORTED''
            else ''A2A SYNC PLAN READY - NO TELEGRAM DELIVERY'')),
         (lit ''updatedAt'', JStr (to_iso (br_now rt)))],
        aa_plan = Some plan\<rparr>)"

text \<open>
  A validated request meets none of the refusals of \<open>routeA2aNotification\<close> (\<open>route_accepts\<close>
  below), so the branch for one is never taken.
\<close>

definition createA2aSyncPlan ::
  "bot_runtime \<Rightarrow> gate_options \<Rightarrow> jstr \<Rightarrow> jsval \<Rightarrow> a2a_answer netop" where
  "createA2aSyncPlan rt opts random input =
     io_bind (io_result (parse_request (net_printer rt) input)) (\<lambda>q.
       if findBlockedReasons (aq_goal q) \<noteq> [] then io_return (blocked_plan rt q)
       else io_bind (getA2aSyncStatus rt opts) (\<lambda>status.
         let config = fst status; plan = makeSyncPlan rt random q in
         if \<not> routed (aq_messageType q) then io_return (plan_answer rt q config None plan)
         else io_bind (routeA2aNotification rt opts (aq_dryRun q) (Some config)
                (aq_sourceAgent q) (aq_messageType q) (aq_message q)) (\<lambda>res.
                case res of
                  Inl code \<Rightarrow> io_throw (JsError code)
                | Inr n \<Rightarrow> io_return (plan_answer rt q config (Some n) (with_notification n plan)))))"


section \<open>Validated requests\<close>

lemma text_or_Inr: "text_or pr v d = Inr s \<Longrightarrow> trim s = s"
  by (auto simp: text_or_def result_bind_Inr_iff trim_idem)

lemma validate_request_Inr:
  "validate_request d q = Inr q' \<longleftrightarrow>
     q' = q \<and> (case d of JUndef \<Rightarrow> True | JBool _ \<Rightarrow> True | _ \<Rightarrow> False) \<and> aq_requestId q \<noteq> [] \<and>
     aq_sourceAgent q \<in> set A2A_SYNC_AGENT_IDS \<and> aq_messageType q \<in> set messageTypes \<and>
     \<not> (routed (aq_messageType q) \<and> aq_message q = []) \<and> length (aq_message q) \<le> A2A_MAX_MESSAGE_LENGTH"
  by (auto simp: validate_request_def invalid_def split: jsval.splits)

lemma parse_request_Inr:
  assumes "parse_request pr input = Inr q"
  shows "aq_sourceAgent q \<in> set A2A_SYNC_AGENT_IDS" "aq_messageType q \<in> set messageTypes"
    "routed (aq_messageType q) \<Longrightarrow> aq_message q \<noteq> []" "length (aq_message q) \<le> A2A_MAX_MESSAGE_LENGTH"
    "trim (aq_sourceAgent q) = aq_sourceAgent q" "trim (aq_messageType q) = aq_messageType q"
    "trim (aq_message q) = aq_message q"
    "\<exists>body. a2a_body input = Some body \<and> (aq_dryRun q \<longleftrightarrow> get body ''dryRun'' \<noteq> JBool False)"
  using assms
  by (auto simp: parse_request_def result_bind_Inr_iff validate_request_Inr invalid_def trim_idem text_or_Inr
      split: option.splits)

lemma route_accepts:
  assumes "parse_request pr input = Inr q"
  shows "routeA2aNotification rt opts (aq_dryRun q) (Some config) (aq_sourceAgent q) (aq_messageType q) (aq_message q) =
    (if routed (aq_messageType q) \<and> gc_liveSendReady config \<and> \<not> aq_dryRun q
     then io_bind (sendTelegramMessage rt (env_or_empty (br_env rt) ''TELEGRAM_CHAT_ID'')
            (notification_text (aq_messageType q) (aq_sourceAgent q) (aq_message q)) (a2a_send_options opts)) (\<lambda>rec.
            io_return (Inr (notification_of config (aq_messageType q) (aq_dryRun q) (Some rec))))
     else io_return (Inr (notification_of config (aq_messageType q) (aq_dryRun q) None)))"
  using parse_request_Inr [OF assms]
  by (simp add: routeA2aNotification_def Let_def io_bind_return not_less [symmetric])

text \<open>The texts that go out fit the limit of the sender.\<close>

definition longest :: nat where
  "longest = 16"

lemma agent_id_length: "s \<in> set A2A_SYNC_AGENT_IDS \<Longrightarrow> length s \<le> longest"
proof -
  have "list_all (\<lambda>s. length s \<le> longest) A2A_SYNC_AGENT_IDS"
    by (simp add: A2A_SYNC_AGENT_IDS_def syncAgentDefinitions_def longest_def)
  then show "s \<in> set A2A_SYNC_AGENT_IDS \<Longrightarrow> length s \<le> longest" by (simp add: list_all_iff)
qed

lemma message_type_length: "t \<in> set messageTypes \<Longrightarrow> length t \<le> longest"
proof -
  have "list_all (\<lambda>t. length t \<le> longest) messageTypes"
    by (simp add: messageTypes_def longest_def)
  then show "t \<in> set messageTypes \<Longrightarrow> length t \<le> longest" by (simp add: list_all_iff)
qed

lemma notification_text_fits:
  assumes "parse_request pr input = Inr q"
  shows "length (notification_text (aq_messageType q) (aq_sourceAgent q) (aq_message q)) \<le> TELEGRAM_MAX_TEXT_LENGTH"
    "trim (notification_text (aq_messageType q) (aq_sourceAgent q) (aq_message q)) \<noteq> []"
proof -
  note p = parse_request_Inr [OF assms]
  show "length (notification_text (aq_messageType q) (aq_sourceAgent q) (aq_message q)) \<le> TELEGRAM_MAX_TEXT_LENGTH"
    using p(4) agent_id_length [OF p(1)] message_type_length [OF p(2)]
    by (simp add: notification_text_def ascii_upper_def A2A_MAX_MESSAGE_LENGTH_def
        TELEGRAM_MAX_TEXT_LENGTH_def longest_def)
  show "trim (notification_text (aq_messageType q) (aq_sourceAgent q) (aq_message q)) \<noteq> []"
    by (simp add: notification_text_def trim_eq_Nil_iff lit_def is_space_def)
qed

section \<open>What a plan does\<close>

lemma control_request_age [simp]: "control_request rt (opts\<lparr>go_maxAgeMs := m\<rparr>) = control_request rt opts"
  by (simp add: control_request_def control_base_url_def)

lemma status_steps:
  assumes "readTelegramSendGate rt opts sent = (Inr e, sent1)"
  shows "getA2aSyncStatus rt opts sent =
    (let config = resolveTelegramGatewayConfig (br_env rt) (Some e) in
     (Inr (config, a2a_status_body rt config), sent1))"
  by (simp add: getA2aSyncStatus_def resolveTelegramGatewayReadiness_def io_bind_def assms io_return_def Let_def)

lemma plan_steps:
  fixes random :: jstr
  assumes q: "parse_request (net_printer rt) input = Inr q"
    and gate: "readTelegramSendGate rt opts sent = (Inr e, sent1)"
  defines "config \<equiv> resolveTelegramGatewayConfig (br_env rt) (Some e)"
    and "plan \<equiv> makeSyncPlan rt random q"
    and "text \<equiv> notification_text (aq_messageType q) (aq_sourceAgent q) (aq_message q)"
  shows "createA2aSyncPlan rt opts random input sent =
    (if findBlockedReasons (aq_goal q) \<noteq> [] then (Inr (blocked_plan rt q), sent)
     else if \<not> routed (aq_messageType q) then (Inr (plan_answer rt q config None plan), sent1)
     else if gc_liveSendReady config \<and> \<not> aq_dryRun q
     then (case sendTelegramMessage rt (env_or_empty (br_env rt) ''TELEGRAM_CHAT_ID'') text (a2a_send_options opts) sent1 of
             (Inl e, sent2) \<Rightarrow> (Inl e, sent2)
           | (Inr rec, sent2) \<Rightarrow>
               let n = notification_of config (aq_messageType q) (aq_dryRun q) (Some rec)
               in (Inr (plan_answer rt q config (Some n) (with_notification n plan)), sent2))
     else let n = notification_of config (aq_messageType q) (aq_dryRun q) None
          in (Inr (plan_answer rt q config (Some n) (with_notification n plan)), sent1))"
  unfolding createA2aSyncPlan_def
  by (simp add: q status_steps [OF gate] route_accepts [OF q] io_bind_def io_result_def io_return_def
      config_def plan_def text_def Let_def split: prod.splits sum.splits)

text \<open>The sender, called for a validated request while the lane is live.\<close>

lemma live_send:
  assumes q: "parse_request pr input = Inr q" and m: "gateway_missing (br_env rt) = []"
    and gate: "readTelegramSendGate rt (opts\<lparr>go_maxAgeMs := None\<rparr>) sent1 = (Inr e2, sent2)"
  defines "text \<equiv> notification_text (aq_messageType q) (aq_sourceAgent q) (aq_message q)"
  shows "\<exists>rec. sendTelegramMessage rt (env_or_empty (br_env rt) ''TELEGRAM_CHAT_ID'') text (a2a_send_options opts) sent1 =
      (Inr rec, if sr_providerCalled rec then sent2 @ [telegram_request rt text (a2a_send_options opts)] else sent2) \<and>
    (sr_providerCalled rec \<longleftrightarrow> ge_open e2 \<and> ge_authoritative e2 \<and> ge_fresh e2) \<and>
    (sr_sent rec \<longleftrightarrow> sr_providerCalled rec \<and>
      (\<exists>response b. n_fetch (br_net rt) sent2 (telegram_request rt text (a2a_send_options opts)) = Inr response \<and>
         rs_ok response \<and> rs_json response = Inr b \<and> opt_prop b ''ok'' = JBool True))"
proof -
  let ?opts = "a2a_send_options opts" and ?chat = "env_or_empty (br_env rt) ''TELEGRAM_CHAT_ID''"
  have env: "env_text (br_env rt) ''TELEGRAM_CHAT_ID'' \<noteq> []" "env_text (br_env rt) ''TELEGRAM_BOT_TOKEN'' \<noteq> []"
    using m by (auto simp: gateway_missing_def pushed_def split: if_splits)
  have "requested_chat rt ?chat = env_text (br_env rt) ''TELEGRAM_CHAT_ID''"
    by (simp add: requested_chat_def or_text_def env_text_def trim_idem)
  then have "send_refusal rt (requested_chat rt ?chat) text False = None"
    using env notification_text_fits [OF q] by (simp add: send_refusal_None_iff text_def)
  moreover have "so_gate ?opts = opts\<lparr>go_maxAgeMs := None\<rparr>" "\<not> so_dryRun ?opts"
    by (simp_all add: a2a_send_options_def)
  ultimately have run: "sendTelegramMessage rt ?chat text ?opts sent1 =
      (let view = readinessView (resolveTelegramGatewayConfig (br_env rt) (Some e2));
           ready = audit_record rt (requested_chat rt ?chat) text ?opts\<lparr>sr_readiness := view\<rparr>
       in if \<not> rv_ready view
          then (Inr (ready\<lparr>sr_error := Some (case gv_reason (rv_gate view) of
                    None \<Rightarrow> lit ''telegram_live_send_not_ready'' | Some r \<Rightarrow> r)\<rparr>), sent2)
          else (Inr (case n_fetch (br_net rt) sent2 (telegram_request rt text ?opts) of
                    Inl err \<Rightarrow> after_error rt ready err
                  | Inr response \<Rightarrow> after_response rt ready response),
                sent2 @ [telegram_request rt text ?opts]))"
    using gate send_steps [of rt ?opts sent1 e2 sent2 ?chat "text"] by simp
  have ready: "rv_ready (readinessView (resolveTelegramGatewayConfig (br_env rt) (Some e2))) \<longleftrightarrow>
      ge_open e2 \<and> ge_authoritative e2 \<and> ge_fresh e2"
    using m by (simp add: readinessView_def live_ready)
  show ?thesis
  proof (cases "rv_ready (readinessView (resolveTelegramGatewayConfig (br_env rt) (Some e2)))")
    case False
    with run ready show ?thesis by (simp add: Let_def)
  next
    case True
    show ?thesis
    proof (cases "n_fetch (br_net rt) sent2 (telegram_request rt text ?opts)")
      case (Inl err)
      with run True ready show ?thesis by (simp add: Let_def) (simp add: after_error_def)
    next
      case (Inr response)
      with run True ready show ?thesis
        by (simp add: Let_def) (auto simp: after_response_def Let_def split: sum.splits)
    qed
  qed
qed


definition sample_alert :: jsval where
  "sample_alert = JObj
     [(lit ''goal'', JText ''ok''), (lit ''messageType'', JText ''alert''), (lit ''message'', JText ''hi''),
      (lit ''dryRun'', JBool False)]"

definition sample_parsed :: a2a_request where
  "sample_parsed =
     \<lparr>aq_requestId = lit ''a2a-sync-plan'', aq_goal = lit ''ok'', aq_sourceAgent = lit ''a2a-sync'',
      aq_targetAgents = A2A_SYNC_AGENT_IDS, aq_messageType = lit ''alert'', aq_message = lit ''hi'',
      aq_dryRun = False\<rparr>"

lemma sample_goal_clean: "findBlockedReasons (lit ''ok'') = []"
  by (simp add: findBlockedReasons_def dangerousGoalRules_def rx_test_def any_of_def optional_def lit_def
      same_unit_def other_case_def head_word_def is_word_def)

lemma distinct_agent_ids: "distinct A2A_SYNC_AGENT_IDS"
  by (simp add: A2A_SYNC_AGENT_IDS_def syncAgentDefinitions_def)

lemma sample_parses: "parse_request pr sample_alert = Inr sample_parsed"
proof -
  have t: "trim (lit ''a2a-sync-plan'') = lit ''a2a-sync-plan''" "trim (lit ''ok'') = lit ''ok''"
    "trim (lit ''a2a-sync'') = lit ''a2a-sync''" "trim (lit ''alert'') = lit ''alert''"
    "trim (lit ''hi'') = lit ''hi''"
    by (simp_all add: lit_def trim_def trim_start_def trim_end_def is_space_def)
  have targets: "normalizeTargets pr JUndef = Inr A2A_SYNC_AGENT_IDS"
    using distinct_agent_ids
    by (simp add: normalizeTargets_def list_ex_iff) (simp add: A2A_SYNC_AGENT_IDS_def syncAgentDefinitions_def)
  have s: "text_or pr (JStr u) d = Inr (trim u)" if "u \<noteq> []" for u d
    using that by (simp add: text_or_def js_or_def string_result_def)
  have d: "text_or pr JUndef d = Inr (trim (lit d))" for d
    by (simp add: text_or_def js_or_def JText_def string_result_def)
  have "lit ''a2a-sync'' \<in> set A2A_SYNC_AGENT_IDS" by (simp add: A2A_SYNC_AGENT_IDS_def syncAgentDefinitions_def)
  moreover have "lit ''alert'' \<in> set messageTypes" "slice0 128 (lit ''a2a-sync-plan'') = lit ''a2a-sync-plan''"
    by (simp_all add: messageTypes_def lit_def slice0_def)
  ultimately show ?thesis
    by (simp add: parse_request_def a2a_body_def sample_alert_def sample_parsed_def JText_def s d t targets
        js_nullish_def string_result_def validate_request_def A2A_MAX_MESSAGE_LENGTH_def)
qed

text \<open>
  The flags of the two kinds of answer. Four of the lock are set anew by the answer to a plan,
  the two of the delivery and the two of the readiness; these are the others that say no.
\<close>

definition never_raised :: "string list" where
  "never_raised =
     [''productionWrites'', ''canCallPaidApi'', ''canReadSecrets'', ''canRunMcp'', ''canStartAgents'',
      ''commandExecuted'']"

lemma getp_skip: "k \<notin> set (map fst xs) \<Longrightarrow> getp (xs @ ys) k = getp ys k"
  by (induction xs) auto

lemma getp_take: "k \<in> set (map fst xs) \<Longrightarrow> getp (xs @ ys) k = getp xs k"
  by (auto simp: getp_def dict_get_def map_add_def split: option.splits)
     (metis map_of_eq_None_iff imageI option.distinct(1) fst_conv)

definition flag_names :: "string list" where
  "flag_names = [''externalWrites'', ''customerVisible'', ''canExecuteExternally'', ''canSendTelegram'',
     ''requiresHumanApproval''] @ never_raised"

lemma lock_flags:
  "getp a2a_lock (lit ''externalWrites'') = JBool False"
  "getp a2a_lock (lit ''customerVisible'') = JBool False"
  "getp a2a_lock (lit ''canExecuteExternally'') = JBool False"
  "getp a2a_lock (lit ''canSendTelegram'') = JBool False"
  "getp a2a_lock (lit ''requiresHumanApproval'') = JBool True"
  "\<forall>k \<in> set never_raised. getp a2a_lock (lit k) = JBool False"
  by (simp_all add: a2a_lock_def never_raised_def)

lemma flags_are_lock_keys: "\<forall>k \<in> set flag_names. lit k \<in> set (map fst a2a_lock)"
  by (simp add: flag_names_def never_raised_def a2a_lock_def)

lemma blocked_get: "\<forall>k \<in> set flag_names. get (aa_body (blocked_plan rt q)) k = getp a2a_lock (lit k)"
proof
  fix k assume k: "k \<in> set flag_names"
  have "\<forall>k \<in> set flag_names. lit k \<notin> set (map fst
      [(lit ''title'', a), (lit ''status'', b), (lit ''mode'', c), (lit ''requestId'', d), (lit ''goal'', e)])"
    for a b c d e :: jsval
    by (simp add: flag_names_def never_raised_def)
  from this [rule_format, OF k] flags_are_lock_keys [rule_format, OF k]
  show "get (aa_body (blocked_plan rt q)) k = getp a2a_lock (lit k)"
    unfolding get_def blocked_plan_def a2a_answer.simps append_assoc by (rule trans [OF getp_skip getp_take])
qed

definition raised_lock :: "bool \<Rightarrow> bool \<Rightarrow> jsobj" where
  "raised_lock sent ready = dict_spread a2a_lock
     [(lit ''externalWrites'', JBool sent), (lit ''customerVisible'', JBool sent),
      (lit ''canExecuteExternally'', JBool ready), (lit ''canSendTelegram'', JBool ready)]"

lemma raised_flags:
  "getp (raised_lock sent ready) (lit ''externalWrites'') = JBool sent"
  "getp (raised_lock sent ready) (lit ''customerVisible'') = JBool sent"
  "getp (raised_lock sent ready) (lit ''canExecuteExternally'') = JBool ready"
  "getp (raised_lock sent ready) (lit ''canSendTelegram'') = JBool ready"
  "getp (raised_lock sent ready) (lit ''requiresHumanApproval'') = JBool True"
  "\<forall>k \<in> set never_raised. getp (raised_lock sent ready) (lit k) = JBool False"
  by (simp_all add: raised_lock_def dict_spread_Cons getp_set lock_flags)
     (simp_all add: never_raised_def a2a_lock_def)

lemma flags_are_raised_keys: "\<forall>k \<in> set flag_names. lit k \<in> set (map fst (raised_lock sent ready))"
  by (simp add: flag_names_def never_raised_def raised_lock_def a2a_lock_def dict_spread_Cons)

lemma answer_get: "\<forall>k \<in> set flag_names. get (aa_body (plan_answer rt q config n plan)) k =
  getp (raised_lock (pl_telegramSent plan) (gc_liveSendReady config)) (lit k)"
proof
  fix k assume k: "k \<in> set flag_names"
  have "\<forall>k \<in> set flag_names. lit k \<notin> set (map fst
      [(lit ''title'', a), (lit ''status'', b), (lit ''mode'', c), (lit ''requestId'', d), (lit ''goal'', e),
       (lit ''sourceAgent'', f), (lit ''targetAgents'', g), (lit ''messageType'', h)])"
    for a b c d e f g h :: jsval
    by (simp add: flag_names_def never_raised_def)
  from this [rule_format, OF k] flags_are_raised_keys [rule_format, OF k]
  show "get (aa_body (plan_answer rt q config n plan)) k =
      getp (raised_lock (pl_telegramSent plan) (gc_liveSendReady config)) (lit k)"
    unfolding get_def plan_answer_def Let_def a2a_answer.simps raised_lock_def [symmetric] append_assoc
    by (rule trans [OF getp_skip getp_take])
qed

lemma flag_names_simps:
  "''externalWrites'' \<in> set flag_names" "''customerVisible'' \<in> set flag_names"
  "''canExecuteExternally'' \<in> set flag_names" "''canSendTelegram'' \<in> set flag_names"
  "''requiresHumanApproval'' \<in> set flag_names" "k \<in> set never_raised \<Longrightarrow> k \<in> set flag_names"
  by (simp_all add: flag_names_def)

lemma blocked_flags:
  "get (aa_body (blocked_plan rt q)) ''externalWrites'' = JBool False"
  "get (aa_body (blocked_plan rt q)) ''customerVisible'' = JBool False"
  "get (aa_body (blocked_plan rt q)) ''canExecuteExternally'' = JBool False"
  "get (aa_body (blocked_plan rt q)) ''canSendTelegram'' = JBool False"
  "\<forall>k \<in> set never_raised. get (aa_body (blocked_plan rt q)) k = JBool False"
  "get (aa_body (blocked_plan rt q)) ''requiresHumanApproval'' = JBool True"
  using lock_flags flag_names_simps blocked_get [of rt q] by simp_all

lemma answer_flags:
  "get (aa_body (plan_answer rt q config n plan)) ''externalWrites'' = JBool (pl_telegramSent plan)"
  "get (aa_body (plan_answer rt q config n plan)) ''customerVisible'' = JBool (pl_telegramSent plan)"
  "get (aa_body (plan_answer rt q config n plan)) ''canExecuteExternally'' = JBool (gc_liveSendReady config)"
  "get (aa_body (plan_answer rt q config n plan)) ''canSendTelegram'' = JBool (gc_liveSendReady config)"
  "\<forall>k \<in> set never_raised. get (aa_body (plan_answer rt q config n plan)) k = JBool False"
  "get (aa_body (plan_answer rt q config n plan)) ''requiresHumanApproval'' = JBool True"
  using raised_flags flag_names_simps answer_get [of rt q config n plan] by simp_all

lemma plans_not_sent:
  "\<not> pl_telegramSent (makeSyncPlan rt random q)"
  "\<not> pl_telegramSent (with_notification (notification_of config type dryRun None) plan)"
  by (simp_all add: makeSyncPlan_def with_notification_def notification_of_def Let_def)

lemma plan_sent:
  fixes config type dryRun rec plan
  defines "p \<equiv> with_notification (notification_of config type dryRun (Some rec)) plan"
  shows "pl_telegramSent p = sr_sent rec"
    "sr_sent rec \<Longrightarrow> pl_outcome p = lit ''confirmed''"
    "sr_sent rec \<Longrightarrow> pl_deliveredTo p = [lit ''telegram-bot'']"
  by (simp_all add: p_def with_notification_def notification_of_def Let_def)

text \<open>The runs that call the sender, and the others.\<close>

definition live_run :: "bot_runtime \<Rightarrow> gateway_config \<Rightarrow> a2a_request \<Rightarrow> bool" where
  "live_run rt config q \<longleftrightarrow> findBlockedReasons (aq_goal q) = [] \<and> routed (aq_messageType q) \<and>
     gc_liveSendReady config \<and> \<not> aq_dryRun q"

lemma plan_not_live:
  assumes "parse_request (net_printer rt) input = Inr q" "readTelegramSendGate rt opts sent = (Inr e, sent1)"
    and "\<not> live_run rt (resolveTelegramGatewayConfig (br_env rt) (Some e)) q"
  shows "\<exists>a. createA2aSyncPlan rt opts random input sent =
      (Inr a, if findBlockedReasons (aq_goal q) \<noteq> [] then sent else sent1) \<and>
    (if findBlockedReasons (aq_goal q) \<noteq> [] then a = blocked_plan rt q
     else \<exists>n plan. a = plan_answer rt q (resolveTelegramGatewayConfig (br_env rt) (Some e)) n plan \<and>
       \<not> pl_telegramSent plan)"
  using assms(3) plans_not_sent unfolding plan_steps [OF assms(1,2)] live_run_def
  by (cases "findBlockedReasons (aq_goal q) = []"; cases "routed (aq_messageType q)"; simp add: Let_def) blast+

lemma plan_live:
  fixes random :: jstr
  assumes "parse_request (net_printer rt) input = Inr q" "readTelegramSendGate rt opts sent = (Inr e, sent1)"
  defines "config \<equiv> resolveTelegramGatewayConfig (br_env rt) (Some e)"
  assumes "live_run rt config q"
    and "sendTelegramMessage rt (env_or_empty (br_env rt) ''TELEGRAM_CHAT_ID'')
       (notification_text (aq_messageType q) (aq_sourceAgent q) (aq_message q)) (a2a_send_options opts) sent1 =
       (Inr rec, sent2)"
  shows "createA2aSyncPlan rt opts random input sent =
    (let n = notification_of config (aq_messageType q) (aq_dryRun q) (Some rec)
     in (Inr (plan_answer rt q config (Some n) (with_notification n (makeSyncPlan rt random q))), sent2))"
  using assms(4,5) unfolding plan_steps [OF assms(1,2)] live_run_def config_def by (simp add: Let_def)

text \<open>The sample request, on a machine whose control service answers with an open gate.\<close>

lemma sample_plan_sent:
  "\<exists>a provider. createA2aSyncPlan (sample_bot bot_env open_answer) no_options [] sample_alert [] =
       (Inr a, [control_request (sample_bot bot_env open_answer) no_options,
                control_request (sample_bot bot_env open_answer) no_options, provider]) \<and>
     get (aa_body a) ''externalWrites'' = JBool True"
proof -
  let ?rt = "sample_bot bot_env open_answer"
  let ?g = "control_request ?rt no_options"
  have no: "no_options\<lparr>go_maxAgeMs := None\<rparr> = no_options" by (simp add: no_options_def)
  obtain e where gate: "\<And>s. readTelegramSendGate ?rt no_options s = (Inr e, s @ [?g])"
    and e: "ge_open e" "ge_authoritative e" "ge_fresh e"
    using sample_gate_any by blast
  have m: "gateway_missing (br_env ?rt) = []" using sample_send_ready(2) by (simp add: sample_bot_def)
  have live: "live_run ?rt (resolveTelegramGatewayConfig (br_env ?rt) (Some e)) sample_parsed"
    using e m by (simp add: live_run_def live_ready sample_parsed_def sample_goal_clean routed_def
        telegramMessageTypes_def)
  have f: "n_fetch (br_net ?rt) s req = Inr (answer_with open_answer [])" for s req
    by (simp add: sample_bot_def fixed_net_def)
  have ok: "rs_ok (answer_with open_answer [])" "rs_json (answer_with open_answer []) = Inr (JObj open_answer)"
    "opt_prop (JObj open_answer) ''ok'' = JBool True"
    by (simp_all add: answer_with_def open_answer_def)
  obtain rec sent2 where s: "sendTelegramMessage ?rt (env_or_empty (br_env ?rt) ''TELEGRAM_CHAT_ID'')
      (notification_text (aq_messageType sample_parsed) (aq_sourceAgent sample_parsed) (aq_message sample_parsed))
      (a2a_send_options no_options) [?g] = (Inr rec, [?g, ?g, sent2])" "sr_sent rec"
    using live_send [OF sample_parses [of "net_printer ?rt"] m, of no_options "[?g]" e "[?g, ?g]"] gate [of "[?g]"] e f ok
    by (auto simp: no)
  have g0: "readTelegramSendGate ?rt no_options [] = (Inr e, [?g])" using gate [of "[]"] by simp
  show ?thesis
    using plan_live [OF sample_parses g0 live s(1), of "[]"] s(2) by (simp add: Let_def answer_flags plan_sent)
qed

text \<open>A live run: the sender reads the gate once more and sends, and the plan keeps its record.\<close>

definition live_outcome where
  "live_outcome rt opts random input sent sent1 config q e2 sent2 rec \<longleftrightarrow>
     (let t = telegram_request rt (notification_text (aq_messageType q) (aq_sourceAgent q) (aq_message q))
                (a2a_send_options opts);
          n = notification_of config (aq_messageType q) (aq_dryRun q) (Some rec) in
      readTelegramSendGate rt (opts\<lparr>go_maxAgeMs := None\<rparr>) sent1 = (Inr e2, sent2) \<and>
      createA2aSyncPlan rt opts random input sent =
        (Inr (plan_answer rt q config (Some n) (with_notification n (makeSyncPlan rt random q))),
         if sr_providerCalled rec then sent2 @ [t] else sent2) \<and>
      (sr_providerCalled rec \<longleftrightarrow> ge_open e2 \<and> ge_authoritative e2 \<and> ge_fresh e2) \<and>
      (sr_sent rec \<longleftrightarrow> sr_providerCalled rec \<and> (\<exists>response b. n_fetch (br_net rt) sent2 t = Inr response \<and>
         rs_ok response \<and> rs_json response = Inr b \<and> opt_prop b ''ok'' = JBool True)))"

lemma live_run_sends:
  fixes random :: jstr
  assumes q: "parse_request (net_printer rt) input = Inr q" and g1: "readTelegramSendGate rt opts sent = (Inr e, sent1)"
  defines "config \<equiv> resolveTelegramGatewayConfig (br_env rt) (Some e)"
  assumes live: "live_run rt config q"
  shows "\<exists>e2 sent2 rec. live_outcome rt opts random input sent sent1 config q e2 sent2 rec"
    "gateway_missing (br_env rt) = []" "ge_open e"
proof -
  show m: "gateway_missing (br_env rt) = []" and "ge_open e"
    using live by (simp_all add: live_run_def config_def live_ready)
  obtain e2 sent2 where g2: "readTelegramSendGate rt (opts\<lparr>go_maxAgeMs := None\<rparr>) sent1 = (Inr e2, sent2)"
    using read_gate_returns [of rt "opts\<lparr>go_maxAgeMs := None\<rparr>" sent1] by auto
  let ?t = "telegram_request rt (notification_text (aq_messageType q) (aq_sourceAgent q) (aq_message q))
               (a2a_send_options opts)"
  from live_send [OF q m g2] obtain rec where
    s: "sendTelegramMessage rt (env_or_empty (br_env rt) ''TELEGRAM_CHAT_ID'')
        (notification_text (aq_messageType q) (aq_sourceAgent q) (aq_message q)) (a2a_send_options opts) sent1 =
        (Inr rec, if sr_providerCalled rec then sent2 @ [?t] else sent2)"
    and c: "sr_providerCalled rec \<longleftrightarrow> ge_open e2 \<and> ge_authoritative e2 \<and> ge_fresh e2"
      "sr_sent rec \<longleftrightarrow> sr_providerCalled rec \<and> (\<exists>response b. n_fetch (br_net rt) sent2 ?t = Inr response \<and>
       rs_ok response \<and> rs_json response = Inr b \<and> opt_prop b ''ok'' = JBool True)"
    by blast
  have "live_outcome rt opts random input sent sent1 config q e2 sent2 rec"
    using g2 c plan_live [OF q g1 live [unfolded config_def] s, of random]
    unfolding live_outcome_def Let_def config_def by blast
  then show "\<exists>e2 sent2 rec. live_outcome rt opts random input sent sent1 config q e2 sent2 rec" by blast
qed

section \<open>Properties\<close>

text \<open>
  C12. A plan calls the provider at most once, and only for an alert or an approval request that
  says \<open>dryRun: false\<close> with a goal no rule blocks, in a complete configuration. Unless a test
  injects a gate, the control service then answered twice that the gate is open on durable
  storage: once for the status and once for the sender, right before the message. Everything
  else a plan sends is at most these two readings of the gate.
\<close>

theorem a2a_send_gated:
  assumes "createA2aSyncPlan rt opts random input sent = (r, sent')"
  shows "\<exists>gates provider. sent' = sent @ gates @ provider \<and>
    gates \<in> {[], [control_request rt opts], [control_request rt opts, control_request rt opts]} \<and>
    (provider \<noteq> [] \<longrightarrow> (\<exists>body q.
       a2a_body input = Some body \<and> get body ''dryRun'' = JBool False \<and>
       parse_request (net_printer rt) input = Inr q \<and> routed (aq_messageType q) \<and>
       findBlockedReasons (aq_goal q) = [] \<and> gateway_missing (br_env rt) = [] \<and>
       provider = [telegram_request rt
         (notification_text (aq_messageType q) (aq_sourceAgent q) (aq_message q)) (a2a_send_options opts)] \<and>
       (\<not> truthy (go_gate opts) \<longrightarrow>
          gates = [control_request rt opts, control_request rt opts] \<and>
          (\<exists>r1 r2. n_fetch (br_net rt) sent (control_request rt opts) = Inr r1 \<and>
             durable_answer rt (max_age opts) r1 \<and>
             n_fetch (br_net rt) (sent @ [control_request rt opts]) (control_request rt opts) = Inr r2 \<and>
             durable_answer rt 2000 r2))))"
    (is "\<exists>gates provider. ?ok gates provider")
proof (cases "parse_request (net_printer rt) input")
  case (Inl e)
  then have "sent' = sent"
    using assms by (simp add: createA2aSyncPlan_def io_bind_def io_result_def)
  then show ?thesis by (intro exI [of _ "[]"]) simp
next
  case q: (Inr q)
  let ?g = "control_request rt opts"
  obtain e sent1 where g1: "readTelegramSendGate rt opts sent = (Inr e, sent1)" "sent1 \<in> {sent, sent @ [?g]}"
    using read_gate_returns [of rt opts sent] by auto
  let ?config = "resolveTelegramGatewayConfig (br_env rt) (Some e)"
  show ?thesis
  proof (cases "live_run rt ?config q")
    case False
    from plan_not_live [OF q g1(1) this, of random] have "sent' \<in> {sent, sent @ [?g]}"
      using assms g1(2) by (auto split: if_splits)
    then consider "sent' = sent @ [] @ []" | "sent' = sent @ [?g] @ []" by auto
    then show ?thesis by cases blast+
  next
    case True
    let ?text = "notification_text (aq_messageType q) (aq_sourceAgent q) (aq_message q)"
    let ?t = "telegram_request rt ?text (a2a_send_options opts)"
    note m = live_run_sends(2) [OF q g1(1) True] and o1 = live_run_sends(3) [OF q g1(1) True]
    obtain e2 sent2 rec where "live_outcome rt opts random input sent sent1 ?config q e2 sent2 rec"
      using live_run_sends(1) [OF q g1(1) True] by blast
    note run = this [unfolded live_outcome_def Let_def]
    then have g2: "readTelegramSendGate rt (opts\<lparr>go_maxAgeMs := None\<rparr>) sent1 = (Inr e2, sent2)"
      and opened: "sr_providerCalled rec \<longleftrightarrow> ge_open e2 \<and> ge_authoritative e2 \<and> ge_fresh e2" by blast+
    have sent': "sent' = (if sr_providerCalled rec then sent2 @ [?t] else sent2)"
      using assms run by simp
    obtain gates where gs: "sent2 = sent @ gates" "gates \<in> {[], [?g], [?g, ?g]}"
      using g1(2) g2 read_gate_returns [of rt "opts\<lparr>go_maxAgeMs := None\<rparr>" sent1] by auto
    show ?thesis
    proof (cases "sr_providerCalled rec")
      case False
      with sent' gs show ?thesis by (intro exI [of _ gates] exI [of _ "[]"]) simp
    next
      case called: True
      have durable: "gates = [?g, ?g] \<and> (\<exists>r1 r2. n_fetch (br_net rt) sent ?g = Inr r1 \<and>
             durable_answer rt (max_age opts) r1 \<and> n_fetch (br_net rt) (sent @ [?g]) ?g = Inr r2 \<and>
             durable_answer rt 2000 r2)" if "\<not> truthy (go_gate opts)"
        using read_gate_open [OF that g1(1) o1] read_gate_open [OF _ g2] that called opened gs(1)
        by (auto simp: max_age_def)
      obtain body where "a2a_body input = Some body" "get body ''dryRun'' = JBool False"
        using parse_request_Inr(8) [OF q] True by (auto simp: live_run_def)
      with True [unfolded live_run_def] q m called sent' gs durable have "?ok gates [?t]" by auto
      then show ?thesis by blast
    qed
  qed
qed

theorem a2a_send_gated_witness:
  "\<exists>a provider q. createA2aSyncPlan (sample_bot bot_env open_answer) no_options [] sample_alert [] =
       (Inr a, [control_request (sample_bot bot_env open_answer) no_options,
                control_request (sample_bot bot_env open_answer) no_options, provider]) \<and>
     parse_request (net_printer (sample_bot bot_env open_answer)) sample_alert = Inr q \<and>
     routed (aq_messageType q)"
proof -
  obtain a provider where run: "createA2aSyncPlan (sample_bot bot_env open_answer) no_options [] sample_alert [] =
       (Inr a, [control_request (sample_bot bot_env open_answer) no_options,
                control_request (sample_bot bot_env open_answer) no_options, provider])"
    using sample_plan_sent by blast
  from a2a_send_gated [OF run] obtain gates sent_out where
    "[control_request (sample_bot bot_env open_answer) no_options,
      control_request (sample_bot bot_env open_answer) no_options, provider] = [] @ gates @ sent_out"
    "length gates \<le> 2"
    "sent_out \<noteq> [] \<Longrightarrow> \<exists>q. parse_request (net_printer (sample_bot bot_env open_answer)) sample_alert = Inr q \<and>
       routed (aq_messageType q)"
    by (elim exE conjE) fastforce
  then show ?thesis using run by fastforce
qed

text \<open>The control service is asked with \<open>GET\<close>, the provider with \<open>POST\<close>.\<close>

lemma control_not_telegram:
  "control_request rt opts \<noteq> telegram_request rt' message o'"
  "telegram_request rt' message o' \<noteq> control_request rt opts"
proof -
  have "rq_method (control_request rt opts) \<noteq> rq_method (telegram_request rt' message o')"
    by (simp add: control_request_def gate_request_def telegram_request_def lit_def)
  then show "control_request rt opts \<noteq> telegram_request rt' message o'"
    "telegram_request rt' message o' \<noteq> control_request rt opts" by metis+
qed

definition a2a_message :: "bot_runtime \<Rightarrow> gate_options \<Rightarrow> a2a_request \<Rightarrow> http_request" where
  "a2a_message rt opts q = telegram_request rt
     (notification_text (aq_messageType q) (aq_sourceAgent q) (aq_message q)) (a2a_send_options opts)"

definition confirmed :: "bot_runtime \<Rightarrow> http_request list \<Rightarrow> http_request \<Rightarrow> bool" where
  "confirmed rt before t \<longleftrightarrow> (\<exists>response answer. n_fetch (br_net rt) before t = Inr response \<and> rs_ok response \<and>
     rs_json response = Inr answer \<and> opt_prop answer ''ok'' = JBool True)"

text \<open>What a plan that is no live run, and what a live run answers.\<close>

lemma not_live_truth:
  assumes q: "parse_request (net_printer rt) input = Inr q"
    and g1: "readTelegramSendGate rt opts sent = (Inr e, sent1)"
  defines "config \<equiv> resolveTelegramGatewayConfig (br_env rt) (Some e)"
  assumes dead: "\<not> live_run rt config q"
    and run: "createA2aSyncPlan rt opts random input sent = (Inr a, sent')"
  shows "(if findBlockedReasons (aq_goal q) \<noteq> [] then a = blocked_plan rt q
      else \<exists>n plan. a = plan_answer rt q config n plan \<and> \<not> pl_telegramSent plan)"
    and "sent' \<noteq> sent @ gates @ [a2a_message rt opts q]"
proof -
  from plan_not_live [OF q g1 dead [unfolded config_def], of random] run
  show "if findBlockedReasons (aq_goal q) \<noteq> [] then a = blocked_plan rt q
      else \<exists>n plan. a = plan_answer rt q config n plan \<and> \<not> pl_telegramSent plan"
    and "sent' \<noteq> sent @ gates @ [a2a_message rt opts q]"
    using read_gate_returns [of rt opts sent] g1
    by (auto simp: config_def a2a_message_def control_not_telegram)
qed

lemma live_truth:
  assumes q: "parse_request (net_printer rt) input = Inr q"
    and g1: "readTelegramSendGate rt opts sent = (Inr e, sent1)"
  defines "config \<equiv> resolveTelegramGatewayConfig (br_env rt) (Some e)"
  assumes live: "live_run rt config q"
    and run: "createA2aSyncPlan rt opts random input sent = (Inr a, sent')"
  shows "\<exists>n plan. a = plan_answer rt q config n plan \<and>
    (pl_telegramSent plan \<longleftrightarrow> (\<exists>gates. sent' = sent @ gates @ [a2a_message rt opts q] \<and>
       confirmed rt (sent @ gates) (a2a_message rt opts q))) \<and>
    (pl_telegramSent plan \<longrightarrow> pl_outcome plan = lit ''confirmed'' \<and> pl_deliveredTo plan = [lit ''telegram-bot''])"
proof -
  let ?t = "a2a_message rt opts q" and ?g = "control_request rt opts"
  obtain e2 sent2 rec where "live_outcome rt opts random input sent sent1 config q e2 sent2 rec"
    using live_run_sends(1) [OF q g1 live [unfolded config_def]] unfolding config_def by blast
  note o = this [unfolded live_outcome_def Let_def a2a_message_def [symmetric] confirmed_def [symmetric]]
  let ?n = "notification_of config (aq_messageType q) (aq_dryRun q) (Some rec)"
  let ?plan = "with_notification ?n (makeSyncPlan rt random q)"
  have a: "a = plan_answer rt q config (Some ?n) ?plan"
      and sent': "sent' = (if sr_providerCalled rec then sent2 @ [?t] else sent2)"
    using o run by simp_all
  have "sent1 \<in> {sent, sent @ [?g]}" "sent2 \<in> {sent1, sent1 @ [?g]}"
    using g1 o read_gate_returns [of rt opts sent] read_gate_returns [of rt "opts\<lparr>go_maxAgeMs := None\<rparr>" sent1]
    by auto
  then obtain gates where gates: "sent2 = sent @ gates" "set gates \<subseteq> {?g}" by auto
  have "sr_sent rec \<longleftrightarrow> sr_providerCalled rec \<and> confirmed rt sent2 ?t"
    using o by (simp add: confirmed_def)
  moreover have "(\<exists>gs. sent' = sent @ gs @ [?t] \<and> confirmed rt (sent @ gs) ?t) \<longleftrightarrow>
      sr_providerCalled rec \<and> confirmed rt sent2 ?t"
  proof (cases "sr_providerCalled rec")
    case True
    with sent' gates show ?thesis by auto
  next
    case False
    have "?t \<notin> set gates" using gates(2) by (auto simp: a2a_message_def control_not_telegram)
    then have "gates \<noteq> gs @ [?t]" for gs by auto
    with False sent' gates(1) show ?thesis by simp
  qed
  ultimately show ?thesis using a by (intro exI [of _ "Some ?n"] exI [of _ ?plan]) (auto simp: plan_sent)
qed

lemma plan_truth:
  assumes q: "parse_request (net_printer rt) input = Inr q"
    and g1: "readTelegramSendGate rt opts sent = (Inr e, sent1)"
    and run: "createA2aSyncPlan rt opts random input sent = (Inr a, sent')"
  defines "config \<equiv> resolveTelegramGatewayConfig (br_env rt) (Some e)"
  shows "if findBlockedReasons (aq_goal q) \<noteq> [] then a = blocked_plan rt q \<and> \<not> (\<exists>gates. sent' = sent @ gates @ [a2a_message rt opts q] \<and>
      confirmed rt (sent @ gates) (a2a_message rt opts q))
    else \<exists>n plan. a = plan_answer rt q config n plan \<and> (pl_telegramSent plan \<longleftrightarrow> (\<exists>gates. sent' = sent @ gates @ [a2a_message rt opts q] \<and>
      confirmed rt (sent @ gates) (a2a_message rt opts q))) \<and>
      (pl_telegramSent plan \<longrightarrow> gc_liveSendReady config \<and> pl_outcome plan = lit ''confirmed'' \<and>
         pl_deliveredTo plan = [lit ''telegram-bot''])"
proof (cases "live_run rt config q")
    case False
    note dead = not_live_truth [OF q g1 False [unfolded config_def] run]
    then show ?thesis by (auto simp: config_def split: if_splits)
  next
    case True
    then have "findBlockedReasons (aq_goal q) = []" "gc_liveSendReady config" by (simp_all add: live_run_def)
    with live_truth [OF q g1 True [unfolded config_def] run] show ?thesis by (auto simp: config_def split: if_splits)
qed

lemma blocked_says:
  fixes rt q
  defines "a \<equiv> blocked_plan rt q"
  shows "\<forall>k \<in> {''externalWrites'', ''customerVisible''}. get (aa_body a) k = JBool False"
    "\<forall>k \<in> {''canExecuteExternally'', ''canSendTelegram''}. get (aa_body a) k = JBool False"
    "get (aa_body a) ''requiresHumanApproval'' = JBool True"
    "\<forall>k \<in> {''productionWrites'', ''canCallPaidApi'', ''canReadSecrets'', ''canRunMcp'', ''canStartAgents'',
       ''commandExecuted''}. get (aa_body a) k = JBool False"
  using blocked_flags [of rt q] by (simp_all add: a_def never_raised_def)

lemma answer_says:
  fixes rt q config n plan
  defines "a \<equiv> plan_answer rt q config n plan"
  shows "\<forall>k \<in> {''externalWrites'', ''customerVisible''}. get (aa_body a) k = JBool (pl_telegramSent plan)"
    "\<forall>k \<in> {''canExecuteExternally'', ''canSendTelegram''}. get (aa_body a) k = JBool (gc_liveSendReady config)"
    "get (aa_body a) ''requiresHumanApproval'' = JBool True"
    "\<forall>k \<in> {''productionWrites'', ''canCallPaidApi'', ''canReadSecrets'', ''canRunMcp'', ''canStartAgents'',
       ''commandExecuted''}. get (aa_body a) k = JBool False"
  using answer_flags [of rt q config n plan] by (simp_all add: a_def never_raised_def)

text \<open>The lane is ready when the reading of the gate for the status says so.\<close>

lemma lane_ready_iff:
  assumes "readTelegramSendGate rt opts sent = (Inr e, sent1)"
  shows "gc_liveSendReady (resolveTelegramGatewayConfig (br_env rt) (Some e)) \<longleftrightarrow>
    gateway_missing (br_env rt) = [] \<and>
    (\<exists>e sent1. readTelegramSendGate rt opts sent = (Inr e, sent1) \<and>
       ge_open e \<and> ge_authoritative e \<and> ge_fresh e)"
  using assms by (auto simp: live_ready)

text \<open>
  C13. What a plan says of its delivery is true and complete. The answer raises \<open>externalWrites\<close>,
  as it raises \<open>customerVisible\<close>, exactly when the last request this call sent was the message
  of the plan and the provider confirmed it with \<open>ok: true\<close>, and exactly when its plan counts the
  message as sent and lists the delivery. It raises \<open>canExecuteExternally\<close>, as it raises
  \<open>canSendTelegram\<close>, exactly for a goal no rule blocks while the lane is ready: the configuration
  is complete and the gate reading of the status is open, durable and fresh; every delivery is
  made in that state. The six other flags of the lock stay down and a human is always asked.
\<close>

theorem a2a_answer_truthful:
  assumes "createA2aSyncPlan rt opts random input sent = (Inr a, sent')"
  shows "\<exists>q delivered ready. parse_request (net_printer rt) input = Inr q \<and>
    (\<forall>k \<in> {''externalWrites'', ''customerVisible''}. get (aa_body a) k = JBool delivered) \<and>
    (delivered \<longleftrightarrow> (\<exists>gates response answer.
       sent' = sent @ gates @ [telegram_request rt
         (notification_text (aq_messageType q) (aq_sourceAgent q) (aq_message q)) (a2a_send_options opts)] \<and>
       n_fetch (br_net rt) (sent @ gates) (last sent') = Inr response \<and> rs_ok response \<and>
       rs_json response = Inr answer \<and> opt_prop answer ''ok'' = JBool True)) \<and>
    (delivered \<longleftrightarrow> (\<exists>plan. aa_plan a = Some plan \<and> pl_telegramSent plan \<and>
       pl_outcome plan = lit ''confirmed'' \<and> pl_deliveredTo plan = [lit ''telegram-bot''])) \<and>
    (\<forall>k \<in> {''canExecuteExternally'', ''canSendTelegram''}. get (aa_body a) k = JBool ready) \<and>
    (ready \<longleftrightarrow> findBlockedReasons (aq_goal q) = [] \<and> gateway_missing (br_env rt) = [] \<and>
       (\<exists>e sent1. readTelegramSendGate rt opts sent = (Inr e, sent1) \<and>
          ge_open e \<and> ge_authoritative e \<and> ge_fresh e)) \<and>
    (delivered \<longrightarrow> ready) \<and>
    (\<forall>k \<in> {''productionWrites'', ''canCallPaidApi'', ''canReadSecrets'', ''canRunMcp'', ''canStartAgents'',
        ''commandExecuted''}. get (aa_body a) k = JBool False) \<and>
    get (aa_body a) ''requiresHumanApproval'' = JBool True"
proof -
  obtain q where q: "parse_request (net_printer rt) input = Inr q"
    using assms by (cases "parse_request (net_printer rt) input")
      (simp_all add: createA2aSyncPlan_def io_bind_def io_result_def)
  obtain e sent1 where g1: "readTelegramSendGate rt opts sent = (Inr e, sent1)"
    using read_gate_returns [of rt opts sent] by auto
  let ?config = "resolveTelegramGatewayConfig (br_env rt) (Some e)" and ?t = "a2a_message rt opts q"
  let ?delivered = "\<exists>gates. sent' = sent @ gates @ [?t] \<and> confirmed rt (sent @ gates) ?t"
  have del: "?delivered \<longleftrightarrow> (\<exists>gates response answer. sent' = sent @ gates @ [?t] \<and>
       n_fetch (br_net rt) (sent @ gates) (last sent') = Inr response \<and> rs_ok response \<and>
       rs_json response = Inr answer \<and> opt_prop answer ''ok'' = JBool True)"
    by (auto simp: confirmed_def)
  consider (blocked) "findBlockedReasons (aq_goal q) \<noteq> []" "a = blocked_plan rt q" "\<not> ?delivered"
    | (answered) n plan where "findBlockedReasons (aq_goal q) = []" "a = plan_answer rt q ?config n plan"
      "pl_telegramSent plan \<longleftrightarrow> ?delivered"
      "pl_telegramSent plan \<longrightarrow> gc_liveSendReady ?config \<and> pl_outcome plan = lit ''confirmed'' \<and>
         pl_deliveredTo plan = [lit ''telegram-bot'']"
    using plan_truth [OF q g1 assms] by (auto split: if_splits)
  then show ?thesis
  proof cases
    case blocked
    then have none: "aa_plan a = None" by (simp add: blocked_plan_def)
    note f = blocked_says [of rt q, folded blocked(2)]
    have r: "False \<longleftrightarrow> (\<exists>plan. aa_plan a = Some plan \<and> pl_telegramSent plan \<and>
       pl_outcome plan = lit ''confirmed'' \<and> pl_deliveredTo plan = [lit ''telegram-bot''])"
      "False \<longleftrightarrow> findBlockedReasons (aq_goal q) = [] \<and> gateway_missing (br_env rt) = [] \<and>
       (\<exists>e sent1. readTelegramSendGate rt opts sent = (Inr e, sent1) \<and>
          ge_open e \<and> ge_authoritative e \<and> ge_fresh e)" "False \<longrightarrow> False"
      using none blocked(1) by simp_all
    have gen: "\<not> P \<Longrightarrow> False \<longleftrightarrow> P" for P by simp
    note d = gen [OF blocked(3) [unfolded del, unfolded a2a_message_def]]
    show ?thesis
      by (rule exI [of _ q], rule exI [of _ False], rule exI [of _ False], intro conjI) (fact q f r d)+
  next
    case answered
    have some: "aa_plan a = Some plan" by (simp add: answered(2) plan_answer_def Let_def)
    let ?d = "pl_telegramSent plan" and ?r = "gc_liveSendReady ?config"
    note f = answer_says [of rt q ?config n plan, folded answered(2)]
    have p: "?d \<longleftrightarrow> (\<exists>plan. aa_plan a = Some plan \<and> pl_telegramSent plan \<and>
       pl_outcome plan = lit ''confirmed'' \<and> pl_deliveredTo plan = [lit ''telegram-bot''])" "?d \<longrightarrow> ?r"
      using some answered(4) by auto
    have r: "?r \<longleftrightarrow> findBlockedReasons (aq_goal q) = [] \<and> gateway_missing (br_env rt) = [] \<and>
       (\<exists>e sent1. readTelegramSendGate rt opts sent = (Inr e, sent1) \<and>
          ge_open e \<and> ge_authoritative e \<and> ge_fresh e)"
      unfolding lane_ready_iff [OF g1] using answered(1) by simp
    show ?thesis
      by (rule exI [of _ q], rule exI [of _ ?d], rule exI [of _ ?r], intro conjI)
        (fact q f p r answered(3) [unfolded del, unfolded a2a_message_def])+
  qed
qed

theorem a2a_answer_truthful_witness:
  "\<exists>a sent' plan. createA2aSyncPlan (sample_bot bot_env open_answer) no_options [] sample_alert [] = (Inr a, sent') \<and>
     aa_plan a = Some plan \<and> pl_telegramSent plan \<and> pl_deliveredTo plan = [lit ''telegram-bot'']"
proof -
  obtain a sent' where run: "createA2aSyncPlan (sample_bot bot_env open_answer) no_options [] sample_alert [] = (Inr a, sent')"
    and flag: "get (aa_body a) ''externalWrites'' = JBool True"
    using sample_plan_sent by blast
  from a2a_answer_truthful [OF run] flag show ?thesis using run by auto
qed

text \<open>
  A validated request never fails on the checks of the sender: the text it sends, the message
  of up to 3800 characters with its type and sender in front, is never empty and never longer
  than the 4096 characters the sender allows, and it goes to the configured chat.
\<close>

theorem a2a_message_accepted:
  assumes "parse_request pr input = Inr q" and "gateway_missing (br_env rt) = []"
  shows "send_refusal rt (requested_chat rt (env_or_empty (br_env rt) ''TELEGRAM_CHAT_ID''))
    (notification_text (aq_messageType q) (aq_sourceAgent q) (aq_message q)) False = None"
  using notification_text_fits [OF assms(1)] assms(2)
  by (auto simp: send_refusal_None_iff gateway_missing_def pushed_def requested_chat_def or_text_def
      env_text_def trim_idem split: if_splits)

theorem a2a_message_accepted_witness:
  "send_refusal (sample_bot bot_env open_answer) (requested_chat (sample_bot bot_env open_answer)
     (env_or_empty (br_env (sample_bot bot_env open_answer)) ''TELEGRAM_CHAT_ID''))
    (notification_text (lit ''alert'') (lit ''a2a-sync'') (lit ''hi'')) False = None"
proof -
  have "gateway_missing (br_env (sample_bot bot_env open_answer)) = []"
    using sample_send_ready(2) by (simp add: sample_bot_def)
  from a2a_message_accepted [OF sample_parses this] show ?thesis by (simp add: sample_parsed_def)
qed

end
