(* ===== verification/RouteFaq.thy ===== *)
theory RouteFaq
  imports Seo
begin

text \<open>
  The helpers of the client for its routes (\<open>client/src/lib/routeSeoContent.ts\<close>): the province of
  a path, the order of the province index, and the questions the client expects a route to mark
  up, with their relation to the questions the static build does mark up.
\<close>

fun bcp47ByLanguage :: "seo_language \<Rightarrow> jstr" where
  "bcp47ByLanguage Lang_th = lit ''th-TH''"
| "bcp47ByLanguage Lang_en = lit ''en''"
| "bcp47ByLanguage Lang_cn = lit ''zh-CN''"

definition provincesIndexPath :: jstr where
  "provincesIndexPath = lit ''/provinces''"

definition getRouteProvince :: "jstr \<Rightarrow> thai_province option" where
  "getRouteProvince path =
     (if \<not> starts_with (lit ''/solar-carport/'') path then None
      else getProvinceBySlug (strip_slash (remove_first (lit ''/solar-carport/'') path)))"

definition isSolarCarportPath :: "jstr \<Rightarrow> bool" where
  "isSolarCarportPath path \<longleftrightarrow> path = lit ''/solar-carport'' \<or> starts_with (lit ''/solar-carport/'') path"

text \<open>\<open>key\<close> gives the collation key of a name, by which \<open>localeCompare\<close> compares.\<close>

definition getProvincesForIndex :: "(jstr \<Rightarrow> 'a::linorder) \<Rightarrow> thai_province list \<Rightarrow> thai_province list" where
  "getProvincesForIndex key provinces = sort_key (\<lambda>p. key (tp_nameEn p)) provinces"

text \<open>
  The questions of a carport route carry identifiers, those of the home page do not. The given
  province is absent when the caller leaves it out, and may be \<open>null\<close>.
\<close>

datatype route_questions = Carport_Questions "resolved_faq list" | Home_Questions "qa list"

definition buildRouteFaq ::
  "jstr \<Rightarrow> seo_language \<Rightarrow> thai_province option option \<Rightarrow> route_questions option" where
  "buildRouteFaq path lang given =
     (let prov = (case given of None \<Rightarrow> getRouteProvince path | Some p \<Rightarrow> p) in
      if isSolarCarportPath path then Some (Carport_Questions (buildSolarCarportFaq lang prov))
      else if path = lit ''/home-solution'' \<and> lang = Lang_th then Some (Home_Questions homeSolutionFaq)
      else None)"

fun question_texts :: "route_questions \<Rightarrow> qa list" where
  "question_texts (Carport_Questions rs) =
     map (\<lambda>r. \<lparr>qa_question = rq_question r, qa_answer = rq_answer r\<rparr>) rs"
| "question_texts (Home_Questions qs) = qs"

section \<open>Properties\<close>

lemma strip_slash_append:
  "s \<noteq> [] \<Longrightarrow> strip_slash (p @ s) = p @ strip_slash s"
  by (simp add: strip_slash_def butlast_append)

lemma route_province_from_path:
  assumes "strip_slash path = path"
  shows "getRouteProvince path = getProvinceFromPath path"
proof (cases "starts_with (lit ''/solar-carport/'') path")
  case True
  then obtain r where r: "path = lit ''/solar-carport/'' @ r" by (auto simp: starts_with_iff)
  have "strip_slash r = r"
    using assms by (cases "r = []") (simp_all add: r strip_slash_append)
  moreover have "remove_first (lit ''/solar-carport/'') path = r"
    unfolding r by (rule remove_first_prefix) (simp add: lit_def)
  ultimately show ?thesis by (simp add: getRouteProvince_def getProvinceFromPath_def)
qed (simp add: getRouteProvince_def getProvinceFromPath_def)

text \<open>
  The questions the static build marks up on a route are those the client expects there in
  Thai, followed on the route of a province by the questions of its article, which the client
  does not list. On a carport path of an unknown province the client expects the general
  questions and the build marks up none.
\<close>

theorem route_questions_served:
  assumes "strip_slash path = path"
  shows "route_faq ar path (getProvinceFromPath path) =
    (if starts_with (lit ''/solar-carport/'') path \<and> getRouteProvince path = None then None
     else map_option (\<lambda>qs. question_texts qs @
            (case getRouteProvince path of None \<Rightarrow> [] | Some p \<Rightarrow> longform_faq ar p))
          (buildRouteFaq path Lang_th None))"
proof -
  have home: "\<not> starts_with (lit ''/solar-carport/'') (lit ''/home-solution'')"
    "\<not> starts_with (lit ''/solar-carport/'') (lit ''/solar-carport'')"
    by (simp_all add: starts_with_def lit_def)
  have known: "starts_with (lit ''/solar-carport/'') path" if "getRouteProvince path = Some p" for p
    using that by (simp add: getRouteProvince_def split: if_splits)
  show ?thesis
    unfolding route_province_from_path [OF assms, symmetric]
    using home known
    by (cases "getRouteProvince path")
      (auto simp: route_faq_def buildRouteFaq_def isSolarCarportPath_def)
qed

theorem route_questions_served_witness:
  "\<forall>ar. route_faq ar (lit ''/solar-carport'') (getProvinceFromPath (lit ''/solar-carport'')) =
     Some (question_texts (Carport_Questions (buildSolarCarportFaq Lang_th None)))"
proof
  fix ar
  have "strip_slash (lit ''/solar-carport'') = lit ''/solar-carport''"
    by (simp add: strip_slash_def lit_def)
  moreover have "\<not> starts_with (lit ''/solar-carport/'') (lit ''/solar-carport'')"
    by (simp add: starts_with_def lit_def)
  ultimately show "route_faq ar (lit ''/solar-carport'') (getProvinceFromPath (lit ''/solar-carport'')) =
     Some (question_texts (Carport_Questions (buildSolarCarportFaq Lang_th None)))"
    using route_questions_served [of "lit ''/solar-carport''" ar]
    by (simp add: getRouteProvince_def buildRouteFaq_def isSolarCarportPath_def)
qed

end
