(* ===== verification/ControlQueue.thy ===== *)
theory ControlQueue
  imports Inbox TelegramSender
begin

text \<open>
  The tables and the state of the local control API
  (\<open>services/dev-control-api/src/switches.mjs\<close>, \<open>approval-queue.mjs\<close>, \<open>audit-events.mjs\<close>,
  \<open>gates.mjs\<close>): the kill switches, the queue of approval requests, the ring of audit events,
  and the dry run of an action, which consults the first and writes to the other two.
\<close>

section \<open>Kill switches\<close>

record kill_switch =
  ks_id :: jstr
  ks_title :: jstr
  ks_env :: jstr
  ks_enabled :: bool
  ks_description :: jstr

definition envEnabled :: "process_env \<Rightarrow> string \<Rightarrow> bool" where
  "envEnabled pe name \<longleftrightarrow> dict_get pe (lit name) = Some (lit ''true'')"

definition kill_switch_of :: "process_env \<Rightarrow> string \<Rightarrow> string \<Rightarrow> string \<Rightarrow> string \<Rightarrow> kill_switch" where
  "kill_switch_of pe name title env description =
     \<lparr>ks_id = lit name, ks_title = lit title, ks_env = lit env, ks_enabled = envEnabled pe env,
      ks_description = lit description\<rparr>"

text \<open>The table is built when the program starts, from the environment of the process.\<close>

definition switches :: "process_env \<Rightarrow> kill_switch list" where
  "switches pe =
     [kill_switch_of pe ''cloud-mutation'' ''Cloud mutation'' ''CLOUDFLARE_MUTATION_ENABLED''
        ''Allows cloud resource writes only after explicit approval.'',
      kill_switch_of pe ''customer-messaging'' ''Customer messaging'' ''CUSTOMER_MESSAGE_SEND_ENABLED''
        ''Allows customer-facing sends only after explicit approval.'',
      kill_switch_of pe ''paid-api'' ''Paid API calls'' ''PAID_API_CALLS_ENABLED''
        ''Allows paid API usage only after cost and approval gates pass.'',
      kill_switch_of pe ''public-ai-exposure'' ''Public AI exposure'' ''PUBLIC_AI_EXPOSURE_ENABLED''
        ''Allows public exposure of local AI services only after release approval.'',
      kill_switch_of pe ''destructive-mcp'' ''Destructive MCP tools'' ''DESTRUCTIVE_MCP_TOOLS_ENABLED''
        ''Allows destructive MCP actions only after explicit approval.'',
      kill_switch_of pe ''render-export'' ''Render and export'' ''RENDER_EXPORT_ENABLED''
        ''Allows render/export workflows only after explicit approval.'']"

definition getSwitch :: "process_env \<Rightarrow> jstr \<Rightarrow> kill_switch option" where
  "getSwitch pe name = List.find (\<lambda>s. ks_id s = name) (switches pe)"

record switch_check =
  sk_allowed :: bool
  sk_blocked :: "kill_switch list"

definition evaluateRequiredSwitches :: "process_env \<Rightarrow> jstr list \<Rightarrow> switch_check" where
  "evaluateRequiredSwitches pe requiredSwitches =
     (let blocked = filter (\<lambda>s. \<not> ks_enabled s) (List.map_filter (getSwitch pe) requiredSwitches)
      in \<lparr>sk_allowed = (blocked = []), sk_blocked = blocked\<rparr>)"

section \<open>The approval queue\<close>

datatype approval_status = Pending | Approved | Rejected | Blocked_Off

fun approval_status_text :: "approval_status \<Rightarrow> jstr" where
  "approval_status_text Pending = lit ''pending''"
| "approval_status_text Approved = lit ''approved''"
| "approval_status_text Rejected = lit ''rejected''"
| "approval_status_text Blocked_Off = lit ''blocked''"

record approval =
  ap_id :: jstr
  ap_source :: jstr
  ap_actionId :: jstr
  ap_action :: jstr
  ap_riskLevel :: jstr
  ap_status :: approval_status
  ap_requestedBy :: jstr
  ap_approvedBy :: "jstr option"
  ap_requestedAt :: jstr
  ap_reason :: jstr
  ap_evidence :: "jstr list"

definition approvalQueue :: "approval list" where
  "approvalQueue =
     [\<lparr>ap_id = lit ''approval-staging-preflight'', ap_source = lit ''release-gate'',
       ap_actionId = lit ''release-preflight'', ap_action = lit ''Evaluate release preflight'',
       ap_riskLevel = lit ''medium'', ap_status = Pending, ap_requestedBy = lit ''system'',
       ap_approvedBy = None, ap_requestedAt = lit ''2026-05-16T00:00:00.000Z'',
       ap_reason = lit ''Staging or production movement needs explicit operator approval.'',
       ap_evidence = [lit ''dry-run only'', lit ''no external writes'']\<rparr>,
      \<lparr>ap_id = lit ''approval-doc-baseline'', ap_source = lit ''codex'',
       ap_actionId = lit ''baseline-check'', ap_action = lit ''Freeze Mac live baseline'',
       ap_riskLevel = lit ''low'', ap_status = Approved, ap_requestedBy = lit ''system'',
       ap_approvedBy = Some (lit ''operator''), ap_requestedAt = lit ''2026-05-16T00:00:00.000Z'',
       ap_reason = lit ''Local baseline verification is documentation-only.'',
       ap_evidence = [lit ''P0 baseline committed'', lit ''dry-run only'']\<rparr>,
      \<lparr>ap_id = lit ''approval-customer-send'', ap_source = lit ''connector-guard'',
       ap_actionId = lit ''customer-message-send'', ap_action = lit ''Customer message send'',
       ap_riskLevel = lit ''high'', ap_status = Rejected, ap_requestedBy = lit ''system'',
       ap_approvedBy = Some (lit ''operator''), ap_requestedAt = lit ''2026-05-16T00:00:00.000Z'',
       ap_reason = lit ''Customer-facing sends are blocked in local mode.'',
       ap_evidence = [lit ''CUSTOMER_MESSAGE_SEND_ENABLED=false'']\<rparr>,
      \<lparr>ap_id = lit ''approval-cloud-mutation'', ap_source = lit ''kill-switch'',
       ap_actionId = lit ''external-adapter-smoke'', ap_action = lit ''External adapter smoke'',
       ap_riskLevel = lit ''high'', ap_status = Blocked_Off, ap_requestedBy = lit ''system'',
       ap_approvedBy = None, ap_requestedAt = lit ''2026-05-16T00:00:00.000Z'',
       ap_reason = lit ''Cloud mutation and customer messaging kill switches are off.'',
       ap_evidence = [lit ''CLOUDFLARE_MUTATION_ENABLED=false'', lit ''CUSTOMER_MESSAGE_SEND_ENABLED=false'']\<rparr>]"

definition summarizeApprovals :: "approval list \<Rightarrow> (jstr, nat) dict" where
  "summarizeApprovals items =
     foldl (\<lambda>totals item. bump (approval_status_text (ap_status item)) totals)
       [(lit ''pending'', 0), (lit ''approved'', 0), (lit ''rejected'', 0), (lit ''blocked'', 0)] items"

section \<open>Audit events\<close>

definition maxEvents :: nat where
  "maxEvents = 100"

record audit_event =
  ae_event_id :: jstr
  ae_timestamp :: jstr
  ae_actor :: jstr
  ae_source :: jstr
  ae_action :: jstr
  ae_target :: jsval
  ae_risk_level :: jstr
  ae_approval_status :: jstr
  ae_kill_switch_status :: jstr
  ae_external_writes :: bool
  ae_result :: jstr
  ae_evidence :: "jstr list"

text \<open>What a caller gives; the empty text stands for a field that is absent or empty.\<close>

record audit_input =
  ai_actor :: jstr
  ai_source :: jstr
  ai_action :: jstr
  ai_target :: jsval
  ai_risk_level :: jstr
  ai_approval_status :: jstr
  ai_kill_switch_status :: jstr
  ai_external_writes :: bool
  ai_result :: jstr
  ai_evidence :: "jstr list"

record control_state =
  ct_queue :: "approval list"
  ct_sequence :: nat
  ct_events :: "audit_event list"

definition initial_control :: control_state where
  "initial_control = \<lparr>ct_queue = approvalQueue, ct_sequence = 0, ct_events = []\<rparr>"

definition event_id_of :: "printer \<Rightarrow> time \<Rightarrow> nat \<Rightarrow> jstr" where
  "event_id_of pr now n = lit ''audit-'' @ text_of pr (JInt now) @ lit ''-'' @ decimal n"

text \<open>\<open>value.replace(/[\r\n]+/g, " ")\<close>: each run of line breaks becomes one space.\<close>

fun replace_breaks :: "bool \<Rightarrow> jstr \<Rightarrow> jstr" where
  "replace_breaks inside [] = []"
| "replace_breaks inside (c # cs) =
     (if c = 0xD \<or> c = 0xA
      then if inside then replace_breaks True cs else 0x20 # replace_breaks True cs
      else c # replace_breaks False cs)"

definition cleanEvidence :: "jstr list \<Rightarrow> jstr list" where
  "cleanEvidence values =
     map (\<lambda>v. slice0 180 (replace_breaks False v)) (filter (\<lambda>v. trim v \<noteq> []) values)"

definition recordAuditEvent :: "printer \<Rightarrow> time \<Rightarrow> audit_input \<Rightarrow> control_state \<Rightarrow> audit_event \<times> control_state" where
  "recordAuditEvent pr now input st =
     (let n = ct_sequence st + 1;
          event =
            \<lparr>ae_event_id = event_id_of pr now n, ae_timestamp = to_iso now,
             ae_actor = or_text (ai_actor input) (lit ''codex-local''),
             ae_source = or_text (ai_source input) (lit ''control-api''),
             ae_action = or_text (ai_action input) (lit ''unknown''),
             ae_target = js_or (ai_target input) (JText ''unknown''),
             ae_risk_level = or_text (ai_risk_level input) (lit ''unknown''),
             ae_approval_status = or_text (ai_approval_status input) (lit ''not-required''),
             ae_kill_switch_status = or_text (ai_kill_switch_status input) (lit ''not-required''),
             ae_external_writes = ai_external_writes input,
             ae_result = or_text (ai_result input) (lit ''unknown''),
             ae_evidence = cleanEvidence (ai_evidence input)\<rparr>
      in (event, st\<lparr>ct_sequence := n, ct_events := take maxEvents (event # ct_events st)\<rparr>))"

text \<open>A result is never the name of an inherited member (\<open>results_known\<close> below), so counting in
  a plain object is counting in a dictionary.\<close>

definition summarizeEvents :: "audit_event list \<Rightarrow> (jstr, nat) dict" where
  "summarizeEvents items = foldl (\<lambda>totals item. bump (ae_result item) totals) [] items"

section \<open>Gates and actions\<close>

record control_gate =
  cg_id :: jstr
  cg_title :: jstr
  cg_state :: jstr
  cg_description :: jstr

definition gate_of :: "string \<Rightarrow> string \<Rightarrow> string \<Rightarrow> string \<Rightarrow> control_gate" where
  "gate_of name title state description =
     \<lparr>cg_id = lit name, cg_title = lit title, cg_state = lit state, cg_description = lit description\<rparr>"

definition gates :: "control_gate list" where
  "gates =
     [gate_of ''dry-run-lock'' ''Dry-run lock'' ''pass''
        ''All command actions are simulated and cannot mutate external systems.'',
      gate_of ''approval-required'' ''Human approval required'' ''warn''
        ''Staging, production, paid API, customer messaging, and cloud mutation need approval.'',
      gate_of ''secret-scan'' ''Secret scan'' ''warn''
        ''Run a secret scan before any PR leaves local development.'',
      gate_of ''public-exposure'' ''Public exposure blocked'' ''block''
        ''Local AI, admin routes, MCP servers, and internal dashboards must not be public.'']"

text \<open>An action that does not name \<open>requiresApproval\<close> or \<open>requiredSwitches\<close> leaves them undefined.\<close>

record control_action =
  ca_id :: jstr
  ca_title :: jstr
  ca_description :: jstr
  ca_risk :: jstr
  ca_mode :: jstr
  ca_requiresApproval :: bool
  ca_requiredSwitches :: "jstr list"

definition action_of :: "string \<Rightarrow> string \<Rightarrow> string \<Rightarrow> string \<Rightarrow> bool \<Rightarrow> string list \<Rightarrow> control_action" where
  "action_of name title description risk requiresApproval requiredSwitches =
     \<lparr>ca_id = lit name, ca_title = lit title, ca_description = lit description, ca_risk = lit risk,
      ca_mode = lit ''dry-run'', ca_requiresApproval = requiresApproval,
      ca_requiredSwitches = map lit requiredSwitches\<rparr>"

definition actions :: "control_action list" where
  "actions =
     [action_of ''baseline-check'' ''Freeze Mac live baseline''
        ''Confirm current local baseline and write no external state.'' ''low'' False [],
      action_of ''dashboard-qa'' ''Run dashboard QA checklist''
        ''Use the browser QA checklist against the local dashboard.'' ''low'' False [],
      action_of ''release-preflight'' ''Evaluate release preflight''
        ''List missing gates before staging approval.'' ''medium'' True [],
      action_of ''subdomain-build-preflight'' ''Prepare subdomain build preflight''
        ''Simulate the checks needed before a subdomain build without touching DNS or Cloudflare.'' ''medium'' True [],
      action_of ''solis-readonly-preflight'' ''Prepare Solis read-only connector''
        ''Simulate the first Solis telemetry connector gate without API secrets or control commands.'' ''medium'' True [],
      action_of ''approval-queue-preflight'' ''Review approval and audit queue''
        ''Simulate approval workflow readiness while external writes remain disabled.'' ''medium'' True [],
      action_of ''brain-index-preflight'' ''Review Obsidian brain index''
        ''Simulate knowledge capture readiness and confirm raw chat or secrets must not become memory.'' ''low'' False [],
      action_of ''agent-team-profile-check'' ''Review 47 Ronin agent team''
        ''Simulate profile, roster, connector policy, and backlog gate readiness without starting gateways or external writes.''
        ''medium'' True [],
      action_of ''telegram-line-bridge-check'' ''Check Telegram and LINE bridge gates''
        ''Simulate messaging bridge readiness and prove production sends remain blocked.'' ''high'' True
        [''customer-messaging''],
      action_of ''cloudflare-subdomain-plan'' ''Prepare Cloudflare subdomain plan''
        ''Simulate Cloudflare Pages, Worker, route, and DNS planning without applying changes.'' ''high'' True
        [''cloud-mutation''],
      action_of ''external-adapter-smoke'' ''External adapter smoke''
        ''Simulate an external adapter send and prove kill switches block it locally.'' ''high'' True
        [''customer-messaging'', ''cloud-mutation'']]"

definition getAction :: "jsval \<Rightarrow> control_action option" where
  "getAction actionId = List.find (\<lambda>a. JStr (ca_id a) = actionId) actions"

definition ensureApprovalRequest ::
  "time \<Rightarrow> jstr \<Rightarrow> jstr \<Rightarrow> jstr \<Rightarrow> kill_switch list \<Rightarrow> control_state \<Rightarrow> approval \<times> control_state" where
  "ensureApprovalRequest now actionId title risk blockedSwitches st =
     (case List.find (\<lambda>item. ap_actionId item = actionId) (ct_queue st) of
        Some existing \<Rightarrow> (existing, st)
      | None \<Rightarrow>
          let blocked = (blockedSwitches \<noteq> []);
              item =
                \<lparr>ap_id = lit ''approval-'' @ actionId, ap_source = lit ''dry-run'', ap_actionId = actionId,
                 ap_action = title, ap_riskLevel = risk,
                 ap_status = (if blocked then Blocked_Off else Pending),
                 ap_requestedBy = lit ''codex-local'', ap_approvedBy = None, ap_requestedAt = to_iso now,
                 ap_reason = (if blocked
                   then lit ''Required kill switch is off; approval alone cannot run this action.''
                   else lit ''Human approval is required before this action can proceed.''),
                 ap_evidence = (if blocked
                   then map (\<lambda>s. ks_env s @ lit ''=false'') blockedSwitches
                   else [lit ''dry-run only'', lit ''approval required''])\<rparr>
          in (item, st\<lparr>ct_queue := item # ct_queue st\<rparr>))"

section \<open>The dry run of an action\<close>

text \<open>The body of an answer; \<open>None\<close> is a field the body does not have, an approval request of
  \<open>Some None\<close> is \<open>null\<close>.\<close>

record dry_run_body =
  db_error :: "jstr option"
  db_actionId :: jsval
  db_result :: "jstr option"
  db_externalWrites :: "bool option"
  db_requiresHumanApproval :: "bool option"
  db_approvalRequest :: "approval option option"
  db_blockedSwitches :: "kill_switch list option"
  db_timestamp :: "jstr option"

record dry_run_result =
  dr_status :: nat
  dr_body :: dry_run_body

definition known_result :: "jsval \<Rightarrow> string \<Rightarrow> time \<Rightarrow> dry_run_body" where
  "known_result actionId r now =
     \<lparr>db_error = None, db_actionId = actionId, db_result = Some (lit r), db_externalWrites = Some False,
      db_requiresHumanApproval = Some True, db_approvalRequest = None, db_blockedSwitches = None,
      db_timestamp = Some (to_iso now)\<rparr>"

definition createDryRunResult ::
  "process_env \<Rightarrow> time \<Rightarrow> jsval \<Rightarrow> control_state \<Rightarrow> dry_run_result \<times> control_state" where
  "createDryRunResult pe now actionId st =
     (case getAction actionId of
        None \<Rightarrow>
          (\<lparr>dr_status = 404,
            dr_body = \<lparr>db_error = Some (lit ''unknown_action''), db_actionId = actionId, db_result = None,
              db_externalWrites = None, db_requiresHumanApproval = None, db_approvalRequest = None,
              db_blockedSwitches = None, db_timestamp = None\<rparr>\<rparr>, st)
      | Some action \<Rightarrow>
          let switchResult = evaluateRequiredSwitches pe (ca_requiredSwitches action);
              (approvalRequest, st') =
                (if ca_requiresApproval action
                 then map_prod Some id (ensureApprovalRequest now (ca_id action) (ca_title action)
                        (ca_risk action) (sk_blocked switchResult) st)
                 else (None, st))
          in if \<not> sk_allowed switchResult
             then (\<lparr>dr_status = 200,
                    dr_body = (known_result actionId ''blocked_by_kill_switch'' now)
                      \<lparr>db_approvalRequest := Some approvalRequest,
                       db_blockedSwitches := Some (sk_blocked switchResult)\<rparr>\<rparr>, st')
             else if ca_requiresApproval action
             then (\<lparr>dr_status = 202,
                    dr_body = (known_result actionId ''queued_for_approval'' now)
                      \<lparr>db_approvalRequest := Some approvalRequest\<rparr>\<rparr>, st')
             else (\<lparr>dr_status = 200, dr_body = known_result actionId ''simulated_only'' now\<rparr>, st'))"

definition body_approval :: "dry_run_body \<Rightarrow> approval option" where
  "body_approval body = (case db_approvalRequest body of None \<Rightarrow> None | Some a \<Rightarrow> a)"

text \<open>\<open>body.result || body.error || "unknown"\<close>.\<close>

definition result_text :: "dry_run_body \<Rightarrow> jstr" where
  "result_text body = or_text (or_text (case db_result body of None \<Rightarrow> [] | Some r \<Rightarrow> r)
     (case db_error body of None \<Rightarrow> [] | Some e \<Rightarrow> e)) (lit ''unknown'')"

definition recordDryRunAuditEvent ::
  "printer \<Rightarrow> time \<Rightarrow> jsval \<Rightarrow> dry_run_body \<Rightarrow> nat \<Rightarrow> control_state \<Rightarrow> audit_event \<times> control_state" where
  "recordDryRunAuditEvent pr now actionId body status st =
     (let blockedSwitches = (case db_blockedSwitches body of None \<Rightarrow> [] | Some bs \<Rightarrow> bs);
          approvalRequest = body_approval body;
          writes = (db_externalWrites body = Some True);
          evidence =
            [lit ''http_status='' @ decimal status,
             lit ''externalWrites='' @ (if writes then lit ''true'' else lit ''false''),
             (case approvalRequest of None \<Rightarrow> []
              | Some a \<Rightarrow> lit ''approval='' @ approval_status_text (ap_status a))] @
            map (\<lambda>s. ks_env s @ lit ''=false'') blockedSwitches
      in recordAuditEvent pr now
           \<lparr>ai_actor = [], ai_source = lit ''dry-run'', ai_action = lit ''dry-run action'',
            ai_target = js_or actionId (JText ''missing-action''),
            ai_risk_level = (case approvalRequest of None \<Rightarrow> lit ''low''
              | Some a \<Rightarrow> or_text (ap_riskLevel a) (lit ''low'')),
            ai_approval_status = (case approvalRequest of
                Some a \<Rightarrow> approval_status_text (ap_status a)
              | None \<Rightarrow> if db_requiresHumanApproval body = Some True then lit ''required'' else lit ''not-required''),
            ai_kill_switch_status = (if blockedSwitches \<noteq> [] then lit ''blocked'' else lit ''clear''),
            ai_external_writes = writes,
            ai_result = result_text body,
            ai_evidence = evidence\<rparr> st)"


section \<open>The approval queue in use\<close>

text \<open>
  What every operation keeps: an action has one entry; the entries the program starts with stay
  at the end of the queue as they were; the others wait or are blocked, and nobody approved them.
\<close>

definition unapproved :: "approval \<Rightarrow> bool" where
  "unapproved a \<longleftrightarrow> ap_status a \<in> {Pending, Blocked_Off} \<and> ap_approvedBy a = None"

definition queue_inv :: "approval list \<Rightarrow> bool" where
  "queue_inv q \<longleftrightarrow> distinct (map ap_actionId q) \<and>
     (\<exists>added. q = added @ approvalQueue \<and> (\<forall>a \<in> set added. unapproved a))"

lemma queue_inv_initial: "queue_inv approvalQueue"
  by (simp add: queue_inv_def) (simp add: approvalQueue_def)

lemma find_Some_same:
  "List.find P xs = Some x \<Longrightarrow> x \<in> set xs \<and> P x"
  by (auto simp: find_Some_iff)

lemma find_unique:
  assumes "distinct (map f xs)" "x \<in> set xs"
  shows "List.find (\<lambda>y. f y = f x) xs = Some x"
  using assms by (induction xs) (auto simp: rev_image_eqI)

lemma ensure_keeps:
  assumes "ensureApprovalRequest now actionId title risk blocked st = (a, st')" "queue_inv (ct_queue st)"
  shows "queue_inv (ct_queue st')" "a \<in> set (ct_queue st')" "ap_actionId a = actionId"
    "\<exists>added. ct_queue st' = added @ ct_queue st" "ct_events st' = ct_events st" "ct_sequence st' = ct_sequence st"
proof -
  consider (found) "List.find (\<lambda>item. ap_actionId item = actionId) (ct_queue st) = Some a" "st' = st"
    | (added) "List.find (\<lambda>item. ap_actionId item = actionId) (ct_queue st) = None"
        "st' = st\<lparr>ct_queue := a # ct_queue st\<rparr>" "ap_actionId a = actionId" "unapproved a"
    using assms(1) by (auto simp: ensureApprovalRequest_def unapproved_def Let_def split: option.splits)
  then have "queue_inv (ct_queue st') \<and> a \<in> set (ct_queue st') \<and> ap_actionId a = actionId \<and>
    (\<exists>added. ct_queue st' = added @ ct_queue st) \<and> ct_events st' = ct_events st \<and> ct_sequence st' = ct_sequence st"
  proof cases
    case found
    with assms(2) show ?thesis using find_Some_same [OF found(1)] by simp
  next
    case added
    from added(1) have "actionId \<notin> set (map ap_actionId (ct_queue st))"
      by (auto simp: find_None_iff)
    moreover obtain old where "ct_queue st = old @ approvalQueue" "\<forall>a \<in> set old. unapproved a"
      using assms(2) by (auto simp: queue_inv_def)
    ultimately have "queue_inv (a # ct_queue st)"
      using assms(2) added(3,4) unfolding queue_inv_def by (intro conjI exI [of _ "a # old"]) auto
    with added show ?thesis by (simp add: exI [of _ "[a]"])
  qed
  then show "queue_inv (ct_queue st')" "a \<in> set (ct_queue st')" "ap_actionId a = actionId"
    "\<exists>added. ct_queue st' = added @ ct_queue st" "ct_events st' = ct_events st" "ct_sequence st' = ct_sequence st"
    by auto
qed

text \<open>Asking again finds the entry of the first request, whatever is asked for and whenever.\<close>

lemma ensure_again:
  assumes "ensureApprovalRequest now actionId title risk blocked st = (a, st')" "queue_inv (ct_queue st)"
    and "ct_queue st'' = added @ ct_queue st'" "queue_inv (ct_queue st'')"
  shows "ensureApprovalRequest now' actionId title' risk' blocked' st'' = (a, st'')"
proof -
  have "a \<in> set (ct_queue st'')" using ensure_keeps(2) [OF assms(1,2)] assms(3) by simp
  then have "List.find (\<lambda>item. ap_actionId item = ap_actionId a) (ct_queue st'') = Some a"
    using assms(4) by (intro find_unique) (simp_all add: queue_inv_def)
  then show ?thesis
    using ensure_keeps(3) [OF assms(1,2)] by (simp add: ensureApprovalRequest_def)
qed

lemma queue_approved:
  assumes "queue_inv q" "a \<in> set q" "ap_status a = Approved \<or> ap_approvedBy a \<noteq> None"
  shows "a \<in> set approvalQueue"
proof -
  obtain added where "q = added @ approvalQueue" "\<forall>a \<in> set added. unapproved a"
    using assms(1) by (auto simp: queue_inv_def)
  moreover have "\<not> unapproved a" using assms(3) by (auto simp: unapproved_def)
  ultimately show ?thesis using assms(2) by auto
qed

section \<open>Audit events in use\<close>

definition control_results :: "jstr list" where
  "control_results =
     map lit [''unknown_action'', ''blocked_by_kill_switch'', ''queued_for_approval'', ''simulated_only'',
       ''invalid_json'', ''blocked'', ''approval_required'', ''allowed'']"

text \<open>The numbers of the events of a log, the newest first.\<close>

definition event_number :: "printer \<Rightarrow> audit_event \<Rightarrow> nat \<Rightarrow> bool" where
  "event_number pr e n \<longleftrightarrow> (\<exists>now. ae_event_id e = event_id_of pr now n)"

definition events_inv :: "printer \<Rightarrow> nat \<Rightarrow> audit_event list \<Rightarrow> bool" where
  "events_inv pr top_number es \<longleftrightarrow>
     length es \<le> maxEvents \<and> (\<forall>e \<in> set es. \<not> ae_external_writes e \<and> ae_result e \<in> set control_results) \<and>
     (\<exists>ns. list_all2 (event_number pr) es ns \<and> sorted_wrt (>) ns \<and> (\<forall>n \<in> set ns. n \<le> top_number))"

lemma events_inv_Nil [simp]: "events_inv pr n []"
  by (simp add: events_inv_def)

lemma record_keeps:
  assumes "events_inv pr (ct_sequence st) (ct_events st)" "\<not> ai_external_writes input"
    and "ai_result input \<in> set control_results"
    and "recordAuditEvent pr now input st = (e, st')"
  shows "events_inv pr (ct_sequence st') (ct_events st')" "ct_queue st' = ct_queue st"
    "ct_events st' = take maxEvents (e # ct_events st)" "ct_sequence st' = ct_sequence st + 1"
    "ae_target e = js_or (ai_target input) (JText ''unknown'')"
proof -
  obtain ns where ns: "list_all2 (event_number pr) (ct_events st) ns" "sorted_wrt (>) ns"
      "\<forall>n \<in> set ns. n \<le> ct_sequence st"
    using assms(1) by (auto simp: events_inv_def)
  let ?n = "ct_sequence st + 1"
  have nonempty: "ai_result input \<noteq> []" using assms(3) by (auto simp: control_results_def lit_def)
  have e: "event_number pr e ?n" "\<not> ae_external_writes e" "ae_result e \<in> set control_results"
    "st' = st\<lparr>ct_sequence := ?n, ct_events := take maxEvents (e # ct_events st)\<rparr>"
    "ae_target e = js_or (ai_target input) (JText ''unknown'')"
    using assms(2-4) nonempty by (auto simp: recordAuditEvent_def event_number_def or_text_def Let_def)
  have "list_all2 (event_number pr) (e # ct_events st) (?n # ns)" "sorted_wrt (>) (?n # ns)"
    using e(1) ns by (auto simp: less_Suc_eq_le)
  then have "list_all2 (event_number pr) (take maxEvents (e # ct_events st)) (take maxEvents (?n # ns))"
    "sorted_wrt (>) (take maxEvents (?n # ns))"
    by (blast intro: list_all2_takeI sorted_wrt_take)+
  moreover have "\<forall>k \<in> set (take maxEvents (?n # ns)). k \<le> ?n"
    using ns(3) by (fastforce dest!: in_set_takeD)
  moreover have "\<forall>x \<in> set (take maxEvents (e # ct_events st)). \<not> ae_external_writes x \<and> ae_result x \<in> set control_results"
    using e(2,3) assms(1) by (auto simp: events_inv_def dest!: in_set_takeD)
  ultimately show "events_inv pr (ct_sequence st') (ct_events st')"
    unfolding events_inv_def e(4) by (intro conjI exI [of _ "take maxEvents (?n # ns)"]) simp_all
  show "ct_queue st' = ct_queue st" "ct_events st' = take maxEvents (e # ct_events st)"
    "ct_sequence st' = ct_sequence st + 1" "ae_target e = js_or (ai_target input) (JText ''unknown'')"
    using e(4,5) by simp_all
qed

lemma results_known: "events_inv pr n es \<Longrightarrow> e \<in> set es \<Longrightarrow> ae_result e \<notin> set object_prototype_keys"
proof -
  have "list_all (\<lambda>r. r \<notin> set object_prototype_keys) control_results"
    by (simp add: control_results_def object_prototype_keys_def)
  then show "events_inv pr n es \<Longrightarrow> e \<in> set es \<Longrightarrow> ae_result e \<notin> set object_prototype_keys"
    unfolding events_inv_def list_all_iff by blast
qed

text \<open>The number at the end of an identifier can be read back, so identifiers are distinct.\<close>

lemma decimal_no_dash: "0x2D \<notin> set (decimal n)"
  using decimal_digits [of n] by (auto simp: is_digit_def)

lemma event_id_number: "event_id_of pr now n = event_id_of pr now' m \<Longrightarrow> n = m"
proof -
  have r: "takeWhile (\<lambda>c. c \<noteq> 0x2D) (rev (event_id_of pr t k)) = rev (decimal k)" for t k
  proof -
    have "rev (event_id_of pr t k) = rev (decimal k) @ 0x2D # rev (lit ''audit-'' @ text_of pr (JInt t))"
      by (simp add: event_id_of_def lit_def)
    moreover have "\<forall>c \<in> set (rev (decimal k)). c \<noteq> 0x2D" using decimal_no_dash [of k] by auto
    ultimately show ?thesis by (simp add: takeWhile_append takeWhile_eq_all_conv del: set_rev)
  qed
  assume "event_id_of pr now n = event_id_of pr now' m"
  then have "rev (decimal n) = rev (decimal m)" by (metis r)
  then show "n = m" by (simp add: decimal_inject)
qed

lemma list_all2_member: "list_all2 P xs ys \<Longrightarrow> x \<in> set xs \<Longrightarrow> \<exists>y \<in> set ys. P x y"
  by (induction rule: list_all2_induct) auto

lemma events_distinct: "events_inv pr n es \<Longrightarrow> distinct (map ae_event_id es)"
proof -
  assume "events_inv pr n es"
  then obtain ns where "list_all2 (event_number pr) es ns" "sorted_wrt (>) ns" by (auto simp: events_inv_def)
  then show "distinct (map ae_event_id es)"
  proof (induction rule: list_all2_induct)
    case (Cons e es k ns)
    have "ae_event_id e \<noteq> ae_event_id x" if x: "x \<in> set es" for x
    proof -
      obtain m where "m \<in> set ns" "event_number pr x m"
        using list_all2_member [OF Cons.hyps(2) x] by blast
      moreover from this(1) have "m < k" using Cons.prems by auto
      ultimately show ?thesis
        using Cons.hyps(1) unfolding event_number_def by (metis event_id_number less_irrefl)
    qed
    with Cons show ?case by auto
  qed simp
qed


section \<open>Totals\<close>

interpretation approvals: tally "\<lambda>totals item. bump (approval_status_text (ap_status item)) totals"
  "\<lambda>item. Some (approval_status_text (ap_status item))"
  by unfold_locales simp_all

interpretation results: tally "\<lambda>totals item. bump (ae_result item) totals" "\<lambda>item. Some (ae_result item)"
  by unfold_locales simp_all

lemma approval_status_text_inject: "approval_status_text s = approval_status_text t \<longleftrightarrow> s = t"
  by (cases s; cases t; simp)

lemma approval_totals:
  "count_of (summarizeApprovals q) (approval_status_text s) = length (filter (\<lambda>a. ap_status a = s) q)"
  "total (summarizeApprovals q) = length q"
proof -
  have "count_of [(lit ''pending'', 0), (lit ''approved'', 0), (lit ''rejected'', 0), (lit ''blocked'', 0)] k = 0" for k
    by (simp add: count_of_def)
  then show "count_of (summarizeApprovals q) (approval_status_text s) = length (filter (\<lambda>a. ap_status a = s) q)"
    by (simp add: summarizeApprovals_def approvals.foldl_counts approval_status_text_inject)
  show "total (summarizeApprovals q) = length q"
    by (simp add: summarizeApprovals_def approvals.foldl_total) (simp add: total_def)
qed

lemma event_totals:
  "count_of (summarizeEvents es) r = length (filter (\<lambda>e. ae_result e = r) es)"
  "total (summarizeEvents es) = length es"
  by (simp_all add: summarizeEvents_def results.run_counts results.run_total)

section \<open>What a dry run answers\<close>

lemma getAction_Some:
  "getAction v = Some a \<Longrightarrow> a \<in> set actions \<and> v = JStr (ca_id a)"
  by (auto simp: getAction_def find_Some_iff)

lemma actions_gated: "a \<in> set actions \<Longrightarrow> ca_requiredSwitches a \<noteq> [] \<Longrightarrow> ca_requiresApproval a"
proof -
  have "list_all (\<lambda>a. ca_requiredSwitches a \<noteq> [] \<longrightarrow> ca_requiresApproval a) actions"
    by (simp add: actions_def action_of_def)
  then show "a \<in> set actions \<Longrightarrow> ca_requiredSwitches a \<noteq> [] \<Longrightarrow> ca_requiresApproval a"
    by (simp add: list_all_iff)
qed

text \<open>Every switch an action requires exists, so none is passed over as unknown.\<close>

lemma required_switches_exist:
  assumes "a \<in> set actions" "n \<in> set (ca_requiredSwitches a)"
  shows "\<exists>s \<in> set (switches pe). getSwitch pe n = Some s \<and> ks_id s = n"
proof -
  have "list_all (\<lambda>a. list_all (\<lambda>n. n \<in> {lit ''customer-messaging'', lit ''cloud-mutation''})
      (ca_requiredSwitches a)) actions"
    by (simp add: actions_def action_of_def)
  then have "n \<in> {lit ''customer-messaging'', lit ''cloud-mutation''}"
    using assms by (simp add: list_all_iff)
  then obtain s where s: "getSwitch pe n = Some s"
    by (auto simp: getSwitch_def switches_def kill_switch_of_def)
  then show ?thesis by (auto simp: getSwitch_def find_Some_iff)
qed

lemma switch_check_iff:
  assumes "\<forall>n \<in> set ns. \<exists>s. getSwitch pe n = Some s"
  shows "sk_allowed (evaluateRequiredSwitches pe ns) \<longleftrightarrow> (\<forall>n \<in> set ns. \<forall>s. getSwitch pe n = Some s \<longrightarrow> ks_enabled s)"
    "sk_blocked (evaluateRequiredSwitches pe ns) = [] \<longleftrightarrow> sk_allowed (evaluateRequiredSwitches pe ns)"
  using assms
  by (auto simp: evaluateRequiredSwitches_def Let_def filter_empty_conv List.map_filter_def)

text \<open>The two shapes of an answer, for an action the table has and for any other value.\<close>

lemma dry_run_cases:
  assumes "createDryRunResult pe now v st = (r, st')"
  obtains (unknown) "getAction v = None" "st' = st" "dr_status r = 404"
      "db_error (dr_body r) = Some (lit ''unknown_action'')" "db_result (dr_body r) = None"
      "db_externalWrites (dr_body r) = None"
  | (known) action a check where "getAction v = Some action" "check = evaluateRequiredSwitches pe (ca_requiredSwitches action)"
      "if ca_requiresApproval action
       then \<exists>e. a = Some e \<and> ensureApprovalRequest now (ca_id action) (ca_title action) (ca_risk action)
              (sk_blocked check) st = (e, st')
       else a = None \<and> st' = st"
      "db_error (dr_body r) = None" "db_externalWrites (dr_body r) = Some False"
      "db_requiresHumanApproval (dr_body r) = Some True" "body_approval (dr_body r) = a"
      "dr_status r = (if sk_allowed check \<and> ca_requiresApproval action then 202 else 200)"
      "db_result (dr_body r) = Some (lit (if \<not> sk_allowed check then ''blocked_by_kill_switch''
         else if ca_requiresApproval action then ''queued_for_approval'' else ''simulated_only''))"
proof (cases "getAction v")
  case None
  with assms show thesis by (intro unknown) (auto simp: createDryRunResult_def)
next
  case (Some action)
  define check where "check = evaluateRequiredSwitches pe (ca_requiredSwitches action)"
  obtain e st1 where e: "ensureApprovalRequest now (ca_id action) (ca_title action) (ca_risk action)
      (sk_blocked check) st = (e, st1)" by force
  show thesis
  proof (cases "ca_requiresApproval action")
    case True
    with Some assms e have "st' = st1" "dr_status r = (if sk_allowed check then 202 else 200)"
      "body_approval (dr_body r) = Some e" "db_error (dr_body r) = None" "db_externalWrites (dr_body r) = Some False"
      "db_requiresHumanApproval (dr_body r) = Some True"
      "db_result (dr_body r) = Some (lit (if \<not> sk_allowed check then ''blocked_by_kill_switch'' else ''queued_for_approval''))"
      by (auto simp: createDryRunResult_def check_def [symmetric] known_result_def body_approval_def Let_def
          split: if_splits)
    with True e show thesis by (intro known [OF Some check_def, of "Some e"]) simp_all
  next
    case False
    with Some assms have "st' = st" "dr_status r = 200"
      "body_approval (dr_body r) = None" "db_error (dr_body r) = None" "db_externalWrites (dr_body r) = Some False"
      "db_requiresHumanApproval (dr_body r) = Some True"
      "db_result (dr_body r) = Some (lit (if \<not> sk_allowed check then ''blocked_by_kill_switch'' else ''simulated_only''))"
      by (auto simp: createDryRunResult_def check_def [symmetric] known_result_def body_approval_def Let_def
          split: if_splits)
    with False show thesis by (intro known [OF Some check_def, of None]) simp_all
  qed
qed

lemma dry_run_keeps:
  assumes "createDryRunResult pe now v st = (r, st')" "queue_inv (ct_queue st)"
  shows "queue_inv (ct_queue st') \<and> ct_events st' = ct_events st \<and> ct_sequence st' = ct_sequence st \<and>
    db_externalWrites (dr_body r) \<noteq> Some True"
  using assms(1)
proof (cases rule: dry_run_cases)
  case unknown
  with assms(2) show ?thesis by simp
next
  case (known action a check)
  with assms(2) ensure_keeps [OF _ assms(2)] show ?thesis by (auto split: if_splits)
qed

lemma dry_run_grows:
  assumes "createDryRunResult pe now v st = (r, st')" "queue_inv (ct_queue st)"
  shows "\<exists>added. ct_queue st' = added @ ct_queue st"
  using assms(1)
proof (cases rule: dry_run_cases)
  case (known action a check)
  with assms(2) ensure_keeps(4) [OF _ assms(2)] show ?thesis by (auto split: if_splits)
qed simp

lemma dry_run_result_known:
  assumes "createDryRunResult pe now v st = (r, st')"
  shows "result_text (dr_body r) \<in> set control_results"
  using assms
proof (cases rule: dry_run_cases)
  case unknown
  then show ?thesis by (simp add: result_text_def or_text_def control_results_def)
next
  case (known action a check)
  then show ?thesis by (simp add: result_text_def or_text_def control_results_def)
qed

end
