(* ===== verification/ControlServer.thy ===== *)
theory ControlServer
  imports ControlQueue
begin

text \<open>
  The request handler of the local control API (\<open>services/dev-control-api/server.mjs\<close>): the
  bearer token every \<open>/api/\<close> route asks for, and the routes that read or write the approval queue
  and the audit log, with the dry run of the Hermes inbox. The answer of any other route is a
  parameter; none of them writes to the queue or the log.
\<close>

section \<open>Requests and answers\<close>

text \<open>
  The path is that of the parsed URL, header names are in lower case, and the body is what
  \<open>readJson\<close> returns or raises.
\<close>

record control_call =
  cc_method :: jstr
  cc_path :: jstr
  cc_headers :: "(jstr, jstr) dict"
  cc_body :: "jsval result"
  cc_now :: time

record control_answer =
  cn_status :: nat
  cn_headers :: "(jstr, jstr) dict"
  cn_body :: jsval

definition allowedOrigins :: "jstr list" where
  "allowedOrigins = [lit ''http://localhost:8710'', lit ''http://127.0.0.1:8710'']"

definition getCorsOrigin :: "control_call \<Rightarrow> jstr option" where
  "getCorsOrigin call =
     (case dict_get (cc_headers call) (lit ''origin'') of
        None \<Rightarrow> None
      | Some origin \<Rightarrow> if origin \<in> set allowedOrigins then Some origin else None)"

definition sendJson :: "control_call \<Rightarrow> nat \<Rightarrow> jsval \<Rightarrow> (jstr, jstr) dict \<Rightarrow> control_answer" where
  "sendJson call status body extraHeaders =
     (let headers = dict_spread
            [(lit ''content-type'', lit ''application/json; charset=utf-8''),
             (lit ''access-control-allow-methods'', lit ''GET,POST,OPTIONS''),
             (lit ''access-control-allow-headers'', lit ''authorization,content-type,idempotency-key''),
             (lit ''access-control-expose-headers'', lit ''idempotency-replayed''),
             (lit ''cache-control'', lit ''no-store''), (lit ''vary'', lit ''Origin'')] extraHeaders
      in \<lparr>cn_status = status,
          cn_headers = (case getCorsOrigin call of
             None \<Rightarrow> headers | Some origin \<Rightarrow> dict_set (lit ''access-control-allow-origin'') origin headers),
          cn_body = body\<rparr>)"

section \<open>The printed tables\<close>

definition texts_json :: "jstr list \<Rightarrow> jsval" where
  "texts_json ss = JArr (map JStr ss)"

definition switch_json :: "kill_switch \<Rightarrow> jsval" where
  "switch_json s = JObj
     [(lit ''id'', JStr (ks_id s)), (lit ''title'', JStr (ks_title s)), (lit ''env'', JStr (ks_env s)),
      (lit ''enabled'', JBool (ks_enabled s)), (lit ''description'', JStr (ks_description s))]"

definition gate_json :: "control_gate \<Rightarrow> jsval" where
  "gate_json g = JObj
     [(lit ''id'', JStr (cg_id g)), (lit ''title'', JStr (cg_title g)), (lit ''state'', JStr (cg_state g)),
      (lit ''description'', JStr (cg_description g))]"

definition action_json :: "control_action \<Rightarrow> jsval" where
  "action_json a = JObj
     ([(lit ''id'', JStr (ca_id a)), (lit ''title'', JStr (ca_title a)),
       (lit ''description'', JStr (ca_description a)), (lit ''risk'', JStr (ca_risk a)),
       (lit ''mode'', JStr (ca_mode a))] @
      (if ca_requiresApproval a then [(lit ''requiresApproval'', JBool True)] else []) @
      (if ca_requiredSwitches a \<noteq> [] then [(lit ''requiredSwitches'', texts_json (ca_requiredSwitches a))] else []))"

definition approval_json :: "approval \<Rightarrow> jsval" where
  "approval_json a = JObj
     [(lit ''id'', JStr (ap_id a)), (lit ''source'', JStr (ap_source a)), (lit ''actionId'', JStr (ap_actionId a)),
      (lit ''action'', JStr (ap_action a)), (lit ''riskLevel'', JStr (ap_riskLevel a)),
      (lit ''status'', JStr (approval_status_text (ap_status a))),
      (lit ''requestedBy'', JStr (ap_requestedBy a)), (lit ''approvedBy'', opt_text (ap_approvedBy a)),
      (lit ''requestedAt'', JStr (ap_requestedAt a)), (lit ''reason'', JStr (ap_reason a)),
      (lit ''evidence'', texts_json (ap_evidence a))]"

definition event_json :: "audit_event \<Rightarrow> jsval" where
  "event_json e = JObj
     [(lit ''event_id'', JStr (ae_event_id e)), (lit ''timestamp'', JStr (ae_timestamp e)),
      (lit ''actor'', JStr (ae_actor e)), (lit ''source'', JStr (ae_source e)),
      (lit ''action'', JStr (ae_action e)), (lit ''target'', ae_target e),
      (lit ''risk_level'', JStr (ae_risk_level e)), (lit ''approval_status'', JStr (ae_approval_status e)),
      (lit ''kill_switch_status'', JStr (ae_kill_switch_status e)),
      (lit ''external_writes'', JBool (ae_external_writes e)), (lit ''result'', JStr (ae_result e)),
      (lit ''evidence'', texts_json (ae_evidence e))]"

definition totals_json :: "(jstr, nat) dict \<Rightarrow> jsval" where
  "totals_json totals = JObj (map (\<lambda>(k, n). (k, JInt (int n))) totals)"

definition listApprovalQueue :: "control_state \<Rightarrow> jsval" where
  "listApprovalQueue st = JObj
     [(lit ''items'', JArr (map approval_json (ct_queue st))),
      (lit ''totals'', totals_json (summarizeApprovals (ct_queue st)))]"

definition listAuditEvents :: "control_state \<Rightarrow> jsval" where
  "listAuditEvents st = JObj
     [(lit ''items'', JArr (map event_json (ct_events st))),
      (lit ''totals'', totals_json (summarizeEvents (ct_events st)))]"

definition opt_field :: "string \<Rightarrow> ('a \<Rightarrow> jsval) \<Rightarrow> 'a option \<Rightarrow> jsobj" where
  "opt_field k f m = (case m of None \<Rightarrow> [] | Some x \<Rightarrow> [(lit k, f x)])"

definition dry_run_json :: "dry_run_body \<Rightarrow> jsval" where
  "dry_run_json b = JObj
     (opt_field ''error'' JStr (db_error b) @ [(lit ''actionId'', db_actionId b)] @
      opt_field ''result'' JStr (db_result b) @ opt_field ''externalWrites'' JBool (db_externalWrites b) @
      opt_field ''requiresHumanApproval'' JBool (db_requiresHumanApproval b) @
      opt_field ''approvalRequest'' (\<lambda>a. case a of None \<Rightarrow> JNull | Some a \<Rightarrow> approval_json a) (db_approvalRequest b) @
      opt_field ''blockedSwitches'' (\<lambda>ss. JArr (map (\<lambda>s. JObj
        [(lit ''id'', JStr (ks_id s)), (lit ''title'', JStr (ks_title s)), (lit ''env'', JStr (ks_env s))]) ss))
        (db_blockedSwitches b) @
      opt_field ''timestamp'' JStr (db_timestamp b))"

section \<open>Routes\<close>

text \<open>\<open>body.actionId\<close> raises for \<open>null\<close> and is undefined for any other value that is no object.\<close>

definition action_id_of :: "jsval result \<Rightarrow> jsval result" where
  "action_id_of body =
     (case body of
        Inl e \<Rightarrow> Inl e
      | Inr JNull \<Rightarrow> Inl (JsTypeError (lit ''Cannot read properties of null''))
      | Inr v \<Rightarrow> Inr (opt_prop v ''actionId''))"

definition invalid_json :: dry_run_body where
  "invalid_json =
     \<lparr>db_error = Some (lit ''invalid_json''), db_actionId = JUndef, db_result = None,
      db_externalWrites = Some False, db_requiresHumanApproval = Some True, db_approvalRequest = None,
      db_blockedSwitches = None, db_timestamp = None\<rparr>"

definition dry_run_route ::
  "process_env \<Rightarrow> printer \<Rightarrow> control_call \<Rightarrow> control_state \<Rightarrow> control_answer \<times> control_state" where
  "dry_run_route pe pr call st =
     (case action_id_of (cc_body call) of
        Inr actionId \<Rightarrow>
          let (r, st1) = createDryRunResult pe (cc_now call) actionId st;
              (_, st2) = recordDryRunAuditEvent pr (cc_now call) actionId (dr_body r) (dr_status r) st1
          in (sendJson call (dr_status r) (dry_run_json (dr_body r)) [], st2)
      | Inl _ \<Rightarrow>
          let (_, st') = recordDryRunAuditEvent pr (cc_now call) (JText ''invalid-json'') invalid_json 400 st
          in (sendJson call 400 (dry_run_json invalid_json) [], st'))"

definition jstr_of :: "jsval \<Rightarrow> jstr" where
  "jstr_of v = (case v of JStr s \<Rightarrow> s | _ \<Rightarrow> [])"

text \<open>The audit event of an inbox answer, whose fields but the target are texts, as an input.\<close>

definition audit_input_of :: "jsobj \<Rightarrow> audit_input" where
  "audit_input_of o1 =
     \<lparr>ai_actor = jstr_of (get o1 ''actor''), ai_source = jstr_of (get o1 ''source''),
      ai_action = jstr_of (get o1 ''action''), ai_target = get o1 ''target'',
      ai_risk_level = jstr_of (get o1 ''risk_level''), ai_approval_status = jstr_of (get o1 ''approval_status''),
      ai_kill_switch_status = jstr_of (get o1 ''kill_switch_status''),
      ai_external_writes = truthy (get o1 ''external_writes''), ai_result = jstr_of (get o1 ''result''),
      ai_evidence = (case get o1 ''evidence'' of JArr vs \<Rightarrow> List.map_filter str_of vs | _ \<Rightarrow> [])\<rparr>"

definition inbox_context_of :: "control_call \<Rightarrow> inbox_context" where
  "inbox_context_of call =
     \<lparr>ix_source = (case dict_get (cc_headers call) (lit ''x-sirinx-source'') of None \<Rightarrow> JUndef | Some s \<Rightarrow> JStr s),
      ix_signatureVerified = JBool False\<rparr>"

text \<open>The approval request of an answer that asks for one.\<close>

definition inbox_approval ::
  "time \<Rightarrow> inbox_response \<Rightarrow> control_state \<Rightarrow> approval option \<times> control_state" where
  "inbox_approval now r st =
     (case get (ir_body r) ''normalizedAction'' of
        JObj action \<Rightarrow>
          if ir_status r = 202
          then map_prod Some id (ensureApprovalRequest now (jstr_of (get action ''id''))
                 (lit ''Hermes inbox: '' @ jstr_of (get action ''id''))
                 (if truthy (get action ''productionWrite'') \<or> truthy (get action ''customerVisible'')
                  then lit ''high'' else lit ''medium'') [] st)
          else (None, st)
      | _ \<Rightarrow> (None, st))"

definition inbox_failed :: "js_error \<Rightarrow> jsval" where
  "inbox_failed e = JObj
     [(lit ''status'', JText ''invalid_request''), (lit ''error'', JText ''hermes_inbox_dry_run_failed''),
      (lit ''message'', opt_text (error_message e)), (lit ''externalWrites'', JBool False),
      (lit ''productionWrites'', JBool False), (lit ''customerVisible'', JBool False),
      (lit ''requiresHumanApproval'', JBool True)]"

definition inbox_route :: "printer \<Rightarrow> control_call \<Rightarrow> control_state \<Rightarrow> control_answer \<times> control_state" where
  "inbox_route pr call st =
     (case cc_body call of
        Inl e \<Rightarrow> (sendJson call 400 (inbox_failed e) [], st)
      | Inr body \<Rightarrow>
          let r = evaluateHermesInboxDryRun pr body (inbox_context_of call);
              (a, st1) = inbox_approval (cc_now call) r st;
              answer = ir_body r @ opt_field ''approvalRequest'' approval_json a;
              st2 = (case get (ir_body r) ''auditEvent'' of
                       JObj event \<Rightarrow> snd (recordAuditEvent pr (cc_now call) (audit_input_of event) st1)
                     | _ \<Rightarrow> st1)
          in (sendJson call (ir_status r) (JObj answer) [], st2))"

definition token_missing :: jsval where
  "token_missing = JObj
     [(lit ''status'', JText ''control_api_token_not_configured''),
      (lit ''error'', JText ''control_api_token_not_configured''),
      (lit ''hint'', JText ''Set CONTROL_API_TOKEN to use any /api/ route.''),
      (lit ''externalWrites'', JBool False), (lit ''requiresHumanApproval'', JBool True)]"

definition unauthorized :: "jstr option \<Rightarrow> jsval" where
  "unauthorized reason = JObj
     [(lit ''status'', JText ''control_api_unauthorized''), (lit ''error'', opt_text reason),
      (lit ''externalWrites'', JBool False), (lit ''requiresHumanApproval'', JBool True)]"

definition control_health :: jsval where
  "control_health = JObj
     [(lit ''status'', JText ''ok''), (lit ''service'', JText ''sirinx-dev-control-api''),
      (lit ''dryRunOnly'', JBool True), (lit ''externalWrites'', JBool False)]"

definition is_route :: "control_call \<Rightarrow> string \<Rightarrow> string \<Rightarrow> bool" where
  "is_route call verb path \<longleftrightarrow> cc_method call = lit verb \<and> cc_path call = lit path"

definition control_routes ::
  "process_env \<Rightarrow> printer \<Rightarrow> (control_call \<Rightarrow> control_answer) \<Rightarrow> control_call \<Rightarrow> control_state \<Rightarrow>
     control_answer \<times> control_state" where
  "control_routes pe pr other call st =
     (if is_route call ''GET'' ''/health'' then (sendJson call 200 control_health [], st)
      else if is_route call ''GET'' ''/api/gates''
      then (sendJson call 200 (JObj [(lit ''gates'', JArr (map gate_json gates))]) [], st)
      else if is_route call ''GET'' ''/api/actions''
      then (sendJson call 200 (JObj [(lit ''actions'', JArr (map action_json actions))]) [], st)
      else if is_route call ''GET'' ''/api/switches''
      then (sendJson call 200 (JObj [(lit ''switches'', JArr (map switch_json (switches pe)))]) [], st)
      else if is_route call ''GET'' ''/api/approval-queue'' then (sendJson call 200 (listApprovalQueue st) [], st)
      else if is_route call ''GET'' ''/api/audit-events'' then (sendJson call 200 (listAuditEvents st) [], st)
      else if is_route call ''POST'' ''/api/hermes-inbox/dry-run'' then inbox_route pr call st
      else if is_route call ''POST'' ''/api/dry-run'' then dry_run_route pe pr call st
      else (other call, st))"

definition control_request_answer ::
  "process_env \<Rightarrow> printer \<Rightarrow> (control_call \<Rightarrow> control_answer) \<Rightarrow> control_call \<Rightarrow> control_state \<Rightarrow>
     control_answer \<times> control_state" where
  "control_request_answer pe pr other call st =
     (if cc_method call = lit ''OPTIONS'' then (sendJson call 204 (JObj []) [], st)
      else let authorization = authorizeControlRequest (cc_headers call) pe in
      if starts_with (lit ''/api/'') (cc_path call) \<and> \<not> az_configured authorization
      then (sendJson call 503 token_missing [], st)
      else if starts_with (lit ''/api/'') (cc_path call) \<and> \<not> az_authorized authorization
      then (sendJson call 401 (unauthorized (az_reason authorization)) [(lit ''www-authenticate'', lit ''Bearer'')], st)
      else control_routes pe pr other call st)"

text \<open>The states a program can reach by answering requests, one after the other.\<close>

inductive control_reachable :: "process_env \<Rightarrow> printer \<Rightarrow> (control_call \<Rightarrow> control_answer) \<Rightarrow> control_state \<Rightarrow> bool"
  for pe pr other where
  started: "control_reachable pe pr other initial_control"
| answered: "control_reachable pe pr other st \<Longrightarrow>
     control_reachable pe pr other (snd (control_request_answer pe pr other call st))"


section \<open>What the routes keep\<close>

definition control_inv :: "printer \<Rightarrow> control_state \<Rightarrow> bool" where
  "control_inv pr st \<longleftrightarrow> queue_inv (ct_queue st) \<and> events_inv pr (ct_sequence st) (ct_events st)"

text \<open>The operations only put entries in front of the queue.\<close>

definition queue_grows :: "control_state \<Rightarrow> control_state \<Rightarrow> bool" where
  "queue_grows st st' \<longleftrightarrow> (\<exists>added. ct_queue st' = added @ ct_queue st)"

lemma grows_refl [simp]: "queue_grows st st"
  by (simp add: queue_grows_def)

lemma grows_trans: "queue_grows a b \<Longrightarrow> queue_grows b c \<Longrightarrow> queue_grows a c"
  unfolding queue_grows_def by (metis append_assoc)

lemma control_inv_initial: "control_inv pr initial_control"
  by (simp add: control_inv_def initial_control_def queue_inv_initial)

lemma recorded:
  assumes "control_inv pr st" "\<not> ai_external_writes input" "ai_result input \<in> set control_results"
  shows "control_inv pr (snd (recordAuditEvent pr now input st))" "queue_grows st (snd (recordAuditEvent pr now input st))"
    "ct_queue (snd (recordAuditEvent pr now input st)) = ct_queue st"
proof -
  obtain e st' where r: "recordAuditEvent pr now input st = (e, st')" by force
  have k: "events_inv pr (ct_sequence st) (ct_events st)" "queue_inv (ct_queue st)"
    using assms(1) by (simp_all add: control_inv_def)
  from record_keeps [OF k(1) assms(2,3) r] k(2) r
  show "control_inv pr (snd (recordAuditEvent pr now input st))" "queue_grows st (snd (recordAuditEvent pr now input st))"
    "ct_queue (snd (recordAuditEvent pr now input st)) = ct_queue st"
    by (simp_all add: control_inv_def queue_grows_def)
qed

lemma recorded_dry_run:
  fixes v :: jsval and now :: time and status :: nat
  assumes "control_inv pr st" "db_externalWrites body \<noteq> Some True" "result_text body \<in> set control_results"
  defines "st' \<equiv> snd (recordDryRunAuditEvent pr now v body status st)"
  shows "control_inv pr st'" "queue_grows st st'" "ct_queue st' = ct_queue st"
  using assms(2,3) unfolding st'_def recordDryRunAuditEvent_def Let_def
  by (auto intro!: recorded [OF assms(1)])

lemma dry_run_route_keeps:
  assumes "control_inv pr st"
  shows "control_inv pr (snd (dry_run_route pe pr call st)) \<and> queue_grows st (snd (dry_run_route pe pr call st))"
proof (cases "action_id_of (cc_body call)")
  case (Inl e)
  have "db_externalWrites invalid_json \<noteq> Some True" "result_text invalid_json \<in> set control_results"
    by (simp_all add: invalid_json_def result_text_def or_text_def control_results_def)
  from recorded_dry_run [OF assms this] Inl show ?thesis
    by (simp add: dry_run_route_def split_beta)
next
  case (Inr v)
  obtain r st1 where r: "createDryRunResult pe (cc_now call) v st = (r, st1)" by force
  have "control_inv pr st1" "db_externalWrites (dr_body r) \<noteq> Some True" "queue_grows st st1"
    using dry_run_keeps [OF r] dry_run_grows [OF r] assms by (simp_all add: control_inv_def queue_grows_def)
  with recorded_dry_run [OF this(1,2) dry_run_result_known [OF r]] Inr r show ?thesis
    by (auto simp: dry_run_route_def split_beta intro: grows_trans)
qed

section \<open>What the inbox route does\<close>

lemma inbox_answer_fields:
  obtains (refused) "get (ir_body (evaluateHermesInboxDryRun pr body context)) ''normalizedAction'' = JUndef"
      "get (ir_body (evaluateHermesInboxDryRun pr body context)) ''auditEvent'' = JUndef"
  | (decided) n d where "evaluateHermesInboxDryRun pr body context = decisionAnswer pr n d"
      "get (ir_body (decisionAnswer pr n d)) ''normalizedAction'' = JObj (in_action n)"
      "get (ir_body (decisionAnswer pr n d)) ''auditEvent'' =
         JObj (auditEventFor pr n d (statusForDecision (pd_decision d)))"
proof (cases rule: answer_cases [of pr body "context"])
  case (decided n)
  then show thesis
    by (intro that(2)) (auto simp: decisionAnswer_def Let_def)
qed (rule that(1); simp add: invalid_request_def authFailure_def phaseExecutionFailure_def captionRequired_def)+

lemma inbox_audit_input:
  "\<not> ai_external_writes (audit_input_of (auditEventFor pr n d status))"
  "ai_result (audit_input_of (auditEventFor pr n d status)) \<in> set control_results"
  by (simp_all add: audit_input_of_def auditEventFor_def jstr_of_def)
     (cases "pd_decision d"; simp add: control_results_def)

lemma inbox_approval_keeps:
  assumes "control_inv pr st"
  shows "control_inv pr (snd (inbox_approval now r st)) \<and> queue_grows st (snd (inbox_approval now r st))"
proof -
  have "control_inv pr (snd (ensureApprovalRequest now i title risk [] st)) \<and>
      queue_grows st (snd (ensureApprovalRequest now i title risk [] st))" for i title risk
  proof -
    obtain a st' where e: "ensureApprovalRequest now i title risk [] st = (a, st')" by force
    have q: "queue_inv (ct_queue st)" using assms by (simp add: control_inv_def)
    from ensure_keeps [OF e q] assms e show ?thesis by (simp add: control_inv_def queue_grows_def)
  qed
  with assms show ?thesis by (simp add: inbox_approval_def split: jsval.split)
qed

lemma inbox_route_keeps:
  assumes "control_inv pr st"
  shows "control_inv pr (snd (inbox_route pr call st)) \<and> queue_grows st (snd (inbox_route pr call st))"
proof (cases "cc_body call")
  case (Inl e)
  with assms show ?thesis by (simp add: inbox_route_def)
next
  case (Inr body)
  let ?r = "evaluateHermesInboxDryRun pr body (inbox_context_of call)"
  obtain a st1 where a: "inbox_approval (cc_now call) ?r st = (a, st1)" by force
  then have st1: "control_inv pr st1" "queue_grows st st1"
    using inbox_approval_keeps [OF assms, of "cc_now call" ?r] by simp_all
  show ?thesis
  proof (cases rule: inbox_answer_fields [of pr body "inbox_context_of call"])
    case refused
    with Inr a st1 show ?thesis by (simp add: inbox_route_def Let_def)
  next
    case (decided n d)
    let ?st2 = "snd (recordAuditEvent pr (cc_now call)
        (audit_input_of (auditEventFor pr n d (statusForDecision (pd_decision d)))) st1)"
    have keep: "control_inv pr ?st2" "queue_grows st1 ?st2"
      by (rule recorded [OF st1(1) inbox_audit_input])+
    from Inr a decided keep(1) grows_trans [OF st1(2) keep(2)] show ?thesis
      by (simp add: inbox_route_def Let_def)
  qed
qed

lemma answer_keeps:
  assumes "control_inv pr st"
  shows "control_inv pr (snd (control_request_answer pe pr other call st)) \<and>
    queue_grows st (snd (control_request_answer pe pr other call st))"
  using assms dry_run_route_keeps [OF assms] inbox_route_keeps [OF assms]
  by (simp add: control_request_answer_def control_routes_def Let_def)

lemma reachable_inv: "control_reachable pe pr other st \<Longrightarrow> control_inv pr st"
  by (induction rule: control_reachable.induct) (simp_all add: control_inv_initial answer_keeps)


section \<open>Properties\<close>

lemma routes_write:
  assumes "snd (control_routes pe pr other call st) \<noteq> st"
  shows "is_route call ''POST'' ''/api/hermes-inbox/dry-run'' \<or> is_route call ''POST'' ''/api/dry-run''"
  using assms by (auto simp: control_routes_def split: if_splits)

lemma send_body [simp]: "cn_body (sendJson call status body extra) = body" "cn_status (sendJson call status body extra) = status"
  by (simp_all add: sendJson_def Let_def)

text \<open>
  C14. Without the bearer token of the configuration an API request is answered 503 or 401 with a
  body that asks for a human, and changes nothing. What changes the queue or the log is a
  \<open>POST\<close> with the token to the dry run of an action or of the inbox.
\<close>

theorem control_requires_token:
  assumes "control_request_answer pe pr other call st = (r, st')"
  shows "(st' \<noteq> st \<longrightarrow>
      env_text pe ''CONTROL_API_TOKEN'' \<noteq> [] \<and>
      (\<exists>h. dict_get (cc_headers call) (lit ''authorization'') = Some h \<and>
         rx_capture True BEARER_PREFIX (RClass c_any 1 None) [REnd] h = Some (env_text pe ''CONTROL_API_TOKEN'')) \<and>
      (is_route call ''POST'' ''/api/hermes-inbox/dry-run'' \<or> is_route call ''POST'' ''/api/dry-run'')) \<and>
    (starts_with (lit ''/api/'') (cc_path call) \<and> cc_method call \<noteq> lit ''OPTIONS'' \<and>
       \<not> az_authorized (authorizeControlRequest (cc_headers call) pe) \<longrightarrow>
     cn_status r = (if env_text pe ''CONTROL_API_TOKEN'' = [] then 503 else 401) \<and> st' = st \<and>
     opt_prop (cn_body r) ''externalWrites'' = JBool False \<and>
     opt_prop (cn_body r) ''requiresHumanApproval'' = JBool True)"
proof -
  let ?a = "authorizeControlRequest (cc_headers call) pe"
  have configured: "az_configured ?a \<longleftrightarrow> env_text pe ''CONTROL_API_TOKEN'' \<noteq> []"
    by (simp add: authorizeControlRequest_def Let_def split: option.split)
  have api: "starts_with (lit ''/api/'') (cc_path call)"
    if "is_route call ''POST'' ''/api/hermes-inbox/dry-run'' \<or> is_route call ''POST'' ''/api/dry-run''"
    using that by (auto simp: is_route_def starts_with_def lit_def)
  have "az_authorized ?a \<and> (is_route call ''POST'' ''/api/hermes-inbox/dry-run'' \<or> is_route call ''POST'' ''/api/dry-run'')"
    if "st' \<noteq> st"
    using assms that routes_write [of pe pr other call st] api
    by (auto simp: control_request_answer_def Let_def split: if_splits)
  moreover have "cn_status r = (if env_text pe ''CONTROL_API_TOKEN'' = [] then 503 else 401) \<and> st' = st \<and>
     opt_prop (cn_body r) ''externalWrites'' = JBool False \<and>
     opt_prop (cn_body r) ''requiresHumanApproval'' = JBool True"
    if "starts_with (lit ''/api/'') (cc_path call)" "cc_method call \<noteq> lit ''OPTIONS''" "\<not> az_authorized ?a"
    using assms that configured
    by (auto simp: control_request_answer_def Let_def token_missing_def unauthorized_def split: if_splits)
  ultimately show ?thesis using authorized_token by blast
qed

definition sample_call :: "string \<Rightarrow> jsval \<Rightarrow> control_call" where
  "sample_call path body =
     \<lparr>cc_method = lit ''POST'', cc_path = lit path,
      cc_headers = [(lit ''authorization'', lit ''Bearer c'')], cc_body = Inr body, cc_now = 0\<rparr>"

definition no_answer :: "control_call \<Rightarrow> control_answer" where
  "no_answer call = sendJson call 404 (JObj []) []"

definition plain_printer :: printer where
  "plain_printer = \<lparr>pr_num = \<lambda>_. [], pr_date = \<lambda>_. []\<rparr>"

lemma sample_call_routed:
  "control_request_answer bot_env pr other (sample_call path body) st =
    control_routes bot_env pr other (sample_call path body) st"
proof -
  have "cc_method (sample_call path body) \<noteq> lit ''OPTIONS''"
    "authorizeControlRequest (cc_headers (sample_call path body)) bot_env =
       \<lparr>az_configured = True, az_authorized = True, az_reason = None\<rparr>"
    by (simp_all add: sample_call_def sample_authorized)
  then show ?thesis by (simp add: control_request_answer_def)
qed

lemma sample_dry_run_counts:
  "ct_sequence (snd (control_request_answer bot_env plain_printer no_answer
     (sample_call ''/api/dry-run'' (JObj [])) initial_control)) = 1"
  unfolding sample_call_routed
  by (simp add: control_routes_def is_route_def)
     (simp add: sample_call_def dry_run_route_def action_id_of_def createDryRunResult_def getAction_def
        actions_def action_of_def recordDryRunAuditEvent_def recordAuditEvent_def Let_def initial_control_def)

theorem control_requires_token_witness:
  "\<exists>r st'. control_request_answer bot_env plain_printer no_answer (sample_call ''/api/dry-run'' (JObj []))
       initial_control = (r, st') \<and> st' \<noteq> initial_control \<and> env_text bot_env ''CONTROL_API_TOKEN'' \<noteq> []"
proof -
  obtain r st' where run: "control_request_answer bot_env plain_printer no_answer
      (sample_call ''/api/dry-run'' (JObj [])) initial_control = (r, st')" by force
  with sample_dry_run_counts have "st' \<noteq> initial_control" by (auto simp: initial_control_def)
  with control_requires_token [OF run] run show ?thesis by blast
qed

text \<open>
  C15. No sequence of requests approves anything. In every state the program can reach an action
  has one approval request, the approved ones are those the program starts with, every other
  one waits or is blocked; the log has at most a hundred events with distinct identifiers, none
  of which claims an external write; and the totals count the queue and the log.
\<close>

theorem no_request_approves:
  assumes "control_reachable pe pr other st"
  shows "distinct (map ap_actionId (ct_queue st)) \<and>
    (\<forall>a \<in> set (ct_queue st). ap_status a = Approved \<or> ap_approvedBy a \<noteq> None \<longrightarrow> a \<in> set approvalQueue) \<and>
    length (ct_events st) \<le> maxEvents \<and> distinct (map ae_event_id (ct_events st)) \<and>
    (\<forall>e \<in> set (ct_events st). \<not> ae_external_writes e) \<and>
    (\<forall>s. count_of (summarizeApprovals (ct_queue st)) (approval_status_text s) =
       length (filter (\<lambda>a. ap_status a = s) (ct_queue st))) \<and>
    total (summarizeApprovals (ct_queue st)) = length (ct_queue st) \<and>
    total (summarizeEvents (ct_events st)) = length (ct_events st)"
proof -
  have q: "queue_inv (ct_queue st)" and e: "events_inv pr (ct_sequence st) (ct_events st)"
    using reachable_inv [OF assms] by (simp_all add: control_inv_def)
  have "distinct (map ap_actionId (ct_queue st))" using q by (simp add: queue_inv_def)
  moreover have "length (ct_events st) \<le> maxEvents" "\<forall>x \<in> set (ct_events st). \<not> ae_external_writes x"
    using e by (auto simp: events_inv_def)
  ultimately show ?thesis
    using queue_approved [OF q] events_distinct [OF e] approval_totals event_totals by blast
qed

theorem no_request_approves_witness:
  "length (ct_events (snd (control_request_answer bot_env plain_printer no_answer
     (sample_call ''/api/dry-run'' (JObj [])) initial_control))) \<le> maxEvents"
  using no_request_approves [OF control_reachable.answered [OF control_reachable.started
      [of bot_env plain_printer no_answer]], of "sample_call ''/api/dry-run'' (JObj [])"] by blast

text \<open>
  The first request for an action stands. Whatever is asked for the same action later, from
  whatever route and with whatever switches, the answer is the entry of that first request,
  unchanged by all the requests in between.
\<close>

theorem first_request_stands:
  assumes "control_reachable pe pr other st" and "a \<in> set (ct_queue st)"
  shows "ensureApprovalRequest now (ap_actionId a) title risk blocked
      (foldl (\<lambda>s call. snd (control_request_answer pe pr other call s)) st calls) =
    (a, foldl (\<lambda>s call. snd (control_request_answer pe pr other call s)) st calls)"
proof -
  let ?run = "foldl (\<lambda>s call. snd (control_request_answer pe pr other call s))"
  have "control_inv pr (?run s calls) \<and> queue_grows s (?run s calls)" if "control_inv pr s" for s
    using that
  proof (induction calls arbitrary: s)
    case (Cons call calls)
    have "control_inv pr (snd (control_request_answer pe pr other call s))"
      "queue_grows s (snd (control_request_answer pe pr other call s))"
      using answer_keeps [OF Cons.prems] by blast+
    with Cons.IH [of "snd (control_request_answer pe pr other call s)"] grows_trans show ?case by auto
  qed simp
  from this [OF reachable_inv [OF assms(1)]] have "queue_inv (ct_queue (?run st calls))" "a \<in> set (ct_queue (?run st calls))"
    using assms(2) by (auto simp: control_inv_def queue_grows_def)
  then have "List.find (\<lambda>item. ap_actionId item = ap_actionId a) (ct_queue (?run st calls)) = Some a"
    by (intro find_unique) (simp_all add: queue_inv_def)
  then show ?thesis by (simp add: ensureApprovalRequest_def)
qed

lemma seeded_adapter:
  "approvalQueue ! 3 \<in> set approvalQueue" "ap_status (approvalQueue ! 3) = Blocked_Off"
  "ap_actionId (approvalQueue ! 3) = lit ''external-adapter-smoke''"
  by (simp_all add: approvalQueue_def)

lemma seeded_baseline:
  "approvalQueue ! 1 \<in> set approvalQueue" "ap_status (approvalQueue ! 1) = Approved"
  "ap_approvedBy (approvalQueue ! 1) = Some (lit ''operator'')"
  "ap_actionId (approvalQueue ! 1) = lit ''baseline-check''"
  by (simp_all add: approvalQueue_def)

lemma distinct_actions: "distinct (map ca_id actions)"
  by (simp add: actions_def action_of_def)

lemma distinct_switches: "distinct (map ks_id (switches pe))"
  by (simp add: switches_def kill_switch_of_def)

lemma getSwitch_iff: "getSwitch pe n = Some s \<longleftrightarrow> s \<in> set (switches pe) \<and> ks_id s = n"
proof
  show "getSwitch pe n = Some s \<Longrightarrow> s \<in> set (switches pe) \<and> ks_id s = n"
    using find_Some_same [of "\<lambda>s. ks_id s = n"] by (simp add: getSwitch_def)
  show "s \<in> set (switches pe) \<and> ks_id s = n \<Longrightarrow> getSwitch pe n = Some s"
    using find_unique [OF distinct_switches, of s pe] by (auto simp: getSwitch_def)
qed

lemma switches_allow:
  assumes "action \<in> set actions"
  shows "sk_allowed (evaluateRequiredSwitches pe (ca_requiredSwitches action)) \<longleftrightarrow>
    (\<forall>s \<in> set (switches pe). ks_id s \<in> set (ca_requiredSwitches action) \<longrightarrow> ks_enabled s)"
  using switch_check_iff(1) [of "ca_requiredSwitches action" pe] required_switches_exist [OF assms]
  by (auto simp: getSwitch_iff)

theorem first_request_stands_witness:
  "ap_status (approvalQueue ! 3) = Blocked_Off \<and>
    ensureApprovalRequest 0 (lit ''external-adapter-smoke'') [] [] [] initial_control =
      (approvalQueue ! 3, initial_control)"
  using first_request_stands [OF control_reachable.started [of bot_env plain_printer no_answer],
      of "approvalQueue ! 3" 0 "[]" "[]" "[]" "[]"] seeded_adapter
  by (simp add: initial_control_def)

text \<open>
  C22. The whole answer to a dry run, in every state the program can reach. A value that names no
  action gets 404 and \<open>unknown_action\<close> and changes nothing; no other value gets 404. For an action
  of the table the status is 202 if it requires approval and all its switches are on, and 200
  otherwise; the result is \<open>blocked_by_kill_switch\<close> if a switch it requires is off, otherwise
  \<open>queued_for_approval\<close> if it requires approval and \<open>simulated_only\<close> if it does not; no external
  write is claimed and a human is asked for. An action that requires approval, blocked or not,
  has its request in the queue and in the body, the one of the queue if there was one; any other
  action has no request in the body and changes nothing.
\<close>

theorem dry_run_answers:
  assumes "control_reachable pe pr other st" and "createDryRunResult pe now v st = (r, st')"
  shows "(dr_status r = 404 \<longleftrightarrow> (\<forall>action \<in> set actions. v \<noteq> JStr (ca_id action))) \<and>
    ((\<forall>action \<in> set actions. v \<noteq> JStr (ca_id action)) \<longrightarrow>
       db_error (dr_body r) = Some (lit ''unknown_action'') \<and> db_result (dr_body r) = None \<and> st' = st) \<and>
    db_externalWrites (dr_body r) \<noteq> Some True \<and>
    (\<forall>action \<in> set actions. v = JStr (ca_id action) \<longrightarrow>
       (let on = (\<forall>s \<in> set (switches pe). ks_id s \<in> set (ca_requiredSwitches action) \<longrightarrow> ks_enabled s);
            approve = ca_requiresApproval action
        in dr_status r = (if approve \<and> on then 202 else 200) \<and>
          db_result (dr_body r) = Some (lit (if \<not> on then ''blocked_by_kill_switch''
            else if approve then ''queued_for_approval'' else ''simulated_only'')) \<and>
          db_error (dr_body r) = None \<and> db_externalWrites (dr_body r) = Some False \<and>
          db_requiresHumanApproval (dr_body r) = Some True \<and>
          (if approve
           then \<exists>a \<in> set (ct_queue st'). ap_actionId a = ca_id action \<and> body_approval (dr_body r) = Some a \<and>
             (\<forall>e \<in> set (ct_queue st). ap_actionId e = ca_id action \<longrightarrow> a = e \<and> st' = st)
           else body_approval (dr_body r) = None \<and> st' = st)))"
proof -
  have q: "queue_inv (ct_queue st)" using reachable_inv [OF assms(1)] by (simp add: control_inv_def)
  from assms(2) show ?thesis
  proof (cases rule: dry_run_cases)
    case unknown
    then have "\<forall>action \<in> set actions. v \<noteq> JStr (ca_id action)"
      by (auto simp: getAction_def find_None_iff)
    with unknown show ?thesis by simp
  next
    case (known action a check)
    have action: "action \<in> set actions" "v = JStr (ca_id action)" using getAction_Some [OF known(1)] by simp_all
    have only: "x = action" if "x \<in> set actions" "v = JStr (ca_id x)" for x
      using that action distinct_actions by (auto simp: distinct_map inj_on_def)
    have on: "(\<forall>s \<in> set (switches pe). ks_id s \<in> set (ca_requiredSwitches action) \<longrightarrow> ks_enabled s) \<longleftrightarrow> sk_allowed check"
      unfolding known(2) by (rule switches_allow [OF action(1), symmetric])
    have kept: "e = x \<and> st' = st" if "ensureApprovalRequest now (ca_id action) (ca_title action) (ca_risk action)
        (sk_blocked check) st = (x, st')" "e \<in> set (ct_queue st)" "ap_actionId e = ca_id action" for e x
      using that find_unique [of ap_actionId "ct_queue st" e] q
      by (simp add: ensureApprovalRequest_def queue_inv_def)
    have "if ca_requiresApproval action
      then \<exists>x \<in> set (ct_queue st'). ap_actionId x = ca_id action \<and> body_approval (dr_body r) = Some x \<and>
        (\<forall>e \<in> set (ct_queue st). ap_actionId e = ca_id action \<longrightarrow> x = e \<and> st' = st)
      else body_approval (dr_body r) = None \<and> st' = st"
    proof (cases "ca_requiresApproval action")
      case True
      with known(3) obtain x where x: "a = Some x" "ensureApprovalRequest now (ca_id action) (ca_title action)
          (ca_risk action) (sk_blocked check) st = (x, st')" by auto
      have "x = e \<and> st' = st" if "e \<in> set (ct_queue st)" "ap_actionId e = ca_id action" for e
        using kept [OF x(2) that] by simp
      with True x known(7) ensure_keeps(2,3) [OF x(2) q] show ?thesis by simp
    qed (use known(3,7) in simp)
    with known(4-6,8,9) have "dr_status r \<noteq> 404" "db_externalWrites (dr_body r) \<noteq> Some True"
      "let on = (\<forall>s \<in> set (switches pe). ks_id s \<in> set (ca_requiredSwitches action) \<longrightarrow> ks_enabled s);
            approve = ca_requiresApproval action
        in dr_status r = (if approve \<and> on then 202 else 200) \<and>
          db_result (dr_body r) = Some (lit (if \<not> on then ''blocked_by_kill_switch''
            else if approve then ''queued_for_approval'' else ''simulated_only'')) \<and>
          db_error (dr_body r) = None \<and> db_externalWrites (dr_body r) = Some False \<and>
          db_requiresHumanApproval (dr_body r) = Some True \<and>
          (if approve
           then \<exists>a \<in> set (ct_queue st'). ap_actionId a = ca_id action \<and> body_approval (dr_body r) = Some a \<and>
             (\<forall>e \<in> set (ct_queue st). ap_actionId e = ca_id action \<longrightarrow> a = e \<and> st' = st)
           else body_approval (dr_body r) = None \<and> st' = st)"
      unfolding on Let_def by simp_all
    with only action show ?thesis by blast
  qed
qed


theorem dry_run_answers_witness:
  "dr_status (fst (createDryRunResult bot_env 0 (JText ''baseline-check'') initial_control)) \<noteq> 404 \<and>
   db_requiresHumanApproval (dr_body (fst (createDryRunResult bot_env 0 (JText ''baseline-check'') initial_control))) =
     Some True"
proof -
  obtain r st' where run: "createDryRunResult bot_env 0 (JText ''baseline-check'') initial_control = (r, st')" by force
  have "\<exists>action \<in> set actions. JText ''baseline-check'' = JStr (ca_id action)"
    by (simp add: actions_def action_of_def JText_def)
  with dry_run_answers [OF control_reachable.started [of bot_env plain_printer no_answer] run] run
  show ?thesis by auto
qed

text \<open>
  The block of a seeded request outlives its reason. With both switches of the adapter smoke
  test on, its dry run is answered as queued for approval in every state the program can reach,
  but the request in the answer is still the blocked one, so there is nothing to approve.
\<close>

theorem block_outlives_switch:
  assumes "control_reachable pe pr other st"
    and "envEnabled pe ''CUSTOMER_MESSAGE_SEND_ENABLED''" and "envEnabled pe ''CLOUDFLARE_MUTATION_ENABLED''"
  shows "\<exists>r. createDryRunResult pe now (JText ''external-adapter-smoke'') st = (r, st) \<and>
    dr_status r = 202 \<and> db_result (dr_body r) = Some (lit ''queued_for_approval'') \<and>
    body_approval (dr_body r) = Some (approvalQueue ! 3) \<and> ap_status (approvalQueue ! 3) = Blocked_Off"
proof -
  have q: "queue_inv (ct_queue st)" using reachable_inv [OF assms(1)] by (simp add: control_inv_def)
  obtain action where a: "getAction (JText ''external-adapter-smoke'') = Some action"
      "ca_id action = lit ''external-adapter-smoke''" "ca_requiresApproval action"
      "ca_requiredSwitches action = map lit [''customer-messaging'', ''cloud-mutation'']"
    by (simp add: getAction_def actions_def action_of_def JText_def)
  have "approvalQueue ! 3 \<in> set (ct_queue st)" using q seeded_adapter(1) by (auto simp: queue_inv_def)
  then have found: "ensureApprovalRequest now (ca_id action) t k b st = (approvalQueue ! 3, st)" for t k b
    using find_unique [of ap_actionId "ct_queue st" "approvalQueue ! 3"] q
    by (simp add: ensureApprovalRequest_def queue_inv_def a(2) seeded_adapter(3))
  have "sk_allowed (evaluateRequiredSwitches pe (ca_requiredSwitches action))"
    using assms(2,3)
    by (simp add: a(4) evaluateRequiredSwitches_def getSwitch_def switches_def kill_switch_of_def
        map_filter_simps Let_def)
  with a(1,3) found show ?thesis
    by (simp add: createDryRunResult_def Let_def known_result_def body_approval_def seeded_adapter(2))
qed

definition open_switches :: process_env where
  "open_switches =
     [(lit ''CUSTOMER_MESSAGE_SEND_ENABLED'', lit ''true''), (lit ''CLOUDFLARE_MUTATION_ENABLED'', lit ''true'')]"

theorem block_outlives_switch_witness:
  "\<exists>r. createDryRunResult open_switches 0 (JText ''external-adapter-smoke'') initial_control = (r, initial_control) \<and>
    dr_status r = 202"
  using block_outlives_switch [OF control_reachable.started [of open_switches plain_printer no_answer], of 0]
  by (auto simp: open_switches_def envEnabled_def)

text \<open>A request of the inbox that uses the name of a seeded approval for a message to customers.\<close>

definition borrowing_body :: "jstr \<Rightarrow> jsobj" where
  "borrowing_body t =
     [(lit ''source'', JStr (lit ''codex-local'')),
      (lit ''action'', JObj [(lit ''id'', JStr (lit ''baseline-check'')), (lit ''type'', JStr (lit ''telegram-send'')),
         (lit ''target'', JStr t), (lit ''readOnly'', JBool True)])]"

lemma borrowing_answer:
  assumes "trim t \<noteq> []" and "ix_source context = JUndef"
  shows "\<exists>n d. evaluateHermesInboxDryRun pr (JObj (borrowing_body t)) context = decisionAnswer pr n d \<and>
    pd_decision d = Approval_Required \<and> get (in_action n) ''id'' = JStr (lit ''baseline-check'')"
proof -
  let ?n = "\<lparr>in_requestId = lit ''baseline-check'', in_source = lit ''codex-local'', in_dryRun = True,
      in_action = inbox_action pr (borrowing_body t)
        [(lit ''id'', JStr (lit ''baseline-check'')), (lit ''type'', JStr (lit ''telegram-send'')),
         (lit ''target'', JStr t), (lit ''readOnly'', JBool True)]
        [] (lit ''baseline-check'') (lit ''telegram-send'') (JStr t) JNull\<rparr>"
  from assms have t: "t \<noteq> []" by (auto simp: trim_eq_Nil_iff)
  have "normalizeHermesInboxRequest pr (JObj (borrowing_body t)) context = Inr ?n"
    using assms t
    by (subst normalize_plain [where ty = "lit ''telegram-send''" and i = "lit ''baseline-check''" and t = t])
       (simp_all add: borrowing_body_def object_or_empty_def pickAttachments_def is_array_def
          pickImageRef_def pickTarget_def pickSource_def js_or_def trim_eq_Nil_iff trim_local)
  then have answer: "evaluateHermesInboxDryRun pr (JObj (borrowing_body t)) context =
      decisionAnswer pr ?n (inbox_decision pr (borrowing_body t) ?n)"
    by (simp add: evaluateHermesInboxDryRun_def LOCAL_SOURCES_def object_or_empty_def)
  let ?act = "in_action ?n"
  have a: "isExternalAction (normalizePolicyAction pr ?act)" and
    h: "hard_blocks pr (normalizePolicyAction pr ?act) = []"
    using assms t
    by (simp_all add: normalized_inbox_action policy_simps targetId_def borrowing_body_def)
  have "\<not> truthy (approvalMatches pr (normalizePolicyAction pr ?act) JNull)"
    by (simp add: truthy_approval_iff)
  with a h have "pd_decision (inbox_decision pr (borrowing_body t) ?n) = Approval_Required"
    by (simp add: inbox_decision_def decision_cases borrowing_body_def)
  with answer show ?thesis by (intro exI [of _ ?n]) auto
qed


text \<open>
  C36. The queue is keyed by the name of an action only, and a request of the inbox chooses its
  name. One that calls a message to any target \<open>baseline-check\<close> is answered 202 with the approval
  request of that name, in every state the program can reach: approved, by the operator.
\<close>

theorem inbox_borrows_approval:
  assumes "control_reachable pe pr other st" and "trim t \<noteq> []"
    and "cc_body call = Inr (JObj (borrowing_body t))"
    and "dict_get (cc_headers call) (lit ''x-sirinx-source'') = None"
  shows "\<exists>r st'. inbox_route pr call st = (r, st') \<and> cn_status r = 202 \<and> ct_queue st' = ct_queue st \<and>
    opt_prop (cn_body r) ''approvalRequest'' = approval_json (approvalQueue ! 1) \<and>
    ap_status (approvalQueue ! 1) = Approved \<and> ap_approvedBy (approvalQueue ! 1) = Some (lit ''operator'')"
proof -
  have q: "queue_inv (ct_queue st)" using reachable_inv [OF assms(1)] by (simp add: control_inv_def)
  have "approvalQueue ! 1 \<in> set (ct_queue st)" using q seeded_baseline(1) by (auto simp: queue_inv_def)
  then have found: "ensureApprovalRequest now (lit ''baseline-check'') n k b st = (approvalQueue ! 1, st)" for now n k b
    using find_unique [of ap_actionId "ct_queue st" "approvalQueue ! 1"] q
    by (simp add: ensureApprovalRequest_def queue_inv_def seeded_baseline(4) [simplified])
  obtain n d where e: "evaluateHermesInboxDryRun pr (JObj (borrowing_body t)) (inbox_context_of call) = decisionAnswer pr n d"
      "pd_decision d = Approval_Required" "get (in_action n) ''id'' = JStr (lit ''baseline-check'')"
    using borrowing_answer [OF assms(2), of "inbox_context_of call" pr] assms(4)
    by (fastforce simp: inbox_context_of_def)
  let ?b = "ir_body (decisionAnswer pr n d)"
  have fields: "get ?b ''normalizedAction'' = JObj (in_action n)" "ir_status (decisionAnswer pr n d) = 202"
    "get ?b ''auditEvent'' = JObj (auditEventFor pr n d 202)" "get ?b ''approvalRequest'' = JUndef"
    using e(2) by (simp_all add: decisionAnswer_def Let_def)
  have a: "inbox_approval (cc_now call) (decisionAnswer pr n d) st = (Some (approvalQueue ! 1), st)"
    by (simp add: inbox_approval_def fields e(3) jstr_of_def found [simplified])
  have inv: "control_inv pr st" using reachable_inv [OF assms(1)] .
  have "get (?b @ [(lit ''approvalRequest'', v)]) ''approvalRequest'' = v" for v
    by (simp add: decisionAnswer_def Let_def)
  then show ?thesis
    using recorded(3) [OF inv inbox_audit_input, of "cc_now call" pr n d 202]
    by (simp add: inbox_route_def assms(3) e(1) Let_def a fields opt_field_def seeded_baseline [simplified] getp_lit)
qed

theorem inbox_borrows_approval_witness:
  "\<exists>r st'. inbox_route plain_printer (sample_call ''/api/hermes-inbox/dry-run'' (JObj (borrowing_body (lit ''@customers''))))
       initial_control = (r, st') \<and> cn_status r = 202 \<and>
     opt_prop (cn_body r) ''approvalRequest'' = approval_json (approvalQueue ! 1)"
proof -
  have "trim (lit ''@customers'') \<noteq> []" by (simp add: trim_eq_Nil_iff lit_def is_space_def)
  from inbox_borrows_approval [OF control_reachable.started [of bot_env plain_printer no_answer] this,
      of "sample_call ''/api/hermes-inbox/dry-run'' (JObj (borrowing_body (lit ''@customers'')))"]
  show ?thesis by (auto simp: sample_call_def)
qed

end
