(* ===== verification/LeadScore.thy ===== *)
theory LeadScore
  imports JsConvert
begin

text \<open>
  The qualification of a lead (\<open>services/dev-control-api/src/lead-qualification.mjs\<close>): the
  monthly bill read from free text, the signals of interest and risk, the score with its
  reasons, and the lanes a lead is routed to. A lead is an object of a parsed body.
\<close>

section \<open>Signals\<close>

definition bill_unit :: "nat \<Rightarrow> bool" where
  "bill_unit c \<longleftrightarrow> is_digit c \<or> c = 0x2E"

text \<open>The text keeps its digits and points; a number that is not one counts as 0.\<close>

definition parseMonthlyBill :: "printer \<Rightarrow> jsval \<Rightarrow> rat" where
  "parseMonthlyBill pr v =
     (if v = JUndef \<or> v = JNull then 0
      else case string_number (filter bill_unit (text_of pr v)) of Fin q \<Rightarrow> q | _ \<Rightarrow> 0)"

definition or_empty :: "printer \<Rightarrow> jsval \<Rightarrow> jstr" where
  "or_empty pr v = text_of pr (js_or v (JStr []))"

definition includesAny :: "printer \<Rightarrow> jsval \<Rightarrow> jstr list \<Rightarrow> bool" where
  "includesAny pr v terms \<longleftrightarrow> list_ex (\<lambda>t. contains (to_lower (or_empty pr v)) t) terms"

definition hasContactChannel :: "jsobj \<Rightarrow> bool" where
  "hasContactChannel lead \<longleftrightarrow>
     truthy (get lead ''phone'') \<or> truthy (get lead ''email'') \<or> truthy (get lead ''lineUserId'')"

definition normalizeText :: "printer \<Rightarrow> jsval \<Rightarrow> jstr" where
  "normalizeText pr v = to_lower (trim (or_empty pr v))"

definition suspiciousPattern :: rx where
  "suspiciousPattern = RAlt (map (\<lambda>s. RText (lit s))
     [''bot'', ''crawler'', ''spider'', ''headless'', ''selenium'', ''playwright'', ''preview'', ''localhost'',
      ''127.0.0.1'', ''dummy'', ''sample'', ''testing'', ''test lead''])"

definition detectRiskFlags :: "printer \<Rightarrow> jsobj \<Rightarrow> string list" where
  "detectRiskFlags pr lead =
     (let fields = filter truthy (map (get lead)
            [''name'', ''message'', ''referrer'', ''landingPage'', ''utmCampaign'', ''utmContent'', ''notes''])
      in (if list_ex (\<lambda>v. rx_test True suspiciousPattern (text_of pr v)) fields
          then [''suspicious-pattern-detected''] else []) @
         (if \<not> hasContactChannel lead then [''missing-contact-channel''] else []) @
         (if normalizeText pr (get lead ''deviceType'') = lit ''unknown'' then [''unknown-device-type''] else []))"

text \<open>The last word is Thai for a power cut, the last of \<open>near_term\<close> for immediately.\<close>

definition battery_terms :: "jstr list" where
  "battery_terms = map lit [''hybrid'', ''battery'', ''bess'', ''ess'', ''backup'']"

definition near_term :: "jstr list" where
  "near_term = map lit [''now'', ''urgent'', ''this month''] @ [[0xE17, 0xE31, 0xE19, 0xE17, 0xE35]]"

definition wantsBackupOrBattery :: "printer \<Rightarrow> jsobj \<Rightarrow> bool" where
  "wantsBackupOrBattery pr lead \<longleftrightarrow>
     includesAny pr (get lead ''bessInterest'')
       (map lit [''yes'', ''true'', ''battery'', ''bess'', ''ess'', ''hybrid'', ''backup'']) \<or>
     includesAny pr (get lead ''systemType'') battery_terms \<or>
     includesAny pr (get lead ''interest'') battery_terms \<or>
     includesAny pr (get lead ''message'') (battery_terms @ [[0xE44, 0xE1F, 0xE14, 0xE31, 0xE1A]])"

record attribution =
  at_source :: jstr
  at_utmSource :: jstr
  at_utmMedium :: jstr
  at_utmCampaign :: jstr
  at_landingPage :: jstr
  at_referrer :: jstr
  at_deviceType :: jstr

definition attribution_of :: "printer \<Rightarrow> jsobj \<Rightarrow> attribution" where
  "attribution_of pr lead =
     \<lparr>at_source = normalizeText pr (js_or (get lead ''source'') (JText ''contact'')),
      at_utmSource = normalizeText pr (get lead ''utmSource''),
      at_utmMedium = normalizeText pr (get lead ''utmMedium''),
      at_utmCampaign = normalizeText pr (get lead ''utmCampaign''),
      at_landingPage = or_empty pr (get lead ''landingPage''),
      at_referrer = or_empty pr (get lead ''referrer''),
      at_deviceType = normalizeText pr (get lead ''deviceType'')\<rparr>"

definition contactChannelCount :: "jsobj \<Rightarrow> nat" where
  "contactChannelCount lead =
     length (filter truthy [get lead ''phone'', get lead ''email'', get lead ''lineUserId''])"

section \<open>The score\<close>

text \<open>A step adds points and gives its reason; a condition that fails gives no step.\<close>

definition step_if :: "bool \<Rightarrow> int \<Rightarrow> string \<Rightarrow> (int \<times> string) list" where
  "step_if c n reason = (if c then [(n, reason)] else [])"

definition bill_steps :: "rat \<Rightarrow> (int \<times> string) list" where
  "bill_steps monthlyBill =
     (if 10000 \<le> monthlyBill then [(35, ''High monthly bill supports priority sales review.'')]
      else if 6000 \<le> monthlyBill then [(28, ''Monthly bill fits mid/high residential solar package range.'')]
      else if 4000 \<le> monthlyBill then [(18, ''Monthly bill fits entry on-grid or small hybrid package range.'')]
      else if 0 < monthlyBill then [(8, ''Monthly bill is present but needs education-first sizing.'')]
      else [])"

definition signal_steps :: "printer \<Rightarrow> jsobj \<Rightarrow> (int \<times> string) list" where
  "signal_steps pr lead =
     (let a = attribution_of pr lead; channels = contactChannelCount lead; flags = detectRiskFlags pr lead in
      step_if (wantsBackupOrBattery pr lead) 22 ''Battery, BESS, hybrid, or backup intent is present.'' @
      step_if (at_source a = lit ''assessment'') 12 ''Lead came from assessment flow.'' @
      step_if (at_source a = lit ''partner'') 8 ''Partner source improves attribution trust.'' @
      step_if (truthy (get lead ''systemSize'')) 8 ''Lead includes a system-size signal.'' @
      (if 2 \<le> channels then [(10, ''Multiple contact channels are available.'')]
       else if channels = 1 then [(5, ''One contact channel is available.'')] else []) @
      step_if (includesAny pr (get lead ''timeline'') near_term) 10 ''Timeline suggests near-term buying intent.'' @
      step_if (at_utmSource a \<noteq> []) 6 ''UTM source is present for campaign attribution.'' @
      step_if (at_utmCampaign a \<noteq> []) 6 ''UTM campaign is present for funnel reporting.'' @
      step_if (at_referrer a \<noteq> [] \<and> at_referrer a \<noteq> lit ''direct'') 4 ''Referrer is present.'' @
      step_if (at_deviceType a \<in> set (map lit [''mobile'', ''desktop'', ''tablet''])) 3 ''Device type is known.'' @
      step_if (''missing-contact-channel'' \<in> set flags) (-25) ''No contact channel is available.'' @
      step_if (''unknown-device-type'' \<in> set flags) (-4) ''Device type is unknown.'' @
      step_if (''suspicious-pattern-detected'' \<in> set flags) (-35)
        ''Suspicious test, preview, bot, or local environment pattern detected.'')"

definition clamp_score :: "int \<Rightarrow> int" where
  "clamp_score n = max 0 (min 100 n)"

section \<open>Lanes\<close>

definition classifyPackageLane :: "rat \<Rightarrow> bool \<Rightarrow> string" where
  "classifyPackageLane monthlyBill wants =
     (if wants
      then if 16000 \<le> monthlyBill then ''hybrid-h20-engineered''
           else if 10000 \<le> monthlyBill then ''hybrid-h15-engineered''
           else if 6000 \<le> monthlyBill then ''hybrid-h10'' else ''hybrid-h5''
      else if 4000 \<le> monthlyBill then ''on-grid-og10'' else ''on-grid-og5'')"

definition classifyWorkflowLane :: "int \<Rightarrow> bool \<Rightarrow> string" where
  "classifyWorkflowLane score hasContact =
     (if \<not> hasContact then ''missing-contact-channel''
      else if 70 \<le> score then ''sales-engineering-review''
      else if 45 \<le> score then ''qualification-follow-up'' else ''nurture-and-education'')"

definition nextActionForLane :: "string \<Rightarrow> string" where
  "nextActionForLane lane =
     (if lane = ''sales-engineering-review''
      then ''Prepare site-survey checklist and engineer-reviewed proposal assumptions.''
      else if lane = ''qualification-follow-up''
      then ''Ask for bill photo, roof photo, phase type, backup expectation, and daytime/nighttime usage split.''
      else if lane = ''nurture-and-education''
      then ''Send education-first guidance; avoid ROI claims until bill/load data is clearer.''
      else if lane = ''missing-contact-channel''
      then ''Request at least one valid contact channel before CRM or customer follow-up.''
      else ''Review lead manually.'')"

definition classifyTrafficStatus :: "int \<Rightarrow> string list \<Rightarrow> string" where
  "classifyTrafficStatus score riskFlags =
     (if ''suspicious-pattern-detected'' \<in> set riskFlags \<or> score < 35 then ''suspicious''
      else if riskFlags \<noteq> [] \<or> score < 60 then ''review'' else ''trusted'')"

text \<open>The package lanes that include \<open>hybrid\<close> are those of a lead that wants a battery.\<close>

definition classifySolarSegment :: "rat \<Rightarrow> string \<Rightarrow> bool \<Rightarrow> string" where
  "classifySolarSegment monthlyBill packageLane wants =
     (if 16000 \<le> monthlyBill then if wants then ''large-home-office-hybrid-bess'' else ''large-home-office-on-grid''
      else if 10000 \<le> monthlyBill then if wants then ''high-load-home-hybrid'' else ''high-load-home-on-grid''
      else if 6000 \<le> monthlyBill then if wants then ''residential-hybrid'' else ''residential-on-grid''
      else if contains (lit packageLane) (lit ''hybrid'') then ''starter-backup-hybrid'' else ''starter-on-grid'')"

record qualification =
  ql_modelVersion :: string
  ql_externalWrites :: bool
  ql_score :: int
  ql_priority :: string
  ql_workflowLane :: string
  ql_packageLane :: string
  ql_trafficStatus :: string
  ql_solarSegment :: string
  ql_monthlyBill :: rat
  ql_wantsBackupOrBattery :: bool
  ql_contactChannelCount :: nat
  ql_attribution :: attribution
  ql_reasons :: "string list"
  ql_riskFlags :: "string list"
  ql_nextAction :: string
  ql_reviewGates :: "string list"

definition qualifyLead :: "printer \<Rightarrow> jsobj \<Rightarrow> qualification" where
  "qualifyLead pr lead =
     (let monthlyBill = parseMonthlyBill pr (get lead ''monthlyBill'');
          wants = wantsBackupOrBattery pr lead;
          riskFlags = detectRiskFlags pr lead;
          steps = bill_steps monthlyBill @ signal_steps pr lead;
          score = clamp_score (sum_list (map fst steps));
          packageLane = classifyPackageLane monthlyBill wants;
          workflowLane = classifyWorkflowLane score (hasContactChannel lead)
      in \<lparr>ql_modelVersion = ''2026-05-20.lead-qualification.v2'', ql_externalWrites = False, ql_score = score,
          ql_priority = (if 70 \<le> score then ''hot'' else if 45 \<le> score then ''warm'' else ''nurture''),
          ql_workflowLane = workflowLane, ql_packageLane = packageLane,
          ql_trafficStatus = classifyTrafficStatus score riskFlags,
          ql_solarSegment = classifySolarSegment monthlyBill packageLane wants,
          ql_monthlyBill = monthlyBill, ql_wantsBackupOrBattery = wants,
          ql_contactChannelCount = contactChannelCount lead, ql_attribution = attribution_of pr lead,
          ql_reasons = map snd steps, ql_riskFlags = riskFlags,
          ql_nextAction = nextActionForLane workflowLane,
          ql_reviewGates =
            [''Do not write CRM without target workspace/list approval.'',
             ''Do not send customer messages without recipient and approval.'',
             ''Do not convert qualification into a quote until PEA inverter verification and site assumptions are reviewed.'']\<rparr>)"


section \<open>Reading the bill\<close>

lemma scale10_nonneg: "0 \<le> scale10 n e"
  by (simp add: scale10_def)

lemma unsigned_decimal_nonneg: "unsigned_decimal u = Fin q \<Longrightarrow> 0 \<le> q"
  by (auto simp: unsigned_decimal_def Let_def scale10_nonneg split: if_splits option.splits)

lemma bill_unit_not_space: "bill_unit c \<Longrightarrow> \<not> is_space c"
  by (auto simp: bill_unit_def is_digit_def is_space_def)

lemma trim_no_space:
  assumes "\<forall>c \<in> set s. \<not> is_space c"
  shows "trim s = s"
proof -
  have d: "dropWhile is_space t = t" if "\<forall>c \<in> set t. \<not> is_space c" for t
    using that by (cases t) auto
  have "dropWhile is_space s = s" "dropWhile is_space (rev s) = rev s"
    using assms by (intro d, simp)+
  then show ?thesis by (simp add: trim_def trim_start_def trim_end_def)
qed

lemma bill_text_unsigned:
  assumes "list_all bill_unit s" "s \<noteq> []"
  shows "string_number s = unsigned_decimal s"
proof -
  have trimmed: "trim s = s"
    using assms(1) bill_unit_not_space by (intro trim_no_space) (auto simp: list_all_iff)
  have no: "\<not> starts_with (lit p) s" if "length p = 2" "\<not> bill_unit (of_char (p ! 1))" for p
  proof
    assume "starts_with (lit p) s"
    then obtain r where "s = lit p @ r" by (auto simp: starts_with_iff)
    with assms(1) that show False by (auto simp: lit_def list_all_iff length_Suc_conv numeral_2_eq_2)
  qed
  have "hd s \<noteq> 0x2D" "hd s \<noteq> 0x2B"
    using assms by (cases s; auto simp: bill_unit_def is_digit_def)+
  with trimmed assms(2) show ?thesis
    by (simp add: string_number_def Let_def no bill_unit_def is_digit_def)
qed

lemma parsed_bill_nonneg: "0 \<le> parseMonthlyBill pr v"
proof -
  let ?s = "filter bill_unit (text_of pr v)"
  have "0 \<le> q" if "string_number ?s = Fin q" for q
  proof (cases "?s = []")
    case True
    moreover have "trim [] = []" by (simp add: trim_eq_Nil_iff)
    ultimately show ?thesis using that by (simp add: string_number_def Let_def)
  next
    case False
    have "list_all bill_unit ?s" by (simp add: list_all_iff)
    from bill_text_unsigned [OF this False] that have "unsigned_decimal ?s = Fin q" by simp
    then show ?thesis by (rule unsigned_decimal_nonneg)
  qed
  then show ?thesis by (auto simp: parseMonthlyBill_def split: jsnum.split)
qed

lemma filter_bill_digits: "list_all is_digit s \<Longrightarrow> filter bill_unit s = s"
  by (induction s) (auto simp: bill_unit_def)

lemma bill_of_digits:
  assumes "list_all is_digit s" "s \<noteq> []"
  shows "string_number s = Fin (of_nat (decimal_value 0 s))"
proof -
  have unsigned: "string_number s = unsigned_decimal s"
    using assms by (intro bill_text_unsigned) (auto simp: list_all_iff bill_unit_def)
  have tw: "takeWhile is_digit s = s" "dropWhile is_digit s = []"
    using assms(1) by (auto simp: list_all_iff takeWhile_eq_all_conv dropWhile_eq_Nil_conv)
  have "s \<noteq> lit ''Infinity''" using assms(1) by (auto simp: lit_def is_digit_def)
  then show ?thesis
    using assms(2) unsigned by (simp add: unsigned_decimal_def tw exponent_value_def scale10_def Let_def)
qed

section \<open>Routing\<close>

lemma contact_flag: "''missing-contact-channel'' \<in> set (detectRiskFlags pr lead) \<longleftrightarrow> \<not> hasContactChannel lead"
  by (simp add: detectRiskFlags_def Let_def)

lemma clamped: "0 \<le> clamp_score n" "clamp_score n \<le> 100"
  by (simp_all add: clamp_score_def)

lemma lanes:
  "classifyWorkflowLane n c = ''sales-engineering-review'' \<longleftrightarrow> c \<and> 70 \<le> n"
  "classifyWorkflowLane n c = ''missing-contact-channel'' \<longleftrightarrow> \<not> c"
  by (simp_all add: classifyWorkflowLane_def)

lemma traffic_trusted: "classifyTrafficStatus n flags = ''trusted'' \<longleftrightarrow> flags = [] \<and> 60 \<le> n"
  by (auto simp: classifyTrafficStatus_def)

text \<open>
  The results of a qualification fit together. The score lies between 0 and 100 and the bill
  is never negative; a lead is hot from 70 points on and goes to sales exactly when it is hot
  and can be reached; without a contact channel it is flagged and never routed to a person; and
  trusted traffic has no risk flag and at least 60 points.
\<close>

theorem qualification_consistent:
  "0 \<le> ql_score (qualifyLead pr lead) \<and> ql_score (qualifyLead pr lead) \<le> 100 \<and>
   0 \<le> ql_monthlyBill (qualifyLead pr lead) \<and>
   (ql_priority (qualifyLead pr lead) = ''hot'' \<longleftrightarrow> 70 \<le> ql_score (qualifyLead pr lead)) \<and>
   (ql_workflowLane (qualifyLead pr lead) = ''sales-engineering-review'' \<longleftrightarrow>
      ql_priority (qualifyLead pr lead) = ''hot'' \<and> hasContactChannel lead) \<and>
   (ql_workflowLane (qualifyLead pr lead) = ''missing-contact-channel'' \<longleftrightarrow>
      ''missing-contact-channel'' \<in> set (ql_riskFlags (qualifyLead pr lead))) \<and>
   (\<not> hasContactChannel lead \<longrightarrow> ql_workflowLane (qualifyLead pr lead) = ''missing-contact-channel'') \<and>
   (ql_trafficStatus (qualifyLead pr lead) = ''trusted'' \<longleftrightarrow>
      ql_riskFlags (qualifyLead pr lead) = [] \<and> 60 \<le> ql_score (qualifyLead pr lead)) \<and>
   \<not> ql_externalWrites (qualifyLead pr lead)"
  using parsed_bill_nonneg [of pr "get lead ''monthlyBill''"]
  by (simp add: qualifyLead_def Let_def clamped lanes traffic_trusted contact_flag)

theorem qualification_consistent_witness:
  "ql_workflowLane (qualifyLead \<lparr>pr_num = \<lambda>_. [], pr_date = \<lambda>_. []\<rparr> []) = ''missing-contact-channel''"
  using qualification_consistent [of "\<lparr>pr_num = \<lambda>_. [], pr_date = \<lambda>_. []\<rparr>" "[]"]
  by (simp add: hasContactChannel_def)

text \<open>A change of the bill changes no other signal.\<close>

lemma signals_same:
  assumes "\<forall>k. k \<noteq> ''monthlyBill'' \<longrightarrow> get lead' k = get lead k"
  shows "signal_steps pr lead' = signal_steps pr lead" "wantsBackupOrBattery pr lead' = wantsBackupOrBattery pr lead"
proof -
  have "attribution_of pr lead' = attribution_of pr lead" using assms by (simp add: attribution_of_def)
  moreover have "contactChannelCount lead' = contactChannelCount lead" using assms by (simp add: contactChannelCount_def)
  moreover have "detectRiskFlags pr lead' = detectRiskFlags pr lead"
    using assms by (simp add: detectRiskFlags_def hasContactChannel_def)
  moreover show "wantsBackupOrBattery pr lead' = wantsBackupOrBattery pr lead"
    using assms by (simp add: wantsBackupOrBattery_def)
  ultimately show "signal_steps pr lead' = signal_steps pr lead"
    using assms by (simp add: signal_steps_def)
qed

lemma bill_steps_mono: "a \<le> b \<Longrightarrow> sum_list (map fst (bill_steps a)) \<le> sum_list (map fst (bill_steps b))"
  by (simp add: bill_steps_def)

definition package_rank :: "string \<Rightarrow> nat" where
  "package_rank lane =
     (if lane \<in> {''on-grid-og5'', ''hybrid-h5''} then 0 else if lane \<in> {''on-grid-og10'', ''hybrid-h10''} then 1
      else if lane = ''hybrid-h15-engineered'' then 2 else 3)"

text \<open>
  A higher bill never hurts: of two leads that differ in the bill only, the one with the
  higher bill has no lower score and no smaller package of the same kind.
\<close>

theorem bill_monotone:
  assumes "\<forall>k. k \<noteq> ''monthlyBill'' \<longrightarrow> get lead' k = get lead k"
    and "ql_monthlyBill (qualifyLead pr lead) \<le> ql_monthlyBill (qualifyLead pr lead')"
  shows "ql_score (qualifyLead pr lead) \<le> ql_score (qualifyLead pr lead') \<and>
    package_rank (ql_packageLane (qualifyLead pr lead)) \<le> package_rank (ql_packageLane (qualifyLead pr lead')) \<and>
    ql_wantsBackupOrBattery (qualifyLead pr lead') = ql_wantsBackupOrBattery (qualifyLead pr lead)"
proof -
  let ?b = "parseMonthlyBill pr (get lead ''monthlyBill'')" and ?b' = "parseMonthlyBill pr (get lead' ''monthlyBill'')"
  have le: "?b \<le> ?b'" using assms(2) by (simp add: qualifyLead_def Let_def)
  have "package_rank (classifyPackageLane ?b w) \<le> package_rank (classifyPackageLane ?b' w)" for w
    using le by (cases w) (simp_all add: classifyPackageLane_def package_rank_def)
  moreover have "clamp_score (sum_list (map fst (bill_steps ?b)) + n) \<le> clamp_score (sum_list (map fst (bill_steps ?b')) + n)" for n
    using bill_steps_mono [OF le] by (simp add: clamp_score_def)
  ultimately show ?thesis by (simp add: qualifyLead_def Let_def signals_same [OF assms(1)])
qed

definition lead_with_bill :: "nat \<Rightarrow> jsobj" where
  "lead_with_bill n = [(lit ''phone'', JText ''0812345678''), (lit ''monthlyBill'', JStr (decimal n))]"

lemma bill_read: "ql_monthlyBill (qualifyLead pr (lead_with_bill n)) = of_nat n"
proof -
  have "list_all is_digit (decimal n)" by (rule all_digits_decimal)
  then show ?thesis
    by (simp add: qualifyLead_def Let_def lead_with_bill_def parseMonthlyBill_def filter_bill_digits
        bill_of_digits decimal_value_decimal)
qed

theorem bill_monotone_witness:
  "ql_score (qualifyLead \<lparr>pr_num = \<lambda>_. [], pr_date = \<lambda>_. []\<rparr> (lead_with_bill 5000)) \<le>
   ql_score (qualifyLead \<lparr>pr_num = \<lambda>_. [], pr_date = \<lambda>_. []\<rparr> (lead_with_bill 9000))"
proof -
  have "\<forall>k. k \<noteq> ''monthlyBill'' \<longrightarrow> get (lead_with_bill 9000) k = get (lead_with_bill 5000) k"
    by (simp add: lead_with_bill_def)
  then show ?thesis by (rule bill_monotone [THEN conjunct1]) (simp add: bill_read)
qed

text \<open>
  C28. The terms for a battery are looked for anywhere in a text, and one of them is \<open>ess\<close>: a
  message that contains the word business in any spelling, whatever else it says, counts as
  interest in a battery and gets a hybrid package.
\<close>

theorem business_means_battery:
  assumes "get lead ''message'' = JStr m" and "contains (to_lower m) (lit ''business'')"
  shows "ql_wantsBackupOrBattery (qualifyLead pr lead) \<and>
    ql_packageLane (qualifyLead pr lead) \<in>
      {''hybrid-h5'', ''hybrid-h10'', ''hybrid-h15-engineered'', ''hybrid-h20-engineered''}"
proof -
  have "contains (to_lower m) (lit ''ess'')"
  proof -
    from assms(2) obtain a b where "to_lower m = a @ lit ''business'' @ b" by (auto simp: contains_iff)
    then have "to_lower m = (a @ lit ''busin'') @ lit ''ess'' @ b" by (simp add: lit_def)
    then show ?thesis by (auto simp: contains_iff simp del: append_assoc)
  qed
  moreover from this have "m \<noteq> []" by (auto simp: lit_def contains_iff)
  ultimately have "includesAny pr (get lead ''message'') (battery_terms @ [[0xE44, 0xE1F, 0xE14, 0xE31, 0xE1A]])"
    by (simp add: includesAny_def or_empty_def js_or_def assms(1) battery_terms_def)
  then have "wantsBackupOrBattery pr lead" by (simp add: wantsBackupOrBattery_def)
  then show ?thesis by (simp add: qualifyLead_def Let_def classifyPackageLane_def)
qed

theorem business_means_battery_witness:
  "ql_packageLane (qualifyLead \<lparr>pr_num = \<lambda>_. [], pr_date = \<lambda>_. []\<rparr>
     [(lit ''message'', JText ''small business'')]) \<in>
      {''hybrid-h5'', ''hybrid-h10'', ''hybrid-h15-engineered'', ''hybrid-h20-engineered''}"
proof -
  have "contains (to_lower (lit ''small business'')) (lit ''business'')"
    by (simp add: lit_def to_lower_def lower_unit_def starts_with_def)
  then show ?thesis
    using business_means_battery [of "[(lit ''message'', JText ''small business'')]" "lit ''small business''"
        "\<lparr>pr_num = \<lambda>_. [], pr_date = \<lambda>_. []\<rparr>"]
    by (simp add: JText_def)
qed

text \<open>
  A bill given as a range is read as one number: two amounts with anything but digits and
  points between them, as in a range of 5000 to 9000, are read as their digits in a row, which is
  at least ten times the first amount.
\<close>

theorem bill_range_joined:
  assumes "list_all (\<lambda>c. \<not> bill_unit c) between"
  shows "parseMonthlyBill pr (JStr (decimal m @ between @ decimal n)) =
      of_nat (decimal_value m (decimal n)) \<and>
    of_nat (10 * m) \<le> parseMonthlyBill pr (JStr (decimal m @ between @ decimal n))"
proof -
  have d: "list_all is_digit (decimal k)" for k by (rule all_digits_decimal)
  have none: "filter bill_unit between = []" using assms by (simp add: list_all_iff filter_empty_conv)
  have "string_number (decimal m @ decimal n) = Fin (of_nat (decimal_value 0 (decimal m @ decimal n)))"
    by (rule bill_of_digits) (simp_all add: d)
  then have v: "parseMonthlyBill pr (JStr (decimal m @ between @ decimal n)) = of_nat (decimal_value m (decimal n))"
    by (simp add: parseMonthlyBill_def none filter_bill_digits [OF d] decimal_value_append decimal_value_decimal)
  have grows: "acc * 10 \<le> decimal_value acc (c # cs)" for acc c cs
  proof (induction cs arbitrary: acc c)
    case (Cons c' cs)
    have "acc * 10 \<le> (10 * acc + (c - 0x30)) * 10" by simp
    also have "\<dots> \<le> decimal_value (10 * acc + (c - 0x30)) (c' # cs)" by (rule Cons.IH)
    finally show ?case by simp
  qed simp
  obtain c cs where "decimal n = c # cs" by (cases "decimal n") simp_all
  with grows [of m c cs] have "10 * m \<le> decimal_value m (decimal n)" by simp
  with v show ?thesis by (simp only: v of_nat_le_iff)
qed

theorem bill_range_joined_witness:
  "of_nat (10 * 5000) \<le> parseMonthlyBill \<lparr>pr_num = \<lambda>_. [], pr_date = \<lambda>_. []\<rparr>
     (JStr (decimal 5000 @ lit ''-'' @ decimal 9000))"
  using bill_range_joined [of "lit ''-''" "\<lparr>pr_num = \<lambda>_. [], pr_date = \<lambda>_. []\<rparr>" 5000 9000]
  by (simp add: bill_unit_def is_digit_def lit_def)

end
