(* ===== verification/RxSteps.thy ===== *)
theory RxSteps
  imports Rx
begin

text \<open>
  Matching one step at a time: a rule for each expression at the head of a sequence, with which
  an anchored expression is evaluated on a concrete text from left to right, and the meaning of
  a class that runs to the end.
\<close>

section \<open>The head of a sequence\<close>

text \<open>Classes of a fixed length, and a class that runs to the end of the text.\<close>

lemma run_fits:
  "n \<le> length (takeWhile P s) \<longleftrightarrow> n \<le> length s \<and> list_all P (take n s)"
  by (induction s arbitrary: n) (auto simp: take_Cons split: nat.splits)

lemma seq_exactly:
  "rx_seq ci (RClass k n (Some n) # rs) (b, s) =
     (if n \<le> length s \<and> list_all (hits ci k) (take n s)
      then rx_seq ci rs (rev (take n s) @ b, drop n s) else [])"
proof (cases "n \<le> length (takeWhile (hits ci k) s)")
  case True
  then have "[n..<Suc (run_length ci k (Some n) s)] = [n]" by (simp add: run_length_def)
  with True show ?thesis by (simp add: run_fits del: upt_Suc)
next
  case False
  then have "[n..<Suc (run_length ci k (Some n) s)] = []" by (simp add: run_length_def)
  moreover have "\<not> (n \<le> length s \<and> list_all (hits ci k) (take n s))" using False by (simp add: run_fits)
  ultimately show ?thesis by (auto simp del: upt_Suc)
qed

lemma match_more:
  "rx_match ci (RClass k lo None) (b, c # cs) =
     (if hits ci k c then rx_match ci (RClass k (lo - 1) None) (c # b, cs) else []) @
     (if lo = 0 then [(b, c # cs)] else [])"
proof -
  let ?L = "length (takeWhile (hits ci k) cs)"
  have shift: "map (\<lambda>n. advance n (b, c # cs)) (rev (map Suc ns)) = map (\<lambda>n. advance n (c # b, cs)) (rev ns)" for ns
    by (simp add: rev_map)
  show ?thesis
  proof (cases lo)
    case 0
    have "[0..<Suc (Suc ?L)] = 0 # [Suc 0..<Suc (Suc ?L)]" by (rule upt_conv_Cons) simp
    then have "[0..<Suc (Suc ?L)] = 0 # map Suc [0..<Suc ?L]" by (simp only: map_Suc_upt)
    then show ?thesis using 0 shift [of "[0..<Suc ?L]"] by (simp add: run_length_def upt_rec [of 0 "Suc 0"] del: upt_Suc)
  next
    case (Suc l)
    have "[Suc l..<Suc (Suc ?L)] = map Suc [l..<Suc ?L]" by (simp only: map_Suc_upt)
    then show ?thesis using Suc shift [of "[l..<Suc ?L]"] by (simp add: run_length_def del: upt_Suc)
  qed
qed

lemma seq_more:
  "rx_seq ci (RClass k lo None # rs) (b, []) = (if lo = 0 then rx_seq ci rs (b, []) else [])"
  "rx_seq ci (RClass k lo None # rs) (b, c # cs) =
     (if hits ci k c then rx_seq ci (RClass k (lo - 1) None # rs) (c # b, cs) else []) @
     (if lo = 0 then rx_seq ci rs (b, c # cs) else [])"
  by (simp add: run_length_def) (simp only: rx_seq.simps(2) match_more, simp del: rx_match.simps)

lemma seq_text:
  "rx_seq ci (RText t # rs) (b, s) =
     (if eat_text ci t s then rx_seq ci rs (rev (take (length t) s) @ b, drop (length t) s) else [])"
  by simp

lemma seq_seq: "rx_seq ci (RSeq qs # rs) p = rx_seq ci (qs @ rs) p"
proof -
  have c: "concat (map f (concat (map g xs))) = concat (map (\<lambda>x. concat (map f (g x))) xs)"
    for f :: "pos \<Rightarrow> pos list" and g :: "pos \<Rightarrow> pos list" and xs
    by (induction xs) simp_all
  have "concat (map (rx_seq ci rs) (rx_seq ci qs p)) = rx_seq ci (qs @ rs) p"
    by (induction qs arbitrary: p) (simp_all add: c)
  then show ?thesis by simp
qed

lemma seq_opt: "rx_seq ci (ROpt r # rs) p = rx_seq ci (r # rs) p @ rx_seq ci rs p"
  by simp

lemma seq_alt: "rx_seq ci (RAlt (r # qs) # rs) p = rx_seq ci (r # rs) p @ rx_seq ci (RAlt qs # rs) p"
  "rx_seq ci (RAlt [] # rs) p = []"
  by simp_all

lemma seq_end: "rx_seq ci (REnd # rs) (b, s) = (if s = [] then rx_seq ci rs (b, s) else [])"
  by simp

lemmas rx_steps = seq_exactly seq_more seq_text seq_seq seq_opt seq_alt seq_end

lemma seq_to_end:
  "rx_seq ci [RClass k lo hi, REnd] (b, s) \<noteq> [] \<longleftrightarrow>
     lo \<le> length s \<and> list_all (hits ci k) s \<and> (case hi of None \<Rightarrow> True | Some h \<Rightarrow> length s \<le> h)"
proof -
  have whole: "length s \<le> length (takeWhile (hits ci k) s) \<longleftrightarrow> list_all (hits ci k) s"
    by (simp add: run_fits)
  have "rx_seq ci [RClass k lo hi, REnd] (b, s) \<noteq> [] \<longleftrightarrow>
      (\<exists>n. lo \<le> n \<and> n \<le> run_length ci k hi s \<and> length s \<le> n)"
    by (auto simp del: upt_Suc)
  also have "\<dots> \<longleftrightarrow> lo \<le> run_length ci k hi s \<and> length s \<le> run_length ci k hi s"
    by (meson le_trans max.bounded_iff order_refl linear)
  also have "\<dots> \<longleftrightarrow> lo \<le> length s \<and> list_all (hits ci k) s \<and> (case hi of None \<Rightarrow> True | Some h \<Rightarrow> length s \<le> h)"
    using whole length_takeWhile_le [of "hits ci k" s] by (auto simp: run_length_def Let_def split: option.splits)
  finally show ?thesis .
qed

end
