(* ===== verification/McpPlan.thy ===== *)
theory McpPlan
  imports JsConvert RxSteps "HOL-Library.List_Lexorder"
begin

text \<open>
  The plan of MCP connections (\<open>services/dev-control-api/src/mcp-connection-plan.mjs\<close>): a closed
  document in which every connection stays disabled, its validator, and the summary the control
  API serves of it. A validator is a list of demands, met in order; the first that fails is the
  error that is thrown. The URL parser and the file are parameters.
\<close>

section \<open>Demands\<close>

type_synonym demand = "bool \<times> js_error"

definition run_demands :: "demand list \<Rightarrow> unit result" where
  "run_demands ds =
     (case List.find (\<lambda>d. \<not> fst d) ds of None \<Rightarrow> Inr () | Some d \<Rightarrow> Inl (snd d))"

definition is_record :: "jsval \<Rightarrow> bool" where
  "is_record v \<longleftrightarrow> (case v of JObj _ \<Rightarrow> True | JDate _ \<Rightarrow> True | _ \<Rightarrow> False)"

definition own_keys :: "jsval \<Rightarrow> jstr list" where
  "own_keys v = (case v of JObj fs \<Rightarrow> dict_keys fs | _ \<Rightarrow> [])"

definition closed_to :: "string list \<Rightarrow> jsval \<Rightarrow> bool" where
  "closed_to expected v \<longleftrightarrow> sort (own_keys v) = map lit expected"

definition one_of :: "string list \<Rightarrow> jsval \<Rightarrow> bool" where
  "one_of ss v \<longleftrightarrow> v \<in> set (map JText ss)"

definition is_arr :: "jsval \<Rightarrow> bool" where
  "is_arr v \<longleftrightarrow> (case v of JArr _ \<Rightarrow> True | _ \<Rightarrow> False)"

definition items :: "jsval \<Rightarrow> jsval list" where
  "items v = (case v of JArr vs \<Rightarrow> vs | _ \<Rightarrow> [])"

definition not_blank :: "nat option \<Rightarrow> jsval \<Rightarrow> bool" where
  "not_blank limit v \<longleftrightarrow>
     (case v of
        JStr s \<Rightarrow> trim s \<noteq> [] \<and> (case limit of None \<Rightarrow> True | Some n \<Rightarrow> length s \<le> n)
      | _ \<Rightarrow> False)"

text \<open>\<open>re.test(v)\<close> reads any value as text; the demand before it is that the value has one.\<close>

definition has_text :: "jsval \<Rightarrow> demand" where
  "has_text v = (convertible v, JsTypeError (lit ''Cannot convert object to primitive value''))"

definition is_set_member :: "jsval \<Rightarrow> bool" where
  "is_set_member v \<longleftrightarrow> \<not> is_record v \<and> \<not> is_arr v"

text \<open>\<open>set.has(v)\<close>: two arrays or objects of a parsed document are never the same.\<close>

definition seen_before :: "jsval list \<Rightarrow> jsval \<Rightarrow> bool" where
  "seen_before seen v \<longleftrightarrow> is_set_member v \<and> v \<in> set seen"

section \<open>Dates\<close>

definition digits :: "nat \<Rightarrow> rx" where
  "digits n = RClass c_digit n (Some n)"

definition hour_rx :: rx where
  "hour_rx = RAlt
     [RSeq [RClass (Chars False False [(0x30, 0x31)]) 1 (Some 1), digits 1],
      RSeq [RText (lit ''2''), RClass (Chars False False [(0x30, 0x33)]) 1 (Some 1)]]"

definition sixty_rx :: rx where
  "sixty_rx = RSeq [RClass (Chars False False [(0x30, 0x35)]) 1 (Some 1), digits 1]"

definition RFC3339 :: rx where
  "RFC3339 = RSeq
     [RStart, digits 4, RText (lit ''-''), digits 2, RText (lit ''-''), digits 2, RText (lit ''T''),
      hour_rx, RText (lit '':''), sixty_rx, RText (lit '':''), sixty_rx,
      ROpt (RSeq [RText (lit ''.''), RClass c_digit 1 None]),
      RAlt [RText (lit ''Z''),
        RSeq [RClass (Chars False False [(0x2B, 0x2B), (0x2D, 0x2D)]) 1 (Some 1),
              hour_rx, RText (lit '':''), sixty_rx]],
      REnd]"

text \<open>
  \<open>Date.UTC(year, month - 1, day)\<close> as a day number: the years 0 to 99 stand for 1900 to 1999,
  and a month or day out of range moves on to the next.
\<close>

definition days_of_civil :: "int \<Rightarrow> int \<Rightarrow> int \<Rightarrow> int" where
  "days_of_civil y m d =
     (let y' = (if m \<le> 2 then y - 1 else y);
          yoe = y' mod 400;
          doy = (153 * (if m \<le> 2 then m + 9 else m - 3) + 2) div 5 + d - 1
      in y' div 400 * 146097 + (yoe * 365 + yoe div 4 - yoe div 100 + doy) - 719468)"

definition date_utc_days :: "int \<Rightarrow> int \<Rightarrow> int \<Rightarrow> int" where
  "date_utc_days year month0 day =
     (let y = (if 0 \<le> year \<and> year \<le> 99 then 1900 + year else year)
      in days_of_civil (y + month0 div 12) (month0 mod 12 + 1) 1 + day - 1)"

definition real_date :: "int \<Rightarrow> int \<Rightarrow> int \<Rightarrow> bool" where
  "real_date year month day \<longleftrightarrow> civil_of_days (date_utc_days year (month - 1) day) = (year, month, day)"

definition number_at :: "nat \<Rightarrow> nat \<Rightarrow> jstr \<Rightarrow> int" where
  "number_at i n s = int (decimal_value 0 (take n (drop i s)))"

definition on_calendar :: "jstr \<Rightarrow> bool" where
  "on_calendar s \<longleftrightarrow> real_date (number_at 0 4 s) (number_at 5 2 s) (number_at 8 2 s)"

definition text_or_empty :: "jsval \<Rightarrow> jstr" where
  "text_or_empty v = (case v of JStr s \<Rightarrow> s | _ \<Rightarrow> [])"

definition is_str :: "jsval \<Rightarrow> bool" where
  "is_str v \<longleftrightarrow> (case v of JStr _ \<Rightarrow> True | _ \<Rightarrow> False)"

section \<open>The tables\<close>

definition ROOT_KEYS :: "string list" where
  "ROOT_KEYS = [''authority'', ''connections'', ''generatedAt'', ''schemaVersion'', ''status'', ''stopRules'']"

definition AUTHORITY_KEYS :: "string list" where
  "AUTHORITY_KEYS = [''approvalAuthority'', ''runtimeProof'', ''secretPolicy'', ''transitionAuthority'']"

definition CONNECTION_KEYS :: "string list" where
  "CONNECTION_KEYS =
     [''authMode'', ''blockers'', ''capabilities'', ''connectionId'', ''connectionState'', ''dataClassCeiling'',
      ''effectKinds'', ''enabled'', ''endpoint'', ''notes'', ''officialSources'', ''requiredTicketKinds'', ''role'',
      ''runtimeEvidence'', ''service'', ''toolPolicy'', ''transport'']"

definition ROLES :: "string list" where
  "ROLES = [''REMOTE_MCP_SERVER'', ''MCP_PORTAL'', ''MCP_CLIENT'', ''LOCAL_MCP_SERVER'', ''MESSAGING_TRANSPORT'', ''A2A_PEER'']"

definition TRANSPORTS :: "string list" where
  "TRANSPORTS =
     [''streamable-http'', ''cloud-connector'', ''stdio'', ''telegram-bot-api'', ''line-webhook'', ''a2a-https'', ''none'']"

definition CONNECTION_STATES :: "string list" where
  "CONNECTION_STATES =
     [''candidate-not-configured'', ''portal-not-created'', ''client-capability-observed-not-configured'',
      ''installed-version-mcp-unverified'', ''protected-config-unread-not-configured'', ''disabled-existing-config'',
      ''transport-not-mcp-not-connected'', ''peer-card-missing-not-connected'']"

definition AUTH_MODES :: "string list" where
  "AUTH_MODES =
     [''public-read-only'', ''oauth-human-required'', ''cloudflare-access-plus-server-oauth'',
      ''host-secret-reference-required'', ''protected-config-unread'', ''agent-card-auth-required'', ''not-applicable'']"

definition TICKET_KINDS :: "string list" where
  "TICKET_KINDS =
     [''INSTALL'', ''CONNECTOR_ACTIVATION'', ''PROVIDER_CALL'', ''QUEUE_MUTATION'', ''A2A_EGRESS'', ''LIVE_SEND'',
      ''CLOUDFLARE_MUTATION'', ''DEPLOY'']"

section \<open>The validator\<close>

record link_url =
  lu_protocol :: jstr
  lu_username :: jstr
  lu_password :: jstr
  lu_hostname :: jstr
  lu_pathname :: jstr
  lu_search :: jstr
  lu_hash :: jstr
  lu_origin :: jstr

record plan_runtime =
  pn_printer :: printer
  pn_url :: "jstr \<Rightarrow> link_url option"

definition plan_error :: "jstr \<Rightarrow> js_error" where
  "plan_error m = JsError (lit ''invalid_mcp_connection_plan:'' @ m)"

definition must :: "jstr \<Rightarrow> string \<Rightarrow> bool \<Rightarrow> demand" where
  "must label what b = (b, plan_error (label @ lit what))"

definition plan_keys :: "jsval \<Rightarrow> string list \<Rightarrow> jstr \<Rightarrow> demand list" where
  "plan_keys v expected label =
     [must label ''_must_be_object'' (is_record v), must label ''_must_be_closed'' (closed_to expected v)]"

definition stringArray :: "jsval \<Rightarrow> jstr \<Rightarrow> bool \<Rightarrow> nat option \<Rightarrow> demand list" where
  "stringArray v label nonEmpty maxItemLength =
     [must label ''_must_be_array'' (is_arr v \<and> (nonEmpty \<longrightarrow> items v \<noteq> [])),
      must label ''_must_contain_nonempty_strings'' (list_all (not_blank maxItemLength) (items v)),
      must label ''_must_be_unique'' (distinct (items v))]"

definition validRfc3339DateTime :: "jsval \<Rightarrow> jstr \<Rightarrow> demand list" where
  "validRfc3339DateTime v label =
     [must label ''_must_be_rfc3339'' (is_str v),
      must label ''_must_be_rfc3339'' (rx_test False RFC3339 (text_or_empty v)),
      must label ''_must_be_rfc3339'' (on_calendar (text_or_empty v))]"

definition parse_link :: "plan_runtime \<Rightarrow> jsval \<Rightarrow> link_url option" where
  "parse_link rt v =
     (case string_result (pn_printer rt) v of Inl _ \<Rightarrow> None | Inr s \<Rightarrow> pn_url rt s)"

definition link_part :: "link_url option \<Rightarrow> (link_url \<Rightarrow> jstr) \<Rightarrow> jstr" where
  "link_part u f = (case u of None \<Rightarrow> [] | Some p \<Rightarrow> f p)"

definition validHttpsUrl :: "plan_runtime \<Rightarrow> jsval \<Rightarrow> jstr \<Rightarrow> bool \<Rightarrow> demand list" where
  "validHttpsUrl rt v label endpoint =
     (let u = parse_link rt v in
      [must label ''_must_be_url'' (u \<noteq> None),
       must label ''_must_use_https'' (link_part u lu_protocol = lit ''https:''),
       must label ''_must_not_contain_userinfo'' (link_part u lu_username = [] \<and> link_part u lu_password = []),
       must label ''_must_not_contain_query_or_fragment''
         (endpoint \<longrightarrow> link_part u lu_search = [] \<and> link_part u lu_hash = [])])"

definition plan_id :: rx where
  "plan_id = RSeq
     [RStart, RClass (Chars False False [(0x61, 0x7A), (0x30, 0x39)]) 1 (Some 1),
      RClass (Chars False False [(0x61, 0x7A), (0x30, 0x39), (0x2D, 0x2D)]) 2 (Some 63), REnd]"

definition connection_demands :: "plan_runtime \<Rightarrow> jsval list \<Rightarrow> nat \<Rightarrow> jsval \<Rightarrow> demand list" where
  "connection_demands rt seen index c =
     (let label = lit ''connections_'' @ decimal index; p = opt_prop c in
      plan_keys c CONNECTION_KEYS label @
      [has_text (p ''connectionId''),
       must label ''_id'' (rx_test False plan_id (text_of (pn_printer rt) (p ''connectionId''))),
       must label ''_duplicate_id'' (\<not> seen_before seen (p ''connectionId'')),
       must label ''_service'' (not_blank (Some 128) (p ''service'')),
       must label ''_role'' (one_of ROLES (p ''role'')),
       must label ''_transport'' (one_of TRANSPORTS (p ''transport'')),
       must label ''_connection_state'' (one_of CONNECTION_STATES (p ''connectionState'')),
       must label ''_auth_mode'' (one_of AUTH_MODES (p ''authMode''))] @
      (if p ''endpoint'' = JNull then []
       else validHttpsUrl rt (p ''endpoint'') (label @ lit ''_endpoint'') True) @
      [must label ''_remote_endpoint_required''
         (\<not> (p ''role'' = JText ''REMOTE_MCP_SERVER'' \<and> p ''endpoint'' = JNull)),
       must label ''_must_remain_disabled'' (p ''enabled'' = JBool False),
       must label ''_runtime_evidence'' (p ''runtimeEvidence'' = JText ''UNVERIFIED''),
       must label ''_tool_policy'' (p ''toolPolicy'' = JText ''deny-all''),
       must label ''_data_class'' (one_of [''PUBLIC'', ''INTERNAL''] (p ''dataClassCeiling''))] @
      stringArray (p ''capabilities'') (label @ lit ''_capabilities'') False (Some 128) @
      stringArray (p ''effectKinds'') (label @ lit ''_effectKinds'') False None @
      stringArray (p ''requiredTicketKinds'') (label @ lit ''_requiredTicketKinds'') False None @
      stringArray (p ''blockers'') (label @ lit ''_blockers'') True (Some 256) @
      stringArray (p ''officialSources'') (label @ lit ''_officialSources'') False None @
      map (\<lambda>kind. must label ''_ticket_kind'' (one_of TICKET_KINDS kind))
        (items (p ''effectKinds'') @ items (p ''requiredTicketKinds'')) @
      [must label ''_effect_without_ticket''
         (list_all (\<lambda>kind. kind \<in> set (items (p ''requiredTicketKinds''))) (items (p ''effectKinds'')))] @
      concat (map (\<lambda>source. validHttpsUrl rt source (label @ lit ''_official_source'') False)
        (items (p ''officialSources''))) @
      [must label ''_notes'' (not_blank (Some 1024) (p ''notes'')),
       must label ''_remote_transport''
         (\<not> (one_of [''REMOTE_MCP_SERVER'', ''MCP_PORTAL''] (p ''role'') \<and> p ''endpoint'' \<noteq> JNull \<and>
            p ''transport'' \<noteq> JText ''streamable-http'')),
       must label ''_a2a_transport''
         (\<not> (p ''role'' = JText ''A2A_PEER'' \<and> p ''transport'' \<noteq> JText ''a2a-https''))])"

fun connections_demands :: "plan_runtime \<Rightarrow> jsval list \<Rightarrow> nat \<Rightarrow> jsval list \<Rightarrow> demand list" where
  "connections_demands rt seen index [] = []"
| "connections_demands rt seen index (c # cs) =
     connection_demands rt seen index c @
     connections_demands rt (opt_prop c ''connectionId'' # seen) (Suc index) cs"

definition plan_demands :: "plan_runtime \<Rightarrow> jsval \<Rightarrow> demand list" where
  "plan_demands rt plan =
     (let authority = opt_prop plan ''authority''; connections = opt_prop plan ''connections'' in
      plan_keys plan ROOT_KEYS (lit ''root'') @
      [must [] ''schema_version'' (opt_prop plan ''schemaVersion'' = JText ''1.0''),
       must [] ''status'' (opt_prop plan ''status'' = JText ''PLAN_ONLY / ALL_CONNECTIONS_DISABLED'')] @
      validRfc3339DateTime (opt_prop plan ''generatedAt'') (lit ''generated_at'') @
      plan_keys authority AUTHORITY_KEYS (lit ''authority'') @
      [must [] ''transition_authority''
         (opt_prop authority ''transitionAuthority'' = JText ''target-managed-postgres-plus-sirinx-control-not-yet-wired''),
       must [] ''approval_authority''
         (opt_prop authority ''approvalAuthority'' = JText ''attested-human-operator-only''),
       must [] ''runtime_proof''
         (opt_prop authority ''runtimeProof'' =
            JText ''authenticated-endpoint-plus-fresh-heartbeat-plus-task-bound-receipt''),
       must [] ''secret_policy''
         (opt_prop authority ''secretPolicy'' = JText ''opaque-host-secret-reference-only''),
       must [] ''connections'' (is_arr connections \<and> items connections \<noteq> [])] @
      connections_demands rt [] 0 (items connections) @
      stringArray (opt_prop plan ''stopRules'') (lit ''stop_rules'') True None)"

definition validateMcpConnectionPlan :: "plan_runtime \<Rightarrow> jsval \<Rightarrow> jsval result" where
  "validateMcpConnectionPlan rt plan = result_bind (run_demands (plan_demands rt plan)) (\<lambda>_. Inr plan)"

section \<open>Serving the plan\<close>

text \<open>The file is read and parsed; what the reader throws is passed on.\<close>

definition role_count :: "jsval list \<Rightarrow> string \<Rightarrow> nat" where
  "role_count cs role = length (filter (\<lambda>c. opt_prop c ''role'' = JText role) cs)"

definition plan_summary :: "jsval list \<Rightarrow> jsval" where
  "plan_summary cs = JObj
     [(lit ''connections'', JInt (int (length cs))), (lit ''enabled'', JInt 0), (lit ''runtimeVerified'', JInt 0),
      (lit ''remoteMcpServers'', JInt (int (role_count cs ''REMOTE_MCP_SERVER''))),
      (lit ''mcpPortals'', JInt (int (role_count cs ''MCP_PORTAL''))),
      (lit ''mcpClients'', JInt (int (role_count cs ''MCP_CLIENT''))),
      (lit ''localMcpServers'', JInt (int (role_count cs ''LOCAL_MCP_SERVER''))),
      (lit ''messagingTransports'', JInt (int (role_count cs ''MESSAGING_TRANSPORT''))),
      (lit ''a2aPeers'', JInt (int (role_count cs ''A2A_PEER'')))]"

definition getMcpConnectionPlan ::
  "plan_runtime \<Rightarrow> (jstr \<Rightarrow> jsval result) \<Rightarrow> jstr result \<Rightarrow> jsval result" where
  "getMcpConnectionPlan rt parse file =
     result_bind file (\<lambda>raw.
       case parse raw of
         Inl _ \<Rightarrow> Inl (plan_error (lit ''json_parse''))
       | Inr plan \<Rightarrow>
           result_bind (validateMcpConnectionPlan rt plan) (\<lambda>_.
             Inr (JObj (dict_spread (case plan of JObj fs \<Rightarrow> fs | _ \<Rightarrow> [])
               [(lit ''mode'', JText ''local-static-plan''), (lit ''canConnect'', JBool False),
                (lit ''canRunMcp'', JBool False), (lit ''canEmitA2a'', JBool False),
                (lit ''canSendMessages'', JBool False), (lit ''externalWrites'', JBool False),
                (lit ''commandExecuted'', JBool False),
                (lit ''summary'', plan_summary (items (opt_prop plan ''connections''))),
                (lit ''stopPoint'',
                 JText ''MCP/A2A CONNECTION PLAN VALIDATED - ZERO CONNECTIONS ENABLED OR CALLED'')]))))"


section \<open>What an accepted plan is\<close>

lemma run_demands_Inr: "run_demands ds = Inr u \<longleftrightarrow> list_all fst ds"
  by (auto simp: run_demands_def find_None_iff find_Some_iff list_all_iff split: option.splits)

lemma fst_must [simp]: "fst (must label what b) = b"
  by (simp add: must_def)

lemma closed_keys: "closed_to expected v \<Longrightarrow> mset (own_keys v) = mset (map lit expected)"
  unfolding closed_to_def by (metis mset_sort)

lemma closed_object:
  assumes "closed_to expected v" "expected \<noteq> []"
  shows "\<exists>fs. v = JObj fs \<and> mset (dict_keys fs) = mset (map lit expected)"
  using closed_keys [OF assms(1)] assms(2) by (cases v) (simp_all add: own_keys_def)

lemma connection_accepted:
  "list_all fst (connections_demands rt seen n cs) \<Longrightarrow> c \<in> set cs \<Longrightarrow>
   \<exists>seen' k. list_all fst (connection_demands rt seen' k c)"
  by (induction rt seen n cs rule: connections_demands.induct) auto

lemma connection_facts:
  assumes "list_all fst (connection_demands rt seen k c)"
  shows "opt_prop c ''enabled'' = JBool False" "opt_prop c ''runtimeEvidence'' = JText ''UNVERIFIED''"
    "opt_prop c ''toolPolicy'' = JText ''deny-all''" "one_of ROLES (opt_prop c ''role'')"
    "one_of TRANSPORTS (opt_prop c ''transport'')" "one_of [''PUBLIC'', ''INTERNAL''] (opt_prop c ''dataClassCeiling'')"
    "is_arr (opt_prop c ''capabilities'')" "list_all (not_blank (Some 128)) (items (opt_prop c ''capabilities''))"
    "set (items (opt_prop c ''effectKinds'')) \<subseteq> set (items (opt_prop c ''requiredTicketKinds''))"
  using assms by (simp_all add: connection_demands_def stringArray_def Let_def) (auto simp: list_all_iff)

lemma plan_facts:
  assumes "validateMcpConnectionPlan rt plan = Inr p"
  shows "p = plan" "list_all fst (connections_demands rt [] 0 (items (opt_prop plan ''connections'')))"
    "is_arr (opt_prop plan ''connections'')" "items (opt_prop plan ''connections'') \<noteq> []"
    "closed_to ROOT_KEYS plan"
  using assms by (auto simp: validateMcpConnectionPlan_def result_bind_Inr_iff run_demands_Inr plan_demands_def
      plan_keys_def Let_def)

lemma plan_connection:
  assumes "validateMcpConnectionPlan rt plan = Inr p" "c \<in> set (items (opt_prop plan ''connections''))"
  shows "\<exists>seen k. list_all fst (connection_demands rt seen k c)"
  using connection_accepted [OF plan_facts(2) [OF assms(1)] assms(2)] .

lemma roles_counted: "list_all (\<lambda>c. one_of ROLES (opt_prop c ''role'')) cs \<Longrightarrow>
   sum_list (map (role_count cs) ROLES) = length cs"
proof (induction cs)
  case Nil
  then show ?case by (simp add: role_count_def ROLES_def)
next
  case (Cons c cs)
  then have "sum_list (map (role_count cs) ROLES) = length cs" and "one_of ROLES (opt_prop c ''role'')" by simp_all
  then show ?case by (auto simp: role_count_def ROLES_def one_of_def JText_def)
qed

text \<open>
  A served plan is disabled, and its summary is true: no connection is enabled, none has
  runtime evidence, each denies all tools and asks for a ticket for each of its effects, the
  counts of the six roles add up to the number of connections, and every capability flag is
  false.
\<close>

theorem plan_summary_true:
  assumes "getMcpConnectionPlan rt parse file = Inr answer"
  defines "cs \<equiv> items (opt_prop answer ''connections'')" and "summary \<equiv> opt_prop answer ''summary''"
  shows "cs \<noteq> [] \<and>
    (\<forall>c \<in> set cs. opt_prop c ''enabled'' = JBool False \<and> opt_prop c ''toolPolicy'' = JText ''deny-all'' \<and>
      set (items (opt_prop c ''effectKinds'')) \<subseteq> set (items (opt_prop c ''requiredTicketKinds''))) \<and>
    opt_prop summary ''connections'' = JInt (int (length cs)) \<and>
    opt_prop summary ''enabled'' = JInt (int (length (filter (\<lambda>c. opt_prop c ''enabled'' \<noteq> JBool False) cs))) \<and>
    opt_prop summary ''runtimeVerified'' =
      JInt (int (length (filter (\<lambda>c. opt_prop c ''runtimeEvidence'' \<noteq> JText ''UNVERIFIED'') cs))) \<and>
    sum_list (map (role_count cs) ROLES) = length cs \<and>
    list_all (\<lambda>flag. opt_prop answer flag = JBool False)
      [''canConnect'', ''canRunMcp'', ''canEmitA2a'', ''canSendMessages'', ''externalWrites'', ''commandExecuted'']"
proof -
  obtain raw where read: "file = Inr raw"
    using assms(1) by (cases "file") (simp_all add: getMcpConnectionPlan_def)
  obtain plan where parse: "parse raw = Inr plan"
    using assms(1) read by (cases "parse raw") (simp_all add: getMcpConnectionPlan_def)
  note parsed = read parse
  obtain p where valid: "validateMcpConnectionPlan rt plan = Inr p"
    using assms(1) parsed by (cases "validateMcpConnectionPlan rt plan") (simp_all add: getMcpConnectionPlan_def)
  obtain fs where plan: "plan = JObj fs"
    using closed_object [OF plan_facts(5) [OF valid]] by (auto simp: ROOT_KEYS_def)
  have cs: "cs = items (opt_prop plan ''connections'')" and summary: "summary = plan_summary cs"
    using assms(1) parsed valid plan
    by (auto simp: cs_def summary_def getMcpConnectionPlan_def dict_spread_def getp_set)
  have facts: "opt_prop c ''enabled'' = JBool False \<and> opt_prop c ''runtimeEvidence'' = JText ''UNVERIFIED'' \<and>
      opt_prop c ''toolPolicy'' = JText ''deny-all'' \<and> one_of ROLES (opt_prop c ''role'') \<and>
      set (items (opt_prop c ''effectKinds'')) \<subseteq> set (items (opt_prop c ''requiredTicketKinds''))"
    if member: "c \<in> set cs" for c
  proof -
    obtain seen k where "list_all fst (connection_demands rt seen k c)"
      using plan_connection [OF valid] member unfolding cs by blast
    from connection_facts [OF this] show ?thesis by simp
  qed
  then have none: "filter (\<lambda>c. opt_prop c ''enabled'' \<noteq> JBool False) cs = []"
    "filter (\<lambda>c. opt_prop c ''runtimeEvidence'' \<noteq> JText ''UNVERIFIED'') cs = []"
    by (simp_all add: filter_empty_conv)
  have roles: "sum_list (map (role_count cs) ROLES) = length cs"
    using facts by (intro roles_counted) (simp add: list_all_iff)
  have flags: "list_all (\<lambda>flag. opt_prop answer flag = JBool False)
      [''canConnect'', ''canRunMcp'', ''canEmitA2a'', ''canSendMessages'', ''externalWrites'', ''commandExecuted'']"
    using assms(1) parsed valid plan by (auto simp: getMcpConnectionPlan_def dict_spread_def getp_set)
  show ?thesis
    using facts none roles flags plan_facts(4) [OF valid] by (simp add: summary plan_summary_def cs [symmetric])
qed


section \<open>A plan\<close>

definition sample_connection :: jsval where
  "sample_connection = JObj
     [(lit ''authMode'', JText ''agent-card-auth-required''), (lit ''blockers'', JTexts [''peer card missing'']),
      (lit ''capabilities'', JTexts [''handshake'']), (lit ''connectionId'', JText ''peer''),
      (lit ''connectionState'', JText ''peer-card-missing-not-connected''),
      (lit ''dataClassCeiling'', JText ''INTERNAL''), (lit ''effectKinds'', JTexts [''A2A_EGRESS'']),
      (lit ''enabled'', JBool False), (lit ''endpoint'', JText ''https://peer.test''), (lit ''notes'', JText ''n''),
      (lit ''officialSources'', JTexts []), (lit ''requiredTicketKinds'', JTexts [''A2A_EGRESS'', ''LIVE_SEND'']),
      (lit ''role'', JText ''A2A_PEER''), (lit ''runtimeEvidence'', JText ''UNVERIFIED''),
      (lit ''service'', JText ''Peer''), (lit ''toolPolicy'', JText ''deny-all''),
      (lit ''transport'', JText ''a2a-https'')]"

definition sample_plan :: jsval where
  "sample_plan = JObj
     [(lit ''authority'', JObj
        [(lit ''approvalAuthority'', JText ''attested-human-operator-only''),
         (lit ''runtimeProof'', JText ''authenticated-endpoint-plus-fresh-heartbeat-plus-task-bound-receipt''),
         (lit ''secretPolicy'', JText ''opaque-host-secret-reference-only''),
         (lit ''transitionAuthority'', JText ''target-managed-postgres-plus-sirinx-control-not-yet-wired'')]),
      (lit ''connections'', JArr [sample_connection]), (lit ''generatedAt'', JText ''2026-07-20T07:00:00.000Z''),
      (lit ''schemaVersion'', JText ''1.0''), (lit ''status'', JText ''PLAN_ONLY / ALL_CONNECTIONS_DISABLED''),
      (lit ''stopRules'', JTexts [''stop''])]"

definition sample_url :: "jstr \<Rightarrow> link_url option" where
  "sample_url s = Some
     \<lparr>lu_protocol = lit ''https:'', lu_username = [], lu_password = [], lu_hostname = lit ''peer.test'',
      lu_pathname = lit ''/'', lu_search = [], lu_hash = [], lu_origin = lit ''https://peer.test''\<rparr>"

definition sample_plan_runtime :: plan_runtime where
  "sample_plan_runtime =
     \<lparr>pn_printer = \<lparr>pr_num = \<lambda>_. [], pr_date = \<lambda>_. []\<rparr>, pn_url = sample_url\<rparr>"

lemma RFC3339_sample: "rx_test False RFC3339 (lit ''2026-07-20T07:00:00.000Z'')"
  by (simp add: RFC3339_def rx_test_anchored digits_def hour_rx_def sixty_rx_def c_digit_def rx_steps lit_def
      in_range_def same_unit_def del: rx_seq.simps(2))

lemma date_sample: "real_date 2026 7 20"
  by code_simp

lemma calendar_sample: "on_calendar (lit ''2026-07-20T07:00:00.000Z'')"
  by (simp add: on_calendar_def number_at_def date_sample lit_def)


lemma closed_in_order: "own_keys v = map lit ks \<Longrightarrow> sorted (map lit ks) \<Longrightarrow> closed_to ks v"
  by (simp add: closed_to_def sorted_sort_id)

lemma keys_sorted:
  "sorted (map lit ROOT_KEYS)" "sorted (map lit AUTHORITY_KEYS)" "sorted (map lit CONNECTION_KEYS)"
  by (simp_all add: ROOT_KEYS_def AUTHORITY_KEYS_def CONNECTION_KEYS_def sorted2_simps lit_def)

lemma keys_sample:
  "closed_to CONNECTION_KEYS sample_connection" "closed_to ROOT_KEYS sample_plan"
  "closed_to AUTHORITY_KEYS (opt_prop sample_plan ''authority'')"
  by (rule closed_in_order [OF _ keys_sorted(3)], simp add: own_keys_def sample_connection_def CONNECTION_KEYS_def dict_keys_def)
    (rule closed_in_order [OF _ keys_sorted(1)], simp add: own_keys_def sample_plan_def ROOT_KEYS_def dict_keys_def,
     rule closed_in_order [OF _ keys_sorted(2)], simp add: own_keys_def sample_plan_def AUTHORITY_KEYS_def dict_keys_def)

lemma trim_head: "\<not> is_space a \<Longrightarrow> trim (a # s) \<noteq> []"
  by (simp add: trim_eq_Nil_iff)

lemma id_sample: "rx_test False plan_id (lit ''peer'')"
  by (simp add: plan_id_def rx_test_anchored rx_steps seq_to_end lit_def in_range_def del: rx_seq.simps(2))

lemma not_blank_JText: "not_blank limit (JText s) \<longleftrightarrow>
    trim (lit s) \<noteq> [] \<and> (case limit of None \<Rightarrow> True | Some n \<Rightarrow> length s \<le> n)"
  by (simp add: not_blank_def JText_def lit_def split: option.splits)

lemma JText_facts:
  "JText a = JText b \<longleftrightarrow> a = b" "JText a \<noteq> JNull" "convertible (JText a)" "text_of pr (JText a) = lit a"
  "text_or_empty (JText a) = lit a" "is_str (JText a)"
  by (simp_all add: JText_def text_or_empty_def is_str_def)

lemma sample_record: "is_record sample_connection"
  by (simp add: is_record_def sample_connection_def)

lemma sample_props:
  "opt_prop sample_connection ''authMode'' = JText ''agent-card-auth-required''"
  "opt_prop sample_connection ''blockers'' = JTexts [''peer card missing'']"
  "opt_prop sample_connection ''capabilities'' = JTexts [''handshake'']"
  "opt_prop sample_connection ''connectionId'' = JText ''peer''"
  "opt_prop sample_connection ''connectionState'' = JText ''peer-card-missing-not-connected''"
  "opt_prop sample_connection ''dataClassCeiling'' = JText ''INTERNAL''"
  "opt_prop sample_connection ''effectKinds'' = JTexts [''A2A_EGRESS'']"
  "opt_prop sample_connection ''enabled'' = JBool False"
  "opt_prop sample_connection ''endpoint'' = JText ''https://peer.test''"
  "opt_prop sample_connection ''notes'' = JText ''n''"
  "opt_prop sample_connection ''officialSources'' = JTexts []"
  "opt_prop sample_connection ''requiredTicketKinds'' = JTexts [''A2A_EGRESS'', ''LIVE_SEND'']"
  "opt_prop sample_connection ''role'' = JText ''A2A_PEER''"
  "opt_prop sample_connection ''runtimeEvidence'' = JText ''UNVERIFIED''"
  "opt_prop sample_connection ''service'' = JText ''Peer''"
  "opt_prop sample_connection ''toolPolicy'' = JText ''deny-all''"
  "opt_prop sample_connection ''transport'' = JText ''a2a-https''"
  by (simp_all add: sample_connection_def)

lemma connection_sample: "list_all fst (connection_demands sample_plan_runtime [] 0 sample_connection)"
proof -
  have words: "trim (lit s) \<noteq> []" if "s \<in> {''Peer'', ''handshake'', ''A2A_EGRESS'', ''LIVE_SEND'', ''peer card missing'', ''n''}" for s
    using that by (elim insertE emptyE) (simp_all add: lit_def trim_head is_space_def)
  show ?thesis
    using keys_sample(1) id_sample
    by (simp add: connection_demands_def stringArray_def validHttpsUrl_def plan_keys_def Let_def has_text_def
        sample_record is_arr_def items_def one_of_def seen_before_def parse_link_def link_part_def string_result_def
        sample_plan_runtime_def sample_url_def sample_props words JTexts_def
        not_blank_JText JText_facts
        ROLES_def TRANSPORTS_def CONNECTION_STATES_def AUTH_MODES_def TICKET_KINDS_def)
qed

lemma plan_sample: "validateMcpConnectionPlan sample_plan_runtime sample_plan = Inr sample_plan"
proof -
  have stop: "trim (lit ''stop'') \<noteq> []" by (simp add: lit_def trim_head is_space_def)
  have "run_demands (plan_demands sample_plan_runtime sample_plan) = Inr ()"
    unfolding run_demands_Inr plan_demands_def plan_keys_def Let_def
    using keys_sample(2,3) connection_sample stop RFC3339_sample calendar_sample
    by (simp add: sample_plan_def validRfc3339DateTime_def stringArray_def is_record_def is_arr_def items_def
        not_blank_JText JText_facts JTexts_def)
  then show ?thesis by (simp add: validateMcpConnectionPlan_def)
qed

theorem plan_summary_true_witness:
  "\<exists>answer. getMcpConnectionPlan sample_plan_runtime (\<lambda>_. Inr sample_plan) (Inr []) = Inr answer \<and>
     opt_prop (opt_prop answer ''summary'') ''enabled'' =
       JInt (int (length (filter (\<lambda>c. opt_prop c ''enabled'' \<noteq> JBool False) (items (opt_prop answer ''connections'')))))"
proof -
  obtain answer where a: "getMcpConnectionPlan sample_plan_runtime (\<lambda>_. Inr sample_plan) (Inr []) = Inr answer"
    by (simp add: getMcpConnectionPlan_def plan_sample)
  from plan_summary_true [OF a] a show ?thesis by blast
qed

end
