(* ===== verification/Canonical.thy ===== *)
theory Canonical
  imports JsConvert "HOL-Library.List_Lexorder"
begin

text \<open>
  The canonical text of a JSON document, over which the digests of a connection admission are
  taken (\<open>canonical\<close> in \<open>services/dev-control-api/src/connection-admission.mjs\<close>): two documents
  have the same text exactly when they differ in the order of their properties only. The proof
  reads a text back from the left: no text of a value is the start of another.
\<close>

section \<open>The canonical text\<close>

text \<open>
  The text of a value with the keys of every object in order; \<open>None\<close> stands for \<open>undefined\<close>,
  which \<open>join\<close> drops and a template prints.
\<close>

definition field_text :: "jstr \<times> jstr option \<Rightarrow> jstr" where
  "field_text p = json_quote (fst p) @ lit '':'' @ (case snd p of None \<Rightarrow> lit ''undefined'' | Some t \<Rightarrow> t)"

definition item_text :: "jstr option \<Rightarrow> jstr" where
  "item_text t = (case t of None \<Rightarrow> [] | Some s \<Rightarrow> s)"

fun canonical :: "(rat \<Rightarrow> jstr) \<Rightarrow> jsval \<Rightarrow> jstr option"
  and canonical_items :: "(rat \<Rightarrow> jstr) \<Rightarrow> jsval list \<Rightarrow> jstr option list"
  and canonical_entries :: "(rat \<Rightarrow> jstr) \<Rightarrow> (jstr \<times> jsval) list \<Rightarrow> (jstr \<times> jstr option) list"
where
  "canonical fmt (JArr vs) =
     Some (lit ''['' @ join (lit '','') (map item_text (canonical_items fmt vs)) @ lit '']'')"
| "canonical fmt (JObj fs) =
     Some (lit ''{'' @ join (lit '','') (map field_text (sort_key fst (canonical_entries fmt fs))) @ lit ''}'')"
| "canonical fmt (JDate t) = Some (lit ''{}'')"
| "canonical fmt JUndef = json fmt JUndef"
| "canonical fmt JNull = json fmt JNull"
| "canonical fmt (JBool b) = json fmt (JBool b)"
| "canonical fmt (JNum x) = json fmt (JNum x)"
| "canonical fmt (JStr s) = json fmt (JStr s)"
| "canonical_items fmt [] = []"
| "canonical_items fmt (v # vs) = canonical fmt v # canonical_items fmt vs"
| "canonical_entries fmt [] = []"
| "canonical_entries fmt ((k, v) # fs) = (k, canonical fmt v) # canonical_entries fmt fs"


section \<open>Strings are read back\<close>

definition hex_value :: "nat \<Rightarrow> nat" where
  "hex_value c = (if c < 0x3A then c - 0x30 else c - 0x57)"

fun unquote :: "jstr \<Rightarrow> jstr \<times> jstr" where
  "unquote [] = ([], [])"
| "unquote (c # r) =
     (if c = 0x22 then ([], r)
      else if c = 0x5C then
        (case r of
           [] \<Rightarrow> ([], [])
         | e # r1 \<Rightarrow>
             if e = 0x75 then
               (case r1 of
                  h3 # h2 # h1 # h0 # r2 \<Rightarrow>
                    apfst ((#) (hex_value h3 * 4096 + hex_value h2 * 256 + hex_value h1 * 16 + hex_value h0)) (unquote r2)
                | _ \<Rightarrow> ([], []))
             else apfst ((#) (if e = 0x62 then 8 else if e = 0x74 then 9 else if e = 0x6E then 10
                              else if e = 0x66 then 12 else if e = 0x72 then 13 else e)) (unquote r1))
      else apfst ((#) c) (unquote r))"

lemma hex_value_digit: "n < 16 \<Longrightarrow> hex_value (hex_digit n) = n"
  by (simp add: hex_value_def hex_digit_def)

lemma hex_digits: "c div 4096 * 4096 + c div 256 mod 16 * 256 + c div 16 mod 16 * 16 + c mod 16 = (c :: nat)"
proof -
  have "c div 256 = c div 16 div 16" "c div 4096 = c div 256 div 16" by (simp_all flip: div_mult2_eq)
  then have "c = c div 16 * 16 + c mod 16" "c div 16 = c div 256 * 16 + c div 16 mod 16"
    "c div 256 = c div 4096 * 16 + c div 256 mod 16"
    by (simp_all only: div_mult_mod_eq)
  then show ?thesis by linarith
qed

lemma unquote_unit: "unquote (json_unit c @ r) = apfst ((#) c) (unquote r)"
proof (cases "c < 0x20 \<or> is_high c \<or> is_low c")
  case True
  then have "c < 65536" by (auto simp: is_high_def is_low_def)
  then show ?thesis by (simp add: json_unit_def u_escape_def hex_value_digit hex_digits)
next
  case False
  then show ?thesis by (simp add: json_unit_def)
qed

lemma unquote_raw: "c \<noteq> 0x22 \<Longrightarrow> c \<noteq> 0x5C \<Longrightarrow> unquote (c # r) = apfst ((#) c) (unquote r)"
  by simp

lemma unquote_end: "unquote (0x22 # r) = ([], r)"
  by simp

lemma unquote_units: "unquote (json_units s @ 0x22 # r) = (s, r)"
proof (induction s rule: json_units.induct)
  case 1
  show ?case by (simp add: unquote_end)
next
  case (2 c)
  show ?case by (simp add: unquote_unit unquote_end del: unquote.simps)
next
  case (3 c d s)
  show ?case
  proof (cases "is_high c \<and> is_low d")
    case True
    then have "c \<noteq> 0x22" "c \<noteq> 0x5C" "d \<noteq> 0x22" "d \<noteq> 0x5C" by (auto simp: is_high_def is_low_def)
    with True 3(1) [OF True] show ?thesis by (simp add: unquote_raw del: unquote.simps)
  next
    case False
    then have "json_units (c # d # s) = json_unit c @ json_units (d # s)" by (simp only: json_units.simps if_False)
    with 3(2) [OF False] show ?thesis by (simp add: unquote_unit del: unquote.simps json_units.simps)
  qed
qed

lemma json_quote_read:
  assumes "json_quote s @ r = json_quote t @ r'"
  shows "s = t \<and> r = r'"
proof -
  have "unquote (json_units s @ 0x22 # r) = unquote (json_units t @ 0x22 # r')"
    using assms by (simp add: json_quote_def)
  then show ?thesis by (simp add: unquote_units)
qed

section \<open>Documents without numbers\<close>

text \<open>
  The documents of an admission hold texts, truth values, null, arrays and objects. \<open>normal\<close>
  orders the keys of every object.
\<close>

fun textual :: "jsval \<Rightarrow> bool" where
  "textual JNull = True"
| "textual (JBool b) = True"
| "textual (JStr s) = True"
| "textual (JArr vs) = list_all textual vs"
| "textual (JObj fs) = (distinct (map fst fs) \<and> list_all (\<lambda>p. textual (snd p)) fs)"
| "textual _ = False"

fun normal :: "jsval \<Rightarrow> jsval" where
  "normal (JArr vs) = JArr (map normal vs)"
| "normal (JObj fs) = JObj (sort_key fst (map (\<lambda>p. (fst p, normal (snd p))) fs))"
| "normal v = v"

text \<open>The text without the sorting.\<close>

fun plain :: "jsval \<Rightarrow> jstr" where
  "plain JNull = lit ''null''"
| "plain (JBool b) = (if b then lit ''true'' else lit ''false'')"
| "plain (JStr s) = json_quote s"
| "plain (JArr vs) = lit ''['' @ join (lit '','') (map plain vs) @ lit '']''"
| "plain (JObj fs) = lit ''{'' @ join (lit '','') (map (\<lambda>p. json_quote (fst p) @ lit '':'' @ plain (snd p)) fs) @ lit ''}''"
| "plain _ = []"


section \<open>Documents are read back\<close>

lemma join_concat: "join sep (x # xs) = x @ concat (map (\<lambda>y. sep @ y) xs)"
  by (induction xs arbitrary: x) simp_all

text \<open>\<open>f\<close> is read back in front of anything; then so is a list of its texts up to the closing unit.\<close>

definition reads :: "('a \<Rightarrow> jstr) \<Rightarrow> 'a \<Rightarrow> 'a set \<Rightarrow> bool" where
  "reads f u ws \<longleftrightarrow> (\<forall>w \<in> ws. \<forall>r r'. f u @ r = f w @ r' \<longrightarrow> u = w \<and> r = r')"

lemma reads_mono: "reads f u A \<Longrightarrow> B \<subseteq> A \<Longrightarrow> reads f u B"
  unfolding reads_def by blast

lemma rest_read:
  assumes "\<forall>u \<in> set us. reads f u (set ws)" "c \<noteq> e"
    and "concat (map (\<lambda>u. c # f u) us) @ e # r = concat (map (\<lambda>w. c # f w) ws) @ e # r'"
  shows "us = ws \<and> r = r'"
  using assms
proof (induction us arbitrary: ws)
  case Nil
  then show ?case by (cases ws) auto
next
  case (Cons u us)
  show ?case
  proof (cases ws)
    case Nil
    with Cons.prems(2,3) show ?thesis by simp
  next
    case (Cons w ws')
    with Cons.prems(3) have "f u @ concat (map (\<lambda>u. c # f u) us) @ e # r = f w @ concat (map (\<lambda>w. c # f w) ws') @ e # r'"
      by simp
    moreover have "reads f u (set ws)" using Cons.prems(1) by simp
    ultimately have "u = w \<and> concat (map (\<lambda>u. c # f u) us) @ e # r = concat (map (\<lambda>w. c # f w) ws') @ e # r'"
      unfolding reads_def Cons by (metis list.set_intros(1))
    moreover have "\<forall>u \<in> set us. reads f u (set ws')" using Cons.prems(1) reads_mono Cons by (metis list.set_intros(2) set_subset_Cons)
    ultimately show ?thesis using Cons.IH [of ws'] Cons.prems(2) Cons by blast
  qed
qed

lemma joined_read:
  assumes "\<forall>u \<in> set us. reads f u (set ws)" "c \<noteq> e" "\<forall>x \<in> set us \<union> set ws. f x \<noteq> [] \<and> hd (f x) \<noteq> e"
    and "join [c] (map f us) @ e # r = join [c] (map f ws) @ e # r'"
  shows "us = ws \<and> r = r'"
proof (cases us)
  case Nil
  then show ?thesis
  proof (cases ws)
    case (Cons w ws')
    with assms(3,4) Nil show ?thesis by (cases "f w") (auto simp: join_concat)
  qed (use assms(4) in simp)
next
  case (Cons u us')
  note us = Cons
  show ?thesis
  proof (cases ws)
    case Nil
    with assms(3,4) us show ?thesis by (cases "f u") (auto simp: join_concat)
  next
    case (Cons w ws')
    have "f u @ concat (map (\<lambda>u. c # f u) us') @ e # r = f w @ concat (map (\<lambda>w. c # f w) ws') @ e # r'"
      using assms(4) by (simp add: us Cons join_concat comp_def)
    then have "concat (map (\<lambda>u. c # f u) us) @ e # r = concat (map (\<lambda>w. c # f w) ws) @ e # r'"
      by (simp add: us Cons)
    with rest_read [OF assms(1,2)] show ?thesis .
  qed
qed

lemma plain_head: "textual v \<Longrightarrow> plain v \<noteq> [] \<and> hd (plain v) \<notin> {0x5D, 0x7D}"
  by (cases v) (auto simp: lit_def json_quote_def)

definition entry_text :: "jstr \<times> jsval \<Rightarrow> jstr" where
  "entry_text p = json_quote (fst p) @ lit '':'' @ plain (snd p)"

lemma entry_head: "entry_text p \<noteq> [] \<and> hd (entry_text p) \<noteq> 0x7D"
  by (simp add: entry_text_def json_quote_def)

lemma entry_reads:
  assumes "\<forall>q \<in> ws. reads plain (snd p) {snd q}"
  shows "reads entry_text p ws"
  unfolding reads_def
proof (intro ballI allI impI)
  fix q r r'
  assume q: "q \<in> ws" and eq: "entry_text p @ r = entry_text q @ r'"
  from eq have "fst p = fst q \<and> (lit '':'' @ plain (snd p)) @ r = (lit '':'' @ plain (snd q)) @ r'"
    unfolding entry_text_def append_assoc by (rule json_quote_read)
  then have "fst p = fst q" "plain (snd p) @ r = plain (snd q) @ r'" by simp_all
  moreover have "reads plain (snd p) {snd q}" using assms q by blast
  ultimately show "p = q \<and> r = r'" by (auto simp: reads_def prod_eq_iff)
qed

lemma array_reads:
  assumes "\<forall>v \<in> set vs. reads plain v (Collect textual)" "textual (JArr vs)"
  shows "reads plain (JArr vs) (Collect textual)"
  unfolding reads_def
proof (intro ballI allI impI)
  fix w r r'
  assume w: "w \<in> Collect textual" and eq: "plain (JArr vs) @ r = plain w @ r'"
  obtain ws where ws: "w = JArr ws"
    using eq w by (cases w) (auto simp: lit_def json_quote_def split: if_splits)
  have "vs = ws \<and> r = r'"
  proof (rule joined_read [of vs plain ws "0x2C" "0x5D"])
    show "\<forall>u \<in> set vs. reads plain u (set ws)"
      using assms w ws by (auto simp: reads_def list_all_iff)
    show "\<forall>x \<in> set vs \<union> set ws. plain x \<noteq> [] \<and> hd (plain x) \<noteq> 0x5D"
      using assms(2) w ws plain_head by (auto simp: list_all_iff)
    show "join [0x2C] (map plain vs) @ 0x5D # r = join [0x2C] (map plain ws) @ 0x5D # r'"
      using eq ws by (simp add: lit_def)
  qed simp
  then show "JArr vs = w \<and> r = r'" by (simp add: ws)
qed

lemma object_reads:
  assumes "\<forall>p \<in> set fs. reads plain (snd p) (Collect textual)"
  shows "reads plain (JObj fs) (Collect textual)"
  unfolding reads_def
proof (intro ballI allI impI)
  fix w r r'
  assume w: "w \<in> Collect textual" and eq: "plain (JObj fs) @ r = plain w @ r'"
  obtain ws where ws: "w = JObj ws"
    using eq w by (cases w) (auto simp: lit_def json_quote_def split: if_splits)
  have "fs = ws \<and> r = r'"
  proof (rule joined_read [of fs entry_text ws "0x2C" "0x7D"])
    show "\<forall>p \<in> set fs. reads entry_text p (set ws)"
      using assms w ws by (intro ballI entry_reads) (auto simp: reads_def list_all_iff)
    show "\<forall>x \<in> set fs \<union> set ws. entry_text x \<noteq> [] \<and> hd (entry_text x) \<noteq> 0x7D"
      by (simp add: entry_head)
    show "join [0x2C] (map entry_text fs) @ 0x7D # r = join [0x2C] (map entry_text ws) @ 0x7D # r'"
      using eq ws by (simp add: lit_def entry_text_def [abs_def])
  qed simp
  then show "JObj fs = w \<and> r = r'" by (simp add: ws)
qed

lemma plain_read: "textual v \<Longrightarrow> reads plain v (Collect textual)"
proof (induction v rule: plain.induct)
  case 1
  show ?case by (auto simp: reads_def lit_def json_quote_def elim!: textual.elims split: if_splits)
next
  case (2 b)
  show ?case by (auto simp: reads_def lit_def json_quote_def elim!: textual.elims split: if_splits)
next
  case (3 s)
  show ?case
    by (auto simp: reads_def lit_def elim!: textual.elims split: if_splits dest: json_quote_read)
      (auto simp: json_quote_def)
next
  case (4 vs)
  then show ?case by (intro array_reads) (simp_all add: list_all_iff)
next
  case (5 fs)
  then show ?case by (intro object_reads) (simp add: list_all_iff)
qed auto

section \<open>The text determines the document\<close>

lemma insort_key_map:
  "(\<And>x. g (h x) = f x) \<Longrightarrow> insort_key g (h x) (map h xs) = map h (insort_key f x xs)"
  by (induction xs) simp_all

lemma sort_key_map: "(\<And>x. g (h x) = f x) \<Longrightarrow> sort_key g (map h xs) = map h (sort_key f xs)"
  by (induction xs) (simp_all add: insort_key_map)

lemma canonical_items_map: "canonical_items fmt vs = map (canonical fmt) vs"
  by (induction vs) simp_all

lemma canonical_entries_map: "canonical_entries fmt fs = map (\<lambda>p. (fst p, canonical fmt (snd p))) fs"
  by (induction fs) auto

lemma canonical_plain: "textual v \<Longrightarrow> canonical fmt v = Some (plain (normal v))"
proof (induction v rule: textual.induct)
  case (4 vs)
  then have "map item_text (map (canonical fmt) vs) = map plain (map normal vs)"
    by (simp add: list_all_iff item_text_def)
  then show ?case by (simp only: canonical.simps canonical_items_map normal.simps plain.simps)
next
  case (5 fs)
  let ?n = "\<lambda>p. (fst p, normal (snd p))" and ?t = "\<lambda>q. (fst q, Some (plain (snd q)))"
  have "map (\<lambda>p. (fst p, canonical fmt (snd p))) fs = map ?t (map ?n fs)"
    using 5 by (auto simp: list_all_iff)
  then have "sort_key fst (canonical_entries fmt fs) = map ?t (sort_key fst (map ?n fs))"
    by (simp only: canonical_entries_map sort_key_map fst_conv)
  moreover have "map field_text (map ?t qs) = map (\<lambda>p. json_quote (fst p) @ lit '':'' @ plain (snd p)) qs" for qs
    by (simp add: field_text_def comp_def)
  ultimately show ?case by (simp only: canonical.simps normal.simps plain.simps)
qed (simp_all add: lit_def)

lemma textual_normal: "textual v \<Longrightarrow> textual (normal v)"
proof (induction v rule: textual.induct)
  case (5 fs)
  have "mset (map fst (sort_key fst (map (\<lambda>p. (fst p, normal (snd p))) fs))) = mset (map fst fs)"
    by (simp add: comp_def image_mset.compositionality)
  then have "distinct (map fst (sort_key fst (map (\<lambda>p. (fst p, normal (snd p))) fs)))"
    using 5(2) by (metis mset_eq_imp_distinct_iff textual.simps(5))
  with 5 show ?case by (auto simp: list_all_iff)
qed (auto simp: list_all_iff)

lemma canonical_plain_inj:
  assumes "textual v" "textual w"
  shows "canonical fmt v = canonical fmt' w \<longleftrightarrow> normal v = normal w"
proof
  assume "canonical fmt v = canonical fmt' w"
  then have "plain (normal v) @ [] = plain (normal w) @ []" using assms by (simp add: canonical_plain)
  then show "normal v = normal w"
    using plain_read [OF textual_normal [OF assms(1)]] textual_normal [OF assms(2)]
    unfolding reads_def by blast
qed (use assms in \<open>simp add: canonical_plain\<close>)

text \<open>
  C30. Two documents without numbers have the same canonical text exactly when they are the same
  up to the order in which their properties were written, at any depth.
\<close>

theorem canonical_determines:
  assumes "textual v" "textual w"
  shows "canonical fmt v = canonical fmt' w \<longleftrightarrow> normal v = normal w"
  using assms by (rule canonical_plain_inj)

theorem canonical_determines_witness:
  "canonical (\<lambda>_. []) (JObj [(lit ''b'', JNull), (lit ''a'', JStr [0x22])]) =
   canonical (\<lambda>_. []) (JObj [(lit ''a'', JStr [0x22]), (lit ''b'', JNull)])"
proof -
  have "normal (JObj [(lit ''b'', JNull), (lit ''a'', JStr [0x22])]) =
      normal (JObj [(lit ''a'', JStr [0x22]), (lit ''b'', JNull)])"
    by (simp add: lit_def)
  then show ?thesis
    by (subst canonical_determines) (simp_all add: lit_def)
qed

end
