(* ===== verification/Admission.thy ===== *)
theory Admission
  imports McpPlan Canonical
begin

text \<open>
  The preview of a connection admission
  (\<open>services/dev-control-api/src/connection-admission.mjs\<close>): evidence that a collector gathered on
  a planned connection is validated against the plan, against a candidate context and against
  its own digests. The preview admits nothing. The hash, the date and URL parsers and the clock
  are parameters; the input is a parsed JSON document.
\<close>

section \<open>Digests\<close>

record admission_runtime =
  ad_plan :: plan_runtime
  ad_sha256 :: "jstr \<Rightarrow> jstr"
  ad_parseDate :: "jstr \<Rightarrow> jsnum"
  ad_clock :: time

definition evidence_error :: "string \<Rightarrow> js_error" where
  "evidence_error code = JsError (lit ''invalid_connection_evidence:'' @ lit code)"

definition require :: "bool \<Rightarrow> string \<Rightarrow> demand" where
  "require b code = (b, evidence_error code)"

definition text_within :: "nat \<Rightarrow> jsval \<Rightarrow> bool" where
  "text_within limit v \<longleftrightarrow> not_blank (Some limit) v"

definition canonical_of :: "admission_runtime \<Rightarrow> jsval \<Rightarrow> jstr option" where
  "canonical_of rt v = canonical (pr_num (pn_printer (ad_plan rt))) v"

definition digest_of :: "admission_runtime \<Rightarrow> jstr \<Rightarrow> jsval \<Rightarrow> jstr" where
  "digest_of rt domain v = ad_sha256 rt (domain @ [0] @ item_text (canonical_of rt v))"

text \<open>\<open>update(undefined)\<close> raises.\<close>

definition connectionBindingDigest :: "admission_runtime \<Rightarrow> jsval \<Rightarrow> jsval \<Rightarrow> jstr result" where
  "connectionBindingDigest rt domain v =
     result_bind (run_demands
       [require (text_within 128 domain) ''digest_domain'',
        (canonical_of rt v \<noteq> None, JsTypeError (lit ''The data argument must be of type string''))])
     (\<lambda>_. Inr (digest_of rt (text_or_empty domain) v))"

definition own_fields :: "jsval \<Rightarrow> jsobj" where
  "own_fields v = (case v of JObj fs \<Rightarrow> fs | _ \<Rightarrow> [])"

definition partDigest :: "admission_runtime \<Rightarrow> string \<Rightarrow> jsval \<Rightarrow> string \<Rightarrow> jstr" where
  "partDigest rt domain v omittedKey = digest_of rt (lit domain) (JObj (dict_without (lit omittedKey) (own_fields v)))"

definition evidence_digest :: "admission_runtime \<Rightarrow> jsval \<Rightarrow> jstr" where
  "evidence_digest rt evidence = partDigest rt ''sirinx:connection-evidence:v1'' evidence ''evidenceDigest''"

definition connectionEvidenceDigest :: "admission_runtime \<Rightarrow> jsval \<Rightarrow> jstr result" where
  "connectionEvidenceDigest rt evidence =
     result_bind (run_demands [require (is_record evidence) ''evidence_must_be_object''])
       (\<lambda>_. Inr (evidence_digest rt evidence))"

section \<open>Patterns and keys\<close>

definition hex_class :: chars where
  "hex_class = Chars False False [(0x30, 0x39), (0x61, 0x66)]"

definition letters_digits :: "(nat \<times> nat) list" where
  "letters_digits = [(0x41, 0x5A), (0x61, 0x7A), (0x30, 0x39)]"

definition only :: "nat \<Rightarrow> nat \<times> nat" where
  "only c = (c, c)"

definition DIGEST :: rx where
  "DIGEST = RSeq [RStart, RClass hex_class 64 (Some 64), REnd]"

definition REVISION :: rx where
  "REVISION = RSeq [RStart, RAlt [RClass hex_class 40 (Some 40), RClass hex_class 64 (Some 64)], REnd]"

definition prefixed_id :: "string \<Rightarrow> rx" where
  "prefixed_id prefix = RSeq
     [RStart, RText (lit prefix),
      RClass (Chars False False (letters_digits @ [only 0x2E, only 0x5F, only 0x2D])) 1 None, REnd]"

definition version_core :: "rx list" where
  "version_core =
     [RClass c_digit 1 None, RText (lit ''.''), RClass c_digit 1 None, RText (lit ''.''), RClass c_digit 1 None,
      ROpt (RSeq [RClass (Chars False False [only 0x2D, only 0x2B]) 1 (Some 1),
        RClass (Chars False False (letters_digits @ [only 0x2E, only 0x2D])) 1 None])]"

definition SEMVER :: rx where
  "SEMVER = RSeq (RStart # version_core @ [REnd])"

definition PROTOCOL_VERSION :: rx where
  "PROTOCOL_VERSION = RSeq
     [RStart, RAlt [RSeq version_core, RSeq [digits 4, RText (lit ''-''), digits 2, RText (lit ''-''), digits 2]], REnd]"

definition SPDX_EXPRESSION :: rx where
  "SPDX_EXPRESSION = RSeq
     [RStart, RClass (Chars False False letters_digits) 1 (Some 1),
      RClass (Chars False False (letters_digits @ [only 0x20, only 0x2E, only 0x28, only 0x29, only 0x2B, only 0x2D]))
        0 (Some 255), REnd]"

definition IPV4 :: rx where
  "IPV4 = (let part = RClass c_digit 1 (Some 3); dot = RText (lit ''.'') in
     RSeq [RStart, part, dot, part, dot, part, dot, part, REnd])"

definition fits_pattern :: "rx \<Rightarrow> jsval \<Rightarrow> bool" where
  "fits_pattern r v \<longleftrightarrow> is_str v \<and> rx_test False r (text_or_empty v)"

definition is_digest :: "jsval \<Rightarrow> bool" where
  "is_digest v \<longleftrightarrow> fits_pattern DIGEST v"

definition exactKeys :: "jsval \<Rightarrow> string list \<Rightarrow> string \<Rightarrow> demand list" where
  "exactKeys v expected label =
     [require (is_record v) (label @ ''_must_be_object''),
      require (closed_to expected v) (label @ ''_must_be_closed'')]"

definition EVIDENCE_KEYS :: "string list" where
  "EVIDENCE_KEYS =
     [''agentCard'', ''bindings'', ''capabilities'', ''collector'', ''component'', ''connectionId'',
      ''dataClassCeiling'', ''endpointOrigin'', ''evidenceDigest'', ''evidenceId'', ''expiresAt'', ''observedAt'',
      ''peer'', ''protocol'', ''schemaVersion'', ''status'', ''transport'']"

definition PEER_KEYS :: "string list" where
  "PEER_KEYS = [''identityDigest'', ''peerId'', ''principalId'', ''role'']"

definition COMPONENT_KEYS :: "string list" where
  "COMPONENT_KEYS =
     [''artifactDigest'', ''identityDigest'', ''licenseDigest'', ''name'', ''provenanceDigest'', ''sourceRevision'',
      ''spdxLicenseExpression'', ''version'']"

definition AGENT_CARD_KEYS :: "string list" where
  "AGENT_CARD_KEYS =
     [''capabilityDigest'', ''cardDigest'', ''dataClassCeilingDigest'', ''endpointOrigin'', ''peerId'', ''protocolDigest'']"

definition PROTOCOL_KEYS :: "string list" where
  "PROTOCOL_KEYS = [''digest'', ''name'', ''version'']"

definition CAPABILITY_KEYS :: "string list" where
  "CAPABILITY_KEYS = [''declared'', ''digest'']"

definition DATA_CEILING_KEYS :: "string list" where
  "DATA_CEILING_KEYS = [''digest'', ''value'']"

definition COLLECTOR_KEYS :: "string list" where
  "COLLECTOR_KEYS =
     [''attestationDigest'', ''binaryDigest'', ''collectorId'', ''identityDigest'', ''principalId'', ''revision'']"

definition BINDING_KEYS :: "string list" where
  "BINDING_KEYS =
     [''leaseDigest'', ''leaseId'', ''planDigest'', ''receiptDigest'', ''receiptId'', ''runDigest'', ''runId'',
      ''taskDigest'', ''taskId'']"

definition CANDIDATE_CONTEXT_KEYS :: "string list" where
  "CANDIDATE_CONTEXT_KEYS =
     [''agentCardDigest'', ''artifactDigest'', ''capabilityDigest'', ''collectorAttestationDigest'',
      ''collectorBinaryDigest'', ''collectorId'', ''collectorIdentityDigest'', ''collectorPrincipalId'',
      ''collectorRevision'', ''componentIdentityDigest'', ''componentName'', ''componentVersion'',
      ''dataClassCeilingDigest'', ''leaseDigest'', ''leaseId'', ''licenseDigest'', ''peerId'', ''peerIdentityDigest'',
      ''principalId'', ''protocolDigest'', ''provenanceDigest'', ''receiptDigest'', ''receiptId'', ''runDigest'',
      ''runId'', ''sourceRevision'', ''spdxLicenseExpression'', ''taskDigest'', ''taskId'']"

text \<open>The protocol a role must speak; \<open>None\<close> leaves it to the transport.\<close>

definition ROLE_PROTOCOL :: "(string \<times> string option) list" where
  "ROLE_PROTOCOL =
     [(''REMOTE_MCP_SERVER'', Some ''MCP''), (''MCP_PORTAL'', Some ''MCP''), (''MCP_CLIENT'', Some ''MCP''),
      (''LOCAL_MCP_SERVER'', Some ''MCP''), (''MESSAGING_TRANSPORT'', None), (''A2A_PEER'', Some ''A2A'')]"

section \<open>Clock and freshness\<close>

definition timestamp_demands :: "admission_runtime \<Rightarrow> jsval \<Rightarrow> string \<Rightarrow> demand list" where
  "timestamp_demands rt v label =
     [require (fits_pattern RFC3339 v) label, require (on_calendar (text_or_empty v)) label,
      require (is_finite (ad_parseDate rt (text_or_empty v))) label]"

definition now_value :: "admission_runtime \<Rightarrow> jsval \<Rightarrow> jsnum" where
  "now_value rt nowInput =
     (case nowInput of
        JDate t \<Rightarrow> Fin (of_int t)
      | JStr s \<Rightarrow> if s = [] then Fin (of_int (ad_clock rt)) else ad_parseDate rt s
      | _ \<Rightarrow> Fin (of_int (ad_clock rt)))"

definition is_now_input :: "jsval \<Rightarrow> bool" where
  "is_now_input v \<longleftrightarrow> (case v of JUndef \<Rightarrow> True | JDate _ \<Rightarrow> True | JStr _ \<Rightarrow> True | _ \<Rightarrow> False)"

definition ms_of :: "jsnum \<Rightarrow> rat" where
  "ms_of x = (case x of Fin a \<Rightarrow> a | _ \<Rightarrow> 0)"

definition CONNECTION_EVIDENCE_MAX_AGE_MS :: rat where
  "CONNECTION_EVIDENCE_MAX_AGE_MS = 5 * 60 * 1000"

definition CONNECTION_EVIDENCE_MAX_LIFETIME_MS :: rat where
  "CONNECTION_EVIDENCE_MAX_LIFETIME_MS = 5 * 60 * 1000"

definition CONNECTION_EVIDENCE_MAX_FUTURE_SKEW_MS :: rat where
  "CONNECTION_EVIDENCE_MAX_FUTURE_SKEW_MS = 0"

definition validateFreshness :: "admission_runtime \<Rightarrow> jsval \<Rightarrow> jsval \<Rightarrow> demand list" where
  "validateFreshness rt evidence nowInput =
     (let now = ms_of (now_value rt nowInput);
          observedAt = ms_of (ad_parseDate rt (text_or_empty (opt_prop evidence ''observedAt'')));
          expiresAt = ms_of (ad_parseDate rt (text_or_empty (opt_prop evidence ''expiresAt'')))
      in [require (is_now_input nowInput) ''now_input_must_be_date_or_iso_string'',
          require (is_finite (now_value rt nowInput)) ''now_invalid''] @
         timestamp_demands rt (opt_prop evidence ''observedAt'') ''observed_at'' @
         timestamp_demands rt (opt_prop evidence ''expiresAt'') ''expires_at'' @
         [require (\<not> now + CONNECTION_EVIDENCE_MAX_FUTURE_SKEW_MS < observedAt) ''observed_at_in_future'',
          require (\<not> CONNECTION_EVIDENCE_MAX_AGE_MS < now - observedAt) ''evidence_stale'',
          require (\<not> expiresAt \<le> now) ''evidence_expired'',
          require (\<not> (expiresAt \<le> observedAt \<or> CONNECTION_EVIDENCE_MAX_LIFETIME_MS < expiresAt - observedAt))
            ''evidence_lifetime_invalid''])"


section \<open>The endpoint\<close>

text \<open>\<open>hostname.replace(/^\[|\]$/g, "").replace(/\.$/, "").toLowerCase()\<close>.\<close>

definition bare_host :: "jstr \<Rightarrow> jstr" where
  "bare_host h =
     (let a = (if h \<noteq> [] \<and> hd h = 0x5B then tl h else h);
          b = (if a \<noteq> [] \<and> last a = 0x5D then butlast a else a);
          c = (if b \<noteq> [] \<and> last b = 0x2E then butlast b else b)
      in to_lower c)"

text \<open>Asked only of four groups of one to three digits, where \<open>Number\<close> is the decimal value.\<close>

definition blockedIpv4 :: "jstr \<Rightarrow> bool" where
  "blockedIpv4 host =
     (let parts = map (decimal_value 0) (split_on 0x2E host); a = parts ! 0; b = parts ! 1
      in length parts \<noteq> 4 \<or> list_ex (\<lambda>part. 255 < part) parts \<or>
         a = 0 \<or> a = 10 \<or> a = 127 \<or> 224 \<le> a \<or>
         (a = 100 \<and> 64 \<le> b \<and> b \<le> 127) \<or> (a = 169 \<and> b = 254) \<or> (a = 172 \<and> 16 \<le> b \<and> b \<le> 31) \<or>
         (a = 192 \<and> b = 168))"

definition validateEndpointOrigin :: "admission_runtime \<Rightarrow> jsval \<Rightarrow> jsval \<Rightarrow> demand list" where
  "validateEndpointOrigin rt v transport =
     (if one_of [''stdio'', ''none''] transport
      then [require (v = JNull) ''endpoint_must_be_null_for_local_transport'']
      else
        let u = pn_url (ad_plan rt) (text_or_empty v); hostname = bare_host (link_part u lu_hostname) in
        [require (v \<noteq> JNull) ''endpoint_origin_required'',
         require (is_str v \<and> length (text_or_empty v) \<le> 2048) ''endpoint_origin_invalid'',
         require (u \<noteq> None) ''endpoint_origin_invalid'',
         require (link_part u lu_protocol = lit ''https:'') ''endpoint_origin_https_required'',
         require (link_part u lu_username = [] \<and> link_part u lu_password = []) ''endpoint_origin_userinfo_forbidden'',
         require (link_part u lu_search = [] \<and> link_part u lu_hash = [] \<and> link_part u lu_pathname = lit ''/'')
           ''endpoint_origin_not_canonical'',
         require (text_or_empty v = link_part u lu_origin) ''endpoint_origin_not_canonical'',
         require (\<not> (hostname = lit ''localhost'' \<or> ends_with (lit ''.localhost'') hostname))
           ''endpoint_origin_localhost_forbidden'',
         require (\<not> contains hostname (lit '':'')) ''endpoint_origin_ipv6_literal_unsupported'',
         require (\<not> (rx_test False IPV4 hostname \<and> blockedIpv4 hostname)) ''endpoint_origin_private_literal_forbidden''])"

section \<open>The candidate context\<close>

definition validateCandidateContext :: "jsval \<Rightarrow> demand list" where
  "validateCandidateContext ctx =
     (let p = opt_prop ctx;
          demand_digest = (\<lambda>key. require (is_digest (p key)) (''candidate_context_'' @ key));
          demand_pattern = (\<lambda>key r. require (fits_pattern r (p key)) (''candidate_context_'' @ key));
          demand_text = (\<lambda>key limit. require (text_within limit (p key)) (''candidate_context_'' @ key)) in
      exactKeys ctx CANDIDATE_CONTEXT_KEYS ''candidate_context'' @
      map demand_digest
        [''artifactDigest'', ''capabilityDigest'', ''collectorAttestationDigest'', ''collectorBinaryDigest'',
         ''collectorIdentityDigest'', ''componentIdentityDigest'', ''dataClassCeilingDigest'', ''leaseDigest'',
         ''licenseDigest'', ''peerIdentityDigest'', ''protocolDigest'', ''provenanceDigest'', ''receiptDigest'',
         ''runDigest'', ''taskDigest''] @
      (if p ''agentCardDigest'' = JNull then [] else [demand_digest ''agentCardDigest'']) @
      [demand_pattern ''peerId'' plan_id, demand_text ''principalId'' 256, demand_text ''componentName'' 128,
       demand_pattern ''componentVersion'' SEMVER, demand_pattern ''sourceRevision'' REVISION,
       demand_pattern ''spdxLicenseExpression'' SPDX_EXPRESSION,
       demand_pattern ''collectorId'' (prefixed_id ''COLLECTOR-''), demand_text ''collectorPrincipalId'' 256,
       demand_pattern ''collectorRevision'' REVISION, demand_pattern ''taskId'' (prefixed_id ''TASK-''),
       demand_pattern ''runId'' (prefixed_id ''RUN-''), demand_pattern ''leaseId'' (prefixed_id ''LEASE-''),
       demand_pattern ''receiptId'' (prefixed_id ''RECEIPT-'')])"

section \<open>The structure of the evidence\<close>

definition capabilities_ok :: "jsval \<Rightarrow> bool" where
  "capabilities_ok v \<longleftrightarrow>
     is_arr v \<and> length (items v) \<le> 256 \<and> list_all (text_within 128) (items v) \<and> distinct (items v)"

text \<open>\<open>Object.hasOwn\<close> reads any role as a key.\<close>

definition peer_demands :: "admission_runtime \<Rightarrow> jsval \<Rightarrow> demand list" where
  "peer_demands rt peer =
     (let role = opt_prop peer ''role'' in
      exactKeys peer PEER_KEYS ''peer'' @
      [require (fits_pattern plan_id (opt_prop peer ''peerId'')) ''peer_id'',
       require (text_within 256 (opt_prop peer ''principalId'')) ''principal_id'',
       has_text role,
       require (text_of (pn_printer (ad_plan rt)) role \<in> set (map (\<lambda>r. lit (fst r)) ROLE_PROTOCOL)) ''peer_role'',
       require (is_digest (opt_prop peer ''identityDigest'')) ''peer_identity_digest''])"

definition component_demands :: "jsval \<Rightarrow> demand list" where
  "component_demands c =
     (let p = opt_prop c in
      exactKeys c COMPONENT_KEYS ''component'' @
      [require (text_within 128 (p ''name'')) ''component_name'',
       require (text_within 128 (p ''version'')) ''component_version'',
       require (fits_pattern SEMVER (p ''version'')) ''component_version'',
       require (fits_pattern REVISION (p ''sourceRevision'')) ''component_revision'',
       require (fits_pattern SPDX_EXPRESSION (p ''spdxLicenseExpression'')) ''component_spdx_license''] @
      map (\<lambda>key. require (is_digest (p key)) (''component_'' @ key))
        [''artifactDigest'', ''licenseDigest'', ''provenanceDigest'', ''identityDigest''])"

definition protocol_demands :: "jsval \<Rightarrow> demand list" where
  "protocol_demands c =
     (let p = opt_prop c in
      exactKeys c PROTOCOL_KEYS ''protocol'' @
      [require (one_of [''MCP'', ''A2A'', ''TELEGRAM_BOT_API'', ''LINE_MESSAGING_API''] (p ''name'')) ''protocol_name'',
       require (text_within 128 (p ''version'')) ''protocol_version'',
       require (fits_pattern PROTOCOL_VERSION (p ''version'')) ''protocol_version'',
       require (is_digest (p ''digest'')) ''protocol_digest''])"

definition capability_demands :: "jsval \<Rightarrow> jsval \<Rightarrow> demand list" where
  "capability_demands capabilities class_limit =
     exactKeys capabilities CAPABILITY_KEYS ''capabilities'' @
     [require (capabilities_ok (opt_prop capabilities ''declared'')) ''capabilities_declared'',
      require (is_digest (opt_prop capabilities ''digest'')) ''capabilities_digest''] @
     exactKeys class_limit DATA_CEILING_KEYS ''data_class_ceiling'' @
     [require (one_of [''PUBLIC'', ''INTERNAL'', ''CONFIDENTIAL'', ''RESTRICTED''] (opt_prop class_limit ''value''))
        ''data_class_ceiling_value'',
      require (is_digest (opt_prop class_limit ''digest'')) ''data_class_ceiling_digest'']"

definition collector_demands :: "jsval \<Rightarrow> demand list" where
  "collector_demands c =
     (let p = opt_prop c in
      exactKeys c COLLECTOR_KEYS ''collector'' @
      [require (fits_pattern (prefixed_id ''COLLECTOR-'') (p ''collectorId'')) ''collector_id'',
       require (text_within 256 (p ''principalId'')) ''collector_principal_id'',
       require (fits_pattern REVISION (p ''revision'')) ''collector_revision''] @
      map (\<lambda>key. require (is_digest (p key)) (''collector_'' @ key))
        [''binaryDigest'', ''attestationDigest'', ''identityDigest''])"

definition binding_demands :: "jsval \<Rightarrow> demand list" where
  "binding_demands c =
     (let p = opt_prop c in
      exactKeys c BINDING_KEYS ''bindings'' @
      [require (fits_pattern (prefixed_id ''TASK-'') (p ''taskId'')) ''task_id'',
       require (fits_pattern (prefixed_id ''RUN-'') (p ''runId'')) ''run_id'',
       require (fits_pattern (prefixed_id ''LEASE-'') (p ''leaseId'')) ''lease_id'',
       require (fits_pattern (prefixed_id ''RECEIPT-'') (p ''receiptId'')) ''receipt_id''] @
      map (\<lambda>key. require (is_digest (p key)) (''bindings_'' @ key))
        [''planDigest'', ''taskDigest'', ''runDigest'', ''leaseDigest'', ''receiptDigest''])"

definition agent_card_demands :: "jsval \<Rightarrow> demand list" where
  "agent_card_demands c =
     (if c = JNull then []
      else
        exactKeys c AGENT_CARD_KEYS ''agent_card'' @
        [require (fits_pattern plan_id (opt_prop c ''peerId'')) ''agent_card_peer_id''] @
        map (\<lambda>key. require (is_digest (opt_prop c key)) (''agent_card_'' @ key))
          [''protocolDigest'', ''capabilityDigest'', ''dataClassCeilingDigest'', ''cardDigest''])"

definition validateStructure :: "admission_runtime \<Rightarrow> jsval \<Rightarrow> demand list" where
  "validateStructure rt evidence =
     (let p = opt_prop evidence in
      exactKeys evidence EVIDENCE_KEYS ''evidence'' @
      [require (p ''schemaVersion'' = JText ''1.0'') ''schema_version'',
       require (p ''status'' = JText ''COLLECTED_NOT_ADMITTED'') ''status'',
       require (fits_pattern (prefixed_id ''CEV-'') (p ''evidenceId'')) ''evidence_id'',
       require (fits_pattern plan_id (p ''connectionId'')) ''connection_id'',
       require (one_of TRANSPORTS (p ''transport'')) ''transport''] @
      peer_demands rt (p ''peer'') @ component_demands (p ''component'') @ protocol_demands (p ''protocol'') @
      capability_demands (p ''capabilities'') (p ''dataClassCeiling'') @ collector_demands (p ''collector'') @
      binding_demands (p ''bindings'') @ [require (is_digest (p ''evidenceDigest'')) ''evidence_digest''] @
      agent_card_demands (p ''agentCard''))"


section \<open>Bindings\<close>

definition self_digest :: "admission_runtime \<Rightarrow> string \<Rightarrow> jsval \<Rightarrow> string \<Rightarrow> string \<Rightarrow> demand" where
  "self_digest rt domain part key code =
     require (opt_prop part key = JStr (partDigest rt domain part key)) code"

definition validateSelfBindings :: "admission_runtime \<Rightarrow> jsval \<Rightarrow> demand list" where
  "validateSelfBindings rt evidence =
     (let p = opt_prop evidence; card = p ''agentCard'' in
      [self_digest rt ''sirinx:connection-peer:v1'' (p ''peer'') ''identityDigest'' ''peer_identity_digest_mismatch'',
       self_digest rt ''sirinx:connection-component:v1'' (p ''component'') ''identityDigest''
         ''component_identity_digest_mismatch'',
       self_digest rt ''sirinx:connection-protocol:v1'' (p ''protocol'') ''digest'' ''protocol_digest_mismatch'',
       self_digest rt ''sirinx:connection-capabilities:v1'' (p ''capabilities'') ''digest'' ''capability_digest_mismatch'',
       self_digest rt ''sirinx:connection-data-ceiling:v1'' (p ''dataClassCeiling'') ''digest''
         ''data_class_ceiling_digest_mismatch'',
       self_digest rt ''sirinx:connection-collector:v1'' (p ''collector'') ''identityDigest''
         ''collector_identity_digest_mismatch'',
       require (p ''evidenceDigest'' = JStr (evidence_digest rt evidence)) ''evidence_digest_mismatch''] @
      (if card = JNull then []
       else
         [self_digest rt ''sirinx:connection-agent-card:v1'' card ''cardDigest'' ''agent_card_digest_mismatch'',
          require (opt_prop card ''peerId'' = opt_prop (p ''peer'') ''peerId'') ''agent_card_peer_mismatch'',
          require (opt_prop card ''endpointOrigin'' = p ''endpointOrigin'') ''agent_card_endpoint_mismatch'',
          require (opt_prop card ''protocolDigest'' = opt_prop (p ''protocol'') ''digest'') ''agent_card_protocol_mismatch'',
          require (opt_prop card ''capabilityDigest'' = opt_prop (p ''capabilities'') ''digest'')
            ''agent_card_capability_mismatch'',
          require (opt_prop card ''dataClassCeilingDigest'' = opt_prop (p ''dataClassCeiling'') ''digest'')
            ''agent_card_data_ceiling_mismatch'']))"

text \<open>The part and key of the evidence, the key of the context, and the error.\<close>

definition candidate_pairs :: "(string \<times> string \<times> string \<times> string) list" where
  "candidate_pairs =
     [(''peer'', ''peerId'', ''peerId'', ''peer_mismatch''),
      (''peer'', ''principalId'', ''principalId'', ''principal_mismatch''),
      (''peer'', ''identityDigest'', ''peerIdentityDigest'', ''peer_identity_candidate_mismatch''),
      (''component'', ''name'', ''componentName'', ''component_name_mismatch''),
      (''component'', ''version'', ''componentVersion'', ''component_version_mismatch''),
      (''component'', ''sourceRevision'', ''sourceRevision'', ''component_revision_mismatch''),
      (''component'', ''artifactDigest'', ''artifactDigest'', ''component_artifact_mismatch''),
      (''component'', ''spdxLicenseExpression'', ''spdxLicenseExpression'', ''component_license_expression_mismatch''),
      (''component'', ''licenseDigest'', ''licenseDigest'', ''component_license_digest_mismatch''),
      (''component'', ''provenanceDigest'', ''provenanceDigest'', ''component_provenance_mismatch''),
      (''component'', ''identityDigest'', ''componentIdentityDigest'', ''component_identity_candidate_mismatch''),
      (''protocol'', ''digest'', ''protocolDigest'', ''protocol_candidate_mismatch''),
      (''capabilities'', ''digest'', ''capabilityDigest'', ''capability_candidate_mismatch''),
      (''dataClassCeiling'', ''digest'', ''dataClassCeilingDigest'', ''data_ceiling_candidate_mismatch''),
      (''collector'', ''collectorId'', ''collectorId'', ''collector_id_mismatch''),
      (''collector'', ''principalId'', ''collectorPrincipalId'', ''collector_principal_mismatch''),
      (''collector'', ''revision'', ''collectorRevision'', ''collector_revision_mismatch''),
      (''collector'', ''binaryDigest'', ''collectorBinaryDigest'', ''collector_binary_mismatch''),
      (''collector'', ''attestationDigest'', ''collectorAttestationDigest'', ''collector_attestation_mismatch''),
      (''collector'', ''identityDigest'', ''collectorIdentityDigest'', ''collector_identity_candidate_mismatch''),
      (''bindings'', ''taskId'', ''taskId'', ''task_id_mismatch''),
      (''bindings'', ''taskDigest'', ''taskDigest'', ''task_digest_mismatch''),
      (''bindings'', ''runId'', ''runId'', ''run_id_mismatch''),
      (''bindings'', ''runDigest'', ''runDigest'', ''run_digest_mismatch''),
      (''bindings'', ''leaseId'', ''leaseId'', ''lease_id_mismatch''),
      (''bindings'', ''leaseDigest'', ''leaseDigest'', ''lease_digest_mismatch''),
      (''bindings'', ''receiptId'', ''receiptId'', ''receipt_id_mismatch''),
      (''bindings'', ''receiptDigest'', ''receiptDigest'', ''receipt_digest_mismatch'')]"

definition validateCandidateBindings :: "jsval \<Rightarrow> jsval \<Rightarrow> demand list" where
  "validateCandidateBindings evidence ctx =
     map (\<lambda>(part, key, wanted, code).
       require (opt_prop (opt_prop evidence part) key = opt_prop ctx wanted) code) candidate_pairs @
     [require (js_or (opt_prop (opt_prop evidence ''agentCard'') ''cardDigest'') JNull = opt_prop ctx ''agentCardDigest'')
        ''agent_card_candidate_mismatch'']"

section \<open>The plan\<close>

definition MCP_CONNECTION_PLAN_V1_DIGEST :: jstr where
  "MCP_CONNECTION_PLAN_V1_DIGEST = lit ''51bb41ec38c1472c1ec0684cc6668591cebc3d58a05747d112d1917eecb046d1''"

definition plan_digest :: "admission_runtime \<Rightarrow> jsval \<Rightarrow> jstr" where
  "plan_digest rt plan = digest_of rt (lit ''sirinx:mcp-connection-plan:v1'') plan"

text \<open>Reading a property of \<open>undefined\<close> or \<open>null\<close> raises; the evidence is not validated yet.\<close>

definition has_members :: "jsval \<Rightarrow> demand" where
  "has_members v =
     (v \<noteq> JUndef \<and> v \<noteq> JNull,
      JsTypeError (if v = JNull then lit ''Cannot read properties of null'' else lit ''Cannot read properties of undefined''))"

text \<open>\<open>===\<close>: two arrays or objects of a parsed document are never the same.\<close>

definition planned_connection :: "jsval \<Rightarrow> jsval \<Rightarrow> jsval option" where
  "planned_connection plan v =
     (if is_set_member v
      then List.find (\<lambda>c. opt_prop c ''connectionId'' = v) (items (opt_prop plan ''connections'')) else None)"

definition expected_origin :: "admission_runtime \<Rightarrow> jsval \<Rightarrow> jsval" where
  "expected_origin rt connection =
     (if opt_prop connection ''endpoint'' = JNull then JNull
      else JStr (link_part (parse_link (ad_plan rt) (opt_prop connection ''endpoint'')) lu_origin))"

definition role_protocol :: "jsval \<Rightarrow> string option" where
  "role_protocol role = (case role of JStr s \<Rightarrow>
     (case List.find (\<lambda>r. lit (fst r) = s) ROLE_PROTOCOL of None \<Rightarrow> None | Some r \<Rightarrow> snd r) | _ \<Rightarrow> None)"

definition protocol_bound :: "jsval \<Rightarrow> jsval \<Rightarrow> demand list" where
  "protocol_bound evidence connection =
     (let role = opt_prop connection ''role''; protocol = opt_prop evidence ''protocol'';
          code = ''connection_protocol_mismatch'' in
      (case role_protocol role of
         None \<Rightarrow> []
       | Some wanted \<Rightarrow> [has_members protocol, require (opt_prop protocol ''name'' = JText wanted) code]) @
      (if role = JText ''MESSAGING_TRANSPORT''
       then [has_members protocol,
             require (opt_prop protocol ''name'' =
               (if opt_prop connection ''transport'' = JText ''telegram-bot-api''
                then JText ''TELEGRAM_BOT_API'' else JText ''LINE_MESSAGING_API'')) code]
       else []))"

definition connection_bound :: "admission_runtime \<Rightarrow> jsval \<Rightarrow> jsval \<Rightarrow> demand list" where
  "connection_bound rt evidence c =
     (let p = opt_prop evidence in
      [has_members (p ''peer''),
       require (opt_prop (p ''peer'') ''peerId'' = opt_prop c ''connectionId'') ''connection_peer_id_mismatch'',
       require (opt_prop (p ''peer'') ''role'' = opt_prop c ''role'') ''connection_role_mismatch'',
       require (p ''transport'' = opt_prop c ''transport'') ''connection_transport_mismatch'',
       require (p ''endpointOrigin'' = expected_origin rt c) ''connection_endpoint_mismatch'',
       has_members (p ''capabilities''),
       require (canonical_of rt (opt_prop (p ''capabilities'') ''declared'') = canonical_of rt (opt_prop c ''capabilities''))
         ''connection_capabilities_mismatch'',
       has_members (p ''dataClassCeiling''),
       require (opt_prop (p ''dataClassCeiling'') ''value'' = opt_prop c ''dataClassCeiling'')
         ''connection_data_ceiling_mismatch''] @
      protocol_bound evidence c @
      [require (\<not> (opt_prop c ''role'' = JText ''A2A_PEER'' \<and> p ''agentCard'' = JNull)) ''a2a_agent_card_required'',
       require (\<not> (opt_prop c ''role'' \<noteq> JText ''A2A_PEER'' \<and> p ''agentCard'' \<noteq> JNull)) ''agent_card_forbidden_for_role''])"

definition validatePlanBindings :: "admission_runtime \<Rightarrow> jsval \<Rightarrow> jsval \<Rightarrow> demand list" where
  "validatePlanBindings rt plan evidence =
     (let bindings = opt_prop evidence ''bindings'';
          connection = planned_connection plan (opt_prop evidence ''connectionId'') in
      plan_demands (ad_plan rt) plan @
      [require (plan_digest rt plan = MCP_CONNECTION_PLAN_V1_DIGEST) ''plan_authority_digest_mismatch'',
       has_members evidence, has_members bindings,
       require (opt_prop bindings ''planDigest'' = JStr (plan_digest rt plan)) ''plan_digest_mismatch'',
       require (connection \<noteq> None) ''connection_not_in_plan''] @
      (case connection of None \<Rightarrow> [] | Some c \<Rightarrow> connection_bound rt evidence c))"

section \<open>The preview\<close>

definition evidence_demands :: "admission_runtime \<Rightarrow> jsval \<Rightarrow> jsval \<Rightarrow> jsval \<Rightarrow> demand list" where
  "evidence_demands rt evidence ctx nowInput =
     (let p = opt_prop evidence; card = p ''agentCard'' in
      validateCandidateContext ctx @ validateStructure rt evidence @
      validateEndpointOrigin rt (p ''endpointOrigin'') (p ''transport'') @
      (if card = JNull then [] else validateEndpointOrigin rt (opt_prop card ''endpointOrigin'') (p ''transport'')) @
      validateFreshness rt evidence nowInput @ validateSelfBindings rt evidence @
      validateCandidateBindings evidence ctx)"

definition validateConnectionEvidenceV1 :: "admission_runtime \<Rightarrow> jsval \<Rightarrow> jsval \<Rightarrow> jsval \<Rightarrow> jsval result" where
  "validateConnectionEvidenceV1 rt evidence ctx nowInput =
     result_bind (run_demands (evidence_demands rt evidence ctx nowInput)) (\<lambda>_. Inr evidence)"

definition flag_fields :: "bool \<Rightarrow> string list \<Rightarrow> jsobj" where
  "flag_fields b ss = map (\<lambda>s. (lit s, JBool b)) ss"

definition denied_flags :: "string list" where
  "denied_flags =
     [''ioPerformed'', ''admitted'', ''enabled'', ''endpointVerified'', ''agentCardTrusted'', ''handshakeReady'',
      ''authenticationValidated'', ''capabilityAuthorityValidated'', ''canConnect'', ''canRunMcp'', ''canEmitA2a'',
      ''canSendMessages'', ''authorityValidated'', ''durableAdmission'', ''replayProtectionAvailable'',
      ''evidenceUniquenessValidated'', ''networkCalls'', ''processStarted'', ''environmentRead'', ''secretsRead'',
      ''databaseWrites'', ''externalWrites'', ''messagesSent'', ''routesRegistered'', ''commandExecuted'']"

definition preview_answer :: "admission_runtime \<Rightarrow> jsval \<Rightarrow> jsval \<Rightarrow> jsval" where
  "preview_answer rt plan evidence = JObj
     ([(lit ''schemaVersion'', JText ''1.0''), (lit ''status'', JText ''EVIDENCE_VALIDATED_NOT_ADMITTED''),
       (lit ''mode'', JText ''local-pure-preview''), (lit ''connectionId'', opt_prop evidence ''connectionId''),
       (lit ''evidenceId'', opt_prop evidence ''evidenceId''), (lit ''planDigest'', JStr (plan_digest rt plan)),
       (lit ''evidenceDigest'', opt_prop evidence ''evidenceDigest''),
       (lit ''observedAt'', opt_prop evidence ''observedAt''), (lit ''expiresAt'', opt_prop evidence ''expiresAt''),
       (lit ''validation'', JObj
          (flag_fields True
             [''planDigestConsistent'', ''evidenceDigestConsistent'', ''endpointBindingConsistent'',
              ''capabilityDigestConsistent'', ''candidateRuntimeBindingsConsistent''] @
           flag_fields False [''candidateContextAuthorityValidated'', ''clockAuthorityValidated''])),
       (lit ''readOnly'', JBool True)] @
      flag_fields False denied_flags @
      [(lit ''blockers'', JTexts
          [''candidate_context_is_caller_supplied'', ''clock_authority_not_attested'',
           ''connection_authority_unavailable'', ''dns_resolution_and_origin_auth_unverified'',
           ''durable_connection_admission_unavailable'', ''effect_circuits_unavailable'',
           ''network_and_message_io_disabled'', ''replay_ledger_unavailable'']),
       (lit ''stopPoint'',
        JText ''CONNECTION EVIDENCE VALIDATED - NO CONNECTION, MCP, A2A, OR MESSAGE AUTHORITY'')])"

definition preview_demands :: "admission_runtime \<Rightarrow> jsval \<Rightarrow> jsval \<Rightarrow> demand list" where
  "preview_demands rt input nowInput =
     (let p = opt_prop input in
      exactKeys input [''candidateContext'', ''evidence'', ''plan''] ''preview_input'' @
      validatePlanBindings rt (p ''plan'') (p ''evidence'') @
      evidence_demands rt (p ''evidence'') (p ''candidateContext'') nowInput)"

definition previewConnectionAdmission :: "admission_runtime \<Rightarrow> jsval \<Rightarrow> jsval \<Rightarrow> jsval result" where
  "previewConnectionAdmission rt input nowInput =
     result_bind (run_demands (preview_demands rt input nowInput))
       (\<lambda>_. Inr (preview_answer rt (opt_prop input ''plan'') (opt_prop input ''evidence'')))"


section \<open>What a preview has checked\<close>

lemma fst_require [simp]: "fst (require b code) = b"
  by (simp add: require_def)

lemma preview_checked:
  assumes "previewConnectionAdmission rt input nowInput = Inr answer"
  defines "e \<equiv> opt_prop input ''evidence''" and "plan \<equiv> opt_prop input ''plan''"
    and "ctx \<equiv> opt_prop input ''candidateContext''"
  shows "answer = preview_answer rt plan e" "list_all fst (validatePlanBindings rt plan e)"
    "list_all fst (validateCandidateContext ctx)" "list_all fst (validateStructure rt e)"
    "list_all fst (validateEndpointOrigin rt (opt_prop e ''endpointOrigin'') (opt_prop e ''transport''))"
    "list_all fst (validateFreshness rt e nowInput)" "list_all fst (validateSelfBindings rt e)"
    "list_all fst (validateCandidateBindings e ctx)"
  using assms by (auto simp: previewConnectionAdmission_def result_bind_Inr_iff run_demands_Inr preview_demands_def
      evidence_demands_def Let_def)

lemma plan_bound:
  assumes "list_all fst (validatePlanBindings rt plan e)"
  obtains c where "validateMcpConnectionPlan (ad_plan rt) plan = Inr plan"
    "planned_connection plan (opt_prop e ''connectionId'') = Some c" "list_all fst (connection_bound rt e c)"
    "plan_digest rt plan = MCP_CONNECTION_PLAN_V1_DIGEST"
    "opt_prop (opt_prop e ''bindings'') ''planDigest'' = JStr (plan_digest rt plan)"
proof -
  obtain c where c: "planned_connection plan (opt_prop e ''connectionId'') = Some c"
    using assms by (auto simp: validatePlanBindings_def Let_def)
  with assms have "list_all fst (plan_demands (ad_plan rt) plan)" "list_all fst (connection_bound rt e c)"
    "plan_digest rt plan = MCP_CONNECTION_PLAN_V1_DIGEST"
    "opt_prop (opt_prop e ''bindings'') ''planDigest'' = JStr (plan_digest rt plan)"
    by (simp_all add: validatePlanBindings_def Let_def)
  with c that show thesis
    by (simp add: validateMcpConnectionPlan_def result_bind_Inr_iff run_demands_Inr)
qed

lemma planned_member:
  "planned_connection plan v = Some c \<Longrightarrow>
   c \<in> set (items (opt_prop plan ''connections'')) \<and> opt_prop c ''connectionId'' = v"
  by (auto simp: planned_connection_def find_Some_iff split: if_splits)

lemma connection_facts_bound:
  assumes "list_all fst (connection_bound rt e c)"
  shows "opt_prop (opt_prop e ''peer'') ''role'' = opt_prop c ''role''" "opt_prop e ''transport'' = opt_prop c ''transport''"
    "opt_prop (opt_prop e ''dataClassCeiling'') ''value'' = opt_prop c ''dataClassCeiling''"
    "opt_prop e ''endpointOrigin'' = expected_origin rt c"
    "opt_prop c ''role'' = JText ''A2A_PEER'' \<longleftrightarrow> opt_prop e ''agentCard'' \<noteq> JNull"
  using assms by (auto simp: connection_bound_def Let_def)

definition capability_flags :: "string list" where
  "capability_flags =
     [''admitted'', ''enabled'', ''canConnect'', ''canRunMcp'', ''canEmitA2a'', ''canSendMessages'',
      ''externalWrites'', ''commandExecuted'']"

lemma getp_flag_fields:
  "getp (flag_fields b ss @ fs) (lit k) = (if k \<in> set ss then JBool b else getp fs (lit k))"
  by (induction ss) (auto simp: flag_fields_def)

lemma answer_flag:
  assumes "k \<in> set denied_flags"
    and "k \<notin> set [''schemaVersion'', ''status'', ''mode'', ''connectionId'', ''evidenceId'', ''planDigest'',
      ''evidenceDigest'', ''observedAt'', ''expiresAt'', ''validation'', ''readOnly'']"
  shows "opt_prop (preview_answer rt plan e) k = JBool False"
  using assms by (simp add: preview_answer_def getp_flag_fields)

lemma flags_denied:
  "list_all (\<lambda>flag. opt_prop (preview_answer rt plan e) flag = JBool False) capability_flags"
proof -
  have "set capability_flags \<subseteq> set denied_flags" by (simp add: capability_flags_def denied_flags_def)
  then show ?thesis by (auto simp: list_all_iff capability_flags_def intro!: answer_flag)
qed

text \<open>
  A preview grants nothing and says nothing of its own accord. Every capability flag of an
  answer is false; the plan has the pinned digest, which the evidence names; the connection of
  the evidence is in it, disabled and with all tools denied; role, transport and data class of
  the evidence are those of the plan; and an agent card comes with exactly the peers.
\<close>

theorem preview_grants_nothing:
  assumes "previewConnectionAdmission rt input nowInput = Inr answer"
  defines "e \<equiv> opt_prop input ''evidence''" and "plan \<equiv> opt_prop input ''plan''"
  shows "list_all (\<lambda>flag. opt_prop answer flag = JBool False) capability_flags \<and>
    plan_digest rt plan = MCP_CONNECTION_PLAN_V1_DIGEST \<and>
    opt_prop (opt_prop e ''bindings'') ''planDigest'' = JStr MCP_CONNECTION_PLAN_V1_DIGEST \<and>
    (\<exists>c \<in> set (items (opt_prop plan ''connections'')).
       opt_prop c ''connectionId'' = opt_prop e ''connectionId'' \<and>
       opt_prop c ''enabled'' = JBool False \<and> opt_prop c ''toolPolicy'' = JText ''deny-all'' \<and>
       opt_prop c ''role'' = opt_prop (opt_prop e ''peer'') ''role'' \<and>
       opt_prop c ''transport'' = opt_prop e ''transport'' \<and>
       opt_prop c ''dataClassCeiling'' = opt_prop (opt_prop e ''dataClassCeiling'') ''value'' \<and>
       (opt_prop c ''role'' = JText ''A2A_PEER'' \<longleftrightarrow> opt_prop e ''agentCard'' \<noteq> JNull))"
proof -
  note checked = preview_checked [OF assms(1), folded e_def plan_def]
  obtain c where c: "validateMcpConnectionPlan (ad_plan rt) plan = Inr plan"
    "planned_connection plan (opt_prop e ''connectionId'') = Some c" "list_all fst (connection_bound rt e c)"
    "plan_digest rt plan = MCP_CONNECTION_PLAN_V1_DIGEST"
    "opt_prop (opt_prop e ''bindings'') ''planDigest'' = JStr (plan_digest rt plan)"
    by (rule plan_bound [OF checked(2)])
  note member = planned_member [OF c(2)]
  obtain seen k where "list_all fst (connection_demands (ad_plan rt) seen k c)"
    using plan_connection [OF c(1)] member by blast
  note plan_side = connection_facts [OF this]
  have "list_all (\<lambda>flag. opt_prop answer flag = JBool False) capability_flags"
    unfolding checked(1) by (rule flags_denied)
  with member plan_side(1,3) connection_facts_bound [OF c(3)] c(4,5) show ?thesis
    by (intro conjI bexI [of _ c]) simp_all
qed

text \<open>
  C33. Evidence is accepted only in its window: read as milliseconds, it was observed no later
  than now and no more than five minutes ago, it has not expired, and it lives for five minutes
  at most; so it was observed and accepted before it expires.
\<close>

theorem evidence_fresh:
  assumes "previewConnectionAdmission rt input nowInput = Inr answer"
  defines "e \<equiv> opt_prop input ''evidence''"
  shows "\<exists>now observed expires.
    now_value rt nowInput = Fin now \<and>
    ad_parseDate rt (text_or_empty (opt_prop e ''observedAt'')) = Fin observed \<and>
    ad_parseDate rt (text_or_empty (opt_prop e ''expiresAt'')) = Fin expires \<and>
    now - 300000 \<le> observed \<and> observed \<le> now \<and> now < expires \<and> expires \<le> observed + 300000"
proof -
  have "list_all fst (validateFreshness rt e nowInput)" using preview_checked [OF assms(1)] by (simp add: e_def)
  then show ?thesis
    by (auto simp: validateFreshness_def timestamp_demands_def Let_def is_finite_def ms_of_def
        CONNECTION_EVIDENCE_MAX_AGE_MS_def CONNECTION_EVIDENCE_MAX_LIFETIME_MS_def
        CONNECTION_EVIDENCE_MAX_FUTURE_SKEW_MS_def split: jsnum.splits)
qed

section \<open>The origin of the endpoint\<close>

text \<open>An address in dotted decimal notation is matched and split into its numbers.\<close>

definition dotted :: "nat list \<Rightarrow> jstr" where
  "dotted ns = join (lit ''.'') (map decimal ns)"

lemma decimal_short: "n \<le> 255 \<Longrightarrow> length (decimal n) \<le> 3"
  by (subst decimal.simps, subst decimal.simps, subst decimal.simps) simp

lemma decimal_no_dot: "0x2E \<notin> set (decimal n)"
  using decimal_digits [of n] by (auto simp: is_digit_def)

lemma split_on_first: "c \<notin> set s \<Longrightarrow> split_on c (s @ c # t) = s # split_on c t"
  by (induction s) (simp_all add: list.case_eq_if)

lemma split_on_none: "c \<notin> set s \<Longrightarrow> split_on c s = [s]"
  by (induction s) simp_all

lemma split_dotted: "split_on 0x2E (dotted [a, b, c, d]) = map decimal [a, b, c, d]"
  by (simp add: dotted_def lit_def split_on_first split_on_none decimal_no_dot)

lemma short_run:
  assumes "t \<noteq> []" "length t \<le> 3" "list_all is_digit t" "rx_seq False rs (rev t @ b, s) \<noteq> []"
  shows "rx_seq False (RClass c_digit 1 (Some 3) # rs) (b, t @ s) \<noteq> []"
proof -
  have digit: "hits False c_digit c \<longleftrightarrow> is_digit c" for c
    by (simp add: c_digit_def in_range_def is_digit_def)
  have "takeWhile (hits False c_digit) (t @ s) = t @ takeWhile (hits False c_digit) s"
    using assms(3) by (intro takeWhile_append2) (simp add: digit list_all_iff)
  then have "length t \<le> run_length False c_digit (Some 3) (t @ s)"
    using assms(2) by (simp add: run_length_def)
  then have "length t \<in> set (rev [1..<Suc (run_length False c_digit (Some 3) (t @ s))])"
    using assms(1) by (simp add: Suc_le_eq del: upt_Suc)
  moreover have "advance (length t) (b, t @ s) = (rev t @ b, s)" by simp
  ultimately have "(rev t @ b, s) \<in> set (rx_match False (RClass c_digit 1 (Some 3)) (b, t @ s))"
    unfolding rx_match.simps snd_conv set_map by (metis image_eqI)
  with assms(4) show ?thesis by (auto simp del: rx_match.simps)
qed

lemma IPV4_dotted:
  assumes "a \<le> 255" "b \<le> 255" "c \<le> 255" "d \<le> 255"
  shows "rx_test False IPV4 (dotted [a, b, c, d])"
proof -
  have digits: "list_all is_digit (decimal n)" for n by (rule all_digits_decimal)
  have last: "rx_seq False (RClass c_digit 1 (Some 3) # [REnd]) (x, decimal d @ []) \<noteq> []" for x
    by (rule short_run) (simp_all add: assms decimal_short digits)
  have third: "rx_seq False (RClass c_digit 1 (Some 3) # RText (lit ''.'') # RClass c_digit 1 (Some 3) # [REnd])
      (x, decimal c @ lit ''.'' @ decimal d) \<noteq> []" for x
    using last by (intro short_run) (simp_all add: assms decimal_short digits lit_def seq_text same_unit_def del: rx_seq.simps(2))
  have second: "rx_seq False (RClass c_digit 1 (Some 3) # RText (lit ''.'') # RClass c_digit 1 (Some 3) #
      RText (lit ''.'') # RClass c_digit 1 (Some 3) # [REnd]) (x, decimal b @ lit ''.'' @ decimal c @ lit ''.'' @ decimal d) \<noteq> []" for x
    using third by (intro short_run) (simp_all add: assms decimal_short digits lit_def seq_text same_unit_def del: rx_seq.simps(2))
  have "rx_seq False (RClass c_digit 1 (Some 3) # RText (lit ''.'') # RClass c_digit 1 (Some 3) #
      RText (lit ''.'') # RClass c_digit 1 (Some 3) # RText (lit ''.'') # RClass c_digit 1 (Some 3) # [REnd])
      ([], decimal a @ lit ''.'' @ decimal b @ lit ''.'' @ decimal c @ lit ''.'' @ decimal d) \<noteq> []"
    using second by (intro short_run) (simp_all add: assms decimal_short digits lit_def seq_text same_unit_def del: rx_seq.simps(2))
  then show ?thesis
    by (simp add: IPV4_def rx_test_anchored Let_def dotted_def del: rx_seq.simps(2))
qed

text \<open>The networks no accepted origin lies in: this host, private, shared, local and multicast.\<close>

definition private_network :: "nat \<Rightarrow> nat \<Rightarrow> bool" where
  "private_network a b \<longleftrightarrow>
     a \<in> {0, 10, 127} \<union> {224..255} \<or> (a = 100 \<and> b \<in> {64..127}) \<or> (a, b) \<in> {(169, 254), (192, 168)} \<or>
     (a = 172 \<and> b \<in> {16..31})"

lemma blocked_private:
  assumes "private_network a b" "a \<le> 255" "b \<le> 255" "c \<le> 255" "d \<le> 255"
  shows "rx_test False IPV4 (dotted [a, b, c, d]) \<and> blockedIpv4 (dotted [a, b, c, d])"
  using assms IPV4_dotted [OF assms(2-5)]
  by (auto simp: blockedIpv4_def split_dotted decimal_value_decimal private_network_def Let_def)

text \<open>
  C32. The endpoint of accepted evidence is the origin of a public https address, or null for a
  local transport: the parser returns the very text as its origin, without user, path, query or
  fragment; the host is not the local host nor a name under it, not an IPv6 literal, and no IPv4 address in a
  private, shared, loopback, link-local or multicast network.
\<close>

theorem endpoint_public:
  assumes "previewConnectionAdmission rt input nowInput = Inr answer"
  defines "e \<equiv> opt_prop input ''evidence''"
  shows "(one_of [''stdio'', ''none''] (opt_prop e ''transport'') \<and> opt_prop e ''endpointOrigin'' = JNull) \<or>
    (\<exists>u. opt_prop e ''endpointOrigin'' = JStr (lu_origin u) \<and> pn_url (ad_plan rt) (lu_origin u) = Some u \<and>
       lu_protocol u = lit ''https:'' \<and> lu_username u = [] \<and> lu_password u = [] \<and>
       lu_search u = [] \<and> lu_hash u = [] \<and> lu_pathname u = lit ''/'' \<and>
       bare_host (lu_hostname u) \<noteq> lit ''localhost'' \<and>
       \<not> ends_with (lit ''.localhost'') (bare_host (lu_hostname u)) \<and> 0x3A \<notin> set (bare_host (lu_hostname u)) \<and>
       (\<forall>a b c d. a \<le> 255 \<longrightarrow> b \<le> 255 \<longrightarrow> c \<le> 255 \<longrightarrow> d \<le> 255 \<longrightarrow> private_network a b \<longrightarrow>
          bare_host (lu_hostname u) \<noteq> dotted [a, b, c, d]))"
proof -
  let ?o = "opt_prop e ''endpointOrigin''" and ?t = "opt_prop e ''transport''"
  have demands: "list_all fst (validateEndpointOrigin rt ?o ?t)"
    using preview_checked [OF assms(1)] by (simp add: e_def)
  show ?thesis
  proof (cases "one_of [''stdio'', ''none''] ?t")
    case True
    with demands show ?thesis by (simp add: validateEndpointOrigin_def)
  next
    case False
    with demands obtain s u where s: "?o = JStr s" and u: "pn_url (ad_plan rt) s = Some u" and origin: "s = lu_origin u"
      by (auto simp: validateEndpointOrigin_def Let_def is_str_def text_or_empty_def link_part_def split: jsval.splits)
    have parts: "lu_protocol u = lit ''https:''" "lu_username u = []" "lu_password u = []" "lu_search u = []"
      "lu_hash u = []" "lu_pathname u = lit ''/''" "bare_host (lu_hostname u) \<noteq> lit ''localhost''"
      "\<not> contains (bare_host (lu_hostname u)) (lit '':'')"
      "\<not> ends_with (lit ''.localhost'') (bare_host (lu_hostname u))"
      "\<not> (rx_test False IPV4 (bare_host (lu_hostname u)) \<and> blockedIpv4 (bare_host (lu_hostname u)))"
      using demands False s u by (simp_all add: validateEndpointOrigin_def Let_def text_or_empty_def link_part_def)
    have "0x3A \<notin> set (bare_host (lu_hostname u))"
    proof
      assume "0x3A \<in> set (bare_host (lu_hostname u))"
      then obtain x y where "bare_host (lu_hostname u) = x @ lit '':'' @ y" by (auto simp: in_set_conv_decomp lit_def)
      with parts(8) show False unfolding contains_iff by blast
    qed
    with parts s u origin blocked_private show ?thesis by (intro disjI2 exI [of _ u]) metis
  qed
qed

section \<open>The digest of the evidence\<close>

lemma textual_record:
  assumes "closed_to ks v" "ks \<noteq> []" "distinct ks" "\<forall>k \<in> set ks. textual (opt_prop v k)"
  shows "textual v"
proof -
  obtain fs where v: "v = JObj fs" and keys: "mset (dict_keys fs) = mset (map lit ks)"
    using closed_object [OF assms(1,2)] by blast
  have "distinct (map lit ks)" using assms(3) by (simp add: distinct_map inj_on_def lit_eq_iff)
  then have unique: "distinct (map fst fs)" using keys by (metis dict_keys_def mset_eq_imp_distinct_iff)
  have "textual (snd p)" if p: "p \<in> set fs" for p
  proof -
    have "fst p \<in> set (map lit ks)" using p keys by (metis dict_keys_def image_eqI list.set_map mset_eq_setD)
    then obtain k where k: "k \<in> set ks" "fst p = lit k" by auto
    have "map_of fs (fst p) = Some (snd p)" using unique p by simp
    then have "getp fs (lit k) = snd p" by (simp add: getp_def dict_get_def k(2))
    with assms(4) k(1) v show ?thesis by force
  qed
  with unique v show ?thesis by (simp add: list_all_iff)
qed

lemma textual_not_blank: "not_blank limit v \<Longrightarrow> textual v"
  by (cases v) (simp_all add: not_blank_def)

lemma textual_pattern: "fits_pattern r v \<Longrightarrow> textual v"
  by (cases v) (simp_all add: fits_pattern_def is_str_def)

lemma textual_parts:
  "fits_pattern r v \<Longrightarrow> textual v" "is_digest v \<Longrightarrow> textual v" "text_within n v \<Longrightarrow> textual v"
  "one_of ss v \<Longrightarrow> textual v" "textual (JText s)"
  by (auto simp: is_digest_def text_within_def one_of_def JText_def intro: textual_not_blank textual_pattern)

lemma textual_capabilities: "capabilities_ok v \<Longrightarrow> textual v"
  by (cases v) (auto simp: capabilities_ok_def is_arr_def items_def text_within_def list_all_iff intro: textual_not_blank)

lemma parts_textual:
  assumes s: "list_all fst (validateStructure rt e)" and role: "textual (opt_prop (opt_prop e ''peer'') ''role'')"
  shows "\<forall>part \<in> {''peer'', ''component'', ''protocol'', ''capabilities'', ''dataClassCeiling'', ''collector'', ''bindings''}.
    textual (opt_prop e part)"
proof -
  have peer: "textual (opt_prop e ''peer'')"
    using s role
    by (intro textual_record [of PEER_KEYS])
      (auto simp: validateStructure_def peer_demands_def exactKeys_def Let_def PEER_KEYS_def intro: textual_parts)
  have component: "textual (opt_prop e ''component'')"
    using s by (intro textual_record [of COMPONENT_KEYS])
      (auto simp: validateStructure_def component_demands_def exactKeys_def Let_def COMPONENT_KEYS_def intro: textual_parts)
  have protocol: "textual (opt_prop e ''protocol'')"
    using s by (intro textual_record [of PROTOCOL_KEYS])
      (auto simp: validateStructure_def protocol_demands_def exactKeys_def Let_def PROTOCOL_KEYS_def intro: textual_parts)
  have capabilities: "textual (opt_prop e ''capabilities'')"
    using s by (intro textual_record [of CAPABILITY_KEYS])
      (auto simp: validateStructure_def capability_demands_def exactKeys_def Let_def CAPABILITY_KEYS_def
        intro: textual_parts textual_capabilities)
  have data_class: "textual (opt_prop e ''dataClassCeiling'')"
    using s by (intro textual_record [of DATA_CEILING_KEYS])
      (auto simp: validateStructure_def capability_demands_def exactKeys_def Let_def DATA_CEILING_KEYS_def intro: textual_parts)
  have collector: "textual (opt_prop e ''collector'')"
    using s by (intro textual_record [of COLLECTOR_KEYS])
      (auto simp: validateStructure_def collector_demands_def exactKeys_def Let_def COLLECTOR_KEYS_def intro: textual_parts)
  have bindings: "textual (opt_prop e ''bindings'')"
    using s by (intro textual_record [of BINDING_KEYS])
      (auto simp: validateStructure_def binding_demands_def exactKeys_def Let_def BINDING_KEYS_def intro: textual_parts)
  show ?thesis using peer component protocol capabilities data_class collector bindings by simp
qed

lemma accepted_textual:
  assumes "previewConnectionAdmission rt input nowInput = Inr answer"
  defines "e \<equiv> opt_prop input ''evidence''"
  shows "textual e"
proof -
  note checked = preview_checked [OF assms(1), folded e_def]
  obtain c where c: "validateMcpConnectionPlan (ad_plan rt) (opt_prop input ''plan'') = Inr (opt_prop input ''plan'')"
    "planned_connection (opt_prop input ''plan'') (opt_prop e ''connectionId'') = Some c"
    "list_all fst (connection_bound rt e c)"
    by (rule plan_bound [OF checked(2)])
  obtain seen k where "list_all fst (connection_demands (ad_plan rt) seen k c)"
    using plan_connection [OF c(1)] planned_member [OF c(2)] by blast
  then have role: "textual (opt_prop (opt_prop e ''peer'') ''role'')"
    using connection_facts connection_facts_bound [OF c(3)] textual_parts(4) by metis
  have origin: "textual (opt_prop e ''endpointOrigin'')" "textual (opt_prop c ''role'')"
    using connection_facts_bound [OF c(3)] role by (simp_all add: expected_origin_def)
  have s: "list_all fst (validateStructure rt e)" by (rule checked(4))
  note parts = parts_textual [OF s role]
  have card: "textual (opt_prop e ''agentCard'')"
  proof (cases "opt_prop e ''agentCard'' = JNull")
    case False
    have "opt_prop (opt_prop e ''agentCard'') ''endpointOrigin'' = opt_prop e ''endpointOrigin''"
      using checked(7) False by (simp add: validateSelfBindings_def Let_def)
    with s False origin show ?thesis
      by (intro textual_record [of AGENT_CARD_KEYS])
        (auto simp: validateStructure_def agent_card_demands_def exactKeys_def Let_def AGENT_CARD_KEYS_def intro: textual_parts)
  qed simp
  have times: "textual (opt_prop e ''observedAt'')" "textual (opt_prop e ''expiresAt'')"
    using checked(6) by (auto simp: validateFreshness_def timestamp_demands_def Let_def intro: textual_parts)
  show ?thesis
    using s parts card times origin
    by (intro textual_record [of EVIDENCE_KEYS])
      (auto simp: validateStructure_def exactKeys_def Let_def EVIDENCE_KEYS_def intro: textual_parts)
qed

lemma sort_key_unique:
  assumes "mset gs = mset hs" "distinct (map fst hs)"
  shows "sort_key fst gs = sort_key fst (hs :: ('k :: linorder \<times> 'v) list)"
proof (rule sort_key_inj_key_eq)
  show "mset gs = mset (sort_key fst hs)" using assms(1) by simp
  have "inj_on fst (set hs)" using assms(2) by (simp add: distinct_map)
  then show "inj_on fst (set gs)" using assms(1) by (metis mset_eq_setD)
qed simp

lemma mset_without:
  assumes "distinct (map fst fs)" "dict_get fs k = Some v"
  shows "mset fs = add_mset (k, v) (mset (dict_without k fs))"
  using assms
proof (induction fs)
  case (Cons p fs)
  show ?case
  proof (cases "fst p = k")
    case True
    with Cons.prems have "p = (k, v)" by (cases p) simp
    moreover have "dict_without k fs = fs"
      using Cons.prems(1) True by (auto simp: dict_without_def filter_id_conv image_iff)
    ultimately show ?thesis using True by (cases p) (simp add: dict_without_def)
  next
    case False
    with Cons show ?thesis by (cases p) (auto simp: dict_without_def)
  qed
qed simp

lemma normal_without:
  "normal (JObj (dict_without k fs)) = JObj (dict_without k (sort_key fst (map (\<lambda>p. (fst p, normal (snd p))) fs)))"
proof -
  have "map (\<lambda>p. (fst p, normal (snd p))) (dict_without k fs) = filter (\<lambda>(k', _). k' \<noteq> k) (map (\<lambda>p. (fst p, normal (snd p))) fs)"
    by (induction fs) (auto simp: dict_without_def)
  then show ?thesis by (simp add: dict_without_def filter_sort)
qed

lemma normal_without_iff:
  assumes "textual (JObj fs)" "textual (JObj gs)" "dict_get fs k = Some v" "dict_get gs k = Some v"
  shows "normal (JObj (dict_without k fs)) = normal (JObj (dict_without k gs)) \<longleftrightarrow> normal (JObj fs) = normal (JObj gs)"
proof
  let ?n = "\<lambda>p. (fst p, normal (snd p))"
  assume "normal (JObj (dict_without k fs)) = normal (JObj (dict_without k gs))"
  then have "sort_key fst (map ?n (dict_without k fs)) = sort_key fst (map ?n (dict_without k gs))" by simp
  then have "mset (sort_key fst (map ?n (dict_without k fs))) = mset (sort_key fst (map ?n (dict_without k gs)))"
    by (rule arg_cong)
  then have "mset (map ?n (dict_without k fs)) = mset (map ?n (dict_without k gs))" by (simp only: mset_sort)
  then have "mset (map ?n fs) = mset (map ?n gs)"
    using mset_without [OF _ assms(3)] mset_without [OF _ assms(4)] assms(1,2) by (simp add: list_all_iff)
  moreover have "distinct (map fst (map ?n gs))" using assms(2) by (simp add: comp_def)
  ultimately show "normal (JObj fs) = normal (JObj gs)" by (simp add: sort_key_unique)
next
  assume "normal (JObj fs) = normal (JObj gs)"
  then show "normal (JObj (dict_without k fs)) = normal (JObj (dict_without k gs))"
    unfolding normal_without by simp
qed

definition evidence_content :: "admission_runtime \<Rightarrow> jsval \<Rightarrow> jstr" where
  "evidence_content rt e =
     lit ''sirinx:connection-evidence:v1'' @ [0] @
     item_text (canonical_of rt (JObj (dict_without (lit ''evidenceDigest'') (own_fields e))))"

lemma accepted_document:
  assumes "previewConnectionAdmission rt input nowInput = Inr answer"
  shows "\<exists>fs. opt_prop input ''evidence'' = JObj fs \<and> textual (JObj fs) \<and>
    dict_get fs (lit ''evidenceDigest'') = Some (JStr (ad_sha256 rt (evidence_content rt (JObj fs))))"
proof -
  let ?e = "opt_prop input ''evidence''"
  have "closed_to EVIDENCE_KEYS ?e"
    using preview_checked(4) [OF assms] by (simp add: validateStructure_def exactKeys_def Let_def)
  then obtain fs where fs: "?e = JObj fs" using closed_object by (force simp: EVIDENCE_KEYS_def)
  have "opt_prop ?e ''evidenceDigest'' = JStr (evidence_digest rt ?e)"
    using preview_checked(7) [OF assms] by (simp add: validateSelfBindings_def Let_def)
  with fs accepted_textual [OF assms] show ?thesis
    by (auto simp: getp_def evidence_digest_def partDigest_def digest_of_def evidence_content_def own_fields_def
        split: option.splits)
qed

lemma same_evidence_text:
  assumes "textual (JObj fs)" "textual (JObj gs)"
  shows "evidence_content rt (JObj fs) = evidence_content rt (JObj gs) \<longleftrightarrow>
    normal (JObj (dict_without (lit ''evidenceDigest'') fs)) = normal (JObj (dict_without (lit ''evidenceDigest'') gs))"
proof -
  let ?f = "JObj (dict_without (lit ''evidenceDigest'') fs)" and ?g = "JObj (dict_without (lit ''evidenceDigest'') gs)"
  have t: "textual ?f" "textual ?g"
    using assms by (auto simp: dict_without_def list_all_iff distinct_map inj_on_def)
  have "canonical_of rt ?f = Some (plain (normal ?f))" "canonical_of rt ?g = Some (plain (normal ?g))"
    unfolding canonical_of_def using canonical_plain [OF t(1)] canonical_plain [OF t(2)] by blast+
  then have "evidence_content rt (JObj fs) = evidence_content rt (JObj gs) \<longleftrightarrow> canonical_of rt ?f = canonical_of rt ?g"
    by (simp only: evidence_content_def own_fields_def jsval.case item_text_def option.case append_Cons append_Nil
        same_append_eq list.inject option.inject simp_thms)
  also have "\<dots> \<longleftrightarrow> normal ?f = normal ?g"
    unfolding canonical_of_def using canonical_plain_inj [OF t] by blast
  finally show ?thesis .
qed

text \<open>
  C34. The digest of accepted evidence binds all of it: it is the hash of a text which two pieces
  of accepted evidence share exactly when they are the same document up to the order of its
  properties. Evidence that was changed anywhere and keeps its digest is a collision of the
  hash on these two texts.
\<close>

theorem evidence_digest_binds:
  assumes "previewConnectionAdmission rt input now1 = Inr answer" "previewConnectionAdmission rt input' now2 = Inr answer'"
  defines "e \<equiv> opt_prop input ''evidence''" and "e' \<equiv> opt_prop input' ''evidence''"
  shows "opt_prop e ''evidenceDigest'' = JStr (ad_sha256 rt (evidence_content rt e)) \<and>
    opt_prop e' ''evidenceDigest'' = JStr (ad_sha256 rt (evidence_content rt e')) \<and>
    (evidence_content rt e = evidence_content rt e' \<longleftrightarrow> normal e = normal e')"
proof -
  let ?k = "lit ''evidenceDigest''"
  obtain fs gs where fs: "e = JObj fs" "textual (JObj fs)" "dict_get fs ?k = Some (JStr (ad_sha256 rt (evidence_content rt e)))"
    and gs: "e' = JObj gs" "textual (JObj gs)" "dict_get gs ?k = Some (JStr (ad_sha256 rt (evidence_content rt e')))"
    using accepted_document [OF assms(1)] accepted_document [OF assms(2)] unfolding e_def e'_def by metis
  have "evidence_content rt e = evidence_content rt e' \<longleftrightarrow> normal e = normal e'"
  proof
    assume eq: "evidence_content rt e = evidence_content rt e'"
    have "dict_get gs ?k = Some (JStr (ad_sha256 rt (evidence_content rt e)))" using gs(3) eq by simp
    note iff = normal_without_iff [OF fs(2) gs(2) fs(3) this]
    show "normal e = normal e'"
      using eq iff same_evidence_text [OF fs(2) gs(2)] unfolding fs(1) gs(1) by blast
  next
    assume "normal e = normal e'"
    then have "normal (JObj (dict_without ?k fs)) = normal (JObj (dict_without ?k gs))"
      unfolding normal_without fs(1) gs(1) by simp
    then show "evidence_content rt e = evidence_content rt e'"
      using same_evidence_text [OF fs(2) gs(2)] unfolding fs(1) gs(1) by blast
  qed
  with fs gs show ?thesis by (simp add: getp_def del: normal.simps)
qed

section \<open>Evidence that is not validated yet\<close>

lemma run_demands_append:
  "run_demands (as @ bs) = (case run_demands as of Inl er \<Rightarrow> Inl er | Inr _ \<Rightarrow> run_demands bs)"
  by (induction as) (auto simp: run_demands_def split: option.splits)

lemma run_demands_Cons: "run_demands (d # ds) = (if fst d then run_demands ds else Inl (snd d))"
  by (simp add: run_demands_def)

text \<open>
  The bindings to the plan are read before the evidence is validated: with a plan that is
  accepted and has the pinned digest, an input whose evidence is null, or lacks its bindings, is
  refused with a type error of the engine and not with an error of the validator.
\<close>

theorem unread_evidence_raises:
  assumes "closed_to [''candidateContext'', ''evidence'', ''plan''] input"
    and "validateMcpConnectionPlan (ad_plan rt) (opt_prop input ''plan'') = Inr (opt_prop input ''plan'')"
    and "plan_digest rt (opt_prop input ''plan'') = MCP_CONNECTION_PLAN_V1_DIGEST"
    and "opt_prop (opt_prop input ''evidence'') ''bindings'' \<in> {JUndef, JNull}"
  shows "\<exists>m. previewConnectionAdmission rt input nowInput = Inl (JsTypeError m)"
proof -
  have "is_record input"
    using closed_object [OF assms(1)] by (auto simp: is_record_def)
  moreover have "list_all fst (plan_demands (ad_plan rt) (opt_prop input ''plan''))"
    using assms(2) by (simp add: validateMcpConnectionPlan_def result_bind_Inr_iff run_demands_Inr)
  ultimately have before: "run_demands (exactKeys input [''candidateContext'', ''evidence'', ''plan''] ''preview_input'' @
      plan_demands (ad_plan rt) (opt_prop input ''plan'') @
      [require (plan_digest rt (opt_prop input ''plan'') = MCP_CONNECTION_PLAN_V1_DIGEST) ''plan_authority_digest_mismatch'']) =
      Inr ()"
    using assms(1,3) by (simp add: run_demands_Inr exactKeys_def)
  obtain pre rest where split: "preview_demands rt input nowInput =
      pre @ has_members (opt_prop input ''evidence'') # has_members (opt_prop (opt_prop input ''evidence'') ''bindings'') # rest"
    and pre: "run_demands pre = Inr ()"
    using that [OF _ before] by (simp add: preview_demands_def validatePlanBindings_def Let_def)
  have "\<exists>m. run_demands (preview_demands rt input nowInput) = Inl (JsTypeError m)"
    unfolding split run_demands_append pre using assms(4) by (auto simp: run_demands_Cons has_members_def)
  then show ?thesis by (auto simp: previewConnectionAdmission_def)
qed

section \<open>A preview\<close>

text \<open>A hash that maps everything to the pinned digest stands for the real one.\<close>

definition sample_admission :: admission_runtime where
  "sample_admission =
     \<lparr>ad_plan = sample_plan_runtime, ad_sha256 = \<lambda>_. MCP_CONNECTION_PLAN_V1_DIGEST,
      ad_parseDate = \<lambda>s. Fin (if s = lit ''2026-07-20T07:00:00.000Z'' then 0 else 60000), ad_clock = 1000\<rparr>"

theorem unread_evidence_raises_witness:
  "\<exists>m. previewConnectionAdmission sample_admission
     (JObj [(lit ''candidateContext'', JNull), (lit ''evidence'', JNull), (lit ''plan'', sample_plan)]) JUndef =
     Inl (JsTypeError m)"
proof (rule unread_evidence_raises)
  show "closed_to [''candidateContext'', ''evidence'', ''plan'']
      (JObj [(lit ''candidateContext'', JNull), (lit ''evidence'', JNull), (lit ''plan'', sample_plan)])"
    by (rule closed_in_order) (simp_all add: own_keys_def dict_keys_def lit_def)
qed (simp_all add: sample_admission_def plan_sample plan_digest_def digest_of_def)

definition sample_card :: jsval where
  "sample_card = JObj
     [(lit ''capabilityDigest'', JStr MCP_CONNECTION_PLAN_V1_DIGEST),
      (lit ''cardDigest'', JStr MCP_CONNECTION_PLAN_V1_DIGEST),
      (lit ''dataClassCeilingDigest'', JStr MCP_CONNECTION_PLAN_V1_DIGEST),
      (lit ''endpointOrigin'', JText ''https://peer.test''), (lit ''peerId'', JText ''peer''),
      (lit ''protocolDigest'', JStr MCP_CONNECTION_PLAN_V1_DIGEST)]"

definition sample_bindings :: jsval where
  "sample_bindings = JObj
     [(lit ''leaseDigest'', JStr MCP_CONNECTION_PLAN_V1_DIGEST), (lit ''leaseId'', JText ''LEASE-1''),
      (lit ''planDigest'', JStr MCP_CONNECTION_PLAN_V1_DIGEST),
      (lit ''receiptDigest'', JStr MCP_CONNECTION_PLAN_V1_DIGEST), (lit ''receiptId'', JText ''RECEIPT-1''),
      (lit ''runDigest'', JStr MCP_CONNECTION_PLAN_V1_DIGEST), (lit ''runId'', JText ''RUN-1''),
      (lit ''taskDigest'', JStr MCP_CONNECTION_PLAN_V1_DIGEST), (lit ''taskId'', JText ''TASK-1'')]"

definition sample_capabilities :: jsval where
  "sample_capabilities = JObj
     [(lit ''declared'', JTexts [''handshake'']), (lit ''digest'', JStr MCP_CONNECTION_PLAN_V1_DIGEST)]"

definition sample_collector :: jsval where
  "sample_collector = JObj
     [(lit ''attestationDigest'', JStr MCP_CONNECTION_PLAN_V1_DIGEST),
      (lit ''binaryDigest'', JStr MCP_CONNECTION_PLAN_V1_DIGEST),
      (lit ''collectorId'', JText ''COLLECTOR-1''),
      (lit ''identityDigest'', JStr MCP_CONNECTION_PLAN_V1_DIGEST), (lit ''principalId'', JText ''c''),
      (lit ''revision'', JStr MCP_CONNECTION_PLAN_V1_DIGEST)]"

definition sample_component :: jsval where
  "sample_component = JObj
     [(lit ''artifactDigest'', JStr MCP_CONNECTION_PLAN_V1_DIGEST),
      (lit ''identityDigest'', JStr MCP_CONNECTION_PLAN_V1_DIGEST),
      (lit ''licenseDigest'', JStr MCP_CONNECTION_PLAN_V1_DIGEST), (lit ''name'', JText ''peer''),
      (lit ''provenanceDigest'', JStr MCP_CONNECTION_PLAN_V1_DIGEST),
      (lit ''sourceRevision'', JStr MCP_CONNECTION_PLAN_V1_DIGEST),
      (lit ''spdxLicenseExpression'', JText ''MIT''), (lit ''version'', JText ''1.2.3'')]"

definition sample_class :: jsval where
  "sample_class = JObj
     [(lit ''digest'', JStr MCP_CONNECTION_PLAN_V1_DIGEST), (lit ''value'', JText ''INTERNAL'')]"

definition sample_peer :: jsval where
  "sample_peer = JObj
     [(lit ''identityDigest'', JStr MCP_CONNECTION_PLAN_V1_DIGEST), (lit ''peerId'', JText ''peer''),
      (lit ''principalId'', JText ''p''), (lit ''role'', JText ''A2A_PEER'')]"

definition sample_protocol :: jsval where
  "sample_protocol = JObj
     [(lit ''digest'', JStr MCP_CONNECTION_PLAN_V1_DIGEST), (lit ''name'', JText ''A2A''),
      (lit ''version'', JText ''1.2.3'')]"

definition sample_evidence :: jsval where
  "sample_evidence = JObj
     [(lit ''agentCard'', sample_card), (lit ''bindings'', sample_bindings),
      (lit ''capabilities'', sample_capabilities), (lit ''collector'', sample_collector),
      (lit ''component'', sample_component), (lit ''connectionId'', JText ''peer''),
      (lit ''dataClassCeiling'', sample_class), (lit ''endpointOrigin'', JText ''https://peer.test''),
      (lit ''evidenceDigest'', JStr MCP_CONNECTION_PLAN_V1_DIGEST), (lit ''evidenceId'', JText ''CEV-1''),
      (lit ''expiresAt'', JText ''2026-07-20T07:01:00.000Z''),
      (lit ''observedAt'', JText ''2026-07-20T07:00:00.000Z''), (lit ''peer'', sample_peer),
      (lit ''protocol'', sample_protocol), (lit ''schemaVersion'', JText ''1.0''),
      (lit ''status'', JText ''COLLECTED_NOT_ADMITTED''), (lit ''transport'', JText ''a2a-https'')]"

definition sample_context :: jsval where
  "sample_context = JObj
     [(lit ''agentCardDigest'', JStr MCP_CONNECTION_PLAN_V1_DIGEST),
      (lit ''artifactDigest'', JStr MCP_CONNECTION_PLAN_V1_DIGEST),
      (lit ''capabilityDigest'', JStr MCP_CONNECTION_PLAN_V1_DIGEST),
      (lit ''collectorAttestationDigest'', JStr MCP_CONNECTION_PLAN_V1_DIGEST),
      (lit ''collectorBinaryDigest'', JStr MCP_CONNECTION_PLAN_V1_DIGEST),
      (lit ''collectorId'', JText ''COLLECTOR-1''),
      (lit ''collectorIdentityDigest'', JStr MCP_CONNECTION_PLAN_V1_DIGEST),
      (lit ''collectorPrincipalId'', JText ''c''),
      (lit ''collectorRevision'', JStr MCP_CONNECTION_PLAN_V1_DIGEST),
      (lit ''componentIdentityDigest'', JStr MCP_CONNECTION_PLAN_V1_DIGEST),
      (lit ''componentName'', JText ''peer''), (lit ''componentVersion'', JText ''1.2.3''),
      (lit ''dataClassCeilingDigest'', JStr MCP_CONNECTION_PLAN_V1_DIGEST),
      (lit ''leaseDigest'', JStr MCP_CONNECTION_PLAN_V1_DIGEST), (lit ''leaseId'', JText ''LEASE-1''),
      (lit ''licenseDigest'', JStr MCP_CONNECTION_PLAN_V1_DIGEST), (lit ''peerId'', JText ''peer''),
      (lit ''peerIdentityDigest'', JStr MCP_CONNECTION_PLAN_V1_DIGEST), (lit ''principalId'', JText ''p''),
      (lit ''protocolDigest'', JStr MCP_CONNECTION_PLAN_V1_DIGEST),
      (lit ''provenanceDigest'', JStr MCP_CONNECTION_PLAN_V1_DIGEST),
      (lit ''receiptDigest'', JStr MCP_CONNECTION_PLAN_V1_DIGEST), (lit ''receiptId'', JText ''RECEIPT-1''),
      (lit ''runDigest'', JStr MCP_CONNECTION_PLAN_V1_DIGEST), (lit ''runId'', JText ''RUN-1''),
      (lit ''sourceRevision'', JStr MCP_CONNECTION_PLAN_V1_DIGEST),
      (lit ''spdxLicenseExpression'', JText ''MIT''),
      (lit ''taskDigest'', JStr MCP_CONNECTION_PLAN_V1_DIGEST), (lit ''taskId'', JText ''TASK-1'')]"

lemma sample_card_props:
  "opt_prop sample_card ''capabilityDigest'' = JStr MCP_CONNECTION_PLAN_V1_DIGEST"
  "opt_prop sample_card ''cardDigest'' = JStr MCP_CONNECTION_PLAN_V1_DIGEST"
  "opt_prop sample_card ''dataClassCeilingDigest'' = JStr MCP_CONNECTION_PLAN_V1_DIGEST"
  "opt_prop sample_card ''endpointOrigin'' = JText ''https://peer.test''"
  "opt_prop sample_card ''peerId'' = JText ''peer''"
  "opt_prop sample_card ''protocolDigest'' = JStr MCP_CONNECTION_PLAN_V1_DIGEST"
  "closed_to AGENT_CARD_KEYS sample_card" "is_record sample_card"
proof -
  show "closed_to AGENT_CARD_KEYS sample_card"
    by (rule closed_in_order) (simp_all add: own_keys_def dict_keys_def sample_card_def AGENT_CARD_KEYS_def sorted2_simps lit_def)
qed (simp_all add: sample_card_def is_record_def)

lemma sample_bindings_props:
  "opt_prop sample_bindings ''leaseDigest'' = JStr MCP_CONNECTION_PLAN_V1_DIGEST"
  "opt_prop sample_bindings ''leaseId'' = JText ''LEASE-1''"
  "opt_prop sample_bindings ''planDigest'' = JStr MCP_CONNECTION_PLAN_V1_DIGEST"
  "opt_prop sample_bindings ''receiptDigest'' = JStr MCP_CONNECTION_PLAN_V1_DIGEST"
  "opt_prop sample_bindings ''receiptId'' = JText ''RECEIPT-1''"
  "opt_prop sample_bindings ''runDigest'' = JStr MCP_CONNECTION_PLAN_V1_DIGEST"
  "opt_prop sample_bindings ''runId'' = JText ''RUN-1''"
  "opt_prop sample_bindings ''taskDigest'' = JStr MCP_CONNECTION_PLAN_V1_DIGEST"
  "opt_prop sample_bindings ''taskId'' = JText ''TASK-1''"
  "closed_to BINDING_KEYS sample_bindings" "is_record sample_bindings"
proof -
  show "closed_to BINDING_KEYS sample_bindings"
    by (rule closed_in_order) (simp_all add: own_keys_def dict_keys_def sample_bindings_def BINDING_KEYS_def sorted2_simps lit_def)
qed (simp_all add: sample_bindings_def is_record_def)

lemma sample_capabilities_props:
  "opt_prop sample_capabilities ''declared'' = JTexts [''handshake'']"
  "opt_prop sample_capabilities ''digest'' = JStr MCP_CONNECTION_PLAN_V1_DIGEST"
  "closed_to CAPABILITY_KEYS sample_capabilities" "is_record sample_capabilities"
proof -
  show "closed_to CAPABILITY_KEYS sample_capabilities"
    by (rule closed_in_order) (simp_all add: own_keys_def dict_keys_def sample_capabilities_def CAPABILITY_KEYS_def sorted2_simps lit_def)
qed (simp_all add: sample_capabilities_def is_record_def)

lemma sample_collector_props:
  "opt_prop sample_collector ''attestationDigest'' = JStr MCP_CONNECTION_PLAN_V1_DIGEST"
  "opt_prop sample_collector ''binaryDigest'' = JStr MCP_CONNECTION_PLAN_V1_DIGEST"
  "opt_prop sample_collector ''collectorId'' = JText ''COLLECTOR-1''"
  "opt_prop sample_collector ''identityDigest'' = JStr MCP_CONNECTION_PLAN_V1_DIGEST"
  "opt_prop sample_collector ''principalId'' = JText ''c''"
  "opt_prop sample_collector ''revision'' = JStr MCP_CONNECTION_PLAN_V1_DIGEST"
  "closed_to COLLECTOR_KEYS sample_collector" "is_record sample_collector"
proof -
  show "closed_to COLLECTOR_KEYS sample_collector"
    by (rule closed_in_order) (simp_all add: own_keys_def dict_keys_def sample_collector_def COLLECTOR_KEYS_def sorted2_simps lit_def)
qed (simp_all add: sample_collector_def is_record_def)

lemma sample_component_props:
  "opt_prop sample_component ''artifactDigest'' = JStr MCP_CONNECTION_PLAN_V1_DIGEST"
  "opt_prop sample_component ''identityDigest'' = JStr MCP_CONNECTION_PLAN_V1_DIGEST"
  "opt_prop sample_component ''licenseDigest'' = JStr MCP_CONNECTION_PLAN_V1_DIGEST"
  "opt_prop sample_component ''name'' = JText ''peer''"
  "opt_prop sample_component ''provenanceDigest'' = JStr MCP_CONNECTION_PLAN_V1_DIGEST"
  "opt_prop sample_component ''sourceRevision'' = JStr MCP_CONNECTION_PLAN_V1_DIGEST"
  "opt_prop sample_component ''spdxLicenseExpression'' = JText ''MIT''"
  "opt_prop sample_component ''version'' = JText ''1.2.3''"
  "closed_to COMPONENT_KEYS sample_component" "is_record sample_component"
proof -
  show "closed_to COMPONENT_KEYS sample_component"
    by (rule closed_in_order) (simp_all add: own_keys_def dict_keys_def sample_component_def COMPONENT_KEYS_def sorted2_simps lit_def)
qed (simp_all add: sample_component_def is_record_def)

lemma sample_class_props:
  "opt_prop sample_class ''digest'' = JStr MCP_CONNECTION_PLAN_V1_DIGEST"
  "opt_prop sample_class ''value'' = JText ''INTERNAL''"
  "closed_to DATA_CEILING_KEYS sample_class" "is_record sample_class"
proof -
  show "closed_to DATA_CEILING_KEYS sample_class"
    by (rule closed_in_order) (simp_all add: own_keys_def dict_keys_def sample_class_def DATA_CEILING_KEYS_def sorted2_simps lit_def)
qed (simp_all add: sample_class_def is_record_def)

lemma sample_peer_props:
  "opt_prop sample_peer ''identityDigest'' = JStr MCP_CONNECTION_PLAN_V1_DIGEST"
  "opt_prop sample_peer ''peerId'' = JText ''peer''"
  "opt_prop sample_peer ''principalId'' = JText ''p''"
  "opt_prop sample_peer ''role'' = JText ''A2A_PEER''"
  "closed_to PEER_KEYS sample_peer" "is_record sample_peer"
proof -
  show "closed_to PEER_KEYS sample_peer"
    by (rule closed_in_order) (simp_all add: own_keys_def dict_keys_def sample_peer_def PEER_KEYS_def sorted2_simps lit_def)
qed (simp_all add: sample_peer_def is_record_def)

lemma sample_protocol_props:
  "opt_prop sample_protocol ''digest'' = JStr MCP_CONNECTION_PLAN_V1_DIGEST"
  "opt_prop sample_protocol ''name'' = JText ''A2A''"
  "opt_prop sample_protocol ''version'' = JText ''1.2.3''"
  "closed_to PROTOCOL_KEYS sample_protocol" "is_record sample_protocol"
proof -
  show "closed_to PROTOCOL_KEYS sample_protocol"
    by (rule closed_in_order) (simp_all add: own_keys_def dict_keys_def sample_protocol_def PROTOCOL_KEYS_def sorted2_simps lit_def)
qed (simp_all add: sample_protocol_def is_record_def)

lemma sample_evidence_props:
  "opt_prop sample_evidence ''agentCard'' = sample_card"
  "opt_prop sample_evidence ''bindings'' = sample_bindings"
  "opt_prop sample_evidence ''capabilities'' = sample_capabilities"
  "opt_prop sample_evidence ''collector'' = sample_collector"
  "opt_prop sample_evidence ''component'' = sample_component"
  "opt_prop sample_evidence ''connectionId'' = JText ''peer''"
  "opt_prop sample_evidence ''dataClassCeiling'' = sample_class"
  "opt_prop sample_evidence ''endpointOrigin'' = JText ''https://peer.test''"
  "opt_prop sample_evidence ''evidenceDigest'' = JStr MCP_CONNECTION_PLAN_V1_DIGEST"
  "opt_prop sample_evidence ''evidenceId'' = JText ''CEV-1''"
  "opt_prop sample_evidence ''expiresAt'' = JText ''2026-07-20T07:01:00.000Z''"
  "opt_prop sample_evidence ''observedAt'' = JText ''2026-07-20T07:00:00.000Z''"
  "opt_prop sample_evidence ''peer'' = sample_peer"
  "opt_prop sample_evidence ''protocol'' = sample_protocol"
  "opt_prop sample_evidence ''schemaVersion'' = JText ''1.0''"
  "opt_prop sample_evidence ''status'' = JText ''COLLECTED_NOT_ADMITTED''"
  "opt_prop sample_evidence ''transport'' = JText ''a2a-https''"
  "closed_to EVIDENCE_KEYS sample_evidence" "is_record sample_evidence"
proof -
  show "closed_to EVIDENCE_KEYS sample_evidence"
    by (rule closed_in_order) (simp_all add: own_keys_def dict_keys_def sample_evidence_def EVIDENCE_KEYS_def sorted2_simps lit_def)
qed (simp_all add: sample_evidence_def is_record_def)

lemma sample_context_props:
  "opt_prop sample_context ''agentCardDigest'' = JStr MCP_CONNECTION_PLAN_V1_DIGEST"
  "opt_prop sample_context ''artifactDigest'' = JStr MCP_CONNECTION_PLAN_V1_DIGEST"
  "opt_prop sample_context ''capabilityDigest'' = JStr MCP_CONNECTION_PLAN_V1_DIGEST"
  "opt_prop sample_context ''collectorAttestationDigest'' = JStr MCP_CONNECTION_PLAN_V1_DIGEST"
  "opt_prop sample_context ''collectorBinaryDigest'' = JStr MCP_CONNECTION_PLAN_V1_DIGEST"
  "opt_prop sample_context ''collectorId'' = JText ''COLLECTOR-1''"
  "opt_prop sample_context ''collectorIdentityDigest'' = JStr MCP_CONNECTION_PLAN_V1_DIGEST"
  "opt_prop sample_context ''collectorPrincipalId'' = JText ''c''"
  "opt_prop sample_context ''collectorRevision'' = JStr MCP_CONNECTION_PLAN_V1_DIGEST"
  "opt_prop sample_context ''componentIdentityDigest'' = JStr MCP_CONNECTION_PLAN_V1_DIGEST"
  "opt_prop sample_context ''componentName'' = JText ''peer''"
  "opt_prop sample_context ''componentVersion'' = JText ''1.2.3''"
  "opt_prop sample_context ''dataClassCeilingDigest'' = JStr MCP_CONNECTION_PLAN_V1_DIGEST"
  "opt_prop sample_context ''leaseDigest'' = JStr MCP_CONNECTION_PLAN_V1_DIGEST"
  "opt_prop sample_context ''leaseId'' = JText ''LEASE-1''"
  "opt_prop sample_context ''licenseDigest'' = JStr MCP_CONNECTION_PLAN_V1_DIGEST"
  "opt_prop sample_context ''peerId'' = JText ''peer''"
  "opt_prop sample_context ''peerIdentityDigest'' = JStr MCP_CONNECTION_PLAN_V1_DIGEST"
  "opt_prop sample_context ''principalId'' = JText ''p''"
  "opt_prop sample_context ''protocolDigest'' = JStr MCP_CONNECTION_PLAN_V1_DIGEST"
  "opt_prop sample_context ''provenanceDigest'' = JStr MCP_CONNECTION_PLAN_V1_DIGEST"
  "opt_prop sample_context ''receiptDigest'' = JStr MCP_CONNECTION_PLAN_V1_DIGEST"
  "opt_prop sample_context ''receiptId'' = JText ''RECEIPT-1''"
  "opt_prop sample_context ''runDigest'' = JStr MCP_CONNECTION_PLAN_V1_DIGEST"
  "opt_prop sample_context ''runId'' = JText ''RUN-1''"
  "opt_prop sample_context ''sourceRevision'' = JStr MCP_CONNECTION_PLAN_V1_DIGEST"
  "opt_prop sample_context ''spdxLicenseExpression'' = JText ''MIT''"
  "opt_prop sample_context ''taskDigest'' = JStr MCP_CONNECTION_PLAN_V1_DIGEST"
  "opt_prop sample_context ''taskId'' = JText ''TASK-1''"
  "closed_to CANDIDATE_CONTEXT_KEYS sample_context" "is_record sample_context"
proof -
  show "closed_to CANDIDATE_CONTEXT_KEYS sample_context"
    by (rule closed_in_order) (simp_all add: own_keys_def dict_keys_def sample_context_def CANDIDATE_CONTEXT_KEYS_def sorted2_simps lit_def)
qed (simp_all add: sample_context_def is_record_def)

lemmas sample_part_props = sample_card_props sample_bindings_props sample_capabilities_props sample_collector_props
  sample_component_props sample_class_props sample_peer_props sample_protocol_props

lemma RFC3339_later: "rx_test False RFC3339 (lit ''2026-07-20T07:01:00.000Z'')"
  by (simp add: RFC3339_def rx_test_anchored digits_def hour_rx_def sixty_rx_def c_digit_def rx_steps lit_def
      in_range_def same_unit_def del: rx_seq.simps(2))

lemma calendar_later: "on_calendar (lit ''2026-07-20T07:01:00.000Z'')"
  by (simp add: on_calendar_def number_at_def date_sample lit_def)

lemma hex_pinned: "length MCP_CONNECTION_PLAN_V1_DIGEST = 64" "list_all (hits False hex_class) MCP_CONNECTION_PLAN_V1_DIGEST"
  by (simp_all add: MCP_CONNECTION_PLAN_V1_DIGEST_def hex_class_def lit_def in_range_def)

lemma digest_pinned: "is_digest (JStr MCP_CONNECTION_PLAN_V1_DIGEST)"
  "fits_pattern REVISION (JStr MCP_CONNECTION_PLAN_V1_DIGEST)"
  by (simp_all add: is_digest_def fits_pattern_def is_str_def text_or_empty_def DIGEST_def REVISION_def rx_test_anchored
      rx_steps hex_pinned del: rx_seq.simps(2))

lemma patterns_sample:
  "fits_pattern (prefixed_id ''TASK-'') (JText ''TASK-1'')" "fits_pattern (prefixed_id ''RUN-'') (JText ''RUN-1'')"
  "fits_pattern (prefixed_id ''LEASE-'') (JText ''LEASE-1'')" "fits_pattern (prefixed_id ''RECEIPT-'') (JText ''RECEIPT-1'')"
  "fits_pattern (prefixed_id ''COLLECTOR-'') (JText ''COLLECTOR-1'')" "fits_pattern (prefixed_id ''CEV-'') (JText ''CEV-1'')"
  "fits_pattern plan_id (JText ''peer'')" "fits_pattern SPDX_EXPRESSION (JText ''MIT'')"
  by (simp_all add: fits_pattern_def JText_facts prefixed_id_def plan_id_def SPDX_EXPRESSION_def rx_test_anchored
      rx_steps seq_to_end only_def letters_digits_def lit_def in_range_def same_unit_def del: rx_seq.simps(2))

lemma versions_sample:
  "fits_pattern SEMVER (JText ''1.2.3'')" "fits_pattern PROTOCOL_VERSION (JText ''1.2.3'')"
  "fits_pattern RFC3339 (JText ''2026-07-20T07:00:00.000Z'')" "fits_pattern RFC3339 (JText ''2026-07-20T07:01:00.000Z'')"
  by (simp_all add: fits_pattern_def JText_facts SEMVER_def PROTOCOL_VERSION_def version_core_def rx_test_anchored
      rx_steps seq_to_end c_digit_def digits_def only_def letters_digits_def lit_def in_range_def same_unit_def
      RFC3339_sample [unfolded lit_def, simplified] RFC3339_later [unfolded lit_def, simplified] del: rx_seq.simps(2))

definition sample_input :: jsval where
  "sample_input = JObj
     [(lit ''candidateContext'', sample_context), (lit ''evidence'', sample_evidence), (lit ''plan'', sample_plan)]"

lemma sample_input_props:
  "opt_prop sample_input ''candidateContext'' = sample_context" "opt_prop sample_input ''evidence'' = sample_evidence"
  "opt_prop sample_input ''plan'' = sample_plan" "is_record sample_input"
  "closed_to [''candidateContext'', ''evidence'', ''plan''] sample_input"
proof -
  show "closed_to [''candidateContext'', ''evidence'', ''plan''] sample_input"
    by (rule closed_in_order) (simp_all add: own_keys_def dict_keys_def sample_input_def lit_def)
qed (simp_all add: sample_input_def is_record_def)

lemma digest_sample: "digest_of sample_admission d v = MCP_CONNECTION_PLAN_V1_DIGEST"
  by (simp add: digest_of_def sample_admission_def)

lemma sample_admission_props:
  "ad_plan sample_admission = sample_plan_runtime" "ad_clock sample_admission = 1000"
  "ad_parseDate sample_admission s = Fin (if s = lit ''2026-07-20T07:00:00.000Z'' then 0 else 60000)"
  by (simp_all add: sample_admission_def)

lemma words_sample:
  "text_within n (JText ''peer'') \<longleftrightarrow> 4 \<le> n" "text_within n (JText ''p'') \<longleftrightarrow> 1 \<le> n"
  "text_within n (JText ''c'') \<longleftrightarrow> 1 \<le> n" "text_within n (JText ''1.2.3'') \<longleftrightarrow> 5 \<le> n"
  "text_within n (JText ''handshake'') \<longleftrightarrow> 9 \<le> n"
  by (auto simp: text_within_def not_blank_def JText_def lit_def trim_head is_space_def)

lemma context_accepted: "list_all fst (validateCandidateContext sample_context)"
  by (simp add: validateCandidateContext_def exactKeys_def Let_def sample_context_props digest_pinned patterns_sample
      versions_sample words_sample)

lemma structure_accepted: "list_all fst (validateStructure sample_admission sample_evidence)"
  by (simp add: validateStructure_def peer_demands_def component_demands_def protocol_demands_def capability_demands_def
      collector_demands_def binding_demands_def agent_card_demands_def exactKeys_def Let_def sample_evidence_props
      sample_part_props digest_pinned patterns_sample versions_sample words_sample JText_facts one_of_def TRANSPORTS_def
      has_text_def ROLE_PROTOCOL_def capabilities_ok_def is_arr_def items_def JTexts_def)

lemma origin_accepted:
  "list_all fst (validateEndpointOrigin sample_admission (JText ''https://peer.test'') (JText ''a2a-https''))"
proof -
  have host: "bare_host (lit ''peer.test'') = lit ''peer.test''"
    by (simp add: bare_host_def lit_def to_lower_def lower_unit_def)
  have "\<not> rx_test False IPV4 (lit ''peer.test'')"
    by (simp add: IPV4_def rx_test_anchored Let_def c_digit_def lit_def in_range_def run_length_def)
  moreover have "\<not> ends_with (lit ''.localhost'') (lit ''peer.test'')" "\<not> contains (lit ''peer.test'') (lit '':'')"
    by (simp_all add: ends_with_def lit_def starts_with_def)
  ultimately show ?thesis
    by (simp add: validateEndpointOrigin_def Let_def sample_admission_props sample_plan_runtime_def sample_url_def
        link_part_def JText_facts one_of_def host)
qed

lemma fresh_accepted: "list_all fst (validateFreshness sample_admission sample_evidence JUndef)"
  by (simp add: validateFreshness_def timestamp_demands_def Let_def sample_evidence_props sample_admission_props
      versions_sample JText_facts calendar_sample calendar_later is_now_input_def now_value_def is_finite_def ms_of_def
      CONNECTION_EVIDENCE_MAX_AGE_MS_def CONNECTION_EVIDENCE_MAX_LIFETIME_MS_def
      CONNECTION_EVIDENCE_MAX_FUTURE_SKEW_MS_def)

lemma bindings_accepted:
  "list_all fst (validateSelfBindings sample_admission sample_evidence)"
  "list_all fst (validateCandidateBindings sample_evidence sample_context)"
  by (simp_all add: validateSelfBindings_def self_digest_def partDigest_def evidence_digest_def digest_sample Let_def
      sample_evidence_props sample_part_props validateCandidateBindings_def candidate_pairs_def sample_context_props
      js_or_def MCP_CONNECTION_PLAN_V1_DIGEST_def)

lemma plan_accepted: "list_all fst (validatePlanBindings sample_admission sample_plan sample_evidence)"
proof -
  have plan: "list_all fst (plan_demands sample_plan_runtime sample_plan)"
    using plan_sample by (simp add: validateMcpConnectionPlan_def result_bind_Inr_iff run_demands_Inr)
  have found: "planned_connection sample_plan (JText ''peer'') = Some sample_connection"
    using sample_props(4)
    by (simp add: planned_connection_def sample_plan_def items_def is_set_member_def is_record_def is_arr_def JText_def)
  have members: "fst (has_members v)" if "is_record v" for v using that by (auto simp: has_members_def is_record_def)
  have "list_all fst (connection_bound sample_admission sample_evidence sample_connection)"
    by (simp add: connection_bound_def protocol_bound_def Let_def sample_evidence_props sample_part_props sample_props
        members JText_facts expected_origin_def parse_link_def string_result_def sample_admission_props
        sample_plan_runtime_def sample_url_def link_part_def role_protocol_def ROLE_PROTOCOL_def)
      (simp add: JText_def role_protocol_def ROLE_PROTOCOL_def members sample_protocol_props sample_card_def)
  with plan found members show ?thesis
    by (simp add: validatePlanBindings_def Let_def sample_evidence_props sample_part_props sample_admission_props
        plan_digest_def digest_sample)
qed

lemma preview_accepted:
  "previewConnectionAdmission sample_admission sample_input JUndef =
   Inr (preview_answer sample_admission sample_plan sample_evidence)"
proof -
  have card: "sample_card \<noteq> JNull" by (simp add: sample_card_def)
  have "run_demands (preview_demands sample_admission sample_input JUndef) = Inr ()"
    unfolding run_demands_Inr preview_demands_def evidence_demands_def Let_def sample_input_props
    using context_accepted structure_accepted origin_accepted fresh_accepted bindings_accepted plan_accepted card
    by (simp add: exactKeys_def sample_input_props sample_evidence_props sample_card_props)
  then show ?thesis by (simp add: previewConnectionAdmission_def sample_input_props)
qed

theorem preview_grants_nothing_witness:
  "plan_digest sample_admission sample_plan = MCP_CONNECTION_PLAN_V1_DIGEST \<and>
   (\<exists>c \<in> set (items (opt_prop sample_plan ''connections'')). opt_prop c ''enabled'' = JBool False)"
  using preview_grants_nothing [OF preview_accepted] by (auto simp: sample_input_props)

theorem evidence_fresh_witness:
  "\<exists>now observed. now_value sample_admission JUndef = Fin now \<and>
     ad_parseDate sample_admission (text_or_empty (opt_prop sample_evidence ''observedAt'')) = Fin observed \<and>
     now - 300000 \<le> observed \<and> observed \<le> now"
  using evidence_fresh [OF preview_accepted] by (auto simp: sample_input_props)

theorem endpoint_public_witness:
  "one_of [''stdio'', ''none''] (opt_prop sample_evidence ''transport'') \<or>
   (\<exists>u :: link_url. opt_prop sample_evidence ''endpointOrigin'' = JStr (lu_origin u) \<and> lu_protocol u = lit ''https:'')"
  using endpoint_public [OF preview_accepted] unfolding sample_input_props by blast

theorem evidence_digest_binds_witness:
  "opt_prop sample_evidence ''evidenceDigest'' = JStr (ad_sha256 sample_admission (evidence_content sample_admission sample_evidence))"
  using evidence_digest_binds [OF preview_accepted preview_accepted] by (simp only: sample_input_props)

end
