(* ===== verification/Spec2Isabelle.thy ===== *)
theory Spec2Isabelle
  imports LeadLog Voice Calculator Server Inbox TelegramServer EdgeRouter CommandGateway Workflow A2aSync RouteFaq ControlServer LeadScore Admission
begin

text \<open>
The SIRINX repository runs the web site of a solar company and a set of control services
  around it. This development models the programs that carry its logic: the public web
  application (\<open>apps/public-web\<close>), the edge worker in front of it
  (\<open>infra/cloudflare/main-router\<close>) and the control services that decide what an agent or an
  operator may do (\<open>packages/policy-core\<close>, \<open>services/hermes-api\<close>, \<open>services/dev-control-api\<close>,
  \<open>services/telegram-command-bot\<close>).

  How the parts interact. A browser reaches \<open>www.sirinx.co\<close> through the edge worker
  (\<open>EdgeRouter\<close>), which redirects, proxies, or stores a lead in its own database. The
  application server answers \<open>/api/trpc\<close> (\<open>Routers\<close>, \<open>Api\<close>): a request is given a context
  by its session cookie (\<open>Auth\<close>), a procedure checks its guard and its input schema and calls
  the data access layer (\<open>Db\<close>, \<open>Analytics\<close>, over the tables of \<open>Schema\<close>); a lead that
  meets no database connection goes to a file (\<open>LeadQueue\<close>, \<open>LeadLog\<close>). Chat messages
  are analysed locally (\<open>Chatbot\<close>), sent to the language model (\<open>Llm\<close>) and its reply is
  screened; files, maps, images, notifications and transcriptions go through the same upstream
  service (\<open>Forge\<close>, \<open>Voice\<close>), configured by \<open>Env\<close> and reported by \<open>Health\<close>. Every
  other path is answered with a built page (\<open>Server\<close>) after the metadata of its route has been
  put in (\<open>Seo\<close>, \<open>Pages\<close>); the same routines write the static site (\<open>Build\<close>) from the
  province tables (\<open>Provinces\<close>), the articles (\<open>Longform\<close>, \<open>Html\<close>) and the content
  registry (\<open>Content\<close>). The assessment page computes in the browser (\<open>Calculator\<close>). On
  the control side a proposed action is decided by \<open>Policy\<close>; \<open>Inbox\<close> builds its HTTP answer
  on it, \<open>CommandGateway\<close> parses operator commands and never executes one, \<open>Workflow\<close>
  holds the state machine of a content goal, \<open>A2aSync\<close> plans messages between agents and hands
  alerts to the Telegram sender after reading its gate once itself, \<open>ControlServer\<close> answers
  the control API over the approval queue and the audit log of \<open>ControlQueue\<close>, \<open>LeadScore\<close>
  scores a lead and chooses who follows it up, \<open>Admission\<close> previews evidence on a connection of the
  plan that \<open>McpPlan\<close> validates, over digests of the text of \<open>Canonical\<close>, and a Telegram message leaves the machine only
  through \<open>TelegramServer\<close>, whose idempotency store (\<open>TelegramStore\<close>) remembers what was
  sent and whose sender (\<open>TelegramSender\<close>) asks the durable gate (\<open>TelegramGate\<close>) before
  every message.

  Theories and sources, paths below \<open>apps/public-web\<close> unless they start with another top-level
  directory:
  \<^item> \<open>Prelude\<close>: theorem collections and lemmas on lists, options and maps.
    \<open>JsNumber\<close>, \<open>JsString\<close>, \<open>JsMap\<close>, \<open>JsDate\<close>, \<open>JsValue\<close>, \<open>JsConvert\<close>,
    \<open>Regex\<close>, \<open>Rx\<close>: the part of the language and its standard library the code uses, that
    is numbers with NaN and infinities, strings of 16-bit units, insertion-ordered maps, dates,
    dynamic values with inherited members, conversion to strings, and regular expressions with
    backtracking order (\<open>RxSteps\<close> evaluates them on a text).
  \<^item> \<open>Env\<close>: \<open>server/_core/env.ts\<close>, \<open>shared/const.ts\<close>, \<open>shared/_core/errors.ts\<close>.
    \<open>Schema\<close>: \<open>drizzle/schema.ts\<close>. \<open>World\<close>: the state every handler threads, which is the
    database, the log of requests sent, the files and the lazy connection of \<open>server/db.ts\<close>.
  \<^item> \<open>Db\<close>, \<open>Analytics\<close>: \<open>server/db.ts\<close>, one operation per exported function.
    \<open>LeadQueue\<close>, \<open>LeadLog\<close>: \<open>server/_core/localLeadQueue.ts\<close> and its refinement.
  \<^item> \<open>Auth\<close>: \<open>server/_core\<close>, files \<open>cookies.ts\<close>, \<open>sdk.ts\<close>, \<open>oauth.ts\<close>,
    \<open>context.ts\<close> and \<open>trpc.ts\<close>. \<open>Health\<close>: \<open>integration-health.ts\<close>. \<open>Forge\<close>:
    \<open>server/storage.ts\<close>, \<open>map.ts\<close>, \<open>dataApi.ts\<close>, \<open>imageGeneration.ts\<close>,
    \<open>notification.ts\<close>. \<open>Llm\<close>: \<open>llm.ts\<close>. \<open>Voice\<close>: \<open>voiceTranscription.ts\<close>.
  \<^item> \<open>Chatbot\<close>: \<open>shared/chatbotIntelligence.ts\<close> and \<open>chatbotFallback.ts\<close>.
  \<^item> \<open>Routers\<close>, \<open>Api\<close>: \<open>server/routers.ts\<close>, \<open>systemRouter.ts\<close>, and sequences of
    requests. \<open>Server\<close>: \<open>server/_core/index.ts\<close>, \<open>vite.ts\<close>.
  \<^item> \<open>Provinces\<close>: \<open>shared/thaiProvinces.ts\<close>, \<open>provinceEnergyData.ts\<close>,
    \<open>provinceEnergyStats.ts\<close>. \<open>Longform\<close>, \<open>Html\<close>: the \<open>shared/provinceLongform\<close> files
    and \<open>provinceSolarMonthly.ts\<close>. \<open>Content\<close>: \<open>siteContentRegistry.ts\<close>,
    \<open>publicProjectContent.ts\<close>, the two FAQ files and \<open>provinceHowTo.ts\<close>.
  \<^item> \<open>Seo\<close>, \<open>Pages\<close>: \<open>server/ogTags.ts\<close>, \<open>client/src/lib/seo.ts\<close>, \<open>blogData.ts\<close>,
    \<open>shared/seoGraph.ts\<close>, \<open>staticRouteShell.ts\<close>. \<open>RouteFaq\<close>:
    \<open>client/src/lib/routeSeoContent.ts\<close>. \<open>Build\<close>: \<open>server/staticSeoBuild.ts\<close>.
  \<^item> \<open>Calculator\<close>: the tables, \<open>calculateSolar\<close>, \<open>calculateIRR\<close> and the wizard of
    \<open>client/src/pages/SolarAssessment.tsx\<close>.
  \<^item> \<open>Policy\<close>: \<open>packages/policy-core/src/index.mjs\<close>. \<open>Inbox\<close>, \<open>CommandGateway\<close>:
    \<open>services/hermes-api/src\<close>, files \<open>inbox.mjs\<close> and \<open>adaptive-command-gateway.mjs\<close>.
    \<open>Workflow\<close>, \<open>A2aSync\<close>: \<open>services/dev-control-api/src\<close>, files
    \<open>thaimart-k-workflow-engine.mjs\<close> and \<open>a2a-sync.mjs\<close>. \<open>ControlQueue\<close>: the files
    \<open>switches.mjs\<close>, \<open>approval-queue.mjs\<close>, \<open>audit-events.mjs\<close> and \<open>gates.mjs\<close> beside them.
    \<open>LeadScore\<close>: \<open>lead-qualification.mjs\<close> there. \<open>McpPlan\<close>: \<open>mcp-connection-plan.mjs\<close>.
    \<open>Canonical\<close>, \<open>Admission\<close>: \<open>connection-admission.mjs\<close>. \<open>ControlServer\<close>:
    \<open>services/dev-control-api/server.mjs\<close>.
  \<^item> \<open>TelegramGate\<close>, \<open>TelegramSender\<close>, \<open>TelegramStore\<close>, \<open>TelegramServer\<close>:
    \<open>services/telegram-command-bot/src\<close>, files \<open>config.mjs\<close>, \<open>control-gate.mjs\<close>,
    \<open>sender.mjs\<close>, \<open>control-auth.mjs\<close> and \<open>index.mjs\<close>.
  \<^item> \<open>EdgeRouter\<close>: \<open>infra/cloudflare/main-router/src/worker.js\<close>.

  How state and errors are rendered. A handler is a function from the world to a result and a
  world; \<open>Inl\<close> is a thrown error and \<open>Inr\<close> a returned value, and the world a failed handler
  leaves is kept. Values that arrive from outside are dynamic (\<open>jsval\<close>), and reading a
  property of them finds inherited members where the code indexes a plain object. Records stand
  for objects whose shape the code fixes. A loop over a bounded range or a list is structural
  recursion, and so is matching a regular expression, which lists the ends of all matches in the
  order a backtracking engine tries them; the replacement loop of \<open>Rx\<close> terminates because a
  match that consumes nothing moves on by one unit. No definition is given fuel: the search for
  a port is bounded by the twenty ports its source probes, and the loops of the calculator by its
  twenty-five years and the hundred iterations of the rate of return.

  What the lemmas show. Each component theory first proves the behaviour of its operations on
  every branch, then its invariants, then what a client may rely on. The locales state the
  contracts used more than once: \<open>world_preorder\<close> (what every procedure keeps of the world),
  \<open>procedure_guard\<close> (a middleware that rejects leaves no trace), \<open>database_backed\<close> (an
  operation without a connection), \<open>guarded_service\<close> (a client that refuses before it sends),
  \<open>tally\<close> (a counting loop) and \<open>escaper\<close> (a character-wise encoding that decodes). Each is
  interpreted on the operations of the model. \<open>Api\<close> and \<open>LeadLog\<close> prove the invariants of
  arbitrary sequences of requests, \<open>TelegramStore\<close> those of interleaved executions of the
  same send, \<open>ControlServer\<close> those of the approval queue and the audit log, and
  \<open>Calculator\<close> those of the wizard. This theory holds the properties that span
  the components.

  Parameters and assumptions. Code outside the repository is an argument of the definitions that
  use it: the database driver and its answers, the HTTP exchange, the file system, the clock and
  random identifiers, the token and hash libraries, the validation library beyond the schemas
  written here, the cookie, JSON, URL and date parsers, the number and date formatters, the port
  probe, the edge database and the upstream of the worker. A theorem that relies on documented
  behaviour of such an argument names it as a hypothesis and its witness instantiates it.
  Numbers are exact rationals where the code has finite doubles: rounding is not modelled, so
  the statements on money, yield and energy are about the exact formulas, and an amount so large
  that the code overflows to infinity stays finite here: the calculator is claimed for its
  formulas and never for the finiteness of what it shows. A request reads the
  clock once unless the code compares two readings. \<open>String(value)\<close> of an object that carries
  its own \<open>toString\<close> is not modelled in the control services; a parsed JSON body cannot hold a
  function. A request to the gate is its address, method, headers and body; the options
  \<open>redirect\<close>, \<open>cache\<close> and \<open>signal\<close> belong to the exchange, which is an argument. The routes of
  the control server that only report are one argument, a function of the request alone.
  Letter case is mapped by tables for the Latin, Greek, Cyrillic and full-width letters they
  list and left alone elsewhere.

  Not modelled: React pages, components and translations (rendering and browser state); the
  trigonometry of \<open>shared/sunMath.ts\<close> and \<open>solarGeometry.ts\<close> (floating point throughout);
  the prose of the articles and of the generated articles (the renderer takes the tables as an
  argument, so its theorems hold of every text); Express wiring, listening sockets, the
  development server and command-line entry points; tables of images and of animation
  constants; the remaining Node services, scripts, Rust crates and static sites of the
  repository, listed in the manifest.
\<close>

section \<open>Properties across components\<close>

text \<open>
  C5. A procedure outside the public list runs only for an administrator with a session: if a
  request to it succeeds, its cookie verified to a complete session, authentication loaded a
  user whose role is \<open>admin\<close>, and the procedure ran in the world authentication left.
\<close>

theorem admin_request_authenticated:
  fixes rt :: "'d runtime"
  assumes "path \<notin> set public_paths" and "api_request rt req path raw w = (Inr v, w')"
  shows "\<exists>s u w1. verifySession rt (session_cookie rt req) = Some s \<and> session_complete s \<and>
    authenticateRequest rt req w = (Inr u, w1) \<and> getp u (lit ''role'') = JStr (lit ''admin'') \<and>
    call rt path \<lparr>tc_req = req, tc_user = Some u\<rparr> raw w1 = (Inr v, w')"
proof -
  obtain ctx w1 where 1: "createContext rt req w = (Inr ctx, w1)" and 2: "call rt path ctx raw w1 = (Inr v, w')"
    using assms(2) by (auto simp: api_request_def io_bind_Inr)
  have "is_admin ctx"
    using 2 call_needs_admin [OF assms(1)] by (metis Inl_Inr_False prod.inject)
  then obtain u where u: "tc_user ctx = Some u" "getp u (lit ''role'') = JStr (lit ''admin'')"
    by (auto simp: is_admin_def split: option.splits)
  then have auth: "authenticateRequest rt req w = (Inr u, w1)" and ctx: "ctx = \<lparr>tc_req = req, tc_user = Some u\<rparr>"
    using 1 by (auto simp: createContext_def io_defs split: prod.splits sum.splits)
  obtain s where s: "verifySession rt (session_cookie rt req) = Some s"
    using auth authenticateRequest_no_session [of rt req w] by (cases "verifySession rt (session_cookie rt req)") auto
  with auth u(2) 2 ctx verifySession_complete [OF s] show ?thesis by blast
qed

theorem admin_request_authenticated_witness:
  "\<exists>s u w1. verifySession admin_runtime (session_cookie admin_runtime admin_request) = Some s \<and>
    session_complete s \<and>
    authenticateRequest admin_runtime admin_request admin_world = (Inr u, w1) \<and>
    getp u (lit ''role'') = JStr (lit ''admin'')"
proof -
  obtain v w' where "api_request admin_runtime admin_request ''lead.list'' JUndef admin_world = (Inr v, w')"
    using admin_request_runs by blast
  from admin_request_authenticated [OF _ this] show ?thesis
    by (auto simp: public_paths_def)
qed

text \<open>
  C1. Callers without a session, in any number of requests to any procedure, only ever read
  posts and projects and add rows to \<open>leads\<close>, \<open>contactSubmissions\<close>, \<open>pageViews\<close> and \<open>events\<close>: no
  row is updated or deleted and no user or lead is read. The log of requests sent only grows and
  no file loses a byte.
\<close>

theorem visitor_run_safe:
  assumes "visitor_run dr w w'"
  shows "(\<exists>ss. w_db w' = run_all dr ss (w_db w) \<and>
      (\<forall>s \<in> set ss. (\<exists>t cs ord limit offset. s = SSelect t cs ord limit offset \<and>
                        t \<in> {lit ''blogPosts'', lit ''projects''}) \<or>
                     (\<exists>t row. s = SInsert t row \<and>
                        t \<in> {lit ''leads'', lit ''contactSubmissions'', lit ''pageViews'', lit ''events''}))) \<and>
    prefix (w_sent w) (w_sent w') \<and>
    (\<forall>path. prefix (file_text w path) (file_text w' path))"
proof (intro conjI)
  obtain ss where ss: "list_all visitor_stmt ss" "w_db w' = run_all dr ss (w_db w)"
    using visitor_run_effect [OF assms] by (auto simp: visitor_effect_def)
  then show "\<exists>ss. w_db w' = run_all dr ss (w_db w) \<and>
      (\<forall>s \<in> set ss. (\<exists>t cs ord limit offset. s = SSelect t cs ord limit offset \<and>
                        t \<in> {lit ''blogPosts'', lit ''projects''}) \<or>
                     (\<exists>t row. s = SInsert t row \<and>
                        t \<in> {lit ''leads'', lit ''contactSubmissions'', lit ''pageViews'', lit ''events''}))"
    using visitor_stmt_cases by (intro exI [of _ ss] conjI ballI) (simp_all add: list_all_iff)
qed (use visitor_run_effect [OF assms] in \<open>simp_all add: visitor_effect_def\<close>)

theorem visitor_run_safe_witness:
  "\<exists>r w'. api_request admin_runtime sample_request ''blog.list'' JUndef admin_world = (r, w') \<and>
    prefix (w_sent admin_world) (w_sent w')"
proof -
  obtain r w' where 1: "api_request admin_runtime sample_request ''blog.list'' JUndef admin_world = (r, w')"
    by fastforce
  have "visitor_run memory_driver admin_world w'"
    by (rule visitor_run.serve [OF visitor_run.start _ _ 1])
       (simp_all add: admin_runtime_def sample_runtime_def anonymous_def session_cookie_def
         parseCookies_def sample_request_def verifySession_def)
  with visitor_run_safe [OF this] 1 show ?thesis by blast
qed

end
